(* ===== verification/Go_Unicode.thy ===== *)
theory Go_Unicode
  imports Main "HOL-Library.Char_ord" "HOL-Library.Sublist"
begin

text \<open>
  The Unicode part of package \<open>strings\<close> that the operator applies to text a user writes freely:
  UTF-8 as \<open>unicode/utf8\<close> decodes and encodes it, \<open>strings.ToLower\<close> and \<open>strings.TrimSpace\<close>.
  Text is a byte string; a rune is an integer. The letter table is the one of
  \<open>unicode.CaseRanges\<close> read for lower case, as ranges \<open>(first, last, stride, delta)\<close>.
\<close>

section \<open>UTF-8\<close>

definition RuneError :: int where
  "RuneError = 65533"

abbreviation byteOf :: "char \<Rightarrow> int" where
  "byteOf c \<equiv> of_char c"

text \<open>The length of the sequence a first byte opens, and the range its second byte must be in.\<close>

definition firstByte :: "int \<Rightarrow> (nat \<times> int \<times> int) option" where
  "firstByte b =
     (if 0xC2 \<le> b \<and> b \<le> 0xDF then Some (2, 0x80, 0xBF)
      else if b = 0xE0 then Some (3, 0xA0, 0xBF)
      else if b = 0xED then Some (3, 0x80, 0x9F)
      else if 0xE1 \<le> b \<and> b \<le> 0xEF then Some (3, 0x80, 0xBF)
      else if b = 0xF0 then Some (4, 0x90, 0xBF)
      else if 0xF1 \<le> b \<and> b \<le> 0xF3 then Some (4, 0x80, 0xBF)
      else if b = 0xF4 then Some (4, 0x80, 0x8F) else None)"

definition isContinuation :: "int \<Rightarrow> bool" where
  "isContinuation b \<longleftrightarrow> 0x80 \<le> b \<and> b \<le> 0xBF"

text \<open>
  \<open>utf8.DecodeRuneInString\<close> on non-empty text: the rune of the first sequence and its width; a
  byte that starts no valid sequence is \<open>RuneError\<close> of width one.
\<close>

definition decodeRune :: "char \<Rightarrow> string \<Rightarrow> int \<times> nat" where
  "decodeRune c s =
     (let b = byteOf c in
      if b < 0x80 then (b, 1)
      else case firstByte b of
             None \<Rightarrow> (RuneError, 1)
           | Some (len, lo, hi) \<Rightarrow>
               (case map byteOf (take (len - 1) s) of
                  [] \<Rightarrow> (RuneError, 1)
                | b1 # bs \<Rightarrow>
                    if length bs + 2 < len \<or> b1 < lo \<or> hi < b1 \<or> \<not> list_all isContinuation bs
                    then (RuneError, 1)
                    else (foldl (\<lambda>r x. r * 64 + (x - 0x80)) (b mod 2 ^ (7 - len)) (b1 # bs), len)))"

text \<open>\<open>utf8.AppendRune\<close>: surrogates and runes beyond Unicode are written as \<open>RuneError\<close>.\<close>

definition encodeRune :: "int \<Rightarrow> string" where
  "encodeRune r0 =
     (let r = (if 0x10FFFF < r0 \<or> (0xD800 \<le> r0 \<and> r0 \<le> 0xDFFF) then RuneError else r0) in
      map char_of
        (if r < 0x80 then [r]
         else if r < 0x800 then [0xC0 + r div 64, 0x80 + r mod 64]
         else if r < 0x10000 then [0xE0 + r div 4096, 0x80 + r div 64 mod 64, 0x80 + r mod 64]
         else [0xF0 + r div 262144, 0x80 + r div 4096 mod 64, 0x80 + r div 64 mod 64, 0x80 + r mod 64]))"

text \<open>\<open>strings.Map\<close>: rune by rune, an invalid byte coming out as \<open>RuneError\<close>.\<close>

function mapRunes :: "(int \<Rightarrow> int) \<Rightarrow> string \<Rightarrow> string" where
  "mapRunes f [] = []"
| "mapRunes f (c # s) =
     (case decodeRune c s of (r, width) \<Rightarrow> encodeRune (f r) @ mapRunes f (drop (width - 1) s))"
  by pat_completeness auto
termination
  by (relation "measure (\<lambda>(f, s). length s)") auto

section \<open>Letter case\<close>

definition toLowerChar :: "char \<Rightarrow> char" where
  "toLowerChar c = (let n = (of_char c :: nat) in if 65 \<le> n \<and> n \<le> 90 then char_of (n + 32) else c)"

definition lowerRanges :: "(int \<times> int \<times> int \<times> int) list" where
  "lowerRanges = [
    (192, 214, 1, 32), (216, 222, 1, 32), (256, 302, 2, 1), (304, 304, 1, -199), (306, 310, 2, 1), (313, 327, 2, 1),
    (330, 374, 2, 1), (376, 376, 1, -121), (377, 381, 2, 1), (385, 385, 1, 210), (386, 388, 2, 1),
    (390, 390, 1, 206), (391, 391, 1, 1), (393, 394, 1, 205), (395, 395, 1, 1), (398, 398, 1, 79),
    (399, 399, 1, 202), (400, 400, 1, 203), (401, 401, 1, 1), (403, 403, 1, 205), (404, 404, 1, 207),
    (406, 406, 1, 211), (407, 407, 1, 209), (408, 408, 1, 1), (412, 412, 1, 211), (413, 413, 1, 213),
    (415, 415, 1, 214), (416, 420, 2, 1), (422, 422, 1, 218), (423, 423, 1, 1), (425, 425, 1, 218), (428, 428, 1, 1),
    (430, 430, 1, 218), (431, 431, 1, 1), (433, 434, 1, 217), (435, 437, 2, 1), (439, 439, 1, 219), (440, 440, 1, 1),
    (444, 444, 1, 1), (452, 452, 1, 2), (453, 453, 1, 1), (455, 455, 1, 2), (456, 456, 1, 1), (458, 458, 1, 2),
    (459, 475, 2, 1), (478, 494, 2, 1), (497, 497, 1, 2), (498, 500, 2, 1), (502, 502, 1, -97), (503, 503, 1, -56),
    (504, 542, 2, 1), (544, 544, 1, -130), (546, 562, 2, 1), (570, 570, 1, 10795), (571, 571, 1, 1),
    (573, 573, 1, -163), (574, 574, 1, 10792), (577, 577, 1, 1), (579, 579, 1, -195), (580, 580, 1, 69),
    (581, 581, 1, 71), (582, 590, 2, 1), (880, 882, 2, 1), (886, 886, 1, 1), (895, 895, 1, 116), (902, 902, 1, 38),
    (904, 906, 1, 37), (908, 908, 1, 64), (910, 911, 1, 63), (913, 929, 1, 32), (931, 939, 1, 32), (975, 975, 1, 8),
    (984, 1006, 2, 1), (1012, 1012, 1, -60), (1015, 1015, 1, 1), (1017, 1017, 1, -7), (1018, 1018, 1, 1),
    (1021, 1023, 1, -130), (1024, 1039, 1, 80), (1040, 1071, 1, 32), (1120, 1152, 2, 1), (1162, 1214, 2, 1),
    (1216, 1216, 1, 15), (1217, 1229, 2, 1), (1232, 1326, 2, 1), (1329, 1366, 1, 48), (4256, 4293, 1, 7264),
    (4295, 4295, 1, 7264), (4301, 4301, 1, 7264), (5024, 5103, 1, 38864), (5104, 5109, 1, 8), (7312, 7354, 1, -3008),
    (7357, 7359, 1, -3008), (7680, 7828, 2, 1), (7838, 7838, 1, -7615), (7840, 7934, 2, 1), (7944, 7951, 1, -8),
    (7960, 7965, 1, -8), (7976, 7983, 1, -8), (7992, 7999, 1, -8), (8008, 8013, 1, -8), (8025, 8031, 2, -8),
    (8040, 8047, 1, -8), (8072, 8079, 1, -8), (8088, 8095, 1, -8), (8104, 8111, 1, -8), (8120, 8121, 1, -8),
    (8122, 8123, 1, -74), (8124, 8124, 1, -9), (8136, 8139, 1, -86), (8140, 8140, 1, -9), (8152, 8153, 1, -8),
    (8154, 8155, 1, -100), (8168, 8169, 1, -8), (8170, 8171, 1, -112), (8172, 8172, 1, -7), (8184, 8185, 1, -128),
    (8186, 8187, 1, -126), (8188, 8188, 1, -9), (8486, 8486, 1, -7517), (8490, 8490, 1, -8383),
    (8491, 8491, 1, -8262), (8498, 8498, 1, 28), (8544, 8559, 1, 16), (8579, 8579, 1, 1), (9398, 9423, 1, 26),
    (11264, 11311, 1, 48), (11360, 11360, 1, 1), (11362, 11362, 1, -10743), (11363, 11363, 1, -3814),
    (11364, 11364, 1, -10727), (11367, 11371, 2, 1), (11373, 11373, 1, -10780), (11374, 11374, 1, -10749),
    (11375, 11375, 1, -10783), (11376, 11376, 1, -10782), (11378, 11378, 1, 1), (11381, 11381, 1, 1),
    (11390, 11391, 1, -10815), (11392, 11490, 2, 1), (11499, 11501, 2, 1), (11506, 11506, 1, 1),
    (42560, 42604, 2, 1), (42624, 42650, 2, 1), (42786, 42798, 2, 1), (42802, 42862, 2, 1), (42873, 42875, 2, 1),
    (42877, 42877, 1, -35332), (42878, 42886, 2, 1), (42891, 42891, 1, 1), (42893, 42893, 1, -42280),
    (42896, 42898, 2, 1), (42902, 42920, 2, 1), (42922, 42922, 1, -42308), (42923, 42923, 1, -42319),
    (42924, 42924, 1, -42315), (42925, 42925, 1, -42305), (42926, 42926, 1, -42308), (42928, 42928, 1, -42258),
    (42929, 42929, 1, -42282), (42930, 42930, 1, -42261), (42931, 42931, 1, 928), (42932, 42946, 2, 1),
    (42948, 42948, 1, -48), (42949, 42949, 1, -42307), (42950, 42950, 1, -35384), (42951, 42953, 2, 1),
    (42960, 42960, 1, 1), (42966, 42968, 2, 1), (42997, 42997, 1, 1), (65313, 65338, 1, 32), (66560, 66599, 1, 40),
    (66736, 66771, 1, 40), (66928, 66938, 1, 39), (66940, 66954, 1, 39), (66956, 66962, 1, 39),
    (66964, 66965, 1, 39), (68736, 68786, 1, 64), (71840, 71871, 1, 32), (93760, 93791, 1, 32),
    (125184, 125217, 1, 34)]
"

text \<open>\<open>unicode.ToLower\<close>.\<close>

definition lowerRune :: "int \<Rightarrow> int" where
  "lowerRune r =
     (if r < 0x80 then (if 65 \<le> r \<and> r \<le> 90 then r + 32 else r)
      else case find (\<lambda>(lo, hi, stride, delta). lo \<le> r \<and> r \<le> hi \<and> (r - lo) mod stride = 0) lowerRanges of
             None \<Rightarrow> r
           | Some (lo, hi, stride, delta) \<Rightarrow> r + delta)"

text \<open>\<open>strings.ToLower\<close>: ASCII text byte by byte, other text rune by rune.\<close>

definition isASCII :: "char \<Rightarrow> bool" where
  "isASCII c \<longleftrightarrow> byteOf c < 0x80"

definition stringsToLower :: "string \<Rightarrow> string" where
  "stringsToLower s = (if list_all isASCII s then map toLowerChar s else mapRunes lowerRune s)"

lemma stringsToLower_ascii: "list_all isASCII s \<Longrightarrow> stringsToLower s = map toLowerChar s"
  by (simp add: stringsToLower_def)

lemma encodeRune_not_empty [simp]: "encodeRune r \<noteq> []"
  by (simp add: encodeRune_def Let_def)

lemma stringsToLower_empty [simp]: "stringsToLower s = [] \<longleftrightarrow> s = []"
proof (cases s)
  case (Cons c r)
  then show ?thesis by (cases "decodeRune c r") (simp add: stringsToLower_def)
qed (simp add: stringsToLower_def)

text \<open>Latin, Greek and Cyrillic capitals, the dotted I, the Kelvin sign, and a byte that is no rune.\<close>

lemma stringsToLower_examples:
  "stringsToLower (concat (map encodeRune [0xC4, 0x42, 0x3A3, 0x416])) = concat (map encodeRune [0xE4, 0x62, 0x3C3, 0x436])"
  "stringsToLower (encodeRune 0x130 @ encodeRune 0x212A) = ''ik''"
  "stringsToLower [CHR 0xC4, CHR ''B''] = encodeRune RuneError @ ''b''"
  by code_simp+

section \<open>White space\<close>

text \<open>
  \<open>unicode.IsSpace\<close>, as the encodings of the white space runes. No encoding is part of another,
  so that trimming encodings at either end is trimming runes.
\<close>

definition spaceRunes :: "int list" where
  "spaceRunes = [9, 10, 11, 12, 13, 32, 0x85, 0xA0, 0x1680, 0x2000, 0x2001, 0x2002, 0x2003, 0x2004, 0x2005,
    0x2006, 0x2007, 0x2008, 0x2009, 0x200A, 0x2028, 0x2029, 0x202F, 0x205F, 0x3000]"

definition spaceEncodings :: "string list" where
  "spaceEncodings = map encodeRune spaceRunes"

function dropEncodings :: "string list \<Rightarrow> string \<Rightarrow> string" where
  "dropEncodings es s =
     (case find (\<lambda>e. e \<noteq> [] \<and> prefix e s) es of
        None \<Rightarrow> s
      | Some e \<Rightarrow> dropEncodings es (drop (length e) s))"
  by pat_completeness auto
termination
  by (relation "measure (\<lambda>(es, s). length s)") (auto simp: find_Some_iff prefix_def)

declare dropEncodings.simps [simp del]

definition trimSpace :: "string \<Rightarrow> string" where
  "trimSpace s = rev (dropEncodings (map rev spaceEncodings) (rev (dropEncodings spaceEncodings s)))"

lemma trimSpace_examples:
  "trimSpace (encodeRune 0xA0 @ '' a b '' @ encodeRune 0x3000 @ [CHR 0x0A]) = ''a b''"
  "trimSpace (encodeRune 0x2003 @ encodeRune 0x2003) = []"
  "trimSpace (encodeRune 0x200B) = encodeRune 0x200B"
  by code_simp+

end
