(* ===== verification/Go_Prelude.thy ===== *)
theory Go_Prelude
  imports Go_Unicode "HOL-Library.AList" "HOL-Library.Char_ord" "HOL-Library.List_Lexorder"
    "HOL-Library.Sublist" "HOL-Library.State_Monad"
begin

text \<open>
  The part of the Go language and of its standard library that the operator's sources use,
  and the proof tools the other theories share.

  \<^item> Text is a byte string (\<open>string\<close>). \<open>toLower\<close>, \<open>toUpper\<close>, \<open>equalFold\<close> and \<open>fields\<close> are the case and
    space functions of package \<open>strings\<close> on ASCII text: they are applied to constants, to privilege
    keywords (enumerated by the CRD schemas), to parameter names (checked against an ASCII pattern
    first) and to lines of \<open>pg_hba\<close>. Where the text is free, in the values of list settings and in what
    is trimmed, the Unicode functions of Go_Unicode are used.
  \<^item> An \<open>error\<close> value is \<open>nil\<close> (\<open>None\<close>) or a tree: a PostgreSQL driver error with its SQLSTATE,
    a formatted error (the format string and its arguments are kept apart), a wrapped error, a
    condition error with a reason, or the result of \<open>errors.Join\<close>.
  \<^item> A Go map with string keys is an association list read through \<^const>\<open>map_of\<close>; iteration in
    sorted key order is \<open>mapKeys\<close>.
  \<^item> Code with side effects is a state transformer over an arbitrary world type \<open>'s\<close>
    (HOL-Library.State_Monad); its properties are stated with \<open>wp\<close>, the weakest precondition of
    one run, whose equations are collected in \<open>wp_simps\<close>.
\<close>

named_theorems wp_simps \<open>equations that push a weakest precondition through a program\<close>
named_theorems str_simps \<open>equations of the string functions\<close>
named_theorems map_simps \<open>equations that read a Go map through map_of\<close>

section \<open>Package strings\<close>

abbreviation dquote :: char where "dquote \<equiv> CHR 0x22"
abbreviation squote :: char where "squote \<equiv> CHR 0x27"
abbreviation backslash :: char where "backslash \<equiv> CHR 0x5C"

definition hasPrefix :: "string \<Rightarrow> string \<Rightarrow> bool" where
  "hasPrefix s p \<longleftrightarrow> take (length p) s = p"

definition cutPrefix :: "string \<Rightarrow> string \<Rightarrow> string option" where
  "cutPrefix s p = (if hasPrefix s p then Some (drop (length p) s) else None)"

definition toUpperChar :: "char \<Rightarrow> char" where
  "toUpperChar c = (let n = (of_char c :: nat) in if 97 \<le> n \<and> n \<le> 122 then char_of (n - 32) else c)"

definition toLower :: "string \<Rightarrow> string" where
  "toLower s = map toLowerChar s"

definition toUpper :: "string \<Rightarrow> string" where
  "toUpper s = map toUpperChar s"

definition equalFold :: "string \<Rightarrow> string \<Rightarrow> bool" where
  "equalFold a b \<longleftrightarrow> toLower a = toLower b"

text \<open>The separators of \<open>strings.Fields\<close>: tab to carriage return, space.\<close>

definition isSpaceChar :: "char \<Rightarrow> bool" where
  "isSpaceChar c \<longleftrightarrow> (let n = (of_char c :: nat) in (9 \<le> n \<and> n \<le> 13) \<or> n = 32)"

fun splitBy :: "(char \<Rightarrow> bool) \<Rightarrow> string \<Rightarrow> string list" where
  "splitBy p [] = [[]]"
| "splitBy p (c # cs) =
     (if p c then [] # splitBy p cs
      else (case splitBy p cs of [] \<Rightarrow> [[c]] | w # ws \<Rightarrow> (c # w) # ws))"

definition fields :: "string \<Rightarrow> string list" where
  "fields s = filter (\<lambda>w. w \<noteq> []) (splitBy isSpaceChar s)"

definition splitStr :: "string \<Rightarrow> char \<Rightarrow> string list" where
  "splitStr s sep = splitBy (\<lambda>c. c = sep) s"

fun joinStr :: "string list \<Rightarrow> string \<Rightarrow> string" where
  "joinStr [] sep = []"
| "joinStr [x] sep = x"
| "joinStr (x # y # ys) sep = x @ sep @ joinStr (y # ys) sep"

text \<open>\<open>strings.Cut\<close> with a one-byte separator: the text before it, after it, and whether it occurs.\<close>

definition cutAt :: "string \<Rightarrow> char \<Rightarrow> string \<times> string \<times> bool" where
  "cutAt s sep =
     (if sep \<in> set s
      then (takeWhile (\<lambda>c. c \<noteq> sep) s, drop (Suc (length (takeWhile (\<lambda>c. c \<noteq> sep) s))) s, True)
      else (s, [], False))"

text \<open>\<open>strings.ReplaceAll\<close> of a one-byte string.\<close>

definition replaceChar :: "char \<Rightarrow> string \<Rightarrow> string \<Rightarrow> string" where
  "replaceChar old new s = concat (map (\<lambda>c. if c = old then new else [c]) s)"

section \<open>Packages strconv and fmt\<close>

function natDigits :: "nat \<Rightarrow> string" where
  "natDigits n = (if n < 10 then [char_of (48 + n)] else natDigits (n div 10) @ [char_of (48 + n mod 10)])"
  by pat_completeness auto
termination
  by (relation "measure (\<lambda>n. n)") auto

declare natDigits.simps [simp del]

definition formatInt :: "int \<Rightarrow> string" where
  "formatInt i = (if i < 0 then CHR ''-'' # natDigits (nat (- i)) else natDigits (nat i))"

text \<open>\<open>strconv.Atoi\<close>: an optional sign and decimal digits, within the range of a 64-bit integer.\<close>

definition digitVal :: "char \<Rightarrow> int option" where
  "digitVal c = (let n = (of_char c :: int) in if 48 \<le> n \<and> n \<le> 57 then Some (n - 48) else None)"

fun atoiDigits :: "int \<Rightarrow> string \<Rightarrow> int option" where
  "atoiDigits acc [] = Some acc"
| "atoiDigits acc (c # s) = (case digitVal c of None \<Rightarrow> None | Some d \<Rightarrow> atoiDigits (10 * acc + d) s)"

definition atoi :: "string \<Rightarrow> int option" where
  "atoi s =
     (let neg = hasPrefix s ''-''; body = (if neg \<or> hasPrefix s ''+'' then drop 1 s else s)
      in if body = [] then None
         else case atoiDigits 0 body of
                None \<Rightarrow> None
              | Some n \<Rightarrow>
                  (let i = (if neg then - n else n)
                   in if - (2 ^ 63) \<le> i \<and> i < 2 ^ 63 then Some i else None))"

definition hexDigit :: "nat \<Rightarrow> char" where
  "hexDigit n = (if n < 10 then char_of (48 + n) else char_of (87 + n))"

text \<open>
  \<open>strconv.Quote\<close> byte by byte: the quote and the backslash are escaped, the seven control
  characters with a letter escape use it, the other ASCII control characters are written in
  hexadecimal, and everything else (ASCII text and the bytes of multi-byte text) is copied.
\<close>

definition quoteChar :: "char \<Rightarrow> string" where
  "quoteChar c = (let n = (of_char c :: nat) in
     if c = dquote \<or> c = backslash then [backslash, c]
     else if n = 7 then [backslash, CHR ''a''] else if n = 8 then [backslash, CHR ''b'']
     else if n = 9 then [backslash, CHR ''t''] else if n = 10 then [backslash, CHR ''n'']
     else if n = 11 then [backslash, CHR ''v''] else if n = 12 then [backslash, CHR ''f'']
     else if n = 13 then [backslash, CHR ''r'']
     else if n < 32 \<or> n = 127 then [backslash, CHR ''x'', hexDigit (n div 16), hexDigit (n mod 16)]
     else [c])"

definition quoteGo :: "string \<Rightarrow> string" where
  "quoteGo s = [dquote] @ concat (map quoteChar s) @ [dquote]"

section \<open>Package slices\<close>

text \<open>\<open>slices.Sort\<close> is \<^const>\<open>sort\<close> and \<open>slices.Compact\<close> is \<^const>\<open>remdups_adj\<close>.\<close>

definition sortCompact :: "string list \<Rightarrow> string list" where
  "sortCompact xs = remdups_adj (sort xs)"

section \<open>Errors\<close>

datatype error =
    PqError string string
  | Errorf string "string list"
  | Wrapf string "string list" error
  | ConditionError string error
  | Joined "error list"

text \<open>\<open>errors.Join\<close>: nil when every argument is nil.\<close>

definition joinErrs :: "error option list \<Rightarrow> error option" where
  "joinErrs es = (case List.map_filter id es of [] \<Rightarrow> None | xs \<Rightarrow> Some (Joined xs))"

text \<open>\<open>errors.AsType[*pq.Error]\<close>: the SQLSTATE of the first driver error of the tree.\<close>

fun asPqError :: "error \<Rightarrow> string option" where
  "asPqError (PqError code msg) = Some code"
| "asPqError (Errorf f xs) = None"
| "asPqError (Wrapf f xs e) = asPqError e"
| "asPqError (ConditionError r e) = asPqError e"
| "asPqError (Joined []) = None"
| "asPqError (Joined (e # es)) =
     (case asPqError e of Some c \<Rightarrow> Some c | None \<Rightarrow> asPqError (Joined es))"

text \<open>The reasons of the condition errors of an error tree.\<close>

fun reasons :: "error \<Rightarrow> string list" where
  "reasons (PqError code msg) = []"
| "reasons (Errorf f xs) = []"
| "reasons (Wrapf f xs e) = reasons e"
| "reasons (ConditionError r e) = r # reasons e"
| "reasons (Joined []) = []"
| "reasons (Joined (e # es)) = reasons e @ reasons (Joined es)"

section \<open>Maps with string keys\<close>

type_synonym 'v gomap = "(string \<times> 'v) list"

definition mapKeys :: "'v gomap \<Rightarrow> string list" where
  "mapKeys m = sort (remdups (map fst m))"

definition mapGet :: "'v \<Rightarrow> 'v gomap \<Rightarrow> string \<Rightarrow> 'v" where
  "mapGet zero m k = (case map_of m k of None \<Rightarrow> zero | Some v \<Rightarrow> v)"

section \<open>Programs\<close>

abbreviation ret :: "'a \<Rightarrow> ('s, 'a) state" where
  "ret \<equiv> State_Monad.return"

text \<open>A loop over a slice that carries its local variables \<open>b\<close>.\<close>

fun forEach :: "'a list \<Rightarrow> ('a \<Rightarrow> 'b \<Rightarrow> ('s, 'b) state) \<Rightarrow> 'b \<Rightarrow> ('s, 'b) state" where
  "forEach [] f b = ret b"
| "forEach (x # xs) f b = do { b' \<leftarrow> f x b; forEach xs f b' }"

text \<open>The same loop with a body that may return from the function (\<open>Inl\<close>).\<close>

fun tryEach :: "'a list \<Rightarrow> ('a \<Rightarrow> 'b \<Rightarrow> ('s, 'e + 'b) state) \<Rightarrow> 'b \<Rightarrow> ('s, 'e + 'b) state" where
  "tryEach [] f b = ret (Inr b)"
| "tryEach (x # xs) f b =
     do { r \<leftarrow> f x b; (case r of Inl e \<Rightarrow> ret (Inl e) | Inr b' \<Rightarrow> tryEach xs f b') }"

text \<open>\<open>wp m Q s\<close>: running \<open>m\<close> in world \<open>s\<close> ends with a result and a world that satisfy \<open>Q\<close>.\<close>

definition wp :: "('s, 'a) state \<Rightarrow> ('a \<Rightarrow> 's \<Rightarrow> bool) \<Rightarrow> 's \<Rightarrow> bool" where
  "wp m Q s = (case run_state m s of (a, s') \<Rightarrow> Q a s')"


section \<open>Facts about strings\<close>

lemma hasPrefix_append [str_simps]: "hasPrefix (p @ s) p"
  by (simp add: hasPrefix_def)

lemma hasPrefix_iff: "hasPrefix s p \<longleftrightarrow> (\<exists>t. s = p @ t)"
proof
  assume "hasPrefix s p"
  then have "s = p @ drop (length p) s"
    by (metis append_take_drop_id hasPrefix_def)
  then show "\<exists>t. s = p @ t" by blast
qed (auto simp: hasPrefix_append)

lemma toLowerChar_idem [simp]: "toLowerChar (toLowerChar c) = toLowerChar c"
  by (auto simp: toLowerChar_def Let_def)

lemma toLower_idem [simp]: "toLower (toLower s) = toLower s"
  by (simp add: toLower_def)

lemma length_toLower [simp]: "length (toLower s) = length s"
  by (simp add: toLower_def)

lemma equalFold_refl [simp]: "equalFold s s"
  by (simp add: equalFold_def)

lemma splitBy_nonempty [simp]: "splitBy p s \<noteq> []"
  by (induction s) (auto split: list.splits)

lemma splitBy_none: "\<forall>c \<in> set s. \<not> p c \<Longrightarrow> splitBy p s = [s]"
  by (induction s) auto

lemma splitBy_append:
  "\<forall>c \<in> set w. \<not> p c \<Longrightarrow> p c \<Longrightarrow> splitBy p (w @ c # s) = w # splitBy p s"
  by (induction w) auto

lemma splitBy_pieces: "w \<in> set (splitBy p s) \<Longrightarrow> c \<in> set w \<Longrightarrow> \<not> p c \<and> c \<in> set s"
proof (induction s arbitrary: w)
  case Nil
  then show ?case by simp
next
  case (Cons a s)
  then show ?case
    by (cases "splitBy p s") (fastforce split: if_splits)+
qed

text \<open>Joining pieces that do not hold the separator and splitting again gives them back.\<close>

lemma splitStr_joinStr:
  "xs \<noteq> [] \<Longrightarrow> \<forall>x \<in> set xs. sep \<notin> set x \<Longrightarrow> splitStr (joinStr xs [sep]) sep = xs"
proof (induction xs "[sep]" rule: joinStr.induct)
  case 1
  then show ?case by simp
next
  case (2 x)
  then show ?case by (auto simp: splitStr_def intro: splitBy_none)
next
  case (3 x y ys)
  have "splitBy (\<lambda>c. c = sep) (x @ sep # joinStr (y # ys) [sep]) =
      x # splitBy (\<lambda>c. c = sep) (joinStr (y # ys) [sep])"
    using "3.prems" by (intro splitBy_append) auto
  with "3.hyps" "3.prems" show ?case
    by (simp add: splitStr_def)
qed

lemma joinStr_splitStr: "joinStr (splitStr s sep) [sep] = s"
proof (induction s)
  case Nil
  then show ?case by (simp add: splitStr_def)
next
  case (Cons c s)
  then show ?case
    by (cases "splitBy (\<lambda>c. c = sep) s"; cases "tl (splitBy (\<lambda>c. c = sep) s)")
      (auto simp: splitStr_def split: list.splits)
qed

lemma set_joinStr_subset: "set (joinStr xs sep) \<subseteq> (\<Union>x \<in> set xs. set x) \<union> set sep"
  by (induction xs sep rule: joinStr.induct) auto

lemma char_of_digit_neq: "n < 10 \<Longrightarrow> m < 10 \<Longrightarrow> (char_of (48 + n :: nat) :: char) = char_of (48 + m) \<longleftrightarrow> n = m"
  by (simp add: char_of_eq_iff take_bit_eq_mod)

lemma natDigits_nonempty [simp]: "natDigits n \<noteq> []"
  by (subst natDigits.simps) simp

lemma natDigits_inject: "natDigits m = natDigits n \<longleftrightarrow> m = n"
proof (induction m arbitrary: n rule: natDigits.induct)
  case (1 m)
  show ?case
  proof (cases "m < 10")
    case True
    then show ?thesis
      by (subst (1 2) natDigits.simps) (auto simp: char_of_digit_neq natDigits_nonempty [symmetric])
  next
    case False
    then have IH: "natDigits (m div 10) = natDigits n' \<longleftrightarrow> m div 10 = n'" for n'
      using "1.IH" by blast
    have "natDigits m = natDigits n \<longleftrightarrow> \<not> n < 10 \<and> m div 10 = n div 10 \<and> m mod 10 = n mod 10"
      using False by (subst (1 2) natDigits.simps) (auto simp: IH char_of_digit_neq)
    also have "\<dots> \<longleftrightarrow> m = n"
      using False by (metis div_mult_mod_eq)
    finally show ?thesis .
  qed
qed

lemma natDigits_chars: "c \<in> set (natDigits n) \<Longrightarrow> 48 \<le> (of_char c :: nat) \<and> (of_char c :: nat) \<le> 57"
proof (induction n rule: natDigits.induct)
  case (1 n)
  have d: "48 \<le> (of_char (char_of (48 + k) :: char) :: nat) \<and> (of_char (char_of (48 + k) :: char) :: nat) \<le> 57"
    if "k < 10" for k :: nat
    using that by simp
  show ?case
  proof (cases "n < 10")
    case True
    with "1.prems" d show ?thesis by (subst (asm) natDigits.simps) auto
  next
    case False
    with "1.prems" have "c \<in> set (natDigits (n div 10)) \<or> c = char_of (48 + n mod 10)"
      by (subst (asm) natDigits.simps) auto
    then show ?thesis
      using "1.IH" [OF False] d [of "n mod 10"] by auto
  qed
qed

lemma natDigits_minus: "CHR ''-'' \<notin> set (natDigits n)"
  using natDigits_chars [of "CHR ''-''" n] by auto

lemma formatInt_inject: "formatInt i = formatInt j \<longleftrightarrow> i = j"
proof -
  have "natDigits n \<noteq> CHR ''-'' # xs" for n xs
    using natDigits_minus [of n] by auto
  then show ?thesis
    by (auto simp: formatInt_def natDigits_inject) metis
qed

lemma formatInt_chars: "c \<in> set (formatInt i) \<Longrightarrow> c \<noteq> CHR ''|''"
  using natDigits_chars [of "CHR ''|''"] by (auto simp: formatInt_def split: if_splits)

lemma hexDigit_inject: "a < 16 \<Longrightarrow> b < 16 \<Longrightarrow> hexDigit a = hexDigit b \<longleftrightarrow> a = b"
  by (auto simp: hexDigit_def char_of_eq_iff take_bit_eq_mod)

text \<open>The reader of one quoted character, the left inverse of \<open>quoteChar\<close>.\<close>

definition unhexDigit :: "char \<Rightarrow> nat" where
  "unhexDigit h = (let n = (of_char h :: nat) in if n < 58 then n - 48 else n - 87)"

definition unquoteChar :: "string \<Rightarrow> (char \<times> string) option" where
  "unquoteChar s = (case s of [] \<Rightarrow> None | c # r \<Rightarrow>
     if c \<noteq> backslash then Some (c, r) else (case r of [] \<Rightarrow> None | e # r' \<Rightarrow>
       if e = dquote \<or> e = backslash then Some (e, r')
       else if e = CHR ''a'' then Some (char_of (7 :: nat), r')
       else if e = CHR ''b'' then Some (char_of (8 :: nat), r')
       else if e = CHR ''t'' then Some (char_of (9 :: nat), r')
       else if e = CHR ''n'' then Some (char_of (10 :: nat), r')
       else if e = CHR ''v'' then Some (char_of (11 :: nat), r')
       else if e = CHR ''f'' then Some (char_of (12 :: nat), r')
       else if e = CHR ''r'' then Some (char_of (13 :: nat), r')
       else (case r' of h # l # r'' \<Rightarrow> Some (char_of (16 * unhexDigit h + unhexDigit l), r'') | _ \<Rightarrow> None)))"

lemma unhexDigit_hexDigit: "k < 16 \<Longrightarrow> unhexDigit (hexDigit k) = k"
  by (auto simp: unhexDigit_def hexDigit_def)

lemma unquoteChar_quoteChar: "unquoteChar (quoteChar c @ u) = Some (c, u)"
proof -
  have c: "char_of k = c" if "of_char c = k" for k :: nat
    using that by auto
  have "(of_char c :: nat) < 16 * 16" by simp
  then have "(of_char c :: nat) div 16 < 16" by (rule less_mult_imp_div_less)
  then have x: "16 * unhexDigit (hexDigit (of_char c div 16)) + unhexDigit (hexDigit (of_char c mod 16)) = of_char c"
    by (simp add: unhexDigit_hexDigit)
  show ?thesis
    unfolding quoteChar_def Let_def unquoteChar_def
    using x by (auto intro: c)
qed

lemma quoteChar_cancel: "quoteChar c @ u = quoteChar d @ v \<longleftrightarrow> c = d \<and> u = v"
  by (metis option.inject prod.inject unquoteChar_quoteChar)

lemma quoteChar_dquote: "quoteChar c @ u \<noteq> dquote # v"
  by (auto simp: quoteChar_def Let_def)

text \<open>A quoted string ends at its closing quote: quoting is injective also in front of more text.\<close>

lemma quoteGo_cancel: "quoteGo s @ u = quoteGo t @ v \<longleftrightarrow> s = t \<and> u = v"
proof -
  have "concat (map quoteChar s) @ dquote # u = concat (map quoteChar t) @ dquote # v \<Longrightarrow> s = t \<and> u = v"
  proof (induction s arbitrary: t)
    case Nil
    then show ?case
      using quoteChar_dquote by (cases t) (auto, metis)
  next
    case (Cons c s)
    then show ?case
      using quoteChar_dquote [of c] by (cases t) (auto simp: quoteChar_cancel)
  qed
  then show ?thesis by (auto simp: quoteGo_def)
qed

section \<open>Facts about slices\<close>

lemma set_sortCompact [simp]: "set (sortCompact xs) = set xs"
  by (simp add: sortCompact_def)

lemma sorted_remdups_adj_distinct: "sorted xs \<Longrightarrow> distinct (remdups_adj xs)"
  by (induction xs rule: remdups_adj.induct) auto

lemma sorted_remdups_adj: "sorted xs \<Longrightarrow> sorted (remdups_adj xs)"
  by (induction xs rule: remdups_adj.induct) auto

lemma sortCompact_canonical [simp]: "sorted (sortCompact xs)" "distinct (sortCompact xs)"
  by (simp_all add: sortCompact_def sorted_remdups_adj sorted_remdups_adj_distinct)

lemma sortCompact_eq: "sortCompact xs = sorted_list_of_set (set xs)"
  by (rule sorted_distinct_set_unique) simp_all

lemma sortCompact_Nil [simp]: "sortCompact xs = [] \<longleftrightarrow> xs = []"
  by (metis set_empty set_sortCompact)

section \<open>Facts about errors\<close>

lemma joinErrs_None_iff: "joinErrs es = None \<longleftrightarrow> (\<forall>e \<in> set es. e = None)"
  by (induction es) (auto simp: joinErrs_def List.map_filter_def split: list.splits option.splits)

lemma joinErrs_errors: "None \<notin> set es \<Longrightarrow> joinErrs es = None \<longleftrightarrow> es = []"
  by (cases es) (auto simp: joinErrs_None_iff)

lemma joinErrs_Nil [simp]: "joinErrs [] = None"
  by (simp add: joinErrs_None_iff)

section \<open>Facts about maps\<close>

lemma map_of_update [map_simps]: "map_of (AList.update k v m) k' = (if k = k' then Some v else map_of m k')"
  by (auto simp: update_conv)

lemma map_of_delete [map_simps]: "map_of (AList.delete k m) k' = (if k = k' then None else map_of m k')"
  by (auto simp: delete_conv)

lemma dom_update: "dom (map_of (AList.update k v m)) = insert k (dom (map_of m))"
  by (auto simp: map_simps dom_def)

lemma dom_delete: "dom (map_of (AList.delete k m)) = dom (map_of m) - {k}"
  by (auto simp: map_simps dom_def)

lemma set_mapKeys [simp]: "set (mapKeys m) = dom (map_of m)"
  by (auto simp: mapKeys_def dom_map_of_conv_image_fst)

lemma mapKeys_canonical [simp]: "sorted (mapKeys m)" "distinct (mapKeys m)"
  by (simp_all add: mapKeys_def)

lemma mapKeys_eq: "mapKeys m = sorted_list_of_set (dom (map_of m))"
  by (rule sorted_distinct_set_unique) (simp_all add: finite_dom_map_of)

lemma mapGet_update [map_simps]:
  "mapGet z (AList.update k v m) k' = (if k = k' then v else mapGet z m k')"
  by (simp add: mapGet_def map_simps)

lemma mapGet_delete [map_simps]: "mapGet z (AList.delete k m) k' = (if k = k' then z else mapGet z m k')"
  by (simp add: mapGet_def map_simps)

lemma mapGet_Nil [simp]: "mapGet z [] k = z"
  by (simp add: mapGet_def)

section \<open>Weakest preconditions\<close>

lemma wp_ret [wp_simps]: "wp (ret a) Q = Q a"
  by (simp add: wp_def fun_eq_iff)

lemma wp_bind [wp_simps]: "wp (State_Monad.bind m f) Q = wp m (\<lambda>a. wp (f a) Q)"
  by (simp add: wp_def split_beta fun_eq_iff)

lemma wp_if [wp_simps]: "wp (if b then m else n) Q = (if b then wp m Q else wp n Q)"
  by simp

lemma wp_case_prod [wp_simps]: "wp (case p of (a, b) \<Rightarrow> f a b) Q = (case p of (a, b) \<Rightarrow> wp (f a b) Q)"
  by (cases p) simp

lemma wp_case_option [wp_simps]:
  "wp (case x of None \<Rightarrow> m | Some y \<Rightarrow> f y) Q = (case x of None \<Rightarrow> wp m Q | Some y \<Rightarrow> wp (f y) Q)"
  by (cases x) simp_all

lemma wp_case_sum [wp_simps]:
  "wp (case x of Inl e \<Rightarrow> f e | Inr y \<Rightarrow> g y) Q = (case x of Inl e \<Rightarrow> wp (f e) Q | Inr y \<Rightarrow> wp (g y) Q)"
  by (cases x) simp_all

lemma wp_let [wp_simps]: "wp (let x = e in f x) Q = (let x = e in wp (f x) Q)"
  by simp

lemma wp_mono: "wp m Q s \<Longrightarrow> (\<And>a s'. Q a s' \<Longrightarrow> R a s') \<Longrightarrow> wp m R s"
  by (auto simp: wp_def)

lemma wp_conj: "wp m (\<lambda>a s'. Q a s' \<and> R a s') s \<longleftrightarrow> wp m Q s \<and> wp m R s"
  by (auto simp: wp_def)

lemma wp_True [simp]: "wp m (\<lambda>_ _. True) s"
  by (simp add: wp_def split_beta)

lemma wp_both: "wp m Q s \<Longrightarrow> wp m R s \<Longrightarrow> wp m (\<lambda>a s'. Q a s' \<and> R a s') s"
  by (simp add: wp_conj)

lemma wp_State: "wp (State f) Q s = (case f s of (a, s') \<Rightarrow> Q a s')"
  by (simp add: wp_def)

lemma wp_run: "wp m Q s \<Longrightarrow> run_state m s = (a, s') \<Longrightarrow> Q a s'"
  by (simp add: wp_def)

text \<open>
  Loops: an invariant over the slice still to be visited, or over the local variables and the
  world only.
\<close>

lemma wp_forEach_rest:
  assumes "I xs b s"
    and "\<And>x xs b s. I (x # xs) b s \<Longrightarrow> wp (f x b) (I xs) s"
    and "\<And>b s. I [] b s \<Longrightarrow> Q b s"
  shows "wp (forEach xs f b) Q s"
  using assms(1)
proof (induction xs arbitrary: b s)
  case Nil
  then show ?case by (simp add: wp_simps assms(3))
next
  case (Cons x xs)
  have "wp (f x b) (I xs) s" using Cons.prems by (rule assms(2))
  then show ?case by (auto simp: wp_simps intro: wp_mono Cons.IH)
qed

lemma wp_forEach:
  assumes "I b s" and "\<And>x b s. x \<in> set xs \<Longrightarrow> I b s \<Longrightarrow> wp (f x b) I s" and "\<And>b s. I b s \<Longrightarrow> Q b s"
  shows "wp (forEach xs f b) Q s"
  by (rule wp_forEach_rest [where I = "\<lambda>ys b s. set ys \<subseteq> set xs \<and> I b s"])
    (use assms in \<open>auto simp: wp_conj\<close>)

lemma wp_tryEach_rest:
  assumes "I xs b s"
    and "\<And>x xs b s. I (x # xs) b s \<Longrightarrow> wp (f x b) (\<lambda>r s'. case r of Inl e \<Rightarrow> Q (Inl e) s' | Inr b' \<Rightarrow> I xs b' s') s"
    and "\<And>b s. I [] b s \<Longrightarrow> Q (Inr b) s"
  shows "wp (tryEach xs f b) Q s"
  using assms(1)
proof (induction xs arbitrary: b s)
  case Nil
  then show ?case by (simp add: wp_simps assms(3))
next
  case (Cons x xs)
  have "wp (f x b) (\<lambda>r. wp (case r of Inl e \<Rightarrow> ret (Inl e) | Inr b' \<Rightarrow> tryEach xs f b') Q) s"
    by (rule wp_mono [OF assms(2) [OF Cons.prems]]) (auto simp: wp_simps split: sum.splits intro: Cons.IH)
  then show ?case by (simp add: wp_simps)
qed

lemma wp_tryEach:
  assumes "I b s"
    and "\<And>x b s. x \<in> set xs \<Longrightarrow> I b s \<Longrightarrow>
      wp (f x b) (\<lambda>r s'. case r of Inl e \<Rightarrow> Q (Inl e) s' | Inr b' \<Rightarrow> I b' s') s"
    and "\<And>b s. I b s \<Longrightarrow> Q (Inr b) s"
  shows "wp (tryEach xs f b) Q s"
proof (rule wp_tryEach_rest [where I = "\<lambda>ys b s. set ys \<subseteq> set xs \<and> I b s"])
  fix x ys b s
  assume *: "set (x # ys) \<subseteq> set xs \<and> I b s"
  then show "wp (f x b) (\<lambda>r s'. case r of Inl e \<Rightarrow> Q (Inl e) s' | Inr b' \<Rightarrow> set ys \<subseteq> set xs \<and> I b' s') s"
    using assms(2) [of x b s] by (auto intro!: wp_mono [OF assms(2) [of x b s]] split: sum.splits)
qed (use assms in auto)

end
