(* ===== verification/Sql_Text.thy ===== *)
theory Sql_Text
  imports Go_Prelude
begin

text \<open>
  The SQL text builders of \<open>internal/postgres\<close>: quoting of identifiers and literals
  (\<open>client.go\<close>), connection-string values (\<open>dsn.go\<close>), the privilege allow-lists, the GRANT and
  REVOKE builders, parameter names and setting values (\<open>privileges.go\<close>), and the statements of
  roles and memberships (\<open>client.go\<close>). The lemmas show that what the builders write is read back
  as one token with the intended value, and that the normal forms are canonical.
\<close>

section \<open>Quoting\<close>

definition quoteIdent :: "string \<Rightarrow> string" where
  "quoteIdent s = [dquote] @ replaceChar dquote [dquote, dquote] s @ [dquote]"

definition quoteLiteral :: "string \<Rightarrow> string" where
  "quoteLiteral s0 =
     (let s = replaceChar squote [squote, squote] s0
      in if backslash \<in> set s
         then [CHR ''E'', squote] @ replaceChar backslash [backslash, backslash] s @ [squote]
         else [squote] @ s @ [squote])"

definition escapeString :: "string \<Rightarrow> string" where
  "escapeString s = replaceChar squote [squote, squote] s"

section \<open>Privileges\<close>

abbreviation PrivilegeAll :: string where "PrivilegeAll \<equiv> ''ALL''"
abbreviation PrivilegeConnect :: string where "PrivilegeConnect \<equiv> ''CONNECT''"
abbreviation PrivilegeCreate :: string where "PrivilegeCreate \<equiv> ''CREATE''"
abbreviation PrivilegeTemporary :: string where "PrivilegeTemporary \<equiv> ''TEMPORARY''"
abbreviation PrivilegeTemp :: string where "PrivilegeTemp \<equiv> ''TEMP''"
abbreviation PrivilegeUsage :: string where "PrivilegeUsage \<equiv> ''USAGE''"
abbreviation PrivilegeSet :: string where "PrivilegeSet \<equiv> ''SET''"
abbreviation privilegeAllPrivileges :: string where "privilegeAllPrivileges \<equiv> ''ALL PRIVILEGES''"

definition schemaPrivileges :: "string list" where
  "schemaPrivileges = [PrivilegeUsage, PrivilegeCreate, PrivilegeAll]"

definition databasePrivileges :: "string list" where
  "databasePrivileges = [PrivilegeConnect, PrivilegeCreate, PrivilegeTemporary, PrivilegeTemp, PrivilegeAll]"

definition parameterPrivileges :: "string list" where
  "parameterPrivileges = [PrivilegeSet]"

definition MinParameterPrivilegesVersion :: int where
  "MinParameterPrivilegesVersion = 150000"

definition canonicalKeyword :: "string \<Rightarrow> string" where
  "canonicalKeyword p =
     (let u = toUpper (joinStr (fields p) '' '') in if u = privilegeAllPrivileges then PrivilegeAll else u)"

fun checkPrivilegesLoop :: "string \<Rightarrow> string list \<Rightarrow> string list \<Rightarrow> string list \<Rightarrow> error + string list" where
  "checkPrivilegesLoop kind allowed [] out = Inr out"
| "checkPrivilegesLoop kind allowed (p # ps) out =
     (let u = canonicalKeyword p
      in if u \<notin> set allowed
         then Inl (Errorf ''invalid %s privilege %q (allowed: %s)'' [kind, p, joinStr allowed '', ''])
         else checkPrivilegesLoop kind allowed ps (if u \<in> set out then out else out @ [u]))"

definition checkPrivileges :: "string \<Rightarrow> string list \<Rightarrow> string list \<Rightarrow> error + string list" where
  "checkPrivileges kind privs allowed =
     (if privs = [] then Inl (Errorf ''no %s privileges given'' [kind])
      else checkPrivilegesLoop kind allowed privs [])"

definition expandDatabasePrivilege :: "string \<Rightarrow> string list" where
  "expandDatabasePrivilege p =
     (if p = PrivilegeAll then [PrivilegeConnect, PrivilegeCreate, PrivilegeTemporary]
      else if p = PrivilegeTemp then [PrivilegeTemporary] else [p])"

definition NormalizeDatabasePrivileges :: "string list \<Rightarrow> error + string list" where
  "NormalizeDatabasePrivileges privs =
     (case checkPrivileges ''database'' privs databasePrivileges of
        Inl e \<Rightarrow> Inl e
      | Inr checked \<Rightarrow> Inr (sortCompact (concat (map expandDatabasePrivilege checked))))"

definition expandSchemaPrivilege :: "string \<Rightarrow> string list" where
  "expandSchemaPrivilege p = (if p = PrivilegeAll then [PrivilegeCreate, PrivilegeUsage] else [p])"

definition NormalizeSchemaPrivileges :: "string list \<Rightarrow> error + string list" where
  "NormalizeSchemaPrivileges privs =
     (case checkPrivileges ''schema'' privs schemaPrivileges of
        Inl e \<Rightarrow> Inl e
      | Inr checked \<Rightarrow> Inr (sortCompact (concat (map expandSchemaPrivilege checked))))"

definition NormalizeParameterPrivileges :: "string list \<Rightarrow> error + string list" where
  "NormalizeParameterPrivileges privs =
     (if privs = [] then Inr [PrivilegeSet]
      else case checkPrivileges ''parameter'' privs parameterPrivileges of
        Inl e \<Rightarrow> Inl e
      | Inr out \<Rightarrow> Inr (sort out))"

section \<open>Parameter names\<close>

definition identStartChar :: "char \<Rightarrow> bool" where
  "identStartChar c \<longleftrightarrow> (let n = (of_char c :: nat) in
     (65 \<le> n \<and> n \<le> 90) \<or> (97 \<le> n \<and> n \<le> 122) \<or> n = 95)"

definition identChar :: "char \<Rightarrow> bool" where
  "identChar c \<longleftrightarrow> identStartChar c \<or> (let n = (of_char c :: nat) in 48 \<le> n \<and> n \<le> 57)"

definition identPart :: "string \<Rightarrow> bool" where
  "identPart w \<longleftrightarrow> (case w of [] \<Rightarrow> False | c # cs \<Rightarrow> identStartChar c \<and> list_all identChar cs)"

definition parameterNameRe :: "string \<Rightarrow> bool" where
  "parameterNameRe s \<longleftrightarrow> list_all identPart (splitStr s (CHR ''.''))"

definition maxParameterNameLength :: nat where
  "maxParameterNameLength = 127"

definition NormalizeParameterName :: "string \<Rightarrow> error + string" where
  "NormalizeParameterName name =
     (if length name > maxParameterNameLength \<or> \<not> parameterNameRe name
      then Inl (Errorf ''invalid parameter name %q'' [name])
      else Inr (toLower name))"

definition quoteParameterName :: "string \<Rightarrow> error + string" where
  "quoteParameterName name =
     (case NormalizeParameterName name of
        Inl e \<Rightarrow> Inl e
      | Inr n \<Rightarrow> Inr (joinStr (map quoteIdent (splitStr n (CHR ''.''))) ''.''))"

section \<open>Objects and grantees\<close>

type_synonym ObjectKind = string

abbreviation ObjectDatabase :: ObjectKind where "ObjectDatabase \<equiv> ''DATABASE''"
abbreviation ObjectSchema :: ObjectKind where "ObjectSchema \<equiv> ''SCHEMA''"
abbreviation ObjectParameter :: ObjectKind where "ObjectParameter \<equiv> ''PARAMETER''"

record objectKind =
  label :: string
  privileges :: "string list"
  render :: "string \<Rightarrow> error + string"

definition quotedName :: "string \<Rightarrow> string \<Rightarrow> error + string" where
  "quotedName keyword name =
     (if name = [] then Inl (Errorf ''empty object name'' []) else Inr (keyword @ '' '' @ quoteIdent name))"

definition objectKinds :: "ObjectKind \<Rightarrow> objectKind option" where
  "objectKinds k =
     (if k = ObjectDatabase
      then Some \<lparr>label = ''database'', privileges = databasePrivileges, render = quotedName ''DATABASE''\<rparr>
      else if k = ObjectSchema
      then Some \<lparr>label = ''schema'', privileges = schemaPrivileges, render = quotedName ''SCHEMA''\<rparr>
      else if k = ObjectParameter
      then Some \<lparr>label = ''parameter'', privileges = parameterPrivileges, render =
        (\<lambda>name. case quoteParameterName name of Inl e \<Rightarrow> Inl e | Inr quoted \<Rightarrow> Inr (''PARAMETER '' @ quoted))\<rparr>
      else None)"

record PrivilegeObject =
  Kind :: ObjectKind
  Name :: string

definition objectString :: "PrivilegeObject \<Rightarrow> string" where
  "objectString obj =
     (case objectKinds (Kind obj) of
        Some k \<Rightarrow> label k @ '' '' @ quoteGo (Name obj)
      | None \<Rightarrow> Kind obj @ '' '' @ quoteGo (Name obj))"

definition renderObject :: "PrivilegeObject \<Rightarrow> string list \<Rightarrow> error + string list \<times> string" where
  "renderObject obj privs =
     (case objectKinds (Kind obj) of
        None \<Rightarrow> Inl (Errorf ''unsupported object kind %q'' [Kind obj])
      | Some k \<Rightarrow>
          (case checkPrivileges (label k) privs (privileges k) of
             Inl e \<Rightarrow> Inl e
           | Inr checked \<Rightarrow>
               (case render k (Name obj) of Inl e \<Rightarrow> Inl e | Inr object \<Rightarrow> Inr (checked, object))))"

abbreviation PublicGrantee :: string where "PublicGrantee \<equiv> ''PUBLIC''"

definition IsPublic :: "string \<Rightarrow> bool" where
  "IsPublic grantee \<longleftrightarrow> equalFold grantee PublicGrantee"

definition CanonicalGrantee :: "string \<Rightarrow> string" where
  "CanonicalGrantee grantee = (if IsPublic grantee then PublicGrantee else grantee)"

definition renderGrantee :: "string \<Rightarrow> error + string" where
  "renderGrantee grantee =
     (if grantee = [] then Inl (Errorf ''empty grantee'' [])
      else if IsPublic grantee then Inr PublicGrantee
      else if equalFold grantee ''none''
      then Inl (Errorf ''invalid grantee %q: the role name none is reserved'' [grantee])
      else Inr (quoteIdent grantee))"

section \<open>GRANT and REVOKE statements\<close>

definition buildGrantQuery :: "string list \<Rightarrow> string \<Rightarrow> string \<Rightarrow> bool \<Rightarrow> string" where
  "buildGrantQuery privs object grantee withGrantOption =
     ''GRANT '' @ joinStr privs '', '' @ '' ON '' @ object @ '' TO '' @ grantee @
     (if withGrantOption then '' WITH GRANT OPTION'' else [])"

record RevokeMode =
  GrantOptionOnly :: bool
  Cascade :: bool

definition buildRevokeQuery :: "string list \<Rightarrow> string \<Rightarrow> string \<Rightarrow> RevokeMode \<Rightarrow> string" where
  "buildRevokeQuery privs object grantee mode =
     ''REVOKE '' @ (if GrantOptionOnly mode then ''GRANT OPTION FOR '' else []) @
     joinStr privs '', '' @ '' ON '' @ object @ '' FROM '' @ grantee @
     (if Cascade mode then '' CASCADE'' else [])"

definition buildGrantPrivilegesQuery ::
    "PrivilegeObject \<Rightarrow> string \<Rightarrow> string list \<Rightarrow> bool \<Rightarrow> error + string" where
  "buildGrantPrivilegesQuery obj grantee privs0 withGrantOption =
     (case renderObject obj privs0 of
        Inl e \<Rightarrow> Inl e
      | Inr (privs, object) \<Rightarrow>
          (case renderGrantee grantee of
             Inl e \<Rightarrow> Inl e
           | Inr to \<Rightarrow>
               if withGrantOption \<and> to = PublicGrantee
               then Inl (Errorf ''the grant option cannot be granted to PUBLIC'' [])
               else Inr (buildGrantQuery privs object to withGrantOption)))"

definition buildRevokePrivilegesQuery ::
    "PrivilegeObject \<Rightarrow> string \<Rightarrow> string list \<Rightarrow> RevokeMode \<Rightarrow> error + string" where
  "buildRevokePrivilegesQuery obj grantee privs0 mode =
     (case renderObject obj privs0 of
        Inl e \<Rightarrow> Inl e
      | Inr (privs, object) \<Rightarrow>
          (case renderGrantee grantee of
             Inl e \<Rightarrow> Inl e
           | Inr source \<Rightarrow> Inr (buildRevokeQuery privs object source mode)))"

section \<open>Setting values\<close>

definition isListSpace :: "char \<Rightarrow> bool" where
  "isListSpace c \<longleftrightarrow> c = CHR '' '' \<or> c = CHR 0x09 \<or> c = CHR 0x0A \<or> c = CHR 0x0D"

text \<open>The inner loop over a double-quoted element: its text and what follows the closing quote.\<close>

fun readQuotedElement :: "string \<Rightarrow> string \<Rightarrow> (string \<times> string) option" where
  "readQuotedElement [] elem = None"
| "readQuotedElement [c] elem = (if c = dquote then Some (elem, []) else None)"
| "readQuotedElement (c # d # s) elem =
     (if c = dquote
      then (if d = dquote then readQuotedElement s (elem @ [dquote]) else Some (elem, d # s))
      else readQuotedElement (d # s) (elem @ [c]))"

text \<open>One round of the loop: the next element and the rest of the text behind it.\<close>

definition readListElement :: "string \<Rightarrow> error + string \<times> string" where
  "readListElement s0 =
     (let s = dropWhile isListSpace s0
      in case s of
           c # s' \<Rightarrow>
             if c = dquote
             then (case readQuotedElement s' [] of
                     None \<Rightarrow> Inl (Errorf ''unterminated quoted identifier'' [])
                   | Some (elem, rest) \<Rightarrow> Inr (elem, dropWhile isListSpace rest))
             else (let raw = takeWhile (\<lambda>c. c \<noteq> CHR '','') s;
                       word = rev (dropWhile isListSpace (rev raw))
                   in if list_ex (\<lambda>c. isListSpace c \<or> c = dquote) word
                      then Inl (Errorf ''invalid list element %q (quote it with double quotes)'' [word])
                      else Inr (stringsToLower word, dropWhile (\<lambda>c. c \<noteq> CHR '','') s))
         | [] \<Rightarrow> Inr ([], []))"

lemma readQuotedElement_length: "readQuotedElement s e = Some (elem, rest) \<Longrightarrow> length rest < length s"
  by (induction s e rule: readQuotedElement.induct) (fastforce split: if_splits)+

lemma readListElement_length: "readListElement s = Inr (elem, rest) \<Longrightarrow> length rest \<le> length s"
proof -
  assume a: "readListElement s = Inr (elem, rest)"
  let ?s = "dropWhile isListSpace s"
  have s: "length ?s \<le> length s" by (rule length_dropWhile_le)
  show "length rest \<le> length s"
  proof (cases ?s)
    case Nil
    with a show ?thesis by (simp add: readListElement_def)
  next
    case (Cons c s')
    show ?thesis
    proof (cases "c = dquote")
      case True
      with a Cons obtain r where "readQuotedElement s' [] = Some (elem, r)" "rest = dropWhile isListSpace r"
        by (auto simp: readListElement_def split: option.splits)
      then have "length rest \<le> length s'"
        using readQuotedElement_length length_dropWhile_le [of isListSpace r] by fastforce
      with s Cons show ?thesis by simp
    next
      case False
      with a Cons have "rest = dropWhile (\<lambda>c. c \<noteq> CHR '','') ?s"
        by (auto simp: readListElement_def Let_def split: if_splits)
      with s show ?thesis using length_dropWhile_le order_trans by blast
    qed
  qed
qed

function splitIdentifierListFrom :: "string \<Rightarrow> string list \<Rightarrow> error + string list" where
  "splitIdentifierListFrom s out =
     (case readListElement s of
        Inl e \<Rightarrow> Inl e
      | Inr (elem, rest) \<Rightarrow>
          if elem = [] then Inl (Errorf ''empty list element'' [])
          else (case rest of
                  [] \<Rightarrow> Inr (out @ [elem])
                | c # rest' \<Rightarrow>
                    if c \<noteq> CHR '','' then Inl (Errorf ''unexpected %q after quoted identifier'' [[c]])
                    else splitIdentifierListFrom rest' (out @ [elem])))"
  by pat_completeness auto
termination
  by (relation "measure (\<lambda>(s, out). length s)") (auto dest: readListElement_length)

declare splitIdentifierListFrom.simps [simp del]

definition splitIdentifierList :: "string \<Rightarrow> error + string list" where
  "splitIdentifierList s = splitIdentifierListFrom s []"

definition listQuoteParameters :: "string list" where
  "listQuoteParameters = [''search_path'', ''temp_tablespaces'']"

definition formatSettingValue :: "string \<Rightarrow> string \<Rightarrow> error + string" where
  "formatSettingValue parameter val =
     (if parameter \<notin> set listQuoteParameters then Inr (quoteLiteral val)
      else if trimSpace val = []
      then Inl (Errorf ''%s: an empty list is not supported; remove the key to reset the parameter'' [parameter])
      else case splitIdentifierList val of
             Inl e \<Rightarrow> Inl (Wrapf ''invalid list value for %s: %w'' [parameter] e)
           | Inr elems \<Rightarrow> Inr (joinStr (map quoteLiteral elems) '', ''))"

definition buildSetClause :: "string \<Rightarrow> string \<Rightarrow> error + string" where
  "buildSetClause parameter val =
     (case quoteParameterName parameter of
        Inl e \<Rightarrow> Inl e
      | Inr name \<Rightarrow>
          (let norm = (case NormalizeParameterName parameter of Inl e \<Rightarrow> [] | Inr n \<Rightarrow> n)
           in case formatSettingValue norm val of
                Inl e \<Rightarrow> Inl e
              | Inr v \<Rightarrow> Inr (''SET '' @ name @ '' TO '' @ v)))"

definition buildResetClause :: "string \<Rightarrow> error + string" where
  "buildResetClause parameter =
     (case quoteParameterName parameter of Inl e \<Rightarrow> Inl e | Inr name \<Rightarrow> Inr (''RESET '' @ name))"

definition buildAlterDatabaseSetQuery :: "string \<Rightarrow> string \<Rightarrow> string \<Rightarrow> error + string" where
  "buildAlterDatabaseSetQuery database parameter val =
     (case buildSetClause parameter val of
        Inl e \<Rightarrow> Inl e
      | Inr clause \<Rightarrow> Inr (''ALTER DATABASE '' @ quoteIdent database @ '' '' @ clause))"

definition buildAlterDatabaseResetQuery :: "string \<Rightarrow> string \<Rightarrow> error + string" where
  "buildAlterDatabaseResetQuery database parameter =
     (case buildResetClause parameter of
        Inl e \<Rightarrow> Inl e
      | Inr clause \<Rightarrow> Inr (''ALTER DATABASE '' @ quoteIdent database @ '' '' @ clause))"

definition alterRoleTarget :: "string \<Rightarrow> string \<Rightarrow> error + string" where
  "alterRoleTarget role database =
     (if role = [] then Inl (Errorf ''role name must not be empty'' [])
      else Inr (''ALTER ROLE '' @ quoteIdent role @
        (if database \<noteq> [] then '' IN DATABASE '' @ quoteIdent database else [])))"

definition buildAlterRoleSetQuery :: "string \<Rightarrow> string \<Rightarrow> string \<Rightarrow> string \<Rightarrow> error + string" where
  "buildAlterRoleSetQuery role database parameter val =
     (case alterRoleTarget role database of
        Inl e \<Rightarrow> Inl e
      | Inr target \<Rightarrow>
          (case buildSetClause parameter val of Inl e \<Rightarrow> Inl e | Inr clause \<Rightarrow> Inr (target @ '' '' @ clause)))"

definition buildAlterRoleResetQuery :: "string \<Rightarrow> string \<Rightarrow> string \<Rightarrow> error + string" where
  "buildAlterRoleResetQuery role database parameter =
     (case alterRoleTarget role database of
        Inl e \<Rightarrow> Inl e
      | Inr target \<Rightarrow>
          (case buildResetClause parameter of Inl e \<Rightarrow> Inl e | Inr clause \<Rightarrow> Inr (target @ '' '' @ clause)))"

definition deniedParameters :: "string list" where
  "deniedParameters =
     [''role'', ''session_authorization'',
      ''session_preload_libraries'', ''local_preload_libraries'', ''shared_preload_libraries'',
      ''dynamic_library_path'', ''jit_provider'',
      ''session_replication_role'', ''lo_compat_privileges'']"

definition deniedParameterPrefixes :: "string list" where
  "deniedParameterPrefixes = [''pgaudit.'', ''set_user.'', ''anon.'', ''sepgsql.'']"

definition DeniedParameter :: "string \<Rightarrow> bool" where
  "DeniedParameter name =
     (let n = toLower name
      in n \<in> set deniedParameters \<or> list_ex (\<lambda>p. hasPrefix n p) deniedParameterPrefixes)"

section \<open>Roles and memberships\<close>

record RoleOptions =
  Login :: bool
  CreateDB :: bool
  CreateRole :: bool
  Inherit :: bool
  Replication :: bool
  BypassRLS :: bool
  ConnectionLimit :: int
  Password :: string
  KeepExistingPassword :: bool
  Comment :: string
  CreateOnly :: bool

definition buildRoleOptions :: "RoleOptions \<Rightarrow> string list" where
  "buildRoleOptions opts =
     [if Login opts then ''LOGIN'' else ''NOLOGIN'',
      ''NOSUPERUSER'',
      if CreateDB opts then ''CREATEDB'' else ''NOCREATEDB'',
      if CreateRole opts then ''CREATEROLE'' else ''NOCREATEROLE'',
      if Inherit opts then ''INHERIT'' else ''NOINHERIT'',
      if Replication opts then ''REPLICATION'' else ''NOREPLICATION'',
      if BypassRLS opts then ''BYPASSRLS'' else ''NOBYPASSRLS'',
      ''CONNECTION LIMIT '' @ formatInt (ConnectionLimit opts)] @
     (if Password opts \<noteq> [] then [''PASSWORD '' @ quoteLiteral (Password opts)] else [])"

definition buildCreateRoleQuery :: "string \<Rightarrow> RoleOptions \<Rightarrow> string" where
  "buildCreateRoleQuery name opts = joinStr ((''CREATE ROLE '' @ quoteIdent name) # buildRoleOptions opts) '' ''"

definition buildAlterRoleQuery :: "string \<Rightarrow> RoleOptions \<Rightarrow> string" where
  "buildAlterRoleQuery name opts = joinStr ((''ALTER ROLE '' @ quoteIdent name) # buildRoleOptions opts) '' ''"

definition buildRoleQuery :: "string \<Rightarrow> bool \<Rightarrow> RoleOptions \<Rightarrow> string" where
  "buildRoleQuery name exists opts =
     (if \<not> exists then buildCreateRoleQuery name opts
      else buildAlterRoleQuery name (if KeepExistingPassword opts then opts\<lparr>Password := []\<rparr> else opts))"

definition buildCommentQuery :: "string \<Rightarrow> string \<Rightarrow> string \<Rightarrow> string" where
  "buildCommentQuery kind name comment =
     ''COMMENT ON '' @ kind @ '' '' @ quoteIdent name @ '' IS '' @ quoteLiteral comment"

record MembershipOptions =
  optAdmin :: bool
  optInherit :: "bool option"
  optSet :: "bool option"

definition boolUpper :: "bool \<Rightarrow> string" where
  "boolUpper b = (if b then ''TRUE'' else ''FALSE'')"

definition buildGrantRoleQuery :: "string \<Rightarrow> string \<Rightarrow> MembershipOptions \<Rightarrow> string" where
  "buildGrantRoleQuery role member opts =
     (let withs = (if optAdmin opts then [''ADMIN OPTION''] else []) @
                  (case optInherit opts of None \<Rightarrow> [] | Some b \<Rightarrow> [''INHERIT '' @ boolUpper b]) @
                  (case optSet opts of None \<Rightarrow> [] | Some b \<Rightarrow> [''SET '' @ boolUpper b])
      in ''GRANT '' @ quoteIdent role @ '' TO '' @ quoteIdent member @
         (if withs \<noteq> [] then '' WITH '' @ joinStr withs '', '' else []))"

end
