(* ===== verification/Pg_Lexer.thy ===== *)
theory Pg_Lexer
  imports Sql_Text
begin

text \<open>
  How PostgreSQL reads the statements that \<open>Sql_Text\<close> builds: the lexical rules of its manual
  (quoted identifiers, string constants with and without \<open>standard_conforming_strings\<close>, escape
  string constants, key words) and a recogniser for the GRANT and REVOKE forms. The lemmas show
  that every name and value the operator writes is read back as one token with that value, so no
  object name, grantee, comment or password can change the shape of a statement.
\<close>

section \<open>Tokens\<close>

datatype token = Word string | Ident string | Lit string | Sym char

text \<open>
  The text up to the closing quote, where a doubled quote stands for one; with \<open>esc\<close> a backslash
  escapes a quote or a backslash. Other escapes are not read: the builders never write them.
\<close>

fun readDelimited :: "char \<Rightarrow> bool \<Rightarrow> string \<Rightarrow> (string \<times> string) option" where
  "readDelimited q esc [] = None"
| "readDelimited q esc [c] = (if c = q then Some ([], []) else None)"
| "readDelimited q esc (c # d # s) =
     (if c = q
      then (if d = q then map_option (\<lambda>(t, r). (q # t, r)) (readDelimited q esc s) else Some ([], d # s))
      else if esc \<and> c = backslash
      then (if d = q \<or> d = backslash then map_option (\<lambda>(t, r). (d # t, r)) (readDelimited q esc s) else None)
      else map_option (\<lambda>(t, r). (c # t, r)) (readDelimited q esc (d # s)))"

definition isDigitChar :: "char \<Rightarrow> bool" where
  "isDigitChar c \<longleftrightarrow> (let n = (of_char c :: nat) in 48 \<le> n \<and> n \<le> 57)"

text \<open>Names are cut at 63 bytes (NAMEDATALEN - 1) and an empty quoted name is an error.\<close>

definition nameDataLen :: nat where
  "nameDataLen = 63"

lemma readDelimited_length: "readDelimited q esc s = Some (t, r) \<Longrightarrow> length r < length s"
  by (induction q esc s arbitrary: t rule: readDelimited.induct) (fastforce split: if_splits)+

function lexSql :: "bool \<Rightarrow> string \<Rightarrow> token list option" where
  "lexSql scs [] = Some []"
| "lexSql scs (c # s) =
     (if isSpaceChar c then lexSql scs s
      else if c = dquote
      then (case readDelimited dquote False s of
              None \<Rightarrow> None
            | Some (t, r) \<Rightarrow> if t = [] then None else map_option ((#) (Ident (take nameDataLen t))) (lexSql scs r))
      else if c = squote
      then (case readDelimited squote (\<not> scs) s of
              None \<Rightarrow> None
            | Some (t, r) \<Rightarrow> map_option ((#) (Lit t)) (lexSql scs r))
      else if (c = CHR ''E'' \<or> c = CHR ''e'') \<and> hasPrefix s [squote]
      then (case readDelimited squote True (tl s) of
              None \<Rightarrow> None
            | Some (t, r) \<Rightarrow> map_option ((#) (Lit t)) (lexSql scs r))
      else if identStartChar c
      then map_option ((#) (Word (toUpper (c # takeWhile identChar s)))) (lexSql scs (dropWhile identChar s))
      else if isDigitChar c
      then map_option ((#) (Word (c # takeWhile isDigitChar s))) (lexSql scs (dropWhile isDigitChar s))
      else map_option ((#) (Sym c)) (lexSql scs s))"
  by pat_completeness auto
termination
proof (relation "measure (\<lambda>(scs, s). length s)")
  show "wf (measure (\<lambda>(scs :: bool, s :: string). length s))" by simp
qed (auto simp: less_Suc_eq_le length_dropWhile_le dest!: readDelimited_length)

declare lexSql.simps [simp del]

section \<open>GRANT and REVOKE statements\<close>

datatype stmt =
    GrantStmt "string list" string "string list" "string option" bool
  | RevokeStmt bool "string list" string "string list" "string option" bool

fun parsePrivs :: "token list \<Rightarrow> (string list \<times> token list) option" where
  "parsePrivs (Word p # Sym c # ts) =
     (if c = CHR '','' then map_option (\<lambda>(ps, r). (p # ps, r)) (parsePrivs ts) else None)"
| "parsePrivs (Word p # Word w # ts) = (if w = ''ON'' then Some ([p], ts) else None)"
| "parsePrivs _ = None"

fun parseName :: "token list \<Rightarrow> (string list \<times> token list) option" where
  "parseName (Ident a # Sym c # ts) =
     (if c = CHR ''.'' then map_option (\<lambda>(ns, r). (a # ns, r)) (parseName ts) else Some ([a], Sym c # ts))"
| "parseName (Ident a # ts) = Some ([a], ts)"
| "parseName _ = None"

text \<open>The pseudo-role PUBLIC is \<open>None\<close>; the quoted name \<open>public\<close> means it too and \<open>none\<close> is reserved.\<close>

fun parseGrantee :: "token list \<Rightarrow> (string option \<times> token list) option" where
  "parseGrantee (Word w # ts) = (if w = ''PUBLIC'' then Some (None, ts) else None)"
| "parseGrantee (Ident g # ts) =
     (if g = ''public'' then Some (None, ts) else if g = ''none'' then None else Some (Some g, ts))"
| "parseGrantee _ = None"

definition objectWords :: "string list" where
  "objectWords = [''DATABASE'', ''SCHEMA'', ''PARAMETER'']"

text \<open>The common part of both statements: privileges, object, and the grantee after \<open>kw\<close>.\<close>

definition parseTarget :: "string \<Rightarrow> token list
    \<Rightarrow> (string list \<times> string \<times> string list \<times> string option \<times> token list) option" where
  "parseTarget kw ts =
     (case parsePrivs ts of
        Some (ps, Word kind # ts1) \<Rightarrow>
          if kind \<notin> set objectWords then None
          else (case parseName ts1 of
                  Some (name, Word w # ts2) \<Rightarrow>
                    if w = kw
                    then (case parseGrantee ts2 of
                            Some (g, ts3) \<Rightarrow> Some (ps, kind, name, g, ts3)
                          | None \<Rightarrow> None)
                    else None
                | _ \<Rightarrow> None)
      | _ \<Rightarrow> None)"

definition parseStmt :: "token list \<Rightarrow> stmt option" where
  "parseStmt ts =
     (case ts of
        Word w # ts1 \<Rightarrow>
          if w = ''GRANT''
          then (case parseTarget ''TO'' ts1 of
                  Some (ps, kind, name, g, rest) \<Rightarrow>
                    if rest = [] then Some (GrantStmt ps kind name g False)
                    else if rest = [Word ''WITH'', Word ''GRANT'', Word ''OPTION'']
                    then Some (GrantStmt ps kind name g True) else None
                | None \<Rightarrow> None)
          else if w = ''REVOKE''
          then (let optionOnly = (take 3 ts1 = [Word ''GRANT'', Word ''OPTION'', Word ''FOR'']);
                    ts2 = (if optionOnly then drop 3 ts1 else ts1)
                in case parseTarget ''FROM'' ts2 of
                     Some (ps, kind, name, g, rest) \<Rightarrow>
                       if rest = [] then Some (RevokeStmt optionOnly ps kind name g False)
                       else if rest = [Word ''CASCADE''] then Some (RevokeStmt optionOnly ps kind name g True)
                       else None
                   | None \<Rightarrow> None)
          else None
      | _ \<Rightarrow> None)"

definition parseSql :: "bool \<Rightarrow> string \<Rightarrow> stmt option" where
  "parseSql scs q = (case lexSql scs q of None \<Rightarrow> None | Some ts \<Rightarrow> parseStmt ts)"

section \<open>Reading back what the builders write\<close>

text \<open>A quoted text ends at its own closing quote, whatever follows (except another quote).\<close>

lemma readDelimited_doubled:
  "\<not> hasPrefix r [q] \<Longrightarrow> q \<noteq> backslash \<Longrightarrow> \<not> esc \<or> backslash \<notin> set t \<Longrightarrow>
    readDelimited q esc (replaceChar q [q, q] t @ q # r) = Some (t, r)"
proof (induction t)
  case Nil
  then show ?case by (cases r) (auto simp: replaceChar_def hasPrefix_def)
next
  case (Cons c t)
  then have IH: "readDelimited q esc (replaceChar q [q, q] t @ q # r) = Some (t, r)" by auto
  obtain d u where u: "replaceChar q [q, q] t @ q # r = d # u"
    by (cases "replaceChar q [q, q] t @ q # r") auto
  have "replaceChar q [q, q] (c # t) @ q # r = (if c = q then [q, q] else [c]) @ d # u"
    unfolding u [symmetric] by (simp add: replaceChar_def)
  then show ?case using IH u Cons.prems by (auto simp: replaceChar_def)
qed

lemma readDelimited_escaped:
  "\<not> hasPrefix r [q] \<Longrightarrow> q \<noteq> backslash \<Longrightarrow>
    readDelimited q True (replaceChar backslash [backslash, backslash] (replaceChar q [q, q] t) @ q # r) = Some (t, r)"
proof (induction t)
  case Nil
  then show ?case by (cases r) (auto simp: replaceChar_def hasPrefix_def)
next
  case (Cons c t)
  let ?f = "\<lambda>t. replaceChar backslash [backslash, backslash] (replaceChar q [q, q] t) @ q # r"
  obtain d u where u: "?f t = d # u" by (cases "?f t") auto
  have "?f (c # t) = (if c = q then [q, q] else if c = backslash then [backslash, backslash] else [c]) @ d # u"
    unfolding u [symmetric] using Cons.prems by (simp add: replaceChar_def)
  then show ?case using Cons u by auto
qed

lemma lexSql_space [str_simps]: "isSpaceChar c \<Longrightarrow> lexSql scs (c # s) = lexSql scs s"
  by (simp add: lexSql.simps)

lemma lexSql_quoteIdent:
  assumes "s \<noteq> []" and "length s \<le> nameDataLen" and "\<not> hasPrefix r [dquote]"
  shows "lexSql scs (quoteIdent s @ r) = map_option ((#) (Ident s)) (lexSql scs r)"
proof -
  have "readDelimited dquote False (replaceChar dquote [dquote, dquote] s @ dquote # r) = Some (s, r)"
    by (rule readDelimited_doubled) (use assms in auto)
  with assms show ?thesis
    by (simp add: quoteIdent_def lexSql.simps isSpaceChar_def)
qed

lemma lexSql_quoteLiteral:
  assumes "\<not> hasPrefix r [squote]"
  shows "lexSql scs (quoteLiteral s @ r) = map_option ((#) (Lit s)) (lexSql scs r)"
proof (cases "backslash \<in> set s")
  case True
  then have "quoteLiteral s = [CHR ''E'', squote] @
      replaceChar backslash [backslash, backslash] (replaceChar squote [squote, squote] s) @ [squote]"
    by (auto simp: quoteLiteral_def replaceChar_def)
  moreover have "readDelimited squote True
      (replaceChar backslash [backslash, backslash] (replaceChar squote [squote, squote] s) @ squote # r) = Some (s, r)"
    by (rule readDelimited_escaped) (use assms in auto)
  ultimately show ?thesis
    by (simp add: lexSql.simps isSpaceChar_def hasPrefix_def)
next
  case False
  then have "quoteLiteral s = [squote] @ replaceChar squote [squote, squote] s @ [squote]"
    by (auto simp: quoteLiteral_def replaceChar_def Let_def split: if_splits)
  moreover have "readDelimited squote (\<not> scs) (replaceChar squote [squote, squote] s @ squote # r) = Some (s, r)"
    by (rule readDelimited_doubled) (use assms False in auto)
  ultimately show ?thesis
    by (simp add: lexSql.simps isSpaceChar_def)
qed

text \<open>A key word followed by something that cannot continue it.\<close>

definition keyWord :: "string \<Rightarrow> bool" where
  "keyWord w \<longleftrightarrow> w \<noteq> [] \<and> identStartChar (hd w) \<and> list_all identChar w \<and> toUpper w = w"

lemma lexSql_word:
  assumes "keyWord w" and "r = [] \<or> \<not> identChar (hd r)" and "\<not> hasPrefix r [squote]"
  shows "lexSql scs (w @ r) = map_option ((#) (Word w)) (lexSql scs r)"
proof -
  obtain c v where w: "w = c # v" using assms(1) by (cases w) (auto simp: keyWord_def)
  have v: "\<forall>x \<in> set v. identChar x" using assms(1) w by (auto simp: keyWord_def list_all_iff)
  have "takeWhile identChar (v @ r) = v \<and> dropWhile identChar (v @ r) = r"
    using v assms(2) by (cases r) (auto simp: takeWhile_append dropWhile_append dropWhile_eq_Nil_conv)
  moreover have "\<not> isSpaceChar c" "c \<noteq> dquote" "c \<noteq> squote" "identStartChar c"
    using assms(1) w by (auto simp: keyWord_def identStartChar_def isSpaceChar_def Let_def)
  moreover have "\<not> hasPrefix (v @ r) [squote]"
    using v assms(3) by (cases v) (auto simp: hasPrefix_def identChar_def identStartChar_def Let_def)
  ultimately show ?thesis
    using assms(1) w by (simp add: lexSql.simps keyWord_def)
qed

lemma lexSql_sym:
  "\<not> isSpaceChar c \<Longrightarrow> c \<noteq> dquote \<Longrightarrow> c \<noteq> squote \<Longrightarrow> \<not> identStartChar c \<Longrightarrow> \<not> isDigitChar c \<Longrightarrow>
    lexSql scs (c # s) = map_option ((#) (Sym c)) (lexSql scs s)"
  by (auto simp: lexSql.simps identStartChar_def Let_def)

subsection \<open>The parts of a statement\<close>

fun privTokens :: "string list \<Rightarrow> token list" where
  "privTokens [] = []"
| "privTokens [p] = [Word p, Word ''ON'']"
| "privTokens (p # q # ps) = Word p # Sym (CHR '','') # privTokens (q # ps)"

fun nameTokens :: "string list \<Rightarrow> token list" where
  "nameTokens [] = []"
| "nameTokens [n] = [Ident n]"
| "nameTokens (n # m # ns) = Ident n # Sym (CHR ''.'') # nameTokens (m # ns)"

lemma lexSql_keyword:
  assumes "keyWord w"
  shows "lexSql scs (w @ CHR '' '' # r) = map_option ((#) (Word w)) (lexSql scs r)"
  using lexSql_word [OF assms, of "CHR '' '' # r" scs] lexSql_space [of "CHR '' ''" scs r]
  by (simp add: identChar_def identStartChar_def isSpaceChar_def hasPrefix_def)

lemma keyWords [simp]:
  "keyWord ''GRANT''" "keyWord ''REVOKE''" "keyWord ''ON''" "keyWord ''TO''" "keyWord ''FROM''" "keyWord ''OPTION''"
  "keyWord ''FOR''" "keyWord ''WITH''" "keyWord ''CASCADE''" "keyWord ''PUBLIC''" "keyWord ''DATABASE''"
  "keyWord ''SCHEMA''" "keyWord ''PARAMETER''" "keyWord ''ALL''" "keyWord ''CONNECT''" "keyWord ''CREATE''"
  "keyWord ''TEMPORARY''" "keyWord ''TEMP''" "keyWord ''USAGE''" "keyWord ''SET''"
  by code_simp+

lemma lexSql_privs:
  "ps \<noteq> [] \<Longrightarrow> \<forall>p \<in> set ps. keyWord p \<Longrightarrow>
    lexSql scs (joinStr ps '', '' @ '' ON '' @ r) = map_option ((@) (privTokens ps)) (lexSql scs r)"
proof (induction ps rule: privTokens.induct)
  case (2 p)
  have on: "lexSql scs (CHR ''O'' # CHR ''N'' # CHR '' '' # r) = map_option ((#) (Word ''ON'')) (lexSql scs r)"
    using lexSql_keyword [of "''ON''" scs r] by simp
  show ?case
    using 2 lexSql_keyword [of p scs "''ON'' @ CHR '' '' # r"] on by (simp add: option.map_comp comp_def)
next
  case (3 p q ps)
  let ?t = "joinStr (q # ps) '', '' @ '' ON '' @ r"
  have "lexSql scs (p @ CHR '','' # CHR '' '' # ?t) = map_option ((#) (Word p)) (lexSql scs (CHR '','' # CHR '' '' # ?t))"
    by (rule lexSql_word) (use 3 in \<open>auto simp: identChar_def identStartChar_def hasPrefix_def\<close>)
  also have "lexSql scs (CHR '','' # CHR '' '' # ?t) = map_option ((#) (Sym (CHR '',''))) (lexSql scs (CHR '' '' # ?t))"
    by (rule lexSql_sym) (auto simp: identStartChar_def isSpaceChar_def isDigitChar_def)
  also have "lexSql scs (CHR '' '' # ?t) = lexSql scs ?t"
    by (rule lexSql_space) (simp add: isSpaceChar_def)
  also have "lexSql scs ?t = map_option ((@) (privTokens (q # ps))) (lexSql scs r)"
    using 3 by simp
  finally show ?case by (simp add: option.map_comp comp_def)
qed simp

lemma parsePrivs_tokens: "ps \<noteq> [] \<Longrightarrow> parsePrivs (privTokens ps @ ts) = Some (ps, ts)"
  by (induction ps rule: privTokens.induct) auto

lemma lexSql_name:
  "ns \<noteq> [] \<Longrightarrow> \<forall>n \<in> set ns. n \<noteq> [] \<and> length n \<le> nameDataLen \<Longrightarrow>
    lexSql scs (joinStr (map quoteIdent ns) ''.'' @ CHR '' '' # r) = map_option ((@) (nameTokens ns)) (lexSql scs r)"
proof (induction ns rule: nameTokens.induct)
  case (2 n)
  have "lexSql scs (quoteIdent n @ CHR '' '' # r) = map_option ((#) (Ident n)) (lexSql scs (CHR '' '' # r))"
    by (rule lexSql_quoteIdent) (use 2 in \<open>auto simp: hasPrefix_def\<close>)
  also have "lexSql scs (CHR '' '' # r) = lexSql scs r"
    by (rule lexSql_space) (simp add: isSpaceChar_def)
  finally show ?case by (simp add: append_Cons [abs_def])
next
  case (3 n m ns)
  let ?t = "joinStr (map quoteIdent (m # ns)) ''.'' @ CHR '' '' # r"
  have "lexSql scs (quoteIdent n @ CHR ''.'' # ?t) = map_option ((#) (Ident n)) (lexSql scs (CHR ''.'' # ?t))"
    by (rule lexSql_quoteIdent) (use 3 in \<open>auto simp: hasPrefix_def\<close>)
  also have "lexSql scs (CHR ''.'' # ?t) = map_option ((#) (Sym (CHR ''.''))) (lexSql scs ?t)"
    by (rule lexSql_sym) (auto simp: identStartChar_def isSpaceChar_def isDigitChar_def)
  also have "lexSql scs ?t = map_option ((@) (nameTokens (m # ns))) (lexSql scs r)"
    using 3 by simp
  finally show ?case by (simp add: option.map_comp comp_def)
qed simp

lemma parseName_tokens: "ns \<noteq> [] \<Longrightarrow> parseName (nameTokens ns @ Word w # ts) = Some (ns, Word w # ts)"
  by (induction ns rule: nameTokens.induct) auto

lemma checkPrivilegesLoop_ok:
  "checkPrivilegesLoop kind allowed ps out = Inr qs \<Longrightarrow>
    set qs = set out \<union> canonicalKeyword ` set ps \<and> canonicalKeyword ` set ps \<subseteq> set allowed \<and> (distinct out \<longrightarrow> distinct qs)"
  by (induction kind allowed ps out rule: checkPrivilegesLoop.induct) (auto simp: Let_def split: if_splits)

lemma checkPrivileges_ok:
  assumes "checkPrivileges kind ps allowed = Inr qs"
  shows "set qs = canonicalKeyword ` set ps" "set qs \<subseteq> set allowed" "qs \<noteq> []" "distinct qs"
proof -
  from assms have ps: "ps \<noteq> []" and c: "checkPrivilegesLoop kind allowed ps [] = Inr qs"
    by (auto simp: checkPrivileges_def split: if_splits)
  from checkPrivilegesLoop_ok [OF c] show "set qs = canonicalKeyword ` set ps" "set qs \<subseteq> set allowed" "distinct qs" by auto
  with ps show "qs \<noteq> []" by auto
qed

text \<open>The parts of the name of an object, and the grantee as PostgreSQL sees it.\<close>

definition objParts :: "PrivilegeObject \<Rightarrow> string list" where
  "objParts obj = (if Kind obj = ObjectParameter then splitStr (toLower (Name obj)) (CHR ''.'') else [Name obj])"

definition granteeOf :: "string \<Rightarrow> string option" where
  "granteeOf g = (if IsPublic g then None else Some g)"

lemma identPart_lower: "identPart w \<Longrightarrow> identPart (toLower w) \<and> w \<noteq> []"
proof -
  have "identStartChar c \<Longrightarrow> identStartChar (toLowerChar c)" "identChar c \<Longrightarrow> identChar (toLowerChar c)" for c
    by (auto simp: identStartChar_def identChar_def toLowerChar_def Let_def)
  then show "identPart w \<Longrightarrow> identPart (toLower w) \<and> w \<noteq> []"
    by (cases w) (auto simp: identPart_def toLower_def list_all_iff)
qed

lemma toLower_dot: "toLowerChar c = CHR ''.'' \<longleftrightarrow> c = CHR ''.''"
proof -
  have "of_char (toLowerChar c) = (46 :: nat) \<longleftrightarrow> of_char c = (46 :: nat)"
    by (auto simp: toLowerChar_def Let_def)
  moreover have "x = CHR ''.'' \<longleftrightarrow> of_char x = (46 :: nat)" for x
    using of_char_eq_iff [where 'a = nat, of x "CHR ''.''"] by simp
  ultimately show ?thesis by blast
qed

lemma splitStr_toLower: "splitStr (toLower s) (CHR ''.'') = map toLower (splitStr s (CHR ''.''))"
  by (induction s) (auto simp: splitStr_def toLower_def toLower_dot split: list.splits)

lemma parameterName_parts:
  assumes "NormalizeParameterName name = Inr n"
  shows "n = toLower name" "\<forall>w \<in> set (splitStr n (CHR ''.'')). identPart w"
proof -
  from assms show n: "n = toLower name" by (auto simp: NormalizeParameterName_def split: if_splits)
  from assms have "list_all identPart (splitStr name (CHR ''.''))"
    by (auto simp: NormalizeParameterName_def parameterNameRe_def split: if_splits)
  then show "\<forall>w \<in> set (splitStr n (CHR ''.'')). identPart w"
    unfolding n splitStr_toLower by (auto simp: list_all_iff dest: identPart_lower)
qed

lemma renderObject_ok:
  assumes "renderObject obj ps = Inr (privs, object)"
  shows "object = Kind obj @ CHR '' '' # joinStr (map quoteIdent (objParts obj)) ''.''" "Kind obj \<in> set objectWords"
    "\<forall>n \<in> set (objParts obj). n \<noteq> []" "objParts obj \<noteq> []"
    "set privs = canonicalKeyword ` set ps" "privs \<noteq> []" "\<forall>p \<in> set privs. keyWord p"
proof -
  from assms obtain k where k: "objectKinds (Kind obj) = Some k"
    and c: "checkPrivileges (label k) ps (privileges k) = Inr privs" and r: "render k (Name obj) = Inr object"
    by (auto simp: renderObject_def split: option.splits sum.splits)
  note ok = checkPrivileges_ok [OF c]
  from ok show "set privs = canonicalKeyword ` set ps" "privs \<noteq> []" by simp_all
  from k have "\<forall>p \<in> set (privileges k). keyWord p"
    by (auto simp: objectKinds_def databasePrivileges_def schemaPrivileges_def parameterPrivileges_def split: if_splits)
  with ok(2) show "\<forall>p \<in> set privs. keyWord p" by blast
  from k show "Kind obj \<in> set objectWords" by (auto simp: objectKinds_def objectWords_def split: if_splits)
  have "object = Kind obj @ CHR '' '' # joinStr (map quoteIdent (objParts obj)) ''.'' \<and> (\<forall>n \<in> set (objParts obj). n \<noteq> [])"
  proof (cases "Kind obj = ObjectParameter")
    case True
    with k r obtain quoted where q: "quoteParameterName (Name obj) = Inr quoted" "object = ''PARAMETER '' @ quoted"
      by (auto simp: objectKinds_def split: sum.splits)
    then obtain n where n: "NormalizeParameterName (Name obj) = Inr n"
      "quoted = joinStr (map quoteIdent (splitStr n (CHR ''.''))) ''.''"
      by (auto simp: quoteParameterName_def split: sum.splits)
    have "w \<noteq> []" if "identPart w" for w using that by (cases w) (auto simp: identPart_def)
    with parameterName_parts [OF n(1)] n(2) q(2) True show ?thesis
      by (auto simp: objParts_def)
  next
    case False
    with k r show ?thesis
      by (auto simp: objectKinds_def quotedName_def objParts_def split: if_splits)
  qed
  then show "object = Kind obj @ CHR '' '' # joinStr (map quoteIdent (objParts obj)) ''.''"
    "\<forall>n \<in> set (objParts obj). n \<noteq> []" by simp_all
  show "objParts obj \<noteq> []" by (simp add: objParts_def splitStr_def)
qed

definition granteeToken :: "string \<Rightarrow> token" where
  "granteeToken g = (if IsPublic g then Word ''PUBLIC'' else Ident g)"

lemma renderGrantee_ok:
  assumes "renderGrantee g = Inr to" and "length g \<le> nameDataLen" and "r = [] \<or> hd r = CHR '' ''"
  shows "lexSql scs (to @ r) = map_option ((#) (granteeToken g)) (lexSql scs r)"
    "parseGrantee (granteeToken g # ts) = Some (granteeOf g, ts)"
proof -
  have r: "\<not> hasPrefix r [squote]" "\<not> hasPrefix r [dquote]" "r = [] \<or> \<not> identChar (hd r)"
    using assms(3) by (cases r; auto simp: hasPrefix_def identChar_def identStartChar_def)+
  show "lexSql scs (to @ r) = map_option ((#) (granteeToken g)) (lexSql scs r)"
  proof (cases "IsPublic g")
    case True
    with assms(1) have "to = ''PUBLIC''" by (auto simp: renderGrantee_def split: if_splits)
    with True lexSql_word [of "''PUBLIC''" r scs] r show ?thesis by (simp add: granteeToken_def)
  next
    case False
    with assms(1) have "to = quoteIdent g" "g \<noteq> []" by (auto simp: renderGrantee_def split: if_splits)
    with False lexSql_quoteIdent [of g r scs] assms(2) r show ?thesis by (simp add: granteeToken_def)
  qed
  have "g \<noteq> ''public''" if "\<not> IsPublic g"
  proof
    assume "g = ''public''"
    moreover have "IsPublic ''public''" by code_simp
    ultimately show False using that by simp
  qed
  moreover have "g \<noteq> ''none''" if "\<not> IsPublic g"
    using that assms(1) by (auto simp: renderGrantee_def split: if_splits)
  ultimately show "parseGrantee (granteeToken g # ts) = Some (granteeOf g, ts)"
    by (simp add: granteeToken_def granteeOf_def)
qed

text \<open>The part both statements share, and the two round trips.\<close>

lemma lexSql_target:
  assumes "renderObject obj ps = Inr (privs, object)" and "renderGrantee g = Inr to"
    and "\<forall>n \<in> set (objParts obj). length n \<le> nameDataLen" and "length g \<le> nameDataLen"
    and "keyWord kw" and "r = [] \<or> hd r = CHR '' ''" and "lexSql scs r = Some ts"
  shows "\<exists>tks. lexSql scs (joinStr privs '', '' @ '' ON '' @ object @ CHR '' '' # kw @ CHR '' '' # to @ r) = Some tks \<and>
    parseTarget kw tks = Some (privs, Kind obj, objParts obj, granteeOf g, ts)"
proof -
  note ok = renderObject_ok [OF assms(1)] and gr = renderGrantee_ok [OF assms(2,4,6)]
  let ?n = "joinStr (map quoteIdent (objParts obj)) ''.''"
  have kind: "keyWord (Kind obj)" using ok(2) by (auto simp: objectWords_def)
  have "lexSql scs (to @ r) = Some (granteeToken g # ts)" using gr(1) [of scs] assms(7) by simp
  then have "lexSql scs (kw @ CHR '' '' # to @ r) = Some (Word kw # granteeToken g # ts)"
    using lexSql_keyword [OF assms(5), of scs "to @ r"] by simp
  then have "lexSql scs (?n @ CHR '' '' # kw @ CHR '' '' # to @ r) =
      Some (nameTokens (objParts obj) @ Word kw # granteeToken g # ts)"
    using lexSql_name [of "objParts obj" scs "kw @ CHR '' '' # to @ r"] ok(3,4) assms(3) by simp
  then have "lexSql scs (object @ CHR '' '' # kw @ CHR '' '' # to @ r) =
      Some (Word (Kind obj) # nameTokens (objParts obj) @ Word kw # granteeToken g # ts)"
    using lexSql_keyword [OF kind, of scs "?n @ CHR '' '' # kw @ CHR '' '' # to @ r"] ok(1) by simp
  then have "lexSql scs (joinStr privs '', '' @ '' ON '' @ object @ CHR '' '' # kw @ CHR '' '' # to @ r) =
      Some (privTokens privs @ Word (Kind obj) # nameTokens (objParts obj) @ Word kw # granteeToken g # ts)"
    using lexSql_privs [of privs scs "object @ CHR '' '' # kw @ CHR '' '' # to @ r"] ok(6,7) by simp
  moreover have "parseTarget kw (privTokens privs @ Word (Kind obj) # nameTokens (objParts obj) @ Word kw # granteeToken g # ts)
      = Some (privs, Kind obj, objParts obj, granteeOf g, ts)"
    using ok(2,4,6) gr(2) by (simp add: parseTarget_def parsePrivs_tokens parseName_tokens)
  ultimately show ?thesis by blast
qed

lemma lexSql_words:
  "lexSql scs '' WITH GRANT OPTION'' = Some [Word ''WITH'', Word ''GRANT'', Word ''OPTION'']"
  "lexSql scs '' CASCADE'' = Some [Word ''CASCADE'']" "lexSql scs [] = Some []"
  by (cases scs; code_simp)+

lemma buildGrantPrivilegesQuery_reads:
  assumes "buildGrantPrivilegesQuery obj g ps w = Inr q"
    and "\<forall>n \<in> set (objParts obj). length n \<le> nameDataLen" and "length g \<le> nameDataLen"
  shows "\<exists>privs. set privs = canonicalKeyword ` set ps \<and>
    parseSql scs q = Some (GrantStmt privs (Kind obj) (objParts obj) (granteeOf g) w)"
proof -
  from assms(1) obtain privs object to where r: "renderObject obj ps = Inr (privs, object)" "renderGrantee g = Inr to"
    and q: "q = buildGrantQuery privs object to w"
    by (auto simp: buildGrantPrivilegesQuery_def split: sum.splits prod.splits if_splits)
  let ?r = "if w then '' WITH GRANT OPTION'' else []"
  let ?ts = "if w then [Word ''WITH'', Word ''GRANT'', Word ''OPTION''] else []"
  have tail: "?r = [] \<or> hd ?r = CHR '' ''" "lexSql scs ?r = Some ?ts" using lexSql_words [of scs] by simp_all
  obtain tks where "lexSql scs (joinStr privs '', '' @ '' ON '' @ object @ CHR '' '' # ''TO'' @ CHR '' '' # to @ ?r) = Some tks"
    and p: "parseTarget ''TO'' tks = Some (privs, Kind obj, objParts obj, granteeOf g, ?ts)"
    using lexSql_target [OF r assms(2,3) keyWords(4) tail] by blast
  then have "lexSql scs q = Some (Word ''GRANT'' # tks)"
    using lexSql_keyword [of "''GRANT''" scs "joinStr privs '', '' @ '' ON '' @ object @ CHR '' '' # ''TO'' @ CHR '' '' # to @ ?r"]
    by (simp add: q buildGrantQuery_def)
  with p show ?thesis
    using renderObject_ok(5) [OF r(1)] by (auto simp: parseSql_def parseStmt_def)
qed

lemma buildRevokePrivilegesQuery_reads:
  assumes "buildRevokePrivilegesQuery obj g ps mode = Inr q"
    and "\<forall>n \<in> set (objParts obj). length n \<le> nameDataLen" and "length g \<le> nameDataLen"
  shows "\<exists>privs. set privs = canonicalKeyword ` set ps \<and>
    parseSql scs q = Some (RevokeStmt (GrantOptionOnly mode) privs (Kind obj) (objParts obj) (granteeOf g) (Cascade mode))"
proof -
  from assms(1) obtain privs object to where r: "renderObject obj ps = Inr (privs, object)" "renderGrantee g = Inr to"
    and q: "q = buildRevokeQuery privs object to mode"
    by (auto simp: buildRevokePrivilegesQuery_def split: sum.splits prod.splits)
  let ?r = "if Cascade mode then '' CASCADE'' else []"
  let ?ts = "if Cascade mode then [Word ''CASCADE''] else []"
  let ?t = "joinStr privs '', '' @ '' ON '' @ object @ CHR '' '' # ''FROM'' @ CHR '' '' # to @ ?r"
  let ?o = "if GrantOptionOnly mode then [Word ''GRANT'', Word ''OPTION'', Word ''FOR''] else []"
  have tail: "?r = [] \<or> hd ?r = CHR '' ''" "lexSql scs ?r = Some ?ts" using lexSql_words [of scs] by simp_all
  obtain tks where t: "lexSql scs ?t = Some tks"
    and p: "parseTarget ''FROM'' tks = Some (privs, Kind obj, objParts obj, granteeOf g, ?ts)"
    using lexSql_target [OF r assms(2,3) keyWords(5) tail] by blast
  have "lexSql scs (''GRANT'' @ CHR '' '' # ''OPTION'' @ CHR '' '' # ''FOR'' @ CHR '' '' # ?t) =
      Some (Word ''GRANT'' # Word ''OPTION'' # Word ''FOR'' # tks)"
    by (simp only: lexSql_keyword keyWords t option.map)
  then have "lexSql scs q = Some (Word ''REVOKE'' # ?o @ tks)"
    using lexSql_keyword [of "''REVOKE''" scs "(if GrantOptionOnly mode then ''GRANT OPTION FOR '' else []) @ ?t"] t
    by (simp add: q buildRevokeQuery_def)
  moreover have "take 3 tks \<noteq> [Word ''GRANT'', Word ''OPTION'', Word ''FOR'']"
  proof
    assume "take 3 tks = [Word ''GRANT'', Word ''OPTION'', Word ''FOR'']"
    then have "tks = [Word ''GRANT'', Word ''OPTION'', Word ''FOR''] @ drop 3 tks"
      by (metis append_take_drop_id)
    then obtain u where "tks = Word ''GRANT'' # Word ''OPTION'' # u" by simp
    with p show False by (simp add: parseTarget_def)
  qed
  ultimately show ?thesis
    using p renderObject_ok(5) [OF r(1)] by (auto simp: parseSql_def parseStmt_def)
qed

end
