(* ===== verification/Pg_Client.thy ===== *)
theory Pg_Client
  imports Pg_Lexer
begin

text \<open>
  The PostgreSQL client of \<open>internal/postgres/client.go\<close> and \<open>privileges.go\<close>: every method that
  runs a statement or reads the catalogs for roles, memberships, databases, schemas, privileges
  and settings. The connection (\<open>database/sql\<close> with the lib/pq driver) is the parameter \<open>db\<close>: a
  statement runs and reports an error or not, a query returns rows of values, then possibly an
  error of the row stream. The SCRAM verifier of \<open>scram.go\<close> is a parameter too, because it draws a
  random salt.
\<close>

section \<open>The connection\<close>

datatype sqlValue = SNull | SText string | SBool bool | SInt int | SArray "sqlValue list"

record 's db =
  execDb :: "string \<Rightarrow> ('s, error option) state"
  queryDb :: "string \<Rightarrow> sqlValue list \<Rightarrow> ('s, error + sqlValue list list \<times> error option) state"
  beginTx :: "('s, error option) state"
  commitTx :: "('s, error option) state"
  rollbackTx :: "('s, unit) state"

definition ErrNoRows :: error where
  "ErrNoRows = Errorf ''sql: no rows in result set'' []"

definition scanError :: error where
  "scanError = Errorf ''sql: Scan error'' []"

text \<open>\<open>QueryRowContext(...).Scan\<close>: the first row, or the error of the query or of an empty result.\<close>

definition firstRow :: "error + sqlValue list list \<times> error option \<Rightarrow> error + sqlValue list" where
  "firstRow r =
     (case r of
        Inl e \<Rightarrow> Inl e
      | Inr ([], Some e) \<Rightarrow> Inl e
      | Inr ([], None) \<Rightarrow> Inl ErrNoRows
      | Inr (row # rows, e) \<Rightarrow> Inr row)"

definition queryRow :: "'s db \<Rightarrow> string \<Rightarrow> sqlValue list \<Rightarrow> ('s, error + sqlValue list) state" where
  "queryRow db q args = do {
     r \<leftarrow> queryDb db q args;
     ret (firstRow r)
   }"

definition scanBool :: "sqlValue list \<Rightarrow> error + bool" where
  "scanBool row = (case row of [SBool b] \<Rightarrow> Inr b | _ \<Rightarrow> Inl scanError)"

definition scanText :: "sqlValue list \<Rightarrow> error + string" where
  "scanText row = (case row of [SText t] \<Rightarrow> Inr t | _ \<Rightarrow> Inl scanError)"

definition scanned :: "(sqlValue list \<Rightarrow> error + 'a) \<Rightarrow> error + sqlValue list \<Rightarrow> error + 'a" where
  "scanned scan r = (case r of Inl e \<Rightarrow> Inl e | Inr row \<Rightarrow> scan row)"

text \<open>A query of one boolean, with its error wrapped.\<close>

definition queryBool :: "'s db \<Rightarrow> string \<Rightarrow> sqlValue list \<Rightarrow> string \<Rightarrow> string list \<Rightarrow> ('s, error + bool) state" where
  "queryBool db q args fmt xs = do {
     r \<leftarrow> queryRow db q args;
     ret (case scanned scanBool r of Inl e \<Rightarrow> Inl (Wrapf fmt xs e) | Inr b \<Rightarrow> Inr b)
   }"

text \<open>A statement, with its error wrapped.\<close>

definition execWrap :: "'s db \<Rightarrow> string \<Rightarrow> string \<Rightarrow> string list \<Rightarrow> ('s, error option) state" where
  "execWrap db q fmt xs = do {
     e \<leftarrow> execDb db q;
     ret (map_option (Wrapf fmt xs) e)
   }"

section \<open>Error text\<close>

fun sprintf :: "string \<Rightarrow> string list \<Rightarrow> string" where
  "sprintf [] xs = []"
| "sprintf [c] xs = [c]"
| "sprintf (c # d # f) xs =
     (if c = CHR ''%''
      then (case xs of
              [] \<Rightarrow> c # sprintf (d # f) xs
            | x # xs' \<Rightarrow> (if d = CHR ''q'' then quoteGo x else x) @ sprintf f xs')
      else c # sprintf (d # f) xs)"

fun errText :: "error \<Rightarrow> string" where
  "errText (PqError code msg) = ''pq: '' @ msg"
| "errText (Errorf f xs) = sprintf f xs"
| "errText (Wrapf f xs e) = sprintf f (xs @ [errText e])"
| "errText (ConditionError r e) = errText e"
| "errText (Joined []) = []"
| "errText (Joined [e]) = errText e"
| "errText (Joined (e # e' # es)) = errText e @ [CHR 0x0A] @ errText (Joined (e' # es))"

text \<open>\<open>strings.ReplaceAll\<close> of a non-empty text, left to right and without overlaps.\<close>

function replaceAll :: "string \<Rightarrow> string \<Rightarrow> string \<Rightarrow> string" where
  "replaceAll old new [] = []"
| "replaceAll old new (c # s) =
     (if old \<noteq> [] \<and> hasPrefix (c # s) old then new @ replaceAll old new (drop (length old) (c # s))
      else c # replaceAll old new s)"
  by pat_completeness auto
termination
  by (relation "measure (\<lambda>(old, new, s). length s)") auto

text \<open>\<open>errors.AsType[*pq.Error]\<close> with the message of the driver error.\<close>

fun asPqMessage :: "error \<Rightarrow> string option" where
  "asPqMessage (PqError code msg) = Some msg"
| "asPqMessage (Errorf f xs) = None"
| "asPqMessage (Wrapf f xs e) = asPqMessage e"
| "asPqMessage (ConditionError r e) = asPqMessage e"
| "asPqMessage (Joined []) = None"
| "asPqMessage (Joined (e # es)) =
     (case asPqMessage e of Some c \<Rightarrow> Some c | None \<Rightarrow> asPqMessage (Joined es))"

definition redactForms :: "string \<Rightarrow> string list" where
  "redactForms s = [quoteLiteral s, escapeString s, s]"

definition redactText :: "string list \<Rightarrow> string \<Rightarrow> string" where
  "redactText secrets text =
     foldl (\<lambda>t s. if s = [] then t else foldl (\<lambda>t form. replaceAll form ''[REDACTED]'' t) t (redactForms s)) text secrets"

definition redactedError :: "string \<Rightarrow> error \<Rightarrow> string list \<Rightarrow> error" where
  "redactedError msg err secrets =
     (let text = (case (asPqError err, asPqMessage err) of
                    (Some code, Some m) \<Rightarrow> sprintf ''%s (SQLSTATE %s)'' [m, code]
                  | _ \<Rightarrow> errText err)
      in Errorf ''%s: %s'' [msg, redactText secrets text])"

section \<open>Roles\<close>

definition ErrObjectExists :: error where
  "ErrObjectExists = Errorf ''the object already exists'' []"

definition duplicateObjectError :: "string \<Rightarrow> error \<Rightarrow> error option" where
  "duplicateObjectError what err =
     (case asPqError err of
        Some code \<Rightarrow>
          if code = ''42710'' \<or> code = ''42P04'' \<or> code = ''42P06''
          then Some (Wrapf ''%s: %w'' [what] ErrObjectExists) else None
      | None \<Rightarrow> None)"

definition roleExistsQuery :: string where
  "roleExistsQuery = ''SELECT EXISTS(SELECT 1 FROM pg_roles WHERE rolname = $1)''"

definition RoleExists :: "'s db \<Rightarrow> string \<Rightarrow> ('s, error + bool) state" where
  "RoleExists db name = queryBool db roleExistsQuery [SText name] ''failed to check role existence: %w'' []"

text \<open>The statement of \<open>CreateRole\<close>, its comment when there is one, both in one transaction.\<close>

definition roleStmtError :: "string \<Rightarrow> string list \<Rightarrow> error \<Rightarrow> error" where
  "roleStmtError name secrets e =
     (case duplicateObjectError (sprintf ''role %q'' [name]) e of
        Some dup \<Rightarrow> dup
      | None \<Rightarrow> redactedError (sprintf ''failed to create/alter role %q'' [name]) e secrets)"

definition execRole :: "'s db \<Rightarrow> string \<Rightarrow> string \<Rightarrow> string \<Rightarrow> string list \<Rightarrow> ('s, error option) state" where
  "execRole db name query comment secrets =
     (if comment = []
      then do {
        e \<leftarrow> execDb db query;
        ret (map_option (roleStmtError name secrets) e)
      }
      else do {
        e0 \<leftarrow> beginTx db;
        (case e0 of
           Some e \<Rightarrow> ret (Some (Wrapf ''failed to create/alter role %q: %w'' [name] e))
         | None \<Rightarrow> do {
             e1 \<leftarrow> execDb db query;
             (case e1 of
                Some e \<Rightarrow> do { _ \<leftarrow> rollbackTx db; ret (Some (roleStmtError name secrets e)) }
              | None \<Rightarrow> do {
                  e2 \<leftarrow> execDb db (buildCommentQuery ''ROLE'' name comment);
                  (case e2 of
                     Some e \<Rightarrow> do { _ \<leftarrow> rollbackTx db; ret (Some (Wrapf ''failed to comment on role %q: %w'' [name] e)) }
                   | None \<Rightarrow> do {
                       e3 \<leftarrow> commitTx db;
                       (case e3 of
                          Some e \<Rightarrow> do { _ \<leftarrow> rollbackTx db;
                            ret (Some (redactedError (sprintf ''failed to create/alter role %q'' [name]) e secrets)) }
                        | None \<Rightarrow> ret None)
                     })
                })
           })
      })"

definition CreateRoleStmts :: "'s db \<Rightarrow> (string \<Rightarrow> ('s, error + string) state) \<Rightarrow> string \<Rightarrow> bool \<Rightarrow> RoleOptions
    \<Rightarrow> ('s, error option) state" where
  "CreateRoleStmts db scram name exists opts0 =
     (let opts = (if exists \<and> KeepExistingPassword opts0 then opts0\<lparr>Password := []\<rparr> else opts0)
      in if Password opts = []
         then execRole db name (buildRoleQuery name exists opts) (Comment opts) []
         else do {
           v \<leftarrow> scram (Password opts);
           (case v of
              Inl e \<Rightarrow> ret (Some e)
            | Inr verifier \<Rightarrow>
                execRole db name (buildRoleQuery name exists (opts\<lparr>Password := verifier\<rparr>)) (Comment opts)
                  [Password opts, verifier])
         })"

definition CreateRoleClient :: "'s db \<Rightarrow> (string \<Rightarrow> ('s, error + string) state) \<Rightarrow> string \<Rightarrow> RoleOptions
    \<Rightarrow> ('s, error option) state" where
  "CreateRoleClient db scram name opts =
     (if CreateOnly opts then CreateRoleStmts db scram name False opts
      else do {
        r \<leftarrow> queryBool db roleExistsQuery [SText name] ''failed to check role existence: %w'' [];
        (case r of Inl e \<Rightarrow> ret (Some e) | Inr exists \<Rightarrow> CreateRoleStmts db scram name exists opts)
      })"

text \<open>A comment looked up by name: whether the object exists, and its comment.\<close>

definition lookupComment :: "'s db \<Rightarrow> string \<Rightarrow> string \<Rightarrow> string \<Rightarrow> ('s, error + bool \<times> string) state" where
  "lookupComment db q name fmt = do {
     r \<leftarrow> queryRow db q [SText name];
     ret (case scanned scanText r of
            Inl e \<Rightarrow> if e = ErrNoRows then Inr (False, []) else Inl (Wrapf fmt [name] e)
          | Inr comment \<Rightarrow> Inr (True, comment))
   }"

definition RoleComment :: "'s db \<Rightarrow> string \<Rightarrow> ('s, error + bool \<times> string) state" where
  "RoleComment db name = lookupComment db
     (''SELECT COALESCE(pg_catalog.shobj_description(oid, 'pg_authid'), '' @
      [squote, squote] @
      '') FROM pg_catalog.pg_roles WHERE rolname = $1'')
     name ''failed to look up role %q: %w''"

definition DatabaseComment :: "'s db \<Rightarrow> string \<Rightarrow> ('s, error + bool \<times> string) state" where
  "DatabaseComment db name = lookupComment db
     (''SELECT COALESCE(pg_catalog.shobj_description(oid, 'pg_database'), '' @
      [squote, squote] @
      '') FROM pg_catalog.pg_database WHERE datname = $1'')
     name ''failed to look up database %q: %w''"

definition DatabaseAllowsConnections :: "'s db \<Rightarrow> string \<Rightarrow> ('s, error + bool) state" where
  "DatabaseAllowsConnections db name = do {
     r \<leftarrow> queryRow db ''SELECT datallowconn FROM pg_catalog.pg_database WHERE datname = $1'' [SText name];
     ret (case scanned scanBool r of
            Inl e \<Rightarrow> if e = ErrNoRows then Inr False else Inl (Wrapf ''failed to look up database %q: %w'' [name] e)
          | Inr b \<Rightarrow> Inr b)
   }"

definition CommentOnDatabase :: "'s db \<Rightarrow> string \<Rightarrow> string \<Rightarrow> ('s, error option) state" where
  "CommentOnDatabase db name comment =
     execWrap db (buildCommentQuery ''DATABASE'' name comment) ''failed to comment on database %q: %w'' [name]"

text \<open>
  \<open>DropRole\<close> of \<open>client.go\<close>; \<open>dependentObjectsError\<close> of \<open>role_cleanup.go\<close> classifies a refusal by its SQLSTATE.
\<close>

definition dropRoleQuery :: "string \<Rightarrow> string" where
  "dropRoleQuery name = ''DROP ROLE IF EXISTS '' @ quoteIdent name"

section \<open>Memberships\<close>

record ReachableRole =
  rrName :: string
  rrVia :: string
  rrComment :: string
  rrSuperuser :: bool
  rrCreateRole :: bool
  rrReplication :: bool
  rrBypassRLS :: bool

definition scanRole :: "sqlValue list \<Rightarrow> error + ReachableRole" where
  "scanRole row =
     (case row of
        [SText n, SText c, SBool su, SBool cr, SBool rp, SBool br] \<Rightarrow>
          Inr \<lparr>rrName = n, rrVia = [], rrComment = c, rrSuperuser = su, rrCreateRole = cr, rrReplication = rp, rrBypassRLS = br\<rparr>
      | _ \<Rightarrow> Inl scanError)"

definition lookupRoleQuery :: string where
  "lookupRoleQuery = (''SELECT r.rolname, COALESCE(pg_catalog.shobj_description(r.oid, 'pg_authid'), '' @
      [squote, squote] @
      ''), r.rolsuper, r.rolcreaterole, r.rolreplication, r.rolbypassrls'' @
      [CHR 0x0A] @
      ''FROM pg_catalog.pg_roles r WHERE r.rolname = $1'')"

definition LookupRole :: "'s db \<Rightarrow> string \<Rightarrow> ('s, error + ReachableRole option) state" where
  "LookupRole db name = do {
     r \<leftarrow> queryRow db lookupRoleQuery [SText name];
     ret (case scanned scanRole r of
            Inl e \<Rightarrow> if e = ErrNoRows then Inr None else Inl (Wrapf ''failed to look up role %q: %w'' [name] e)
          | Inr x \<Rightarrow> Inr (Some x))
   }"

definition scanReached :: "sqlValue list \<Rightarrow> error + ReachableRole" where
  "scanReached row =
     (case row of
        [SText n, SText v, SText c, SBool su, SBool cr, SBool rp, SBool br] \<Rightarrow>
          Inr \<lparr>rrName = n, rrVia = v, rrComment = c, rrSuperuser = su, rrCreateRole = cr, rrReplication = rp, rrBypassRLS = br\<rparr>
      | _ \<Rightarrow> Inl scanError)"

text \<open>The loop \<open>for rows.Next()\<close> with a scan of every row: the first failure ends it.\<close>

fun scanRows :: "(sqlValue list \<Rightarrow> error + 'a) \<Rightarrow> sqlValue list list \<Rightarrow> error + 'a list" where
  "scanRows scan [] = Inr []"
| "scanRows scan (row # rows) =
     (case scan row of
        Inl e \<Rightarrow> Inl e
      | Inr x \<Rightarrow> (case scanRows scan rows of Inl e \<Rightarrow> Inl e | Inr xs \<Rightarrow> Inr (x # xs)))"

text \<open>A query of many rows: its error, the first scan error, or the error of the row stream.\<close>

definition queryRows :: "'s db \<Rightarrow> string \<Rightarrow> sqlValue list \<Rightarrow> (sqlValue list \<Rightarrow> error + 'a) \<Rightarrow> string \<Rightarrow> string list
    \<Rightarrow> string \<Rightarrow> ('s, error + 'a list) state" where
  "queryRows db q args scan fmt xs scanFmt = do {
     r \<leftarrow> queryDb db q args;
     ret (case r of
            Inl e \<Rightarrow> Inl (Wrapf fmt xs e)
          | Inr (rows, streamErr) \<Rightarrow>
              (case scanRows scan rows of
                 Inl e \<Rightarrow> Inl (Wrapf scanFmt [] e)
               | Inr out \<Rightarrow> (case streamErr of Some e \<Rightarrow> Inl (Wrapf fmt xs e) | None \<Rightarrow> Inr out)))
   }"

definition membershipClosureQuery :: string where
  "membershipClosureQuery = (''WITH RECURSIVE reach(oid, via) AS ('' @
      [CHR 0x0A] @
      ''    SELECT oid, NULL::name FROM pg_catalog.pg_roles WHERE rolname = $1'' @
      [CHR 0x0A] @
      ''  UNION'' @
      [CHR 0x0A] @
      ''    SELECT m.roleid, COALESCE(reach.via, r.rolname)'' @
      [CHR 0x0A] @
      ''    FROM reach'' @
      [CHR 0x0A] @
      ''    JOIN pg_catalog.pg_auth_members m ON m.member = reach.oid'' @
      [CHR 0x0A] @
      ''    JOIN pg_catalog.pg_roles r ON r.oid = m.roleid'' @
      [CHR 0x0A] @
      '')'' @
      [CHR 0x0A] @
      ''SELECT r.rolname, COALESCE(reach.via, '' @
      [squote, squote] @
      ''), COALESCE(pg_catalog.shobj_description(r.oid, 'pg_authid'), '' @
      [squote, squote] @
      ''), r.rolsuper, r.rolcreaterole, r.rolreplication, r.rolbypassrls'' @
      [CHR 0x0A] @
      ''FROM reach JOIN pg_catalog.pg_roles r ON r.oid = reach.oid'' @
      [CHR 0x0A] @
      ''ORDER BY reach.via NULLS FIRST, r.rolname'')"

definition MembershipClosure :: "'s db \<Rightarrow> string \<Rightarrow> ('s, error + ReachableRole list) state" where
  "MembershipClosure db name =
     queryRows db membershipClosureQuery [SText name] scanReached
       ''failed to list the roles %q is a member of: %w'' [name] ''failed to scan role: %w''"

definition MinMembershipOptionsVersion :: int where
  "MinMembershipOptionsVersion = 160000"

definition serverVersionQuery :: string where
  "serverVersionQuery = ''SHOW server_version_num''"

definition ServerVersionNum :: "'s db \<Rightarrow> ('s, error + int) state" where
  "ServerVersionNum db = do {
     r \<leftarrow> queryRow db serverVersionQuery [];
     ret (case scanned scanText r of
            Inl e \<Rightarrow> Inl (Wrapf ''failed to read server version: %w'' [] e)
          | Inr v \<Rightarrow> (case atoi (trimSpace v) of
              None \<Rightarrow> Inl (Wrapf ''failed to parse server_version_num %q: %w'' [v]
                (Errorf ''strconv.Atoi: parsing %q'' [trimSpace v]))
            | Some n \<Rightarrow> Inr n))
   }"

definition bootstrapSuperuserOID :: int where
  "bootstrapSuperuserOID = 10"

definition GrantRole :: "'s db \<Rightarrow> string \<Rightarrow> string \<Rightarrow> MembershipOptions \<Rightarrow> ('s, error option) state" where
  "GrantRole db role member opts =
     execWrap db (buildGrantRoleQuery role member opts) ''failed to grant role %q to %q: %w'' [role, member]"

definition RevokeAdminOption :: "'s db \<Rightarrow> string \<Rightarrow> string \<Rightarrow> ('s, error option) state" where
  "RevokeAdminOption db role member =
     execWrap db (''REVOKE ADMIN OPTION FOR '' @ quoteIdent role @ '' FROM '' @ quoteIdent member)
       ''failed to revoke admin option for role %q from %q: %w'' [role, member]"

definition RevokeRole :: "'s db \<Rightarrow> string \<Rightarrow> string \<Rightarrow> ('s, error option) state" where
  "RevokeRole db role member =
     execWrap db (''REVOKE '' @ quoteIdent role @ '' FROM '' @ quoteIdent member)
       ''failed to revoke role %q from %q: %w'' [role, member]"

record MembershipState =
  msAdmin :: bool
  msInherit :: "bool option"
  msSet :: "bool option"

definition nullBool :: "sqlValue \<Rightarrow> error + bool option" where
  "nullBool v = (case v of SNull \<Rightarrow> Inr None | SBool b \<Rightarrow> Inr (Some b) | SText t \<Rightarrow> Inl scanError)"

definition scanMembership :: "sqlValue list \<Rightarrow> error + string \<times> MembershipState" where
  "scanMembership row =
     (case row of
        [SText name, SBool admin, i, st] \<Rightarrow>
          (case (nullBool i, nullBool st) of
             (Inr inh, Inr se) \<Rightarrow> Inr (name, \<lparr>msAdmin = admin, msInherit = inh, msSet = se\<rparr>)
           | _ \<Rightarrow> Inl scanError)
      | _ \<Rightarrow> Inl scanError)"

definition listMembershipsQuery :: "int \<Rightarrow> string" where
  "listMembershipsQuery serverVersion =
     (if serverVersion \<ge> MinMembershipOptionsVersion
      then (''SELECT r.rolname, m.admin_option, m.inherit_option, m.set_option'' @
      [CHR 0x0A] @
      ''FROM pg_auth_members m'' @
      [CHR 0x0A] @
      ''JOIN pg_roles r ON r.oid = m.roleid'' @
      [CHR 0x0A] @
      ''JOIN pg_roles u ON u.oid = m.member'' @
      [CHR 0x0A] @
      ''WHERE u.rolname = $1'' @
      [CHR 0x0A] @
      ''  AND m.grantor IN ('') @ formatInt bootstrapSuperuserOID @
        '', (SELECT oid FROM pg_roles WHERE rolname = current_user))''
      else (''SELECT r.rolname, m.admin_option, NULL::boolean, NULL::boolean'' @
      [CHR 0x0A] @
      ''FROM pg_auth_members m'' @
      [CHR 0x0A] @
      ''JOIN pg_roles r ON r.oid = m.roleid'' @
      [CHR 0x0A] @
      ''JOIN pg_roles u ON u.oid = m.member'' @
      [CHR 0x0A] @
      ''WHERE u.rolname = $1''))"

definition ListMemberships :: "'s db \<Rightarrow> string \<Rightarrow> int \<Rightarrow> ('s, error + MembershipState gomap) state" where
  "ListMemberships db member serverVersion = do {
     r \<leftarrow> queryRows db (listMembershipsQuery serverVersion) [SText member] scanMembership
       ''failed to list memberships of %q: %w'' [member] ''failed to scan membership: %w'';
     ret (case r of
            Inl e \<Rightarrow> Inl e
          | Inr ms \<Rightarrow> Inr (foldl (\<lambda>m (n, st). AList.update n st m) [] ms))
   }"

section \<open>Databases and schemas\<close>

definition databaseExistsQuery :: string where
  "databaseExistsQuery = ''SELECT EXISTS(SELECT 1 FROM pg_database WHERE datname = $1)''"

definition createDatabaseStmt :: "'s db \<Rightarrow> string \<Rightarrow> string \<Rightarrow> ('s, error option) state" where
  "createDatabaseStmt db name owner = do {
     e \<leftarrow> execDb db (''CREATE DATABASE '' @ quoteIdent name @ (if owner \<noteq> [] then '' OWNER '' @ quoteIdent owner else []));
     ret (case e of
            None \<Rightarrow> None
          | Some x \<Rightarrow> (case duplicateObjectError (sprintf ''database %q'' [name]) x of
              Some dup \<Rightarrow> Some dup
            | None \<Rightarrow> Some (Wrapf ''failed to create database: %w'' [] x)))
   }"

definition CreateDatabase :: "'s db \<Rightarrow> string \<Rightarrow> string \<Rightarrow> bool \<Rightarrow> ('s, error option) state" where
  "CreateDatabase db name owner createOnly =
     (if createOnly then createDatabaseStmt db name owner
      else do {
        r \<leftarrow> queryBool db databaseExistsQuery [SText name] ''failed to check database existence: %w'' [];
        (case r of
           Inl e \<Rightarrow> ret (Some e)
         | Inr True \<Rightarrow>
             (if owner \<noteq> []
              then execWrap db (''ALTER DATABASE '' @ quoteIdent name @ '' OWNER TO '' @ quoteIdent owner)
                ''failed to alter database owner: %w'' []
              else ret None)
         | Inr False \<Rightarrow> createDatabaseStmt db name owner)
      })"

definition DropDatabase :: "'s db \<Rightarrow> string \<Rightarrow> ('s, error option) state" where
  "DropDatabase db name = execWrap db (''DROP DATABASE IF EXISTS '' @ quoteIdent name) ''failed to drop database: %w'' []"

definition DatabaseExists :: "'s db \<Rightarrow> string \<Rightarrow> ('s, error + bool) state" where
  "DatabaseExists db name = queryBool db databaseExistsQuery [SText name] ''failed to check database existence: %w'' []"

record SchemaInfo =
  siOwner :: string
  siOwnerIsBootstrap :: bool

definition scanSchema :: "sqlValue list \<Rightarrow> error + SchemaInfo" where
  "scanSchema row = (case row of [SText ow, SBool b] \<Rightarrow> Inr \<lparr>siOwner = ow, siOwnerIsBootstrap = b\<rparr> | _ \<Rightarrow> Inl scanError)"

definition SchemaOwner :: "'s db \<Rightarrow> string \<Rightarrow> ('s, error + SchemaInfo option) state" where
  "SchemaOwner db name = do {
     r \<leftarrow> queryRow db
       ''SELECT pg_catalog.pg_get_userbyid(nspowner), nspowner = 10 FROM pg_catalog.pg_namespace WHERE nspname = $1'' [SText name];
     ret (case scanned scanSchema r of
            Inl e \<Rightarrow> if e = ErrNoRows then Inr None else Inl (Wrapf ''failed to look up schema %q: %w'' [name] e)
          | Inr x \<Rightarrow> Inr (Some x))
   }"

definition CurrentDatabaseOwner :: "'s db \<Rightarrow> ('s, error + string) state" where
  "CurrentDatabaseOwner db = do {
     r \<leftarrow> queryRow db
       ''SELECT pg_catalog.pg_get_userbyid(datdba) FROM pg_catalog.pg_database WHERE datname = pg_catalog.current_database()'' [];
     ret (case scanned scanText r of Inl e \<Rightarrow> Inl (Wrapf ''failed to look up the database owner: %w'' [] e) | Inr ow \<Rightarrow> Inr ow)
   }"

definition CreateSchema :: "'s db \<Rightarrow> string \<Rightarrow> string \<Rightarrow> ('s, error option) state" where
  "CreateSchema db name owner = do {
     e \<leftarrow> execDb db (''CREATE SCHEMA '' @ quoteIdent name @ (if owner \<noteq> [] then '' AUTHORIZATION '' @ quoteIdent owner else []));
     ret (case e of
            None \<Rightarrow> None
          | Some x \<Rightarrow> (case duplicateObjectError (sprintf ''schema %q'' [name]) x of
              Some dup \<Rightarrow> Some dup
            | None \<Rightarrow> Some (Wrapf ''failed to create schema: %w'' [] x)))
   }"

definition AlterSchemaOwner :: "'s db \<Rightarrow> string \<Rightarrow> string \<Rightarrow> ('s, error option) state" where
  "AlterSchemaOwner db name owner =
     execWrap db (''ALTER SCHEMA '' @ quoteIdent name @ '' OWNER TO '' @ quoteIdent owner) ''failed to alter schema owner: %w'' []"

definition SchemaExists :: "'s db \<Rightarrow> string \<Rightarrow> ('s, error + bool) state" where
  "SchemaExists db name =
     queryBool db ''SELECT EXISTS(SELECT 1 FROM pg_catalog.pg_namespace WHERE nspname = $1)'' [SText name]
       ''failed to check schema existence: %w'' []"

section \<open>Privileges\<close>

definition GrantPrivileges :: "'s db \<Rightarrow> PrivilegeObject \<Rightarrow> string \<Rightarrow> string list \<Rightarrow> bool \<Rightarrow> ('s, error option) state" where
  "GrantPrivileges db obj grantee privs withGrantOption =
     (case buildGrantPrivilegesQuery obj grantee privs withGrantOption of
        Inl e \<Rightarrow> ret (Some e)
      | Inr query \<Rightarrow> execWrap db query ''failed to grant privileges on %s to %q: %w'' [objectString obj, grantee])"

definition RevokePrivileges :: "'s db \<Rightarrow> PrivilegeObject \<Rightarrow> string \<Rightarrow> string list \<Rightarrow> RevokeMode \<Rightarrow> ('s, error option) state" where
  "RevokePrivileges db obj grantee privs mode =
     (case buildRevokePrivilegesQuery obj grantee privs mode of
        Inl e \<Rightarrow> ret (Some e)
      | Inr query \<Rightarrow> execWrap db query ''failed to revoke privileges on %s from %q: %w'' [objectString obj, grantee])"

definition granteeOIDExpr :: string where
  "granteeOIDExpr = ''CASE WHEN $2 THEN 0::oid ELSE (SELECT r.oid FROM pg_catalog.pg_roles r WHERE r.rolname = $3) END''"

definition heldPrivilegesQueries :: "ObjectKind \<Rightarrow> string option" where
  "heldPrivilegesQueries k =
     (if k = ObjectDatabase
      then Some ((''SELECT a.privilege_type, a.is_grantable OR a.grantee = d.datdba FROM pg_catalog.pg_database d'' @
      [CHR 0x0A] @
      ''LEFT JOIN LATERAL pg_catalog.aclexplode(COALESCE(d.datacl, pg_catalog.acldefault('d', d.datdba))) a'' @
      [CHR 0x0A] @
      ''  ON a.grantor = d.datdba AND a.grantee = '') @ granteeOIDExpr @
      ([CHR 0x0A] @
      ''WHERE d.datname = $1''))
      else if k = ObjectSchema
      then Some ((''SELECT a.privilege_type, a.is_grantable OR a.grantee = n.nspowner FROM pg_catalog.pg_namespace n'' @
      [CHR 0x0A] @
      ''LEFT JOIN LATERAL pg_catalog.aclexplode(COALESCE(n.nspacl, pg_catalog.acldefault('n', n.nspowner))) a'' @
      [CHR 0x0A] @
      ''  ON a.grantor = n.nspowner AND a.grantee = '') @ granteeOIDExpr @
      ([CHR 0x0A] @
      ''WHERE n.nspname = $1''))
      else if k = ObjectParameter
      then Some ((''SELECT a.privilege_type, a.is_grantable FROM (SELECT 1) one'' @
      [CHR 0x0A] @
      ''LEFT JOIN (pg_catalog.pg_parameter_acl p CROSS JOIN LATERAL pg_catalog.aclexplode(p.paracl) a)'' @
      [CHR 0x0A] @
      ''  ON lower(p.parname) = lower($1) AND a.grantor = 10 AND a.grantee = '') @ granteeOIDExpr)
      else None)"

definition scanHeld :: "sqlValue list \<Rightarrow> error + (string \<times> bool) option" where
  "scanHeld row =
     (case row of
        [SNull, g] \<Rightarrow> (case nullBool g of Inl e \<Rightarrow> Inl e | Inr _ \<Rightarrow> Inr None)
      | [SText p, g] \<Rightarrow> (case nullBool g of Inl e \<Rightarrow> Inl e | Inr b \<Rightarrow> Inr (Some (p, b = Some True)))
      | _ \<Rightarrow> Inl scanError)"

definition readHeld :: "(string \<times> bool) option list \<Rightarrow> string list \<times> string list \<times> bool" where
  "readHeld rows =
     (let entries = List.map_filter id rows
      in (sortCompact (map fst entries), sortCompact (map fst (filter snd entries)), rows \<noteq> []))"

definition HeldPrivileges :: "'s db \<Rightarrow> PrivilegeObject \<Rightarrow> string
    \<Rightarrow> ('s, error + string list \<times> string list \<times> bool) state" where
  "HeldPrivileges db obj grantee =
     (case heldPrivilegesQueries (Kind obj) of
        None \<Rightarrow> ret (Inl (Errorf ''unsupported object kind %q'' [Kind obj]))
      | Some query \<Rightarrow>
          (case (if Kind obj = ObjectParameter then NormalizeParameterName (Name obj) else Inr (Name obj)) of
             Inl e \<Rightarrow> ret (Inl e)
           | Inr name \<Rightarrow> do {
               r \<leftarrow> queryRows db query [SText name, SBool (IsPublic grantee), SText grantee] scanHeld
                 ''failed to read the privileges of %q on %s: %w'' [grantee, objectString obj] ''failed to scan privilege: %w'';
               ret (case r of Inl e \<Rightarrow> Inl e | Inr rows \<Rightarrow> Inr (readHeld rows))
             }))"

definition heldFromAnyGrantorQueries :: "ObjectKind \<Rightarrow> string option" where
  "heldFromAnyGrantorQueries k =
     (if k = ObjectDatabase
      then Some ((''SELECT EXISTS(SELECT 1 FROM pg_catalog.pg_database d,'' @
      [CHR 0x0A] @
      ''  pg_catalog.aclexplode(COALESCE(d.datacl, pg_catalog.acldefault('d', d.datdba))) a'' @
      [CHR 0x0A] @
      ''WHERE d.datname = $1 AND a.grantee = '') @ granteeOIDExpr @ '' AND a.privilege_type = $4)'')
      else if k = ObjectSchema
      then Some ((''SELECT EXISTS(SELECT 1 FROM pg_catalog.pg_namespace n,'' @
      [CHR 0x0A] @
      ''  pg_catalog.aclexplode(COALESCE(n.nspacl, pg_catalog.acldefault('n', n.nspowner))) a'' @
      [CHR 0x0A] @
      ''WHERE n.nspname = $1 AND a.grantee = '') @ granteeOIDExpr @ '' AND a.privilege_type = $4)'')
      else None)"

definition HeldFromAnyGrantor :: "'s db \<Rightarrow> PrivilegeObject \<Rightarrow> string \<Rightarrow> string \<Rightarrow> ('s, error + bool) state" where
  "HeldFromAnyGrantor db obj grantee privilege =
     (case heldFromAnyGrantorQueries (Kind obj) of
        None \<Rightarrow> ret (Inl (Errorf ''unsupported object kind %q'' [Kind obj]))
      | Some query \<Rightarrow>
          queryBool db query [SText (Name obj), SBool (IsPublic grantee), SText grantee, SText privilege]
            ''failed to read the privileges of %q on %s: %w'' [grantee, objectString obj])"

section \<open>Settings\<close>

definition inDatabase :: "string \<Rightarrow> string" where
  "inDatabase database = (if database = [] then [] else sprintf '' in database %q'' [database])"

definition SetRoleParameter :: "'s db \<Rightarrow> string \<Rightarrow> string \<Rightarrow> string \<Rightarrow> string \<Rightarrow> ('s, error option) state" where
  "SetRoleParameter db role database parameter val =
     (case buildAlterRoleSetQuery role database parameter val of
        Inl e \<Rightarrow> ret (Some e)
      | Inr query \<Rightarrow> execWrap db query ''failed to set %s for role %q%s: %w'' [parameter, role, inDatabase database])"

definition ResetRoleParameter :: "'s db \<Rightarrow> string \<Rightarrow> string \<Rightarrow> string \<Rightarrow> ('s, error option) state" where
  "ResetRoleParameter db role database parameter =
     (case buildAlterRoleResetQuery role database parameter of
        Inl e \<Rightarrow> ret (Some e)
      | Inr query \<Rightarrow> execWrap db query ''failed to reset %s for role %q%s: %w'' [parameter, role, inDatabase database])"

definition SetDatabaseParameter :: "'s db \<Rightarrow> string \<Rightarrow> string \<Rightarrow> string \<Rightarrow> ('s, error option) state" where
  "SetDatabaseParameter db database parameter val =
     (case buildAlterDatabaseSetQuery database parameter val of
        Inl e \<Rightarrow> ret (Some e)
      | Inr query \<Rightarrow> execWrap db query ''failed to set %s on database %q: %w'' [parameter, database])"

definition ResetDatabaseParameter :: "'s db \<Rightarrow> string \<Rightarrow> string \<Rightarrow> ('s, error option) state" where
  "ResetDatabaseParameter db database parameter =
     (case buildAlterDatabaseResetQuery database parameter of
        Inl e \<Rightarrow> ret (Some e)
      | Inr query \<Rightarrow> execWrap db query ''failed to reset %s on database %q: %w'' [parameter, database])"

definition parameterContextQuery :: string where
  "parameterContextQuery = ''SELECT context FROM pg_settings WHERE lower(name) = lower($1)''"

definition ParameterContext :: "'s db \<Rightarrow> string \<Rightarrow> ('s, error + string option) state" where
  "ParameterContext db name = do {
     r \<leftarrow> queryRow db parameterContextQuery [SText name];
     ret (case scanned scanText r of
            Inl e \<Rightarrow> if e = ErrNoRows then Inr None else Inl (Wrapf ''failed to look up parameter %q: %w'' [name] e)
          | Inr c \<Rightarrow> Inr (Some c))
   }"

end
