(* ===== verification/Pg_Statements.thy ===== *)
theory Pg_Statements
  imports Pg_Lexer
begin

text \<open>
  How PostgreSQL reads the other statements the builders of \<open>internal/postgres\<close> write: ALTER ROLE
  and ALTER DATABASE with a SET or RESET clause, and GRANT and REVOKE of a role membership. As for
  privileges, the lemmas show that a built statement is read back with exactly the names, the
  values and the options it was built from.
\<close>

section \<open>Recognisers\<close>

text \<open>
  The scope of a setting is a role (\<open>[]\<close> for all) and a database (\<open>[]\<close> for all); its name is the
  list of the dotted parts.
\<close>

type_synonym scope = "string \<times> string"

datatype alterStmt =
    AlterSet scope "string list" "string list"
  | AlterReset scope "string list"

datatype memberStmt =
    GrantRoleStmt string string bool "bool option" "bool option"
  | RevokeAdminStmt string string
  | RevokeRoleStmt string string

fun parseValues :: "token list \<Rightarrow> string list option" where
  "parseValues [Lit v] = Some [v]"
| "parseValues (Lit v # Sym c # ts) = (if c = CHR '','' then map_option ((#) v) (parseValues ts) else None)"
| "parseValues _ = None"

definition parseClause :: "scope \<Rightarrow> token list \<Rightarrow> alterStmt option" where
  "parseClause sc ts =
     (case ts of
        Word w # ts1 \<Rightarrow>
          (case parseName ts1 of
             Some (name, rest) \<Rightarrow>
               if w = ''SET''
               then (case rest of
                       Word w' # ts2 \<Rightarrow> if w' = ''TO'' then map_option (AlterSet sc name) (parseValues ts2) else None
                     | _ \<Rightarrow> None)
               else if w = ''RESET'' \<and> rest = [] then Some (AlterReset sc name) else None
           | None \<Rightarrow> None)
      | _ \<Rightarrow> None)"

definition parseAlterStmt :: "token list \<Rightarrow> alterStmt option" where
  "parseAlterStmt ts =
     (case ts of
        Word w # Word kind # Ident x # ts1 \<Rightarrow>
          if w \<noteq> ''ALTER'' then None
          else if kind = ''DATABASE'' then parseClause ([], x) ts1
          else if kind = ''ROLE''
          then (case ts1 of
                  Word w1 # Word w2 # Ident d # ts2 \<Rightarrow>
                    if w1 = ''IN'' \<and> w2 = ''DATABASE'' then parseClause (x, d) ts2 else parseClause (x, []) ts1
                | _ \<Rightarrow> parseClause (x, []) ts1)
          else None
      | _ \<Rightarrow> None)"

definition parseAlter :: "bool \<Rightarrow> string \<Rightarrow> alterStmt option" where
  "parseAlter scs q = (case lexSql scs q of None \<Rightarrow> None | Some ts \<Rightarrow> parseAlterStmt ts)"

definition boolWord :: "string \<Rightarrow> bool option" where
  "boolWord w = (if w = ''TRUE'' then Some True else if w = ''FALSE'' then Some False else None)"

text \<open>One WITH option, and the list of them: ADMIN, INHERIT and SET.\<close>

definition addOption :: "string \<Rightarrow> string \<Rightarrow> bool \<times> bool option \<times> bool option \<Rightarrow> (bool \<times> bool option \<times> bool option) option" where
  "addOption w v = (\<lambda>(a, i, st).
     if w = ''ADMIN'' \<and> v = ''OPTION'' then Some (True, i, st)
     else if w = ''INHERIT'' then map_option (\<lambda>b. (a, Some b, st)) (boolWord v)
     else if w = ''SET'' then map_option (\<lambda>b. (a, i, Some b)) (boolWord v)
     else None)"

fun parseOptions :: "token list \<Rightarrow> bool \<times> bool option \<times> bool option \<Rightarrow> (bool \<times> bool option \<times> bool option) option" where
  "parseOptions [Word w, Word v] opts = addOption w v opts"
| "parseOptions (Word w # Word v # Sym c # ts) opts =
     (if c = CHR '','' then (case addOption w v opts of None \<Rightarrow> None | Some opts' \<Rightarrow> parseOptions ts opts') else None)"
| "parseOptions _ opts = None"

definition parseMemberStmt :: "token list \<Rightarrow> memberStmt option" where
  "parseMemberStmt ts =
     (case ts of
        [Word w, Ident r, Word t, Ident m] \<Rightarrow>
          if w = ''GRANT'' \<and> t = ''TO'' then Some (GrantRoleStmt r m False None None)
          else if w = ''REVOKE'' \<and> t = ''FROM'' then Some (RevokeRoleStmt r m) else None
      | Word w # Ident r # Word t # Ident m # Word x # opts \<Rightarrow>
          if w = ''GRANT'' \<and> t = ''TO'' \<and> x = ''WITH''
          then map_option (\<lambda>(a, i, st). GrantRoleStmt r m a i st) (parseOptions opts (False, None, None)) else None
      | [Word w, Word a, Word b, Word f, Ident r, Word t, Ident m] \<Rightarrow>
          if w = ''REVOKE'' \<and> a = ''ADMIN'' \<and> b = ''OPTION'' \<and> f = ''FOR'' \<and> t = ''FROM''
          then Some (RevokeAdminStmt r m) else None
      | _ \<Rightarrow> None)"

definition parseMember :: "bool \<Rightarrow> string \<Rightarrow> memberStmt option" where
  "parseMember scs q = (case lexSql scs q of None \<Rightarrow> None | Some ts \<Rightarrow> parseMemberStmt ts)"

section \<open>Setting statements\<close>

lemma moreKeyWords [simp]:
  "keyWord ''ALTER''" "keyWord ''ROLE''" "keyWord ''IN''" "keyWord ''RESET''" "keyWord ''ADMIN''" "keyWord ''INHERIT''"
  "keyWord ''TRUE''" "keyWord ''FALSE''"
  by code_simp+

fun valueTokens :: "string list \<Rightarrow> token list" where
  "valueTokens [] = []"
| "valueTokens [v] = [Lit v]"
| "valueTokens (v # w # vs) = Lit v # Sym (CHR '','') # valueTokens (w # vs)"

lemma lexSql_values:
  "lexSql scs (joinStr (map quoteLiteral vs) '', '') = Some (valueTokens vs)"
proof (induction vs rule: valueTokens.induct)
  case 1
  then show ?case by (simp add: lexSql.simps)
next
  case (2 v)
  then show ?case using lexSql_quoteLiteral [of "[]" scs v] by (simp add: hasPrefix_def lexSql.simps)
next
  case (3 v w vs)
  let ?t = "joinStr (map quoteLiteral (w # vs)) '', ''"
  have "lexSql scs (quoteLiteral v @ CHR '','' # CHR '' '' # ?t) =
      map_option ((#) (Lit v)) (lexSql scs (CHR '','' # CHR '' '' # ?t))"
    by (rule lexSql_quoteLiteral) (simp add: hasPrefix_def)
  also have "lexSql scs (CHR '','' # CHR '' '' # ?t) = map_option ((#) (Sym (CHR '',''))) (lexSql scs (CHR '' '' # ?t))"
    by (rule lexSql_sym) (auto simp: identStartChar_def isSpaceChar_def isDigitChar_def)
  also have "lexSql scs (CHR '' '' # ?t) = lexSql scs ?t"
    by (rule lexSql_space) (simp add: isSpaceChar_def)
  finally show ?case using 3 by simp
qed

lemma parseValues_tokens: "vs \<noteq> [] \<Longrightarrow> parseValues (valueTokens vs) = Some vs"
  by (induction vs rule: valueTokens.induct) auto

lemma parseName_end: "ns \<noteq> [] \<Longrightarrow> parseName (nameTokens ns) = Some (ns, [])"
  by (induction ns rule: nameTokens.induct) auto

text \<open>
  The values of a list setting, read the way a reader of configuration files does it: the text is
  cut at the commas outside double quotes; a piece is stripped of the spaces around it; a quoted
  one is what stands between its quotes, a doubled quote meaning one, and an unquoted one is
  folded to lower case. The reader rejects a stray quote, text behind a closing quote, a space
  inside an unquoted element and an empty unquoted element.
\<close>

fun listPieces :: "bool \<Rightarrow> string \<Rightarrow> string \<Rightarrow> string list" where
  "listPieces quoted p [] = [p]"
| "listPieces quoted p (c # s) =
     (if c = dquote then listPieces (\<not> quoted) (p @ [c]) s
      else if c = CHR '','' \<and> \<not> quoted then p # listPieces False [] s
      else listPieces quoted (p @ [c]) s)"

fun undouble :: "string \<Rightarrow> string option" where
  "undouble [] = Some []"
| "undouble (c # s) =
     (if c \<noteq> dquote then map_option ((#) c) (undouble s)
      else case s of [] \<Rightarrow> None | d # s' \<Rightarrow> if d = dquote then map_option ((#) dquote) (undouble s') else None)"

definition stripSpaces :: "string \<Rightarrow> string" where
  "stripSpaces p = rev (dropWhile isListSpace (rev (dropWhile isListSpace p)))"

definition elementText :: "string \<Rightarrow> string option" where
  "elementText p =
     (case stripSpaces p of
        [] \<Rightarrow> None
      | c # s \<Rightarrow>
          if c = dquote then (if s \<noteq> [] \<and> List.last s = dquote then undouble (butlast s) else None)
          else if \<exists>d \<in> set s. isListSpace d \<or> d = dquote then None else Some (stringsToLower (c # s)))"

definition listElements :: "string \<Rightarrow> string list option" where
  "listElements s = those (map elementText (listPieces False [] s))"

definition settingValues :: "string \<Rightarrow> string \<Rightarrow> string list" where
  "settingValues n v =
     (if n \<in> set listQuoteParameters then (case listElements v of None \<Rightarrow> [] | Some es \<Rightarrow> es) else [v])"

lemma listElements_examples:
  "listElements (dquote # ''$user'' @ dquote # '' , Public'') = Some [''$user'', ''public'']"
  "listElements (dquote # ''A,'' @ dquote # dquote # ''b'' @ [dquote]) = Some [''A,'' @ dquote # ''b'']"
  "listElements ''a b'' = None"
  by code_simp+

lemma stripSpaces_quoted:
  assumes "\<forall>c \<in> set u. isListSpace c" "\<forall>c \<in> set w. isListSpace c"
  shows "stripSpaces (u @ dquote # body @ dquote # w) = dquote # body @ [dquote]"
proof -
  have q: "\<not> isListSpace dquote" by (simp add: isListSpace_def)
  have "dropWhile isListSpace (u @ dquote # body @ dquote # w) = dquote # body @ dquote # w"
    using assms(1) q by (simp add: dropWhile_append2 [of u])
  moreover have "dropWhile isListSpace (rev (dquote # body @ dquote # w)) = dquote # rev body @ [dquote]"
    using assms(2) q dropWhile_append2 [of "rev w" isListSpace "dquote # rev body @ [dquote]"] by simp
  ultimately show ?thesis by (simp add: stripSpaces_def)
qed

lemma listPieces_plain:
  "\<forall>c \<in> set w. c \<noteq> dquote \<and> (quoted \<or> c \<noteq> CHR '','') \<Longrightarrow> listPieces quoted p (w @ s) = listPieces quoted (p @ w) s"
  by (induction w arbitrary: p) auto

definition quotedPiece :: "string \<Rightarrow> string \<Rightarrow> string \<Rightarrow> string \<Rightarrow> bool" where
  "quotedPiece s body t rest \<longleftrightarrow> s = body @ dquote # rest \<and> undouble body = Some t \<and>
     (\<forall>p. listPieces True p s = listPieces False (p @ body @ [dquote]) rest)"

lemma quotedPieceD:
  assumes "quotedPiece s body t rest"
  shows "s = body @ dquote # rest" "undouble body = Some t" "listPieces True p s = listPieces False (p @ body @ [dquote]) rest"
  using assms unfolding quotedPiece_def by blast+

lemma quotedPiece_end: "quotedPiece (dquote # rest) [] [] rest"
  by (simp add: quotedPiece_def)

lemma quotedPiece_double:
  assumes "quotedPiece s body t rest"
  shows "quotedPiece (dquote # dquote # s) (dquote # dquote # body) (dquote # t) rest"
  unfolding quotedPiece_def
proof (intro conjI allI)
  show "listPieces True p (dquote # dquote # s) = listPieces False (p @ (dquote # dquote # body) @ [dquote]) rest" for p
    using quotedPieceD(3) [OF assms, of "p @ [dquote, dquote]"] by simp
qed (use quotedPieceD(1,2) [OF assms] in simp_all)

lemma quotedPiece_char:
  assumes "quotedPiece s body t rest" and "c \<noteq> dquote"
  shows "quotedPiece (c # s) (c # body) (c # t) rest"
  unfolding quotedPiece_def
proof (intro conjI allI)
  show "listPieces True p (c # s) = listPieces False (p @ (c # body) @ [dquote]) rest" for p
    using quotedPieceD(3) [OF assms(1), of "p @ [c]"] assms(2) by simp
qed (use quotedPieceD(1,2) [OF assms(1)] assms(2) in simp_all)

lemma readQuotedElement_pieces:
  "readQuotedElement s e = Some (elem, rest) \<Longrightarrow> \<exists>body t. elem = e @ t \<and> quotedPiece s body t rest"
proof (induction s e rule: readQuotedElement.induct)
  case (2 c e)
  then show ?case using quotedPiece_end [of "[]"] by (auto split: if_splits)
next
  case (3 c d s e)
  show ?case
  proof (cases "c = dquote")
    case False
    with 3 obtain body t where "elem = (e @ [c]) @ t" "quotedPiece (d # s) body t rest" by auto
    with quotedPiece_char [OF this(2) False] show ?thesis by (intro exI [of _ "c # body"] exI [of _ "c # t"]) simp
  next
    case quote: True
    show ?thesis
    proof (cases "d = dquote")
      case True
      with quote 3 obtain body t where "elem = (e @ [dquote]) @ t" "quotedPiece s body t rest" by auto
      with quotedPiece_double [OF this(2)] quote True show ?thesis
        by (intro exI [of _ "dquote # dquote # body"] exI [of _ "dquote # t"]) simp
    next
      case False
      with quote 3 have "elem = e" "rest = d # s" by auto
      with quote quotedPiece_end [of rest] show ?thesis by (intro exI [of _ "[]"]) simp
    qed
  qed
qed simp

text \<open>One round of the code's loop reads one piece.\<close>

lemma takeWhile_spaces: "\<exists>u. s = u @ dropWhile isListSpace s \<and> (\<forall>c \<in> set u. isListSpace c)"
  by (rule exI [of _ "takeWhile isListSpace s"]) (auto dest: set_takeWhileD)

lemma space_plain: "isListSpace c \<Longrightarrow> c \<noteq> dquote \<and> c \<noteq> CHR '',''"
  by (auto simp: isListSpace_def)

definition bareWord :: "string \<Rightarrow> string" where
  "bareWord s = rev (dropWhile isListSpace (rev (takeWhile (\<lambda>c. c \<noteq> CHR '','') s)))"

lemma readListElement_bare:
  assumes "readListElement s = Inr (elem, rest)" and "dropWhile isListSpace s = c # s'" and "c \<noteq> dquote"
  shows "\<forall>d \<in> set (bareWord (c # s')). \<not> isListSpace d \<and> d \<noteq> dquote" "elem = stringsToLower (bareWord (c # s'))"
    "rest = dropWhile (\<lambda>c. c \<noteq> CHR '','') (c # s')"
proof -
  let ?bad = "list_ex (\<lambda>c. isListSpace c \<or> c = dquote) (bareWord (c # s'))"
  have eq: "readListElement s = (if ?bad
      then Inl (Errorf ''invalid list element %q (quote it with double quotes)'' [bareWord (c # s')])
      else Inr (stringsToLower (bareWord (c # s')), dropWhile (\<lambda>c. c \<noteq> CHR '','') (c # s')))"
    using assms(3) unfolding readListElement_def assms(2) Let_def bareWord_def list.case by (simp only: if_False)
  have "\<not> ?bad"
  proof
    assume ?bad
    with assms(1) show False unfolding eq by (simp only: if_True sum.distinct)
  qed
  then show "\<forall>d \<in> set (bareWord (c # s')). \<not> isListSpace d \<and> d \<noteq> dquote" by (auto simp: list_ex_iff)
  from assms(1) \<open>\<not> ?bad\<close> have "Inr (stringsToLower (bareWord (c # s')), dropWhile (\<lambda>c. c \<noteq> CHR '','') (c # s')) =
      (Inr (elem, rest) :: error + string \<times> string)" unfolding eq by (simp only: if_False)
  then show "elem = stringsToLower (bareWord (c # s'))" "rest = dropWhile (\<lambda>c. c \<noteq> CHR '','') (c # s')"
    by (simp_all only: sum.inject prod.inject)
qed

lemma elementText_bare:
  "stripSpaces p = d # ws \<Longrightarrow> d \<noteq> dquote \<Longrightarrow> \<not> (\<exists>x \<in> set ws. isListSpace x \<or> x = dquote) \<Longrightarrow>
    elementText p = Some (stringsToLower (d # ws))"
  by (simp add: elementText_def)

lemma readListElement_piece:
  assumes r: "readListElement s = Inr (elem, rest)" and "elem \<noteq> []" and rest: "rest = [] \<or> hd rest = CHR '',''"
  shows "\<exists>piece. elementText piece = Some elem \<and>
    listPieces False [] s = piece # (case rest of [] \<Rightarrow> [] | c # rest' \<Rightarrow> listPieces False [] rest')"
proof -
  obtain u where u: "s = u @ dropWhile isListSpace s" "\<forall>c \<in> set u. isListSpace c" using takeWhile_spaces by blast
  have up: "listPieces False [] s = listPieces False u (dropWhile isListSpace s)"
    using listPieces_plain [of u False "[]" "dropWhile isListSpace s"] u space_plain by simp
  have last_piece: "listPieces False p rest = p # (case rest of [] \<Rightarrow> [] | c # rest' \<Rightarrow> listPieces False [] rest')" for p
    using rest by (cases rest) auto
  from r \<open>elem \<noteq> []\<close> obtain c s' where c: "dropWhile isListSpace s = c # s'"
    by (cases "dropWhile isListSpace s") (auto simp: readListElement_def)
  then have nsp: "\<not> isListSpace c" by (metis dropWhile_eq_Cons_conv)
  show ?thesis
  proof (cases "c = dquote")
    case True
    with r c obtain after where q: "readQuotedElement s' [] = Some (elem, after)" and after: "rest = dropWhile isListSpace after"
      by (auto simp: readListElement_def split: option.splits)
    from readQuotedElement_pieces [OF q] obtain body where body: "quotedPiece s' body elem after" by auto
    obtain w where w: "after = w @ rest" "\<forall>c \<in> set w. isListSpace c" using takeWhile_spaces [of after] after by blast
    let ?piece = "u @ dquote # body @ dquote # w"
    have "elementText ?piece = Some elem"
      using stripSpaces_quoted [OF u(2) w(2)] quotedPieceD(2) [OF body] by (simp add: elementText_def)
    moreover have "listPieces False [] s = listPieces False ((u @ [dquote]) @ body @ [dquote]) after"
      unfolding up c True using quotedPieceD(3) [OF body, of "u @ [dquote]"] by simp
    moreover have "listPieces False ((u @ [dquote]) @ body @ [dquote]) after = listPieces False ?piece rest"
      using listPieces_plain [of w False "u @ dquote # body @ [dquote]" rest] w space_plain by simp
    ultimately show ?thesis using last_piece [of ?piece] by (intro exI [of _ ?piece]) simp
  next
    case False
    let ?raw = "takeWhile (\<lambda>c. c \<noteq> CHR '','') (c # s')"
    let ?word = "bareWord (c # s')"
    note bare = readListElement_bare [OF r c False]
    have plain: "\<forall>d \<in> set ?word. \<not> isListSpace d \<and> d \<noteq> dquote" and elem: "elem = stringsToLower ?word"
      and rest: "rest = dropWhile (\<lambda>c. c \<noteq> CHR '','') (c # s')" by (fact bare)+
    obtain w where h: "rev ?raw = w @ dropWhile isListSpace (rev ?raw)" and w2: "\<forall>c \<in> set (rev w). isListSpace c"
      using takeWhile_spaces [of "rev ?raw"] by (metis set_rev)
    have w1: "?raw = ?word @ rev w"
      using arg_cong [OF h, of rev] unfolding bareWord_def by (simp only: rev_rev_ident rev_append)
    note w = w1 w2
    have raw: "\<forall>d \<in> set ?raw. d \<noteq> dquote \<and> d \<noteq> CHR '',''"
    proof
      fix d assume d: "d \<in> set ?raw"
      then have "d \<in> set ?word \<or> d \<in> set (rev w)" using w(1) by (metis UnE set_append)
      moreover have "d \<noteq> CHR '',''" using d by (auto dest: set_takeWhileD)
      ultimately show "d \<noteq> dquote \<and> d \<noteq> CHR '',''" using plain w(2) space_plain by blast
    qed
    have "dropWhile isListSpace (u @ ?raw) = dropWhile isListSpace ?raw" using u(2) by (simp add: dropWhile_append2)
    then have "stripSpaces (u @ ?raw) = rev (dropWhile isListSpace (rev (dropWhile isListSpace ?raw)))"
      by (simp add: stripSpaces_def)
    moreover have "?raw \<noteq> [] \<Longrightarrow> dropWhile isListSpace ?raw = ?raw" using nsp by (auto split: if_splits)
    ultimately have strip: "stripSpaces (u @ ?raw) = ?word" unfolding bareWord_def by (cases "?raw = []") simp_all
    from \<open>elem \<noteq> []\<close> elem obtain d ws where dws: "?word = d # ws" by (cases ?word) auto
    with plain have "d \<noteq> dquote" "\<not> (\<exists>x \<in> set ws. isListSpace x \<or> x = dquote)" by auto
    from elementText_bare [OF trans [OF strip dws] this] have "elementText (u @ ?raw) = Some elem" unfolding elem dws .
    moreover have "listPieces False [] s = listPieces False (u @ ?raw) rest"
    proof -
      have "c # s' = ?raw @ rest" unfolding rest by (simp only: takeWhile_dropWhile_id)
      moreover have "listPieces False u (?raw @ rest) = listPieces False (u @ ?raw) rest"
        by (rule listPieces_plain) (use raw in blast)
      ultimately show ?thesis unfolding up c by (rule subst [OF sym])
    qed
    ultimately show ?thesis using last_piece [of "u @ ?raw"] by (intro exI [of _ "u @ ?raw"]) (simp only: simp_thms)
  qed
qed

lemma splitIdentifierListFrom_reads:
  "splitIdentifierListFrom s out = Inr es \<Longrightarrow>
    \<exists>more. es = out @ more \<and> more \<noteq> [] \<and> listElements s = Some more"
proof (induction s out rule: splitIdentifierListFrom.induct)
  case (1 s out)
  from "1.prems" obtain elem rest where r: "readListElement s = Inr (elem, rest)" and e: "elem \<noteq> []"
    and k: "(case rest of [] \<Rightarrow> Inr (out @ [elem]) | c # rest' \<Rightarrow>
        if c \<noteq> CHR '','' then Inl (Errorf ''unexpected %q after quoted identifier'' [[c]])
        else splitIdentifierListFrom rest' (out @ [elem])) = Inr es"
    unfolding splitIdentifierListFrom.simps [of s out] by (auto split: sum.splits prod.splits if_splits)
  have "rest = [] \<or> hd rest = CHR '',''" using k by (cases rest) (auto split: if_splits)
  from readListElement_piece [OF r e this] obtain piece where piece: "elementText piece = Some elem"
    "listPieces False [] s = piece # (case rest of [] \<Rightarrow> [] | c # rest' \<Rightarrow> listPieces False [] rest')" by blast
  show ?case
  proof (cases rest)
    case Nil
    with k piece show ?thesis by (simp add: listElements_def)
  next
    case (Cons c rest')
    with k have c: "c = CHR '',''" and k': "splitIdentifierListFrom rest' (out @ [elem]) = Inr es" by (auto split: if_splits)
    from "1.IH" [OF r refl e Cons] c k' obtain more where "es = (out @ [elem]) @ more" "more \<noteq> []" "listElements rest' = Some more"
      by auto
    with piece Cons show ?thesis by (simp add: listElements_def)
  qed
qed

lemma formatSettingValue_ok:
  "formatSettingValue n v = Inr t \<Longrightarrow> t = joinStr (map quoteLiteral (settingValues n v)) '', '' \<and> settingValues n v \<noteq> []"
  by (auto simp: formatSettingValue_def settingValues_def splitIdentifierList_def
      dest: splitIdentifierListFrom_reads split: if_splits sum.splits)

lemma quoteParameterName_ok:
  assumes "quoteParameterName p = Inr name"
  shows "NormalizeParameterName p = Inr (toLower p)"
    "name = joinStr (map quoteIdent (splitStr (toLower p) (CHR ''.''))) ''.''"
    "splitStr (toLower p) (CHR ''.'') \<noteq> []" "\<forall>n \<in> set (splitStr (toLower p) (CHR ''.'')). n \<noteq> []"
proof -
  from assms obtain n where n: "NormalizeParameterName p = Inr n" "name = joinStr (map quoteIdent (splitStr n (CHR ''.''))) ''.''"
    by (auto simp: quoteParameterName_def split: sum.splits)
  note parts = parameterName_parts [OF n(1)]
  from n parts show "NormalizeParameterName p = Inr (toLower p)"
    "name = joinStr (map quoteIdent (splitStr (toLower p) (CHR ''.''))) ''.''" by simp_all
  show "splitStr (toLower p) (CHR ''.'') \<noteq> []" by (simp add: splitStr_def)
  from parts show "\<forall>n \<in> set (splitStr (toLower p) (CHR ''.'')). n \<noteq> []" by (auto simp: identPart_def)
qed

text \<open>The parts of a parameter name that fit into an identifier.\<close>

definition shortParts :: "string \<Rightarrow> bool" where
  "shortParts p \<longleftrightarrow> (\<forall>n \<in> set (splitStr (toLower p) (CHR ''.'')). length n \<le> nameDataLen)"

lemma setClause_reads:
  assumes "buildSetClause p v = Inr c" and "shortParts p"
  shows "\<exists>ts. lexSql scs c = Some (Word ''SET'' # ts) \<and>
    (\<forall>sc. parseClause sc (Word ''SET'' # ts) = Some (AlterSet sc (splitStr (toLower p) (CHR ''.'')) (settingValues (toLower p) v)))"
proof -
  let ?ns = "splitStr (toLower p) (CHR ''.'')"
  from assms(1) obtain name where name: "quoteParameterName p = Inr name"
    by (auto simp: buildSetClause_def split: sum.splits)
  note q = quoteParameterName_ok [OF name]
  from assms(1) name q(1) obtain t where t: "formatSettingValue (toLower p) v = Inr t"
    and c: "c = ''SET'' @ CHR '' '' # name @ CHR '' '' # ''TO'' @ CHR '' '' # t"
    by (auto simp: buildSetClause_def split: sum.splits)
  note f = formatSettingValue_ok [OF t]
  have "lexSql scs (''TO'' @ CHR '' '' # t) = Some (Word ''TO'' # valueTokens (settingValues (toLower p) v))"
    using f lexSql_values by (simp only: lexSql_keyword keyWords) simp
  then have "lexSql scs (name @ CHR '' '' # ''TO'' @ CHR '' '' # t) =
      Some (nameTokens ?ns @ Word ''TO'' # valueTokens (settingValues (toLower p) v))"
    using lexSql_name [OF q(3), of scs "''TO'' @ CHR '' '' # t"] q(2,4) assms(2) by (simp add: shortParts_def)
  then have "lexSql scs c = Some (Word ''SET'' # nameTokens ?ns @ Word ''TO'' # valueTokens (settingValues (toLower p) v))"
    unfolding c by (simp only: lexSql_keyword keyWords option.map)
  moreover have "parseClause sc (Word ''SET'' # nameTokens ?ns @ Word ''TO'' # valueTokens (settingValues (toLower p) v)) =
      Some (AlterSet sc ?ns (settingValues (toLower p) v))" for sc
    using q(3) f by (simp add: parseClause_def parseName_tokens parseValues_tokens)
  ultimately show ?thesis by blast
qed

lemma lexSql_name_end:
  "ns \<noteq> [] \<Longrightarrow> \<forall>n \<in> set ns. n \<noteq> [] \<and> length n \<le> nameDataLen \<Longrightarrow>
    lexSql scs (joinStr (map quoteIdent ns) ''.'') = Some (nameTokens ns)"
proof (induction ns rule: nameTokens.induct)
  case (2 n)
  then show ?case using lexSql_quoteIdent [of n "[]" scs] by (simp add: hasPrefix_def lexSql.simps)
next
  case (3 n m ns)
  let ?t = "joinStr (map quoteIdent (m # ns)) ''.''"
  have "lexSql scs (quoteIdent n @ CHR ''.'' # ?t) = map_option ((#) (Ident n)) (lexSql scs (CHR ''.'' # ?t))"
    by (rule lexSql_quoteIdent) (use 3 in \<open>auto simp: hasPrefix_def\<close>)
  also have "lexSql scs (CHR ''.'' # ?t) = map_option ((#) (Sym (CHR ''.''))) (lexSql scs ?t)"
    by (rule lexSql_sym) (auto simp: identStartChar_def isSpaceChar_def isDigitChar_def)
  finally show ?case using 3 by simp
qed simp

lemma resetClause_reads:
  assumes "buildResetClause p = Inr c" and "shortParts p"
  shows "\<exists>ts. lexSql scs c = Some (Word ''RESET'' # ts) \<and>
    (\<forall>sc. parseClause sc (Word ''RESET'' # ts) = Some (AlterReset sc (splitStr (toLower p) (CHR ''.''))))"
proof -
  let ?ns = "splitStr (toLower p) (CHR ''.'')"
  from assms(1) obtain name where name: "quoteParameterName p = Inr name" and c: "c = ''RESET'' @ CHR '' '' # name"
    by (auto simp: buildResetClause_def split: sum.splits)
  note q = quoteParameterName_ok [OF name]
  have "lexSql scs name = Some (nameTokens ?ns)"
    using lexSql_name_end [OF q(3)] q(2,4) assms(2) by (simp add: shortParts_def)
  then have "lexSql scs c = Some (Word ''RESET'' # nameTokens ?ns)"
    unfolding c by (simp only: lexSql_keyword moreKeyWords option.map)
  moreover have "parseClause sc (Word ''RESET'' # nameTokens ?ns) = Some (AlterReset sc ?ns)" for sc
    using q(3) by (simp add: parseClause_def parseName_end)
  ultimately show ?thesis by blast
qed

lemma lexSql_quoted_name:
  "n \<noteq> [] \<Longrightarrow> length n \<le> nameDataLen \<Longrightarrow>
    lexSql scs (quoteIdent n @ CHR '' '' # r) = map_option ((#) (Ident n)) (lexSql scs r)"
  using lexSql_name [of "[n]" scs r] by (simp add: append_Cons [abs_def])

text \<open>A clause behind its scope: a database, a role, or a role in a database.\<close>

lemma alterScope_reads:
  assumes "lexSql scs c = Some (Word w # ts)" and "w \<in> {''SET'', ''RESET''}"
    and "\<And>sc. parseClause sc (Word w # ts) = Some (st sc)"
  shows "d \<noteq> [] \<Longrightarrow> length d \<le> nameDataLen \<Longrightarrow>
      parseAlter scs (''ALTER DATABASE '' @ quoteIdent d @ '' '' @ c) = Some (st ([], d))"
    and "length r \<le> nameDataLen \<Longrightarrow> length d \<le> nameDataLen \<Longrightarrow> alterRoleTarget r d = Inr t \<Longrightarrow>
      parseAlter scs (t @ '' '' @ c) = Some (st (r, d))"
proof -
  have alter: "lexSql scs (''ALTER'' @ CHR '' '' # kind @ CHR '' '' # quoteIdent x @ CHR '' '' # u) =
      map_option (\<lambda>tks. Word ''ALTER'' # Word kind # Ident x # tks) (lexSql scs u)"
    if "keyWord kind" "x \<noteq> []" "length x \<le> nameDataLen" for kind x u
    using that by (simp only: lexSql_keyword moreKeyWords lexSql_quoted_name option.map_comp comp_def not_False_eq_True)
  show "parseAlter scs (''ALTER DATABASE '' @ quoteIdent d @ '' '' @ c) = Some (st ([], d))"
    if "d \<noteq> []" "length d \<le> nameDataLen"
    using alter [of "''DATABASE''" d c] that assms(1,3) by (simp add: parseAlter_def parseAlterStmt_def)
  show "parseAlter scs (t @ '' '' @ c) = Some (st (r, d))"
    if r: "length r \<le> nameDataLen" "length d \<le> nameDataLen" "alterRoleTarget r d = Inr t"
  proof (cases "d = []")
    case True
    with r have "t = ''ALTER ROLE '' @ quoteIdent r" "r \<noteq> []" by (auto simp: alterRoleTarget_def split: if_splits)
    with True r alter [of "''ROLE''" r c] assms show ?thesis
      by (auto simp: parseAlter_def parseAlterStmt_def split: list.splits token.splits)
  next
    case False
    with r have t: "t = ''ALTER ROLE '' @ quoteIdent r @ '' IN DATABASE '' @ quoteIdent d" "r \<noteq> []"
      by (auto simp: alterRoleTarget_def split: if_splits)
    have "lexSql scs (''IN'' @ CHR '' '' # ''DATABASE'' @ CHR '' '' # quoteIdent d @ CHR '' '' # c) =
        Some (Word ''IN'' # Word ''DATABASE'' # Ident d # Word w # ts)"
      using False r(2) assms(1) by (simp only: lexSql_keyword keyWords moreKeyWords lexSql_quoted_name option.map_comp comp_def not_False_eq_True) simp
    with t r(1) alter [of "''ROLE''" r "''IN'' @ CHR '' '' # ''DATABASE'' @ CHR '' '' # quoteIdent d @ CHR '' '' # c"] assms(3)
    show ?thesis by (simp add: parseAlter_def parseAlterStmt_def)
  qed
qed

lemma buildAlterRoleSetQuery_reads:
  assumes "buildAlterRoleSetQuery r d p v = Inr q" and "shortParts p" "length r \<le> nameDataLen" "length d \<le> nameDataLen"
  shows "parseAlter scs q = Some (AlterSet (r, d) (splitStr (toLower p) (CHR ''.'')) (settingValues (toLower p) v))"
proof -
  from assms(1) obtain t c where t: "alterRoleTarget r d = Inr t" and c: "buildSetClause p v = Inr c" and q: "q = t @ '' '' @ c"
    by (auto simp: buildAlterRoleSetQuery_def split: sum.splits)
  obtain ts where "lexSql scs c = Some (Word ''SET'' # ts)"
    "\<And>sc. parseClause sc (Word ''SET'' # ts) = Some (AlterSet sc (splitStr (toLower p) (CHR ''.'')) (settingValues (toLower p) v))"
    using setClause_reads [OF c assms(2)] by blast
  from alterScope_reads(2) [OF this(1) _ this(2) assms(3,4) t] show ?thesis by (simp add: q)
qed

lemma buildAlterRoleResetQuery_reads:
  assumes "buildAlterRoleResetQuery r d p = Inr q" and "shortParts p" "length r \<le> nameDataLen" "length d \<le> nameDataLen"
  shows "parseAlter scs q = Some (AlterReset (r, d) (splitStr (toLower p) (CHR ''.'')))"
proof -
  from assms(1) obtain t c where t: "alterRoleTarget r d = Inr t" and c: "buildResetClause p = Inr c" and q: "q = t @ '' '' @ c"
    by (auto simp: buildAlterRoleResetQuery_def split: sum.splits)
  obtain ts where "lexSql scs c = Some (Word ''RESET'' # ts)"
    "\<And>sc. parseClause sc (Word ''RESET'' # ts) = Some (AlterReset sc (splitStr (toLower p) (CHR ''.'')))"
    using resetClause_reads [OF c assms(2)] by blast
  from alterScope_reads(2) [OF this(1) _ this(2) assms(3,4) t] show ?thesis by (simp add: q)
qed

lemma buildAlterDatabaseSetQuery_reads:
  assumes "buildAlterDatabaseSetQuery d p v = Inr q" and "shortParts p" "d \<noteq> []" "length d \<le> nameDataLen"
  shows "parseAlter scs q = Some (AlterSet ([], d) (splitStr (toLower p) (CHR ''.'')) (settingValues (toLower p) v))"
proof -
  from assms(1) obtain c where c: "buildSetClause p v = Inr c" and q: "q = ''ALTER DATABASE '' @ quoteIdent d @ '' '' @ c"
    by (auto simp: buildAlterDatabaseSetQuery_def split: sum.splits)
  obtain ts where "lexSql scs c = Some (Word ''SET'' # ts)"
    "\<And>sc. parseClause sc (Word ''SET'' # ts) = Some (AlterSet sc (splitStr (toLower p) (CHR ''.'')) (settingValues (toLower p) v))"
    using setClause_reads [OF c assms(2)] by blast
  from alterScope_reads(1) [OF this(1) _ this(2) assms(3,4)] show ?thesis by (simp add: q)
qed

lemma buildAlterDatabaseResetQuery_reads:
  assumes "buildAlterDatabaseResetQuery d p = Inr q" and "shortParts p" "d \<noteq> []" "length d \<le> nameDataLen"
  shows "parseAlter scs q = Some (AlterReset ([], d) (splitStr (toLower p) (CHR ''.'')))"
proof -
  from assms(1) obtain c where c: "buildResetClause p = Inr c" and q: "q = ''ALTER DATABASE '' @ quoteIdent d @ '' '' @ c"
    by (auto simp: buildAlterDatabaseResetQuery_def split: sum.splits)
  obtain ts where "lexSql scs c = Some (Word ''RESET'' # ts)"
    "\<And>sc. parseClause sc (Word ''RESET'' # ts) = Some (AlterReset sc (splitStr (toLower p) (CHR ''.'')))"
    using resetClause_reads [OF c assms(2)] by blast
  from alterScope_reads(1) [OF this(1) _ this(2) assms(3,4)] show ?thesis by (simp add: q)
qed

section \<open>Membership statements\<close>

lemma lexSql_quoted_end: "n \<noteq> [] \<Longrightarrow> length n \<le> nameDataLen \<Longrightarrow> lexSql scs (quoteIdent n) = Some [Ident n]"
  using lexSql_name_end [of "[n]" scs] by simp

lemma withOptions_reads:
  assumes "withs = (if optAdmin opts then [''ADMIN OPTION''] else []) @
      (case optInherit opts of None \<Rightarrow> [] | Some b \<Rightarrow> [''INHERIT '' @ boolUpper b]) @
      (case optSet opts of None \<Rightarrow> [] | Some b \<Rightarrow> [''SET '' @ boolUpper b])"
    and "withs \<noteq> []"
  shows "\<exists>ts. lexSql scs (''WITH '' @ joinStr withs '', '') = Some (Word ''WITH'' # ts) \<and>
    parseOptions ts (False, None, None) = Some (optAdmin opts, optInherit opts, optSet opts)"
proof -
  have read: "\<forall>a \<in> {True, False}. \<forall>i \<in> {None, Some True, Some False}. \<forall>st \<in> {None, Some True, Some False}.
      a \<or> i \<noteq> None \<or> st \<noteq> None \<longrightarrow>
      (case lexSql scs (''WITH '' @ joinStr ((if a then [''ADMIN OPTION''] else []) @
          (case i of None \<Rightarrow> [] | Some b \<Rightarrow> [''INHERIT '' @ boolUpper b]) @
          (case st of None \<Rightarrow> [] | Some b \<Rightarrow> [''SET '' @ boolUpper b])) '', '') of
         Some (Word w # ts) \<Rightarrow> w = ''WITH'' \<and> parseOptions ts (False, None, None) = Some (a, i, st)
       | _ \<Rightarrow> False)"
    by (cases scs; code_simp)
  have b: "b \<in> {True, False}" for b by simp
  have o: "x \<in> {None, Some True, Some False}" for x :: "bool option" by (cases x) auto
  note read [rule_format, OF b o o, of "optAdmin opts" "optInherit opts" "optSet opts"]
  then have "optAdmin opts \<or> optInherit opts \<noteq> None \<or> optSet opts \<noteq> None \<longrightarrow>
      (case lexSql scs (''WITH '' @ joinStr withs '', '') of
         Some (Word w # ts) \<Rightarrow> w = ''WITH'' \<and> parseOptions ts (False, None, None) = Some (optAdmin opts, optInherit opts, optSet opts)
       | _ \<Rightarrow> False)"
    unfolding assms(1) by simp
  with assms show ?thesis
    by (auto split: option.splits list.splits token.splits if_splits)
qed

lemma buildGrantRoleQuery_reads:
  assumes "r \<noteq> []" "m \<noteq> []" "length r \<le> nameDataLen" "length m \<le> nameDataLen"
  shows "parseMember scs (buildGrantRoleQuery r m opts) = Some (GrantRoleStmt r m (optAdmin opts) (optInherit opts) (optSet opts))"
proof -
  define withs where "withs = (if optAdmin opts then [''ADMIN OPTION''] else []) @
      (case optInherit opts of None \<Rightarrow> [] | Some b \<Rightarrow> [''INHERIT '' @ boolUpper b]) @
      (case optSet opts of None \<Rightarrow> [] | Some b \<Rightarrow> [''SET '' @ boolUpper b])"
  have pre: "lexSql scs (''GRANT'' @ CHR '' '' # quoteIdent r @ CHR '' '' # ''TO'' @ CHR '' '' # u) =
      map_option (\<lambda>ts. Word ''GRANT'' # Ident r # Word ''TO'' # ts) (lexSql scs u)" for u
    using assms by (simp only: lexSql_keyword keyWords lexSql_quoted_name option.map_comp comp_def not_False_eq_True)
  have q: "buildGrantRoleQuery r m opts = ''GRANT'' @ CHR '' '' # quoteIdent r @ CHR '' '' # ''TO'' @ CHR '' '' #
      quoteIdent m @ (if withs \<noteq> [] then CHR '' '' # ''WITH '' @ joinStr withs '', '' else [])"
    by (simp add: buildGrantRoleQuery_def withs_def [symmetric])
  show ?thesis
  proof (cases "withs = []")
    case True
    then have "optAdmin opts = False" "optInherit opts = None" "optSet opts = None"
      by (auto simp: withs_def split: if_splits option.splits)
    then show ?thesis
      using True q pre [of "quoteIdent m"] lexSql_quoted_end [of m scs] assms by (simp add: parseMember_def parseMemberStmt_def)
  next
    case False
    obtain ts where ts: "lexSql scs (''WITH '' @ joinStr withs '', '') = Some (Word ''WITH'' # ts)"
      "parseOptions ts (False, None, None) = Some (optAdmin opts, optInherit opts, optSet opts)"
      using withOptions_reads [OF withs_def False] by blast
    have "lexSql scs (quoteIdent m @ CHR '' '' # ''WITH '' @ joinStr withs '', '') = Some (Ident m # Word ''WITH'' # ts)"
      unfolding lexSql_quoted_name [OF assms(2,4)] ts(1) by simp
    with False q pre [of "quoteIdent m @ CHR '' '' # ''WITH '' @ joinStr withs '', ''"] ts(2) show ?thesis
      by (simp add: parseMember_def parseMemberStmt_def)
  qed
qed

lemma revokeRole_reads:
  assumes "r \<noteq> []" "m \<noteq> []" "length r \<le> nameDataLen" "length m \<le> nameDataLen"
  shows "parseMember scs (''REVOKE '' @ quoteIdent r @ '' FROM '' @ quoteIdent m) = Some (RevokeRoleStmt r m)"
    "parseMember scs (''REVOKE ADMIN OPTION FOR '' @ quoteIdent r @ '' FROM '' @ quoteIdent m) = Some (RevokeAdminStmt r m)"
proof -
  have "lexSql scs (quoteIdent r @ CHR '' '' # ''FROM'' @ CHR '' '' # quoteIdent m) = Some [Ident r, Word ''FROM'', Ident m]"
    using assms by (simp only: lexSql_keyword keyWords lexSql_quoted_name lexSql_quoted_end option.map not_False_eq_True)
  then have "lexSql scs (''REVOKE'' @ CHR '' '' # quoteIdent r @ CHR '' '' # ''FROM'' @ CHR '' '' # quoteIdent m) =
      Some [Word ''REVOKE'', Ident r, Word ''FROM'', Ident m]"
    "lexSql scs (''REVOKE'' @ CHR '' '' # ''ADMIN'' @ CHR '' '' # ''OPTION'' @ CHR '' '' # ''FOR'' @ CHR '' '' #
      quoteIdent r @ CHR '' '' # ''FROM'' @ CHR '' '' # quoteIdent m) =
      Some [Word ''REVOKE'', Word ''ADMIN'', Word ''OPTION'', Word ''FOR'', Ident r, Word ''FROM'', Ident m]"
    by (simp_all only: lexSql_keyword keyWords moreKeyWords option.map)
  then show "parseMember scs (''REVOKE '' @ quoteIdent r @ '' FROM '' @ quoteIdent m) = Some (RevokeRoleStmt r m)"
    "parseMember scs (''REVOKE ADMIN OPTION FOR '' @ quoteIdent r @ '' FROM '' @ quoteIdent m) = Some (RevokeAdminStmt r m)"
    by (simp_all add: parseMember_def parseMemberStmt_def)
qed

end
