(* ===== verification/Grant_Engine.thy ===== *)
theory Grant_Engine
  imports Sql_Text
begin

text \<open>
  The grant-tracking engine of \<open>internal/controller/privilege_grants.go\<close>: ledger keys, the set
  operations on privilege lists, and \<open>applyPrivilegeGrants\<close>, which compares the declared grants
  with what the grantees hold, records what it is about to add, grants it, and revokes what the
  ledger records and the spec no longer declares. The engine reaches PostgreSQL and the status
  subresource only through \<open>privilegeOps\<close> and \<open>ledgerPersist\<close>; both are parameters here, as they
  are in the code.
\<close>

section \<open>Targets and grants\<close>

record grantTarget =
  tKind :: ObjectKind
  tName :: string
  tGrantee :: string
  tSchema :: string
  tForRole :: string
  tOID :: int

definition targetKey :: "grantTarget \<Rightarrow> string" where
  "targetKey t =
     (let name = (if tOID t \<noteq> 0 then ''#'' @ formatInt (tOID t) else quoteGo (tName t));
          k = tKind t @ ''|'' @ name @ ''|'' @ quoteGo (tGrantee t)
      in if tForRole t \<noteq> [] then k @ ''|'' @ quoteGo (tForRole t) else k)"

definition targetObject :: "grantTarget \<Rightarrow> PrivilegeObject" where
  "targetObject t = \<lparr>Kind = tKind t, Name = tName t\<rparr>"

definition targetString :: "grantTarget \<Rightarrow> string" where
  "targetString t =
     (if tForRole t \<noteq> []
      then toLower (tKind t) @ '' in schema '' @ quoteGo (tName t) @ '' for role '' @ quoteGo (tForRole t) @
        '' to '' @ tGrantee t
      else objectString (targetObject t) @ '' to '' @ tGrantee t)"

record privilegeGrant =
  Target :: grantTarget
  Privileges :: "string list"
  GrantOptions :: "string list"

definition grantKey :: "privilegeGrant \<Rightarrow> string" where
  "grantKey g = targetKey (Target g)"

definition emptyGrant :: "privilegeGrant \<Rightarrow> bool" where
  "emptyGrant g \<longleftrightarrow> Privileges g = [] \<and> GrantOptions g = []"

definition desiredGrant :: "grantTarget \<Rightarrow> string list \<Rightarrow> bool \<Rightarrow> privilegeGrant" where
  "desiredGrant t privs withGrantOption =
     \<lparr>Target = t, Privileges = privs, GrantOptions = (if withGrantOption then privs else [])\<rparr>"

section \<open>Set operations on privilege lists\<close>

definition subtract :: "string list \<Rightarrow> string list \<Rightarrow> string list" where
  "subtract a b = filter (\<lambda>x. x \<notin> set b) a"

definition intersect :: "string list \<Rightarrow> string list \<Rightarrow> string list" where
  "intersect a b = filter (\<lambda>x. x \<in> set b) a"

definition unionStrs :: "string list \<Rightarrow> string list \<Rightarrow> string list" where
  "unionStrs a b = sortCompact (a @ b)"

section \<open>The engine\<close>

record 's privilegeOps =
  held :: "grantTarget \<Rightarrow> ('s, error + string list \<times> string list) state"
  grant :: "grantTarget \<Rightarrow> string list \<Rightarrow> bool \<Rightarrow> ('s, error option) state"
  revoke :: "grantTarget \<Rightarrow> string list \<Rightarrow> RevokeMode \<Rightarrow> ('s, error option) state"
  gone :: "(grantTarget \<Rightarrow> ('s, error + bool) state) option"

type_synonym 's ledgerPersist = "(privilegeGrant list \<Rightarrow> ('s, error option) state) option"

record plannedGrant =
  pgTarget :: grantTarget
  pgPlain :: "string list"
  pgGrantOptions :: "string list"
  pgAdded :: privilegeGrant

definition zeroTarget :: grantTarget where
  "zeroTarget = \<lparr>tKind = [], tName = [], tGrantee = [], tSchema = [], tForRole = [], tOID = 0\<rparr>"

definition zeroGrant :: privilegeGrant where
  "zeroGrant = \<lparr>Target = zeroTarget, Privileges = [], GrantOptions = []\<rparr>"

definition mergeGrant :: "privilegeGrant \<Rightarrow> privilegeGrant \<Rightarrow> privilegeGrant" where
  "mergeGrant a b =
     \<lparr>Target = Target b, Privileges = unionStrs (Privileges a) (Privileges b),
      GrantOptions = unionStrs (GrantOptions a) (GrantOptions b)\<rparr>"

definition sqlStateDependentObjects :: string where
  "sqlStateDependentObjects = ''2BP01''"

definition DependentPrivilegesExist :: "error option \<Rightarrow> bool" where
  "DependentPrivilegesExist e =
     (case e of None \<Rightarrow> False | Some x \<Rightarrow> asPqError x = Some sqlStateDependentObjects)"

definition sortedGrants :: "privilegeGrant gomap \<Rightarrow> privilegeGrant list" where
  "sortedGrants m =
     filter (\<lambda>g. \<not> emptyGrant g) (map (\<lambda>k. mapGet zeroGrant m k) (mapKeys m))"

definition planMissing :: "privilegeGrant \<Rightarrow> 's privilegeOps \<Rightarrow> ('s, error + plannedGrant) state" where
  "planMissing d ops = do {
     r \<leftarrow> held ops (Target d);
     (case r of
        Inl e \<Rightarrow> ret (Inl e)
      | Inr (heldPrivs, grantable) \<Rightarrow>
          (let missing = subtract (Privileges d) heldPrivs;
               opts = subtract (GrantOptions d) grantable
           in ret (Inr \<lparr>pgTarget = Target d, pgPlain = subtract missing opts, pgGrantOptions = opts,
                pgAdded = \<lparr>Target = Target d, Privileges = missing, GrantOptions = opts\<rparr>\<rparr>)))
   }"

text \<open>The loop of \<open>revokeEach\<close>: the privileges revoked, the ones refused, and the other errors.\<close>

fun revokeEachStep :: "'s privilegeOps \<Rightarrow> grantTarget \<Rightarrow> string \<Rightarrow> string list \<times> string list \<times> error option list
    \<Rightarrow> ('s, string list \<times> string list \<times> error option list) state" where
  "revokeEachStep ops t p (dn, blocked, errs) = do {
     e \<leftarrow> revoke ops t [p] \<lparr>GrantOptionOnly = False, Cascade = False\<rparr>;
     ret (if DependentPrivilegesExist e then (dn, blocked @ [p], errs)
          else if e \<noteq> None then (dn, blocked, errs @ [e])
          else (dn @ [p], blocked, errs))
   }"

definition revokeEach :: "grantTarget \<Rightarrow> string list \<Rightarrow> 's privilegeOps
    \<Rightarrow> ('s, string list \<times> string list \<times> error option) state" where
  "revokeEach t privs ops = do {
     (dn, blocked, errs) \<leftarrow> forEach privs (revokeEachStep ops t) ([], [], []);
     ret (dn, blocked, joinErrs errs)
   }"

text \<open>
  The three revokes of \<open>revokeRemoved\<close>, in its order. Each takes the ledger entry and the errors
  and skipped revokes so far and returns them updated.
\<close>

type_synonym revokeLocals = "privilegeGrant \<times> error option list \<times> string list"

definition revokeGrantOptionsOnly :: "'s privilegeOps \<Rightarrow> string list \<Rightarrow> revokeLocals \<Rightarrow> ('s, revokeLocals) state" where
  "revokeGrantOptionsOnly ops opts = (\<lambda>(m, errs, skipped).
     if opts = [] then ret (m, errs, skipped)
     else do {
       e \<leftarrow> revoke ops (Target m) opts \<lparr>GrantOptionOnly = True, Cascade = True\<rparr>;
       ret (if e \<noteq> None then (m, errs @ [e], skipped)
            else (m\<lparr>GrantOptions := subtract (GrantOptions m) opts\<rparr>, errs, skipped))
     })"

definition revokeWithOption :: "'s privilegeOps \<Rightarrow> string list \<Rightarrow> revokeLocals \<Rightarrow> ('s, revokeLocals) state" where
  "revokeWithOption ops withOption = (\<lambda>(m, errs, skipped).
     if withOption = [] then ret (m, errs, skipped)
     else do {
       e \<leftarrow> revoke ops (Target m) withOption \<lparr>GrantOptionOnly = False, Cascade = True\<rparr>;
       ret (if e \<noteq> None then (m, errs @ [e], skipped)
            else (m\<lparr>Privileges := subtract (Privileges m) withOption,
                    GrantOptions := subtract (GrantOptions m) withOption\<rparr>, errs, skipped))
     })"

fun afterEach :: "revokeLocals \<Rightarrow> string list \<times> string list \<times> error option \<Rightarrow> revokeLocals" where
  "afterEach (m, errs, skipped) (dn, blocked, err) =
     (let m1 = m\<lparr>Privileges := subtract (Privileges m) dn\<rparr>;
          m2 = (if blocked \<noteq> [] then m1\<lparr>Privileges := subtract (Privileges m1) blocked\<rparr> else m1)
      in (m2, (if err \<noteq> None then errs @ [err] else errs),
          (if blocked \<noteq> [] then skipped @ [joinStr blocked '', '' @ '' on '' @ targetString (Target m)] else skipped)))"

definition revokePlain :: "'s privilegeOps \<Rightarrow> string list \<Rightarrow> revokeLocals \<Rightarrow> ('s, revokeLocals) state" where
  "revokePlain ops plain = (\<lambda>(m, errs, skipped).
     if plain = [] then ret (m, errs, skipped)
     else do {
       e \<leftarrow> revoke ops (Target m) plain \<lparr>GrantOptionOnly = False, Cascade = False\<rparr>;
       (if DependentPrivilegesExist e
        then do {
          r \<leftarrow> revokeEach (Target m) plain ops;
          ret (afterEach (m, errs, skipped) r)
        }
        else ret (if e \<noteq> None then (m, errs @ [e], skipped)
                  else (m\<lparr>Privileges := subtract (Privileges m) plain\<rparr>, errs, skipped)))
     })"

definition revokeStatements :: "'s privilegeOps \<Rightarrow> privilegeGrant \<Rightarrow> string list \<Rightarrow> string list \<Rightarrow> string list
    \<Rightarrow> ('s, privilegeGrant \<times> error option \<times> string list) state" where
  "revokeStatements ops m removed grantOptionsOnly skipped = do {
     (m1, errs1, sk1) \<leftarrow> revokeGrantOptionsOnly ops grantOptionsOnly (m, [], skipped);
     (let withOption = intersect removed (GrantOptions m1);
          plain = subtract removed withOption
      in do {
        st2 \<leftarrow> revokeWithOption ops withOption (m1, errs1, sk1);
        (m3, errs3, sk3) \<leftarrow> revokePlain ops plain st2;
        ret (m3, joinErrs errs3, sk3)
      })
   }"

definition revokeRemoved :: "privilegeGrant \<Rightarrow> privilegeGrant \<Rightarrow> 's privilegeOps \<Rightarrow> string list
    \<Rightarrow> ('s, privilegeGrant \<times> error option \<times> string list) state" where
  "revokeRemoved m d ops skipped =
     (let removed = subtract (Privileges m) (Privileges d);
          grantOptionsOnly = subtract (subtract (GrantOptions m) (GrantOptions d)) removed
      in if removed = [] \<and> grantOptionsOnly = [] then ret (m, None, skipped)
         else (case gone ops of
             None \<Rightarrow> revokeStatements ops m removed grantOptionsOnly skipped
           | Some isGone \<Rightarrow> do {
               r \<leftarrow> isGone (Target m);
               (case r of
                  Inl e \<Rightarrow> ret (m, Some e, skipped)
                | Inr True \<Rightarrow> ret (\<lparr>Target = Target m, Privileges = [], GrantOptions = []\<rparr>, None, skipped)
                | Inr False \<Rightarrow> revokeStatements ops m removed grantOptionsOnly skipped)
             }))"

abbreviation ReasonTooManyGrants :: string where "ReasonTooManyGrants \<equiv> ''TooManyGrants''"
abbreviation ReasonRevokeSkipped :: string where "ReasonRevokeSkipped \<equiv> ''RevokeSkipped''"

definition trackedOf :: "privilegeGrant list \<Rightarrow> privilegeGrant gomap" where
  "trackedOf managed =
     foldl (\<lambda>m g. AList.update (grantKey g) (mergeGrant (mapGet zeroGrant m (grantKey g)) g) m) [] managed"

definition wantOf :: "privilegeGrant list \<Rightarrow> privilegeGrant gomap" where
  "wantOf desired = foldl (\<lambda>m d. AList.update (grantKey d) d m) [] desired"

fun planStep :: "'s privilegeOps \<Rightarrow> privilegeGrant \<Rightarrow> error option list \<times> plannedGrant list
    \<Rightarrow> ('s, error option list \<times> plannedGrant list) state" where
  "planStep ops d (errs, plan) = do {
     r \<leftarrow> planMissing d ops;
     ret (case r of
            Inl e \<Rightarrow> (errs @ [Some e], plan)
          | Inr p \<Rightarrow> (errs, if emptyGrant (pgAdded p) then plan else plan @ [p]))
   }"

definition planAll :: "'s privilegeOps \<Rightarrow> privilegeGrant list \<Rightarrow> error option list
    \<Rightarrow> ('s, error option list \<times> plannedGrant list) state" where
  "planAll ops grantable errs0 = forEach grantable (planStep ops) (errs0, [])"

definition intendedLedger :: "privilegeGrant gomap \<Rightarrow> plannedGrant list \<Rightarrow> privilegeGrant gomap" where
  "intendedLedger tracked plan =
     foldl (\<lambda>m p. AList.update (targetKey (pgTarget p))
       (mergeGrant (mapGet zeroGrant m (targetKey (pgTarget p))) (pgAdded p)) m) tracked plan"

definition grantUnlessEmpty :: "'s privilegeOps \<Rightarrow> grantTarget \<Rightarrow> string list \<Rightarrow> bool \<Rightarrow> ('s, error option) state" where
  "grantUnlessEmpty ops t ps withGrantOption =
     (if ps \<noteq> [] then grant ops t ps withGrantOption else ret None)"

definition grantStep :: "'s privilegeOps \<Rightarrow> plannedGrant \<Rightarrow> error option list \<Rightarrow> ('s, error option list) state" where
  "grantStep ops p errs = do {
     e1 \<leftarrow> grantUnlessEmpty ops (pgTarget p) (pgGrantOptions p) True;
     (if e1 \<noteq> None then ret (errs @ [e1])
      else do {
        e2 \<leftarrow> grantUnlessEmpty ops (pgTarget p) (pgPlain p) False;
        ret (if e2 \<noteq> None then errs @ [e2] else errs)
      })
   }"

definition grantPlan :: "'s privilegeOps \<Rightarrow> plannedGrant list \<Rightarrow> error option list \<Rightarrow> ('s, error option list) state" where
  "grantPlan ops plan errs0 = forEach plan (grantStep ops) errs0"

type_synonym revokeAllLocals = "privilegeGrant gomap \<times> error option list \<times> string list"

fun revokeStep :: "'s privilegeOps \<Rightarrow> privilegeGrant gomap \<Rightarrow> string \<Rightarrow> revokeAllLocals \<Rightarrow> ('s, revokeAllLocals) state" where
  "revokeStep ops want k (tracked, errs, skipped) = do {
     (m, err, skipped') \<leftarrow> revokeRemoved (mapGet zeroGrant tracked k) (mapGet zeroGrant want k) ops skipped;
     ret (if emptyGrant m then AList.delete k tracked else AList.update k m tracked,
          if err \<noteq> None then errs @ [err] else errs, skipped')
   }"

definition revokeAll :: "'s privilegeOps \<Rightarrow> privilegeGrant gomap \<Rightarrow> privilegeGrant gomap \<Rightarrow> error option list
    \<Rightarrow> ('s, revokeAllLocals) state" where
  "revokeAll ops want tracked0 errs0 = forEach (mapKeys tracked0) (revokeStep ops want) (tracked0, errs0, [])"

definition overLimit :: "privilegeGrant gomap \<Rightarrow> privilegeGrant gomap \<Rightarrow> int \<Rightarrow> bool" where
  "overLimit tracked want limit \<longleftrightarrow>
     limit > 0 \<and> int (length (unionStrs (mapKeys tracked) (mapKeys want))) > limit"

text \<open>The second half of \<open>applyPrivilegeGrants\<close>: the GRANTs of the plan, then the revokes.\<close>

definition executePlan :: "'s privilegeOps \<Rightarrow> privilegeGrant gomap \<Rightarrow> privilegeGrant gomap \<Rightarrow> plannedGrant list
    \<Rightarrow> error option list \<Rightarrow> ('s, privilegeGrant list \<times> error option) state" where
  "executePlan ops want tracked plan errs0 = do {
     errs1 \<leftarrow> grantPlan ops plan errs0;
     (after, errs2, skipped) \<leftarrow> revokeAll ops want tracked errs1;
     (let errs3 = (if skipped \<noteq> []
        then errs2 @ [Some (ConditionError ReasonRevokeSkipped (Errorf
          ''not revoked (the grantee passed them on with a grant option pgop did not give; revoke with CASCADE by hand if wanted), no longer tracked: %s''
          [joinStr skipped ''; '']))]
        else errs2)
      in ret (sortedGrants after, joinErrs errs3))
   }"

definition applyPrivilegeGrants :: "privilegeGrant list \<Rightarrow> privilegeGrant list \<Rightarrow> 's privilegeOps \<Rightarrow> int
    \<Rightarrow> 's ledgerPersist \<Rightarrow> ('s, privilegeGrant list \<times> error option) state" where
  "applyPrivilegeGrants desired managed ops limit persist =
     (let tracked = trackedOf managed;
          want = wantOf desired;
          n = length (unionStrs (mapKeys tracked) (mapKeys want));
          over = overLimit tracked want limit;
          errs0 = (if over then [Some (ConditionError ReasonTooManyGrants (Errorf
            ''the grants declared and those pgop still tracks add up to %d entries; pgop tracks at most %d. Nothing was granted (removed grants are still revoked): remove grants from the spec''
            [formatInt (int n), formatInt limit]))] else []);
          grantable = (if over then [] else desired)
      in do {
        (errs, plan) \<leftarrow> planAll ops grantable errs0;
        (if plan = [] then executePlan ops want tracked [] errs
         else (let intended = intendedLedger tracked plan
               in do {
                 e \<leftarrow> (case persist of None \<Rightarrow> ret None | Some p \<Rightarrow> p (sortedGrants intended));
                 (case e of
                    Some x \<Rightarrow> ret (sortedGrants tracked, joinErrs (errs @ [Some (Wrapf
                      ''recording the grants pgop is about to make failed, nothing was granted: %w'' [] x)]))
                  | None \<Rightarrow> executePlan ops want intended plan errs)
               }))
      })"


section \<open>What a ledger records\<close>

text \<open>The privileges and the grant options a ledger (or a list of declared grants) lists for a key.\<close>

definition recPrivs :: "privilegeGrant list \<Rightarrow> string \<Rightarrow> string set" where
  "recPrivs L k = (\<Union>g \<in> {g \<in> set L. grantKey g = k}. set (Privileges g))"

definition recOpts :: "privilegeGrant list \<Rightarrow> string \<Rightarrow> string set" where
  "recOpts L k = (\<Union>g \<in> {g \<in> set L. grantKey g = k}. set (GrantOptions g))"

abbreviation mapPrivs :: "privilegeGrant gomap \<Rightarrow> string \<Rightarrow> string set" where
  "mapPrivs m k \<equiv> set (Privileges (mapGet zeroGrant m k))"

abbreviation mapOpts :: "privilegeGrant gomap \<Rightarrow> string \<Rightarrow> string set" where
  "mapOpts m k \<equiv> set (GrantOptions (mapGet zeroGrant m k))"

text \<open>Every entry of a ledger map is filed under its own key.\<close>

definition keyed :: "privilegeGrant gomap \<Rightarrow> bool" where
  "keyed m \<longleftrightarrow> (\<forall>k g. map_of m k = Some g \<longrightarrow> grantKey g = k)"

text \<open>
  The well-formed lists of declared grants: one per key, with a grant option only on declared
  privileges. Every caller of the engine builds such a list.
\<close>

definition wfDesired :: "privilegeGrant list \<Rightarrow> bool" where
  "wfDesired desired \<longleftrightarrow> distinct (map grantKey desired) \<and>
     (\<forall>d \<in> set desired. set (GrantOptions d) \<subseteq> set (Privileges d))"

text \<open>The canonical form of a ledger: entries sorted by key, one per key, none empty, lists sorted.\<close>

definition canonicalLedger :: "privilegeGrant list \<Rightarrow> bool" where
  "canonicalLedger L \<longleftrightarrow> sorted (map grantKey L) \<and> distinct (map grantKey L) \<and>
     (\<forall>g \<in> set L. \<not> emptyGrant g)"

section \<open>Facts about keys and lists\<close>

lemma set_subtract [simp]: "set (subtract a b) = set a - set b"
  by (auto simp: subtract_def)

lemma set_intersect [simp]: "set (intersect a b) = set a \<inter> set b"
  by (auto simp: intersect_def)

lemma set_unionStrs [simp]: "set (unionStrs a b) = set a \<union> set b"
  by (simp add: unionStrs_def)

lemma subtract_empty [simp]: "subtract a [] = a"
  by (simp add: subtract_def)

lemma subtract_Nil_iff: "subtract a b = [] \<longleftrightarrow> set a \<subseteq> set b"
  by (auto simp: subtract_def filter_empty_conv)

lemma zeroGrant_sel [simp]: "Privileges zeroGrant = []" "GrantOptions zeroGrant = []"
  by (simp_all add: zeroGrant_def)

lemma mergeGrant_sel [simp]:
  "Target (mergeGrant a b) = Target b"
  "set (Privileges (mergeGrant a b)) = set (Privileges a) \<union> set (Privileges b)"
  "set (GrantOptions (mergeGrant a b)) = set (GrantOptions a) \<union> set (GrantOptions b)"
  by (simp_all add: mergeGrant_def)

lemma grantKey_mergeGrant [simp]: "grantKey (mergeGrant a b) = grantKey b"
  by (simp add: grantKey_def)

lemma append_sep_cancel:
  "c \<notin> set a \<Longrightarrow> c \<notin> set b \<Longrightarrow> a @ c # x = b @ c # y \<longleftrightarrow> a = b \<and> x = y"
proof (induction a arbitrary: b)
  case Nil
  then show ?case by (cases b) auto
next
  case (Cons d a)
  then show ?case by (cases b) auto
qed

text \<open>The name part of a key: it can be read off the front of the rest of the key.\<close>

lemma quoteGo_hd: "quoteGo s = CHR ''#'' # x \<longleftrightarrow> False" "quoteGo s @ y = CHR ''#'' # x \<longleftrightarrow> False"
  by (simp_all add: quoteGo_def)

lemma quoteGo_eq_iff: "quoteGo s = quoteGo t \<longleftrightarrow> s = t"
  using quoteGo_cancel [of s "[]" t "[]"] by simp

lemma quoteGo_longer: "quoteGo s = quoteGo t @ CHR ''|'' # x \<longleftrightarrow> False" "quoteGo t @ CHR ''|'' # x = quoteGo s \<longleftrightarrow> False"
  using quoteGo_cancel [of s "[]" t "CHR ''|'' # x"] by auto

lemma targetKey_name_cancel:
  assumes "(if i \<noteq> 0 then ''#'' @ formatInt i else quoteGo a) @ CHR ''|'' # x =
    (if j \<noteq> 0 then ''#'' @ formatInt j else quoteGo b) @ CHR ''|'' # y"
  shows "x = y \<and> i = j \<and> (i = 0 \<longrightarrow> a = b)"
proof (cases "i \<noteq> 0"; cases "j \<noteq> 0")
  assume "i \<noteq> 0" "j \<noteq> 0"
  with assms have "formatInt i @ CHR ''|'' # x = formatInt j @ CHR ''|'' # y" by simp
  moreover have "CHR ''|'' \<notin> set (formatInt i)" "CHR ''|'' \<notin> set (formatInt j)"
    using formatInt_chars by blast+
  ultimately show ?thesis
    using \<open>i \<noteq> 0\<close> by (simp add: append_sep_cancel formatInt_inject)
qed (use assms in \<open>auto simp: quoteGo_cancel quoteGo_hd dest: sym\<close>)

lemma targetKey_inject:
  assumes "CHR ''|'' \<notin> set (tKind t)" and "CHR ''|'' \<notin> set (tKind u)"
  shows "targetKey t = targetKey u \<longleftrightarrow>
    tKind t = tKind u \<and> tGrantee t = tGrantee u \<and> tForRole t = tForRole u \<and> tOID t = tOID u \<and>
    (tOID t = 0 \<longrightarrow> tName t = tName u)"
proof
  assume eq: "targetKey t = targetKey u"
  define tailOf where "tailOf = (\<lambda>v :: grantTarget. quoteGo (tGrantee v) @
    (if tForRole v \<noteq> [] then CHR ''|'' # quoteGo (tForRole v) else []))"
  have shape: "targetKey v = tKind v @ CHR ''|'' #
    (if tOID v \<noteq> 0 then ''#'' @ formatInt (tOID v) else quoteGo (tName v)) @ CHR ''|'' # tailOf v" for v
    by (simp add: targetKey_def Let_def tailOf_def)
  from eq have kind: "tKind t = tKind u" and
    rest: "(if tOID t \<noteq> 0 then ''#'' @ formatInt (tOID t) else quoteGo (tName t)) @ CHR ''|'' # tailOf t =
      (if tOID u \<noteq> 0 then ''#'' @ formatInt (tOID u) else quoteGo (tName u)) @ CHR ''|'' # tailOf u"
    unfolding shape append_sep_cancel [OF assms] by auto
  from targetKey_name_cancel [OF rest]
  have "tailOf t = tailOf u" and name: "tOID t = tOID u" "tOID t = 0 \<longrightarrow> tName t = tName u" by auto
  from this(1) have "tGrantee t = tGrantee u" "tForRole t = tForRole u"
    by (auto simp: tailOf_def quoteGo_cancel quoteGo_eq_iff quoteGo_longer split: if_splits)
  with kind name show "tKind t = tKind u \<and> tGrantee t = tGrantee u \<and> tForRole t = tForRole u \<and>
    tOID t = tOID u \<and> (tOID t = 0 \<longrightarrow> tName t = tName u)" by simp
qed (auto simp: targetKey_def Let_def)

section \<open>Facts about ledger maps\<close>

lemma recPrivs_Nil [simp]: "recPrivs [] k = {}" and recOpts_Nil [simp]: "recOpts [] k = {}"
  by (simp_all add: recPrivs_def recOpts_def)

lemma recPrivs_Cons [simp]: "recPrivs (g # L) k = (if grantKey g = k then set (Privileges g) else {}) \<union> recPrivs L k"
  and recOpts_Cons [simp]: "recOpts (g # L) k = (if grantKey g = k then set (GrantOptions g) else {}) \<union> recOpts L k"
  by (auto simp: recPrivs_def recOpts_def)

lemma recPrivs_snoc [simp]: "recPrivs (L @ [g]) k = recPrivs L k \<union> (if grantKey g = k then set (Privileges g) else {})"
  and recOpts_snoc [simp]: "recOpts (L @ [g]) k = recOpts L k \<union> (if grantKey g = k then set (GrantOptions g) else {})"
  by (auto simp: recPrivs_def recOpts_def)

lemma trackedOf_snoc [simp]:
  "trackedOf (L @ [g]) = AList.update (grantKey g) (mergeGrant (mapGet zeroGrant (trackedOf L) (grantKey g)) g) (trackedOf L)"
  by (simp add: trackedOf_def)

lemma trackedOf_Nil [simp]: "trackedOf [] = []"
  by (simp add: trackedOf_def)

lemma trackedOf_rec: "mapPrivs (trackedOf L) k = recPrivs L k" "mapOpts (trackedOf L) k = recOpts L k"
  by (induction L rule: rev_induct) (auto simp: map_simps)

lemma dom_trackedOf: "dom (map_of (trackedOf L)) = grantKey ` set L"
  by (induction L rule: rev_induct) (simp_all add: dom_update)

lemma trackedOf_entry:
  "map_of (trackedOf L) k = Some g \<Longrightarrow> grantKey g = k \<and> Target g \<in> Target ` set L"
  by (induction L arbitrary: k g rule: rev_induct) (auto simp: map_simps split: if_splits)

lemma keyed_trackedOf: "keyed (trackedOf L)"
  by (auto simp: keyed_def dest: trackedOf_entry)

lemma recs_fresh: "k \<notin> grantKey ` set L \<Longrightarrow> recPrivs L k = {} \<and> recOpts L k = {}"
  by (auto simp: recPrivs_def recOpts_def)

lemma recs_unique:
  "distinct (map grantKey L) \<Longrightarrow> d \<in> set L \<Longrightarrow>
    recPrivs L (grantKey d) = set (Privileges d) \<and> recOpts L (grantKey d) = set (GrantOptions d)"
proof (induction L)
  case (Cons g L)
  then show ?case
    using recs_fresh [of "grantKey g" L] by (cases "d = g") (auto simp: image_iff)
qed simp

lemma wantOf_rec:
  "distinct (map grantKey desired) \<Longrightarrow>
    mapPrivs (wantOf desired) k = recPrivs desired k \<and> mapOpts (wantOf desired) k = recOpts desired k"
proof (induction desired rule: rev_induct)
  case (snoc d L)
  then have "grantKey d \<notin> grantKey ` set L" by auto
  with snoc recs_fresh [of "grantKey d" L] show ?case
    by (auto simp: wantOf_def map_simps)
qed (simp add: wantOf_def)

lemma dom_wantOf: "dom (map_of (wantOf desired)) = grantKey ` set desired"
  by (induction desired rule: rev_induct) (simp_all add: wantOf_def dom_update)

lemma wfDesired_opts: "wfDesired desired \<Longrightarrow> recOpts desired k \<subseteq> recPrivs desired k"
  by (fastforce simp: wfDesired_def recOpts_def recPrivs_def)

lemma intendedLedger_snoc [simp]:
  "intendedLedger m (plan @ [p]) = AList.update (targetKey (pgTarget p))
     (mergeGrant (mapGet zeroGrant (intendedLedger m plan) (targetKey (pgTarget p))) (pgAdded p)) (intendedLedger m plan)"
  by (simp add: intendedLedger_def)

lemma intendedLedger_Nil [simp]: "intendedLedger m [] = m"
  by (simp add: intendedLedger_def)

definition wfPlan :: "plannedGrant list \<Rightarrow> bool" where
  "wfPlan plan \<longleftrightarrow> (\<forall>p \<in> set plan. pgTarget p = Target (pgAdded p))"

lemma wfPlan_simps [simp]: "wfPlan []" "wfPlan (plan @ [p]) \<longleftrightarrow> wfPlan plan \<and> pgTarget p = Target (pgAdded p)"
  by (auto simp: wfPlan_def)

lemma intendedLedger_rec:
  "wfPlan plan \<Longrightarrow> mapPrivs (intendedLedger m plan) k = mapPrivs m k \<union> recPrivs (map pgAdded plan) k \<and>
    mapOpts (intendedLedger m plan) k = mapOpts m k \<union> recOpts (map pgAdded plan) k"
  by (induction plan rule: rev_induct) (auto simp: map_simps grantKey_def)

lemma intendedLedger_entry:
  "wfPlan plan \<Longrightarrow> map_of (intendedLedger m plan) k = Some g \<Longrightarrow>
    map_of m k = Some g \<or> (grantKey g = k \<and> Target g \<in> pgTarget ` set plan)"
  by (induction plan arbitrary: g rule: rev_induct) (auto simp: map_simps grantKey_def split: if_splits)

lemma dom_intendedLedger: "dom (map_of (intendedLedger m plan)) = dom (map_of m) \<union> (\<lambda>p. targetKey (pgTarget p)) ` set plan"
  by (induction plan rule: rev_induct) (simp_all add: dom_update)

lemma keyed_intendedLedger: "keyed m \<Longrightarrow> wfPlan plan \<Longrightarrow> keyed (intendedLedger m plan)"
  unfolding keyed_def using intendedLedger_entry by blast

lemma mapGet_mem: "k \<in> dom (map_of m) \<Longrightarrow> map_of m k = Some (mapGet z m k)"
  by (auto simp: mapGet_def)

lemma keyed_get: "keyed m \<Longrightarrow> k \<in> dom (map_of m) \<Longrightarrow> grantKey (mapGet zeroGrant m k) = k"
  by (auto simp: keyed_def mapGet_def)

lemma map_grantKey_keys:
  "keyed m \<Longrightarrow> map grantKey (map (\<lambda>k. mapGet zeroGrant m k) (mapKeys m)) = mapKeys m"
  by (auto intro!: map_idI simp: keyed_get)

lemma canonical_sortedGrants: "keyed m \<Longrightarrow> canonicalLedger (sortedGrants m)"
  unfolding canonicalLedger_def sortedGrants_def
  using map_grantKey_keys [of m] mapKeys_canonical [of m]
  by (auto intro: sorted_filter [where f = grantKey] distinct_map_filter)

lemma set_sortedGrants: "set (sortedGrants m) = {g. \<exists>k. map_of m k = Some g \<and> \<not> emptyGrant g}"
proof -
  have "g \<in> (\<lambda>k. mapGet zeroGrant m k) ` dom (map_of m) \<longleftrightarrow> (\<exists>k. map_of m k = Some g)" for g
    by (auto simp: image_iff mapGet_def intro!: bexI)
  then show ?thesis by (auto simp: sortedGrants_def)
qed

lemma sortedGrants_rec:
  assumes "keyed m"
  shows "recPrivs (sortedGrants m) k = mapPrivs m k" "recOpts (sortedGrants m) k = mapOpts m k"
proof -
  have *: "g \<in> set (sortedGrants m) \<and> grantKey g = k \<longleftrightarrow> map_of m k = Some g \<and> \<not> emptyGrant g" for g
    using assms by (auto simp: set_sortedGrants keyed_def)
  show "recPrivs (sortedGrants m) k = mapPrivs m k" "recOpts (sortedGrants m) k = mapOpts m k"
    unfolding recPrivs_def recOpts_def * mem_Collect_eq
    by (auto simp: * mapGet_def emptyGrant_def split: option.splits)
qed

lemma sortedGrants_cong: "map_of m = map_of n \<Longrightarrow> sortedGrants m = sortedGrants n"
  by (simp add: sortedGrants_def mapKeys_eq mapGet_def)

lemma length_sortedGrants: "length (sortedGrants m) \<le> card (dom (map_of m))"
proof -
  have "length (sortedGrants m) \<le> length (mapKeys m)"
    unfolding sortedGrants_def by (metis length_filter_le length_map)
  also have "\<dots> = card (set (mapKeys m))"
    by (simp add: distinct_card [symmetric] del: set_mapKeys)
  finally show ?thesis by simp
qed

end
