(* ===== verification/Grant_Laws.thy ===== *)
theory Grant_Laws
  imports Grant_Engine
begin

text \<open>
  What the grant engine guarantees on a server whose access-control lists behave as PostgreSQL
  documents. The locale \<open>acl_ops\<close> states that behaviour of the operations the engine calls:
  reading an entry, GRANT, REVOKE with its modes, and the existence check. A failed statement may
  or may not have taken effect (the connection can be lost after the commit), so the laws bound
  the effect of every statement and fix it only for a successful one. The lemmas in the locale
  follow \<open>applyPrivilegeGrants\<close> through its phases.
\<close>

section \<open>The effect of a statement on the access-control entries\<close>

text \<open>
  Keys are the engine's target keys or whatever else names an object and a grantee. \<open>holds s k\<close> is the set of privileges the grantee of key \<open>k\<close> holds directly from the owner of the
  object, \<open>options s k\<close> those it holds with the grant option.
\<close>

definition grantEffect :: "('s \<Rightarrow> 'k \<Rightarrow> string set) \<Rightarrow> ('s \<Rightarrow> 'k \<Rightarrow> string set) \<Rightarrow> 'k \<Rightarrow> string list
    \<Rightarrow> bool \<Rightarrow> 's \<Rightarrow> error option \<Rightarrow> 's \<Rightarrow> bool" where
  "grantEffect holds options k ps w s e s' \<longleftrightarrow>
     (\<forall>k'. k' \<noteq> k \<longrightarrow> holds s' k' = holds s k' \<and> options s' k' = options s k') \<and>
     holds s k \<subseteq> holds s' k \<and> holds s' k \<subseteq> holds s k \<union> set ps \<and>
     options s k \<subseteq> options s' k \<and> options s' k \<subseteq> options s k \<union> (if w then set ps else {}) \<and>
     (e = None \<longrightarrow> set ps \<subseteq> holds s' k \<and> (w \<longrightarrow> set ps \<subseteq> options s' k))"

definition revokeEffect :: "('s \<Rightarrow> 'k \<Rightarrow> string set) \<Rightarrow> ('s \<Rightarrow> 'k \<Rightarrow> string set) \<Rightarrow> 'k \<Rightarrow> string list
    \<Rightarrow> RevokeMode \<Rightarrow> 's \<Rightarrow> error option \<Rightarrow> 's \<Rightarrow> bool" where
  "revokeEffect holds options k ps mode s e s' \<longleftrightarrow>
     (\<forall>k'. k' \<noteq> k \<longrightarrow> holds s' k' = holds s k' \<and> options s' k' = options s k') \<and>
     holds s' k \<subseteq> holds s k \<and> holds s k - (if GrantOptionOnly mode then {} else set ps) \<subseteq> holds s' k \<and>
     options s' k \<subseteq> options s k \<and> options s k - set ps \<subseteq> options s' k \<and>
     (e = None \<longrightarrow> options s' k \<inter> set ps = {} \<and> (\<not> GrantOptionOnly mode \<longrightarrow> holds s' k \<inter> set ps = {}))"

definition sameAcl :: "('s \<Rightarrow> 'k \<Rightarrow> string set) \<Rightarrow> ('s \<Rightarrow> 'k \<Rightarrow> string set) \<Rightarrow> 's \<Rightarrow> 's \<Rightarrow> bool" where
  "sameAcl holds options s s' \<longleftrightarrow> holds s' = holds s \<and> options s' = options s"

text \<open>The plan for one declared grant, read in world \<open>s\<close>.\<close>

definition planFor :: "('s \<Rightarrow> string \<Rightarrow> string set) \<Rightarrow> ('s \<Rightarrow> string \<Rightarrow> string set) \<Rightarrow> 's \<Rightarrow> privilegeGrant
    \<Rightarrow> plannedGrant \<Rightarrow> bool" where
  "planFor holds options s d p \<longleftrightarrow>
     pgTarget p = Target d \<and> Target (pgAdded p) = Target d \<and>
     set (Privileges (pgAdded p)) = set (Privileges d) - holds s (grantKey d) \<and>
     set (GrantOptions (pgAdded p)) = set (GrantOptions d) - options s (grantKey d) \<and>
     set (pgGrantOptions p) = set (GrantOptions d) - options s (grantKey d) \<and>
     set (pgPlain p) = set (Privileges (pgAdded p)) - set (pgGrantOptions p)"

text \<open>A declared grant that is in place already or that the plan takes care of.\<close>

definition covered :: "('s \<Rightarrow> string \<Rightarrow> string set) \<Rightarrow> ('s \<Rightarrow> string \<Rightarrow> string set) \<Rightarrow> 's \<Rightarrow> plannedGrant list
    \<Rightarrow> privilegeGrant \<Rightarrow> bool" where
  "covered holds options s plan d \<longleftrightarrow>
     set (Privileges d) \<subseteq> holds s (grantKey d) \<and> set (GrantOptions d) \<subseteq> options s (grantKey d) \<or>
     (\<exists>p \<in> set plan. planFor holds options s d p)"

text \<open>What one ledger entry goes through in \<open>revokeRemoved\<close>.\<close>

definition revokedEntry :: "('s \<Rightarrow> string \<Rightarrow> string set) \<Rightarrow> ('s \<Rightarrow> string \<Rightarrow> string set) \<Rightarrow> privilegeGrant
    \<Rightarrow> string set \<Rightarrow> string set \<Rightarrow> bool \<Rightarrow> bool \<Rightarrow> 's \<Rightarrow> privilegeGrant \<Rightarrow> 's \<Rightarrow> bool" where
  "revokedEntry holds options m removed dropped ok quiet s m' s' \<longleftrightarrow>
     (\<forall>k'. k' \<noteq> grantKey m \<longrightarrow> holds s' k' = holds s k' \<and> options s' k' = options s k') \<and>
     Target m' = Target m \<and>
     set (Privileges m') \<subseteq> set (Privileges m) \<and> set (GrantOptions m') \<subseteq> set (GrantOptions m) \<and>
     holds s' (grantKey m) \<subseteq> holds s (grantKey m) \<and> holds s (grantKey m) - removed \<subseteq> holds s' (grantKey m) \<and>
     options s' (grantKey m) \<subseteq> options s (grantKey m) \<and>
     options s (grantKey m) - (removed \<union> dropped) \<subseteq> options s' (grantKey m) \<and>
     holds s' (grantKey m) \<inter> (set (Privileges m) - removed) \<subseteq> set (Privileges m') \<and>
     options s' (grantKey m) \<inter> (set (GrantOptions m) - (removed \<union> dropped)) \<subseteq> set (GrantOptions m') \<and>
     (ok \<longrightarrow> holds s' (grantKey m) \<inter> removed = {} \<and> set (Privileges m') \<inter> removed = {} \<and>
        options s' (grantKey m) \<inter> (removed \<union> dropped) = {} \<and> set (GrantOptions m') \<inter> (removed \<union> dropped) = {}) \<and>
     (quiet \<longrightarrow> holds s' (grantKey m) \<inter> set (Privileges m) \<subseteq> set (Privileges m') \<and>
        options s' (grantKey m) \<inter> set (GrantOptions m) \<subseteq> set (GrantOptions m'))"

text \<open>What granting one entry of the plan can do to the access-control entries.\<close>

definition grantedEntry :: "('s \<Rightarrow> string \<Rightarrow> string set) \<Rightarrow> ('s \<Rightarrow> string \<Rightarrow> string set) \<Rightarrow> string
    \<Rightarrow> string set \<Rightarrow> string set \<Rightarrow> bool \<Rightarrow> 's \<Rightarrow> 's \<Rightarrow> bool" where
  "grantedEntry holds options k privs opts ok s s' \<longleftrightarrow>
     (\<forall>k'. k' \<noteq> k \<longrightarrow> holds s' k' = holds s k' \<and> options s' k' = options s k') \<and>
     holds s k \<subseteq> holds s' k \<and> holds s' k \<subseteq> holds s k \<union> privs \<and>
     options s k \<subseteq> options s' k \<and> options s' k \<subseteq> options s k \<union> opts \<and>
     (ok \<longrightarrow> privs \<subseteq> holds s' k \<and> opts \<subseteq> options s' k)"

lemma grantEffect_Nil: "grantEffect holds options k [] w s None s"
  by (simp add: grantEffect_def)

lemma revokeEffect_Nil: "revokeEffect holds options k [] mode s None s"
  by (simp add: revokeEffect_def)

lemma grantedEntry_fail:
  "grantEffect holds options k opts True s e s' \<Longrightarrow>
    grantedEntry holds options k (set plain \<union> set opts) (set opts) False s s'"
  by (auto simp: grantEffect_def grantedEntry_def)

lemma grantedEntry_both:
  "grantEffect holds options k opts True s None s1 \<Longrightarrow> grantEffect holds options k plain False s1 e s2 \<Longrightarrow>
    grantedEntry holds options k (set plain \<union> set opts) (set opts) (e = None) s s2"
  unfolding grantEffect_def grantedEntry_def by auto

lemma grantedEntry_ok:
  "grantedEntry holds options k privs opts ok s s' \<Longrightarrow> (ok' \<Longrightarrow> ok) \<Longrightarrow> grantedEntry holds options k privs opts ok' s s'"
  by (simp add: grantedEntry_def)

text \<open>What a plan grants on a key, and the effect of the part of a plan that was carried out.\<close>

definition plannedPrivs :: "plannedGrant list \<Rightarrow> string \<Rightarrow> string set" where
  "plannedPrivs plan k = (\<Union>p \<in> {p \<in> set plan. targetKey (pgTarget p) = k}. set (pgPlain p) \<union> set (pgGrantOptions p))"

definition plannedOpts :: "plannedGrant list \<Rightarrow> string \<Rightarrow> string set" where
  "plannedOpts plan k = (\<Union>p \<in> {p \<in> set plan. targetKey (pgTarget p) = k}. set (pgGrantOptions p))"

definition grantedPlan :: "('s \<Rightarrow> string \<Rightarrow> string set) \<Rightarrow> ('s \<Rightarrow> string \<Rightarrow> string set) \<Rightarrow> plannedGrant list
    \<Rightarrow> plannedGrant set \<Rightarrow> bool \<Rightarrow> 's \<Rightarrow> 's \<Rightarrow> bool" where
  "grantedPlan holds options plan dn ok s s' \<longleftrightarrow>
     (\<forall>k. holds s k \<subseteq> holds s' k \<and> options s k \<subseteq> options s' k \<and>
        holds s' k \<subseteq> holds s k \<union> plannedPrivs plan k \<and> options s' k \<subseteq> options s k \<union> plannedOpts plan k) \<and>
     (ok \<longrightarrow> (\<forall>p \<in> dn. set (pgPlain p) \<union> set (pgGrantOptions p) \<subseteq> holds s' (targetKey (pgTarget p)) \<and>
        set (pgGrantOptions p) \<subseteq> options s' (targetKey (pgTarget p))))"

lemma subset_Un_trans: "A \<subseteq> B \<union> C \<Longrightarrow> C \<subseteq> D \<Longrightarrow> A \<subseteq> B \<union> D"
  by blast

lemma grantedEntry_mono:
  assumes "grantedEntry holds options k privs opts ok s s'"
  shows "holds s k' \<subseteq> holds s' k'" "options s k' \<subseteq> options s' k'"
    "holds s' k' \<subseteq> holds s k' \<union> (if k' = k then privs else {})"
    "options s' k' \<subseteq> options s k' \<union> (if k' = k then opts else {})"
  using assms by (cases "k' = k"; auto simp: grantedEntry_def)+

lemma grantedPlan_step:
  assumes G: "grantedPlan holds options plan dn ok s s1" and p: "p \<in> set plan" and "ok' \<Longrightarrow> ok"
    and E: "grantedEntry holds options (targetKey (pgTarget p)) (set (pgPlain p) \<union> set (pgGrantOptions p))
      (set (pgGrantOptions p)) ok' s1 s2"
  shows "grantedPlan holds options plan (insert p dn) ok' s s2"
proof -
  have "(if k = targetKey (pgTarget p) then set (pgPlain p) \<union> set (pgGrantOptions p) else {}) \<subseteq> plannedPrivs plan k"
    "(if k = targetKey (pgTarget p) then set (pgGrantOptions p) else {}) \<subseteq> plannedOpts plan k" for k
    using p by (auto simp: plannedPrivs_def plannedOpts_def)
  note grow = grantedEntry_mono [OF E] this
  have "holds s k \<subseteq> holds s2 k \<and> options s k \<subseteq> options s2 k \<and>
        holds s2 k \<subseteq> holds s k \<union> plannedPrivs plan k \<and> options s2 k \<subseteq> options s k \<union> plannedOpts plan k" for k
  proof -
    from G have g: "holds s k \<subseteq> holds s1 k" "options s k \<subseteq> options s1 k"
        "holds s1 k \<subseteq> holds s k \<union> plannedPrivs plan k" "options s1 k \<subseteq> options s k \<union> plannedOpts plan k"
      by (simp_all add: grantedPlan_def)
    have "holds s2 k \<subseteq> holds s1 k \<union> plannedPrivs plan k" "options s2 k \<subseteq> options s1 k \<union> plannedOpts plan k"
      by (rule subset_Un_trans [OF grow(3) grow(5)], rule subset_Un_trans [OF grow(4) grow(6)])
    with g(3,4) have "holds s2 k \<subseteq> holds s k \<union> plannedPrivs plan k" "options s2 k \<subseteq> options s k \<union> plannedOpts plan k"
      by blast+
    with g(1,2) grow(1,2) [of k] show ?thesis by blast
  qed
  moreover have "set (pgPlain q) \<union> set (pgGrantOptions q) \<subseteq> holds s2 (targetKey (pgTarget q)) \<and>
        set (pgGrantOptions q) \<subseteq> options s2 (targetKey (pgTarget q))" if ok' "q \<in> insert p dn" for q
  proof (cases "q = p")
    case True
    with E that show ?thesis by (simp add: grantedEntry_def)
  next
    case False
    with G that assms(3) have "set (pgPlain q) \<union> set (pgGrantOptions q) \<subseteq> holds s1 (targetKey (pgTarget q))"
      "set (pgGrantOptions q) \<subseteq> options s1 (targetKey (pgTarget q))" by (auto simp: grantedPlan_def)
    then show ?thesis
      using grow(1,2) [of "targetKey (pgTarget q)"] by blast
  qed
  ultimately show ?thesis by (simp add: grantedPlan_def)
qed

lemma revokedEntry_refl: "revokedEntry holds options m {} {} True True s m s"
  by (auto simp: revokedEntry_def)

lemma revokedEntry_fail:
  "sameAcl holds options s s' \<Longrightarrow> revokedEntry holds options m removed dropped False True s m s'"
  by (auto simp: revokedEntry_def sameAcl_def)

lemma revokedEntry_ok:
  "revokedEntry holds options m removed dropped ok quiet s m' s' \<Longrightarrow> (ok' \<Longrightarrow> ok) \<Longrightarrow> (quiet' \<Longrightarrow> quiet) \<Longrightarrow>
    revokedEntry holds options m removed dropped ok' quiet' s m' s'"
  by (simp add: revokedEntry_def)

lemma revokedEntry_gone:
  assumes "sameAcl holds options s s'" and "holds s (grantKey m) = {}" and "options s (grantKey m) = {}"
  shows "revokedEntry holds options m removed dropped True True s
    \<lparr>Target = Target m, Privileges = [], GrantOptions = []\<rparr> s'"
  using assms by (simp add: revokedEntry_def sameAcl_def)

lemma revokedEntry_key: "revokedEntry holds options m removed dropped ok quiet s m' s' \<Longrightarrow> grantKey m' = grantKey m"
  by (simp add: revokedEntry_def grantKey_def)

lemma revokedEntryD:
  assumes "revokedEntry holds options m R D ok quiet s m' s'"
  shows "k' \<noteq> grantKey m \<Longrightarrow> holds s' k' = holds s k'" "k' \<noteq> grantKey m \<Longrightarrow> options s' k' = options s k'"
    "Target m' = Target m" "set (Privileges m') \<subseteq> set (Privileges m)" "set (GrantOptions m') \<subseteq> set (GrantOptions m)"
    "holds s' (grantKey m) \<subseteq> holds s (grantKey m)" "holds s (grantKey m) - R \<subseteq> holds s' (grantKey m)"
    "options s' (grantKey m) \<subseteq> options s (grantKey m)" "options s (grantKey m) - (R \<union> D) \<subseteq> options s' (grantKey m)"
    "holds s' (grantKey m) \<inter> (set (Privileges m) - R) \<subseteq> set (Privileges m')"
    "options s' (grantKey m) \<inter> (set (GrantOptions m) - (R \<union> D)) \<subseteq> set (GrantOptions m')"
    "ok \<Longrightarrow> holds s' (grantKey m) \<inter> R = {}" "ok \<Longrightarrow> set (Privileges m') \<inter> R = {}"
    "ok \<Longrightarrow> options s' (grantKey m) \<inter> (R \<union> D) = {}" "ok \<Longrightarrow> set (GrantOptions m') \<inter> (R \<union> D) = {}"
    "quiet \<Longrightarrow> holds s' (grantKey m) \<inter> set (Privileges m) \<subseteq> set (Privileges m')"
    "quiet \<Longrightarrow> options s' (grantKey m) \<inter> set (GrantOptions m) \<subseteq> set (GrantOptions m')"
  using assms unfolding revokedEntry_def by auto

lemma revokedEntry_trans:
  assumes 1: "revokedEntry holds options m R1 D1 ok1 quiet1 s m1 s1"
    and 2: "revokedEntry holds options m1 R2 D2 ok2 quiet2 s1 m2 s2"
  shows "revokedEntry holds options m (R1 \<union> R2) (D1 \<union> D2) (ok1 \<and> ok2) (quiet1 \<and> quiet2) s m2 s2"
proof -
  note a = revokedEntryD [OF 1]
  note b = revokedEntryD [OF 2, unfolded revokedEntry_key [OF 1]]
  have c: "ok1 \<and> ok2 \<Longrightarrow> holds s2 (grantKey m) \<inter> (R1 \<union> R2) = {}" "ok1 \<and> ok2 \<Longrightarrow> set (Privileges m2) \<inter> (R1 \<union> R2) = {}"
    "ok1 \<and> ok2 \<Longrightarrow> options s2 (grantKey m) \<inter> (R1 \<union> R2 \<union> (D1 \<union> D2)) = {}"
    "ok1 \<and> ok2 \<Longrightarrow> set (GrantOptions m2) \<inter> (R1 \<union> R2 \<union> (D1 \<union> D2)) = {}"
    using a(12) b(6,12) a(13) b(4,13) a(14) b(8,14) a(15) b(5,15) by auto
  have q: "quiet1 \<and> quiet2 \<Longrightarrow> holds s2 (grantKey m) \<inter> set (Privileges m) \<subseteq> set (Privileges m2)"
    "quiet1 \<and> quiet2 \<Longrightarrow> options s2 (grantKey m) \<inter> set (GrantOptions m) \<subseteq> set (GrantOptions m2)"
    using a(16,17) b(6,8,16,17) by auto
  have "holds s (grantKey m) - (R1 \<union> R2) \<subseteq> holds s2 (grantKey m)"
    "options s (grantKey m) - (R1 \<union> R2 \<union> (D1 \<union> D2)) \<subseteq> options s2 (grantKey m)"
    using a(7) b(7) a(9) b(9) by auto
  moreover have "holds s2 (grantKey m) \<inter> (set (Privileges m) - (R1 \<union> R2)) \<subseteq> set (Privileges m2)"
    using a(10) b(6,10) by auto
  moreover have "options s2 (grantKey m) \<inter> (set (GrantOptions m) - (R1 \<union> R2 \<union> (D1 \<union> D2))) \<subseteq> set (GrantOptions m2)"
    using a(11) b(8,11) by auto
  ultimately show ?thesis
    unfolding revokedEntry_def
    using a(1-3) b(1-3) order_trans [OF b(4) a(4)] order_trans [OF b(5) a(5)] order_trans [OF b(6) a(6)]
      order_trans [OF b(8) a(8)] c q by simp
qed

text \<open>The entry after each of the three forms of REVOKE.\<close>

lemma revokedEntry_options:
  assumes "revokeEffect holds options (grantKey m) opts \<lparr>GrantOptionOnly = True, Cascade = True\<rparr> s e s'"
  shows "revokedEntry holds options m {} (set opts) (e = None) True s
    (if e \<noteq> None then m else m\<lparr>GrantOptions := subtract (GrantOptions m) opts\<rparr>) s'"
  using assms by (auto simp: revokedEntry_def revokeEffect_def)

lemma revokedEntry_privs:
  assumes "revokeEffect holds options (grantKey m) ps \<lparr>GrantOptionOnly = False, Cascade = c\<rparr> s e s'"
    and "c \<or> set ps \<inter> set (GrantOptions m) = {}"
  shows "revokedEntry holds options m (set ps) {} (e = None) True s
    (if e \<noteq> None then m
     else if c then m\<lparr>Privileges := subtract (Privileges m) ps, GrantOptions := subtract (GrantOptions m) ps\<rparr>
     else m\<lparr>Privileges := subtract (Privileges m) ps\<rparr>) s'"
  using assms by (auto simp: revokedEntry_def revokeEffect_def)

text \<open>The entry after a refused REVOKE was retried one privilege at a time.\<close>

lemma revokedEntry_each:
  assumes "revokeEffect holds options (grantKey m) ps \<lparr>GrantOptionOnly = False, Cascade = False\<rparr> s (Some x) s1"
    and "revokeEffect holds options (grantKey m) ps \<lparr>GrantOptionOnly = False, Cascade = False\<rparr> s1 e s2"
    and "set dn \<subseteq> set ps" "set blocked \<subseteq> set ps" "holds s2 (grantKey m) \<inter> set dn = {}"
    and "e = None \<longrightarrow> set dn = set ps" "set ps \<inter> set (GrantOptions m) = {}"
  shows "revokedEntry holds options m (set ps) {} (e = None) (blocked = []) s
    (m\<lparr>Privileges := subtract (subtract (Privileges m) dn) blocked\<rparr>) s2"
  using assms unfolding revokedEntry_def revokeEffect_def by auto

text \<open>The local variables of \<open>revokeRemoved\<close> after a part of it ran.\<close>

fun revokePost :: "('s \<Rightarrow> string \<Rightarrow> string set) \<Rightarrow> ('s \<Rightarrow> string \<Rightarrow> string set) \<Rightarrow> ('s \<Rightarrow> privilegeGrant list)
    \<Rightarrow> string set \<Rightarrow> string set \<Rightarrow> 's \<Rightarrow> revokeLocals \<Rightarrow> revokeLocals \<Rightarrow> 's \<Rightarrow> bool" where
  "revokePost holds options stored R D s (m, errs, sk) (m', errs', sk') s' \<longleftrightarrow>
     stored s' = stored s \<and> None \<notin> set errs' \<and> (errs' = [] \<longrightarrow> errs = []) \<and> prefix sk sk' \<and>
     revokedEntry holds options m R D (errs' = [] \<and> sk' = sk) (sk' = sk) s m' s'"

lemma revokePost_trans:
  assumes "revokePost holds options stored R1 D1 s b b1 s1" and "revokePost holds options stored R2 D2 s1 b1 b2 s2"
  shows "revokePost holds options stored (R1 \<union> R2) (D1 \<union> D2) s b b2 s2"
proof -
  obtain m errs sk m1 errs1 sk1 m2 errs2 sk2
    where b: "b = (m, errs, sk)" "b1 = (m1, errs1, sk1)" "b2 = (m2, errs2, sk2)"
    by (cases b, cases b1, cases b2)
  from assms b have "revokedEntry holds options m R1 D1 (errs1 = [] \<and> sk1 = sk) (sk1 = sk) s m1 s1"
    "revokedEntry holds options m1 R2 D2 (errs2 = [] \<and> sk2 = sk1) (sk2 = sk1) s1 m2 s2" by simp_all
  then have "revokedEntry holds options m (R1 \<union> R2) (D1 \<union> D2)
      ((errs1 = [] \<and> sk1 = sk) \<and> (errs2 = [] \<and> sk2 = sk1)) (sk1 = sk \<and> sk2 = sk1) s m2 s2"
    by (rule revokedEntry_trans)
  moreover have "sk1 = sk \<and> sk2 = sk1" if "sk2 = sk"
    using that assms b by (auto dest: prefix_order.antisym)
  ultimately have "revokedEntry holds options m (R1 \<union> R2) (D1 \<union> D2) (errs2 = [] \<and> sk2 = sk) (sk2 = sk) s m2 s2"
    using assms b by (auto elim!: revokedEntry_ok)
  with assms b show ?thesis
    by (auto intro: prefix_order.trans)
qed

lemma revokeEffect_more:
  assumes "revokeEffect holds options k ps mode s (Some x) s1" and "revokeEffect holds options k [p] mode s1 e s2"
    and "p \<in> set ps"
  shows "revokeEffect holds options k ps mode s (Some x) s2"
  using assms unfolding revokeEffect_def by (auto split: if_splits)

lemma revokeEffect_one:
  assumes "revokeEffect holds options k [p] \<lparr>GrantOptionOnly = False, Cascade = c\<rparr> s e s'"
  shows "holds s' k \<subseteq> holds s k" "options s' k \<subseteq> options s k" "e = None \<Longrightarrow> p \<notin> holds s' k \<and> p \<notin> options s' k"
  using assms by (auto simp: revokeEffect_def)

text \<open>The results of \<open>revokeEach\<close>.\<close>

fun eachPost :: "('s \<Rightarrow> string \<Rightarrow> string set) \<Rightarrow> ('s \<Rightarrow> string \<Rightarrow> string set) \<Rightarrow> ('s \<Rightarrow> privilegeGrant list)
    \<Rightarrow> string \<Rightarrow> string list \<Rightarrow> 's \<Rightarrow> string list \<times> string list \<times> error option \<Rightarrow> 's \<Rightarrow> bool" where
  "eachPost holds options stored k ps s (dn, blocked, err) s' \<longleftrightarrow> stored s' = stored s \<and>
     revokeEffect holds options k ps \<lparr>GrantOptionOnly = False, Cascade = False\<rparr> s
       (if blocked = [] \<and> err = None then None else Some (Joined [])) s' \<and>
     set dn \<subseteq> set ps \<and> set blocked \<subseteq> set ps \<and> holds s' k \<inter> set dn = {} \<and>
     (blocked = [] \<and> err = None \<longrightarrow> set dn = set ps)"

lemma eachPost_revokePost:
  assumes "revokeEffect holds options (grantKey m) ps \<lparr>GrantOptionOnly = False, Cascade = False\<rparr> s (Some x) s1"
    and "stored s1 = stored s" and "eachPost holds options stored (grantKey m) ps s1 r s2"
    and "set ps \<inter> set (GrantOptions m) = {}" and "None \<notin> set errs"
  shows "revokePost holds options stored (set ps) {} s (m, errs, sk) (afterEach (m, errs, sk) r) s2"
proof -
  obtain dn blocked err where r: "r = (dn, blocked, err)" by (cases r)
  have "revokedEntry holds options m (set ps) {} ((if blocked = [] \<and> err = None then None else Some (Joined [])) = None)
      (blocked = []) s (m\<lparr>Privileges := subtract (subtract (Privileges m) dn) blocked\<rparr>) s2"
    by (rule revokedEntry_each [OF assms(1)]) (use assms r in auto)
  then have "revokedEntry holds options m (set ps) {} (blocked = [] \<and> err = None)
      (blocked = []) s (m\<lparr>Privileges := subtract (subtract (Privileges m) dn) blocked\<rparr>) s2"
    by (rule revokedEntry_ok) auto
  with assms r show ?thesis
    by (auto elim: revokedEntry_ok)
qed

section \<open>The contract of the operations\<close>

text \<open>
  \<open>valid\<close> are the targets the contract speaks about and \<open>names\<close> the privilege names in the form
  PostgreSQL reports them; the engine's callers only pass such grants.
\<close>

definition manageable :: "(grantTarget \<Rightarrow> bool) \<Rightarrow> string set \<Rightarrow> privilegeGrant \<Rightarrow> bool" where
  "manageable valid names g \<longleftrightarrow> valid (Target g) \<and> set (Privileges g) \<subseteq> names \<and> set (GrantOptions g) \<subseteq> names"

locale acl_ops =
  fixes ops :: "'s privilegeOps"
    and valid :: "grantTarget \<Rightarrow> bool"
    and names :: "string set"
    and holds :: "'s \<Rightarrow> string \<Rightarrow> string set"
    and options :: "'s \<Rightarrow> string \<Rightarrow> string set"
    and stored :: "'s \<Rightarrow> privilegeGrant list"
  assumes held_law: "valid t \<Longrightarrow>
      wp (held ops t) (\<lambda>r s'. sameAcl holds options s s' \<and> stored s' = stored s \<and>
        (\<forall>p g. r = Inr (p, g) \<longrightarrow> set p = holds s (targetKey t) \<and> set g = options s (targetKey t))) s"
    and grant_law: "valid t \<Longrightarrow> set ps \<subseteq> names \<Longrightarrow>
      wp (grant ops t ps w) (\<lambda>e s'. grantEffect holds options (targetKey t) ps w s e s' \<and> stored s' = stored s) s"
    and revoke_law: "valid t \<Longrightarrow> set ps \<subseteq> names \<Longrightarrow>
      wp (revoke ops t ps mode) (\<lambda>e s'. revokeEffect holds options (targetKey t) ps mode s e s' \<and> stored s' = stored s) s"
    and gone_law: "gone ops = Some isGone \<Longrightarrow> valid t \<Longrightarrow>
      wp (isGone t) (\<lambda>r s'. sameAcl holds options s s' \<and> stored s' = stored s \<and>
        (r = Inr True \<longrightarrow> holds s (targetKey t) = {} \<and> options s (targetKey t) = {})) s"
begin

section \<open>The phases of a run\<close>

lemma planMissing_post:
  assumes "valid (Target d)"
  shows "wp (planMissing d ops) (\<lambda>r s'. sameAcl holds options s s' \<and> stored s' = stored s \<and>
    (\<forall>p. r = Inr p \<longrightarrow> planFor holds options s d p)) s"
  unfolding planMissing_def
  by (simp add: wp_simps, rule wp_mono [OF held_law [OF assms]])
    (auto simp: wp_simps planFor_def grantKey_def Let_def split: sum.splits prod.splits)

lemma covered_snoc: "covered holds options s plan d \<Longrightarrow> covered holds options s (plan @ [p]) d"
  by (auto simp: covered_def)

lemma planFor_covered:
  "planFor holds options s d p \<Longrightarrow> covered holds options s (if emptyGrant (pgAdded p) then plan else plan @ [p]) d"
  by (auto simp: covered_def planFor_def emptyGrant_def)

lemma planFor_sameAcl: "sameAcl holds options s s1 \<Longrightarrow> planFor holds options s1 d p = planFor holds options s d p"
  by (simp add: sameAcl_def planFor_def)

text \<open>The invariant of the planning loop: what is known once the grants outside \<open>rest\<close> were visited.\<close>

lemma planAll_post:
  assumes "\<forall>d \<in> set ds. valid (Target d)" and "None \<notin> set errs"
  shows "wp (planAll ops ds errs) (\<lambda>(errs', plan) s'. sameAcl holds options s s' \<and> stored s' = stored s \<and>
    (\<forall>p \<in> set plan. \<exists>d \<in> set ds. planFor holds options s d p) \<and> None \<notin> set errs' \<and>
    (errs' = [] \<longrightarrow> errs = [] \<and> (\<forall>d \<in> set ds. covered holds options s plan d))) s"
proof -
  let ?I = "\<lambda>rest (errs', plan) s'. set rest \<subseteq> set ds \<and> sameAcl holds options s s' \<and> stored s' = stored s \<and>
    (\<forall>p \<in> set plan. \<exists>d \<in> set ds. planFor holds options s d p) \<and> None \<notin> set errs' \<and>
    (errs' = [] \<longrightarrow> errs = [] \<and> (\<forall>d \<in> set ds - set rest. covered holds options s plan d))"
  show ?thesis
    unfolding planAll_def
  proof (rule wp_forEach_rest [where I = ?I])
    fix d rest s1 and b :: "error option list \<times> plannedGrant list"
    assume I: "?I (d # rest) b s1"
    obtain errs' plan where b: "b = (errs', plan)" by (cases b)
    from I b have d: "d \<in> set ds" and same: "sameAcl holds options s s1" by auto
    have post: "wp (planMissing d ops) (\<lambda>r s'. sameAcl holds options s s' \<and> stored s' = stored s1 \<and>
        (\<forall>p. r = Inr p \<longrightarrow> planFor holds options s d p)) s1"
      using assms(1) d same planFor_sameAcl [OF same]
      by (intro wp_mono [OF planMissing_post]) (auto simp: sameAcl_def)
    have step: "?I rest (case r of Inl e \<Rightarrow> (errs' @ [Some e], plan)
          | Inr p \<Rightarrow> (errs', if emptyGrant (pgAdded p) then plan else plan @ [p])) s2"
      if "sameAcl holds options s s2" "stored s2 = stored s1" "\<forall>p. r = Inr p \<longrightarrow> planFor holds options s d p" for r s2
    proof (cases r)
      case (Inl e)
      with I b that show ?thesis by auto
    next
      case (Inr p)
      with that have p: "planFor holds options s d p" by simp
      let ?plan = "if emptyGrant (pgAdded p) then plan else plan @ [p]"
      have "covered holds options s ?plan x" if "errs' = []" "x \<in> set ds - set rest" for x
        using I b that planFor_covered [OF p, of plan] by (cases "x = d") (auto intro: covered_snoc)
      with I b that d p Inr show ?thesis by auto
    qed
    show "wp (planStep ops d b) (?I rest) s1"
      unfolding b planStep.simps wp_bind
      by (rule wp_mono [OF post]) (simp only: wp_ret, rule step, auto)
  qed (use assms(2) in \<open>auto simp: sameAcl_def\<close>)
qed

text \<open>The GRANTs: nothing is taken away, and what is added was planned.\<close>

lemma grantUnlessEmpty_post:
  assumes "valid t" and "set ps \<subseteq> names"
  shows "wp (grantUnlessEmpty ops t ps w)
    (\<lambda>e s'. grantEffect holds options (targetKey t) ps w s e s' \<and> stored s' = stored s) s"
  using grant_law [OF assms, of w s] by (cases "ps = []") (simp_all add: grantUnlessEmpty_def wp_simps grantEffect_Nil)

lemma grantStep_post:
  assumes "valid (pgTarget p) \<and> set (pgPlain p) \<union> set (pgGrantOptions p) \<subseteq> names" and "None \<notin> set errs"
  shows "wp (grantStep ops p errs) (\<lambda>errs' s'. stored s' = stored s \<and> None \<notin> set errs' \<and>
    (errs' = [] \<longrightarrow> errs = []) \<and>
    grantedEntry holds options (targetKey (pgTarget p)) (set (pgPlain p) \<union> set (pgGrantOptions p))
      (set (pgGrantOptions p)) (errs' = []) s s') s" (is "wp _ ?Q s")
proof -
  from assms(1) have v: "valid (pgTarget p)" "set (pgPlain p) \<subseteq> names" "set (pgGrantOptions p) \<subseteq> names" by auto
  let ?k = "targetKey (pgTarget p)"
  have "wp (if e1 \<noteq> None then ret (errs @ [e1])
        else State_Monad.bind (grantUnlessEmpty ops (pgTarget p) (pgPlain p) False)
          (\<lambda>e2. ret (if e2 \<noteq> None then errs @ [e2] else errs))) ?Q s1"
    if a1: "grantEffect holds options ?k (pgGrantOptions p) True s e1 s1" and st: "stored s1 = stored s" for e1 s1
  proof (cases e1)
    case None
    have "?Q (if e2 \<noteq> None then errs @ [e2] else errs) s2"
      if "grantEffect holds options ?k (pgPlain p) False s1 e2 s2 \<and> stored s2 = stored s1" for e2 s2
      using that st assms(2) grantedEntry_both [OF a1 [unfolded None], of "pgPlain p" e2 s2]
      by (cases e2) (auto elim: grantedEntry_ok)
    then have "wp (State_Monad.bind (grantUnlessEmpty ops (pgTarget p) (pgPlain p) False)
          (\<lambda>e2. ret (if e2 \<noteq> None then errs @ [e2] else errs))) ?Q s1"
      unfolding wp_bind wp_ret by (rule wp_mono [OF grantUnlessEmpty_post [OF v(1,2)]])
    with None show ?thesis by simp
  next
    case (Some x)
    with a1 st assms(2) grantedEntry_fail [OF a1, of "pgPlain p"] show ?thesis
      by (auto simp: wp_simps)
  qed
  with grantUnlessEmpty_post [OF v(1,3)] show ?thesis
    unfolding grantStep_def wp_bind by (blast intro: wp_mono)
qed

text \<open>The plan as a whole: what it adds to the entries of a key.\<close>

lemma grantPlan_post:
  assumes "\<forall>p \<in> set plan. valid (pgTarget p) \<and> set (pgPlain p) \<union> set (pgGrantOptions p) \<subseteq> names" and "None \<notin> set errs"
  shows "wp (grantPlan ops plan errs) (\<lambda>errs' s'. stored s' = stored s \<and> None \<notin> set errs' \<and>
    (errs' = [] \<longrightarrow> errs = []) \<and> grantedPlan holds options plan (set plan) (errs' = []) s s') s"
  unfolding grantPlan_def
proof (rule wp_forEach_rest [where I = "\<lambda>rest errs' s'. set rest \<subseteq> set plan \<and> stored s' = stored s \<and> None \<notin> set errs' \<and>
    (errs' = [] \<longrightarrow> errs = []) \<and> grantedPlan holds options plan (set plan - set rest) (errs' = []) s s'"], goal_cases)
  case 1
  show ?case using assms(2) by (auto simp: grantedPlan_def)
next
  case (2 p rest errs1 s1)
  then have p: "p \<in> set plan" "None \<notin> set errs1" and st: "stored s1 = stored s" by auto
  with assms(1) have v: "valid (pgTarget p) \<and> set (pgPlain p) \<union> set (pgGrantOptions p) \<subseteq> names" by blast
  show ?case
  proof (rule wp_mono [OF grantStep_post [OF v p(2)]])
    fix errs2 s2
    assume post: "stored s2 = stored s1 \<and> None \<notin> set errs2 \<and> (errs2 = [] \<longrightarrow> errs1 = []) \<and>
      grantedEntry holds options (targetKey (pgTarget p)) (set (pgPlain p) \<union> set (pgGrantOptions p))
        (set (pgGrantOptions p)) (errs2 = []) s1 s2"
    have "grantedPlan holds options plan (insert p (set plan - set (p # rest))) (errs2 = []) s s2"
      by (rule grantedPlan_step [where ok = "errs1 = []"]) (use 2 post p in auto)
    then have "grantedPlan holds options plan (set plan - set rest) (errs2 = []) s s2"
      by (auto simp: grantedPlan_def)
    with 2 post st show "set rest \<subseteq> set plan \<and> stored s2 = stored s \<and> None \<notin> set errs2 \<and>
      (errs2 = [] \<longrightarrow> errs = []) \<and> grantedPlan holds options plan (set plan - set rest) (errs2 = []) s s2" by auto
  qed
qed (use assms(2) in auto)

text \<open>The three revokes of one ledger entry.\<close>

lemma revoke_post:
  assumes "valid (Target m)" and "set ps \<subseteq> names"
  shows "wp (revoke ops (Target m) ps mode)
    (\<lambda>e s'. revokeEffect holds options (grantKey m) ps mode s e s' \<and> stored s' = stored s) s"
  using revoke_law [OF assms] by (simp add: grantKey_def)

lemma revokeGrantOptionsOnly_post:
  assumes "valid (Target m)" and "None \<notin> set errs" and "set opts \<subseteq> names"
  shows "wp (revokeGrantOptionsOnly ops opts (m, errs, sk))
    (revokePost holds options stored {} (set opts) s (m, errs, sk)) s"
proof (cases "opts = []")
  case True
  then show ?thesis
    using assms(2) revokedEntry_ok [OF revokedEntry_refl] by (auto simp: revokeGrantOptionsOnly_def wp_simps)
next
  case False
  have "revokePost holds options stored {} (set opts) s (m, errs, sk)
      (if e \<noteq> None then (m, errs @ [e], sk) else (m\<lparr>GrantOptions := subtract (GrantOptions m) opts\<rparr>, errs, sk)) s1"
    if "revokeEffect holds options (grantKey m) opts \<lparr>GrantOptionOnly = True, Cascade = True\<rparr> s e s1 \<and> stored s1 = stored s"
    for e s1
    using that assms(2) revokedEntry_options [of holds options m opts s e s1]
    by (cases e) (auto elim: revokedEntry_ok)
  with False show ?thesis
    by (auto simp: revokeGrantOptionsOnly_def wp_simps intro!: wp_mono [OF revoke_post [OF assms(1,3)]] split: if_splits)
qed

lemma revokeWithOption_post:
  assumes "valid (Target m)" and "None \<notin> set errs" and "set ps \<subseteq> names"
  shows "wp (revokeWithOption ops ps (m, errs, sk)) (revokePost holds options stored (set ps) {} s (m, errs, sk)) s"
proof (cases "ps = []")
  case True
  then show ?thesis
    using assms(2) revokedEntry_ok [OF revokedEntry_refl] by (auto simp: revokeWithOption_def wp_simps)
next
  case False
  have "revokePost holds options stored (set ps) {} s (m, errs, sk)
      (if e \<noteq> None then (m, errs @ [e], sk) else (m\<lparr>Privileges := subtract (Privileges m) ps,
         GrantOptions := subtract (GrantOptions m) ps\<rparr>, errs, sk)) s1"
    if "revokeEffect holds options (grantKey m) ps \<lparr>GrantOptionOnly = False, Cascade = True\<rparr> s e s1 \<and> stored s1 = stored s"
    for e s1
    using that assms(2) revokedEntry_privs [of holds options m ps True s e s1]
    by (cases e) (auto elim: revokedEntry_ok)
  with False show ?thesis
    by (auto simp: revokeWithOption_def wp_simps intro!: wp_mono [OF revoke_post [OF assms(1,3)]] split: if_splits)
qed

lemma revokeEach_post:
  assumes "valid (Target m)" and "set ps \<subseteq> names"
  shows "wp (revokeEach (Target m) ps ops) (eachPost holds options stored (grantKey m) ps s) s"
proof -
  let ?mode = "\<lparr>GrantOptionOnly = False, Cascade = False\<rparr>"
  let ?I = "\<lambda>rest (dn, blocked, errs) s'. set rest \<subseteq> set ps \<and> stored s' = stored s \<and> None \<notin> set errs \<and>
    revokeEffect holds options (grantKey m) ps ?mode s (Some (Joined [])) s' \<and>
    set dn \<subseteq> set ps \<and> set blocked \<subseteq> set ps \<and> holds s' (grantKey m) \<inter> set dn = {} \<and> options s' (grantKey m) \<inter> set dn = {} \<and>
    (blocked = [] \<and> errs = [] \<longrightarrow> set ps - set rest \<subseteq> set dn)"
  have "wp (forEach ps (revokeEachStep ops (Target m)) ([], [], [])) (?I []) s"
  proof (rule wp_forEach_rest [where I = ?I])
    fix p rest s1 and b :: "string list \<times> string list \<times> error option list"
    assume I: "?I (p # rest) b s1"
    obtain dn blocked errs where b: "b = (dn, blocked, errs)" by (cases b)
    from I b assms(2) have p: "set [p] \<subseteq> names" by auto
    have "?I rest (if DependentPrivilegesExist e then (dn, blocked @ [p], errs)
          else if e \<noteq> None then (dn, blocked, errs @ [e]) else (dn @ [p], blocked, errs)) s2"
      if e: "revokeEffect holds options (grantKey m) [p] ?mode s1 e s2 \<and> stored s2 = stored s1" for e s2
    proof -
      have "revokeEffect holds options (grantKey m) ps ?mode s (Some (Joined [])) s2"
        using e I b by (auto intro: revokeEffect_more)
      with e I b revokeEffect_one [OF conjunct1 [OF e]] show ?thesis
        by (cases e) auto
    qed
    then show "wp (revokeEachStep ops (Target m) p b) (?I rest) s1"
      unfolding b revokeEachStep.simps wp_bind wp_ret by (rule wp_mono [OF revoke_post [OF assms(1) p]])
  qed (auto simp: revokeEffect_def)
  then show ?thesis
    unfolding revokeEach_def wp_bind
    by (rule wp_mono) (auto simp: wp_simps revokeEffect_def joinErrs_errors)
qed

lemma revokePlain_post:
  assumes "valid (Target m)" and "None \<notin> set errs" and "set ps \<inter> set (GrantOptions m) = {}" and "set ps \<subseteq> names"
  shows "wp (revokePlain ops ps (m, errs, sk)) (revokePost holds options stored (set ps) {} s (m, errs, sk)) s"
proof (cases "ps = []")
  case True
  then show ?thesis
    using assms(2) revokedEntry_ok [OF revokedEntry_refl] by (auto simp: revokePlain_def wp_simps)
next
  case False
  let ?mode = "\<lparr>GrantOptionOnly = False, Cascade = False\<rparr>"
  let ?Q = "revokePost holds options stored (set ps) {} s (m, errs, sk)"
  have each: "wp (revokeEach (Target m) ps ops) (\<lambda>r. ?Q (afterEach (m, errs, sk) r)) s1"
    if "revokeEffect holds options (grantKey m) ps ?mode s (Some x) s1" "stored s1 = stored s" for x s1
    by (rule wp_mono [OF revokeEach_post [OF assms(1,4)]]) (rule eachPost_revokePost [OF that _ assms(3,2)])
  have others: "?Q (if e \<noteq> None then (m, errs @ [e], sk) else (m\<lparr>Privileges := subtract (Privileges m) ps\<rparr>, errs, sk)) s1"
    if "revokeEffect holds options (grantKey m) ps ?mode s e s1 \<and> stored s1 = stored s" for e s1
    using that assms(2,3) revokedEntry_privs [of holds options m ps False s e s1]
    by (cases e) (auto elim: revokedEntry_ok)
  have "wp (State_Monad.bind (revoke ops (Target m) ps ?mode) (\<lambda>e.
      if DependentPrivilegesExist e
      then State_Monad.bind (revokeEach (Target m) ps ops) (\<lambda>r. ret (afterEach (m, errs, sk) r))
      else ret (if e \<noteq> None then (m, errs @ [e], sk) else (m\<lparr>Privileges := subtract (Privileges m) ps\<rparr>, errs, sk)))) ?Q s"
    unfolding wp_bind wp_if wp_ret
  proof (rule wp_mono [OF revoke_post [OF assms(1,4)]])
    fix e s1
    assume a: "revokeEffect holds options (grantKey m) ps ?mode s e s1 \<and> stored s1 = stored s"
    show "(if DependentPrivilegesExist e then wp (revokeEach (Target m) ps ops) (\<lambda>r. ?Q (afterEach (m, errs, sk) r))
      else ?Q (if e \<noteq> None then (m, errs @ [e], sk) else (m\<lparr>Privileges := subtract (Privileges m) ps\<rparr>, errs, sk))) s1"
    proof (cases "DependentPrivilegesExist e")
      case True
      then obtain x where "e = Some x" by (cases e) (auto simp: DependentPrivilegesExist_def)
      with a each [of x s1] True show ?thesis by (simp only: if_True)
    qed (use others [OF a] in \<open>simp only: if_False\<close>)
  qed
  with False show ?thesis by (simp only: revokePlain_def prod.case if_False)
qed

text \<open>All three together, and \<open>revokeRemoved\<close> as a whole.\<close>

lemma revokeStatements_post:
  assumes "valid (Target m)" and "set removed \<subseteq> names" and "set opts \<subseteq> names"
  shows "wp (revokeStatements ops m removed opts sk)
    (\<lambda>(m', err, sk') s'. stored s' = stored s \<and> prefix sk sk' \<and>
      revokedEntry holds options m (set removed) (set opts) (err = None \<and> sk' = sk) (sk' = sk) s m' s') s"
proof -
  let ?P = "revokePost holds options stored"
  have third: "wp (revokePlain ops (subtract removed (intersect removed (GrantOptions m1))) b2)
      (\<lambda>(m3, errs3, sk3) s'. stored s' = stored s \<and> prefix sk sk3 \<and>
        revokedEntry holds options m (set removed) (set opts) (joinErrs errs3 = None \<and> sk3 = sk) (sk3 = sk) s m3 s') s2"
    if P1: "?P {} (set opts) s (m, [], sk) (m1, errs1, sk1) s1"
      and P2: "?P (set (intersect removed (GrantOptions m1))) {} s1 (m1, errs1, sk1) b2 s2" for m1 errs1 sk1 s1 b2 s2
  proof -
    let ?w = "intersect removed (GrantOptions m1)"
    obtain m2 errs2 sk2 where b2: "b2 = (m2, errs2, sk2)" by (cases b2)
    from P1 P2 b2 have e: "revokedEntry holds options m {} (set opts) (errs1 = [] \<and> sk1 = sk) (sk1 = sk) s m1 s1"
      "revokedEntry holds options m1 (set ?w) {} (errs2 = [] \<and> sk2 = sk1) (sk2 = sk1) s1 m2 s2" "None \<notin> set errs2"
      by simp_all
    from e have m2: "Target m2 = Target m" "None \<notin> set errs2" "set (GrantOptions m2) \<subseteq> set (GrantOptions m1)"
      using revokedEntryD(3) [OF e(1)] revokedEntryD(3,5) [OF e(2)] by simp_all
    have "wp (revokePlain ops (subtract removed ?w) b2) (?P (set (subtract removed ?w)) {} s2 b2) s2"
      unfolding b2 by (rule revokePlain_post) (use assms m2 in auto)
    moreover have "stored s3 = stored s \<and> prefix sk sk3 \<and>
        revokedEntry holds options m (set removed) (set opts) (joinErrs errs3 = None \<and> sk3 = sk) (sk3 = sk) s m3 s3"
      if "?P (set (subtract removed ?w)) {} s2 b2 (m3, errs3, sk3) s3" for m3 errs3 sk3 s3
    proof -
      have "?P ({} \<union> set ?w \<union> set (subtract removed ?w)) (set opts \<union> {} \<union> {}) s (m, [], sk) (m3, errs3, sk3) s3"
        by (rule revokePost_trans [OF revokePost_trans [OF P1 P2] that])
      moreover have "{} \<union> set ?w \<union> set (subtract removed ?w) = set removed" by auto
      ultimately show ?thesis by (simp add: joinErrs_errors)
    qed
    ultimately show ?thesis by (auto elim: wp_mono)
  qed
  have second: "wp (revokeWithOption ops (intersect removed (GrantOptions m1)) (m1, errs1, sk1))
      (?P (set (intersect removed (GrantOptions m1))) {} s1 (m1, errs1, sk1)) s1"
    if "?P {} (set opts) s (m, [], sk) (m1, errs1, sk1) s1" for m1 errs1 sk1 s1
    by (rule revokeWithOption_post) (use assms that in \<open>auto dest: revokedEntryD(3)\<close>)
  have first: "wp (revokeGrantOptionsOnly ops opts (m, [], sk)) (?P {} (set opts) s (m, [], sk)) s"
    by (rule revokeGrantOptionsOnly_post) (use assms in auto)
  show ?thesis
    unfolding revokeStatements_def wp_simps Let_def
    by (rule wp_mono [OF first], clarify, rule wp_mono [OF second], assumption, rule wp_mono [OF third], assumption+)
qed

lemma revokeRemoved_post:
  assumes m: "manageable valid names m"
  shows "wp (revokeRemoved m d ops sk)
    (\<lambda>(m', err, sk') s'. stored s' = stored s \<and> prefix sk sk' \<and>
      revokedEntry holds options m (set (Privileges m) - set (Privileges d))
        (set (GrantOptions m) - set (GrantOptions d) - (set (Privileges m) - set (Privileges d)))
        (err = None \<and> sk' = sk) (sk' = sk) s m' s') s" (is "wp _ ?Q s")
proof -
  let ?R = "subtract (Privileges m) (Privileges d)"
  let ?D = "subtract (subtract (GrantOptions m) (GrantOptions d)) ?R"
  from m have assms: "valid (Target m)" "set ?R \<subseteq> names" "set ?D \<subseteq> names"
    by (auto simp: manageable_def)
  have stmts: "wp (revokeStatements ops m ?R ?D sk) ?Q s1" if "sameAcl holds options s s1" "stored s1 = stored s" for s1
    by (rule wp_mono [OF revokeStatements_post [OF assms]])
      (use that in \<open>auto simp: revokedEntry_def sameAcl_def\<close>)
  have same: "sameAcl holds options s s" by (simp add: sameAcl_def)
  show ?thesis
  proof (cases "?R = [] \<and> ?D = []")
    case True
    then have none: "set (Privileges m) - set (Privileges d) = {}" "set (GrantOptions m) - set (GrantOptions d) = {}"
      by (auto simp: subtract_Nil_iff)
    have "?Q (m, None, sk) s"
      unfolding none by (simp add: revokedEntry_refl)
    then show ?thesis by (simp only: revokeRemoved_def Let_def if_P [OF True] wp_ret)
  next
    case False
    show ?thesis
    proof (cases "gone ops")
      case None
      show ?thesis
        using stmts [OF same refl] by (simp only: revokeRemoved_def Let_def if_not_P [OF False] None option.case)
    next
      case (Some isGone)
      have arms: "wp (case r of Inl e \<Rightarrow> ret (m, Some e, sk)
          | Inr True \<Rightarrow> ret (\<lparr>Target = Target m, Privileges = [], GrantOptions = []\<rparr>, None, sk)
          | Inr False \<Rightarrow> revokeStatements ops m ?R ?D sk) ?Q s1"
        if a: "sameAcl holds options s s1" "stored s1 = stored s"
          "r = Inr True \<longrightarrow> holds s (targetKey (Target m)) = {} \<and> options s (targetKey (Target m)) = {}" for r s1
        using stmts [OF a(1,2)] a revokedEntry_fail [OF a(1), THEN revokedEntry_ok]
          revokedEntry_gone [OF a(1), THEN revokedEntry_ok]
        by (auto simp: wp_simps grantKey_def split: sum.splits bool.splits)
      have "wp (State_Monad.bind (isGone (Target m)) (\<lambda>r. case r of Inl e \<Rightarrow> ret (m, Some e, sk)
          | Inr True \<Rightarrow> ret (\<lparr>Target = Target m, Privileges = [], GrantOptions = []\<rparr>, None, sk)
          | Inr False \<Rightarrow> revokeStatements ops m ?R ?D sk)) ?Q s"
        unfolding wp_bind by (rule wp_mono [OF gone_law [OF Some assms(1)]], rule arms) simp_all
      then show ?thesis by (simp only: revokeRemoved_def Let_def if_not_P [OF False] Some option.case)
    qed
  qed
qed

end

end
