(* ===== verification/Grant_Correct.thy ===== *)
theory Grant_Correct
  imports Grant_Laws
begin

text \<open>
  A whole run of \<open>applyPrivilegeGrants\<close>: the loop over the ledger, the two halves of the function
  composed, and the properties of a run over any operations that satisfy the contract
  \<open>acl_ops\<close> (and \<open>durable_ops\<close> for the record of the ledger).
\<close>

section \<open>The loop over the ledger\<close>

text \<open>
  What the loop has done to one key: \<open>T\<close> is the ledger at its start, \<open>W\<close> the declared grants,
  \<open>M\<close> the ledger now.
\<close>

definition revokedKey :: "('s \<Rightarrow> string \<Rightarrow> string set) \<Rightarrow> ('s \<Rightarrow> string \<Rightarrow> string set) \<Rightarrow> privilegeGrant gomap
    \<Rightarrow> privilegeGrant gomap \<Rightarrow> string \<Rightarrow> bool \<Rightarrow> bool \<Rightarrow> 's \<Rightarrow> privilegeGrant gomap \<Rightarrow> 's \<Rightarrow> bool" where
  "revokedKey holds options T W k ok quiet s M s' \<longleftrightarrow>
     mapPrivs M k \<subseteq> mapPrivs T k \<and> mapOpts M k \<subseteq> mapOpts T k \<and>
     holds s' k \<subseteq> holds s k \<and> holds s k - (mapPrivs T k - mapPrivs W k) \<subseteq> holds s' k \<and>
     options s' k \<subseteq> options s k \<and>
     options s k - ((mapPrivs T k - mapPrivs W k) \<union> (mapOpts T k - mapOpts W k)) \<subseteq> options s' k \<and>
     holds s' k \<inter> mapPrivs T k \<inter> mapPrivs W k \<subseteq> mapPrivs M k \<and>
     options s' k \<inter> mapOpts T k \<inter> mapOpts W k \<inter> mapPrivs W k \<subseteq> mapOpts M k \<and>
     (ok \<longrightarrow> holds s' k \<inter> (mapPrivs T k - mapPrivs W k) = {} \<and> mapPrivs M k \<subseteq> mapPrivs W k \<and>
        options s' k \<inter> (mapOpts T k - mapOpts W k) = {} \<and> mapOpts M k \<subseteq> mapOpts W k) \<and>
     (quiet \<longrightarrow> holds s' k \<inter> mapPrivs T k \<subseteq> mapPrivs M k \<and> options s' k \<inter> mapOpts T k \<subseteq> mapOpts M k)"

lemma revokedKey_refl:
  "mapGet zeroGrant M k = mapGet zeroGrant T k \<Longrightarrow> holds s' k = holds s k \<Longrightarrow> options s' k = options s k \<Longrightarrow>
    \<not> ok \<or> emptyGrant (mapGet zeroGrant T k) \<Longrightarrow> revokedKey holds options T W k ok quiet s M s'"
  by (auto simp: revokedKey_def emptyGrant_def)

lemma revokedKey_entry:
  assumes "revokedEntry holds options m (set (Privileges m) - set (Privileges d))
      (set (GrantOptions m) - set (GrantOptions d) - (set (Privileges m) - set (Privileges d))) ok quiet s1 m' s'"
    and "m = mapGet zeroGrant T k" "d = mapGet zeroGrant W k" "grantKey m = k"
    and "holds s1 k = holds s k" "options s1 k = options s k"
    and "set (Privileges (mapGet zeroGrant M k)) = set (Privileges m')" "set (GrantOptions (mapGet zeroGrant M k)) = set (GrantOptions m')"
  shows "revokedKey holds options T W k ok quiet s M s'"
proof -
  note e = revokedEntryD [OF assms(1)]
  have "set (Privileges m') \<subseteq> set (Privileges d)" "set (GrantOptions m') \<subseteq> set (GrantOptions d)" if ok
    using e(4) e(13) [OF that] e(5) e(15) [OF that] by blast+
  with e(4-12,14,16,17) assms(2-) show ?thesis
    unfolding revokedKey_def by auto
qed

lemma revokedKey_ok:
  "revokedKey holds options T W k ok quiet s M s' \<Longrightarrow> (ok' \<Longrightarrow> ok) \<Longrightarrow> (quiet' \<Longrightarrow> quiet) \<Longrightarrow>
    revokedKey holds options T W k ok' quiet' s M s'"
  by (simp add: revokedKey_def)

lemma revokedKey_cong:
  "revokedKey holds options T W k ok quiet s M s' \<Longrightarrow> mapGet zeroGrant N k = mapGet zeroGrant M k \<Longrightarrow>
    holds s2 k = holds s' k \<Longrightarrow> options s2 k = options s' k \<Longrightarrow> revokedKey holds options T W k ok quiet s N s2"
  by (simp add: revokedKey_def)

text \<open>The ledger map after one round: the entry is replaced, or removed when nothing is left of it.\<close>

definition storeEntry :: "string \<Rightarrow> privilegeGrant \<Rightarrow> privilegeGrant gomap \<Rightarrow> privilegeGrant gomap" where
  "storeEntry k m M = (if emptyGrant m then AList.delete k M else AList.update k m M)"

lemma storeEntry_get [map_simps]:
  "mapPrivs (storeEntry k m M) k = set (Privileges m)" "mapOpts (storeEntry k m M) k = set (GrantOptions m)"
  "k' \<noteq> k \<Longrightarrow> mapGet zeroGrant (storeEntry k m M) k' = mapGet zeroGrant M k'"
  by (auto simp: storeEntry_def map_simps emptyGrant_def)

lemma storeEntry_keyed: "keyed M \<Longrightarrow> grantKey m = k \<Longrightarrow> keyed (storeEntry k m M)"
  by (auto simp: storeEntry_def keyed_def map_simps split: if_splits)

lemma storeEntry_dom: "dom (map_of (storeEntry k m M)) \<subseteq> insert k (dom (map_of M))"
  by (auto simp: storeEntry_def dom_update dom_delete)

context acl_ops
begin

lemma revokeAll_post:
  assumes key: "keyed T" and val: "\<forall>k g. map_of T k = Some g \<longrightarrow> manageable valid names g" and errs0: "None \<notin> set errs0"
  shows "wp (revokeAll ops W T errs0) (\<lambda>(M, errs, sk) s'. stored s' = stored s \<and> keyed M \<and>
    dom (map_of M) \<subseteq> dom (map_of T) \<and> None \<notin> set errs \<and> (errs = [] \<longrightarrow> errs0 = []) \<and>
    (\<forall>k. revokedKey holds options T W k (errs = [] \<and> sk = []) (sk = []) s M s')) s"
proof -
  let ?I = "\<lambda>rest (M, errs, sk) s'. distinct rest \<and> set rest \<subseteq> dom (map_of T) \<and> stored s' = stored s \<and> keyed M \<and>
    dom (map_of M) \<subseteq> dom (map_of T) \<and> None \<notin> set errs \<and> (errs = [] \<longrightarrow> errs0 = []) \<and>
    (\<forall>k \<in> set rest. mapGet zeroGrant M k = mapGet zeroGrant T k \<and> holds s' k = holds s k \<and> options s' k = options s k) \<and>
    (\<forall>k. revokedKey holds options T W k (k \<notin> set rest \<and> errs = [] \<and> sk = []) (sk = []) s M s')"
  show ?thesis
    unfolding revokeAll_def
  proof (rule wp_forEach_rest [where I = ?I])
    have "emptyGrant (mapGet zeroGrant T k)" if "k \<notin> dom (map_of T)" for k
      using that by (auto simp: mapGet_def emptyGrant_def split: option.splits)
    then have "revokedKey holds options T W k (k \<notin> dom (map_of T) \<and> errs0 = []) True s T s" for k
      by (intro revokedKey_refl) auto
    with key errs0 show "?I (mapKeys T) (T, errs0, []) s" by auto
  next
    fix k rest s1 and b :: revokeAllLocals
    assume I: "?I (k # rest) b s1"
    obtain M errs sk where b: "b = (M, errs, sk)" by (cases b)
    let ?m = "mapGet zeroGrant T k" and ?d = "mapGet zeroGrant W k"
    from I b have M: "mapGet zeroGrant M k = ?m" and k: "k \<in> dom (map_of T)" "k \<notin> set rest"
      and st: "holds s1 k = holds s k" "options s1 k = options s k" by auto
    from k key val have m: "grantKey ?m = k" "manageable valid names ?m"
      by (auto simp: keyed_def mapGet_def)
    have step: "?I rest (storeEntry k m' M, if err \<noteq> None then errs @ [err] else errs, sk') s2"
      if post: "stored s2 = stored s1" "prefix sk sk'" and
        e: "revokedEntry holds options ?m (set (Privileges ?m) - set (Privileges ?d))
          (set (GrantOptions ?m) - set (GrantOptions ?d) - (set (Privileges ?m) - set (Privileges ?d)))
          (err = None \<and> sk' = sk) (sk' = sk) s1 m' s2" for m' err sk' s2
    proof -
      have others: "mapGet zeroGrant (storeEntry k m' M) k' = mapGet zeroGrant M k'"
        "holds s2 k' = holds s1 k'" "options s2 k' = options s1 k'" if "k' \<noteq> k" for k'
        using that revokedEntryD(1,2) [OF e] m by (simp_all add: map_simps)
      have sk: "sk' = [] \<Longrightarrow> sk = []" using post(2) by auto
      have "revokedKey holds options T W k (err = None \<and> sk' = sk) (sk' = sk) s (storeEntry k m' M) s2"
        by (rule revokedKey_entry [OF e refl refl m(1)]) (simp_all add: st map_simps)
      then have "revokedKey holds options T W k' (k' \<notin> set rest \<and> (if err \<noteq> None then errs @ [err] else errs) = [] \<and> sk' = [])
          (sk' = []) s (storeEntry k m' M) s2" for k'
      proof (cases "k' = k")
        case True
        with \<open>revokedKey holds options T W k _ _ s _ s2\<close> sk show ?thesis
          by (auto elim!: revokedKey_ok split: if_splits)
      next
        case False
        from I b have "revokedKey holds options T W k' (k' \<notin> set (k # rest) \<and> errs = [] \<and> sk = []) (sk = []) s M s1" by simp
        then have "revokedKey holds options T W k' (k' \<notin> set (k # rest) \<and> errs = [] \<and> sk = []) (sk = []) s (storeEntry k m' M) s2"
          by (rule revokedKey_cong) (use others [OF False] in auto)
        then show ?thesis
          by (rule revokedKey_ok) (use False sk in \<open>auto split: if_splits\<close>)
      qed
      moreover have "keyed (storeEntry k m' M)"
        by (rule storeEntry_keyed) (use I b revokedEntry_key [OF e] m in auto)
      moreover have "dom (map_of (storeEntry k m' M)) \<subseteq> dom (map_of T)"
        using storeEntry_dom [of k m' M] I b k(1) by (blast intro: order_trans)
      moreover have "\<forall>k' \<in> set rest. mapGet zeroGrant (storeEntry k m' M) k' = mapGet zeroGrant T k' \<and>
          holds s2 k' = holds s k' \<and> options s2 k' = options s k'"
      proof
        fix k' assume k': "k' \<in> set rest"
        with k(2) have "k' \<noteq> k" by auto
        with I b k' others [of k'] show "mapGet zeroGrant (storeEntry k m' M) k' = mapGet zeroGrant T k' \<and>
          holds s2 k' = holds s k' \<and> options s2 k' = options s k'" by simp
      qed
      ultimately show ?thesis using I b post(1) by (cases err) simp_all
    qed
    show "wp (revokeStep ops W k b) (?I rest) s1"
      unfolding b revokeStep.simps M wp_bind wp_case_prod wp_ret storeEntry_def [symmetric]
      by (rule wp_mono [OF revokeRemoved_post [OF m(2)]], unfold split_paired_all prod.case, elim conjE,
        rule step [unfolded prod.case]) assumption+
  qed auto
qed

end

section \<open>The run as a whole\<close>

text \<open>
  What a run does, key by key: \<open>desired\<close> and \<open>L\<close> are the declared grants and the ledger it starts
  with, \<open>L'\<close> the ledger it returns, \<open>ok\<close> that it reported no error and \<open>quiet\<close> that it skipped no revoke.
\<close>

definition grantRun :: "('s \<Rightarrow> string \<Rightarrow> string set) \<Rightarrow> ('s \<Rightarrow> string \<Rightarrow> string set) \<Rightarrow> privilegeGrant list
    \<Rightarrow> privilegeGrant list \<Rightarrow> 's \<Rightarrow> privilegeGrant list \<Rightarrow> bool \<Rightarrow> bool \<Rightarrow> 's \<Rightarrow> string \<Rightarrow> bool" where
  "grantRun holds options desired L s L' ok quiet s' k \<longleftrightarrow>
     holds s' k \<subseteq> holds s k \<union> recPrivs desired k \<and>
     holds s k - (recPrivs L k - recPrivs desired k) \<subseteq> holds s' k \<and>
     holds s' k - holds s k \<subseteq> recPrivs L' k \<and>
     recPrivs L' k \<subseteq> recPrivs L k \<union> (recPrivs desired k - holds s k) \<and>
     (ok \<longrightarrow> recPrivs desired k \<subseteq> holds s' k \<and> holds s' k \<inter> (recPrivs L k - recPrivs desired k) = {} \<and>
        recPrivs L' k \<subseteq> recPrivs desired k) \<and>
     (quiet \<longrightarrow> holds s' k \<inter> recPrivs L k \<subseteq> recPrivs L' k)"

definition optionRun :: "('s \<Rightarrow> string \<Rightarrow> string set) \<Rightarrow> ('s \<Rightarrow> string \<Rightarrow> string set) \<Rightarrow> privilegeGrant list
    \<Rightarrow> privilegeGrant list \<Rightarrow> 's \<Rightarrow> privilegeGrant list \<Rightarrow> bool \<Rightarrow> bool \<Rightarrow> 's \<Rightarrow> string \<Rightarrow> bool" where
  "optionRun holds options desired L s L' ok quiet s' k \<longleftrightarrow>
     options s' k \<subseteq> options s k \<union> recOpts desired k \<and>
     options s k - ((recPrivs L k - recPrivs desired k) \<union> (recOpts L k - recOpts desired k)) \<subseteq> options s' k \<and>
     options s' k - options s k \<subseteq> recOpts L' k \<and>
     recOpts L' k \<subseteq> recOpts L k \<union> (recOpts desired k - options s k) \<and>
     (ok \<longrightarrow> recOpts desired k \<subseteq> options s' k \<and> options s' k \<inter> (recOpts L k - recOpts desired k) = {} \<and>
        recOpts L' k \<subseteq> recOpts desired k) \<and>
     (quiet \<longrightarrow> options s' k \<inter> recOpts L k \<subseteq> recOpts L' k)"

text \<open>What the plan adds on a key, against what the grantee holds when it is made.\<close>

lemma planned_rec:
  assumes wf: "wfDesired desired" and plan: "\<forall>p \<in> set plan. \<exists>d \<in> set desired. planFor holds options s d p"
  shows "wfPlan plan" "recPrivs (map pgAdded plan) k \<subseteq> recPrivs desired k - holds s k"
    "recOpts (map pgAdded plan) k \<subseteq> recOpts desired k - options s k"
    "plannedPrivs plan k \<subseteq> holds s k \<union> recPrivs (map pgAdded plan) k"
    "plannedOpts plan k \<subseteq> recOpts (map pgAdded plan) k"
proof -
  have one: "pgTarget p = Target (pgAdded p) \<and> grantKey (pgAdded p) = grantKey d \<and>
      set (Privileges (pgAdded p)) = recPrivs desired (grantKey d) - holds s (grantKey d) \<and>
      set (GrantOptions (pgAdded p)) = recOpts desired (grantKey d) - options s (grantKey d) \<and>
      set (pgGrantOptions p) = set (GrantOptions (pgAdded p)) \<and>
      set (pgPlain p) \<union> set (pgGrantOptions p) \<subseteq> holds s (grantKey d) \<union> set (Privileges (pgAdded p))"
    if "d \<in> set desired" "planFor holds options s d p" for d p
    using that wf recs_unique [of desired d]
    by (auto simp: planFor_def wfDesired_def grantKey_def)
  have each: "pgTarget p = Target (pgAdded p) \<and> 
      set (Privileges (pgAdded p)) = recPrivs desired (grantKey (pgAdded p)) - holds s (grantKey (pgAdded p)) \<and>
      set (GrantOptions (pgAdded p)) = recOpts desired (grantKey (pgAdded p)) - options s (grantKey (pgAdded p)) \<and>
      set (pgGrantOptions p) = set (GrantOptions (pgAdded p)) \<and>
      set (pgPlain p) \<union> set (pgGrantOptions p) \<subseteq> holds s (grantKey (pgAdded p)) \<union> set (Privileges (pgAdded p))"
    if "p \<in> set plan" for p
    using plan that one by metis
  then show "wfPlan plan" by (simp add: wfPlan_def)
  show "recPrivs (map pgAdded plan) k \<subseteq> recPrivs desired k - holds s k"
    "recOpts (map pgAdded plan) k \<subseteq> recOpts desired k - options s k"
    unfolding recPrivs_def [of "map pgAdded plan"] recOpts_def [of "map pgAdded plan"] using each by auto
  show "plannedPrivs plan k \<subseteq> holds s k \<union> recPrivs (map pgAdded plan) k"
    unfolding recPrivs_def plannedPrivs_def using each by (fastforce simp: grantKey_def)
  show "plannedOpts plan k \<subseteq> recOpts (map pgAdded plan) k"
    unfolding recOpts_def plannedOpts_def using each by (fastforce simp: grantKey_def)
qed

text \<open>Once every planned grant ran, everything declared is in place.\<close>

lemma covered_granted:
  assumes "wfDesired desired" and "\<forall>d \<in> set desired. covered holds options s plan d"
    and "grantedPlan holds options plan (set plan) True s s1"
  shows "recPrivs desired k \<subseteq> holds s1 k" "recOpts desired k \<subseteq> options s1 k"
proof -
  have "set (Privileges d) \<subseteq> holds s1 (grantKey d) \<and> set (GrantOptions d) \<subseteq> options s1 (grantKey d)"
    if d: "d \<in> set desired" for d
  proof (cases "set (Privileges d) \<subseteq> holds s (grantKey d) \<and> set (GrantOptions d) \<subseteq> options s (grantKey d)")
    case True
    moreover from assms(3) have "holds s (grantKey d) \<subseteq> holds s1 (grantKey d)"
      "options s (grantKey d) \<subseteq> options s1 (grantKey d)" by (simp_all add: grantedPlan_def)
    ultimately show ?thesis by blast
  next
    case False
    with d assms(2) obtain p where p: "p \<in> set plan" "planFor holds options s d p"
      unfolding covered_def by blast
    then have key: "targetKey (pgTarget p) = grantKey d" and
      parts: "set (Privileges d) \<subseteq> holds s (grantKey d) \<union> (set (pgPlain p) \<union> set (pgGrantOptions p))"
      "set (GrantOptions d) \<subseteq> options s (grantKey d) \<union> set (pgGrantOptions p)"
      by (auto simp: planFor_def grantKey_def)
    from assms(3) p(1) key have "holds s (grantKey d) \<subseteq> holds s1 (grantKey d)"
      "options s (grantKey d) \<subseteq> options s1 (grantKey d)"
      "set (pgPlain p) \<union> set (pgGrantOptions p) \<subseteq> holds s1 (grantKey d)"
      "set (pgGrantOptions p) \<subseteq> options s1 (grantKey d)"
      unfolding grantedPlan_def by (simp, metis)+
    with parts show ?thesis by blast
  qed
  then show "recPrivs desired k \<subseteq> holds s1 k" "recOpts desired k \<subseteq> options s1 k"
    by (auto simp: recPrivs_def recOpts_def)
qed

text \<open>The two halves of a run composed, on one key.\<close>

lemma grantRun_compose:
  assumes T: "mapPrivs T k = recPrivs L k \<union> A" and W: "mapPrivs W k = recPrivs desired k"
    and L': "recPrivs L' k = mapPrivs M k" and A: "A \<subseteq> recPrivs desired k - holds s k"
    and G: "holds s k \<subseteq> holds s1 k" "holds s1 k \<subseteq> holds s k \<union> A"
    and C: "ok \<Longrightarrow> recPrivs desired k \<subseteq> holds s1 k"
    and K: "revokedKey holds options T W k ok quiet s1 M s2"
  shows "grantRun holds options desired L s L' ok quiet s2 k"
proof -
  have R: "mapPrivs T k - mapPrivs W k = recPrivs L k - recPrivs desired k" using T W A by blast
  from K have m: "mapPrivs M k \<subseteq> mapPrivs T k" "holds s2 k \<subseteq> holds s1 k"
    "holds s1 k - (recPrivs L k - recPrivs desired k) \<subseteq> holds s2 k"
    "holds s2 k \<inter> mapPrivs T k \<inter> mapPrivs W k \<subseteq> mapPrivs M k"
    by (simp_all add: revokedKey_def R)
  from K have n: "ok \<Longrightarrow> holds s2 k \<inter> (recPrivs L k - recPrivs desired k) = {}" "ok \<Longrightarrow> mapPrivs M k \<subseteq> mapPrivs W k"
    "quiet \<Longrightarrow> holds s2 k \<inter> mapPrivs T k \<subseteq> mapPrivs M k"
    by (simp_all add: revokedKey_def R)
  have "holds s2 k \<subseteq> holds s k \<union> recPrivs desired k" using m(2) G(2) A by blast
  moreover have "holds s k - (recPrivs L k - recPrivs desired k) \<subseteq> holds s2 k" using m(3) G(1) by blast
  moreover have "holds s2 k - holds s k \<subseteq> recPrivs L' k" using m(2,4) G(2) A T W L' by blast
  moreover have "recPrivs L' k \<subseteq> recPrivs L k \<union> (recPrivs desired k - holds s k)" using m(1) A T L' by blast
  moreover have "ok \<longrightarrow> recPrivs desired k \<subseteq> holds s2 k" using C m(3) by blast
  moreover have "quiet \<longrightarrow> holds s2 k \<inter> recPrivs L k \<subseteq> recPrivs L' k" using n(3) T L' by blast
  ultimately show ?thesis using n(1,2) L' W by (simp add: grantRun_def)
qed

lemma optionRun_compose:
  assumes T: "mapOpts T k = recOpts L k \<union> B" "mapPrivs T k - mapPrivs W k = recPrivs L k - recPrivs desired k"
    and W: "mapOpts W k = recOpts desired k" "recOpts desired k \<subseteq> recPrivs desired k" "mapPrivs W k = recPrivs desired k"
    and L': "recOpts L' k = mapOpts M k" and B: "B \<subseteq> recOpts desired k - options s k"
    and G: "options s k \<subseteq> options s1 k" "options s1 k \<subseteq> options s k \<union> B"
    and C: "ok \<Longrightarrow> recOpts desired k \<subseteq> options s1 k"
    and K: "revokedKey holds options T W k ok quiet s1 M s2"
  shows "optionRun holds options desired L s L' ok quiet s2 k"
proof -
  have R: "mapOpts T k - mapOpts W k = recOpts L k - recOpts desired k" using T(1) W(1) B by blast
  from K have m: "mapOpts M k \<subseteq> mapOpts T k" "options s2 k \<subseteq> options s1 k"
    "options s1 k - ((recPrivs L k - recPrivs desired k) \<union> (recOpts L k - recOpts desired k)) \<subseteq> options s2 k"
    "options s2 k \<inter> mapOpts T k \<inter> mapOpts W k \<inter> mapPrivs W k \<subseteq> mapOpts M k"
    by (simp_all add: revokedKey_def R T(2))
  from K have n: "ok \<Longrightarrow> options s2 k \<inter> (recOpts L k - recOpts desired k) = {}" "ok \<Longrightarrow> mapOpts M k \<subseteq> mapOpts W k"
    "quiet \<Longrightarrow> options s2 k \<inter> mapOpts T k \<subseteq> mapOpts M k"
    by (simp_all add: revokedKey_def R)
  have "options s2 k \<subseteq> options s k \<union> recOpts desired k" using m(2) G(2) B by blast
  moreover have "options s k - ((recPrivs L k - recPrivs desired k) \<union> (recOpts L k - recOpts desired k)) \<subseteq> options s2 k"
    using m(3) G(1) by blast
  moreover have "options s2 k - options s k \<subseteq> recOpts L' k" using m(2,4) G(2) B T(1) W L' by blast
  moreover have "recOpts L' k \<subseteq> recOpts L k \<union> (recOpts desired k - options s k)" using m(1) B T(1) L' by blast
  moreover have "ok \<longrightarrow> recOpts desired k \<subseteq> options s2 k" using C m(3) W(2) by blast
  moreover have "quiet \<longrightarrow> options s2 k \<inter> recOpts L k \<subseteq> recOpts L' k" using n(3) T(1) L' by blast
  ultimately show ?thesis using n(1,2) L' W(1) by (simp add: optionRun_def)
qed

text \<open>The reasons of the condition errors of a result.\<close>

definition errReasons :: "error option \<Rightarrow> string list" where
  "errReasons e = (case e of None \<Rightarrow> [] | Some x \<Rightarrow> reasons x)"

lemma reasons_Joined: "set (reasons (Joined es)) = (\<Union>e \<in> set es. set (reasons e))"
  by (induction es) auto

lemma joinErrs_reasons: "Some e \<in> set es \<Longrightarrow> set (reasons e) \<subseteq> set (errReasons (joinErrs es))"
proof -
  assume e: "Some e \<in> set es"
  then have "e \<in> set (List.map_filter id es)" by (force simp: List.map_filter_def)
  moreover from this have "joinErrs es = Some (Joined (List.map_filter id es))"
    by (auto simp: joinErrs_def split: list.splits)
  ultimately show ?thesis by (auto simp: errReasons_def reasons_Joined)
qed

text \<open>The record of a ledger of valid targets in the resource's status: durable when it reports success.\<close>

locale durable_ops = acl_ops +
  fixes persist :: "'a ledgerPersist"
  assumes persist_law: "persist = Some record \<Longrightarrow> \<forall>g \<in> set L. valid (Target g) \<Longrightarrow>
    wp (record L) (\<lambda>e s'. sameAcl holds options s s' \<and> (e = None \<longrightarrow> stored s' = L) \<and>
      (stored s' = stored s \<or> stored s' = L)) s"

text \<open>What the stored ledger records when the run ends or is interrupted.\<close>

definition storedRun :: "('s \<Rightarrow> string \<Rightarrow> string set) \<Rightarrow> ('s \<Rightarrow> privilegeGrant list) \<Rightarrow> privilegeGrant list
    \<Rightarrow> 's \<Rightarrow> 's \<Rightarrow> bool" where
  "storedRun holds stored L s s' \<longleftrightarrow>
     (stored s' = stored s \<or> (\<forall>k. recPrivs L k \<subseteq> recPrivs (stored s') k)) \<and>
     (\<forall>k. holds s' k - holds s k \<subseteq> recPrivs (stored s') k)"

text \<open>The result of a run: its ledger and its error.\<close>

definition runPost :: "('s \<Rightarrow> string \<Rightarrow> string set) \<Rightarrow> ('s \<Rightarrow> string \<Rightarrow> string set) \<Rightarrow> privilegeGrant list
    \<Rightarrow> privilegeGrant list \<Rightarrow> 's \<Rightarrow> privilegeGrant list \<Rightarrow> error option \<Rightarrow> 's \<Rightarrow> bool" where
  "runPost holds options desired L s L' err s' \<longleftrightarrow> canonicalLedger L' \<and>
     (\<forall>k. grantRun holds options desired L s L' (err = None) (ReasonRevokeSkipped \<notin> set (errReasons err)) s' k \<and>
        optionRun holds options desired L s L' (err = None) (ReasonRevokeSkipped \<notin> set (errReasons err)) s' k)"

definition nothingAdded :: "('s \<Rightarrow> string \<Rightarrow> string set) \<Rightarrow> ('s \<Rightarrow> string \<Rightarrow> string set) \<Rightarrow> 's \<Rightarrow> 's \<Rightarrow> bool" where
  "nothingAdded holds options s s' \<longleftrightarrow> (\<forall>k. holds s' k \<subseteq> holds s k \<and> options s' k \<subseteq> options s k)"

lemma finish_errors:
  fixes sk :: "string list" and e :: error and errs2 :: "error option list"
  assumes "e = ConditionError r x" and "None \<notin> set errs2" and "err = joinErrs (if sk \<noteq> [] then errs2 @ [Some e] else errs2)"
  shows "err = None \<Longrightarrow> errs2 = [] \<and> sk = []" "r \<notin> set (errReasons err) \<Longrightarrow> sk = []"
proof -
  show "err = None \<Longrightarrow> errs2 = [] \<and> sk = []"
    using assms by (cases errs2) (auto simp: joinErrs_None_iff split: if_splits)
  show "sk = []" if "r \<notin> set (errReasons err)"
  proof (rule ccontr)
    assume "sk \<noteq> []"
    with assms(3) have "err = joinErrs (errs2 @ [Some e])" by simp
    then have "set (reasons e) \<subseteq> set (errReasons err)"
      using joinErrs_reasons [of e "errs2 @ [Some e]"] by simp
    with assms(1) that show False by simp
  qed
qed

lemma grantedPlan_key:
  assumes "grantedPlan holds options plan dn ok s s1"
  shows "holds s k \<subseteq> holds s1 k" "options s k \<subseteq> options s1 k"
    "holds s1 k \<subseteq> holds s k \<union> plannedPrivs plan k" "options s1 k \<subseteq> options s k \<union> plannedOpts plan k"
  using assms by (simp_all add: grantedPlan_def)

context acl_ops
begin

text \<open>GRANTs and revokes of one run, from the plan on.\<close>

lemma executed:
  assumes wf: "wfDesired desired"
    and plan: "\<forall>p \<in> set plan. \<exists>d \<in> set desired. planFor holds options s d p"
    and T: "T = intendedLedger (trackedOf L) plan"
    and G: "grantedPlan holds options plan (set plan) okg s s1"
    and K: "\<forall>k. revokedKey holds options T (wantOf desired) k ok quiet s1 M s2" and M: "keyed M"
    and C: "ok \<Longrightarrow> okg \<and> (\<forall>d \<in> set desired. covered holds options s plan d)"
  shows "grantRun holds options desired L s (sortedGrants M) ok quiet s2 k"
    "optionRun holds options desired L s (sortedGrants M) ok quiet s2 k"
    "plan = [] \<Longrightarrow> nothingAdded holds options s s2"
proof -
  note P = planned_rec(1) [OF wf plan] planned_rec(2-5) [OF wf plan, of k]
  have Tk: "mapPrivs T k = recPrivs L k \<union> recPrivs (map pgAdded plan) k"
    "mapOpts T k = recOpts L k \<union> recOpts (map pgAdded plan) k"
    using intendedLedger_rec [OF P(1), of "trackedOf L" k] by (simp_all add: T trackedOf_rec)
  have W: "mapPrivs (wantOf desired) k = recPrivs desired k" "mapOpts (wantOf desired) k = recOpts desired k"
    using wf wantOf_rec [of desired k] by (simp_all add: wfDesired_def)
  have G': "holds s1 k \<subseteq> holds s k \<union> recPrivs (map pgAdded plan) k" "options s1 k \<subseteq> options s k \<union> recOpts (map pgAdded plan) k"
    using grantedPlan_key [OF G, of k] P(4,5) by blast+
  have cov: "recPrivs desired k \<subseteq> holds s1 k" "recOpts desired k \<subseteq> options s1 k" if ok
    using C [OF that] G covered_granted [OF wf, of holds options s plan s1 k] by auto
  show "grantRun holds options desired L s (sortedGrants M) ok quiet s2 k"
    by (rule grantRun_compose [where A = "recPrivs (map pgAdded plan) k" and T = T and W = "wantOf desired" and M = M])
      (use Tk W sortedGrants_rec [OF M] P(2) grantedPlan_key(1) [OF G] G'(1) cov(1) spec [OF K, of k] in simp_all)
  show "optionRun holds options desired L s (sortedGrants M) ok quiet s2 k"
    by (rule optionRun_compose [where B = "recOpts (map pgAdded plan) k" and T = T and W = "wantOf desired" and M = M])
      (use Tk W sortedGrants_rec [OF M] P(2,3) grantedPlan_key(2) [OF G] G'(2) cov(2) K wfDesired_opts [OF wf] in auto)
  show "nothingAdded holds options s s2" if "plan = []"
    unfolding nothingAdded_def
  proof
    fix k
    have "holds s2 k \<subseteq> holds s1 k" "options s2 k \<subseteq> options s1 k"
      using K by (simp_all add: revokedKey_def)
    moreover have "holds s1 k \<subseteq> holds s k" "options s1 k \<subseteq> options s k"
      using that grantedPlan_key(3,4) [OF G, of k] by (simp_all add: plannedPrivs_def plannedOpts_def)
    ultimately show "holds s2 k \<subseteq> holds s k \<and> options s2 k \<subseteq> options s k" by blast
  qed
qed

lemma executePlan_post:
  assumes wf: "wfDesired desired" and val: "\<forall>g \<in> set desired \<union> set L. manageable valid names g"
    and plan: "\<forall>p \<in> set plan. \<exists>d \<in> set desired. planFor holds options s d p"
    and errs: "None \<notin> set errs" "errs = [] \<Longrightarrow> \<forall>d \<in> set desired. covered holds options s plan d"
  shows "wp (executePlan ops (wantOf desired) (intendedLedger (trackedOf L) plan) plan errs)
    (\<lambda>(L', err) s'. stored s' = stored s \<and> runPost holds options desired L s L' err s' \<and> (err = None \<longrightarrow> errs = []) \<and>
      (plan = [] \<longrightarrow> nothingAdded holds options s s') \<and>
      length L' \<le> card (dom (map_of (intendedLedger (trackedOf L) plan))) \<and>
      (\<forall>k. recPrivs L' k \<subseteq> mapPrivs (intendedLedger (trackedOf L) plan) k)) s"
proof -
  let ?T = "intendedLedger (trackedOf L) plan"
  have wfp: "wfPlan plan" by (rule planned_rec(1) [OF wf plan])
  have pval: "\<forall>p \<in> set plan. valid (pgTarget p) \<and> set (pgPlain p) \<union> set (pgGrantOptions p) \<subseteq> names"
    using plan val by (fastforce simp: planFor_def manageable_def)
  have named: "recPrivs L k \<subseteq> names \<and> recPrivs (map pgAdded plan) k \<subseteq> names \<and>
      recOpts L k \<subseteq> names \<and> recOpts (map pgAdded plan) k \<subseteq> names" for k
    using val planned_rec(2,3) [OF wf plan, of k] unfolding recPrivs_def recOpts_def manageable_def by blast
  have key: "keyed ?T" by (rule keyed_intendedLedger [OF keyed_trackedOf wfp])
  have tval: "\<forall>k g. map_of ?T k = Some g \<longrightarrow> manageable valid names g"
  proof (intro allI impI)
    fix k g assume g: "map_of ?T k = Some g"
    from intendedLedger_entry [OF wfp g] have "valid (Target g)"
      using trackedOf_entry [of L k g] val pval by (auto simp: manageable_def)
    moreover from g have "mapGet zeroGrant ?T k = g" by (simp add: mapGet_def)
    then have "set (Privileges g) \<subseteq> names" "set (GrantOptions g) \<subseteq> names"
      using intendedLedger_rec [OF wfp, of "trackedOf L" k] named [of k] by (auto simp: trackedOf_rec)
    ultimately show "manageable valid names g" by (simp add: manageable_def)
  qed
  have fin: "stored s2 = stored s \<and> runPost holds options desired L s (sortedGrants M) err s2 \<and> (err = None \<longrightarrow> errs = []) \<and>
      (plan = [] \<longrightarrow> nothingAdded holds options s s2) \<and> length (sortedGrants M) \<le> card (dom (map_of ?T)) \<and>
      (\<forall>k. recPrivs (sortedGrants M) k \<subseteq> mapPrivs ?T k)"
    if g: "stored s1 = stored s" "None \<notin> set errs1" "errs1 = [] \<longrightarrow> errs = []"
        "grantedPlan holds options plan (set plan) (errs1 = []) s s1"
      and r: "stored s2 = stored s1" "keyed M" "dom (map_of M) \<subseteq> dom (map_of ?T)" "None \<notin> set errs2"
        "errs2 = [] \<longrightarrow> errs1 = []"
        "\<forall>k. revokedKey holds options ?T (wantOf desired) k (errs2 = [] \<and> sk = []) (sk = []) s1 M s2"
      and e: "e = ConditionError ReasonRevokeSkipped x" "err = joinErrs (if sk \<noteq> [] then errs2 @ [Some e] else errs2)"
    for s1 errs1 M errs2 and sk :: "string list" and s2 e x err
  proof -
    note fe = finish_errors [OF e(1) r(4) e(2)]
    have K: "\<forall>k. revokedKey holds options ?T (wantOf desired) k (err = None) (ReasonRevokeSkipped \<notin> set (errReasons err)) s1 M s2"
    proof
      fix k
      from r(6) have "revokedKey holds options ?T (wantOf desired) k (errs2 = [] \<and> sk = []) (sk = []) s1 M s2" ..
      then show "revokedKey holds options ?T (wantOf desired) k (err = None)
          (ReasonRevokeSkipped \<notin> set (errReasons err)) s1 M s2"
        by (rule revokedKey_ok) (rule fe, assumption)+
    qed
    have C: "err = None \<Longrightarrow> errs1 = [] \<and> (\<forall>d \<in> set desired. covered holds options s plan d)"
      using fe(1) r(5) g(3) errs(2) by blast
    note run = executed [OF wf plan refl g(4) K r(2) C]
    have "length (sortedGrants M) \<le> card (dom (map_of ?T))"
      using length_sortedGrants [of M] card_mono [OF finite_dom_map_of r(3)] by linarith
    moreover have "recPrivs (sortedGrants M) k \<subseteq> mapPrivs ?T k" for k
      using r(6) sortedGrants_rec(1) [OF r(2)] by (simp add: revokedKey_def)
    ultimately show ?thesis
      using run canonical_sortedGrants [OF r(2)] g(1,3) r(1,5) fe(1) by (simp add: runPost_def)
  qed
  have first: "wp (grantPlan ops plan errs) (\<lambda>errs' s'. stored s' = stored s \<and> None \<notin> set errs' \<and>
    (errs' = [] \<longrightarrow> errs = []) \<and> grantedPlan holds options plan (set plan) (errs' = []) s s') s"
    by (rule grantPlan_post [OF pval errs(1)])
  show ?thesis
    unfolding executePlan_def wp_bind wp_let wp_case_prod wp_ret
    by (rule wp_mono [OF first], elim conjE, rule wp_mono [OF revokeAll_post [OF key tval]], assumption,
      unfold split_paired_all Let_def prod.case, elim conjE, rule fin, assumption+, rule refl, rule refl)
qed

end

lemma runPost_unchanged:
  assumes "sameAcl holds options s s'" and "err \<noteq> None"
  shows "runPost holds options desired L s (sortedGrants (trackedOf L)) err s'"
  using assms sortedGrants_rec [OF keyed_trackedOf, of L] canonical_sortedGrants [OF keyed_trackedOf, of L]
  by (auto simp: runPost_def grantRun_def optionRun_def sameAcl_def trackedOf_rec)

lemma runPost_sameAcl: "sameAcl holds options s s1 \<Longrightarrow> runPost holds options desired L s1 = runPost holds options desired L s"
  by (simp add: fun_eq_iff runPost_def grantRun_def optionRun_def sameAcl_def)

lemma nothingAdded_sameAcl: "sameAcl holds options s s1 \<Longrightarrow> nothingAdded holds options s1 = nothingAdded holds options s"
  by (simp add: fun_eq_iff nothingAdded_def sameAcl_def)

lemma sameAcl_nothingAdded: "sameAcl holds options s s' \<Longrightarrow> nothingAdded holds options s s'"
  by (simp add: nothingAdded_def sameAcl_def)

lemma length_unionStrs_keys: "length (unionStrs (mapKeys a) (mapKeys b)) = card (dom (map_of a) \<union> dom (map_of b))"
proof -
  have "length (unionStrs (mapKeys a) (mapKeys b)) = card (set (unionStrs (mapKeys a) (mapKeys b)))"
    by (simp only: unionStrs_def distinct_card sortCompact_canonical(2))
  then show ?thesis by simp
qed

text \<open>The whole result of a run.\<close>

definition applied :: "('s \<Rightarrow> string \<Rightarrow> string set) \<Rightarrow> ('s \<Rightarrow> string \<Rightarrow> string set) \<Rightarrow> ('s \<Rightarrow> privilegeGrant list)
    \<Rightarrow> privilegeGrant list \<Rightarrow> privilegeGrant list \<Rightarrow> int \<Rightarrow> bool \<Rightarrow> 's \<Rightarrow> privilegeGrant list \<times> error option \<Rightarrow> 's \<Rightarrow> bool" where
  "applied holds options stored desired L limit durable s r s' \<longleftrightarrow>
     runPost holds options desired L s (fst r) (snd r) s' \<and> (durable \<longrightarrow> storedRun holds stored L s s') \<and>
     (overLimit (trackedOf L) (wantOf desired) limit \<longrightarrow> snd r \<noteq> None \<and> nothingAdded holds options s s') \<and>
     (limit > 0 \<longrightarrow> int (length (fst r)) \<le> max limit (int (card (grantKey ` set L))))"

lemma ledger_bound:
  assumes "length L' \<le> card (dom (map_of (intendedLedger (trackedOf L) plan)))"
    and "(\<lambda>p. targetKey (pgTarget p)) ` set plan \<subseteq> grantKey ` set desired"
    and "overLimit (trackedOf L) (wantOf desired) limit \<Longrightarrow> plan = []" and "limit > 0"
  shows "int (length L') \<le> max limit (int (card (grantKey ` set L)))"
proof (cases "overLimit (trackedOf L) (wantOf desired) limit")
  case True
  with assms show ?thesis by (simp add: dom_intendedLedger dom_trackedOf)
next
  case False
  then have lim: "int (card (grantKey ` set L \<union> grantKey ` set desired)) \<le> limit"
    using assms(4) by (simp add: overLimit_def length_unionStrs_keys dom_trackedOf dom_wantOf)
  have "card (dom (map_of (intendedLedger (trackedOf L) plan))) \<le> card (grantKey ` set L \<union> grantKey ` set desired)"
    unfolding dom_intendedLedger dom_trackedOf using assms(2) by (intro card_mono) auto
  with assms(1) lim show ?thesis by linarith
qed

lemma intended_rec:
  assumes "wfPlan plan"
  shows "recPrivs (sortedGrants (intendedLedger (trackedOf L) plan)) k = mapPrivs (intendedLedger (trackedOf L) plan) k"
    "recPrivs L k \<subseteq> mapPrivs (intendedLedger (trackedOf L) plan) k"
  using assms sortedGrants_rec(1) [OF keyed_intendedLedger [OF keyed_trackedOf assms]]
    intendedLedger_rec [of plan "trackedOf L" k] by (simp_all add: trackedOf_rec)

lemma intended_targets:
  assumes "wfPlan plan" and "g \<in> set (sortedGrants (intendedLedger (trackedOf L) plan))"
  shows "Target g \<in> Target ` set L \<union> pgTarget ` set plan"
proof -
  from assms(2) obtain k where "map_of (intendedLedger (trackedOf L) plan) k = Some g" by (auto simp: set_sortedGrants)
  from intendedLedger_entry [OF assms(1) this] show ?thesis using trackedOf_entry by auto
qed

lemma applied_unchanged:
  assumes same: "sameAcl holds options s s'" and err: "err \<noteq> None"
    and st: "stored s' = stored s \<or> (\<forall>k. recPrivs L k \<subseteq> recPrivs (stored s') k)"
  shows "applied holds options stored desired L limit durable s (sortedGrants (trackedOf L), err) s'"
proof -
  have "length (sortedGrants (trackedOf L)) \<le> card (grantKey ` set L)"
    using length_sortedGrants [of "trackedOf L"] by (simp add: dom_trackedOf)
  with assms show ?thesis
    by (auto simp: applied_def runPost_unchanged sameAcl_nothingAdded storedRun_def) (simp_all add: sameAcl_def)
qed

context durable_ops
begin

lemma persisted_post:
  assumes "\<forall>g \<in> set L. valid (Target g)"
  shows "wp (case persist of None \<Rightarrow> ret None | Some p \<Rightarrow> p L)
    (\<lambda>e s'. sameAcl holds options s s' \<and> (e = None \<and> persist \<noteq> None \<longrightarrow> stored s' = L) \<and>
      (stored s' = stored s \<or> stored s' = L)) s"
  using persist_law [of _ L s] assms
  by (cases persist) (auto simp: wp_simps sameAcl_def intro: wp_mono)

lemma apply_post:
  assumes wf: "wfDesired desired" and val: "\<forall>g \<in> set desired \<union> set L. manageable valid names g"
  shows "wp (applyPrivilegeGrants desired L ops limit persist)
    (applied holds options stored desired L limit (persist \<noteq> None) s) s"
proof -
  let ?over = "overLimit (trackedOf L) (wantOf desired) limit"
  let ?ds = "if ?over then [] else desired"
  let ?Q = "applied holds options stored desired L limit (persist \<noteq> None) s"
  define errs0 where "errs0 = (if ?over then [Some (ConditionError ReasonTooManyGrants (Errorf
            ''the grants declared and those pgop still tracks add up to %d entries; pgop tracks at most %d. Nothing was granted (removed grants are still revoked): remove grants from the spec''
            [formatInt (int (length (unionStrs (mapKeys (trackedOf L)) (mapKeys (wantOf desired))))), formatInt limit]))] else [])"
  have errs0: "None \<notin> set errs0" "?over \<Longrightarrow> errs0 \<noteq> []" by (auto simp: errs0_def)
  have exec: "wp (executePlan ops (wantOf desired) (intendedLedger (trackedOf L) plan) plan errs) ?Q s2"
    if same: "sameAcl holds options s s2" and st: "persist \<noteq> None \<longrightarrow> plan \<noteq> [] \<longrightarrow> stored s2 = sortedGrants (intendedLedger (trackedOf L) plan)"
      and st0: "plan = [] \<longrightarrow> stored s2 = stored s"
      and plan: "\<forall>p \<in> set plan. \<exists>d \<in> set ?ds. planFor holds options s d p" and errs: "None \<notin> set errs"
      and cov: "errs = [] \<longrightarrow> errs0 = [] \<and> (\<forall>d \<in> set ?ds. covered holds options s plan d)" for plan errs s2
  proof -
    have plan': "\<forall>p \<in> set plan. \<exists>d \<in> set desired. planFor holds options s2 d p"
      using plan same by (fastforce simp: planFor_def sameAcl_def split: if_splits)
    have cov': "\<forall>d \<in> set desired. covered holds options s2 plan d" if "errs = []"
      using that cov errs0(2) same by (auto simp: covered_def planFor_def sameAcl_def split: if_splits)
    have over: "plan = []" if ?over
      using that plan by (cases plan) auto
    have keys: "(\<lambda>p. targetKey (pgTarget p)) ` set plan \<subseteq> grantKey ` set desired"
      using plan' by (fastforce simp: planFor_def grantKey_def)
    note rec = intended_rec [OF planned_rec(1) [OF wf plan'], of L]
    show ?thesis
    proof (rule wp_mono, rule executePlan_post [OF wf val plan' errs], erule cov', goal_cases)
      case (1 r s3)
      obtain L' err where r: "r = (L', err)" by (cases r)
      with 1 have post: "stored s3 = stored s2" "runPost holds options desired L s L' err s3" "err = None \<longrightarrow> errs = []"
        "plan = [] \<longrightarrow> nothingAdded holds options s s3" "length L' \<le> card (dom (map_of (intendedLedger (trackedOf L) plan)))"
        "recPrivs L' k \<subseteq> mapPrivs (intendedLedger (trackedOf L) plan) k" for k
        by (simp_all add: runPost_sameAcl [OF same] nothingAdded_sameAcl [OF same])
      have "storedRun holds stored L s s3" if "persist \<noteq> None"
      proof (cases "plan = []")
        case True
        with post(1,4) st0 show ?thesis by (auto simp: storedRun_def nothingAdded_def)
      next
        case False
        with that post(1) st have st3: "stored s3 = sortedGrants (intendedLedger (trackedOf L) plan)" by simp
        from post(2) have "holds s3 k - holds s k \<subseteq> recPrivs L' k" for k by (simp add: runPost_def grantRun_def)
        with post(6) have "holds s3 k - holds s k \<subseteq> recPrivs (stored s3) k" for k
          unfolding st3 rec(1) by (blast intro: order_trans)
        with st3 show ?thesis by (simp add: storedRun_def rec)
      qed
      moreover have "snd r \<noteq> None \<and> nothingAdded holds options s s3" if ?over
        using over [OF that] post(3,4) cov errs0(2) [OF that] r by auto
      ultimately show ?case
        using post(2) ledger_bound [OF post(5) keys over] r by (simp add: applied_def)
    qed
  qed
  have "wp (if plan = [] then executePlan ops (wantOf desired) (trackedOf L) [] errs
      else let intended = intendedLedger (trackedOf L) plan
        in State_Monad.bind (case persist of None \<Rightarrow> ret None | Some p \<Rightarrow> p (sortedGrants intended))
          (\<lambda>e. case e of None \<Rightarrow> executePlan ops (wantOf desired) intended plan errs
            | Some x \<Rightarrow> ret (sortedGrants (trackedOf L), joinErrs (errs @ [Some (Wrapf
                      ''recording the grants pgop is about to make failed, nothing was granted: %w'' [] x)])))) ?Q s1"
    if same: "sameAcl holds options s s1" "stored s1 = stored s"
      and plan: "\<forall>p \<in> set plan. \<exists>d \<in> set ?ds. planFor holds options s d p" and errs: "None \<notin> set errs"
      and cov: "errs = [] \<longrightarrow> errs0 = [] \<and> (\<forall>d \<in> set ?ds. covered holds options s plan d)" for plan errs s1
  proof (cases "plan = []")
    case True
    with exec [of s1 plan errs] that show ?thesis by simp
  next
    case False
    let ?T = "intendedLedger (trackedOf L) plan"
    have plan'': "\<forall>p \<in> set plan. \<exists>d \<in> set desired. planFor holds options s d p"
      using plan by (auto split: if_splits)
    have valid: "\<forall>g \<in> set (sortedGrants ?T). valid (Target g)"
      using intended_targets [OF planned_rec(1) [OF wf plan'']] plan'' val
      by (fastforce simp: planFor_def manageable_def)
    have "wp (case e of None \<Rightarrow> executePlan ops (wantOf desired) ?T plan errs
            | Some x \<Rightarrow> ret (sortedGrants (trackedOf L), joinErrs (errs @ [Some (Wrapf
                      ''recording the grants pgop is about to make failed, nothing was granted: %w'' [] x)]))) ?Q s2"
      if a: "sameAcl holds options s1 s2" "e = None \<and> persist \<noteq> None \<longrightarrow> stored s2 = sortedGrants ?T"
        "stored s2 = stored s1 \<or> stored s2 = sortedGrants ?T" for e s2
    proof -
      have s2: "sameAcl holds options s s2" using same(1) a(1) by (simp add: sameAcl_def)
      show ?thesis
      proof (cases e)
        case None
        then show ?thesis
          using exec [OF s2 _ _ plan errs cov] a(2) False by simp
      next
        case (Some x)
        let ?err = "joinErrs (errs @ [Some (Wrapf
                      ''recording the grants pgop is about to make failed, nothing was granted: %w'' [] x)])"
        have err: "?err \<noteq> None" by (simp add: joinErrs_None_iff del: not_None_eq)
        from intended_rec [OF planned_rec(1) [OF wf plan''], of L]
        have "stored s2 = stored s \<or> (\<forall>k. recPrivs L k \<subseteq> recPrivs (stored s2) k)"
          using a(3) same(2) by (elim disjE) simp_all
        from applied_unchanged [of holds options s s2 ?err stored, OF s2 err this] show ?thesis
          unfolding Some by (simp only: option.case wp_ret)
      qed
    qed
    note arms = this
    show ?thesis
      unfolding wp_bind if_not_P [OF False] Let_def
      by (rule wp_mono [OF persisted_post [OF valid]], elim conjE, rule arms)
  qed
  note second = this
  have first: "wp (planAll ops ?ds errs0) (\<lambda>(errs, plan) s'. sameAcl holds options s s' \<and> stored s' = stored s \<and>
    (\<forall>p \<in> set plan. \<exists>d \<in> set ?ds. planFor holds options s d p) \<and> None \<notin> set errs \<and>
    (errs = [] \<longrightarrow> errs0 = [] \<and> (\<forall>d \<in> set ?ds. covered holds options s plan d))) s"
    by (rule planAll_post) (use val errs0 in \<open>auto simp: manageable_def\<close>)
  show ?thesis
    unfolding applyPrivilegeGrants_def wp_let errs0_def [symmetric] Let_def
    unfolding wp_bind wp_case_prod
    by (rule wp_mono [OF first], unfold split_paired_all prod.case, elim conjE,
        rule second [unfolded Let_def]) assumption+
qed

end

text \<open>What a run does to one key.\<close>

lemma applied_key:
  assumes "applied holds options stored desired L limit True s (L', e) s'"
  shows "holds s' k \<subseteq> holds s k \<union> recPrivs desired k" "holds s k - (recPrivs L k - recPrivs desired k) \<subseteq> holds s' k"
    "holds s' k - holds s k \<subseteq> recPrivs L' k" "holds s' k - holds s k \<subseteq> recPrivs (stored s') k"
    "e = None \<Longrightarrow> recPrivs desired k \<subseteq> holds s' k" "e = None \<Longrightarrow> recOpts desired k \<subseteq> options s' k"
    "e = None \<Longrightarrow> holds s' k \<inter> (recPrivs L k - recPrivs desired k) = {}"
  using assms by (simp_all add: applied_def runPost_def grantRun_def optionRun_def storedRun_def)

end
