(* ===== verification/Pg_Server.thy ===== *)
theory Pg_Server
  imports Pg_Client Pg_Statements Grant_Correct
begin

text \<open>
  The grant engine on top of the client: \<open>executorOps\<close> of \<open>privilege_grants.go\<close>, the contract of a
  PostgreSQL server for GRANT, REVOKE and the catalog queries the client runs (\<open>pg_server\<close>), the
  proof that the operations built on such a server satisfy the engine's contract \<open>acl_ops\<close>, and
  an executable reference server that satisfies the contract.
\<close>

section \<open>The operations of the engine\<close>

definition executorOps :: "'s db \<Rightarrow> (grantTarget \<Rightarrow> ('s, error + bool) state) option \<Rightarrow> 's privilegeOps" where
  "executorOps db isGone =
     \<lparr>held = (\<lambda>t. do {
        r \<leftarrow> HeldPrivileges db (targetObject t) (tGrantee t);
        ret (case r of Inl e \<Rightarrow> Inl e | Inr (privs, grantable, found) \<Rightarrow> Inr (privs, grantable)) }),
      grant = (\<lambda>t privs withGrantOption. GrantPrivileges db (targetObject t) (tGrantee t) privs withGrantOption),
      revoke = (\<lambda>t privs mode. RevokePrivileges db (targetObject t) (tGrantee t) privs mode),
      gone = isGone\<rparr>"

section \<open>Access-control entries of the server\<close>

type_synonym aclKey = "string \<times> string list \<times> string option"

definition aclKeyOf :: "grantTarget \<Rightarrow> aclKey" where
  "aclKeyOf t = (tKind t, objParts (targetObject t), granteeOf (tGrantee t))"

text \<open>The privileges of databases, schemas and parameters, as the catalogs report them.\<close>

definition aclNames :: "string set" where
  "aclNames = {PrivilegeConnect, PrivilegeCreate, PrivilegeTemporary, PrivilegeUsage, PrivilegeSet}"

text \<open>
  The targets the controllers of roles and databases build: a database, a schema or a parameter
  by name, in canonical spelling and within PostgreSQL's limit for names. Grants on objects with
  an OID and default privileges go through other operations.
\<close>

definition namedTarget :: "grantTarget \<Rightarrow> bool" where
  "namedTarget t \<longleftrightarrow> tOID t = 0 \<and> tForRole t = [] \<and> tKind t \<in> set objectWords \<and> tName t \<noteq> [] \<and>
     (tKind t = ObjectParameter \<longrightarrow> NormalizeParameterName (tName t) = Inr (tName t)) \<and>
     list_all (\<lambda>n. length n \<le> nameDataLen) (objParts (targetObject t)) \<and>
     length (tGrantee t) \<le> nameDataLen \<and> tGrantee t \<noteq> [] \<and> CanonicalGrantee (tGrantee t) = tGrantee t \<and>
     \<not> equalFold (tGrantee t) ''none''"

lemma namedTarget_key:
  assumes "namedTarget t" and "namedTarget u"
  shows "aclKeyOf t = aclKeyOf u \<longleftrightarrow> targetKey t = targetKey u"
proof -
  have "CHR ''|'' \<notin> set (tKind t)" "CHR ''|'' \<notin> set (tKind u)"
    using assms by (auto simp: namedTarget_def objectWords_def)
  from targetKey_inject [OF this] assms have k: "targetKey t = targetKey u \<longleftrightarrow>
      tKind t = tKind u \<and> tGrantee t = tGrantee u \<and> tName t = tName u"
    by (auto simp: namedTarget_def)
  have g: "granteeOf (tGrantee t) = granteeOf (tGrantee u) \<longleftrightarrow> tGrantee t = tGrantee u"
    using assms by (auto simp: namedTarget_def granteeOf_def CanonicalGrantee_def split: if_splits)
  have low: "toLower (tName v) = tName v" if "namedTarget v" "tKind v = ObjectParameter" for v
    using that by (auto simp: namedTarget_def dest: parameterName_parts(1))
  have "tName t = tName u" if "splitStr (tName t) (CHR ''.'') = splitStr (tName u) (CHR ''.'')"
    using that joinStr_splitStr by metis
  then show ?thesis
    unfolding k using g low [OF assms(1)] low [OF assms(2)]
    by (auto simp: aclKeyOf_def objParts_def targetObject_def split: if_splits)
qed

text \<open>The rows of the held-privileges queries: one row of NULLs, or one row per entry.\<close>

definition heldRows :: "string set \<Rightarrow> string set \<Rightarrow> sqlValue list list \<Rightarrow> bool" where
  "heldRows privs opts rows \<longleftrightarrow>
     (\<forall>row \<in> set rows. row = [SNull, SNull] \<or> (\<exists>p b. row = [SText p, SBool b])) \<and>
     (\<forall>p. p \<in> privs \<longleftrightarrow> (\<exists>b. [SText p, SBool b] \<in> set rows)) \<and>
     (\<forall>p. p \<in> opts \<longleftrightarrow> [SText p, SBool True] \<in> set rows)"

lemma scanHeld_row [simp]: "scanHeld [SNull, SNull] = Inr None" "scanHeld [SText p, SBool b] = Inr (Some (p, b))"
  by (simp_all add: scanHeld_def nullBool_def)

lemma scanRows_held:
  assumes "\<forall>row \<in> set rows. row = [SNull, SNull] \<or> (\<exists>p b. row = [SText p, SBool b])"
  shows "\<exists>hs. scanRows scanHeld rows = Inr hs \<and>
    (\<forall>p b. Some (p, b) \<in> set hs \<longleftrightarrow> [SText p, SBool b] \<in> set rows)"
  using assms
proof (induction rows)
  case (Cons row rows)
  then obtain hs where "scanRows scanHeld rows = Inr hs" "\<forall>p b. Some (p, b) \<in> set hs \<longleftrightarrow> [SText p, SBool b] \<in> set rows" by auto
  with Cons.prems show ?case by auto
qed simp

lemma readHeld_rows:
  assumes "heldRows privs opts rows" and "scanRows scanHeld rows = Inr hs"
  shows "set (fst (readHeld hs)) = privs" "set (fst (snd (readHeld hs))) = opts"
proof -
  from assms scanRows_held [of rows] have hs: "Some (p, b) \<in> set hs \<longleftrightarrow> [SText p, SBool b] \<in> set rows" for p b
    by (auto simp: heldRows_def)
  have e: "x \<in> set (List.map_filter id hs) \<longleftrightarrow> Some x \<in> set hs" for x
    by (force simp: List.map_filter_def)
  have img: "p \<in> fst ` A \<longleftrightarrow> (\<exists>b. (p, b) \<in> A)" for p :: string and A :: "(string \<times> bool) set" by force
  have p: "p \<in> set (fst (readHeld hs)) \<longleftrightarrow> (\<exists>b. [SText p, SBool b] \<in> set rows)"
    "p \<in> set (fst (snd (readHeld hs))) \<longleftrightarrow> [SText p, SBool True] \<in> set rows" for p
    by (auto simp: readHeld_def Let_def img e hs)
  from assms(1) have q: "p \<in> privs \<longleftrightarrow> (\<exists>b. [SText p, SBool b] \<in> set rows)"
    "p \<in> opts \<longleftrightarrow> [SText p, SBool True] \<in> set rows" for p
    by (simp_all add: heldRows_def)
  show "set (fst (readHeld hs)) = privs" "set (fst (snd (readHeld hs))) = opts"
    by (simp_all add: set_eq_iff p q)
qed

section \<open>The contract of the server\<close>

text \<open>
  \<open>subject\<close> are the keys the contract speaks about: the grantee is not the owner of the object
  (an owner holds every privilege with the grant option, whatever its entry says).
\<close>

locale pg_server =
  fixes db :: "'s db"
    and scs :: bool
    and isGone :: "(grantTarget \<Rightarrow> ('s, error + bool) state) option"
    and subject :: "aclKey \<Rightarrow> bool"
    and privsOf :: "'s \<Rightarrow> aclKey \<Rightarrow> string set"
    and optsOf :: "'s \<Rightarrow> aclKey \<Rightarrow> string set"
    and stored :: "'s \<Rightarrow> privilegeGrant list"
  assumes exec_grant: "parseSql scs q = Some (GrantStmt ps kind name g w) \<Longrightarrow> subject (kind, name, g) \<Longrightarrow> set ps \<subseteq> aclNames \<Longrightarrow>
      wp (execDb db q) (\<lambda>e s'. grantEffect privsOf optsOf (kind, name, g) ps w s e s' \<and> stored s' = stored s) s"
    and exec_revoke: "parseSql scs q = Some (RevokeStmt oo ps kind name g c) \<Longrightarrow> subject (kind, name, g) \<Longrightarrow> set ps \<subseteq> aclNames \<Longrightarrow>
      wp (execDb db q) (\<lambda>e s'. revokeEffect privsOf optsOf (kind, name, g) ps \<lparr>GrantOptionOnly = oo, Cascade = c\<rparr> s e s' \<and>
        stored s' = stored s) s"
    and query_held: "heldPrivilegesQueries kind = Some q \<Longrightarrow> subject (kind, objParts \<lparr>Kind = kind, Name = n\<rparr>, granteeOf gr) \<Longrightarrow>
      wp (queryDb db q [SText n, SBool (IsPublic gr), SText gr]) (\<lambda>r s'. sameAcl privsOf optsOf s s' \<and> stored s' = stored s \<and>
        (\<forall>rows. r = Inr (rows, None) \<longrightarrow>
          heldRows (privsOf s (kind, objParts \<lparr>Kind = kind, Name = n\<rparr>, granteeOf gr))
            (optsOf s (kind, objParts \<lparr>Kind = kind, Name = n\<rparr>, granteeOf gr)) rows)) s"
    and gone_exists: "isGone = Some f \<Longrightarrow> wp (f t) (\<lambda>r s'. sameAcl privsOf optsOf s s' \<and> stored s' = stored s \<and>
      (r = Inr True \<longrightarrow> privsOf s (aclKeyOf t) = {} \<and> optsOf s (aclKeyOf t) = {})) s"

text \<open>The entries by target key: what the engine sees of the server.\<close>

definition keyedAcl :: "(aclKey \<Rightarrow> bool) \<Rightarrow> ('s \<Rightarrow> aclKey \<Rightarrow> string set) \<Rightarrow> 's \<Rightarrow> string \<Rightarrow> string set" where
  "keyedAcl subject privsOf s k =
     (\<Union>t \<in> {t. namedTarget t \<and> subject (aclKeyOf t) \<and> targetKey t = k}. privsOf s (aclKeyOf t))"

lemma keyedAcl_key:
  assumes "namedTarget t" and "subject (aclKeyOf t)"
  shows "keyedAcl subject privsOf s (targetKey t) = privsOf s (aclKeyOf t)"
  using assms namedTarget_key [OF assms(1)] by (fastforce simp: keyedAcl_def)

lemma keyedAcl_other:
  assumes "namedTarget t" and "k' \<noteq> targetKey t" and "\<And>a. a \<noteq> aclKeyOf t \<Longrightarrow> privsOf s' a = privsOf s a"
  shows "keyedAcl subject privsOf s' k' = keyedAcl subject privsOf s k'"
  unfolding keyedAcl_def
proof (intro SUP_cong refl)
  fix u assume "u \<in> {t. namedTarget t \<and> subject (aclKeyOf t) \<and> targetKey t = k'}"
  with assms(1,2) have "aclKeyOf u \<noteq> aclKeyOf t" using namedTarget_key [of u t] by auto
  then show "privsOf s' (aclKeyOf u) = privsOf s (aclKeyOf u)" by (rule assms(3))
qed

lemma keyedAcl_same: "privsOf s' = privsOf s \<Longrightarrow> keyedAcl subject privsOf s' = keyedAcl subject privsOf s"
  by (rule ext) (simp only: keyedAcl_def)

lemma grantEffect_keyed:
  assumes "grantEffect privsOf optsOf (aclKeyOf t) ps w s e s'" and "namedTarget t" and "subject (aclKeyOf t)"
  shows "grantEffect (keyedAcl subject privsOf) (keyedAcl subject optsOf) (targetKey t) ps w s e s'"
proof -
  have frame: "a \<noteq> aclKeyOf t \<Longrightarrow> privsOf s' a = privsOf s a" "a \<noteq> aclKeyOf t \<Longrightarrow> optsOf s' a = optsOf s a" for a
    using assms(1) unfolding grantEffect_def by blast+
  have "k' \<noteq> targetKey t \<Longrightarrow> keyedAcl subject privsOf s' k' = keyedAcl subject privsOf s k' \<and>
      keyedAcl subject optsOf s' k' = keyedAcl subject optsOf s k'" for k'
    using frame keyedAcl_other [OF assms(2)] by metis
  with assms(1) show ?thesis
    unfolding grantEffect_def keyedAcl_key [of t subject, OF assms(2,3)] by simp
qed

lemma revokeEffect_keyed:
  assumes "revokeEffect privsOf optsOf (aclKeyOf t) ps mode s e s'" and "namedTarget t" and "subject (aclKeyOf t)"
  shows "revokeEffect (keyedAcl subject privsOf) (keyedAcl subject optsOf) (targetKey t) ps mode s e s'"
proof -
  have frame: "a \<noteq> aclKeyOf t \<Longrightarrow> privsOf s' a = privsOf s a" "a \<noteq> aclKeyOf t \<Longrightarrow> optsOf s' a = optsOf s a" for a
    using assms(1) unfolding revokeEffect_def by blast+
  have "k' \<noteq> targetKey t \<Longrightarrow> keyedAcl subject privsOf s' k' = keyedAcl subject privsOf s k' \<and>
      keyedAcl subject optsOf s' k' = keyedAcl subject optsOf s k'" for k'
    using frame keyedAcl_other [OF assms(2)] by metis
  with assms(1) show ?thesis
    unfolding revokeEffect_def keyedAcl_key [of t subject, OF assms(2,3)] by simp
qed

lemma sameAcl_keyed:
  "sameAcl privsOf optsOf s s' \<Longrightarrow> sameAcl (keyedAcl subject privsOf) (keyedAcl subject optsOf) s s'"
  unfolding sameAcl_def by (elim conjE, intro conjI; rule keyedAcl_same; assumption)

text \<open>Effects depend on the set of privileges only, and a failed effect bounds every outcome.\<close>

lemma grantEffect_set: "set ps = set qs \<Longrightarrow> grantEffect h opt k ps w s e s' \<longleftrightarrow> grantEffect h opt k qs w s e s'"
  by (simp add: grantEffect_def)

lemma revokeEffect_set: "set ps = set qs \<Longrightarrow> revokeEffect h opt k ps m s e s' \<longleftrightarrow> revokeEffect h opt k qs m s e s'"
  by (simp add: revokeEffect_def)

lemma grantEffect_wrap: "(e' = None \<Longrightarrow> e = None) \<Longrightarrow> grantEffect h opt k ps w s e s' \<Longrightarrow> grantEffect h opt k ps w s e' s'"
  by (auto simp: grantEffect_def)

lemma revokeEffect_wrap: "(e' = None \<Longrightarrow> e = None) \<Longrightarrow> revokeEffect h opt k ps m s e s' \<Longrightarrow> revokeEffect h opt k ps m s e' s'"
  by (auto simp: revokeEffect_def)

lemma canonicalKeyword_names: "p \<in> aclNames \<Longrightarrow> canonicalKeyword p = p"
  by (auto simp: aclNames_def) code_simp+

lemma canonicalKeyword_set: "set ps \<subseteq> aclNames \<Longrightarrow> canonicalKeyword ` set ps = set ps"
  using canonicalKeyword_names by (force simp: image_iff)

context pg_server
begin

lemma grant_ok:
  assumes "namedTarget t" and "subject (aclKeyOf t)" and "set ps \<subseteq> aclNames"
  shows "wp (GrantPrivileges db (targetObject t) (tGrantee t) ps w)
    (\<lambda>e s'. grantEffect privsOf optsOf (aclKeyOf t) ps w s e s' \<and> stored s' = stored s) s"
proof (cases "buildGrantPrivilegesQuery (targetObject t) (tGrantee t) ps w")
  case (Inl e)
  then show ?thesis by (simp add: GrantPrivileges_def wp_simps grantEffect_def)
next
  case (Inr q)
  from assms(1) buildGrantPrivilegesQuery_reads [OF Inr, of scs]
  obtain qs where qs: "set qs = canonicalKeyword ` set ps"
      "parseSql scs q = Some (GrantStmt qs (tKind t) (objParts (targetObject t)) (granteeOf (tGrantee t)) w)"
    by (auto simp: namedTarget_def list_all_iff targetObject_def)
  have set: "set qs = set ps" using qs(1) canonicalKeyword_set [OF assms(3)] by simp
  have "wp (execDb db q) (\<lambda>e s'. grantEffect privsOf optsOf (aclKeyOf t) qs w s e s' \<and> stored s' = stored s) s"
    using exec_grant [OF qs(2)] assms(2,3) set by (simp add: aclKeyOf_def)
  with Inr show ?thesis
    by (auto simp: GrantPrivileges_def execWrap_def wp_simps grantEffect_set [OF set] elim!: wp_mono intro: grantEffect_wrap)
qed

lemma revoke_ok:
  assumes "namedTarget t" and "subject (aclKeyOf t)" and "set ps \<subseteq> aclNames"
  shows "wp (RevokePrivileges db (targetObject t) (tGrantee t) ps mode)
    (\<lambda>e s'. revokeEffect privsOf optsOf (aclKeyOf t) ps mode s e s' \<and> stored s' = stored s) s"
proof (cases "buildRevokePrivilegesQuery (targetObject t) (tGrantee t) ps mode")
  case (Inl e)
  then show ?thesis by (auto simp: RevokePrivileges_def wp_simps revokeEffect_def)
next
  case (Inr q)
  from assms(1) buildRevokePrivilegesQuery_reads [OF Inr, of scs]
  obtain qs where qs: "set qs = canonicalKeyword ` set ps"
      "parseSql scs q = Some (RevokeStmt (GrantOptionOnly mode) qs (tKind t) (objParts (targetObject t))
        (granteeOf (tGrantee t)) (Cascade mode))"
    by (auto simp: namedTarget_def list_all_iff targetObject_def)
  have mode: "\<lparr>GrantOptionOnly = GrantOptionOnly mode, Cascade = Cascade mode\<rparr> = mode" by simp
  have set: "set qs = set ps" using qs(1) canonicalKeyword_set [OF assms(3)] by simp
  have "wp (execDb db q) (\<lambda>e s'. revokeEffect privsOf optsOf (aclKeyOf t) qs mode s e s' \<and> stored s' = stored s) s"
    using exec_revoke [OF qs(2)] assms(2,3) set by (simp add: aclKeyOf_def mode)
  with Inr show ?thesis
    by (auto simp: RevokePrivileges_def execWrap_def wp_simps revokeEffect_set [OF set] elim!: wp_mono intro: revokeEffect_wrap)
qed

lemma held_ok:
  assumes "namedTarget t" and "subject (aclKeyOf t)"
  shows "wp (HeldPrivileges db (targetObject t) (tGrantee t))
    (\<lambda>r s'. sameAcl privsOf optsOf s s' \<and> stored s' = stored s \<and>
      (\<forall>p g f. r = Inr (p, g, f) \<longrightarrow> set p = privsOf s (aclKeyOf t) \<and> set g = optsOf s (aclKeyOf t))) s"
proof -
  obtain q where q: "heldPrivilegesQueries (tKind t) = Some q"
    using assms(1) by (auto simp: namedTarget_def objectWords_def heldPrivilegesQueries_def)
  have obj: "targetObject t = \<lparr>Kind = tKind t, Name = tName t\<rparr>" by (simp add: targetObject_def)
  have name: "(if tKind t = ObjectParameter then NormalizeParameterName (tName t) else Inr (tName t)) = Inr (tName t)"
    using assms(1) by (auto simp: namedTarget_def)
  have post: "sameAcl privsOf optsOf s s' \<and> stored s' = stored s \<and>
      (\<forall>p g f. res = Inr (p, g, f) \<longrightarrow> set p = privsOf s (aclKeyOf t) \<and> set g = optsOf s (aclKeyOf t))"
    if a: "sameAcl privsOf optsOf s s'" "stored s' = stored s"
        "\<forall>rows. r = Inr (rows, None) \<longrightarrow> heldRows (privsOf s (aclKeyOf t)) (optsOf s (aclKeyOf t)) rows"
      and res: "res = (case (case r of
            Inl e \<Rightarrow> Inl (Wrapf f1 x1 e)
          | Inr (rows, streamErr) \<Rightarrow>
              (case scanRows scanHeld rows of
                 Inl e \<Rightarrow> Inl (Wrapf f2 [] e)
               | Inr out \<Rightarrow> (case streamErr of Some e \<Rightarrow> Inl (Wrapf f1 x1 e) | None \<Rightarrow> Inr out)))
          of Inl e \<Rightarrow> Inl e | Inr rows \<Rightarrow> Inr (readHeld rows))" for r s' res f1 x1 f2
  proof -
    have "set p = privsOf s (aclKeyOf t) \<and> set g = optsOf s (aclKeyOf t)" if "res = Inr (p, g, f)" for p g f
    proof -
      from that res obtain rows hs where "r = Inr (rows, None)" "scanRows scanHeld rows = Inr hs" "readHeld hs = (p, g, f)"
        by (auto split: sum.splits option.splits)
      with a(3) readHeld_rows [of _ _ rows hs] show ?thesis by fastforce
    qed
    with a show ?thesis by blast
  qed
  have read: "wp (queryDb db q [SText (tName t), SBool (IsPublic (tGrantee t)), SText (tGrantee t)])
      (\<lambda>r s'. sameAcl privsOf optsOf s s' \<and> stored s' = stored s \<and>
        (\<forall>rows. r = Inr (rows, None) \<longrightarrow> heldRows (privsOf s (aclKeyOf t)) (optsOf s (aclKeyOf t)) rows)) s"
    using query_held [OF q, of "tName t" "tGrantee t" s] assms(2) by (simp add: aclKeyOf_def obj)
  show ?thesis
    unfolding HeldPrivileges_def queryRows_def obj PrivilegeObject.select_convs q name option.case sum.case wp_bind wp_ret
    by (rule wp_mono [OF read], elim conjE, rule post [OF _ _ _ refl], assumption+)
qed

end

sublocale pg_server \<subseteq> engine: acl_ops "executorOps db isGone" "\<lambda>t. namedTarget t \<and> subject (aclKeyOf t)" aclNames
  "keyedAcl subject privsOf" "keyedAcl subject optsOf" stored
proof (unfold_locales, goal_cases)
  case (1 t s)
  then show ?case
    unfolding executorOps_def
    by (simp add: wp_simps keyedAcl_key, intro wp_mono [OF held_ok])
      (auto simp: sameAcl_keyed split: sum.splits prod.splits)
next
  case (2 t ps w s)
  then show ?case
    by (auto simp: executorOps_def intro!: wp_mono [OF grant_ok] grantEffect_keyed)
next
  case (3 t ps mode s)
  then show ?case
    by (auto simp: executorOps_def intro!: wp_mono [OF revoke_ok] revokeEffect_keyed)
next
  case (4 f t s)
  then show ?case
    using gone_exists [of f t s]
    by (auto simp: executorOps_def keyedAcl_key sameAcl_keyed elim!: wp_mono)
qed

context pg_server
begin

lemma executor_contract:
  "acl_ops (executorOps db isGone) (\<lambda>t. namedTarget t \<and> subject (aclKeyOf t)) aclNames
    (keyedAcl subject privsOf) (keyedAcl subject optsOf) stored"
  by unfold_locales

end

section \<open>A reference server\<close>

text \<open>
  An executable server: its access-control entries with their grantors (\<open>None\<close> is the owner of the
  object), and the ledger in the status of the resource. REVOKE without CASCADE is refused with
  SQLSTATE 2BP01 when the grantee passed a privilege on; with CASCADE the entries that lose their
  grantor go too.
\<close>

type_synonym aclEntry = "aclKey \<times> string option \<times> string \<times> bool"

record refServer =
  rvAcl :: "aclEntry list"
  rvRoles :: "ReachableRole list"
  rvMembers :: "((string \<times> string) \<times> MembershipState) list"
  rvSettings :: "((scope \<times> string list) \<times> string list) list"
  rvLedger :: "privilegeGrant list"

definition refPrivs :: "refServer \<Rightarrow> aclKey \<Rightarrow> string set" where
  "refPrivs s k = {p. \<exists>b. (k, None, p, b) \<in> set (rvAcl s)}"

definition refOpts :: "refServer \<Rightarrow> aclKey \<Rightarrow> string set" where
  "refOpts s k = {p. (k, None, p, True) \<in> set (rvAcl s)}"

definition refGrant :: "aclKey \<Rightarrow> string list \<Rightarrow> bool \<Rightarrow> aclEntry list \<Rightarrow> aclEntry list" where
  "refGrant k ps w acl = acl @ map (\<lambda>p. (k, None, p, w)) ps"

definition grantorHolds :: "aclEntry list \<Rightarrow> aclEntry \<Rightarrow> bool" where
  "grantorHolds acl = (\<lambda>((kind, name, g), grantor, p, b).
     case grantor of None \<Rightarrow> True
     | Some r \<Rightarrow> list_ex (\<lambda>(k, _, p', b'). k = (kind, name, Some r) \<and> p' = p \<and> b') acl)"

fun dropOrphans :: "nat \<Rightarrow> aclEntry list \<Rightarrow> aclEntry list" where
  "dropOrphans 0 acl = acl"
| "dropOrphans (Suc n) acl = dropOrphans n (filter (grantorHolds acl) acl)"

definition refRevoke :: "bool \<Rightarrow> aclKey \<Rightarrow> string list \<Rightarrow> aclEntry list \<Rightarrow> aclEntry list" where
  "refRevoke optionOnly k ps acl =
     (if optionOnly
      then map (\<lambda>(k', gr, p, b). if k' = k \<and> gr = None \<and> p \<in> set ps then (k', gr, p, False) else (k', gr, p, b)) acl
      else filter (\<lambda>(k', gr, p, b). \<not> (k' = k \<and> gr = None \<and> p \<in> set ps)) acl)"

text \<open>
  The other statements. GRANT of a role keeps the options it does not name, with the defaults of
  PostgreSQL 16 for a new membership; a setting is stored for its scope and name.
\<close>

definition refMembership :: "MembershipState option \<Rightarrow> bool \<Rightarrow> bool option \<Rightarrow> bool option \<Rightarrow> MembershipState" where
  "refMembership old admin inh st =
     (let m = (case old of None \<Rightarrow> \<lparr>msAdmin = False, msInherit = Some True, msSet = Some True\<rparr> | Some m \<Rightarrow> m)
      in \<lparr>msAdmin = admin \<or> msAdmin m, msInherit = (if inh = None then msInherit m else inh),
          msSet = (if st = None then msSet m else st)\<rparr>)"

definition refMemberExec :: "memberStmt \<Rightarrow> refServer \<Rightarrow> refServer" where
  "refMemberExec st s =
     (case st of
        GrantRoleStmt r m a i se \<Rightarrow>
          s\<lparr>rvMembers := AList.update (r, m) (refMembership (map_of (rvMembers s) (r, m)) a i se) (rvMembers s)\<rparr>
      | RevokeAdminStmt r m \<Rightarrow>
          (case map_of (rvMembers s) (r, m) of
             None \<Rightarrow> s
           | Some old \<Rightarrow> s\<lparr>rvMembers := AList.update (r, m) (old\<lparr>msAdmin := False\<rparr>) (rvMembers s)\<rparr>)
      | RevokeRoleStmt r m \<Rightarrow> s\<lparr>rvMembers := AList.delete (r, m) (rvMembers s)\<rparr>)"

definition refOtherExec :: "string \<Rightarrow> refServer \<Rightarrow> error option \<times> refServer" where
  "refOtherExec q s =
     (case parseAlter True q of
        Some (AlterSet sc n vs) \<Rightarrow> (None, s\<lparr>rvSettings := AList.update (sc, n) vs (rvSettings s)\<rparr>)
      | Some (AlterReset sc n) \<Rightarrow> (None, s\<lparr>rvSettings := AList.delete (sc, n) (rvSettings s)\<rparr>)
      | None \<Rightarrow>
          (case parseMember True q of
             Some st \<Rightarrow> (None, refMemberExec st s)
           | None \<Rightarrow> (Some (PqError ''42601'' ''syntax error''), s)))"

definition refExec :: "string \<Rightarrow> refServer \<Rightarrow> error option \<times> refServer" where
  "refExec q s =
     (case parseSql True q of
        None \<Rightarrow> refOtherExec q s
      | Some (GrantStmt ps kind name g w) \<Rightarrow> (None, s\<lparr>rvAcl := refGrant (kind, name, g) ps w (rvAcl s)\<rparr>)
      | Some (RevokeStmt optionOnly ps kind name g cascade) \<Rightarrow>
          (let acl = refRevoke optionOnly (kind, name, g) ps (rvAcl s);
               acl' = dropOrphans (length acl) acl
           in if length acl' < length acl \<and> \<not> cascade then (Some (PqError sqlStateDependentObjects ''dependent privileges exist''), s)
              else (None, s\<lparr>rvAcl := acl'\<rparr>)))"

definition refHeldRows :: "aclKey \<Rightarrow> aclEntry list \<Rightarrow> sqlValue list list" where
  "refHeldRows k acl =
     (let es = filter (\<lambda>(k', gr, p, b). k' = k \<and> gr = None) acl
      in if es = [] then [[SNull, SNull]] else map (\<lambda>(k', gr, p, b). [SText p, SBool b]) es)"

text \<open>The row of \<open>LookupRole\<close> for a role of the catalog.\<close>

definition roleRow :: "ReachableRole \<Rightarrow> sqlValue list" where
  "roleRow r = [SText (rrName r), SText (rrComment r), SBool (rrSuperuser r), SBool (rrCreateRole r),
     SBool (rrReplication r), SBool (rrBypassRLS r)]"

definition refRole :: "refServer \<Rightarrow> string \<Rightarrow> ReachableRole option" where
  "refRole s n = map_option (\<lambda>r. r\<lparr>rrVia := []\<rparr>) (find (\<lambda>r. rrName r = n) (rvRoles s))"

text \<open>The roles a role reaches: itself, then round by round the roles its memberships add.\<close>

definition reachedRow :: "ReachableRole \<Rightarrow> sqlValue list" where
  "reachedRow r = [SText (rrName r), SText (rrVia r), SText (rrComment r), SBool (rrSuperuser r), SBool (rrCreateRole r),
     SBool (rrReplication r), SBool (rrBypassRLS r)]"

fun refReach :: "nat \<Rightarrow> refServer \<Rightarrow> (string \<times> string) list \<Rightarrow> (string \<times> string) list" where
  "refReach 0 s seen = seen"
| "refReach (Suc n) s seen =
     refReach n s (remdups (seen @ concat (map (\<lambda>(x, via). map (\<lambda>((r, m), st). (r, if via = [] then r else via))
       (filter (\<lambda>((r, m), st). m = x) (rvMembers s))) seen)))"

definition refClosure :: "refServer \<Rightarrow> string \<Rightarrow> ReachableRole list" where
  "refClosure s n = List.map_filter (\<lambda>(x, via). map_option (\<lambda>r. r\<lparr>rrVia := via\<rparr>) (refRole s x))
     (refReach (length (rvRoles s)) s [(n, [])])"

definition memberRow :: "string \<times> MembershipState \<Rightarrow> sqlValue list" where
  "memberRow = (\<lambda>(r, st). [SText r, SBool (msAdmin st), case msInherit st of None \<Rightarrow> SNull | Some b \<Rightarrow> SBool b,
     case msSet st of None \<Rightarrow> SNull | Some b \<Rightarrow> SBool b])"

definition refMembersOf :: "refServer \<Rightarrow> string \<Rightarrow> (string \<times> MembershipState) list" where
  "refMembersOf s m = map (\<lambda>((r, x), st). (r, st)) (filter (\<lambda>((r, x), st). x = m) (AList.clearjunk (rvMembers s)))"

text \<open>The version of the server, the parameters it knows with their context, and its databases.\<close>

definition refVersion :: int where
  "refVersion = 180001"

definition refContext :: "string \<Rightarrow> string option" where
  "refContext = map_of [(''search_path'', ''user''), (''work_mem'', ''user''), (''log_statement'', ''superuser''),
     (''port'', ''postmaster'')]"

definition refDatabase :: "string \<Rightarrow> bool" where
  "refDatabase d \<longleftrightarrow> d \<in> set [''postgres'', ''app'']"

text \<open>A role exists when the catalog has it; an entry it still holds keeps it from being dropped.\<close>

definition refRoleExists :: "refServer \<Rightarrow> string \<Rightarrow> bool" where
  "refRoleExists s n \<longleftrightarrow> list_ex (\<lambda>r. rrName r = n) (rvRoles s) \<or> list_ex (\<lambda>((_, _, g), _). g = Some n) (rvAcl s)"

definition refCatalogQuery :: "string \<Rightarrow> sqlValue list \<Rightarrow> refServer \<Rightarrow> (sqlValue list list) option" where
  "refCatalogQuery q args s =
     (case args of
        [] \<Rightarrow> if q = serverVersionQuery then Some [[SText ''180001'']] else None
      | [SText n] \<Rightarrow>
          if q = lookupRoleQuery then Some (case refRole s n of None \<Rightarrow> [] | Some r \<Rightarrow> [roleRow r])
          else if q = membershipClosureQuery then Some (map reachedRow (refClosure s n))
          else if q = listMembershipsQuery refVersion then Some (map memberRow (refMembersOf s n))
          else if q = parameterContextQuery then Some (case refContext (toLower n) of None \<Rightarrow> [] | Some c \<Rightarrow> [[SText c]])
          else if q = databaseExistsQuery then Some [[SBool (refDatabase n)]]
          else if q = roleExistsQuery then Some [[SBool (refRoleExists s n)]]
          else None
      | [SText n, SBool pub, SText g, SText p] \<Rightarrow>
          (case filter (\<lambda>k. heldFromAnyGrantorQueries k = Some q) [ObjectDatabase, ObjectSchema] of
             [] \<Rightarrow> None
           | kind # _ \<Rightarrow> Some [[SBool (list_ex (\<lambda>(k, gr, p', b). k = (kind, [n], if pub then None else Some g) \<and> p' = p) (rvAcl s))]])
      | _ \<Rightarrow> None)"

definition refQuery :: "string \<Rightarrow> sqlValue list \<Rightarrow> refServer \<Rightarrow> error + sqlValue list list \<times> error option" where
  "refQuery q args s =
     (case (filter (\<lambda>k. heldPrivilegesQueries k = Some q) objectWords, args) of
        (kind # _, [SText n, SBool pub, SText g]) \<Rightarrow>
          Inr (refHeldRows (kind, objParts \<lparr>Kind = kind, Name = n\<rparr>, if pub then None else Some g) (rvAcl s), None)
      | _ \<Rightarrow>
          (case refCatalogQuery q args s of
             Some rows \<Rightarrow> Inr (rows, None)
           | None \<Rightarrow> Inl (PqError ''42601'' ''syntax error'')))"

definition refDb :: "refServer db" where
  "refDb = \<lparr>execDb = (\<lambda>q. State (refExec q)), queryDb = (\<lambda>q args. State (\<lambda>s. (refQuery q args s, s))),
     beginTx = ret None, commitTx = ret None, rollbackTx = ret ()\<rparr>"

definition refPersist :: "refServer ledgerPersist" where
  "refPersist = Some (\<lambda>L. State (\<lambda>s. (None, s\<lparr>rvLedger := L\<rparr>)))"

lemma dropOrphans_owner: "(k, None, p, b) \<in> set (dropOrphans n acl) \<longleftrightarrow> (k, None, p, b) \<in> set acl"
  by (induction n acl rule: dropOrphans.induct) (auto simp: grantorHolds_def split: prod.splits)

lemma refGrant_effect:
  "grantEffect refPrivs refOpts k ps w s None (s\<lparr>rvAcl := refGrant k ps w (rvAcl s)\<rparr>)"
  unfolding grantEffect_def refPrivs_def refOpts_def by (auto simp: refGrant_def)

lemma refRevoke_owner:
  "(k', None, p, b) \<in> set (refRevoke oo k ps acl) \<longleftrightarrow>
    (if k' = k \<and> p \<in> set ps then oo \<and> \<not> b \<and> (\<exists>b'. (k', None, p, b') \<in> set acl) else (k', None, p, b) \<in> set acl)"
  by (cases oo; induction acl) (auto simp: refRevoke_def split: if_splits)

lemma refRevoke_effect:
  "revokeEffect refPrivs refOpts k ps \<lparr>GrantOptionOnly = oo, Cascade = c\<rparr> s None
    (s\<lparr>rvAcl := dropOrphans n (refRevoke oo k ps (rvAcl s))\<rparr>)"
  unfolding revokeEffect_def refPrivs_def refOpts_def
  by (auto simp: dropOrphans_owner refRevoke_owner)

lemma refHeldRows_rows: "heldRows (refPrivs s k) (refOpts s k) (refHeldRows k (rvAcl s))"
proof -
  have "[SText p, SBool b] \<in> set (refHeldRows k (rvAcl s)) \<longleftrightarrow> (k, None, p, b) \<in> set (rvAcl s)" for p b
    by (induction "rvAcl s") (auto simp: refHeldRows_def Let_def filter_empty_conv image_iff)
  moreover have "\<forall>row \<in> set (refHeldRows k (rvAcl s)). row = [SNull, SNull] \<or> (\<exists>p b. row = [SText p, SBool b])"
    by (auto simp: refHeldRows_def Let_def)
  ultimately show ?thesis by (simp add: heldRows_def refPrivs_def refOpts_def)
qed

lemma heldQueries_distinct:
  "heldPrivilegesQueries kind = Some q \<Longrightarrow> filter (\<lambda>k. heldPrivilegesQueries k = Some q) objectWords = [kind]"
proof -
  assume a: "heldPrivilegesQueries kind = Some q"
  then have "kind \<in> set objectWords" by (auto simp: heldPrivilegesQueries_def objectWords_def split: if_splits)
  moreover have "\<forall>k \<in> set objectWords. filter (\<lambda>k'. heldPrivilegesQueries k' = heldPrivilegesQueries k) objectWords = [k]"
    by code_simp
  ultimately show ?thesis using a by auto
qed

interpretation ref: pg_server refDb True None "\<lambda>_. True" refPrivs refOpts rvLedger
proof (unfold_locales, goal_cases)
  case (1 q ps kind name g w s)
  then show ?case by (simp add: refDb_def wp_State refExec_def refGrant_effect)
next
  case (2 q oo ps kind name g c s)
  have "revokeEffect refPrivs refOpts k ps m s (Some e) s" for k m e by (auto simp: revokeEffect_def)
  with 2 show ?case by (simp add: refDb_def wp_State refExec_def Let_def refRevoke_effect)
next
  case (3 kind q n gr s)
  then show ?case
    by (auto simp: refDb_def wp_State refQuery_def heldQueries_distinct sameAcl_def granteeOf_def refHeldRows_rows)
qed simp

interpretation refRun: durable_ops "executorOps refDb None" "\<lambda>t. namedTarget t \<and> True" aclNames
  "keyedAcl (\<lambda>_. True) refPrivs" "keyedAcl (\<lambda>_. True) refOpts" rvLedger refPersist
proof unfold_locales
  fix wr L and s :: refServer
  assume "refPersist = Some wr"
  then have r: "wr L = State (\<lambda>s. (None, s\<lparr>rvLedger := L\<rparr>))" by (auto simp: refPersist_def)
  have "refPrivs (s\<lparr>rvLedger := L\<rparr>) = refPrivs s" "refOpts (s\<lparr>rvLedger := L\<rparr>) = refOpts s"
    by (simp_all add: refPrivs_def refOpts_def fun_eq_iff)
  then have "sameAcl refPrivs refOpts s (s\<lparr>rvLedger := L\<rparr>)" by (simp add: sameAcl_def)
  from sameAcl_keyed [OF this] show "wp (wr L) (\<lambda>e s'. sameAcl (keyedAcl (\<lambda>_. True) refPrivs) (keyedAcl (\<lambda>_. True) refOpts) s s' \<and>
      (e = None \<longrightarrow> rvLedger s' = L) \<and> (rvLedger s' = rvLedger s \<or> rvLedger s' = L)) s"
    by (simp add: r wp_State)
qed

section \<open>The catalog of roles\<close>

text \<open>
  What \<open>LookupRole\<close> relies on: the query of \<open>pg_roles\<close> changes nothing and returns the row of the
  role with the asked name, or no row.
\<close>

definition catalogRow :: "sqlValue list option \<Rightarrow> error + sqlValue list list \<times> error option \<Rightarrow> bool" where
  "catalogRow x r =
     (case r of
        Inl e \<Rightarrow> e \<noteq> ErrNoRows
      | Inr ([], Some e) \<Rightarrow> e \<noteq> ErrNoRows
      | Inr (rows, _) \<Rightarrow> rows = (case x of None \<Rightarrow> [] | Some row \<Rightarrow> [row]))"

lemma firstRow_catalog:
  assumes "catalogRow x r"
  obtains (failed) e where "firstRow r = Inl e" "e \<noteq> ErrNoRows"
  | (absent) "x = None" "firstRow r = Inl ErrNoRows"
  | (found) row where "x = Some row" "firstRow r = Inr row"
proof (cases r)
  case (Inl e)
  with assms failed show thesis by (simp add: catalogRow_def firstRow_def)
next
  case (Inr p)
  obtain rows e where p: "p = (rows, e)" by (cases p)
  with Inr assms failed absent found show thesis
    by (cases rows; cases e; cases x) (simp_all add: catalogRow_def firstRow_def)
qed

locale role_catalog =
  fixes db :: "'s db" and roleOf :: "'s \<Rightarrow> string \<Rightarrow> ReachableRole option"
  assumes query_role: "wp (queryDb db lookupRoleQuery [SText n]) (\<lambda>r s'. s' = s \<and> catalogRow (map_option roleRow (roleOf s n)) r) s"
    and role_via: "roleOf s n = Some x \<Longrightarrow> rrVia x = []"
begin

lemma scanRole_row: "rrVia x = [] \<Longrightarrow> scanRole (roleRow x) = Inr x"
  by (simp add: scanRole_def roleRow_def)

lemma LookupRole_post: "wp (LookupRole db n) (\<lambda>r s'. s' = s \<and> (\<forall>x. r = Inr x \<longrightarrow> x = roleOf s n)) s"
proof -
  have step: "(\<lambda>r s'. s' = s \<and> (\<forall>x. r = Inr x \<longrightarrow> x = roleOf s n))
      (case scanned scanRole (firstRow r) of
        Inl e \<Rightarrow> if e = ErrNoRows then Inr None else Inl (Wrapf ''failed to look up role %q: %w'' [n] e)
      | Inr x \<Rightarrow> Inr (Some x)) s"
    if "catalogRow (map_option roleRow (roleOf s n)) r" for r
    using that
  proof (cases rule: firstRow_catalog)
    case (found row)
    then obtain x where "roleOf s n = Some x" "row = roleRow x" by auto
    with found role_via [of s n x] scanRole_row [of x] show ?thesis by (simp add: scanned_def)
  qed (simp_all add: scanned_def)
  show ?thesis
    unfolding LookupRole_def queryRow_def wp_bind wp_ret
    by (rule wp_mono [OF query_role], elim conjE, hypsubst, rule step)
qed

end

lemma refQuery_one: "queryDb refDb q [SText n] = State (\<lambda>s. (case refCatalogQuery q [SText n] s of
     Some rows \<Rightarrow> Inr (rows, None) | None \<Rightarrow> Inl (PqError ''42601'' ''syntax error''), s))"
  by (auto simp: refDb_def refQuery_def fun_eq_iff split: list.splits)

interpretation refRoles: role_catalog refDb refRole
proof unfold_locales
  show "wp (queryDb refDb lookupRoleQuery [SText n]) (\<lambda>r s'. s' = s \<and> catalogRow (map_option roleRow (refRole s n)) r) s" for n s
    by (simp add: refQuery_one wp_State refCatalogQuery_def catalogRow_def split: option.splits)
qed (auto simp: refRole_def)

end
