(* ===== verification/Grant_Properties.thy ===== *)
theory Grant_Properties
  imports Pg_Server
begin

text \<open>
  The properties of the grant engine over any server that honours the contract, each with an
  instance on the reference server. The scenario of the instances: the ledger records CREATE on
  database \<open>app\<close> for \<open>bob\<close>, who was also given CONNECT by hand; the spec declares CONNECT and
  TEMPORARY.
\<close>

section \<open>The scenario\<close>

definition exTarget :: grantTarget where
  "exTarget = \<lparr>tKind = ''DATABASE'', tName = ''app'', tGrantee = ''bob'', tSchema = [], tForRole = [], tOID = 0\<rparr>"

definition exKey :: aclKey where
  "exKey = (''DATABASE'', [''app''], Some ''bob'')"

definition exDesired :: "privilegeGrant list" where
  "exDesired = [desiredGrant exTarget [''CONNECT'', ''TEMPORARY''] False]"

definition exLedger :: "privilegeGrant list" where
  "exLedger = [desiredGrant exTarget [''CREATE''] False]"

definition exLedger' :: "privilegeGrant list" where
  "exLedger' = [desiredGrant exTarget [''TEMPORARY''] False]"

definition exState :: refServer where
  "exState = \<lparr>rvAcl = [(exKey, None, ''CONNECT'', False), (exKey, None, ''CREATE'', False)], rvRoles = [], rvMembers = [], rvSettings = [], rvLedger = exLedger\<rparr>"

definition exState' :: refServer where
  "exState' = \<lparr>rvAcl = [(exKey, None, ''CONNECT'', False), (exKey, None, ''TEMPORARY'', False)], rvRoles = [], rvMembers = [], rvSettings = [],
     rvLedger = [desiredGrant exTarget [''CREATE'', ''TEMPORARY''] False]\<rparr>"

lemma exRun:
  "run_state (applyPrivilegeGrants exDesired exLedger (executorOps refDb None) 10 refPersist) exState =
    ((exLedger', None), exState')"
  by code_simp

lemma exWf: "wfDesired exDesired"
  by code_simp

lemma exVal: "\<forall>g \<in> set exDesired \<union> set exLedger. manageable (\<lambda>t. namedTarget t \<and> True) aclNames g"
  by code_simp

section \<open>Properties of a run\<close>

lemma applied_run:
  assumes "durable_ops ops valid names holds options stored persist"
    and "wfDesired desired" and "\<forall>g \<in> set desired \<union> set L. manageable valid names g"
    and "run_state (applyPrivilegeGrants desired L ops limit persist) s = (r, s')"
  shows "applied holds options stored desired L limit (persist \<noteq> None) s r s'"
  by (rule wp_run [OF durable_ops.apply_post [OF assms(1-3)] assms(4)])

text \<open>
  C1. Convergence: when a run reports no error, every declared privilege and grant option is held,
  every privilege and grant option that only the ledger still recorded is gone, and the new ledger
  records nothing that is not declared.
\<close>

theorem grants_converge:
  assumes "durable_ops ops valid names holds options stored persist"
    and "wfDesired desired" and "\<forall>g \<in> set desired \<union> set L. manageable valid names g"
    and "run_state (applyPrivilegeGrants desired L ops limit persist) s = ((L', None), s')"
  shows "recPrivs desired k \<subseteq> holds s' k \<and> recOpts desired k \<subseteq> options s' k \<and>
    holds s' k \<inter> (recPrivs L k - recPrivs desired k) = {} \<and> options s' k \<inter> (recOpts L k - recOpts desired k) = {} \<and>
    recPrivs L' k \<subseteq> recPrivs desired k \<and> recOpts L' k \<subseteq> recOpts desired k"
  using applied_run [OF assms] by (simp add: applied_def runPost_def grantRun_def optionRun_def)

theorem grants_converge_witness:
  "run_state (applyPrivilegeGrants exDesired exLedger (executorOps refDb None) 10 refPersist) exState = ((exLedger', None), exState') \<and>
    recPrivs exDesired (targetKey exTarget) \<subseteq> keyedAcl (\<lambda>_. True) refPrivs exState' (targetKey exTarget)"
  using grants_converge [OF refRun.durable_ops_axioms exWf exVal exRun] exRun by blast

text \<open>
  C2. Frame: whatever errors a run meets, it takes away only privileges and grant options the
  ledger records and the spec does not declare, and adds only declared ones. A privilege granted
  by hand is never revoked.
\<close>

theorem grants_frame:
  assumes "durable_ops ops valid names holds options stored persist"
    and "wfDesired desired" and "\<forall>g \<in> set desired \<union> set L. manageable valid names g"
    and "run_state (applyPrivilegeGrants desired L ops limit persist) s = ((L', err), s')"
  shows "holds s k - (recPrivs L k - recPrivs desired k) \<subseteq> holds s' k \<and> holds s' k \<subseteq> holds s k \<union> recPrivs desired k \<and>
    options s k - ((recPrivs L k - recPrivs desired k) \<union> (recOpts L k - recOpts desired k)) \<subseteq> options s' k \<and>
    options s' k \<subseteq> options s k \<union> recOpts desired k"
  using applied_run [OF assms] by (simp add: applied_def runPost_def grantRun_def optionRun_def)

theorem grants_frame_witness:
  "run_state (applyPrivilegeGrants exDesired exLedger (executorOps refDb None) 10 refPersist) exState = ((exLedger', None), exState') \<and>
    keyedAcl (\<lambda>_. True) refPrivs exState (targetKey exTarget) - (recPrivs exLedger (targetKey exTarget) - recPrivs exDesired (targetKey exTarget))
      \<subseteq> keyedAcl (\<lambda>_. True) refPrivs exState' (targetKey exTarget)"
  using grants_frame [OF refRun.durable_ops_axioms exWf exVal exRun] exRun by blast

text \<open>
  C3. Tracking: every privilege and grant option a run added is in the ledger it returns, and the
  ledger never claims one that was there before pgop: what it records was recorded already or is
  declared and was not held when the run started.
\<close>

theorem grants_tracked:
  assumes "durable_ops ops valid names holds options stored persist"
    and "wfDesired desired" and "\<forall>g \<in> set desired \<union> set L. manageable valid names g"
    and "run_state (applyPrivilegeGrants desired L ops limit persist) s = ((L', err), s')"
  shows "holds s' k - holds s k \<subseteq> recPrivs L' k \<and> options s' k - options s k \<subseteq> recOpts L' k \<and>
    recPrivs L' k \<subseteq> recPrivs L k \<union> (recPrivs desired k - holds s k) \<and>
    recOpts L' k \<subseteq> recOpts L k \<union> (recOpts desired k - options s k)"
  using applied_run [OF assms] by (simp add: applied_def runPost_def grantRun_def optionRun_def)

theorem grants_tracked_witness:
  "run_state (applyPrivilegeGrants exDesired exLedger (executorOps refDb None) 10 refPersist) exState = ((exLedger', None), exState') \<and>
    keyedAcl (\<lambda>_. True) refPrivs exState' (targetKey exTarget) - keyedAcl (\<lambda>_. True) refPrivs exState (targetKey exTarget)
      \<subseteq> recPrivs exLedger' (targetKey exTarget)"
  using grants_tracked [OF refRun.durable_ops_axioms exWf exVal exRun] exRun by blast

text \<open>
  C4. Intent log: with a durable record of the ledger, every privilege a run added is in the stored
  ledger when the run ends, also when it was cut short (every later statement failing) and the
  returned ledger is lost; and storing the intent loses nothing the ledger recorded.
\<close>

theorem grants_crash_safe:
  assumes "durable_ops ops valid names holds options stored persist"
    and "wfDesired desired" and "\<forall>g \<in> set desired \<union> set L. manageable valid names g"
    and "run_state (applyPrivilegeGrants desired L ops limit persist) s = ((L', err), s')"
    and "persist \<noteq> None"
  shows "holds s' k - holds s k \<subseteq> recPrivs (stored s') k \<and>
    (stored s' = stored s \<or> recPrivs L k \<subseteq> recPrivs (stored s') k)"
  using applied_run [OF assms(1-4)] assms(5) by (auto simp: applied_def storedRun_def)

theorem grants_crash_safe_witness:
  "run_state (applyPrivilegeGrants exDesired exLedger (executorOps refDb None) 10 refPersist) exState = ((exLedger', None), exState') \<and>
    keyedAcl (\<lambda>_. True) refPrivs exState' (targetKey exTarget) - keyedAcl (\<lambda>_. True) refPrivs exState (targetKey exTarget)
      \<subseteq> recPrivs (rvLedger exState') (targetKey exTarget)"
  using grants_crash_safe [OF refRun.durable_ops_axioms exWf exVal exRun] exRun by (simp add: refPersist_def)

text \<open>
  C5. No loss: unless the run reports RevokeSkipped, a privilege or grant option the ledger
  recorded and the grantee still holds stays recorded.
\<close>

theorem grants_not_forgotten:
  assumes "durable_ops ops valid names holds options stored persist"
    and "wfDesired desired" and "\<forall>g \<in> set desired \<union> set L. manageable valid names g"
    and "run_state (applyPrivilegeGrants desired L ops limit persist) s = ((L', err), s')"
    and "ReasonRevokeSkipped \<notin> set (errReasons err)"
  shows "holds s' k \<inter> recPrivs L k \<subseteq> recPrivs L' k \<and> options s' k \<inter> recOpts L k \<subseteq> recOpts L' k"
  using applied_run [OF assms(1-4)] assms(5) by (simp add: applied_def runPost_def grantRun_def optionRun_def)

theorem grants_not_forgotten_witness:
  "run_state (applyPrivilegeGrants exDesired exLedger (executorOps refDb None) 10 refPersist) exState = ((exLedger', None), exState') \<and>
    keyedAcl (\<lambda>_. True) refPrivs exState' (targetKey exTarget) \<inter> recPrivs exLedger (targetKey exTarget)
      \<subseteq> recPrivs exLedger' (targetKey exTarget)"
  using grants_not_forgotten [OF refRun.durable_ops_axioms exWf exVal exRun] exRun by (simp add: errReasons_def)

text \<open>
  C6. The bound of the ledger: with a positive limit the returned ledger has at most that many
  entries (or no more than the ledger had before), and when the declared and the recorded entries
  together exceed the limit the run reports an error and adds nothing.
\<close>

theorem grants_limit:
  assumes "durable_ops ops valid names holds options stored persist"
    and "wfDesired desired" and "\<forall>g \<in> set desired \<union> set L. manageable valid names g"
    and "run_state (applyPrivilegeGrants desired L ops limit persist) s = ((L', err), s')"
    and "limit > 0"
  shows "int (length L') \<le> max limit (int (card (grantKey ` set L))) \<and>
    (overLimit (trackedOf L) (wantOf desired) limit \<longrightarrow> err \<noteq> None \<and> holds s' k \<subseteq> holds s k \<and> options s' k \<subseteq> options s k)"
  using applied_run [OF assms(1-4)] assms(5) by (auto simp: applied_def nothingAdded_def)

theorem grants_limit_witness:
  "run_state (applyPrivilegeGrants exDesired exLedger (executorOps refDb None) 10 refPersist) exState = ((exLedger', None), exState') \<and>
    int (length exLedger') \<le> max 10 (int (card (grantKey ` set exLedger)))"
  using grants_limit [OF refRun.durable_ops_axioms exWf exVal exRun] exRun by simp

text \<open>
  C7. Form of the ledger: the returned ledger is sorted by key, has one entry per key and no empty
  entry, so its list type in the status (one item per key) accepts it.
\<close>

theorem grants_ledger_canonical:
  assumes "durable_ops ops valid names holds options stored persist"
    and "wfDesired desired" and "\<forall>g \<in> set desired \<union> set L. manageable valid names g"
    and "run_state (applyPrivilegeGrants desired L ops limit persist) s = ((L', err), s')"
  shows "canonicalLedger L'"
  using applied_run [OF assms] by (simp add: applied_def runPost_def)

theorem grants_ledger_canonical_witness:
  "run_state (applyPrivilegeGrants exDesired exLedger (executorOps refDb None) 10 refPersist) exState = ((exLedger', None), exState') \<and>
    canonicalLedger exLedger'"
  using grants_ledger_canonical [OF refRun.durable_ops_axioms exWf exVal exRun] exRun by blast

text \<open>
  C8. Idempotence: once a run has succeeded, another run of the same spec on the ledger it returned
  changes no access-control entry and adds nothing to the ledger, whatever errors it meets.
\<close>

theorem grants_idempotent:
  assumes "durable_ops ops valid names holds options stored persist"
    and "wfDesired desired" and "\<forall>g \<in> set desired \<union> set L. manageable valid names g"
    and "\<forall>g \<in> set L'. manageable valid names g"
    and "run_state (applyPrivilegeGrants desired L ops limit persist) s = ((L', None), s')"
    and "run_state (applyPrivilegeGrants desired L' ops limit persist) s' = ((L'', err), s'')"
  shows "holds s'' k = holds s' k \<and> options s'' k = options s' k \<and> recPrivs L'' k \<subseteq> recPrivs L' k \<and> recOpts L'' k \<subseteq> recOpts L' k"
proof -
  note first = applied_run [OF assms(1-3,5)]
  have "\<forall>g \<in> set desired \<union> set L'. manageable valid names g" using assms(3,4) by blast
  note second = applied_run [OF assms(1,2) this assms(6)]
  from first have f: "recPrivs desired k \<subseteq> holds s' k" "recOpts desired k \<subseteq> options s' k"
    "recPrivs L' k - recPrivs desired k = {}" "recOpts L' k - recOpts desired k = {}"
    by (auto simp: applied_def runPost_def grantRun_def optionRun_def)
  from second have "holds s' k - (recPrivs L' k - recPrivs desired k) \<subseteq> holds s'' k" "holds s'' k \<subseteq> holds s' k \<union> recPrivs desired k"
    "options s' k - ((recPrivs L' k - recPrivs desired k) \<union> (recOpts L' k - recOpts desired k)) \<subseteq> options s'' k"
    "options s'' k \<subseteq> options s' k \<union> recOpts desired k"
    "recPrivs L'' k \<subseteq> recPrivs L' k \<union> (recPrivs desired k - holds s' k)"
    "recOpts L'' k \<subseteq> recOpts L' k \<union> (recOpts desired k - options s' k)"
    by (simp_all add: applied_def runPost_def grantRun_def optionRun_def)
  with f show ?thesis unfolding f(3,4) by blast
qed

lemma exRun_again:
  "run_state (applyPrivilegeGrants exDesired exLedger' (executorOps refDb None) 10 refPersist) exState' =
    ((exLedger', None), exState')"
  by code_simp

lemma exVal': "\<forall>g \<in> set exLedger'. manageable (\<lambda>t. namedTarget t \<and> True) aclNames g"
  by code_simp

theorem grants_idempotent_witness:
  "run_state (applyPrivilegeGrants exDesired exLedger' (executorOps refDb None) 10 refPersist) exState' = ((exLedger', None), exState') \<and>
    recPrivs exLedger' (targetKey exTarget) \<subseteq> recPrivs exLedger' (targetKey exTarget)"
  using grants_idempotent [OF refRun.durable_ops_axioms exWf exVal exVal' exRun exRun_again, of "targetKey exTarget"] exRun_again by blast

text \<open>
  C9. Refinement: on every server that honours the contract of GRANT, REVOKE and the catalog
  queries, the operations the client builds (SQL text included) satisfy the contract the engine
  relies on, for named targets whose grantee does not own the object.
\<close>

theorem executorOps_refines:
  assumes "pg_server db scs isGone subject privsOf optsOf stored"
  shows "acl_ops (executorOps db isGone) (\<lambda>t. namedTarget t \<and> subject (aclKeyOf t)) aclNames
    (keyedAcl subject privsOf) (keyedAcl subject optsOf) stored"
  by (rule pg_server.executor_contract [OF assms])

theorem executorOps_refines_witness:
  "acl_ops (executorOps refDb None) (\<lambda>t. namedTarget t \<and> True) aclNames (keyedAcl (\<lambda>_. True) refPrivs)
    (keyedAcl (\<lambda>_. True) refOpts) rvLedger"
  using executorOps_refines [OF ref.pg_server_axioms] .

end
