(* ===== verification/Api_Types.thy ===== *)
theory Api_Types
  imports Go_Prelude
begin

text \<open>
  The custom resources of \<open>api/v1alpha1\<close> that the reconcilers of roles and databases read and
  write, as records with the fields of the Go structs (prefixed by the struct's initials), and
  the methods the API package defines on them. A pointer is an option, a map an association list,
  a time a number. Of the Kubernetes metadata the records keep the name, the namespace and the UID.
\<close>

section \<open>Common types\<close>

record ClusterReference =
  crName :: string

record SecretKeySelector =
  skName :: string
  skKey :: string

record Condition =
  cType :: string
  cStatus :: string
  cReason :: string
  cMessage :: string

section \<open>Role policy of a Cluster\<close>

type_synonym RoleAttribute = string

abbreviation RoleAttributeCreateRole :: RoleAttribute where "RoleAttributeCreateRole \<equiv> ''createRole''"
abbreviation RoleAttributeReplication :: RoleAttribute where "RoleAttributeReplication \<equiv> ''replication''"
abbreviation RoleAttributeBypassRLS :: RoleAttribute where "RoleAttributeBypassRLS \<equiv> ''bypassRLS''"

record RolePolicySpec =
  AllowedAttributes :: "RoleAttribute list"
  AllowedPredefinedRoles :: "string list"
  AllowedExistingRoles :: "string list"
  AdoptableRoles :: "string list"
  AdoptableDatabases :: "string list"
  AllowedExtensions :: "string list"
  AllowedSettingPrefixes :: "string list"

definition DeniedSettingPrefixes :: "string list" where
  "DeniedSettingPrefixes =
     [''plperl'', ''plperlu'', ''plpython'', ''plpythonu'', ''plpython2u'', ''plpython3'', ''plpython3u'',
      ''pltcl'', ''pltclu'', ''plv8'', ''pljava'', ''plpgsql'',
      ''postgis'', ''postgis_raster'', ''auto_explain'', ''pg_stat_statements'', ''pg_stat_monitor'',
      ''pgaudit'', ''set_user'', ''anon'', ''sepgsql'', ''pg_hint_plan'', ''pg_partman_bgw'', ''cron'',
      ''pgsodium'', ''pg_net'', ''pg_prewarm'', ''pgcrypto'', ''pgtle'']"

definition GrantablePredefinedRoles :: "string list" where
  "GrantablePredefinedRoles =
     [''pg_checkpoint'', ''pg_create_subscription'', ''pg_maintain'', ''pg_monitor'', ''pg_read_all_data'',
      ''pg_read_all_settings'', ''pg_read_all_stats'', ''pg_signal_autovacuum_worker'', ''pg_signal_backend'',
      ''pg_stat_scan_tables'', ''pg_use_reserved_connections'', ''pg_write_all_data'']"

definition ForbiddenPredefinedRoles :: "string list" where
  "ForbiddenPredefinedRoles = [''pg_execute_server_program'', ''pg_read_server_files'', ''pg_write_server_files'']"

text \<open>The methods of \<open>*RolePolicySpec\<close>; a nil policy allows nothing.\<close>

definition listsName :: "(RolePolicySpec \<Rightarrow> string list) \<Rightarrow> RolePolicySpec option \<Rightarrow> string \<Rightarrow> bool" where
  "listsName field p name = (case p of None \<Rightarrow> False | Some pol \<Rightarrow> name \<in> set (field pol))"

definition AllowsSettingPrefix :: "RolePolicySpec option \<Rightarrow> string \<Rightarrow> bool" where
  "AllowsSettingPrefix p pre \<longleftrightarrow> listsName AllowedSettingPrefixes p pre \<and> pre \<notin> set DeniedSettingPrefixes"

definition AllowsAttribute :: "RolePolicySpec option \<Rightarrow> RoleAttribute \<Rightarrow> bool" where
  "AllowsAttribute p attr \<longleftrightarrow> listsName AllowedAttributes p attr"

definition AllowsPredefinedRole :: "RolePolicySpec option \<Rightarrow> string \<Rightarrow> bool" where
  "AllowsPredefinedRole p name \<longleftrightarrow> listsName AllowedPredefinedRoles p name \<and> name \<in> set GrantablePredefinedRoles"

definition AllowsExistingRole :: "RolePolicySpec option \<Rightarrow> string \<Rightarrow> bool" where
  "AllowsExistingRole p name \<longleftrightarrow> listsName AllowedExistingRoles p name"

definition AllowsAdoptingRole :: "RolePolicySpec option \<Rightarrow> string \<Rightarrow> bool" where
  "AllowsAdoptingRole p name \<longleftrightarrow> listsName AdoptableRoles p name"

definition AllowsAdoptingDatabase :: "RolePolicySpec option \<Rightarrow> string \<Rightarrow> bool" where
  "AllowsAdoptingDatabase p name \<longleftrightarrow> listsName AdoptableDatabases p name"

definition AllowsExtension :: "RolePolicySpec option \<Rightarrow> string \<Rightarrow> bool" where
  "AllowsExtension p name \<longleftrightarrow> listsName AllowedExtensions p name"

definition ReservedParameters :: "string list" where
  "ReservedParameters =
     [''archive_command'', ''archive_library'', ''archive_mode'', ''config_file'', ''data_directory'',
      ''external_pid_file'', ''hba_file'', ''hot_standby'', ''ident_file'', ''include'', ''include_dir'',
      ''include_if_exists'', ''listen_addresses'', ''max_replication_slots'', ''max_wal_senders'', ''port'',
      ''primary_conninfo'', ''primary_slot_name'', ''restore_command'', ''ssl'', ''ssl_cert_file'',
      ''ssl_key_file'', ''ssl_min_protocol_version'', ''unix_socket_directories'', ''wal_level'']"

section \<open>Role\<close>

record RoleMembership =
  mRole :: string
  mInherit :: "bool option"
  mSet :: "bool option"
  mAdmin :: bool

record PasswordRotationSpec =
  prEvery :: int

record RoleDeletionSpec =
  ReassignOwnedTo :: string

record RoleDatabaseSettings =
  rdsDatabase :: string
  rdsSettings :: "string gomap"

record ManagedRoleDatabaseSettings =
  mrdDatabase :: string
  mrdSettings :: "string list"

record ParameterGrantSpec =
  pgsParameter :: string
  pgsPrivileges :: "string list"
  pgsWithGrantOption :: bool

record ManagedParameterGrant =
  mpgParameter :: string
  mpgPrivileges :: "string list"
  mpgGrantOptions :: "string list"
  mpgWithGrantOption :: bool

record RoleSpec =
  rsClusterRef :: ClusterReference
  rsRoleName :: string
  rsLogin :: "bool option"
  rsCreateDB :: bool
  rsCreateRole :: bool
  rsInherit :: "bool option"
  rsReplication :: bool
  rsBypassRLS :: bool
  rsConnectionLimit :: "int option"
  rsMemberOf :: "string list"
  rsMemberships :: "RoleMembership list"
  rsRevokeRemovedMemberships :: "bool option"
  rsPasswordSecretRef :: "SecretKeySelector option"
  rsPasswordRotation :: "PasswordRotationSpec option"
  rsParameterGrants :: "ParameterGrantSpec list"
  rsDeletion :: "RoleDeletionSpec option"
  rsSettings :: "string gomap"
  rsDatabaseSettings :: "RoleDatabaseSettings list"

record RoleStatus =
  rtReady :: bool
  rtRoleName :: string
  rtClusterUID :: string
  rtSecretName :: string
  rtPasswordHash :: string
  rtPasswordRotatedAt :: "int option"
  rtPasswordRotationRequest :: string
  rtManagedMemberships :: "string list"
  rtManagedParameterGrants :: "ManagedParameterGrant list"
  rtManagedSettings :: "string list"
  rtManagedDatabaseSettings :: "ManagedRoleDatabaseSettings list"
  rtConditions :: "Condition list"

record Role =
  roleMetaName :: string
  roleMetaNamespace :: string
  roleSpec :: RoleSpec
  roleStatus :: RoleStatus

definition IsLogin :: "RoleSpec \<Rightarrow> bool" where
  "IsLogin s = (case rsLogin s of None \<Rightarrow> True | Some b \<Rightarrow> b)"

definition IsInherit :: "RoleSpec \<Rightarrow> bool" where
  "IsInherit s = (case rsInherit s of None \<Rightarrow> True | Some b \<Rightarrow> b)"

definition GetConnectionLimit :: "RoleSpec \<Rightarrow> int" where
  "GetConnectionLimit s = (case rsConnectionLimit s of None \<Rightarrow> -1 | Some n \<Rightarrow> n)"

definition ShouldRevokeRemovedMemberships :: "RoleSpec \<Rightarrow> bool" where
  "ShouldRevokeRemovedMemberships s = (case rsRevokeRemovedMemberships s of None \<Rightarrow> True | Some b \<Rightarrow> b)"

definition defaultMembership :: "string \<Rightarrow> RoleMembership" where
  "defaultMembership r = \<lparr>mRole = r, mInherit = None, mSet = None, mAdmin = False\<rparr>"

text \<open>Both loops of \<open>DesiredMemberships\<close>: a role that was seen is skipped.\<close>

fun addUnseen :: "RoleMembership list \<Rightarrow> RoleMembership list \<Rightarrow> RoleMembership list" where
  "addUnseen [] out = out"
| "addUnseen (m # ms) out = addUnseen ms (if mRole m \<in> mRole ` set out then out else out @ [m])"

definition DesiredMemberships :: "RoleSpec \<Rightarrow> RoleMembership list" where
  "DesiredMemberships s = addUnseen (map defaultMembership (rsMemberOf s)) (addUnseen (rsMemberships s) [])"

definition RolePostgresName :: "Role \<Rightarrow> string" where
  "RolePostgresName r = (if rsRoleName (roleSpec r) \<noteq> [] then rsRoleName (roleSpec r) else roleMetaName r)"

section \<open>Database\<close>

record PublicPrivilegesSpec =
  ppConnect :: "bool option"
  ppTemporary :: "bool option"
  ppPublicSchemaUsage :: "bool option"
  ppPublicSchemaCreate :: "bool option"

type_synonym PublicPrivilege = string

abbreviation PublicPrivilegeConnect :: PublicPrivilege where "PublicPrivilegeConnect \<equiv> ''connect''"
abbreviation PublicPrivilegeTemporary :: PublicPrivilege where "PublicPrivilegeTemporary \<equiv> ''temporary''"
abbreviation PublicPrivilegePublicSchemaUsage :: PublicPrivilege where "PublicPrivilegePublicSchemaUsage \<equiv> ''publicSchemaUsage''"
abbreviation PublicPrivilegePublicSchemaCreate :: PublicPrivilege where "PublicPrivilegePublicSchemaCreate \<equiv> ''publicSchemaCreate''"

record DatabaseGrantSpec =
  dgRole :: string
  dgPrivileges :: "string list"
  dgWithGrantOption :: bool

record ManagedDatabaseGrant =
  mdgRole :: string
  mdgPrivileges :: "string list"
  mdgGrantOptions :: "string list"
  mdgWithGrantOption :: bool

record ExtensionGrantSpec =
  egRole :: string
  egSchema :: "string list"
  egTables :: "string list"
  egSequences :: "string list"
  egFunctions :: "string list"

record ExtensionSpec =
  exName :: string
  exSchema :: string
  exVersion :: string
  exCascade :: bool
  exDropOnRemoval :: bool
  exGrants :: "ExtensionGrantSpec list"

record ManagedExtensionGrant =
  megExtension :: string
  megRole :: string
  megKind :: string
  megSchema :: string
  megPrivileges :: "string list"

record ExtensionStatus =
  esName :: string
  esVersion :: string
  esSchema :: string
  esCreated :: bool
  esOID :: int
  esOwner :: string
  esDropOnRemoval :: bool
  esReason :: string
  esMessage :: string
  esSkippedObjects :: int

record ObjectGrantSpec =
  ogRole :: string
  ogKind :: string
  ogObjects :: "string list"
  ogPrivileges :: "string list"
  ogWithGrantOption :: bool

record DefaultPrivilegeSpec =
  dpForRole :: string
  dpRole :: string
  dpKind :: string
  dpPrivileges :: "string list"
  dpWithGrantOption :: bool

record ManagedObjectGrant =
  mogSchema :: string
  mogKind :: string
  mogObject :: string
  mogOID :: int
  mogRole :: string
  mogPrivileges :: "string list"
  mogGrantOptions :: "string list"

record ManagedDefaultPrivilege =
  mdpSchema :: string
  mdpForRole :: string
  mdpKind :: string
  mdpRole :: string
  mdpPrivileges :: "string list"
  mdpGrantOptions :: "string list"

record ObjectGrantStatus =
  ogsSchema :: string
  ogsKind :: string
  ogsGranted :: int
  ogsSkipped :: int
  ogsSkippedExamples :: "string list"

record GrantSpec =
  gsRole :: string
  gsPrivileges :: "string list"
  gsWithGrantOption :: bool

record ManagedSchemaGrant =
  msgSchema :: string
  msgRole :: string
  msgPrivileges :: "string list"
  msgGrantOptions :: "string list"
  msgWithGrantOption :: bool

record SchemaSpec =
  ssName :: string
  ssOwner :: string
  ssGrants :: "GrantSpec list"
  ssObjectGrants :: "ObjectGrantSpec list"
  ssDefaultPrivileges :: "DefaultPrivilegeSpec list"

record DatabaseSpec =
  dsClusterRef :: ClusterReference
  dsDatabaseName :: string
  dsOwner :: string
  dsExtensions :: "ExtensionSpec list"
  dsSchemas :: "SchemaSpec list"
  dsGrants :: "DatabaseGrantSpec list"
  dsSettings :: "string gomap"
  dsPublicPrivileges :: "PublicPrivilegesSpec option"

record DatabaseStatus =
  dtReady :: bool
  dtDatabaseName :: string
  dtClusterUID :: string
  dtInstalledExtensions :: "string list"
  dtExtensions :: "ExtensionStatus list"
  dtManagedExtensionGrants :: "ManagedExtensionGrant list"
  dtCreatedSchemas :: "string list"
  dtManagedGrants :: "ManagedDatabaseGrant list"
  dtManagedSchemaGrants :: "ManagedSchemaGrant list"
  dtManagedObjectGrants :: "ManagedObjectGrant list"
  dtManagedDefaultPrivileges :: "ManagedDefaultPrivilege list"
  dtObjectGrants :: "ObjectGrantStatus list"
  dtRevokedPublicPrivileges :: "PublicPrivilege list"
  dtManagedSettings :: "string list"
  dtConditions :: "Condition list"

record Database =
  dbMetaName :: string
  dbMetaNamespace :: string
  dbSpec :: DatabaseSpec
  dbStatus :: DatabaseStatus

definition DatabasePostgresName :: "Database \<Rightarrow> string" where
  "DatabasePostgresName d = (if dsDatabaseName (dbSpec d) \<noteq> [] then dsDatabaseName (dbSpec d) else dbMetaName d)"

section \<open>Facts\<close>

lemma listsName_None [simp]: "listsName f None n = False"
  by (simp add: listsName_def)

lemma addUnseen_roles: "mRole ` set (addUnseen ms out) = mRole ` set out \<union> mRole ` set ms"
  by (induction ms out rule: addUnseen.induct) (auto simp: image_iff)

lemma addUnseen_distinct: "distinct (map mRole out) \<Longrightarrow> distinct (map mRole (addUnseen ms out))"
  by (induction ms out rule: addUnseen.induct) auto

lemma addUnseen_subset: "set out \<subseteq> set (addUnseen ms out) \<and> set (addUnseen ms out) \<subseteq> set out \<union> set ms"
  by (induction ms out rule: addUnseen.induct) auto

lemma DesiredMemberships_roles:
  "mRole ` set (DesiredMemberships s) = mRole ` set (rsMemberships s) \<union> set (rsMemberOf s)"
  "distinct (map mRole (DesiredMemberships s))"
proof -
  show "distinct (map mRole (DesiredMemberships s))"
    unfolding DesiredMemberships_def by (intro addUnseen_distinct) simp
  show "mRole ` set (DesiredMemberships s) = mRole ` set (rsMemberships s) \<union> set (rsMemberOf s)"
    by (simp add: DesiredMemberships_def addUnseen_roles image_image defaultMembership_def)
qed

end
