(* ===== verification/Go_Crypto.thy ===== *)
theory Go_Crypto
  imports Go_Prelude "HOL-Library.Word"
begin

text \<open>
  The functions of Go's \<open>crypto/sha256\<close>, \<open>crypto/hmac\<close> and \<open>encoding/base64\<close> that the ownership
  markers use, on byte strings.
\<close>

unbundle bit_operations_syntax

section \<open>SHA-256 (FIPS 180-4)\<close>

text \<open>
  The constants of the standard: the first 32 bits of the fractional parts of the cube roots of the
  first 64 primes, and of the square roots of the first 8.
\<close>

definition firstPrimes :: "nat list" where
  "firstPrimes = filter (\<lambda>n. list_all (\<lambda>d. n mod d \<noteq> 0) [2..<n]) [2..<312]"

text \<open>The integer part of the \<open>e\<close>-th root of a number below \<open>2 ^ (36 * e)\<close>, bit by bit.\<close>

definition intRoot :: "nat \<Rightarrow> nat \<Rightarrow> nat" where
  "intRoot e m = foldl (\<lambda>r i. if (r + 2 ^ i) ^ e \<le> m then r + 2 ^ i else r) 0 (rev [0..<36])"

definition shaK :: "32 word list" where
  "shaK = map (\<lambda>p. word_of_nat (intRoot 3 (p * 2 ^ 96))) firstPrimes"

definition shaInit :: "32 word list" where
  "shaInit = map (\<lambda>p. word_of_nat (intRoot 2 (p * 2 ^ 64))) (take 8 firstPrimes)"

definition rotr32 :: "nat \<Rightarrow> 32 word \<Rightarrow> 32 word" where
  "rotr32 n x = drop_bit n x OR push_bit (32 - n) x"

definition shaPad :: "string \<Rightarrow> nat list" where
  "shaPad msg =
     (let n = length msg;
          zeros = (119 - n mod 64) mod 64
      in map of_char msg @ [128] @ replicate zeros 0 @ map (\<lambda>i. (8 * n) div 256 ^ i mod 256) [7, 6, 5, 4, 3, 2, 1, 0])"

fun wordsOf :: "nat list \<Rightarrow> 32 word list" where
  "wordsOf (a # b # c # d # bs) = word_of_nat (((a * 256 + b) * 256 + c) * 256 + d) # wordsOf bs"
| "wordsOf _ = []"

fun extendSchedule :: "nat \<Rightarrow> 32 word list \<Rightarrow> 32 word list" where
  "extendSchedule 0 w = w"
| "extendSchedule (Suc n) w =
     (let i = length w; x = w ! (i - 15); y = w ! (i - 2);
          s0 = rotr32 7 x XOR rotr32 18 x XOR drop_bit 3 x;
          s1 = rotr32 17 y XOR rotr32 19 y XOR drop_bit 10 y
      in extendSchedule n (w @ [w ! (i - 16) + s0 + w ! (i - 7) + s1]))"

fun shaRound :: "32 word list \<Rightarrow> 32 word \<times> 32 word \<Rightarrow> 32 word list" where
  "shaRound [a, b, c, d, e, f, g, h] (k, w) =
     (let s1 = rotr32 6 e XOR rotr32 11 e XOR rotr32 25 e;
          ch = (e AND f) XOR (NOT e AND g);
          t1 = h + s1 + ch + k + w;
          s0 = rotr32 2 a XOR rotr32 13 a XOR rotr32 22 a;
          maj = (a AND b) XOR (a AND c) XOR (b AND c)
      in [t1 + s0 + maj, a, b, c, d + t1, e, f, g])"
| "shaRound st _ = st"

definition shaBlock :: "32 word list \<Rightarrow> 32 word list \<Rightarrow> 32 word list" where
  "shaBlock st block = map2 (+) st (foldl shaRound st (zip shaK (extendSchedule 48 block)))"

fun shaBlocks :: "nat \<Rightarrow> 32 word list \<Rightarrow> 32 word list \<Rightarrow> 32 word list" where
  "shaBlocks 0 st ws = st"
| "shaBlocks (Suc n) st ws = shaBlocks n (shaBlock st (take 16 ws)) (drop 16 ws)"

definition bytesOfWord :: "32 word \<Rightarrow> string" where
  "bytesOfWord w = map (\<lambda>i. char_of (unat (drop_bit i w) mod 256)) [24, 16, 8, 0]"

definition sha256 :: "string \<Rightarrow> string" where
  "sha256 msg =
     (let ws = wordsOf (shaPad msg) in concat (map bytesOfWord (shaBlocks (length ws div 16) shaInit ws)))"

section \<open>HMAC (RFC 2104)\<close>

definition xorByte :: "nat \<Rightarrow> char \<Rightarrow> char" where
  "xorByte n c = char_of (n XOR (of_char c :: nat))"

definition hmacSHA256 :: "string \<Rightarrow> string \<Rightarrow> string" where
  "hmacSHA256 key msg =
     (let k0 = (if length key > 64 then sha256 key else key);
          k = k0 @ replicate (64 - length k0) (char_of (0 :: nat))
      in sha256 (map (xorByte 0x5c) k @ sha256 (map (xorByte 0x36) k @ msg)))"

section \<open>Base64, URL alphabet without padding (RFC 4648)\<close>

definition base64Digit :: "nat \<Rightarrow> char" where
  "base64Digit n =
     (if n < 26 then char_of (65 + n) else if n < 52 then char_of (71 + n) else if n < 62 then char_of (n - 4)
      else if n = 62 then CHR ''-'' else CHR ''_'')"

fun base64Nats :: "nat list \<Rightarrow> nat list" where
  "base64Nats [] = []"
| "base64Nats [a] = [a div 4, a mod 4 * 16]"
| "base64Nats [a, b] = [a div 4, a mod 4 * 16 + b div 16, b mod 16 * 4]"
| "base64Nats (a # b # c # bs) =
     [a div 4, a mod 4 * 16 + b div 16, b mod 16 * 4 + c div 64, c mod 64] @ base64Nats bs"

definition base64RawURL :: "string \<Rightarrow> string" where
  "base64RawURL s = map base64Digit (base64Nats (map of_char s))"

lemma base64Digit_chars: "base64Digit n \<noteq> CHR ''.'' \<and> base64Digit n \<noteq> CHR '':''"
proof -
  have "of_char (base64Digit n) \<noteq> (46 :: nat) \<and> of_char (base64Digit n) \<noteq> (58 :: nat)"
    by (auto simp: base64Digit_def)
  then show ?thesis by auto
qed

lemma base64RawURL_chars: "CHR ''.'' \<notin> set (base64RawURL s)" "CHR '':'' \<notin> set (base64RawURL s)"
  using base64Digit_chars by (auto simp: base64RawURL_def) metis+

end
