(* ===== verification/Role_Policy.thy ===== *)
theory Role_Policy
  imports Api_Types Pg_Client Go_Crypto
begin

text \<open>
  The security policy of \<open>internal/controller/role_policy.go\<close>: ownership markers and the decision
  which PostgreSQL object a resource owns, reserved names, and what a role may reach through
  memberships and attributes. A problem is the text that explains a refusal; the empty text means
  that there is none, as in the code.
\<close>

abbreviation reservedRolePrefix :: string where "reservedRolePrefix \<equiv> ''pgop_''"
abbreviation bootstrapRoleName :: string where "bootstrapRoleName \<equiv> ''postgres''"
abbreviation defaultDatabaseName :: string where "defaultDatabaseName \<equiv> ''postgres''"
abbreviation template1Name :: string where "template1Name \<equiv> ''template1''"
abbreviation markerV2Prefix :: string where "markerV2Prefix \<equiv> ''pgop:v2:''"
abbreviation markerV1Prefix :: string where "markerV1Prefix \<equiv> ''pgop:v1:''"
abbreviation markerKindRole :: string where "markerKindRole \<equiv> ''Role''"
abbreviation markerKindDatabase :: string where "markerKindDatabase \<equiv> ''Database''"
abbreviation problemSuperuser :: string where "problemSuperuser \<equiv> ''is a superuser''"
abbreviation ReasonRolePolicyViolation :: string where "ReasonRolePolicyViolation \<equiv> ''RolePolicyViolation''"

section \<open>Ownership markers\<close>

record markerSigner =
  msKey :: string
  msNamespace :: string
  msCluster :: string

definition newMarkerSigner :: "string \<Rightarrow> string \<Rightarrow> string \<Rightarrow> markerSigner" where
  "newMarkerSigner namespace cluster key = \<lparr>msKey = key, msNamespace = namespace, msCluster = cluster\<rparr>"

definition keyID :: "markerSigner \<Rightarrow> string" where
  "keyID s = base64RawURL (take 6 (sha256 (msKey s)))"

definition marker :: "markerSigner \<Rightarrow> string \<Rightarrow> string \<Rightarrow> string" where
  "marker s kind name =
     (let mac = hmacSHA256 (msKey s) (kind @ ''|'' @ msNamespace s @ ''|'' @ msCluster s @ ''|'' @ name)
      in markerV2Prefix @ kind @ ''/'' @ name @ '':'' @ keyID s @ ''.'' @ base64RawURL mac)"

definition otherKeyMarker :: "markerSigner \<Rightarrow> string \<Rightarrow> string \<Rightarrow> string \<Rightarrow> bool" where
  "otherKeyMarker s comment kind name =
     (case cutPrefix comment (markerV2Prefix @ kind @ ''/'' @ name @ '':'') of
        None \<Rightarrow> False
      | Some rest \<Rightarrow> (case cutAt rest (CHR ''.'') of (i, _, ok) \<Rightarrow> ok \<and> i \<noteq> keyID s))"

definition verify :: "markerSigner \<Rightarrow> string \<Rightarrow> string \<Rightarrow> string \<Rightarrow> bool" where
  "verify s comment kind name \<longleftrightarrow> length (msKey s) > 0 \<and> comment = marker s kind name"

definition legacyMarker :: "string \<Rightarrow> string \<Rightarrow> string" where
  "legacyMarker kind name = markerV1Prefix @ kind @ ''/'' @ name"

definition refreshableComment :: "markerSigner \<Rightarrow> string \<Rightarrow> string \<Rightarrow> string \<Rightarrow> bool" where
  "refreshableComment s comment kind name \<longleftrightarrow>
     comment = [] \<or> comment = legacyMarker kind name \<or> otherKeyMarker s comment kind name"

datatype ownership = ownedAbsent | owned | ownedRemark | adoptable | notOwned

definition decideOwnership :: "markerSigner \<Rightarrow> string \<Rightarrow> string \<Rightarrow> bool \<Rightarrow> string \<Rightarrow> bool \<Rightarrow> bool \<Rightarrow> ownership" where
  "decideOwnership s kind name exists comment recorded allowlisted =
     (if \<not> exists then ownedAbsent
      else if recorded \<and> verify s comment kind name then owned
      else if recorded \<and> refreshableComment s comment kind name then ownedRemark
      else if allowlisted then adoptable
      else notOwned)"

text \<open>The explanation of \<open>notManagedMessage\<close>, with its two forms.\<close>

definition notManagedMessage :: "string \<Rightarrow> string \<Rightarrow> bool \<Rightarrow> string" where
  "notManagedMessage kind name recorded =
     (let field = (if kind = ''database'' then ''adoptableDatabases'' else ''adoptableRoles'');
          statusField = (if kind = ''database'' then ''status.databaseName'' else ''status.roleName'')
      in if recorded
         then sprintf (''the PostgreSQL %s %s carries a comment that is not this resource'' @ [squote] @ ''s ownership marker; pgop leaves it alone. To let this resource manage it again, a Cluster editor adds %s to the Cluster'' @ [squote] @ ''s spec.rolePolicy.%s'')
           [kind, name, name, field]
         else sprintf (''the PostgreSQL %s %s already exists and this resource did not create it (%s does not record it); pgop does not take it over, since that would reset its owner, settings or password and could drop it. To let this resource take it over (also after re-creating the resource without its status), a Cluster editor adds %s to the Cluster'' @ [squote] @ ''s spec.rolePolicy.%s'')
           [kind, name, statusField, name, field])"

section \<open>Managed roles\<close>

type_synonym managedRoles = "string gomap"

definition manages :: "managedRoles \<Rightarrow> ReachableRole \<Rightarrow> bool" where
  "manages m r = (case map_of m (rrName r) of None \<Rightarrow> False | Some mk \<Rightarrow> rrComment r = mk)"

section \<open>Reserved names\<close>

definition reservedRoleName :: "string \<Rightarrow> string" where
  "reservedRoleName name =
     (if name = bootstrapRoleName then sprintf ''the PostgreSQL role %q is reserved'' [name]
      else if hasPrefix name reservedRolePrefix
      then sprintf ''role names starting with %q are reserved for the operator (%q)'' [reservedRolePrefix, name]
      else if hasPrefix name ''pg_''
      then sprintf (''role names starting with '' @ [dquote] @ ''pg_'' @ [dquote] @ '' are reserved by PostgreSQL (%q)'') [name]
      else [])"

definition reservedDatabaseNames :: "string list" where
  "reservedDatabaseNames = [defaultDatabaseName, ''template0'', template1Name]"

definition reservedDatabaseName :: "string \<Rightarrow> string" where
  "reservedDatabaseName name =
     (if name \<in> set reservedDatabaseNames then sprintf ''the PostgreSQL database %q is reserved'' [name] else [])"

definition systemSchemaName :: "string \<Rightarrow> bool" where
  "systemSchemaName name \<longleftrightarrow> hasPrefix name ''pg_'' \<or> name = ''information_schema''"

section \<open>Memberships and attributes\<close>

definition membershipNameProblem :: "string \<Rightarrow> RolePolicySpec option \<Rightarrow> string" where
  "membershipNameProblem name policy =
     (if name = bootstrapRoleName then ''is reserved (bootstrap superuser)''
      else if hasPrefix name reservedRolePrefix then ''is reserved for the operator''
      else if name \<in> set ForbiddenPredefinedRoles
      then ''gives access to the server'' @ [squote] @ ''s files or programs and can never be granted''
      else if hasPrefix name ''pg_'' \<and> \<not> AllowsPredefinedRole policy name
      then ''is a predefined role that the Cluster'' @ [squote] @ ''s spec.rolePolicy.allowedPredefinedRoles does not list''
      else [])"

definition attributeProblem :: "ReachableRole \<Rightarrow> RolePolicySpec option \<Rightarrow> string" where
  "attributeProblem r policy =
     (let denied =
        (if rrCreateRole r \<and> \<not> AllowsAttribute policy RoleAttributeCreateRole then [''CREATEROLE''] else []) @
        (if rrReplication r \<and> \<not> AllowsAttribute policy RoleAttributeReplication then [''REPLICATION''] else []) @
        (if rrBypassRLS r \<and> \<not> AllowsAttribute policy RoleAttributeBypassRLS then [''BYPASSRLS''] else [])
      in if denied = [] then []
         else sprintf (''has %s, which the Cluster'' @ [squote] @ ''s spec.rolePolicy.allowedAttributes does not allow'')
           [joinStr denied '', ''])"

definition notManagedProblem :: string where
  "notManagedProblem = ''is not managed by a Role of this Cluster and the Cluster'' @ [squote] @ ''s spec.rolePolicy.allowedExistingRoles does not list it''"

definition reachableRoleProblem :: "ReachableRole \<Rightarrow> RolePolicySpec option \<Rightarrow> managedRoles \<Rightarrow> string" where
  "reachableRoleProblem r policy managed =
     (if membershipNameProblem (rrName r) policy \<noteq> [] then membershipNameProblem (rrName r) policy
      else if rrSuperuser r then problemSuperuser
      else if attributeProblem r policy \<noteq> [] then attributeProblem r policy
      else if \<not> hasPrefix (rrName r) ''pg_'' \<and> \<not> manages managed r \<and> \<not> AllowsExistingRole policy (rrName r)
      then notManagedProblem
      else [])"

definition builtinContainedRoles :: "string \<Rightarrow> string list" where
  "builtinContainedRoles name =
     (if name = ''pg_monitor'' then [''pg_read_all_settings'', ''pg_read_all_stats'', ''pg_stat_scan_tables''] else [])"

definition containedPredefinedRole :: "string \<Rightarrow> ReachableRole list \<Rightarrow> RolePolicySpec option \<Rightarrow> bool" where
  "containedPredefinedRole reached closure policy \<longleftrightarrow>
     list_ex (\<lambda>r. AllowsPredefinedRole policy (rrName r) \<and> reached \<in> set (builtinContainedRoles (rrName r))) closure"

text \<open>The loop of \<open>membershipProblem\<close> over the closure: the first problem found.\<close>

fun membershipProblemLoop :: "string \<Rightarrow> ReachableRole list \<Rightarrow> ReachableRole list \<Rightarrow> RolePolicySpec option
    \<Rightarrow> managedRoles \<Rightarrow> string" where
  "membershipProblemLoop target [] closure policy managed = []"
| "membershipProblemLoop target (r # rs) closure policy managed =
     (if rrName r \<noteq> target \<and> containedPredefinedRole (rrName r) closure policy
      then membershipProblemLoop target rs closure policy managed
      else let p = reachableRoleProblem r policy managed
        in if p = [] then membershipProblemLoop target rs closure policy managed
           else if rrName r = target then target @ '' '' @ p
           else target @ '' is a member of '' @ rrName r @ '', which '' @ p)"

definition membershipProblem :: "string \<Rightarrow> ReachableRole list \<Rightarrow> RolePolicySpec option \<Rightarrow> managedRoles \<Rightarrow> string" where
  "membershipProblem target closure policy managed =
     (let p = membershipNameProblem target policy
      in if p \<noteq> [] then target @ '' '' @ p
         else membershipProblemLoop target closure closure policy managed)"

fun adoptionProblemLoop :: "string \<Rightarrow> ReachableRole list \<Rightarrow> ReachableRole list \<Rightarrow> RolePolicySpec option
    \<Rightarrow> managedRoles \<Rightarrow> string" where
  "adoptionProblemLoop name [] closure policy managed = []"
| "adoptionProblemLoop name (r # rs) closure policy managed =
     (if rrVia r = []
      then (if rrSuperuser r
            then ''pgop does not take over the existing PostgreSQL role '' @ name @ '': it is a superuser''
            else adoptionProblemLoop name rs closure policy managed)
      else if containedPredefinedRole (rrName r) closure policy
      then adoptionProblemLoop name rs closure policy managed
      else let p = reachableRoleProblem r policy managed
        in if p \<noteq> []
           then ''pgop does not take over the existing PostgreSQL role '' @ name @ '': it is a member of '' @ rrName r @
             '', which '' @ p
           else adoptionProblemLoop name rs closure policy managed)"

definition adoptionProblem :: "string \<Rightarrow> ReachableRole list \<Rightarrow> RolePolicySpec option \<Rightarrow> managedRoles \<Rightarrow> string" where
  "adoptionProblem name closure policy managed = adoptionProblemLoop name closure closure policy managed"

definition deniedAttributes :: "RoleSpec \<Rightarrow> RolePolicySpec option \<Rightarrow> RoleAttribute list" where
  "deniedAttributes spec policy =
     map snd (filter (\<lambda>(requested, attr). requested \<and> \<not> AllowsAttribute policy attr)
       [(rsCreateRole spec, RoleAttributeCreateRole), (rsReplication spec, RoleAttributeReplication),
        (rsBypassRLS spec, RoleAttributeBypassRLS)])"

definition desiredRoleOptions :: "RoleSpec \<Rightarrow> RolePolicySpec option \<Rightarrow> RoleOptions \<times> error option" where
  "desiredRoleOptions spec policy =
     (let opts = \<lparr>Login = IsLogin spec, CreateDB = rsCreateDB spec, CreateRole = rsCreateRole spec,
            Inherit = IsInherit spec, Replication = rsReplication spec, BypassRLS = rsBypassRLS spec,
            ConnectionLimit = GetConnectionLimit spec, Password = [], KeepExistingPassword = False, Comment = [],
            CreateOnly = False\<rparr>;
          denied = deniedAttributes spec policy
      in if denied = [] then (opts, None)
         else (opts\<lparr>CreateRole := False, Replication := False, BypassRLS := False\<rparr>,
           Some (ConditionError ReasonRolePolicyViolation (Errorf
             (''the Cluster'' @ [squote] @ ''s spec.rolePolicy.allowedAttributes does not allow %s; the role has none of createRole, replication and bypassRLS until the Cluster allows them or the Role stops requesting them'')
             [joinStr denied '', '']))))"

section \<open>Facts about markers\<close>

lemma cutPrefix_append [str_simps]: "cutPrefix (p @ s) p = Some s"
  by (simp add: cutPrefix_def hasPrefix_append)

lemma cutAt_append [str_simps]: "sep \<notin> set a \<Longrightarrow> cutAt (a @ sep # b) sep = (a, b, True)"
proof -
  assume a: "sep \<notin> set a"
  have "takeWhile (\<lambda>c. c \<noteq> sep) (a @ sep # b) = a"
    using a by (induction a) auto
  then show ?thesis by (simp add: cutAt_def)
qed

lemma keyID_dot: "CHR ''.'' \<notin> set (keyID s)"
  by (simp add: keyID_def base64RawURL_chars)

lemma marker_append:
  "marker s kind name = (markerV2Prefix @ kind @ ''/'' @ name @ '':'') @ keyID s @ CHR ''.'' #
     base64RawURL (hmacSHA256 (msKey s) (kind @ ''|'' @ msNamespace s @ ''|'' @ msCluster s @ ''|'' @ name))"
  by (simp add: marker_def Let_def)

lemma otherKeyMarker_marker: "otherKeyMarker t (marker s kind name) kind name \<longleftrightarrow> keyID s \<noteq> keyID t"
  unfolding otherKeyMarker_def marker_append cutPrefix_append
  by (simp add: cutAt_append [OF keyID_dot])

lemma marker_not_legacy: "marker s kind name \<noteq> legacyMarker kind' name'" "marker s kind name \<noteq> []"
  by (simp_all add: marker_def legacyMarker_def Let_def)

lemma marker_not_refreshable: "refreshableComment t (marker s kind name) kind name \<longleftrightarrow> keyID s \<noteq> keyID t"
  by (simp add: refreshableComment_def marker_not_legacy otherKeyMarker_marker)

section \<open>Facts about memberships\<close>

lemma containedPredefinedRole_names:
  "containedPredefinedRole n closure policy \<Longrightarrow> n \<in> {''pg_read_all_settings'', ''pg_read_all_stats'', ''pg_stat_scan_tables''}"
  by (auto simp: containedPredefinedRole_def builtinContainedRoles_def list_ex_iff split: if_splits)

lemma notManagedProblem_nonempty [simp]: "notManagedProblem \<noteq> []"
  by (simp add: notManagedProblem_def)

lemma membershipNameProblem_ok:
  "membershipNameProblem n policy = [] \<longleftrightarrow>
    n \<noteq> bootstrapRoleName \<and> \<not> hasPrefix n reservedRolePrefix \<and> n \<notin> set ForbiddenPredefinedRoles \<and>
    (hasPrefix n ''pg_'' \<longrightarrow> AllowsPredefinedRole policy n)"
  by (simp add: membershipNameProblem_def)

lemma sprintf_nonempty: "f \<noteq> [] \<Longrightarrow> hd f \<noteq> CHR ''%'' \<Longrightarrow> sprintf f xs \<noteq> []"
  by (cases "(f, xs)" rule: sprintf.cases) auto

lemma attributeProblem_ok:
  "attributeProblem r policy = [] \<longleftrightarrow>
    (rrCreateRole r \<longrightarrow> AllowsAttribute policy RoleAttributeCreateRole) \<and>
    (rrReplication r \<longrightarrow> AllowsAttribute policy RoleAttributeReplication) \<and>
    (rrBypassRLS r \<longrightarrow> AllowsAttribute policy RoleAttributeBypassRLS)"
  by (auto simp: attributeProblem_def Let_def sprintf_nonempty)

text \<open>A role that is not refused, and the roles a membership reaches.\<close>

definition harmlessRole :: "ReachableRole \<Rightarrow> RolePolicySpec option \<Rightarrow> managedRoles \<Rightarrow> bool" where
  "harmlessRole r policy managed \<longleftrightarrow>
     rrName r \<noteq> bootstrapRoleName \<and> \<not> hasPrefix (rrName r) reservedRolePrefix \<and>
     rrName r \<notin> set ForbiddenPredefinedRoles \<and>
     (hasPrefix (rrName r) ''pg_'' \<longrightarrow> AllowsPredefinedRole policy (rrName r)) \<and>
     \<not> rrSuperuser r \<and>
     (rrCreateRole r \<longrightarrow> AllowsAttribute policy RoleAttributeCreateRole) \<and>
     (rrReplication r \<longrightarrow> AllowsAttribute policy RoleAttributeReplication) \<and>
     (rrBypassRLS r \<longrightarrow> AllowsAttribute policy RoleAttributeBypassRLS) \<and>
     (hasPrefix (rrName r) ''pg_'' \<or> manages managed r \<or> AllowsExistingRole policy (rrName r))"

lemma reachableRoleProblem_ok: "reachableRoleProblem r policy managed = [] \<longleftrightarrow> harmlessRole r policy managed"
  by (auto simp: reachableRoleProblem_def harmlessRole_def membershipNameProblem_ok attributeProblem_ok)

lemma membershipProblemLoop_ok:
  "membershipProblemLoop target rs closure policy managed = [] \<longleftrightarrow>
    (\<forall>r \<in> set rs. (rrName r \<noteq> target \<and> containedPredefinedRole (rrName r) closure policy) \<or> harmlessRole r policy managed)"
  by (induction rs)
    (auto simp: Let_def reachableRoleProblem_ok)

lemma adoptionProblemLoop_ok:
  "adoptionProblemLoop name rs closure policy managed = [] \<longleftrightarrow>
    (\<forall>r \<in> set rs. (if rrVia r = [] then \<not> rrSuperuser r
       else containedPredefinedRole (rrName r) closure policy \<or> harmlessRole r policy managed))"
  by (induction rs)
    (auto simp: Let_def reachableRoleProblem_ok)

lemma deniedAttributes_Nil:
  "deniedAttributes spec policy = [] \<longleftrightarrow>
    (rsCreateRole spec \<longrightarrow> AllowsAttribute policy RoleAttributeCreateRole) \<and>
    (rsReplication spec \<longrightarrow> AllowsAttribute policy RoleAttributeReplication) \<and>
    (rsBypassRLS spec \<longrightarrow> AllowsAttribute policy RoleAttributeBypassRLS)"
  by (auto simp: deniedAttributes_def)

end
