(* ===== verification/Settings.thy ===== *)
theory Settings
  imports Role_Policy Pg_Server
begin

text \<open>
  Default settings of roles and databases: the policy and the set/reset loop of
  \<open>internal/controller/settings.go\<close> and the reconciliation of a Role's \<open>settings\<close> and
  \<open>databaseSettings\<close> of \<open>role_settings.go\<close>. The loop is verified once in the locale
  \<open>setting_store\<close>, whose laws are what ALTER ... SET and ALTER ... RESET do to one scope; the client
  on a server that honours the contract \<open>settings_server\<close> satisfies them for every scope.
\<close>

abbreviation ReasonReservedName :: string where "ReasonReservedName \<equiv> ''ReservedName''"
abbreviation ReasonSettingNotAllowed :: string where "ReasonSettingNotAllowed \<equiv> ''SettingNotAllowed''"
abbreviation pgContextUser :: string where "pgContextUser \<equiv> ''user''"

section \<open>Names and policy\<close>

type_synonym 's parameterContext = "string \<Rightarrow> ('s, error + string option) state"

text \<open>The loop of \<open>normalizeSettings\<close> over the sorted names.\<close>

fun normalizeLoop :: "string \<Rightarrow> string gomap \<Rightarrow> string list \<Rightarrow> string gomap \<Rightarrow> error + string gomap" where
  "normalizeLoop field settings [] out = Inr out"
| "normalizeLoop field settings (k # ks) out =
     (case NormalizeParameterName k of
        Inl e \<Rightarrow> Inl (Wrapf ''%s: %w'' [field] e)
      | Inr name \<Rightarrow>
          if map_of out name \<noteq> None
          then Inl (Errorf ''%s: parameter %q is listed more than once (names are case-insensitive)'' [field, name])
          else normalizeLoop field settings ks (AList.update name (mapGet [] settings k) out))"

definition normalizeSettings :: "string \<Rightarrow> string gomap \<Rightarrow> error + string gomap" where
  "normalizeSettings field settings = normalizeLoop field settings (mapKeys settings) []"

text \<open>Why a parameter is refused, given the context the server reports for it (\<open>None\<close>: unknown).\<close>

definition contextProblem :: "RolePolicySpec option \<Rightarrow> string \<Rightarrow> string option \<Rightarrow> string" where
  "contextProblem policy name ctx =
     (case ctx of
        Some c \<Rightarrow>
          if c \<noteq> pgContextUser then sprintf ''has context %q (only %q parameters may be set)'' [c, pgContextUser] else []
      | None \<Rightarrow>
          (case cutAt name (CHR ''.'') of (pre, _, custom) \<Rightarrow>
             if \<not> custom then []
             else if pre \<in> set DeniedSettingPrefixes
             then sprintf (''is a custom parameter in the %q namespace, which pgop never sets (its extension'' @ [squote] @
               ''s settings run code, read server files or are superuser-only)'') [pre]
             else if \<not> AllowsSettingPrefix policy pre
             then sprintf (''is a custom parameter the server does not know; its namespace %q is not listed in the Cluster'' @
               [squote] @ ''s spec.rolePolicy.allowedSettingPrefixes'') [pre]
             else []))"

definition settingAllowed :: "'s parameterContext \<Rightarrow> RolePolicySpec option \<Rightarrow> string \<Rightarrow> ('s, error + string) state" where
  "settingAllowed pg policy name =
     (if DeniedParameter name then ret (Inr (''is on pgop'' @ [squote] @ ''s denylist''))
      else do {
        r \<leftarrow> pg name;
        ret (case r of Inl e \<Rightarrow> Inl e | Inr ctx \<Rightarrow> Inr (contextProblem policy name ctx))
      })"

section \<open>The set/reset loop\<close>

record 's settingOps =
  soSet :: "string \<Rightarrow> string \<Rightarrow> ('s, error option) state"
  soReset :: "string \<Rightarrow> ('s, error option) state"

definition allowSetting :: "'s parameterContext \<Rightarrow> RolePolicySpec option \<Rightarrow> string gomap \<Rightarrow> string
    \<Rightarrow> string gomap \<times> string list \<Rightarrow> ('s, error + (string gomap \<times> string list)) state" where
  "allowSetting pg policy desired name = (\<lambda>(allowed, refused). do {
     r \<leftarrow> settingAllowed pg policy name;
     ret (case r of
            Inl e \<Rightarrow> Inl e
          | Inr reason \<Rightarrow>
              if reason \<noteq> [] then Inr (allowed, refused @ [name @ '' '' @ reason])
              else Inr (AList.update name (mapGet [] desired name) allowed, refused))
   })"

fun setAll :: "'s settingOps \<Rightarrow> string gomap \<Rightarrow> string list \<Rightarrow> unit gomap \<Rightarrow> ('s, unit gomap \<times> error option) state" where
  "setAll ops allowed [] tracked = ret (tracked, None)"
| "setAll ops allowed (n # ns) tracked = do {
     e \<leftarrow> soSet ops n (mapGet [] allowed n);
     (case e of
        Some x \<Rightarrow> ret (tracked, Some x)
      | None \<Rightarrow> setAll ops allowed ns (AList.update n () tracked))
   }"

fun resetAll :: "'s settingOps \<Rightarrow> string gomap \<Rightarrow> string list \<Rightarrow> unit gomap \<Rightarrow> ('s, unit gomap \<times> error option) state" where
  "resetAll ops allowed [] tracked = ret (tracked, None)"
| "resetAll ops allowed (n # ns) tracked =
     (if map_of allowed n \<noteq> None then resetAll ops allowed ns tracked
      else do {
        e \<leftarrow> soReset ops n;
        (case e of
           Some x \<Rightarrow> ret (tracked, Some x)
         | None \<Rightarrow> resetAll ops allowed ns (AList.delete n tracked))
      })"

text \<open>The names pgop manages afterwards, the refused settings, and the error.\<close>

definition applySettings :: "'s parameterContext \<Rightarrow> RolePolicySpec option \<Rightarrow> string gomap \<Rightarrow> string list \<Rightarrow> 's settingOps
    \<Rightarrow> ('s, string list \<times> string list \<times> error option) state" where
  "applySettings pg policy desired managed ops = do {
     r \<leftarrow> tryEach (mapKeys desired) (allowSetting pg policy desired) ([], []);
     (case r of
        Inl e \<Rightarrow> ret (managed, [], Some e)
      | Inr (allowed, refused) \<Rightarrow> do {
          (tracked, e) \<leftarrow> setAll ops allowed (mapKeys allowed) (map (\<lambda>m. (m, ())) managed);
          (case e of
             Some x \<Rightarrow> ret (mapKeys tracked, refused, Some x)
           | None \<Rightarrow> do {
               (tracked', e') \<leftarrow> resetAll ops allowed managed tracked;
               ret (mapKeys tracked', refused, e')
             })
        })
   }"

section \<open>Settings of a Role\<close>

definition maxIdentifierBytes :: nat where
  "maxIdentifierBytes = 63"

fun databaseSettingsLoop :: "RoleDatabaseSettings list \<Rightarrow> string gomap gomap \<Rightarrow> string list
    \<Rightarrow> error + (string gomap gomap \<times> string list)" where
  "databaseSettingsLoop [] out tooLong = Inr (out, tooLong)"
| "databaseSettingsLoop (e # es) out tooLong =
     (if rdsDatabase e = [] then Inl (Errorf ''databaseSettings: database must not be empty'' [])
      else if length (rdsDatabase e) > maxIdentifierBytes
      then databaseSettingsLoop es out
        (tooLong @ [sprintf ''%q (%d bytes)'' [rdsDatabase e, formatInt (int (length (rdsDatabase e)))]])
      else if map_of out (rdsDatabase e) \<noteq> None
      then Inl (Errorf ''databaseSettings: database %q is listed more than once'' [rdsDatabase e])
      else case normalizeSettings (sprintf ''databaseSettings[%s].settings'' [rdsDatabase e]) (rdsSettings e) of
             Inl x \<Rightarrow> Inl x
           | Inr s \<Rightarrow> databaseSettingsLoop es (AList.update (rdsDatabase e) s out) tooLong)"

definition desiredRoleDatabaseSettings :: "RoleDatabaseSettings list \<Rightarrow> error + (string gomap gomap \<times> error option)" where
  "desiredRoleDatabaseSettings entries =
     (case databaseSettingsLoop entries [] [] of
        Inl e \<Rightarrow> Inl e
      | Inr (out, tooLong) \<Rightarrow>
          Inr (out, if tooLong = [] then None
            else Some (Errorf ''databaseSettings: database names longer than %d bytes cannot exist in PostgreSQL (they are truncated); these entries are ignored: %s''
              [formatInt (int maxIdentifierBytes), joinStr tooLong '', ''])))"

definition clearStaleRoleSettings :: "Role \<Rightarrow> string \<Rightarrow> string \<Rightarrow> Role" where
  "clearStaleRoleSettings role pgName clusterUID =
     (if rtRoleName (roleStatus role) = pgName \<and> rtClusterUID (roleStatus role) = clusterUID then role
      else role\<lparr>roleStatus := (roleStatus role)\<lparr>rtManagedSettings := [], rtManagedDatabaseSettings := []\<rparr>\<rparr>)"

definition roleSettingOps :: "'s db \<Rightarrow> string \<Rightarrow> string \<Rightarrow> 's settingOps" where
  "roleSettingOps db role database =
     \<lparr>soSet = (\<lambda>name val. SetRoleParameter db role database name val),
      soReset = (\<lambda>name. ResetRoleParameter db role database name)\<rparr>"

record databasePass =
  dpAfter :: "string list gomap"
  dpErrs :: "error option list"
  dpRefused :: "string list"
  dpPending :: "string list"

text \<open>One database of the loop in \<open>reconcileRoleSettings\<close>.\<close>

definition reconcileRoleDatabase :: "'s db \<Rightarrow> RolePolicySpec option \<Rightarrow> string \<Rightarrow> string gomap gomap \<Rightarrow> string list gomap
    \<Rightarrow> string \<Rightarrow> databasePass \<Rightarrow> ('s, databasePass) state" where
  "reconcileRoleDatabase db policy pgName desiredDB managedDB d p =
     (let want = mapGet [] desiredDB d; managed = mapGet [] managedDB d
      in if want = [] \<and> managed = [] then ret p
         else do {
           r \<leftarrow> DatabaseExists db d;
           (case r of
              Inl e \<Rightarrow> ret (p\<lparr>dpErrs := dpErrs p @ [Some e], dpAfter := AList.update d managed (dpAfter p)\<rparr>)
            | Inr False \<Rightarrow> ret (if want \<noteq> [] then p\<lparr>dpPending := dpPending p @ [d]\<rparr> else p)
            | Inr True \<Rightarrow> do {
                (after, refused, e) \<leftarrow> applySettings (ParameterContext db) policy want managed (roleSettingOps db pgName d);
                ret (p\<lparr>dpAfter := AList.update d after (dpAfter p), dpErrs := dpErrs p @ [e],
                  dpRefused := dpRefused p @ map (\<lambda>s. sprintf ''databaseSettings[%s]: %s'' [d, s]) refused\<rparr>)
              })
         })"

definition managedDatabaseMap :: "ManagedRoleDatabaseSettings list \<Rightarrow> string list gomap" where
  "managedDatabaseMap ms = foldl (\<lambda>m x. AList.update (mrdDatabase x) (mrdSettings x) m) [] ms"

definition roleDatabaseLedger :: "string list gomap \<Rightarrow> ManagedRoleDatabaseSettings list" where
  "roleDatabaseLedger after =
     map (\<lambda>d. \<lparr>mrdDatabase = d, mrdSettings = mapGet [] after d\<rparr>) (filter (\<lambda>d. mapGet [] after d \<noteq> []) (mapKeys after))"

text \<open>The settings of the role itself: nothing runs when none is declared or managed.\<close>

definition reconcileOwnSettings :: "'s db \<Rightarrow> RolePolicySpec option \<Rightarrow> string \<Rightarrow> string gomap \<Rightarrow> string list
    \<Rightarrow> ('s, string list \<times> string list \<times> error option) state" where
  "reconcileOwnSettings db policy pgName desired managed =
     (if desired = [] \<and> managed = [] then ret (managed, [], None)
      else applySettings (ParameterContext db) policy desired managed (roleSettingOps db pgName []))"

definition reconcileRoleSettings :: "'s db \<Rightarrow> Role \<Rightarrow> string \<Rightarrow> RolePolicySpec option
    \<Rightarrow> ('s, Role \<times> string list \<times> error option) state" where
  "reconcileRoleSettings db role pgName policy =
     (if reservedRoleName pgName \<noteq> []
      then ret (role, [], Some (ConditionError ReasonReservedName (Errorf (reservedRoleName pgName) [])))
      else case normalizeSettings ''settings'' (rsSettings (roleSpec role)) of
        Inl e \<Rightarrow> ret (role, [], Some e)
      | Inr desired \<Rightarrow>
          (case desiredRoleDatabaseSettings (rsDatabaseSettings (roleSpec role)) of
             Inl e \<Rightarrow> ret (role, [], Some e)
           | Inr (desiredDB, invalid) \<Rightarrow>
               (let managedDB = managedDatabaseMap (rtManagedDatabaseSettings (roleStatus role));
                    databases = sort (mapKeys desiredDB @ filter (\<lambda>d. map_of desiredDB d = None) (mapKeys managedDB))
                in do {
                  (after, r, e) \<leftarrow> reconcileOwnSettings db policy pgName desired (rtManagedSettings (roleStatus role));
                  p \<leftarrow> forEach databases (reconcileRoleDatabase db policy pgName desiredDB managedDB)
                    \<lparr>dpAfter = [], dpErrs = [invalid, e], dpRefused = map (\<lambda>s. ''settings: '' @ s) r, dpPending = []\<rparr>;
                  ret (role\<lparr>roleStatus := (roleStatus role)\<lparr>rtManagedSettings := after,
                         rtManagedDatabaseSettings := roleDatabaseLedger (dpAfter p)\<rparr>\<rparr>,
                       dpPending p,
                       joinErrs (dpErrs p @
                         (if dpRefused p \<noteq> []
                          then [Some (ConditionError ReasonSettingNotAllowed
                            (Errorf ''settings not allowed: %s'' [joinStr (dpRefused p) ''; '']))]
                          else [])))
                })))"

section \<open>The loop over one scope\<close>

text \<open>Why a parameter is refused, as a function of its context; \<open>[]\<close> when it may be set.\<close>

definition settingProblem :: "RolePolicySpec option \<Rightarrow> (string \<Rightarrow> string option) \<Rightarrow> string \<Rightarrow> string" where
  "settingProblem policy ctxOf n =
     (if DeniedParameter n then ''is on pgop'' @ [squote] @ ''s denylist'' else contextProblem policy n (ctxOf n))"

definition permitted :: "RolePolicySpec option \<Rightarrow> (string \<Rightarrow> string option) \<Rightarrow> string gomap \<Rightarrow> string set" where
  "permitted policy ctxOf desired = {n \<in> dom (map_of desired). settingProblem policy ctxOf n = []}"

text \<open>
  What a run of the loop did to the settings of its scope (\<open>v\<close> before, \<open>v'\<close> after): only permitted
  declared names are set and only managed names that are not permitted are reset, the returned
  names cover every setting it made and every one it still has to reset, and a run without error
  has reached the declared state. The one setting \<open>lost\<close> that a run with an error may have made without
  learning of it, because the answer of its statement did not arrive, is not covered.
\<close>

definition settingsRun :: "string set \<Rightarrow> (string \<Rightarrow> 'v) \<Rightarrow> string list \<Rightarrow> (string \<Rightarrow> 'v option) \<Rightarrow> (string \<Rightarrow> 'v option)
    \<Rightarrow> string list \<Rightarrow> string option \<Rightarrow> error option \<Rightarrow> bool" where
  "settingsRun A want managed v v' after lost err \<longleftrightarrow>
     (\<forall>n. v' n \<noteq> v n \<longrightarrow> n \<in> A \<and> v' n = Some (want n) \<and> (n \<in> set after \<or> lost = Some n) \<or> n \<in> set managed - A \<and> v' n = None) \<and>
     (\<forall>n \<in> set managed. n \<notin> set after \<longrightarrow> n \<notin> A \<and> v' n = None) \<and>
     set after \<subseteq> set managed \<union> A \<and>
     (err = None \<longrightarrow> lost = None \<and> (\<forall>n \<in> A. v' n = Some (want n)) \<and> (\<forall>n \<in> set managed - A. v' n = None) \<and>
        after = sorted_list_of_set A)"

text \<open>
  The operations on one scope: a statement that reports success has its effect; one that reports an
  error has none, or had its effect and the answer was lost.
\<close>

locale setting_store =
  fixes lookup :: "'s parameterContext" and ops :: "'s settingOps" and ctxOf :: "string \<Rightarrow> string option"
    and valOf :: "'s \<Rightarrow> string \<Rightarrow> 'v option" and repr :: "string \<Rightarrow> string \<Rightarrow> 'v" and rest :: "'s \<Rightarrow> 'o"
    and valid :: "string \<Rightarrow> bool"
  assumes lookup_law: "wp (lookup n) (\<lambda>r s'. valOf s' = valOf s \<and> rest s' = rest s \<and> (\<forall>x. r = Inr x \<longrightarrow> x = ctxOf n)) s"
    and set_law: "valid n \<Longrightarrow> wp (soSet ops n x) (\<lambda>e s'. rest s' = rest s \<and>
      ((e \<noteq> None \<and> valOf s' = valOf s) \<or> valOf s' = (valOf s)(n \<mapsto> repr n x))) s"
    and reset_law: "valid n \<Longrightarrow> wp (soReset ops n) (\<lambda>e s'. rest s' = rest s \<and>
      ((e \<noteq> None \<and> valOf s' = valOf s) \<or> valOf s' = (valOf s)(n := None))) s"
begin

lemma settingAllowed_post:
  "wp (settingAllowed lookup policy n) (\<lambda>r s'. valOf s' = valOf s \<and> rest s' = rest s \<and>
    (\<forall>x. r = Inr x \<longrightarrow> x = settingProblem policy ctxOf n)) s"
proof (cases "DeniedParameter n")
  case True
  then show ?thesis by (simp add: settingAllowed_def settingProblem_def wp_simps)
next
  case False
  then show ?thesis
    unfolding settingAllowed_def wp_simps
    by (simp add: settingProblem_def wp_simps) (rule wp_mono [OF lookup_law], auto split: sum.splits)
qed

lemma allowAll_post:
  "wp (tryEach (mapKeys desired) (allowSetting lookup policy desired) ([], []))
    (\<lambda>r s'. valOf s' = valOf s \<and> rest s' = rest s \<and>
      (\<forall>allowed refused. r = Inr (allowed, refused) \<longrightarrow> dom (map_of allowed) = permitted policy ctxOf desired \<and>
        (refused = [] \<longleftrightarrow> permitted policy ctxOf desired = dom (map_of desired)) \<and>
        (\<forall>n \<in> dom (map_of allowed). mapGet [] allowed n = mapGet [] desired n))) s"
  (is "wp _ ?Q s")
proof (rule wp_tryEach_rest [where I = "\<lambda>ns (allowed, refused) s'. valOf s' = valOf s \<and> rest s' = rest s \<and>
      set ns \<subseteq> dom (map_of desired) \<and>
      dom (map_of allowed) = {n \<in> dom (map_of desired) - set ns. settingProblem policy ctxOf n = []} \<and>
      (refused = [] \<longleftrightarrow> (\<forall>n \<in> dom (map_of desired) - set ns. settingProblem policy ctxOf n = [])) \<and>
      distinct ns \<and> (\<forall>n \<in> dom (map_of allowed). mapGet [] allowed n = mapGet [] desired n)"], goal_cases)
  case (2 n ns b s')
  obtain allowed refused where b: "b = (allowed, refused)" by fastforce
  show ?case
    unfolding allowSetting_def b prod.case wp_bind wp_ret
    by (rule wp_mono [OF settingAllowed_post [of policy n s']])
      (use 2 b in \<open>auto simp: dom_update map_simps simp del: map_of_update split: sum.splits\<close>)
qed (auto simp: permitted_def)

lemma setAll_post:
  "\<forall>n \<in> set ns. valid n \<Longrightarrow>
    wp (setAll ops allowed ns tracked) (\<lambda>(t, e) s'. rest s' = rest s \<and> (\<exists>ks ls. set (ks @ ls) \<subseteq> set ns \<and> (e = None \<longrightarrow> ks = ns \<and> ls = []) \<and> length ls \<le> 1 \<and>
      valOf s' = (\<lambda>n. if n \<in> set (ks @ ls) then Some (repr n (mapGet [] allowed n)) else valOf s n) \<and>
      dom (map_of t) = dom (map_of tracked) \<union> set ks)) s"
proof (induction ns arbitrary: tracked s)
  case Nil
  then show ?case by (simp add: wp_simps)
next
  case (Cons n ns)
  let ?Q = "\<lambda>(t, e) s'. rest s' = rest s \<and> (\<exists>ks ls. set (ks @ ls) \<subseteq> set (n # ns) \<and> (e = None \<longrightarrow> ks = n # ns \<and> ls = []) \<and> length ls \<le> 1 \<and>
      valOf s' = (\<lambda>n. if n \<in> set (ks @ ls) then Some (repr n (mapGet [] allowed n)) else valOf s n) \<and>
      dom (map_of t) = dom (map_of tracked) \<union> set ks)"
  have step: "wp (case e of Some x \<Rightarrow> ret (tracked, Some x) | None \<Rightarrow> setAll ops allowed ns (AList.update n () tracked)) ?Q s'"
    if "rest s' = rest s" "(e \<noteq> None \<and> valOf s' = valOf s) \<or> valOf s' = (valOf s)(n \<mapsto> repr n (mapGet [] allowed n))" for e s'
  proof (cases e)
    case (Some x)
    have "\<exists>ls. set ls \<subseteq> {n} \<and> length ls \<le> 1 \<and>
        valOf s' = (\<lambda>n. if n \<in> set ls then Some (repr n (mapGet [] allowed n)) else valOf s n)"
    proof (cases "valOf s' = valOf s")
      case True
      then show ?thesis by (intro exI [of _ "[]"]) simp
    next
      case False
      with that(2) show ?thesis by (intro exI [of _ "[n]"]) (auto simp: fun_eq_iff)
    qed
    then obtain ls where "set ls \<subseteq> {n}" "length ls \<le> 1"
      "valOf s' = (\<lambda>n. if n \<in> set ls then Some (repr n (mapGet [] allowed n)) else valOf s n)" by blast
    with Some that(1) show ?thesis by (simp add: wp_ret) (intro exI [of _ "[]"] exI [of _ ls], auto)
  next
    case None
    have "wp (setAll ops allowed ns (AList.update n () tracked)) ?Q s'"
    proof (rule wp_mono [OF Cons.IH], goal_cases)
      case 1
      then show ?case using Cons.prems by simp
    next
      case (2 a s'')
      obtain t e' where a: "a = (t, e')" by fastforce
      from 2 obtain ks ls where "set (ks @ ls) \<subseteq> set ns" "e' = None \<longrightarrow> ks = ns \<and> ls = []" "length ls \<le> 1" "rest s'' = rest s'"
        "valOf s'' = (\<lambda>m. if m \<in> set (ks @ ls) then Some (repr m (mapGet [] allowed m)) else valOf s' m)"
        "dom (map_of t) = dom (map_of (AList.update n () tracked)) \<union> set ks" unfolding a prod.case by blast
      with that None show ?case
        unfolding a prod.case by (intro conjI exI [of _ "n # ks"] exI [of _ ls]) (auto simp: dom_update fun_eq_iff)
    qed
    with None show ?thesis by simp
  qed
  show ?case
    unfolding setAll.simps wp_bind
    by (rule wp_mono [OF set_law]) (use Cons.prems step in auto)
qed

lemma resetAll_post:
  "\<forall>n \<in> set ns. valid n \<Longrightarrow>
    wp (resetAll ops allowed ns tracked) (\<lambda>(t, e) s'. rest s' = rest s \<and> (\<exists>ks ls. set (ks @ ls) \<subseteq> set ns - dom (map_of allowed) \<and>
      (e = None \<longrightarrow> set ks = set ns - dom (map_of allowed) \<and> ls = []) \<and>
      valOf s' = (\<lambda>n. if n \<in> set (ks @ ls) then None else valOf s n) \<and>
      dom (map_of t) = dom (map_of tracked) - set ks)) s"
proof (induction ns arbitrary: tracked s)
  case Nil
  then show ?case by (simp add: wp_simps)
next
  case (Cons n ns)
  let ?Q = "\<lambda>(t, e) s'. rest s' = rest s \<and> (\<exists>ks ls. set (ks @ ls) \<subseteq> set (n # ns) - dom (map_of allowed) \<and>
      (e = None \<longrightarrow> set ks = set (n # ns) - dom (map_of allowed) \<and> ls = []) \<and>
      valOf s' = (\<lambda>n. if n \<in> set (ks @ ls) then None else valOf s n) \<and> dom (map_of t) = dom (map_of tracked) - set ks)"
  show ?case
  proof (cases "map_of allowed n")
    case (Some x)
    with Cons.prems show ?thesis
      by (simp add: insert_Diff_if domI, intro wp_mono [OF Cons.IH]) auto
  next
    case new: None
    have step: "wp (case e of Some x \<Rightarrow> ret (tracked, Some x) | None \<Rightarrow> resetAll ops allowed ns (AList.delete n tracked)) ?Q s'"
      if "rest s' = rest s" "(e \<noteq> None \<and> valOf s' = valOf s) \<or> valOf s' = (valOf s)(n := None)" for e s'
    proof (cases e)
      case (Some x)
      have "\<exists>ls. set ls \<subseteq> {n} \<and> valOf s' = (\<lambda>n. if n \<in> set ls then None else valOf s n)"
      proof (cases "valOf s' = valOf s")
        case True
        then show ?thesis by (intro exI [of _ "[]"]) simp
      next
        case False
        with that(2) show ?thesis by (intro exI [of _ "[n]"]) (auto simp: fun_eq_iff)
      qed
      then obtain ls where "set ls \<subseteq> {n}" "valOf s' = (\<lambda>n. if n \<in> set ls then None else valOf s n)" by blast
      with Some that(1) new show ?thesis
        by (simp only: option.case wp_ret prod.case) (intro conjI exI [of _ "[]"] exI [of _ ls], auto)
    next
      case None
      have "wp (resetAll ops allowed ns (AList.delete n tracked)) ?Q s'"
      proof (rule wp_mono [OF Cons.IH], goal_cases)
        case 1
        then show ?case using Cons.prems by simp
      next
        case (2 a s'')
        obtain t e' where a: "a = (t, e')" by fastforce
        from 2 obtain ks ls where "set (ks @ ls) \<subseteq> set ns - dom (map_of allowed)" "e' = None \<longrightarrow> set ks = set ns - dom (map_of allowed) \<and> ls = []"
          "rest s'' = rest s'" "valOf s'' = (\<lambda>m. if m \<in> set (ks @ ls) then None else valOf s' m)"
          "dom (map_of t) = dom (map_of (AList.delete n tracked)) - set ks" unfolding a prod.case by blast
        with that None new show ?case
          unfolding a prod.case by (intro conjI exI [of _ "n # ks"] exI [of _ ls]) (auto simp: dom_delete fun_eq_iff)
      qed
      with None show ?thesis by simp
    qed
    show ?thesis
      unfolding resetAll.simps using new
      by (simp add: wp_bind) (rule wp_mono [OF reset_law], use Cons.prems step in auto)
  qed
qed

lemma applySettings_post:
  fixes policy
  assumes "\<forall>n \<in> dom (map_of desired) \<union> set managed. valid n"
  defines "A \<equiv> permitted policy ctxOf desired" and "want \<equiv> \<lambda>n. repr n (mapGet [] desired n)"
  shows "wp (applySettings lookup policy desired managed ops) (\<lambda>(after, refused, err) s'. rest s' = rest s \<and>
    (\<exists>lost. settingsRun A want managed (valOf s) (valOf s') after lost err) \<and>
    (err = None \<longrightarrow> (refused = [] \<longleftrightarrow> A = dom (map_of desired)))) s"
    (is "wp _ ?Q s")
proof -
  let ?set = "\<lambda>allowed refused. do {
      (tracked, e) \<leftarrow> setAll ops allowed (mapKeys allowed) (map (\<lambda>m. (m, ())) managed);
      (case e of
         Some x \<Rightarrow> ret (mapKeys tracked, refused, Some x)
       | None \<Rightarrow> do {
           (tracked', e') \<leftarrow> resetAll ops allowed managed tracked;
           ret (mapKeys tracked', refused, e')
         })
    }"
  have A: "A \<subseteq> dom (map_of desired)" by (auto simp: A_def permitted_def)
  have reset: "wp (resetAll ops allowed managed tracked) (\<lambda>a. wp (case a of (t, e') \<Rightarrow> ret (mapKeys t, refused, e')) ?Q) s2"
    if "dom (map_of allowed) = A" "rest s2 = rest s" "valOf s2 = (\<lambda>n. if n \<in> A then Some (want n) else valOf s n)"
      "dom (map_of tracked) = set managed \<union> A" "refused = [] \<longleftrightarrow> A = dom (map_of desired)"
    for allowed tracked refused s2
  proof (rule wp_mono [OF resetAll_post], goal_cases)
    case (2 a s3)
    obtain t e where a: "a = (t, e)" by fastforce
    from 2 obtain ks ls where k: "set (ks @ ls) \<subseteq> set managed - dom (map_of allowed)"
      "e = None \<longrightarrow> set ks = set managed - dom (map_of allowed) \<and> ls = []" "rest s3 = rest s2"
      "valOf s3 = (\<lambda>n. if n \<in> set (ks @ ls) then None else valOf s2 n)" "dom (map_of t) = dom (map_of tracked) - set ks"
      unfolding a prod.case by blast
    note ks = k [unfolded that(1-4)]
    have "e = None \<Longrightarrow> mapKeys t = sorted_list_of_set A"
    proof -
      assume "e = None"
      with ks have "dom (map_of t) = A" by auto
      then show "mapKeys t = sorted_list_of_set A" by (simp add: mapKeys_eq)
    qed
    with ks have "settingsRun A want managed (valOf s) (valOf s3) (mapKeys t) None e"
      unfolding settingsRun_def by (auto split: if_splits)
    with ks(3) that(5) show ?case by (auto simp: a wp_simps)
  qed (use assms(1) in auto)
  have set: "wp (?set allowed refused) ?Q s1"
    if al: "dom (map_of allowed) = A" "\<forall>n \<in> dom (map_of allowed). mapGet [] allowed n = mapGet [] desired n"
      "rest s1 = rest s" "valOf s1 = valOf s" "refused = [] \<longleftrightarrow> A = dom (map_of desired)" for allowed refused s1
    unfolding wp_bind wp_case_prod
  proof (rule wp_mono [OF setAll_post], goal_cases)
    case (2 a s2)
    obtain t e where a: "a = (t, e)" by fastforce
    from 2 obtain ks ls where k: "set (ks @ ls) \<subseteq> set (mapKeys allowed)" "e = None \<longrightarrow> ks = mapKeys allowed \<and> ls = []" "rest s2 = rest s1"
      "valOf s2 = (\<lambda>n. if n \<in> set (ks @ ls) then Some (repr n (mapGet [] allowed n)) else valOf s1 n)"
      "dom (map_of t) = dom (map_of (map (\<lambda>m. (m, ())) managed)) \<union> set ks" "length ls \<le> 1" unfolding a prod.case by blast
    have m: "dom (map_of (map (\<lambda>m. (m, ())) managed)) = set managed"
      by (simp add: dom_map_of_conv_image_fst image_image)
    have "e = None \<longrightarrow> set (ks @ ls) = A \<and> ls = []" using k(2) al(1) by auto
    note ks = k(1) [unfolded set_mapKeys al(1)] this k(3) [unfolded al(3)] k(4) [unfolded al(4)] k(5) [unfolded m]
    from ks(1) al(1,2) have "\<forall>n \<in> set (ks @ ls). repr n (mapGet [] allowed n) = want n" unfolding want_def by (metis subsetD)
    with ks(4) have v: "valOf s2 = (\<lambda>n. if n \<in> set (ks @ ls) then Some (want n) else valOf s n)" by auto
    show ?case
    proof (cases e)
      case (Some x)
      define lost where "lost = (case ls of [] \<Rightarrow> None | l # _ \<Rightarrow> Some l)"
      have l: "l \<in> set ls \<longleftrightarrow> lost = Some l" for l using k(6) by (cases ls) (auto simp: lost_def)
      have "settingsRun A want managed (valOf s) (valOf s2) (mapKeys t) lost (Some x)"
        unfolding settingsRun_def using ks(1,5) unfolding v by (auto simp: l split: if_splits)
      with Some ks(3) show ?thesis by (auto simp: a wp_simps)
    next
      case None
      with ks(2) have "ls = []" "set ks = A" by auto
      with None ks(3,5) v al reset [of allowed s2 t refused] show ?thesis by (simp add: a wp_bind)
    qed
  qed (use assms(1) A in \<open>unfold set_mapKeys al(1), blast\<close>)
  have fail: "settingsRun A want managed (valOf s) (valOf s) managed None (Some e)" for e
    by (simp add: settingsRun_def)
  have step: "wp (case r of Inl e \<Rightarrow> ret (managed, [], Some e) | Inr (allowed, refused) \<Rightarrow> ?set allowed refused) ?Q s1"
    if v: "valOf s1 = valOf s" "rest s1 = rest s"
      and r: "\<forall>allowed refused. r = Inr (allowed, refused) \<longrightarrow> dom (map_of allowed) = permitted policy ctxOf desired \<and>
        (refused = [] \<longleftrightarrow> permitted policy ctxOf desired = dom (map_of desired)) \<and>
        (\<forall>n \<in> dom (map_of allowed). mapGet [] allowed n = mapGet [] desired n)" for r s1
  proof (cases r)
    case (Inl e)
    with v fail show ?thesis by (auto simp: wp_ret)
  next
    case (Inr p)
    obtain allowed refused where p: "p = (allowed, refused)" by (cases p)
    note al = r [rule_format, OF Inr [unfolded p], folded A_def]
    show ?thesis
      unfolding Inr p sum.case prod.case by (rule set) (use al v in blast)+
  qed
  show ?thesis
    unfolding applySettings_def
    by (subst wp_bind, rule wp_mono [OF allowAll_post], elim conjE, rule step)
qed

end

end
