(* ===== verification/Settings_Correct.thy ===== *)
theory Settings_Correct
  imports Settings
begin

text \<open>
  The settings of a Role on a server: the contract \<open>settings_server\<close> of ALTER ... SET, ALTER ... RESET
  and the two catalog queries, the proof that the client's operations on one scope satisfy
  \<open>setting_store\<close>, the effect of \<open>reconcileRoleSettings\<close> on all scopes of the role, and the
  properties that follow, with instances on the reference server.
\<close>

section \<open>The contract\<close>

definition nameKey :: "string \<Rightarrow> string list" where
  "nameKey n = splitStr n (CHR ''.'')"

lemma nameKey_inject [simp]: "nameKey m = nameKey n \<longleftrightarrow> m = n"
  by (metis joinStr_splitStr nameKey_def)

text \<open>A normalized parameter name whose parts fit into identifiers.\<close>

definition validName :: "string \<Rightarrow> bool" where
  "validName n \<longleftrightarrow> toLower n = n \<and> shortParts n"

text \<open>What is outside a scope.\<close>

definition outside :: "scope \<Rightarrow> (scope \<times> string list \<Rightarrow> 'v option) \<Rightarrow> scope \<times> string list \<Rightarrow> 'v option" where
  "outside sc v = (\<lambda>k. if k \<in> (\<lambda>n. (sc, nameKey n)) ` UNIV then None else v k)"

lemma outside_upd: "outside sc (v((sc, nameKey n) := x)) = outside sc v"
  by (auto simp: outside_def fun_eq_iff)

lemma outside_other: "outside sc v' = outside sc v \<Longrightarrow> k \<notin> (\<lambda>n. (sc, nameKey n)) ` UNIV \<Longrightarrow> v' k = v k"
  by (metis outside_def)

text \<open>
  A statement that reports success has its effect; one that reports an error has none, or had its
  effect and the answer was lost, as when the connection breaks after the commit.
\<close>

locale settings_server =
  fixes db :: "'s db" and scs :: bool and valOf :: "'s \<Rightarrow> scope \<times> string list \<Rightarrow> string list option"
    and ctxOf :: "string \<Rightarrow> string option" and existsDb :: "string \<Rightarrow> bool"
  assumes exec_set: "parseAlter scs q = Some (AlterSet sc n vs) \<Longrightarrow>
      wp (execDb db q) (\<lambda>e s'. (e \<noteq> None \<and> valOf s' = valOf s) \<or> valOf s' = (valOf s)((sc, n) := Some vs)) s"
    and exec_reset: "parseAlter scs q = Some (AlterReset sc n) \<Longrightarrow>
      wp (execDb db q) (\<lambda>e s'. (e \<noteq> None \<and> valOf s' = valOf s) \<or> valOf s' = (valOf s)((sc, n) := None)) s"
    and query_context: "wp (queryDb db parameterContextQuery [SText p]) (\<lambda>r s'. valOf s' = valOf s \<and>
      catalogRow (map_option (\<lambda>c. [SText c]) (ctxOf (toLower p))) r) s"
    and query_exists: "wp (queryDb db databaseExistsQuery [SText p]) (\<lambda>r s'. valOf s' = valOf s \<and>
      catalogRow (Some [SBool (existsDb p)]) r) s"
begin

lemma ParameterContext_post:
  "wp (ParameterContext db p) (\<lambda>r s'. valOf s' = valOf s \<and> (\<forall>x. r = Inr x \<longrightarrow> x = ctxOf (toLower p))) s"
proof -
  have step: "\<forall>x. (case scanned scanText (firstRow r) of
        Inl e \<Rightarrow> if e = ErrNoRows then Inr None else Inl (Wrapf ''failed to look up parameter %q: %w'' [p] e)
      | Inr c \<Rightarrow> Inr (Some c)) = Inr x \<longrightarrow> x = ctxOf (toLower p)"
    if "catalogRow (map_option (\<lambda>c. [SText c]) (ctxOf (toLower p))) r" for r
    using that by (cases rule: firstRow_catalog) (auto simp: scanned_def scanText_def)
  show ?thesis
    unfolding ParameterContext_def queryRow_def wp_bind wp_ret
    by (rule wp_mono [OF query_context], elim conjE, intro conjI, assumption, rule step)
qed

lemma DatabaseExists_post:
  "wp (DatabaseExists db d) (\<lambda>r s'. valOf s' = valOf s \<and> (\<forall>x. r = Inr x \<longrightarrow> x = existsDb d)) s"
proof -
  have step: "\<forall>x. (case scanned scanBool (firstRow r) of
        Inl e \<Rightarrow> Inl (Wrapf ''failed to check database existence: %w'' [] e) | Inr b \<Rightarrow> Inr b) = Inr x \<longrightarrow> x = existsDb d"
    if "catalogRow (Some [SBool (existsDb d)]) r" for r
    using that by (cases rule: firstRow_catalog) (auto simp: scanned_def scanBool_def)
  show ?thesis
    unfolding DatabaseExists_def queryBool_def queryRow_def wp_bind wp_ret
    by (rule wp_mono [OF query_exists], elim conjE, intro conjI, assumption, rule step)
qed

text \<open>A statement built for a scope: it runs as read, and a name that cannot be written changes nothing.\<close>

lemma built_set:
  assumes "\<And>x. build = Inr x \<Longrightarrow> parseAlter scs x = Some (AlterSet sc (nameKey n) vs)"
  shows "wp (case build of Inl e \<Rightarrow> ret (Some e) | Inr query \<Rightarrow> execWrap db query fmt xs)
    (\<lambda>e s'. outside sc (valOf s') = outside sc (valOf s) \<and>
      ((e \<noteq> None \<and> (\<lambda>n. valOf s' (sc, nameKey n)) = (\<lambda>n. valOf s (sc, nameKey n))) \<or>
       (\<lambda>n. valOf s' (sc, nameKey n)) = (\<lambda>n. valOf s (sc, nameKey n))(n \<mapsto> vs))) s"
proof (cases build)
  case (Inl e)
  then show ?thesis by (simp add: wp_ret)
next
  case (Inr query)
  show ?thesis
    unfolding Inr sum.case execWrap_def wp_bind wp_ret
    by (rule wp_mono [OF exec_set [OF assms [OF Inr]]]) (auto simp: outside_upd intro!: ext)
qed

lemma built_reset:
  assumes "\<And>x. build = Inr x \<Longrightarrow> parseAlter scs x = Some (AlterReset sc (nameKey n))"
  shows "wp (case build of Inl e \<Rightarrow> ret (Some e) | Inr query \<Rightarrow> execWrap db query fmt xs)
    (\<lambda>e s'. outside sc (valOf s') = outside sc (valOf s) \<and>
      ((e \<noteq> None \<and> (\<lambda>n. valOf s' (sc, nameKey n)) = (\<lambda>n. valOf s (sc, nameKey n))) \<or>
       (\<lambda>n. valOf s' (sc, nameKey n)) = (\<lambda>n. valOf s (sc, nameKey n))(n := None))) s"
proof (cases build)
  case (Inl e)
  then show ?thesis by (simp add: wp_ret)
next
  case (Inr query)
  show ?thesis
    unfolding Inr sum.case execWrap_def wp_bind wp_ret
    by (rule wp_mono [OF exec_reset [OF assms [OF Inr]]]) (auto simp: outside_upd intro!: ext)
qed

lemma role_store:
  assumes "length r \<le> nameDataLen" "length d \<le> nameDataLen"
  shows "setting_store (ParameterContext db) (roleSettingOps db r d) (\<lambda>n. ctxOf (toLower n))
    (\<lambda>s n. valOf s ((r, d), nameKey n)) settingValues (\<lambda>s. outside (r, d) (valOf s)) validName"
proof (unfold_locales, goal_cases)
  case (1 n s)
  show ?case by (rule wp_mono [OF ParameterContext_post]) auto
next
  case (2 n x s)
  show ?case
    unfolding roleSettingOps_def settingOps.select_convs SetRoleParameter_def
    by (rule built_set) (use 2 assms buildAlterRoleSetQuery_reads in \<open>auto simp: validName_def nameKey_def\<close>)
next
  case (3 n s)
  show ?case
    unfolding roleSettingOps_def settingOps.select_convs ResetRoleParameter_def
    by (rule built_reset) (use 3 assms buildAlterRoleResetQuery_reads in \<open>auto simp: validName_def nameKey_def\<close>)
qed

end

section \<open>All scopes of a role\<close>

text \<open>
  What happened to one database of the loop: \<open>a\<close> is its entry in the new ledger. Without a problem
  (\<open>bad\<close>) the run had no error and every declared setting is permitted.
\<close>

definition databaseRun :: "RolePolicySpec option \<Rightarrow> (string \<Rightarrow> string option) \<Rightarrow> bool \<Rightarrow> string gomap \<Rightarrow> string list
    \<Rightarrow> (string \<Rightarrow> string list option) \<Rightarrow> (string \<Rightarrow> string list option) \<Rightarrow> string list option \<Rightarrow> bool \<Rightarrow> bool" where
  "databaseRun policy ctx ex want managed v v' a bad =
     (case a of
        None \<Rightarrow> v' = v \<and> (want = [] \<and> managed = [] \<or> \<not> ex)
      | Some after \<Rightarrow> (\<exists>err lost. settingsRun (permitted policy ctx want) (\<lambda>n. settingValues n (mapGet [] want n)) managed v v' after lost err \<and>
          (\<not> bad \<longrightarrow> ex \<and> err = None \<and> permitted policy ctx want = dom (map_of want))))"

definition passBad :: "databasePass \<Rightarrow> bool" where
  "passBad p \<longleftrightarrow> (\<exists>e \<in> set (dpErrs p). e \<noteq> None) \<or> dpRefused p \<noteq> []"

lemma databaseRun_mono: "databaseRun policy ctx ex want managed v v' a bad \<Longrightarrow> (bad \<longrightarrow> bad') \<Longrightarrow>
    databaseRun policy ctx ex want managed v v' a bad'"
  by (auto simp: databaseRun_def split: option.splits)

context settings_server
begin

abbreviation slot :: "string \<Rightarrow> 's \<Rightarrow> string \<Rightarrow> string \<Rightarrow> string list option" where
  "slot r s d \<equiv> (\<lambda>n. valOf s ((r, d), nameKey n))"

abbreviation ctx :: "string \<Rightarrow> string option" where
  "ctx \<equiv> (\<lambda>n. ctxOf (toLower n))"

lemma slot_other: "outside (r, d) (valOf s') = outside (r, d) (valOf s) \<Longrightarrow> d' \<noteq> d \<Longrightarrow> slot r s' d' = slot r s d'"
  by (rule ext, rule outside_other) auto

text \<open>One database: its scope makes a run, everything else stays.\<close>

lemma reconcileRoleDatabase_post:
  assumes "length r \<le> nameDataLen" "length d \<le> nameDataLen"
    and "\<forall>n \<in> dom (map_of (mapGet [] want d)) \<union> set (mapGet [] managed d). validName n"
    and "map_of (dpAfter p) d = None"
  shows "wp (reconcileRoleDatabase db policy r want managed d p) (\<lambda>p' s'.
      outside (r, d) (valOf s') = outside (r, d) (valOf s) \<and> (\<forall>d'. d' \<noteq> d \<longrightarrow> map_of (dpAfter p') d' = map_of (dpAfter p) d') \<and>
      (passBad p \<longrightarrow> passBad p') \<and>
      databaseRun policy ctx (existsDb d) (mapGet [] want d) (mapGet [] managed d) (slot r s d) (slot r s' d)
        (map_of (dpAfter p') d) (passBad p')) s" (is "wp _ ?Q s")
proof (cases "mapGet [] want d = [] \<and> mapGet [] managed d = []")
  case True
  then show ?thesis
    using assms(4) by (simp add: reconcileRoleDatabase_def wp_ret databaseRun_def)
next
  case False
  let ?w = "mapGet [] want d" and ?m = "mapGet [] managed d"
  let ?apply = "do {
      (after, refused, e) \<leftarrow> applySettings (ParameterContext db) policy ?w ?m (roleSettingOps db r d);
      ret (p\<lparr>dpAfter := AList.update d after (dpAfter p), dpErrs := dpErrs p @ [e],
        dpRefused := dpRefused p @ map (\<lambda>s. sprintf ''databaseSettings[%s]: %s'' [d, s]) refused\<rparr>)
    }"
  have run: "wp ?apply ?Q s1" if v: "valOf s1 = valOf s" and ex: "existsDb d" for s1
  proof -
    show ?thesis
      unfolding wp_bind
    proof (rule wp_mono [OF setting_store.applySettings_post [OF role_store [OF assms(1,2)] assms(3)]], goal_cases)
      case (1 a s2)
      obtain after refused e where a: "a = (after, refused, e)" by (cases a)
      note 1 [unfolded a prod.case]
      then show ?case
        unfolding a prod.case using v ex by (auto simp: wp_ret map_simps passBad_def databaseRun_def)
    qed
  qed
  have step: "wp (case x of
        Inl e \<Rightarrow> ret (p\<lparr>dpErrs := dpErrs p @ [Some e], dpAfter := AList.update d ?m (dpAfter p)\<rparr>)
      | Inr False \<Rightarrow> ret (if ?w \<noteq> [] then p\<lparr>dpPending := dpPending p @ [d]\<rparr> else p)
      | Inr True \<Rightarrow> ?apply) ?Q s1"
    if v: "valOf s1 = valOf s" and x: "\<forall>b. x = Inr b \<longrightarrow> b = existsDb d" for x s1
  proof (cases x)
    case (Inl e)
    have "settingsRun A w ?m u u ?m None (Some e)" for A w u by (simp add: settingsRun_def)
    with Inl v show ?thesis by (simp add: wp_ret map_simps passBad_def databaseRun_def) blast
  next
    case (Inr b)
    show ?thesis
    proof (cases b)
      case True
      with Inr have t: "x = Inr True" by simp
      with x have "existsDb d" by blast
      then show ?thesis unfolding t sum.case bool.case by (rule run [OF v])
    next
      case False
      with Inr x v assms(4) show ?thesis by (auto simp: wp_ret passBad_def databaseRun_def)
    qed
  qed
  show ?thesis
    unfolding reconcileRoleDatabase_def Let_def using False
    by (simp only: if_False wp_bind) (rule wp_mono [OF DatabaseExists_post], elim conjE, rule step)
qed

end

context settings_server
begin

text \<open>
  The loop over the databases: those visited made their run, the others and everything that is not
  a scope of the role are as before.
\<close>

lemma databases_post:
  fixes policy r
  assumes "length r \<le> nameDataLen" and "\<forall>d \<in> set ds. length d \<le> nameDataLen"
    and "\<forall>d \<in> set ds. \<forall>n \<in> dom (map_of (mapGet [] want d)) \<union> set (mapGet [] managed d). validName n"
    and "distinct ds" and "dpAfter p0 = []"
  defines "run \<equiv> \<lambda>s s' p d. databaseRun policy ctx (existsDb d) (mapGet [] want d) (mapGet [] managed d) (slot r s d) (slot r s' d)
      (map_of (dpAfter p) d) (passBad p)"
  shows "wp (forEach ds (reconcileRoleDatabase db policy r want managed) p0) (\<lambda>p s'.
      (passBad p0 \<longrightarrow> passBad p) \<and> (\<forall>d \<in> set ds. run s s' p d) \<and> (\<forall>d. d \<notin> set ds \<longrightarrow> map_of (dpAfter p) d = None) \<and>
      (\<forall>k. k \<notin> (\<lambda>(d, n). ((r, d), nameKey n)) ` (set ds \<times> UNIV) \<longrightarrow> valOf s' k = valOf s k)) s"
proof (rule wp_forEach_rest [where I = "\<lambda>rest p s'. set rest \<subseteq> set ds \<and> distinct rest \<and> (passBad p0 \<longrightarrow> passBad p) \<and>
      (\<forall>d \<in> set ds - set rest. run s s' p d) \<and> (\<forall>d. d \<notin> set ds - set rest \<longrightarrow> map_of (dpAfter p) d = None) \<and>
      (\<forall>d \<in> set rest. slot r s' d = slot r s d) \<and>
      (\<forall>k. k \<notin> (\<lambda>(d, n). ((r, d), nameKey n)) ` (set ds \<times> UNIV) \<longrightarrow> valOf s' k = valOf s k)"], goal_cases)
  case 1
  then show ?case using assms(4,5) by simp
next
  case (2 d rest p s1)
  then have new: "map_of (dpAfter p) d = None" and d: "d \<in> set ds" "d \<notin> set rest" by auto
  have pre: "length d \<le> nameDataLen" "\<forall>n \<in> dom (map_of (mapGet [] want d)) \<union> set (mapGet [] managed d). validName n"
    using d assms(2,3) by auto
  show ?case
  proof (rule wp_mono [OF reconcileRoleDatabase_post [OF assms(1) pre new, of policy s1]], goal_cases)
    case (1 p' s2)
    then have out: "outside (r, d) (valOf s2) = outside (r, d) (valOf s1)"
      and same: "\<forall>d'. d' \<noteq> d \<longrightarrow> map_of (dpAfter p') d' = map_of (dpAfter p) d'" and bad: "passBad p \<longrightarrow> passBad p'"
      and own: "databaseRun policy ctx (existsDb d) (mapGet [] want d) (mapGet [] managed d) (slot r s1 d) (slot r s2 d)
        (map_of (dpAfter p') d) (passBad p')" by blast+
    have others: "slot r s2 d' = slot r s1 d'" if "d' \<noteq> d" for d' using slot_other [OF out that] .
    have "run s s2 p' d" using own 2 unfolding run_def by simp
    moreover have "run s s2 p' d'" if "d' \<in> set ds - set (d # rest)" for d'
    proof -
      have "run s s1 p d'" "d' \<noteq> d" using 2 that by auto
      then show ?thesis using databaseRun_mono bad same others [of d'] unfolding run_def by metis
    qed
    ultimately have "\<forall>d' \<in> set ds - set rest. run s s2 p' d'" by auto
    moreover have "valOf s2 k = valOf s k" if "k \<notin> (\<lambda>(d, n). ((r, d), nameKey n)) ` (set ds \<times> UNIV)" for k
    proof -
      have "k \<notin> (\<lambda>n. ((r, d), nameKey n)) ` UNIV" using that d(1) by auto
      then show ?thesis using outside_other [OF out] 2 that by metis
    qed
    moreover have "slot r s2 d' = slot r s d'" if "d' \<in> set rest" for d'
    proof -
      have "d' \<noteq> d" "slot r s1 d' = slot r s d'" using 2 that d(2) by auto
      with others show ?thesis by metis
    qed
    moreover have "map_of (dpAfter p') d' = None" if "d' \<notin> set ds - set rest" for d'
    proof -
      have "d' \<noteq> d" "map_of (dpAfter p) d' = None" using 2 that d by auto
      with same show ?thesis by simp
    qed
    moreover have "set rest \<subseteq> set ds" "distinct rest" "passBad p0 \<longrightarrow> passBad p'" using 2 bad by auto
    ultimately show ?case by blast
  qed
next
  case (3 p s')
  then show ?case by auto
qed

end

section \<open>Declared and recorded settings\<close>

text \<open>The settings a status records and a spec declares, by database (\<open>[]\<close> for none) and name.\<close>

definition settingLedger :: "RoleStatus \<Rightarrow> (string \<times> string) set" where
  "settingLedger st = {(d, n). if d = [] then n \<in> set (rtManagedSettings st)
     else (\<exists>m \<in> set (rtManagedDatabaseSettings st). mrdDatabase m = d \<and> n \<in> set (mrdSettings m))}"

definition declaredSetting :: "RoleSpec \<Rightarrow> string \<times> string \<Rightarrow> string option" where
  "declaredSetting spec = (\<lambda>(d, n).
     case (normalizeSettings ''settings'' (rsSettings spec), desiredRoleDatabaseSettings (rsDatabaseSettings spec)) of
       (Inr own, Inr (dbs, _)) \<Rightarrow> if d = [] then map_of own n else map_of (mapGet [] dbs d) n
     | _ \<Rightarrow> None)"

text \<open>
  What the code relies on: names that PostgreSQL does not cut, and a ledger as pgop writes it (one
  entry per database, normalized names).
\<close>

definition wfRoleSettings :: "Role \<Rightarrow> string \<Rightarrow> bool" where
  "wfRoleSettings role pgName \<longleftrightarrow> length pgName \<le> nameDataLen \<and>
     distinct (map mrdDatabase (rtManagedDatabaseSettings (roleStatus role))) \<and>
     (\<forall>m \<in> set (rtManagedDatabaseSettings (roleStatus role)). mrdDatabase m \<noteq> [] \<and> length (mrdDatabase m) \<le> nameDataLen \<and>
        (\<forall>n \<in> set (mrdSettings m). validName n)) \<and>
     (\<forall>n \<in> set (rtManagedSettings (roleStatus role)). validName n) \<and>
     (\<forall>k \<in> dom (declaredSetting (roleSpec role)). shortParts (snd k))"

text \<open>
  The effect of a reconcile on the settings of a role (\<open>v\<close> before, \<open>v'\<close> after). In every scope at most
  one setting, \<open>lost\<close>, was made without being recorded, by a statement whose answer did not arrive.
\<close>

definition settingsPost :: "(string \<Rightarrow> bool) \<Rightarrow> (string \<Rightarrow> bool) \<Rightarrow> (string \<times> string \<Rightarrow> string option) \<Rightarrow> (string \<times> string) set
    \<Rightarrow> (string \<times> string) set \<Rightarrow> (string \<times> string \<Rightarrow> string list option) \<Rightarrow> (string \<times> string \<Rightarrow> string list option) \<Rightarrow> bool \<Rightarrow> bool" where
  "settingsPost ok ex decl L L' v v' success \<longleftrightarrow>
     (\<forall>d. \<exists>lost. (success \<longrightarrow> lost = None) \<and> (\<forall>n. v' (d, n) \<noteq> v (d, n) \<longrightarrow>
        (\<exists>x. decl (d, n) = Some x \<and> ok n \<and> v' (d, n) = Some (settingValues n x) \<and> ((d, n) \<in> L' \<or> lost = Some n)) \<or>
        ((d, n) \<in> L \<and> (decl (d, n) = None \<or> \<not> ok n) \<and> v' (d, n) = None))) \<and>
     (\<forall>d n. (d, n) \<in> L \<and> (d, n) \<notin> L' \<and> (d = [] \<or> ex d) \<longrightarrow> v' (d, n) = None) \<and>
     (\<forall>d n. (d, n) \<in> L' \<longrightarrow> (d, n) \<in> L \<or> decl (d, n) \<noteq> None \<and> ok n) \<and>
     (success \<longrightarrow> (\<forall>d n. d = [] \<or> ex d \<longrightarrow>
        (case decl (d, n) of
           Some x \<Rightarrow> v' (d, n) = Some (settingValues n x) \<and> (d, n) \<in> L'
         | None \<Rightarrow> (d, n) \<in> L \<longrightarrow> v' (d, n) = None)))"

text \<open>One scope of the effect.\<close>

lemma settingsRun_scope:
  assumes "settingsRun (permitted policy c want) (\<lambda>n. settingValues n (mapGet [] want n)) managed v v' after lost err"
  shows "v' n \<noteq> v n \<Longrightarrow> (\<exists>x. map_of want n = Some x \<and> settingProblem policy c n = [] \<and> v' n = Some (settingValues n x) \<and>
        (n \<in> set after \<or> lost = Some n)) \<or>
      n \<in> set managed \<and> (map_of want n = None \<or> settingProblem policy c n \<noteq> []) \<and> v' n = None"
    and "n \<in> set managed \<Longrightarrow> n \<notin> set after \<Longrightarrow> v' n = None"
    and "n \<in> set after \<Longrightarrow> n \<in> set managed \<or> map_of want n \<noteq> None \<and> settingProblem policy c n = []"
    and "err = None \<Longrightarrow> permitted policy c want = dom (map_of want) \<Longrightarrow> map_of want n = Some x \<Longrightarrow>
      v' n = Some (settingValues n x) \<and> n \<in> set after"
    and "err = None \<Longrightarrow> permitted policy c want = dom (map_of want) \<Longrightarrow> map_of want n = None \<Longrightarrow> n \<in> set managed \<Longrightarrow> v' n = None"
proof -
  have in_perm: "m \<in> permitted policy c want \<longleftrightarrow> map_of want m \<noteq> None \<and> settingProblem policy c m = []" for m
    by (auto simp: permitted_def)
  note run = assms [unfolded settingsRun_def]
  have change: "v' n \<noteq> v n \<longrightarrow> n \<in> permitted policy c want \<and> v' n = Some (settingValues n (mapGet [] want n)) \<and> (n \<in> set after \<or> lost = Some n) \<or>
      n \<in> set managed - permitted policy c want \<and> v' n = None" for n using run by blast
  show "v' n \<noteq> v n \<Longrightarrow> (\<exists>x. map_of want n = Some x \<and> settingProblem policy c n = [] \<and> v' n = Some (settingValues n x) \<and>
        (n \<in> set after \<or> lost = Some n)) \<or>
      n \<in> set managed \<and> (map_of want n = None \<or> settingProblem policy c n \<noteq> []) \<and> v' n = None"
    using change [of n] by (cases "map_of want n") (auto simp: in_perm mapGet_def)
  show "n \<in> set managed \<Longrightarrow> n \<notin> set after \<Longrightarrow> v' n = None"
    using run by blast
  show "n \<in> set after \<Longrightarrow> n \<in> set managed \<or> map_of want n \<noteq> None \<and> settingProblem policy c n = []"
    using run by (auto simp: in_perm)
  show "v' n = Some (settingValues n x) \<and> n \<in> set after"
    if "err = None" "permitted policy c want = dom (map_of want)" "map_of want n = Some x"
  proof -
    have n: "n \<in> permitted policy c want" "mapGet [] want n = x" using that by (auto simp: mapGet_def)
    have "finite (permitted policy c want)" using that(2) by (simp add: finite_dom_map_of)
    with n run that(1) show ?thesis by (simp add: n(2) [symmetric])
  qed
  show "v' n = None"
    if "err = None" "permitted policy c want = dom (map_of want)" "map_of want n = None" "n \<in> set managed"
    using run that by auto
qed

lemma mapGet_managedDatabaseMap:
  "distinct (map mrdDatabase ms) \<Longrightarrow>
    n \<in> set (mapGet [] (managedDatabaseMap ms) d) \<longleftrightarrow> (\<exists>m \<in> set ms. mrdDatabase m = d \<and> n \<in> set (mrdSettings m))"
proof (induction ms rule: rev_induct)
  case (snoc m ms)
  then show ?case by (cases "mrdDatabase m = d") (auto simp: managedDatabaseMap_def map_simps image_iff)
qed (simp add: managedDatabaseMap_def)

lemma dom_managedDatabaseMap: "dom (map_of (managedDatabaseMap ms)) = mrdDatabase ` set ms"
  by (induction ms rule: rev_induct) (auto simp: managedDatabaseMap_def dom_update)

lemma roleDatabaseLedger_set:
  "(\<exists>m \<in> set (roleDatabaseLedger a). mrdDatabase m = d \<and> n \<in> set (mrdSettings m)) \<longleftrightarrow> n \<in> set (mapGet [] a d)"
  by (auto simp: roleDatabaseLedger_def mapGet_def split: option.splits)

lemma normalizeLoop_lower:
  "normalizeLoop field settings ks out = Inr m \<Longrightarrow> \<forall>n \<in> dom (map_of out). toLower n = n \<Longrightarrow> n \<in> dom (map_of m) \<Longrightarrow> toLower n = n"
proof (induction ks arbitrary: out)
  case (Cons k ks)
  from Cons.prems(1) obtain name where name: "NormalizeParameterName k = Inr name"
    and rec: "normalizeLoop field settings ks (AList.update name (mapGet [] settings k) out) = Inr m"
    by (auto split: sum.splits if_splits)
  show ?case
    by (rule Cons.IH [OF rec _ Cons.prems(3)])
      (use Cons.prems(2) parameterName_parts(1) [OF name] in \<open>auto simp: dom_update\<close>)
qed auto

lemma normalizeSettings_lower: "normalizeSettings field settings = Inr m \<Longrightarrow> n \<in> dom (map_of m) \<Longrightarrow> toLower n = n"
  unfolding normalizeSettings_def by (rule normalizeLoop_lower) auto

lemma databaseSettingsLoop_wf:
  assumes "databaseSettingsLoop es out tooLong = Inr (m, tooLong')"
    and "\<forall>d \<in> dom (map_of out). d \<noteq> [] \<and> length d \<le> maxIdentifierBytes \<and> (\<forall>n \<in> dom (map_of (mapGet [] out d)). toLower n = n)"
    and "d \<in> dom (map_of m)"
  shows "d \<noteq> [] \<and> length d \<le> maxIdentifierBytes \<and> (\<forall>n \<in> dom (map_of (mapGet [] m d)). toLower n = n)"
  using assms
proof (induction es arbitrary: out tooLong)
  case (Cons e es)
  show ?case
  proof (cases "length (rdsDatabase e) > maxIdentifierBytes")
    case True
    with Cons show ?thesis by (auto split: if_splits)
  next
    case False
    with Cons.prems(1) obtain x where x: "rdsDatabase e \<noteq> []"
      "normalizeSettings (sprintf ''databaseSettings[%s].settings'' [rdsDatabase e]) (rdsSettings e) = Inr x"
      "databaseSettingsLoop es (AList.update (rdsDatabase e) x out) tooLong = Inr (m, tooLong')"
      by (auto split: if_splits sum.splits)
    have low: "\<forall>n \<in> dom (map_of x). toLower n = n" using normalizeSettings_lower [OF x(2)] by blast
    show ?thesis
      by (rule Cons.IH [OF x(3) _ Cons.prems(3)])
        (use Cons.prems(2) low x(1) False in \<open>simp add: dom_update mapGet_update\<close>)
  qed
qed auto

text \<open>One database as part of the effect.\<close>

lemma databaseRun_changes:
  assumes "databaseRun policy c ex want managed v v' a bad"
  shows "\<exists>lost. (\<not> bad \<longrightarrow> lost = None) \<and> (\<forall>n. v' n \<noteq> v n \<longrightarrow>
    (\<exists>x. map_of want n = Some x \<and> settingProblem policy c n = [] \<and> v' n = Some (settingValues n x) \<and>
      (n \<in> set (case a of None \<Rightarrow> [] | Some l \<Rightarrow> l) \<or> lost = Some n)) \<or>
    n \<in> set managed \<and> (map_of want n = None \<or> settingProblem policy c n \<noteq> []) \<and> v' n = None)"
proof (cases a)
  case None
  with assms have "v' = v" by (auto simp: databaseRun_def)
  then show ?thesis by auto
next
  case (Some l)
  with assms obtain err lost where run: "settingsRun (permitted policy c want) (\<lambda>n. settingValues n (mapGet [] want n)) managed v v' l lost err"
    and good: "\<not> bad \<longrightarrow> err = None" by (auto simp: databaseRun_def)
  have "\<not> bad \<longrightarrow> lost = None" using run good by (auto simp: settingsRun_def)
  then show ?thesis unfolding Some option.case using settingsRun_scope(1) [OF run] by blast
qed

lemma databaseRun_scope:
  assumes "databaseRun policy c ex want managed v v' a bad"
  defines "after \<equiv> case a of None \<Rightarrow> [] | Some l \<Rightarrow> l"
  shows "(n \<in> set managed \<and> n \<notin> set after \<and> ex \<longrightarrow> v' n = None) \<and>
    (n \<in> set after \<longrightarrow> n \<in> set managed \<or> map_of want n \<noteq> None \<and> settingProblem policy c n = []) \<and>
    (\<not> bad \<longrightarrow> ex \<longrightarrow> (case map_of want n of
        Some x \<Rightarrow> v' n = Some (settingValues n x) \<and> n \<in> set after
      | None \<Rightarrow> n \<in> set managed \<longrightarrow> v' n = None))"
proof (cases a)
  case None
  with assms have "v' = v" "want = [] \<and> managed = [] \<or> \<not> ex" "after = []" by (auto simp: databaseRun_def)
  then show ?thesis by auto
next
  case (Some l)
  with assms obtain err lost where after: "after = l"
    and run: "settingsRun (permitted policy c want) (\<lambda>n. settingValues n (mapGet [] want n)) managed v v' l lost err"
    and good: "\<not> bad \<longrightarrow> ex \<and> err = None \<and> permitted policy c want = dom (map_of want)" by (auto simp: databaseRun_def)
  note scope = settingsRun_scope [OF run]
  have "\<not> bad \<longrightarrow> (case map_of want n of Some x \<Rightarrow> v' n = Some (settingValues n x) \<and> n \<in> set l | None \<Rightarrow> n \<in> set managed \<longrightarrow> v' n = None)"
    using scope(4,5) good by (cases "map_of want n") auto
  with scope(2) [of n] scope(3) [of n] show ?thesis unfolding after by blast
qed

lemma settingsPost_scopes:
  assumes run: "\<And>d. databaseRun policy c (d = [] \<or> ex d) (want d) (managed d) (\<lambda>n. v (d, n)) (\<lambda>n. v' (d, n)) (a d) (\<not> success)"
    and decl: "\<And>d n. decl (d, n) = map_of (want d) n" and L: "\<And>d n. (d, n) \<in> L \<longleftrightarrow> n \<in> set (managed d)"
    and L': "\<And>d n. (d, n) \<in> L' \<longleftrightarrow> n \<in> set (case a d of None \<Rightarrow> [] | Some l \<Rightarrow> l)"
  shows "settingsPost (\<lambda>n. settingProblem policy c n = []) ex decl L L' v v' success"
proof -
  note scope = databaseRun_scope [OF run]
  have "case map_of (want d) n of
      Some x \<Rightarrow> v' (d, n) = Some (settingValues n x) \<and> n \<in> set (case a d of None \<Rightarrow> [] | Some l \<Rightarrow> l)
    | None \<Rightarrow> n \<in> set (managed d) \<longrightarrow> v' (d, n) = None" if success "d = [] \<or> ex d" for d n
    using scope [THEN conjunct2, THEN conjunct2, of d n] that by simp
  then show ?thesis
    unfolding settingsPost_def decl L L'
    by (intro conjI allI impI)
      (rule databaseRun_changes [OF run, unfolded not_not],
       rule scope [THEN conjunct1, rule_format], assumption,
       rule scope [THEN conjunct2, THEN conjunct1, rule_format], assumption, blast)
qed

lemma settingsPost_parts:
  assumes "settingsPost ok ex decl L L' v v' success"
  shows "\<exists>lost. (success \<longrightarrow> lost = None) \<and> (\<forall>n. v' (d, n) \<noteq> v (d, n) \<longrightarrow>
      (\<exists>x. decl (d, n) = Some x \<and> ok n \<and> v' (d, n) = Some (settingValues n x) \<and> ((d, n) \<in> L' \<or> lost = Some n)) \<or>
      ((d, n) \<in> L \<and> (decl (d, n) = None \<or> \<not> ok n) \<and> v' (d, n) = None))"
    and "(d, n) \<in> L \<and> (d, n) \<notin> L' \<and> (d = [] \<or> ex d) \<longrightarrow> v' (d, n) = None"
    and "(d, n) \<in> L' \<longrightarrow> (d, n) \<in> L \<or> decl (d, n) \<noteq> None \<and> ok n"
    and "success \<Longrightarrow> d = [] \<or> ex d \<Longrightarrow>
      (case decl (d, n) of Some x \<Rightarrow> v' (d, n) = Some (settingValues n x) \<and> (d, n) \<in> L' | None \<Rightarrow> (d, n) \<in> L \<longrightarrow> v' (d, n) = None)"
proof -
  note post = assms [unfolded settingsPost_def]
  show "\<exists>lost. (success \<longrightarrow> lost = None) \<and> (\<forall>n. v' (d, n) \<noteq> v (d, n) \<longrightarrow>
      (\<exists>x. decl (d, n) = Some x \<and> ok n \<and> v' (d, n) = Some (settingValues n x) \<and> ((d, n) \<in> L' \<or> lost = Some n)) \<or>
      ((d, n) \<in> L \<and> (decl (d, n) = None \<or> \<not> ok n) \<and> v' (d, n) = None))"
    by (rule post [THEN conjunct1, THEN spec])
  show "(d, n) \<in> L \<and> (d, n) \<notin> L' \<and> (d = [] \<or> ex d) \<longrightarrow> v' (d, n) = None"
    by (rule post [THEN conjunct2, THEN conjunct1, THEN spec, THEN spec])
  show "(d, n) \<in> L' \<longrightarrow> (d, n) \<in> L \<or> decl (d, n) \<noteq> None \<and> ok n"
    by (rule post [THEN conjunct2, THEN conjunct2, THEN conjunct1, THEN spec, THEN spec])
  show "case decl (d, n) of Some x \<Rightarrow> v' (d, n) = Some (settingValues n x) \<and> (d, n) \<in> L' | None \<Rightarrow> (d, n) \<in> L \<longrightarrow> v' (d, n) = None"
    if success "d = [] \<or> ex d"
    using post [THEN conjunct2, THEN conjunct2, THEN conjunct2] that by blast
qed

lemma settingsPost_refl: "settingsPost ok ex decl L L v v False"
  by (auto simp: settingsPost_def)

context settings_server
begin

lemma reconcileOwnSettings_post:
  assumes "length r \<le> nameDataLen" and "\<forall>n \<in> dom (map_of desired) \<union> set managed. validName n"
  shows "wp (reconcileOwnSettings db policy r desired managed) (\<lambda>(after, refused, err) s'.
    outside (r, []) (valOf s') = outside (r, []) (valOf s) \<and>
    (\<exists>lost. settingsRun (permitted policy ctx desired) (\<lambda>n. settingValues n (mapGet [] desired n)) managed (slot r s []) (slot r s' []) after lost err) \<and>
    (err = None \<longrightarrow> (refused = [] \<longleftrightarrow> permitted policy ctx desired = dom (map_of desired)))) s"
proof (cases "desired = [] \<and> managed = []")
  case True
  then show ?thesis by (simp add: reconcileOwnSettings_def wp_ret settingsRun_def permitted_def)
next
  case False
  have "length ([] :: string) \<le> nameDataLen" by simp
  then show ?thesis
    unfolding reconcileOwnSettings_def using False
    by (simp only: if_False) (rule setting_store.applySettings_post [OF role_store [OF assms(1)] assms(2)])
qed

end

definition roleScopes :: "string \<Rightarrow> (scope \<times> string list) set" where
  "roleScopes r = (\<lambda>(d, n). ((r, d), nameKey n)) ` UNIV"

definition scopeView :: "string \<Rightarrow> (scope \<times> string list \<Rightarrow> 'v option) \<Rightarrow> string \<times> string \<Rightarrow> 'v option" where
  "scopeView r v = (\<lambda>(d, n). v ((r, d), nameKey n))"

context settings_server
begin

lemma reconcileRoleSettings_post:
  assumes wf: "wfRoleSettings role r"
  shows "wp (reconcileRoleSettings db role r policy) (\<lambda>(role', pending, err) s'.
    (\<forall>k. k \<notin> roleScopes r \<longrightarrow> valOf s' k = valOf s k) \<and>
    settingsPost (\<lambda>n. settingProblem policy ctx n = []) existsDb (declaredSetting (roleSpec role))
      (settingLedger (roleStatus role)) (settingLedger (roleStatus role')) (scopeView r (valOf s)) (scopeView r (valOf s')) (err = None)) s"
    (is "wp _ ?Q s")
proof (cases "reservedRoleName r = [] \<and> (\<exists>own x. normalizeSettings ''settings'' (rsSettings (roleSpec role)) = Inr own \<and>
    desiredRoleDatabaseSettings (rsDatabaseSettings (roleSpec role)) = Inr x)")
  case False
  have "?Q (role, [], Some e) s" for e by (simp add: settingsPost_refl)
  with False show ?thesis
    by (auto simp: reconcileRoleSettings_def wp_ret split: sum.splits)
next
  case True
  then obtain own want invalid where res: "reservedRoleName r = []"
    and own: "normalizeSettings ''settings'' (rsSettings (roleSpec role)) = Inr own"
    and want: "desiredRoleDatabaseSettings (rsDatabaseSettings (roleSpec role)) = Inr (want, invalid)" by auto
  let ?st = "roleStatus role"
  let ?m = "managedDatabaseMap (rtManagedDatabaseSettings ?st)"
  let ?ds = "sort (mapKeys want @ filter (\<lambda>d. map_of want d = None) (mapKeys ?m))"
  let ?p0 = "\<lambda>e refused. \<lparr>dpAfter = [], dpErrs = [invalid, e], dpRefused = map (\<lambda>s. ''settings: '' @ s) refused, dpPending = []\<rparr>"
  let ?done = "\<lambda>after p. (role\<lparr>roleStatus := ?st\<lparr>rtManagedSettings := after, rtManagedDatabaseSettings := roleDatabaseLedger (dpAfter p)\<rparr>\<rparr>,
      dpPending p, joinErrs (dpErrs p @ (if dpRefused p \<noteq> []
        then [Some (ConditionError ReasonSettingNotAllowed (Errorf ''settings not allowed: %s'' [joinStr (dpRefused p) ''; '']))] else [])))"
  note wfs = wf [unfolded wfRoleSettings_def]
  have r: "length r \<le> nameDataLen" using wfs by blast
  from want obtain tooLong where loop: "databaseSettingsLoop (rsDatabaseSettings (roleSpec role)) [] [] = Inr (want, tooLong)"
    by (auto simp: desiredRoleDatabaseSettings_def split: sum.splits)
  have wantD: "d \<noteq> [] \<and> length d \<le> nameDataLen \<and> (\<forall>n \<in> dom (map_of (mapGet [] want d)). toLower n = n)" if "d \<in> dom (map_of want)" for d
    using databaseSettingsLoop_wf [OF loop _ that] by (simp add: nameDataLen_def maxIdentifierBytes_def)
  have decl: "declaredSetting (roleSpec role) (d, n) = map_of (if d = [] then own else mapGet [] want d) n" for d n
    by (simp add: declaredSetting_def own want)
  have short: "shortParts n" if "map_of (if d = [] then own else mapGet [] want d) n \<noteq> None" for d n
    using wfs that decl [of d n] by (metis domI not_None_eq snd_conv)
  have valid_own: "\<forall>n \<in> dom (map_of own) \<union> set (rtManagedSettings ?st). validName n"
    using wfs normalizeSettings_lower [OF own] short [of "[]"] by (auto simp: validName_def)
  have ds: "set ?ds = dom (map_of want) \<union> dom (map_of ?m)" by (auto simp: dom_def)
  have dist: "distinct ?ds" by auto
  have empty: "mapGet [] want d = []" if "d \<notin> dom (map_of want)" for d using that by (auto simp: mapGet_def split: option.splits)
  have empty': "mapGet [] ?m d = []" if "d \<notin> dom (map_of ?m)" for d using that by (auto simp: mapGet_def split: option.splits)
  have ds_len: "\<forall>d \<in> set ?ds. d \<noteq> [] \<and> length d \<le> nameDataLen"
    unfolding ds dom_managedDatabaseMap ball_Un using wantD wfs by simp
  have managed: "n \<in> set (mapGet [] ?m d) \<longleftrightarrow> (\<exists>m \<in> set (rtManagedDatabaseSettings ?st). mrdDatabase m = d \<and> n \<in> set (mrdSettings m))" for n d
    by (rule mapGet_managedDatabaseMap) (use wfs in blast)
  have valid_db: "\<forall>d \<in> set ?ds. \<forall>n \<in> dom (map_of (mapGet [] want d)) \<union> set (mapGet [] ?m d). validName n"
  proof (intro ballI)
    fix d n assume d: "d \<in> set ?ds" and n: "n \<in> dom (map_of (mapGet [] want d)) \<union> set (mapGet [] ?m d)"
    show "validName n"
    proof (cases "n \<in> set (mapGet [] ?m d)")
      case True
      then show ?thesis using managed wfs by blast
    next
      case False
      with n have w: "n \<in> dom (map_of (mapGet [] want d))" by blast
      then have "d \<in> dom (map_of want)" using empty by fastforce
      with w wantD [of d] short [of d n] show ?thesis by (auto simp: validName_def)
    qed
  qed
  have len: "\<forall>d \<in> set ?ds. length d \<le> nameDataLen" using ds_len by blast
  have p0: "dpAfter (?p0 e refused) = []" for e refused by simp
  have finish: "wp (forEach ?ds (reconcileRoleDatabase db policy r want ?m) (?p0 e refused)) (\<lambda>p. wp (ret (?done after p)) ?Q) s1"
    if out: "outside (r, []) (valOf s1) = outside (r, []) (valOf s)"
      and run: "\<exists>lost. settingsRun (permitted policy ctx own) (\<lambda>n. settingValues n (mapGet [] own n)) (rtManagedSettings ?st) (slot r s []) (slot r s1 []) after lost e"
      and ref: "e = None \<longrightarrow> (refused = [] \<longleftrightarrow> permitted policy ctx own = dom (map_of own))" for after refused e s1
  proof (rule wp_mono [OF databases_post [OF r len valid_db dist p0]], goal_cases)
    case (1 p s2)
    let ?success = "\<not> passBad p"
    let ?a = "\<lambda>d. if d = [] then Some after else map_of (dpAfter p) d"
    have frame: "valOf s2 k = valOf s1 k" if "k \<notin> (\<lambda>(d, n). ((r, d), nameKey n)) ` (set ?ds \<times> UNIV)" for k
      using 1 that by blast
    have own_slot: "slot r s2 [] = slot r s1 []"
      by (rule ext, rule frame) (use ds_len in auto)
    have bad: "?success \<longrightarrow> e = None \<and> refused = []"
      using 1 by (auto simp: passBad_def)
    have "databaseRun policy ctx (d = [] \<or> existsDb d) (if d = [] then own else mapGet [] want d)
        (if d = [] then rtManagedSettings ?st else mapGet [] ?m d) (\<lambda>n. scopeView r (valOf s) (d, n)) (\<lambda>n. scopeView r (valOf s2) (d, n))
        (?a d) (\<not> ?success)" for d
    proof (cases "d = []")
      case True
      with run own_slot bad ref show ?thesis by (auto simp: databaseRun_def scopeView_def)
    next
      case False
      then have same: "slot r s1 d = slot r s d" by (rule slot_other [OF out])
      show ?thesis
      proof (cases "d \<in> set ?ds")
        case True
        with 1 have "databaseRun policy ctx (existsDb d) (mapGet [] want d) (mapGet [] ?m d) (slot r s1 d) (slot r s2 d)
          (map_of (dpAfter p) d) (passBad p)" by blast
        with False same show ?thesis by (simp add: scopeView_def)
      next
        case d: False
        then have "slot r s2 d = slot r s1 d" by (intro ext frame) auto
        moreover have "map_of (dpAfter p) d = None" using 1 d by blast
        moreover have "mapGet [] want d = []" "mapGet [] ?m d = []" using d empty empty' unfolding ds by auto
        ultimately show ?thesis using False same by (simp add: scopeView_def databaseRun_def)
      qed
    qed
    then have "settingsPost (\<lambda>n. settingProblem policy ctx n = []) existsDb (declaredSetting (roleSpec role)) (settingLedger ?st)
        (settingLedger (roleStatus (fst (?done after p)))) (scopeView r (valOf s)) (scopeView r (valOf s2)) ?success"
      by (rule settingsPost_scopes)
        (simp_all add: decl settingLedger_def managed roleDatabaseLedger_set mapGet_def [of "[]" "dpAfter p"])
    moreover have "(snd (snd (?done after p)) = None) = ?success"
      by (auto simp: joinErrs_None_iff passBad_def)
    moreover have "valOf s2 k = valOf s k" if "k \<notin> roleScopes r" for k
    proof -
      have "valOf s2 k = valOf s1 k" by (rule frame) (use that in \<open>auto simp: roleScopes_def\<close>)
      also have "\<dots> = valOf s k" by (rule outside_other [OF out]) (use that in \<open>auto simp: roleScopes_def\<close>)
      finally show ?thesis .
    qed
    ultimately show ?case unfolding wp_ret prod.case fst_conv snd_conv by simp
  qed
  show ?thesis
    unfolding reconcileRoleSettings_def Let_def own want sum.case prod.case using res
    apply (simp only: if_False wp_bind wp_case_prod not_True_eq_False simp_thms)
    apply (rule wp_mono [OF reconcileOwnSettings_post [OF r valid_own]])
    subgoal for x s1 using finish by (cases x) (simp only: prod.case wp_bind, blast)
    done
qed

end

section \<open>The reference server\<close>

lemma refExec_alter:
  assumes "parseAlter True q = Some st"
  shows "parseSql True q = None"
proof -
  from assms obtain ts kind x ts1 where "lexSql True q = Some ts" "ts = Word ''ALTER'' # Word kind # Ident x # ts1"
    by (auto simp: parseAlter_def parseAlterStmt_def split: option.splits list.splits token.splits if_splits)
  then show ?thesis by (simp add: parseSql_def parseStmt_def)
qed

interpretation refSettings: settings_server refDb True "\<lambda>s. map_of (rvSettings s)" refContext refDatabase
proof (unfold_locales, goal_cases)
  case (1 q sc n vs s)
  then show ?case
    by (simp add: refDb_def wp_State refExec_def refExec_alter refOtherExec_def update_conv')
next
  case (2 q sc n s)
  then show ?case
    by (simp add: refDb_def wp_State refExec_def refExec_alter refOtherExec_def delete_conv')
next
  case (3 p s)
  have "parameterContextQuery \<noteq> lookupRoleQuery" "parameterContextQuery \<noteq> membershipClosureQuery"
    "parameterContextQuery \<noteq> listMembershipsQuery refVersion" by code_simp+
  then show ?case
    by (simp add: refQuery_one wp_State refCatalogQuery_def catalogRow_def split: option.splits)
next
  case (4 p s)
  have "databaseExistsQuery \<noteq> lookupRoleQuery" "databaseExistsQuery \<noteq> membershipClosureQuery"
    "databaseExistsQuery \<noteq> listMembershipsQuery refVersion" "databaseExistsQuery \<noteq> parameterContextQuery" by code_simp+
  then show ?case
    by (simp add: refQuery_one wp_State refCatalogQuery_def catalogRow_def)
qed

interpretation refStore: setting_store "ParameterContext refDb" "roleSettingOps refDb ''app_user'' []"
  "\<lambda>n. refContext (toLower n)" "\<lambda>s n. map_of (rvSettings s) ((''app_user'', []), nameKey n)" settingValues
  "\<lambda>s. outside (''app_user'', []) (map_of (rvSettings s))" validName
  by (rule refSettings.role_store) (simp_all add: nameDataLen_def)

section \<open>Properties\<close>

text \<open>
  The scenario of the instances: \<open>work_mem\<close> is recorded from an earlier reconcile and no longer
  declared; the spec declares a search path for every database and a refused parameter in \<open>app\<close>.
\<close>

definition exRoleSpec :: RoleSpec where
  "exRoleSpec = \<lparr>rsClusterRef = \<lparr>crName = ''c''\<rparr>, rsRoleName = [], rsLogin = None, rsCreateDB = False, rsCreateRole = False,
     rsInherit = None, rsReplication = False, rsBypassRLS = False, rsConnectionLimit = None, rsMemberOf = [], rsMemberships = [],
     rsRevokeRemovedMemberships = None, rsPasswordSecretRef = None, rsPasswordRotation = None, rsParameterGrants = [],
     rsDeletion = None, rsSettings = [(''Search_Path'', ''app'')], rsDatabaseSettings = []\<rparr>"

definition exRoleStatus :: RoleStatus where
  "exRoleStatus = \<lparr>rtReady = True, rtRoleName = ''bob'', rtClusterUID = ''u'', rtSecretName = [], rtPasswordHash = [],
     rtPasswordRotatedAt = None, rtPasswordRotationRequest = [], rtManagedMemberships = [], rtManagedParameterGrants = [],
     rtManagedSettings = [''work_mem''], rtManagedDatabaseSettings = [], rtConditions = []\<rparr>"

definition exRole :: Role where
  "exRole = \<lparr>roleMetaName = ''bob'', roleMetaNamespace = ''ns'', roleSpec = exRoleSpec, roleStatus = exRoleStatus\<rparr>"

definition exSettings :: refServer where
  "exSettings = \<lparr>rvAcl = [], rvRoles = [], rvMembers = [], rvSettings = [(((''bob'', []), [''work_mem'']), [''4MB'']),
     (((''eve'', []), [''work_mem'']), [''1MB''])], rvLedger = []\<rparr>"

definition exSettings' :: refServer where
  "exSettings' = exSettings\<lparr>rvSettings := [(((''eve'', []), [''work_mem'']), [''1MB'']), (((''bob'', []), [''search_path'']), [''app''])]\<rparr>"

definition exRole' :: Role where
  "exRole' = exRole\<lparr>roleStatus := exRoleStatus\<lparr>rtManagedSettings := [''search_path'']\<rparr>\<rparr>"

lemma exSettingsRun: "run_state (reconcileRoleSettings refDb exRole ''bob'' None) exSettings = ((exRole', [], None), exSettings')"
  by code_simp

lemma exDeclared: "declaredSetting (roleSpec exRole) = (\<lambda>(d, n). if d = [] \<and> n = ''search_path'' then Some ''app'' else None)"
proof -
  have "normalizeSettings ''settings'' (rsSettings exRoleSpec) = Inr [(''search_path'', ''app'')]"
    "desiredRoleDatabaseSettings (rsDatabaseSettings exRoleSpec) = Inr ([], None)" by code_simp+
  then show ?thesis by (auto simp: declaredSetting_def exRole_def fun_eq_iff)
qed

lemma exWfSettings: "wfRoleSettings exRole ''bob''"
proof -
  have "validName ''work_mem''" "shortParts ''search_path''" "length ''bob'' \<le> nameDataLen" by code_simp+
  then show ?thesis
    unfolding wfRoleSettings_def exDeclared
    by (auto simp: exRole_def exRoleStatus_def split: if_splits)
qed

text \<open>What a run did, from the contract of the server.\<close>

lemma role_settings_run:
  assumes "settings_server db scs valOf ctxOf existsDb" and "wfRoleSettings role r"
    and "run_state (reconcileRoleSettings db role r policy) s = ((role', pending, err), s')"
  shows "\<forall>k. k \<notin> roleScopes r \<longrightarrow> valOf s' k = valOf s k"
    and "settingsPost (\<lambda>n. settingProblem policy (\<lambda>n. ctxOf (toLower n)) n = []) existsDb (declaredSetting (roleSpec role))
      (settingLedger (roleStatus role)) (settingLedger (roleStatus role')) (scopeView r (valOf s)) (scopeView r (valOf s')) (err = None)"
  using wp_run [OF settings_server.reconcileRoleSettings_post [OF assms(1,2)] assms(3)] by simp_all






text \<open>
  C16. No setting is forgotten: a recorded setting that leaves the ledger is no longer stored (unless
  its database is gone), and the ledger gains only declared settings the policy permits.
\<close>

theorem role_settings_tracked:
  assumes "settings_server db scs valOf ctxOf existsDb" and "wfRoleSettings role r"
    and "run_state (reconcileRoleSettings db role r policy) s = ((role', pending, err), s')"
  shows "((d, n) \<in> settingLedger (roleStatus role) - settingLedger (roleStatus role') \<and> (d = [] \<or> existsDb d) \<longrightarrow>
      valOf s' ((r, d), nameKey n) = None) \<and>
    ((d, n) \<in> settingLedger (roleStatus role') - settingLedger (roleStatus role) \<longrightarrow>
      declaredSetting (roleSpec role) (d, n) \<noteq> None \<and> settingProblem policy (\<lambda>n. ctxOf (toLower n)) n = [])"
  using settingsPost_parts(2,3) [OF role_settings_run(2) [OF assms], of d n] by (auto simp: scopeView_def)

theorem role_settings_tracked_witness:
  "map_of (rvSettings exSettings') ((''bob'', []), nameKey ''work_mem'') = None"
  using role_settings_tracked [OF refSettings.settings_server_axioms exWfSettings exSettingsRun, of "[]" "''work_mem''"]
  by (simp add: settingLedger_def exRole_def exRole'_def exRoleStatus_def)

text \<open>
  The setting policy: pgop agrees to set a parameter only when it is not on the denylist and the
  server either knows it as a user-settable parameter, or does not know it and its name has no
  namespace (PostgreSQL then rejects it) or a namespace the Cluster allows and pgop does not deny.
\<close>

lemma setting_policy:
  "fst (run_state (settingAllowed pg policy n) s) = Inr [] \<longleftrightarrow>
    \<not> DeniedParameter n \<and>
    (fst (run_state (pg n) s) = Inr (Some pgContextUser) \<or>
     fst (run_state (pg n) s) = Inr None \<and>
       (CHR ''.'' \<notin> set n \<or>
        takeWhile (\<lambda>c. c \<noteq> CHR ''.'') n \<notin> set DeniedSettingPrefixes \<and>
        AllowsSettingPrefix policy (takeWhile (\<lambda>c. c \<noteq> CHR ''.'') n)))"
proof -
  have "contextProblem policy n ctx = [] \<longleftrightarrow> ctx = Some pgContextUser \<or> ctx = None \<and>
      (CHR ''.'' \<notin> set n \<or> takeWhile (\<lambda>c. c \<noteq> CHR ''.'') n \<notin> set DeniedSettingPrefixes \<and>
        AllowsSettingPrefix policy (takeWhile (\<lambda>c. c \<noteq> CHR ''.'') n))" for ctx
    by (auto simp: contextProblem_def cutAt_def sprintf_nonempty split: option.splits)
  then show ?thesis
    by (cases "run_state (pg n) s") (auto simp: settingAllowed_def split: sum.splits)
qed

end
