(* ===== verification/Memberships.thy ===== *)
theory Memberships
  imports Role_Policy Pg_Server
begin

text \<open>
  Role memberships: \<open>internal/controller/role_memberships.go\<close>. The plan of statements is a function
  of the declared, the managed and the current memberships; the reconciliation checks every
  declared and every managed role against the policy first, then runs the plan and keeps the
  ledger \<open>status.managedMemberships\<close>.
\<close>

abbreviation ReasonMembershipNotAllowed :: string where "ReasonMembershipNotAllowed \<equiv> ''MembershipNotAllowed''"

section \<open>The plan\<close>

record membershipGrant =
  mgRole :: string
  mgOpts :: MembershipOptions

record membershipPlan =
  planGrant :: "membershipGrant list"
  planRevokeAdmin :: "string list"
  planRevoke :: "string list"

definition optionDiffers :: "bool option \<Rightarrow> bool option \<Rightarrow> bool" where
  "optionDiffers want have = (case want of None \<Rightarrow> False | Some w \<Rightarrow> (case have of None \<Rightarrow> True | Some h \<Rightarrow> h \<noteq> w))"

text \<open>Whether a declared membership needs a GRANT, given the current one.\<close>

definition needsGrant :: "RoleMembership \<Rightarrow> MembershipState option \<Rightarrow> bool" where
  "needsGrant d cur =
     (case cur of
        None \<Rightarrow> True
      | Some c \<Rightarrow> (mAdmin d \<and> \<not> msAdmin c) \<or> optionDiffers (mInherit d) (msInherit c) \<or> optionDiffers (mSet d) (msSet c))"

definition needsRevokeAdmin :: "RoleMembership \<Rightarrow> MembershipState option \<Rightarrow> bool" where
  "needsRevokeAdmin d cur = (case cur of None \<Rightarrow> False | Some c \<Rightarrow> msAdmin c \<and> \<not> mAdmin d)"

definition grantFor :: "RoleMembership \<Rightarrow> membershipGrant" where
  "grantFor d = \<lparr>mgRole = mRole d, mgOpts = \<lparr>optAdmin = mAdmin d, optInherit = mInherit d, optSet = mSet d\<rparr>\<rparr>"

definition diffMemberships :: "RoleMembership list \<Rightarrow> string list \<Rightarrow> MembershipState gomap \<Rightarrow> bool \<Rightarrow> membershipPlan" where
  "diffMemberships desired managed current revokeGone =
     \<lparr>planGrant = map grantFor (filter (\<lambda>d. needsGrant d (map_of current (mRole d))) desired),
      planRevokeAdmin = map mRole (filter (\<lambda>d. needsRevokeAdmin d (map_of current (mRole d))) desired),
      planRevoke = (if revokeGone
        then sortCompact (filter (\<lambda>m. map_of current m \<noteq> None \<and> m \<notin> mRole ` set desired) managed) else [])\<rparr>"

section \<open>The policy check\<close>

record membershipChecker =
  mcPolicy :: "RolePolicySpec option"
  mcManaged :: managedRoles
  mcCache :: "string gomap"

definition checkerProblem :: "'s db \<Rightarrow> membershipChecker \<Rightarrow> string \<Rightarrow> ('s, (error + string) \<times> membershipChecker) state" where
  "checkerProblem db c target =
     (case map_of (mcCache c) target of
        Some p \<Rightarrow> ret (Inr p, c)
      | None \<Rightarrow>
          if membershipNameProblem target (mcPolicy c) \<noteq> []
          then (let p = target @ '' '' @ membershipNameProblem target (mcPolicy c)
                in ret (Inr p, c\<lparr>mcCache := AList.update target p (mcCache c)\<rparr>))
          else do {
            r \<leftarrow> MembershipClosure db target;
            ret (case r of
                   Inl e \<Rightarrow> (Inl e, c)
                 | Inr closure \<Rightarrow>
                     (let p = membershipProblem target closure (mcPolicy c) (mcManaged c)
                      in (Inr p, c\<lparr>mcCache := AList.update target p (mcCache c)\<rparr>)))
          })"

text \<open>The two loops over the declared and the managed memberships.\<close>

fun checkDesired :: "'s db \<Rightarrow> membershipChecker \<Rightarrow> RoleMembership list \<Rightarrow> RoleMembership list \<times> string list
    \<Rightarrow> ('s, (error + RoleMembership list \<times> string list) \<times> membershipChecker) state" where
  "checkDesired db c [] (desired, refused) = ret (Inr (desired, refused), c)"
| "checkDesired db c (d # ds) (desired, refused) = do {
     (r, c') \<leftarrow> checkerProblem db c (mRole d);
     (case r of
        Inl e \<Rightarrow> ret (Inl e, c')
      | Inr p \<Rightarrow> checkDesired db c' ds (if p \<noteq> [] then (desired, refused @ [p]) else (desired @ [d], refused)))
   }"

fun checkManaged :: "'s db \<Rightarrow> membershipChecker \<Rightarrow> string list \<Rightarrow> string list
    \<Rightarrow> ('s, (error + string list) \<times> membershipChecker) state" where
  "checkManaged db c [] forbidden = ret (Inr forbidden, c)"
| "checkManaged db c (m # ms) forbidden = do {
     (r, c') \<leftarrow> checkerProblem db c m;
     (case r of
        Inl e \<Rightarrow> ret (Inl e, c')
      | Inr p \<Rightarrow> checkManaged db c' ms (if p \<noteq> [] then forbidden @ [m] else forbidden))
   }"

section \<open>Running the plan\<close>

type_synonym memberLedger = "unit gomap"

fun runGrants :: "'s db \<Rightarrow> string \<Rightarrow> membershipGrant list \<Rightarrow> memberLedger \<Rightarrow> ('s, memberLedger \<times> error option) state" where
  "runGrants db member [] tracked = ret (tracked, None)"
| "runGrants db member (g # gs) tracked = do {
     e \<leftarrow> GrantRole db (mgRole g) member (mgOpts g);
     (case e of
        Some x \<Rightarrow> ret (tracked, Some x)
      | None \<Rightarrow> runGrants db member gs (AList.update (mgRole g) () tracked))
   }"

fun runRevokeAdmins :: "'s db \<Rightarrow> string \<Rightarrow> string list \<Rightarrow> ('s, error option) state" where
  "runRevokeAdmins db member [] = ret None"
| "runRevokeAdmins db member (r # rs) = do {
     e \<leftarrow> RevokeAdminOption db r member;
     (case e of Some x \<Rightarrow> ret (Some x) | None \<Rightarrow> runRevokeAdmins db member rs)
   }"

fun runRevokes :: "'s db \<Rightarrow> string \<Rightarrow> string list \<Rightarrow> memberLedger \<Rightarrow> ('s, memberLedger \<times> error option) state" where
  "runRevokes db member [] tracked = ret (tracked, None)"
| "runRevokes db member (r # rs) tracked = do {
     e \<leftarrow> RevokeRole db r member;
     (case e of
        Some x \<Rightarrow> ret (tracked, Some x)
      | None \<Rightarrow> runRevokes db member rs (AList.delete r tracked))
   }"

text \<open>The three loops in order; the first error ends the run with the ledger so far.\<close>

definition runMembershipPlan :: "'s db \<Rightarrow> string \<Rightarrow> membershipPlan \<Rightarrow> memberLedger \<Rightarrow> ('s, memberLedger \<times> error option) state" where
  "runMembershipPlan db member plan tracked = do {
     (t1, e1) \<leftarrow> runGrants db member (planGrant plan) tracked;
     (case e1 of
        Some x \<Rightarrow> ret (t1, Some x)
      | None \<Rightarrow> do {
          e2 \<leftarrow> runRevokeAdmins db member (planRevokeAdmin plan);
          (case e2 of
             Some x \<Rightarrow> ret (t1, Some x)
           | None \<Rightarrow> runRevokes db member (planRevoke plan) t1)
        })
   }"

definition recordMemberships :: "Role \<Rightarrow> string list \<Rightarrow> Role" where
  "recordMemberships role ms = role\<lparr>roleStatus := (roleStatus role)\<lparr>rtManagedMemberships := ms\<rparr>\<rparr>"

definition refusedError :: "string list \<Rightarrow> string list \<Rightarrow> error option" where
  "refusedError refused revokedForbidden =
     (if refused = [] then None
      else Some (ConditionError ReasonMembershipNotAllowed (Errorf
        (''memberships not allowed: '' @ joinStr refused ''; '' @
         (if revokedForbidden \<noteq> [] then ''; revoked the membership(s) pgop had granted in '' @ joinStr revokedForbidden '', '' else []))
        [])))"

definition trackedMemberships :: "string list \<Rightarrow> RoleMembership list \<Rightarrow> MembershipState gomap \<Rightarrow> memberLedger" where
  "trackedMemberships managed desired current =
     map (\<lambda>m. (m, ())) managed @
     map (\<lambda>d. (mRole d, ())) (filter (\<lambda>d. map_of current (mRole d) \<noteq> None) desired)"

text \<open>The part of \<open>reconcileMemberships\<close> behind the checks: the allowed memberships are known.\<close>

definition applyMemberships :: "'s db \<Rightarrow> Role \<Rightarrow> string \<Rightarrow> RoleMembership list \<Rightarrow> string list \<Rightarrow> string list \<Rightarrow> MembershipState gomap
    \<Rightarrow> ('s, Role \<times> error option) state" where
  "applyMemberships db role member desired refused forbidden current =
     (let managed = rtManagedMemberships (roleStatus role);
          plan = diffMemberships desired managed current (ShouldRevokeRemovedMemberships (roleSpec role));
          revokedForbidden = filter (\<lambda>m. map_of current m \<noteq> None) forbidden
      in do {
        (tracked, e) \<leftarrow> runMembershipPlan db member (plan\<lparr>planRevoke := sortCompact (planRevoke plan @ revokedForbidden)\<rparr>)
          (trackedMemberships managed desired current);
        (case e of
           Some x \<Rightarrow> ret (recordMemberships role (mapKeys tracked), Some x)
         | None \<Rightarrow> ret (recordMemberships role (mapKeys (map (\<lambda>d. (mRole d, ())) desired)), refusedError refused revokedForbidden))
      })"

definition unsupportedOptions :: "int \<Rightarrow> RoleMembership list \<Rightarrow> error option" where
  "unsupportedOptions version desired =
     (if version < MinMembershipOptionsVersion
      then map_option (\<lambda>d. Errorf ''memberships[%s]: the inherit and set options require PostgreSQL 16 or later (server_version_num %d); remove them or upgrade the cluster''
          [mRole d, formatInt version]) (find (\<lambda>d. mInherit d \<noteq> None \<or> mSet d \<noteq> None) desired)
      else None)"

definition reconcileMemberships :: "'s db \<Rightarrow> Role \<Rightarrow> string \<Rightarrow> RolePolicySpec option \<Rightarrow> managedRoles
    \<Rightarrow> ('s, Role \<times> error option) state" where
  "reconcileMemberships db role member policy clusterRoles =
     (let requested = DesiredMemberships (roleSpec role); managed = rtManagedMemberships (roleStatus role)
      in if requested = [] \<and> managed = [] then ret (role, None)
         else do {
           (r1, c1) \<leftarrow> checkDesired db \<lparr>mcPolicy = policy, mcManaged = clusterRoles, mcCache = []\<rparr> requested ([], []);
           (case r1 of
              Inl e \<Rightarrow> ret (role, Some e)
            | Inr (desired, refused) \<Rightarrow> do {
                (r2, c2) \<leftarrow> checkManaged db c1 managed [];
                (case r2 of
                   Inl e \<Rightarrow> ret (role, Some e)
                 | Inr forbidden \<Rightarrow> do {
                     v \<leftarrow> ServerVersionNum db;
                     (case v of
                        Inl e \<Rightarrow> ret (role, Some e)
                      | Inr version \<Rightarrow>
                          (case unsupportedOptions version desired of
                             Some e \<Rightarrow> ret (role, Some e)
                           | None \<Rightarrow> do {
                               l \<leftarrow> ListMemberships db member version;
                               (case l of
                                  Inl e \<Rightarrow> ret (role, Some e)
                                | Inr current \<Rightarrow> applyMemberships db role member desired refused forbidden current)
                             }))
                   })
              })
         })"

end
