(* ===== verification/Memberships_Correct.thy ===== *)
theory Memberships_Correct
  imports Memberships
begin

text \<open>
  The memberships of a role on a server: the contract \<open>membership_server\<close> of GRANT and REVOKE of a
  role and of the three catalog queries, what each loop of \<open>reconcileMemberships\<close> does, and the
  properties of the whole reconciliation with instances on the reference server.
\<close>

section \<open>The contract\<close>

text \<open>
  The membership a GRANT leaves behind: the options it names are as named, ADMIN is never taken
  away, and the options of an existing membership it does not name stay.
\<close>

definition grantedMembership :: "MembershipState option \<Rightarrow> bool \<Rightarrow> bool option \<Rightarrow> bool option \<Rightarrow> MembershipState \<Rightarrow> bool" where
  "grantedMembership old a i se new \<longleftrightarrow>
     msAdmin new = (a \<or> (case old of None \<Rightarrow> False | Some m \<Rightarrow> msAdmin m)) \<and>
     (case i of Some b \<Rightarrow> msInherit new = Some b | None \<Rightarrow> (\<forall>m. old = Some m \<longrightarrow> msInherit new = msInherit m)) \<and>
     (case se of Some b \<Rightarrow> msSet new = Some b | None \<Rightarrow> (\<forall>m. old = Some m \<longrightarrow> msSet new = msSet m))"

text \<open>
  A statement that reports success has its effect. One that reports an error has no effect, or had
  its whole effect and the answer was lost, as when the connection breaks after the commit. Queries
  change nothing.
\<close>

locale membership_server =
  fixes db :: "'s db" and scs :: bool and memb :: "'s \<Rightarrow> string \<times> string \<Rightarrow> MembershipState option"
    and closureOf :: "'s \<Rightarrow> string \<Rightarrow> ReachableRole list" and version :: int
  assumes exec_grant: "parseMember scs q = Some (GrantRoleStmt r m a i se) \<Longrightarrow>
      wp (execDb db q) (\<lambda>e s'. (e \<noteq> None \<and> memb s' = memb s) \<or>
        (\<exists>new. grantedMembership (memb s (r, m)) a i se new \<and> memb s' = (memb s)((r, m) := Some new))) s"
    and exec_revoke_admin: "parseMember scs q = Some (RevokeAdminStmt r m) \<Longrightarrow>
      wp (execDb db q) (\<lambda>e s'. (e \<noteq> None \<and> memb s' = memb s) \<or>
        memb s' = (memb s)((r, m) := map_option (\<lambda>x. x\<lparr>msAdmin := False\<rparr>) (memb s (r, m)))) s"
    and exec_revoke: "parseMember scs q = Some (RevokeRoleStmt r m) \<Longrightarrow>
      wp (execDb db q) (\<lambda>e s'. (e \<noteq> None \<and> memb s' = memb s) \<or> memb s' = (memb s)((r, m) := None)) s"
    and query_closure: "wp (queryDb db membershipClosureQuery [SText r]) (\<lambda>x s'. s' = s \<and>
      (\<forall>rows. x = Inr (rows, None) \<longrightarrow> rows = map reachedRow (closureOf s r))) s"
    and query_members: "wp (queryDb db (listMembershipsQuery version) [SText m]) (\<lambda>x s'. s' = s \<and>
      (\<forall>rows. x = Inr (rows, None) \<longrightarrow> (\<exists>ms. rows = map memberRow ms \<and> distinct (map fst ms) \<and> (\<forall>r. map_of ms r = memb s (r, m))))) s"
    and query_version: "wp (queryDb db serverVersionQuery []) (\<lambda>x s'. s' = s \<and>
      (\<exists>t. catalogRow (Some [SText t]) x \<and> atoi (trimSpace t) = Some version)) s"

text \<open>Errors of a statement or a query are plain errors, never condition errors.\<close>

definition plainError :: "error \<Rightarrow> bool" where
  "plainError x \<longleftrightarrow> (\<forall>r y. x \<noteq> ConditionError r y)"

definition wrapped :: "error option \<Rightarrow> bool" where
  "wrapped e \<longleftrightarrow> (\<forall>x. e = Some x \<longrightarrow> plainError x)"

lemma plainError_simps [simp]: "plainError (Wrapf f xs y)" "plainError (Errorf f xs)"
  by (simp_all add: plainError_def)

text \<open>Scanning the rows a list of values was rendered to gives the values back.\<close>

lemma scanRows_map: "(\<And>x. scan (row x) = Inr x) \<Longrightarrow> scanRows scan (map row xs) = Inr xs"
  by (induction xs) auto

lemma queryRows_post:
  assumes "wp (queryDb db q args) (\<lambda>x s'. s' = s \<and> (\<forall>rows. x = Inr (rows, None) \<longrightarrow> (\<exists>xs. rows = map row xs \<and> P xs))) s"
    and "\<And>x. scan (row x) = Inr x"
  shows "wp (queryRows db q args scan fmt fs scanFmt) (\<lambda>x s'. s' = s \<and> (\<forall>xs. x = Inr xs \<longrightarrow> P xs) \<and> (\<forall>e. x = Inl e \<longrightarrow> plainError e)) s"
proof -
  let ?res = "\<lambda>x. case x of Inl e \<Rightarrow> Inl (Wrapf fmt fs e)
      | Inr (rows, streamErr) \<Rightarrow> (case scanRows scan rows of Inl e \<Rightarrow> Inl (Wrapf scanFmt [] e)
          | Inr out \<Rightarrow> (case streamErr of Some e \<Rightarrow> Inl (Wrapf fmt fs e) | None \<Rightarrow> Inr out))"
  have plain: "\<forall>e. ?res x = Inl e \<longrightarrow> plainError e" for x
    by (auto split: sum.splits option.splits)
  have step: "\<forall>xs. (case x of Inl e \<Rightarrow> Inl (Wrapf fmt fs e)
      | Inr (rows, streamErr) \<Rightarrow> (case scanRows scan rows of Inl e \<Rightarrow> Inl (Wrapf scanFmt [] e)
          | Inr out \<Rightarrow> (case streamErr of Some e \<Rightarrow> Inl (Wrapf fmt fs e) | None \<Rightarrow> Inr out))) = Inr xs \<longrightarrow> P xs"
    if x: "\<forall>rows. x = Inr (rows, None) \<longrightarrow> (\<exists>xs. rows = map row xs \<and> P xs)" for x
  proof (cases x)
    case (Inr p)
    obtain rows e where p: "p = (rows, e)" by (cases p)
    show ?thesis
    proof (cases e)
      case None
      with x Inr p obtain xs where "rows = map row xs" "P xs" by blast
      with Inr p None scanRows_map [of scan row xs, OF assms(2)] show ?thesis by simp
    qed (simp add: Inr p split: sum.splits)
  qed simp
  show ?thesis
    unfolding queryRows_def wp_bind wp_ret
    by (rule wp_mono [OF assms(1)], elim conjE, intro conjI, assumption, rule step, assumption, rule plain)
qed

lemma scanReached_row: "scanReached (reachedRow r) = Inr r"
  by (simp add: scanReached_def reachedRow_def)

lemma scanMembership_row: "scanMembership (memberRow x) = Inr x"
  by (cases x) (auto simp: scanMembership_def memberRow_def nullBool_def split: option.splits)

lemma map_of_foldl_update:
  "distinct (map fst ms) \<Longrightarrow> map_of (foldl (\<lambda>m (n, st). AList.update n st m) [] ms) = map_of ms"
proof (induction ms rule: rev_induct)
  case (snoc x ms)
  obtain n st where x: "x = (n, st)" by (cases x)
  from snoc have "map_of ms n = None" by (auto simp: x map_of_eq_None_iff)
  with snoc show ?case by (auto simp: x map_simps fun_eq_iff map_add_def split: option.splits)
qed simp

text \<open>Names PostgreSQL does not cut.\<close>

definition validRole :: "string \<Rightarrow> bool" where
  "validRole r \<longleftrightarrow> r \<noteq> [] \<and> length r \<le> nameDataLen"

text \<open>A role is allowed as a target when the policy finds no problem with what it reaches.\<close>

definition allowedTarget :: "RolePolicySpec option \<Rightarrow> managedRoles \<Rightarrow> (string \<Rightarrow> ReachableRole list) \<Rightarrow> string \<Rightarrow> bool" where
  "allowedTarget policy managed closure t \<longleftrightarrow> membershipProblem t (closure t) policy managed = []"

definition checkerSound :: "(string \<Rightarrow> ReachableRole list) \<Rightarrow> membershipChecker \<Rightarrow> bool" where
  "checkerSound closure c \<longleftrightarrow> (\<forall>t p. map_of (mcCache c) t = Some p \<longrightarrow> p = membershipProblem t (closure t) (mcPolicy c) (mcManaged c))"

context membership_server
begin

lemma MembershipClosure_post:
  "wp (MembershipClosure db t) (\<lambda>x s'. s' = s \<and> (\<forall>cl. x = Inr cl \<longrightarrow> cl = closureOf s t) \<and> (\<forall>e. x = Inl e \<longrightarrow> plainError e)) s"
  unfolding MembershipClosure_def
  by (rule queryRows_post [where row = reachedRow, OF _ scanReached_row], rule wp_mono [OF query_closure]) blast

lemma ListMemberships_post:
  "wp (ListMemberships db m version) (\<lambda>x s'. s' = s \<and> (\<forall>cur. x = Inr cur \<longrightarrow> (\<forall>r. map_of cur r = memb s (r, m))) \<and>
    (\<forall>e. x = Inl e \<longrightarrow> plainError e)) s"
proof -
  let ?P = "\<lambda>ms. distinct (map fst ms) \<and> (\<forall>r. map_of ms r = memb s (r, m))"
  have "wp (queryDb db (listMembershipsQuery version) [SText m])
      (\<lambda>x s'. s' = s \<and> (\<forall>rows. x = Inr (rows, None) \<longrightarrow> (\<exists>ms. rows = map memberRow ms \<and> ?P ms))) s"
    by (rule query_members)
  note rows = queryRows_post [where row = memberRow and P = ?P, OF this scanMembership_row]
  show ?thesis
    unfolding ListMemberships_def wp_bind wp_ret
    by (rule wp_mono [OF rows]) (auto simp: map_of_foldl_update split: sum.splits)
qed

lemma ServerVersionNum_post:
  "wp (ServerVersionNum db) (\<lambda>x s'. s' = s \<and> (\<forall>v. x = Inr v \<longrightarrow> v = version) \<and> (\<forall>e. x = Inl e \<longrightarrow> plainError e)) s"
proof -
  let ?res = "\<lambda>x. case scanned scanText (firstRow x) of
        Inl e \<Rightarrow> Inl (Wrapf ''failed to read server version: %w'' [] e)
      | Inr t \<Rightarrow> (case atoi (trimSpace t) of
          None \<Rightarrow> Inl (Wrapf ''failed to parse server_version_num %q: %w'' [t] (Errorf ''strconv.Atoi: parsing %q'' [trimSpace t]))
        | Some n \<Rightarrow> Inr n)"
  have plain: "\<forall>e. ?res x = Inl e \<longrightarrow> plainError e" for x
    by (auto split: sum.splits option.splits)
  have step: "\<forall>v. (case scanned scanText (firstRow x) of
        Inl e \<Rightarrow> Inl (Wrapf ''failed to read server version: %w'' [] e)
      | Inr t \<Rightarrow> (case atoi (trimSpace t) of
          None \<Rightarrow> Inl (Wrapf ''failed to parse server_version_num %q: %w'' [t] (Errorf ''strconv.Atoi: parsing %q'' [trimSpace t]))
        | Some n \<Rightarrow> Inr n)) = Inr v \<longrightarrow> v = version"
    if "catalogRow (Some [SText t]) x" "atoi (trimSpace t) = Some version" for x t
    using that(1) by (cases rule: firstRow_catalog) (auto simp: scanned_def scanText_def that(2))
  show ?thesis
    unfolding ServerVersionNum_def queryRow_def wp_bind wp_ret
    by (rule wp_mono [OF query_version]) (use step plain in blast)
qed

lemma checkerProblem_post:
  assumes "checkerSound (closureOf s) c"
  shows "wp (checkerProblem db c t) (\<lambda>(r, c') s'. s' = s \<and> mcPolicy c' = mcPolicy c \<and> mcManaged c' = mcManaged c \<and>
    checkerSound (closureOf s) c' \<and> (case r of Inr p \<Rightarrow> p = membershipProblem t (closureOf s t) (mcPolicy c) (mcManaged c) | Inl e \<Rightarrow> plainError e)) s"
proof (cases "map_of (mcCache c) t")
  case (Some p)
  with assms show ?thesis by (simp add: checkerProblem_def wp_ret checkerSound_def)
next
  case None
  have upd: "checkerSound (closureOf s) (c\<lparr>mcCache := AList.update t p (mcCache c)\<rparr>)"
    if "p = membershipProblem t (closureOf s t) (mcPolicy c) (mcManaged c)" for p
    using assms that by (simp add: checkerSound_def map_simps)
  show ?thesis
  proof (cases "membershipNameProblem t (mcPolicy c) = []")
    case False
    then have "t @ '' '' @ membershipNameProblem t (mcPolicy c) = membershipProblem t (closureOf s t) (mcPolicy c) (mcManaged c)"
      by (simp add: membershipProblem_def)
    with None False upd show ?thesis by (simp add: checkerProblem_def Let_def wp_ret)
  next
    case True
    have "wp (MembershipClosure db t) (\<lambda>r. wp (ret (case r of
        Inl e \<Rightarrow> (Inl e, c)
      | Inr closure \<Rightarrow> let p = membershipProblem t closure (mcPolicy c) (mcManaged c)
          in (Inr p, c\<lparr>mcCache := AList.update t p (mcCache c)\<rparr>))) (\<lambda>(r, c') s'. s' = s \<and> mcPolicy c' = mcPolicy c \<and> mcManaged c' = mcManaged c \<and>
        checkerSound (closureOf s) c' \<and> (case r of Inr p \<Rightarrow> p = membershipProblem t (closureOf s t) (mcPolicy c) (mcManaged c) | Inl e \<Rightarrow> plainError e))) s"
      by (rule wp_mono [OF MembershipClosure_post]) (use upd assms in \<open>auto simp: wp_ret Let_def split: sum.splits\<close>)
    with None True show ?thesis by (simp add: checkerProblem_def wp_bind)
  qed
qed

abbreviation okTarget :: "'s \<Rightarrow> membershipChecker \<Rightarrow> string \<Rightarrow> bool" where
  "okTarget s c \<equiv> allowedTarget (mcPolicy c) (mcManaged c) (closureOf s)"

lemma checkDesired_post:
  assumes "checkerSound (closureOf s) c"
  shows "wp (checkDesired db c ds (D, R)) (\<lambda>(r, c') s'. s' = s \<and> mcPolicy c' = mcPolicy c \<and> mcManaged c' = mcManaged c \<and>
    checkerSound (closureOf s) c' \<and>
    (\<forall>e. r = Inl e \<longrightarrow> plainError e) \<and> (\<forall>D' R'. r = Inr (D', R') \<longrightarrow> D' = D @ filter (\<lambda>d. okTarget s c (mRole d)) ds \<and>
      (R' = [] \<longleftrightarrow> R = [] \<and> (\<forall>d \<in> set ds. okTarget s c (mRole d))))) s"
  using assms
proof (induction ds arbitrary: c D R)
  case Nil
  then show ?case by (simp add: wp_ret)
next
  case (Cons d ds)
  show ?case
    unfolding checkDesired.simps wp_bind wp_case_prod
  proof (rule wp_mono [OF checkerProblem_post [OF Cons.prems]], goal_cases)
    case (1 a s')
    obtain r c' where a: "a = (r, c')" by (cases a)
    from 1 have c': "s' = s" "mcPolicy c' = mcPolicy c" "mcManaged c' = mcManaged c" "checkerSound (closureOf s) c'"
      "\<forall>p. r = Inr p \<longrightarrow> (p = [] \<longleftrightarrow> okTarget s c (mRole d))" "\<forall>e. r = Inl e \<longrightarrow> plainError e"
      by (auto simp: a allowedTarget_def)
    show ?case
    proof (cases r)
      case (Inl e)
      with c' show ?thesis by (simp add: a wp_ret)
    next
      case (Inr p)
      obtain D1 R1 where DR: "(if p \<noteq> [] then (D, R @ [p]) else (D @ [d], R)) = (D1, R1)" by (cases "p = []") auto
      show ?thesis
        unfolding a Inr prod.case sum.case DR c'(1)
        by (rule wp_mono [OF Cons.IH [OF c'(4), of D1 R1]])
          (use c' Inr DR in \<open>auto split: if_splits\<close>)
    qed
  qed
qed

lemma checkManaged_post:
  assumes "checkerSound (closureOf s) c"
  shows "wp (checkManaged db c ms F) (\<lambda>(r, c') s'. s' = s \<and>
    (\<forall>e. r = Inl e \<longrightarrow> plainError e) \<and> (\<forall>F'. r = Inr F' \<longrightarrow> F' = F @ filter (\<lambda>m. \<not> okTarget s c m) ms)) s"
  using assms
proof (induction ms arbitrary: c F)
  case Nil
  then show ?case by (simp add: wp_ret)
next
  case (Cons m ms)
  show ?case
    unfolding checkManaged.simps wp_bind wp_case_prod
  proof (rule wp_mono [OF checkerProblem_post [OF Cons.prems]], goal_cases)
    case (1 a s')
    obtain r c' where a: "a = (r, c')" by (cases a)
    from 1 have c': "s' = s" "mcPolicy c' = mcPolicy c" "mcManaged c' = mcManaged c" "checkerSound (closureOf s) c'"
      "\<forall>p. r = Inr p \<longrightarrow> (p = [] \<longleftrightarrow> okTarget s c m)" "\<forall>e. r = Inl e \<longrightarrow> plainError e"
      by (auto simp: a allowedTarget_def)
    show ?case
    proof (cases r)
      case (Inl e)
      with c' show ?thesis by (simp add: a wp_ret)
    next
      case (Inr p)
      show ?thesis
        unfolding a Inr prod.case sum.case c'(1)
        by (rule wp_mono [OF Cons.IH [OF c'(4)]]) (use c' Inr in auto)
    qed
  qed
qed

lemma GrantRole_post:
  assumes "validRole r" "validRole m"
  shows "wp (GrantRole db r m opts) (\<lambda>e s'. wrapped e \<and> ((e \<noteq> None \<and> memb s' = memb s) \<or>
      (\<exists>new. grantedMembership (memb s (r, m)) (optAdmin opts) (optInherit opts) (optSet opts) new \<and> memb s' = (memb s)((r, m) := Some new)))) s"
proof -
  have "parseMember scs (buildGrantRoleQuery r m opts) = Some (GrantRoleStmt r m (optAdmin opts) (optInherit opts) (optSet opts))"
    using assms by (intro buildGrantRoleQuery_reads) (auto simp: validRole_def)
  from exec_grant [OF this] show ?thesis
    unfolding GrantRole_def execWrap_def wp_bind wp_ret by (rule wp_mono) (auto simp: wrapped_def)
qed

lemma RevokeAdminOption_post:
  assumes "validRole r" "validRole m"
  shows "wp (RevokeAdminOption db r m) (\<lambda>e s'. wrapped e \<and> ((e \<noteq> None \<and> memb s' = memb s) \<or>
    memb s' = (memb s)((r, m) := map_option (\<lambda>x. x\<lparr>msAdmin := False\<rparr>) (memb s (r, m))))) s"
proof -
  have "parseMember scs (''REVOKE ADMIN OPTION FOR '' @ quoteIdent r @ '' FROM '' @ quoteIdent m) = Some (RevokeAdminStmt r m)"
    using assms by (intro revokeRole_reads) (auto simp: validRole_def)
  from exec_revoke_admin [OF this] show ?thesis
    unfolding RevokeAdminOption_def execWrap_def wp_bind wp_ret by (rule wp_mono) (auto simp: wrapped_def)
qed

lemma RevokeRole_post:
  assumes "validRole r" "validRole m"
  shows "wp (RevokeRole db r m) (\<lambda>e s'. wrapped e \<and> ((e \<noteq> None \<and> memb s' = memb s) \<or> memb s' = (memb s)((r, m) := None))) s"
proof -
  have "parseMember scs (''REVOKE '' @ quoteIdent r @ '' FROM '' @ quoteIdent m) = Some (RevokeRoleStmt r m)"
    using assms by (intro revokeRole_reads) (auto simp: validRole_def)
  from exec_revoke [OF this] show ?thesis
    unfolding RevokeRole_def execWrap_def wp_bind wp_ret by (rule wp_mono) (auto simp: wrapped_def)
qed

text \<open>
  What a run of GRANTs did: \<open>ks\<close> were granted and recorded, and \<open>ls\<close>, at most one and only in a run
  that failed, was granted with its answer lost.
\<close>

definition grantsRan :: "string \<Rightarrow> membershipGrant list \<Rightarrow> memberLedger \<Rightarrow> 's \<Rightarrow> memberLedger \<Rightarrow> error option \<Rightarrow> 's
    \<Rightarrow> membershipGrant list \<Rightarrow> membershipGrant list \<Rightarrow> bool" where
  "grantsRan m gs tracked s t e s' ks ls \<longleftrightarrow> set (ks @ ls) \<subseteq> set gs \<and> (e = None \<longrightarrow> set ks = set gs \<and> ls = []) \<and> length ls \<le> 1 \<and>
    dom (map_of t) = dom (map_of tracked) \<union> mgRole ` set ks \<and>
    (\<forall>x. x \<notin> (\<lambda>g. (mgRole g, m)) ` set (ks @ ls) \<longrightarrow> memb s' x = memb s x) \<and>
    (\<forall>g \<in> set (ks @ ls). \<exists>new. memb s' (mgRole g, m) = Some new \<and>
      grantedMembership (memb s (mgRole g, m)) (optAdmin (mgOpts g)) (optInherit (mgOpts g)) (optSet (mgOpts g)) new)"

lemma grantsRan_step:
  assumes r: "grantsRan m gs (AList.update (mgRole g) () tracked) s1 t e s' ks ls" and fresh: "mgRole g \<notin> mgRole ` set gs"
    and s1: "memb s1 = (memb s)((mgRole g, m) := Some new)"
    and new: "grantedMembership (memb s (mgRole g, m)) (optAdmin (mgOpts g)) (optInherit (mgOpts g)) (optSet (mgOpts g)) new"
  shows "grantsRan m (g # gs) tracked s t e s' (g # ks) ls"
proof -
  from r have ks: "set (ks @ ls) \<subseteq> set gs" "e = None \<longrightarrow> set ks = set gs \<and> ls = []" "length ls \<le> 1"
      "dom (map_of t) = dom (map_of (AList.update (mgRole g) () tracked)) \<union> mgRole ` set ks"
      "\<forall>x. x \<notin> (\<lambda>g. (mgRole g, m)) ` set (ks @ ls) \<longrightarrow> memb s' x = memb s1 x"
      "\<forall>g \<in> set (ks @ ls). \<exists>new. memb s' (mgRole g, m) = Some new \<and>
        grantedMembership (memb s1 (mgRole g, m)) (optAdmin (mgOpts g)) (optInherit (mgOpts g)) (optSet (mgOpts g)) new"
    unfolding grantsRan_def by blast+
  have other: "mgRole g' \<noteq> mgRole g" if "g' \<in> set (ks @ ls)" for g' using that ks(1) fresh by (metis image_eqI subsetD)
  then have "(mgRole g, m) \<notin> (\<lambda>g. (mgRole g, m)) ` set (ks @ ls)" by (auto simp: image_iff dest: sym)
  then have "memb s' (mgRole g, m) = Some new" using ks(5) s1 by simp
  moreover have "\<exists>new. memb s' (mgRole g', m) = Some new \<and>
      grantedMembership (memb s (mgRole g', m)) (optAdmin (mgOpts g')) (optInherit (mgOpts g')) (optSet (mgOpts g')) new"
    if "g' \<in> set (ks @ ls)" for g' using bspec [OF ks(6) that] other [OF that] s1 by simp
  moreover have "memb s' x = memb s x" if "x \<notin> (\<lambda>g. (mgRole g, m)) ` set ((g # ks) @ ls)" for x
  proof -
    have "x \<notin> (\<lambda>g. (mgRole g, m)) ` set (ks @ ls)" "x \<noteq> (mgRole g, m)" using that by simp_all
    with ks(5) have "memb s' x = memb s1 x" "x \<noteq> (mgRole g, m)" by blast+
    then show ?thesis using s1 by simp
  qed
  ultimately show ?thesis
    unfolding grantsRan_def using ks(1-4) new by (intro conjI) (auto simp: dom_update)
qed

lemma runGrants_post:
  assumes "\<forall>g \<in> set gs. validRole (mgRole g)" "validRole m" "distinct (map mgRole gs)"
  shows "wp (runGrants db m gs tracked) (\<lambda>(t, e) s'. wrapped e \<and> (\<exists>ks ls. grantsRan m gs tracked s t e s' ks ls)) s"
  using assms
proof (induction gs arbitrary: tracked s)
  case Nil
  have "grantsRan m [] tracked s tracked None s [] []" by (simp add: grantsRan_def)
  then show ?case by (auto simp: wp_ret wrapped_def)
next
  case (Cons g gs)
  have v: "validRole (mgRole g)" using Cons.prems by simp
  show ?case
    unfolding runGrants.simps wp_bind
  proof (rule wp_mono [OF GrantRole_post [OF v Cons.prems(2)]], elim conjE, goal_cases)
    case (1 e s1)
    show ?case
    proof (cases e)
      case (Some x)
      have "\<exists>ls. grantsRan m (g # gs) tracked s tracked (Some x) s1 [] ls"
      proof (cases "memb s1 = memb s")
        case True
        then have "grantsRan m (g # gs) tracked s tracked (Some x) s1 [] []" by (simp add: grantsRan_def)
        then show ?thesis by blast
      next
        case False
        with 1(2) have "\<exists>new. grantedMembership (memb s (mgRole g, m)) (optAdmin (mgOpts g)) (optInherit (mgOpts g)) (optSet (mgOpts g)) new \<and>
            memb s1 = (memb s)((mgRole g, m) := Some new)" by blast
        then have "grantsRan m (g # gs) tracked s tracked (Some x) s1 [] [g]" by (auto simp: grantsRan_def)
        then show ?thesis by blast
      qed
      with 1(1) Some show ?thesis by (auto simp: wp_ret)
    next
      case None
      with 1 obtain new where new: "memb s1 = (memb s)((mgRole g, m) := Some new)"
        "grantedMembership (memb s (mgRole g, m)) (optAdmin (mgOpts g)) (optInherit (mgOpts g)) (optSet (mgOpts g)) new" by auto
      have fresh: "mgRole g \<notin> mgRole ` set gs" using Cons.prems(3) by simp
      have "wp (runGrants db m gs (AList.update (mgRole g) () tracked))
          (\<lambda>(t, e) s'. wrapped e \<and> (\<exists>ks ls. grantsRan m (g # gs) tracked s t e s' ks ls)) s1"
      proof (rule wp_mono [OF Cons.IH], goal_cases)
        case (4 a s2)
        then show ?case using grantsRan_step [OF _ fresh new] by (cases a) (simp only: prod.case, blast)
      qed (use Cons.prems in auto)
      with None show ?thesis by simp
    qed
  qed
qed

lemma runRevokeAdmins_post:
  assumes "\<forall>r \<in> set rs. validRole r" "validRole m"
  shows "wp (runRevokeAdmins db m rs) (\<lambda>e s'. wrapped e \<and> (\<exists>ks. set ks \<subseteq> set rs \<and> (e = None \<longrightarrow> set ks = set rs) \<and>
    memb s' = (\<lambda>x. if snd x = m \<and> fst x \<in> set ks then map_option (\<lambda>y. y\<lparr>msAdmin := False\<rparr>) (memb s x) else memb s x))) s"
  using assms
proof (induction rs arbitrary: s)
  case Nil
  then show ?case by (simp add: wp_ret wrapped_def)
next
  case (Cons r rs)
  have v: "validRole r" using Cons.prems by simp
  show ?case
    unfolding runRevokeAdmins.simps wp_bind
  proof (rule wp_mono [OF RevokeAdminOption_post [OF v Cons.prems(2)]], elim conjE, goal_cases)
    case (1 e s1)
    show ?case
    proof (cases e)
      case (Some x)
      have "\<exists>ks. set ks \<subseteq> {r} \<and>
          memb s1 = (\<lambda>x. if snd x = m \<and> fst x \<in> set ks then map_option (\<lambda>y. y\<lparr>msAdmin := False\<rparr>) (memb s x) else memb s x)"
      proof (cases "memb s1 = memb s")
        case True
        then show ?thesis by (intro exI [of _ "[]"]) simp
      next
        case False
        with 1(2) show ?thesis by (intro exI [of _ "[r]"]) (auto simp: fun_eq_iff)
      qed
      with 1(1) Some show ?thesis by (auto simp: wp_ret)
    next
      case None
      with 1 have s1: "memb s1 = (memb s)((r, m) := map_option (\<lambda>x. x\<lparr>msAdmin := False\<rparr>) (memb s (r, m)))" by simp
      have "wp (runRevokeAdmins db m rs) (\<lambda>e s'. wrapped e \<and> (\<exists>ks. set ks \<subseteq> set (r # rs) \<and> (e = None \<longrightarrow> set ks = set (r # rs)) \<and>
          memb s' = (\<lambda>x. if snd x = m \<and> fst x \<in> set ks then map_option (\<lambda>y. y\<lparr>msAdmin := False\<rparr>) (memb s x) else memb s x))) s1"
      proof (rule wp_mono [OF Cons.IH], goal_cases)
        case (3 e' s2)
        then obtain ks where ks: "wrapped e'" "set ks \<subseteq> set rs" "e' = None \<longrightarrow> set ks = set rs"
          "memb s2 = (\<lambda>x. if snd x = m \<and> fst x \<in> set ks then map_option (\<lambda>y. y\<lparr>msAdmin := False\<rparr>) (memb s1 x) else memb s1 x)" by blast
        have "memb s2 = (\<lambda>x. if snd x = m \<and> fst x \<in> set (r # ks) then map_option (\<lambda>y. y\<lparr>msAdmin := False\<rparr>) (memb s x) else memb s x)"
          unfolding ks(4) s1 by (auto simp: fun_eq_iff option.map_comp comp_def)
        with ks(1-3) show ?case by (intro conjI exI [of _ "r # ks"]) auto
      qed (use Cons.prems in auto)
      with None show ?thesis by simp
    qed
  qed
qed

lemma runRevokes_post:
  assumes "\<forall>r \<in> set rs. validRole r" "validRole m"
  shows "wp (runRevokes db m rs tracked) (\<lambda>(t, e) s'. wrapped e \<and> (\<exists>ks ls. set (ks @ ls) \<subseteq> set rs \<and> (e = None \<longrightarrow> set ks = set rs \<and> ls = []) \<and>
    dom (map_of t) = dom (map_of tracked) - set ks \<and>
    memb s' = (\<lambda>x. if snd x = m \<and> fst x \<in> set (ks @ ls) then None else memb s x))) s"
  using assms
proof (induction rs arbitrary: tracked s)
  case Nil
  then show ?case by (simp add: wp_ret wrapped_def)
next
  case (Cons r rs)
  have v: "validRole r" using Cons.prems by simp
  show ?case
    unfolding runRevokes.simps wp_bind
  proof (rule wp_mono [OF RevokeRole_post [OF v Cons.prems(2)]], elim conjE, goal_cases)
    case (1 e s1)
    show ?case
    proof (cases e)
      case (Some x)
      have "\<exists>ls. set ls \<subseteq> {r} \<and> memb s1 = (\<lambda>x. if snd x = m \<and> fst x \<in> set ls then None else memb s x)"
      proof (cases "memb s1 = memb s")
        case True
        then show ?thesis by (intro exI [of _ "[]"]) simp
      next
        case False
        with 1(2) show ?thesis by (intro exI [of _ "[r]"]) (auto simp: fun_eq_iff)
      qed
      then obtain ls where "set ls \<subseteq> {r}" "memb s1 = (\<lambda>x. if snd x = m \<and> fst x \<in> set ls then None else memb s x)" by blast
      with 1(1) Some show ?thesis by (simp add: wp_ret) (intro exI [of _ "[]"] exI [of _ ls], auto)
    next
      case None
      with 1 have s1: "memb s1 = (memb s)((r, m) := None)" by simp
      have "wp (runRevokes db m rs (AList.delete r tracked)) (\<lambda>(t, e) s'. wrapped e \<and> (\<exists>ks ls. set (ks @ ls) \<subseteq> set (r # rs) \<and>
          (e = None \<longrightarrow> set ks = set (r # rs) \<and> ls = []) \<and>
          dom (map_of t) = dom (map_of tracked) - set ks \<and> memb s' = (\<lambda>x. if snd x = m \<and> fst x \<in> set (ks @ ls) then None else memb s x))) s1"
      proof (rule wp_mono [OF Cons.IH], goal_cases)
        case (3 a s2)
        obtain t e' where a: "a = (t, e')" by (cases a)
        from 3 obtain ks ls where ks: "wrapped e'" "set (ks @ ls) \<subseteq> set rs" "e' = None \<longrightarrow> set ks = set rs \<and> ls = []"
          "dom (map_of t) = dom (map_of (AList.delete r tracked)) - set ks"
          "memb s2 = (\<lambda>x. if snd x = m \<and> fst x \<in> set (ks @ ls) then None else memb s1 x)" unfolding a prod.case by blast
        have "memb s2 = (\<lambda>x. if snd x = m \<and> fst x \<in> set ((r # ks) @ ls) then None else memb s x)"
          unfolding ks(5) s1 by (auto simp: fun_eq_iff)
        with ks(1-4) show ?case
          unfolding a prod.case by (intro conjI exI [of _ "r # ks"] exI [of _ ls]) (auto simp: dom_delete)
      qed (use Cons.prems in auto)
      with None show ?thesis by simp
    qed
  qed
qed

end

section \<open>The effect of a plan\<close>

text \<open>A declared membership is reached when it exists with the declared options.\<close>

definition membershipReached :: "RoleMembership \<Rightarrow> MembershipState option \<Rightarrow> bool" where
  "membershipReached d cur =
     (case cur of
        None \<Rightarrow> False
      | Some c \<Rightarrow> msAdmin c = mAdmin d \<and> \<not> optionDiffers (mInherit d) (msInherit c) \<and> \<not> optionDiffers (mSet d) (msSet c))"

definition dropAdmin :: "bool \<Rightarrow> MembershipState option \<Rightarrow> MembershipState option" where
  "dropAdmin b cur = (if b then map_option (\<lambda>y. y\<lparr>msAdmin := False\<rparr>) cur else cur)"

lemma reached_granted:
  assumes "grantedMembership old (mAdmin d) (mInherit d) (mSet d) new"
  shows "membershipReached d (dropAdmin (needsRevokeAdmin d old) (Some new))"
  using assms
  by (cases old; cases "mInherit d"; cases "mSet d")
    (auto simp: membershipReached_def dropAdmin_def needsRevokeAdmin_def grantedMembership_def optionDiffers_def)

lemma reached_kept: "\<not> needsGrant d old \<Longrightarrow> membershipReached d (dropAdmin (needsRevokeAdmin d old) old)"
  by (cases old) (auto simp: membershipReached_def dropAdmin_def needsRevokeAdmin_def needsGrant_def)

text \<open>
  What the statements of a plan did to the memberships of one member: \<open>G\<close> was granted, \<open>K\<close> was
  revoked, and a plan that ran to its end reached every declared membership.
\<close>

definition planEffect :: "RoleMembership list \<Rightarrow> string set \<Rightarrow> (string \<Rightarrow> MembershipState option) \<Rightarrow> (string \<Rightarrow> MembershipState option)
    \<Rightarrow> string set \<Rightarrow> string set \<Rightarrow> bool \<Rightarrow> bool" where
  "planEffect D R v v' G K complete \<longleftrightarrow> G \<subseteq> mRole ` set D \<and> K \<subseteq> R \<and> (\<forall>r \<in> K. v' r = None) \<and>
     (\<forall>r. v' r \<noteq> v r \<longrightarrow> r \<in> K \<or> r \<in> mRole ` set D \<and> v' r \<noteq> None \<and> (r \<in> G \<or> v r \<noteq> None)) \<and>
     (complete \<longrightarrow> K = R \<and> (\<forall>d \<in> set D. membershipReached d (v' (mRole d))))"

lemma planEffect_steps:
  assumes D: "distinct (map mRole D)" and R: "R \<inter> mRole ` set D = {}"
    and G: "Gs \<subseteq> {d \<in> set D. needsGrant d (v (mRole d))}"
    and v1: "\<forall>r. r \<notin> mRole ` Gs \<longrightarrow> v1 r = v r"
      "\<forall>d \<in> Gs. \<exists>new. v1 (mRole d) = Some new \<and> grantedMembership (v (mRole d)) (mAdmin d) (mInherit d) (mSet d) new"
    and As: "As \<subseteq> {mRole d | d. d \<in> set D \<and> needsRevokeAdmin d (v (mRole d))}"
    and v2: "\<forall>r. v2 r = dropAdmin (r \<in> As) (v1 r)"
    and K: "K \<subseteq> R" and v3: "\<forall>r. v3 r = (if r \<in> K then None else v2 r)"
    and complete: "complete \<longrightarrow> Gs = {d \<in> set D. needsGrant d (v (mRole d))} \<and>
      As = {mRole d | d. d \<in> set D \<and> needsRevokeAdmin d (v (mRole d))} \<and> K = R"
  shows "planEffect D R v v3 (mRole ` Gs) K complete"
proof -
  have uniq: "d = d'" if "d \<in> set D" "d' \<in> set D" "mRole d = mRole d'" for d d'
    using D that by (metis distinct_map inj_onD)
  have "r \<in> mRole ` set D \<and> v3 r \<noteq> None \<and> (r \<in> mRole ` Gs \<or> v r \<noteq> None)" if "v3 r \<noteq> v r" "r \<notin> K" for r
  proof -
    from that v3 v2 have c: "dropAdmin (r \<in> As) (v1 r) \<noteq> v r" "v3 r = dropAdmin (r \<in> As) (v1 r)" by auto
    show ?thesis
    proof (cases "r \<in> mRole ` Gs")
      case True
      then obtain d where d: "d \<in> Gs" "r = mRole d" by auto
      then obtain new where "v1 r = Some new" using v1(2) by blast
      with c G d show ?thesis by (auto simp: dropAdmin_def)
    next
      case False
      with v1(1) have "v1 r = v r" by blast
      with c(1) have "r \<in> As" by (metis dropAdmin_def)
      then obtain d where d: "d \<in> set D" "r = mRole d" "needsRevokeAdmin d (v (mRole d))" using As by auto
      then obtain old where "v r = Some old" by (auto simp: needsRevokeAdmin_def split: option.splits)
      with \<open>v1 r = v r\<close> c(2) d show ?thesis by (auto simp: dropAdmin_def)
    qed
  qed
  moreover have "membershipReached d (v3 (mRole d))" if "complete" "d \<in> set D" for d
  proof -
    have "mRole d \<notin> K" using K R that(2) by blast
    then have e: "v3 (mRole d) = dropAdmin (mRole d \<in> As) (v1 (mRole d))" using v3 v2 by simp
    have a: "mRole d \<in> As \<longleftrightarrow> needsRevokeAdmin d (v (mRole d))" using complete that uniq by blast
    show ?thesis
    proof (cases "needsGrant d (v (mRole d))")
      case True
      with complete that have "d \<in> Gs" by blast
      with v1(2) obtain new where "v1 (mRole d) = Some new" "grantedMembership (v (mRole d)) (mAdmin d) (mInherit d) (mSet d) new" by blast
      with reached_granted [of "v (mRole d)" d new] e a show ?thesis by simp
    next
      case False
      with G uniq that(2) have "mRole d \<notin> mRole ` Gs" by blast
      with v1(1) have "v1 (mRole d) = v (mRole d)" by blast
      with reached_kept [OF False] e a show ?thesis by simp
    qed
  qed
  ultimately show ?thesis
    unfolding planEffect_def using G K v3 complete by (auto 0 3)
qed

text \<open>What is revoked: managed memberships that are forbidden, or no longer declared when the spec asks for it.\<close>

definition toRevoke :: "Role \<Rightarrow> RoleMembership list \<Rightarrow> string set \<Rightarrow> (string \<Rightarrow> MembershipState option) \<Rightarrow> string set" where
  "toRevoke role D F v = {r \<in> set (rtManagedMemberships (roleStatus role)). v r \<noteq> None \<and>
     (r \<in> F \<or> r \<notin> mRole ` set D \<and> ShouldRevokeRemovedMemberships (roleSpec role))}"

text \<open>
  A run behind the checks, with the allowed declared memberships \<open>D\<close> and the forbidden managed
  ones \<open>F\<close>: the effect of the plan, the ledger, and the error. Of the memberships \<open>G\<close> granted and
  \<open>K\<close> revoked, \<open>G'\<close> and \<open>K'\<close> reached the ledger: in a run that failed, the one grant \<open>lost\<close> whose answer
  did not arrive is missing.
\<close>

definition membershipRun :: "Role \<Rightarrow> RoleMembership list \<Rightarrow> string set \<Rightarrow> (string \<Rightarrow> MembershipState option) \<Rightarrow> (string \<Rightarrow> MembershipState option)
    \<Rightarrow> Role \<Rightarrow> bool \<Rightarrow> error option \<Rightarrow> bool" where
  "membershipRun role D F v v' role' refused e \<longleftrightarrow> (\<exists>G K G' K' lost failed.
     planEffect D (toRevoke role D F v) v v' G K (\<not> failed) \<and>
     G' \<subseteq> G \<and> G \<subseteq> G' \<union> set_option lost \<and> K' \<subseteq> K \<and> (\<not> failed \<longrightarrow> lost = None) \<and>
     set (rtManagedMemberships (roleStatus role')) =
       (if failed then set (rtManagedMemberships (roleStatus role)) \<union> {mRole d | d. d \<in> set D \<and> v (mRole d) \<noteq> None} \<union> G' - K'
        else mRole ` set D) \<and>
     sorted (rtManagedMemberships (roleStatus role')) \<and> distinct (rtManagedMemberships (roleStatus role')) \<and>
     roleSpec role' = roleSpec role \<and>
     (if failed then e \<noteq> None \<and> wrapped e
      else if refused then (\<exists>x. e = Some (ConditionError ReasonMembershipNotAllowed x)) else e = None))"

text \<open>The names the CRD admits: no name is empty or longer than PostgreSQL keeps.\<close>

definition wfMemberships :: "Role \<Rightarrow> string \<Rightarrow> bool" where
  "wfMemberships role m \<longleftrightarrow> validRole m \<and> (\<forall>d \<in> set (DesiredMemberships (roleSpec role)). validRole (mRole d)) \<and>
     (\<forall>r \<in> set (rtManagedMemberships (roleStatus role)). validRole r)"

context membership_server
begin

text \<open>The state a run of a plan may leave: other members untouched, the effect of the plan on this one.\<close>

definition planPost :: "string \<Rightarrow> RoleMembership list \<Rightarrow> string set \<Rightarrow> memberLedger \<Rightarrow> 's \<Rightarrow> memberLedger \<Rightarrow> error option \<Rightarrow> 's \<Rightarrow> bool" where
  "planPost m D R tracked s t e s' \<longleftrightarrow> wrapped e \<and> (\<forall>r x. x \<noteq> m \<longrightarrow> memb s' (r, x) = memb s (r, x)) \<and>
     (\<exists>G K G' K' lost. planEffect D R (\<lambda>r. memb s (r, m)) (\<lambda>r. memb s' (r, m)) G K (e = None) \<and>
        G' \<subseteq> G \<and> G \<subseteq> G' \<union> set_option lost \<and> K' \<subseteq> K \<and> (e = None \<longrightarrow> lost = None) \<and>
        dom (map_of t) = (dom (map_of tracked) \<union> G') - K')"

lemma planPost_intro:
  assumes "wrapped e" and D: "distinct (map mRole D)" and R: "R \<inter> mRole ` set D = {}"
    and gs: "set (ks @ ls) \<subseteq> grantFor ` {d \<in> set D. needsGrant d (memb s (mRole d, m))}"
    and s1: "\<forall>x. x \<notin> (\<lambda>g. (mgRole g, m)) ` set (ks @ ls) \<longrightarrow> memb s1 x = memb s x"
      "\<forall>g \<in> set (ks @ ls). \<exists>new. memb s1 (mgRole g, m) = Some new \<and>
        grantedMembership (memb s (mgRole g, m)) (optAdmin (mgOpts g)) (optInherit (mgOpts g)) (optSet (mgOpts g)) new"
    and As: "As \<subseteq> {mRole d | d. d \<in> set D \<and> needsRevokeAdmin d (memb s (mRole d, m))}"
    and s2: "\<forall>x. memb s2 x = (if snd x = m \<and> fst x \<in> As then map_option (\<lambda>y. y\<lparr>msAdmin := False\<rparr>) (memb s1 x) else memb s1 x)"
    and K: "K \<subseteq> R" and s3: "\<forall>x. memb s3 x = (if snd x = m \<and> fst x \<in> K then None else memb s2 x)"
    and lost: "length ls \<le> 1" "e = None \<longrightarrow> ls = []" and K': "K' \<subseteq> K"
    and complete: "e = None \<longrightarrow> set (ks @ ls) = grantFor ` {d \<in> set D. needsGrant d (memb s (mRole d, m))} \<and>
      As = {mRole d | d. d \<in> set D \<and> needsRevokeAdmin d (memb s (mRole d, m))} \<and> K = R"
    and t: "dom (map_of t) = (dom (map_of tracked) \<union> mgRole ` set ks) - K'"
  shows "planPost m D R tracked s t e s3"
proof -
  define gs where "gs = ks @ ls"
  define Gs where "Gs = {d \<in> set D. needsGrant d (memb s (mRole d, m)) \<and> grantFor d \<in> set gs}"
  have role [simp]: "mgRole (grantFor d) = mRole d" for d by (simp add: grantFor_def)
  have gsGs: "set gs = grantFor ` Gs" unfolding Gs_def using gs unfolding gs_def by blast
  then have img: "mgRole ` set gs = mRole ` Gs" by (simp add: image_image)
  have "planEffect D R (\<lambda>r. memb s (r, m)) (\<lambda>r. memb s3 (r, m)) (mRole ` Gs) K (e = None)"
  proof (rule planEffect_steps [where ?v1.0 = "\<lambda>r. memb s1 (r, m)" and ?v2.0 = "\<lambda>r. memb s2 (r, m)" and As = As])
    show "\<forall>r. r \<notin> mRole ` Gs \<longrightarrow> memb s1 (r, m) = memb s (r, m)"
      unfolding img [symmetric] using s1(1) unfolding gs_def by (simp add: image_iff)
    show "\<forall>d \<in> Gs. \<exists>new. memb s1 (mRole d, m) = Some new \<and> grantedMembership (memb s (mRole d, m)) (mAdmin d) (mInherit d) (mSet d) new"
      using s1(2) unfolding gs_def [symmetric] gsGs by (simp add: grantFor_def)
    show "\<forall>r. memb s2 (r, m) = dropAdmin (r \<in> As) (memb s1 (r, m))" using s2 by (simp add: dropAdmin_def)
    show "e = None \<longrightarrow> Gs = {d \<in> set D. needsGrant d (memb s (mRole d, m))} \<and>
      As = {mRole d | d. d \<in> set D \<and> needsRevokeAdmin d (memb s (mRole d, m))} \<and> K = R"
      using complete unfolding Gs_def gs_def by blast
  qed (use D R As K s3 in \<open>auto simp: Gs_def\<close>)
  moreover have "\<forall>r x. x \<noteq> m \<longrightarrow> memb s3 (r, x) = memb s (r, x)" using s1(1) s2 s3 by (simp add: image_iff)
  moreover have "mgRole ` set ks \<subseteq> mRole ` Gs" "mRole ` Gs \<subseteq> mgRole ` set ks \<union> set_option (case ls of [] \<Rightarrow> None | l # _ \<Rightarrow> Some (mgRole l))"
    unfolding img [symmetric] gs_def using lost(1) by (auto split: list.splits)
  moreover have "e = None \<longrightarrow> (case ls of [] \<Rightarrow> None | l # _ \<Rightarrow> Some (mgRole l)) = None" using lost(2) by simp
  ultimately show ?thesis unfolding planPost_def using assms(1) t K' by blast
qed

lemma runMembershipPlan_post:
  assumes D: "distinct (map mRole D)" and R: "set rs \<inter> mRole ` set D = {}"
    and valid: "\<forall>d \<in> set D. validRole (mRole d)" "\<forall>r \<in> set rs. validRole r" "validRole m"
    and cur: "\<forall>r. map_of current r = memb s (r, m)"
    and plan: "planGrant plan = map grantFor (filter (\<lambda>d. needsGrant d (map_of current (mRole d))) D)"
      "planRevokeAdmin plan = map mRole (filter (\<lambda>d. needsRevokeAdmin d (map_of current (mRole d))) D)"
      "planRevoke plan = rs"
  shows "wp (runMembershipPlan db m plan tracked) (\<lambda>(t, e) s'. planPost m D (set rs) tracked s t e s') s"
proof -
  let ?gs = "planGrant plan" and ?as = "planRevokeAdmin plan"
  have roles: "map mgRole ?gs = map mRole (filter (\<lambda>d. needsGrant d (map_of current (mRole d))) D)"
    by (simp add: plan(1) comp_def grantFor_def)
  have "distinct (map mgRole ?gs)" unfolding roles by (rule distinct_map_filter [OF D])
  moreover have "\<forall>g \<in> set ?gs. validRole (mgRole g)" using valid(1) by (auto simp: plan(1) grantFor_def)
  ultimately have grants: "wp (runGrants db m ?gs tracked) (\<lambda>(t, e) s'. wrapped e \<and> (\<exists>ks ls. grantsRan m ?gs tracked s t e s' ks ls)) s"
    by (intro runGrants_post valid(3))
  have gset: "set ?gs = grantFor ` {d \<in> set D. needsGrant d (memb s (mRole d, m))}" by (auto simp: plan(1) cur)
  have aset: "set ?as = {mRole d | d. d \<in> set D \<and> needsRevokeAdmin d (memb s (mRole d, m))}" by (auto simp: plan(2) cur)
  have avalid: "\<forall>r \<in> set ?as. validRole r" using valid(1) by (auto simp: plan(2))
  note intro1 = planPost_intro [OF _ D R, where s = s]
  show ?thesis
    unfolding runMembershipPlan_def wp_bind wp_case_prod
  proof (rule wp_mono [OF grants], goal_cases)
    case (1 a s1)
    obtain t1 e1 where a: "a = (t1, e1)" by (cases a)
    from 1 obtain ks ls where ks: "wrapped e1" "set (ks @ ls) \<subseteq> set ?gs" "e1 = None \<longrightarrow> set ks = set ?gs \<and> ls = []"
      "dom (map_of t1) = dom (map_of tracked) \<union> mgRole ` set ks"
      "\<forall>x. x \<notin> (\<lambda>g. (mgRole g, m)) ` set (ks @ ls) \<longrightarrow> memb s1 x = memb s x" "length ls \<le> 1"
      "\<forall>g \<in> set (ks @ ls). \<exists>new. memb s1 (mgRole g, m) = Some new \<and>
        grantedMembership (memb s (mgRole g, m)) (optAdmin (mgOpts g)) (optInherit (mgOpts g)) (optSet (mgOpts g)) new"
      unfolding a prod.case grantsRan_def by blast
    show ?case
    proof (cases e1)
      case (Some x)
      have "planPost m D (set rs) tracked s t1 (Some x) s1"
        by (rule intro1 [where ks = ks and ls = ls and ?s1.0 = s1 and As = "{}" and ?s2.0 = s1 and K = "{}" and K' = "{}"])
          (use ks Some gset in simp_all)
      with Some show ?thesis by (simp add: a wp_ret)
    next
      case None
      have "wp (runRevokeAdmins db m ?as) (\<lambda>e2. wp (case e2 of Some x \<Rightarrow> ret (t1, Some x) | None \<Rightarrow> runRevokes db m (planRevoke plan) t1)
          (\<lambda>(t, e) s'. planPost m D (set rs) tracked s t e s')) s1"
      proof (rule wp_mono [OF runRevokeAdmins_post [OF avalid valid(3)]], goal_cases)
        case (1 e2 s2)
        then obtain as where as: "wrapped e2" "set as \<subseteq> set ?as" "e2 = None \<longrightarrow> set as = set ?as"
          "memb s2 = (\<lambda>x. if snd x = m \<and> fst x \<in> set as then map_option (\<lambda>y. y\<lparr>msAdmin := False\<rparr>) (memb s1 x) else memb s1 x)" by blast
        note intro2 = intro1 [where ks = ks and ls = ls and ?s1.0 = s1 and As = "set as" and ?s2.0 = s2]
        show ?case
        proof (cases e2)
          case (Some x)
          have "planPost m D (set rs) tracked s t1 (Some x) s2"
            by (rule intro2 [where K = "{}" and K' = "{}"]) (use ks as Some gset aset in simp_all)
          with Some show ?thesis by (simp add: wp_ret)
        next
          case None
          have "wp (runRevokes db m rs t1) (\<lambda>(t, e) s'. planPost m D (set rs) tracked s t e s') s2"
          proof (rule wp_mono [OF runRevokes_post [OF valid(2,3)]], goal_cases)
            case (1 b s3)
            obtain t3 e3 where b: "b = (t3, e3)" by (cases b)
            from 1 obtain rk rl where rk: "wrapped e3" "set (rk @ rl) \<subseteq> set rs" "e3 = None \<longrightarrow> set rk = set rs \<and> rl = []"
              "dom (map_of t3) = dom (map_of t1) - set rk"
              "memb s3 = (\<lambda>x. if snd x = m \<and> fst x \<in> set (rk @ rl) then None else memb s2 x)" unfolding b prod.case by blast
            show ?case
              unfolding b prod.case
            proof (rule intro2 [where K = "set (rk @ rl)" and K' = "set rk"])
              show "dom (map_of t3) = (dom (map_of tracked) \<union> mgRole ` set ks) - set rk" using rk(4) ks(4) by simp
              show "e3 = None \<longrightarrow> set (ks @ ls) = grantFor ` {d \<in> set D. needsGrant d (memb s (mRole d, m))} \<and>
                set as = {mRole d | d. d \<in> set D \<and> needsRevokeAdmin d (memb s (mRole d, m))} \<and> set (rk @ rl) = set rs"
              proof
                assume "e3 = None"
                with rk(3) have "set (rk @ rl) = set rs" by simp
                moreover have "set (ks @ ls) = set ?gs" using ks(3) \<open>e1 = None\<close> by simp
                moreover have "set as = set ?as" using as(3) None by simp
                ultimately show "set (ks @ ls) = grantFor ` {d \<in> set D. needsGrant d (memb s (mRole d, m))} \<and>
                  set as = {mRole d | d. d \<in> set D \<and> needsRevokeAdmin d (memb s (mRole d, m))} \<and> set (rk @ rl) = set rs"
                  using gset aset by blast
              qed
              show "e3 = None \<longrightarrow> ls = []" using ks(3) \<open>e1 = None\<close> by simp
              show "set (ks @ ls) \<subseteq> grantFor ` {d \<in> set D. needsGrant d (memb s (mRole d, m))}" using ks(2) gset by blast
              show "set as \<subseteq> {mRole d | d. d \<in> set D \<and> needsRevokeAdmin d (memb s (mRole d, m))}" using as(2) aset by blast
            qed (use ks(5,6,7) as(4) rk(1,2,5) in simp_all)
          qed
          with None plan(3) show ?thesis by simp
        qed
      qed
      with None show ?thesis by (simp add: a wp_bind)
    qed
  qed
qed

lemma applyMemberships_post:
  assumes D: "distinct (map mRole D)" and F: "set F \<subseteq> set (rtManagedMemberships (roleStatus role))" "set F \<inter> mRole ` set D = {}"
    and valid: "\<forall>d \<in> set D. validRole (mRole d)" "\<forall>r \<in> set (rtManagedMemberships (roleStatus role)). validRole r" "validRole m"
    and cur: "\<forall>r. map_of current r = memb s (r, m)"
  shows "wp (applyMemberships db role m D refused F current) (\<lambda>(role', e) s'.
    membershipRun role D (set F) (\<lambda>r. memb s (r, m)) (\<lambda>r. memb s' (r, m)) role' (refused \<noteq> []) e \<and>
    (\<forall>r x. x \<noteq> m \<longrightarrow> memb s' (r, x) = memb s (r, x))) s"
proof -
  let ?mg = "rtManagedMemberships (roleStatus role)"
  let ?plan = "diffMemberships D ?mg current (ShouldRevokeRemovedMemberships (roleSpec role))"
  let ?rf = "filter (\<lambda>m. map_of current m \<noteq> None) F"
  define rs where "rs = sortCompact (planRevoke ?plan @ ?rf)"
  have R: "set rs = toRevoke role D (set F) (\<lambda>r. memb s (r, m))"
    using F by (auto simp: rs_def diffMemberships_def toRevoke_def cur split: if_splits)
  have "set rs \<inter> mRole ` set D = {}" "\<forall>r \<in> set rs. validRole r"
    unfolding R using F valid(2) by (auto simp: toRevoke_def)
  note post = runMembershipPlan_post [OF D this(1) valid(1) this(2) valid(3) cur,
      where plan = "?plan\<lparr>planRevoke := rs\<rparr>" and tracked = "trackedMemberships ?mg D current"]
  have tr: "dom (map_of (trackedMemberships ?mg D current)) = set ?mg \<union> {mRole d | d. d \<in> set D \<and> memb s (mRole d, m) \<noteq> None}"
    by (auto simp: trackedMemberships_def cur dom_map_of_conv_image_fst image_iff) (metis option.distinct(1))
  have fin: "dom (map_of (map (\<lambda>d. (mRole d, ())) D)) = mRole ` set D" by (force simp: dom_map_of_conv_image_fst)
  show ?thesis
    unfolding applyMemberships_def Let_def rs_def [symmetric] wp_bind wp_case_prod
  proof (rule wp_mono [OF post], goal_cases)
    case (4 a s')
    obtain t e where a: "a = (t, e)" by (cases a)
    from 4 obtain G K G' K' lost where p: "wrapped e" "\<forall>r x. x \<noteq> m \<longrightarrow> memb s' (r, x) = memb s (r, x)"
      "planEffect D (set rs) (\<lambda>r. memb s (r, m)) (\<lambda>r. memb s' (r, m)) G K (e = None)"
      "dom (map_of t) = (dom (map_of (trackedMemberships ?mg D current)) \<union> G') - K'"
      "G' \<subseteq> G" "G \<subseteq> G' \<union> set_option lost" "K' \<subseteq> K" "e = None \<longrightarrow> lost = None"
      unfolding a prod.case planPost_def by blast
    show ?case
    proof (cases e)
      case (Some x)
      let ?role' = "recordMemberships role (mapKeys t)"
      have "membershipRun role D (set F) (\<lambda>r. memb s (r, m)) (\<lambda>r. memb s' (r, m)) ?role' (refused \<noteq> []) (Some x)"
        unfolding membershipRun_def
      proof (rule exI [of _ G], rule exI [of _ K], rule exI [of _ G'], rule exI [of _ K'], rule exI [of _ lost], rule exI [of _ True], intro conjI)
        show "planEffect D (toRevoke role D (set F) (\<lambda>r. memb s (r, m))) (\<lambda>r. memb s (r, m)) (\<lambda>r. memb s' (r, m)) G K (\<not> True)"
          using p(3) Some by (simp add: R)
        show "set (rtManagedMemberships (roleStatus ?role')) =
            (if True then set (rtManagedMemberships (roleStatus role)) \<union> {mRole d | d. d \<in> set D \<and> memb s (mRole d, m) \<noteq> None} \<union> G' - K'
             else mRole ` set D)"
          using p(4) by (simp add: recordMemberships_def tr)
      qed (use p Some in \<open>simp_all add: recordMemberships_def\<close>)
      with p(2) Some show ?thesis by (simp add: a wp_ret)
    next
      case None
      let ?role' = "recordMemberships role (mapKeys (map (\<lambda>d. (mRole d, ())) D))"
      have "membershipRun role D (set F) (\<lambda>r. memb s (r, m)) (\<lambda>r. memb s' (r, m)) ?role' (refused \<noteq> []) (refusedError refused ?rf)"
        unfolding membershipRun_def
      proof (rule exI [of _ G], rule exI [of _ K], rule exI [of _ G'], rule exI [of _ K'], rule exI [of _ lost], rule exI [of _ False], intro conjI)
        show "planEffect D (toRevoke role D (set F) (\<lambda>r. memb s (r, m))) (\<lambda>r. memb s (r, m)) (\<lambda>r. memb s' (r, m)) G K (\<not> False)"
          using p(3) None by (simp add: R)
        show "set (rtManagedMemberships (roleStatus ?role')) =
            (if False then set (rtManagedMemberships (roleStatus role)) \<union> {mRole d | d. d \<in> set D \<and> memb s (mRole d, m) \<noteq> None} \<union> G' - K'
             else mRole ` set D)"
          by (simp add: recordMemberships_def fin)
      qed (use p None in \<open>simp_all add: recordMemberships_def refusedError_def\<close>)
      with p(2) None show ?thesis by (simp add: a wp_ret)
    qed
  qed (simp_all add: diffMemberships_def)
qed

lemma reconcileMemberships_post:
  fixes policy clusterRoles
  assumes "wfMemberships role m"
  defines "req \<equiv> DesiredMemberships (roleSpec role)" and "mg \<equiv> rtManagedMemberships (roleStatus role)"
    and "ok \<equiv> \<lambda>s. allowedTarget policy clusterRoles (closureOf s)"
  shows "wp (reconcileMemberships db role m policy clusterRoles) (\<lambda>(role', e) s'.
    (\<forall>r x. x \<noteq> m \<longrightarrow> memb s' (r, x) = memb s (r, x)) \<and>
    (role' = role \<and> memb s' = memb s \<and> (case e of None \<Rightarrow> req = [] \<and> mg = [] | Some x \<Rightarrow> plainError x) \<or>
     membershipRun role (filter (\<lambda>d. ok s (mRole d)) req) {r \<in> set mg. \<not> ok s r}
       (\<lambda>r. memb s (r, m)) (\<lambda>r. memb s' (r, m)) role' (\<exists>d \<in> set req. \<not> ok s (mRole d)) e)) s"
proof (cases "req = [] \<and> mg = []")
  case True
  then show ?thesis unfolding req_def mg_def by (simp add: reconcileMemberships_def wp_ret)
next
  case False
  let ?Q = "\<lambda>(role', e) s'. (\<forall>r x. x \<noteq> m \<longrightarrow> memb s' (r, x) = memb s (r, x)) \<and>
    (role' = role \<and> memb s' = memb s \<and> (case e of None \<Rightarrow> req = [] \<and> mg = [] | Some x \<Rightarrow> plainError x) \<or>
     membershipRun role (filter (\<lambda>d. ok s (mRole d)) req) {r \<in> set mg. \<not> ok s r}
       (\<lambda>r. memb s (r, m)) (\<lambda>r. memb s' (r, m)) role' (\<exists>d \<in> set req. \<not> ok s (mRole d)) e)"
  let ?D = "filter (\<lambda>d. ok s (mRole d)) req" and ?F = "filter (\<lambda>r. \<not> ok s r) mg"
  have fail: "wp (ret (role, Some e)) ?Q s" if "plainError e" for e
    using that by (simp add: wp_ret)
  have valid: "\<forall>d \<in> set ?D. validRole (mRole d)" "\<forall>r \<in> set (rtManagedMemberships (roleStatus role)). validRole r" "validRole m"
    using assms(1) unfolding wfMemberships_def req_def by auto
  have apply_ok: "wp (applyMemberships db role m ?D refused ?F current) ?Q s"
    if "refused \<noteq> [] \<longleftrightarrow> (\<exists>d \<in> set req. \<not> ok s (mRole d))" "\<forall>r. map_of current r = memb s (r, m)" for refused current
  proof -
    have "distinct (map mRole ?D)" unfolding req_def by (rule distinct_map_filter [OF DesiredMemberships_roles(2)])
    moreover have "set ?F \<subseteq> set (rtManagedMemberships (roleStatus role))" by (auto simp: mg_def)
    moreover have "set ?F \<inter> mRole ` set ?D = {}" by auto
    ultimately show ?thesis
      by (rule wp_mono [OF applyMemberships_post [OF _ _ _ valid that(2)]]) (use that(1) in \<open>auto simp only: prod.case set_filter\<close>)
  qed
  have listed: "wp (ListMemberships db m version) (\<lambda>l. wp (case l of Inl e \<Rightarrow> ret (role, Some e)
      | Inr current \<Rightarrow> applyMemberships db role m ?D refused ?F current) ?Q) s"
    if "refused \<noteq> [] \<longleftrightarrow> (\<exists>d \<in> set req. \<not> ok s (mRole d))" for refused
  proof (rule wp_mono [OF ListMemberships_post], elim conjE, hypsubst, goal_cases)
    case (1 l)
    then show ?case using fail apply_ok [OF that] by (cases l) simp_all
  qed
  have versioned: "wp (ServerVersionNum db) (\<lambda>v. wp (case v of Inl e \<Rightarrow> ret (role, Some e)
      | Inr version \<Rightarrow> (case unsupportedOptions version ?D of Some e \<Rightarrow> ret (role, Some e)
         | None \<Rightarrow> ListMemberships db m version \<bind> (\<lambda>l. case l of Inl e \<Rightarrow> ret (role, Some e)
            | Inr current \<Rightarrow> applyMemberships db role m ?D refused ?F current))) ?Q) s"
    if r: "refused \<noteq> [] \<longleftrightarrow> (\<exists>d \<in> set req. \<not> ok s (mRole d))" for refused
  proof (rule wp_mono [OF ServerVersionNum_post], elim conjE, hypsubst, goal_cases)
    case (1 v)
    have "plainError e" if "unsupportedOptions version ?D = Some e" for e
      using that by (auto simp: unsupportedOptions_def split: if_splits)
    with 1 fail listed [OF r] show ?case
      by (cases v; cases "unsupportedOptions version ?D") (simp_all add: wp_bind)
  qed
  let ?c = "\<lparr>mcPolicy = policy, mcManaged = clusterRoles, mcCache = []\<rparr>"
  have "checkerSound (closureOf s) ?c" by (simp add: checkerSound_def)
  note desired = checkDesired_post [OF this, of req "[]" "[]"]
  show ?thesis
    unfolding reconcileMemberships_def Let_def req_def [symmetric] mg_def [symmetric] if_not_P [OF False] wp_bind wp_case_prod
  proof (rule wp_mono [OF desired], goal_cases)
    case (1 a s1)
    obtain r1 c1 where a: "a = (r1, c1)" by (cases a)
    from 1 have c1: "s1 = s" "mcPolicy c1 = policy" "mcManaged c1 = clusterRoles" "checkerSound (closureOf s) c1"
      "\<forall>e. r1 = Inl e \<longrightarrow> plainError e"
      "\<forall>D' R'. r1 = Inr (D', R') \<longrightarrow> D' = ?D \<and> (R' = [] \<longleftrightarrow> (\<forall>d \<in> set req. ok s (mRole d)))"
      unfolding a prod.case ok_def by simp_all
    show ?case
    proof (cases r1)
      case (Inl e)
      with c1(1,5) fail show ?thesis by (simp add: a)
    next
      case (Inr p)
      obtain D' refused where p: "p = (D', refused)" by (cases p)
      with Inr c1(6) have D': "D' = ?D" "refused \<noteq> [] \<longleftrightarrow> (\<exists>d \<in> set req. \<not> ok s (mRole d))" by auto
      have "wp (checkManaged db c1 mg []) (\<lambda>(r2, c2). wp (case r2 of Inl e \<Rightarrow> ret (role, Some e)
          | Inr forbidden \<Rightarrow> ServerVersionNum db \<bind> (\<lambda>v. case v of Inl e \<Rightarrow> ret (role, Some e)
            | Inr version \<Rightarrow> (case unsupportedOptions version ?D of Some e \<Rightarrow> ret (role, Some e)
               | None \<Rightarrow> ListMemberships db m version \<bind> (\<lambda>l. case l of Inl e \<Rightarrow> ret (role, Some e)
                  | Inr current \<Rightarrow> applyMemberships db role m ?D refused forbidden current)))) ?Q) s"
      proof (rule wp_mono [OF checkManaged_post [OF c1(4)]], goal_cases)
        case (1 b s2)
        obtain r2 c2 where b: "b = (r2, c2)" by (cases b)
        from 1 have "s2 = s" "\<forall>e. r2 = Inl e \<longrightarrow> plainError e" "\<forall>F'. r2 = Inr F' \<longrightarrow> F' = ?F"
          unfolding b prod.case ok_def c1(2,3) by simp_all
        with fail versioned [OF D'(2)] show ?case by (cases r2) (simp_all add: b wp_bind)
      qed
      then show ?thesis by (simp add: a Inr p D'(1) c1(1) wp_bind wp_case_prod)
    qed
  qed
qed

end

end
