(* ===== verification/Membership_Properties.thy ===== *)
theory Membership_Properties
  imports Memberships_Correct Settings_Correct
begin

text \<open>
  The properties of \<open>reconcileMemberships\<close> on every server that keeps the contract
  \<open>membership_server\<close>, and their instances on the reference server.
\<close>

section \<open>The reference server\<close>

lemma refExec_member:
  assumes "parseMember True q = Some st"
  shows "parseSql True q = None" "parseAlter True q = None"
proof -
  from assms obtain ts where ts: "lexSql True q = Some ts" "parseMemberStmt ts = Some st"
    by (auto simp: parseMember_def split: option.splits)
  then have "(\<exists>w r ts1. ts = Word w # Ident r # ts1 \<and> w \<noteq> ''ALTER'') \<or>
      (\<exists>r t m. ts = [Word ''REVOKE'', Word ''ADMIN'', Word ''OPTION'', Word ''FOR'', Ident r, Word t, Ident m])"
    by (auto simp: parseMemberStmt_def split: list.splits token.splits if_splits)
  then have "parseStmt ts = None \<and> parseAlterStmt ts = None"
    by (auto simp: parseStmt_def parseAlterStmt_def parseTarget_def Let_def)
  with ts(1) show "parseSql True q = None" "parseAlter True q = None"
    by (simp_all add: parseSql_def parseAlter_def)
qed

lemma refMembersOf_list:
  "distinct (map fst (refMembersOf s m))" "map_of (refMembersOf s m) r = map_of (rvMembers s) (r, m)"
proof -
  have *: "distinct (map fst xs) \<Longrightarrow>
      distinct (map fst (map (\<lambda>((r, x), st). (r, st)) (filter (\<lambda>((r, x), st). x = m) xs))) \<and>
      map_of (map (\<lambda>((r, x), st). (r, st)) (filter (\<lambda>((r, x), st). x = m) xs)) r = map_of xs (r, m)"
    for xs :: "((string \<times> string) \<times> MembershipState) list"
  proof (induction xs)
    case (Cons e xs)
    obtain r' x st where e: "e = ((r', x), st)" by (metis surj_pair)
    from Cons show ?case by (auto simp: e image_iff)
  qed simp
  have "distinct (map fst (AList.clearjunk (rvMembers s)))" by (rule distinct_clearjunk)
  from * [OF this] show "distinct (map fst (refMembersOf s m))" "map_of (refMembersOf s m) r = map_of (rvMembers s) (r, m)"
    by (simp_all add: refMembersOf_def map_of_clearjunk)
qed

lemma refQuery_none: "queryDb refDb q [] = State (\<lambda>s. (case refCatalogQuery q [] s of
     Some rows \<Rightarrow> Inr (rows, None) | None \<Rightarrow> Inl (PqError ''42601'' ''syntax error''), s))"
  by (auto simp: refDb_def refQuery_def fun_eq_iff split: list.splits)

lemma refMembership_granted: "grantedMembership old a i se (refMembership old a i se)"
  by (cases old; cases i; cases se) (auto simp: grantedMembership_def refMembership_def Let_def)

interpretation refMembers: membership_server refDb True "\<lambda>s. map_of (rvMembers s)" refClosure refVersion
proof (unfold_locales, goal_cases)
  case (1 q r m a i se s)
  then show ?case
    by (auto simp: refDb_def wp_State refExec_def refExec_member refOtherExec_def refMemberExec_def update_conv' refMembership_granted
        intro: exI [of _ "refMembership (map_of (rvMembers s) (r, m)) a i se"])
next
  case (2 q r m s)
  then show ?case
    by (auto simp: refDb_def wp_State refExec_def refExec_member refOtherExec_def refMemberExec_def update_conv' fun_eq_iff split: option.splits)
next
  case (3 q r m s)
  then show ?case
    by (simp add: refDb_def wp_State refExec_def refExec_member refOtherExec_def refMemberExec_def delete_conv')
next
  case (4 r s)
  have "membershipClosureQuery \<noteq> lookupRoleQuery" by code_simp
  then show ?case by (simp add: refQuery_one wp_State refCatalogQuery_def)
next
  case (5 m s)
  have "listMembershipsQuery refVersion \<noteq> lookupRoleQuery" "listMembershipsQuery refVersion \<noteq> membershipClosureQuery" by code_simp+
  then show ?case using refMembersOf_list by (auto simp: refQuery_one wp_State refCatalogQuery_def)
next
  case (6 s)
  have "atoi (trimSpace ''180001'') = Some refVersion" by code_simp
  moreover have "catalogRow (Some [SText t]) (Inr ([[SText t]], None))" for t by (simp add: catalogRow_def)
  ultimately show ?case
    unfolding refQuery_none wp_State prod.case refCatalogQuery_def list.case if_P [OF refl] option.case by blast
qed

section \<open>Properties\<close>

lemma planEffect_parts:
  assumes "planEffect D R v v' G K complete"
  shows "r \<in> K \<Longrightarrow> v' r = None" "r \<in> K \<Longrightarrow> r \<in> R"
    and "v' r \<noteq> v r \<Longrightarrow> r \<notin> K \<Longrightarrow> r \<in> mRole ` set D \<and> v' r \<noteq> None \<and> (r \<in> G \<or> v r \<noteq> None)"
    and "complete \<Longrightarrow> K = R" "complete \<Longrightarrow> d \<in> set D \<Longrightarrow> membershipReached d (v' (mRole d))"
  using assms unfolding planEffect_def by blast+

lemma membershipRun_effect:
  assumes "membershipRun role D F v v' role' refused e"
  obtains G K G' K' lost failed where "planEffect D (toRevoke role D F v) v v' G K (\<not> failed)"
    "G \<subseteq> G' \<union> set_option lost" "K' \<subseteq> K" "\<not> failed \<longrightarrow> lost = None"
    "set (rtManagedMemberships (roleStatus role')) =
       (if failed then set (rtManagedMemberships (roleStatus role)) \<union> {mRole d | d. d \<in> set D \<and> v (mRole d) \<noteq> None} \<union> G' - K'
        else mRole ` set D)"
    "if failed then e \<noteq> None \<and> wrapped e
      else if refused then (\<exists>x. e = Some (ConditionError ReasonMembershipNotAllowed x)) else e = None"
  using assms unfolding membershipRun_def by blast

text \<open>What a run of the reconciliation did, from the contract of the server.\<close>

lemma memberships_run:
  assumes "membership_server db scs memb closureOf version" and "wfMemberships role m"
    and "run_state (reconcileMemberships db role m policy clusterRoles) s = ((role', err), s')"
  shows "\<forall>r x. x \<noteq> m \<longrightarrow> memb s' (r, x) = memb s (r, x)"
    and "role' = role \<and> memb s' = memb s \<and> (case err of None \<Rightarrow> DesiredMemberships (roleSpec role) = [] \<and> rtManagedMemberships (roleStatus role) = []
        | Some x \<Rightarrow> plainError x) \<or>
      membershipRun role (filter (\<lambda>d. allowedTarget policy clusterRoles (closureOf s) (mRole d)) (DesiredMemberships (roleSpec role)))
        {r \<in> set (rtManagedMemberships (roleStatus role)). \<not> allowedTarget policy clusterRoles (closureOf s) r}
        (\<lambda>r. memb s (r, m)) (\<lambda>r. memb s' (r, m)) role'
        (\<exists>d \<in> set (DesiredMemberships (roleSpec role)). \<not> allowedTarget policy clusterRoles (closureOf s) (mRole d)) err"
  using wp_run [OF membership_server.reconcileMemberships_post [OF assms(1,2)] assms(3)] by simp_all

text \<open>
  The scenario of the instances. The catalog has the role \<open>readers\<close> of a Role resource and the
  superuser \<open>admins\<close>; \<open>bob\<close> is a member of \<open>old\<close> and \<open>admins\<close>, both recorded, and of
  \<open>manual\<close>, granted by hand. The spec declares \<open>readers\<close> without inheritance.
\<close>

definition exMemberRole :: "RoleMembership list \<Rightarrow> string list \<Rightarrow> Role" where
  "exMemberRole ms managed = exRole\<lparr>roleSpec := exRoleSpec\<lparr>rsMemberships := ms\<rparr>,
     roleStatus := exRoleStatus\<lparr>rtManagedMemberships := managed\<rparr>\<rparr>"

definition exReaders :: RoleMembership where
  "exReaders = \<lparr>mRole = ''readers'', mInherit = Some False, mSet = None, mAdmin = False\<rparr>"

definition exAdmins :: RoleMembership where
  "exAdmins = \<lparr>mRole = ''admins'', mInherit = None, mSet = None, mAdmin = True\<rparr>"

definition exCatalogRole :: "string \<Rightarrow> bool \<Rightarrow> ReachableRole" where
  "exCatalogRole n su = \<lparr>rrName = n, rrVia = [], rrComment = ''m-'' @ n, rrSuperuser = su, rrCreateRole = False, rrReplication = False, rrBypassRLS = False\<rparr>"

definition exOldMember :: MembershipState where
  "exOldMember = \<lparr>msAdmin = True, msInherit = Some True, msSet = Some True\<rparr>"

definition exMembers :: refServer where
  "exMembers = \<lparr>rvAcl = [], rvRoles = [exCatalogRole ''readers'' False, exCatalogRole ''admins'' True], rvMembers = [((''old'', ''bob''), exOldMember),
     ((''admins'', ''bob''), exOldMember), ((''manual'', ''bob''), exOldMember)], rvSettings = [], rvLedger = []\<rparr>"

definition exMembers' :: refServer where
  "exMembers' = exMembers\<lparr>rvMembers := [((''manual'', ''bob''), exOldMember), ((''readers'', ''bob''), \<lparr>msAdmin = False, msInherit = Some False, msSet = Some True\<rparr>)]\<rparr>"

definition exClusterRoles :: managedRoles where
  "exClusterRoles = [(''readers'', ''m-readers'')]"

lemma exMembersRun: "run_state (reconcileMemberships refDb (exMemberRole [exReaders] [''admins'', ''old'']) ''bob'' None exClusterRoles) exMembers =
    ((exMemberRole [exReaders] [''readers''], None), exMembers')"
  by code_simp

lemma exWfMemberships:
  "wfMemberships (exMemberRole [exReaders] [''admins'', ''old'']) ''bob''"
  "wfMemberships (exMemberRole [exReaders, exAdmins] [''admins'']) ''bob''"
  by (simp_all add: wfMemberships_def exMemberRole_def exRole_def exRoleSpec_def exRoleStatus_def DesiredMemberships_def exReaders_def exAdmins_def
      validRole_def nameDataLen_def)





text \<open>
  C11. Convergence of memberships: when a reconcile reports no error, the policy permits every
  declared membership, each exists with the declared ADMIN option and the declared INHERIT and SET
  options, the recorded memberships that were removed from the spec are revoked when the spec asks
  for it, and the ledger is the sorted list of the declared roles.
\<close>

theorem memberships_converge:
  assumes "membership_server db scs memb closureOf version" and "wfMemberships role m"
    and "run_state (reconcileMemberships db role m policy clusterRoles) s = ((role', None), s')"
  defines "req \<equiv> DesiredMemberships (roleSpec role)"
  shows "(\<forall>d \<in> set req. membershipProblem (mRole d) (closureOf s (mRole d)) policy clusterRoles = [] \<and>
      (\<exists>c. memb s' (mRole d, m) = Some c \<and> msAdmin c = mAdmin d \<and>
        (mInherit d \<noteq> None \<longrightarrow> msInherit c = mInherit d) \<and> (mSet d \<noteq> None \<longrightarrow> msSet c = mSet d))) \<and>
    (\<forall>r \<in> set (rtManagedMemberships (roleStatus role)) - mRole ` set req.
      ShouldRevokeRemovedMemberships (roleSpec role) \<longrightarrow> memb s' (r, m) = None) \<and>
    rtManagedMemberships (roleStatus role') = sorted_list_of_set (mRole ` set req)"
proof (cases "req = [] \<and> rtManagedMemberships (roleStatus role) = []")
  case True
  then have "run_state (reconcileMemberships db role m policy clusterRoles) s = ((role, None), s)"
    by (simp add: reconcileMemberships_def req_def)
  with assms(3) True show ?thesis by simp
next
  case False
  let ?ok = "allowedTarget policy clusterRoles (closureOf s)"
  let ?D = "filter (\<lambda>d. ?ok (mRole d)) req" and ?mg = "rtManagedMemberships (roleStatus role)"
  let ?F = "{r \<in> set ?mg. \<not> ?ok r}"
  from False memberships_run(2) [OF assms(1-3)]
  have run: "membershipRun role ?D ?F (\<lambda>r. memb s (r, m)) (\<lambda>r. memb s' (r, m)) role' (\<exists>d \<in> set req. \<not> ?ok (mRole d)) None"
    unfolding req_def by (elim disjE conjE) simp_all
  then obtain G K G' K' lost where all: "\<not> (\<exists>d \<in> set req. \<not> ?ok (mRole d))" and
    eff: "planEffect ?D (toRevoke role ?D ?F (\<lambda>r. memb s (r, m))) (\<lambda>r. memb s (r, m)) (\<lambda>r. memb s' (r, m)) G K True" and
    led: "set (rtManagedMemberships (roleStatus role')) = mRole ` set ?D"
    by (rule membershipRun_effect) (auto split: if_splits)
  from all have D: "?D = req" by (simp add: filter_id_conv)
  have reached: "membershipReached d (memb s' (mRole d, m))" if "d \<in> set req" for d
    using planEffect_parts(5) [OF eff] that unfolding D by simp
  have opt: "\<not> optionDiffers w h \<longleftrightarrow> (w \<noteq> None \<longrightarrow> h = w)" for w h by (auto simp: optionDiffers_def split: option.splits)
  have "\<exists>c. memb s' (mRole d, m) = Some c \<and> msAdmin c = mAdmin d \<and>
        (mInherit d \<noteq> None \<longrightarrow> msInherit c = mInherit d) \<and> (mSet d \<noteq> None \<longrightarrow> msSet c = mSet d)" if "d \<in> set req" for d
    using reached [OF that] unfolding membershipReached_def opt by (cases "memb s' (mRole d, m)") simp_all
  moreover have "memb s' (r, m) = None"
    if "r \<in> set ?mg - mRole ` set req" "ShouldRevokeRemovedMemberships (roleSpec role)" for r
  proof (cases "r \<in> K")
    case False
    with planEffect_parts(4) [OF eff] that have "memb s (r, m) = None" by (auto simp: D toRevoke_def)
    with planEffect_parts(3) [OF eff, of r] False that show ?thesis unfolding D by auto
  qed (use planEffect_parts(1) [OF eff] in simp)
  moreover from run have "sorted (rtManagedMemberships (roleStatus role'))" "distinct (rtManagedMemberships (roleStatus role'))"
    unfolding membershipRun_def by blast+
  then have "rtManagedMemberships (roleStatus role') = sorted_list_of_set (mRole ` set req)"
    by (intro sorted_distinct_set_unique) (simp_all add: led D)
  ultimately show ?thesis using all by (auto simp: allowedTarget_def)
qed

theorem memberships_converge_witness:
  "\<exists>c. map_of (rvMembers exMembers') (''readers'', ''bob'') = Some c \<and> msInherit c = Some False"
proof -
  have "exReaders \<in> set (DesiredMemberships (roleSpec (exMemberRole [exReaders] [''admins'', ''old''])))"
    by (simp add: exMemberRole_def DesiredMemberships_def exRoleSpec_def)
  with memberships_converge [OF refMembers.membership_server_axioms exWfMemberships(1) exMembersRun]
  have "\<exists>c. map_of (rvMembers exMembers') (mRole exReaders, ''bob'') = Some c \<and> (mInherit exReaders \<noteq> None \<longrightarrow> msInherit c = mInherit exReaders)"
    by blast
  moreover have "mRole exReaders = ''readers''" "mInherit exReaders = Some False" by (simp_all add: exReaders_def)
  ultimately show ?thesis by simp
qed



text \<open>
  C12. Refused memberships: a reconcile that ends with MembershipNotAllowed was asked for a
  membership the policy refuses; it has still brought every other declared membership to the
  declared options, has revoked every recorded membership the policy refuses, whatever
  revokeRemovedMemberships says, and records the permitted ones only.
\<close>

theorem memberships_refused:
  assumes "membership_server db scs memb closureOf version" and "wfMemberships role m"
    and "run_state (reconcileMemberships db role m policy clusterRoles) s = ((role', Some (ConditionError reason x)), s')"
  defines "req \<equiv> DesiredMemberships (roleSpec role)"
    and "ok \<equiv> \<lambda>r. membershipProblem r (closureOf s r) policy clusterRoles = []"
  shows "reason = ReasonMembershipNotAllowed \<and> (\<exists>d \<in> set req. \<not> ok (mRole d)) \<and>
    (\<forall>d \<in> set req. ok (mRole d) \<longrightarrow> membershipReached d (memb s' (mRole d, m))) \<and>
    (\<forall>r \<in> set (rtManagedMemberships (roleStatus role)). \<not> ok r \<longrightarrow> memb s' (r, m) = None) \<and>
    set (rtManagedMemberships (roleStatus role')) = {r \<in> mRole ` set req. ok r}"
proof -
  let ?D = "filter (\<lambda>d. ok (mRole d)) req" and ?mg = "rtManagedMemberships (roleStatus role)"
  let ?F = "{r \<in> set ?mg. \<not> ok r}"
  have ok: "allowedTarget policy clusterRoles (closureOf s) = ok" by (simp add: fun_eq_iff allowedTarget_def ok_def)
  from memberships_run(2) [OF assms(1-3)]
  have "membershipRun role ?D ?F (\<lambda>r. memb s (r, m)) (\<lambda>r. memb s' (r, m)) role' (\<exists>d \<in> set req. \<not> ok (mRole d)) (Some (ConditionError reason x))"
    unfolding ok req_def by (elim disjE conjE) (simp_all add: plainError_def)
  then obtain G K G' K' lost where c: "reason = ReasonMembershipNotAllowed" "\<exists>d \<in> set req. \<not> ok (mRole d)" and
    eff: "planEffect ?D (toRevoke role ?D ?F (\<lambda>r. memb s (r, m))) (\<lambda>r. memb s (r, m)) (\<lambda>r. memb s' (r, m)) G K True" and
    led: "set (rtManagedMemberships (roleStatus role')) = mRole ` set ?D"
    by (rule membershipRun_effect) (auto simp: wrapped_def plainError_def split: if_splits)
  have reached: "membershipReached d (memb s' (mRole d, m))" if "d \<in> set req" "ok (mRole d)" for d
    using planEffect_parts(5) [OF eff TrueI, of d] that by simp
  have "memb s' (r, m) = None" if "r \<in> set ?mg" "\<not> ok r" for r
  proof (cases "r \<in> K")
    case False
    with planEffect_parts(4) [OF eff] that have "memb s (r, m) = None" by (auto simp: toRevoke_def)
    moreover have "r \<notin> mRole ` set ?D" using that(2) by auto
    ultimately show ?thesis using False planEffect_parts(3) [OF eff, of r] by metis
  qed (use planEffect_parts(1) [OF eff] in simp)
  with c reached led show ?thesis by auto
qed

lemma exRefusedRun: "\<exists>x s'. run_state (reconcileMemberships refDb (exMemberRole [exReaders, exAdmins] [''admins'']) ''bob'' None exClusterRoles) exMembers =
    ((exMemberRole [exReaders, exAdmins] [''readers''], Some (ConditionError ReasonMembershipNotAllowed x)), s')"
proof -
  have "case run_state (reconcileMemberships refDb (exMemberRole [exReaders, exAdmins] [''admins'']) ''bob'' None exClusterRoles) exMembers of
      ((r, e), s') \<Rightarrow> r = exMemberRole [exReaders, exAdmins] [''readers''] \<and> (case e of Some (ConditionError y x) \<Rightarrow> y = ReasonMembershipNotAllowed | _ \<Rightarrow> False)"
    by code_simp
  then show ?thesis by (auto split: prod.splits option.splits error.splits)
qed

theorem memberships_refused_witness:
  "\<exists>s' :: refServer. map_of (rvMembers s') (''admins'', ''bob'') = None \<and> membershipReached exReaders (map_of (rvMembers s') (''readers'', ''bob''))"
proof -
  obtain x s' where "run_state (reconcileMemberships refDb (exMemberRole [exReaders, exAdmins] [''admins'']) ''bob'' None exClusterRoles) exMembers =
    ((exMemberRole [exReaders, exAdmins] [''readers''], Some (ConditionError ReasonMembershipNotAllowed x)), s')" using exRefusedRun by blast
  from memberships_refused [OF refMembers.membership_server_axioms exWfMemberships(2) this]
  have r: "\<forall>d \<in> set (DesiredMemberships (roleSpec (exMemberRole [exReaders, exAdmins] [''admins'']))).
      membershipProblem (mRole d) (refClosure exMembers (mRole d)) None exClusterRoles = [] \<longrightarrow>
        membershipReached d (map_of (rvMembers s') (mRole d, ''bob''))"
    and a: "\<forall>r \<in> set (rtManagedMemberships (roleStatus (exMemberRole [exReaders, exAdmins] [''admins'']))).
      membershipProblem r (refClosure exMembers r) None exClusterRoles \<noteq> [] \<longrightarrow> map_of (rvMembers s') (r, ''bob'') = None"
    by blast+
  have "exReaders \<in> set (DesiredMemberships (roleSpec (exMemberRole [exReaders, exAdmins] [''admins''])))"
    "''admins'' \<in> set (rtManagedMemberships (roleStatus (exMemberRole [exReaders, exAdmins] [''admins''])))"
    "membershipProblem (mRole exReaders) (refClosure exMembers (mRole exReaders)) None exClusterRoles = []" "mRole exReaders = ''readers''"
    "membershipProblem ''admins'' (refClosure exMembers ''admins'') None exClusterRoles \<noteq> []" by code_simp+
  note ok = this
  have "membershipReached exReaders (map_of (rvMembers s') (''readers'', ''bob''))"
    using r [THEN bspec, OF ok(1), THEN mp, OF ok(3)] by (simp only: ok(4))
  moreover have "map_of (rvMembers s') (''admins'', ''bob'') = None" by (rule a [THEN bspec, OF ok(2), THEN mp, OF ok(5)])
  ultimately show ?thesis by blast
qed

end
