(* ===== verification/Grantee_Policy.thy ===== *)
theory Grantee_Policy
  imports Role_Policy Pg_Server
begin

text \<open>
  The grantee policy of \<open>internal/controller/grantee_policy.go\<close>: which roles a Database writer may
  grant privileges to. The checker looks a role up through the client (a parameter here) and
  caches its decisions for one reconcile; the filter splits declared grants into those to apply
  and those held back.
\<close>

abbreviation ReasonGranteeNotAllowed :: string where "ReasonGranteeNotAllowed \<equiv> ''GranteeNotAllowed''"

datatype granteeVerdict = granteeAllowed | granteeMissing | granteePaused | granteeRefused

definition granteeNameProblem :: "string \<Rightarrow> string" where
  "granteeNameProblem name =
     (if IsPublic name then []
      else if name = bootstrapRoleName then ''is reserved (bootstrap superuser)''
      else if hasPrefix name reservedRolePrefix then ''is reserved for the operator''
      else if hasPrefix name ''pg_'' then ''is a predefined role''
      else if equalFold name ''none'' then ''is a reserved role name''
      else [])"

definition granteeProblem :: "ReachableRole \<Rightarrow> RolePolicySpec option \<Rightarrow> managedRoles \<Rightarrow> string" where
  "granteeProblem r policy managed =
     (if granteeNameProblem (rrName r) \<noteq> [] then granteeNameProblem (rrName r)
      else if rrSuperuser r then problemSuperuser
      else if manages managed r \<or> AllowsExistingRole policy (rrName r) then []
      else notManagedProblem)"

record granteeResult =
  verdict :: granteeVerdict
  problem :: string

type_synonym 's roleLookup = "string \<Rightarrow> ('s, error + ReachableRole option) state"

record granteeChecker =
  gcPolicy :: "RolePolicySpec option"
  gcManaged :: managedRoles
  gcDeleting :: "string list"
  gcCache :: "granteeResult gomap"
  gcForRoles :: "granteeResult gomap"
  gcOwners :: "bool gomap"

abbreviation verdictOnly :: "granteeVerdict \<Rightarrow> granteeResult" where
  "verdictOnly v \<equiv> \<lparr>verdict = v, problem = []\<rparr>"

abbreviation refusedFor :: "string \<Rightarrow> granteeResult" where
  "refusedFor p \<equiv> \<lparr>verdict = granteeRefused, problem = p\<rparr>"

text \<open>\<open>managesRole\<close>: whether the owner of an object is a role the Cluster manages.\<close>

definition managesRole :: "'s roleLookup \<Rightarrow> granteeChecker \<Rightarrow> string \<Rightarrow> ('s, (error + bool) \<times> granteeChecker) state" where
  "managesRole lookup c name =
     (case map_of (gcOwners c) name of
        Some v \<Rightarrow> ret (Inr v, c)
      | None \<Rightarrow>
          if map_of (gcManaged c) name \<noteq> None \<and> granteeNameProblem name = [] \<and> \<not> IsPublic name
          then do {
            r \<leftarrow> lookup name;
            (case r of
               Inl e \<Rightarrow> ret (Inl e, c)
             | Inr x \<Rightarrow>
                 (let managed = (case x of None \<Rightarrow> False | Some role \<Rightarrow> \<not> rrSuperuser role \<and> manages (gcManaged c) role)
                  in ret (Inr managed, c\<lparr>gcOwners := AList.update name managed (gcOwners c)\<rparr>)))
          }
          else ret (Inr False, c\<lparr>gcOwners := AList.update name False (gcOwners c)\<rparr>))"

definition decideForRole :: "'s roleLookup \<Rightarrow> granteeChecker \<Rightarrow> string \<Rightarrow> ('s, error + granteeResult) state" where
  "decideForRole lookup c name =
     (if IsPublic name then ret (Inr (refusedFor ''is PUBLIC, not a role''))
      else if granteeNameProblem name \<noteq> [] then ret (Inr (refusedFor (granteeNameProblem name)))
      else if name \<in> set (gcDeleting c) then ret (Inr (verdictOnly granteePaused))
      else do {
        r \<leftarrow> lookup name;
        ret (case r of
               Inl e \<Rightarrow> Inl e
             | Inr None \<Rightarrow> Inr (verdictOnly granteeMissing)
             | Inr (Some role) \<Rightarrow>
                 if rrSuperuser role then Inr (refusedFor problemSuperuser)
                 else if \<not> manages (gcManaged c) role then Inr (refusedFor ''is not managed by a Role of this Cluster'')
                 else Inr (verdictOnly granteeAllowed))
      })"

definition checkForRole :: "'s roleLookup \<Rightarrow> granteeChecker \<Rightarrow> string
    \<Rightarrow> ('s, (error + granteeResult) \<times> granteeChecker) state" where
  "checkForRole lookup c name =
     (case map_of (gcForRoles c) name of
        Some res \<Rightarrow> ret (Inr res, c)
      | None \<Rightarrow> do {
          r \<leftarrow> decideForRole lookup c name;
          ret (case r of
                 Inl e \<Rightarrow> (Inl e, c)
               | Inr res \<Rightarrow> (Inr res, c\<lparr>gcForRoles := AList.update name res (gcForRoles c)\<rparr>))
        })"

definition decide :: "'s roleLookup \<Rightarrow> granteeChecker \<Rightarrow> string \<Rightarrow> ('s, error + granteeResult) state" where
  "decide lookup c grantee =
     (if IsPublic grantee then ret (Inr (verdictOnly granteeAllowed))
      else if granteeNameProblem grantee \<noteq> [] then ret (Inr (refusedFor (granteeNameProblem grantee)))
      else if grantee \<in> set (gcDeleting c) then ret (Inr (verdictOnly granteePaused))
      else do {
        r \<leftarrow> lookup grantee;
        ret (case r of
               Inl e \<Rightarrow> Inl e
             | Inr None \<Rightarrow> Inr (verdictOnly granteeMissing)
             | Inr (Some role) \<Rightarrow>
                 if granteeProblem role (gcPolicy c) (gcManaged c) \<noteq> []
                 then Inr (refusedFor (granteeProblem role (gcPolicy c) (gcManaged c)))
                 else Inr (verdictOnly granteeAllowed))
      })"

definition check :: "'s roleLookup \<Rightarrow> granteeChecker \<Rightarrow> string
    \<Rightarrow> ('s, (error + granteeResult) \<times> granteeChecker) state" where
  "check lookup c grantee =
     (case map_of (gcCache c) grantee of
        Some res \<Rightarrow> ret (Inr res, c)
      | None \<Rightarrow> do {
          r \<leftarrow> decide lookup c grantee;
          ret (case r of
                 Inl e \<Rightarrow> (Inl e, c)
               | Inr res \<Rightarrow> (Inr res, c\<lparr>gcCache := AList.update grantee res (gcCache c)\<rparr>))
        })"

section \<open>The filter\<close>

record grantFilter =
  gfChecker :: granteeChecker
  gfMissing :: "string list"
  gfPaused :: "string list"
  gfRefused :: "string list"

definition newGrantFilter :: "granteeChecker \<Rightarrow> grantFilter" where
  "newGrantFilter c = \<lparr>gfChecker = c, gfMissing = [], gfPaused = [], gfRefused = []\<rparr>"

text \<open>One round of \<open>filter\<close>: the grant is kept or noted with the reason it is held back.\<close>

definition noteVerdict :: "string \<Rightarrow> privilegeGrant \<Rightarrow> granteeResult \<Rightarrow> grantFilter \<times> privilegeGrant list
    \<Rightarrow> grantFilter \<times> privilegeGrant list" where
  "noteVerdict field g res = (\<lambda>(f, out).
     case verdict res of
       granteeAllowed \<Rightarrow> (f, out @ [g])
     | granteeMissing \<Rightarrow> (f\<lparr>gfMissing := gfMissing f @
         [sprintf ''%s: PostgreSQL role %q does not exist yet'' [field, tGrantee (Target g)]]\<rparr>, out)
     | granteePaused \<Rightarrow> (f\<lparr>gfPaused := gfPaused f @
         [sprintf ''%s: grants to %s are paused: the Role is being deleted'' [field, tGrantee (Target g)]]\<rparr>, out)
     | granteeRefused \<Rightarrow> (f\<lparr>gfRefused := gfRefused f @
         [sprintf ''%s: %s %s'' [field, tGrantee (Target g), problem res]]\<rparr>, out))"

fun filterGrants :: "'s roleLookup \<Rightarrow> string \<Rightarrow> privilegeGrant list \<Rightarrow> grantFilter \<times> privilegeGrant list
    \<Rightarrow> ('s, grantFilter \<times> (error + privilegeGrant list)) state" where
  "filterGrants lookup field [] (f, out) = ret (f, Inr out)"
| "filterGrants lookup field (g # gs) (f, out) = do {
     (r, c) \<leftarrow> check lookup (gfChecker f) (tGrantee (Target g));
     (case r of
        Inl e \<Rightarrow> ret (f\<lparr>gfChecker := c\<rparr>, Inl e)
      | Inr res \<Rightarrow> filterGrants lookup field gs (noteVerdict field g res (f\<lparr>gfChecker := c\<rparr>, out)))
   }"

definition filterFor :: "'s roleLookup \<Rightarrow> grantFilter \<Rightarrow> string \<Rightarrow> privilegeGrant list
    \<Rightarrow> ('s, grantFilter \<times> (error + privilegeGrant list)) state" where
  "filterFor lookup f field desired = filterGrants lookup field desired (f, [])"

definition filterErr :: "grantFilter \<Rightarrow> error option" where
  "filterErr f = joinErrs
     ((if gfRefused f \<noteq> [] then [Some (ConditionError ReasonGranteeNotAllowed (Errorf
         ''grantees not allowed (grants to them are not applied, and revoked if pgop granted them): %s''
         [joinStr (gfRefused f) ''; '']))] else []) @
      (if gfMissing f \<noteq> [] then [Some (Errorf ''%s'' [joinStr (gfMissing f) ''; ''])] else []) @
      (if gfPaused f \<noteq> [] then [Some (Errorf ''%s'' [joinStr (gfPaused f) ''; ''])] else []))"

lemma filterErr_None: "filterErr f = None \<longleftrightarrow> gfRefused f = [] \<and> gfMissing f = [] \<and> gfPaused f = []"
  by (auto simp: filterErr_def joinErrs_None_iff)

lemma noteVerdict_err:
  "noteVerdict field g res (f, out) = (f1, out1) \<Longrightarrow> filterErr f1 = None \<longleftrightarrow> filterErr f = None \<and> verdict res = granteeAllowed"
  by (auto simp: noteVerdict_def filterErr_None split: granteeVerdict.splits)

section \<open>The decision as a function of the catalog\<close>

definition granteeDecision :: "granteeChecker \<Rightarrow> string \<Rightarrow> ReachableRole option \<Rightarrow> granteeResult" where
  "granteeDecision c g r =
     (if IsPublic g then verdictOnly granteeAllowed
      else if granteeNameProblem g \<noteq> [] then refusedFor (granteeNameProblem g)
      else if g \<in> set (gcDeleting c) then verdictOnly granteePaused
      else case r of
        None \<Rightarrow> verdictOnly granteeMissing
      | Some role \<Rightarrow>
          if granteeProblem role (gcPolicy c) (gcManaged c) \<noteq> []
          then refusedFor (granteeProblem role (gcPolicy c) (gcManaged c)) else verdictOnly granteeAllowed)"

text \<open>A cache is sound when every entry is the decision for the role the catalog has.\<close>

definition cacheSound :: "(string \<Rightarrow> ReachableRole option) \<Rightarrow> granteeChecker \<Rightarrow> bool" where
  "cacheSound roles c \<longleftrightarrow> (\<forall>g res. map_of (gcCache c) g = Some res \<longrightarrow> res = granteeDecision c g (roles g))"

definition samePolicy :: "granteeChecker \<Rightarrow> granteeChecker \<Rightarrow> bool" where
  "samePolicy c c' \<longleftrightarrow> gcPolicy c' = gcPolicy c \<and> gcManaged c' = gcManaged c \<and> gcDeleting c' = gcDeleting c"

lemma granteeDecision_same: "samePolicy c c' \<Longrightarrow> granteeDecision c' = granteeDecision c"
  by (intro ext) (simp add: samePolicy_def granteeDecision_def split: option.splits)

text \<open>The lookup of a role: it reads the catalog, changes nothing, and may fail.\<close>

locale role_lookup =
  fixes lookup :: "'s roleLookup"
    and roleOf :: "'s \<Rightarrow> string \<Rightarrow> ReachableRole option"
  assumes lookup_law: "wp (lookup n) (\<lambda>r s'. s' = s \<and> (\<forall>x. r = Inr x \<longrightarrow> x = roleOf s n)) s"
begin

lemma decide_post:
  "wp (decide lookup c g) (\<lambda>r s'. s' = s \<and> (\<forall>res. r = Inr res \<longrightarrow> res = granteeDecision c g (roleOf s g))) s"
proof (cases "IsPublic g \<or> granteeNameProblem g \<noteq> [] \<or> g \<in> set (gcDeleting c)")
  case True
  then show ?thesis by (auto simp: decide_def granteeDecision_def wp_simps)
next
  case False
  then show ?thesis
    unfolding decide_def wp_simps
    by (auto simp: wp_simps granteeDecision_def split: sum.splits option.splits intro!: wp_mono [OF lookup_law])
qed

lemma cacheSound_update:
  assumes "cacheSound roles c" "res = granteeDecision c g (roles g)"
  shows "cacheSound roles (c\<lparr>gcCache := AList.update g res (gcCache c)\<rparr>)"
proof -
  have "granteeDecision (c\<lparr>gcCache := AList.update g res (gcCache c)\<rparr>) = granteeDecision c"
    by (rule granteeDecision_same) (simp add: samePolicy_def)
  with assms show ?thesis
    by (simp add: cacheSound_def map_simps)
qed

lemma check_post:
  assumes "cacheSound (roleOf s) c"
  shows "wp (check lookup c g) (\<lambda>(r, c') s'. s' = s \<and> samePolicy c c' \<and> cacheSound (roleOf s) c' \<and>
    (\<forall>res. r = Inr res \<longrightarrow> res = granteeDecision c g (roleOf s g))) s"
proof (cases "map_of (gcCache c) g")
  case (Some res)
  with assms show ?thesis
    by (simp add: check_def wp_simps samePolicy_def cacheSound_def)
next
  case None
  have step: "(\<lambda>(r, c') s'. s' = s \<and> samePolicy c c' \<and> cacheSound (roleOf s) c' \<and>
        (\<forall>res. r = Inr res \<longrightarrow> res = granteeDecision c g (roleOf s g)))
      (case r of Inl e \<Rightarrow> (Inl e, c) | Inr res \<Rightarrow> (Inr res, c\<lparr>gcCache := AList.update g res (gcCache c)\<rparr>)) s"
    if "\<forall>res. r = Inr res \<longrightarrow> res = granteeDecision c g (roleOf s g)" for r
    using that assms by (cases r) (simp_all add: samePolicy_def cacheSound_update)
  show ?thesis
    unfolding check_def None option.case wp_bind wp_ret
    by (rule wp_mono [OF decide_post], elim conjE, hypsubst, rule step)
qed

lemma filterGrants_post:
  assumes "cacheSound (roleOf s) (gfChecker f)"
  shows "wp (filterGrants lookup field gs (f, out)) (\<lambda>(f', r) s'. s' = s \<and> samePolicy (gfChecker f) (gfChecker f') \<and>
    cacheSound (roleOf s) (gfChecker f') \<and>
    (\<forall>kept. r = Inr kept \<longrightarrow> kept = out @ filter (\<lambda>g.
      verdict (granteeDecision (gfChecker f) (tGrantee (Target g)) (roleOf s (tGrantee (Target g)))) = granteeAllowed) gs \<and>
      (filterErr f' = None \<longrightarrow> filterErr f = None \<and> kept = out @ gs))) s"
  using assms
proof (induction gs arbitrary: f out)
  case Nil
  then show ?case by (simp add: wp_simps samePolicy_def)
next
  case (Cons g gs)
  let ?d = "granteeDecision (gfChecker f) (tGrantee (Target g)) (roleOf s (tGrantee (Target g)))"
  let ?keep = "filter (\<lambda>g. verdict (granteeDecision (gfChecker f) (tGrantee (Target g)) (roleOf s (tGrantee (Target g)))) = granteeAllowed)"
  have rest: "wp (filterGrants lookup field gs (noteVerdict field g ?d (f\<lparr>gfChecker := c\<rparr>, out)))
      (\<lambda>(f', r) s'. s' = s \<and> samePolicy (gfChecker f) (gfChecker f') \<and> cacheSound (roleOf s) (gfChecker f') \<and>
        (\<forall>kept. r = Inr kept \<longrightarrow> kept = out @ ?keep (g # gs) \<and>
          (filterErr f' = None \<longrightarrow> filterErr f = None \<and> kept = out @ g # gs))) s"
    if c: "samePolicy (gfChecker f) c" "cacheSound (roleOf s) c" for c
  proof -
    obtain f1 out1 where n: "noteVerdict field g ?d (f\<lparr>gfChecker := c\<rparr>, out) = (f1, out1)"
      by (cases "noteVerdict field g ?d (f\<lparr>gfChecker := c\<rparr>, out)")
    then have f1: "gfChecker f1 = c" "out1 = (if verdict ?d = granteeAllowed then out @ [g] else out)"
      by (auto simp: noteVerdict_def split: granteeVerdict.splits)
    have err: "filterErr f1 = None \<longleftrightarrow> filterErr f = None \<and> verdict ?d = granteeAllowed"
      using noteVerdict_err [OF n] by (simp add: filterErr_None)
    have IH: "wp (filterGrants lookup field gs (f1, out1)) (\<lambda>(f', r) s'. s' = s \<and> samePolicy c (gfChecker f') \<and>
        cacheSound (roleOf s) (gfChecker f') \<and> (\<forall>kept. r = Inr kept \<longrightarrow> kept = out1 @ ?keep gs \<and>
          (filterErr f' = None \<longrightarrow> filterErr f1 = None \<and> kept = out1 @ gs))) s"
      using Cons.IH [of f1 out1] c by (simp add: f1 granteeDecision_same [OF c(1)])
    show ?thesis
      unfolding n
    proof (rule wp_mono [OF IH], goal_cases)
      case (1 a s')
      obtain f' r where a: "a = (f', r)" by (cases a)
      from 1 have r: "s' = s" "samePolicy c (gfChecker f')" "cacheSound (roleOf s) (gfChecker f')"
        "\<And>kept. r = Inr kept \<Longrightarrow> kept = out1 @ ?keep gs"
        "\<And>kept. r = Inr kept \<Longrightarrow> filterErr f' = None \<Longrightarrow> filterErr f1 = None \<and> kept = out1 @ gs"
        unfolding a prod.case by blast+
      have "samePolicy (gfChecker f) (gfChecker f')" using r(2) c(1) by (simp add: samePolicy_def)
      moreover have "kept = out @ ?keep (g # gs)" if "r = Inr kept" for kept
        using r(4) [OF that] by (simp add: f1(2))
      moreover have "filterErr f = None \<and> kept = out @ g # gs" if "r = Inr kept" "filterErr f' = None" for kept
        using r(5) [OF that] by (simp add: err f1(2))
      ultimately show ?case unfolding a prod.case using r(1,3) by blast
    qed
  qed
  have step: "wp (case r of Inl e \<Rightarrow> ret (f\<lparr>gfChecker := c\<rparr>, Inl e)
        | Inr res \<Rightarrow> filterGrants lookup field gs (noteVerdict field g res (f\<lparr>gfChecker := c\<rparr>, out)))
      (\<lambda>(f', r) s'. s' = s \<and> samePolicy (gfChecker f) (gfChecker f') \<and> cacheSound (roleOf s) (gfChecker f') \<and>
        (\<forall>kept. r = Inr kept \<longrightarrow> kept = out @ ?keep (g # gs) \<and>
          (filterErr f' = None \<longrightarrow> filterErr f = None \<and> kept = out @ g # gs))) s"
    if "samePolicy (gfChecker f) c" "cacheSound (roleOf s) c" "\<forall>res. r = Inr res \<longrightarrow> res = ?d" for r c
  proof (cases r)
    case (Inl e)
    with that show ?thesis by (simp add: wp_simps)
  next
    case (Inr res)
    with that(3) have r: "r = Inr ?d" by simp
    show ?thesis unfolding r sum.case by (rule rest [OF that(1,2)])
  qed
  show ?case
    unfolding filterGrants.simps wp_bind wp_case_prod
    by (rule wp_mono [OF check_post [OF Cons.prems]], unfold split_paired_all prod.case, elim conjE, hypsubst,
      rule step)
qed

end

sublocale role_catalog \<subseteq> grantees: role_lookup "LookupRole db" roleOf
  by unfold_locales (rule LookupRole_post)

interpretation refLookup: role_lookup "LookupRole refDb" refRole
  by unfold_locales (rule refRoles.LookupRole_post)

end
