(* ===== verification/Policy_Properties.thy ===== *)
theory Policy_Properties
  imports Grantee_Policy Pg_Server
begin

text \<open>
  Properties of the security policy: ownership markers, what a membership or an adopted role may
  reach, the attributes a role may have, the roles that may receive grants, and the keys of the
  ledger.
\<close>

section \<open>Ownership\<close>

lemma cutPrefix_Some: "cutPrefix s p = Some r \<Longrightarrow> s = p @ r"
  by (auto simp: cutPrefix_def hasPrefix_def split: if_splits) (metis append_take_drop_id)

text \<open>The name a marker was signed for can be read back from it.\<close>

lemma append_sep_last:
  assumes "a @ sep # b = c @ sep # d" and "sep \<notin> set b" "sep \<notin> set d"
  shows "a = c \<and> b = d"
proof -
  have "rev b @ sep # rev a = rev d @ sep # rev c" using arg_cong [OF assms(1), of rev] by simp
  moreover have "takeWhile (\<lambda>x. x \<noteq> sep) (rev b @ sep # rev a) = rev b" "takeWhile (\<lambda>x. x \<noteq> sep) (rev d @ sep # rev c) = rev d"
    using assms(2,3) by (simp_all add: takeWhile_append)
  ultimately have "rev b = rev d" by metis
  with assms(1) show ?thesis by simp
qed

lemma marker_inject:
  assumes "marker s kind name = marker t kind' name'" and "CHR ''/'' \<notin> set kind" "CHR ''/'' \<notin> set kind'"
  shows "kind = kind' \<and> name = name' \<and> keyID s = keyID t"
proof -
  let ?sig = "\<lambda>s kind name. keyID s @ CHR ''.'' # base64RawURL (hmacSHA256 (msKey s) (kind @ ''|'' @ msNamespace s @ ''|'' @ msCluster s @ ''|'' @ name))"
  have m: "marker s kind name = (markerV2Prefix @ kind @ CHR ''/'' # name) @ CHR '':'' # ?sig s kind name" for s kind name
    by (simp add: marker_def Let_def)
  have "CHR '':'' \<notin> set (keyID s)" for s by (simp add: keyID_def base64RawURL_chars)
  then have "CHR '':'' \<notin> set (?sig s kind name)" for s kind name by (simp add: base64RawURL_chars)
  from append_sep_last [OF assms(1) [unfolded m] this this]
  have "kind @ CHR ''/'' # name = kind' @ CHR ''/'' # name'" and sig: "?sig s kind name = ?sig t kind' name'" by simp_all
  with append_sep_cancel [of "CHR ''/''" kind kind' name name'] assms(2,3) have "kind = kind' \<and> name = name'" by simp
  moreover have "keyID s = keyID t" using append_sep_cancel [OF keyID_dot keyID_dot, of s _ t] sig by blast
  ultimately show ?thesis by blast
qed

text \<open>
  C17. Copied markers: an existing object that carries the marker of another object, whoever signed
  it, is not owned, even when the status of the resource records it, unless the Cluster lists it as
  adoptable.
\<close>

theorem copied_marker_refused:
  assumes "(kind', name') \<noteq> (kind, name)" and "CHR ''/'' \<notin> set kind" "CHR ''/'' \<notin> set kind'"
    and "CHR '':'' \<notin> set kind" "CHR '':'' \<notin> set kind'" "CHR '':'' \<notin> set name" "CHR '':'' \<notin> set name'"
  shows "decideOwnership s kind name True (marker t kind' name') recorded allowlisted = (if allowlisted then adoptable else notOwned)"
proof -
  have v: "\<not> verify s (marker t kind' name') kind name"
    unfolding verify_def using marker_inject [of t kind' name' s kind name] assms(1-3) by auto
  have "\<not> otherKeyMarker s (marker t kind' name') kind name"
  proof
    assume "otherKeyMarker s (marker t kind' name') kind name"
    then obtain rest where "cutPrefix (marker t kind' name') (markerV2Prefix @ kind @ ''/'' @ name @ '':'') = Some rest"
      by (auto simp: otherKeyMarker_def split: option.splits)
    then have "marker t kind' name' = (markerV2Prefix @ kind @ ''/'' @ name @ '':'') @ rest"
      by (rule cutPrefix_Some)
    then obtain sig where "(kind' @ CHR ''/'' # name') @ CHR '':'' # sig = (kind @ CHR ''/'' # name) @ CHR '':'' # rest"
      by (auto simp: marker_def Let_def)
    moreover have "CHR '':'' \<notin> set (kind' @ CHR ''/'' # name')" "CHR '':'' \<notin> set (kind @ CHR ''/'' # name)" using assms(4-7) by simp_all
    ultimately have "kind' @ CHR ''/'' # name' = kind @ CHR ''/'' # name"
      using append_sep_cancel [of "CHR '':''" "kind' @ CHR ''/'' # name'" "kind @ CHR ''/'' # name"] by simp
    with append_sep_cancel [of "CHR ''/''" kind' kind name' name] assms(1-3) show False by simp
  qed
  with v show ?thesis by (simp add: decideOwnership_def refreshableComment_def marker_not_legacy)
qed

theorem copied_marker_refused_witness:
  "decideOwnership (newMarkerSigner ''ns'' ''c'' ''key'') markerKindRole ''bob'' True (marker (newMarkerSigner ''ns'' ''c'' ''key'') markerKindRole ''eve'') True False = notOwned"
  by (subst copied_marker_refused) simp_all

text \<open>
  The life cycle of a marker: an object that the status records and that carries this resource's
  marker is owned; when it was signed with another key it stays owned and asks for a new marker; a
  marker with this key's identity and a wrong signature is not accepted. Without the record the
  comment never makes an object owned.
\<close>

lemma marker_lifecycle:
  "decideOwnership t kind name True (marker s kind name) True allowlisted =
     (if keyID s \<noteq> keyID t then ownedRemark
      else if msKey t \<noteq> [] \<and> marker s kind name = marker t kind name then owned
      else if allowlisted then adoptable else notOwned) \<and>
   decideOwnership t kind name True comment False allowlisted = (if allowlisted then adoptable else notOwned)"
proof -
  have "marker s kind name \<noteq> marker t kind name" if "keyID s \<noteq> keyID t"
    using otherKeyMarker_marker [of t s kind name] otherKeyMarker_marker [of t t kind name] that by auto
  then show ?thesis
    by (auto simp add: decideOwnership_def verify_def marker_not_refreshable)
qed

section \<open>Memberships and attributes\<close>

definition exReached :: "string \<Rightarrow> bool \<Rightarrow> ReachableRole" where
  "exReached n su = \<lparr>rrName = n, rrVia = [], rrComment = [], rrSuperuser = su, rrCreateRole = False, rrReplication = False, rrBypassRLS = False\<rparr>"

definition exMonitorPolicy :: RolePolicySpec where
  "exMonitorPolicy = \<lparr>AllowedAttributes = [RoleAttributeCreateRole], AllowedPredefinedRoles = [''pg_monitor''], AllowedExistingRoles = [],
     AdoptableRoles = [], AdoptableDatabases = [], AllowedExtensions = [], AllowedSettingPrefixes = []\<rparr>"

text \<open>
  C18. The membership policy: membership in a role is permitted exactly when its name is, and when
  every role it reaches is harmless (not reserved, no superuser, no attribute or predefined role
  the Cluster does not allow, managed by a Role of the Cluster or listed by it) or contained in a
  predefined role the Cluster allows.
\<close>

theorem membership_policy:
  "membershipProblem target closure policy managed = [] \<longleftrightarrow>
    target \<noteq> bootstrapRoleName \<and> \<not> hasPrefix target reservedRolePrefix \<and> target \<notin> set ForbiddenPredefinedRoles \<and>
    (hasPrefix target ''pg_'' \<longrightarrow> AllowsPredefinedRole policy target) \<and>
    (\<forall>r \<in> set closure. harmlessRole r policy managed \<or>
      rrName r \<noteq> target \<and> rrName r \<in> {''pg_read_all_settings'', ''pg_read_all_stats'', ''pg_stat_scan_tables''} \<and>
      (\<exists>m \<in> set closure. rrName m = ''pg_monitor'' \<and> AllowsPredefinedRole policy ''pg_monitor''))"
proof -
  have "containedPredefinedRole n closure policy \<longleftrightarrow> n \<in> {''pg_read_all_settings'', ''pg_read_all_stats'', ''pg_stat_scan_tables''} \<and>
      (\<exists>m \<in> set closure. rrName m = ''pg_monitor'' \<and> AllowsPredefinedRole policy ''pg_monitor'')" for n
    by (auto simp: containedPredefinedRole_def builtinContainedRoles_def list_ex_iff intro: bexI [rotated])
  then show ?thesis
    unfolding membershipProblem_def Let_def
    by (auto simp: membershipNameProblem_ok membershipProblemLoop_ok)
qed

theorem membership_policy_witness:
  "membershipProblem ''pg_monitor'' [exReached ''pg_monitor'' False, exReached ''pg_read_all_stats'' False] (Some exMonitorPolicy) [] = [] \<and>
   membershipProblem ''readers'' [exReached ''readers'' True] None [(''readers'', [])] \<noteq> []"
  unfolding membership_policy by code_simp

text \<open>
  Adoption: pgop takes an existing role over only when the role is no superuser and every role
  it reaches through memberships passes the membership policy.
\<close>

lemma adoption_policy:
  "adoptionProblem name closure policy managed = [] \<longleftrightarrow>
    (\<forall>r \<in> set closure. if rrVia r = [] then \<not> rrSuperuser r
      else harmlessRole r policy managed \<or> containedPredefinedRole (rrName r) closure policy)"
  unfolding adoptionProblem_def adoptionProblemLoop_ok by meson

lemma adoption_policy_example:
  "adoptionProblem ''bob'' [exReached ''bob'' False] None [] = [] \<and> adoptionProblem ''root'' [exReached ''root'' True] None [] \<noteq> []"
  unfolding adoption_policy by code_simp

text \<open>
  Attributes: the options pgop gives a role have CREATEROLE, REPLICATION and BYPASSRLS only when
  the Cluster allows them; when every requested attribute is allowed the options are the ones of
  the spec, otherwise the role gets none of the three and the violation is reported.
\<close>

lemma attribute_policy:
  "case desiredRoleOptions spec policy of (opts, err) \<Rightarrow>
    (CreateRole opts \<longrightarrow> rsCreateRole spec \<and> AllowsAttribute policy RoleAttributeCreateRole) \<and>
    (Replication opts \<longrightarrow> rsReplication spec \<and> AllowsAttribute policy RoleAttributeReplication) \<and>
    (BypassRLS opts \<longrightarrow> rsBypassRLS spec \<and> AllowsAttribute policy RoleAttributeBypassRLS) \<and>
    Login opts = IsLogin spec \<and> CreateDB opts = rsCreateDB spec \<and> Inherit opts = IsInherit spec \<and>
    ConnectionLimit opts = GetConnectionLimit spec \<and>
    (if err = None
     then CreateRole opts = rsCreateRole spec \<and> Replication opts = rsReplication spec \<and> BypassRLS opts = rsBypassRLS spec
     else \<not> CreateRole opts \<and> \<not> Replication opts \<and> \<not> BypassRLS opts)"
  by (auto simp: desiredRoleOptions_def Let_def deniedAttributes_Nil)

section \<open>Grantees\<close>

text \<open>
  C19. Grantees: on a catalog of roles, the filter keeps exactly the grants whose grantee is PUBLIC or
  an existing role that is not being deleted, is no superuser, is not reserved and is managed by a
  Role of the Cluster or listed by it; a lookup that fails stops it, and nothing changes.
\<close>

theorem grantee_filter_exact:
  assumes "role_catalog db roleOf" and "gcCache c = []"
    and "run_state (filterFor (LookupRole db) (newGrantFilter c) field desired) s = ((f, Inr kept), s')"
  shows "s' = s \<and> kept = filter (\<lambda>g. let n = tGrantee (Target g) in
    IsPublic n \<or> granteeNameProblem n = [] \<and> n \<notin> set (gcDeleting c) \<and>
    (case roleOf s n of None \<Rightarrow> False | Some r \<Rightarrow> granteeNameProblem (rrName r) = [] \<and> \<not> rrSuperuser r \<and>
      (manages (gcManaged c) r \<or> AllowsExistingRole (gcPolicy c) (rrName r)))) desired"
proof -
  have "role_lookup (LookupRole db) roleOf" by (rule role_lookup.intro, rule role_catalog.LookupRole_post [OF assms(1)])
  from role_lookup.filterGrants_post [OF this, of s "newGrantFilter c" field desired "[]"]
  have "wp (filterFor (LookupRole db) (newGrantFilter c) field desired) (\<lambda>(f', r) s'. s' = s \<and> samePolicy c (gfChecker f') \<and>
      cacheSound (roleOf s) (gfChecker f') \<and> (\<forall>kept. r = Inr kept \<longrightarrow> kept = filter (\<lambda>g.
        verdict (granteeDecision c (tGrantee (Target g)) (roleOf s (tGrantee (Target g)))) = granteeAllowed) desired \<and>
        (filterErr f' = None \<longrightarrow> filterErr (newGrantFilter c) = None \<and> kept = desired))) s"
    by (simp add: filterFor_def newGrantFilter_def cacheSound_def assms(2))
  from wp_run [OF this assms(3)] have "s' = s" "kept = filter (\<lambda>g.
      verdict (granteeDecision c (tGrantee (Target g)) (roleOf s (tGrantee (Target g)))) = granteeAllowed) desired" by simp_all
  moreover have "verdict (granteeDecision c n r) = granteeAllowed \<longleftrightarrow> IsPublic n \<or> granteeNameProblem n = [] \<and> n \<notin> set (gcDeleting c) \<and>
    (case r of None \<Rightarrow> False | Some r \<Rightarrow> granteeNameProblem (rrName r) = [] \<and> \<not> rrSuperuser r \<and>
      (manages (gcManaged c) r \<or> AllowsExistingRole (gcPolicy c) (rrName r)))" for n r
    by (auto simp: granteeDecision_def granteeProblem_def split: option.splits)
  ultimately show ?thesis by (simp add: Let_def)
qed

definition exChecker :: granteeChecker where
  "exChecker = \<lparr>gcPolicy = None, gcManaged = [(''bob'', ''m-bob'')], gcDeleting = [''old''], gcCache = [], gcForRoles = [], gcOwners = []\<rparr>"

definition exGrantTo :: "string \<Rightarrow> privilegeGrant" where
  "exGrantTo n = \<lparr>Target = \<lparr>tKind = ObjectDatabase, tName = ''app'', tGrantee = n, tSchema = [], tForRole = [], tOID = 0\<rparr>,
     Privileges = [PrivilegeConnect], GrantOptions = []\<rparr>"

definition exRolesServer :: refServer where
  "exRolesServer = \<lparr>rvAcl = [], rvRoles = map (\<lambda>(n, su). \<lparr>rrName = n, rrVia = [], rrComment = ''m-'' @ n, rrSuperuser = su, rrCreateRole = False,
     rrReplication = False, rrBypassRLS = False\<rparr>) [(''bob'', False), (''root'', True)], rvMembers = [], rvSettings = [], rvLedger = []\<rparr>"

lemma exFilterRun: "\<exists>f. run_state (filterFor (LookupRole refDb) (newGrantFilter exChecker) ''grants'' (map exGrantTo [''bob'', ''root'', ''old'', ''ghost''])) exRolesServer =
    ((f, Inr [exGrantTo ''bob'']), exRolesServer)"
proof -
  have "case run_state (filterFor (LookupRole refDb) (newGrantFilter exChecker) ''grants'' (map exGrantTo [''bob'', ''root'', ''old'', ''ghost''])) exRolesServer of
    ((f, r), s') \<Rightarrow> r = Inr [exGrantTo ''bob''] \<and> s' = exRolesServer" by code_simp
  then show ?thesis by (auto split: prod.splits)
qed

theorem grantee_filter_exact_witness:
  "[exGrantTo ''bob''] = filter (\<lambda>g. let n = tGrantee (Target g) in
    IsPublic n \<or> granteeNameProblem n = [] \<and> n \<notin> set (gcDeleting exChecker) \<and>
    (case refRole exRolesServer n of None \<Rightarrow> False | Some r \<Rightarrow> granteeNameProblem (rrName r) = [] \<and> \<not> rrSuperuser r \<and>
      (manages (gcManaged exChecker) r \<or> AllowsExistingRole (gcPolicy exChecker) (rrName r)))) (map exGrantTo [''bob'', ''root'', ''old'', ''ghost''])"
proof -
  have c: "gcCache exChecker = []" by (simp add: exChecker_def)
  obtain f where "run_state (filterFor (LookupRole refDb) (newGrantFilter exChecker) ''grants'' (map exGrantTo [''bob'', ''root'', ''old'', ''ghost''])) exRolesServer =
    ((f, Inr [exGrantTo ''bob'']), exRolesServer)" using exFilterRun by blast
  from grantee_filter_exact [OF refRoles.role_catalog_axioms c this] show ?thesis by blast
qed

end
