(* ===== verification/Sql_Properties.thy ===== *)
theory Sql_Properties
  imports Pg_Server Role_Policy
begin

text \<open>
  The statements the client sends say exactly what they were built from: the properties of the
  builders of \<open>internal/postgres\<close>, over the lexer and the recognisers of \<open>Pg_Lexer\<close> and
  \<open>Pg_Statements\<close>. No name, value or password can end its quotes and add to the statement,
  whichever way the server reads backslashes.
\<close>

section \<open>Words separated by blanks\<close>

text \<open>A piece of text that is read as the tokens \<open>ts\<close>, at the end or before a blank.\<close>

definition lexes :: "bool \<Rightarrow> string \<Rightarrow> token list \<Rightarrow> bool" where
  "lexes scs t ts \<longleftrightarrow> (\<forall>r. r = [] \<or> hd r = CHR '' '' \<longrightarrow> lexSql scs (t @ r) = map_option ((@) ts) (lexSql scs r))"

lemma lex_comp:
  "map_option ((@) a) (map_option ((@) b) x) = map_option ((@) (a @ b)) x"
  "map_option ((#) c) (map_option ((@) b) x) = map_option ((@) (c # b)) x"
  by (cases x; simp)+

lemma lexSql_blank [simp]: "lexSql scs (CHR '' '' # r) = lexSql scs r"
  by (rule lexSql_space) (simp add: isSpaceChar_def)

lemma blank_facts: "r = [] \<or> hd r = CHR '' '' \<Longrightarrow> (r = [] \<or> \<not> identChar (hd r)) \<and> \<not> hasPrefix r [squote] \<and> \<not> hasPrefix r [dquote]"
  by (cases r) (auto simp: hasPrefix_def identChar_def identStartChar_def)

lemma lexes_word: "keyWord w \<Longrightarrow> lexes scs w [Word w]"
  unfolding lexes_def using lexSql_word [of w _ scs] blank_facts by (simp add: append_Cons [abs_def])

lemma lexes_ident: "n \<noteq> [] \<Longrightarrow> length n \<le> nameDataLen \<Longrightarrow> lexes scs (quoteIdent n) [Ident n]"
  unfolding lexes_def using lexSql_quoteIdent [of n _ scs] blank_facts by (simp add: append_Cons [abs_def])

lemma lexes_literal: "lexes scs (quoteLiteral s) [Lit s]"
  unfolding lexes_def using lexSql_quoteLiteral [of _ scs s] blank_facts by (simp add: append_Cons [abs_def])

lemma lexes_join: "list_all2 (lexes scs) ps tss \<Longrightarrow> lexes scs (joinStr ps '' '') (concat tss)"
proof (induction ps tss rule: list_all2_induct)
  case (Cons p ps t tss)
  show ?case
  proof (cases ps)
    case Nil
    with Cons show ?thesis by (auto simp: lexes_def)
  next
    case (Cons q qs)
    have "lexSql scs (p @ CHR '' '' # joinStr ps '' '' @ r) = map_option ((@) t) (lexSql scs (joinStr ps '' '' @ r))" for r
      using \<open>lexes scs p t\<close> by (simp add: lexes_def)
    moreover have "lexSql scs (joinStr ps '' '' @ r) = map_option ((@) (concat tss)) (lexSql scs r)"
      if "r = [] \<or> hd r = CHR '' ''" for r
      using Cons.IH that unfolding lexes_def by blast
    ultimately show ?thesis by (auto simp: lexes_def Cons lex_comp)
  qed
qed (simp add: lexes_def append_Nil [abs_def] option.map_ident)

lemma lexes_whole: "lexes scs t ts \<Longrightarrow> lexSql scs t = Some ts"
  unfolding lexes_def by (drule spec [of _ "[]"]) (simp add: lexSql.simps)

section \<open>Role statements\<close>

lemma roleKeyWords [simp]:
  "keyWord ''LOGIN''" "keyWord ''NOLOGIN''" "keyWord ''NOSUPERUSER''" "keyWord ''CREATEDB''" "keyWord ''NOCREATEDB''"
  "keyWord ''CREATEROLE''" "keyWord ''NOCREATEROLE''" "keyWord ''NOINHERIT''" "keyWord ''REPLICATION''" "keyWord ''NOREPLICATION''"
  "keyWord ''BYPASSRLS''" "keyWord ''NOBYPASSRLS''" "keyWord ''CONNECTION''" "keyWord ''LIMIT''" "keyWord ''PASSWORD''"
  by code_simp+

text \<open>The options a role statement states, as PostgreSQL reads them.\<close>

definition limitTokens :: "int \<Rightarrow> token list" where
  "limitTokens i = (if i < 0 then [Sym (CHR ''-'')] else []) @ [Word (natDigits (nat \<bar>i\<bar>))]"

definition roleTokens :: "RoleOptions \<Rightarrow> token list" where
  "roleTokens opts =
     [Word (if Login opts then ''LOGIN'' else ''NOLOGIN''), Word ''NOSUPERUSER'',
      Word (if CreateDB opts then ''CREATEDB'' else ''NOCREATEDB''),
      Word (if CreateRole opts then ''CREATEROLE'' else ''NOCREATEROLE''),
      Word (if Inherit opts then ''INHERIT'' else ''NOINHERIT''),
      Word (if Replication opts then ''REPLICATION'' else ''NOREPLICATION''),
      Word (if BypassRLS opts then ''BYPASSRLS'' else ''NOBYPASSRLS''),
      Word ''CONNECTION'', Word ''LIMIT''] @ limitTokens (ConnectionLimit opts) @
     (if Password opts \<noteq> [] then [Word ''PASSWORD'', Lit (Password opts)] else [])"

lemma lexes_digits: "lexes scs (natDigits n) [Word (natDigits n)]"
  unfolding lexes_def
proof (intro allI impI)
  fix r :: string assume r: "r = [] \<or> hd r = CHR '' ''"
  obtain c v where d: "natDigits n = c # v" by (cases "natDigits n") auto
  have dig: "\<forall>x \<in> set (c # v). isDigitChar x" using natDigits_chars [of _ n] by (simp add: d isDigitChar_def Let_def)
  have "takeWhile isDigitChar (v @ r) = v \<and> dropWhile isDigitChar (v @ r) = r"
    using dig r by (cases r) (auto simp: takeWhile_append dropWhile_append dropWhile_eq_Nil_conv isDigitChar_def)
  moreover have "\<not> isSpaceChar c" "c \<noteq> dquote" "c \<noteq> squote" "c \<noteq> CHR ''E''" "c \<noteq> CHR ''e''" "\<not> identStartChar c" "isDigitChar c"
    using dig by (auto simp: isDigitChar_def isSpaceChar_def identStartChar_def Let_def)
  ultimately show "lexSql scs (natDigits n @ r) = map_option ((@) [Word (natDigits n)]) (lexSql scs r)"
    by (simp add: d lexSql.simps append_Cons [abs_def])
qed

lemma lexes_limit: "lexes scs (formatInt i) (limitTokens i)"
proof (cases "i < 0")
  case True
  have "lexSql scs (CHR ''-'' # t) = map_option ((#) (Sym (CHR ''-''))) (lexSql scs t)" for t
    by (rule lexSql_sym) (auto simp: isSpaceChar_def identStartChar_def isDigitChar_def)
  with True lexes_digits [of scs "nat (- i)"] show ?thesis
    by (auto simp: lexes_def formatInt_def limitTokens_def lex_comp)
qed (use lexes_digits in \<open>simp add: formatInt_def limitTokens_def\<close>)

lemma lexes_roleOptions:
  assumes "lexes scs h ts"
  shows "lexes scs (joinStr (h # buildRoleOptions opts) '' '') (ts @ roleTokens opts)"
proof -
  have "lexes scs (joinStr [''CONNECTION'', ''LIMIT'', formatInt (ConnectionLimit opts)] '' '')
      (concat [[Word ''CONNECTION''], [Word ''LIMIT''], limitTokens (ConnectionLimit opts)])"
    by (intro lexes_join) (simp add: lexes_word lexes_limit)
  then have limit: "lexes scs (''CONNECTION LIMIT '' @ formatInt (ConnectionLimit opts))
      ([Word ''CONNECTION'', Word ''LIMIT''] @ limitTokens (ConnectionLimit opts))" by simp
  have "lexes scs (joinStr [''PASSWORD'', quoteLiteral (Password opts)] '' '') (concat [[Word ''PASSWORD''], [Lit (Password opts)]])"
    by (intro lexes_join) (simp add: lexes_word lexes_literal)
  then have pw: "lexes scs (''PASSWORD '' @ quoteLiteral (Password opts)) [Word ''PASSWORD'', Lit (Password opts)]" by simp
  let ?w = "\<lambda>w. [Word w]"
  let ?tss = "ts # map ?w (map (\<lambda>(b, y, n). if b then y else n) [(Login opts, ''LOGIN'', ''NOLOGIN''), (True, ''NOSUPERUSER'', []),
      (CreateDB opts, ''CREATEDB'', ''NOCREATEDB''), (CreateRole opts, ''CREATEROLE'', ''NOCREATEROLE''), (Inherit opts, ''INHERIT'', ''NOINHERIT''),
      (Replication opts, ''REPLICATION'', ''NOREPLICATION''), (BypassRLS opts, ''BYPASSRLS'', ''NOBYPASSRLS'')]) @
      [[Word ''CONNECTION'', Word ''LIMIT''] @ limitTokens (ConnectionLimit opts)] @
      (if Password opts \<noteq> [] then [[Word ''PASSWORD'', Lit (Password opts)]] else [])"
  have "list_all2 (lexes scs) (h # buildRoleOptions opts) ?tss"
    unfolding buildRoleOptions_def using assms limit pw by (simp add: lexes_word)
  moreover have "concat ?tss = ts @ roleTokens opts" by (cases "Password opts = []") (simp_all add: roleTokens_def)
  ultimately show ?thesis using lexes_join by metis
qed

text \<open>
  C26. Role statements: CREATE ROLE and ALTER ROLE name exactly the role they are built for and state
  exactly the options of the spec, always with NOSUPERUSER; the password is one literal, and an
  ALTER that keeps the existing password states none.
\<close>

theorem role_statement_exact:
  assumes "name \<noteq> []" and "length name \<le> nameDataLen"
  shows "lexSql scs (buildRoleQuery name exists opts) =
    Some ([Word (if exists then ''ALTER'' else ''CREATE''), Word ''ROLE'', Ident name] @
      roleTokens (if exists \<and> KeepExistingPassword opts then opts\<lparr>Password := []\<rparr> else opts))"
proof -
  have head: "lexes scs (w @ CHR '' '' # ''ROLE '' @ quoteIdent name) [Word w, Word ''ROLE'', Ident name]" if "keyWord w" for w
    using lexes_join [of scs "[w, ''ROLE'', quoteIdent name]" "[[Word w], [Word ''ROLE''], [Ident name]]"]
      that assms by (simp add: lexes_word lexes_ident)
  have "keyWord ''ALTER''" "keyWord ''CREATE''" by code_simp+
  from head [OF this(1)] head [OF this(2)] show ?thesis
    using lexes_whole [OF lexes_roleOptions [of scs _ "[Word ''ALTER'', Word ''ROLE'', Ident name]"]]
      lexes_whole [OF lexes_roleOptions [of scs _ "[Word ''CREATE'', Word ''ROLE'', Ident name]"]]
    by (simp add: buildRoleQuery_def buildCreateRoleQuery_def buildAlterRoleQuery_def)
qed

theorem role_statement_exact_witness:
  "lexSql True (buildRoleQuery ''bob'' True \<lparr>Login = True, CreateDB = False, CreateRole = False, Inherit = True, Replication = False,
      BypassRLS = False, ConnectionLimit = -1, Password = [squote], KeepExistingPassword = True, Comment = [], CreateOnly = False\<rparr>) =
    Some ([Word ''ALTER'', Word ''ROLE'', Ident ''bob''] @ roleTokens \<lparr>Login = True, CreateDB = False, CreateRole = False, Inherit = True, Replication = False,
      BypassRLS = False, ConnectionLimit = -1, Password = [], KeepExistingPassword = True, Comment = [], CreateOnly = False\<rparr>)"
  by (subst role_statement_exact) (simp_all add: nameDataLen_def)

section \<open>Privileges, settings and memberships\<close>

text \<open>
  C27. Privilege statements: a GRANT or REVOKE that the builder accepts is read by PostgreSQL with
  the privileges, the object, the grantee and the options it was built from.
\<close>

theorem privilege_statements_exact:
  assumes "\<forall>n \<in> set (objParts obj). length n \<le> nameDataLen" and "length g \<le> nameDataLen"
  shows "(\<forall>q. buildGrantPrivilegesQuery obj g ps w = Inr q \<longrightarrow> (\<exists>privs. set privs = canonicalKeyword ` set ps \<and>
      parseSql scs q = Some (GrantStmt privs (Kind obj) (objParts obj) (granteeOf g) w))) \<and>
    (\<forall>q. buildRevokePrivilegesQuery obj g ps mode = Inr q \<longrightarrow> (\<exists>privs. set privs = canonicalKeyword ` set ps \<and>
      parseSql scs q = Some (RevokeStmt (GrantOptionOnly mode) privs (Kind obj) (objParts obj) (granteeOf g) (Cascade mode))))"
  using buildGrantPrivilegesQuery_reads [OF _ assms] buildRevokePrivilegesQuery_reads [OF _ assms] by blast

theorem privilege_statements_exact_witness:
  "\<exists>q privs. buildGrantPrivilegesQuery \<lparr>Kind = ObjectDatabase, Name = ''a'' @ [dquote] @ ''b''\<rparr> ''bob'' [''connect''] True = Inr q \<and>
    set privs = {PrivilegeConnect} \<and> parseSql False q = Some (GrantStmt privs ObjectDatabase [''a'' @ [dquote] @ ''b''] (Some ''bob'') True)"
proof -
  let ?o = "\<lparr>Kind = ObjectDatabase, Name = ''a'' @ [dquote] @ ''b''\<rparr>"
  have "case buildGrantPrivilegesQuery ?o ''bob'' [''connect''] True of Inl _ \<Rightarrow> False | Inr _ \<Rightarrow> True" by code_simp
  then obtain q where q: "buildGrantPrivilegesQuery ?o ''bob'' [''connect''] True = Inr q" by (auto split: sum.splits)
  have f: "objParts ?o = [''a'' @ [dquote] @ ''b'']" "granteeOf ''bob'' = Some ''bob''" "canonicalKeyword ` set [''connect''] = {PrivilegeConnect}" by code_simp+
  have "\<forall>n \<in> set (objParts ?o). length n \<le> nameDataLen" "length ''bob'' \<le> nameDataLen" by code_simp+
  from privilege_statements_exact [OF this, THEN conjunct1, THEN spec, THEN mp, OF q, of False] obtain privs where
    "set privs = canonicalKeyword ` set [''connect'']" "parseSql False q = Some (GrantStmt privs (Kind ?o) (objParts ?o) (granteeOf ''bob'') True)" by blast
  with q f show ?thesis by (metis PrivilegeObject.select_convs(1))
qed

text \<open>
  C28. Setting statements: ALTER ROLE and ALTER DATABASE with SET or RESET name exactly the role,
  the database and the parameter they are built for, and SET states the declared value as one
  literal, or one literal per element for list parameters.
\<close>

theorem setting_statements_exact:
  assumes "shortParts p" and "length r \<le> nameDataLen" and "length d \<le> nameDataLen"
  shows "(\<forall>q. buildAlterRoleSetQuery r d p v = Inr q \<longrightarrow>
      parseAlter scs q = Some (AlterSet (r, d) (splitStr (toLower p) (CHR ''.'')) (settingValues (toLower p) v))) \<and>
    (\<forall>q. buildAlterRoleResetQuery r d p = Inr q \<longrightarrow>
      parseAlter scs q = Some (AlterReset (r, d) (splitStr (toLower p) (CHR ''.'')))) \<and>
    (\<forall>q. d \<noteq> [] \<and> buildAlterDatabaseSetQuery d p v = Inr q \<longrightarrow>
      parseAlter scs q = Some (AlterSet ([], d) (splitStr (toLower p) (CHR ''.'')) (settingValues (toLower p) v))) \<and>
    (\<forall>q. d \<noteq> [] \<and> buildAlterDatabaseResetQuery d p = Inr q \<longrightarrow>
      parseAlter scs q = Some (AlterReset ([], d) (splitStr (toLower p) (CHR ''.''))))"
  using buildAlterRoleSetQuery_reads [OF _ assms] buildAlterRoleResetQuery_reads [OF _ assms]
    buildAlterDatabaseSetQuery_reads [OF _ assms(1) _ assms(3)] buildAlterDatabaseResetQuery_reads [OF _ assms(1) _ assms(3)]
  by blast

theorem setting_statements_exact_witness:
  "\<exists>q. buildAlterRoleSetQuery ''bob'' ''app'' ''Search_Path'' ''a, b'' = Inr q \<and>
    parseAlter True q = Some (AlterSet (''bob'', ''app'') [''search_path''] [''a'', ''b''])"
proof -
  have "case buildAlterRoleSetQuery ''bob'' ''app'' ''Search_Path'' ''a, b'' of Inl _ \<Rightarrow> False | Inr _ \<Rightarrow> True" by code_simp
  then obtain q where q: "buildAlterRoleSetQuery ''bob'' ''app'' ''Search_Path'' ''a, b'' = Inr q" by (auto split: sum.splits)
  have f: "splitStr (toLower ''Search_Path'') (CHR ''.'') = [''search_path'']" "settingValues (toLower ''Search_Path'') ''a, b'' = [''a'', ''b'']"
    "shortParts ''Search_Path''" "length ''bob'' \<le> nameDataLen" "length ''app'' \<le> nameDataLen" by code_simp+
  from setting_statements_exact [OF f(3-5), of "''a, b''" True] q show ?thesis unfolding f(1,2) by blast
qed

end
