(* ===== verification/Grant_Targets.thy ===== *)
theory Grant_Targets
  imports Grant_Correct
begin

text \<open>
  The targets of a returned ledger, for any operations: every entry keeps the target of a declared
  grant or of an entry of the ledger the run started with. The reconcilers convert ledgers to
  their status form and back with this fact.
\<close>

definition targetsIn :: "grantTarget set \<Rightarrow> privilegeGrant gomap \<Rightarrow> bool" where
  "targetsIn T M \<longleftrightarrow> (\<forall>k g. map_of M k = Some g \<longrightarrow> Target g \<in> T)"

lemma wp_const: "(\<And>a s'. Q a s') \<Longrightarrow> wp f Q s"
  by (rule wp_mono [OF wp_True])

lemma revokeGrantOptionsOnly_target:
  "wp (revokeGrantOptionsOnly ops opts st) (\<lambda>r _. Target (fst r) = Target (fst st)) s"
  by (cases st) (simp add: revokeGrantOptionsOnly_def wp_ret wp_bind wp_const)

lemma revokeWithOption_target:
  "wp (revokeWithOption ops opts st) (\<lambda>r _. Target (fst r) = Target (fst st)) s"
  by (cases st) (simp add: revokeWithOption_def wp_ret wp_bind wp_const)

lemma afterEach_target: "Target (fst (afterEach st r)) = Target (fst st)"
  by (cases st; cases r) (simp add: Let_def)

lemma revokePlain_target:
  "wp (revokePlain ops ps st) (\<lambda>r _. Target (fst r) = Target (fst st)) s"
  by (cases st) (simp add: revokePlain_def wp_ret wp_bind wp_const afterEach_target)

lemma revokeStatements_target:
  "wp (revokeStatements ops m removed opts sk) (\<lambda>r _. Target (fst r) = Target m) s"
  unfolding revokeStatements_def wp_bind wp_case_prod Let_def wp_ret
proof (rule wp_mono [OF revokeGrantOptionsOnly_target], goal_cases)
  case (1 r1 s1)
  obtain m1 errs1 sk1 where r1: "r1 = (m1, errs1, sk1)" by (cases r1)
  show ?case
    unfolding r1 prod.case
  proof (rule wp_mono [OF revokeWithOption_target], goal_cases)
    case (1 st2 s2)
    then have t: "Target (fst st2) = Target m" using \<open>Target (fst r1) = Target (fst (m, [], sk))\<close> r1 by simp
    show ?case by (rule wp_mono [OF revokePlain_target]) (use t in \<open>simp add: case_prod_beta\<close>)
  qed
qed

lemma revokeRemoved_target: "wp (revokeRemoved m d ops sk) (\<lambda>r _. Target (fst r) = Target m) s"
proof -
  have "wp (case r of Inl e \<Rightarrow> ret (m, Some e, sk)
      | Inr True \<Rightarrow> ret (\<lparr>Target = Target m, Privileges = [], GrantOptions = []\<rparr>, None, sk)
      | Inr False \<Rightarrow> revokeStatements ops m removed opts sk) (\<lambda>r _. Target (fst r) = Target m) s" for r removed opts s
    by (cases r) (simp_all add: wp_ret revokeStatements_target split: bool.split)
  then show ?thesis
    by (simp add: revokeRemoved_def Let_def wp_ret wp_bind revokeStatements_target wp_const split: option.split)
qed

lemma targetsIn_store:
  "targetsIn T M \<Longrightarrow> Target m \<in> T \<Longrightarrow> targetsIn T (if emptyGrant m then AList.delete k M else AList.update k m M)"
  by (auto simp: targetsIn_def map_simps)

lemma revokeAll_targets:
  assumes "targetsIn T M0"
  shows "wp (revokeAll ops W M0 errs0) (\<lambda>r _. targetsIn T (fst r)) s"
  unfolding revokeAll_def
proof (rule wp_forEach_rest [where I = "\<lambda>rest b _. distinct rest \<and> set rest \<subseteq> dom (map_of (fst b)) \<and> targetsIn T (fst b)"])
  fix k rest s1 and b :: revokeAllLocals
  assume I: "distinct (k # rest) \<and> set (k # rest) \<subseteq> dom (map_of (fst b)) \<and> targetsIn T (fst b)"
  obtain M errs sk where b: "b = (M, errs, sk)" by (cases b)
  from I b have m: "Target (mapGet zeroGrant M k) \<in> T" by (auto simp: targetsIn_def mapGet_def)
  show "wp (revokeStep ops W k b) (\<lambda>b _. distinct rest \<and> set rest \<subseteq> dom (map_of (fst b)) \<and> targetsIn T (fst b)) s1"
    unfolding b revokeStep.simps wp_bind wp_case_prod wp_ret
  proof (rule wp_mono [OF revokeRemoved_target], goal_cases)
    case (1 r s2)
    obtain m' err sk' where r: "r = (m', err, sk')" by (cases r)
    have "targetsIn T (if emptyGrant m' then AList.delete k M else AList.update k m' M)"
      using 1 m I by (intro targetsIn_store) (simp_all add: b r)
    moreover have "set rest \<subseteq> dom (map_of (if emptyGrant m' then AList.delete k M else AList.update k m' M))"
      using I by (auto simp: b map_simps)
    ultimately show ?case using I by (simp add: r)
  qed
qed (use assms in auto)

definition plannedFor :: "privilegeGrant list \<Rightarrow> plannedGrant \<Rightarrow> bool" where
  "plannedFor ds p \<longleftrightarrow> pgTarget p \<in> Target ` set ds \<and> pgTarget p = Target (pgAdded p)"

lemma plannedFor_Nil: "\<not> plannedFor [] p"
  by (simp add: plannedFor_def)

lemma planAll_targets:
  "wp (planAll ops ds errs0) (\<lambda>r _. \<forall>p \<in> set (snd r). plannedFor ds p) s"
  unfolding planAll_def
proof (rule wp_forEach [where I = "\<lambda>b _. \<forall>p \<in> set (snd b). plannedFor ds p"])
  fix d and b :: "error option list \<times> plannedGrant list" and s1
  assume d: "d \<in> set ds" and I: "\<forall>p \<in> set (snd b). plannedFor ds p"
  obtain errs plan where b: "b = (errs, plan)" by (cases b)
  have "wp (planMissing d ops) (\<lambda>r _. \<forall>p. r = Inr p \<longrightarrow> plannedFor ds p) s1"
    unfolding planMissing_def wp_bind wp_ret by (rule wp_const) (use d in \<open>auto simp: Let_def wp_ret plannedFor_def split: sum.splits\<close>)
  then show "wp (planStep ops d b) (\<lambda>b _. \<forall>p \<in> set (snd b). plannedFor ds p) s1"
    unfolding b planStep.simps wp_bind wp_ret
  proof (rule wp_mono, goal_cases)
    case (1 r s2)
    then show ?case using d I b by (cases r) auto
  qed
qed auto

lemma sortedGrants_targets: "targetsIn T M \<Longrightarrow> g \<in> set (sortedGrants M) \<Longrightarrow> Target g \<in> T"
  by (auto simp: set_sortedGrants targetsIn_def)

lemma executePlan_targets:
  assumes "targetsIn T M"
  shows "wp (executePlan ops W M plan errs0) (\<lambda>r _. \<forall>g \<in> set (fst r). Target g \<in> T) s"
  unfolding executePlan_def wp_bind wp_case_prod Let_def wp_ret
  by (rule wp_const, rule wp_mono [OF revokeAll_targets [OF assms]])
    (auto simp: sortedGrants_targets split: prod.split)

text \<open>The targets of the ledger a whole run returns.\<close>

lemma apply_targets:
  "wp (applyPrivilegeGrants desired L ops limit persist) (\<lambda>r _. \<forall>g \<in> set (fst r). Target g \<in> Target ` (set desired \<union> set L)) s"
proof -
  let ?T = "Target ` (set desired \<union> set L)"
  have tr: "targetsIn ?T (trackedOf L)" by (auto simp: targetsIn_def dest: trackedOf_entry)
  have arm: "wp (if plan = [] then executePlan ops (wantOf desired) (trackedOf L) [] errs
      else let intended = intendedLedger (trackedOf L) plan
        in State_Monad.bind (case persist of None \<Rightarrow> ret None | Some p \<Rightarrow> p (sortedGrants intended))
          (\<lambda>e. case e of None \<Rightarrow> executePlan ops (wantOf desired) intended plan errs
            | Some x \<Rightarrow> ret (sortedGrants (trackedOf L), joinErrs (errs @ [Some (Wrapf
                      ''recording the grants pgop is about to make failed, nothing was granted: %w'' [] x)]))))
      (\<lambda>r _. \<forall>g \<in> set (fst r). Target g \<in> ?T) s1"
    if "\<forall>p \<in> set plan. plannedFor desired p" for plan errs s1
  proof -
    have wf: "wfPlan plan" using that by (simp add: wfPlan_def plannedFor_def)
    have it: "targetsIn ?T (intendedLedger (trackedOf L) plan)"
      unfolding targetsIn_def
    proof (intro allI impI)
      fix k g assume "map_of (intendedLedger (trackedOf L) plan) k = Some g"
      from intendedLedger_entry [OF wf this] show "Target g \<in> ?T"
      proof
        assume "grantKey g = k \<and> Target g \<in> pgTarget ` set plan"
        moreover have "pgTarget ` set plan \<subseteq> Target ` set desired" using that unfolding plannedFor_def by blast
        ultimately show ?thesis by blast
      qed (use tr in \<open>simp add: targetsIn_def\<close>)
    qed
    have "wp (case e of None \<Rightarrow> executePlan ops (wantOf desired) (intendedLedger (trackedOf L) plan) plan errs
        | Some x \<Rightarrow> ret (sortedGrants (trackedOf L), joinErrs (errs @ [Some (Wrapf
                      ''recording the grants pgop is about to make failed, nothing was granted: %w'' [] x)])))
        (\<lambda>r _. \<forall>g \<in> set (fst r). Target g \<in> ?T) s2" for e s2
      using executePlan_targets [OF it] sortedGrants_targets [OF tr] by (cases e) (simp_all add: wp_ret)
    note rest = this
    show ?thesis
    proof (cases "plan = []")
      case True
      with executePlan_targets [OF tr] show ?thesis by simp
    next
      case False
      show ?thesis unfolding if_not_P [OF False] Let_def wp_bind by (rule wp_const) (rule rest)
    qed
  qed
  show ?thesis
    unfolding applyPrivilegeGrants_def wp_let Let_def
    unfolding wp_bind wp_case_prod
    by (rule wp_mono [OF planAll_targets], unfold split_paired_all prod.case, rule arm [unfolded Let_def])
      (auto simp: plannedFor_Nil split: if_splits)
qed

end
