(* ===== verification/Database_Grants.thy ===== *)
theory Database_Grants
  imports Grantee_Policy Settings Grant_Targets
begin

text \<open>
  The reconcilers that use the grant engine: the conversions between the ledgers of the status and
  the engine's (\<open>grant_ledgers.go\<close>), grants on a database and its schemas, the privileges of PUBLIC
  and the settings of a database (\<open>database_grants.go\<close>), and grants on configuration parameters
  (\<open>role_parameter_grants.go\<close>). The callers of a reconciler persist the resource it returns.
\<close>

abbreviation ReasonPublicPrivilegeConflict :: string where "ReasonPublicPrivilegeConflict \<equiv> ''PublicPrivilegeConflict''"
abbreviation ReasonPublicPrivilegeStillHeld :: string where "ReasonPublicPrivilegeStillHeld \<equiv> ''PublicPrivilegeStillHeld''"
abbreviation ReasonParameterNotAllowed :: string where "ReasonParameterNotAllowed \<equiv> ''ParameterNotAllowed''"
abbreviation ReasonUnsupportedServerVersion :: string where "ReasonUnsupportedServerVersion \<equiv> ''UnsupportedServerVersion''"

text \<open>\<open>statusSaver\<close>: the write of a resource's status; \<open>None\<close> is a nil saver.\<close>

type_synonym ('s, 'r) statusSaver = "('r \<Rightarrow> ('s, error option) state) option"

definition runSaver :: "('s, 'r) statusSaver \<Rightarrow> 'r \<Rightarrow> ('s, error option) state" where
  "runSaver save r = (case save of None \<Rightarrow> ret None | Some f \<Rightarrow> f r)"

section \<open>Ledgers\<close>

definition grantOptionsOf :: "string list \<Rightarrow> string list \<Rightarrow> bool \<Rightarrow> string list" where
  "grantOptionsOf privs grantOptions legacyWithGrantOption =
     (if legacyWithGrantOption then unionStrs grantOptions privs else grantOptions)"

definition databaseTarget :: "string \<Rightarrow> string \<Rightarrow> grantTarget" where
  "databaseTarget database grantee =
     \<lparr>tKind = ObjectDatabase, tName = database, tGrantee = CanonicalGrantee grantee, tSchema = [], tForRole = [], tOID = 0\<rparr>"

definition schemaTarget :: "string \<Rightarrow> string \<Rightarrow> grantTarget" where
  "schemaTarget schema grantee =
     \<lparr>tKind = ObjectSchema, tName = schema, tGrantee = CanonicalGrantee grantee, tSchema = [], tForRole = [], tOID = 0\<rparr>"

definition parameterTarget :: "string \<Rightarrow> string \<Rightarrow> grantTarget" where
  "parameterTarget parameter member =
     \<lparr>tKind = ObjectParameter, tName = parameter, tGrantee = member, tSchema = [], tForRole = [], tOID = 0\<rparr>"

definition databaseLedger :: "string \<Rightarrow> ManagedDatabaseGrant list \<Rightarrow> privilegeGrant list" where
  "databaseLedger pgName managed = map (\<lambda>m. \<lparr>Target = databaseTarget pgName (mdgRole m), Privileges = mdgPrivileges m,
     GrantOptions = grantOptionsOf (mdgPrivileges m) (mdgGrantOptions m) (mdgWithGrantOption m)\<rparr>) managed"

definition databaseLedgerStatus :: "privilegeGrant list \<Rightarrow> ManagedDatabaseGrant list" where
  "databaseLedgerStatus ledger = map (\<lambda>g. \<lparr>mdgRole = tGrantee (Target g), mdgPrivileges = Privileges g,
     mdgGrantOptions = GrantOptions g, mdgWithGrantOption = False\<rparr>) ledger"

definition schemaLedger :: "ManagedSchemaGrant list \<Rightarrow> privilegeGrant list" where
  "schemaLedger managed = map (\<lambda>m. \<lparr>Target = schemaTarget (msgSchema m) (msgRole m), Privileges = msgPrivileges m,
     GrantOptions = grantOptionsOf (msgPrivileges m) (msgGrantOptions m) (msgWithGrantOption m)\<rparr>) managed"

definition schemaLedgerStatus :: "privilegeGrant list \<Rightarrow> ManagedSchemaGrant list" where
  "schemaLedgerStatus ledger = map (\<lambda>g. \<lparr>msgSchema = tName (Target g), msgRole = tGrantee (Target g), msgPrivileges = Privileges g,
     msgGrantOptions = GrantOptions g, msgWithGrantOption = False\<rparr>) ledger"

definition parameterLedger :: "string \<Rightarrow> ManagedParameterGrant list \<Rightarrow> privilegeGrant list" where
  "parameterLedger member managed = map (\<lambda>m. \<lparr>Target = parameterTarget (mpgParameter m) member, Privileges = mpgPrivileges m,
     GrantOptions = grantOptionsOf (mpgPrivileges m) (mpgGrantOptions m) (mpgWithGrantOption m)\<rparr>) managed"

definition parameterLedgerStatus :: "privilegeGrant list \<Rightarrow> ManagedParameterGrant list" where
  "parameterLedgerStatus ledger = map (\<lambda>g. \<lparr>mpgParameter = tName (Target g), mpgPrivileges = Privileges g,
     mpgGrantOptions = GrantOptions g, mpgWithGrantOption = False\<rparr>) ledger"

section \<open>Database grants\<close>

definition databaseGrantLedgerLimit :: int where
  "databaseGrantLedgerLimit = 512"

definition schemaGrantLedgerLimit :: int where
  "schemaGrantLedgerLimit = 2048"

fun databaseGrantsLoop :: "string \<Rightarrow> DatabaseGrantSpec list \<Rightarrow> string list \<Rightarrow> privilegeGrant list \<Rightarrow> error + privilegeGrant list" where
  "databaseGrantsLoop pgName [] seen out = Inr out"
| "databaseGrantsLoop pgName (g # gs) seen out =
     (let t = databaseTarget pgName (dgRole g)
      in if tGrantee t \<in> set seen then Inl (Errorf ''grants: role %q is listed more than once'' [tGrantee t])
         else if tGrantee t = PublicGrantee \<and> dgWithGrantOption g
         then Inl (Errorf ''grants[PUBLIC]: the grant option cannot be granted to PUBLIC'' [])
         else (case NormalizeDatabasePrivileges (dgPrivileges g) of
             Inl e \<Rightarrow> Inl (Wrapf ''grants[%s]: %w'' [dgRole g] e)
           | Inr privs \<Rightarrow> databaseGrantsLoop pgName gs (seen @ [tGrantee t]) (out @ [desiredGrant t privs (dgWithGrantOption g)])))"

definition desiredDatabaseGrants :: "DatabaseGrantSpec list \<Rightarrow> string \<Rightarrow> error + privilegeGrant list" where
  "desiredDatabaseGrants grants pgName = databaseGrantsLoop pgName grants [] []"

definition roleGone :: "'s db \<Rightarrow> grantTarget \<Rightarrow> ('s, error + bool) state" where
  "roleGone db t =
     (if IsPublic (tGrantee t) then ret (Inr False)
      else do {
        r \<leftarrow> RoleExists db (tGrantee t);
        ret (case r of Inl e \<Rightarrow> Inl e | Inr exists \<Rightarrow> Inr (\<not> exists))
      })"

definition setManagedGrants :: "Database \<Rightarrow> ManagedDatabaseGrant list \<Rightarrow> Database" where
  "setManagedGrants d ms = d\<lparr>dbStatus := (dbStatus d)\<lparr>dtManagedGrants := ms\<rparr>\<rparr>"

text \<open>The checker keeps its cache, so it is returned too.\<close>

definition reconcileDatabaseGrants :: "'s db \<Rightarrow> 's roleLookup \<Rightarrow> Database \<Rightarrow> string \<Rightarrow> granteeChecker \<Rightarrow> ('s, Database) statusSaver
    \<Rightarrow> ('s, Database \<times> granteeChecker \<times> error option) state" where
  "reconcileDatabaseGrants db lookup database pgName checker save =
     (case desiredDatabaseGrants (dsGrants (dbSpec database)) pgName of
        Inl e \<Rightarrow> ret (database, checker, Some e)
      | Inr all \<Rightarrow>
          (let managed = databaseLedger pgName (dtManagedGrants (dbStatus database))
           in if all = [] \<and> managed = [] then ret (database, checker, None)
              else do {
                (f, r) \<leftarrow> filterFor lookup (newGrantFilter checker) ''grants'' all;
                (case r of
                   Inl e \<Rightarrow> ret (database, gfChecker f, Some e)
                 | Inr desired \<Rightarrow> do {
                     (after, err) \<leftarrow> applyPrivilegeGrants desired managed (executorOps db (Some (roleGone db))) databaseGrantLedgerLimit
                       (Some (\<lambda>ledger. runSaver save (setManagedGrants database (databaseLedgerStatus ledger))));
                     ret (setManagedGrants database (databaseLedgerStatus after), gfChecker f, joinErrs [err, filterErr f])
                   })
              }))"

section \<open>Schema grants\<close>

fun schemaGrantsLoop :: "string \<Rightarrow> string \<Rightarrow> GrantSpec list \<Rightarrow> string list \<Rightarrow> privilegeGrant list
    \<Rightarrow> error + string list \<times> privilegeGrant list" where
  "schemaGrantsLoop field schema [] seen out = Inr (seen, out)"
| "schemaGrantsLoop field schema (g # gs) seen out =
     (let t = schemaTarget schema (gsRole g)
      in if targetKey t \<in> set seen then Inl (Errorf ''%s: role %q is listed more than once'' [field, tGrantee t])
         else if tGrantee t = PublicGrantee \<and> gsWithGrantOption g
         then Inl (Errorf ''%s[PUBLIC]: the grant option cannot be granted to PUBLIC'' [field])
         else (case NormalizeSchemaPrivileges (gsPrivileges g) of
             Inl e \<Rightarrow> Inl (Wrapf ''%s[%s]: %w'' [field, gsRole g] e)
           | Inr privs \<Rightarrow> schemaGrantsLoop field schema gs (seen @ [targetKey t]) (out @ [desiredGrant t privs (gsWithGrantOption g)])))"

text \<open>The fields in the order of the spec with the grants of each; a map and its order are one list.\<close>

fun schemaFieldsLoop :: "SchemaSpec list \<Rightarrow> string list \<Rightarrow> string list \<Rightarrow> (string \<times> privilegeGrant list) list
    \<Rightarrow> error + (string \<times> privilegeGrant list) list" where
  "schemaFieldsLoop [] managedSchemas seen grants = Inr grants"
| "schemaFieldsLoop (s # ss) managedSchemas seen grants =
     (let field = sprintf ''schemas[%s].grants'' [ssName s]
      in if ssName s \<notin> set managedSchemas \<or> ssGrants s = [] then schemaFieldsLoop ss managedSchemas seen grants
         else if map_of grants field \<noteq> None then Inl (Errorf ''schemas: schema %q is listed more than once'' [ssName s])
         else (case schemaGrantsLoop field (ssName s) (ssGrants s) seen [] of
             Inl e \<Rightarrow> Inl e
           | Inr (seen', list) \<Rightarrow> schemaFieldsLoop ss managedSchemas seen' (grants @ [(field, list)])))"

definition desiredSchemaGrants :: "SchemaSpec list \<Rightarrow> string list \<Rightarrow> error + (string \<times> privilegeGrant list) list" where
  "desiredSchemaGrants schemas managedSchemas = schemaFieldsLoop schemas managedSchemas [] []"

fun filterFields :: "'s roleLookup \<Rightarrow> grantFilter \<Rightarrow> (string \<times> privilegeGrant list) list \<Rightarrow> privilegeGrant list
    \<Rightarrow> ('s, grantFilter \<times> (error + privilegeGrant list)) state" where
  "filterFields lookup f [] desired = ret (f, Inr desired)"
| "filterFields lookup f ((field, gs) # flds) desired = do {
     (f', r) \<leftarrow> filterFor lookup f field gs;
     (case r of
        Inl e \<Rightarrow> ret (f', Inl e)
      | Inr allowed \<Rightarrow> filterFields lookup f' flds (desired @ allowed))
   }"

definition schemaGone :: "'s db \<Rightarrow> grantTarget \<Rightarrow> ('s, error + bool) state" where
  "schemaGone db t = do {
     r \<leftarrow> SchemaExists db (tName t);
     (case r of
        Inl e \<Rightarrow> ret (Inl e)
      | Inr exists \<Rightarrow> if \<not> exists then ret (Inr True) else roleGone db t)
   }"

definition setManagedSchemaGrants :: "Database \<Rightarrow> ManagedSchemaGrant list \<Rightarrow> Database" where
  "setManagedSchemaGrants d ms = d\<lparr>dbStatus := (dbStatus d)\<lparr>dtManagedSchemaGrants := ms\<rparr>\<rparr>"

definition reconcileSchemaGrants :: "'s db \<Rightarrow> 's roleLookup \<Rightarrow> Database \<Rightarrow> string list \<Rightarrow> granteeChecker \<Rightarrow> ('s, Database) statusSaver
    \<Rightarrow> ('s, Database \<times> granteeChecker \<times> error option) state" where
  "reconcileSchemaGrants db lookup database managedSchemas checker save =
     (case desiredSchemaGrants (dsSchemas (dbSpec database)) managedSchemas of
        Inl e \<Rightarrow> ret (database, checker, Some e)
      | Inr flds \<Rightarrow>
          (let managed = schemaLedger (dtManagedSchemaGrants (dbStatus database))
           in if flds = [] \<and> managed = [] then ret (database, checker, None)
              else do {
                (f, r) \<leftarrow> filterFields lookup (newGrantFilter checker) flds [];
                (case r of
                   Inl e \<Rightarrow> ret (database, gfChecker f, Some e)
                 | Inr desired \<Rightarrow> do {
                     (after, err) \<leftarrow> applyPrivilegeGrants desired managed (executorOps db (Some (schemaGone db))) schemaGrantLedgerLimit
                       (Some (\<lambda>ledger. runSaver save (setManagedSchemaGrants database (schemaLedgerStatus ledger))));
                     ret (setManagedSchemaGrants database (schemaLedgerStatus after), gfChecker f, joinErrs [err, filterErr f])
                   })
              }))"

section \<open>The privileges of PUBLIC\<close>

abbreviation publicSchemaName :: string where "publicSchemaName \<equiv> ''public''"

record publicPrivilegeItem =
  piField :: PublicPrivilege
  piKind :: ObjectKind
  piPrivilege :: string
  piRequested :: "PublicPrivilegesSpec \<Rightarrow> bool option"

definition publicPrivilegeItems :: "publicPrivilegeItem list" where
  "publicPrivilegeItems =
     [\<lparr>piField = PublicPrivilegeConnect, piKind = ObjectDatabase, piPrivilege = PrivilegeConnect, piRequested = ppConnect\<rparr>,
      \<lparr>piField = PublicPrivilegeTemporary, piKind = ObjectDatabase, piPrivilege = PrivilegeTemporary, piRequested = ppTemporary\<rparr>,
      \<lparr>piField = PublicPrivilegePublicSchemaUsage, piKind = ObjectSchema, piPrivilege = PrivilegeUsage, piRequested = ppPublicSchemaUsage\<rparr>,
      \<lparr>piField = PublicPrivilegePublicSchemaCreate, piKind = ObjectSchema, piPrivilege = PrivilegeCreate, piRequested = ppPublicSchemaCreate\<rparr>]"

definition revokeRequested :: "publicPrivilegeItem \<Rightarrow> PublicPrivilegesSpec option \<Rightarrow> bool" where
  "revokeRequested it spec = (case spec of None \<Rightarrow> False | Some p \<Rightarrow> piRequested it p = Some False)"

definition publicGrantConflict :: "Database \<Rightarrow> publicPrivilegeItem \<Rightarrow> bool" where
  "publicGrantConflict database it =
     (let grantsIt = (\<lambda>privs normalize. case normalize privs of Inl e \<Rightarrow> False | Inr ps \<Rightarrow> piPrivilege it \<in> set ps)
      in if piKind it = ObjectDatabase
         then list_ex (\<lambda>g. IsPublic (dgRole g) \<and> grantsIt (dgPrivileges g) NormalizeDatabasePrivileges) (dsGrants (dbSpec database))
         else list_ex (\<lambda>s. ssName s = publicSchemaName \<and>
           list_ex (\<lambda>g. IsPublic (gsRole g) \<and> grantsIt (gsPrivileges g) NormalizeSchemaPrivileges) (ssGrants s)) (dsSchemas (dbSpec database)))"

text \<open>
  The variables of \<open>reconcilePublicPrivileges\<close>: the recorded fields (a set, kept as a list), the
  cache of what PUBLIC holds per object, and the three lists of problems.
\<close>

record publicRun =
  puRecorded :: "PublicPrivilege list"
  puCache :: "(PrivilegeObject \<times> string list \<times> bool) list"
  puConflicts :: "string list"
  puStillHeld :: "string list"
  puErrs :: "error option list"

definition recordPublic :: "Database \<Rightarrow> PublicPrivilege list \<Rightarrow> Database" where
  "recordPublic database recorded = database\<lparr>dbStatus := (dbStatus database)\<lparr>dtRevokedPublicPrivileges :=
     filter (\<lambda>f. f \<in> set recorded) (map piField publicPrivilegeItems)\<rparr>\<rparr>"

definition publicHolds :: "'s db \<Rightarrow> PrivilegeObject \<Rightarrow> publicRun \<Rightarrow> ('s, (error + string list \<times> bool) \<times> publicRun) state" where
  "publicHolds db obj u =
     (case map_of (puCache u) obj of
        Some h \<Rightarrow> ret (Inr h, u)
      | None \<Rightarrow> do {
          r \<leftarrow> HeldPrivileges db obj PublicGrantee;
          ret (case r of
                 Inl e \<Rightarrow> (Inl e, u)
               | Inr (privs, grantable, found) \<Rightarrow> (Inr (privs, found), u\<lparr>puCache := AList.update obj (privs, found) (puCache u)\<rparr>))
        })"

text \<open>The intent log: the field is recorded and saved before the REVOKE, unless it was already.\<close>

definition recordBeforeRevoke :: "Database \<Rightarrow> ('s, Database) statusSaver \<Rightarrow> PublicPrivilege \<Rightarrow> publicRun \<Rightarrow> ('s, bool \<times> publicRun) state" where
  "recordBeforeRevoke database save field u =
     (if field \<in> set (puRecorded u) then ret (True, u)
      else do {
        e \<leftarrow> runSaver save (recordPublic database (field # puRecorded u));
        ret (case e of
               None \<Rightarrow> (True, u\<lparr>puRecorded := field # puRecorded u\<rparr>)
             | Some x \<Rightarrow> (False, u\<lparr>puErrs := puErrs u @ [Some (Wrapf
                 ''recording the PUBLIC privilege pgop is about to revoke failed, nothing was revoked: %w'' [] x)]\<rparr>))
      })"

text \<open>The check behind the switch, for a privilege that should be revoked.\<close>

definition checkStillHeld :: "'s db \<Rightarrow> PrivilegeObject \<Rightarrow> publicPrivilegeItem \<Rightarrow> publicRun \<Rightarrow> ('s, publicRun) state" where
  "checkStillHeld db obj it u = do {
     r \<leftarrow> HeldFromAnyGrantor db obj PublicGrantee (piPrivilege it);
     ret (case r of
            Inl e \<Rightarrow> u\<lparr>puErrs := puErrs u @ [Some e]\<rparr>
          | Inr still \<Rightarrow> if still then u\<lparr>puStillHeld := puStillHeld u @ [piField it]\<rparr> else u)
   }"

definition revokePublic :: "'s db \<Rightarrow> Database \<Rightarrow> ('s, Database) statusSaver \<Rightarrow> PrivilegeObject \<Rightarrow> publicPrivilegeItem \<Rightarrow> publicRun
    \<Rightarrow> ('s, publicRun) state" where
  "revokePublic db database save obj it u = do {
     (ok, u1) \<leftarrow> recordBeforeRevoke database save (piField it) u;
     (if \<not> ok then ret u1
      else do {
        e \<leftarrow> RevokePrivileges db obj PublicGrantee [piPrivilege it] \<lparr>GrantOptionOnly = False, Cascade = False\<rparr>;
        (if e \<noteq> None then ret (u1\<lparr>puErrs := puErrs u1 @ [e]\<rparr>) else checkStillHeld db obj it u1)
      })
   }"

definition grantBackPublic :: "'s db \<Rightarrow> PrivilegeObject \<Rightarrow> publicPrivilegeItem \<Rightarrow> bool \<Rightarrow> publicRun \<Rightarrow> ('s, publicRun) state" where
  "grantBackPublic db obj it holds u = do {
     e \<leftarrow> (if holds then ret None else GrantPrivileges db obj PublicGrantee [piPrivilege it] False);
     ret (if e \<noteq> None then u\<lparr>puErrs := puErrs u @ [e]\<rparr>
          else u\<lparr>puRecorded := removeAll (piField it) (puRecorded u)\<rparr>)
   }"

text \<open>One round of the loop; an error of the catalog query ends the function.\<close>

definition publicItem :: "'s db \<Rightarrow> Database \<Rightarrow> string \<Rightarrow> ('s, Database) statusSaver \<Rightarrow> publicPrivilegeItem \<Rightarrow> publicRun
    \<Rightarrow> ('s, error option \<times> publicRun) state" where
  "publicItem db database pgName save it u =
     (let obj = \<lparr>Kind = piKind it, Name = (if piKind it = ObjectSchema then publicSchemaName else pgName)\<rparr>;
          wantRevoked = revokeRequested it (dsPublicPrivileges (dbSpec database))
      in if wantRevoked \<and> publicGrantConflict database it then ret (None, u\<lparr>puConflicts := puConflicts u @ [piField it]\<rparr>)
         else if \<not> wantRevoked \<and> piField it \<notin> set (puRecorded u) then ret (None, u)
         else do {
           (r, u1) \<leftarrow> publicHolds db obj u;
           (case r of
              Inl e \<Rightarrow> ret (Some e, u1)
            | Inr (privs, found) \<Rightarrow>
                if \<not> found
                then ret (None, if \<not> wantRevoked then u1\<lparr>puRecorded := removeAll (piField it) (puRecorded u1)\<rparr> else u1)
                else do {
                  u2 \<leftarrow> (if wantRevoked
                    then (if piPrivilege it \<in> set privs then revokePublic db database save obj it u1 else checkStillHeld db obj it u1)
                    else grantBackPublic db obj it (piPrivilege it \<in> set privs) u1);
                  ret (None, u2)
                })
         })"

fun publicItems :: "'s db \<Rightarrow> Database \<Rightarrow> string \<Rightarrow> ('s, Database) statusSaver \<Rightarrow> publicPrivilegeItem list \<Rightarrow> publicRun
    \<Rightarrow> ('s, error option \<times> publicRun) state" where
  "publicItems db database pgName save [] u = ret (None, u)"
| "publicItems db database pgName save (it # its) u = do {
     (e, u1) \<leftarrow> publicItem db database pgName save it u;
     (if e \<noteq> None then ret (e, u1) else publicItems db database pgName save its u1)
   }"

definition publicErrs :: "publicRun \<Rightarrow> error option" where
  "publicErrs u = joinErrs (puErrs u @
     (if puConflicts u \<noteq> [] then [Some (ConditionError ReasonPublicPrivilegeConflict (Errorf
        (''publicPrivileges %s: the same privilege is granted to PUBLIC in grants or schemas[public].grants; PUBLIC'' @ [squote] @ ''s privilege is left as it is'')
        [joinStr (puConflicts u) '', '']))] else []) @
     (if puStillHeld u \<noteq> [] then [Some (ConditionError ReasonPublicPrivilegeStillHeld (Errorf
        (''publicPrivileges %s: PUBLIC still holds the privilege, granted by a role other than the owner (with the grant option); pgop revokes only as the owner. Revoke it as that role, or with CASCADE from that role'' @ [squote] @ ''s grant option'')
        [joinStr (puStillHeld u) '', '']))] else []))"

definition reconcilePublicPrivileges :: "'s db \<Rightarrow> Database \<Rightarrow> string \<Rightarrow> ObjectKind \<Rightarrow> ('s, Database) statusSaver
    \<Rightarrow> ('s, Database \<times> error option) state" where
  "reconcilePublicPrivileges db database pgName kind save = do {
     (e, u) \<leftarrow> publicItems db database pgName save (filter (\<lambda>it. piKind it = kind) publicPrivilegeItems)
       \<lparr>puRecorded = dtRevokedPublicPrivileges (dbStatus database), puCache = [], puConflicts = [], puStillHeld = [], puErrs = []\<rparr>;
     ret (recordPublic database (puRecorded u), case e of Some x \<Rightarrow> Some x | None \<Rightarrow> publicErrs u)
   }"

section \<open>Settings of a database\<close>

definition databaseSettingOps :: "'s db \<Rightarrow> string \<Rightarrow> 's settingOps" where
  "databaseSettingOps db pgName = \<lparr>soSet = SetDatabaseParameter db pgName, soReset = ResetDatabaseParameter db pgName\<rparr>"

definition reconcileDatabaseSettings :: "'s db \<Rightarrow> Database \<Rightarrow> string \<Rightarrow> RolePolicySpec option \<Rightarrow> ('s, Database \<times> error option) state" where
  "reconcileDatabaseSettings db database pgName policy =
     (case normalizeSettings ''settings'' (dsSettings (dbSpec database)) of
        Inl e \<Rightarrow> ret (database, Some e)
      | Inr desired \<Rightarrow>
          (let managed = dtManagedSettings (dbStatus database)
           in if desired = [] \<and> managed = [] then ret (database, None)
              else do {
                (after, refused, e) \<leftarrow> applySettings (ParameterContext db) policy desired managed (databaseSettingOps db pgName);
                ret (database\<lparr>dbStatus := (dbStatus database)\<lparr>dtManagedSettings := after\<rparr>\<rparr>,
                  case e of
                    Some x \<Rightarrow> Some x
                  | None \<Rightarrow> if refused \<noteq> []
                      then Some (ConditionError ReasonSettingNotAllowed (Errorf ''settings not allowed: %s'' [joinStr refused ''; '']))
                      else None)
              }))"

section \<open>Parameter grants\<close>

definition grantableParameterContexts :: "string list" where
  "grantableParameterContexts = [pgContextUser, ''superuser'']"

fun filterParameterContexts :: "'s db \<Rightarrow> privilegeGrant list \<Rightarrow> privilegeGrant list \<times> string list
    \<Rightarrow> ('s, error + privilegeGrant list \<times> string list) state" where
  "filterParameterContexts db [] (allowed, refused) = ret (Inr (allowed, refused))"
| "filterParameterContexts db (g # gs) (allowed, refused) = do {
     r \<leftarrow> ParameterContext db (tName (Target g));
     (case r of
        Inl e \<Rightarrow> ret (Inl e)
      | Inr ctx \<Rightarrow>
          (case ctx of
             Some c \<Rightarrow>
               if c \<notin> set grantableParameterContexts
               then filterParameterContexts db gs (allowed, refused @ [sprintf ''%s (context %q)'' [tName (Target g), c]])
               else filterParameterContexts db gs (allowed @ [g], refused)
           | None \<Rightarrow> filterParameterContexts db gs (allowed @ [g], refused)))
   }"

definition parameterGrantLedgerLimit :: int where
  "parameterGrantLedgerLimit = 512"

fun parameterGrantsLoop :: "string \<Rightarrow> ParameterGrantSpec list \<Rightarrow> string list \<Rightarrow> privilegeGrant list \<Rightarrow> string list
    \<Rightarrow> error + privilegeGrant list \<times> string list" where
  "parameterGrantsLoop member [] seen out denied = Inr (out, denied)"
| "parameterGrantsLoop member (g # gs) seen out denied =
     (case NormalizeParameterName (pgsParameter g) of
        Inl e \<Rightarrow> Inl (Wrapf ''parameterGrants: %w'' [] e)
      | Inr name \<Rightarrow>
          if name \<in> set seen
          then Inl (Errorf ''parameterGrants: parameter %q is listed more than once (names are case-insensitive)'' [name])
          else if DeniedParameter name then parameterGrantsLoop member gs (seen @ [name]) out (denied @ [name])
          else (case NormalizeParameterPrivileges (pgsPrivileges g) of
              Inl e \<Rightarrow> Inl (Wrapf ''parameterGrants[%s]: %w'' [name] e)
            | Inr privs \<Rightarrow> parameterGrantsLoop member gs (seen @ [name])
                (out @ [desiredGrant (parameterTarget name member) privs (pgsWithGrantOption g)]) denied))"

definition desiredParameterGrants :: "ParameterGrantSpec list \<Rightarrow> string \<Rightarrow> error + privilegeGrant list \<times> string list" where
  "desiredParameterGrants grants member = parameterGrantsLoop member grants [] [] []"

definition managedParameterGrants :: "Role \<Rightarrow> string \<Rightarrow> privilegeGrant list" where
  "managedParameterGrants role member = parameterLedger member (rtManagedParameterGrants (roleStatus role))"

definition recordParameterGrants :: "Role \<Rightarrow> privilegeGrant list \<Rightarrow> Role" where
  "recordParameterGrants role grants = role\<lparr>roleStatus := (roleStatus role)\<lparr>rtManagedParameterGrants := parameterLedgerStatus grants\<rparr>\<rparr>"

definition deniedParametersError :: "string list \<Rightarrow> error option" where
  "deniedParametersError denied =
     (if denied = [] then None
      else Some (ConditionError ReasonParameterNotAllowed (Errorf
        ''parameterGrants not allowed (they switch identity, load code or bypass safeguards): %s'' [joinStr denied '', ''])))"

definition refusedContextsError :: "error option \<Rightarrow> string list \<Rightarrow> error option" where
  "refusedContextsError deniedErr refused =
     (if refused = [] then deniedErr
      else joinErrs [deniedErr, Some (ConditionError ReasonParameterNotAllowed (Errorf
        ''parameterGrants not allowed (only user and superuser parameters can be granted): %s'' [joinStr refused '', '']))])"

text \<open>The part behind the version check.\<close>

definition applyParameterGrants :: "'s db \<Rightarrow> Role \<Rightarrow> string \<Rightarrow> ('s, Role) statusSaver \<Rightarrow> privilegeGrant list \<Rightarrow> error option
    \<Rightarrow> ('s, Role \<times> error option) state" where
  "applyParameterGrants db role member save desired deniedErr = do {
     r \<leftarrow> filterParameterContexts db desired ([], []);
     (case r of
        Inl e \<Rightarrow> ret (role, Some e)
      | Inr (allowed, refused) \<Rightarrow> do {
          (after, err) \<leftarrow> applyPrivilegeGrants allowed (managedParameterGrants role member) (executorOps db None) parameterGrantLedgerLimit
            (Some (\<lambda>ledger. runSaver save (recordParameterGrants role ledger)));
          ret (recordParameterGrants role after, if err \<noteq> None then err else refusedContextsError deniedErr refused)
        })
   }"

definition reconcileParameterGrants :: "'s db \<Rightarrow> Role \<Rightarrow> string \<Rightarrow> ('s, Role) statusSaver \<Rightarrow> ('s, Role \<times> error option) state" where
  "reconcileParameterGrants db role member save =
     (case desiredParameterGrants (rsParameterGrants (roleSpec role)) member of
        Inl e \<Rightarrow> ret (role, Some e)
      | Inr (desired, denied) \<Rightarrow>
          if desired = [] \<and> managedParameterGrants role member = [] then ret (role, deniedParametersError denied)
          else do {
            v \<leftarrow> ServerVersionNum db;
            (case v of
               Inl e \<Rightarrow> ret (role, Some e)
             | Inr version \<Rightarrow>
                 if version < MinParameterPrivilegesVersion
                 then (if desired \<noteq> []
                       then ret (role, Some (ConditionError ReasonUnsupportedServerVersion (Errorf
                         ''parameterGrants require PostgreSQL 15 or later (server_version_num %d); remove them or upgrade the cluster'' [formatInt version])))
                       else ret (recordParameterGrants role [], deniedParametersError denied))
                 else applyParameterGrants db role member save desired (deniedParametersError denied))
          })"

definition revokeManagedParameterGrants :: "'s db \<Rightarrow> Role \<Rightarrow> string \<Rightarrow> ('s, Role \<times> error option) state" where
  "revokeManagedParameterGrants db role member =
     (let managed = managedParameterGrants role member
      in if managed = [] then ret (role, None)
         else do {
           r \<leftarrow> RoleExists db member;
           (case r of
              Inl e \<Rightarrow> ret (role, Some e)
            | Inr exists \<Rightarrow>
                if \<not> exists then ret (role, None)
                else do {
                  (after, err) \<leftarrow> applyPrivilegeGrants [] managed (executorOps db None) parameterGrantLedgerLimit None;
                  ret (recordParameterGrants role after, err)
                })
         })"

end
