(* ===== verification/Database_Grants_Correct.thy ===== *)
theory Database_Grants_Correct
  imports Database_Grants
begin

text \<open>
  Correctness of the reconcilers of grants on a database, from the specification of a resource to
  the access-control entries of the server: the desired lists are well-formed, the ledgers of the
  status and of the engine are the same record, and a run composes the grantee filter, the engine,
  the client and its SQL.
\<close>

section \<open>Ledgers\<close>

lemma CanonicalGrantee_idem [simp]: "CanonicalGrantee (CanonicalGrantee g) = CanonicalGrantee g"
  by (simp add: CanonicalGrantee_def)

lemma IsPublic_canonical [simp]: "IsPublic (CanonicalGrantee g) = IsPublic g"
  by (simp add: CanonicalGrantee_def IsPublic_def)

lemma databaseTarget_sel [simp]:
  "tKind (databaseTarget n g) = ObjectDatabase" "tName (databaseTarget n g) = n" "tGrantee (databaseTarget n g) = CanonicalGrantee g"
  "databaseTarget n (CanonicalGrantee g) = databaseTarget n g"
  by (simp_all add: databaseTarget_def)

lemma schemaTarget_sel [simp]:
  "tKind (schemaTarget n g) = ObjectSchema" "tName (schemaTarget n g) = n" "tGrantee (schemaTarget n g) = CanonicalGrantee g"
  "schemaTarget n (CanonicalGrantee g) = schemaTarget n g"
  by (simp_all add: schemaTarget_def)

lemma parameterTarget_sel [simp]:
  "tKind (parameterTarget n g) = ObjectParameter" "tName (parameterTarget n g) = n" "tGrantee (parameterTarget n g) = g"
  by (simp_all add: parameterTarget_def)

text \<open>
  The families of targets the three ledgers hold. A ledger of a family is the same list after the
  round trip through the status.
\<close>

definition databaseFamily :: "string \<Rightarrow> grantTarget set" where
  "databaseFamily pgName = range (databaseTarget pgName)"

definition schemaFamily :: "grantTarget set" where
  "schemaFamily = {schemaTarget n g | n g. True}"

definition parameterFamily :: "string \<Rightarrow> grantTarget set" where
  "parameterFamily member = {parameterTarget n member | n. True}"

lemma databaseLedger_status: "\<forall>g \<in> set L. Target g \<in> databaseFamily n \<Longrightarrow> databaseLedger n (databaseLedgerStatus L) = L"
  by (induction L) (auto simp: databaseLedger_def databaseLedgerStatus_def databaseFamily_def grantOptionsOf_def)

lemma schemaLedger_status: "\<forall>g \<in> set L. Target g \<in> schemaFamily \<Longrightarrow> schemaLedger (schemaLedgerStatus L) = L"
  by (induction L) (auto simp: schemaLedger_def schemaLedgerStatus_def schemaFamily_def grantOptionsOf_def)

lemma parameterLedger_status: "\<forall>g \<in> set L. Target g \<in> parameterFamily m \<Longrightarrow> parameterLedger m (parameterLedgerStatus L) = L"
  by (induction L) (auto simp: parameterLedger_def parameterLedgerStatus_def parameterFamily_def grantOptionsOf_def)

section \<open>Desired grants\<close>

lemma expandDatabase_names: "p \<in> set databasePrivileges \<Longrightarrow> set (expandDatabasePrivilege p) \<subseteq> aclNames"
  by (auto simp: databasePrivileges_def expandDatabasePrivilege_def aclNames_def)

lemma NormalizeDatabasePrivileges_names: "NormalizeDatabasePrivileges ps = Inr qs \<Longrightarrow> set qs \<subseteq> aclNames"
  using expandDatabase_names checkPrivileges_ok(2) [of "''database''" ps databasePrivileges]
  by (fastforce simp: NormalizeDatabasePrivileges_def split: sum.splits)

text \<open>The privileges a declared grant stands for.\<close>

definition normalDatabasePrivs :: "DatabaseGrantSpec \<Rightarrow> string list" where
  "normalDatabasePrivs g = (case NormalizeDatabasePrivileges (dgPrivileges g) of Inl e \<Rightarrow> [] | Inr ps \<Rightarrow> ps)"

definition databaseGrantOf :: "string \<Rightarrow> DatabaseGrantSpec \<Rightarrow> privilegeGrant" where
  "databaseGrantOf pgName g = desiredGrant (databaseTarget pgName (dgRole g)) (normalDatabasePrivs g) (dgWithGrantOption g)"

lemma databaseGrantsLoop_ok:
  "databaseGrantsLoop n gs seen out = Inr all \<Longrightarrow>
    all = out @ map (databaseGrantOf n) gs \<and> distinct (map (\<lambda>g. CanonicalGrantee (dgRole g)) gs) \<and>
    set seen \<inter> (\<lambda>g. CanonicalGrantee (dgRole g)) ` set gs = {}"
  by (induction n gs seen out rule: databaseGrantsLoop.induct)
    (auto simp: Let_def databaseGrantOf_def normalDatabasePrivs_def split: if_splits sum.splits)

lemma desiredDatabaseGrants_ok:
  assumes "desiredDatabaseGrants gs n = Inr all"
  shows "all = map (databaseGrantOf n) gs" "distinct (map (\<lambda>g. CanonicalGrantee (dgRole g)) gs)"
  using databaseGrantsLoop_ok [OF assms [unfolded desiredDatabaseGrants_def]] by simp_all

section \<open>A run of the reconciler\<close>

lemma acl_ops_restrict:
  assumes "acl_ops ops valid names holds options stored" and "\<And>t. valid' t \<Longrightarrow> valid t"
  shows "acl_ops ops valid' names holds options stored"
  by (rule acl_ops.intro)
    (use acl_ops.held_law [OF assms(1)] acl_ops.grant_law [OF assms(1)] acl_ops.revoke_law [OF assms(1)]
      acl_ops.gone_law [OF assms(1)] assms(2) in blast)+

lemma public_not_none: "IsPublic g \<Longrightarrow> \<not> equalFold g ''none''"
proof -
  have "toLower PublicGrantee \<noteq> toLower ''none''" by code_simp
  then show "IsPublic g \<Longrightarrow> \<not> equalFold g ''none''" by (simp add: IsPublic_def equalFold_def)
qed

lemma granteeNameProblem_canonical: "granteeNameProblem g = [] \<Longrightarrow> \<not> equalFold g ''none''"
  using public_not_none by (auto simp: granteeNameProblem_def split: if_splits)

definition validGrantee :: "string \<Rightarrow> bool" where
  "validGrantee g \<longleftrightarrow> g \<noteq> [] \<and> length g \<le> nameDataLen \<and> \<not> equalFold g ''none''"

lemma databaseTarget_named:
  assumes "n \<noteq> []" "length n \<le> nameDataLen" "validGrantee g"
  shows "namedTarget (databaseTarget n g)"
proof -
  have "\<not> equalFold PublicGrantee ''none''" "length PublicGrantee \<le> nameDataLen" by code_simp+
  with assms show ?thesis
    by (auto simp: namedTarget_def validGrantee_def databaseTarget_def objectWords_def objParts_def targetObject_def CanonicalGrantee_def
        IsPublic_def equalFold_refl)
qed

text \<open>
  The resources the API server admits: names are not empty and within PostgreSQL's limit; the
  ledger was written by an earlier reconcile. No declared or recorded grantee owns the database.
\<close>

definition wfDatabaseGrants :: "(aclKey \<Rightarrow> bool) \<Rightarrow> Database \<Rightarrow> string \<Rightarrow> bool" where
  "wfDatabaseGrants subject database pgName \<longleftrightarrow> pgName \<noteq> [] \<and> length pgName \<le> nameDataLen \<and>
     (\<forall>g \<in> set (dsGrants (dbSpec database)). dgRole g \<noteq> [] \<and> length (dgRole g) \<le> nameDataLen \<and>
       subject (aclKeyOf (databaseTarget pgName (dgRole g)))) \<and>
     (\<forall>m \<in> set (dtManagedGrants (dbStatus database)). validGrantee (mdgRole m) \<and> subject (aclKeyOf (databaseTarget pgName (mdgRole m))) \<and>
       set (mdgPrivileges m) \<subseteq> aclNames \<and> set (mdgGrantOptions m) \<subseteq> aclNames)"

text \<open>The grantees the policy permits, with the catalog of the server, and the declared grants to them.\<close>

definition permittedGrantee :: "granteeChecker \<Rightarrow> (string \<Rightarrow> ReachableRole option) \<Rightarrow> string \<Rightarrow> bool" where
  "permittedGrantee c roles g \<longleftrightarrow> verdict (granteeDecision c g (roles g)) = granteeAllowed"

definition permittedDatabaseGrants :: "granteeChecker \<Rightarrow> (string \<Rightarrow> ReachableRole option) \<Rightarrow> Database \<Rightarrow> string \<Rightarrow> privilegeGrant list" where
  "permittedDatabaseGrants c roles database pgName =
     map (databaseGrantOf pgName) (filter (\<lambda>g. permittedGrantee c roles (CanonicalGrantee (dgRole g))) (dsGrants (dbSpec database)))"

lemma permittedGrantee_valid:
  assumes "permittedGrantee c roles (CanonicalGrantee g)" and "g \<noteq> []" "length g \<le> nameDataLen"
  shows "validGrantee g"
proof -
  have "\<not> equalFold g ''none''" if "IsPublic g"
    using that by (rule public_not_none)
  moreover have "\<not> equalFold g ''none''" if "\<not> IsPublic g"
    using assms(1) that
    by (auto simp: permittedGrantee_def granteeDecision_def CanonicalGrantee_def dest: granteeNameProblem_canonical split: if_splits)
  ultimately show ?thesis using assms by (auto simp: validGrantee_def)
qed

locale database_server =
  pg_server db scs "Some (roleGone db)" subject privsOf optsOf stored + role_lookup lookup roleOf
  for db :: "'s db" and scs and subject :: "aclKey \<Rightarrow> bool" and privsOf :: "'s \<Rightarrow> aclKey \<Rightarrow> string set" and optsOf stored
    and lookup :: "'s roleLookup" and roleOf +
  fixes pgName :: string and saveStatus :: "Database \<Rightarrow> ('s, error option) state"
  assumes save_law: "wp (saveStatus d) (\<lambda>e s'. sameAcl privsOf optsOf s s' \<and>
    (e = None \<longrightarrow> stored s' = databaseLedger pgName (dtManagedGrants (dbStatus d))) \<and>
    (stored s' = stored s \<or> stored s' = databaseLedger pgName (dtManagedGrants (dbStatus d)))) s"
begin

abbreviation familyTarget :: "grantTarget \<Rightarrow> bool" where
  "familyTarget t \<equiv> (namedTarget t \<and> subject (aclKeyOf t)) \<and> t \<in> databaseFamily pgName"

lemma durable:
  "durable_ops (executorOps db (Some (roleGone db))) familyTarget aclNames (keyedAcl subject privsOf) (keyedAcl subject optsOf) stored
    (Some (\<lambda>ledger. runSaver (Some saveStatus) (setManagedGrants database (databaseLedgerStatus ledger))))"
proof (intro durable_ops.intro durable_ops_axioms.intro)
  show "acl_ops (executorOps db (Some (roleGone db))) familyTarget aclNames (keyedAcl subject privsOf) (keyedAcl subject optsOf) stored"
    by (rule acl_ops_restrict [OF executor_contract]) blast
next
  fix wr :: "privilegeGrant list \<Rightarrow> ('s, error option) state" and L :: "privilegeGrant list" and s :: 's
  assume "Some (\<lambda>ledger. runSaver (Some saveStatus) (setManagedGrants database (databaseLedgerStatus ledger))) = Some wr"
    and "\<forall>g \<in> set L. familyTarget (Target g)"
  then have wr: "wr L = saveStatus (setManagedGrants database (databaseLedgerStatus L))"
    and trip: "databaseLedger pgName (databaseLedgerStatus L) = L"
    by (auto simp: runSaver_def intro: databaseLedger_status)
  show "wp (wr L) (\<lambda>e s'. sameAcl (keyedAcl subject privsOf) (keyedAcl subject optsOf) s s' \<and> (e = None \<longrightarrow> stored s' = L) \<and>
      (stored s' = stored s \<or> stored s' = L)) s"
    unfolding wr by (rule wp_mono [OF save_law]) (use sameAcl_keyed in \<open>auto simp: setManagedGrants_def trip\<close>)
qed

text \<open>The desired list of a run is well-formed, and everything it touches is of the family.\<close>

lemma permitted_wf:
  assumes "wfDatabaseGrants subject database pgName" and "desiredDatabaseGrants (dsGrants (dbSpec database)) pgName = Inr all"
  shows "wfDesired (permittedDatabaseGrants c roles database pgName)"
    and "\<forall>g \<in> set (permittedDatabaseGrants c roles database pgName) \<union> set (databaseLedger pgName (dtManagedGrants (dbStatus database))).
      manageable familyTarget aclNames g"
proof -
  note wf = assms(1) [unfolded wfDatabaseGrants_def]
  let ?gs = "filter (\<lambda>g. permittedGrantee c roles (CanonicalGrantee (dgRole g))) (dsGrants (dbSpec database))"
  have key: "grantKey (databaseGrantOf pgName g) = targetKey (databaseTarget pgName (dgRole g))" for g
    by (simp add: databaseGrantOf_def desiredGrant_def grantKey_def)
  have inj: "targetKey (databaseTarget pgName a) = targetKey (databaseTarget pgName b) \<longleftrightarrow> CanonicalGrantee a = CanonicalGrantee b" for a b
    by (subst targetKey_inject) (simp_all add: databaseTarget_def)
  have "distinct (map (\<lambda>g. CanonicalGrantee (dgRole g)) ?gs)"
    by (rule distinct_map_filter [OF desiredDatabaseGrants_ok(2) [OF assms(2)]])
  then have "distinct (map grantKey (permittedDatabaseGrants c roles database pgName))"
    by (simp add: permittedDatabaseGrants_def distinct_map comp_def key inj inj_on_def)
  then show "wfDesired (permittedDatabaseGrants c roles database pgName)"
    by (auto simp: wfDesired_def permittedDatabaseGrants_def databaseGrantOf_def desiredGrant_def)
  have fam: "familyTarget (databaseTarget pgName g)" if "validGrantee g" "subject (aclKeyOf (databaseTarget pgName g))" for g
    using that wf databaseTarget_named by (auto simp: databaseFamily_def)
  have "set (normalDatabasePrivs g) \<subseteq> aclNames" for g
    using NormalizeDatabasePrivileges_names [of "dgPrivileges g"] by (cases "NormalizeDatabasePrivileges (dgPrivileges g)") (simp_all add: normalDatabasePrivs_def)
  then have man: "manageable familyTarget aclNames (databaseGrantOf pgName g)" if "familyTarget (databaseTarget pgName (dgRole g))" for g
    using that by (cases "dgWithGrantOption g") (simp_all add: manageable_def databaseGrantOf_def desiredGrant_def)
  have "manageable familyTarget aclNames g" if g: "g \<in> set (permittedDatabaseGrants c roles database pgName)" for g
  proof -
    from g obtain d where d: "g = databaseGrantOf pgName d" "d \<in> set (dsGrants (dbSpec database))"
      "permittedGrantee c roles (CanonicalGrantee (dgRole d))" by (auto simp: permittedDatabaseGrants_def)
    with wf permittedGrantee_valid [OF d(3)] have "familyTarget (databaseTarget pgName (dgRole d))" by (intro fam) blast+
    with man d(1) show ?thesis by simp
  qed
  moreover have "manageable familyTarget aclNames g" if "g \<in> set (databaseLedger pgName (dtManagedGrants (dbStatus database)))" for g
  proof -
    from that obtain m where m: "m \<in> set (dtManagedGrants (dbStatus database))"
      "g = \<lparr>Target = databaseTarget pgName (mdgRole m), Privileges = mdgPrivileges m,
        GrantOptions = grantOptionsOf (mdgPrivileges m) (mdgGrantOptions m) (mdgWithGrantOption m)\<rparr>"
      by (auto simp: databaseLedger_def)
    from wf m(1) have w: "validGrantee (mdgRole m)" "subject (aclKeyOf (databaseTarget pgName (mdgRole m)))"
      "set (mdgPrivileges m) \<subseteq> aclNames" "set (mdgGrantOptions m) \<subseteq> aclNames" by blast+
    then have "set (grantOptionsOf (mdgPrivileges m) (mdgGrantOptions m) (mdgWithGrantOption m)) \<subseteq> aclNames"
      by (cases "mdgWithGrantOption m") (simp_all add: grantOptionsOf_def)
    with w fam [OF w(1,2)] show ?thesis unfolding m(2) by (simp add: manageable_def)
  qed
  ultimately show "\<forall>g \<in> set (permittedDatabaseGrants c roles database pgName) \<union> set (databaseLedger pgName (dtManagedGrants (dbStatus database))).
      manageable familyTarget aclNames g" by blast
qed

lemma permitted_filter:
  "filter (\<lambda>g. verdict (granteeDecision c (tGrantee (Target g)) (roles (tGrantee (Target g)))) = granteeAllowed) (map (databaseGrantOf pgName) gs) =
    map (databaseGrantOf pgName) (filter (\<lambda>g. permittedGrantee c roles (CanonicalGrantee (dgRole g))) gs)"
  by (induction gs) (simp_all add: databaseGrantOf_def desiredGrant_def permittedGrantee_def)

text \<open>
  The outcome of a reconcile: nothing has changed and an error is reported (or there was nothing to
  do), or the engine ran on the permitted grants and the ledger of the status.
\<close>

definition databaseGrantsRun :: "granteeChecker \<Rightarrow> Database \<Rightarrow> 's \<Rightarrow> Database \<Rightarrow> error option \<Rightarrow> 's \<Rightarrow> bool" where
  "databaseGrantsRun c database s database' err s' \<longleftrightarrow>
     (let declared = permittedDatabaseGrants c (roleOf s) database pgName; L = databaseLedger pgName (dtManagedGrants (dbStatus database));
          L' = databaseLedger pgName (dtManagedGrants (dbStatus database'))
      in (\<exists>e. applied (keyedAcl subject privsOf) (keyedAcl subject optsOf) stored declared L databaseGrantLedgerLimit True s (L', e) s' \<and>
           (err = None \<longrightarrow> e = None \<and> declared = map (databaseGrantOf pgName) (dsGrants (dbSpec database)))))"

lemma reconcileDatabaseGrants_post:
  assumes wf: "wfDatabaseGrants subject database pgName" and c: "cacheSound (roleOf s) c"
  shows "wp (reconcileDatabaseGrants db lookup database pgName c (Some saveStatus)) (\<lambda>(database', c', err) s'.
    (s' = s \<and> database' = database \<and> (err = None \<longrightarrow> dsGrants (dbSpec database) = [] \<and> dtManagedGrants (dbStatus database) = [])) \<or>
    databaseGrantsRun c database s database' err s') s"
proof (cases "desiredDatabaseGrants (dsGrants (dbSpec database)) pgName")
  case (Inl e)
  then show ?thesis by (simp add: reconcileDatabaseGrants_def wp_ret)
next
  case (Inr all)
  let ?L = "databaseLedger pgName (dtManagedGrants (dbStatus database))"
  note ok = desiredDatabaseGrants_ok [OF Inr]
  show ?thesis
  proof (cases "all = [] \<and> ?L = []")
    case True
    then have "dsGrants (dbSpec database) = [] \<and> dtManagedGrants (dbStatus database) = []"
      using ok(1) by (simp add: databaseLedger_def)
    with True show ?thesis
      unfolding reconcileDatabaseGrants_def Inr sum.case Let_def if_P [OF True] wp_ret by simp
  next
    case False
    let ?D = "permittedDatabaseGrants c (roleOf s) database pgName"
    let ?persist = "Some (\<lambda>ledger. runSaver (Some saveStatus) (setManagedGrants database (databaseLedgerStatus ledger)))"
    have filt: "wp (filterFor lookup (newGrantFilter c) ''grants'' all) (\<lambda>(f', r) s'. s' = s \<and>
        (\<forall>kept. r = Inr kept \<longrightarrow> kept = ?D \<and> (filterErr f' = None \<longrightarrow> kept = all))) s"
      by (rule wp_mono [OF filterGrants_post [of s "newGrantFilter c" "''grants''" all "[]", folded filterFor_def]])
        (use c in \<open>auto simp: newGrantFilter_def ok(1) permitted_filter permittedDatabaseGrants_def split: prod.splits\<close>)
    have eng: "wp (applyPrivilegeGrants ?D ?L (executorOps db (Some (roleGone db))) databaseGrantLedgerLimit ?persist)
        (\<lambda>r s'. applied (keyedAcl subject privsOf) (keyedAcl subject optsOf) stored ?D ?L databaseGrantLedgerLimit True s r s' \<and>
          databaseLedger pgName (databaseLedgerStatus (fst r)) = fst r) s"
    proof -
      have "wp (applyPrivilegeGrants ?D ?L (executorOps db (Some (roleGone db))) databaseGrantLedgerLimit ?persist)
          (applied (keyedAcl subject privsOf) (keyedAcl subject optsOf) stored ?D ?L databaseGrantLedgerLimit True s) s"
        using durable_ops.apply_post [OF durable [of database] permitted_wf [OF wf Inr], where limit = databaseGrantLedgerLimit] by simp
      note both = wp_conj [THEN iffD2, OF conjI, OF this apply_targets]
      have "\<forall>g \<in> set (fst r). Target g \<in> databaseFamily pgName" if "\<forall>g \<in> set (fst r). Target g \<in> Target ` (set ?D \<union> set ?L)" for r :: "privilegeGrant list \<times> error option"
      proof
        fix g assume "g \<in> set (fst r)"
        with that obtain h where "h \<in> set ?D \<union> set ?L" "Target g = Target h" by fastforce
        with permitted_wf(2) [OF wf Inr, of c "roleOf s"] show "Target g \<in> databaseFamily pgName" by (simp add: manageable_def)
      qed
      then show ?thesis
        by (intro wp_mono [OF both]) (auto intro: databaseLedger_status)
    qed
    have run: "wp (applyPrivilegeGrants ?D ?L (executorOps db (Some (roleGone db))) databaseGrantLedgerLimit ?persist)
        (\<lambda>(after, err) s'. (\<lambda>(database', c', err) s'. (s' = s \<and> database' = database \<and>
            (err = None \<longrightarrow> dsGrants (dbSpec database) = [] \<and> dtManagedGrants (dbStatus database) = [])) \<or>
            databaseGrantsRun c database s database' err s')
          (setManagedGrants database (databaseLedgerStatus after), gfChecker f, joinErrs [err, filterErr f]) s') s"
      if "filterErr f = None \<longrightarrow> ?D = all" for f
    proof (rule wp_mono [OF eng], goal_cases)
      case (1 r s')
      obtain after err where r: "r = (after, err)" by (cases r)
      have "databaseGrantsRun c database s (setManagedGrants database (databaseLedgerStatus after)) (joinErrs [err, filterErr f]) s'"
        using 1 that ok(1) by (auto simp: databaseGrantsRun_def Let_def r setManagedGrants_def joinErrs_None_iff)
      then show ?case unfolding r prod.case by blast
    qed
    show ?thesis
      unfolding reconcileDatabaseGrants_def Inr sum.case Let_def if_not_P [OF False] wp_bind wp_case_prod
    proof (rule wp_mono [OF filt], goal_cases)
      case (1 a s1)
      obtain f r where a: "a = (f, r)" by (cases a)
      show ?case
      proof (cases r)
        case Inl
        with 1 show ?thesis by (simp add: a wp_ret)
      next
        case (Inr kept)
        with 1 have "s1 = s" "kept = ?D" "filterErr f = None \<longrightarrow> ?D = all" by (auto simp: a)
        with run [of f] show ?thesis by (simp add: a Inr wp_bind wp_case_prod wp_ret)
      qed
    qed
  qed
qed

end

end
