(* ===== verification/Database_Properties.thy ===== *)
theory Database_Properties
  imports Database_Grants_Correct
begin

text \<open>
  Properties of the reconcilers of grants on databases, and their instances on the reference server.
\<close>

section \<open>The reference server\<close>

lemma refRoleExists_absent: "\<not> refRoleExists s n \<Longrightarrow> refPrivs s (k, x, Some n) = {} \<and> refOpts s (k, x, Some n) = {}"
  by (force simp: refRoleExists_def refPrivs_def refOpts_def list_ex_iff)

lemma refRoleExists_query: "queryDb refDb roleExistsQuery [SText n] = State (\<lambda>s. (Inr ([[SBool (refRoleExists s n)]], None), s))"
proof -
  have "roleExistsQuery \<noteq> lookupRoleQuery" "roleExistsQuery \<noteq> membershipClosureQuery" "roleExistsQuery \<noteq> listMembershipsQuery refVersion"
    "roleExistsQuery \<noteq> parameterContextQuery" "roleExistsQuery \<noteq> databaseExistsQuery" by code_simp+
  then show ?thesis by (simp add: refQuery_one refCatalogQuery_def)
qed

lemma refGone_post:
  "wp (roleGone refDb t) (\<lambda>r s'. sameAcl refPrivs refOpts s s' \<and> rvLedger s' = rvLedger s \<and>
    (r = Inr True \<longrightarrow> refPrivs s (aclKeyOf t) = {} \<and> refOpts s (aclKeyOf t) = {})) s"
proof (cases "IsPublic (tGrantee t)")
  case False
  then have "refPrivs s (aclKeyOf t) = {} \<and> refOpts s (aclKeyOf t) = {}" if "\<not> refRoleExists s (tGrantee t)"
    using refRoleExists_absent [OF that] by (simp add: aclKeyOf_def granteeOf_def)
  with False show ?thesis
    by (simp add: roleGone_def RoleExists_def queryBool_def queryRow_def refRoleExists_query wp_bind wp_ret wp_State firstRow_def
        scanned_def scanBool_def sameAcl_def)
qed (simp add: roleGone_def wp_ret sameAcl_def)

definition refSave :: "Database \<Rightarrow> (refServer, error option) state" where
  "refSave d = State (\<lambda>s. (None, s\<lparr>rvLedger := databaseLedger ''app'' (dtManagedGrants (dbStatus d))\<rparr>))"

interpretation refDatabaseServer: database_server refDb True "\<lambda>_. True" refPrivs refOpts rvLedger "LookupRole refDb" refRole "''app''" refSave
proof (unfold_locales, goal_cases)
  case (1 q ps kind name g w s)
  then show ?case by (rule ref.exec_grant)
next
  case (2 q oo ps kind name g c s)
  then show ?case by (rule ref.exec_revoke)
next
  case (3 kind q n gr s)
  then show ?case by (rule ref.query_held)
next
  case (4 f t s)
  then show ?case using refGone_post by auto
next
  case (5 d s)
  show ?case by (auto simp: refSave_def wp_State sameAcl_def refPrivs_def refOpts_def fun_eq_iff)
qed

section \<open>Properties\<close>

text \<open>
  The scenario of the instances: \<open>bob\<close> is managed by a Role of the Cluster, \<open>root\<close> is a superuser.
  The ledger records CREATE for both from an earlier reconcile.
\<close>

definition exManaged :: "string \<Rightarrow> string list \<Rightarrow> ManagedDatabaseGrant" where
  "exManaged r ps = \<lparr>mdgRole = r, mdgPrivileges = ps, mdgGrantOptions = [], mdgWithGrantOption = False\<rparr>"

definition exDatabase :: "string list \<Rightarrow> ManagedDatabaseGrant list \<Rightarrow> Database" where
  "exDatabase rs ms = \<lparr>dbMetaName = ''app'', dbMetaNamespace = ''ns'',
     dbSpec = \<lparr>dsClusterRef = \<lparr>crName = ''c''\<rparr>, dsDatabaseName = [], dsOwner = ''owner'', dsExtensions = [], dsSchemas = [],
       dsGrants = map (\<lambda>r. \<lparr>dgRole = r, dgPrivileges = [''temp'', ''connect''], dgWithGrantOption = False\<rparr>) rs, dsSettings = [], dsPublicPrivileges = None\<rparr>,
     dbStatus = \<lparr>dtReady = True, dtDatabaseName = ''app'', dtClusterUID = ''u'', dtInstalledExtensions = [], dtExtensions = [],
       dtManagedExtensionGrants = [], dtCreatedSchemas = [], dtManagedGrants = ms, dtManagedSchemaGrants = [], dtManagedObjectGrants = [],
       dtManagedDefaultPrivileges = [], dtObjectGrants = [], dtRevokedPublicPrivileges = [], dtManagedSettings = [], dtConditions = []\<rparr>\<rparr>"

definition exDbChecker :: granteeChecker where
  "exDbChecker = \<lparr>gcPolicy = None, gcManaged = [(''bob'', ''m-bob'')], gcDeleting = [], gcCache = [], gcForRoles = [], gcOwners = []\<rparr>"

definition exDbState :: "aclEntry list \<Rightarrow> privilegeGrant list \<Rightarrow> refServer" where
  "exDbState acl L = \<lparr>rvAcl = acl, rvRoles = map (\<lambda>(n, su). \<lparr>rrName = n, rrVia = [], rrComment = ''m-'' @ n, rrSuperuser = su, rrCreateRole = False,
     rrReplication = False, rrBypassRLS = False\<rparr>) [(''bob'', False), (''root'', True)], rvMembers = [], rvSettings = [], rvLedger = L\<rparr>"

definition exEntry :: "string \<Rightarrow> string \<Rightarrow> aclEntry" where
  "exEntry r p = ((ObjectDatabase, [''app''], Some r), None, p, False)"

definition exDbStart :: refServer where
  "exDbStart = exDbState [exEntry ''bob'' PrivilegeCreate, exEntry ''root'' PrivilegeCreate]
     (databaseLedger ''app'' [exManaged ''bob'' [PrivilegeCreate], exManaged ''root'' [PrivilegeCreate]])"

definition exDbRun :: "string list \<Rightarrow> (Database \<times> granteeChecker \<times> error option) \<times> refServer" where
  "exDbRun rs = run_state (reconcileDatabaseGrants refDb (LookupRole refDb)
     (exDatabase rs [exManaged ''bob'' [PrivilegeCreate], exManaged ''root'' [PrivilegeCreate]]) ''app'' exDbChecker (Some refSave)) exDbStart"

lemma exDbRun_ok: "case exDbRun [''bob''] of ((d, c, err), s') \<Rightarrow> err = None \<and>
    rvAcl s' = [exEntry ''bob'' PrivilegeConnect, exEntry ''bob'' PrivilegeTemporary] \<and>
    dtManagedGrants (dbStatus d) = [exManaged ''bob'' [PrivilegeConnect, PrivilegeTemporary]]"
  by code_simp

lemma exDbRun_run:
  obtains d c s' where "run_state (reconcileDatabaseGrants refDb (LookupRole refDb)
     (exDatabase [''bob''] [exManaged ''bob'' [PrivilegeCreate], exManaged ''root'' [PrivilegeCreate]]) ''app'' exDbChecker (Some refSave)) exDbStart = ((d, c, None), s')"
    "rvAcl s' = [exEntry ''bob'' PrivilegeConnect, exEntry ''bob'' PrivilegeTemporary]"
  using exDbRun_ok by (auto simp: exDbRun_def split: prod.splits)

lemma exDb_wf: "wfDatabaseGrants (\<lambda>_. True) (exDatabase [''bob''] [exManaged ''bob'' [PrivilegeCreate], exManaged ''root'' [PrivilegeCreate]]) ''app''"
proof -
  have "validGrantee ''bob''" "validGrantee ''root''" "''app'' \<noteq> []" "length ''app'' \<le> nameDataLen" "length ''bob'' \<le> nameDataLen" by code_simp+
  then show ?thesis by (simp add: wfDatabaseGrants_def exDatabase_def exManaged_def aclNames_def)
qed

lemma exDb_cache: "gcCache exDbChecker = []"
  by (simp add: exDbChecker_def)

text \<open>What a run did, from the contracts of the server, the catalog and the status write.\<close>

lemma database_grants_run:
  assumes "database_server db scs subject privsOf optsOf stored lookup roleOf pgName saveStatus"
    and "wfDatabaseGrants subject database pgName" and "gcCache c = []"
    and "run_state (reconcileDatabaseGrants db lookup database pgName c (Some saveStatus)) s = ((database', c', err), s')"
  shows "(s' = s \<and> database' = database \<and> (err = None \<longrightarrow> dsGrants (dbSpec database) = [] \<and> dtManagedGrants (dbStatus database) = [])) \<or>
    database_server.databaseGrantsRun subject privsOf optsOf stored roleOf pgName c database s database' err s'"
proof -
  have "cacheSound (roleOf s) c" by (simp add: cacheSound_def assms(3))
  from wp_run [OF database_server.reconcileDatabaseGrants_post [OF assms(1,2) this] assms(4)] show ?thesis by simp
qed

text \<open>
  C20. Safety of database grants, end to end: whatever errors it meets, a reconcile adds privileges
  on the database only for declared grants whose grantee the policy permits, and every one it added
  is in the new status and in the stored status; it takes away only privileges the status recorded
  that are no longer declared for a permitted grantee.
\<close>

theorem database_grants_safe:
  assumes "database_server db scs subject privsOf optsOf stored lookup roleOf pgName saveStatus"
    and "wfDatabaseGrants subject database pgName" and "gcCache c = []"
    and "run_state (reconcileDatabaseGrants db lookup database pgName c (Some saveStatus)) s = ((database', c', err), s')"
    and "namedTarget t" and "subject (aclKeyOf t)"
  defines "declared \<equiv> recPrivs (permittedDatabaseGrants c (roleOf s) database pgName) (targetKey t)"
    and "recorded \<equiv> \<lambda>d. recPrivs (databaseLedger pgName (dtManagedGrants (dbStatus d))) (targetKey t)"
  shows "privsOf s' (aclKeyOf t) - privsOf s (aclKeyOf t) \<subseteq> declared \<inter> recorded database' \<inter> recPrivs (stored s') (targetKey t) \<and>
    privsOf s (aclKeyOf t) - privsOf s' (aclKeyOf t) \<subseteq> recorded database - declared"
proof -
  note key = keyedAcl_key [of t subject, OF assms(5,6)]
  from database_grants_run [OF assms(1-4)] show ?thesis
  proof (elim disjE conjE)
    assume "database_server.databaseGrantsRun subject privsOf optsOf stored roleOf pgName c database s database' err s'"
    then obtain e where a: "applied (keyedAcl subject privsOf) (keyedAcl subject optsOf) stored (permittedDatabaseGrants c (roleOf s) database pgName)
        (databaseLedger pgName (dtManagedGrants (dbStatus database))) databaseGrantLedgerLimit True s
        (databaseLedger pgName (dtManagedGrants (dbStatus database')), e) s'"
      unfolding database_server.databaseGrantsRun_def [OF assms(1)] Let_def by blast
    note facts = applied_key(1-4) [OF a, of "targetKey t", unfolded key, folded declared_def]
    have "privsOf s' (aclKeyOf t) - privsOf s (aclKeyOf t) \<subseteq> declared" "privsOf s (aclKeyOf t) - privsOf s' (aclKeyOf t) \<subseteq> recorded database - declared"
      using facts(1,2) by (auto simp: recorded_def)
    with facts(3,4) show ?thesis by (simp add: recorded_def)
  qed simp
qed

theorem database_grants_safe_witness:
  "\<exists>s' :: refServer. refPrivs s' (ObjectDatabase, [''app''], Some ''bob'') - refPrivs exDbStart (ObjectDatabase, [''app''], Some ''bob'') \<subseteq>
     recPrivs (rvLedger s') (targetKey (databaseTarget ''app'' ''bob''))"
proof -
  obtain d c s' where r: "run_state (reconcileDatabaseGrants refDb (LookupRole refDb)
     (exDatabase [''bob''] [exManaged ''bob'' [PrivilegeCreate], exManaged ''root'' [PrivilegeCreate]]) ''app'' exDbChecker (Some refSave)) exDbStart = ((d, c, None), s')"
    by (rule exDbRun_run)
  have t: "namedTarget (databaseTarget ''app'' ''bob'')" "aclKeyOf (databaseTarget ''app'' ''bob'') = (ObjectDatabase, [''app''], Some ''bob'')" by code_simp+
  from database_grants_safe [OF refDatabaseServer.database_server_axioms exDb_wf exDb_cache r t(1) TrueI] show ?thesis
    unfolding t(2) by blast
qed

text \<open>
  C21. Convergence of database grants, end to end: when a reconcile reports no error the policy
  permits every declared grantee, every declared privilege and grant option is held, and every
  recorded privilege that is no longer declared is gone.
\<close>

theorem database_grants_converge:
  assumes "database_server db scs subject privsOf optsOf stored lookup roleOf pgName saveStatus"
    and "wfDatabaseGrants subject database pgName" and "gcCache c = []"
    and "run_state (reconcileDatabaseGrants db lookup database pgName c (Some saveStatus)) s = ((database', c', None), s')"
    and "namedTarget t" and "subject (aclKeyOf t)"
  defines "declared \<equiv> map (databaseGrantOf pgName) (dsGrants (dbSpec database))"
  shows "permittedDatabaseGrants c (roleOf s) database pgName = declared \<and>
    recPrivs declared (targetKey t) \<subseteq> privsOf s' (aclKeyOf t) \<and> recOpts declared (targetKey t) \<subseteq> optsOf s' (aclKeyOf t) \<and>
    privsOf s' (aclKeyOf t) \<inter> (recPrivs (databaseLedger pgName (dtManagedGrants (dbStatus database))) (targetKey t) - recPrivs declared (targetKey t)) = {}"
proof -
  note key = keyedAcl_key [of t subject, OF assms(5,6)]
  from database_grants_run [OF assms(1-4)] show ?thesis
  proof (elim disjE conjE)
    assume "database_server.databaseGrantsRun subject privsOf optsOf stored roleOf pgName c database s database' None s'"
    then have a: "applied (keyedAcl subject privsOf) (keyedAcl subject optsOf) stored declared
        (databaseLedger pgName (dtManagedGrants (dbStatus database))) databaseGrantLedgerLimit True s
        (databaseLedger pgName (dtManagedGrants (dbStatus database')), None) s'" and d: "permittedDatabaseGrants c (roleOf s) database pgName = declared"
      unfolding database_server.databaseGrantsRun_def [OF assms(1)] Let_def declared_def by auto
    show ?thesis
      using applied_key(5-7) [OF a refl, of "targetKey t"] d by (simp add: key)
  qed (simp add: declared_def permittedDatabaseGrants_def databaseLedger_def)
qed

theorem database_grants_converge_witness:
  "\<exists>s' :: refServer. recPrivs (map (databaseGrantOf ''app'') (dsGrants (dbSpec (exDatabase [''bob''] []))))
     (targetKey (databaseTarget ''app'' ''bob'')) \<subseteq> refPrivs s' (ObjectDatabase, [''app''], Some ''bob'')"
proof -
  obtain d c s' where r: "run_state (reconcileDatabaseGrants refDb (LookupRole refDb)
     (exDatabase [''bob''] [exManaged ''bob'' [PrivilegeCreate], exManaged ''root'' [PrivilegeCreate]]) ''app'' exDbChecker (Some refSave)) exDbStart = ((d, c, None), s')"
    by (rule exDbRun_run)
  have t: "namedTarget (databaseTarget ''app'' ''bob'')" "aclKeyOf (databaseTarget ''app'' ''bob'') = (ObjectDatabase, [''app''], Some ''bob'')" by code_simp+
  have spec: "dbSpec (exDatabase [''bob''] ms) = dbSpec (exDatabase [''bob''] [])" for ms by (simp add: exDatabase_def)
  from database_grants_converge [OF refDatabaseServer.database_server_axioms exDb_wf exDb_cache r t(1) TrueI] show ?thesis
    unfolding t(2) spec [of "[exManaged ''bob'' [PrivilegeCreate], exManaged ''root'' [PrivilegeCreate]]"] by blast
qed

text \<open>
  C22. The ledgers of databases, schemas and parameters survive the round trip through the status:
  reading back what was written gives the same entries, with their grant options.
\<close>

theorem ledger_round_trip:
  assumes "\<forall>g \<in> set L. Target g \<in> range (databaseTarget n)" and "\<forall>g \<in> set S. \<exists>x r. Target g = schemaTarget x r"
    and "\<forall>g \<in> set P. \<exists>x. Target g = parameterTarget x m"
  shows "databaseLedger n (databaseLedgerStatus L) = L \<and> schemaLedger (schemaLedgerStatus S) = S \<and> parameterLedger m (parameterLedgerStatus P) = P"
proof -
  have "\<forall>g \<in> set S. Target g \<in> schemaFamily" "\<forall>g \<in> set P. Target g \<in> parameterFamily m"
    using assms(2,3) by (auto simp: schemaFamily_def parameterFamily_def)
  then show ?thesis using databaseLedger_status schemaLedger_status parameterLedger_status assms(1) by (simp add: databaseFamily_def)
qed

theorem ledger_round_trip_witness:
  "databaseLedger ''app'' (databaseLedgerStatus [desiredGrant (databaseTarget ''app'' ''public'') [PrivilegeConnect] False]) =
    [desiredGrant (databaseTarget ''app'' ''public'') [PrivilegeConnect] False]"
  using ledger_round_trip [of "[desiredGrant (databaseTarget ''app'' ''public'') [PrivilegeConnect] False]" "''app''" "[]" "[]" "''bob''"]
  by (simp add: desiredGrant_def)

end
