(* ===== verification/Kube_Types.thy ===== *)
theory Kube_Types
  imports Pg_Client Go_Crypto
begin

text \<open>
  What the cluster controller reads and writes of Kubernetes objects: the fields of a Cluster, of
  pods, volume claims, StatefulSets, Secrets and ConfigMaps. A time is a number of nanoseconds
  since 1970 and a duration a number of nanoseconds; an unset time is \<open>None\<close>. Of the status
  conditions of a Cluster the one of type \<open>ReplicationHealthy\<close> is kept, and whether the one of type
  \<open>TLSReady\<close> is true.

  The client of the API server (controller-runtime) is the parameter \<open>kube\<close>: every call runs on the
  world and reports an error or not.
\<close>

section \<open>Times\<close>

abbreviation second :: int where "second \<equiv> 1000000000"
abbreviation minute :: int where "minute \<equiv> 60 * second"

text \<open>Two's complement of 64 bits: the value a \<open>time.Duration\<close> holds.\<close>

definition wrap64 :: "int \<Rightarrow> int" where
  "wrap64 i = (i + 2 ^ 63) mod 2 ^ 64 - 2 ^ 63"

definition unixSeconds :: "int \<Rightarrow> int" where
  "unixSeconds t = t div second"

section \<open>The Cluster\<close>

type_synonym TLSProtocolVersion = string

abbreviation TLSProtocolVersion12 :: TLSProtocolVersion where "TLSProtocolVersion12 \<equiv> ''TLSv1.2''"
abbreviation TLSProtocolVersion13 :: TLSProtocolVersion where "TLSProtocolVersion13 \<equiv> ''TLSv1.3''"

record CertManagerIssuerReference =
  irName :: string
  irKind :: string
  irGroup :: string

record ClusterTLSSpec =
  tlsSecret :: string
  tlsIssuer :: "CertManagerIssuerReference option"
  tlsRequire :: "bool option"
  tlsMinVersion :: TLSProtocolVersion

definition IsSelfManaged :: "ClusterTLSSpec \<Rightarrow> bool" where
  "IsSelfManaged t \<longleftrightarrow> tlsSecret t = [] \<and> tlsIssuer t = None"

definition GetMinProtocolVersion :: "ClusterTLSSpec \<Rightarrow> TLSProtocolVersion" where
  "GetMinProtocolVersion t = (if tlsMinVersion t = [] then TLSProtocolVersion12 else tlsMinVersion t)"

definition IsRequireTLS :: "ClusterTLSSpec \<Rightarrow> bool" where
  "IsRequireTLS t = (case tlsRequire t of None \<Rightarrow> True | Some b \<Rightarrow> b)"

record HealthCondition =
  hcStatus :: bool
  hcReason :: string
  hcMessage :: string

record Cluster =
  clName :: string
  clNamespace :: string
  clUID :: string
  clAnnotations :: "string gomap"
  clImage :: string
  clMajor :: "int option"
  clReplicas :: int
  clPort :: int
  clStorageSize :: string
  clParameters :: "string gomap"
  clTLS :: "ClusterTLSSpec option"
  clReplicationHealthy :: "HealthCondition option"
  clReady :: bool
  clSecretName :: string
  clTLSReady :: bool
  clTLSSecretHash :: string

definition tlsRequired :: "Cluster \<Rightarrow> bool" where
  "tlsRequired cluster = (case clTLS cluster of None \<Rightarrow> False | Some t \<Rightarrow> IsRequireTLS t)"

definition clusterHost :: "Cluster \<Rightarrow> string" where
  "clusterHost cluster = sprintf ''%s.%s.svc.cluster.local'' [clName cluster, clNamespace cluster]"

definition clusterPort :: "Cluster \<Rightarrow> int" where
  "clusterPort cluster = (if clPort cluster = 0 then 5432 else clPort cluster)"

definition hbaConfigMapName :: "Cluster \<Rightarrow> string" where
  "hbaConfigMapName cluster = clName cluster @ ''-hba''"

section \<open>Objects of a Cluster\<close>

record PodCondition =
  pcType :: string
  pcStatus :: string
  pcLastTransition :: "int option"

record Pod =
  podName :: string
  podUID :: string
  podController :: "(string \<times> string) option"
  podDeleting :: bool
  podCreated :: int
  podLabels :: "string gomap"
  podConditions :: "PodCondition list"
  podIP :: string

record PVC =
  pvcName :: string
  pvcUID :: string
  pvcDeleting :: bool

record StatefulSet =
  stsReplicas :: "int option"
  stsInitContainers :: "string list"
  stsGeneration :: int
  stsObservedGeneration :: int
  stsCurrentRevision :: string
  stsUpdateRevision :: string
  stsReadyReplicas :: int

record Secret =
  secName :: string
  secAnnotations :: "string gomap"
  secData :: "string gomap"

record ConfigMap =
  cmData :: "string gomap"
  cmControlled :: bool

section \<open>The API server\<close>

record 's kube =
  kNow :: "('s, int) state"
  kIsNotFound :: "error \<Rightarrow> bool"
  kListPods :: "string \<Rightarrow> string \<Rightarrow> ('s, error + Pod list) state"
  kListPVCs :: "string \<Rightarrow> string \<Rightarrow> ('s, error + PVC list) state"
  kPatchPod :: "Pod \<Rightarrow> ('s, error option) state"
  kDeletePod :: "Pod \<Rightarrow> ('s, error option) state"
  kDeletePVC :: "PVC \<Rightarrow> ('s, error option) state"
  kUpdateSecret :: "Secret \<Rightarrow> ('s, error option) state"
  kGetConfigMap :: "string \<Rightarrow> ('s, error + ConfigMap) state"
  kUpdateConfigMap :: "string \<Rightarrow> ConfigMap \<Rightarrow> ('s, error option) state"

definition IgnoreNotFound :: "'s kube \<Rightarrow> error \<Rightarrow> error option" where
  "IgnoreNotFound k e = (if kIsNotFound k e then None else Some e)"

end
