(* ===== verification/Server_Access.thy ===== *)
theory Server_Access
  imports Kube_Types
begin

text \<open>
  Who gets into the server: the connection string of the operator (\<open>buildDSN\<close> of
  \<open>internal/postgres/dsn.go\<close>) and the client authentication file of a Cluster (\<open>renderPgHBA\<close> of
  \<open>internal/controller/replication.go\<close>). Both are texts another program reads, so each comes with
  the reader of its documented format: the connection strings of lib/pq, and the records of
  \<open>pg_hba.conf\<close>, of which the first that matches a connection decides.
\<close>

section \<open>Connection strings\<close>

abbreviation SSLModeDisable :: string where "SSLModeDisable \<equiv> ''disable''"
abbreviation SSLModePrefer :: string where "SSLModePrefer \<equiv> ''prefer''"
abbreviation SSLModeRequire :: string where "SSLModeRequire \<equiv> ''require''"
abbreviation SSLModeVerifyFull :: string where "SSLModeVerifyFull \<equiv> ''verify-full''"

record ConnectionConfig =
  cfgHost :: string
  cfgPort :: int
  cfgUser :: string
  cfgPassword :: string
  cfgDatabase :: string
  cfgSSLMode :: string
  cfgRootCertPEM :: string
  cfgConnectTimeout :: int

definition quoteDSNValue :: "string \<Rightarrow> string" where
  "quoteDSNValue v = [squote] @ replaceChar squote [backslash, squote] (replaceChar backslash [backslash, backslash] v) @ [squote]"

definition operatorSearchPath :: string where
  "operatorSearchPath = ''pg_catalog, pg_temp''"

definition operatorSessionSettings :: "(string \<times> string) list" where
  "operatorSessionSettings =
     [(''search_path'', operatorSearchPath), (''role'', ''none''), (''statement_timeout'', ''0''), (''lock_timeout'', ''0''),
      (''idle_in_transaction_session_timeout'', ''0''), (''idle_session_timeout'', ''0''), (''exit_on_error'', ''off''),
      (''default_transaction_read_only'', ''off''), (''check_function_bodies'', ''on''), (''row_security'', ''on''),
      (''default_tablespace'', []), (''temp_tablespaces'', [])]"

definition hexEncode :: "string \<Rightarrow> string" where
  "hexEncode s = concat (map (\<lambda>c. [hexDigit (of_char c div 16), hexDigit (of_char c mod 16)]) s)"

text \<open>
  The certificate pool (\<open>crypto/x509\<close>) and the registry of lib/pq are parameters: whether the text
  holds a certificate, and the error of the registration under a key.
\<close>

record tlsRegistry =
  regParses :: "string \<Rightarrow> bool"
  regRegister :: "string \<Rightarrow> error option"

definition registerVerifyFullTLS :: "tlsRegistry \<Rightarrow> string \<Rightarrow> string \<Rightarrow> error + string" where
  "registerVerifyFullTLS reg host caPEM =
     (if caPEM = [] then Inl (Errorf ''sslmode=verify-full requires a root certificate'' [])
      else if \<not> regParses reg caPEM then Inl (Errorf ''failed to parse root certificate PEM'' [])
      else (let key = ''pgop'' @ take 32 (hexEncode (sha256 (host @ [CHR 0x00] @ caPEM)))
            in case regRegister reg key of
                 Some e \<Rightarrow> Inl (Wrapf ''failed to register TLS config: %w'' [] e)
               | None \<Rightarrow> Inr key))"

definition sslModeOf :: "tlsRegistry \<Rightarrow> ConnectionConfig \<Rightarrow> error + string" where
  "sslModeOf reg cfg =
     (let mode = (if cfgSSLMode cfg = [] then SSLModeDisable else cfgSSLMode cfg)
      in if mode = SSLModeDisable \<or> mode = SSLModePrefer \<or> mode = SSLModeRequire then Inr mode
         else if mode = SSLModeVerifyFull
         then (case registerVerifyFullTLS reg (cfgHost cfg) (cfgRootCertPEM cfg) of
                 Inl e \<Rightarrow> Inl e
               | Inr key \<Rightarrow> Inr (''pqgo-'' @ key))
         else Inl (Errorf ''unsupported sslmode %q'' [mode]))"

definition dsnPairs :: "ConnectionConfig \<Rightarrow> string \<Rightarrow> (string \<times> string) list" where
  "dsnPairs cfg sslMode =
     [(''host'', cfgHost cfg), (''port'', formatInt (cfgPort cfg)), (''user'', cfgUser cfg), (''password'', cfgPassword cfg),
      (''dbname'', if cfgDatabase cfg = [] then ''postgres'' else cfgDatabase cfg), (''sslmode'', sslMode)] @
     (if cfgConnectTimeout cfg > 0 then [(''connect_timeout'', formatInt (max 1 (cfgConnectTimeout cfg div second)))] else []) @
     operatorSessionSettings"

definition renderPairs :: "(string \<times> string) list \<Rightarrow> string" where
  "renderPairs pairs = joinStr (map (\<lambda>(k, v). k @ ''='' @ quoteDSNValue v) pairs) '' ''"

definition buildDSN :: "tlsRegistry \<Rightarrow> ConnectionConfig \<Rightarrow> error + string" where
  "buildDSN reg cfg = (case sslModeOf reg cfg of Inl e \<Rightarrow> Inl e | Inr mode \<Rightarrow> Inr (renderPairs (dsnPairs cfg mode)))"

subsection \<open>The reader of connection strings\<close>

text \<open>
  \<open>keyword = value\<close> settings separated by spaces; a value that starts with a quote ends at the next
  quote, any other at a space; in both a backslash takes the next character as it is.
\<close>

fun readQuoted :: "string \<Rightarrow> (string \<times> string) option" where
  "readQuoted [] = None"
| "readQuoted (c # s) =
     (if c = squote then Some ([], s)
      else if c = backslash
      then (case s of [] \<Rightarrow> None | d # s' \<Rightarrow> map_option (\<lambda>(v, r). (d # v, r)) (readQuoted s'))
      else map_option (\<lambda>(v, r). (c # v, r)) (readQuoted s))"

fun readUnquoted :: "string \<Rightarrow> string \<times> string" where
  "readUnquoted [] = ([], [])"
| "readUnquoted (c # s) =
     (if isSpaceChar c then ([], s)
      else if c = backslash
      then (case s of [] \<Rightarrow> ([], []) | d # s' \<Rightarrow> (case readUnquoted s' of (v, r) \<Rightarrow> (d # v, r)))
      else (case readUnquoted s of (v, r) \<Rightarrow> (c # v, r)))"

definition skipSpace :: "string \<Rightarrow> string" where
  "skipSpace s = dropWhile isSpaceChar s"

definition readSetting :: "string \<Rightarrow> ((string \<times> string) \<times> string) option" where
  "readSetting s =
     (let k = takeWhile (\<lambda>c. c \<noteq> CHR ''='' \<and> \<not> isSpaceChar c) s;
          r = skipSpace (drop (length k) s)
      in if k = [] \<or> \<not> hasPrefix r ''='' then None
         else (let v = skipSpace (drop 1 r)
               in if hasPrefix v [squote]
                  then map_option (\<lambda>(x, rest). ((k, x), rest)) (readQuoted (drop 1 v))
                  else (case readUnquoted v of (x, rest) \<Rightarrow> Some ((k, x), rest))))"

fun readSettings :: "nat \<Rightarrow> string \<Rightarrow> (string \<times> string) list option" where
  "readSettings 0 s = None"
| "readSettings (Suc n) s =
     (let t = skipSpace s
      in if t = [] then Some []
         else (case readSetting t of
                 None \<Rightarrow> None
               | Some (kv, rest) \<Rightarrow> map_option (\<lambda>l. kv # l) (readSettings n rest)))"

text \<open>Every setting takes a character at least, so the length of the text is enough fuel.\<close>

definition parseConninfo :: "string \<Rightarrow> (string \<times> string) list option" where
  "parseConninfo s = readSettings (Suc (length s)) s"

section \<open>Client authentication\<close>

abbreviation ReplicationUsername :: string where "ReplicationUsername \<equiv> ''pgop_replicator''"
abbreviation hbaAll :: string where "hbaAll \<equiv> ''all''"
abbreviation hbaReplication :: string where "hbaReplication \<equiv> ''replication''"
abbreviation hbaScram :: string where "hbaScram \<equiv> ''scram-sha-256''"
abbreviation hbaReject :: string where "hbaReject \<equiv> ''reject''"
abbreviation newline :: char where "newline \<equiv> CHR 0x0A"

definition managedPgHBA :: string where
  "managedPgHBA =
     ''# Managed by pgop (spec.tls.requireTLS). Changes are overwritten.'' @ [newline] @
     ''# TYPE    DATABASE USER ADDRESS    METHOD'' @ [newline] @
     ''local     all      all             trust'' @ [newline] @
     ''hostssl   all      all  0.0.0.0/0  scram-sha-256'' @ [newline] @
     ''hostssl   all      all  ::/0       scram-sha-256'' @ [newline] @
     ''hostnossl all      all  all        reject'' @ [newline]"

definition padRight :: "nat \<Rightarrow> string \<Rightarrow> string" where
  "padRight n s = s @ replicate (n - length s) (CHR '' '')"

definition trimRightSpaces :: "string \<Rightarrow> string" where
  "trimRightSpaces s = rev (dropWhile (\<lambda>c. c = CHR '' '') (rev s))"

definition hbaLine :: "string list \<Rightarrow> string" where
  "hbaLine r = padRight 9 (r ! 0) @ '' '' @ padRight 11 (r ! 1) @ '' '' @ padRight 15 (r ! 2) @ '' '' @ padRight 9 (r ! 3) @ '' '' @ r ! 4"

definition hbaRows :: "bool \<Rightarrow> string list list" where
  "hbaRows requireTLS =
     (let host = (if requireTLS then ''hostssl'' else ''host'')
      in [[''local'', hbaAll, hbaAll, [], ''trust''],
          [''local'', hbaReplication, hbaAll, [], ''trust''],
          [host, hbaReplication, ReplicationUsername, ''0.0.0.0/0'', hbaScram],
          [host, hbaReplication, ReplicationUsername, ''::/0'', hbaScram],
          [''host'', hbaAll, ReplicationUsername, hbaAll, hbaReject],
          [host, hbaAll, hbaAll, ''0.0.0.0/0'', hbaScram],
          [host, hbaAll, hbaAll, ''::/0'', hbaScram]] @
         (if requireTLS
          then [[''hostnossl'', hbaAll, hbaAll, hbaAll, hbaReject], [''hostnossl'', hbaReplication, hbaAll, hbaAll, hbaReject]]
          else []))"

definition renderPgHBA :: "Cluster \<Rightarrow> bool \<Rightarrow> string" where
  "renderPgHBA cluster replication =
     (let requireTLS = tlsRequired cluster;
          managedBy = (if requireTLS then ''streaming replication, spec.tls.requireTLS'' else ''streaming replication'')
      in if \<not> replication then managedPgHBA
         else sprintf ''# Managed by pgop (%s). Changes are overwritten.'' [managedBy] @ [newline] @
           hbaLine [''# TYPE'', ''DATABASE'', ''USER'', ''ADDRESS'', ''METHOD''] @ [newline] @
           concat (map (\<lambda>r. trimRightSpaces (hbaLine r) @ [newline]) (hbaRows requireTLS)))"

subsection \<open>The reader of \<open>pg_hba.conf\<close>\<close>

text \<open>
  A record is a connection type, a database, a user, an address unless the type is \<open>local\<close>, and a
  method. Of the forms PostgreSQL knows the reader takes the keywords \<open>all\<close> and \<open>replication\<close>, plain
  names, and the three address forms that stand for every address (of one family); it refuses a file with another.
\<close>

datatype hbaType = HbaLocal | HbaHost | HbaHostSSL | HbaHostNoSSL

record hbaRecord =
  hrType :: hbaType
  hrDatabase :: string
  hrUser :: string
  hrAddress :: string
  hrMethod :: string

datatype transport = UnixSocket | Tcp bool bool

text \<open>A connection: the transport (TCP with TLS or not, from an IPv6 address or not), a physical
  replication connection or a database, and the user.\<close>

record hbaConn =
  hcTransport :: transport
  hcReplication :: bool
  hcDatabase :: string
  hcUser :: string

definition hbaTypeOf :: "string \<Rightarrow> hbaType option" where
  "hbaTypeOf s =
     (if s = ''local'' then Some HbaLocal else if s = ''host'' then Some HbaHost
      else if s = ''hostssl'' then Some HbaHostSSL else if s = ''hostnossl'' then Some HbaHostNoSSL else None)"

definition readRecord :: "string \<Rightarrow> hbaRecord option" where
  "readRecord line =
     (case Go_Prelude.fields line of
        [t, d, u, m] \<Rightarrow> if t = ''local'' then Some \<lparr>hrType = HbaLocal, hrDatabase = d, hrUser = u, hrAddress = [], hrMethod = m\<rparr> else None
      | [t, d, u, a, m] \<Rightarrow>
          (case hbaTypeOf t of
             None \<Rightarrow> None
           | Some ty \<Rightarrow>
               if ty = HbaLocal \<or> a \<notin> {hbaAll, ''0.0.0.0/0'', ''::/0''} then None
               else Some \<lparr>hrType = ty, hrDatabase = d, hrUser = u, hrAddress = a, hrMethod = m\<rparr>)
      | _ \<Rightarrow> None)"

fun readRecords :: "string list \<Rightarrow> hbaRecord list option" where
  "readRecords [] = Some []"
| "readRecords (l # ls) =
     (if l = [] \<or> hasPrefix l ''#'' then readRecords ls
      else (case (readRecord l, readRecords ls) of (Some r, Some rs) \<Rightarrow> Some (r # rs) | _ \<Rightarrow> None))"

definition parseHba :: "string \<Rightarrow> hbaRecord list option" where
  "parseHba s = readRecords (splitStr s newline)"

definition hbaMatches :: "hbaConn \<Rightarrow> hbaRecord \<Rightarrow> bool" where
  "hbaMatches c r \<longleftrightarrow>
     (case hcTransport c of
        UnixSocket \<Rightarrow> hrType r = HbaLocal
      | Tcp tls v6 \<Rightarrow> (hrType r = HbaHost \<or> hrType r = HbaHostSSL \<and> tls \<or> hrType r = HbaHostNoSSL \<and> \<not> tls) \<and>
          (hrAddress r = hbaAll \<or> hrAddress r = (if v6 then ''::/0'' else ''0.0.0.0/0''))) \<and>
     (if hcReplication c then hrDatabase r = hbaReplication
      else hrDatabase r = hbaAll \<or> hrDatabase r \<noteq> hbaReplication \<and> hrDatabase r = hcDatabase c) \<and>
     (hrUser r = hbaAll \<or> hrUser r = hcUser c)"

text \<open>The method of the first record that matches; a connection no record matches is rejected.\<close>

definition hbaDecision :: "hbaRecord list \<Rightarrow> hbaConn \<Rightarrow> string" where
  "hbaDecision rs c = (case find (hbaMatches c) rs of None \<Rightarrow> hbaReject | Some r \<Rightarrow> hrMethod r)"

end
