(* ===== verification/Access_Properties.thy ===== *)
theory Access_Properties
  imports Server_Access
begin

text \<open>
  The two texts of \<open>Server_Access\<close> are read back as exactly what they are built from: the settings of
  the operator's connection string, whatever bytes its values hold, and the decision of the client
  authentication file for every connection.
\<close>

section \<open>Reading back a connection string\<close>

definition escapeDSN :: "string \<Rightarrow> string" where
  "escapeDSN v = concat (map (\<lambda>c. if c = squote \<or> c = backslash then [backslash, c] else [c]) v)"

lemma quoteDSNValue_escape: "quoteDSNValue v = squote # escapeDSN v @ [squote]"
proof -
  have "replaceChar squote [backslash, squote] (replaceChar backslash [backslash, backslash] v) = escapeDSN v"
    by (induction v) (simp_all add: replaceChar_def escapeDSN_def)
  then show ?thesis by (simp add: quoteDSNValue_def)
qed

lemma readQuoted_escape: "readQuoted (escapeDSN v @ squote # rest) = Some (v, rest)"
  by (induction v) (simp_all add: escapeDSN_def)

definition settingName :: "string \<Rightarrow> bool" where
  "settingName k \<longleftrightarrow> k \<noteq> [] \<and> (\<forall>c \<in> set k. c \<noteq> CHR ''='' \<and> \<not> isSpaceChar c)"

lemma isSpaceChar_simps [simp]: "isSpaceChar (CHR '' '')" "\<not> isSpaceChar squote" "\<not> isSpaceChar (CHR ''='')"
  by (simp_all add: isSpaceChar_def)

lemma settingName_take: "settingName k \<Longrightarrow> takeWhile (\<lambda>c. c \<noteq> CHR ''='' \<and> \<not> isSpaceChar c) (k @ CHR ''='' # s) = k"
  by (simp add: settingName_def takeWhile_append2)

lemma settingName_skip: "settingName k \<Longrightarrow> skipSpace (k @ s) = k @ s"
  by (cases k) (auto simp: settingName_def skipSpace_def)

lemma readSetting_render: "settingName k \<Longrightarrow> readSetting (k @ ''='' @ quoteDSNValue v @ s) = Some ((k, v), s)"
  by (simp add: readSetting_def settingName_take skipSpace_def quoteDSNValue_escape hasPrefix_def Let_def readQuoted_escape)
    (simp add: settingName_def)

lemma readSettings_render:
  "\<forall>(k, v) \<in> set ps. settingName k \<Longrightarrow> length ps < n \<Longrightarrow> readSettings n (renderPairs ps) = Some ps"
proof (induction ps arbitrary: n)
  case Nil
  then show ?case by (cases n) (simp_all add: renderPairs_def skipSpace_def)
next
  case (Cons p ps)
  obtain k v where p: "p = (k, v)" by (cases p)
  obtain m where n: "n = Suc m" "length ps < m" using Cons.prems(2) by (cases n) auto
  have k: "settingName k" using Cons.prems(1) p by simp
  then have ne: "k \<noteq> []" by (simp add: settingName_def)
  have IH: "readSettings m (renderPairs ps) = Some ps" using Cons n by simp
  define s where "s = (if ps = [] then [] else '' '' @ renderPairs ps)"
  have r: "renderPairs (p # ps) = k @ ''='' @ quoteDSNValue v @ s"
    unfolding s_def p renderPairs_def by (cases ps) simp_all
  have "readSettings m s = Some ps"
  proof (cases "ps = []")
    case True
    with n show ?thesis by (cases m) (simp_all add: s_def skipSpace_def)
  next
    case False
    obtain l where m: "m = Suc l" using n(2) by (cases m) auto
    have "readSettings m ('' '' @ x) = readSettings m x" for x
      unfolding m by (simp add: skipSpace_def)
    with IH False show ?thesis by (simp add: s_def)
  qed
  then show ?case
    unfolding r n by (simp add: settingName_skip [OF k] readSetting_render [OF k, simplified] ne Let_def)
      (simp add: p)
qed

lemma length_renderPairs: "length ps \<le> length (renderPairs ps)"
proof (induction ps)
  case (Cons p ps)
  then show ?case by (cases ps) (auto simp: renderPairs_def quoteDSNValue_def split: prod.splits)
qed simp

lemma parseConninfo_render: "\<forall>(k, v) \<in> set ps. settingName k \<Longrightarrow> parseConninfo (renderPairs ps) = Some ps"
  unfolding parseConninfo_def using readSettings_render length_renderPairs le_imp_less_Suc by blast

lemma dsnPairs_names: "\<forall>(k, v) \<in> set (dsnPairs cfg mode). settingName k"
proof -
  have "list_all settingName (map fst (dsnPairs \<lparr>cfgHost = [], cfgPort = 1, cfgUser = [], cfgPassword = [], cfgDatabase = [], cfgSSLMode = [], cfgRootCertPEM = [], cfgConnectTimeout = 1\<rparr> []))"
    by code_simp
  then have "settingName k" if "k \<in> fst ` set (dsnPairs cfg mode)" for k
    using that by (auto simp: dsnPairs_def list_all_iff split: if_splits)
  then show ?thesis by force
qed

lemma dsnPairs_value:
  "map_of (dsnPairs cfg mode) ''user'' = Some (cfgUser cfg)" "map_of (dsnPairs cfg mode) ''password'' = Some (cfgPassword cfg)"
  "map_of (dsnPairs cfg mode) ''host'' = Some (cfgHost cfg)" "map_of (dsnPairs cfg mode) ''sslmode'' = Some mode"
  "map_of (dsnPairs cfg mode) ''port'' = Some (formatInt (cfgPort cfg))"
  "map_of (dsnPairs cfg mode) ''dbname'' = Some (if cfgDatabase cfg = [] then ''postgres'' else cfgDatabase cfg)"
  by (simp_all add: dsnPairs_def)

lemma dsnPairs_pins: "list_all (\<lambda>(k, v). filter (\<lambda>p. fst p = k) (dsnPairs cfg mode) = [(k, v)]) operatorSessionSettings"
  by (simp add: dsnPairs_def operatorSessionSettings_def)

text \<open>The key lib/pq knows the CA of a host by.\<close>

definition tlsKey :: "ConnectionConfig \<Rightarrow> string" where
  "tlsKey cfg = ''pgop'' @ take 32 (hexEncode (sha256 (cfgHost cfg @ [CHR 0x00] @ cfgRootCertPEM cfg)))"

definition usableCA :: "tlsRegistry \<Rightarrow> ConnectionConfig \<Rightarrow> bool" where
  "usableCA reg cfg \<longleftrightarrow> cfgRootCertPEM cfg \<noteq> [] \<and> regParses reg (cfgRootCertPEM cfg) \<and> regRegister reg (tlsKey cfg) = None"

lemma sslModeOf_exact:
  "(case sslModeOf reg cfg of
      Inr mode \<Rightarrow> (if cfgSSLMode cfg = SSLModeVerifyFull then usableCA reg cfg \<and> mode = ''pqgo-'' @ tlsKey cfg
        else cfgSSLMode cfg \<in> {[], SSLModeDisable, SSLModePrefer, SSLModeRequire} \<and>
          mode = (if cfgSSLMode cfg = [] then SSLModeDisable else cfgSSLMode cfg))
    | Inl e \<Rightarrow> (if cfgSSLMode cfg = SSLModeVerifyFull then \<not> usableCA reg cfg
        else cfgSSLMode cfg \<notin> {[], SSLModeDisable, SSLModePrefer, SSLModeRequire}))"
  by (cases "cfgSSLMode cfg = SSLModeVerifyFull")
    (auto simp: sslModeOf_def registerVerifyFullTLS_def usableCA_def tlsKey_def Let_def split: option.splits)

text \<open>
  C30. The connection string is exact and cannot be injected into. One is built for the TLS modes
  disable, prefer and require, for no mode (which is disable), and for verify-full when there is a CA
  certificate that parses and can be registered with lib/pq, and the string names that registration;
  every other mode, and verify-full without a usable certificate, is refused. Whatever bytes
  the host, the user, the password and the database name hold, lib/pq reads the string as exactly
  the settings of the configuration, and as exactly one value for every pinned session setting.
\<close>

theorem dsn_exact:
  "(case buildDSN reg cfg of
      Inr s \<Rightarrow> (\<exists>mode kvs. sslModeOf reg cfg = Inr mode \<and>
        (if cfgSSLMode cfg = SSLModeVerifyFull
         then cfgRootCertPEM cfg \<noteq> [] \<and> regParses reg (cfgRootCertPEM cfg) \<and> regRegister reg (tlsKey cfg) = None \<and>
           mode = ''pqgo-'' @ tlsKey cfg
         else cfgSSLMode cfg \<in> {[], SSLModeDisable, SSLModePrefer, SSLModeRequire} \<and>
           mode = (if cfgSSLMode cfg = [] then SSLModeDisable else cfgSSLMode cfg)) \<and>
        parseConninfo s = Some kvs \<and> kvs = dsnPairs cfg mode \<and>
        map_of kvs ''host'' = Some (cfgHost cfg) \<and> map_of kvs ''user'' = Some (cfgUser cfg) \<and>
        map_of kvs ''password'' = Some (cfgPassword cfg) \<and> map_of kvs ''sslmode'' = Some mode \<and>
        map_of kvs ''port'' = Some (formatInt (cfgPort cfg)) \<and>
        map_of kvs ''dbname'' = Some (if cfgDatabase cfg = [] then ''postgres'' else cfgDatabase cfg) \<and>
        list_all (\<lambda>(k, v). filter (\<lambda>p. fst p = k) kvs = [(k, v)]) operatorSessionSettings)
    | Inl e \<Rightarrow> sslModeOf reg cfg = Inl e \<and>
        (if cfgSSLMode cfg = SSLModeVerifyFull
         then cfgRootCertPEM cfg = [] \<or> (if regParses reg (cfgRootCertPEM cfg) then regRegister reg (tlsKey cfg) \<noteq> None else True)
         else cfgSSLMode cfg \<notin> {[], SSLModeDisable, SSLModePrefer, SSLModeRequire}))"
proof (cases "sslModeOf reg cfg")
  case (Inl e)
  with sslModeOf_exact [of cfg reg] show ?thesis by (auto simp: buildDSN_def usableCA_def)
next
  case (Inr mode)
  note exact = sslModeOf_exact [of cfg reg, unfolded Inr sum.case usableCA_def conj_assoc]
  show ?thesis
    unfolding buildDSN_def Inr sum.case parseConninfo_render [OF dsnPairs_names]
    by (intro exI [of _ mode] exI [of _ "dsnPairs cfg mode"] conjI refl dsnPairs_value dsnPairs_pins exact)
qed

section \<open>Client authentication\<close>

definition hbaFileOf :: "bool \<Rightarrow> bool \<Rightarrow> hbaRecord list" where
  "hbaFileOf requireTLS replication =
     (let rec = (\<lambda>t d u a m. \<lparr>hrType = t, hrDatabase = d, hrUser = u, hrAddress = a, hrMethod = m\<rparr>);
          host = (if requireTLS then HbaHostSSL else HbaHost)
      in if \<not> replication
         then [rec HbaLocal hbaAll hbaAll [] ''trust'', rec HbaHostSSL hbaAll hbaAll ''0.0.0.0/0'' hbaScram,
               rec HbaHostSSL hbaAll hbaAll ''::/0'' hbaScram, rec HbaHostNoSSL hbaAll hbaAll hbaAll hbaReject]
         else [rec HbaLocal hbaAll hbaAll [] ''trust'', rec HbaLocal hbaReplication hbaAll [] ''trust'',
               rec host hbaReplication ReplicationUsername ''0.0.0.0/0'' hbaScram, rec host hbaReplication ReplicationUsername ''::/0'' hbaScram,
               rec HbaHost hbaAll ReplicationUsername hbaAll hbaReject, rec host hbaAll hbaAll ''0.0.0.0/0'' hbaScram,
               rec host hbaAll hbaAll ''::/0'' hbaScram] @
              (if requireTLS then [rec HbaHostNoSSL hbaAll hbaAll hbaAll hbaReject, rec HbaHostNoSSL hbaReplication hbaAll hbaAll hbaReject] else []))"

lemma parseHba_managed: "parseHba managedPgHBA = Some (hbaFileOf r False)"
proof -
  have "parseHba managedPgHBA = Some (hbaFileOf True False)" by code_simp
  then show ?thesis by (simp add: hbaFileOf_def)
qed

definition hbaText :: "bool \<Rightarrow> string" where
  "hbaText requireTLS =
     sprintf ''# Managed by pgop (%s). Changes are overwritten.'' [if requireTLS then ''streaming replication, spec.tls.requireTLS'' else ''streaming replication''] @ [newline] @
     hbaLine [''# TYPE'', ''DATABASE'', ''USER'', ''ADDRESS'', ''METHOD''] @ [newline] @
     concat (map (\<lambda>r. trimRightSpaces (hbaLine r) @ [newline]) (hbaRows requireTLS))"

lemma parseHba_rows: "parseHba (hbaText r) = Some (hbaFileOf r True)"
proof -
  have "parseHba (hbaText True) = Some (hbaFileOf True True)" by code_simp
  moreover have "parseHba (hbaText False) = Some (hbaFileOf False True)" by code_simp
  ultimately show ?thesis by (cases r) simp_all
qed

lemma parseHba_render: "parseHba (renderPgHBA cluster replication) = Some (hbaFileOf (tlsRequired cluster) replication)"
  using parseHba_rows [of "tlsRequired cluster"]
  by (simp add: renderPgHBA_def Let_def hbaText_def parseHba_managed)

text \<open>
  C31. Client authentication, decided by the records PostgreSQL reads from the file: with replication
  the user pgop_replicator opens replication connections only, with a password, nobody else
  opens one over TCP, everybody else needs a password over TCP, and local connections are trusted.
  When TLS is required (or without replication, where the file is only used to require it) no TCP
  connection without TLS gets in.
\<close>

theorem hba_decision:
  "\<exists>rs. parseHba (renderPgHBA cluster replication) = Some rs \<and>
     hbaDecision rs c =
       (case hcTransport c of
          UnixSocket \<Rightarrow> if hcReplication c \<and> \<not> replication then hbaReject else ''trust''
        | Tcp tls v6 \<Rightarrow>
            if \<not> tls \<and> \<not> (replication \<and> \<not> tlsRequired cluster) then hbaReject
            else if hcReplication c \<noteq> (replication \<and> hcUser c = ReplicationUsername) then hbaReject
            else hbaScram)"
proof -
  have "hbaDecision (hbaFileOf r replication) c =
       (case hcTransport c of
          UnixSocket \<Rightarrow> if hcReplication c \<and> \<not> replication then hbaReject else ''trust''
        | Tcp tls v6 \<Rightarrow>
            if \<not> tls \<and> \<not> (replication \<and> \<not> r) then hbaReject
            else if hcReplication c \<noteq> (replication \<and> hcUser c = ReplicationUsername) then hbaReject
            else hbaScram)" for r
    by (cases "hcTransport c"; cases r; cases replication; cases "hcReplication c"; cases "hcUser c = ReplicationUsername")
      (simp_all add: hbaDecision_def hbaFileOf_def Let_def hbaMatches_def)
  then show ?thesis using parseHba_render by blast
qed

end
