(* ===== verification/Replication.thy ===== *)
theory Replication
  imports Server_Access Role_Policy
begin

text \<open>
  Streaming replication of a Cluster (\<open>internal/controller/replication.go\<close>) and the server access it
  needs (\<open>internal/postgres/replication.go\<close>): the replication slots of the standbys, the volumes of
  removed standbys, the labels the read-only Service selects, the rollout of a new replication
  password, and the restart of a primary that rejects the operator's password.

  Every function that changes the Cluster, the credentials Secret or the pods in memory returns the
  changed value. A connection to the primary is opened by the parameter \<open>connect\<close>.
\<close>

section \<open>The primary\<close>

record ReplicationSlot =
  slName :: string
  slPhysical :: bool
  slActive :: bool
  slWALStatus :: string

record StandbyStatus =
  sbApplicationName :: string
  sbState :: string

abbreviation WALStatusLost :: string where "WALStatusLost \<equiv> ''lost''"

text \<open>The interface \<open>ReplicationServer\<close>.\<close>

record 's replServer =
  rvInRecovery :: "('s, error + bool) state"
  rvRoleExists :: "string \<Rightarrow> ('s, error + bool) state"
  rvCreateRole :: "string \<Rightarrow> RoleOptions \<Rightarrow> ('s, error option) state"
  rvSlots :: "('s, error + ReplicationSlot list) state"
  rvCreateSlot :: "string \<Rightarrow> bool \<Rightarrow> ('s, error option) state"
  rvDropSlot :: "string \<Rightarrow> ('s, error option) state"
  rvStatus :: "('s, error + StandbyStatus list) state"

text \<open>The client behind it. A connection that also runs statements with arguments extends \<open>db\<close>.\<close>

record 's argDb = "'s db" +
  execArgsDb :: "string \<Rightarrow> sqlValue list \<Rightarrow> ('s, error option) state"

definition InRecovery :: "'s argDb \<Rightarrow> ('s, error + bool) state" where
  "InRecovery c = queryBool (db.truncate c) ''SELECT pg_is_in_recovery()'' [] ''failed to read pg_is_in_recovery(): %w'' []"

fun scanSlot :: "sqlValue list \<Rightarrow> error + ReplicationSlot" where
  "scanSlot [SText n, SBool p, SBool a, SText w] = Inr \<lparr>slName = n, slPhysical = p, slActive = a, slWALStatus = w\<rparr>"
| "scanSlot row = Inl scanError"

definition replicationSlotsQuery :: string where
  "replicationSlotsQuery = ''SELECT slot_name, slot_type = '' @ [squote] @ ''physical'' @ [squote] @ '', active, COALESCE(wal_status, '' @
     [squote, squote] @ '') FROM pg_replication_slots ORDER BY slot_name''"

text \<open>The loop over \<open>rows\<close>: the first row that does not scan ends it.\<close>

fun scanAll :: "(sqlValue list \<Rightarrow> error + 'a) \<Rightarrow> sqlValue list list \<Rightarrow> error + 'a list" where
  "scanAll scan [] = Inr []"
| "scanAll scan (row # rows) =
     (case scan row of
        Inl e \<Rightarrow> Inl e
      | Inr x \<Rightarrow> (case scanAll scan rows of Inl e \<Rightarrow> Inl e | Inr xs \<Rightarrow> Inr (x # xs)))"

definition readRows :: "(sqlValue list \<Rightarrow> error + 'a) \<Rightarrow> string \<Rightarrow> error + sqlValue list list \<times> error option \<Rightarrow> error + 'a list" where
  "readRows scan view r =
     (case r of
        Inl e \<Rightarrow> Inl (Wrapf ''failed to read %s: %w'' [view] e)
      | Inr (rows, err) \<Rightarrow>
          (case scanAll scan rows of
             Inl e \<Rightarrow> Inl (Wrapf ''failed to scan %s: %w'' [view] e)
           | Inr xs \<Rightarrow> (case err of Some e \<Rightarrow> Inl (Wrapf ''failed to read %s: %w'' [view] e) | None \<Rightarrow> Inr xs)))"

definition ReplicationSlots :: "'s argDb \<Rightarrow> ('s, error + ReplicationSlot list) state" where
  "ReplicationSlots c = do {
     r \<leftarrow> queryDb c replicationSlotsQuery [];
     ret (readRows scanSlot ''pg_replication_slots'' r)
   }"

definition CreatePhysicalReplicationSlot :: "'s argDb \<Rightarrow> string \<Rightarrow> bool \<Rightarrow> ('s, error option) state" where
  "CreatePhysicalReplicationSlot c name reserve = do {
     e \<leftarrow> execArgsDb c ''SELECT pg_create_physical_replication_slot($1, $2)'' [SText name, SBool reserve];
     ret (map_option (Wrapf ''failed to create replication slot %q: %w'' [name]) e)
   }"

definition DropReplicationSlot :: "'s argDb \<Rightarrow> string \<Rightarrow> ('s, error option) state" where
  "DropReplicationSlot c name = do {
     e \<leftarrow> execArgsDb c ''SELECT pg_drop_replication_slot($1)'' [SText name];
     ret (map_option (Wrapf ''failed to drop replication slot %q: %w'' [name]) e)
   }"

fun nullText :: "sqlValue \<Rightarrow> string option" where
  "nullText SNull = Some []"
| "nullText (SText t) = Some t"
| "nullText (SBool b) = None"

fun scanStandby :: "sqlValue list \<Rightarrow> error + StandbyStatus" where
  "scanStandby [n, st] =
     (case (nullText n, nullText st) of
        (Some a, Some b) \<Rightarrow> Inr \<lparr>sbApplicationName = a, sbState = b\<rparr>
      | _ \<Rightarrow> Inl scanError)"
| "scanStandby row = Inl scanError"

definition ReplicationStatus :: "'s argDb \<Rightarrow> ('s, error + StandbyStatus list) state" where
  "ReplicationStatus c = do {
     r \<leftarrow> queryDb c ''SELECT application_name, state FROM pg_stat_replication ORDER BY application_name'' [];
     ret (readRows scanStandby ''pg_stat_replication'' r)
   }"

definition clientReplServer :: "'s argDb \<Rightarrow> (string \<Rightarrow> RoleOptions \<Rightarrow> ('s, error option) state) \<Rightarrow> 's replServer" where
  "clientReplServer c createRole =
     \<lparr>rvInRecovery = InRecovery c, rvRoleExists = RoleExists (db.truncate c), rvCreateRole = createRole,
      rvSlots = ReplicationSlots c, rvCreateSlot = CreatePhysicalReplicationSlot c, rvDropSlot = DropReplicationSlot c,
      rvStatus = ReplicationStatus c\<rparr>"

section \<open>Names and ordinals\<close>

abbreviation bootstrapContainerName :: string where "bootstrapContainerName \<equiv> ''pgop-bootstrap''"
abbreviation replicationSlotPrefix :: string where "replicationSlotPrefix \<equiv> ''pgop_replica_''"
abbreviation dataVolumeName :: string where "dataVolumeName \<equiv> ''data''"
abbreviation LabelRole :: string where "LabelRole \<equiv> ''pgop.ruck.io/role''"
abbreviation LabelStreaming :: string where "LabelStreaming \<equiv> ''pgop.ruck.io/streaming''"
abbreviation AnnotationPasswordSyncRestart :: string where "AnnotationPasswordSyncRestart \<equiv> ''pgop.ruck.io/password-sync-restart''"
abbreviation AnnotationAllowPrimaryInit :: string where "AnnotationAllowPrimaryInit \<equiv> ''pgop.ruck.io/allow-primary-init''"
abbreviation AnnotationReplicationPasswordFingerprint :: string where
  "AnnotationReplicationPasswordFingerprint \<equiv> ''pgop.ruck.io/replication-password-fingerprint''"
abbreviation AnnotationReplicationPasswordRollout :: string where
  "AnnotationReplicationPasswordRollout \<equiv> ''pgop.ruck.io/replication-password-rollout''"
abbreviation AnnotationRestoreInProgress :: string where "AnnotationRestoreInProgress \<equiv> ''pgop.ruck.io/restore-in-progress''"
abbreviation AnnotationRestoreInterrupted :: string where "AnnotationRestoreInterrupted \<equiv> ''pgop.ruck.io/restore-interrupted''"

definition desiredReplicas :: "Cluster \<Rightarrow> int" where
  "desiredReplicas cluster = (if clReplicas cluster < 1 then 1 else clReplicas cluster)"

definition hasReplicationTemplate :: "StatefulSet option \<Rightarrow> bool" where
  "hasReplicationTemplate sts = (case sts of None \<Rightarrow> False | Some s \<Rightarrow> bootstrapContainerName \<in> set (stsInitContainers s))"

definition replicationEnabled :: "Cluster \<Rightarrow> StatefulSet option \<Rightarrow> bool" where
  "replicationEnabled cluster sts \<longleftrightarrow> desiredReplicas cluster > 1 \<or> hasReplicationTemplate sts"

definition primaryPodName :: "Cluster \<Rightarrow> string" where
  "primaryPodName cluster = clName cluster @ ''-0''"

definition replicationSlotName :: "int \<Rightarrow> string" where
  "replicationSlotName ordinal = replicationSlotPrefix @ formatInt ordinal"

definition parseOrdinal :: "string \<Rightarrow> string \<Rightarrow> int option" where
  "parseOrdinal name pre =
     (case cutPrefix name pre of
        None \<Rightarrow> None
      | Some rest \<Rightarrow>
          if rest = [] then None
          else (case atoi rest of
                  None \<Rightarrow> None
                | Some n \<Rightarrow> if n < 0 \<or> formatInt n \<noteq> rest then None else Some n))"

definition podOrdinal :: "Cluster \<Rightarrow> string \<Rightarrow> int option" where
  "podOrdinal cluster name = parseOrdinal name (clName cluster @ ''-'')"

definition pvcOrdinal :: "Cluster \<Rightarrow> string \<Rightarrow> int option" where
  "pvcOrdinal cluster name = parseOrdinal name (dataVolumeName @ ''-'' @ clName cluster @ ''-'')"

definition slotOrdinal :: "string \<Rightarrow> int option" where
  "slotOrdinal slot = parseOrdinal slot replicationSlotPrefix"

text \<open>\<open>ordinal, _ := podOrdinal(...)\<close>: zero when the name is not a pod of the Cluster.\<close>

definition podOrdinal0 :: "Cluster \<Rightarrow> Pod \<Rightarrow> int" where
  "podOrdinal0 cluster pod = (case podOrdinal cluster (podName pod) of None \<Rightarrow> 0 | Some n \<Rightarrow> n)"

definition podRole :: "int \<Rightarrow> string" where
  "podRole ordinal = (if ordinal = 0 then ''primary'' else ''replica'')"

section \<open>Server options and the size of the StatefulSet\<close>

definition hasParameter :: "string gomap \<Rightarrow> string \<Rightarrow> bool" where
  "hasParameter params name \<longleftrightarrow> (\<exists>k \<in> set (map fst params). equalFold k name)"

text \<open>\<open>resource.ParseQuantity\<close> is a parameter: the value of a size in bytes.\<close>

definition defaultMaxSlotWALKeepSize :: "(string \<Rightarrow> int option) \<Rightarrow> Cluster \<Rightarrow> string" where
  "defaultMaxSlotWALKeepSize parseQuantity cluster =
     (let size = (if clStorageSize cluster = [] then ''1Gi'' else clStorageSize cluster);
          mb = (case parseQuantity size of None \<Rightarrow> 64 | Some q \<Rightarrow> max 64 (q div 4 div (1024 * 1024)))
      in formatInt mb @ ''MB'')"

definition replicationSSLMode :: "Cluster \<Rightarrow> string" where
  "replicationSSLMode cluster = (if clTLS cluster \<noteq> None then SSLModeVerifyFull else SSLModeDisable)"

definition primaryConnInfo :: "Cluster \<Rightarrow> string" where
  "primaryConnInfo cluster = joinStr
     ([''host='' @ clusterHost cluster, ''port='' @ formatInt (clusterPort cluster), ''user='' @ ReplicationUsername,
       ''passfile=/run/pgop/replication.pgpass'', ''application_name=$(POD_NAME)'', ''sslmode='' @ replicationSSLMode cluster] @
      (if clTLS cluster \<noteq> None then [''sslrootcert=/etc/pgop/tls/ca.crt''] else [])) '' ''"

definition replicationServerArgs :: "(string \<Rightarrow> int option) \<Rightarrow> Cluster \<Rightarrow> string list" where
  "replicationServerArgs parseQuantity cluster =
     (if \<not> tlsRequired cluster then [''-c'', ''hba_file=/etc/pgop/hba/pg_hba.conf''] else []) @
     [''-c'', ''primary_conninfo='' @ primaryConnInfo cluster, ''-c'', ''max_wal_senders=32'', ''-c'', ''max_replication_slots=32''] @
     (if \<not> hasParameter (clParameters cluster) ''max_slot_wal_keep_size''
      then [''-c'', ''max_slot_wal_keep_size='' @ defaultMaxSlotWALKeepSize parseQuantity cluster] else [])"

definition replicationRolledOut :: "StatefulSet \<Rightarrow> bool" where
  "replicationRolledOut sts \<longleftrightarrow> hasReplicationTemplate (Some sts) \<and> stsObservedGeneration sts \<ge> stsGeneration sts \<and>
     stsCurrentRevision sts \<noteq> [] \<and> stsUpdateRevision sts = stsCurrentRevision sts \<and> stsReadyReplicas sts \<ge> 1"

definition statefulSetReplicas :: "Cluster \<Rightarrow> StatefulSet option \<Rightarrow> int" where
  "statefulSetReplicas cluster existing =
     (let want = desiredReplicas cluster
      in case existing of
           None \<Rightarrow> want
         | Some sts \<Rightarrow>
             (case stsReplicas sts of
                None \<Rightarrow> want
              | Some cur \<Rightarrow>
                  if want \<le> 1 then want
                  else if cur \<le> 1 \<and> \<not> replicationRolledOut sts then max cur 1
                  else want))"

section \<open>Pods\<close>

definition listClusterPods :: "'s kube \<Rightarrow> Cluster \<Rightarrow> ('s, error + Pod list) state" where
  "listClusterPods k cluster = do {
     r \<leftarrow> kListPods k (clNamespace cluster) (clName cluster);
     ret (case r of
            Inl e \<Rightarrow> Inl e
          | Inr pods \<Rightarrow> Inr (filter (\<lambda>p. podController p = Some (''StatefulSet'', clName cluster) \<and> podOrdinal cluster (podName p) \<noteq> None) pods))
   }"

fun labelPods :: "'s kube \<Rightarrow> Cluster \<Rightarrow> Pod list \<Rightarrow> ('s, Pod list \<times> error option) state" where
  "labelPods k cluster [] = ret ([], None)"
| "labelPods k cluster (pod # pods) =
     (let role = podRole (podOrdinal0 cluster pod)
      in if map_of (podLabels pod) LabelRole = Some role \<or> podDeleting pod
         then do { (ps, e) \<leftarrow> labelPods k cluster pods; ret (pod # ps, e) }
         else do {
           e1 \<leftarrow> kPatchPod k (pod\<lparr>podLabels := AList.update LabelRole role (podLabels pod)\<rparr>);
           (case e1 of
              Some x \<Rightarrow>
                if kIsNotFound k x
                then do { (ps, e) \<leftarrow> labelPods k cluster pods; ret (pod\<lparr>podLabels := AList.update LabelRole role (podLabels pod)\<rparr> # ps, e) }
                else ret (pod\<lparr>podLabels := AList.update LabelRole role (podLabels pod)\<rparr> # pods,
                  Some (Wrapf ''failed to label pod %s: %w'' [podName pod] x))
            | None \<Rightarrow> do { (ps, e) \<leftarrow> labelPods k cluster pods; ret (pod\<lparr>podLabels := AList.update LabelRole role (podLabels pod)\<rparr> # ps, e) })
         })"

definition isPodReady :: "Pod \<Rightarrow> bool" where
  "isPodReady pod \<longleftrightarrow> \<not> podDeleting pod \<and>
     (case find (\<lambda>c. pcType c = ''Ready'') (podConditions pod) of None \<Rightarrow> False | Some c \<Rightarrow> pcStatus c = ''True'')"

definition podReadySince :: "Pod \<Rightarrow> int option" where
  "podReadySince pod =
     (case find (\<lambda>c. pcType c = ''Ready'' \<and> pcStatus c = ''True'') (podConditions pod) of None \<Rightarrow> None | Some c \<Rightarrow> pcLastTransition c)"

text \<open>The loop keeps the last pod of that name.\<close>

definition primaryPod :: "Cluster \<Rightarrow> Pod list \<Rightarrow> Pod option" where
  "primaryPod cluster pods = find (\<lambda>p. podName p = primaryPodName cluster) (rev pods)"

fun labelStreaming :: "'s kube \<Rightarrow> Cluster \<Rightarrow> Pod list \<Rightarrow> string list \<Rightarrow> ('s, Pod list \<times> error option) state" where
  "labelStreaming k cluster [] streaming = ret ([], None)"
| "labelStreaming k cluster (pod # pods) streaming =
     (let want = (if podName pod \<in> set streaming then ''true'' else ''false'');
          labelled = pod\<lparr>podLabels := AList.update LabelStreaming want (podLabels pod)\<rparr>
      in if podOrdinal0 cluster pod = 0 \<or> podDeleting pod \<or> map_of (podLabels pod) LabelStreaming = Some want
         then do { (ps, e) \<leftarrow> labelStreaming k cluster pods streaming; ret (pod # ps, e) }
         else do {
           e1 \<leftarrow> kPatchPod k labelled;
           (case e1 of
              Some x \<Rightarrow>
                if kIsNotFound k x then do { (ps, e) \<leftarrow> labelStreaming k cluster pods streaming; ret (labelled # ps, e) }
                else ret (labelled # pods, Some (Wrapf ''failed to label pod %s: %w'' [podName pod] x))
            | None \<Rightarrow> do { (ps, e) \<leftarrow> labelStreaming k cluster pods streaming; ret (labelled # ps, e) })
         })"

section \<open>The operator's password\<close>

abbreviation passwordSyncMaxAttempts :: int where "passwordSyncMaxAttempts \<equiv> 5"
abbreviation passwordSyncFirstBackoff :: int where "passwordSyncFirstBackoff \<equiv> 5 * minute"
abbreviation passwordSyncReadyGrace :: int where "passwordSyncReadyGrace \<equiv> 2 * minute"
abbreviation replicationRetryInterval :: int where "replicationRetryInterval \<equiv> 10 * second"
abbreviation replicationCheckInterval :: int where "replicationCheckInterval \<equiv> 30 * second"
abbreviation rolloutStandbyTimeout :: int where "rolloutStandbyTimeout \<equiv> 10 * minute"

definition isInvalidPassword :: "error \<Rightarrow> bool" where
  "isInvalidPassword e \<longleftrightarrow> asPqError e = Some ''28P01''"

definition replicationPasswordFingerprint :: "Cluster \<Rightarrow> string \<Rightarrow> string" where
  "replicationPasswordFingerprint cluster password =
     hexEncode (sha256 (clUID cluster @ [CHR 0x00] @ ''replication'' @ [CHR 0x00] @ password))"

record passwordSyncRestart =
  psFingerprint :: string
  psAttempts :: int
  psLast :: int

definition zeroRestart :: passwordSyncRestart where
  "zeroRestart = \<lparr>psFingerprint = [], psAttempts = 0, psLast = 0\<rparr>"

definition parsePasswordSyncRestart :: "string \<Rightarrow> passwordSyncRestart" where
  "parsePasswordSyncRestart v =
     (case splitStr v (CHR ''/'') of
        [fp, a, l] \<Rightarrow>
          (case (atoi a, atoi l) of
             (Some attempts, Some unix) \<Rightarrow> \<lparr>psFingerprint = fp, psAttempts = attempts, psLast = unix * second\<rparr>
           | _ \<Rightarrow> zeroRestart)
      | _ \<Rightarrow> zeroRestart)"

definition passwordSyncRestartString :: "passwordSyncRestart \<Rightarrow> string" where
  "passwordSyncRestartString p = psFingerprint p @ ''/'' @ formatInt (psAttempts p) @ ''/'' @ formatInt (unixSeconds (psLast p))"

text \<open>The shift of a duration, for a positive number of attempts.\<close>

definition passwordSyncBackoff :: "int \<Rightarrow> int" where
  "passwordSyncBackoff attempts = wrap64 (passwordSyncFirstBackoff * 2 ^ nat (attempts - 1))"

definition restartState :: "Cluster \<Rightarrow> Secret \<Rightarrow> passwordSyncRestart" where
  "restartState cluster secret =
     (let fp = replicationPasswordFingerprint cluster (''operator'' @ [CHR 0x00] @ mapGet [] (secData secret) ''password'');
          st = parsePasswordSyncRestart (mapGet [] (secAnnotations secret) AnnotationPasswordSyncRestart)
      in if psFingerprint st \<noteq> fp then \<lparr>psFingerprint = fp, psAttempts = 0, psLast = 0\<rparr> else st)"

definition restartPrimaryForPasswordSync :: "'s kube \<Rightarrow> Cluster \<Rightarrow> Secret \<Rightarrow> Pod \<Rightarrow> ('s, Secret \<times> int) state" where
  "restartPrimaryForPasswordSync k cluster secret primary =
     (let st = restartState cluster secret
      in do {
        now \<leftarrow> kNow k;
        (if psAttempts st \<ge> passwordSyncMaxAttempts then ret (secret, 0)
         else if psAttempts st > 0 \<and> now < psLast st + passwordSyncBackoff (psAttempts st)
         then ret (secret, psLast st + passwordSyncBackoff (psAttempts st) - now)
         else (let st' = st\<lparr>psAttempts := psAttempts st + 1, psLast := now\<rparr>;
                   secret' = secret\<lparr>secAnnotations := AList.update AnnotationPasswordSyncRestart (passwordSyncRestartString st') (secAnnotations secret)\<rparr>
               in do {
                 e1 \<leftarrow> kUpdateSecret k secret';
                 (case e1 of
                    Some x \<Rightarrow> ret (secret', replicationRetryInterval)
                  | None \<Rightarrow> do {
                      e2 \<leftarrow> kDeletePod k primary;
                      ret (secret',
                        case e2 of
                          Some x \<Rightarrow> if kIsNotFound k x
                            then (if psAttempts st' \<ge> passwordSyncMaxAttempts then 0 else passwordSyncBackoff (psAttempts st'))
                            else replicationRetryInterval
                        | None \<Rightarrow> if psAttempts st' \<ge> passwordSyncMaxAttempts then 0 else passwordSyncBackoff (psAttempts st'))
                    })
               }))
      })"

definition clearPasswordSyncRestart :: "'s kube \<Rightarrow> Secret \<Rightarrow> ('s, Secret \<times> error option) state" where
  "clearPasswordSyncRestart k secret =
     (if map_of (secAnnotations secret) AnnotationPasswordSyncRestart = None then ret (secret, None)
      else (let secret' = secret\<lparr>secAnnotations := AList.delete AnnotationPasswordSyncRestart (secAnnotations secret)\<rparr>
            in do {
              e \<leftarrow> kUpdateSecret k secret';
              ret (secret', e)
            }))"

definition pausedForRestore :: "Cluster \<Rightarrow> bool" where
  "pausedForRestore cluster \<longleftrightarrow> mapGet [] (clAnnotations cluster) AnnotationRestoreInProgress \<noteq> [] \<or>
     mapGet [] (clAnnotations cluster) AnnotationRestoreInterrupted \<noteq> []"

text \<open>How long to wait before a restart, while the server may still be recovering.\<close>

definition readyGrace :: "Pod \<Rightarrow> int \<Rightarrow> int" where
  "readyGrace primary now = (case podReadySince primary of None \<Rightarrow> 0 | Some since \<Rightarrow> since + passwordSyncReadyGrace - now)"

definition checkOperatorLogin :: "'s kube \<Rightarrow> ('s, error + 's replServer) state \<Rightarrow> Cluster \<Rightarrow> Secret \<Rightarrow> Pod list
    \<Rightarrow> ('s, Secret \<times> int) state" where
  "checkOperatorLogin k connect cluster secret pods =
     (if pausedForRestore cluster then ret (secret, 0)
      else (case primaryPod cluster pods of
         None \<Rightarrow> ret (secret, 0)
       | Some primary \<Rightarrow>
           if \<not> isPodReady primary then ret (secret, 0)
           else do {
             r \<leftarrow> connect;
             (case r of
                Inl err \<Rightarrow>
                  if \<not> isInvalidPassword err then ret (secret, 0)
                  else do {
                    now \<leftarrow> kNow k;
                    (if readyGrace primary now > 0 then ret (secret, readyGrace primary now)
                     else restartPrimaryForPasswordSync k cluster secret primary)
                  }
              | Inr srv \<Rightarrow> do {
                  (secret', e) \<leftarrow> clearPasswordSyncRestart k secret;
                  ret (secret', if e \<noteq> None then replicationRetryInterval else 0)
                })
           }))"

definition connectPrimary :: "'s kube \<Rightarrow> ('s, error + 's replServer) state \<Rightarrow> Cluster \<Rightarrow> Secret \<Rightarrow> Pod
    \<Rightarrow> ('s, Secret \<times> (error + 's replServer)) state" where
  "connectPrimary k connect cluster secret primary = do {
     r \<leftarrow> connect;
     (case r of
        Inl err \<Rightarrow>
          if isInvalidPassword err
          then do { (secret', d) \<leftarrow> restartPrimaryForPasswordSync k cluster secret primary; ret (secret', Inl err) }
          else ret (secret, Inl err)
      | Inr srv \<Rightarrow> ret (secret, Inr srv))
   }"

section \<open>The replication role and its password\<close>

definition markInitialized :: "'s kube \<Rightarrow> Cluster \<Rightarrow> ('s, error option) state" where
  "markInitialized k cluster =
     (if mapGet [] (clAnnotations cluster) AnnotationAllowPrimaryInit = ''true'' then ret None
      else do {
        r \<leftarrow> kGetConfigMap k (hbaConfigMapName cluster);
        (case r of
           Inl e \<Rightarrow> ret (IgnoreNotFound k e)
         | Inr cm \<Rightarrow>
             if map_of (cmData cm) ''pgop-initialized'' \<noteq> None \<or> \<not> cmControlled cm then ret None
             else kUpdateConfigMap k (hbaConfigMapName cluster) (cm\<lparr>cmData := AList.update ''pgop-initialized''
               (''The Cluster holds data; pgop refuses to initialize an empty primary data directory.'' @ [newline]) (cmData cm)\<rparr>))
      })"

definition primaryVolumeMissing :: "'s kube \<Rightarrow> Cluster \<Rightarrow> ('s, error + bool) state" where
  "primaryVolumeMissing k cluster = do {
     r \<leftarrow> kListPVCs k (clNamespace cluster) (clName cluster);
     ret (case r of
            Inl e \<Rightarrow> Inl e
          | Inr pvcs \<Rightarrow>
              (let primary = list_ex (\<lambda>p. pvcOrdinal cluster (pvcName p) = Some 0) pvcs;
                   standby = list_ex (\<lambda>p. (case pvcOrdinal cluster (pvcName p) of None \<Rightarrow> False | Some n \<Rightarrow> n > 0) \<and> \<not> pvcDeleting p) pvcs
               in Inr (standby \<and> \<not> primary)))
   }"

definition replicationRoleOptions :: "string \<Rightarrow> RoleOptions" where
  "replicationRoleOptions password =
     \<lparr>Login = True, CreateDB = False, CreateRole = False, Inherit = False, Replication = True, BypassRLS = False,
      ConnectionLimit = -1, Password = password, KeepExistingPassword = False, Comment = [], CreateOnly = False\<rparr>"

definition ensureReplicationRole :: "'s kube \<Rightarrow> Cluster \<Rightarrow> Secret \<Rightarrow> 's replServer \<Rightarrow> ('s, Secret \<times> error option) state" where
  "ensureReplicationRole k cluster secret srv =
     (let password = mapGet [] (secData secret) ''replication-password''
      in if password = []
         then ret (secret, Some (Errorf ''credentials Secret %q has no %q'' [secName secret, ''replication-password'']))
         else do {
           r \<leftarrow> rvRoleExists srv ReplicationUsername;
           (case r of
              Inl e \<Rightarrow> ret (secret, Some e)
            | Inr exists \<Rightarrow>
                (let fingerprint = replicationPasswordFingerprint cluster password;
                     recorded = mapGet [] (secAnnotations secret) AnnotationReplicationPasswordFingerprint
                 in if exists \<and> recorded = fingerprint then ret (secret, None)
                    else do {
                      e \<leftarrow> rvCreateRole srv ReplicationUsername (replicationRoleOptions password);
                      (case e of
                         Some x \<Rightarrow> ret (secret, Some x)
                       | None \<Rightarrow> do {
                           now \<leftarrow> kNow k;
                           (let ann = AList.update AnnotationReplicationPasswordFingerprint fingerprint (secAnnotations secret);
                                secret' = secret\<lparr>secAnnotations :=
                                  (if exists \<and> recorded \<noteq> []
                                   then AList.update AnnotationReplicationPasswordRollout (formatInt (unixSeconds now)) ann else ann)\<rparr>
                            in do { e \<leftarrow> kUpdateSecret k secret'; ret (secret', e) })
                         })
                    }))
         })"

text \<open>The value \<open>strconv.ParseInt\<close> returns, also with an error: 0 for a bad text, the nearest bound out of range.\<close>

fun scanUint64 :: "int \<Rightarrow> string \<Rightarrow> int option" where
  "scanUint64 acc [] = Some acc"
| "scanUint64 acc (c # s) =
     (case digitVal c of
        None \<Rightarrow> None
      | Some d \<Rightarrow> if 10 * acc + d \<ge> 2 ^ 64 then Some (2 ^ 64 - 1) else scanUint64 (10 * acc + d) s)"

definition parseInt64 :: "string \<Rightarrow> int" where
  "parseInt64 s =
     (let neg = hasPrefix s ''-''; body = (if neg \<or> hasPrefix s ''+'' then drop 1 s else s)
      in if body = [] then 0
         else case scanUint64 0 body of
                None \<Rightarrow> 0
              | Some n \<Rightarrow> if neg then max (- n) (- (2 ^ 63)) else min n (2 ^ 63 - 1))"

text \<open>
  One round of the rollout: the scan over the pods ends early at a restarted standby that is not
  back yet (\<open>None\<close>), and otherwise finds the pod with the highest ordinal that still runs with the
  old password.
\<close>

fun rolloutScan :: "Cluster \<Rightarrow> int \<Rightarrow> int \<Rightarrow> Pod list \<Rightarrow> Pod option \<times> int \<Rightarrow> Pod option option" where
  "rolloutScan cluster since now [] (stale, staleOrdinal) = Some stale"
| "rolloutScan cluster since now (pod # pods) (stale, staleOrdinal) =
     (let ordinal = podOrdinal0 cluster pod
      in if ordinal = 0 \<or> podDeleting pod then rolloutScan cluster since now pods (stale, staleOrdinal)
         else if \<not> podCreated pod > since
         then rolloutScan cluster since now pods (if ordinal > staleOrdinal then (Some pod, ordinal) else (stale, staleOrdinal))
         else if \<not> (isPodReady pod \<and> map_of (podLabels pod) LabelStreaming = Some ''true'') \<and> now < podCreated pod + rolloutStandbyTimeout
         then None
         else rolloutScan cluster since now pods (stale, staleOrdinal))"

definition rolloutReplicationPassword :: "'s kube \<Rightarrow> Cluster \<Rightarrow> Secret \<Rightarrow> Pod list \<Rightarrow> ('s, Secret \<times> bool \<times> error option) state" where
  "rolloutReplicationPassword k cluster secret pods =
     (case map_of (secAnnotations secret) AnnotationReplicationPasswordRollout of
        None \<Rightarrow> ret (secret, False, None)
      | Some v \<Rightarrow> do {
          now \<leftarrow> kNow k;
          (let since = parseInt64 v * second
           in case rolloutScan cluster since now pods (None, -1) of
                None \<Rightarrow> ret (secret, True, None)
              | Some None \<Rightarrow>
                  (let secret' = secret\<lparr>secAnnotations := AList.delete AnnotationReplicationPasswordRollout (secAnnotations secret)\<rparr>
                   in do { e \<leftarrow> kUpdateSecret k secret'; ret (secret', e \<noteq> None, e) })
              | Some (Some stale) \<Rightarrow> do {
                  e \<leftarrow> kDeletePod k stale;
                  ret (secret, True,
                    case e of
                      None \<Rightarrow> None
                    | Some x \<Rightarrow> if kIsNotFound k x then None else Some (Wrapf ''failed to restart standby %s: %w'' [podName stale] x))
                })
        })"

end
