(* ===== verification/Replication_Reconcile.thy ===== *)
theory Replication_Reconcile
  imports Replication
begin

text \<open>
  The reconcile of a replication-enabled Cluster: the replication slots of its standbys, the data
  volumes of removed standbys, and \<open>reconcileReplication\<close>, which runs every part in order. A Go map
  from ordinals to booleans is the list of the ordinals it maps to true.
\<close>

section \<open>Replication slots\<close>

record slotRun =
  srExisting :: "string list"
  srLost :: "string list"
  srRecreated :: "string list"

text \<open>What the first loop does with a slot.\<close>

datatype slotFate = KeepSlot | DropRemoved | DropInvalid int

definition slotAction :: "int \<Rightarrow> int list \<Rightarrow> bool \<Rightarrow> ReplicationSlot \<Rightarrow> slotFate" where
  "slotAction want pvcs allowDrops s =
     (case slotOrdinal (slName s) of
        None \<Rightarrow> KeepSlot
      | Some ordinal \<Rightarrow>
          if \<not> slPhysical s \<or> ordinal = 0 then KeepSlot
          else if ordinal \<ge> want
          then (if \<not> allowDrops \<or> slActive s \<or> ordinal \<in> set pvcs then KeepSlot else DropRemoved)
          else if slWALStatus s = WALStatusLost \<and> \<not> slActive s then DropInvalid ordinal
          else KeepSlot)"

fun slotLoop :: "Cluster \<Rightarrow> 's replServer \<Rightarrow> int \<Rightarrow> int list \<Rightarrow> bool \<Rightarrow> ReplicationSlot list \<Rightarrow> slotRun \<Rightarrow> ('s, error + slotRun) state" where
  "slotLoop cluster srv want pvcs allowDrops [] st = ret (Inr st)"
| "slotLoop cluster srv want pvcs allowDrops (s # slots) st =
     (case slotAction want pvcs allowDrops s of
        KeepSlot \<Rightarrow> slotLoop cluster srv want pvcs allowDrops slots (st\<lparr>srExisting := slName s # srExisting st\<rparr>)
      | DropRemoved \<Rightarrow> do {
          e \<leftarrow> rvDropSlot srv (slName s);
          (case e of
             Some x \<Rightarrow> ret (Inl x)
           | None \<Rightarrow> slotLoop cluster srv want pvcs allowDrops slots st)
        }
      | DropInvalid ordinal \<Rightarrow> do {
          e \<leftarrow> rvDropSlot srv (slName s);
          (case e of
             Some x \<Rightarrow> ret (Inl x)
           | None \<Rightarrow> slotLoop cluster srv want pvcs allowDrops slots
               (st\<lparr>srLost := slName s # srLost st, srRecreated := srRecreated st @ [clName cluster @ ''-'' @ formatInt ordinal]\<rparr>))
        })"

fun createSlots :: "'s replServer \<Rightarrow> int list \<Rightarrow> slotRun \<Rightarrow> int list \<Rightarrow> ('s, error option) state" where
  "createSlots srv podExists st [] = ret None"
| "createSlots srv podExists st (i # is) =
     (if replicationSlotName i \<notin> set (srExisting st) \<and> i \<in> set podExists
      then do {
        e \<leftarrow> rvCreateSlot srv (replicationSlotName i) (replicationSlotName i \<notin> set (srLost st));
        (case e of Some x \<Rightarrow> ret (Some x) | None \<Rightarrow> createSlots srv podExists st is)
      }
      else createSlots srv podExists st is)"

definition reconcileReplicationSlots :: "Cluster \<Rightarrow> 's replServer \<Rightarrow> int \<Rightarrow> int list \<Rightarrow> int list \<Rightarrow> bool
    \<Rightarrow> ('s, string list \<times> error option) state" where
  "reconcileReplicationSlots cluster srv want podExists pvcs allowDrops = do {
     r \<leftarrow> rvSlots srv;
     (case r of
        Inl e \<Rightarrow> ret ([], Some e)
      | Inr slots \<Rightarrow> do {
          r2 \<leftarrow> slotLoop cluster srv want pvcs allowDrops slots \<lparr>srExisting = [], srLost = [], srRecreated = []\<rparr>;
          (case r2 of
             Inl e \<Rightarrow> ret ([], Some e)
           | Inr st \<Rightarrow> do {
               e \<leftarrow> createSlots srv podExists st [1..want - 1];
               ret (srRecreated st, e)
             })
        })
   }"

section \<open>Volumes of removed standbys\<close>

definition podOrdinals :: "Cluster \<Rightarrow> Pod list \<Rightarrow> int list" where
  "podOrdinals cluster pods = List.map_filter (\<lambda>p. podOrdinal cluster (podName p)) pods"

definition wantedReplicas :: "Cluster \<Rightarrow> StatefulSet option \<Rightarrow> int" where
  "wantedReplicas cluster sts =
     (case sts of
        None \<Rightarrow> desiredReplicas cluster
      | Some s \<Rightarrow> (case stsReplicas s of None \<Rightarrow> desiredReplicas cluster | Some n \<Rightarrow> max (desiredReplicas cluster) n))"

fun volumeLoop :: "'s kube \<Rightarrow> Cluster \<Rightarrow> int \<Rightarrow> int list \<Rightarrow> PVC list \<Rightarrow> int list \<Rightarrow> ('s, int list \<times> error option) state" where
  "volumeLoop k cluster replicas podExists [] remaining = ret (remaining, None)"
| "volumeLoop k cluster replicas podExists (pvc # pvcs) remaining =
     (case pvcOrdinal cluster (pvcName pvc) of
        None \<Rightarrow> volumeLoop k cluster replicas podExists pvcs remaining
      | Some ordinal \<Rightarrow>
          if pvcDeleting pvc \<and> ordinal \<noteq> 0 then volumeLoop k cluster replicas podExists pvcs remaining
          else if ordinal = 0 \<or> ordinal < replicas \<or> ordinal \<in> set podExists
          then volumeLoop k cluster replicas podExists pvcs (ordinal # remaining)
          else do {
            e \<leftarrow> kDeletePVC k pvc;
            (case e of
               Some x \<Rightarrow>
                 if kIsNotFound k x then volumeLoop k cluster replicas podExists pvcs remaining
                 else ret (ordinal # remaining, Some x)
             | None \<Rightarrow> volumeLoop k cluster replicas podExists pvcs remaining)
          })"

definition cleanupStandbyVolumes :: "'s kube \<Rightarrow> Cluster \<Rightarrow> StatefulSet option \<Rightarrow> Pod list \<Rightarrow> ('s, int list \<times> error option) state" where
  "cleanupStandbyVolumes k cluster sts pods = do {
     r \<leftarrow> kListPVCs k (clNamespace cluster) (clName cluster);
     (case r of
        Inl e \<Rightarrow> ret ([], Some e)
      | Inr pvcs \<Rightarrow> volumeLoop k cluster (wantedReplicas cluster sts) (podOrdinals cluster pods) pvcs [])
   }"

section \<open>The reconcile\<close>

abbreviation ReasonWaitingForPrimary :: string where "ReasonWaitingForPrimary \<equiv> ''WaitingForPrimary''"
abbreviation ReasonReplicationError :: string where "ReasonReplicationError \<equiv> ''ReplicationError''"
abbreviation ReasonStandbyNotStreaming :: string where "ReasonStandbyNotStreaming \<equiv> ''StandbyNotStreaming''"
abbreviation ReasonStreaming :: string where "ReasonStreaming \<equiv> ''Streaming''"

definition setReplicationCondition :: "Cluster \<Rightarrow> bool \<Rightarrow> string \<Rightarrow> string \<Rightarrow> Cluster" where
  "setReplicationCondition cluster status reason message =
     cluster\<lparr>clReplicationHealthy := Some \<lparr>hcStatus = status, hcReason = reason, hcMessage = message\<rparr>\<rparr>"

definition reportStreaming :: "Cluster \<Rightarrow> int \<Rightarrow> string list \<Rightarrow> string list \<Rightarrow> Cluster \<times> int" where
  "reportStreaming cluster want streaming recreated =
     (let missing = filter (\<lambda>n. n \<notin> set streaming) (map (\<lambda>i. clName cluster @ ''-'' @ formatInt i) [1..want - 1]);
          msg = sprintf ''%d of %d standbys streaming; not streaming: %s''
            [formatInt (want - 1 - int (length missing)), formatInt (want - 1), joinStr missing '', '']
      in if missing \<noteq> []
         then (setReplicationCondition cluster False ReasonStandbyNotStreaming
                 (msg @ (if recreated \<noteq> []
                         then sprintf ''; the replication slots of %s were invalidated (max_slot_wal_keep_size) and re-created: re-clone these standbys by deleting their data PVC and pod''
                           [joinStr recreated '', '']
                         else [])), replicationRetryInterval)
         else (setReplicationCondition cluster True ReasonStreaming
                 (sprintf ''All %d standbys stream from the primary %s'' [formatInt (want - 1), primaryPodName cluster]),
               replicationCheckInterval))"

text \<open>The closure \<open>fail\<close>.\<close>

definition failReplication :: "Cluster \<Rightarrow> string \<Rightarrow> error \<Rightarrow> Cluster" where
  "failReplication cluster msg e =
     (if desiredReplicas cluster > 1
      then setReplicationCondition cluster False ReasonReplicationError (sprintf ''%s: %v'' [msg, errText e])
      else cluster)"

text \<open>The standbys that stream, their labels, the rollout of a new password and the report.\<close>

definition followStandbys :: "'s kube \<Rightarrow> Cluster \<Rightarrow> Secret \<Rightarrow> Pod list \<Rightarrow> 's replServer \<Rightarrow> string list
    \<Rightarrow> ('s, Cluster \<times> Secret \<times> int) state" where
  "followStandbys k cluster secret pods srv recreated = do {
     r \<leftarrow> rvStatus srv;
     (case r of
        Inl e \<Rightarrow> ret (failReplication cluster ''Cannot read pg_stat_replication'' e, secret, replicationRetryInterval)
      | Inr standbys \<Rightarrow>
          (let streaming = map sbApplicationName (filter (\<lambda>s. sbState s = ''streaming'') standbys)
           in do {
             (pods', e) \<leftarrow> labelStreaming k cluster pods streaming;
             (case e of
                Some x \<Rightarrow> ret (failReplication cluster ''Cannot label the standbys'' x, secret, replicationRetryInterval)
              | None \<Rightarrow> do {
                  (secret', rolling, e) \<leftarrow> rolloutReplicationPassword k cluster secret pods';
                  (case e of
                     Some x \<Rightarrow> ret (failReplication cluster ''Cannot restart the standbys for the new replication password'' x, secret', replicationRetryInterval)
                   | None \<Rightarrow>
                       (let (cluster', recheck) = reportStreaming cluster (desiredReplicas cluster) streaming recreated
                        in ret (cluster', secret', if rolling then min recheck replicationRetryInterval else recheck)))
                })
           }))
   }"

text \<open>What is done on a connection to the primary.\<close>

definition managePrimary :: "'s kube \<Rightarrow> Cluster \<Rightarrow> Secret \<Rightarrow> Pod list \<Rightarrow> 's replServer \<Rightarrow> int list \<Rightarrow> bool
    \<Rightarrow> ('s, Cluster \<times> Secret \<times> int) state" where
  "managePrimary k cluster secret0 pods srv pvcs allowDrops = do {
     (secret, e1) \<leftarrow> clearPasswordSyncRestart k secret0;
     (case e1 of
        Some x \<Rightarrow> ret (failReplication cluster ''Cannot update the credentials Secret'' x, secret, replicationRetryInterval)
      | None \<Rightarrow> do {
          rec \<leftarrow> rvInRecovery srv;
          (case rec of
             Inl x \<Rightarrow> ret (failReplication cluster ''Cannot check the primary'' x, secret, replicationRetryInterval)
           | Inr inRecovery \<Rightarrow>
               if inRecovery
               then ret (failReplication cluster ''Cannot manage replication''
                 (Errorf ''the instance behind Service %q is in recovery'' [clName cluster]), secret, replicationRetryInterval)
               else do {
                 e2 \<leftarrow> markInitialized k cluster;
                 (case e2 of
                    Some x \<Rightarrow> ret (failReplication cluster ''Cannot record that the Cluster is initialized'' x, secret, replicationRetryInterval)
                  | None \<Rightarrow> do {
                      (secret', e3) \<leftarrow> ensureReplicationRole k cluster secret srv;
                      (case e3 of
                         Some x \<Rightarrow> ret (failReplication cluster ''Cannot set up the replication role'' x, secret', replicationRetryInterval)
                       | None \<Rightarrow> do {
                           (recreated, e4) \<leftarrow> reconcileReplicationSlots cluster srv (desiredReplicas cluster)
                             (podOrdinals cluster pods) pvcs allowDrops;
                           (case e4 of
                              Some x \<Rightarrow> ret (failReplication cluster ''Cannot manage replication slots'' x, secret', replicationRetryInterval)
                            | None \<Rightarrow>
                                if desiredReplicas cluster \<le> 1 then ret (cluster, secret', 0)
                                else followStandbys k cluster secret' pods srv recreated)
                         })
                    })
               })
        })
   }"

definition reconcileReplication :: "'s kube \<Rightarrow> ('s, error + 's replServer) state \<Rightarrow> Cluster \<Rightarrow> Secret \<Rightarrow> StatefulSet option \<Rightarrow> Pod list
    \<Rightarrow> ('s, Cluster \<times> Secret \<times> int) state" where
  "reconcileReplication k connect cluster0 secret sts pods =
     (let cluster = (if desiredReplicas cluster0 \<le> 1 then cluster0\<lparr>clReplicationHealthy := None\<rparr> else cluster0)
      in if \<not> replicationEnabled cluster sts
         then do { (secret', d) \<leftarrow> checkOperatorLogin k connect cluster secret pods; ret (cluster, secret', d) }
         else do {
           (pvcs, e) \<leftarrow> cleanupStandbyVolumes k cluster sts pods;
           (let waiting = (if desiredReplicas cluster > 1
                  then setReplicationCondition cluster False ReasonWaitingForPrimary ''Waiting for the primary pod to become ready'' else cluster)
            in case primaryPod cluster pods of
                 None \<Rightarrow> ret (waiting, secret, replicationRetryInterval)
               | Some primary \<Rightarrow>
                   if \<not> isPodReady primary then ret (waiting, secret, replicationRetryInterval)
                   else do {
                     (secret', r) \<leftarrow> connectPrimary k connect cluster secret primary;
                     (case r of
                        Inl x \<Rightarrow> ret (failReplication cluster ''Cannot connect to the primary'' x, secret', replicationRetryInterval)
                      | Inr srv \<Rightarrow> managePrimary k cluster secret' pods srv pvcs (e = None))
                   })
         })"

end
