(* ===== verification/Replication_Correct.thy ===== *)
theory Replication_Correct
  imports Replication_Reconcile
begin

text \<open>
  The contract of the API server and of the primary that the reconcile of replication relies on, and
  what each of its parts does to the volumes, the replication slots and the streaming standbys.
\<close>

section \<open>The contract\<close>

text \<open>
  A world is seen through the names of the Cluster's data volumes that exist and are not being
  deleted, the replication slots of the primary, and the names of the standbys that stream from it.
\<close>

definition sameView :: "('s \<Rightarrow> string set) \<Rightarrow> ('s \<Rightarrow> ReplicationSlot set) \<Rightarrow> ('s \<Rightarrow> string set) \<Rightarrow> 's \<Rightarrow> 's \<Rightarrow> bool" where
  "sameView kept slots streams s s' \<longleftrightarrow> kept s' = kept s \<and> slots s' = slots s \<and> streams s' = streams s"

definition freshSlot :: "string \<Rightarrow> ReplicationSlot \<Rightarrow> bool" where
  "freshSlot n x \<longleftrightarrow> slName x = n \<and> slPhysical x \<and> \<not> slActive x \<and> slWALStatus x \<noteq> WALStatusLost"

text \<open>
  A connection to the primary: slots have unique names, a drop removes the slot of that name and a
  creation adds one, or fails (and may then have happened or not); nothing else is changed.
\<close>

definition primaryServer :: "('s \<Rightarrow> string set) \<Rightarrow> ('s \<Rightarrow> ReplicationSlot set) \<Rightarrow> ('s \<Rightarrow> string set) \<Rightarrow> 's replServer \<Rightarrow> bool" where
  "primaryServer kept slots streams srv \<longleftrightarrow>
     (\<forall>s. wp (rvInRecovery srv) (\<lambda>_. sameView kept slots streams s) s) \<and>
     (\<forall>s n. wp (rvRoleExists srv n) (\<lambda>_. sameView kept slots streams s) s) \<and>
     (\<forall>s n opts. wp (rvCreateRole srv n opts) (\<lambda>_. sameView kept slots streams s) s) \<and>
     (\<forall>s. wp (rvSlots srv) (\<lambda>r s'. sameView kept slots streams s s' \<and> (\<forall>l. r = Inr l \<longrightarrow> set l = slots s \<and> distinct (map slName l))) s) \<and>
     (\<forall>s n. wp (rvDropSlot srv n) (\<lambda>e s'. kept s' = kept s \<and> streams s' = streams s \<and>
        (slots s' = {x \<in> slots s. slName x \<noteq> n} \<or> e \<noteq> None \<and> slots s' = slots s)) s) \<and>
     (\<forall>s n reserve. wp (rvCreateSlot srv n reserve) (\<lambda>e s'. kept s' = kept s \<and> streams s' = streams s \<and>
        ((\<exists>x. freshSlot n x \<and> slots s' = insert x (slots s)) \<or> e \<noteq> None \<and> slots s' = slots s)) s) \<and>
     (\<forall>s. wp (rvStatus srv) (\<lambda>r s'. sameView kept slots streams s s' \<and>
        (\<forall>l. r = Inr l \<longrightarrow> sbApplicationName ` {x \<in> set l. sbState x = ''streaming''} = streams s)) s)"

text \<open>Labelling changes the labels of the pods only.\<close>

definition relabelled :: "Pod list \<Rightarrow> Pod list \<Rightarrow> bool" where
  "relabelled pods ps \<longleftrightarrow> (\<forall>q \<in> set ps. \<exists>p \<in> set pods. podName q = podName p \<and> podDeleting q = podDeleting p \<and> podCreated q = podCreated p)"

text \<open>A standby that still runs with the old password: older than the change, and not on its way out.\<close>

definition stalePod :: "Cluster \<Rightarrow> int \<Rightarrow> Pod \<Rightarrow> bool" where
  "stalePod c since p \<longleftrightarrow> podOrdinal0 c p \<noteq> 0 \<and> \<not> podDeleting p \<and> podCreated p \<le> since"

text \<open>
  The API server: a deleted volume is gone or being deleted, also when its deletion reports that it
  was not found, and after another error it may be either; the restart of a pod stops no other standby.
\<close>

locale replication_world =
  fixes k :: "'s kube" and connect :: "('s, error + 's replServer) state" and cluster :: Cluster
    and kept :: "'s \<Rightarrow> string set" and slots :: "'s \<Rightarrow> ReplicationSlot set" and streams :: "'s \<Rightarrow> string set"
  assumes now: "wp (kNow k) (\<lambda>_. sameView kept slots streams s) s"
    and patch_pod: "wp (kPatchPod k p) (\<lambda>_. sameView kept slots streams s) s"
    and update_secret: "wp (kUpdateSecret k x) (\<lambda>_. sameView kept slots streams s) s"
    and get_config: "wp (kGetConfigMap k n) (\<lambda>_. sameView kept slots streams s) s"
    and update_config: "wp (kUpdateConfigMap k n cm) (\<lambda>_. sameView kept slots streams s) s"
    and connects: "wp connect (\<lambda>r s'. sameView kept slots streams s s' \<and> (\<forall>srv. r = Inr srv \<longrightarrow> primaryServer kept slots streams srv)) s"
    and list_pvcs: "wp (kListPVCs k (clNamespace cluster) (clName cluster)) (\<lambda>r s'. sameView kept slots streams s s' \<and>
      (\<forall>l. r = Inr l \<longrightarrow> kept s = pvcName ` {p \<in> set l. \<not> pvcDeleting p})) s"
    and delete_pvc: "wp (kDeletePVC k q) (\<lambda>e s'. slots s' = slots s \<and> streams s' = streams s \<and>
      (kept s' = kept s - {pvcName q} \<or> (\<exists>x. e = Some x \<and> \<not> kIsNotFound k x) \<and> kept s' = kept s)) s"
    and delete_pod: "wp (kDeletePod k p) (\<lambda>e s'. kept s' = kept s \<and> slots s' = slots s \<and>
      (podOrdinal0 cluster p \<noteq> 0 \<longrightarrow> streams s - {podName p} \<subseteq> streams s')) s"
begin

abbreviation same :: "'s \<Rightarrow> 's \<Rightarrow> bool" where "same \<equiv> sameView kept slots streams"

abbreviation primary :: "'s replServer \<Rightarrow> bool" where "primary \<equiv> primaryServer kept slots streams"

text \<open>The part of the view no step but the volume clean-up and the slots changes.\<close>

definition sameStore :: "'s \<Rightarrow> 's \<Rightarrow> bool" where
  "sameStore s s' \<longleftrightarrow> kept s' = kept s \<and> slots s' = slots s"

lemma same_refl [simp]: "same s s" and sameStore_refl [simp]: "sameStore s s"
  by (simp_all add: sameView_def sameStore_def)

lemma same_store: "same s s' \<Longrightarrow> sameStore s s'"
  by (simp add: sameView_def sameStore_def)

section \<open>Volumes\<close>

definition removedVolume :: "int \<Rightarrow> int list \<Rightarrow> string \<Rightarrow> bool" where
  "removedVolume replicas podExists n \<longleftrightarrow>
     (\<exists>i. pvcOrdinal cluster n = Some i \<and> i \<noteq> 0 \<and> i \<ge> replicas \<and> i \<notin> set podExists)"

text \<open>What is known after the clean-up: the volumes that are gone, and that the list it returns covers the rest.\<close>

definition volumesPost :: "int \<Rightarrow> int list \<Rightarrow> PVC list \<Rightarrow> int list \<Rightarrow> 's \<Rightarrow> int list \<times> error option \<Rightarrow> 's \<Rightarrow> bool" where
  "volumesPost replicas podExists pvcs remaining s r s' \<longleftrightarrow>
     slots s' = slots s \<and> streams s' = streams s \<and> kept s' \<subseteq> kept s \<and>
     (\<forall>n \<in> kept s - kept s'. removedVolume replicas podExists n) \<and> set remaining \<subseteq> set (fst r) \<and>
     (snd r = None \<longrightarrow> (\<forall>p \<in> set pvcs. \<forall>i. \<not> pvcDeleting p \<and> pvcName p \<in> kept s' \<and> pvcOrdinal cluster (pvcName p) = Some i \<longrightarrow> i \<in> set (fst r)))"

lemma volumesPost_skip:
  "volumesPost replicas podExists pvcs remaining' s r s' \<Longrightarrow> set remaining \<subseteq> set remaining' \<Longrightarrow>
    (\<forall>i. \<not> pvcDeleting p \<and> pvcOrdinal cluster (pvcName p) = Some i \<longrightarrow> i \<in> set remaining') \<Longrightarrow>
    volumesPost replicas podExists (p # pvcs) remaining s r s'"
  unfolding volumesPost_def by auto

lemma volumesPost_deleted:
  assumes "volumesPost replicas podExists pvcs remaining s1 r s'" and "slots s1 = slots s" "streams s1 = streams s"
    and "kept s1 = kept s - {pvcName p}" and "removedVolume replicas podExists (pvcName p)"
  shows "volumesPost replicas podExists (p # pvcs) remaining s r s'"
  using assms unfolding volumesPost_def by auto

lemma volumeLoop_post:
  "wp (volumeLoop k cluster replicas podExists pvcs remaining) (volumesPost replicas podExists pvcs remaining s) s"
proof (induction pvcs arbitrary: remaining s)
  case Nil
  then show ?case by (simp add: wp_simps volumesPost_def)
next
  case (Cons p pvcs)
  have skip: "wp (volumeLoop k cluster replicas podExists pvcs remaining') (volumesPost replicas podExists (p # pvcs) remaining s) s"
    if "set remaining \<subseteq> set remaining'" "\<forall>i. \<not> pvcDeleting p \<and> pvcOrdinal cluster (pvcName p) = Some i \<longrightarrow> i \<in> set remaining'" for remaining'
    by (rule wp_mono [OF Cons.IH], erule volumesPost_skip [OF _ that])
  show ?case
  proof (cases "pvcOrdinal cluster (pvcName p)")
    case None
    then show ?thesis using skip [of remaining] by simp
  next
    case (Some i)
    consider (keep) "pvcDeleting p \<and> i \<noteq> 0" | (keep') "\<not> (pvcDeleting p \<and> i \<noteq> 0)" "i = 0 \<or> i < replicas \<or> i \<in> set podExists"
      | (delete) "\<not> pvcDeleting p" "i \<noteq> 0" "\<not> i < replicas" "i \<notin> set podExists" by blast
    then show ?thesis
    proof cases
      case keep
      then show ?thesis using Some skip [of remaining] by simp
    next
      case keep'
      then show ?thesis using Some skip [of "i # remaining"] by auto
    next
      case delete
      with Some have rv: "removedVolume replicas podExists (pvcName p)" by (auto simp: removedVolume_def)
      have "wp (kDeletePVC k p) (\<lambda>e. wp (case e of
          Some x \<Rightarrow> if kIsNotFound k x then volumeLoop k cluster replicas podExists pvcs remaining else ret (i # remaining, Some x)
        | None \<Rightarrow> volumeLoop k cluster replicas podExists pvcs remaining) (volumesPost replicas podExists (p # pvcs) remaining s)) s"
      proof (rule wp_mono [OF delete_pvc], goal_cases)
        case (1 e s1)
        show ?case
        proof (cases "\<exists>x. e = Some x \<and> \<not> kIsNotFound k x")
          case True
          then show ?thesis using 1 rv by (auto simp: wp_simps volumesPost_def)
        next
          case False
          with 1 have s1: "slots s1 = slots s" "streams s1 = streams s" "kept s1 = kept s - {pvcName p}" by blast+
          have "wp (volumeLoop k cluster replicas podExists pvcs remaining) (volumesPost replicas podExists (p # pvcs) remaining s) s1"
            by (rule wp_mono [OF Cons.IH], erule volumesPost_deleted [OF _ s1 rv])
          with False show ?thesis by (auto split: option.split)
        qed
      qed
      with Some delete show ?thesis by (simp add: wp_bind)
    qed
  qed
qed

definition cleanedUp :: "StatefulSet option \<Rightarrow> Pod list \<Rightarrow> 's \<Rightarrow> int list \<times> error option \<Rightarrow> 's \<Rightarrow> bool" where
  "cleanedUp sts pods s r s' \<longleftrightarrow>
     slots s' = slots s \<and> streams s' = streams s \<and>
     (\<forall>n \<in> kept s - kept s'. removedVolume (wantedReplicas cluster sts) (podOrdinals cluster pods) n) \<and>
     (snd r = None \<longrightarrow> (\<forall>n \<in> kept s'. \<forall>i. pvcOrdinal cluster n = Some i \<longrightarrow> i \<in> set (fst r)))"

lemma cleanupStandbyVolumes_post: "wp (cleanupStandbyVolumes k cluster sts pods) (cleanedUp sts pods s) s"
  unfolding cleanupStandbyVolumes_def wp_bind
proof (rule wp_mono [OF list_pvcs], goal_cases)
  case (1 r s1)
  then have same: "kept s1 = kept s" "slots s1 = slots s" "streams s1 = streams s" by (simp_all add: sameView_def)
  show ?case
  proof (cases r)
    case (Inl e)
    then show ?thesis by (simp add: wp_simps cleanedUp_def same)
  next
    case (Inr l)
    with 1 have listed: "kept s1 = pvcName ` {p \<in> set l. \<not> pvcDeleting p}" by (simp add: same)
    have "cleanedUp sts pods s r' s'" if v: "volumesPost (wantedReplicas cluster sts) (podOrdinals cluster pods) l [] s1 r' s'" for r' s'
      unfolding cleanedUp_def
    proof (intro conjI impI ballI allI)
      fix n i
      assume none: "snd r' = None" and n: "n \<in> kept s'" and i: "pvcOrdinal cluster n = Some i"
      from n v have "n \<in> kept s1" unfolding volumesPost_def by blast
      then obtain p where "p \<in> set l" "\<not> pvcDeleting p" "n = pvcName p" unfolding listed by blast
      with v none n i show "i \<in> set (fst r')" unfolding volumesPost_def by blast
    qed (use v same in \<open>simp_all add: volumesPost_def\<close>)
    then show ?thesis unfolding Inr sum.case by (rule wp_mono [OF volumeLoop_post])
  qed
qed

section \<open>Slots\<close>

lemma primary_drop: "primary srv \<Longrightarrow> wp (rvDropSlot srv n) (\<lambda>e s'. kept s' = kept s \<and> streams s' = streams s \<and>
    (slots s' = {x \<in> slots s. slName x \<noteq> n} \<or> e \<noteq> None \<and> slots s' = slots s)) s"
  and primary_create: "primary srv \<Longrightarrow> wp (rvCreateSlot srv n b) (\<lambda>e s'. kept s' = kept s \<and> streams s' = streams s \<and>
    ((\<exists>x. freshSlot n x \<and> slots s' = insert x (slots s)) \<or> e \<noteq> None \<and> slots s' = slots s)) s"
  and primary_slots: "primary srv \<Longrightarrow> wp (rvSlots srv) (\<lambda>r s'. same s s' \<and> (\<forall>l. r = Inr l \<longrightarrow> set l = slots s \<and> distinct (map slName l))) s"
  and primary_status: "primary srv \<Longrightarrow> wp (rvStatus srv) (\<lambda>r s'. same s s' \<and>
    (\<forall>l. r = Inr l \<longrightarrow> sbApplicationName ` {x \<in> set l. sbState x = ''streaming''} = streams s)) s"
  and primary_recovery: "primary srv \<Longrightarrow> wp (rvInRecovery srv) (\<lambda>_. same s) s"
  and primary_role: "primary srv \<Longrightarrow> wp (rvRoleExists srv u) (\<lambda>_. same s) s" "primary srv \<Longrightarrow> wp (rvCreateRole srv u opts) (\<lambda>_. same s) s"
  by (simp_all add: primaryServer_def)

text \<open>
  After the first loop: the slots that are gone were to be dropped; every name it found to exist
  still has its slot.
\<close>

definition slotsPost :: "int \<Rightarrow> int list \<Rightarrow> bool \<Rightarrow> ReplicationSlot list \<Rightarrow> slotRun \<Rightarrow> 's \<Rightarrow> error + slotRun \<Rightarrow> 's \<Rightarrow> bool" where
  "slotsPost want pvcs allowDrops l st s r s' \<longleftrightarrow>
     kept s' = kept s \<and> streams s' = streams s \<and> slots s' \<subseteq> slots s \<and>
     (\<forall>x \<in> slots s - slots s'. x \<in> set l \<and> slotAction want pvcs allowDrops x \<noteq> KeepSlot) \<and>
     (\<forall>st'. r = Inr st' \<longrightarrow> set (srExisting st') = set (srExisting st) \<union> slName ` {x \<in> set l. slotAction want pvcs allowDrops x = KeepSlot})"

lemma slotsPost_keep:
  "slotsPost want pvcs allowDrops l (st\<lparr>srExisting := slName x # srExisting st\<rparr>) s r s' \<Longrightarrow> slotAction want pvcs allowDrops x = KeepSlot \<Longrightarrow>
    slotsPost want pvcs allowDrops (x # l) st s r s'"
  unfolding slotsPost_def by auto

lemma slotsPost_drop:
  assumes "slotsPost want pvcs allowDrops l st' s1 r s'" and "slotAction want pvcs allowDrops x \<noteq> KeepSlot"
    and "kept s1 = kept s" "streams s1 = streams s" "slots s1 = slots s - {x}" "srExisting st' = srExisting st"
  shows "slotsPost want pvcs allowDrops (x # l) st s r s'"
  using assms unfolding slotsPost_def by auto

lemma slotsPost_failed:
  assumes "slotAction want pvcs allowDrops x \<noteq> KeepSlot" "kept s1 = kept s" "streams s1 = streams s" "slots s1 = slots s - {x} \<or> slots s1 = slots s"
  shows "slotsPost want pvcs allowDrops (x # l) st s (Inl e) s1"
  using assms unfolding slotsPost_def by auto

lemma drop_named: "inj_on slName A \<Longrightarrow> x \<in> A \<Longrightarrow> {y \<in> A. slName y \<noteq> slName x} = A - {x}"
  by (auto dest: inj_onD)

lemma slotLoop_drop:
  assumes srv: "primary srv" and inj: "inj_on slName (slots s)" "x \<in> slots s" and act: "slotAction want pvcs allowDrops x \<noteq> KeepSlot"
    and rest: "\<And>s1. kept s1 = kept s \<Longrightarrow> streams s1 = streams s \<Longrightarrow> slots s1 = slots s - {x} \<Longrightarrow>
      wp (slotLoop cluster srv want pvcs allowDrops l st') (slotsPost want pvcs allowDrops l st' s1) s1"
    and st': "srExisting st' = srExisting st"
  shows "wp (State_Monad.bind (rvDropSlot srv (slName x)) (\<lambda>e. case e of Some y \<Rightarrow> ret (Inl y) | None \<Rightarrow> slotLoop cluster srv want pvcs allowDrops l st'))
    (slotsPost want pvcs allowDrops (x # l) st s) s"
  unfolding wp_bind
proof (rule wp_mono [OF primary_drop [OF srv]], goal_cases)
  case (1 e s1)
  then have s1: "kept s1 = kept s" "streams s1 = streams s" "slots s1 = slots s - {x} \<or> e \<noteq> None \<and> slots s1 = slots s"
    using drop_named [OF inj] by simp_all
  show ?case
  proof (cases e)
    case None
    with s1 have sl: "slots s1 = slots s - {x}" by simp
    show ?thesis unfolding None option.case
      by (rule wp_mono [OF rest [OF s1(1,2) sl]], erule slotsPost_drop [OF _ act s1(1,2) sl st'])
  next
    case (Some y)
    with s1 slotsPost_failed [OF act s1(1,2)] show ?thesis by (auto simp: wp_simps)
  qed
qed

lemma slotLoop_post:
  assumes "primary srv"
  shows "inj_on slName (slots s) \<Longrightarrow> set l \<subseteq> slots s \<Longrightarrow> distinct l \<Longrightarrow>
    wp (slotLoop cluster srv want pvcs allowDrops l st) (slotsPost want pvcs allowDrops l st s) s"
proof (induction l arbitrary: st s)
  case Nil
  then show ?case by (simp add: wp_simps slotsPost_def)
next
  case (Cons x l)
  have rest: "wp (slotLoop cluster srv want pvcs allowDrops l st') (slotsPost want pvcs allowDrops l st' s1) s1"
    if "slots s1 = slots s - {x}" for s1 st'
    using Cons.prems that by (intro Cons.IH) (auto intro: inj_on_subset)
  have inj: "inj_on slName (slots s)" "x \<in> slots s" using Cons.prems by simp_all
  show ?case
  proof (cases "slotAction want pvcs allowDrops x")
    case KeepSlot
    have "wp (slotLoop cluster srv want pvcs allowDrops l (st\<lparr>srExisting := slName x # srExisting st\<rparr>))
        (slotsPost want pvcs allowDrops (x # l) st s) s"
      by (rule wp_mono [OF Cons.IH], use Cons.prems in simp_all, erule slotsPost_keep [OF _ KeepSlot])
    then show ?thesis by (simp add: KeepSlot)
  next
    case DropRemoved
    then have act: "slotAction want pvcs allowDrops x \<noteq> KeepSlot" by simp
    show ?thesis unfolding slotLoop.simps DropRemoved slotFate.case
      by (rule slotLoop_drop [OF assms inj act rest refl]) simp_all
  next
    case (DropInvalid i)
    then have act: "slotAction want pvcs allowDrops x \<noteq> KeepSlot" by simp
    show ?thesis unfolding slotLoop.simps DropInvalid slotFate.case
      by (rule slotLoop_drop [OF assms inj act rest]) simp_all
  qed
qed

text \<open>After the second loop: the slots of the listed ordinals whose pod exists, unless it found them before.\<close>

definition createdPost :: "int list \<Rightarrow> slotRun \<Rightarrow> int list \<Rightarrow> 's \<Rightarrow> error option \<Rightarrow> 's \<Rightarrow> bool" where
  "createdPost podExists st is s e s' \<longleftrightarrow>
     kept s' = kept s \<and> streams s' = streams s \<and> slots s \<subseteq> slots s' \<and>
     (\<forall>x \<in> slots s' - slots s. \<exists>i \<in> set is. i \<in> set podExists \<and> freshSlot (replicationSlotName i) x) \<and>
     (e = None \<longrightarrow> (\<forall>i \<in> set is. i \<in> set podExists \<and> replicationSlotName i \<notin> set (srExisting st) \<longrightarrow> replicationSlotName i \<in> slName ` slots s'))"

lemma createdPost_trans:
  assumes "createdPost podExists st is s1 e s'" and "kept s1 = kept s" "streams s1 = streams s" "slots s1 = insert x (slots s)"
    and "freshSlot (replicationSlotName i) x" "i \<in> set podExists"
  shows "createdPost podExists st (i # is) s e s'"
  using assms unfolding createdPost_def freshSlot_def by (auto intro: image_eqI [of _ slName x])

lemma createSlots_post:
  assumes "primary srv"
  shows "wp (createSlots srv podExists st is) (createdPost podExists st is s) s"
proof (induction "is" arbitrary: s)
  case Nil
  then show ?case by (simp add: wp_simps createdPost_def)
next
  case (Cons i "is")
  show ?case
  proof (cases "replicationSlotName i \<notin> set (srExisting st) \<and> i \<in> set podExists")
    case False
    then have "createdPost podExists st (i # is) s e s'" if "createdPost podExists st is s e s'" for e s'
      using that unfolding createdPost_def by auto
    then have "wp (createSlots srv podExists st is) (createdPost podExists st (i # is) s) s"
      by (rule wp_mono [OF Cons.IH])
    with False show ?thesis by auto
  next
    case True
    have "wp (rvCreateSlot srv (replicationSlotName i) b) (\<lambda>e. wp (case e of Some x \<Rightarrow> ret (Some x) | None \<Rightarrow> createSlots srv podExists st is)
        (createdPost podExists st (i # is) s)) s" for b
    proof (rule wp_mono [OF primary_create [OF assms]], goal_cases)
      case (1 e s1)
      show ?case
      proof (cases e)
        case None
        with 1 obtain x where x: "kept s1 = kept s" "streams s1 = streams s" "slots s1 = insert x (slots s)" "freshSlot (replicationSlotName i) x" by blast
        show ?thesis unfolding None option.case
          by (rule wp_mono [OF Cons.IH], erule createdPost_trans [OF _ x]) (use True in simp)
      next
        case (Some y)
        with 1 True show ?thesis by (auto simp: wp_simps createdPost_def)
      qed
    qed
    with True show ?thesis by (simp add: wp_bind)
  qed
qed

text \<open>
  The slots after a reconcile: what may be gone, what may be new, and that without an error every
  wanted standby whose pod exists has a slot of its name.
\<close>

definition reconciledSlots :: "int \<Rightarrow> int list \<Rightarrow> int list \<Rightarrow> bool \<Rightarrow> 's \<Rightarrow> error option \<Rightarrow> 's \<Rightarrow> bool" where
  "reconciledSlots want podExists pvcs allowDrops s e s' \<longleftrightarrow>
     kept s' = kept s \<and> streams s' = streams s \<and>
     (\<forall>x \<in> slots s - slots s'. slotAction want pvcs allowDrops x \<noteq> KeepSlot) \<and>
     (\<forall>x \<in> slots s' - slots s. \<exists>i. 1 \<le> i \<and> i < want \<and> i \<in> set podExists \<and> freshSlot (replicationSlotName i) x) \<and>
     (e = None \<longrightarrow> (\<forall>i. 1 \<le> i \<and> i < want \<and> i \<in> set podExists \<longrightarrow> replicationSlotName i \<in> slName ` slots s'))"

lemma reconciledSlots_compose:
  assumes first: "slotsPost want pvcs allowDrops l \<lparr>srExisting = [], srLost = [], srRecreated = []\<rparr> s (Inr st) s1"
    and second: "createdPost podExists st [1..want - 1] s1 e s'" and "set l = slots s"
  shows "reconciledSlots want podExists pvcs allowDrops s e s'"
proof -
  have keptNames: "n \<in> slName ` slots s1" if "n \<in> set (srExisting st)" for n
    using that first \<open>set l = slots s\<close> unfolding slotsPost_def by auto
  show ?thesis
    unfolding reconciledSlots_def
  proof (intro conjI impI allI ballI)
    fix i
    assume "e = None" "1 \<le> i \<and> i < want \<and> i \<in> set podExists"
    with second keptNames [of "replicationSlotName i"] show "replicationSlotName i \<in> slName ` slots s'"
      unfolding createdPost_def by (cases "replicationSlotName i \<in> set (srExisting st)") auto
  next
    fix x
    assume x: "x \<in> slots s' - slots s"
    with first have "x \<in> slots s' - slots s1" unfolding slotsPost_def by blast
    with second obtain i where "i \<in> set [1..want - 1]" "i \<in> set podExists" "freshSlot (replicationSlotName i) x"
      unfolding createdPost_def by blast
    then show "\<exists>i. 1 \<le> i \<and> i < want \<and> i \<in> set podExists \<and> freshSlot (replicationSlotName i) x" by auto
  next
    fix x
    assume "x \<in> slots s - slots s'"
    with second have "x \<in> slots s - slots s1" unfolding createdPost_def by blast
    with first show "slotAction want pvcs allowDrops x \<noteq> KeepSlot" unfolding slotsPost_def by blast
  qed (use first second in \<open>unfold slotsPost_def createdPost_def, auto\<close>)
qed

lemma reconcileReplicationSlots_post:
  assumes "primary srv"
  shows "wp (reconcileReplicationSlots cluster srv want podExists pvcs allowDrops)
    (\<lambda>(recreated, e). reconciledSlots want podExists pvcs allowDrops s e) s"
  unfolding reconcileReplicationSlots_def wp_bind
proof (rule wp_mono [OF primary_slots [OF assms]], goal_cases)
  case (1 r s0)
  then have s0: "kept s0 = kept s" "streams s0 = streams s" "slots s0 = slots s" by (simp_all add: sameView_def)
  have frame: "reconciledSlots want podExists pvcs allowDrops s e s'" if "reconciledSlots want podExists pvcs allowDrops s0 e s'" for e s'
    using that by (simp add: reconciledSlots_def s0)
  show ?case
  proof (cases r)
    case (Inl x)
    then show ?thesis by (simp add: wp_simps reconciledSlots_def s0)
  next
    case (Inr l)
    with 1 have l: "set l = slots s0" "distinct (map slName l)" by (simp_all add: s0)
    let ?st = "\<lparr>srExisting = [], srLost = [], srRecreated = []\<rparr>"
    have "wp (slotLoop cluster srv want pvcs allowDrops l ?st) (slotsPost want pvcs allowDrops l ?st s0) s0"
      using l by (intro slotLoop_post [OF assms]) (auto simp: distinct_map)
    then show ?thesis unfolding Inr sum.case wp_bind
    proof (rule wp_mono, goal_cases)
      case (1 r2 s1)
      show ?case
      proof (cases r2)
        case (Inl x)
        with 1 have "reconciledSlots want podExists pvcs allowDrops s0 (Some x) s1"
          by (auto simp: slotsPost_def reconciledSlots_def)
        then show ?thesis using frame by (simp add: Inl wp_simps)
      next
        case (Inr st)
        note first = 1 [unfolded Inr]
        show ?thesis unfolding Inr sum.case wp_bind wp_ret prod.case
          by (rule wp_mono [OF createSlots_post [OF assms]], rule frame, erule reconciledSlots_compose [OF first _ l(1)])
      qed
    qed
  qed
qed

section \<open>The other steps\<close>

lemma same_trans: "same s s1 \<Longrightarrow> same s1 s2 \<Longrightarrow> same s s2"
  by (simp add: sameView_def)

lemma wp_same:
  assumes "wp m (\<lambda>a s1. same s s1 \<and> Q a s1) s" and "\<And>a s1. same s s1 \<Longrightarrow> Q a s1 \<Longrightarrow> wp (f a) (\<lambda>b. same s1) s1"
  shows "wp (State_Monad.bind m f) (\<lambda>b. same s) s"
  unfolding wp_bind
proof (rule wp_mono [OF assms(1)])
  fix a s1
  assume *: "same s s1 \<and> Q a s1"
  then have "wp (f a) (\<lambda>b. same s1) s1" using assms(2) by blast
  then show "wp (f a) (\<lambda>b. same s) s1" by (rule wp_mono) (use * same_trans in blast)
qed

lemma wp_same': "wp m (\<lambda>_. same s) s \<Longrightarrow> (\<And>a s1. wp (f a) (\<lambda>b. same s1) s1) \<Longrightarrow> wp (State_Monad.bind m f) (\<lambda>b. same s) s"
  by (rule wp_same [where Q = "\<lambda>_ _. True"]) simp_all

lemma wp_same_ret: "wp (ret a) (\<lambda>_. same s) s"
  by (simp add: wp_simps)

lemma labelStreaming_same: "wp (labelStreaming k c pods streaming) (\<lambda>_. same s) s"
proof (induction pods arbitrary: s)
  case (Cons p pods)
  have rest: "wp (State_Monad.bind (labelStreaming k c pods streaming) (\<lambda>(ps, e). ret (q # ps, e))) (\<lambda>_. same s) s" for q s
    by (rule wp_same' [OF Cons.IH]) (simp add: wp_simps split: prod.split)
  show ?case
    by (auto simp: Let_def rest intro!: wp_same' [OF patch_pod] split: option.split) (simp_all add: wp_simps rest)
qed (simp add: wp_simps)

lemma relabelled_refl: "relabelled pods pods"
  by (auto simp: relabelled_def)

lemma relabelled_Cons: "relabelled pods ps \<Longrightarrow> relabelled (p # pods) (p # ps)"
  "relabelled pods ps \<Longrightarrow> relabelled (p # pods) (p\<lparr>podLabels := l\<rparr> # ps)"
  by (auto simp: relabelled_def)

lemma labelStreaming_post: "wp (labelStreaming k c pods streaming) (\<lambda>(ps, e) s'. same s s' \<and> relabelled pods ps) s"
proof (induction pods arbitrary: s)
  case (Cons p pods)
  have rest: "wp (State_Monad.bind (labelStreaming k c pods streaming) (\<lambda>(ps, e). ret (q # ps, e)))
      (\<lambda>(ps, e) s'. same s s' \<and> relabelled (p # pods) ps) s1"
    if "same s s1" "q = p \<or> (\<exists>l. q = p\<lparr>podLabels := l\<rparr>)" for q s1
    unfolding wp_bind
    by (rule wp_mono [OF Cons.IH]) (use that in \<open>auto simp: wp_ret intro: relabelled_Cons same_trans\<close>)
  have stop: "wp (ret (p\<lparr>podLabels := l\<rparr> # pods, e)) (\<lambda>(ps, e) s'. same s s' \<and> relabelled (p # pods) ps) s1" if "same s s1" for l e s1
    using that relabelled_Cons(2) [OF relabelled_refl] by (simp add: wp_ret)
  have refl: "same s s" by (simp add: sameView_def)
  have patch: "wp (State_Monad.bind (kPatchPod k (p\<lparr>podLabels := l\<rparr>)) (\<lambda>e1. case e1 of
        Some x \<Rightarrow> if kIsNotFound k x
          then State_Monad.bind (labelStreaming k c pods streaming) (\<lambda>(ps, e). ret (p\<lparr>podLabels := l\<rparr> # ps, e))
          else ret (p\<lparr>podLabels := l\<rparr> # pods, Some (f x))
      | None \<Rightarrow> State_Monad.bind (labelStreaming k c pods streaming) (\<lambda>(ps, e). ret (p\<lparr>podLabels := l\<rparr> # ps, e))))
      (\<lambda>(ps, e) s'. same s s' \<and> relabelled (p # pods) ps) s" for l f
    unfolding wp_bind [of "kPatchPod k q" for q]
    by (rule wp_mono [OF patch_pod]) (auto simp: stop intro: rest split: option.split)
  show ?case
    unfolding labelStreaming.simps Let_def by (auto simp: rest [OF refl] patch)
qed (simp add: wp_simps sameView_def relabelled_refl)

lemma markInitialized_same: "wp (markInitialized k c) (\<lambda>_. same s) s"
  unfolding markInitialized_def
  by (auto simp: wp_same_ret intro!: wp_same' [OF get_config] update_config split: sum.split)

lemma clearPasswordSyncRestart_same: "wp (clearPasswordSyncRestart k x) (\<lambda>_. same s) s"
  unfolding clearPasswordSyncRestart_def
  by (auto simp: wp_same_ret Let_def intro!: wp_same' [OF update_secret])

lemma ensureReplicationRole_same: "primary srv \<Longrightarrow> wp (ensureReplicationRole k c x srv) (\<lambda>_. same s) s"
  unfolding ensureReplicationRole_def Let_def
  by (auto simp: wp_same_ret intro!: wp_same' [OF primary_role(1)] wp_same' [OF primary_role(2)] wp_same' [OF now] wp_same' [OF update_secret]
      split: sum.split option.split)

lemma restartPrimary_store: "wp (restartPrimaryForPasswordSync k c x p) (\<lambda>_. sameStore s) s"
proof -
  have del: "wp (State_Monad.bind (kDeletePod k p) (\<lambda>e. ret (f e))) (\<lambda>_. sameStore s) s1" if "same s s1" for f :: "error option \<Rightarrow> 'x" and s1
    unfolding wp_bind wp_ret by (rule wp_mono [OF delete_pod]) (use that in \<open>simp add: sameStore_def sameView_def\<close>)
  have upd: "wp (State_Monad.bind (kUpdateSecret k y) (\<lambda>e. case e of Some z \<Rightarrow> ret a | None \<Rightarrow> State_Monad.bind (kDeletePod k p) (\<lambda>e. ret (f e)))) (\<lambda>_. sameStore s) s1"
    if "same s s1" for f :: "error option \<Rightarrow> 'x" and a s1 y
    unfolding wp_bind [of "kUpdateSecret k y"]
  proof (rule wp_mono [OF update_secret], goal_cases)
    case (1 e s2)
    with that have "same s s2" by (auto intro: same_trans)
    then show ?case using del by (cases e) (simp_all add: wp_ret same_store)
  qed
  show ?thesis
    unfolding restartPrimaryForPasswordSync_def Let_def wp_bind [of "kNow k"]
    by (rule wp_mono [OF now]) (simp add: wp_ret same_store upd)
qed

lemma checkOperatorLogin_store: "wp (checkOperatorLogin k connect c x pods) (\<lambda>_. sameStore s) s"
proof -
  have clear: "wp (State_Monad.bind (clearPasswordSyncRestart k x) (\<lambda>(y, e). ret (f y e))) (\<lambda>_. sameStore s) s1" if "same s s1"
    for f :: "Secret \<Rightarrow> error option \<Rightarrow> 'x" and s1
    unfolding wp_bind
    by (rule wp_mono [OF clearPasswordSyncRestart_same]) (use that in \<open>auto simp: wp_simps dest: same_trans intro: same_store\<close>)
  have restart: "wp (restartPrimaryForPasswordSync k c x p) (\<lambda>_. sameStore s) s1" if "same s s1" for p s1
    by (rule wp_mono [OF restartPrimary_store]) (use that in \<open>simp add: sameStore_def sameView_def\<close>)
  have grace: "wp (State_Monad.bind (kNow k) (\<lambda>t. if readyGrace p t > 0 then ret (f t) else restartPrimaryForPasswordSync k c x p)) (\<lambda>_. sameStore s) s1"
    if "same s s1" for p f s1
    unfolding wp_bind
    by (rule wp_mono [OF now]) (use that restart in \<open>auto simp: wp_ret dest: same_trans intro: same_store\<close>)
  have "wp connect (\<lambda>r. wp (case r of
      Inl err \<Rightarrow> if \<not> isInvalidPassword err then ret (x, 0)
        else State_Monad.bind (kNow k) (\<lambda>t. if readyGrace p t > 0 then ret (x, readyGrace p t) else restartPrimaryForPasswordSync k c x p)
    | Inr srv \<Rightarrow> State_Monad.bind (clearPasswordSyncRestart k x) (\<lambda>(y, e). ret (y, if e \<noteq> None then replicationRetryInterval else 0))) (\<lambda>_. sameStore s)) s" for p
    by (rule wp_mono [OF connects]) (use grace clear in \<open>auto simp: wp_ret same_store split: sum.split\<close>)
  then show ?thesis
    unfolding checkOperatorLogin_def by (simp add: wp_ret wp_bind [of connect] del: not_None_eq split: option.split)
qed

lemma connectPrimary_post:
  "wp (connectPrimary k connect c x p) (\<lambda>(y, r) s'. sameStore s s' \<and> (\<forall>srv. r = Inr srv \<longrightarrow> same s s' \<and> primary srv)) s"
  unfolding connectPrimary_def wp_bind [of connect]
proof (rule wp_mono [OF connects], goal_cases)
  case (1 r s1)
  have "wp (State_Monad.bind (restartPrimaryForPasswordSync k c x p) (\<lambda>(y, d). ret (y, Inl err)))
      (\<lambda>(y, r) s'. sameStore s s' \<and> (\<forall>srv. r = Inr srv \<longrightarrow> same s s' \<and> primary srv)) s1" for err
    unfolding wp_bind by (rule wp_mono [OF restartPrimary_store]) (use 1 in \<open>auto simp: wp_simps sameStore_def sameView_def\<close>)
  with 1 show ?case by (auto simp: wp_ret same_store split: sum.split)
qed

section \<open>The standbys\<close>

lemma rolloutScan_stale:
  "rolloutScan c since t pods (stale, n) = Some (Some q) \<Longrightarrow> stale = Some q \<or> q \<in> set pods \<and> stalePod c since q"
proof (induction pods arbitrary: stale n)
  case (Cons p pods)
  from Cons.prems show ?case
    by (auto simp: Let_def stalePod_def split: if_splits dest!: Cons.IH)
qed simp

text \<open>A rollout the Secret records, and a standby it may restart.\<close>

definition rolledOut :: "Pod list \<Rightarrow> Secret \<Rightarrow> string \<Rightarrow> bool" where
  "rolledOut pods y n \<longleftrightarrow> (\<exists>v p. map_of (secAnnotations y) AnnotationReplicationPasswordRollout = Some v \<and>
     p \<in> set pods \<and> podName p = n \<and> stalePod cluster (parseInt64 v * second) p)"

lemma rolledOut_relabelled: "relabelled pods ps \<Longrightarrow> rolledOut ps y n \<Longrightarrow> rolledOut pods y n"
  unfolding rolledOut_def relabelled_def stalePod_def podOrdinal0_def by metis

text \<open>What the rollout leaves: every standby still streams but the one it may have restarted.\<close>

definition almostSame :: "Pod list \<Rightarrow> Secret \<Rightarrow> 's \<Rightarrow> 's \<Rightarrow> bool" where
  "almostSame pods y s s' \<longleftrightarrow> sameStore s s' \<and> (\<exists>gone. streams s \<subseteq> streams s' \<union> set_option gone \<and> (\<forall>n. gone = Some n \<longrightarrow> rolledOut pods y n))"

lemma same_almost: "same s s' \<Longrightarrow> almostSame pods y s s'"
  by (auto simp: almostSame_def sameStore_def sameView_def intro: exI [of _ None])

lemma rollout_almost: "wp (rolloutReplicationPassword k cluster x pods) (\<lambda>(y, rolling, e). almostSame pods y s) s"
proof (cases "map_of (secAnnotations x) AnnotationReplicationPasswordRollout")
  case None
  then show ?thesis by (simp add: rolloutReplicationPassword_def wp_ret same_almost)
next
  case (Some v)
  let ?since = "parseInt64 v * second"
  have del: "wp (State_Monad.bind (kDeletePod k q) (\<lambda>e. ret (x, True, f e))) (\<lambda>(y, rolling, e). almostSame pods y s) s1"
    if "same s s1" "q \<in> set pods" "stalePod cluster ?since q" for f :: "error option \<Rightarrow> error option" and s1 q
    unfolding wp_bind wp_ret prod.case
  proof (rule wp_mono [OF delete_pod], goal_cases)
    case (1 e s2)
    have "podOrdinal0 cluster q \<noteq> 0" using that(3) by (simp add: stalePod_def)
    with 1 that(1) have "streams s \<subseteq> streams s2 \<union> set_option (Some (podName q))" "sameStore s s2"
      by (auto simp: sameStore_def sameView_def)
    moreover have "rolledOut pods x (podName q)" using Some that(2,3) by (auto simp: rolledOut_def)
    ultimately show ?case unfolding almostSame_def by (intro conjI exI [of _ "Some (podName q)"]) simp_all
  qed
  have upd: "wp (State_Monad.bind (kUpdateSecret k y) (\<lambda>e. ret (y, e \<noteq> None, e))) (\<lambda>(y, rolling, e). almostSame pods y s) s1" if "same s s1" for s1 y
    unfolding wp_bind wp_ret prod.case by (rule wp_mono [OF update_secret]) (use that in \<open>auto dest: same_trans intro: same_almost\<close>)
  have "wp (case rolloutScan cluster ?since t pods (None, -1) of
        None \<Rightarrow> ret (x, True, None)
      | Some None \<Rightarrow> State_Monad.bind (kUpdateSecret k y) (\<lambda>e. ret (y, e \<noteq> None, e))
      | Some (Some stale) \<Rightarrow> State_Monad.bind (kDeletePod k stale) (\<lambda>e. ret (x, True, f stale e))) (\<lambda>(y, rolling, e). almostSame pods y s) s1"
    if "same s s1" for s1 t y f
  proof (cases "rolloutScan cluster ?since t pods (None, -1)")
    case (Some r)
    show ?thesis
    proof (cases r)
      case None
      show ?thesis unfolding Some None option.case by (rule upd [OF that])
    next
      case (Some q)
      with \<open>_ = Some r\<close> rolloutScan_stale [of cluster ?since t pods None "-1" q] have "q \<in> set pods" "stalePod cluster ?since q" by simp_all
      then show ?thesis unfolding \<open>_ = Some r\<close> Some option.case by (rule del [OF that])
    qed
  qed (use that in \<open>simp add: wp_ret same_almost\<close>)
  then show ?thesis
    unfolding rolloutReplicationPassword_def Some option.case Let_def wp_bind [of "kNow k"]
    by (rule wp_mono [OF now])
qed

definition standbyNames :: "string set" where
  "standbyNames = (\<lambda>i. clName cluster @ ''-'' @ formatInt i) ` {1..<desiredReplicas cluster}"

text \<open>
  The condition the run leaves: healthy only when every standby streams, but the one a recorded
  rollout has just restarted.
\<close>

definition honest :: "Pod list \<Rightarrow> Secret \<Rightarrow> Cluster \<Rightarrow> 's \<Rightarrow> bool" where
  "honest pods y c s' \<longleftrightarrow> (\<exists>h. clReplicationHealthy c = Some h \<and> (hcStatus h \<longrightarrow>
     (\<exists>gone. standbyNames \<subseteq> streams s' \<union> set_option gone \<and> (\<forall>n. gone = Some n \<longrightarrow> rolledOut pods y n))))"

lemma honest_fail: "desiredReplicas cluster > 1 \<Longrightarrow> honest pods y (failReplication cluster msg e) s'"
  by (simp add: honest_def failReplication_def setReplicationCondition_def)

lemma reportStreaming_healthy:
  assumes "hcStatus h" and "clReplicationHealthy (fst (reportStreaming cluster (desiredReplicas cluster) streaming recreated)) = Some h"
  shows "standbyNames \<subseteq> set streaming"
proof -
  have "filter (\<lambda>n. n \<notin> set streaming) (map (\<lambda>i. clName cluster @ ''-'' @ formatInt i) [1..desiredReplicas cluster - 1]) = []"
    using assms by (auto simp: reportStreaming_def Let_def setReplicationCondition_def split: if_splits)
  then show ?thesis by (auto simp: standbyNames_def filter_empty_conv)
qed

lemma reportStreaming_set: "\<exists>h. clReplicationHealthy (fst (reportStreaming c want streaming recreated)) = Some h"
  by (simp add: reportStreaming_def Let_def setReplicationCondition_def)

lemma followStandbys_post:
  assumes "primary srv" and "desiredReplicas cluster > 1"
  shows "wp (followStandbys k cluster x pods srv recreated) (\<lambda>(c, y, d) s'. sameStore s s' \<and> honest pods y c s') s"
  unfolding followStandbys_def wp_bind [of "rvStatus srv"]
proof (rule wp_mono [OF primary_status [OF assms(1)]], goal_cases)
  case (1 r s1)
  show ?case
  proof (cases r)
    case (Inl e)
    with 1 show ?thesis by (simp add: wp_ret same_store honest_fail [OF assms(2)])
  next
    case (Inr l)
    define streaming where "streaming = map sbApplicationName (filter (\<lambda>s. sbState s = ''streaming'') l)"
    have st: "set streaming = streams s" using 1 Inr by (simp add: streaming_def)
    have final: "sameStore s s' \<and> honest pods y (fst (reportStreaming cluster (desiredReplicas cluster) streaming recreated)) s'"
      if "same s s2" "almostSame ps y s2 s'" "relabelled pods ps" for s2 s' ps y
    proof -
      from that obtain gone where gone: "streams s \<subseteq> streams s' \<union> set_option gone" "\<forall>n. gone = Some n \<longrightarrow> rolledOut pods y n"
        and store: "sameStore s s'"
        using rolledOut_relabelled by (auto simp: almostSame_def sameStore_def sameView_def)
      obtain h where h: "clReplicationHealthy (fst (reportStreaming cluster (desiredReplicas cluster) streaming recreated)) = Some h"
        using reportStreaming_set by blast
      have "standbyNames \<subseteq> streams s' \<union> set_option gone" if "hcStatus h"
        using reportStreaming_healthy [OF that h] gone(1) unfolding st by (rule subset_trans)
      with h gone(2) store show ?thesis unfolding honest_def by blast
    qed
    have roll: "wp (State_Monad.bind (rolloutReplicationPassword k cluster x ps) (\<lambda>(y, rolling, e). case e of
          Some z \<Rightarrow> ret (failReplication cluster msg z, y, replicationRetryInterval)
        | None \<Rightarrow> (let (c, recheck) = reportStreaming cluster (desiredReplicas cluster) streaming recreated
            in ret (c, y, if rolling then min recheck replicationRetryInterval else recheck))))
        (\<lambda>(c, y, d) s'. sameStore s s' \<and> honest pods y c s') s2" if "same s s2" "relabelled pods ps" for s2 ps msg
      unfolding wp_bind
    proof (rule wp_mono [OF rollout_almost], goal_cases)
      case (1 a s3)
      obtain y rolling e where a: "a = (y, rolling, e)" by (cases a)
      from final [OF that(1) _ that(2)] 1 show ?case
        by (cases e) (auto simp: a wp_ret Let_def honest_fail [OF assms(2)] split: prod.split)
    qed
    show ?thesis
      unfolding Inr sum.case Let_def streaming_def [symmetric] wp_bind [of "labelStreaming k cluster pods streaming"]
    proof (rule wp_mono [OF labelStreaming_post], goal_cases)
      case (1 a s2)
      obtain ps e where a: "a = (ps, e)" by (cases a)
      with 1 \<open>same s s1 \<and> _\<close> have s2: "same s s2" "relabelled pods ps" by (auto intro: same_trans)
      show ?case
      proof (cases e)
        case None
        show ?thesis unfolding a None prod.case option.case by (rule roll [OF s2, unfolded Let_def])
      next
        case (Some z)
        then show ?thesis by (simp add: a wp_ret honest_fail [OF assms(2)] same_store [OF s2(1)])
      qed
    qed
  qed
qed

section \<open>The whole reconcile\<close>

definition slotsChanged :: "Pod list \<Rightarrow> int list \<Rightarrow> bool \<Rightarrow> 's \<Rightarrow> 's \<Rightarrow> bool" where
  "slotsChanged pods pvcs allowDrops s s' \<longleftrightarrow>
     (\<forall>x \<in> slots s - slots s'. slotAction (desiredReplicas cluster) pvcs allowDrops x \<noteq> KeepSlot) \<and>
     (\<forall>x \<in> slots s' - slots s. \<exists>i. 1 \<le> i \<and> i < desiredReplicas cluster \<and> i \<in> set (podOrdinals cluster pods) \<and> freshSlot (replicationSlotName i) x)"

text \<open>The condition is honest about the slots too: every wanted standby with a pod has one.\<close>

definition reported :: "Pod list \<Rightarrow> Secret \<Rightarrow> Cluster \<Rightarrow> 's \<Rightarrow> bool" where
  "reported pods y c s' \<longleftrightarrow>
     (desiredReplicas cluster > 1 \<longrightarrow> honest pods y c s' \<and>
        (\<forall>h. clReplicationHealthy c = Some h \<and> hcStatus h \<longrightarrow>
          (\<forall>i. 1 \<le> i \<and> i < desiredReplicas cluster \<and> i \<in> set (podOrdinals cluster pods) \<longrightarrow> replicationSlotName i \<in> slName ` slots s')))"

lemma slotsChanged_refl: "slots s' = slots s \<Longrightarrow> slotsChanged pods pvcs allowDrops s s'"
  by (simp add: slotsChanged_def)

lemma reported_fail: "reported pods y (failReplication cluster msg e) s'"
  unfolding reported_def using honest_fail by (simp add: failReplication_def setReplicationCondition_def)

lemma reported_waiting:
  "reported pods y (if desiredReplicas cluster > 1 then setReplicationCondition cluster False r m else cluster) s'"
  by (simp add: reported_def honest_def setReplicationCondition_def)

abbreviation managed :: "Pod list \<Rightarrow> int list \<Rightarrow> bool \<Rightarrow> 's \<Rightarrow> Cluster \<times> Secret \<times> int \<Rightarrow> 's \<Rightarrow> bool" where
  "managed pods pvcs allowDrops s r s' \<equiv> kept s' = kept s \<and> slotsChanged pods pvcs allowDrops s s' \<and> reported pods (fst (snd r)) (fst r) s'"

lemma managed_fail: "sameStore s s' \<Longrightarrow> managed pods pvcs allowDrops s (failReplication cluster msg e, r) s'"
  by (simp add: sameStore_def slotsChanged_refl reported_fail)

lemma manageSlots_post:
  assumes "primary srv" and "sameStore s s1"
  shows "wp (State_Monad.bind (reconcileReplicationSlots cluster srv (desiredReplicas cluster) (podOrdinals cluster pods) pvcs allowDrops)
     (\<lambda>(recreated, e4). case e4 of
        Some z \<Rightarrow> ret (failReplication cluster msg z, x, replicationRetryInterval)
      | None \<Rightarrow> if desiredReplicas cluster \<le> 1 then ret (cluster, x, 0) else followStandbys k cluster x pods srv recreated))
     (managed pods pvcs allowDrops s) s1"
  unfolding wp_bind
proof (rule wp_mono [OF reconcileReplicationSlots_post [OF assms(1)]], goal_cases)
  case (1 a s2)
  obtain recreated e4 where a: "a = (recreated, e4)" by (cases a)
  from 1 have rs: "reconciledSlots (desiredReplicas cluster) (podOrdinals cluster pods) pvcs allowDrops s1 e4 s2" by (simp add: a)
  have changed: "kept s' = kept s \<and> slotsChanged pods pvcs allowDrops s s'" if "sameStore s2 s'" for s'
    using rs assms(2) that by (auto simp: reconciledSlots_def sameStore_def slotsChanged_def)
  show ?case
  proof (cases e4)
    case (Some z)
    then show ?thesis using changed [of s2] reported_fail by (simp add: a wp_ret)
  next
    case None
    show ?thesis
    proof (cases "desiredReplicas cluster \<le> 1")
      case True
      then show ?thesis using changed [of s2] by (simp add: a None wp_ret reported_def)
    next
      case False
      have covered: "\<forall>i. 1 \<le> i \<and> i < desiredReplicas cluster \<and> i \<in> set (podOrdinals cluster pods) \<longrightarrow> replicationSlotName i \<in> slName ` slots s'"
        if "sameStore s2 s'" for s' using rs that by (simp add: None reconciledSlots_def sameStore_def)
      have "wp (followStandbys k cluster x pods srv recreated) (managed pods pvcs allowDrops s) s2"
        by (rule wp_mono [OF followStandbys_post [OF assms(1)]]) (use False changed covered in \<open>auto simp: reported_def\<close>)
      with False show ?thesis by (simp add: a None)
    qed
  qed
qed

lemma managePrimary_post:
  assumes srv: "primary srv"
  shows "wp (managePrimary k cluster x pods srv pvcs allowDrops) (managed pods pvcs allowDrops s) s"
  unfolding managePrimary_def wp_bind [of "clearPasswordSyncRestart k x"]
proof (rule wp_mono [OF clearPasswordSyncRestart_same], goal_cases)
  case (1 a s1)
  obtain y e1 where a: "a = (y, e1)" by (cases a)
  from 1 have fail: "managed pods pvcs allowDrops s (failReplication cluster msg e, r) s2" if "same s1 s2" for msg e r s2
    using that by (intro managed_fail same_store) (rule same_trans)
  show ?case
  proof (cases e1)
    case (Some z)
    then show ?thesis using fail [of s1] by (simp add: a wp_ret reported_fail)
  next
    case None
    show ?thesis unfolding a None prod.case option.case wp_bind [of "rvInRecovery srv"]
    proof (rule wp_mono [OF primary_recovery [OF srv]], goal_cases)
      case (1 r s2)
      consider (err) z where "r = Inl z" | (yes) "r = Inr True" | (no) "r = Inr False" by (cases r) auto
      then show ?case
      proof cases
        case no
        show ?thesis unfolding no sum.case if_False wp_bind [of "markInitialized k cluster"]
        proof (rule wp_mono [OF markInitialized_same], goal_cases)
          case (1 e2 s3)
          with \<open>same s1 s2\<close> have s3: "same s1 s3" by (rule same_trans)
          show ?case
          proof (cases e2)
            case (Some z)
            then show ?thesis using fail [OF s3] by (simp add: wp_ret reported_fail)
          next
            case None
            show ?thesis unfolding None option.case wp_bind [of "ensureReplicationRole k cluster y srv"]
            proof (rule wp_mono [OF ensureReplicationRole_same [OF srv]], goal_cases)
              case (1 b s4)
              obtain y' e3 where b: "b = (y', e3)" by (cases b)
              have s4: "same s1 s4" using s3 1 by (rule same_trans)
              have store: "sameStore s s4" using \<open>same s s1\<close> s4 by (intro same_store) (rule same_trans)
              show ?case
              proof (cases e3)
                case (Some z)
                then show ?thesis using fail [OF s4] by (simp add: b wp_ret reported_fail)
              next
                case None
                show ?thesis unfolding b None prod.case option.case by (rule manageSlots_post [OF srv store])
              qed
            qed
          qed
        qed
      qed (use fail [OF 1] in \<open>simp_all add: wp_ret reported_fail\<close>)
    qed
  qed
qed

text \<open>A reconcile of the Cluster as it is after the condition of a single instance was removed.\<close>

definition runPost :: "StatefulSet option \<Rightarrow> Pod list \<Rightarrow> 's \<Rightarrow> Cluster \<Rightarrow> Secret \<Rightarrow> 's \<Rightarrow> bool" where
  "runPost sts pods s c y s' \<longleftrightarrow>
     (\<forall>n \<in> kept s - kept s'. removedVolume (wantedReplicas cluster sts) (podOrdinals cluster pods) n) \<and>
     (\<exists>pvcs allowDrops. slotsChanged pods pvcs allowDrops s s' \<and>
       (allowDrops \<longrightarrow> (\<forall>n \<in> kept s'. \<forall>i. pvcOrdinal cluster n = Some i \<longrightarrow> i \<in> set pvcs))) \<and>
     reported pods y c s'"

lemma runPost_same: "sameStore s s' \<Longrightarrow> reported pods y c s' \<Longrightarrow> runPost sts pods s c y s'"
  unfolding runPost_def sameStore_def using slotsChanged_refl [of s' s pods "[]" False] by auto

lemma reconcileReplication_post:
  assumes "desiredReplicas cluster \<le> 1 \<longrightarrow> clReplicationHealthy cluster = None"
  shows "wp (reconcileReplication k connect cluster x sts pods) (\<lambda>(c, y, d). runPost sts pods s c y) s"
proof -
  have eff: "(if desiredReplicas cluster \<le> 1 then cluster\<lparr>clReplicationHealthy := None\<rparr> else cluster) = cluster"
    using assms by (cases cluster) auto
  show ?thesis
  proof (cases "replicationEnabled cluster sts")
    case False
    then have rep: "reported pods y cluster s'" for y s' by (simp add: reported_def replicationEnabled_def)
    have "wp (State_Monad.bind (checkOperatorLogin k connect cluster x pods) (\<lambda>(y, d). ret (cluster, y, d))) (\<lambda>(c, y, d). runPost sts pods s c y) s"
      unfolding wp_bind
      by (rule wp_mono [OF checkOperatorLogin_store]) (auto simp: wp_ret intro: runPost_same rep)
    then show ?thesis using False unfolding reconcileReplication_def eff Let_def by simp
  next
    case True
    let ?waiting = "if desiredReplicas cluster > 1 then setReplicationCondition cluster False ReasonWaitingForPrimary ''Waiting for the primary pod to become ready'' else cluster"
    have run: "runPost sts pods s (fst r) (fst (snd r)) s2" if "cleanedUp sts pods s (pvcs, e) s1" "managed pods pvcs (e = None) s1 r s2"
      for pvcs e s1 s2 r
      using that unfolding runPost_def cleanedUp_def by (intro conjI exI [of _ pvcs] exI [of _ "e = None"]) (auto simp: slotsChanged_def)
    have waiting: "managed pods pvcs allowDrops s1 (?waiting, r) s1" for pvcs allowDrops s1 r
      using reported_waiting by (simp add: slotsChanged_refl)
    have connected: "wp (State_Monad.bind (connectPrimary k connect cluster x p) (\<lambda>(y, r). case r of
          Inl z \<Rightarrow> ret (failReplication cluster msg z, y, replicationRetryInterval)
        | Inr srv \<Rightarrow> managePrimary k cluster y pods srv pvcs (e = None))) (managed pods pvcs (e = None) s1) s1" for p pvcs e s1 msg
      unfolding wp_bind
    proof (rule wp_mono [OF connectPrimary_post], goal_cases)
      case (1 a s2)
      obtain y r where a: "a = (y, r)" by (cases a)
      show ?case
      proof (cases r)
        case (Inl z)
        with 1 managed_fail [of s1 s2] show ?thesis by (simp add: a wp_ret reported_fail)
      next
        case (Inr srv)
        with 1 have "primary srv" "slots s2 = slots s1" "kept s2 = kept s1" by (auto simp: a sameStore_def)
        then show ?thesis
          unfolding a Inr prod.case sum.case by - (rule wp_mono [OF managePrimary_post], auto simp: slotsChanged_def)
      qed
    qed
    have body: "wp (case primaryPod cluster pods of
            None \<Rightarrow> ret (?waiting, x, replicationRetryInterval)
          | Some p \<Rightarrow> if \<not> isPodReady p then ret (?waiting, x, replicationRetryInterval)
              else State_Monad.bind (connectPrimary k connect cluster x p) (\<lambda>(y, r). case r of
                Inl z \<Rightarrow> ret (failReplication cluster ''Cannot connect to the primary'' z, y, replicationRetryInterval)
              | Inr srv \<Rightarrow> managePrimary k cluster y pods srv pvcs (e = None)))
         (managed pods pvcs (e = None) s1) s1" for pvcs e s1
    proof (cases "primaryPod cluster pods")
      case None
      show ?thesis unfolding None option.case wp_ret by (rule waiting)
    next
      case (Some p)
      show ?thesis
      proof (cases "isPodReady p")
        case True
        then have ready: "(\<not> isPodReady p) = False" by simp
        show ?thesis unfolding Some option.case ready if_False by (rule connected)
      next
        case False
        then have unready: "(\<not> isPodReady p) = True" by simp
        show ?thesis unfolding Some option.case unready if_True wp_ret by (rule waiting)
      qed
    qed
    have "wp (State_Monad.bind (cleanupStandbyVolumes k cluster sts pods) (\<lambda>(pvcs, e). case primaryPod cluster pods of
            None \<Rightarrow> ret (?waiting, x, replicationRetryInterval)
          | Some p \<Rightarrow> if \<not> isPodReady p then ret (?waiting, x, replicationRetryInterval)
              else State_Monad.bind (connectPrimary k connect cluster x p) (\<lambda>(y, r). case r of
                Inl z \<Rightarrow> ret (failReplication cluster ''Cannot connect to the primary'' z, y, replicationRetryInterval)
              | Inr srv \<Rightarrow> managePrimary k cluster y pods srv pvcs (e = None)))) (\<lambda>(c, y, d). runPost sts pods s c y) s"
      unfolding wp_bind [of "cleanupStandbyVolumes k cluster sts pods"]
    proof (rule wp_mono [OF cleanupStandbyVolumes_post], goal_cases)
      case (1 a s1)
      obtain pvcs e where a: "a = (pvcs, e)" by (cases a)
      show ?case unfolding a prod.case
      proof (rule wp_mono [OF body], goal_cases)
        case (1 r s2)
        from run [OF \<open>cleanedUp sts pods s a s1\<close> [unfolded a] this] show ?case by (cases r) simp
      qed
    qed
    then show ?thesis using True unfolding reconcileReplication_def eff Let_def by simp
  qed
qed

end

end
