(* ===== verification/Replication_Properties.thy ===== *)
theory Replication_Properties
  imports Replication_Correct
begin

text \<open>
  The properties of the replication reconcile, and a reference world that satisfies the contract: the
  volumes, pods, the Secret and the primary of one Cluster, with a list of operations that fail.
\<close>

section \<open>A reference world\<close>

record replWorld =
  rwNow :: int
  rwPVCs :: "PVC list"
  rwPods :: "Pod list"
  rwStreams :: "string list"
  rwSlots :: "(bool \<times> bool \<times> string) gomap"
  rwSecret :: Secret
  rwConfig :: ConfigMap
  rwRoles :: "string list"
  rwLogin :: bool
  rwRestarts :: nat
  rwFaults :: "string list"

definition faulty :: "string \<Rightarrow> (replWorld \<Rightarrow> 'a \<times> replWorld) \<Rightarrow> (error \<Rightarrow> 'a) \<Rightarrow> (replWorld, 'a) state" where
  "faulty op f bad = State (\<lambda>w. if op \<in> set (rwFaults w) then (bad (Errorf op []), w) else f w)"

definition refSlotList :: "replWorld \<Rightarrow> ReplicationSlot list" where
  "refSlotList w = map (\<lambda>n. case mapGet (False, False, []) (rwSlots w) n of (p, a, st) \<Rightarrow>
     \<lparr>slName = n, slPhysical = p, slActive = a, slWALStatus = st\<rparr>) (mapKeys (rwSlots w))"

definition refReplServer :: "replWorld replServer" where
  "refReplServer =
     \<lparr>rvInRecovery = faulty ''recovery'' (\<lambda>w. (Inr False, w)) Inl,
      rvRoleExists = (\<lambda>n. faulty ''roles'' (\<lambda>w. (Inr (n \<in> set (rwRoles w)), w)) Inl),
      rvCreateRole = (\<lambda>n opts. faulty ''create role'' (\<lambda>w. (None, w\<lparr>rwRoles := n # rwRoles w\<rparr>)) Some),
      rvSlots = faulty ''slots'' (\<lambda>w. (Inr (refSlotList w), w)) Inl,
      rvCreateSlot = (\<lambda>n reserve. faulty ''create slot'' (\<lambda>w.
        if map_of (rwSlots w) n \<noteq> None then (Some (Errorf ''exists'' []), w)
        else (None, w\<lparr>rwSlots := AList.update n (True, False, if reserve then ''reserved'' else []) (rwSlots w)\<rparr>)) Some),
      rvDropSlot = (\<lambda>n. faulty ''drop slot'' (\<lambda>w.
        if (case mapGet (False, False, []) (rwSlots w) n of (p, a, st) \<Rightarrow> a) then (Some (Errorf ''active'' []), w)
        else (None, w\<lparr>rwSlots := AList.delete n (rwSlots w)\<rparr>)) Some),
      rvStatus = faulty ''status'' (\<lambda>w. (Inr (map (\<lambda>n. \<lparr>sbApplicationName = n, sbState = ''streaming''\<rparr>) (rwStreams w)), w)) Inl\<rparr>"

definition refConnect :: "(replWorld, error + replWorld replServer) state" where
  "refConnect = faulty ''connect'' (\<lambda>w. (if rwLogin w then Inr refReplServer else Inl (PqError ''28P01'' ''password authentication failed''), w)) Inl"

definition refClock :: "replWorld \<Rightarrow> int" where
  "refClock w = (if - (2 ^ 63) \<le> unixSeconds (rwNow w) \<and> unixSeconds (rwNow w) < 2 ^ 63 then rwNow w else 0)"

definition refKube :: "replWorld kube" where
  "refKube =
     \<lparr>kNow = State (\<lambda>w. (refClock w, w)),
      kIsNotFound = (\<lambda>e. e = Errorf ''not found'' []),
      kListPods = (\<lambda>ns n. faulty ''list pods'' (\<lambda>w. (Inr (rwPods w), w)) Inl),
      kListPVCs = (\<lambda>ns n. faulty ''list volumes'' (\<lambda>w. (Inr (rwPVCs w), w)) Inl),
      kPatchPod = (\<lambda>p. faulty ''patch'' (\<lambda>w. (None, w\<lparr>rwPods := map (\<lambda>q. if podName q = podName p then p else q) (rwPods w)\<rparr>)) Some),
      kDeletePod = (\<lambda>p. faulty ''delete pod'' (\<lambda>w. (if podUID p \<in> podUID ` set (rwPods w) then None else Some (Errorf ''not found'' []),
        w\<lparr>rwPods := filter (\<lambda>q. podUID q \<noteq> podUID p) (rwPods w), rwStreams := removeAll (podName p) (rwStreams w),
          rwRestarts := Suc (rwRestarts w)\<rparr>)) Some),
      kDeletePVC = (\<lambda>p. faulty ''delete volume'' (\<lambda>w. (if pvcName p \<in> pvcName ` set (rwPVCs w) then None else Some (Errorf ''not found'' []),
        w\<lparr>rwPVCs := filter (\<lambda>q. pvcName q \<noteq> pvcName p) (rwPVCs w)\<rparr>)) Some),
      kUpdateSecret = (\<lambda>x. faulty ''update secret'' (\<lambda>w. (None, w\<lparr>rwSecret := x\<rparr>)) Some),
      kGetConfigMap = (\<lambda>n. faulty ''get config'' (\<lambda>w. (Inr (rwConfig w), w)) Inl),
      kUpdateConfigMap = (\<lambda>n c. faulty ''update config'' (\<lambda>w. (None, w\<lparr>rwConfig := c\<rparr>)) Some)\<rparr>"

definition refKept :: "replWorld \<Rightarrow> string set" where
  "refKept w = pvcName ` {p \<in> set (rwPVCs w). \<not> pvcDeleting p}"

definition refStreams :: "replWorld \<Rightarrow> string set" where
  "refStreams w = set (rwStreams w)"

definition refSlots :: "replWorld \<Rightarrow> ReplicationSlot set" where
  "refSlots w = set (refSlotList w)"

lemma wp_faulty: "wp (faulty op f bad) Q s = (if op \<in> set (rwFaults s) then Q (bad (Errorf op [])) s else (case f s of (a, s') \<Rightarrow> Q a s'))"
  by (simp add: faulty_def wp_State)

lemma refSlotList_names: "distinct (map slName (refSlotList w))"
proof -
  have "map slName (refSlotList w) = mapKeys (rwSlots w)"
    unfolding refSlotList_def by (simp add: o_def split_beta)
  then show ?thesis by simp
qed

definition refSlot :: "string \<Rightarrow> bool \<times> bool \<times> string \<Rightarrow> ReplicationSlot" where
  "refSlot n x = (case x of (p, a, st) \<Rightarrow> \<lparr>slName = n, slPhysical = p, slActive = a, slWALStatus = st\<rparr>)"

lemma refSlot_name [simp]: "slName (refSlot n x) = n"
  by (simp add: refSlot_def split: prod.split)

lemma refSlots_map: "refSlots w = {refSlot n x | n x. map_of (rwSlots w) n = Some x}"
proof -
  have "refSlots w = (\<lambda>n. refSlot n (mapGet (False, False, []) (rwSlots w) n)) ` dom (map_of (rwSlots w))"
    by (simp add: refSlots_def refSlotList_def refSlot_def)
  also have "\<dots> = {refSlot n x | n x. map_of (rwSlots w) n = Some x}"
    by (force simp: mapGet_def image_iff)
  finally show ?thesis .
qed

lemma refSlots_iff: "x \<in> refSlots w \<longleftrightarrow> (\<exists>v. map_of (rwSlots w) (slName x) = Some v \<and> x = refSlot (slName x) v)"
  unfolding refSlots_map mem_Collect_eq by (metis refSlot_name)

lemma refSlots_delete: "refSlots (w\<lparr>rwSlots := AList.delete n (rwSlots w)\<rparr>) = {x \<in> refSlots w. slName x \<noteq> n}"
  by (rule set_eqI) (simp add: refSlots_iff map_of_delete)

lemma refSlots_update:
  assumes "map_of (rwSlots w) n = None"
  shows "refSlots (w\<lparr>rwSlots := AList.update n y (rwSlots w)\<rparr>) = insert (refSlot n y) (refSlots w)"
proof (rule set_eqI)
  fix x
  show "x \<in> refSlots (w\<lparr>rwSlots := AList.update n y (rwSlots w)\<rparr>) \<longleftrightarrow> x \<in> insert (refSlot n y) (refSlots w)"
  proof (cases "slName x = n")
    case True
    with assms show ?thesis by (auto simp: refSlots_iff map_of_update)
  next
    case False
    then have "x \<noteq> refSlot n y" by auto
    with False show ?thesis by (simp add: refSlots_iff map_of_update)
  qed
qed

lemma refView_simps [simp]:
  "refKept (w\<lparr>rwSlots := x\<rparr>) = refKept w" "refStreams (w\<lparr>rwSlots := x\<rparr>) = refStreams w"
  "sameView refKept refSlots refStreams w w" "sameView refKept refSlots refStreams w (w\<lparr>rwRoles := r\<rparr>)"
  "sameView refKept refSlots refStreams w (w\<lparr>rwSecret := y\<rparr>)" "sameView refKept refSlots refStreams w (w\<lparr>rwConfig := c\<rparr>)"
  "sameView refKept refSlots refStreams w (w\<lparr>rwPods := ps\<rparr>)"
  by (simp_all add: sameView_def refKept_def refSlots_map refStreams_def)

lemma refReplServer_primary: "primaryServer refKept refSlots refStreams refReplServer"
  unfolding primaryServer_def
proof (intro conjI allI, goal_cases)
  case (4 s)
  then show ?case by (simp add: refReplServer_def wp_faulty refSlots_def refSlotList_names)
next
  case (5 s n)
  then show ?case by (simp add: refReplServer_def wp_faulty refSlots_delete)
next
  case (6 s n reserve)
  have "freshSlot n (refSlot n (True, False, if reserve then ''reserved'' else []))" by (simp add: freshSlot_def refSlot_def)
  moreover have "refSlots (s\<lparr>rwSlots := AList.update n (True, False, if reserve then ''reserved'' else []) (rwSlots s)\<rparr>) =
      insert (refSlot n (True, False, if reserve then ''reserved'' else [])) (refSlots s)" if "map_of (rwSlots s) n = None"
    using that by (rule refSlots_update)
  ultimately show ?case
    by (cases "map_of (rwSlots s) n") (auto simp del: not_None_eq simp: refReplServer_def wp_faulty)
next
  case (7 s)
  have "{x \<in> (\<lambda>n. \<lparr>sbApplicationName = n, sbState = ''streaming''\<rparr>) ` A. sbState x = ''streaming''} =
      (\<lambda>n. \<lparr>sbApplicationName = n, sbState = ''streaming''\<rparr>) ` A" for A by auto
  then show ?case by (simp add: refReplServer_def wp_faulty refStreams_def image_image)
qed (simp_all add: refReplServer_def wp_faulty)

interpretation refReplication: replication_world refKube refConnect c refKept refSlots refStreams for c
proof (unfold_locales, goal_cases)
  case (6 s)
  then show ?case by (simp add: refConnect_def wp_faulty refReplServer_primary)
next
  case (7 s)
  then show ?case by (simp add: refKube_def wp_faulty refKept_def)
next
  case (8 q s)
  have "refKept (s\<lparr>rwPVCs := filter (\<lambda>p. pvcName p \<noteq> pvcName q) (rwPVCs s)\<rparr>) = refKept s - {pvcName q}" by (auto simp: refKept_def)
  then show ?case by (auto simp: refKube_def wp_faulty refSlots_map refStreams_def)
next
  case (9 p s)
  then show ?case by (auto simp: refKube_def wp_faulty refSlots_map refStreams_def refKept_def)
qed (simp_all add: refKube_def wp_faulty wp_State)

section \<open>The properties\<close>

lemma parseOrdinal_nonneg: "parseOrdinal n p = Some i \<Longrightarrow> 0 \<le> i"
  by (auto simp: parseOrdinal_def split: option.splits if_splits)

definition effective :: "Cluster \<Rightarrow> Cluster" where
  "effective c = (if desiredReplicas c \<le> 1 then c\<lparr>clReplicationHealthy := None\<rparr> else c)"

lemma effective_simps [simp]:
  "clName (effective c) = clName c" "clNamespace (effective c) = clNamespace c" "desiredReplicas (effective c) = desiredReplicas c"
  "wantedReplicas (effective c) sts = wantedReplicas c sts" "podOrdinals (effective c) pods = podOrdinals c pods"
  "pvcOrdinal (effective c) = pvcOrdinal c" "podOrdinal0 (effective c) p = podOrdinal0 c p"
  by (simp_all add: effective_def desiredReplicas_def wantedReplicas_def podOrdinals_def pvcOrdinal_def podOrdinal_def podOrdinal0_def fun_eq_iff cong: option.case_cong)

lemma effective_idem: "effective (effective c) = effective c"
  by (simp add: effective_def desiredReplicas_def)

lemma reconcile_effective: "reconcileReplication k connect c x sts pods = reconcileReplication k connect (effective c) x sts pods"
  unfolding reconcileReplication_def effective_def [symmetric] effective_idem ..

lemma world_effective:
  assumes "replication_world k connect c kept slots streams"
  shows "replication_world k connect (effective c) kept slots streams"
  using assms unfolding replication_world_def by simp

lemma replication_run:
  assumes "replication_world k connect c kept slots streams"
    and "run_state (reconcileReplication k connect c secret sts pods) s = ((c', secret', d), s')"
  shows "replication_world.runPost (effective c) kept slots streams sts pods s c' secret' s'"
proof -
  have "desiredReplicas (effective c) \<le> 1 \<longrightarrow> clReplicationHealthy (effective c) = None"
    by (simp add: effective_def desiredReplicas_def)
  from wp_run [OF replication_world.reconcileReplication_post [OF world_effective [OF assms(1)] this] assms(2) [unfolded reconcile_effective [of k connect c]]]
  show ?thesis by simp
qed

text \<open>
  C32. A reconcile of replication never loses data, whatever errors it meets: a data volume is
  deleted only for a removed standby (an ordinal from 1 the Cluster and the StatefulSet no longer
  want) whose pod is gone; a replication slot is dropped only when it is physical, inactive and of a
  standby, and is either invalidated, or of a removed standby of which no data volume is left; a slot
  is created only for a wanted standby whose pod exists.
\<close>

theorem replication_data_safe:
  assumes "replication_world k connect cluster kept slots streams"
    and "run_state (reconcileReplication k connect cluster secret sts pods) s = ((cluster', secret', d), s')"
  shows "(\<forall>n \<in> kept s - kept s'. \<exists>i. pvcOrdinal cluster n = Some i \<and> 1 \<le> i \<and> wantedReplicas cluster sts \<le> i \<and> i \<notin> set (podOrdinals cluster pods)) \<and>
    (\<forall>x \<in> slots s - slots s'. \<exists>i. slotOrdinal (slName x) = Some i \<and> 1 \<le> i \<and> slPhysical x \<and> \<not> slActive x \<and>
      (if i < desiredReplicas cluster then slWALStatus x = WALStatusLost else (\<forall>n \<in> kept s'. pvcOrdinal cluster n \<noteq> Some i))) \<and>
    (\<forall>x \<in> slots s' - slots s. \<exists>i. slName x = replicationSlotName i \<and> 1 \<le> i \<and> i < desiredReplicas cluster \<and> i \<in> set (podOrdinals cluster pods))"
proof -
  note world = world_effective [OF assms(1)]
  note defs = replication_world.runPost_def [OF world] replication_world.slotsChanged_def [OF world] replication_world.removedVolume_def [OF world]
  from replication_run [OF assms] obtain pvcs allowDrops where
    volumes: "\<forall>n \<in> kept s - kept s'. \<exists>i. pvcOrdinal cluster n = Some i \<and> i \<noteq> 0 \<and> i \<ge> wantedReplicas cluster sts \<and> i \<notin> set (podOrdinals cluster pods)"
    and dropped: "\<forall>x \<in> slots s - slots s'. slotAction (desiredReplicas cluster) pvcs allowDrops x \<noteq> KeepSlot"
    and created: "\<forall>x \<in> slots s' - slots s. \<exists>i. 1 \<le> i \<and> i < desiredReplicas cluster \<and> i \<in> set (podOrdinals cluster pods) \<and> freshSlot (replicationSlotName i) x"
    and listed: "allowDrops \<longrightarrow> (\<forall>n \<in> kept s'. \<forall>i. pvcOrdinal cluster n = Some i \<longrightarrow> i \<in> set pvcs)"
    unfolding defs effective_simps by blast
  show ?thesis
  proof (intro conjI ballI)
    fix n
    assume "n \<in> kept s - kept s'"
    with volumes obtain i where "pvcOrdinal cluster n = Some i" "i \<noteq> 0" "i \<ge> wantedReplicas cluster sts" "i \<notin> set (podOrdinals cluster pods)" by blast
    moreover from this(1,2) have "1 \<le> i" using parseOrdinal_nonneg by (fastforce simp: pvcOrdinal_def)
    ultimately show "\<exists>i. pvcOrdinal cluster n = Some i \<and> 1 \<le> i \<and> wantedReplicas cluster sts \<le> i \<and> i \<notin> set (podOrdinals cluster pods)" by blast
  next
    fix x
    assume "x \<in> slots s - slots s'"
    with dropped have act: "slotAction (desiredReplicas cluster) pvcs allowDrops x \<noteq> KeepSlot" by blast
    then obtain i where i: "slotOrdinal (slName x) = Some i" "i \<noteq> 0" by (auto simp: slotAction_def split: option.splits if_splits)
    then have "1 \<le> i" using parseOrdinal_nonneg by (fastforce simp: slotOrdinal_def)
    moreover have "slPhysical x \<and> \<not> slActive x \<and>
        (if i < desiredReplicas cluster then slWALStatus x = WALStatusLost else allowDrops \<and> i \<notin> set pvcs)"
      using act i by (auto simp: slotAction_def split: if_splits)
    ultimately show "\<exists>i. slotOrdinal (slName x) = Some i \<and> 1 \<le> i \<and> slPhysical x \<and> \<not> slActive x \<and>
      (if i < desiredReplicas cluster then slWALStatus x = WALStatusLost else (\<forall>n \<in> kept s'. pvcOrdinal cluster n \<noteq> Some i))"
      using i(1) listed by (intro exI [of _ i]) (simp split: if_splits, blast)
  next
    fix x
    assume "x \<in> slots s' - slots s"
    with created show "\<exists>i. slName x = replicationSlotName i \<and> 1 \<le> i \<and> i < desiredReplicas cluster \<and> i \<in> set (podOrdinals cluster pods)"
      unfolding freshSlot_def by blast
  qed
qed

text \<open>A Cluster scaled down to one instance while its primary restarts: the volume of the removed standby is deleted.\<close>

definition exCluster :: "int \<Rightarrow> Cluster" where
  "exCluster n = \<lparr>clName = ''pg'', clNamespace = ''ns'', clUID = ''u1'', clAnnotations = [], clImage = [], clMajor = None, clReplicas = n,
     clPort = 0, clStorageSize = [], clParameters = [], clTLS = None, clReplicationHealthy = None, clReady = True, clSecretName = [], clTLSReady = False, clTLSSecretHash = []\<rparr>"

definition exPod :: "string \<Rightarrow> bool \<Rightarrow> int \<Rightarrow> Pod" where
  "exPod n ready created = \<lparr>podName = n, podUID = ''uid-'' @ n, podController = Some (''StatefulSet'', ''pg''), podDeleting = False, podCreated = created,
     podLabels = [], podConditions = [\<lparr>pcType = ''Ready'', pcStatus = if ready then ''True'' else ''False'', pcLastTransition = Some 0\<rparr>], podIP = ''10.0.0.1''\<rparr>"

definition exVolume :: "string \<Rightarrow> PVC" where
  "exVolume n = \<lparr>pvcName = n, pvcUID = n, pvcDeleting = False\<rparr>"

definition exSts :: "int \<Rightarrow> StatefulSet" where
  "exSts n = \<lparr>stsReplicas = Some n, stsInitContainers = [bootstrapContainerName], stsGeneration = 1, stsObservedGeneration = 1,
     stsCurrentRevision = ''r'', stsUpdateRevision = ''r'', stsReadyReplicas = n\<rparr>"

definition exSecret :: Secret where
  "exSecret = \<lparr>secName = ''pg-credentials'', secAnnotations = [], secData = [(''password'', ''pw'')]\<rparr>"

definition exReplWorld :: replWorld where
  "exReplWorld = \<lparr>rwNow = 0, rwPVCs = [exVolume ''data-pg-0'', exVolume ''data-pg-1''], rwPods = [exPod ''pg-0'' False 0], rwStreams = [],
     rwSlots = [(''pgop_replica_1'', (True, False, ''reserved''))], rwSecret = exSecret, rwConfig = \<lparr>cmData = [], cmControlled = True\<rparr>,
     rwRoles = [], rwLogin = True, rwRestarts = 0, rwFaults = []\<rparr>"

theorem replication_data_safe_witness:
  "\<exists>s'. refKept exReplWorld - refKept s' = {''data-pg-1''} \<and>
     (\<exists>i. pvcOrdinal (exCluster 1) ''data-pg-1'' = Some i \<and> 1 \<le> i \<and> wantedReplicas (exCluster 1) (Some (exSts 1)) \<le> i)"
proof -
  define r where "r = run_state (reconcileReplication refKube refConnect (exCluster 1) exSecret (Some (exSts 1)) [exPod ''pg-0'' False 0]) exReplWorld"
  obtain c x d s' where run: "r = ((c, x, d), s')" by (metis prod.exhaust)
  have "map pvcName (rwPVCs (snd r)) = [''data-pg-0''] \<and> map pvcDeleting (rwPVCs (snd r)) = [False]"
    unfolding r_def by code_simp
  then have after: "refKept s' = {''data-pg-0''}" by (auto simp: run refKept_def)
  have before: "refKept exReplWorld = {''data-pg-0'', ''data-pg-1''}" by code_simp
  have gone: "refKept exReplWorld - refKept s' = {''data-pg-1''}"
    unfolding after before by simp
  from replication_data_safe [OF refReplication.replication_world_axioms run [unfolded r_def]]
  show ?thesis using gone by (intro exI [of _ s']) blast
qed

text \<open>
  C33. The condition ReplicationHealthy of a Cluster with standbys is honest: every reconcile sets
  it, and to true only when every standby streams from the primary and every standby whose pod
  exists has a replication slot. The one exception is the standby this reconcile has just restarted
  for a new replication password: its rollout is recorded on the Secret, and its pod is older than
  the change of the password. Without a rollout every standby streams.
\<close>

theorem replication_health_honest:
  assumes "replication_world k connect cluster kept slots streams" and "desiredReplicas cluster > 1"
    and "run_state (reconcileReplication k connect cluster secret sts pods) s = ((cluster', secret', d), s')"
  shows "\<exists>h. clReplicationHealthy cluster' = Some h \<and> (hcStatus h \<longrightarrow>
      (\<exists>gone. (\<forall>i. 1 \<le> i \<and> i < desiredReplicas cluster \<longrightarrow>
          clName cluster @ ''-'' @ formatInt i \<in> streams s' \<or> gone = Some (clName cluster @ ''-'' @ formatInt i)) \<and>
        (\<forall>n. gone = Some n \<longrightarrow> (\<exists>v p. map_of (secAnnotations secret') AnnotationReplicationPasswordRollout = Some v \<and>
          p \<in> set pods \<and> podName p = n \<and> podOrdinal0 cluster p \<noteq> 0 \<and> \<not> podDeleting p \<and> podCreated p \<le> parseInt64 v * second))) \<and>
      (\<forall>i. 1 \<le> i \<and> i < desiredReplicas cluster \<and> i \<in> set (podOrdinals cluster pods) \<longrightarrow> replicationSlotName i \<in> slName ` slots s'))"
proof -
  note world = world_effective [OF assms(1)]
  from replication_run [OF assms(1,3)] have rep: "replication_world.reported (effective cluster) slots streams pods secret' cluster' s'"
    unfolding replication_world.runPost_def [OF world] by (elim conjE)
  note rep = rep [unfolded replication_world.reported_def [OF world] effective_simps, rule_format, OF assms(2)]
  have stale: "stalePod (effective cluster) since p \<longleftrightarrow> podOrdinal0 cluster p \<noteq> 0 \<and> \<not> podDeleting p \<and> podCreated p \<le> since" for since p
    by (simp add: stalePod_def)
  from rep obtain h where h: "clReplicationHealthy cluster' = Some h" and
    streaming: "hcStatus h \<Longrightarrow> \<exists>gone. (\<lambda>i. clName cluster @ ''-'' @ formatInt i) ` {1..<desiredReplicas cluster} \<subseteq> streams s' \<union> set_option gone \<and>
      (\<forall>n. gone = Some n \<longrightarrow> (\<exists>v p. map_of (secAnnotations secret') AnnotationReplicationPasswordRollout = Some v \<and>
        p \<in> set pods \<and> podName p = n \<and> podOrdinal0 cluster p \<noteq> 0 \<and> \<not> podDeleting p \<and> podCreated p \<le> parseInt64 v * second))"
    unfolding replication_world.honest_def [OF world] replication_world.standbyNames_def [OF world] replication_world.rolledOut_def [OF world]
      stale effective_simps by (elim conjE exE) simp
  have covered: "\<forall>i. 1 \<le> i \<and> i < desiredReplicas cluster \<and> i \<in> set (podOrdinals cluster pods) \<longrightarrow> replicationSlotName i \<in> slName ` slots s'"
    if "hcStatus h" using rep h that by (elim conjE) simp
  have names: "n \<in> A \<union> set_option gone \<longleftrightarrow> n \<in> A \<or> gone = Some n" for n :: string and A gone by (cases gone) auto
  from streaming have "\<exists>gone. (\<forall>i. 1 \<le> i \<and> i < desiredReplicas cluster \<longrightarrow>
        clName cluster @ ''-'' @ formatInt i \<in> streams s' \<or> gone = Some (clName cluster @ ''-'' @ formatInt i)) \<and>
      (\<forall>n. gone = Some n \<longrightarrow> (\<exists>v p. map_of (secAnnotations secret') AnnotationReplicationPasswordRollout = Some v \<and>
        p \<in> set pods \<and> podName p = n \<and> podOrdinal0 cluster p \<noteq> 0 \<and> \<not> podDeleting p \<and> podCreated p \<le> parseInt64 v * second))" if "hcStatus h"
    unfolding image_subset_iff Ball_def atLeastLessThan_iff names using that .
  with h covered show ?thesis by (intro exI [of _ h] conjI impI) simp_all
qed

text \<open>The Cluster with one standby that streams, and no rollout: the condition is true, and it does stream.\<close>

definition exHealthySecret :: Secret where
  "exHealthySecret = exSecret\<lparr>secData := [(''password'', ''pw''), (''replication-password'', ''rp'')]\<rparr>"

definition exHealthyPods :: "Pod list" where
  "exHealthyPods = [exPod ''pg-0'' True 0, exPod ''pg-1'' True 0]"

definition exHealthyWorld :: replWorld where
  "exHealthyWorld = exReplWorld\<lparr>rwPods := exHealthyPods, rwStreams := [''pg-1''], rwSecret := exHealthySecret\<rparr>"

text \<open>The password's fingerprint is only stored, so the run is evaluated without computing it.\<close>

lemmas fingerprintOpaque = replicationPasswordFingerprint_def [code abort: replicationPasswordFingerprint]

lemma exHealthyRun:
  "case run_state (reconcileReplication refKube refConnect (exCluster 2) exHealthySecret (Some (exSts 2)) exHealthyPods) exHealthyWorld of
     ((c, x, d), s') \<Rightarrow> map_option hcStatus (clReplicationHealthy c) = Some True \<and>
       map_of (secAnnotations x) AnnotationReplicationPasswordRollout = None"
  by code_simp

declare fingerprintOpaque [code]

theorem replication_health_honest_witness:
  "\<exists>s'. ''pg-1'' \<in> refStreams s' \<and>
     (\<exists>r. run_state (reconcileReplication refKube refConnect (exCluster 2) exHealthySecret (Some (exSts 2)) exHealthyPods) exHealthyWorld = (r, s') \<and>
       map_option hcStatus (clReplicationHealthy (fst r)) = Some True)"
proof -
  define r where "r = run_state (reconcileReplication refKube refConnect (exCluster 2) exHealthySecret (Some (exSts 2)) exHealthyPods) exHealthyWorld"
  obtain c x d s' where run: "r = ((c, x, d), s')" by (metis prod.exhaust)
  have ok: "map_option hcStatus (clReplicationHealthy c) = Some True" "map_of (secAnnotations x) AnnotationReplicationPasswordRollout = None"
    using exHealthyRun unfolding r_def [symmetric] run by simp_all
  have two: "desiredReplicas (exCluster 2) = 2" "clName (exCluster 2) = ''pg''" by (simp_all add: desiredReplicas_def exCluster_def)
  then have "desiredReplicas (exCluster 2) > 1" by simp
  from replication_health_honest [OF refReplication.replication_world_axioms this run [unfolded r_def], unfolded two ok(2)] ok(1)
  have "''pg-'' @ formatInt 1 \<in> refStreams s'" by auto
  moreover have "''pg-'' @ formatInt 1 = ''pg-1''" by code_simp
  ultimately have "''pg-1'' \<in> refStreams s'" by simp
  with ok(1) run show ?thesis unfolding r_def [symmetric] by (intro exI [of _ s'] exI [of _ "(c, x, d)"]) simp
qed

end
