(* ===== verification/Password_Restart.thy ===== *)
theory Password_Restart
  imports Replication_Properties
begin

text \<open>
  The restarts of a primary that rejects the operator's password. The record of the attempts lives in
  an annotation of the credentials Secret, so it survives the operator; it is read back exactly, and
  with it the number of restarts per password value is bounded while an attempt that is due is made.
\<close>

section \<open>Numbers and fingerprints read back\<close>

lemma digitVal_digit: "n < 10 \<Longrightarrow> digitVal (char_of (48 + n :: nat)) = Some (int n)"
proof -
  assume "n < 10"
  then have "(of_char (char_of (48 + n :: nat) :: char) :: nat) = 48 + n" by simp
  then have "int (of_char (char_of (48 + n :: nat) :: char)) = 48 + int n" by simp
  then have "(of_char (char_of (48 + n :: nat) :: char) :: int) = 48 + int n" unfolding of_nat_of_char .
  with \<open>n < 10\<close> show ?thesis by (simp add: digitVal_def Let_def)
qed

lemma atoiDigits_append: "atoiDigits acc (s @ t) = (case atoiDigits acc s of None \<Rightarrow> None | Some a \<Rightarrow> atoiDigits a t)"
  by (induction s arbitrary: acc) (auto split: option.split)

lemma atoiDigits_natDigits: "atoiDigits 0 (natDigits n) = Some (int n)"
proof (induction n rule: natDigits.induct)
  case (1 n)
  show ?case
  proof (cases "n < 10")
    case True
    then show ?thesis by (subst natDigits.simps) (simp add: digitVal_digit)
  next
    case False
    have "int (n div 10 * 10 + n mod 10) = int n" by simp
    then have "int (n div 10) * 10 + int (n mod 10) = int n" by (simp only: of_nat_add of_nat_mult of_nat_numeral)
    with False 1 show ?thesis by (subst natDigits.simps) (simp add: atoiDigits_append digitVal_digit mult.commute)
  qed
qed

lemma natDigits_plus: "CHR ''+'' \<notin> set (natDigits n)"
proof
  assume "CHR ''+'' \<in> set (natDigits n)"
  from natDigits_chars [OF this] show False by simp
qed

lemma atoi_formatInt: "- (2 ^ 63) \<le> i \<Longrightarrow> i < 2 ^ 63 \<Longrightarrow> atoi (formatInt i) = Some i"
proof (cases "i < 0")
  case True
  then show ?thesis if "- (2 ^ 63) \<le> i" using that
    by (simp add: formatInt_def atoi_def hasPrefix_def Let_def atoiDigits_natDigits)
next
  case False
  obtain c s where cs: "natDigits (nat i) = c # s" using natDigits_nonempty [of "nat i"] by (cases "natDigits (nat i)") auto
  have "c \<noteq> CHR ''-''" "c \<noteq> CHR ''+''"
    using natDigits_minus [of "nat i"] natDigits_plus [of "nat i"] unfolding cs by auto
  then have "\<not> hasPrefix (natDigits (nat i)) ''-''" "\<not> hasPrefix (natDigits (nat i)) ''+''" by (simp_all add: cs hasPrefix_def)
  then show ?thesis if "i < 2 ^ 63" using that False by (simp add: formatInt_def atoi_def Let_def atoiDigits_natDigits)
qed

lemma formatInt_slash: "CHR ''/'' \<notin> set (formatInt i)"
proof
  assume "CHR ''/'' \<in> set (formatInt i)"
  then have "CHR ''/'' \<in> set (natDigits (nat i)) \<or> CHR ''/'' \<in> set (natDigits (nat (- i)))"
    by (auto simp: formatInt_def split: if_splits)
  then show False using natDigits_chars by fastforce
qed

lemma hexDigit_slash: "n < 16 \<Longrightarrow> hexDigit n \<noteq> CHR ''/''"
proof
  assume n: "n < 16" and "hexDigit n = CHR ''/''"
  then have "of_char (hexDigit n) = (47 :: nat)" by simp
  with n show False by (auto simp: hexDigit_def split: if_splits)
qed

lemma hexEncode_slash: "CHR ''/'' \<notin> set (hexEncode s)"
proof -
  have "(of_char c :: nat) div 16 < 16" for c :: char
  proof -
    have "(of_char c :: nat) < 256" using of_char_mod_256 [of c, where 'a = nat] mod_less_divisor [of 256 "of_char c :: nat"] by simp
    then show ?thesis by (intro less_mult_imp_div_less) simp
  qed
  then have "CHR ''/'' \<noteq> hexDigit (of_char c div 16)" "CHR ''/'' \<noteq> hexDigit (of_char c mod 16)" for c :: char
    using hexDigit_slash by (metis, metis mod_less_divisor zero_less_numeral)
  then show ?thesis by (auto simp: hexEncode_def)
qed

definition int64 :: "int \<Rightarrow> bool" where
  "int64 i \<longleftrightarrow> - (2 ^ 63) \<le> i \<and> i < 2 ^ 63"

text \<open>The annotation is read back as the record, its time in whole seconds.\<close>

lemma parsePasswordSyncRestart_string:
  assumes "CHR ''/'' \<notin> set (psFingerprint p)" and "int64 (psAttempts p)" and "int64 (unixSeconds (psLast p))"
  shows "parsePasswordSyncRestart (passwordSyncRestartString p) = p\<lparr>psLast := unixSeconds (psLast p) * second\<rparr>"
proof -
  have "splitStr (passwordSyncRestartString p) (CHR ''/'') = [psFingerprint p, formatInt (psAttempts p), formatInt (unixSeconds (psLast p))]"
    using splitStr_joinStr [of "[psFingerprint p, formatInt (psAttempts p), formatInt (unixSeconds (psLast p))]" "CHR ''/''"] assms(1) formatInt_slash
    by (simp add: passwordSyncRestartString_def)
  with assms(2,3) show ?thesis
    by (simp add: parsePasswordSyncRestart_def int64_def atoi_formatInt)
qed

section \<open>The machine\<close>

text \<open>
  A world is seen through the credentials Secret in the API server, the clock, and how often the
  primary was deleted. The Secret is written or not; the clock does not run backwards and stays within
  what an annotation can hold.
\<close>

locale restart_world =
  fixes k :: "'s kube" and cluster :: Cluster and stored :: "'s \<Rightarrow> Secret" and clock :: "'s \<Rightarrow> int" and restarts :: "'s \<Rightarrow> nat"
  assumes now: "wp (kNow k) (\<lambda>t s'. t = clock s \<and> int64 (unixSeconds t) \<and> stored s' = stored s \<and> clock s \<le> clock s' \<and> restarts s' = restarts s) s"
    and update: "wp (kUpdateSecret k x) (\<lambda>e s'. (stored s' = x \<or> e \<noteq> None \<and> stored s' = stored s) \<and> clock s \<le> clock s' \<and> restarts s' = restarts s) s"
    and restart: "wp (kDeletePod k p) (\<lambda>e s'. stored s' = stored s \<and> clock s \<le> clock s' \<and> restarts s \<le> restarts s' \<and> restarts s' \<le> Suc (restarts s)) s"
begin

abbreviation attempts :: "'s \<Rightarrow> int" where "attempts s \<equiv> psAttempts (restartState cluster (stored s))"

lemma restartState_update:
  assumes "0 \<le> psAttempts (restartState cluster x)" "psAttempts (restartState cluster x) < passwordSyncMaxAttempts" and "int64 (unixSeconds t)"
  defines "st \<equiv> (restartState cluster x)\<lparr>psAttempts := psAttempts (restartState cluster x) + 1, psLast := t\<rparr>"
  shows "restartState cluster (x\<lparr>secAnnotations := AList.update AnnotationPasswordSyncRestart (passwordSyncRestartString st) (secAnnotations x)\<rparr>) =
    st\<lparr>psLast := unixSeconds t * second\<rparr>"
proof -
  have fp: "psFingerprint (restartState cluster x) = replicationPasswordFingerprint cluster (''operator'' @ [CHR 0x00] @ mapGet [] (secData x) ''password'')"
    by (simp add: restartState_def Let_def)
  have "CHR ''/'' \<notin> set (psFingerprint st)"
    by (simp add: st_def fp replicationPasswordFingerprint_def hexEncode_slash)
  moreover have "int64 (psAttempts st)" using assms(1,2) by (simp add: st_def int64_def)
  moreover have "int64 (unixSeconds (psLast st))" using assms(3) by (simp add: st_def)
  ultimately have "parsePasswordSyncRestart (passwordSyncRestartString st) = st\<lparr>psLast := unixSeconds t * second\<rparr>"
    using parsePasswordSyncRestart_string by (simp add: st_def)
  then show ?thesis by (simp add: restartState_def [of cluster "x\<lparr>secAnnotations := _\<rparr>"] mapGet_update st_def fp)
qed

text \<open>One run on the stored Secret: an attempt is recorded before the primary is restarted.\<close>

lemma restart_post:
  assumes "0 \<le> attempts s" "attempts s \<le> passwordSyncMaxAttempts"
  shows "wp (restartPrimaryForPasswordSync k cluster (stored s) p) (\<lambda>_ s'.
    restarts s \<le> restarts s' \<and> int (restarts s') - int (restarts s) \<le> attempts s' - attempts s \<and>
    attempts s' \<le> passwordSyncMaxAttempts) s"
proof -
  let ?st = "\<lambda>t. (restartState cluster (stored s))\<lparr>psAttempts := attempts s + 1, psLast := t\<rparr>"
  let ?x = "\<lambda>t. (stored s)\<lparr>secAnnotations := AList.update AnnotationPasswordSyncRestart (passwordSyncRestartString (?st t)) (secAnnotations (stored s))\<rparr>"
  let ?post = "\<lambda>_ s'. restarts s \<le> restarts s' \<and> int (restarts s') - int (restarts s) \<le> attempts s' - attempts s \<and> attempts s' \<le> passwordSyncMaxAttempts"
  have del: "wp (kDeletePod k p) (\<lambda>_. ?post a) s2" if "stored s2 = ?x t" "restarts s2 = restarts s" "int64 (unixSeconds t)" "attempts s < 5" for s2 t a
  proof (rule wp_mono [OF restart], goal_cases)
    case (1 e s3)
    then have "attempts s3 = attempts s + 1" using restartState_update [OF assms(1) that(4,3)] that(1) by simp
    with 1 that show ?case by simp
  qed
  have upd: "wp (kUpdateSecret k (?x t)) (\<lambda>e. wp (case e of Some z \<Rightarrow> ret (f z)
      | None \<Rightarrow> State_Monad.bind (kDeletePod k p) (\<lambda>e2. ret (g e2))) (\<lambda>_. ?post ())) s1"
    if "stored s1 = stored s" "restarts s1 = restarts s" "int64 (unixSeconds t)" "attempts s < 5" for s1 t and f :: "error \<Rightarrow> 'x" and g
  proof (rule wp_mono [OF update], goal_cases)
    case (1 e s2)
    show ?case
    proof (cases e)
      case None
      with 1 that del [of s2 t] show ?thesis by (simp add: wp_simps)
    next
      case (Some z)
      have "attempts s2 = attempts s \<or> attempts s2 = attempts s + 1"
        using 1 that restartState_update [OF assms(1) that(4,3)] by auto
      with 1 that Some assms show ?thesis by (auto simp: wp_ret)
    qed
  qed
  show ?thesis
    unfolding restartPrimaryForPasswordSync_def Let_def wp_bind [of "kNow k"]
  proof (rule wp_mono [OF now], goal_cases)
    case (1 t s1)
    with assms upd [of s1 t] show ?case by (auto simp: wp_simps)
  qed
qed

end

text \<open>
  The life of one password value: it starts with no attempt on record (the value is new, or a login
  just worked), the operator runs any number of times on the stored Secret while logins are rejected,
  and in between everything but the record and the password may change, and time passes.
\<close>

inductive passwordEpoch :: "'s kube \<Rightarrow> Cluster \<Rightarrow> ('s \<Rightarrow> Secret) \<Rightarrow> ('s \<Rightarrow> int) \<Rightarrow> ('s \<Rightarrow> nat) \<Rightarrow> nat \<Rightarrow> 's \<Rightarrow> bool"
  for k cluster stored clock restarts base where
  fresh: "psAttempts (restartState cluster (stored s)) = 0 \<Longrightarrow> restarts s = base \<Longrightarrow> passwordEpoch k cluster stored clock restarts base s"
| operator: "passwordEpoch k cluster stored clock restarts base s \<Longrightarrow>
    run_state (restartPrimaryForPasswordSync k cluster (stored s) p) s = (r, s') \<Longrightarrow> passwordEpoch k cluster stored clock restarts base s'"
| environment: "passwordEpoch k cluster stored clock restarts base s \<Longrightarrow> restartState cluster (stored s') = restartState cluster (stored s) \<Longrightarrow>
    clock s \<le> clock s' \<Longrightarrow> restarts s' = restarts s \<Longrightarrow> passwordEpoch k cluster stored clock restarts base s'"

text \<open>
  C34. A password the primary keeps rejecting causes at most five restarts of the primary, however
  often the operator reconciles, restarts itself, or fails to write the record or to delete the pod:
  the restarts never outnumber the attempts on record, which stop at five.
\<close>

theorem password_restarts_bounded:
  assumes "restart_world k stored clock restarts" and "passwordEpoch k cluster stored clock restarts base s"
  shows "restarts s \<le> base + 5 \<and> int (restarts s) - int base \<le> psAttempts (restartState cluster (stored s)) \<and>
    psAttempts (restartState cluster (stored s)) \<le> passwordSyncMaxAttempts"
proof -
  have "base \<le> restarts s \<and> int (restarts s) - int base \<le> psAttempts (restartState cluster (stored s)) \<and>
      psAttempts (restartState cluster (stored s)) \<le> passwordSyncMaxAttempts"
    using assms(2)
  proof (induction rule: passwordEpoch.induct)
    case (operator s p r s')
    then have "0 \<le> psAttempts (restartState cluster (stored s))" by linarith
    from wp_run [OF restart_world.restart_post [OF assms(1) this] operator.hyps(2)] operator.IH show ?case by simp
  qed simp_all
  then show ?thesis by linarith
qed

interpretation refRestart: restart_world refKube c rwSecret refClock rwRestarts for c
proof (unfold_locales, goal_cases)
  case (1 s)
  have "int64 (unixSeconds (refClock s))"
    by (simp add: refClock_def int64_def unixSeconds_def)
  then show ?case by (simp add: refKube_def wp_State)
next
  case (2 x s)
  then show ?case by (simp add: refKube_def wp_faulty refClock_def)
next
  case (3 p s)
  then show ?case by (simp add: refKube_def wp_faulty refClock_def)
qed

lemma exEpoch: "passwordEpoch refKube (exCluster 1) rwSecret refClock rwRestarts 0 exReplWorld"
proof (rule passwordEpoch.fresh)
  have "parsePasswordSyncRestart [] = zeroRestart" by code_simp
  then show "psAttempts (restartState (exCluster 1) (rwSecret exReplWorld)) = 0"
    by (simp add: restartState_def Let_def exReplWorld_def exSecret_def zeroRestart_def mapGet_def)
qed (simp add: exReplWorld_def)

theorem password_restarts_bounded_witness:
  "rwRestarts (snd (run_state (restartPrimaryForPasswordSync refKube (exCluster 1) exSecret (exPod ''pg-0'' True 0)) exReplWorld)) \<le> 5"
proof -
  obtain r s' where run: "run_state (restartPrimaryForPasswordSync refKube (exCluster 1) (rwSecret exReplWorld) (exPod ''pg-0'' True 0)) exReplWorld = (r, s')"
    by (metis prod.exhaust)
  from password_restarts_bounded [OF refRestart.restart_world_axioms passwordEpoch.operator [OF exEpoch run]]
  have "rwRestarts s' \<le> 5" by simp
  moreover have "rwSecret exReplWorld = exSecret" by (simp add: exReplWorld_def)
  ultimately show ?thesis using run by simp
qed

section \<open>Attempts that are due\<close>

definition restartDue :: "Pod \<Rightarrow> passwordSyncRestart \<Rightarrow> int \<Rightarrow> bool" where
  "restartDue primary st t \<longleftrightarrow> readyGrace primary t \<le> 0 \<and> (psAttempts st > 0 \<longrightarrow> psLast st + passwordSyncBackoff (psAttempts st) \<le> t)"

lemma passwordSyncBackoff_value: "1 \<le> n \<Longrightarrow> n \<le> 5 \<Longrightarrow> passwordSyncBackoff n = 5 * minute * 2 ^ nat (n - 1)"
proof -
  assume n: "1 \<le> n" "n \<le> 5"
  then have "(2 :: int) ^ nat (n - 1) \<le> 2 ^ 4" by (intro power_increasing) auto
  then have "0 \<le> 5 * minute * 2 ^ nat (n - 1)" "5 * minute * 2 ^ nat (n - 1) < 2 ^ 63" by simp_all
  then show ?thesis by (simp add: passwordSyncBackoff_def wrap64_def)
qed

text \<open>What a call does that starts in \<open>s\<close> with the stored Secret, when every write succeeds.\<close>

definition restartedPost :: "Cluster \<Rightarrow> Pod \<Rightarrow> ('s \<Rightarrow> Secret) \<Rightarrow> ('s \<Rightarrow> int) \<Rightarrow> ('s \<Rightarrow> nat) \<Rightarrow> 's \<Rightarrow> Secret \<times> int \<Rightarrow> 's \<Rightarrow> bool" where
  "restartedPost cluster p stored clock restarts s = (\<lambda>(y, d) s'.
    let st = restartState cluster (stored s); st' = restartState cluster (stored s') in
    if restartDue p st (clock s)
    then restarts s' = Suc (restarts s) \<and> psAttempts st' = psAttempts st + 1 \<and> psLast st' = unixSeconds (clock s) * second \<and>
      d = (if psAttempts st' = passwordSyncMaxAttempts then 0 else 5 * minute * 2 ^ nat (psAttempts st' - 1))
    else restarts s' = restarts s \<and> stored s' = stored s \<and>
      d = (if readyGrace p (clock s) > 0 then readyGrace p (clock s) else psLast st + passwordSyncBackoff (psAttempts st) - clock s) \<and> d > 0)"

text \<open>The Secret an attempt at time \<open>t\<close> writes.\<close>

definition attemptSecret :: "Cluster \<Rightarrow> Secret \<Rightarrow> int \<Rightarrow> Secret" where
  "attemptSecret cluster x t = x\<lparr>secAnnotations := AList.update AnnotationPasswordSyncRestart (passwordSyncRestartString
     ((restartState cluster x)\<lparr>psAttempts := psAttempts (restartState cluster x) + 1, psLast := t\<rparr>)) (secAnnotations x)\<rparr>"

lemma attempt_delete:
  assumes world: "restart_world k stored clock restarts"
    and works: "\<And>p s. wp (kDeletePod k p) (\<lambda>e s'. e = None \<and> restarts s' = Suc (restarts s)) s"
    and left: "0 \<le> psAttempts (restartState cluster (stored s))" "psAttempts (restartState cluster (stored s)) < passwordSyncMaxAttempts"
    and s2: "stored s2 = attemptSecret cluster (stored s) (clock s)" "restarts s2 = restarts s" "int64 (unixSeconds (clock s))"
      "restartDue p (restartState cluster (stored s)) (clock s)"
  shows "wp (kDeletePod k p) (\<lambda>e. restartedPost cluster p stored clock restarts s (attemptSecret cluster (stored s) (clock s), case e of
        Some z \<Rightarrow> f z
      | None \<Rightarrow> if psAttempts (restartState cluster (stored s)) + 1 \<ge> passwordSyncMaxAttempts then 0
          else passwordSyncBackoff (psAttempts (restartState cluster (stored s)) + 1))) s2"
proof -
  let ?st = "restartState cluster (stored s)"
  have recorded: "restartState cluster (attemptSecret cluster (stored s) (clock s)) = ?st\<lparr>psAttempts := psAttempts ?st + 1, psLast := unixSeconds (clock s) * second\<rparr>"
    using restart_world.restartState_update [OF world left s2(3)] by (simp add: attemptSecret_def)
  have "wp (kDeletePod k p) (\<lambda>e s'. (stored s' = stored s2 \<and> clock s2 \<le> clock s' \<and> restarts s2 \<le> restarts s' \<and> restarts s' \<le> Suc (restarts s2)) \<and>
      e = None \<and> restarts s' = Suc (restarts s2)) s2"
    by (rule wp_both [OF restart_world.restart [OF world] works])
  then show ?thesis
    by (rule wp_mono) (use s2 left recorded passwordSyncBackoff_value [of "psAttempts ?st + 1"] in \<open>auto simp: restartedPost_def Let_def\<close>)
qed

lemma attempt_restart:
  assumes world: "restart_world k stored clock restarts"
    and works: "\<And>x s. wp (kUpdateSecret k x) (\<lambda>e s'. e = None) s" "\<And>p s. wp (kDeletePod k p) (\<lambda>e s'. e = None \<and> restarts s' = Suc (restarts s)) s"
    and left: "0 \<le> psAttempts (restartState cluster (stored s))" "psAttempts (restartState cluster (stored s)) < passwordSyncMaxAttempts"
    and s1: "stored s1 = stored s" "clock s1 = clock s" "restarts s1 = restarts s" "readyGrace p (clock s) \<le> 0"
  shows "wp (restartPrimaryForPasswordSync k cluster (stored s) p) (restartedPost cluster p stored clock restarts s) s1"
  unfolding restartPrimaryForPasswordSync_def Let_def wp_bind [of "kNow k"]
proof (rule wp_mono [OF restart_world.now [OF world]], goal_cases)
  case (1 t s2)
  let ?st = "restartState cluster (stored s)" and ?x = "attemptSecret cluster (stored s) (clock s)"
  from 1 have t: "t = clock s" "stored s2 = stored s" "restarts s2 = restarts s" "int64 (unixSeconds (clock s))" by (auto simp: s1)
  have notmax: "(psAttempts ?st \<ge> passwordSyncMaxAttempts) = False" using left by simp
  show ?case
  proof (cases "psAttempts ?st > 0 \<and> clock s < psLast ?st + passwordSyncBackoff (psAttempts ?st)")
    case True
    then show ?thesis unfolding notmax if_False using t s1(4) by (auto simp: wp_ret restartedPost_def Let_def restartDue_def)
  next
    case False
    with s1(4) have due: "restartDue p ?st (clock s)" by (auto simp: restartDue_def)
    from False have notwait: "(psAttempts ?st > 0 \<and> clock s < psLast ?st + passwordSyncBackoff (psAttempts ?st)) = False" by blast
    have sel: "psAttempts (?st\<lparr>psAttempts := a, psLast := b\<rparr>) = a" for a b by simp
    have "wp (kUpdateSecret k ?x) (\<lambda>e s'. ((stored s' = ?x \<or> e \<noteq> None \<and> stored s' = stored s2) \<and> clock s2 \<le> clock s' \<and> restarts s' = restarts s2) \<and> e = None) s2"
      by (rule wp_both [OF restart_world.update [OF world] works(1)])
    then show ?thesis unfolding t(1) notmax notwait if_False wp_bind [of "kUpdateSecret k _"] sel attemptSecret_def [symmetric]
      by (rule wp_mono) (use t(3,4) due attempt_delete [OF world works(2) left] in \<open>auto simp: wp_bind wp_ret\<close>)
  qed
qed

text \<open>
  C35. A rejected password is not given up before its five attempts: when the operator finds its
  password rejected by a ready primary that is not stopped for a restore, and an attempt is left and
  due, it restarts the primary (the API server permitting), records the attempt, and asks to be
  called again after 5, 10, 20 or 40 minutes; when the attempt is not due it changes nothing and asks
  to be called again once the pending delay is over.
\<close>

theorem password_restart_due:
  assumes world: "restart_world k stored clock restarts"
    and connect: "\<And>s. wp connect (\<lambda>r s'. (\<exists>e. r = Inl e \<and> isInvalidPassword e) \<and> stored s' = stored s \<and> clock s' = clock s \<and> restarts s' = restarts s) s"
    and works: "\<And>x s. wp (kUpdateSecret k x) (\<lambda>e s'. e = None) s" "\<And>p s. wp (kDeletePod k p) (\<lambda>e s'. e = None \<and> restarts s' = Suc (restarts s)) s"
    and still: "\<And>s. wp (kNow k) (\<lambda>_ s'. clock s' = clock s) s"
    and primary: "primaryPod cluster pods = Some p" "isPodReady p" "\<not> pausedForRestore cluster"
    and left: "0 \<le> psAttempts (restartState cluster (stored s))" "psAttempts (restartState cluster (stored s)) < passwordSyncMaxAttempts"
    and run: "run_state (checkOperatorLogin k connect cluster (stored s) pods) s = ((secret', d), s')"
  shows "let st = restartState cluster (stored s); st' = restartState cluster (stored s') in
    if restartDue p st (clock s)
    then restarts s' = Suc (restarts s) \<and> psAttempts st' = psAttempts st + 1 \<and> psLast st' = unixSeconds (clock s) * second \<and>
      d = (if psAttempts st' = passwordSyncMaxAttempts then 0 else 5 * minute * 2 ^ nat (psAttempts st' - 1))
    else restarts s' = restarts s \<and> stored s' = stored s \<and>
      d = (if readyGrace p (clock s) > 0 then readyGrace p (clock s) else psLast st + passwordSyncBackoff (psAttempts st) - clock s) \<and> d > 0"
proof -
  let ?Q = "restartedPost cluster p stored clock restarts s"
  have "wp connect (\<lambda>r. wp (case r of
      Inl err \<Rightarrow> if \<not> isInvalidPassword err then ret (stored s, 0)
        else State_Monad.bind (kNow k) (\<lambda>t. if readyGrace p t > 0 then ret (stored s, readyGrace p t) else restartPrimaryForPasswordSync k cluster (stored s) p)
    | Inr srv \<Rightarrow> State_Monad.bind (clearPasswordSyncRestart k (stored s)) (\<lambda>(y, e). ret (y, if e \<noteq> None then replicationRetryInterval else 0))) ?Q) s"
  proof (rule wp_mono [OF connect], goal_cases)
    case (1 r s1)
    then obtain err where r: "r = Inl err" "isInvalidPassword err" by blast
    then have valid: "(\<not> isInvalidPassword err) = False" by simp
    have "wp (kNow k) (\<lambda>t s'. (t = clock s1 \<and> int64 (unixSeconds t) \<and> stored s' = stored s1 \<and> clock s1 \<le> clock s' \<and> restarts s' = restarts s1) \<and> clock s' = clock s1) s1"
      by (rule wp_both [OF restart_world.now [OF world] still])
    then have "wp (kNow k) (\<lambda>t. wp (if readyGrace p t > 0 then ret (stored s, readyGrace p t) else restartPrimaryForPasswordSync k cluster (stored s) p) ?Q) s1"
      by (rule wp_mono) (use 1 attempt_restart [OF world works left] in \<open>auto simp: wp_ret restartedPost_def Let_def restartDue_def\<close>)
    then show ?case unfolding r(1) sum.case valid if_False wp_bind [of "kNow k"] .
  qed
  then have "wp (checkOperatorLogin k connect cluster (stored s) pods) ?Q s"
    using primary unfolding checkOperatorLogin_def by (simp add: wp_bind [of connect] del: not_None_eq)
  from wp_run [OF this run] show ?thesis by (simp only: restartedPost_def Let_def prod.case)
qed

text \<open>An API server that never fails, and a primary that rejects the password.\<close>

definition sureKube :: "replWorld kube" where
  "sureKube = refKube\<lparr>kUpdateSecret := (\<lambda>x. State (\<lambda>w. (None, w\<lparr>rwSecret := x\<rparr>))),
     kDeletePod := (\<lambda>p. State (\<lambda>w. (None, w\<lparr>rwRestarts := Suc (rwRestarts w)\<rparr>)))\<rparr>"

definition rejectingConnect :: "(replWorld, error + replWorld replServer) state" where
  "rejectingConnect = State (\<lambda>w. (Inl (PqError ''28P01'' ''password authentication failed''), w))"

lemma sureRestart: "restart_world sureKube rwSecret refClock rwRestarts"
proof (unfold_locales, goal_cases)
  case (1 s)
  have "int64 (unixSeconds (refClock s))" by (simp add: refClock_def int64_def unixSeconds_def)
  then show ?case by (simp add: sureKube_def refKube_def wp_State)
qed (simp_all add: sureKube_def wp_State refClock_def)

theorem password_restart_due_witness:
  "let r = run_state (checkOperatorLogin sureKube rejectingConnect (exCluster 1) exSecret [exPod ''pg-0'' True (- 1)]) (exReplWorld\<lparr>rwNow := 120 * second\<rparr>)
   in rwRestarts (snd r) = 1 \<and> snd (fst r) = 5 * minute"
proof -
  define w where "w = exReplWorld\<lparr>rwNow := 120 * second\<rparr>"
  have secret: "exSecret = rwSecret w" by (simp add: w_def exReplWorld_def)
  obtain y d w' where run: "run_state (checkOperatorLogin sureKube rejectingConnect (exCluster 1) (rwSecret w) [exPod ''pg-0'' True (- 1)]) w = ((y, d), w')"
    by (metis prod.exhaust)
  have zero: "parsePasswordSyncRestart [] = zeroRestart" by code_simp
  have st: "psAttempts (restartState (exCluster 1) (rwSecret w)) = 0"
    unfolding secret [symmetric] by (simp add: restartState_def Let_def exSecret_def zero zeroRestart_def mapGet_def)
  have p: "primaryPod (exCluster 1) [exPod ''pg-0'' True (- 1)] = Some (exPod ''pg-0'' True (- 1))" "isPodReady (exPod ''pg-0'' True (- 1))"
      "\<not> pausedForRestore (exCluster 1)" "readyGrace (exPod ''pg-0'' True (- 1)) (refClock w) = 0"
    unfolding w_def by code_simp+
  then have due: "restartDue (exPod ''pg-0'' True (- 1)) (restartState (exCluster 1) (rwSecret w)) (refClock w)"
    by (simp add: restartDue_def st)
  have "rwRestarts w' = Suc (rwRestarts w) \<and> d = 5 * minute"
    using password_restart_due [of sureKube rwSecret refClock rwRestarts rejectingConnect "exCluster 1" "[exPod ''pg-0'' True (- 1)]"
        "exPod ''pg-0'' True (- 1)" w y d w', OF sureRestart _ _ _ _ p(1-3) _ _ run] due st
    by (simp add: rejectingConnect_def sureKube_def refKube_def wp_State isInvalidPassword_def Let_def refClock_def)
  moreover have "rwRestarts w = 0" by (simp add: w_def exReplWorld_def)
  ultimately show ?thesis unfolding secret w_def [symmetric] Let_def run by simp
qed

end
