(* ===== verification/Password_Rollout.thy ===== *)
theory Password_Rollout
  imports Password_Restart
begin

text \<open>
  The rollout of a new replication password: what a round of \<open>rolloutReplicationPassword\<close> does on an
  API server that keeps the contract \<open>rollout_world\<close>, and why the rollout ends.
\<close>

text \<open>A standby that was restarted and is not back (\<open>stalePod\<close> is one that still runs with the old password).\<close>

definition pendingStandby :: "Cluster \<Rightarrow> int \<Rightarrow> int \<Rightarrow> Pod \<Rightarrow> bool" where
  "pendingStandby c since now p \<longleftrightarrow> podOrdinal0 c p \<noteq> 0 \<and> \<not> podDeleting p \<and> podCreated p > since \<and>
     \<not> (isPodReady p \<and> map_of (podLabels p) LabelStreaming = Some ''true'') \<and> now < podCreated p + rolloutStandbyTimeout"

definition staleOrdinals :: "Cluster \<Rightarrow> int \<Rightarrow> Pod list \<Rightarrow> int set" where
  "staleOrdinals c since pods = podOrdinal0 c ` {p \<in> set pods. stalePod c since p}"

lemma finite_staleOrdinals [simp]: "finite (staleOrdinals c since pods)"
  by (simp add: staleOrdinals_def)

text \<open>A round is the first of these that holds; the third names the stale standby with the highest ordinal.\<close>

definition roundOf :: "Cluster \<Rightarrow> int \<Rightarrow> int \<Rightarrow> Pod list \<Rightarrow> Pod option option \<Rightarrow> bool" where
  "roundOf c since now pods r \<longleftrightarrow>
     (case r of
        None \<Rightarrow> \<exists>p \<in> set pods. pendingStandby c since now p
      | Some None \<Rightarrow> (\<forall>p \<in> set pods. \<not> pendingStandby c since now p) \<and> staleOrdinals c since pods = {}
      | Some (Some q) \<Rightarrow> (\<forall>p \<in> set pods. \<not> pendingStandby c since now p) \<and> q \<in> set pods \<and> stalePod c since q \<and>
          (\<forall>i \<in> staleOrdinals c since pods. i \<le> podOrdinal0 c q))"

text \<open>The best stale standby so far.\<close>

definition bestSoFar :: "Cluster \<Rightarrow> int \<Rightarrow> Pod list \<Rightarrow> Pod option \<times> int \<Rightarrow> bool" where
  "bestSoFar c since pods b \<longleftrightarrow>
     (case fst b of
        None \<Rightarrow> snd b = -1 \<and> staleOrdinals c since pods = {}
      | Some q \<Rightarrow> q \<in> set pods \<and> stalePod c since q \<and> snd b = podOrdinal0 c q \<and> (\<forall>i \<in> staleOrdinals c since pods. i \<le> podOrdinal0 c q))"

lemma podOrdinal0_nonneg: "0 \<le> podOrdinal0 c p"
  using parseOrdinal_nonneg by (auto simp: podOrdinal0_def podOrdinal_def split: option.split)

lemma staleOrdinals_snoc: "staleOrdinals c since (done @ [p]) =
    (if stalePod c since p then insert (podOrdinal0 c p) (staleOrdinals c since done) else staleOrdinals c since done)"
  by (auto simp: staleOrdinals_def)

lemma bestSoFar_skip: "bestSoFar c since done b \<Longrightarrow> \<not> stalePod c since p \<Longrightarrow> bestSoFar c since (done @ [p]) b"
  by (auto simp: bestSoFar_def staleOrdinals_snoc split: option.splits)

lemma bestSoFar_stale:
  assumes "bestSoFar c since done b" and "stalePod c since p"
  shows "bestSoFar c since (done @ [p]) (if podOrdinal0 c p > snd b then (Some p, podOrdinal0 c p) else b)"
proof (cases "fst b")
  case None
  with assms podOrdinal0_nonneg [of c p] show ?thesis by (simp add: bestSoFar_def staleOrdinals_snoc)
next
  case (Some q)
  with assms show ?thesis by (auto simp: bestSoFar_def staleOrdinals_snoc)
qed

lemma rolloutScan_round:
  "bestSoFar c since done b \<Longrightarrow> \<forall>p \<in> set done. \<not> pendingStandby c since now p \<Longrightarrow>
    roundOf c since now (done @ pods) (rolloutScan c since now pods b)"
proof (induction pods arbitrary: "done" b)
  case Nil
  then show ?case by (cases b) (auto simp: roundOf_def bestSoFar_def split: option.splits)
next
  case (Cons p pods)
  obtain q n where b: "b = (q, n)" by (cases b)
  consider (other) "podOrdinal0 c p = 0 \<or> podDeleting p"
    | (stale) "\<not> (podOrdinal0 c p = 0 \<or> podDeleting p)" "\<not> podCreated p > since"
    | (pending) "\<not> (podOrdinal0 c p = 0 \<or> podDeleting p)" "podCreated p > since" "pendingStandby c since now p"
    | (restarted) "\<not> (podOrdinal0 c p = 0 \<or> podDeleting p)" "podCreated p > since" "\<not> pendingStandby c since now p"
    by blast
  then show ?case
  proof cases
    case other
    then have "\<not> stalePod c since p" "\<not> pendingStandby c since now p" by (auto simp: stalePod_def pendingStandby_def)
    with Cons.prems Cons.IH [of "done @ [p]" b] other show ?thesis by (auto simp: b bestSoFar_skip)
  next
    case stale
    then have p: "stalePod c since p" "\<not> pendingStandby c since now p" by (auto simp: stalePod_def pendingStandby_def)
    with Cons.prems Cons.IH [of "done @ [p]" "if podOrdinal0 c p > snd b then (Some p, podOrdinal0 c p) else b"] bestSoFar_stale [of c since "done" b p] stale
    show ?thesis by (simp add: b Let_def split: if_splits)
  next
    case pending
    then have "rolloutScan c since now (p # pods) b = None" by (auto simp: b Let_def pendingStandby_def)
    with pending show ?thesis by (auto simp: roundOf_def)
  next
    case restarted
    then have p: "\<not> stalePod c since p" by (auto simp: stalePod_def)
    from restarted have "rolloutScan c since now (p # pods) b = rolloutScan c since now pods b" by (auto simp: b Let_def pendingStandby_def)
    with Cons.prems Cons.IH [of "done @ [p]" b] restarted p show ?thesis by (auto simp: bestSoFar_skip)
  qed
qed

lemma rolloutScan_exact: "roundOf c since now pods (rolloutScan c since now pods (None, -1))"
  using rolloutScan_round [of c since "[]" "(None, -1)" now pods] by (simp add: bestSoFar_def staleOrdinals_def)

section \<open>A round on the API server\<close>

definition rolloutRecord :: "Secret \<Rightarrow> string option" where
  "rolloutRecord x = map_of (secAnnotations x) AnnotationReplicationPasswordRollout"

text \<open>
  The API server, seen through the pods of the Cluster, the stored Secret and the clock: a pod whose
  deletion succeeds, or that is not found, is gone or being deleted; the deletion touches no other
  pod and makes none; an update that reports an error may have happened or not.
\<close>

locale rollout_world =
  fixes k :: "'s kube" and pods :: "'s \<Rightarrow> Pod list" and stored :: "'s \<Rightarrow> Secret" and clock :: "'s \<Rightarrow> int"
  assumes clock_now: "wp (kNow k) (\<lambda>t s'. pods s' = pods s \<and> stored s' = stored s \<and> t = clock s) s"
    and pod_delete: "wp (kDeletePod k p) (\<lambda>e s'. stored s' = stored s \<and>
      (\<forall>q \<in> set (pods s'). q \<in> set (pods s) \<or> podDeleting q) \<and>
      (\<forall>q \<in> set (pods s). podUID q \<noteq> podUID p \<longrightarrow> q \<in> set (pods s')) \<and>
      (e = None \<or> (\<exists>x. e = Some x \<and> kIsNotFound k x) \<longrightarrow> (\<forall>q \<in> set (pods s'). podUID q = podUID p \<longrightarrow> podDeleting q))) s"
    and secret_update: "wp (kUpdateSecret k x) (\<lambda>e s'. pods s' = pods s \<and> (stored s' = x \<or> e \<noteq> None \<and> stored s' = stored s)) s"

text \<open>
  What a round does, from the pods it is given and the stored Secret: it waits for a restarted
  standby, or ends the rollout when no standby with the old password is left, or restarts the one
  with the highest ordinal.
\<close>

definition roundDone :: "Cluster \<Rightarrow> string \<Rightarrow> int \<Rightarrow> Pod list \<Rightarrow> Secret \<Rightarrow> Pod list \<Rightarrow> Secret \<Rightarrow> Secret \<Rightarrow> bool \<Rightarrow> error option \<Rightarrow> bool" where
  "roundDone c v now ps x ps' x' y rolling e \<longleftrightarrow>
     (let since = parseInt64 v * second
      in if \<exists>p \<in> set ps. pendingStandby c since now p then ps' = ps \<and> x' = x \<and> rolling \<and> e = None
         else if staleOrdinals c since ps = {}
         then ps' = ps \<and> rolloutRecord y = None \<and> (if e = None then x' = y \<and> \<not> rolling else rolling)
         else (\<exists>q \<in> set ps. stalePod c since q \<and> podOrdinal0 c q = Max (staleOrdinals c since ps) \<and> x' = x \<and> y = x \<and> rolling \<and>
           (\<forall>p \<in> set ps'. p \<in> set ps \<or> podDeleting p) \<and> (\<forall>p \<in> set ps. podUID p \<noteq> podUID q \<longrightarrow> p \<in> set ps') \<and>
           (e = None \<longrightarrow> (\<forall>p \<in> set ps'. podUID p = podUID q \<longrightarrow> podDeleting p))))"

lemma roundOf_Max:
  assumes "roundOf c since now ps (Some (Some q))"
  shows "podOrdinal0 c q = Max (staleOrdinals c since ps)" "staleOrdinals c since ps \<noteq> {}" "q \<in> set ps" "stalePod c since q"
proof -
  from assms have q: "q \<in> set ps" "stalePod c since q" "\<forall>i \<in> staleOrdinals c since ps. i \<le> podOrdinal0 c q" by (simp_all add: roundOf_def)
  then have m: "podOrdinal0 c q \<in> staleOrdinals c since ps" by (auto simp: staleOrdinals_def)
  with q(3) show "podOrdinal0 c q = Max (staleOrdinals c since ps)" by (intro Max_eqI [symmetric]) simp_all
  from m show "staleOrdinals c since ps \<noteq> {}" by blast
qed (use assms in \<open>simp_all add: roundOf_def\<close>)

context rollout_world
begin

lemma rollout_round:
  assumes "rolloutRecord (stored s) = Some v"
  shows "wp (rolloutReplicationPassword k c (stored s) (pods s)) (\<lambda>(y, rolling, e) s'.
    roundDone c v (clock s) (pods s) (stored s) (pods s') (stored s') y rolling e) s"
proof -
  let ?since = "parseInt64 v * second" and ?x = "stored s"
  let ?y = "?x\<lparr>secAnnotations := AList.delete AnnotationReplicationPasswordRollout (secAnnotations ?x)\<rparr>"
  note round = rolloutScan_exact [of c ?since "clock s" "pods s"]
  have gone: "rolloutRecord ?y = None" by (simp add: rolloutRecord_def delete_conv')
  have step: "wp (case rolloutScan c ?since (clock s) (pods s) (None, -1) of
        None \<Rightarrow> ret (?x, True, None)
      | Some None \<Rightarrow> State_Monad.bind (kUpdateSecret k ?y) (\<lambda>e. ret (?y, e \<noteq> None, e))
      | Some (Some stale) \<Rightarrow> State_Monad.bind (kDeletePod k stale) (\<lambda>e. ret (?x, True, case e of None \<Rightarrow> None
          | Some x \<Rightarrow> if kIsNotFound k x then None else Some (Wrapf ''failed to restart standby %s: %w'' [podName stale] x))))
      (\<lambda>(y, rolling, e) s'. roundDone c v (clock s) (pods s) ?x (pods s') (stored s') y rolling e) s1"
    if s1: "pods s1 = pods s" "stored s1 = ?x" for s1
  proof (cases "rolloutScan c ?since (clock s) (pods s) (None, -1)")
    case None
    with round s1 show ?thesis by (simp add: roundOf_def roundDone_def wp_ret)
  next
    case (Some r)
    show ?thesis
    proof (cases r)
      case None
      with round Some have stop: "\<not> (\<exists>p \<in> set (pods s). pendingStandby c ?since (clock s) p)" "staleOrdinals c ?since (pods s) = {}"
        by (simp_all add: roundOf_def)
      show ?thesis
        unfolding Some None option.case wp_bind wp_ret prod.case
        by (rule wp_mono [OF secret_update]) (use stop gone s1 in \<open>auto simp: roundDone_def Let_def\<close>)
    next
      case (Some q)
      with round \<open>_ = Some r\<close> have sc: "roundOf c ?since (clock s) (pods s) (Some (Some q))" by simp
      note q = roundOf_Max [OF sc]
      from sc have idle: "\<not> (\<exists>p \<in> set (pods s). pendingStandby c ?since (clock s) p)" by (simp add: roundOf_def)
      have restarted: "roundDone c v (clock s) (pods s) ?x (pods s2) (stored s2) ?x True e"
        if "stored s2 = ?x" "\<forall>p \<in> set (pods s2). p \<in> set (pods s) \<or> podDeleting p" "\<forall>p \<in> set (pods s). podUID p \<noteq> podUID q \<longrightarrow> p \<in> set (pods s2)"
          "e = None \<longrightarrow> (\<forall>p \<in> set (pods s2). podUID p = podUID q \<longrightarrow> podDeleting p)" for s2 e
        unfolding roundDone_def Let_def if_not_P [OF idle] if_not_P [OF q(2)]
        by (intro bexI [of _ q] conjI q refl TrueI that)
      show ?thesis
        unfolding \<open>_ = Some r\<close> Some option.case wp_bind wp_ret prod.case
        by (rule wp_mono [OF pod_delete]) (rule restarted, use s1 in \<open>auto split: option.splits if_splits\<close>)
    qed
  qed
  have recorded: "map_of (secAnnotations ?x) AnnotationReplicationPasswordRollout = Some v" using assms by (simp add: rolloutRecord_def)
  show ?thesis
    unfolding rolloutReplicationPassword_def recorded option.case Let_def wp_bind [of "kNow k"]
  proof (rule wp_mono [OF clock_now], goal_cases)
    case (1 t s1)
    then show ?case unfolding option.case using step [of s1] by simp
  qed
qed

end

section \<open>The rollout\<close>

text \<open>
  A rollout of the password recorded as \<open>v\<close>, with the number of rounds so far that neither waited nor
  reported an error. In between anything may happen that leaves the record and makes no pod older:
  rounds that wait or fail, pods that are deleted, replaced, or become ready.
\<close>

definition staleUIDs :: "Cluster \<Rightarrow> int \<Rightarrow> Pod list \<Rightarrow> string set" where
  "staleUIDs c since ps = podUID ` {p \<in> set ps. stalePod c since p}"

lemma finite_staleUIDs [simp]: "finite (staleUIDs c since ps)"
  by (simp add: staleUIDs_def)

inductive passwordRollout :: "'s kube \<Rightarrow> ('s \<Rightarrow> Pod list) \<Rightarrow> ('s \<Rightarrow> Secret) \<Rightarrow> ('s \<Rightarrow> int) \<Rightarrow> Cluster \<Rightarrow> string \<Rightarrow> 's \<Rightarrow> nat \<Rightarrow> 's \<Rightarrow> bool"
  for k pods stored clock c v s0 where
  start: "rolloutRecord (stored s0) = Some v \<Longrightarrow> passwordRollout k pods stored clock c v s0 0 s0"
| round: "passwordRollout k pods stored clock c v s0 n s \<Longrightarrow>
    run_state (rolloutReplicationPassword k c (stored s) (pods s)) s = ((y, rolling, None), s') \<Longrightarrow>
    \<forall>p \<in> set (pods s). \<not> pendingStandby c (parseInt64 v * second) (clock s) p \<Longrightarrow>
    rolloutRecord (stored s') = Some v \<Longrightarrow> passwordRollout k pods stored clock c v s0 (Suc n) s'"
| environment: "passwordRollout k pods stored clock c v s0 n s \<Longrightarrow> rolloutRecord (stored s') = Some v \<Longrightarrow>
    staleUIDs c (parseInt64 v * second) (pods s') \<subseteq> staleUIDs c (parseInt64 v * second) (pods s) \<Longrightarrow>
    passwordRollout k pods stored clock c v s0 n s'"

lemma passwordRollout_record: "passwordRollout k pods stored clock c v s0 n s \<Longrightarrow> rolloutRecord (stored s) = Some v"
  by (induction rule: passwordRollout.induct)

lemma roundDone_fewer:
  assumes "roundDone c v now ps x ps' x' y rolling None" and "\<forall>p \<in> set ps. \<not> pendingStandby c (parseInt64 v * second) now p"
    and "rolloutRecord x' = Some v"
  shows "Suc (card (staleUIDs c (parseInt64 v * second) ps')) \<le> card (staleUIDs c (parseInt64 v * second) ps)"
proof -
  let ?since = "parseInt64 v * second"
  from assms have "staleOrdinals c ?since ps \<noteq> {}" by (auto simp: roundDone_def Let_def split: if_splits)
  with assms(1,2) obtain q where q: "q \<in> set ps" "stalePod c ?since q"
    "\<forall>p \<in> set ps'. p \<in> set ps \<or> podDeleting p" "\<forall>p \<in> set ps'. podUID p = podUID q \<longrightarrow> podDeleting p"
    by (auto simp: roundDone_def Let_def split: if_splits)
  have "staleUIDs c ?since ps' \<subseteq> staleUIDs c ?since ps - {podUID q}"
    using q(3,4) by (auto simp: staleUIDs_def stalePod_def)
  then have "card (staleUIDs c ?since ps') \<le> card (staleUIDs c ?since ps - {podUID q})" by (intro card_mono) auto
  also have "\<dots> < card (staleUIDs c ?since ps)" by (intro card_Diff1_less) (use q(1,2) in \<open>auto simp: staleUIDs_def\<close>)
  finally show ?thesis by simp
qed

context rollout_world
begin

lemma rollout_counts:
  "passwordRollout k pods stored clock c v s0 n s \<Longrightarrow>
    n + card (staleUIDs c (parseInt64 v * second) (pods s)) \<le> card (staleUIDs c (parseInt64 v * second) (pods s0))"
proof (induction rule: passwordRollout.induct)
  case (round n s y rolling s')
  have "roundDone c v (clock s) (pods s) (stored s) (pods s') (stored s') y rolling None"
    using wp_run [OF rollout_round [OF passwordRollout_record [OF round.hyps(1)]] round.hyps(2)] by simp
  from roundDone_fewer [OF this round.hyps(3,4)] round.IH show ?case by simp
next
  case (environment n s s')
  have "card (staleUIDs c (parseInt64 v * second) (pods s')) \<le> card (staleUIDs c (parseInt64 v * second) (pods s))"
    by (rule card_mono [OF finite_staleUIDs environment.hyps(3)])
  with environment.IH show ?case by simp
qed simp

lemma rollout_step:
  assumes "passwordRollout k pods stored clock c v s0 n s"
    and "run_state (rolloutReplicationPassword k c (stored s) (pods s)) s = ((y, rolling, e), s')"
  shows "roundDone c v (clock s) (pods s) (stored s) (pods s') (stored s') y rolling e"
    and "n \<le> card (staleUIDs c (parseInt64 v * second) (pods s0))"
    and "n = card (staleUIDs c (parseInt64 v * second) (pods s0)) \<Longrightarrow> staleOrdinals c (parseInt64 v * second) (pods s) = {}"
proof -
  show "roundDone c v (clock s) (pods s) (stored s) (pods s') (stored s') y rolling e"
    using wp_run [OF rollout_round [OF passwordRollout_record [OF assms(1)]] assms(2)] by simp
  show "n \<le> card (staleUIDs c (parseInt64 v * second) (pods s0))"
    using rollout_counts [OF assms(1)] by simp
  show "staleOrdinals c (parseInt64 v * second) (pods s) = {}" if "n = card (staleUIDs c (parseInt64 v * second) (pods s0))"
    using rollout_counts [OF assms(1)] that by (auto simp: staleOrdinals_def staleUIDs_def)
qed

end

interpretation refRollout: rollout_world refKube rwPods rwSecret refClock
  by unfold_locales (auto simp: refKube_def wp_faulty wp_State)

text \<open>
  C36. The rollout of a new replication password ends and never takes two standbys away at once. In
  every round with a fresh list of pods: while a restarted standby is not back and had less than ten
  minutes, nothing changes; otherwise, when standbys with the old password are left, exactly the one
  with the highest ordinal is restarted and no other pod is touched; when none is left the record of
  the rollout is removed, from the stored Secret too unless the update reports an error. At
  most as many rounds restart a standby as standbys ran with the old password at the start, and after
  that many the next round, once the restarted standbys had their ten minutes and unless the update
  fails, removes the record.
\<close>

theorem rollout_terminates:
  assumes "rollout_world k pods stored clock"
    and "passwordRollout k pods stored clock c v s0 n s"
    and "run_state (rolloutReplicationPassword k c (stored s) (pods s)) s = ((secret', rolling, err), s')"
  defines "since \<equiv> parseInt64 v * second"
  shows "n \<le> card (podUID ` {p \<in> set (pods s0). stalePod c since p}) \<and>
    (if \<exists>p \<in> set (pods s). pendingStandby c since (clock s) p
     then pods s' = pods s \<and> stored s' = stored s \<and> rolling \<and> err = None
     else if \<forall>p \<in> set (pods s). \<not> stalePod c since p
     then pods s' = pods s \<and> map_of (secAnnotations secret') AnnotationReplicationPasswordRollout = None \<and>
       (if err = None then stored s' = secret' \<and> \<not> rolling else rolling)
     else \<exists>q \<in> set (pods s). stalePod c since q \<and> (\<forall>p \<in> set (pods s). stalePod c since p \<longrightarrow> podOrdinal0 c p \<le> podOrdinal0 c q) \<and>
       stored s' = stored s \<and> rolling \<and> (\<forall>p \<in> set (pods s). podUID p \<noteq> podUID q \<longrightarrow> p \<in> set (pods s')) \<and>
       (err = None \<longrightarrow> (\<forall>p \<in> set (pods s'). podUID p = podUID q \<longrightarrow> podDeleting p))) \<and>
    (n = card (podUID ` {p \<in> set (pods s0). stalePod c since p}) \<and> (\<forall>p \<in> set (pods s). podCreated p + rolloutStandbyTimeout \<le> clock s) \<and>
       err = None \<longrightarrow> map_of (secAnnotations (stored s')) AnnotationReplicationPasswordRollout = None)"
proof (intro conjI impI)
  note step = rollout_world.rollout_step [OF assms(1-3)]
  have none: "staleOrdinals c since (pods s) = {} \<longleftrightarrow> (\<forall>p \<in> set (pods s). \<not> stalePod c since p)"
    by (auto simp: staleOrdinals_def)
  note done' = step(1) [unfolded roundDone_def Let_def since_def [symmetric] none rolloutRecord_def]
  show "n \<le> card (podUID ` {p \<in> set (pods s0). stalePod c since p})"
    using step(2) by (simp add: staleUIDs_def since_def)
  have max: "\<forall>p \<in> set (pods s). stalePod c since p \<longrightarrow> podOrdinal0 c p \<le> Max (staleOrdinals c since (pods s))"
    by (auto simp: staleOrdinals_def)
  show "if \<exists>p \<in> set (pods s). pendingStandby c since (clock s) p
     then pods s' = pods s \<and> stored s' = stored s \<and> rolling \<and> err = None
     else if \<forall>p \<in> set (pods s). \<not> stalePod c since p
     then pods s' = pods s \<and> map_of (secAnnotations secret') AnnotationReplicationPasswordRollout = None \<and>
       (if err = None then stored s' = secret' \<and> \<not> rolling else rolling)
     else \<exists>q \<in> set (pods s). stalePod c since q \<and> (\<forall>p \<in> set (pods s). stalePod c since p \<longrightarrow> podOrdinal0 c p \<le> podOrdinal0 c q) \<and>
       stored s' = stored s \<and> rolling \<and> (\<forall>p \<in> set (pods s). podUID p \<noteq> podUID q \<longrightarrow> p \<in> set (pods s')) \<and>
       (err = None \<longrightarrow> (\<forall>p \<in> set (pods s'). podUID p = podUID q \<longrightarrow> podDeleting p))"
  proof (cases "\<exists>p \<in> set (pods s). pendingStandby c since (clock s) p")
    case True
    with done' show ?thesis by simp
  next
    case idle: False
    note done2 = done' [unfolded if_not_P [OF idle]]
    show ?thesis
    proof (cases "\<forall>p \<in> set (pods s). \<not> stalePod c since p")
      case True
      with idle done2 show ?thesis by simp
    next
      case False
      from done2 [unfolded if_not_P [OF False]] obtain q where q: "q \<in> set (pods s)" "stalePod c since q" "stored s' = stored s" rolling
        "podOrdinal0 c q = Max (staleOrdinals c since (pods s))" "\<forall>p \<in> set (pods s). podUID p \<noteq> podUID q \<longrightarrow> p \<in> set (pods s')"
        "err = None \<longrightarrow> (\<forall>p \<in> set (pods s'). podUID p = podUID q \<longrightarrow> podDeleting p)" by blast
      show ?thesis
        unfolding if_not_P [OF idle] if_not_P [OF False]
        by (intro bexI [of _ q] conjI q max [folded q(5)])
    qed
  qed
  assume last_round: "n = card (podUID ` {p \<in> set (pods s0). stalePod c since p}) \<and>
    (\<forall>p \<in> set (pods s). podCreated p + rolloutStandbyTimeout \<le> clock s) \<and> err = None"
  then have "\<forall>p \<in> set (pods s). \<not> stalePod c since p"
    using step(3) none by (simp add: staleUIDs_def since_def)
  moreover have "\<not> (\<exists>p \<in> set (pods s). pendingStandby c since (clock s) p)"
    using last_round by (auto simp: pendingStandby_def)
  ultimately show "map_of (secAnnotations (stored s')) AnnotationReplicationPasswordRollout = None"
    using done' last_round by simp
qed

text \<open>One standby ran with the old password: the first round restarts it, the second ends the rollout.\<close>

definition exRolloutSecret :: Secret where
  "exRolloutSecret = exSecret\<lparr>secAnnotations := [(AnnotationReplicationPasswordRollout, ''5'')]\<rparr>"

definition exRolloutWorld :: "Pod list \<Rightarrow> Secret \<Rightarrow> nat \<Rightarrow> replWorld" where
  "exRolloutWorld ps x n = exReplWorld\<lparr>rwNow := 3600 * second, rwPods := ps, rwSecret := x, rwRestarts := n\<rparr>"

lemma exRolloutRuns:
  "run_state (rolloutReplicationPassword refKube (exCluster 2) exRolloutSecret [exPod ''pg-0'' True 0, exPod ''pg-1'' True 0])
     (exRolloutWorld [exPod ''pg-0'' True 0, exPod ''pg-1'' True 0] exRolloutSecret 0) =
   ((exRolloutSecret, True, None), exRolloutWorld [exPod ''pg-0'' True 0] exRolloutSecret 1)"
  "run_state (rolloutReplicationPassword refKube (exCluster 2) exRolloutSecret [exPod ''pg-0'' True 0])
     (exRolloutWorld [exPod ''pg-0'' True 0] exRolloutSecret 1) =
   ((exSecret, False, None), exRolloutWorld [exPod ''pg-0'' True 0] exSecret 1)"
  by code_simp+

lemma exRollout_world_simps:
  "rwPods (exRolloutWorld ps x n) = ps" "rwSecret (exRolloutWorld ps x n) = x" "refClock (exRolloutWorld ps x n) = 3600 * second"
  by (simp_all add: exRolloutWorld_def refClock_def unixSeconds_def)

theorem rollout_terminates_witness: "map_of (secAnnotations exSecret) AnnotationReplicationPasswordRollout = None"
proof -
  let ?s0 = "exRolloutWorld [exPod ''pg-0'' True 0, exPod ''pg-1'' True 0] exRolloutSecret 0"
  let ?s1 = "exRolloutWorld [exPod ''pg-0'' True 0] exRolloutSecret 1"
  have recorded: "rolloutRecord exRolloutSecret = Some ''5''" by code_simp
  have idle: "\<forall>p \<in> set [exPod ''pg-0'' True 0, exPod ''pg-1'' True 0]. \<not> pendingStandby (exCluster 2) (parseInt64 ''5'' * second) (3600 * second) p"
    by code_simp
  have "passwordRollout refKube rwPods rwSecret refClock (exCluster 2) ''5'' ?s0 0 ?s0"
    by (rule passwordRollout.start) (simp add: exRollout_world_simps recorded)
  then have one: "passwordRollout refKube rwPods rwSecret refClock (exCluster 2) ''5'' ?s0 (Suc 0) ?s1"
    by (rule passwordRollout.round) (use exRolloutRuns(1) idle recorded in \<open>simp_all only: exRollout_world_simps\<close>)
  have uids: "podUID ` {p \<in> set [exPod ''pg-0'' True 0, exPod ''pg-1'' True 0]. stalePod (exCluster 2) (parseInt64 ''5'' * second) p} = {''uid-pg-1''}"
    by code_simp
  have due: "\<forall>p \<in> set [exPod ''pg-0'' True 0]. podCreated p + rolloutStandbyTimeout \<le> 3600 * second" by code_simp
  have two: "run_state (rolloutReplicationPassword refKube (exCluster 2) (rwSecret ?s1) (rwPods ?s1)) ?s1 =
      ((exSecret, False, None), exRolloutWorld [exPod ''pg-0'' True 0] exSecret 1)"
    unfolding exRollout_world_simps by (rule exRolloutRuns(2))
  from rollout_terminates [OF refRollout.rollout_world_axioms one two, THEN conjunct2, THEN conjunct2]
  show ?thesis unfolding exRollout_world_simps uids using due by simp
qed

end
