(* ===== verification/Public_Privileges.thy ===== *)
theory Public_Privileges
  imports Database_Properties
begin

text \<open>
  The privileges of PUBLIC (\<open>reconcilePublicPrivileges\<close> of \<open>internal/controller/database_grants.go\<close>):
  what one round of the loop and the whole loop do on every server that honours the contract of
  GRANT, REVOKE and the catalog queries, and the safety of the reconcile.
\<close>

section \<open>The contract\<close>

text \<open>
  \<open>marked\<close> are the revoked privileges recorded in the stored status of the Database; \<open>present\<close> tells
  which objects exist. PUBLIC owns nothing, so it is a subject of the contract on every object. A
  query changes no access-control entry, a statement writes no status, and a status write takes
  effect or fails, and may also take effect although it reports an error.
\<close>

locale public_server = pg_server db scs None subject privsOf optsOf "\<lambda>_. []"
  for db :: "'s db" and scs and subject :: "aclKey \<Rightarrow> bool" and privsOf :: "'s \<Rightarrow> aclKey \<Rightarrow> string set" and optsOf +
  fixes save :: "Database \<Rightarrow> ('s, error option) state" and marked :: "'s \<Rightarrow> PublicPrivilege set"
    and present :: "ObjectKind \<times> string list \<Rightarrow> bool"
  assumes public_subject: "subject (kind, name, None)"
    and exec_marked: "wp (execDb db q) (\<lambda>e s'. marked s' = marked s) s"
    and query_marked: "wp (queryDb db q args) (\<lambda>r s'. marked s' = marked s) s"
    and query_any: "heldFromAnyGrantorQueries kind = Some q \<Longrightarrow> wp (queryDb db q args) (\<lambda>r s'. sameAcl privsOf optsOf s s') s"
    and query_present: "heldPrivilegesQueries kind = Some q \<Longrightarrow>
      wp (queryDb db q [SText n, SBool (IsPublic gr), SText gr]) (\<lambda>r s'. r = Inr ([], None) \<longrightarrow> \<not> present (kind, objParts \<lparr>Kind = kind, Name = n\<rparr>)) s"
    and save_marks: "wp (save d) (\<lambda>e s'. sameAcl privsOf optsOf s s' \<and>
      (e = None \<longrightarrow> marked s' = set (dtRevokedPublicPrivileges (dbStatus d))) \<and>
      (marked s' = marked s \<or> marked s' = set (dtRevokedPublicPrivileges (dbStatus d)))) s"

section \<open>Items\<close>

definition publicObject :: "string \<Rightarrow> publicPrivilegeItem \<Rightarrow> PrivilegeObject" where
  "publicObject pgName it = \<lparr>Kind = piKind it, Name = (if piKind it = ObjectSchema then publicSchemaName else pgName)\<rparr>"

definition publicKey :: "string \<Rightarrow> publicPrivilegeItem \<Rightarrow> aclKey" where
  "publicKey pgName it = (piKind it, objParts (publicObject pgName it), None)"

definition wantsRevoked :: "Database \<Rightarrow> publicPrivilegeItem \<Rightarrow> bool" where
  "wantsRevoked database it = revokeRequested it (dsPublicPrivileges (dbSpec database))"

definition publicTarget :: "string \<Rightarrow> publicPrivilegeItem \<Rightarrow> grantTarget" where
  "publicTarget pgName it = (if piKind it = ObjectDatabase then databaseTarget pgName PublicGrantee else schemaTarget publicSchemaName PublicGrantee)"

lemma publicItem_cases:
  assumes "it \<in> set publicPrivilegeItems"
  shows "piKind it = ObjectDatabase \<and> piPrivilege it \<in> {PrivilegeConnect, PrivilegeTemporary} \<or>
    piKind it = ObjectSchema \<and> piPrivilege it \<in> {PrivilegeUsage, PrivilegeCreate}"
  using assms by (auto simp: publicPrivilegeItems_def)

lemma publicItem_name: "it \<in> set publicPrivilegeItems \<Longrightarrow> piPrivilege it \<in> aclNames"
  by (drule publicItem_cases) (auto simp: aclNames_def)

lemma publicFields_distinct: "distinct (map piField publicPrivilegeItems)"
  by code_simp

lemma publicItems_distinct:
  assumes "it \<in> set publicPrivilegeItems" and "it' \<in> set publicPrivilegeItems" and "it \<noteq> it'"
  shows "piField it \<noteq> piField it'" and "publicKey pgName it = publicKey pgName it' \<Longrightarrow> piPrivilege it \<noteq> piPrivilege it'"
proof -
  have "distinct (map piField publicPrivilegeItems)" "distinct (map (\<lambda>it. (piKind it, piPrivilege it)) publicPrivilegeItems)"
    by code_simp+
  then have "inj_on piField (set publicPrivilegeItems)" "inj_on (\<lambda>it. (piKind it, piPrivilege it)) (set publicPrivilegeItems)"
    by (simp_all only: distinct_map)
  with assms show "piField it \<noteq> piField it'" "publicKey pgName it = publicKey pgName it' \<Longrightarrow> piPrivilege it \<noteq> piPrivilege it'"
    by (auto simp: publicKey_def dest: inj_onD)
qed

lemma publicTarget_named:
  assumes "it \<in> set publicPrivilegeItems" and "pgName \<noteq> []" and "length pgName \<le> nameDataLen"
  shows "namedTarget (publicTarget pgName it)" and "targetObject (publicTarget pgName it) = publicObject pgName it"
    and "tGrantee (publicTarget pgName it) = PublicGrantee" and "aclKeyOf (publicTarget pgName it) = publicKey pgName it"
proof -
  have pub: "validGrantee PublicGrantee" "CanonicalGrantee PublicGrantee = PublicGrantee" "granteeOf PublicGrantee = None" by code_simp+
  have schema: "namedTarget (schemaTarget publicSchemaName PublicGrantee)" by code_simp
  show "namedTarget (publicTarget pgName it)"
    using assms(2,3) schema pub(1) databaseTarget_named by (simp add: publicTarget_def)
  show t: "targetObject (publicTarget pgName it) = publicObject pgName it" "tGrantee (publicTarget pgName it) = PublicGrantee"
    using publicItem_cases [OF assms(1)] by (auto simp: publicTarget_def targetObject_def publicObject_def pub)
  have "tKind (publicTarget pgName it) = piKind it"
    using publicItem_cases [OF assms(1)] by (auto simp: publicTarget_def)
  then show "aclKeyOf (publicTarget pgName it) = publicKey pgName it"
    by (simp add: aclKeyOf_def publicKey_def t pub)
qed

section \<open>What a part of the loop does\<close>

text \<open>
  \<open>publicPost\<close>: privileges and the record before and after the items \<open>its\<close>. \<open>cacheOk\<close>: what the cache
  says of the items still to come is true of the server. \<open>markedOk\<close>: the record of a privilege that
  stays revoked is in the stored status.
\<close>

definition cacheOk :: "('s \<Rightarrow> aclKey \<Rightarrow> string set) \<Rightarrow> (ObjectKind \<times> string list \<Rightarrow> bool) \<Rightarrow> string \<Rightarrow> publicPrivilegeItem list
    \<Rightarrow> publicRun \<Rightarrow> 's \<Rightarrow> bool" where
  "cacheOk privsOf present pgName its u s \<longleftrightarrow>
     (\<forall>it \<in> set its. \<forall>privs found. map_of (puCache u) (publicObject pgName it) = Some (privs, found) \<longrightarrow>
        (piPrivilege it \<in> set privs \<longleftrightarrow> piPrivilege it \<in> privsOf s (publicKey pgName it)) \<and>
        (\<not> found \<longrightarrow> piPrivilege it \<notin> set privs \<and> \<not> present (piKind it, objParts (publicObject pgName it))))"

definition markedOk :: "Database \<Rightarrow> PublicPrivilege set \<Rightarrow> publicRun \<Rightarrow> bool" where
  "markedOk database m u \<longleftrightarrow>
     (\<forall>it \<in> set publicPrivilegeItems. wantsRevoked database it \<longrightarrow> piField it \<in> set (puRecorded u) \<longrightarrow> piField it \<in> m)"

definition publicPost :: "Database \<Rightarrow> ('s \<Rightarrow> aclKey \<Rightarrow> string set) \<Rightarrow> ('s \<Rightarrow> aclKey \<Rightarrow> string set)
    \<Rightarrow> (ObjectKind \<times> string list \<Rightarrow> bool) \<Rightarrow> string \<Rightarrow> publicPrivilegeItem set \<Rightarrow> publicRun \<Rightarrow> 's \<Rightarrow> error option \<Rightarrow> publicRun \<Rightarrow> 's \<Rightarrow> bool" where
  "publicPost database privsOf optsOf present pgName its u s e u' s' \<longleftrightarrow>
     (\<forall>k. \<forall>p \<in> privsOf s k - privsOf s' k. \<exists>it \<in> its. k = publicKey pgName it \<and> p = piPrivilege it \<and>
        wantsRevoked database it \<and> \<not> publicGrantConflict database it \<and> piField it \<in> set (puRecorded u')) \<and>
     (\<forall>k. \<forall>p \<in> privsOf s' k - privsOf s k. \<exists>it \<in> its. k = publicKey pgName it \<and> p = piPrivilege it \<and>
        \<not> wantsRevoked database it \<and> piField it \<in> set (puRecorded u)) \<and>
     (\<forall>k. optsOf s' k \<subseteq> optsOf s k) \<and>
     (\<forall>f \<in> set (puRecorded u) - set (puRecorded u'). \<exists>it \<in> its. f = piField it \<and> \<not> wantsRevoked database it \<and>
        (piPrivilege it \<in> privsOf s' (publicKey pgName it) \<or> \<not> present (piKind it, objParts (publicObject pgName it)))) \<and>
     (\<forall>f \<in> set (puRecorded u') - set (puRecorded u). \<exists>it \<in> its. f = piField it \<and> wantsRevoked database it \<and>
        piPrivilege it \<in> privsOf s (publicKey pgName it)) \<and>
     (set (puErrs u') \<subseteq> {None} \<longrightarrow> set (puErrs u) \<subseteq> {None}) \<and> (puConflicts u' = [] \<longrightarrow> puConflicts u = []) \<and>
     (e = None \<and> set (puErrs u') \<subseteq> {None} \<and> puConflicts u' = [] \<longrightarrow>
        (\<forall>it \<in> its. if wantsRevoked database it then piPrivilege it \<notin> privsOf s' (publicKey pgName it)
           else piField it \<notin> set (puRecorded u')))"

text \<open>What GRANT and REVOKE of one privilege change, under any key.\<close>

lemma revokeEffect_single:
  assumes "revokeEffect holds options k [p] \<lparr>GrantOptionOnly = False, Cascade = c\<rparr> s e s'"
  shows "holds s' k' \<subseteq> holds s k'" and "options s' k' \<subseteq> options s k'" and "holds s k' - holds s' k' \<subseteq> {q. k' = k \<and> q = p}"
    and "e = None \<Longrightarrow> p \<notin> holds s' k"
  using assms by (cases "k' = k"; simp add: revokeEffect_def; blast)+

lemma grantEffect_single:
  assumes "grantEffect holds options k [p] False s e s'"
  shows "holds s k' \<subseteq> holds s' k'" and "options s' k' = options s k'" and "holds s' k' - holds s k' \<subseteq> {q. k' = k \<and> q = p}"
    and "e = None \<Longrightarrow> p \<in> holds s' k"
  using assms by (cases "k' = k"; simp add: grantEffect_def; blast)+

section \<open>One round\<close>

context public_server
begin

abbreviation itemPresent :: "string \<Rightarrow> publicPrivilegeItem \<Rightarrow> bool" where
  "itemPresent pgName it \<equiv> present (piKind it, objParts (publicObject pgName it))"

abbreviation itemHeld :: "string \<Rightarrow> publicPrivilegeItem \<Rightarrow> 's \<Rightarrow> bool" where
  "itemHeld pgName it s \<equiv> piPrivilege it \<in> privsOf s (publicKey pgName it)"

lemma held_absent:
  assumes "heldPrivilegesQueries (Kind obj) = Some q" and "Kind obj \<noteq> ObjectParameter"
  shows "wp (HeldPrivileges db obj g) (\<lambda>r s'. marked s' = marked s \<and>
    (\<forall>p gr. r = Inr (p, gr, False) \<longrightarrow> p = [] \<and> \<not> present (Kind obj, objParts obj))) s"
proof -
  have obj: "\<lparr>Kind = Kind obj, Name = Name obj\<rparr> = obj" by simp
  have empty: "scanRows scanHeld rows = Inr [] \<Longrightarrow> rows = []" for rows
    by (cases rows) (auto split: sum.splits)
  have absent: "rows = []" if "scanRows scanHeld rows = Inr hs" "readHeld hs = (p, gr, False)" for rows hs p gr
    using that empty by (auto simp: readHeld_def Let_def)
  show ?thesis
    unfolding HeldPrivileges_def queryRows_def assms(1) option.case if_not_P [OF assms(2)] sum.case wp_bind wp_ret
    by (rule wp_mono [OF wp_both [OF query_marked query_present [OF assms(1)]]])
      (use absent in \<open>fastforce simp: readHeld_def Let_def obj split: sum.splits option.splits prod.splits\<close>)
qed

lemma publicHolds_post:
  assumes it: "it \<in> set its" "set its \<subseteq> set publicPrivilegeItems" and pg: "pgName \<noteq> []" "length pgName \<le> nameDataLen"
    and cache: "cacheOk privsOf present pgName its u s"
  shows "wp (publicHolds db (publicObject pgName it) u) (\<lambda>(r, u1) s1. sameAcl privsOf optsOf s s1 \<and> marked s1 = marked s \<and>
    puRecorded u1 = puRecorded u \<and> puErrs u1 = puErrs u \<and> puConflicts u1 = puConflicts u \<and> cacheOk privsOf present pgName its u1 s1 \<and>
    (\<forall>privs found. r = Inr (privs, found) \<longrightarrow> (piPrivilege it \<in> set privs \<longleftrightarrow> itemHeld pgName it s) \<and>
      (\<not> found \<longrightarrow> piPrivilege it \<notin> set privs \<and> \<not> itemPresent pgName it))) s"
proof (cases "map_of (puCache u) (publicObject pgName it)")
  case (Some h)
  with cache it(1) show ?thesis
    by (auto simp: publicHolds_def wp_ret cacheOk_def sameAcl_def)
next
  case None
  have item: "it \<in> set publicPrivilegeItems" using it by blast
  note t = publicTarget_named [OF item pg]
  have kind: "Kind (publicObject pgName it) = piKind it" by (simp add: publicObject_def)
  obtain q where q: "heldPrivilegesQueries (Kind (publicObject pgName it)) = Some q" "Kind (publicObject pgName it) \<noteq> ObjectParameter"
    using publicItem_cases [OF item] by (auto simp: kind heldPrivilegesQueries_def)
  have subj: "subject (aclKeyOf (publicTarget pgName it))" using public_subject by (simp add: t publicKey_def)
  have eq: "piKind it' = piKind it" if "publicObject pgName it' = publicObject pgName it" for it'
    using that by (simp add: publicObject_def)
  have key: "publicKey pgName it' = publicKey pgName it" if "publicObject pgName it' = publicObject pgName it" for it'
    using that eq [OF that] by (simp add: publicKey_def)
  have "wp (HeldPrivileges db (publicObject pgName it) PublicGrantee) (\<lambda>r s'. (sameAcl privsOf optsOf s s' \<and> ([] :: privilegeGrant list) = [] \<and>
      (\<forall>p g f. r = Inr (p, g, f) \<longrightarrow> set p = privsOf s (publicKey pgName it) \<and> set g = optsOf s (publicKey pgName it))) \<and>
      (marked s' = marked s \<and> (\<forall>p gr. r = Inr (p, gr, False) \<longrightarrow> p = [] \<and> \<not> itemPresent pgName it))) s"
    by (rule wp_both [OF held_ok [OF t(1) subj, unfolded t(2-4)] held_absent [OF q, unfolded kind]])
  then show ?thesis
    unfolding publicHolds_def None option.case wp_bind wp_ret
  proof (rule wp_mono, goal_cases)
    case (1 r s')
    show ?case
    proof (cases r)
      case (Inl e)
      with 1 cache show ?thesis by (auto simp: cacheOk_def sameAcl_def)
    next
      case (Inr x)
      obtain p g f where x: "x = (p, g, f)" by (cases x)
      with 1 Inr have facts: "sameAcl privsOf optsOf s s'" "marked s' = marked s" "set p = privsOf s (publicKey pgName it)"
        "\<not> f \<Longrightarrow> p = [] \<and> \<not> itemPresent pgName it" by auto
      have "cacheOk privsOf present pgName its (u\<lparr>puCache := AList.update (publicObject pgName it) (p, f) (puCache u)\<rparr>) s'"
        unfolding cacheOk_def
      proof (intro ballI allI impI)
        fix it' privs found
        assume a: "it' \<in> set its" "map_of (puCache (u\<lparr>puCache := AList.update (publicObject pgName it) (p, f) (puCache u)\<rparr>)) (publicObject pgName it') = Some (privs, found)"
        show "(piPrivilege it' \<in> set privs \<longleftrightarrow> piPrivilege it' \<in> privsOf s' (publicKey pgName it')) \<and>
          (\<not> found \<longrightarrow> piPrivilege it' \<notin> set privs \<and> \<not> itemPresent pgName it')"
        proof (cases "publicObject pgName it' = publicObject pgName it")
          case True
          with a(2) have "privs = p" "found = f" by (simp_all add: map_of_update)
          with facts show ?thesis by (auto simp: key [OF True] eq [OF True] True sameAcl_def)
        next
          case False
          with a cache facts(1) show ?thesis by (auto simp: cacheOk_def sameAcl_def map_of_update)
        qed
      qed
      with facts show ?thesis by (auto simp: Inr x)
    qed
  qed
qed

text \<open>The check for other grantors only reads.\<close>

lemma checkStillHeld_post:
  "wp (checkStillHeld db obj it u) (\<lambda>u' s'. sameAcl privsOf optsOf s s' \<and> marked s' = marked s \<and> puRecorded u' = puRecorded u \<and>
    puCache u' = puCache u \<and> puConflicts u' = puConflicts u \<and> (set (puErrs u') \<subseteq> {None} \<longrightarrow> set (puErrs u) \<subseteq> {None})) s"
proof (cases "heldFromAnyGrantorQueries (Kind obj)")
  case None
  then show ?thesis by (simp add: checkStillHeld_def HeldFromAnyGrantor_def wp_bind wp_ret sameAcl_def)
next
  case (Some q)
  show ?thesis
    unfolding checkStillHeld_def HeldFromAnyGrantor_def Some option.case queryBool_def queryRow_def wp_bind wp_ret
    by (rule wp_mono [OF wp_both [OF query_any [OF Some] query_marked]]) (auto split: sum.splits)
qed

text \<open>Revoking an item: the record goes first.\<close>

lemma recordBeforeRevoke_post:
  assumes "it \<in> set publicPrivilegeItems" and "markedOk database (marked s) u"
  shows "wp (recordBeforeRevoke database (Some save) (piField it) u) (\<lambda>(ok, u') s'. sameAcl privsOf optsOf s s' \<and>
    markedOk database (marked s') u' \<and> puCache u' = puCache u \<and> puConflicts u' = puConflicts u \<and> (set (puErrs u') \<subseteq> {None} \<longrightarrow> set (puErrs u) \<subseteq> {None} \<and> ok) \<and>
    (if ok then set (puRecorded u') = insert (piField it) (set (puRecorded u)) else puRecorded u' = puRecorded u)) s"
proof (cases "piField it \<in> set (puRecorded u)")
  case True
  with assms(2) show ?thesis by (auto simp: recordBeforeRevoke_def wp_ret sameAcl_def)
next
  case False
  let ?d = "recordPublic database (piField it # puRecorded u)"
  have d: "set (dtRevokedPublicPrivileges (dbStatus ?d)) = piField ` set publicPrivilegeItems \<inter> set (piField it # puRecorded u)"
    by (auto simp: recordPublic_def)
  have m: "markedOk database m (u\<lparr>puRecorded := piField it # puRecorded u\<rparr>)" if "m = set (dtRevokedPublicPrivileges (dbStatus ?d))" for m
    unfolding that d by (auto simp: markedOk_def)
  have m': "markedOk database m u" if "m = set (dtRevokedPublicPrivileges (dbStatus ?d))" for m
    unfolding that d by (auto simp: markedOk_def)
  have up: "markedOk database m (u\<lparr>puErrs := es\<rparr>) = markedOk database m u" for m es by (simp add: markedOk_def)
  show ?thesis
    unfolding recordBeforeRevoke_def if_not_P [OF False] wp_bind runSaver_def option.case wp_ret
  proof (rule wp_mono [OF save_marks], goal_cases)
    case (1 e s')
    with assms(2) m m' show ?case by (cases e) (auto simp: up)
  qed
qed

lemma revokePublic_post:
  assumes it: "it \<in> set publicPrivilegeItems" and pg: "pgName \<noteq> []" "length pgName \<le> nameDataLen"
    and m: "markedOk database (marked s) u"
  shows "wp (revokePublic db database (Some save) (publicObject pgName it) it u) (\<lambda>u' s'.
    (\<forall>k. privsOf s' k \<subseteq> privsOf s k \<and> optsOf s' k \<subseteq> optsOf s k \<and> privsOf s k - privsOf s' k \<subseteq> {p. k = publicKey pgName it \<and> p = piPrivilege it}) \<and>
    (privsOf s' = privsOf s \<or> piField it \<in> set (puRecorded u')) \<and> markedOk database (marked s') u' \<and>
    puCache u' = puCache u \<and> puConflicts u' = puConflicts u \<and> set (puRecorded u) \<subseteq> set (puRecorded u') \<and>
    set (puRecorded u') \<subseteq> insert (piField it) (set (puRecorded u)) \<and>
    (set (puErrs u') \<subseteq> {None} \<longrightarrow> set (puErrs u) \<subseteq> {None} \<and> \<not> itemHeld pgName it s')) s"
proof -
  let ?mode = "\<lparr>GrantOptionOnly = False, Cascade = False\<rparr>"
  note t = publicTarget_named [OF it pg]
  have subj: "subject (aclKeyOf (publicTarget pgName it))" using public_subject by (simp add: t publicKey_def)
  have revoke: "wp (RevokePrivileges db (publicObject pgName it) PublicGrantee [piPrivilege it] ?mode)
      (\<lambda>e s'. (revokeEffect privsOf optsOf (publicKey pgName it) [piPrivilege it] ?mode s1 e s' \<and> ([] :: privilegeGrant list) = []) \<and> marked s' = marked s1) s1" for s1
  proof (rule wp_both)
    show "wp (RevokePrivileges db (publicObject pgName it) PublicGrantee [piPrivilege it] ?mode) (\<lambda>e s'. marked s' = marked s1) s1"
      by (auto simp: RevokePrivileges_def execWrap_def wp_bind wp_ret wp_case_sum exec_marked split: sum.splits)
  qed (use revoke_ok [OF t(1) subj, unfolded t(2-4)] publicItem_name [OF it] in simp)
  have err: "markedOk database x (u1\<lparr>puErrs := es\<rparr>) = markedOk database x u1" for x u1 es by (simp add: markedOk_def)
  have same: "markedOk database x u2 = markedOk database x u1" if "puRecorded u2 = puRecorded u1" for x u1 u2
    using that by (simp add: markedOk_def)
  show ?thesis
    unfolding revokePublic_def wp_bind wp_case_prod wp_if wp_ret
  proof (rule wp_mono [OF recordBeforeRevoke_post [OF it m]], goal_cases)
    case (1 a s1)
    obtain ok u1 where a: "a = (ok, u1)" by (cases a)
    from 1 have acl: "privsOf s1 = privsOf s" "optsOf s1 = optsOf s" and m1: "markedOk database (marked s1) u1"
      and u1: "puCache u1 = puCache u" "puConflicts u1 = puConflicts u" "set (puErrs u1) \<subseteq> {None} \<Longrightarrow> set (puErrs u) \<subseteq> {None} \<and> ok"
      and rec: "if ok then set (puRecorded u1) = insert (piField it) (set (puRecorded u)) else puRecorded u1 = puRecorded u"
      by (simp_all add: a sameAcl_def)
    show ?case
    proof (cases ok)
      case False
      with acl m1 u1 rec show ?thesis by (auto simp: a)
    next
      case True
      then have nok: "(\<not> ok) = False" by simp
      have rec': "set (puRecorded u1) = insert (piField it) (set (puRecorded u))" using rec True by simp
      show ?thesis
        unfolding a prod.case nok if_False
      proof (rule wp_mono [OF revoke], goal_cases)
        case (1 e s2)
        then have eff: "revokeEffect privsOf optsOf (publicKey pgName it) [piPrivilege it] ?mode s1 e s2" and m2: "marked s2 = marked s1" by blast+
        note eff' = revokeEffect_single [OF eff, unfolded acl]
        show ?case
        proof (cases e)
          case None
          note gone = eff'(4) [OF None]
          have noerr: "(e \<noteq> None) = False" by (simp add: None)
          show ?thesis unfolding noerr if_False
          proof (rule wp_mono [OF checkStillHeld_post], goal_cases)
            case (1 u' s3)
            then have c: "privsOf s3 = privsOf s2" "optsOf s3 = optsOf s2" "marked s3 = marked s1" "puRecorded u' = puRecorded u1"
              "puCache u' = puCache u" "puConflicts u' = puConflicts u" "set (puErrs u') \<subseteq> {None} \<Longrightarrow> set (puErrs u) \<subseteq> {None}"
              using m2 u1 by (simp_all add: sameAcl_def)
            show ?case unfolding c(1-6) same [OF c(4)] rec'
              by (intro conjI allI impI eff'(1-3) m1 c(7) gone refl) auto
          qed
        next
          case (Some x)
          then have err': "(e \<noteq> None) = True" by simp
          show ?thesis unfolding err' if_True
            by (intro conjI allI impI eff'(1-3)) (use m1 m2 u1 rec' in \<open>simp_all add: err subset_insertI Some\<close>)
        qed
      qed
    qed
  qed
qed

text \<open>Granting a privilege back.\<close>

lemma grantBackPublic_post:
  assumes it: "it \<in> set publicPrivilegeItems" and pg: "pgName \<noteq> []" "length pgName \<le> nameDataLen"
    and m: "markedOk database (marked s) u" and wants: "\<not> wantsRevoked database it"
  shows "wp (grantBackPublic db (publicObject pgName it) it (itemHeld pgName it s) u) (\<lambda>u' s'.
    (\<forall>k. privsOf s k \<subseteq> privsOf s' k \<and> optsOf s' k = optsOf s k \<and> privsOf s' k - privsOf s k \<subseteq> {p. k = publicKey pgName it \<and> p = piPrivilege it}) \<and>
    markedOk database (marked s') u' \<and> puCache u' = puCache u \<and> puConflicts u' = puConflicts u \<and>
    (puRecorded u' = puRecorded u \<or> puRecorded u' = removeAll (piField it) (puRecorded u) \<and> itemHeld pgName it s') \<and>
    (set (puErrs u') \<subseteq> {None} \<longrightarrow> set (puErrs u) \<subseteq> {None} \<and> piField it \<notin> set (puRecorded u'))) s"
proof -
  note t = publicTarget_named [OF it pg]
  have subj: "subject (aclKeyOf (publicTarget pgName it))" using public_subject by (simp add: t publicKey_def)
  have grant: "wp (GrantPrivileges db (publicObject pgName it) PublicGrantee [piPrivilege it] False)
      (\<lambda>e s'. (grantEffect privsOf optsOf (publicKey pgName it) [piPrivilege it] False s e s' \<and> ([] :: privilegeGrant list) = []) \<and> marked s' = marked s) s"
  proof (rule wp_both)
    show "wp (GrantPrivileges db (publicObject pgName it) PublicGrantee [piPrivilege it] False) (\<lambda>e s'. marked s' = marked s) s"
      by (auto simp: GrantPrivileges_def execWrap_def wp_bind wp_ret wp_case_sum exec_marked split: sum.splits)
  qed (use grant_ok [OF t(1) subj, unfolded t(2-4)] publicItem_name [OF it] in simp)
  have gone: "markedOk database (marked s) (u\<lparr>puRecorded := removeAll (piField it) (puRecorded u)\<rparr>)"
    and err: "markedOk database (marked s) (u\<lparr>puErrs := es\<rparr>)" for es
    using m by (auto simp: markedOk_def)
  show ?thesis
  proof (cases "itemHeld pgName it s")
    case True
    then show ?thesis using m gone by (simp add: grantBackPublic_def wp_bind wp_ret)
  next
    case False
    show ?thesis
      unfolding grantBackPublic_def if_not_P [OF False] wp_bind wp_ret
    proof (rule wp_mono [OF grant], goal_cases)
      case (1 e s')
      then have eff: "grantEffect privsOf optsOf (publicKey pgName it) [piPrivilege it] False s e s'" and m': "marked s' = marked s" by blast+
      note eff' = grantEffect_single [OF eff]
      show ?case
      proof (cases e)
        case None
        then have noerr: "(e \<noteq> None) = False" by simp
        show ?thesis unfolding noerr if_False m'
          by (intro conjI allI impI eff'(1-3) gone) (use eff'(4) [OF None] in simp_all)
      next
        case (Some x)
        then have err': "(e \<noteq> None) = True" by simp
        show ?thesis unfolding err' if_True m'
          by (intro conjI allI impI eff'(1-3) err) (simp_all add: Some)
      qed
    qed
  qed
qed

lemma cacheOk_step:
  assumes "cacheOk privsOf present pgName its u s" and "puCache u' = puCache u"
    and "it \<in> set publicPrivilegeItems" "set its \<subseteq> set publicPrivilegeItems" "it \<notin> set its"
    and "\<And>k. privsOf s k - privsOf s' k \<subseteq> {p. k = publicKey pgName it \<and> p = piPrivilege it}"
    and "\<And>k. privsOf s' k - privsOf s k \<subseteq> {p. k = publicKey pgName it \<and> p = piPrivilege it}"
  shows "cacheOk privsOf present pgName its u' s'"
proof -
  have "itemHeld pgName it' s' = itemHeld pgName it' s" if "it' \<in> set its" for it'
  proof -
    from that assms(4,5) have "it' \<in> set publicPrivilegeItems" "it' \<noteq> it" by auto
    from publicItems_distinct(2) [OF this(1) assms(3) this(2), of pgName] assms(6,7) [of "publicKey pgName it'"] show ?thesis by blast
  qed
  with assms(1,2) show ?thesis by (auto simp: cacheOk_def)
qed

text \<open>The three ways a round ends: nothing done, revoked, granted back.\<close>

lemma publicPost_same:
  assumes "sameAcl privsOf optsOf s s'" and "puRecorded u' = puRecorded u"
    and "set (puErrs u') \<subseteq> {None} \<Longrightarrow> set (puErrs u) \<subseteq> {None}" "puConflicts u' = [] \<Longrightarrow> puConflicts u = []"
    and "e = None \<Longrightarrow> puConflicts u' = [] \<Longrightarrow> if wantsRevoked database it then \<not> itemHeld pgName it s else piField it \<notin> set (puRecorded u)"
  shows "publicPost database privsOf optsOf present pgName {it} u s e u' s'"
  using assms by (simp add: publicPost_def sameAcl_def)

lemma publicPost_revoked:
  assumes wants: "wantsRevoked database it" "\<not> publicGrantConflict database it" "itemHeld pgName it s"
    and "\<And>k. privsOf s' k \<subseteq> privsOf s k" "\<And>k. optsOf s' k \<subseteq> optsOf s k"
    and "\<And>k. privsOf s k - privsOf s' k \<subseteq> {p. k = publicKey pgName it \<and> p = piPrivilege it}"
    and "privsOf s' = privsOf s \<or> piField it \<in> set (puRecorded u')" "set (puRecorded u) \<subseteq> set (puRecorded u')"
    and "set (puRecorded u') \<subseteq> insert (piField it) (set (puRecorded u))" "puConflicts u' = puConflicts u"
    and "set (puErrs u') \<subseteq> {None} \<Longrightarrow> set (puErrs u) \<subseteq> {None} \<and> \<not> itemHeld pgName it s'"
  shows "publicPost database privsOf optsOf present pgName {it} u s e u' s'"
proof -
  have gain: "privsOf s' k - privsOf s k = {}" for k using assms(4) by blast
  have lost: "k = publicKey pgName it \<and> p = piPrivilege it \<and> piField it \<in> set (puRecorded u')" if "p \<in> privsOf s k - privsOf s' k" for k p
    using subsetD [OF assms(6) that] that assms(7) by auto
  have rec: "set (puRecorded u) - set (puRecorded u') = {}" using assms(8) by blast
  show ?thesis
    unfolding publicPost_def gain rec
    by (intro conjI) (use wants lost assms(5,9-11) in \<open>auto dest: subsetD\<close>)
qed

lemma publicPost_granted:
  assumes wants: "\<not> wantsRevoked database it" "piField it \<in> set (puRecorded u)"
    and "\<And>k. privsOf s k \<subseteq> privsOf s' k" "\<And>k. optsOf s' k = optsOf s k"
    and "\<And>k. privsOf s' k - privsOf s k \<subseteq> {p. k = publicKey pgName it \<and> p = piPrivilege it}"
    and "puRecorded u' = puRecorded u \<or> puRecorded u' = removeAll (piField it) (puRecorded u) \<and> (itemHeld pgName it s' \<or> \<not> itemPresent pgName it)"
    and "puConflicts u' = puConflicts u" "set (puErrs u') \<subseteq> {None} \<Longrightarrow> set (puErrs u) \<subseteq> {None} \<and> piField it \<notin> set (puRecorded u')"
  shows "publicPost database privsOf optsOf present pgName {it} u s e u' s'"
proof -
  have lost: "privsOf s k - privsOf s' k = {}" for k using assms(3) by blast
  have gain: "k = publicKey pgName it \<and> p = piPrivilege it" if "p \<in> privsOf s' k - privsOf s k" for k p
    using subsetD [OF assms(5) that] by simp
  have rec: "set (puRecorded u') - set (puRecorded u) = {}" using assms(6) by auto
  show ?thesis
    unfolding publicPost_def lost rec
    by (intro conjI) (use wants gain assms(4,6-8) in auto)
qed

lemma cacheOk_Cons: "cacheOk privsOf present pgName (it # its) u s \<Longrightarrow> cacheOk privsOf present pgName its u s"
  unfolding cacheOk_def by (rule ballI, erule bspec) simp

lemma cacheOk_other: "puCache u' = puCache u \<Longrightarrow> cacheOk privsOf present pgName its u' s = cacheOk privsOf present pgName its u s"
  by (simp add: cacheOk_def)

lemma markedOk_other: "set (puRecorded u') \<subseteq> set (puRecorded u) \<Longrightarrow> markedOk database m u \<Longrightarrow> markedOk database m u'"
  by (auto simp: markedOk_def)

lemma publicItem_post:
  assumes it: "it \<in> set publicPrivilegeItems" "set its \<subseteq> set publicPrivilegeItems" "it \<notin> set its"
    and pg: "pgName \<noteq> []" "length pgName \<le> nameDataLen"
    and cache: "cacheOk privsOf present pgName (it # its) u s" and m: "markedOk database (marked s) u"
  shows "wp (publicItem db database pgName (Some save) it u) (\<lambda>(e, u') s'.
    publicPost database privsOf optsOf present pgName {it} u s e u' s' \<and> cacheOk privsOf present pgName its u' s' \<and>
    markedOk database (marked s') u') s"
proof -
  let ?Q = "\<lambda>(e, u') s'. publicPost database privsOf optsOf present pgName {it} u s e u' s' \<and> cacheOk privsOf present pgName its u' s' \<and>
    markedOk database (marked s') u'"
  note rest = cacheOk_Cons [OF cache]
  consider (conflict) "wantsRevoked database it" "publicGrantConflict database it"
    | (idle) "\<not> wantsRevoked database it" "piField it \<notin> set (puRecorded u)"
    | (run) "\<not> (wantsRevoked database it \<and> publicGrantConflict database it)" "\<not> (\<not> wantsRevoked database it \<and> piField it \<notin> set (puRecorded u))"
    by blast
  then show ?thesis
  proof cases
    case conflict
    have "publicPost database privsOf optsOf present pgName {it} u s None (u\<lparr>puConflicts := puConflicts u @ [piField it]\<rparr>) s"
      by (rule publicPost_same) (simp_all add: sameAcl_def)
    moreover have "cacheOk privsOf present pgName its (u\<lparr>puConflicts := puConflicts u @ [piField it]\<rparr>) s"
      "markedOk database (marked s) (u\<lparr>puConflicts := puConflicts u @ [piField it]\<rparr>)"
      by (rule cacheOk_other [THEN iffD2, OF _ rest], simp, rule markedOk_other [OF _ m], simp)
    ultimately show ?thesis
      using conflict by (simp add: publicItem_def Let_def wantsRevoked_def [symmetric] wp_ret)
  next
    case idle
    have "publicPost database privsOf optsOf present pgName {it} u s None u s"
      by (rule publicPost_same) (use idle in \<open>simp_all add: sameAcl_def\<close>)
    with idle rest m show ?thesis
      by (simp add: publicItem_def Let_def wantsRevoked_def [symmetric] wp_ret)
  next
    case run
    have "set (it # its) \<subseteq> set publicPrivilegeItems" using it by simp
    note holds = publicHolds_post [OF _ this pg cache, of it, simplified]
    show ?thesis
      unfolding publicItem_def Let_def wantsRevoked_def [symmetric] if_not_P [OF run(1)] if_not_P [OF run(2)]
        publicObject_def [symmetric] wp_bind
    proof (rule wp_mono [OF holds], goal_cases)
      case (1 a s1)
      obtain r u1 where a: "a = (r, u1)" by (cases a)
      from 1 have acl: "privsOf s1 = privsOf s" "optsOf s1 = optsOf s" and m1: "marked s1 = marked s"
        and u1: "puRecorded u1 = puRecorded u" "puErrs u1 = puErrs u" "puConflicts u1 = puConflicts u"
        and cache1: "cacheOk privsOf present pgName (it # its) u1 s1"
        by (simp_all add: a sameAcl_def)
      note rest1 = cacheOk_Cons [OF cache1]
      have mark1: "markedOk database (marked s1) u1" using m u1(1) by (simp add: markedOk_def m1)
      show ?case
      proof (cases r)
        case (Inl e)
        have "publicPost database privsOf optsOf present pgName {it} u s (Some e) u1 s1"
          by (rule publicPost_same) (simp_all add: acl u1 sameAcl_def)
        with rest1 mark1 show ?thesis by (simp add: a Inl wp_ret)
      next
        case (Inr h)
        obtain privs found where h: "h = (privs, found)" by (cases h)
        from 1 have held: "piPrivilege it \<in> set privs \<longleftrightarrow> itemHeld pgName it s" "\<not> found \<Longrightarrow> \<not> itemHeld pgName it s \<and> \<not> itemPresent pgName it"
          unfolding a Inr h by auto
        consider (absent) "\<not> found" | (revoke) "found" "wantsRevoked database it" "itemHeld pgName it s"
          | (revoked) "found" "wantsRevoked database it" "\<not> itemHeld pgName it s" | (granted) "found" "\<not> wantsRevoked database it"
          by blast
        then have "wp (if \<not> found then ret (None, if \<not> wantsRevoked database it then u1\<lparr>puRecorded := removeAll (piField it) (puRecorded u1)\<rparr> else u1)
            else State_Monad.bind (if wantsRevoked database it
                then (if piPrivilege it \<in> set privs then revokePublic db database (Some save) (publicObject pgName it) it u1
                      else checkStillHeld db (publicObject pgName it) it u1)
                else grantBackPublic db (publicObject pgName it) it (piPrivilege it \<in> set privs) u1) (\<lambda>u2. ret (None, u2))) ?Q s1"
        proof cases
          case absent
          let ?u = "if \<not> wantsRevoked database it then u1\<lparr>puRecorded := removeAll (piField it) (puRecorded u1)\<rparr> else u1"
          have "publicPost database privsOf optsOf present pgName {it} u s None ?u s1"
          proof (cases "wantsRevoked database it")
            case True
            with held(2) [OF absent] show ?thesis
              by (simp, intro publicPost_same) (simp_all add: acl u1 sameAcl_def)
          next
            case False
            with held(2) [OF absent] run(2) show ?thesis
              by (simp, intro publicPost_granted) (simp_all add: acl u1)
          qed
          moreover have "cacheOk privsOf present pgName its ?u s1" "markedOk database (marked s1) ?u"
            by (rule cacheOk_other [THEN iffD2, OF _ rest1], simp, rule markedOk_other [OF _ mark1], auto)
          ultimately show ?thesis using absent by (simp add: wp_ret)
        next
          case revoke
          then have c: "(\<not> found) = False" "(piPrivilege it \<in> set privs) = True" "wantsRevoked database it = True" using held(1) by simp_all
          show ?thesis unfolding c if_True if_False wp_bind wp_ret
          proof (rule wp_mono [OF revokePublic_post [OF it(1) pg mark1]], goal_cases)
            case (1 u2 s2)
            then have "publicPost database privsOf optsOf present pgName {it} u s None u2 s2"
              using revoke run(1) by (intro publicPost_revoked) (simp_all add: acl u1 del: split_paired_All)
            moreover from 1 have "cacheOk privsOf present pgName its u2 s2"
              by (intro cacheOk_step [OF rest1 _ it(1,2,3)]) (simp_all add: acl del: split_paired_All, blast?)
            ultimately show ?case using 1 by simp
          qed
        next
          case revoked
          then have c: "(\<not> found) = False" "(piPrivilege it \<in> set privs) = False" "wantsRevoked database it = True" using held(1) by simp_all
          show ?thesis unfolding c if_True if_False wp_bind wp_ret
          proof (rule wp_mono [OF checkStillHeld_post], goal_cases)
            case (1 u2 s2)
            then have "publicPost database privsOf optsOf present pgName {it} u s None u2 s2"
              using revoked by (intro publicPost_same) (simp_all add: acl u1 sameAcl_def)
            moreover from 1 have "cacheOk privsOf present pgName its u2 s2"
              by (intro cacheOk_step [OF rest1 _ it(1,2,3)]) (auto simp: acl sameAcl_def)
            moreover from 1 have "markedOk database (marked s2) u2"
              using markedOk_other [OF _ mark1, of u2] by simp
            ultimately show ?case by simp
          qed
        next
          case granted
          then have c: "(\<not> found) = False" "(piPrivilege it \<in> set privs) = itemHeld pgName it s1" "wantsRevoked database it = False"
            using held(1) by (simp_all add: acl)
          show ?thesis unfolding c if_True if_False wp_bind wp_ret
          proof (rule wp_mono [OF grantBackPublic_post [OF it(1) pg mark1 granted(2)]], goal_cases)
            case (1 u2 s2)
            then have "publicPost database privsOf optsOf present pgName {it} u s None u2 s2"
              using granted run(2) by (intro publicPost_granted) (simp_all add: acl u1 del: split_paired_All, blast)
            moreover from 1 have "cacheOk privsOf present pgName its u2 s2"
              by (intro cacheOk_step [OF rest1 _ it(1,2,3)]) (simp_all add: acl del: split_paired_All, blast?)
            ultimately show ?case using 1 by simp
          qed
        qed
        then show ?thesis
          unfolding a prod.case Inr sum.case h .
      qed
    qed
  qed
qed

section \<open>The loop\<close>

text \<open>The facts of \<open>publicPost\<close>, one by one.\<close>

lemma publicPostD:
  assumes "publicPost database privsOf optsOf present pgName its u s e u' s'"
  shows "p \<in> privsOf s k \<Longrightarrow> p \<notin> privsOf s' k \<Longrightarrow> \<exists>it \<in> its. k = publicKey pgName it \<and> p = piPrivilege it \<and>
      wantsRevoked database it \<and> \<not> publicGrantConflict database it \<and> piField it \<in> set (puRecorded u')"
    and "p \<in> privsOf s' k \<Longrightarrow> p \<notin> privsOf s k \<Longrightarrow> \<exists>it \<in> its. k = publicKey pgName it \<and> p = piPrivilege it \<and>
      \<not> wantsRevoked database it \<and> piField it \<in> set (puRecorded u)"
    and "optsOf s' k \<subseteq> optsOf s k"
    and "f \<in> set (puRecorded u) \<Longrightarrow> f \<notin> set (puRecorded u') \<Longrightarrow> \<exists>it \<in> its. f = piField it \<and> \<not> wantsRevoked database it \<and>
      (itemHeld pgName it s' \<or> \<not> itemPresent pgName it)"
    and "f \<in> set (puRecorded u') \<Longrightarrow> f \<notin> set (puRecorded u) \<Longrightarrow> \<exists>it \<in> its. f = piField it \<and> wantsRevoked database it \<and> itemHeld pgName it s"
    and "set (puErrs u') \<subseteq> {None} \<Longrightarrow> set (puErrs u) \<subseteq> {None}" and "puConflicts u' = [] \<Longrightarrow> puConflicts u = []"
    and "e = None \<Longrightarrow> set (puErrs u') \<subseteq> {None} \<Longrightarrow> puConflicts u' = [] \<Longrightarrow> it \<in> its \<Longrightarrow>
      if wantsRevoked database it then \<not> itemHeld pgName it s' else piField it \<notin> set (puRecorded u')"
  using assms unfolding publicPost_def by blast+

lemma publicPost_error:
  assumes "publicPost database privsOf optsOf present pgName its u s (Some x) u' s'" and "its \<subseteq> its'"
  shows "publicPost database privsOf optsOf present pgName its' u s (Some x) u' s'"
proof -
  note p = publicPostD [OF assms(1)]
  show ?thesis
    unfolding publicPost_def
  proof (intro conjI allI ballI impI)
    fix k p' assume "p' \<in> privsOf s k - privsOf s' k"
    with p(1) [of p' k] assms(2) show "\<exists>it \<in> its'. k = publicKey pgName it \<and> p' = piPrivilege it \<and> wantsRevoked database it \<and>
        \<not> publicGrantConflict database it \<and> piField it \<in> set (puRecorded u')" by blast
  next
    fix k p' assume "p' \<in> privsOf s' k - privsOf s k"
    with p(2) [of p' k] assms(2) show "\<exists>it \<in> its'. k = publicKey pgName it \<and> p' = piPrivilege it \<and> \<not> wantsRevoked database it \<and>
        piField it \<in> set (puRecorded u)" by blast
  next
    fix f assume "f \<in> set (puRecorded u) - set (puRecorded u')"
    with p(4) [of f] assms(2) show "\<exists>it \<in> its'. f = piField it \<and> \<not> wantsRevoked database it \<and> (itemHeld pgName it s' \<or> \<not> itemPresent pgName it)" by blast
  next
    fix f assume "f \<in> set (puRecorded u') - set (puRecorded u)"
    with p(5) [of f] assms(2) show "\<exists>it \<in> its'. f = piField it \<and> wantsRevoked database it \<and> itemHeld pgName it s" by blast
  qed (use p(3,6,7) in auto)
qed

lemma publicPost_trans:
  assumes it: "it \<in> set publicPrivilegeItems" "its \<subseteq> set publicPrivilegeItems" "it \<notin> its"
    and P: "publicPost database privsOf optsOf present pgName {it} u s None u1 s1"
    and Q: "publicPost database privsOf optsOf present pgName its u1 s1 e u2 s2"
  shows "publicPost database privsOf optsOf present pgName (insert it its) u s e u2 s2"
proof -
  note p = publicPostD [OF P] and q = publicPostD [OF Q]
  have field: "piField it \<noteq> piField it'" if "it' \<in> its" for it'
    using publicItems_distinct(1) [OF it(1), of it'] that it(2,3) by blast
  have key: "\<not> (publicKey pgName it = publicKey pgName it' \<and> piPrivilege it = piPrivilege it')" if "it' \<in> its" for it'
    using publicItems_distinct(2) [OF it(1), of it' pgName] that it(2,3) by blast
  have held: "itemHeld pgName it s2 = itemHeld pgName it s1" "piField it \<in> set (puRecorded u2) \<longleftrightarrow> piField it \<in> set (puRecorded u1)"
    using q(1,2) [of "piPrivilege it" "publicKey pgName it"] q(4,5) [of "piField it"] key field by blast+
  have held': "itemHeld pgName it' s1 = itemHeld pgName it' s" "piField it' \<in> set (puRecorded u1) \<longleftrightarrow> piField it' \<in> set (puRecorded u)"
    if "it' \<in> its" for it'
  proof -
    have "\<not> (publicKey pgName it' = publicKey pgName it \<and> piPrivilege it' = piPrivilege it)" "piField it' \<noteq> piField it"
      using key [OF that] field [OF that] by auto
    then show "itemHeld pgName it' s1 = itemHeld pgName it' s" "piField it' \<in> set (puRecorded u1) \<longleftrightarrow> piField it' \<in> set (puRecorded u)"
      using p(1,2) [of "piPrivilege it'" "publicKey pgName it'"] p(4,5) [of "piField it'"] by blast+
  qed
  show ?thesis
    unfolding publicPost_def
  proof (intro conjI allI ballI impI)
    fix k p' assume a: "p' \<in> privsOf s k - privsOf s2 k"
    show "\<exists>it \<in> insert it its. k = publicKey pgName it \<and> p' = piPrivilege it \<and> wantsRevoked database it \<and>
        \<not> publicGrantConflict database it \<and> piField it \<in> set (puRecorded u2)"
      using a p(1) [of p' k] q(1) [of p' k] held(2) by blast
  next
    fix k p' assume a: "p' \<in> privsOf s2 k - privsOf s k"
    show "\<exists>it \<in> insert it its. k = publicKey pgName it \<and> p' = piPrivilege it \<and> \<not> wantsRevoked database it \<and> piField it \<in> set (puRecorded u)"
      using a p(2) [of p' k] q(2) [of p' k] held'(2) by blast
  next
    fix f assume a: "f \<in> set (puRecorded u) - set (puRecorded u2)"
    show "\<exists>it \<in> insert it its. f = piField it \<and> \<not> wantsRevoked database it \<and> (itemHeld pgName it s2 \<or> \<not> itemPresent pgName it)"
      using a p(4) [of f] q(4) [of f] held(1) by blast
  next
    fix f assume a: "f \<in> set (puRecorded u2) - set (puRecorded u)"
    show "\<exists>it \<in> insert it its. f = piField it \<and> wantsRevoked database it \<and> itemHeld pgName it s"
      using a p(5) [of f] q(5) [of f] held'(1) by blast
  next
    fix it' assume "e = None \<and> set (puErrs u2) \<subseteq> {None} \<and> puConflicts u2 = []" "it' \<in> insert it its"
    then show "if wantsRevoked database it' then \<not> itemHeld pgName it' s2 else piField it' \<notin> set (puRecorded u2)"
      using p(8) [of it'] q(6,7) q(8) [of it'] held by auto
  qed (use p(3,6,7) q(3,6,7) in blast)+
qed

lemma publicItems_post:
  assumes "set its \<subseteq> set publicPrivilegeItems" and "distinct its" and "pgName \<noteq> []" "length pgName \<le> nameDataLen"
    and "cacheOk privsOf present pgName its u s" and "markedOk database (marked s) u"
  shows "wp (publicItems db database pgName (Some save) its u) (\<lambda>(e, u') s'.
    publicPost database privsOf optsOf present pgName (set its) u s e u' s' \<and> markedOk database (marked s') u') s"
  using assms
proof (induction its arbitrary: u s)
  case Nil
  then show ?case by (simp add: wp_ret publicPost_def)
next
  case (Cons it its)
  have it: "it \<in> set publicPrivilegeItems" "set its \<subseteq> set publicPrivilegeItems" "it \<notin> set its" using Cons.prems(1,2) by auto
  show ?case
    unfolding publicItems.simps wp_bind wp_case_prod wp_if wp_ret
  proof (rule wp_mono [OF publicItem_post [OF it Cons.prems(3-6)]], goal_cases)
    case (1 a s1)
    obtain e u1 where a: "a = (e, u1)" by (cases a)
    from 1 have P: "publicPost database privsOf optsOf present pgName {it} u s e u1 s1" and c: "cacheOk privsOf present pgName its u1 s1"
      and m: "markedOk database (marked s1) u1" by (simp_all add: a)
    show ?case
    proof (cases e)
      case (Some x)
      have "publicPost database privsOf optsOf present pgName (set (it # its)) u s e u1 s1"
        using publicPost_error [OF P [unfolded Some], of "set (it # its)"] by (simp add: Some subset_insertI)
      with m show ?thesis by (simp add: a Some)
    next
      case None
      have "distinct its" using Cons.prems(2) by simp
      from Cons.IH [OF it(2) this Cons.prems(3,4) c m] have "wp (publicItems db database pgName (Some save) its u1) (\<lambda>(e, u') s'.
        publicPost database privsOf optsOf present pgName (set (it # its)) u s e u' s' \<and> markedOk database (marked s') u') s1"
        by (rule wp_mono) (use publicPost_trans [OF it P [unfolded None]] in \<open>auto split: prod.splits\<close>)
      then show ?thesis by (simp add: a None)
    qed
  qed
qed

end

section \<open>Properties\<close>

text \<open>The loop on the status of the Database.\<close>

lemma public_privileges_run:
  assumes world: "public_server db scs subject privsOf optsOf save marked present"
    and pg: "pgName \<noteq> []" "length pgName \<le> nameDataLen"
    and rec: "set (dtRevokedPublicPrivileges (dbStatus database)) \<subseteq> marked s"
    and run: "run_state (reconcilePublicPrivileges db database pgName kind (Some save)) s = ((database', err), s')"
  obtains e u where "publicPost database privsOf optsOf present pgName {it \<in> set publicPrivilegeItems. piKind it = kind}
      \<lparr>puRecorded = dtRevokedPublicPrivileges (dbStatus database), puCache = [], puConflicts = [], puStillHeld = [], puErrs = []\<rparr> s e u s'"
    "markedOk database (marked s') u" "database' = recordPublic database (puRecorded u)"
    "err = None \<Longrightarrow> e = None \<and> set (puErrs u) \<subseteq> {None} \<and> puConflicts u = []"
proof -
  let ?its = "filter (\<lambda>it. piKind it = kind) publicPrivilegeItems"
  let ?u = "\<lparr>puRecorded = dtRevokedPublicPrivileges (dbStatus database), puCache = [], puConflicts = [], puStillHeld = [], puErrs = []\<rparr>"
  have its: "set ?its \<subseteq> set publicPrivilegeItems" "distinct ?its" "set ?its = {it \<in> set publicPrivilegeItems. piKind it = kind}"
    using distinct_map [of piField publicPrivilegeItems] publicFields_distinct by auto
  have cache: "cacheOk privsOf present pgName ?its ?u s" and m: "markedOk database (marked s) ?u"
    using rec by (auto simp: cacheOk_def markedOk_def)
  have "wp (reconcilePublicPrivileges db database pgName kind (Some save)) (\<lambda>(d, err) s'. \<exists>e u.
      publicPost database privsOf optsOf present pgName (set ?its) ?u s e u s' \<and> markedOk database (marked s') u \<and>
      d = recordPublic database (puRecorded u) \<and> err = (case e of Some x \<Rightarrow> Some x | None \<Rightarrow> publicErrs u)) s"
    unfolding reconcilePublicPrivileges_def wp_bind wp_case_prod wp_ret
    by (rule wp_mono [OF public_server.publicItems_post [OF world its(1,2) pg cache m]]) auto
  from wp_run [OF this run] obtain e u where eu: "publicPost database privsOf optsOf present pgName (set ?its) ?u s e u s'"
    "markedOk database (marked s') u" "database' = recordPublic database (puRecorded u)" "err = (case e of Some x \<Rightarrow> Some x | None \<Rightarrow> publicErrs u)" by auto
  have "e = None \<and> set (puErrs u) \<subseteq> {None} \<and> puConflicts u = []" if "err = None"
    using that eu(4) by (cases e; auto simp: publicErrs_def joinErrs_None_iff split: if_splits)
  from that [OF eu(1) [unfolded its(3)] eu(2,3) this] show thesis .
qed

text \<open>
  C37. The privileges of PUBLIC, whatever errors the reconcile meets: it takes a privilege from PUBLIC
  only when the Database asks for that and no declared grant contradicts it, and the privilege is then
  in the new status and in the stored status; it gives PUBLIC only what the status says pgop revoked
  and the Database no longer wants revoked, never with the grant option. A recorded privilege leaves
  the status only when PUBLIC holds it again or the object is gone; one that enters it was held.
  When no error is reported PUBLIC holds nothing that should be revoked, and nothing else is recorded.
\<close>

theorem public_privileges_safe:
  assumes "public_server db scs subject privsOf optsOf save marked present"
    and "pgName \<noteq> []" "length pgName \<le> nameDataLen"
    and "set (dtRevokedPublicPrivileges (dbStatus database)) \<subseteq> marked s"
    and "run_state (reconcilePublicPrivileges db database pgName kind (Some save)) s = ((database', err), s')"
  defines "items \<equiv> {it \<in> set publicPrivilegeItems. piKind it = kind}"
    and "recorded \<equiv> \<lambda>d. set (dtRevokedPublicPrivileges (dbStatus d))"
    and "publicHas \<equiv> \<lambda>it s. piPrivilege it \<in> privsOf s (publicKey pgName it)"
  shows "(\<forall>k. \<forall>p \<in> privsOf s k - privsOf s' k. \<exists>it \<in> items. k = publicKey pgName it \<and> p = piPrivilege it \<and>
      wantsRevoked database it \<and> \<not> publicGrantConflict database it \<and> piField it \<in> recorded database' \<inter> marked s') \<and>
    (\<forall>k. \<forall>p \<in> privsOf s' k - privsOf s k. \<exists>it \<in> items. k = publicKey pgName it \<and> p = piPrivilege it \<and>
      \<not> wantsRevoked database it \<and> piField it \<in> recorded database) \<and>
    (\<forall>k. optsOf s' k \<subseteq> optsOf s k) \<and>
    (\<forall>it \<in> items. piField it \<in> recorded database - recorded database' \<longrightarrow>
      \<not> wantsRevoked database it \<and> (publicHas it s' \<or> \<not> present (piKind it, objParts (publicObject pgName it)))) \<and>
    (\<forall>it \<in> items. piField it \<in> recorded database' - recorded database \<longrightarrow> wantsRevoked database it \<and> publicHas it s) \<and>
    (err = None \<longrightarrow> (\<forall>it \<in> items. if wantsRevoked database it then \<not> publicHas it s' else piField it \<notin> recorded database'))"
proof -
  from public_privileges_run [OF assms(1-5)] obtain e u where run: "publicPost database privsOf optsOf present pgName items
      \<lparr>puRecorded = dtRevokedPublicPrivileges (dbStatus database), puCache = [], puConflicts = [], puStillHeld = [], puErrs = []\<rparr> s e u s'"
    and m: "markedOk database (marked s') u" and d: "database' = recordPublic database (puRecorded u)"
    and ok: "err = None \<Longrightarrow> e = None \<and> set (puErrs u) \<subseteq> {None} \<and> puConflicts u = []" by (auto simp: items_def)
  note p = public_server.publicPostD [OF assms(1) run, unfolded publicRun.select_convs, folded publicHas_def recorded_def]
  have new: "piField it \<in> recorded database' \<longleftrightarrow> piField it \<in> set (puRecorded u)" if "it \<in> set publicPrivilegeItems" for it
    using that by (auto simp: recorded_def d recordPublic_def)
  have mark: "piField it \<in> marked s'" if "it \<in> set publicPrivilegeItems" "wantsRevoked database it" "piField it \<in> set (puRecorded u)" for it
    using that m by (auto simp: markedOk_def)
  have sub: "it \<in> set publicPrivilegeItems" if "it \<in> items" for it using that by (simp add: items_def)
  have field: "it = it'" if "it \<in> items" "it' \<in> items" "piField it = piField it'" for it it'
    using that sub publicItems_distinct(1) by blast
  show ?thesis
  proof (intro conjI allI ballI impI)
    fix k q assume "q \<in> privsOf s k - privsOf s' k"
    then show "\<exists>it \<in> items. k = publicKey pgName it \<and> q = piPrivilege it \<and>
      wantsRevoked database it \<and> \<not> publicGrantConflict database it \<and> piField it \<in> recorded database' \<inter> marked s'"
      using p(1) [of q k] new mark sub by blast
  next
    fix k q assume "q \<in> privsOf s' k - privsOf s k"
    then show "\<exists>it \<in> items. k = publicKey pgName it \<and> q = piPrivilege it \<and> \<not> wantsRevoked database it \<and> piField it \<in> recorded database"
      using p(2) [of q k] by (auto simp: recorded_def)
  next
    fix it assume "it \<in> items" "err = None"
    then show "if wantsRevoked database it then \<not> publicHas it s' else piField it \<notin> recorded database'"
      using p(8) [of it] ok new [OF sub] by (auto simp: publicHas_def)
  next
    fix it assume it: "it \<in> items" "piField it \<in> recorded database - recorded database'"
    then obtain it' where "it' \<in> items" "piField it = piField it'" "\<not> wantsRevoked database it'"
      "publicHas it' s' \<or> \<not> present (piKind it', objParts (publicObject pgName it'))"
      using p(4) [of "piField it"] new [OF sub] by (auto simp: recorded_def publicHas_def)
    with field [OF it(1)] show "\<not> wantsRevoked database it" "publicHas it s' \<or> \<not> present (piKind it, objParts (publicObject pgName it))" by auto
  next
    fix it assume it: "it \<in> items" "piField it \<in> recorded database' - recorded database"
    then obtain it' where "it' \<in> items" "piField it = piField it'" "wantsRevoked database it'" "publicHas it' s"
      using p(5) [of "piField it"] new [OF sub] by (auto simp: recorded_def publicHas_def)
    with field [OF it(1)] show "wantsRevoked database it" "publicHas it s" by auto
  qed (rule p(3))
qed

text \<open>The reference server beside the revoked privileges of the stored status.\<close>

type_synonym publicWorld = "refServer \<times> PublicPrivilege list"

definition pubDb :: "publicWorld db" where
  "pubDb = \<lparr>execDb = (\<lambda>q. State (\<lambda>(s, m). case refExec q s of (e, s') \<Rightarrow> (e, (s', m)))),
     queryDb = (\<lambda>q args. State (\<lambda>(s, m). (refQuery q args s, (s, m)))), beginTx = ret None, commitTx = ret None, rollbackTx = ret ()\<rparr>"

definition pubSave :: "Database \<Rightarrow> (publicWorld, error option) state" where
  "pubSave d = State (\<lambda>(s, m). (None, (s, dtRevokedPublicPrivileges (dbStatus d))))"

lemma pubDb_exec: "wp (execDb pubDb q) Q w = wp (execDb refDb q) (\<lambda>e s'. Q e (s', snd w)) (fst w)"
  by (simp add: pubDb_def refDb_def wp_State split: prod.splits)

lemma pubDb_query: "wp (queryDb pubDb q args) Q w = wp (queryDb refDb q args) (\<lambda>r s'. Q r (s', snd w)) (fst w)"
  by (simp add: pubDb_def refDb_def wp_State split: prod.splits)

lemma refQuery_same: "wp (queryDb refDb q args) Q s = Q (refQuery q args s) s"
  by (simp add: refDb_def wp_State)

lemma refHeld_rows: "heldPrivilegesQueries kind = Some q \<Longrightarrow> refQuery q [SText n, SBool b, SText g] s \<noteq> Inr ([], None)"
  by (simp add: refQuery_def heldQueries_distinct refHeldRows_def Let_def)

interpretation refPublic: public_server pubDb True "\<lambda>_. True" "\<lambda>w. refPrivs (fst w)" "\<lambda>w. refOpts (fst w)" pubSave "\<lambda>w. set (snd w)" "\<lambda>_. True"
proof (unfold_locales, goal_cases)
  case (1 q ps kind name g w s)
  then show ?case unfolding pubDb_exec by (rule wp_mono [OF ref.exec_grant]) (simp_all add: grantEffect_def)
next
  case (2 q oo ps kind name g c s)
  then show ?case unfolding pubDb_exec by (rule wp_mono [OF ref.exec_revoke]) (simp_all add: revokeEffect_def)
next
  case (3 kind q n gr s)
  then show ?case unfolding pubDb_query by (rule wp_mono [OF ref.query_held]) (simp_all add: sameAcl_def)
next
  case (6 q s)
  show ?case unfolding pubDb_exec by simp
next
  case (7 q args s)
  show ?case unfolding pubDb_query by simp
next
  case (8 kind q args s)
  show ?case unfolding pubDb_query refQuery_same by (simp add: sameAcl_def)
next
  case (9 kind q n gr s)
  then show ?case unfolding pubDb_query refQuery_same by (simp add: refHeld_rows)
next
  case (10 d s)
  show ?case by (cases s) (simp add: pubSave_def wp_State sameAcl_def)
qed simp_all

text \<open>
  The scenario of the instance: PUBLIC holds CONNECT and TEMPORARY on the database \<open>app\<close>, as after
  CREATE DATABASE, and the Database asks to revoke CONNECT.
\<close>

definition exPublicDatabase :: Database where
  "exPublicDatabase = (exDatabase [] [])\<lparr>dbSpec := (dbSpec (exDatabase [] []))\<lparr>dsPublicPrivileges :=
     Some \<lparr>ppConnect = Some False, ppTemporary = None, ppPublicSchemaUsage = None, ppPublicSchemaCreate = None\<rparr>\<rparr>\<rparr>"

definition exPublicWorld :: publicWorld where
  "exPublicWorld = (exDbState (map (\<lambda>p. ((ObjectDatabase, [''app''], None), None, p, False)) [PrivilegeConnect, PrivilegeTemporary]) [], [])"

definition exPublicRun :: "(Database \<times> error option) \<times> publicWorld" where
  "exPublicRun = run_state (reconcilePublicPrivileges pubDb exPublicDatabase ''app'' ObjectDatabase (Some pubSave)) exPublicWorld"

lemma exPublicRun_ok: "case exPublicRun of ((d, err), w) \<Rightarrow> err = None \<and> snd w = [PublicPrivilegeConnect] \<and>
    dtRevokedPublicPrivileges (dbStatus d) = [PublicPrivilegeConnect] \<and> map (\<lambda>(k, gr, p, b). p) (rvAcl (fst w)) = [PrivilegeTemporary]"
  by code_simp

theorem public_privileges_safe_witness:
  "\<exists>w :: publicWorld. \<forall>it \<in> {it \<in> set publicPrivilegeItems. piKind it = ObjectDatabase}.
     wantsRevoked exPublicDatabase it \<longrightarrow> piPrivilege it \<notin> refPrivs (fst w) (publicKey ''app'' it)"
proof -
  obtain d w where r: "run_state (reconcilePublicPrivileges pubDb exPublicDatabase ''app'' ObjectDatabase (Some pubSave)) exPublicWorld = ((d, None), w)"
    using exPublicRun_ok by (auto simp: exPublicRun_def split: prod.splits)
  have "''app'' \<noteq> []" "length ''app'' \<le> nameDataLen" "set (dtRevokedPublicPrivileges (dbStatus exPublicDatabase)) \<subseteq> set (snd exPublicWorld)" by code_simp+
  from public_privileges_safe [OF refPublic.public_server_axioms this r] show ?thesis by (metis (lifting))
qed

end
