(* ===== verification/Connections.thy ===== *)
theory Connections
  imports Server_Access
begin

text \<open>
  How the operator and the clients of a Cluster connect (\<open>internal/controller/pgconn.go\<close>): the TLS mode
  of a Cluster, the configuration of the operator's own connection, and the connection keys of a
  credentials Secret with their URI. Percent-encoding is that of Go's \<open>net/url\<close>.

  A Secret is read by name from the namespace of the Cluster; the reader is a parameter.
\<close>

section \<open>Percent-encoding\<close>

datatype urlMode = EncodePath | EncodeUserPassword | EncodeHost | EncodeQueryComponent

definition unreservedChar :: "char \<Rightarrow> bool" where
  "unreservedChar c \<longleftrightarrow> (let n = (of_char c :: nat) in (48 \<le> n \<and> n \<le> 57) \<or> (65 \<le> n \<and> n \<le> 90) \<or> (97 \<le> n \<and> n \<le> 122))"

definition shouldEscape :: "char \<Rightarrow> urlMode \<Rightarrow> bool" where
  "shouldEscape c mode =
     (if unreservedChar c then False
      else if mode = EncodeHost \<and> c \<in> set (''!$&()*+,;=:[]<>'' @ [squote, dquote]) then False
      else if c \<in> set ''-_.~'' then False
      else if c \<in> set ''$&+,/:;=?@''
      then (case mode of
              EncodePath \<Rightarrow> c = CHR ''?''
            | EncodeUserPassword \<Rightarrow> c \<in> set ''@/?:''
            | _ \<Rightarrow> True)
      else True)"

definition upperHexDigit :: "nat \<Rightarrow> char" where
  "upperHexDigit n = (if n < 10 then char_of (48 + n) else char_of (55 + n))"

definition urlEscape :: "urlMode \<Rightarrow> string \<Rightarrow> string" where
  "urlEscape mode s = concat (map (\<lambda>c.
     if c = CHR '' '' \<and> mode = EncodeQueryComponent then ''+''
     else if shouldEscape c mode then [CHR ''%'', upperHexDigit (of_char c div 16), upperHexDigit (of_char c mod 16)]
     else [c]) s)"

text \<open>\<open>net.JoinHostPort\<close>.\<close>

definition joinHostPort :: "string \<Rightarrow> string \<Rightarrow> string" where
  "joinHostPort host port = (if CHR '':'' \<in> set host then ''['' @ host @ '']:'' @ port else host @ '':'' @ port)"

definition connectionURI :: "string \<Rightarrow> string \<Rightarrow> string \<Rightarrow> int \<Rightarrow> string \<Rightarrow> string \<Rightarrow> string" where
  "connectionURI user password host port database sslMode =
     ''postgresql://'' @ urlEscape EncodeUserPassword user @ '':'' @ urlEscape EncodeUserPassword password @ ''@'' @
     urlEscape EncodeHost (joinHostPort host (formatInt port)) @ urlEscape EncodePath (''/'' @ database) @
     ''?sslmode='' @ urlEscape EncodeQueryComponent sslMode"

section \<open>TLS of a Cluster\<close>

abbreviation SecretKeyUsername :: string where "SecretKeyUsername \<equiv> ''username''"
abbreviation SecretKeyPassword :: string where "SecretKeyPassword \<equiv> ''password''"
abbreviation SecretKeyHost :: string where "SecretKeyHost \<equiv> ''host''"
abbreviation SecretKeyPort :: string where "SecretKeyPort \<equiv> ''port''"
abbreviation SecretKeySSLMode :: string where "SecretKeySSLMode \<equiv> ''sslmode''"
abbreviation SecretKeyCACert :: string where "SecretKeyCACert \<equiv> ''ca.crt''"
abbreviation SecretKeyURI :: string where "SecretKeyURI \<equiv> ''uri''"
abbreviation TLSSecretKeyCA :: string where "TLSSecretKeyCA \<equiv> ''ca.crt''"

definition certManagerSecretName :: "Cluster \<Rightarrow> string" where
  "certManagerSecretName cluster = clName cluster @ ''-server-tls''"

definition selfManagedServerSecretName :: "Cluster \<Rightarrow> string" where
  "selfManagedServerSecretName cluster = clName cluster @ ''-server-cert''"

text \<open>Only called while \<open>spec.tls\<close> is set; without it the field access panics.\<close>

definition tlsSecretName :: "Cluster \<Rightarrow> string" where
  "tlsSecretName cluster =
     (case clTLS cluster of
        None \<Rightarrow> selfManagedServerSecretName cluster
      | Some t \<Rightarrow>
          if tlsSecret t \<noteq> [] then tlsSecret t
          else if tlsIssuer t \<noteq> None then certManagerSecretName cluster
          else selfManagedServerSecretName cluster)"

record clientTLS =
  ctMode :: string
  ctCACert :: string

definition tlsActive :: "Cluster \<Rightarrow> bool" where
  "tlsActive cluster \<longleftrightarrow> clTLS cluster \<noteq> None \<and> clTLSReady cluster"

definition clientTLSFor :: "Cluster \<Rightarrow> string \<Rightarrow> clientTLS" where
  "clientTLSFor cluster caPEM =
     (if clTLS cluster = None then \<lparr>ctMode = SSLModeDisable, ctCACert = []\<rparr>
      else if \<not> tlsActive cluster then \<lparr>ctMode = SSLModePrefer, ctCACert = []\<rparr>
      else \<lparr>ctMode = SSLModeVerifyFull, ctCACert = caPEM\<rparr>)"

definition clusterClientTLS :: "(string \<Rightarrow> ('s, error + 'a Secret_scheme) state) \<Rightarrow> Cluster \<Rightarrow> ('s, error + clientTLS) state" where
  "clusterClientTLS getSecret cluster =
     (if \<not> tlsActive cluster then ret (Inr (clientTLSFor cluster []))
      else do {
        r \<leftarrow> getSecret (tlsSecretName cluster);
        ret (case r of
               Inl e \<Rightarrow> Inl (Wrapf ''failed to get TLS Secret %q: %w'' [tlsSecretName cluster] e)
             | Inr secret \<Rightarrow>
                 (let ca = mapGet [] (secData secret) TLSSecretKeyCA
                  in if ca = [] then Inl (Errorf ''TLS Secret %q has no %q'' [tlsSecretName cluster, TLSSecretKeyCA])
                     else Inr (clientTLSFor cluster ca)))
      })"

section \<open>The operator's connection\<close>

definition operatorConnectionConfig :: "(string \<Rightarrow> ('s, error + 'a Secret_scheme) state) \<Rightarrow> Cluster \<Rightarrow> string
    \<Rightarrow> ('s, error + ConnectionConfig) state" where
  "operatorConnectionConfig getSecret cluster dbName = do {
     r \<leftarrow> getSecret (clSecretName cluster);
     (case r of
        Inl e \<Rightarrow> ret (Inl (Wrapf ''failed to get credentials secret: %w'' [] e))
      | Inr secret \<Rightarrow> do {
          t \<leftarrow> clusterClientTLS getSecret cluster;
          ret (case t of
                 Inl e \<Rightarrow> Inl e
               | Inr tls \<Rightarrow> Inr \<lparr>cfgHost = clusterHost cluster, cfgPort = clusterPort cluster,
                   cfgUser = mapGet [] (secData secret) SecretKeyUsername, cfgPassword = mapGet [] (secData secret) SecretKeyPassword,
                   cfgDatabase = dbName, cfgSSLMode = ctMode tls, cfgRootCertPEM = ctCACert tls, cfgConnectTimeout = 0\<rparr>)
        })
   }"

text \<open>\<open>postgres.NewClient\<close> is the parameter \<open>newClient\<close>.\<close>

definition newOperatorClient :: "(string \<Rightarrow> ('s, error + 'a Secret_scheme) state) \<Rightarrow> (ConnectionConfig \<Rightarrow> ('s, error + 'c) state)
    \<Rightarrow> Cluster \<Rightarrow> string \<Rightarrow> ('s, error + 'c) state" where
  "newOperatorClient getSecret newClient cluster dbName = do {
     r \<leftarrow> operatorConnectionConfig getSecret cluster dbName;
     (case r of Inl e \<Rightarrow> ret (Inl e) | Inr cfg \<Rightarrow> newClient cfg)
   }"

definition boolText :: "bool \<Rightarrow> string" where
  "boolText b = (if b then ''true'' else ''false'')"

definition clusterConnectionFingerprint :: "Cluster \<Rightarrow> string" where
  "clusterConnectionFingerprint c = sprintf ''%t|%d|%t|%t|%s''
     [boolText (clReady c), formatInt (clusterPort c), boolText (clTLS c \<noteq> None), boolText (tlsActive c), clTLSSecretHash c]"

text \<open>\<open>clusterConnectionChanged\<close>: the Cluster updates that re-run the Role and Database controllers.\<close>

definition clusterConnectionChanged :: "Cluster \<Rightarrow> Cluster \<Rightarrow> bool" where
  "clusterConnectionChanged old new \<longleftrightarrow> clusterConnectionFingerprint old \<noteq> clusterConnectionFingerprint new"

section \<open>The connection keys of a Secret\<close>

definition connectionKeys :: "string gomap \<Rightarrow> string \<Rightarrow> int \<Rightarrow> string \<Rightarrow> clientTLS \<Rightarrow> string gomap" where
  "connectionKeys data host port database t =
     [(SecretKeyHost, host), (SecretKeyPort, formatInt port), (SecretKeySSLMode, ctMode t),
      (SecretKeyURI, connectionURI (mapGet [] data SecretKeyUsername) (mapGet [] data SecretKeyPassword) host port database (ctMode t))] @
     (if ctCACert t \<noteq> [] then [(SecretKeyCACert, ctCACert t)] else [])"

text \<open>Setting the keys of a map that differ, and whether any did.\<close>

fun setKeys :: "string gomap \<Rightarrow> string gomap \<Rightarrow> string gomap \<times> bool" where
  "setKeys [] data = (data, False)"
| "setKeys ((k, v) # want) data =
     (if map_of data k = Some v then setKeys want data
      else (case setKeys want (AList.update k v data) of (data', changed) \<Rightarrow> (data', True)))"

definition applyConnectionInfo :: "string gomap \<Rightarrow> string \<Rightarrow> int \<Rightarrow> string \<Rightarrow> clientTLS \<Rightarrow> string gomap \<times> bool" where
  "applyConnectionInfo data host port database t =
     (case setKeys (connectionKeys data host port database t) data of
        (data', changed) \<Rightarrow>
          if ctCACert t = [] \<and> map_of data' SecretKeyCACert \<noteq> None then (AList.delete SecretKeyCACert data', True)
          else (data', changed))"

lemma setKeys_other: "k \<notin> fst ` set want \<Longrightarrow> map_of (fst (setKeys want data)) k = map_of data k"
  by (induction want data rule: setKeys.induct) (auto simp: map_of_update split: prod.splits)

lemma setKeys_same: "snd (setKeys want data) = False \<Longrightarrow> fst (setKeys want data) = data"
  by (induction want data rule: setKeys.induct) (auto split: if_splits prod.splits)

end
