(* ===== verification/Role_Passwords.thy ===== *)
theory Role_Passwords
  imports Connections Settings
begin

text \<open>
  The password of a Role (\<open>internal/controller/role_password.go\<close>), its credentials Secret and the
  part of the Role reconcile that keeps both in step with PostgreSQL (\<open>role_controller.go\<close>), and the
  check for passwords PostgreSQL would take for a hash (\<open>internal/postgres/scram.go\<close>).

  The API server is the parameter \<open>kube\<close>: its cached reader, and the uncached reader
  \<open>APIReader\<close>, which may be nil. Random bytes come from the parameter \<open>random\<close>. Functions that change
  the Role or the Secret in memory return the changed value. Times are numbers of nanoseconds.
\<close>

section \<open>Objects\<close>

record RoleObject = Role +
  roleUID :: string
  roleVersion :: string
  roleAnnotations :: "string gomap"

text \<open>The owners of a Secret are API version, kind and name.\<close>

record RoleSecret = Secret +
  rsecVersion :: string
  rsecLabels :: "string gomap"
  rsecOwners :: "(string \<times> string \<times> string) list"

record 's roleReader =
  rrSecret :: "string \<Rightarrow> ('s, error + RoleSecret) state"
  rrRole :: "string \<Rightarrow> ('s, error + RoleObject) state"

record 's roleKube =
  rkCache :: "'s roleReader"
  rkAPIReader :: "'s roleReader option"
  rkIsNotFound :: "error \<Rightarrow> bool"
  rkIsConflict :: "error \<Rightarrow> bool"
  rkClusters :: "string \<Rightarrow> ('s, error + Cluster list) state"
  rkCreateSecret :: "RoleSecret \<Rightarrow> ('s, error option) state"
  rkUpdateSecret :: "RoleSecret \<Rightarrow> ('s, error option) state"
  rkParseGroup :: "string \<Rightarrow> string option"

section \<open>Usable passwords\<close>

abbreviation scramPrefix :: string where "scramPrefix \<equiv> ''SCRAM-SHA-256$''"

definition IsPreHashedPassword :: "string \<Rightarrow> bool" where
  "IsPreHashedPassword password \<longleftrightarrow>
     hasPrefix password scramPrefix \<or>
     (length password = 35 \<and> hasPrefix password ''md5'' \<and> list_all (\<lambda>c. c \<in> set ''0123456789abcdef'') (drop 3 password))"

text \<open>\<open>utf8.Valid\<close>: the well-formed byte sequences of the Unicode standard.\<close>

definition contByte :: "char \<Rightarrow> bool" where
  "contByte c \<longleftrightarrow> (let n = (of_char c :: nat) in 128 \<le> n \<and> n < 192)"

definition inRange :: "nat \<Rightarrow> nat \<Rightarrow> char \<Rightarrow> bool" where
  "inRange lo hi c \<longleftrightarrow> (let n = of_char c in lo \<le> n \<and> n \<le> hi)"

fun utf8Valid :: "string \<Rightarrow> bool" where
  "utf8Valid [] \<longleftrightarrow> True"
| "utf8Valid [a] \<longleftrightarrow> inRange 0 127 a"
| "utf8Valid [a, b] \<longleftrightarrow> (if inRange 0 127 a then utf8Valid [b] else inRange 194 223 a \<and> contByte b)"
| "utf8Valid [a, b, c] \<longleftrightarrow>
     (if inRange 0 127 a then utf8Valid [b, c]
      else if inRange 194 223 a then contByte b \<and> utf8Valid [c]
      else if a = char_of (224 :: nat) then inRange 160 191 b \<and> contByte c
      else if a = char_of (237 :: nat) then inRange 128 159 b \<and> contByte c
      else inRange 225 239 a \<and> contByte b \<and> contByte c)"
| "utf8Valid (a # b # c # d # s) \<longleftrightarrow>
     (if inRange 0 127 a then utf8Valid (b # c # d # s)
      else if inRange 194 223 a then contByte b \<and> utf8Valid (c # d # s)
      else if a = char_of (224 :: nat) then inRange 160 191 b \<and> contByte c \<and> utf8Valid (d # s)
      else if a = char_of (237 :: nat) then inRange 128 159 b \<and> contByte c \<and> utf8Valid (d # s)
      else if inRange 225 239 a then contByte b \<and> contByte c \<and> utf8Valid (d # s)
      else if a = char_of (240 :: nat) then inRange 144 191 b \<and> contByte c \<and> contByte d \<and> utf8Valid s
      else if a = char_of (244 :: nat) then inRange 128 143 b \<and> contByte c \<and> contByte d \<and> utf8Valid s
      else inRange 241 243 a \<and> contByte b \<and> contByte c \<and> contByte d \<and> utf8Valid s)"

definition passwordProblem :: "string \<Rightarrow> string" where
  "passwordProblem pw =
     (if \<not> utf8Valid pw then ''is not valid UTF-8''
      else if CHR 0x00 \<in> set pw then ''contains a NUL byte''
      else if IsPreHashedPassword pw
      then ''looks like a pre-hashed password (a SCRAM-SHA-256 verifier or MD5 hash); set the plaintext password''
      else [])"

section \<open>Rotation\<close>

abbreviation hour :: int where "hour \<equiv> 60 * minute"
abbreviation minPasswordRotationInterval :: int where "minPasswordRotationInterval \<equiv> hour"
abbreviation rolePasswordLength :: nat where "rolePasswordLength \<equiv> 32"
abbreviation AnnotationRotatePassword :: string where "AnnotationRotatePassword \<equiv> ''pgop.ruck.io/rotate-password''"
abbreviation AnnotationPasswordFingerprint :: string where "AnnotationPasswordFingerprint \<equiv> ''pgop.ruck.io/password-fingerprint''"
abbreviation ReasonPasswordSecretNotFound :: string where "ReasonPasswordSecretNotFound \<equiv> ''PasswordSecretNotFound''"
abbreviation ReasonPasswordSecretInvalid :: string where "ReasonPasswordSecretInvalid \<equiv> ''PasswordSecretInvalid''"

record desiredPassword =
  dpValue :: string
  dpGenerated :: bool
  dpRotated :: bool
  dpFromRef :: bool
  dpForce :: bool
  dpApplied :: bool
  dpRotationRequest :: string

definition zeroPassword :: desiredPassword where
  "zeroPassword = \<lparr>dpValue = [], dpGenerated = False, dpRotated = False, dpFromRef = False, dpForce = False, dpApplied = False,
     dpRotationRequest = []\<rparr>"

definition passwordFingerprint :: "RoleObject \<Rightarrow> string \<Rightarrow> string" where
  "passwordFingerprint role password = hexEncode (sha256 (roleUID role @ [CHR 0x00] @ password))"

definition passwordApplied :: "RoleObject \<Rightarrow> RoleSecret option \<Rightarrow> string \<Rightarrow> bool" where
  "passwordApplied role secret password =
     (case secret of
        None \<Rightarrow> False
      | Some s \<Rightarrow>
          if password = [] then False
          else (case map_of (secAnnotations s) AnnotationPasswordFingerprint of
                  Some fp \<Rightarrow> fp = passwordFingerprint role password
                | None \<Rightarrow> rtPasswordHash (roleStatus role) \<noteq> [] \<and> rtPasswordHash (roleStatus role) = passwordFingerprint role password))"

definition rotationInterval :: "RoleObject \<Rightarrow> int" where
  "rotationInterval role =
     (case rsPasswordRotation (roleSpec role) of None \<Rightarrow> 0 | Some p \<Rightarrow> max (prEvery p) minPasswordRotationInterval)"

definition pendingRotationRequest :: "RoleObject \<Rightarrow> string" where
  "pendingRotationRequest role =
     (let req = mapGet [] (roleAnnotations role) AnnotationRotatePassword
      in if req = [] \<or> req = rtPasswordRotationRequest (roleStatus role) then [] else req)"

definition scheduledRotationDue :: "RoleObject \<Rightarrow> int \<Rightarrow> bool" where
  "scheduledRotationDue role now =
     (case rtPasswordRotatedAt (roleStatus role) of
        None \<Rightarrow> False
      | Some at \<Rightarrow> rotationInterval role \<noteq> 0 \<and> \<not> now < at + rotationInterval role)"

definition nextRotationIn :: "RoleObject \<Rightarrow> int \<Rightarrow> int" where
  "nextRotationIn role now =
     (case rtPasswordRotatedAt (roleStatus role) of
        None \<Rightarrow> 0
      | Some at \<Rightarrow> if rotationInterval role = 0 then 0 else max (at + rotationInterval role - now) second)"

definition generateRolePassword :: "(nat \<Rightarrow> ('s, error + string) state) \<Rightarrow> nat \<Rightarrow> ('s, error + string) state" where
  "generateRolePassword random len = do {
     r \<leftarrow> random (len div 2);
     ret (case r of Inl e \<Rightarrow> Inl e | Inr bytes \<Rightarrow> Inr (hexEncode bytes))
   }"

definition choosePassword :: "(nat \<Rightarrow> ('s, error + string) state) \<Rightarrow> RoleObject \<Rightarrow> bool \<Rightarrow> string \<Rightarrow> string \<Rightarrow> int
    \<Rightarrow> ('s, error + desiredPassword) state" where
  "choosePassword random role fromRef refPassword current now =
     (let req = pendingRotationRequest role
      in if fromRef
         then ret (Inr (zeroPassword\<lparr>dpValue := refPassword, dpFromRef := True, dpForce := req \<noteq> [], dpRotationRequest := req\<rparr>))
         else if current \<noteq> [] \<and> req = [] \<and> \<not> scheduledRotationDue role now then ret (Inr (zeroPassword\<lparr>dpValue := current\<rparr>))
         else do {
           r \<leftarrow> generateRolePassword random rolePasswordLength;
           ret (case r of
                  Inl e \<Rightarrow> Inl (Wrapf ''failed to generate password: %w'' [] e)
                | Inr pw \<Rightarrow> Inr (zeroPassword\<lparr>dpValue := pw, dpGenerated := True, dpRotated := current \<noteq> [], dpRotationRequest := req\<rparr>))
         })"

definition recordPassword :: "RoleObject \<Rightarrow> desiredPassword \<Rightarrow> int \<Rightarrow> RoleObject" where
  "recordPassword role dp now =
     (let st0 = (roleStatus role)\<lparr>rtPasswordHash := []\<rparr>;
          st1 = (if dpFromRef dp then st0\<lparr>rtPasswordRotatedAt := None\<rparr>
                 else if dpGenerated dp \<or> (rtPasswordRotatedAt st0 = None \<and> rotationInterval role > 0)
                 then st0\<lparr>rtPasswordRotatedAt := Some now\<rparr> else st0)
      in role\<lparr>roleStatus := (if dpRotationRequest dp \<noteq> [] then st1\<lparr>rtPasswordRotationRequest := dpRotationRequest dp\<rparr> else st1)\<rparr>)"

section \<open>The referenced password\<close>

abbreviation LabelAppManagedBy :: string where "LabelAppManagedBy \<equiv> ''app.kubernetes.io/managed-by''"
abbreviation LabelAppName :: string where "LabelAppName \<equiv> ''app.kubernetes.io/name''"
abbreviation LabelAppInstance :: string where "LabelAppInstance \<equiv> ''app.kubernetes.io/instance''"
abbreviation LabelCluster :: string where "LabelCluster \<equiv> ''pgop.ruck.io/cluster''"
abbreviation LabelValuePgop :: string where "LabelValuePgop \<equiv> ''pgop''"
abbreviation AppNamePostgresqlRole :: string where "AppNamePostgresqlRole \<equiv> ''postgresql-role''"
abbreviation pgopGroup :: string where "pgopGroup \<equiv> ''pgop.ruck.io''"

definition protectedSecretProblem :: "'s roleKube \<Rightarrow> string \<Rightarrow> RoleSecret \<Rightarrow> ('s, error + string) state" where
  "protectedSecretProblem kube namespace secret =
     (if mapGet [] (rsecLabels secret) LabelAppManagedBy = LabelValuePgop then ret (Inr ''it is managed by pgop'')
      else (case find (\<lambda>(v, kind, name). rkParseGroup kube v = Some pgopGroup) (rsecOwners secret) of
         Some (v, kind, name) \<Rightarrow> ret (Inr (sprintf ''it is owned by the %s %q'' [kind, name]))
       | None \<Rightarrow> do {
           r \<leftarrow> rkClusters kube namespace;
           ret (case r of
                  Inl e \<Rightarrow> Inl (Wrapf ''failed to list Clusters: %w'' [] e)
                | Inr clusters \<Rightarrow>
                    (case find (\<lambda>c. case clTLS c of None \<Rightarrow> False | Some t \<Rightarrow> tlsSecret t = secName secret) clusters of
                       Some c \<Rightarrow> Inr (sprintf ''it is the TLS Secret of Cluster %q'' [clName c])
                     | None \<Rightarrow> Inr []))
         }))"

definition readPasswordSecretRef :: "'s roleKube \<Rightarrow> RoleObject \<Rightarrow> SecretKeySelector \<Rightarrow> ('s, error + string) state" where
  "readPasswordSecretRef kube role ref = do {
     r \<leftarrow> rrSecret (rkCache kube) (skName ref);
     (case r of
        Inl e \<Rightarrow> ret (Inl (if rkIsNotFound kube e
          then ConditionError ReasonPasswordSecretNotFound (Errorf ''password Secret %q not found'' [skName ref])
          else Wrapf ''failed to get password Secret %q: %w'' [skName ref] e))
      | Inr secret \<Rightarrow> do {
          p \<leftarrow> protectedSecretProblem kube (roleMetaNamespace role) secret;
          ret (case p of
                 Inl e \<Rightarrow> Inl e
               | Inr problem \<Rightarrow>
                   (let pw = mapGet [] (secData secret) (skKey ref)
                    in if problem \<noteq> []
                       then Inl (ConditionError ReasonRolePolicyViolation (Errorf ''password Secret %q cannot be used: %s'' [skName ref, problem]))
                       else if pw = []
                       then Inl (ConditionError ReasonPasswordSecretNotFound
                         (Errorf ''password Secret %q has no (or an empty) key %q'' [skName ref, skKey ref]))
                       else if passwordProblem pw \<noteq> []
                       then Inl (ConditionError ReasonPasswordSecretInvalid
                         (Errorf ''the value of key %q in password Secret %q %s'' [skKey ref, skName ref, passwordProblem pw]))
                       else Inr pw))
        })
   }"

section \<open>The password of a reconcile\<close>

definition checkEditedPassword :: "desiredPassword \<Rightarrow> RoleSecret option \<Rightarrow> error option" where
  "checkEditedPassword dp secret =
     (case secret of
        None \<Rightarrow> None
      | Some s \<Rightarrow>
          if dpGenerated dp \<or> dpFromRef dp \<or> dpApplied dp then None
          else if passwordProblem (dpValue dp) \<noteq> []
          then Some (ConditionError ReasonPasswordSecretInvalid
            (Errorf ''the %q key of credentials Secret %q %s'' [SecretKeyPassword, secName s, passwordProblem (dpValue dp)]))
          else None)"

definition currentPassword :: "RoleSecret option \<Rightarrow> string" where
  "currentPassword existing = (case existing of None \<Rightarrow> [] | Some s \<Rightarrow> mapGet [] (secData s) SecretKeyPassword)"

definition choosePasswordFresh :: "'s roleKube \<Rightarrow> (nat \<Rightarrow> ('s, error + string) state) \<Rightarrow> RoleObject \<Rightarrow> bool \<Rightarrow> string \<Rightarrow> RoleSecret option
    \<Rightarrow> int \<Rightarrow> ('s, RoleObject \<times> (error + desiredPassword)) state" where
  "choosePasswordFresh kube random role fromRef refPassword existing now = do {
     r \<leftarrow> choosePassword random role fromRef refPassword (currentPassword existing) now;
     (case (r, rkAPIReader kube) of
        (Inr dp, Some reader) \<Rightarrow>
          if \<not> dpRotated dp then ret (role, r)
          else do {
            f \<leftarrow> rrRole reader (roleMetaName role);
            (case f of
               Inl e \<Rightarrow> ret (role, Inl (Wrapf ''failed to re-read Role before rotating its password: %w'' [] e))
             | Inr fresh \<Rightarrow>
                 if roleVersion fresh = roleVersion role then ret (role, r)
                 else do {
                   r2 \<leftarrow> choosePassword random fresh fromRef refPassword (currentPassword existing) now;
                   ret (fresh, r2)
                 })
          }
      | _ \<Rightarrow> ret (role, r))
   }"

definition decidePassword :: "'s roleKube \<Rightarrow> (nat \<Rightarrow> ('s, error + string) state) \<Rightarrow> RoleObject \<Rightarrow> bool \<Rightarrow> string \<Rightarrow> RoleSecret option
    \<Rightarrow> int \<Rightarrow> ('s, RoleObject \<times> (error + desiredPassword)) state" where
  "decidePassword kube random role fromRef refPassword existing now = do {
     (role', r) \<leftarrow> choosePasswordFresh kube random role fromRef refPassword existing now;
     ret (role', case r of
                   Inl e \<Rightarrow> Inl e
                 | Inr dp \<Rightarrow> Inr (dp\<lparr>dpApplied := \<not> dpGenerated dp \<and> passwordApplied role' existing (dpValue dp)\<rparr>))
   }"

text \<open>
  A password that is about to be sent, other than a generated one, is confirmed with an uncached
  read of the Secret first.
\<close>

definition resolvePasswordFresh :: "'s roleKube \<Rightarrow> (nat \<Rightarrow> ('s, error + string) state) \<Rightarrow> RoleObject \<Rightarrow> RoleSecret option \<Rightarrow> int
    \<Rightarrow> ('s, RoleObject \<times> (error + desiredPassword \<times> RoleSecret option)) state" where
  "resolvePasswordFresh kube random role existing now = do {
     ref \<leftarrow> (case rsPasswordSecretRef (roleSpec role) of
               None \<Rightarrow> ret (Inr [])
             | Some sel \<Rightarrow> readPasswordSecretRef kube role sel);
     (case ref of
        Inl e \<Rightarrow> ret (role, Inl e)
      | Inr refPassword \<Rightarrow>
          (let fromRef = rsPasswordSecretRef (roleSpec role) \<noteq> None
           in do {
             (role1, r) \<leftarrow> decidePassword kube random role fromRef refPassword existing now;
             (case (r, existing, rkAPIReader kube) of
                (Inl e, _, _) \<Rightarrow> ret (role1, Inl e)
              | (Inr dp, Some cached, Some reader) \<Rightarrow>
                  if dpApplied dp \<or> dpGenerated dp then ret (role1, Inr (dp, existing))
                  else do {
                    f \<leftarrow> rrSecret reader (secName cached);
                    (case f of
                       Inl e \<Rightarrow>
                         if \<not> rkIsNotFound kube e
                         then ret (role1, Inl (Wrapf ''failed to re-read the credentials Secret before setting the password: %w'' [] e))
                         else do {
                           (role2, r2) \<leftarrow> decidePassword kube random role1 fromRef refPassword None now;
                           ret (role2, map_sum id (\<lambda>dp2. (dp2, None)) r2)
                         }
                     | Inr fresh \<Rightarrow>
                         if rsecVersion fresh = rsecVersion cached then ret (role1, Inr (dp, existing))
                         else do {
                           (role2, r2) \<leftarrow> decidePassword kube random role1 fromRef refPassword (Some fresh) now;
                           ret (role2, map_sum id (\<lambda>dp2. (dp2, Some fresh)) r2)
                         })
                  }
              | (Inr dp, _, _) \<Rightarrow> ret (role1, Inr (dp, existing)))
           }))
   }"

definition resolvePassword :: "'s roleKube \<Rightarrow> (nat \<Rightarrow> ('s, error + string) state) \<Rightarrow> RoleObject \<Rightarrow> RoleSecret option \<Rightarrow> int
    \<Rightarrow> ('s, RoleObject \<times> (error + desiredPassword \<times> RoleSecret option)) state" where
  "resolvePassword kube random role existing now = do {
     (role', r) \<leftarrow> resolvePasswordFresh kube random role existing now;
     ret (role', case r of
                   Inl e \<Rightarrow> Inl e
                 | Inr (dp, secret) \<Rightarrow> (case checkEditedPassword dp secret of Some e \<Rightarrow> Inl e | None \<Rightarrow> Inr (dp, secret)))
   }"

section \<open>The credentials Secret\<close>

definition credentialsSecretName :: "RoleObject \<Rightarrow> Cluster \<Rightarrow> string" where
  "credentialsSecretName role cluster = clName cluster @ ''-'' @ roleMetaName role @ ''-credentials''"

definition getCredentialsSecret :: "'s roleKube \<Rightarrow> RoleObject \<Rightarrow> Cluster \<Rightarrow> ('s, error + RoleSecret option) state" where
  "getCredentialsSecret kube role cluster = do {
     let name = credentialsSecretName role cluster;
     r1 \<leftarrow> rrSecret (rkCache kube) name;
     r \<leftarrow> (case (r1, rkAPIReader kube) of
             (Inl e, Some reader) \<Rightarrow> if rkIsNotFound kube e then rrSecret reader name else ret r1
           | _ \<Rightarrow> ret r1);
     ret (case r of
            Inr secret \<Rightarrow> Inr (Some secret)
          | Inl e \<Rightarrow> if rkIsNotFound kube e then Inr None else Inl e)
   }"

definition roleSecretLabels :: "RoleObject \<Rightarrow> string gomap" where
  "roleSecretLabels role =
     [(LabelAppName, AppNamePostgresqlRole), (LabelAppInstance, roleMetaName role), (LabelAppManagedBy, LabelValuePgop),
      (LabelCluster, crName (rsClusterRef (roleSpec role)))]"

definition convergeRoleSecret :: "RoleSecret \<Rightarrow> RoleObject \<Rightarrow> string \<Rightarrow> string \<Rightarrow> int \<Rightarrow> clientTLS \<Rightarrow> RoleSecret \<times> bool" where
  "convergeRoleSecret secret role password host port t =
     (let fp = passwordFingerprint role password;
          (data1, c1) = (if mapGet [] (secData secret) SecretKeyPassword \<noteq> password
            then (AList.update SecretKeyPassword password (secData secret), True) else (secData secret, False));
          (ann, c2) = (if mapGet [] (secAnnotations secret) AnnotationPasswordFingerprint \<noteq> fp
            then (AList.update AnnotationPasswordFingerprint fp (secAnnotations secret), True) else (secAnnotations secret, False));
          (labels, c3) = setKeys (roleSecretLabels role) (rsecLabels secret);
          (data2, c4) = applyConnectionInfo data1 host port defaultDatabaseName t
      in (secret\<lparr>secData := data2, secAnnotations := ann, rsecLabels := labels\<rparr>, c1 \<or> c2 \<or> c3 \<or> c4))"

definition errCredentialsSecretChanged :: error where
  "errCredentialsSecretChanged = Errorf (''the credentials Secret'' @ [squote] @ ''s password changed concurrently; retrying from the current Secret'') []"

text \<open>
  \<open>retry.RetryOnConflict\<close> of client-go with a back-off of \<open>n\<close> steps (\<open>DefaultRetry\<close> has 5): the
  function runs until it ends without a conflict, at most \<open>n\<close> times. Its argument is the Secret it
  works on.
\<close>

fun retryOnConflict :: "nat \<Rightarrow> (error \<Rightarrow> bool) \<Rightarrow> ('x \<Rightarrow> ('s, 'x \<times> error option) state) \<Rightarrow> 'x \<Rightarrow> ('s, error option) state" where
  "retryOnConflict 0 conflict fn x = ret None"
| "retryOnConflict (Suc n) conflict fn x = do {
     (x', e) \<leftarrow> fn x;
     (case e of
        None \<Rightarrow> ret None
      | Some err \<Rightarrow> if conflict err \<and> n > 0 then retryOnConflict n conflict fn x' else ret (Some err))
   }"

text \<open>The function that is retried.\<close>

definition updateRoleSecret :: "'s roleKube \<Rightarrow> RoleObject \<Rightarrow> string \<Rightarrow> string \<Rightarrow> string \<Rightarrow> int \<Rightarrow> clientTLS \<Rightarrow> bool \<Rightarrow> RoleSecret
    \<Rightarrow> ('s, RoleSecret \<times> error option) state" where
  "updateRoleSecret kube role basePassword password host port t passwordSent secret =
     (if \<not> passwordSent \<and> mapGet [] (secData secret) SecretKeyPassword \<noteq> basePassword
      then ret (secret, Some errCredentialsSecretChanged)
      else (case convergeRoleSecret secret role password host port t of
         (secret', changed) \<Rightarrow>
           if \<not> changed then ret (secret', None)
           else do {
             e \<leftarrow> rkUpdateSecret kube secret';
             (case e of
                Some err \<Rightarrow>
                  if rkIsConflict kube err
                  then do {
                    r \<leftarrow> rrSecret (case rkAPIReader kube of Some reader \<Rightarrow> reader | None \<Rightarrow> rkCache kube) (secName secret');
                    ret (case r of Inl getErr \<Rightarrow> (secret', Some getErr) | Inr fresh \<Rightarrow> (fresh, e))
                  }
                  else ret (secret', e)
              | None \<Rightarrow> ret (secret', None))
           }))"

definition newRoleSecret :: "RoleObject \<Rightarrow> Cluster \<Rightarrow> string \<Rightarrow> clientTLS \<Rightarrow> RoleSecret" where
  "newRoleSecret role cluster password t =
     \<lparr>secName = credentialsSecretName role cluster,
      secAnnotations = [(AnnotationPasswordFingerprint, passwordFingerprint role password)],
      secData = fst (applyConnectionInfo [(SecretKeyUsername, RolePostgresName (Role.truncate role)), (SecretKeyPassword, password)]
        (clusterHost cluster) (clusterPort cluster) defaultDatabaseName t),
      rsecVersion = [], rsecLabels = roleSecretLabels role, rsecOwners = [(''pgop.ruck.io/v1alpha1'', ''Role'', roleMetaName role)]\<rparr>"

definition reconcileCredentialsSecret :: "'s roleKube \<Rightarrow> nat \<Rightarrow> RoleObject \<Rightarrow> Cluster \<Rightarrow> RoleSecret option \<Rightarrow> string \<Rightarrow> bool
    \<Rightarrow> ('s, error option) state" where
  "reconcileCredentialsSecret kube steps role cluster existing password passwordSent = do {
     t \<leftarrow> clusterClientTLS (rrSecret (rkCache kube)) cluster;
     (case t of
        Inl e \<Rightarrow> ret (Some e)
      | Inr tls \<Rightarrow>
          (case existing of
             None \<Rightarrow> rkCreateSecret kube (newRoleSecret role cluster password tls)
           | Some secret \<Rightarrow> retryOnConflict steps (rkIsConflict kube)
               (updateRoleSecret kube role (mapGet [] (secData secret) SecretKeyPassword) password
                 (clusterHost cluster) (clusterPort cluster) tls passwordSent) secret))
   }"

section \<open>The reconcile of the role and its password\<close>

text \<open>
  The part of \<open>RoleReconciler.Reconcile\<close> from the resolved password to the recorded one.
  \<open>createRole\<close> is \<open>Client.CreateRole\<close>; the ownership decision gave \<open>mark\<close> and \<open>createOnly\<close>. The
  result is the Role with its new status, and the error that ends the reconcile.
\<close>

definition clearPasswordStatus :: "RoleObject \<Rightarrow> RoleObject" where
  "clearPasswordStatus role = role\<lparr>roleStatus := (roleStatus role)\<lparr>rtPasswordHash := [], rtPasswordRotatedAt := None\<rparr>\<rparr>"

definition recordRoleName :: "RoleObject \<Rightarrow> string \<Rightarrow> Cluster \<Rightarrow> RoleObject" where
  "recordRoleName role pgName cluster =
     role\<lparr>roleStatus := (roleStatus (clearStaleRoleSettings (Role.truncate role) pgName (clUID cluster)))
       \<lparr>rtRoleName := pgName, rtClusterUID := clUID cluster\<rparr>\<rparr>"

definition applyRolePassword :: "'s roleKube \<Rightarrow> nat \<Rightarrow> (string \<Rightarrow> RoleOptions \<Rightarrow> ('s, error option) state) \<Rightarrow> RoleObject \<Rightarrow> Cluster
    \<Rightarrow> RolePolicySpec option \<Rightarrow> string \<Rightarrow> string \<Rightarrow> bool \<Rightarrow> desiredPassword \<Rightarrow> RoleSecret option \<Rightarrow> int \<Rightarrow> ('s, RoleObject \<times> error option) state" where
  "applyRolePassword kube steps createRole role cluster policy pgName mark createOnly dp secret now =
     (let opts = (fst (desiredRoleOptions (roleSpec role) policy))\<lparr>Password := dpValue dp,
            KeepExistingPassword := dpApplied dp \<and> \<not> dpForce dp, Comment := mark, CreateOnly := createOnly\<rparr>
      in do {
        e \<leftarrow> createRole pgName opts;
        (case e of
           Some err \<Rightarrow> ret (role, Some err)
         | None \<Rightarrow>
             (let role1 = recordRoleName role pgName cluster
              in if \<not> IsLogin (roleSpec role) then ret (clearPasswordStatus role1, None)
                 else do {
                   e2 \<leftarrow> reconcileCredentialsSecret kube steps role1 cluster secret (dpValue dp) (\<not> KeepExistingPassword opts);
                   ret (case e2 of Some err \<Rightarrow> (role1, Some err) | None \<Rightarrow> (recordPassword role1 dp now, None))
                 }))
      })"

definition reconcileRolePassword :: "'s roleKube \<Rightarrow> nat \<Rightarrow> (nat \<Rightarrow> ('s, error + string) state)
    \<Rightarrow> (string \<Rightarrow> RoleOptions \<Rightarrow> ('s, error option) state) \<Rightarrow> RoleObject \<Rightarrow> Cluster \<Rightarrow> RolePolicySpec option \<Rightarrow> string \<Rightarrow> string \<Rightarrow> bool \<Rightarrow> int
    \<Rightarrow> ('s, RoleObject \<times> error option) state" where
  "reconcileRolePassword kube steps random createRole role cluster policy pgName mark createOnly now =
     (if \<not> IsLogin (roleSpec role)
      then applyRolePassword kube steps createRole role cluster policy pgName mark createOnly zeroPassword None now
      else do {
        r \<leftarrow> getCredentialsSecret kube role cluster;
        (case r of
           Inl e \<Rightarrow> ret (role, Some e)
         | Inr existing \<Rightarrow> do {
             (role1, p) \<leftarrow> resolvePassword kube random role existing now;
             (case p of
                Inl e \<Rightarrow> ret (role1, Some e)
              | Inr (dp, secret) \<Rightarrow> applyRolePassword kube steps createRole role1 cluster policy pgName mark createOnly dp secret now)
           })
      })"

end
