(* ===== verification/Role_Passwords_Correct.thy ===== *)
theory Role_Passwords_Correct
  imports Role_Passwords
begin

text \<open>
  The contract between the password reconcile of a Role and the world it runs in, as a locale, and
  what the reconcile keeps under it. The view of the world is the password PostgreSQL has for the
  role, whether the role exists, the stored Secrets, what the cache may give for a Secret, and the
  stored Role. The cache may lag behind: only what it says about the version is reliable.
\<close>

section \<open>The view of the world\<close>

record passwordView =
  pvPassword :: string
  pvThere :: bool
  pvStored :: "string \<Rightarrow> RoleSecret option"
  pvCached :: "string \<Rightarrow> RoleSecret set"
  pvRole :: RoleObject

abbreviation secPassword :: "RoleSecret \<Rightarrow> string" where
  "secPassword sec \<equiv> mapGet [] (secData sec) SecretKeyPassword"

abbreviation secFingerprint :: "RoleSecret \<Rightarrow> string" where
  "secFingerprint sec \<equiv> mapGet [] (secAnnotations sec) AnnotationPasswordFingerprint"

definition sameContent :: "RoleSecret \<Rightarrow> RoleSecret \<Rightarrow> bool" where
  "sameContent a b \<longleftrightarrow> secData a = secData b \<and> secAnnotations a = secAnnotations b"

definition coherent :: "passwordView \<Rightarrow> string \<Rightarrow> bool" where
  "coherent v n \<longleftrightarrow> (\<forall>c \<in> pvCached v n. \<forall>sec. pvStored v n = Some sec \<and> rsecVersion c = rsecVersion sec \<longrightarrow> c = sec)"

definition rotationWanted :: "RoleObject \<Rightarrow> int \<Rightarrow> bool" where
  "rotationWanted role now \<longleftrightarrow> pendingRotationRequest role \<noteq> [] \<or> scheduledRotationDue role now"

definition referable :: "(string \<Rightarrow> string option) \<Rightarrow> RoleSecret \<Rightarrow> bool" where
  "referable parse sec \<longleftrightarrow> mapGet [] (rsecLabels sec) LabelAppManagedBy \<noteq> LabelValuePgop \<and>
     list_all (\<lambda>(v, kind, name). parse v \<noteq> Some pgopGroup) (rsecOwners sec)"

definition fromReference :: "(string \<Rightarrow> string option) \<Rightarrow> passwordView \<Rightarrow> RoleObject \<Rightarrow> string \<Rightarrow> bool" where
  "fromReference parse v role p \<longleftrightarrow>
     (case rsPasswordSecretRef (roleSpec role) of
        None \<Rightarrow> False
      | Some sel \<Rightarrow> \<exists>sec \<in> pvCached v (skName sel). referable parse sec \<and> mapGet [] (secData sec) (skKey sel) = p \<and>
          p \<noteq> [] \<and> passwordProblem p = [])"

definition mayGenerate :: "passwordView \<Rightarrow> string \<Rightarrow> int \<Rightarrow> bool" where
  "mayGenerate v n now \<longleftrightarrow> pvStored v n = None \<or> (\<exists>c. (c \<in> pvCached v n \<or> pvStored v n = Some c) \<and> secPassword c = []) \<or>
     rotationWanted (pvRole v) now"

definition known :: "passwordView \<Rightarrow> string \<Rightarrow> RoleSecret option \<Rightarrow> bool" where
  "known v n x \<longleftrightarrow> x = pvStored v n \<or> (\<exists>c \<in> pvCached v n. x = Some c)"

definition randomText :: "string \<Rightarrow> bool" where
  "randomText p \<longleftrightarrow> p \<in> range hexEncode"

lemma randomText_hexEncode [simp]: "randomText (hexEncode b)"
  by (simp add: randomText_def)

text \<open>Where a password PostgreSQL is given may come from.\<close>

definition passwordOrigin :: "(string \<Rightarrow> string option) \<Rightarrow> passwordView \<Rightarrow> RoleObject \<Rightarrow> string \<Rightarrow> int \<Rightarrow> string \<Rightarrow> bool" where
  "passwordOrigin parse v role n now p \<longleftrightarrow>
     fromReference parse v role p \<or>
     (\<exists>sec. pvStored v n = Some sec \<and> secPassword sec = p \<and> passwordProblem p = []) \<or>
     randomText p \<and> mayGenerate v n now \<or>
     \<not> pvThere v \<and> (\<exists>c. (c \<in> pvCached v n \<or> pvStored v n = Some c) \<and> secPassword c = p)"

definition synced :: "passwordView \<Rightarrow> string \<Rightarrow> RoleObject \<Rightarrow> bool" where
  "synced v n role \<longleftrightarrow> (\<forall>sec fp. pvStored v n = Some sec \<and> map_of (secAnnotations sec) AnnotationPasswordFingerprint = Some fp \<longrightarrow>
     fp = passwordFingerprint role (pvPassword v))"

definition noRevert :: "passwordView \<Rightarrow> string \<Rightarrow> bool" where
  "noRevert v n \<longleftrightarrow> (\<forall>c \<in> pvCached v n. \<forall>sec. pvStored v n = Some sec \<and> secPassword c = secPassword sec \<longrightarrow>
     map_of (secAnnotations c) AnnotationPasswordFingerprint = map_of (secAnnotations sec) AnnotationPasswordFingerprint)"

definition agrees :: "passwordView \<Rightarrow> string \<Rightarrow> RoleObject \<Rightarrow> bool" where
  "agrees v n role \<longleftrightarrow> (\<exists>sec. pvStored v n = Some sec \<and> secFingerprint sec = passwordFingerprint role (pvPassword v) \<and>
     passwordFingerprint role (secPassword sec) = passwordFingerprint role (pvPassword v))"

definition stale :: "passwordView \<Rightarrow> string \<Rightarrow> bool" where
  "stale v n \<longleftrightarrow> (\<exists>c \<in> pvCached v n. pvStored v n \<noteq> Some c)"

text \<open>The Role the reconcile was given and the stored one are the same object, a login role without a hash in its status.\<close>

definition sameLogin :: "RoleObject \<Rightarrow> RoleObject \<Rightarrow> bool" where
  "sameLogin role stored \<longleftrightarrow> roleUID stored = roleUID role \<and> roleMetaName stored = roleMetaName role \<and>
     (roleVersion role = roleVersion stored \<longrightarrow> role = stored) \<and> IsLogin (roleSpec role) \<and> IsLogin (roleSpec stored) \<and>
     rtPasswordHash (roleStatus role) = [] \<and> rtPasswordHash (roleStatus stored) = []"

lemma passwordFingerprint_uid: "roleUID a = roleUID b \<Longrightarrow> passwordFingerprint a = passwordFingerprint b"
  by (simp add: passwordFingerprint_def fun_eq_iff)

lemma recordRoleName_sel [simp]:
  "roleUID (recordRoleName role pgName cluster) = roleUID role" "roleMetaName (recordRoleName role pgName cluster) = roleMetaName role"
  "roleSpec (recordRoleName role pgName cluster) = roleSpec role"
  by (simp_all add: recordRoleName_def)

section \<open>What an update writes\<close>

lemma applyConnectionInfo_password [simp]:
  "mapGet [] (fst (applyConnectionInfo data host port database t)) SecretKeyPassword = mapGet [] data SecretKeyPassword"
proof -
  have "SecretKeyPassword \<notin> fst ` set (connectionKeys data host port database t)" by (auto simp: connectionKeys_def)
  then have "map_of (fst (setKeys (connectionKeys data host port database t) data)) SecretKeyPassword = map_of data SecretKeyPassword"
    by (rule setKeys_other)
  then show ?thesis
    by (cases "setKeys (connectionKeys data host port database t) data") (simp add: applyConnectionInfo_def mapGet_def map_of_delete)
qed

lemma applyConnectionInfo_same: "\<not> snd (applyConnectionInfo data host port database t) \<Longrightarrow> fst (applyConnectionInfo data host port database t) = data"
  using setKeys_same [of "connectionKeys data host port database t" data]
  by (auto simp: applyConnectionInfo_def split: prod.splits if_splits)

lemma convergeRoleSecret_writes:
  assumes "convergeRoleSecret sec role p host port t = (sec', changed)"
  shows "secName sec' = secName sec" "rsecVersion sec' = rsecVersion sec" "secPassword sec' = p"
    "secFingerprint sec' = passwordFingerprint role p" "\<not> changed \<Longrightarrow> sec' = sec"
proof -
  define data where "data = (if secPassword sec \<noteq> p then AList.update SecretKeyPassword p (secData sec) else secData sec)"
  define ann where "ann = (if secFingerprint sec \<noteq> passwordFingerprint role p
    then AList.update AnnotationPasswordFingerprint (passwordFingerprint role p) (secAnnotations sec) else secAnnotations sec)"
  obtain labels c3 where l: "setKeys (roleSecretLabels role) (rsecLabels sec) = (labels, c3)" by fastforce
  obtain data' c4 where a: "applyConnectionInfo data host port defaultDatabaseName t = (data', c4)" by fastforce
  have sec': "sec' = sec\<lparr>secData := data', secAnnotations := ann, rsecLabels := labels\<rparr>"
    and ch: "changed \<longleftrightarrow> secPassword sec \<noteq> p \<or> secFingerprint sec \<noteq> passwordFingerprint role p \<or> c3 \<or> c4"
    using assms l a
    by (cases "secPassword sec = p"; cases "secFingerprint sec = passwordFingerprint role p"; simp add: convergeRoleSecret_def data_def ann_def)+
  have "mapGet [] data SecretKeyPassword = p" by (simp add: data_def mapGet_update)
  then show "secPassword sec' = p" using applyConnectionInfo_password [of data host port defaultDatabaseName t] by (simp add: sec' a)
  show "secFingerprint sec' = passwordFingerprint role p" by (simp add: sec' ann_def mapGet_update)
  show "secName sec' = secName sec" "rsecVersion sec' = rsecVersion sec" by (simp_all add: sec')
  show "sec' = sec" if "\<not> changed"
  proof -
    have "data' = data" "labels = rsecLabels sec"
      using that applyConnectionInfo_same [of data host port defaultDatabaseName t] setKeys_same [of "roleSecretLabels role" "rsecLabels sec"]
      by (simp_all add: ch l a)
    then show ?thesis using that by (simp add: sec' ch data_def ann_def)
  qed
qed

section \<open>The contract\<close>

locale password_world =
  fixes kube :: "'s roleKube" and reader :: "'s roleReader" and random :: "nat \<Rightarrow> ('s, error + string) state"
    and createRole :: "string \<Rightarrow> RoleOptions \<Rightarrow> ('s, error option) state" and view :: "'s \<Rightarrow> passwordView"
  assumes api_reader: "rkAPIReader kube = Some reader"
    and cached_secret: "wp (rrSecret (rkCache kube) n) (\<lambda>r s'. view s' = view s \<and>
      (\<forall>sec. r = Inr sec \<longrightarrow> secName sec = n \<and> sec \<in> pvCached (view s) n)) s"
    and stored_secret: "wp (rrSecret reader n) (\<lambda>r s'. view s' = view s \<and>
      (\<forall>sec. r = Inr sec \<longrightarrow> secName sec = n \<and> pvStored (view s) n = Some sec) \<and>
      (\<forall>e. r = Inl e \<longrightarrow> \<not> rkIsConflict kube e \<and> (rkIsNotFound kube e \<longrightarrow> pvStored (view s) n = None))) s"
    and stored_role: "wp (rrRole reader m) (\<lambda>r s'. view s' = view s \<and> (\<forall>x. r = Inr x \<longrightarrow> x = pvRole (view s))) s"
    and clusters: "wp (rkClusters kube ns) (\<lambda>_ s'. view s' = view s) s"
    and bytes: "wp (random k) (\<lambda>_ s'. view s' = view s) s"
    and creates_secret: "wp (rkCreateSecret kube x) (\<lambda>e s'. pvPassword (view s') = pvPassword (view s) \<and>
      (e = None \<longrightarrow> (\<exists>sec. pvStored (view s') (secName x) = Some sec \<and> sameContent sec x))) s"
    and updates_secret: "wp (rkUpdateSecret kube x) (\<lambda>e s'. pvPassword (view s') = pvPassword (view s) \<and>
      (e = None \<longrightarrow> (\<exists>old sec. pvStored (view s) (secName x) = Some old \<and> rsecVersion old = rsecVersion x \<and>
        pvStored (view s') (secName x) = Some sec \<and> sameContent sec x)) \<and>
      (\<forall>err. e = Some err \<and> rkIsConflict kube err \<longrightarrow> view s' = view s)) s"
    and creates_role: "wp (createRole n opts) (\<lambda>e s'.
      pvStored (view s') = pvStored (view s) \<and> pvCached (view s') = pvCached (view s) \<and>
      (pvPassword (view s') = pvPassword (view s) \<or> pvPassword (view s') = Password opts) \<and>
      (KeepExistingPassword opts \<and> pvThere (view s) \<longrightarrow> pvPassword (view s') = pvPassword (view s)) \<and>
      (e = None \<and> \<not> KeepExistingPassword opts \<longrightarrow> pvPassword (view s') = Password opts)) s"
begin

section \<open>Choosing the password\<close>

definition reads :: "('s, 'a) state \<Rightarrow> bool" where
  "reads m \<longleftrightarrow> (\<forall>s. wp m (\<lambda>_ s'. view s' = view s) s)"

text \<open>What \<open>choosePassword\<close> can give for a Secret's password \<open>current\<close>; \<open>due\<close> tells that a rotation is wanted.\<close>

definition chosen :: "bool \<Rightarrow> string \<Rightarrow> string \<Rightarrow> bool \<Rightarrow> desiredPassword \<Rightarrow> bool" where
  "chosen fromRef ref current due dp \<longleftrightarrow>
     (if fromRef then dpValue dp = ref \<and> dpFromRef dp \<and> \<not> dpGenerated dp
      else \<not> dpFromRef dp \<and> \<not> dpForce dp \<and>
        (if dpGenerated dp then (current = [] \<or> due) \<and> randomText (dpValue dp)
         else dpValue dp = current \<and> current \<noteq> []))"

lemma choosePassword_chosen:
  "wp (choosePassword random role fromRef ref current now) (\<lambda>r s'. view s' = view s \<and>
     (\<forall>dp. r = Inr dp \<longrightarrow> chosen fromRef ref current (rotationWanted role now) dp \<and> (dpRotated dp \<longleftrightarrow> dpGenerated dp \<and> current \<noteq> []))) s"
  unfolding choosePassword_def generateRolePassword_def Let_def
  by (cases fromRef; cases "current \<noteq> [] \<and> pendingRotationRequest role = [] \<and> \<not> scheduledRotationDue role now")
    (auto simp: wp_simps chosen_def zeroPassword_def rotationWanted_def intro!: wp_mono [OF bytes] split: sum.splits)

lemma chosen_due: "chosen fromRef ref current due dp \<Longrightarrow> \<not> (dpGenerated dp \<and> current \<noteq> []) \<Longrightarrow> chosen fromRef ref current due' dp"
  by (auto simp: chosen_def split: if_splits)

text \<open>The cached Role is the stored one, or an older version of it.\<close>

definition roleKnown :: "RoleObject \<Rightarrow> passwordView \<Rightarrow> bool" where
  "roleKnown role v \<longleftrightarrow> (roleVersion role = roleVersion (pvRole v) \<longrightarrow> role = pvRole v)"

lemma choosePasswordFresh_chosen:
  assumes "roleKnown role (view s)"
  shows "wp (choosePasswordFresh kube random role fromRef ref existing now) (\<lambda>(role', r) s'. view s' = view s \<and>
     (role' = role \<or> role' = pvRole (view s)) \<and>
     (\<forall>dp. r = Inr dp \<longrightarrow> chosen fromRef ref (currentPassword existing) (rotationWanted (pvRole (view s)) now) dp)) s"
  unfolding choosePasswordFresh_def wp_bind
proof (rule wp_mono [OF choosePassword_chosen], goal_cases)
  case (1 r s1)
  show ?case
  proof (cases r)
    case (Inl e)
    then show ?thesis using 1 by (simp add: wp_simps)
  next
    case (Inr dp)
    note c = 1 [unfolded Inr, simplified]
    show ?thesis
    proof (cases "dpRotated dp")
      case False
      then show ?thesis using c by (auto simp: Inr wp_simps api_reader intro: chosen_due)
    next
      case True
      show ?thesis
        unfolding Inr api_reader sum.case option.case prod.case wp_bind
        apply (simp add: True wp_bind)
        apply (rule wp_mono [OF stored_role])
        subgoal for f s2
          using c assms
          by (cases f) (auto simp: wp_simps roleKnown_def split_beta intro!: wp_mono [OF choosePassword_chosen])
        done
    qed
  qed
qed

lemma protectedSecretProblem_refers:
  "wp (protectedSecretProblem kube ns secret) (\<lambda>r s'. view s' = view s \<and> (r = Inr [] \<longrightarrow> referable (rkParseGroup kube) secret)) s"
proof (cases "mapGet [] (rsecLabels secret) LabelAppManagedBy = LabelValuePgop")
  case True
  then show ?thesis by (simp add: protectedSecretProblem_def wp_simps)
next
  case False
  show ?thesis
  proof (cases "find (\<lambda>(v, kind, name). rkParseGroup kube v = Some pgopGroup) (rsecOwners secret)")
    case None
    then have "referable (rkParseGroup kube) secret"
      using False by (auto simp: referable_def find_None_iff list_all_iff)
    then show ?thesis
      using None False by (auto simp: protectedSecretProblem_def wp_simps intro!: wp_mono [OF clusters])
  next
    case (Some x)
    then show ?thesis using False
      by (cases x) (simp add: protectedSecretProblem_def wp_simps sprintf_nonempty)
  qed
qed

lemma readPasswordSecretRef_usable:
  assumes "rsPasswordSecretRef (roleSpec role) = Some sel"
  shows "wp (readPasswordSecretRef kube role sel) (\<lambda>r s'. view s' = view s \<and>
     (\<forall>p. r = Inr p \<longrightarrow> fromReference (rkParseGroup kube) (view s) role p)) s"
  unfolding readPasswordSecretRef_def wp_bind
  apply (rule wp_mono [OF cached_secret])
  subgoal for r s1
    apply (cases r)
     apply (simp add: wp_simps)
    apply (simp add: wp_simps)
    apply (rule wp_mono [OF protectedSecretProblem_refers])
    apply (auto simp: fromReference_def assms Let_def split: sum.splits if_splits)
    done
  done

definition settled :: "passwordView \<Rightarrow> bool \<Rightarrow> string \<Rightarrow> RoleSecret option \<Rightarrow> int \<Rightarrow> RoleObject \<Rightarrow> desiredPassword \<Rightarrow> bool" where
  "settled v fromRef ref secret now role' dp \<longleftrightarrow>
     chosen fromRef ref (currentPassword secret) (rotationWanted (pvRole v) now) dp \<and>
     (dpApplied dp \<longleftrightarrow> \<not> dpGenerated dp \<and> passwordApplied role' secret (dpValue dp))"

lemma decidePassword_settled:
  assumes "roleKnown role (view s)"
  shows "wp (decidePassword kube random role fromRef ref existing now) (\<lambda>(role', r) s'. view s' = view s \<and>
     (role' = role \<or> role' = pvRole (view s)) \<and> (\<forall>dp. r = Inr dp \<longrightarrow> settled (view s) fromRef ref existing now role' dp)) s"
  unfolding decidePassword_def wp_bind
  apply (rule wp_mono [OF choosePasswordFresh_chosen [OF assms]])
  subgoal premises p for a s1
  proof (cases a)
    case (Pair role' r)
    show ?thesis
      using p by (cases r) (simp_all add: Pair wp_simps settled_def chosen_def)
  qed
  done

text \<open>The result of resolving the password: where it comes from, and which Secret it was compared with.\<close>

definition resolved :: "passwordView \<Rightarrow> RoleObject \<Rightarrow> string \<Rightarrow> int \<Rightarrow> RoleObject \<Rightarrow> desiredPassword \<Rightarrow> RoleSecret option \<Rightarrow> bool" where
  "resolved v role n now role' dp secret \<longleftrightarrow>
     (\<exists>ref. settled v (rsPasswordSecretRef (roleSpec role) \<noteq> None) ref secret now role' dp \<and>
       (rsPasswordSecretRef (roleSpec role) \<noteq> None \<longrightarrow> fromReference (rkParseGroup kube) v role ref)) \<and>
     known v n secret \<and> (\<not> dpApplied dp \<and> \<not> dpGenerated dp \<longrightarrow> secret = pvStored v n)"

definition goodRole :: "passwordView \<Rightarrow> RoleObject \<Rightarrow> RoleObject \<Rightarrow> bool" where
  "goodRole v role role' \<longleftrightarrow> role' = role \<or> role' = pvRole v"

lemma readReference_usable:
  "wp (case rsPasswordSecretRef (roleSpec role) of None \<Rightarrow> ret (Inr []) | Some sel \<Rightarrow> readPasswordSecretRef kube role sel)
     (\<lambda>r s'. view s' = view s \<and> (\<forall>p. r = Inr p \<and> rsPasswordSecretRef (roleSpec role) \<noteq> None \<longrightarrow>
       fromReference (rkParseGroup kube) (view s) role p)) s"
  by (cases "rsPasswordSecretRef (roleSpec role)") (auto simp: wp_simps intro: wp_mono [OF readPasswordSecretRef_usable])

lemma decideAgain:
  assumes "roleKnown role (view s)" and "goodRole (view s) role role1" and "view s1 = view s"
    and "rsPasswordSecretRef (roleSpec role) \<noteq> None \<longrightarrow> fromReference (rkParseGroup kube) (view s) role ref"
    and "secret = pvStored (view s) n"
  shows "wp (decidePassword kube random role1 (rsPasswordSecretRef (roleSpec role) \<noteq> None) ref secret now)
     (\<lambda>a s'. view s' = view s \<and> goodRole (view s) role (fst a) \<and>
       (\<forall>dp. snd a = Inr dp \<longrightarrow> resolved (view s) role n now (fst a) dp secret)) s1"
proof -
  have "roleKnown role1 (view s1)" using assms(1-3) by (auto simp: roleKnown_def goodRole_def)
  from decidePassword_settled [OF this] show ?thesis
    by (rule wp_mono) (use assms in \<open>auto simp: goodRole_def resolved_def settled_def known_def\<close>)
qed

definition secretRead :: "passwordView \<Rightarrow> string \<Rightarrow> RoleSecret option \<Rightarrow> bool" where
  "secretRead v n x \<longleftrightarrow> known v n x \<and> (case x of None \<Rightarrow> pvStored v n = None | Some sec \<Rightarrow> secName sec = n)"

lemma map_sum_Inr: "map_sum id f x = Inr y \<longleftrightarrow> (\<exists>z. x = Inr z \<and> y = f z)"
  by (cases x) auto

text \<open>The part after the first decision: the fresh read of the Secret and the decision it may change.\<close>

lemma confirmSecret:
  assumes role: "roleKnown role (view s)" and good: "goodRole (view s) role role1"
    and refOk: "rsPasswordSecretRef (roleSpec role) \<noteq> None \<longrightarrow> fromReference (rkParseGroup kube) (view s) role ref"
    and read: "secretRead (view s) n (Some cached)" and coh: "coherent (view s) n" and v: "view s2 = view s"
    and base: "(\<not> dpApplied dp \<and> \<not> dpGenerated dp \<longrightarrow> Some cached = pvStored (view s) n) \<Longrightarrow> resolved (view s) role n now role1 dp (Some cached)"
  shows "wp (do {
      f \<leftarrow> rrSecret reader n;
      (case f of
         Inl e \<Rightarrow>
           if \<not> rkIsNotFound kube e
           then ret (role1, Inl (Wrapf ''failed to re-read the credentials Secret before setting the password: %w'' [] e))
           else do {
             (role2, r2) \<leftarrow> decidePassword kube random role1 (rsPasswordSecretRef (roleSpec role) \<noteq> None) ref None now;
             ret (role2, map_sum id (\<lambda>dp2. (dp2, None)) r2)
           }
       | Inr fresh \<Rightarrow>
           if rsecVersion fresh = rsecVersion cached then ret (role1, Inr (dp, Some cached))
           else do {
             (role2, r2) \<leftarrow> decidePassword kube random role1 (rsPasswordSecretRef (roleSpec role) \<noteq> None) ref (Some fresh) now;
             ret (role2, map_sum id (\<lambda>dp2. (dp2, Some fresh)) r2)
           })
    }) (\<lambda>a s'. view s' = view s \<and> goodRole (view s) role (fst a) \<and>
     (\<forall>dp secret. snd a = Inr (dp, secret) \<longrightarrow> secretRead (view s) n secret \<and> resolved (view s) role n now (fst a) dp secret)) s2"
  unfolding wp_bind
proof (rule wp_mono [OF stored_secret], goal_cases)
  case (1 f s3)
  have again: "wp (do {
        (role2, r2) \<leftarrow> decidePassword kube random role1 (rsPasswordSecretRef (roleSpec role) \<noteq> None) ref secret now;
        ret (role2, map_sum id (\<lambda>dp2. (dp2, secret)) r2)
      }) (\<lambda>a s'. view s' = view s \<and> goodRole (view s) role (fst a) \<and>
       (\<forall>dp secret. snd a = Inr (dp, secret) \<longrightarrow> secretRead (view s) n secret \<and> resolved (view s) role n now (fst a) dp secret)) s3"
    if sec: "secret = pvStored (view s) n" and nm: "\<And>x. secret = Some x \<Longrightarrow> secName x = n" for secret
  proof -
    have v3: "view s3 = view s" using 1 v by simp
    have rd: "secretRead (view s) n secret" using sec nm by (auto simp: secretRead_def known_def split: option.splits)
    show ?thesis
      unfolding wp_bind
      by (rule wp_mono [OF decideAgain [OF role good v3 refOk sec]])
        (use rd in \<open>auto simp: wp_simps map_sum_Inr split: prod.splits\<close>)
  qed
  show ?case
  proof (cases f)
    case (Inl e)
    then show ?thesis using 1 v good again [of None] by (simp add: wp_ret)
  next
    case (Inr fresh)
    have st: "pvStored (view s) n = Some fresh" and nm: "secName fresh = n" using 1 v Inr by simp_all
    show ?thesis
    proof (cases "rsecVersion fresh = rsecVersion cached")
      case True
      have "cached = fresh"
        using read coh st True by (auto simp: secretRead_def known_def coherent_def)
      then have "resolved (view s) role n now role1 dp (Some cached)" using st by (intro base) simp
      then show ?thesis using 1 v True good read by (simp add: Inr wp_ret)
    next
      case False
      then show ?thesis using again [of "Some fresh"] st nm by (simp add: Inr)
    qed
  qed
qed

lemma resolvePasswordFresh_resolved:
  assumes role: "roleKnown role (view s)" and read: "secretRead (view s) n existing" and coh: "coherent (view s) n"
  shows "wp (resolvePasswordFresh kube random role existing now) (\<lambda>a s'. view s' = view s \<and> goodRole (view s) role (fst a) \<and>
     (\<forall>dp secret. snd a = Inr (dp, secret) \<longrightarrow> secretRead (view s) n secret \<and> resolved (view s) role n now (fst a) dp secret)) s"
    (is "wp _ ?Q s")
  unfolding resolvePasswordFresh_def wp_bind
proof (rule wp_mono [OF readReference_usable], goal_cases)
  case (1 r s1)
  show ?case
  proof (cases r)
    case (Inl e)
    then show ?thesis using 1 by (simp add: wp_simps goodRole_def)
  next
    case (Inr ref)
    have v1: "view s1 = view s" and refOk: "rsPasswordSecretRef (roleSpec role) \<noteq> None \<longrightarrow> fromReference (rkParseGroup kube) (view s) role ref"
      using 1 Inr by simp_all
    have role1: "roleKnown role (view s1)" using role v1 by simp
    show ?thesis
      unfolding Inr sum.case Let_def wp_bind
    proof (rule wp_mono [OF decidePassword_settled [OF role1]], goal_cases)
      case (1 a s2)
      obtain role1 r1 where a: "a = (role1, r1)" by (cases a)
      have v2: "view s2 = view s" and good: "goodRole (view s) role role1"
        using 1 v1 by (auto simp: a goodRole_def)
      show ?case
      proof (cases r1)
        case (Inl e)
        then show ?thesis using v2 good by (simp add: a wp_simps)
      next
        case (Inr dp)
        have st: "settled (view s) (rsPasswordSecretRef (roleSpec role) \<noteq> None) ref existing now role1 dp"
          using 1 v1 by (simp add: a Inr)
        have base: "resolved (view s) role n now role1 dp existing"
          if "\<not> dpApplied dp \<and> \<not> dpGenerated dp \<longrightarrow> existing = pvStored (view s) n"
          using st refOk read that by (auto simp: resolved_def secretRead_def)
        show ?thesis
        proof (cases existing)
          case None
          then have "existing = pvStored (view s) n" using read by (simp add: secretRead_def)
          then show ?thesis using v2 good base read None by (simp add: a Inr wp_simps)
        next
          case (Some cached)
          show ?thesis
          proof (cases "dpApplied dp \<or> dpGenerated dp")
            case True
            then have "resolved (view s) role n now role1 dp existing" by (intro base) blast
            then show ?thesis using v2 good read True by (simp add: a Inr Some wp_simps api_reader)
          next
            case False
            have "secName cached = n" using read Some by (simp add: secretRead_def)
            then show ?thesis
              using False v2 good unfolding a Inr Some api_reader prod.case sum.case option.case
              by (simp add: confirmSecret [OF role good refOk read [unfolded Some] coh _ base [unfolded Some]] v2)
          qed
        qed
      qed
    qed
  qed
qed

definition usable :: "desiredPassword \<Rightarrow> RoleSecret option \<Rightarrow> bool" where
  "usable dp secret \<longleftrightarrow> (\<not> dpGenerated dp \<and> \<not> dpFromRef dp \<and> \<not> dpApplied dp \<and> secret \<noteq> None \<longrightarrow> passwordProblem (dpValue dp) = [])"

lemma checkEditedPassword_usable: "checkEditedPassword dp secret = None \<Longrightarrow> usable dp secret"
  by (auto simp: checkEditedPassword_def usable_def split: option.splits if_splits)

lemma resolvePassword_resolved:
  assumes "roleKnown role (view s)" and "secretRead (view s) n existing" and "coherent (view s) n"
  shows "wp (resolvePassword kube random role existing now) (\<lambda>a s'. view s' = view s \<and> goodRole (view s) role (fst a) \<and>
     (\<forall>dp secret. snd a = Inr (dp, secret) \<longrightarrow>
        secretRead (view s) n secret \<and> resolved (view s) role n now (fst a) dp secret \<and> usable dp secret)) s"
  unfolding resolvePassword_def wp_bind
  apply (rule wp_mono [OF resolvePasswordFresh_resolved [OF assms]])
  subgoal premises p for a s1
  proof (cases a)
    case (Pair role' r)
    show ?thesis
    proof (cases r)
      case (Inl e)
      then show ?thesis using p by (simp add: Pair wp_simps)
    next
      case (Inr x)
      obtain dp secret where x: "x = (dp, secret)" by (cases x)
      show ?thesis
        using p checkEditedPassword_usable [of dp secret]
        by (cases "checkEditedPassword dp secret") (simp_all add: Pair Inr x wp_simps)
    qed
  qed
  done

section \<open>The credentials Secret\<close>

lemma getCredentialsSecret_read:
  "wp (getCredentialsSecret kube role cluster) (\<lambda>r s'. view s' = view s \<and>
     (\<forall>x. r = Inr x \<longrightarrow> secretRead (view s) (credentialsSecretName role cluster) x)) s"
  unfolding getCredentialsSecret_def Let_def wp_bind
  apply (rule wp_mono [OF cached_secret])
  subgoal premises p for r s1
  proof (cases r)
    case (Inr sec)
    then show ?thesis using p by (auto simp: wp_simps secretRead_def known_def)
  next
    case (Inl e)
    show ?thesis
    proof (cases "rkIsNotFound kube e")
      case False
      then show ?thesis using p by (simp add: Inl wp_simps api_reader)
    next
      case True
      have "wp (rrSecret reader (credentialsSecretName role cluster)) (\<lambda>r s'. view s' = view s \<and>
          (\<forall>sec. r = Inr sec \<longrightarrow> secName sec = credentialsSecretName role cluster \<and>
            pvStored (view s) (credentialsSecretName role cluster) = Some sec) \<and>
          (\<forall>e. r = Inl e \<longrightarrow> \<not> rkIsConflict kube e \<and>
            (rkIsNotFound kube e \<longrightarrow> pvStored (view s) (credentialsSecretName role cluster) = None))) s1"
        using stored_secret [of "credentialsSecretName role cluster" s1] p by simp
      then show ?thesis
        unfolding Inl api_reader sum.case option.case prod.case
        by (simp add: True) (rule wp_mono, assumption, auto simp: wp_ret secretRead_def known_def split: sum.splits)
    qed
  qed
  done

lemma clusterClientTLS_reads: "wp (clusterClientTLS (rrSecret (rkCache kube)) cluster) (\<lambda>_ s'. view s' = view s) s"
  by (auto simp: clusterClientTLS_def wp_simps intro!: wp_mono [OF cached_secret])

text \<open>A rule for \<open>retryOnConflict\<close>: an invariant on the value it works on and the world.\<close>

lemma wp_retry:
  assumes "\<And>x s. I x s \<Longrightarrow> wp (fn x) (\<lambda>(x', e) s'. Q e s' \<and> (\<forall>err. e = Some err \<and> conflict err \<longrightarrow> I x' s')) s"
  shows "n > 0 \<Longrightarrow> I x s \<Longrightarrow> wp (retryOnConflict n conflict fn x) Q s"
proof (induction n arbitrary: x s)
  case (Suc n)
  show ?case
    unfolding retryOnConflict.simps wp_bind
    apply (rule wp_mono [OF assms [OF Suc.prems(2)]])
    subgoal premises p for a s1
    proof (cases a)
      case (Pair x' e)
      show ?thesis
      proof (cases e)
        case None
        then show ?thesis using p by (simp add: Pair wp_simps)
      next
        case (Some err)
        then show ?thesis using p Suc.IH [of x' s1] by (simp add: Pair wp_simps)
      qed
    qed
    done
qed simp

definition secretDone :: "passwordView \<Rightarrow> string \<Rightarrow> bool \<Rightarrow> string \<Rightarrow> string \<Rightarrow> passwordView \<Rightarrow> bool" where
  "secretDone v n ok p fp v' \<longleftrightarrow>
     (\<exists>sec. pvStored v' n = Some sec \<and> secPassword sec = p \<and> secFingerprint sec = fp \<and> ok) \<or>
     pvStored v' = pvStored v \<and> stale v n"

definition baseKept :: "passwordView \<Rightarrow> string \<Rightarrow> string \<Rightarrow> bool" where
  "baseKept v n base \<longleftrightarrow> (\<exists>old. pvStored v n = Some old \<and> secPassword old = base)"

lemma updateRoleSecret_step:
  assumes read: "secretRead v n (Some x)" and v: "view s = v" and coh: "coherent v n"
  shows "wp (updateRoleSecret kube role base p host port t sent x) (\<lambda>(x', e) s'.
     (pvPassword (view s') = pvPassword v \<and>
       (e = None \<longrightarrow> secretDone v n (sent \<or> baseKept v n base) p (passwordFingerprint role p) (view s'))) \<and>
     (\<forall>err. e = Some err \<and> rkIsConflict kube err \<longrightarrow> secretRead v n (Some x') \<and> view s' = v)) s"
proof (cases "\<not> sent \<and> secPassword x \<noteq> base")
  case True
  then show ?thesis using v read by (simp add: updateRoleSecret_def wp_simps)
next
  case False
  obtain x' ch where c: "convergeRoleSecret x role p host port t = (x', ch)" by fastforce
  note w = convergeRoleSecret_writes [OF c]
  have xn: "secName x = n" and kn: "known v n (Some x)" using read by (simp_all add: secretRead_def)
  show ?thesis
  proof (cases ch)
    case unchanged: False
    have "secretDone v n (sent \<or> baseKept v n base) p (passwordFingerprint role p) v"
    proof (cases "pvStored v n = Some x")
      case True
      then show ?thesis using w unchanged False by (auto simp: secretDone_def baseKept_def)
    next
      case stl: False
      then show ?thesis using kn by (auto simp: secretDone_def stale_def known_def)
    qed
    then show ?thesis using v False unchanged using read by (simp add: updateRoleSecret_def wp_simps c)
  next
    case changed: True
    have written: "secretDone v n (sent \<or> baseKept v n base) p (passwordFingerprint role p) v'"
      if st: "pvStored v n = Some old" "rsecVersion old = rsecVersion x'" and "pvStored v' n = Some sec" "sameContent sec x'" for old sec v'
    proof -
      have "x = old" using kn coh st w by (auto simp: known_def coherent_def)
      then have "sent \<or> baseKept v n base" using False st by (auto simp: baseKept_def)
      then show ?thesis using that w by (auto simp: secretDone_def sameContent_def)
    qed
    show ?thesis
      unfolding updateRoleSecret_def c
      apply (simp add: False changed wp_simps api_reader)
      apply (rule wp_mono [OF updates_secret])
      subgoal premises p for e s1
      proof (cases e)
        case None
        then show ?thesis using p v w xn written by (auto simp: wp_simps)
      next
        case (Some err)
        show ?thesis
        proof (cases "rkIsConflict kube err")
          case True
          then have v1: "view s1 = v" using p v Some by simp
          have get: "wp (rrSecret reader n) (\<lambda>r s'. view s' = v \<and> (\<forall>y. r = Inr y \<longrightarrow> secretRead v n (Some y)) \<and>
              (\<forall>x. r = Inl x \<longrightarrow> \<not> rkIsConflict kube x)) s1"
            using stored_secret [of n s1] by (rule wp_mono) (auto simp: v1 secretRead_def known_def)
          show ?thesis
            using True w xn
            by (simp add: Some wp_simps api_reader) (rule wp_mono [OF get], auto simp: Some split: sum.splits)
        next
          case False
          then show ?thesis using p v by (simp add: Some wp_simps)
        qed
      qed
      done
  qed
qed

lemma newRoleSecret_sel:
  "secName (newRoleSecret role cluster p t) = credentialsSecretName role cluster"
  "secPassword (newRoleSecret role cluster p t) = p"
  "secFingerprint (newRoleSecret role cluster p t) = passwordFingerprint role p"
  by (simp_all add: newRoleSecret_def) (simp_all add: mapGet_def)

lemma reconcileCredentialsSecret_done:
  assumes read: "secretRead v (credentialsSecretName role cluster) existing" and v: "view s = v"
    and coh: "coherent v (credentialsSecretName role cluster)" and steps: "steps > 0"
  shows "wp (reconcileCredentialsSecret kube steps role cluster existing p sent) (\<lambda>e s'. pvPassword (view s') = pvPassword v \<and>
     (e = None \<longrightarrow> secretDone v (credentialsSecretName role cluster)
        (existing = None \<or> sent \<or> baseKept v (credentialsSecretName role cluster) (currentPassword existing)) p
        (passwordFingerprint role p) (view s'))) s"
  unfolding reconcileCredentialsSecret_def wp_bind
proof (rule wp_mono [OF clusterClientTLS_reads], goal_cases)
  case (1 r s1)
  then have v1: "view s1 = v" using v by simp
  show ?case
  proof (cases r)
    case (Inl e)
    then show ?thesis using v1 by (simp add: wp_simps)
  next
    case (Inr tls)
    show ?thesis
    proof (cases existing)
      case None
      show ?thesis
        unfolding Inr None sum.case option.case
        by (rule wp_mono [OF creates_secret])
          (auto simp: v1 newRoleSecret_sel secretDone_def sameContent_def)
    next
      case (Some secret)
      show ?thesis
        unfolding Inr Some sum.case option.case
        apply (rule wp_retry [where I = "\<lambda>x s. secretRead v (credentialsSecretName role cluster) (Some x) \<and> view s = v"])
          apply (elim conjE)
          apply (rule wp_mono [OF updateRoleSecret_step [OF _ _ coh]], assumption, assumption)
          apply (auto simp: currentPassword_def steps v1 read [unfolded Some])
        done
    qed
  qed
qed

section \<open>The whole step\<close>

definition passwordPost :: "passwordView \<Rightarrow> string \<Rightarrow> RoleObject \<Rightarrow> int \<Rightarrow> error option \<Rightarrow> passwordView \<Rightarrow> bool" where
  "passwordPost v n role now e v' \<longleftrightarrow>
     (pvPassword v' = pvPassword v \<or> passwordOrigin (rkParseGroup kube) v role n now (pvPassword v')) \<and>
     (e = None \<and> pvThere v \<and> synced v n role \<and> noRevert v n \<longrightarrow> agrees v' n role \<or> pvStored v' = pvStored v \<and> stale v n)"

lemma resolved_origin:
  assumes r: "resolved v role n now role' dp secret" and read: "secretRead v n secret" and u: "usable dp secret"
    and new: "\<not> (dpApplied dp \<and> \<not> dpForce dp \<and> pvThere v)"
  shows "passwordOrigin (rkParseGroup kube) v role n now (dpValue dp)"
proof (cases "rsPasswordSecretRef (roleSpec role) = None")
  case False
  then show ?thesis using r by (auto simp: resolved_def settled_def chosen_def passwordOrigin_def)
next
  case True
  obtain ref where ch: "chosen False ref (currentPassword secret) (rotationWanted (pvRole v) now) dp" and kn: "known v n secret"
    and stored: "\<not> dpApplied dp \<and> \<not> dpGenerated dp \<longrightarrow> secret = pvStored v n"
    using r by (auto simp: resolved_def settled_def True)
  show ?thesis
  proof (cases "dpGenerated dp")
    case gen: True
    have "mayGenerate v n now"
    proof (cases secret)
      case None
      then show ?thesis using read by (simp add: secretRead_def mayGenerate_def)
    next
      case (Some x)
      then show ?thesis using ch kn gen by (auto simp: chosen_def mayGenerate_def known_def currentPassword_def)
    qed
    then show ?thesis using ch gen by (auto simp: chosen_def passwordOrigin_def)
  next
    case old: False
    have val: "dpValue dp = currentPassword secret" "currentPassword secret \<noteq> []" "\<not> dpFromRef dp" "\<not> dpForce dp"
      using ch old by (simp_all add: chosen_def)
    then obtain x where x: "secret = Some x" by (cases secret) (auto simp: currentPassword_def)
    have p: "dpValue dp = secPassword x" using val by (simp add: x currentPassword_def)
    show ?thesis
    proof (cases "dpApplied dp")
      case True
      then have "\<not> pvThere v" using new val by simp
      moreover have "x \<in> pvCached v n \<or> pvStored v n = Some x" using kn by (auto simp: x known_def)
      ultimately show ?thesis unfolding passwordOrigin_def using p by metis
    next
      case False
      then have "pvStored v n = Some x" "passwordProblem (dpValue dp) = []" using stored old x u val by (auto simp: usable_def)
      then show ?thesis unfolding passwordOrigin_def using p by metis
    qed
  qed
qed

lemma kept_agrees:
  assumes r: "resolved v role n now role' dp secret" and app: "dpApplied dp" and sync: "synced v n role" and rev: "noRevert v n"
    and hash: "rtPasswordHash (roleStatus role') = []" and uid: "roleUID role' = roleUID role"
    and base: "secret = None \<or> baseKept v n (currentPassword secret)"
  shows "passwordFingerprint role (dpValue dp) = passwordFingerprint role (pvPassword v)"
proof -
  have "passwordApplied role' secret (dpValue dp)" and kn: "known v n secret" using r app by (auto simp: resolved_def settled_def)
  then obtain c where c: "secret = Some c" "map_of (secAnnotations c) AnnotationPasswordFingerprint = Some (passwordFingerprint role (dpValue dp))"
    using hash passwordFingerprint_uid [OF uid]
    by (auto simp: passwordApplied_def split: option.splits if_splits)
  obtain old where old: "pvStored v n = Some old" "secPassword old = secPassword c"
    using base by (auto simp: c(1) baseKept_def currentPassword_def)
  have "map_of (secAnnotations old) AnnotationPasswordFingerprint = map_of (secAnnotations c) AnnotationPasswordFingerprint"
    using kn rev old by (auto simp: c(1) known_def noRevert_def)
  then show ?thesis using sync old c by (auto simp: synced_def)
qed

lemma applyRolePassword_post:
  assumes good: "goodRole v role role'" and r: "resolved v role n now role' dp secret" and read: "secretRead v n secret"
    and u: "usable dp secret" and coh: "coherent v n" and n: "n = credentialsSecretName role cluster"
    and same: "sameLogin role (pvRole v)" and steps: "steps > 0" and v: "view s = v"
  shows "wp (applyRolePassword kube steps createRole role' cluster policy pgName mark createOnly dp secret now)
     (\<lambda>(_, e) s'. passwordPost v n role now e (view s')) s"
  unfolding applyRolePassword_def Let_def wp_bind
proof (rule wp_mono [OF creates_role], goal_cases)
  case (1 e s1)
  have uid: "roleUID role' = roleUID role" "roleMetaName role' = roleMetaName role" and hash: "rtPasswordHash (roleStatus role') = []"
    and login: "IsLogin (roleSpec role')"
    using good same by (auto simp: goodRole_def sameLogin_def)
  define kept where "kept \<longleftrightarrow> dpApplied dp \<and> \<not> dpForce dp"
  have st: "pvStored (view s1) = pvStored v" "pvCached (view s1) = pvCached v"
    and pw: "pvPassword (view s1) = pvPassword v \<or> pvPassword (view s1) = dpValue dp"
    and stay: "kept \<and> pvThere v \<longrightarrow> pvPassword (view s1) = pvPassword v"
    and sent: "e = None \<and> \<not> kept \<longrightarrow> pvPassword (view s1) = dpValue dp"
    using 1 v by (simp_all add: kept_def)
  have origin: "pvPassword (view s1) = pvPassword v \<or> passwordOrigin (rkParseGroup kube) v role n now (pvPassword (view s1))"
    using pw stay resolved_origin [OF r read u] unfolding kept_def by metis
  show ?case
  proof (cases e)
    case (Some err)
    then show ?thesis using origin by (simp add: wp_simps passwordPost_def)
  next
    case None
    define role1 where "role1 = recordRoleName role' pgName cluster"
    have n1: "credentialsSecretName role1 cluster = n" by (simp add: role1_def n credentialsSecretName_def uid)
    have fp1: "passwordFingerprint role1 = passwordFingerprint role" by (rule passwordFingerprint_uid) (simp add: role1_def uid)
    have read1: "secretRead (view s1) n secret" using read by (cases secret) (simp_all add: secretRead_def known_def st)
    have coh1: "coherent (view s1) n" using coh by (simp add: coherent_def st)
    have base1: "baseKept (view s1) n = baseKept v n" and stale1: "stale (view s1) n = stale v n"
      using st by (simp_all add: baseKept_def stale_def fun_eq_iff)
    have fin: "passwordPost v n role now e2 v'"
      if p: "pvPassword v' = pvPassword (view s1)"
        and d: "e2 = None \<longrightarrow> secretDone (view s1) n (secret = None \<or> \<not> kept \<or> baseKept (view s1) n (currentPassword secret)) (dpValue dp)
          (passwordFingerprint role (dpValue dp)) v'" for e2 v'
      unfolding passwordPost_def
    proof (intro conjI impI)
      show "pvPassword v' = pvPassword v \<or> passwordOrigin (rkParseGroup kube) v role n now (pvPassword v')" using origin p by simp
      assume a: "e2 = None \<and> pvThere v \<and> synced v n role \<and> noRevert v n"
      have "agrees v' n role" if ok: "secret = None \<or> \<not> kept \<or> baseKept v n (currentPassword secret)"
        and sec: "pvStored v' n = Some sec" "secPassword sec = dpValue dp" "secFingerprint sec = passwordFingerprint role (dpValue dp)" for sec
      proof (cases kept)
        case False
        then show ?thesis using sec p sent None by (auto simp: agrees_def)
      next
        case True
        then have "passwordFingerprint role (dpValue dp) = passwordFingerprint role (pvPassword v)"
          using kept_agrees [OF r] a ok hash uid by (auto simp: kept_def)
        then show ?thesis using sec p stay a True by (auto simp: agrees_def)
      qed
      then show "agrees v' n role \<or> pvStored v' = pvStored v \<and> stale v n"
        using d a st by (auto simp: secretDone_def base1 stale1)
    qed
    show ?thesis
      unfolding None option.case
      apply (simp add: login wp_bind role1_def [symmetric] kept_def [symmetric])
      apply (rule wp_mono [OF reconcileCredentialsSecret_done [OF _ refl]])
         apply (simp_all add: n1 read1 coh1 steps)
      apply (simp add: wp_simps fp1 split: option.splits)
      apply (intro conjI allI impI; rule fin; simp)
      done
  qed
qed

lemma reconcileRolePassword_post:
  assumes coh: "coherent (view s) (credentialsSecretName role cluster)" and same: "sameLogin role (pvRole (view s))" and steps: "steps > 0"
  shows "wp (reconcileRolePassword kube steps random createRole role cluster policy pgName mark createOnly now)
     (\<lambda>(_, e) s'. passwordPost (view s) (credentialsSecretName role cluster) role now e (view s')) s"
proof -
  have login: "IsLogin (roleSpec role)" and role: "roleKnown role (view s)" using same by (auto simp: sameLogin_def roleKnown_def)
  have stop: "passwordPost (view s) n role now (Some e) (view s)" for n e by (simp add: passwordPost_def)
  show ?thesis
    unfolding reconcileRolePassword_def
    apply (simp add: login wp_bind)
    apply (rule wp_mono [OF getCredentialsSecret_read])
    subgoal premises p for r s1
    proof (cases r)
      case (Inl e)
      then show ?thesis using p stop by (simp add: wp_simps)
    next
      case (Inr existing)
      then have v1: "view s1 = view s" and read: "secretRead (view s1) (credentialsSecretName role cluster) existing" using p by simp_all
      show ?thesis
        unfolding Inr sum.case wp_bind
        apply (rule wp_mono [OF resolvePassword_resolved [OF _ read]])
          apply (simp_all add: v1 role coh)
        subgoal premises q for a s2
        proof (cases a)
          case (Pair role' x)
          show ?thesis
          proof (cases x)
            case (Inl e)
            then show ?thesis using q stop by (simp add: Pair wp_simps)
          next
            case (Inr y)
            obtain dp secret where y: "y = (dp, secret)" by (cases y)
            show ?thesis
              using q by (simp add: Pair Inr y applyRolePassword_post [OF _ _ _ _ coh refl same steps])
          qed
        qed
        done
    qed
    done
qed

end

end
