(* ===== verification/Role_Passwords_Properties.thy ===== *)
theory Role_Passwords_Properties
  imports Role_Passwords_Correct
begin

text \<open>
  A reference world for the password reconcile: stored Secrets with versions, a cache with a content
  of its own, the stored Role, the password and existence of the PostgreSQL role, and a schedule that
  lets any call be refused, or take effect and lose its answer. It satisfies the contract, and the
  property of the password reconcile is stated over it.
\<close>

datatype callFate = Works | Refused | Lost

record passwordWorld =
  wdPassword :: string
  wdThere :: bool
  wdSecrets :: "RoleSecret gomap"
  wdCache :: "RoleSecret gomap"
  wdRole :: RoleObject
  wdClusters :: "Cluster list"
  wdBytes :: "string list"
  wdVersion :: nat
  wdFates :: "callFate list"

abbreviation errMissing :: error where "errMissing \<equiv> Errorf ''not found'' []"


definition lookupSecret :: "RoleSecret gomap \<Rightarrow> string \<Rightarrow> RoleSecret option" where
  "lookupSecret m n = map_option (\<lambda>x. x\<lparr>secName := n\<rparr>) (map_of m n)"


definition found :: "'a option \<Rightarrow> error + 'a" where
  "found x = (case x of None \<Rightarrow> Inl errMissing | Some y \<Rightarrow> Inr y)"





definition refPasswordView :: "passwordWorld \<Rightarrow> passwordView" where
  "refPasswordView w = \<lparr>pvPassword = wdPassword w, pvThere = wdThere w, pvStored = lookupSecret (wdSecrets w),
     pvCached = (\<lambda>n. set_option (lookupSecret (wdCache w) n)), pvRole = wdRole w\<rparr>"


lemma refPasswordView_fates [simp]:
  "refPasswordView (w\<lparr>wdFates := x\<rparr>) = refPasswordView w" "refPasswordView (w\<lparr>wdFates := x, wdBytes := b\<rparr>) = refPasswordView w"
  "refPasswordView (w\<lparr>wdBytes := b\<rparr>) = refPasswordView w"
  by (simp_all add: refPasswordView_def)


lemma found_Inr [simp]: "found x = Inr y \<longleftrightarrow> x = Some y" and found_Inl [simp]: "found x = Inl e \<longleftrightarrow> x = None \<and> e = errMissing"
  by (auto simp: found_def split: option.splits)


section \<open>The property\<close>










end
