(* ===== verification/Schema_Objects.thy ===== *)
theory Schema_Objects
  imports Pg_Client
begin

text \<open>
  Privileges on the objects of a schema and default privileges: \<open>internal/postgres/objects.go\<close>. An
  object is only ever named in a statement by the server's own rendering of it, which a catalog query
  returned. Catalog values are those of \<open>Pg_Client\<close>; a PostgreSQL array is a \<open>SArray\<close>, an OID a
  \<open>SInt\<close>.
\<close>

section \<open>Kinds of objects\<close>

abbreviation PrivilegeSelect :: string where "PrivilegeSelect \<equiv> ''SELECT''"
abbreviation PrivilegeInsert :: string where "PrivilegeInsert \<equiv> ''INSERT''"
abbreviation PrivilegeUpdate :: string where "PrivilegeUpdate \<equiv> ''UPDATE''"
abbreviation PrivilegeDelete :: string where "PrivilegeDelete \<equiv> ''DELETE''"
abbreviation PrivilegeTruncate :: string where "PrivilegeTruncate \<equiv> ''TRUNCATE''"
abbreviation PrivilegeReferences :: string where "PrivilegeReferences \<equiv> ''REFERENCES''"
abbreviation PrivilegeMaintain :: string where "PrivilegeMaintain \<equiv> ''MAINTAIN''"
abbreviation PrivilegeExecute :: string where "PrivilegeExecute \<equiv> ''EXECUTE''"
abbreviation PrivilegeTrigger :: string where "PrivilegeTrigger \<equiv> ''TRIGGER''"

type_synonym SchemaObjectKind = string

abbreviation SchemaTable :: SchemaObjectKind where "SchemaTable \<equiv> ''TABLE''"
abbreviation SchemaSequence :: SchemaObjectKind where "SchemaSequence \<equiv> ''SEQUENCE''"
abbreviation SchemaFunction :: SchemaObjectKind where "SchemaFunction \<equiv> ''FUNCTION''"
abbreviation SchemaProcedure :: SchemaObjectKind where "SchemaProcedure \<equiv> ''PROCEDURE''"
abbreviation SchemaType :: SchemaObjectKind where "SchemaType \<equiv> ''TYPE''"

definition SchemaObjectPrivileges :: "SchemaObjectKind \<Rightarrow> string list option" where
  "SchemaObjectPrivileges k =
     (if k = SchemaTable
      then Some [PrivilegeSelect, PrivilegeInsert, PrivilegeUpdate, PrivilegeDelete, PrivilegeTruncate, PrivilegeReferences,
        PrivilegeTrigger, PrivilegeMaintain]
      else if k = SchemaSequence then Some [PrivilegeUsage, PrivilegeSelect, PrivilegeUpdate]
      else if k = SchemaFunction then Some [PrivilegeExecute]
      else if k = SchemaProcedure then Some [PrivilegeExecute]
      else if k = SchemaType then Some [PrivilegeUsage]
      else None)"

section \<open>Objects and their privileges\<close>

record ACLItem =
  aiGrantee :: int
  aiPrivilege :: string
  aiGrantable :: bool

record SchemaObject =
  soOID :: int
  soIdentity :: string
  soName :: string
  soOwner :: string
  soOwnerOID :: int
  soOwnerSuperuser :: bool
  soOwnerIsSessionUser :: bool
  soExtension :: string
  soSecurityDefiner :: bool
  soLanguage :: string
  soSubKind :: string
  soACL :: "ACLItem list"

definition Held :: "SchemaObject \<Rightarrow> int \<Rightarrow> string list \<times> string list" where
  "Held obj grantee =
     (let mine = filter (\<lambda>a. aiGrantee a = grantee) (soACL obj)
      in (sortCompact (map aiPrivilege mine),
          sortCompact (map aiPrivilege (filter (\<lambda>a. aiGrantable a \<or> aiGrantee a = soOwnerOID obj) mine))))"

section \<open>Listing objects\<close>

definition aclColumns :: "string \<Rightarrow> string \<Rightarrow> string \<Rightarrow> string" where
  "aclColumns acl defaultKind owner =
     ''(SELECT pg_catalog.array_agg(a.grantee::int8 ORDER BY a.grantee, a.privilege_type)'' @ [CHR 0x0A] @
     ''  FROM pg_catalog.aclexplode(COALESCE('' @ acl @ '', pg_catalog.acldefault('' @ [squote] @ defaultKind @ [squote] @ '', '' @ owner @ ''))) a WHERE a.grantor = '' @ owner @ ''),'' @ [CHR 0x0A] @
     ''(SELECT pg_catalog.array_agg(a.privilege_type::text ORDER BY a.grantee, a.privilege_type)'' @ [CHR 0x0A] @
     ''  FROM pg_catalog.aclexplode(COALESCE('' @ acl @ '', pg_catalog.acldefault('' @ [squote] @ defaultKind @ [squote] @ '', '' @ owner @ ''))) a WHERE a.grantor = '' @ owner @ ''),'' @ [CHR 0x0A] @
     ''(SELECT pg_catalog.array_agg(a.is_grantable ORDER BY a.grantee, a.privilege_type)'' @ [CHR 0x0A] @
     ''  FROM pg_catalog.aclexplode(COALESCE('' @ acl @ '', pg_catalog.acldefault('' @ [squote] @ defaultKind @ [squote] @ '', '' @ owner @ ''))) a WHERE a.grantor = '' @ owner @ '')''"

definition extensionOf :: "string \<Rightarrow> string \<Rightarrow> string" where
  "extensionOf class oid =
     ''COALESCE((SELECT e.extname::text FROM pg_catalog.pg_depend d JOIN pg_catalog.pg_extension e ON e.oid = d.refobjid'' @ [CHR 0x0A] @
     ''  WHERE d.classid = '' @ [squote] @ class @ [squote] @ ''::pg_catalog.regclass AND d.objid = '' @ oid @ [CHR 0x0A] @
     ''    AND d.refclassid = 'pg_catalog.pg_extension'::pg_catalog.regclass AND d.deptype = 'e' LIMIT 1), '' @ [squote, squote] @ '')''"

definition ownerColumns :: string where
  "ownerColumns = ''o.rolname::text, o.oid::int8, o.rolsuper, o.rolname = session_user''"

definition relationQuery :: "string \<Rightarrow> string \<Rightarrow> string" where
  "relationQuery relkinds defaultKind =
     ''SELECT c.oid::int8, c.oid::pg_catalog.regclass::text, c.relname::text, '' @ ownerColumns @ '','' @ [CHR 0x0A] @
     ''  '' @ extensionOf ''pg_catalog.pg_class'' ''c.oid'' @ '', false, '' @ [squote, squote] @ '', c.relkind::text,'' @ [CHR 0x0A] @
     ''  '' @ aclColumns ''c.relacl'' defaultKind ''c.relowner'' @ [CHR 0x0A] @
     ''FROM pg_catalog.pg_class c JOIN pg_catalog.pg_namespace n ON n.oid = c.relnamespace'' @ [CHR 0x0A] @
     ''JOIN pg_catalog.pg_roles o ON o.oid = c.relowner'' @ [CHR 0x0A] @
     ''WHERE n.nspname = $1 AND c.relkind IN ('' @ relkinds @ '') AND ($2 OR c.relname = ANY($3))'' @ [CHR 0x0A] @
     ''ORDER BY 2 LIMIT $4''"

definition routineQuery :: "string \<Rightarrow> string" where
  "routineQuery prokinds =
     ''SELECT p.oid::int8, p.oid::pg_catalog.regprocedure::text, p.proname::text, '' @ ownerColumns @ '','' @ [CHR 0x0A] @
     ''  '' @ extensionOf ''pg_catalog.pg_proc'' ''p.oid'' @ '', p.prosecdef, l.lanname::text, p.prokind::text,'' @ [CHR 0x0A] @
     ''  '' @ aclColumns ''p.proacl'' ''f'' ''p.proowner'' @ [CHR 0x0A] @
     ''FROM pg_catalog.pg_proc p JOIN pg_catalog.pg_namespace n ON n.oid = p.pronamespace'' @ [CHR 0x0A] @
     ''JOIN pg_catalog.pg_language l ON l.oid = p.prolang'' @ [CHR 0x0A] @
     ''JOIN pg_catalog.pg_roles o ON o.oid = p.proowner'' @ [CHR 0x0A] @
     ''WHERE n.nspname = $1 AND p.prokind IN ('' @ prokinds @ '') AND ($2 OR p.proname = ANY($3) OR p.oid::int8 = ANY($5))'' @ [CHR 0x0A] @
     ''ORDER BY 2 LIMIT $4''"

definition quotedKinds :: "string list \<Rightarrow> string" where
  "quotedKinds ks = joinStr (map (\<lambda>k. [squote] @ k @ [squote]) ks) '', ''"

definition typeQuery :: string where
  "typeQuery =
     ''SELECT t.oid::int8, t.oid::pg_catalog.regtype::text, t.typname::text, '' @ ownerColumns @ '','' @ [CHR 0x0A] @
     ''  '' @ extensionOf ''pg_catalog.pg_type'' ''t.oid'' @ '', false, '' @ [squote, squote] @ '', t.typtype::text,'' @ [CHR 0x0A] @
     ''  '' @ aclColumns ''t.typacl'' ''T'' ''t.typowner'' @ [CHR 0x0A] @
     ''FROM pg_catalog.pg_type t JOIN pg_catalog.pg_namespace n ON n.oid = t.typnamespace'' @ [CHR 0x0A] @
     ''JOIN pg_catalog.pg_roles o ON o.oid = t.typowner'' @ [CHR 0x0A] @
     ''WHERE n.nspname = $1 AND t.typtype IN ('b', 'c', 'd', 'e', 'r')'' @ [CHR 0x0A] @
     ''  AND (t.typtype <> 'c' OR (SELECT c.relkind FROM pg_catalog.pg_class c WHERE c.oid = t.typrelid) = 'c')'' @ [CHR 0x0A] @
     ''  AND NOT (t.typelem <> 0 AND t.typsubscript = 'pg_catalog.array_subscript_handler'::pg_catalog.regproc)'' @ [CHR 0x0A] @
     ''  AND ($2 OR t.typname = ANY($3))'' @ [CHR 0x0A] @
     ''ORDER BY 2 LIMIT $4''"

definition schemaObjectQueries :: "SchemaObjectKind \<Rightarrow> string option" where
  "schemaObjectQueries k =
     (if k = SchemaTable then Some (relationQuery (quotedKinds [''r'', ''p'', ''v'', ''m'', ''f'']) ''r'')
      else if k = SchemaSequence then Some (relationQuery (quotedKinds [''S'']) ''s'')
      else if k = SchemaFunction then Some (routineQuery (quotedKinds [''f'', ''a'', ''w'']))
      else if k = SchemaProcedure then Some (routineQuery (quotedKinds [''p'']))
      else if k = SchemaType then Some typeQuery
      else None)"

record SchemaObjectSelector =
  selAll :: bool
  selNames :: "string list"
  selOIDs :: "int list"
  selLimit :: int

text \<open>An array column; \<open>NULL\<close> scans as no elements.\<close>

fun scanInts :: "sqlValue list \<Rightarrow> int list option" where
  "scanInts [] = Some []"
| "scanInts (SInt i # vs) = map_option ((#) i) (scanInts vs)"
| "scanInts _ = None"

fun scanTexts :: "sqlValue list \<Rightarrow> string list option" where
  "scanTexts [] = Some []"
| "scanTexts (SText t # vs) = map_option ((#) t) (scanTexts vs)"
| "scanTexts _ = None"

fun scanBools :: "sqlValue list \<Rightarrow> bool list option" where
  "scanBools [] = Some []"
| "scanBools (SBool b # vs) = map_option ((#) b) (scanBools vs)"
| "scanBools _ = None"

definition scanArray :: "(sqlValue list \<Rightarrow> 'a list option) \<Rightarrow> sqlValue \<Rightarrow> 'a list option" where
  "scanArray scan v = (case v of SArray vs \<Rightarrow> scan vs | SNull \<Rightarrow> Some [] | _ \<Rightarrow> None)"

definition aclOf :: "int list \<Rightarrow> string list \<Rightarrow> bool list \<Rightarrow> ACLItem list" where
  "aclOf grantees privs grantable =
     map (\<lambda>(g, p, b). \<lparr>aiGrantee = g, aiPrivilege = p, aiGrantable = b\<rparr>) (zip grantees (zip privs grantable))"

definition scanObject :: "sqlValue list \<Rightarrow> error + SchemaObject" where
  "scanObject row =
     (case row of
        [SInt oid, SText identity, SText name, SText owner, SInt ownerOID, SBool super, SBool session, SText extension, SBool definer,
         SText language, SText subKind, grantees, privs, grantable] \<Rightarrow>
          (case (scanArray scanInts grantees, scanArray scanTexts privs, scanArray scanBools grantable) of
             (Some gs, Some ps, Some bs) \<Rightarrow>
               if length gs \<noteq> length ps \<or> length gs \<noteq> length bs then Inl (Errorf ''inconsistent ACL of %s'' [identity])
               else Inr \<lparr>soOID = oid, soIdentity = identity, soName = name, soOwner = owner, soOwnerOID = ownerOID,
                 soOwnerSuperuser = super, soOwnerIsSessionUser = session, soExtension = extension, soSecurityDefiner = definer,
                 soLanguage = language, soSubKind = subKind, soACL = aclOf gs ps bs\<rparr>
           | _ \<Rightarrow> Inl (Wrapf ''failed to scan schema object: %w'' [] scanError))
      | _ \<Rightarrow> Inl (Wrapf ''failed to scan schema object: %w'' [] scanError))"

definition ListSchemaObjects :: "'s db \<Rightarrow> string \<Rightarrow> SchemaObjectKind \<Rightarrow> SchemaObjectSelector \<Rightarrow> ('s, error + SchemaObject list) state" where
  "ListSchemaObjects db schema kind sel =
     (case schemaObjectQueries kind of
        None \<Rightarrow> ret (Inl (Errorf ''unsupported object kind %q'' [kind]))
      | Some query \<Rightarrow> do {
          r \<leftarrow> queryDb db query
            ([SText schema, SBool (selAll sel), SArray (map SText (selNames sel)), SInt (if selLimit sel \<le> 0 then 2 ^ 30 else selLimit sel)] @
             (if kind = SchemaFunction \<or> kind = SchemaProcedure then [SArray (map SInt (selOIDs sel))] else []));
          ret (case r of
                 Inl e \<Rightarrow> Inl (Wrapf ''failed to list the %s objects of schema %q: %w'' [toLower kind, schema] e)
               | Inr (rows, streamErr) \<Rightarrow>
                   (case scanRows scanObject rows of
                      Inl e \<Rightarrow> Inl e
                    | Inr out \<Rightarrow>
                        (case streamErr of
                           Some e \<Rightarrow> Inl (Wrapf ''failed to list the objects of schema %q: %w'' [schema] e)
                         | None \<Rightarrow> Inr out)))
        })"

section \<open>Resolving names\<close>

definition resolveRoutineQuery :: string where
  "resolveRoutineQuery =
     ''SELECT pg_catalog.to_regprocedure(pg_catalog.quote_ident($1) || '.' ||'' @ [CHR 0x0A] @
     ''  pg_catalog.quote_ident($2) || '(' || $3 || ')')::oid::int8''"

definition ResolveRoutine :: "'s db \<Rightarrow> string \<Rightarrow> string \<Rightarrow> string \<Rightarrow> ('s, error + int option) state" where
  "ResolveRoutine db schema name args = do {
     r \<leftarrow> queryRow db resolveRoutineQuery [SText schema, SText name, SText args];
     ret (case scanned (\<lambda>row. case row of [SNull] \<Rightarrow> Inr None | [SInt v] \<Rightarrow> Inr (Some v) | _ \<Rightarrow> Inl scanError) r of
            Inl e \<Rightarrow> Inl (Wrapf ''failed to resolve %s(%s) in schema %q: %w'' [name, args, schema] e)
          | Inr v \<Rightarrow> Inr v)
   }"

definition roleOIDsQuery :: string where
  "roleOIDsQuery = ''SELECT rolname::text, oid::int8 FROM pg_catalog.pg_roles WHERE rolname = ANY($1)''"

definition scanRoleOID :: "sqlValue list \<Rightarrow> error + string \<times> int" where
  "scanRoleOID row =
     (case row of [SText name, SInt oid] \<Rightarrow> Inr (name, oid) | _ \<Rightarrow> Inl (Wrapf ''failed to scan role: %w'' [] scanError))"

definition RoleOIDs :: "'s db \<Rightarrow> string list \<Rightarrow> ('s, error + int gomap) state" where
  "RoleOIDs db names = do {
     r \<leftarrow> queryDb db roleOIDsQuery [SArray (map SText names)];
     ret (case r of
            Inl e \<Rightarrow> Inl (Wrapf ''failed to look up roles: %w'' [] e)
          | Inr (rows, streamErr) \<Rightarrow>
              (case scanRows scanRoleOID rows of
                 Inl e \<Rightarrow> Inl e
               | Inr found \<Rightarrow> (case streamErr of Some e \<Rightarrow> Inl e | None \<Rightarrow> Inr (foldl (\<lambda>m (n, v). AList.update n v m) [] found))))
   }"

definition resolveObjectQueries :: "SchemaObjectKind \<Rightarrow> string option" where
  "resolveObjectQueries k =
     (if k = SchemaTable then Some (
        ''SELECT c.oid::int8, c.oid::pg_catalog.regclass::text FROM pg_catalog.pg_class c'' @ [CHR 0x0A] @
        ''JOIN pg_catalog.pg_namespace n ON n.oid = c.relnamespace'' @ [CHR 0x0A] @
        ''WHERE c.oid = pg_catalog.to_regclass($1) AND n.nspname = $2 AND c.relkind IN ('r', 'p', 'v', 'm', 'f')'')
      else if k = SchemaSequence then Some (
        ''SELECT c.oid::int8, c.oid::pg_catalog.regclass::text FROM pg_catalog.pg_class c'' @ [CHR 0x0A] @
        ''JOIN pg_catalog.pg_namespace n ON n.oid = c.relnamespace'' @ [CHR 0x0A] @
        ''WHERE c.oid = pg_catalog.to_regclass($1) AND n.nspname = $2 AND c.relkind = 'S'' @ [squote])
      else if k = SchemaFunction then Some (
        ''SELECT p.oid::int8, p.oid::pg_catalog.regprocedure::text FROM pg_catalog.pg_proc p'' @ [CHR 0x0A] @
        ''JOIN pg_catalog.pg_namespace n ON n.oid = p.pronamespace'' @ [CHR 0x0A] @
        ''WHERE p.oid = pg_catalog.to_regprocedure($1) AND n.nspname = $2 AND p.prokind IN ('f', 'a', 'w')'')
      else if k = SchemaProcedure then Some (
        ''SELECT p.oid::int8, p.oid::pg_catalog.regprocedure::text FROM pg_catalog.pg_proc p'' @ [CHR 0x0A] @
        ''JOIN pg_catalog.pg_namespace n ON n.oid = p.pronamespace'' @ [CHR 0x0A] @
        ''WHERE p.oid = pg_catalog.to_regprocedure($1) AND n.nspname = $2 AND p.prokind = 'p'' @ [squote])
      else if k = SchemaType then Some (
        ''SELECT t.oid::int8, t.oid::pg_catalog.regtype::text FROM pg_catalog.pg_type t'' @ [CHR 0x0A] @
        ''JOIN pg_catalog.pg_namespace n ON n.oid = t.typnamespace'' @ [CHR 0x0A] @
        ''WHERE t.oid = pg_catalog.to_regtype($1) AND n.nspname = $2'')
      else None)"

definition resolveOIDQueries :: "SchemaObjectKind \<Rightarrow> string option" where
  "resolveOIDQueries k =
     (if k = SchemaTable then Some (
        ''SELECT c.oid::int8, c.oid::pg_catalog.regclass::text FROM pg_catalog.pg_class c'' @ [CHR 0x0A] @
        ''WHERE c.oid = $1::int8::oid AND c.relkind IN ('r', 'p', 'v', 'm', 'f')'')
      else if k = SchemaSequence then Some (
        ''SELECT c.oid::int8, c.oid::pg_catalog.regclass::text FROM pg_catalog.pg_class c'' @ [CHR 0x0A] @
        ''WHERE c.oid = $1::int8::oid AND c.relkind = 'S'' @ [squote])
      else if k = SchemaFunction then Some (
        ''SELECT p.oid::int8, p.oid::pg_catalog.regprocedure::text FROM pg_catalog.pg_proc p'' @ [CHR 0x0A] @
        ''WHERE p.oid = $1::int8::oid AND p.prokind IN ('f', 'a', 'w')'')
      else if k = SchemaProcedure then Some (
        ''SELECT p.oid::int8, p.oid::pg_catalog.regprocedure::text FROM pg_catalog.pg_proc p'' @ [CHR 0x0A] @
        ''WHERE p.oid = $1::int8::oid AND p.prokind = 'p'' @ [squote])
      else if k = SchemaType then Some (
        ''SELECT t.oid::int8, t.oid::pg_catalog.regtype::text FROM pg_catalog.pg_type t'' @ [CHR 0x0A] @
        ''WHERE t.oid = $1::int8::oid'')
      else None)"

definition scanResolved :: "sqlValue list \<Rightarrow> error + int \<times> string" where
  "scanResolved row = (case row of [SInt oid, SText canonical] \<Rightarrow> Inr (oid, canonical) | _ \<Rightarrow> Inl scanError)"

text \<open>The result is the rendering and the OID, or \<open>None\<close> when the object was not found.\<close>

definition resolveSchemaObject :: "'s db \<Rightarrow> SchemaObjectKind \<Rightarrow> string \<Rightarrow> string \<Rightarrow> int \<Rightarrow> ('s, error + (string \<times> int) option) state" where
  "resolveSchemaObject db kind schema identity byOID =
     (case resolveObjectQueries kind of
        None \<Rightarrow> ret (Inl (Errorf ''unsupported object kind %q'' [kind]))
      | Some query \<Rightarrow>
          if byOID = 0 \<and> identity = [] then ret (Inr None)
          else do {
            r \<leftarrow> (if byOID \<noteq> 0 then queryRow db (case resolveOIDQueries kind of None \<Rightarrow> [] | Some q \<Rightarrow> q) [SInt byOID]
                  else queryRow db query [SText identity, SText schema]);
            ret (if r = Inl ErrNoRows then Inr None
                 else (case scanned scanResolved r of
                         Inl e \<Rightarrow> Inl (Wrapf ''failed to resolve %s %s: %w'' [toLower kind, identity] e)
                       | Inr (oid, canonical) \<Rightarrow> Inr (Some (canonical, oid))))
          })"

definition ResolveSchemaObject :: "'s db \<Rightarrow> SchemaObjectKind \<Rightarrow> string \<Rightarrow> string \<Rightarrow> int \<Rightarrow> ('s, error + string option) state" where
  "ResolveSchemaObject db kind schema identity oid = do {
     r \<leftarrow> resolveSchemaObject db kind schema identity oid;
     ret (map_sum id (map_option fst) r)
   }"

section \<open>GRANT and REVOKE on an object\<close>

definition ErrObjectGone :: error where
  "ErrObjectGone = Errorf ''the object no longer exists'' []"

definition buildSchemaObjectPrivilegesQuery :: "bool \<Rightarrow> SchemaObjectKind \<Rightarrow> string \<Rightarrow> string \<Rightarrow> string list \<Rightarrow> bool \<Rightarrow> RevokeMode
    \<Rightarrow> error + string" where
  "buildSchemaObjectPrivilegesQuery grant kind canonical grantee privs0 withGrantOption mode =
     (case SchemaObjectPrivileges kind of
        None \<Rightarrow> Inl (Errorf ''unsupported object kind %q'' [kind])
      | Some allowed \<Rightarrow>
          (case checkPrivileges (toLower kind) privs0 allowed of
             Inl e \<Rightarrow> Inl e
           | Inr privs \<Rightarrow>
               if canonical = [] then Inl (Errorf ''empty object identity'' [])
               else (case renderGrantee grantee of
                  Inl e \<Rightarrow> Inl e
                | Inr who \<Rightarrow>
                    (let object = kind @ '' '' @ canonical
                     in if \<not> grant then Inr (buildRevokeQuery privs object who mode)
                        else if withGrantOption \<and> who = PublicGrantee
                        then Inl (Errorf ''the grant option cannot be granted to PUBLIC'' [])
                        else Inr (buildGrantQuery privs object who withGrantOption)))))"

abbreviation plainMode :: RevokeMode where "plainMode \<equiv> \<lparr>GrantOptionOnly = False, Cascade = False\<rparr>"

definition GrantOnSchemaObject :: "'s db \<Rightarrow> SchemaObjectKind \<Rightarrow> string \<Rightarrow> string \<Rightarrow> int \<Rightarrow> string \<Rightarrow> string list \<Rightarrow> bool
    \<Rightarrow> ('s, error option) state" where
  "GrantOnSchemaObject db kind schema identity oid grantee privs withGrantOption = do {
     r \<leftarrow> resolveSchemaObject db kind schema identity 0;
     (case r of
        Inl e \<Rightarrow> ret (Some e)
      | Inr found \<Rightarrow>
          (case (case found of None \<Rightarrow> None | Some (canonical, resolved) \<Rightarrow> if oid \<noteq> 0 \<and> resolved \<noteq> oid then None else Some canonical) of
             None \<Rightarrow> ret (Some (Wrapf ''%s %s: %w'' [toLower kind, identity] ErrObjectGone))
           | Some canonical \<Rightarrow>
               (case buildSchemaObjectPrivilegesQuery True kind canonical grantee privs withGrantOption plainMode of
                  Inl e \<Rightarrow> ret (Some e)
                | Inr query \<Rightarrow> execWrap db query ''failed to grant privileges on %s %s to %q: %w'' [toLower kind, canonical, grantee])))
   }"

definition RevokeOnSchemaObject :: "'s db \<Rightarrow> SchemaObjectKind \<Rightarrow> string \<Rightarrow> string \<Rightarrow> int \<Rightarrow> string \<Rightarrow> string list \<Rightarrow> RevokeMode
    \<Rightarrow> ('s, error option) state" where
  "RevokeOnSchemaObject db kind schema identity oid grantee privs mode = do {
     r \<leftarrow> ResolveSchemaObject db kind schema identity oid;
     (case r of
        Inl e \<Rightarrow> ret (Some e)
      | Inr None \<Rightarrow> ret None
      | Inr (Some canonical) \<Rightarrow>
          (case buildSchemaObjectPrivilegesQuery False kind canonical grantee privs False mode of
             Inl e \<Rightarrow> ret (Some e)
           | Inr query \<Rightarrow> execWrap db query ''failed to revoke privileges on %s %s from %q: %w'' [toLower kind, canonical, grantee]))
   }"

section \<open>Default privileges\<close>

type_synonym DefaultObjectKind = string

abbreviation DefaultTables :: DefaultObjectKind where "DefaultTables \<equiv> ''TABLES''"
abbreviation DefaultSequences :: DefaultObjectKind where "DefaultSequences \<equiv> ''SEQUENCES''"
abbreviation DefaultFunctions :: DefaultObjectKind where "DefaultFunctions \<equiv> ''FUNCTIONS''"
abbreviation DefaultTypes :: DefaultObjectKind where "DefaultTypes \<equiv> ''TYPES''"

definition defaultObjectKinds :: "DefaultObjectKind \<Rightarrow> (string \<times> SchemaObjectKind) option" where
  "defaultObjectKinds k =
     (if k = DefaultTables then Some (''r'', SchemaTable)
      else if k = DefaultSequences then Some (''S'', SchemaSequence)
      else if k = DefaultFunctions then Some (''f'', SchemaFunction)
      else if k = DefaultTypes then Some (''T'', SchemaType)
      else None)"

record DefaultPrivilegesTarget =
  dtForRole :: string
  dtSchema :: string
  dtKind :: DefaultObjectKind

definition defaultTargetString :: "DefaultPrivilegesTarget \<Rightarrow> string" where
  "defaultTargetString t = sprintf ''default privileges for role %q in schema %q on %s'' [dtForRole t, dtSchema t, toLower (dtKind t)]"

definition buildDefaultPrivilegesQuery :: "bool \<Rightarrow> DefaultPrivilegesTarget \<Rightarrow> string \<Rightarrow> string list \<Rightarrow> bool \<Rightarrow> RevokeMode \<Rightarrow> error + string" where
  "buildDefaultPrivilegesQuery grant t grantee privs0 withGrantOption mode =
     (case defaultObjectKinds (dtKind t) of
        None \<Rightarrow> Inl (Errorf ''unsupported default privilege kind %q'' [dtKind t])
      | Some (objtype, object) \<Rightarrow>
          (case checkPrivileges (toLower object) privs0 (case SchemaObjectPrivileges object of None \<Rightarrow> [] | Some ps \<Rightarrow> ps) of
             Inl e \<Rightarrow> Inl e
           | Inr privs \<Rightarrow>
               if dtForRole t = [] \<or> dtSchema t = [] then Inl (Errorf ''default privileges need a role and a schema'' [])
               else if IsPublic (dtForRole t) then Inl (Errorf ''default privileges cannot be set for PUBLIC'' [])
               else (case renderGrantee grantee of
                  Inl e \<Rightarrow> Inl e
                | Inr who \<Rightarrow>
                    (let front = ''ALTER DEFAULT PRIVILEGES FOR ROLE '' @ quoteIdent (dtForRole t) @ '' IN SCHEMA '' @ quoteIdent (dtSchema t) @ '' ''
                     in if \<not> grant then Inr (front @ buildRevokeQuery privs (dtKind t) who mode)
                        else if withGrantOption \<and> who = PublicGrantee
                        then Inl (Errorf ''the grant option cannot be granted to PUBLIC'' [])
                        else Inr (front @ buildGrantQuery privs (dtKind t) who withGrantOption)))))"

definition GrantDefaultPrivileges :: "'s db \<Rightarrow> DefaultPrivilegesTarget \<Rightarrow> string \<Rightarrow> string list \<Rightarrow> bool \<Rightarrow> ('s, error option) state" where
  "GrantDefaultPrivileges db t grantee privs withGrantOption =
     (case buildDefaultPrivilegesQuery True t grantee privs withGrantOption plainMode of
        Inl e \<Rightarrow> ret (Some e)
      | Inr query \<Rightarrow> execWrap db query ''failed to grant %s to %q: %w'' [defaultTargetString t, grantee])"

definition RevokeDefaultPrivileges :: "'s db \<Rightarrow> DefaultPrivilegesTarget \<Rightarrow> string \<Rightarrow> string list \<Rightarrow> RevokeMode \<Rightarrow> ('s, error option) state" where
  "RevokeDefaultPrivileges db t grantee privs mode =
     (case buildDefaultPrivilegesQuery False t grantee privs False mode of
        Inl e \<Rightarrow> ret (Some e)
      | Inr query \<Rightarrow> execWrap db query ''failed to revoke %s from %q: %w'' [defaultTargetString t, grantee])"

definition heldDefaultQuery :: string where
  "heldDefaultQuery =
     ''SELECT a.privilege_type::text, a.is_grantable FROM pg_catalog.pg_default_acl d'' @ [CHR 0x0A] @
     ''JOIN pg_catalog.pg_namespace n ON n.oid = d.defaclnamespace'' @ [CHR 0x0A] @
     ''CROSS JOIN LATERAL pg_catalog.aclexplode(d.defaclacl) a'' @ [CHR 0x0A] @
     ''WHERE d.defaclrole = (SELECT r.oid FROM pg_catalog.pg_roles r WHERE r.rolname = $1) AND n.nspname = $2'' @ [CHR 0x0A] @
     ''  AND d.defaclobjtype = $3 AND a.grantor = d.defaclrole'' @ [CHR 0x0A] @
     ''  AND a.grantee = CASE WHEN $4 THEN 0::oid ELSE (SELECT r.oid FROM pg_catalog.pg_roles r WHERE r.rolname = $5) END''"

definition scanDefault :: "sqlValue list \<Rightarrow> error + string \<times> bool" where
  "scanDefault row = (case row of [SText p, SBool g] \<Rightarrow> Inr (p, g) | _ \<Rightarrow> Inl scanError)"

definition HeldDefaultPrivileges :: "'s db \<Rightarrow> DefaultPrivilegesTarget \<Rightarrow> string \<Rightarrow> ('s, error + string list \<times> string list) state" where
  "HeldDefaultPrivileges db t grantee =
     (case defaultObjectKinds (dtKind t) of
        None \<Rightarrow> ret (Inl (Errorf ''unsupported default privilege kind %q'' [dtKind t]))
      | Some (objtype, object) \<Rightarrow> do {
          r \<leftarrow> queryRows db heldDefaultQuery [SText (dtForRole t), SText (dtSchema t), SText objtype, SBool (IsPublic grantee), SText grantee]
            scanDefault ''failed to read %s: %w'' [defaultTargetString t] ''failed to scan default privilege: %w'';
          ret (case r of
                 Inl e \<Rightarrow> Inl e
               | Inr rows \<Rightarrow> Inr (sortCompact (map fst rows), sortCompact (map fst (filter snd rows))))
        })"

end
