(* ===== verification/Object_Grants.thy ===== *)
theory Object_Grants
  imports Schema_Objects Database_Grants
begin

text \<open>
  Object grants and default privileges of a Database: \<open>internal/controller/database_object_grants.go\<close>.
  The planner works out which objects of the managed schemas the entries of the spec select and which
  of them may be granted on; the grant engine applies the result and the default privileges. The
  planner is a record that every step returns, with the grantee checker it shares with the filters; a
  Go set is a list without repetitions. Of the status conditions the type, status, reason and
  message are kept.
\<close>

section \<open>Constants and kinds\<close>

abbreviation objectGrantLedgerLimit :: int where "objectGrantLedgerLimit \<equiv> 4096"
abbreviation defaultPrivilegeLedgerLimit :: int where "defaultPrivilegeLedgerLimit \<equiv> 2048"
abbreviation maxObjectsPerKind :: int where "maxObjectsPerKind \<equiv> 5000"
abbreviation maxSkippedExamples :: nat where "maxSkippedExamples \<equiv> 5"
abbreviation selectAll :: string where "selectAll \<equiv> ''*''"
abbreviation maxIdentityLength :: nat where "maxIdentityLength \<equiv> 1024"
abbreviation objectLedgerByteBudget :: int where "objectLedgerByteBudget \<equiv> 512 * 1024"
abbreviation MinMaintainPrivilegeVersion :: int where "MinMaintainPrivilegeVersion \<equiv> 170000"

abbreviation ReasonObjectGrantSkipped :: string where "ReasonObjectGrantSkipped \<equiv> ''ObjectGrantSkipped''"
abbreviation ReasonObjectNotFound :: string where "ReasonObjectNotFound \<equiv> ''ObjectNotFound''"
abbreviation ReasonTooManyObjects :: string where "ReasonTooManyObjects \<equiv> ''TooManyObjects''"
abbreviation ReasonDefaultPrivilegeNotAllowed :: string where "ReasonDefaultPrivilegeNotAllowed \<equiv> ''DefaultPrivilegeNotAllowed''"
abbreviation ReasonAllObjectsGranted :: string where "ReasonAllObjectsGranted \<equiv> ''AllObjectsGranted''"
abbreviation ConditionTypeObjectGrantsComplete :: string where "ConditionTypeObjectGrantsComplete \<equiv> ''ObjectGrantsComplete''"

abbreviation ObjectGrantTable :: string where "ObjectGrantTable \<equiv> ''table''"
abbreviation ObjectGrantSequence :: string where "ObjectGrantSequence \<equiv> ''sequence''"
abbreviation ObjectGrantFunction :: string where "ObjectGrantFunction \<equiv> ''function''"
abbreviation ObjectGrantProcedure :: string where "ObjectGrantProcedure \<equiv> ''procedure''"
abbreviation ObjectGrantType :: string where "ObjectGrantType \<equiv> ''type''"

definition invokerSafeLanguages :: "string list" where
  "invokerSafeLanguages = [''sql'', ''plpgsql'']"

record objectKindInfo =
  okApi :: string
  okPg :: SchemaObjectKind

definition objectKindInfos :: "objectKindInfo list" where
  "objectKindInfos =
     [\<lparr>okApi = ObjectGrantTable, okPg = SchemaTable\<rparr>, \<lparr>okApi = ObjectGrantSequence, okPg = SchemaSequence\<rparr>,
      \<lparr>okApi = ObjectGrantFunction, okPg = SchemaFunction\<rparr>, \<lparr>okApi = ObjectGrantProcedure, okPg = SchemaProcedure\<rparr>,
      \<lparr>okApi = ObjectGrantType, okPg = SchemaType\<rparr>]"

definition objectKindOf :: "string \<Rightarrow> objectKindInfo option" where
  "objectKindOf k = find (\<lambda>ki. okApi ki = k \<or> okPg ki = k) objectKindInfos"

definition isRoutine :: "objectKindInfo \<Rightarrow> bool" where
  "isRoutine ki \<longleftrightarrow> okPg ki = SchemaFunction \<or> okPg ki = SchemaProcedure"

definition allowedOn :: "SchemaObjectKind \<Rightarrow> string list" where
  "allowedOn kind = (case SchemaObjectPrivileges kind of None \<Rightarrow> [] | Some ps \<Rightarrow> ps)"

fun normalizeObjectLoop :: "SchemaObjectKind \<Rightarrow> string list \<Rightarrow> string list \<Rightarrow> error + string list" where
  "normalizeObjectLoop kind [] out = Inr (sortCompact out)"
| "normalizeObjectLoop kind (p # ps) out =
     (let u = toUpper (joinStr (Go_Prelude.fields p) '' '')
      in if u = PrivilegeAll \<or> u = privilegeAllPrivileges
         then normalizeObjectLoop kind ps (out @ subtract (allowedOn kind) [PrivilegeMaintain])
         else if u \<in> set (allowedOn kind) then normalizeObjectLoop kind ps (out @ [u])
         else Inl (Errorf ''invalid %s privilege %q (allowed: %s, ALL)'' [toLower kind, p, joinStr (allowedOn kind) '', '']))"

definition normalizeObjectPrivileges :: "SchemaObjectKind \<Rightarrow> string list \<Rightarrow> error + string list" where
  "normalizeObjectPrivileges kind privs =
     (if privs = [] then Inl (Errorf ''no %s privileges given'' [toLower kind])
      else normalizeObjectLoop kind privs [])"

definition dropMaintain :: "string list \<Rightarrow> int \<Rightarrow> string list \<times> bool" where
  "dropMaintain privs serverVersion =
     (if serverVersion \<ge> MinMaintainPrivilegeVersion \<or> PrivilegeMaintain \<notin> set privs then (privs, False)
      else (filter (\<lambda>p. p \<noteq> PrivilegeMaintain) privs, True))"

definition objectTarget :: "SchemaObjectKind \<Rightarrow> string \<Rightarrow> string \<Rightarrow> int \<Rightarrow> string \<Rightarrow> grantTarget" where
  "objectTarget kind schema identity oid grantee =
     \<lparr>tKind = kind, tName = identity, tGrantee = CanonicalGrantee grantee, tSchema = schema, tForRole = [], tOID = oid\<rparr>"

definition objectKey :: "grantTarget \<Rightarrow> string" where
  "objectKey t = (if tOID t \<noteq> 0 then tKind t @ ''|#'' @ formatInt (tOID t) else tKind t @ ''|'' @ tName t)"

definition parseRoutineName :: "string \<Rightarrow> string \<times> string \<times> bool" where
  "parseRoutineName s =
     (let name = takeWhile (\<lambda>c. c \<noteq> CHR ''('') s
      in if name = [] \<or> length name = length s \<or> last s \<noteq> CHR '')'' then (s, [], False)
         else (name, butlast (drop (Suc (length name)) s), True))"

section \<open>The planner\<close>

record objectEntry =
  oeSchema :: string
  oeField :: string
  oeKind :: objectKindInfo
  oeGrantee :: string
  oePrivileges :: "string list"
  oeWithGrantOption :: bool
  oeAll :: bool
  oeNames :: "string list"

record objectGroup =
  ogrSchema :: string
  ogrKind :: objectKindInfo
  ogrAll :: bool
  ogrNames :: "string list"
  ogrSigs :: "int gomap"
  ogrBadSigs :: "string list"
  ogrObjects :: "SchemaObject list"
  ogrFailed :: bool

definition groupKey :: "string \<Rightarrow> SchemaObjectKind \<Rightarrow> string" where
  "groupKey schema kind = schema @ ''|'' @ kind"

record objectStats =
  osGranted :: "string list"
  osSkipped :: "string list"
  osExamples :: "string gomap"

definition zeroStats :: objectStats where
  "zeroStats = \<lparr>osGranted = [], osSkipped = [], osExamples = []\<rparr>"

definition statsSkip :: "objectStats \<Rightarrow> string \<Rightarrow> string \<Rightarrow> objectStats" where
  "statsSkip s identity why =
     s\<lparr>osSkipped := List.insert identity (osSkipped s),
       osExamples := (if map_of (osExamples s) identity = None then AList.update identity why (osExamples s) else osExamples s)\<rparr>"

text \<open>One pass of \<open>pickExamples\<close>: \<open>pass\<close> is true in the one that takes one object per reason.\<close>

fun pickPass :: "string gomap \<Rightarrow> bool \<Rightarrow> string list \<Rightarrow> string list \<times> string list \<times> string list \<Rightarrow> string list \<times> string list \<times> string list" where
  "pickPass ex pass [] acc = acc"
| "pickPass ex pass (x # xs) (picked, reasonsSeen, out) =
     (if length out = maxSkippedExamples then (picked, reasonsSeen, out)
      else (let why = mapGet [] ex x
            in if x \<in> set picked \<or> (pass \<and> why \<in> set reasonsSeen) then pickPass ex pass xs (picked, reasonsSeen, out)
               else pickPass ex pass xs (picked @ [x], reasonsSeen @ [why], out @ [x @ '' '' @ why])))"

definition pickExamples :: "objectStats \<Rightarrow> string list" where
  "pickExamples s =
     (let ids = mapKeys (osExamples s)
      in snd (snd (pickPass (osExamples s) False ids (pickPass (osExamples s) True ids ([], [], [])))))"

record objectPlanner =
  plChecker :: granteeChecker
  plGroups :: "objectGroup gomap"
  plOrder :: "string list"
  plStats :: "objectStats gomap"
  plDesired :: "privilegeGrant gomap"
  plObjects :: "SchemaObject gomap"
  plFields :: "string list"
  plByField :: "string list gomap"
  plNotFound :: "string list"
  plRefused :: "string list"
  plUnsupported :: "string list"
  plTooMany :: "string list"
  plListErrs :: "error list"

definition newObjectPlanner :: "granteeChecker \<Rightarrow> objectPlanner" where
  "newObjectPlanner checker =
     \<lparr>plChecker = checker, plGroups = [], plOrder = [], plStats = [], plDesired = [], plObjects = [], plFields = [], plByField = [],
      plNotFound = [], plRefused = [], plUnsupported = [], plTooMany = [], plListErrs = []\<rparr>"

definition objectPlannerEntry :: "int \<Rightarrow> string \<Rightarrow> string \<Rightarrow> ObjectGrantSpec \<Rightarrow> objectPlanner \<Rightarrow> error + objectEntry \<times> objectPlanner" where
  "objectPlannerEntry serverVersion schema at g p =
     (case objectKindOf (ogKind g) of
        None \<Rightarrow> Inl (Errorf ''%s: unsupported kind %q'' [at, ogKind g])
      | Some ki \<Rightarrow>
          (case normalizeObjectPrivileges (okPg ki) (ogPrivileges g) of
             Inl e \<Rightarrow> Inl (Wrapf ''%s: %w'' [at] e)
           | Inr privs \<Rightarrow>
               (let grantee = CanonicalGrantee (ogRole g)
                in if grantee = PublicGrantee \<and> ogWithGrantOption g
                   then Inl (Errorf ''%s: the grant option cannot be granted to PUBLIC'' [at])
                   else if ogObjects g = [] then Inl (Errorf ''%s: no objects given'' [at])
                   else if selectAll \<in> set (ogObjects g) \<and> length (ogObjects g) > 1
                   then Inl (Errorf ''%s: %q must be the only entry of objects'' [at, selectAll])
                   else (let (kept, dropped) = dropMaintain privs serverVersion
                         in Inr (\<lparr>oeSchema = schema, oeField = [], oeKind = ki, oeGrantee = grantee, oePrivileges = kept,
                                   oeWithGrantOption = ogWithGrantOption g, oeAll = selectAll \<in> set (ogObjects g),
                                   oeNames = filter (\<lambda>o1. o1 \<noteq> selectAll) (ogObjects g)\<rparr>,
                                 if dropped then p\<lparr>plUnsupported := plUnsupported p @ [sprintf ''%s (%s): MAINTAIN'' [at, grantee]]\<rparr>
                                 else p)))))"

text \<open>The two loops of \<open>entries\<close>: over the grants of a schema, and over the schemas.\<close>

fun schemaEntries :: "int \<Rightarrow> string \<Rightarrow> string \<Rightarrow> nat \<Rightarrow> ObjectGrantSpec list \<Rightarrow> objectPlanner \<times> objectEntry list
    \<Rightarrow> error + objectPlanner \<times> objectEntry list" where
  "schemaEntries serverVersion schema field i [] (p, out) = Inr (p, out)"
| "schemaEntries serverVersion schema field i (g # gs) (p, out) =
     (case objectPlannerEntry serverVersion schema (field @ ''['' @ formatInt (int i) @ '']'') g p of
        Inl e \<Rightarrow> Inl e
      | Inr (e, p1) \<Rightarrow> schemaEntries serverVersion schema field (Suc i) gs
          (p1, if oePrivileges e \<noteq> [] then out @ [e\<lparr>oeField := field\<rparr>] else out))"

fun entriesLoop :: "int \<Rightarrow> string list \<Rightarrow> SchemaSpec list \<Rightarrow> objectPlanner \<times> objectEntry list
    \<Rightarrow> error + objectPlanner \<times> objectEntry list" where
  "entriesLoop serverVersion managedSchemas [] (p, out) = Inr (p, out)"
| "entriesLoop serverVersion managedSchemas (s # ss) (p, out) =
     (let field = sprintf ''schemas[%s].objectGrants'' [ssName s]
      in if ssName s \<notin> set managedSchemas \<or> systemSchemaName (ssName s) \<or> ssObjectGrants s = []
         then entriesLoop serverVersion managedSchemas ss (p, out)
         else if field \<in> set (plFields p) then Inl (Errorf ''schemas: schema %q is listed more than once'' [ssName s])
         else (case schemaEntries serverVersion (ssName s) field 0 (ssObjectGrants s) (p\<lparr>plFields := plFields p @ [field]\<rparr>, out) of
             Inl e \<Rightarrow> Inl e
           | Inr r \<Rightarrow> entriesLoop serverVersion managedSchemas ss r))"

definition newGroup :: "objectEntry \<Rightarrow> objectGroup" where
  "newGroup e = \<lparr>ogrSchema = oeSchema e, ogrKind = oeKind e, ogrAll = False, ogrNames = [], ogrSigs = [], ogrBadSigs = [],
     ogrObjects = [], ogrFailed = False\<rparr>"

definition entryKey :: "objectEntry \<Rightarrow> string" where
  "entryKey e = groupKey (oeSchema e) (okPg (oeKind e))"

definition objectPlannerGroup :: "objectEntry \<Rightarrow> objectPlanner \<Rightarrow> objectGroup \<times> objectPlanner" where
  "objectPlannerGroup e p =
     (case map_of (plGroups p) (entryKey e) of
        Some g \<Rightarrow> (g, p)
      | None \<Rightarrow> (newGroup e, p\<lparr>plGroups := AList.update (entryKey e) (newGroup e) (plGroups p), plOrder := plOrder p @ [entryKey e],
          plStats := AList.update (entryKey e) zeroStats (plStats p)\<rparr>))"

text \<open>The first loop of \<open>plan\<close>: what the entries of a group select is put together.\<close>

definition addEntry :: "objectEntry \<Rightarrow> objectPlanner \<Rightarrow> objectPlanner" where
  "addEntry e p0 =
     (let (g, p) = objectPlannerGroup e p0
      in p\<lparr>plGroups := AList.update (entryKey e)
             (g\<lparr>ogrAll := ogrAll g \<or> oeAll e, ogrNames := ogrNames g @ oeNames e\<rparr>) (plGroups p)\<rparr>)"

section \<open>Listing the objects of a group\<close>

type_synonym listLocals = "objectGroup \<times> SchemaObjectSelector \<times> objectPlanner"

definition listName :: "'s db \<Rightarrow> string \<Rightarrow> listLocals \<Rightarrow> ('s, listLocals) state" where
  "listName db n = (\<lambda>(g, sel, p).
     (let (name, args, sig) = parseRoutineName n
      in if \<not> isRoutine (ogrKind g) \<or> \<not> sig then ret (g, sel\<lparr>selNames := selNames sel @ [n]\<rparr>, p)
         else do {
           r \<leftarrow> ResolveRoutine db (ogrSchema g) name args;
           ret (case r of
                  Inl e \<Rightarrow> (g\<lparr>ogrBadSigs := List.insert n (ogrBadSigs g)\<rparr>, sel,
                    p\<lparr>plNotFound := plNotFound p @ [sprintf ''%s %s in schema %s: %v'' [okApi (ogrKind g), n, ogrSchema g, errText e]]\<rparr>)
                | Inr None \<Rightarrow> (g, sel, p)
                | Inr (Some oid) \<Rightarrow> (g\<lparr>ogrSigs := AList.update n oid (ogrSigs g)\<rparr>, sel\<lparr>selOIDs := selOIDs sel @ [oid]\<rparr>, p))
         }))"

definition listResult :: "error + SchemaObject list \<Rightarrow> objectGroup \<Rightarrow> objectPlanner \<Rightarrow> objectGroup \<times> objectPlanner" where
  "listResult r g p =
     (case r of
        Inl e \<Rightarrow> (g\<lparr>ogrFailed := True\<rparr>, p\<lparr>plListErrs := plListErrs p @ [e]\<rparr>)
      | Inr objects \<Rightarrow>
          if ogrAll g \<and> int (length objects) > maxObjectsPerKind
          then (g\<lparr>ogrFailed := True\<rparr>, p\<lparr>plTooMany := plTooMany p @ [sprintf ''schema %s has more than %d %ss''
            [ogrSchema g, formatInt maxObjectsPerKind, okApi (ogrKind g)]]\<rparr>)
          else (g\<lparr>ogrObjects := objects\<rparr>, p))"

definition objectPlannerList :: "'s db \<Rightarrow> string \<Rightarrow> objectPlanner \<Rightarrow> ('s, objectPlanner) state" where
  "objectPlannerList db k p0 =
     (case map_of (plGroups p0) k of
        None \<Rightarrow> ret p0
      | Some g0 \<Rightarrow> do {
          (g, sel, p) \<leftarrow> forEach (sortCompact (ogrNames g0)) (listName db)
            (g0, \<lparr>selAll = ogrAll g0, selNames = [], selOIDs = [], selLimit = (if ogrAll g0 then maxObjectsPerKind + 1 else 0)\<rparr>, p0);
          r \<leftarrow> ListSchemaObjects db (ogrSchema g) (okPg (ogrKind g)) sel;
          (let (g1, p1) = listResult r g p
           in ret (p1\<lparr>plGroups := AList.update k g1 (plGroups p1)\<rparr>))
        })"

definition selectsObject :: "objectEntry \<Rightarrow> objectGroup \<Rightarrow> string \<Rightarrow> SchemaObject \<Rightarrow> bool" where
  "selectsObject e g n obj =
     (if isRoutine (oeKind e) \<and> snd (snd (parseRoutineName n)) then map_of (ogrSigs g) n = Some (soOID obj)
      else soName obj = n)"

fun selectedNames :: "objectEntry \<Rightarrow> objectGroup \<Rightarrow> string list \<Rightarrow> SchemaObject list \<times> objectPlanner \<Rightarrow> SchemaObject list \<times> objectPlanner" where
  "selectedNames e g [] (out, p) = (out, p)"
| "selectedNames e g (n # ns) (out, p) =
     (if isRoutine (oeKind e) \<and> n \<in> set (ogrBadSigs g) then selectedNames e g ns (out, p)
      else (let found = filter (selectsObject e g n) (ogrObjects g)
            in selectedNames e g ns (out @ found,
                 if found = [] then p\<lparr>plNotFound := plNotFound p @ [sprintf ''%s (%s): %s %q does not exist in schema %s''
                   [oeField e, oeGrantee e, okApi (oeKind e), n, oeSchema e]]\<rparr> else p)))"

definition selected :: "objectEntry \<Rightarrow> objectGroup \<Rightarrow> objectPlanner \<Rightarrow> SchemaObject list \<times> objectPlanner" where
  "selected e g p = (if oeAll e then (ogrObjects g, p) else selectedNames e g (oeNames e) ([], p))"

section \<open>Which objects may be granted on\<close>

definition relkindName :: "string \<Rightarrow> string" where
  "relkindName k = mapGet [] [(''v'', ''view''), (''m'', ''materialized view''), (''f'', ''foreign table'')] k"

definition operatorObjectProblem :: "objectKindInfo \<Rightarrow> SchemaObject \<Rightarrow> string \<times> string list" where
  "operatorObjectProblem kind obj =
     (if isRoutine kind \<and> soSecurityDefiner obj
      then (''is a SECURITY DEFINER routine owned by the superuser '' @ soOwner obj, [])
      else if isRoutine kind \<and> soLanguage obj \<notin> set invokerSafeLanguages
      then (sprintf ''is written in %s and owned by the superuser %s'' [soLanguage obj, soOwner obj], [])
      else if okPg kind = SchemaTable \<and> relkindName (soSubKind obj) \<noteq> []
      then (sprintf ''is a %s owned by the superuser %s'' [relkindName (soSubKind obj), soOwner obj], [])
      else if okPg kind = SchemaTable then ([], [PrivilegeMaintain, PrivilegeTrigger])
      else ([], []))"

definition ownerProblem :: "'s roleLookup \<Rightarrow> objectKindInfo \<Rightarrow> SchemaObject \<Rightarrow> objectPlanner
    \<Rightarrow> ('s, (error + string \<times> string list) \<times> objectPlanner) state" where
  "ownerProblem lookup kind obj p =
     (if soExtension obj \<noteq> []
      then ret (Inr (sprintf ''belongs to the extension %s (grant on it in spec.extensions[].grants)'' [soExtension obj], []), p)
      else if soOwnerIsSessionUser obj then ret (Inr (operatorObjectProblem kind obj), p)
      else if soOwnerSuperuser obj then ret (Inr (''is owned by the superuser '' @ soOwner obj, []), p)
      else do {
        (r, c) \<leftarrow> managesRole lookup (plChecker p) (soOwner obj);
        ret (case r of
               Inl e \<Rightarrow> Inl e
             | Inr managed \<Rightarrow> Inr (if managed then []
                 else sprintf ''is owned by %s, which is not a role managed by a Role of this Cluster'' [soOwner obj], []),
             p\<lparr>plChecker := c\<rparr>)
      })"

text \<open>
  \<open>add\<close> after the owner was looked at: what is wrong with granting on the object and the privileges
  that are left (\<open>objectVerdict\<close>), the report of a skipped object, and the desired grant. An error comes with the checker, whose caches
  the later steps of the reconcile share.
\<close>

definition objectVerdict :: "objectEntry \<Rightarrow> SchemaObject \<Rightarrow> string \<times> string list \<Rightarrow> string \<times> string list" where
  "objectVerdict e obj = (\<lambda>(ownerWhy, denied).
     (let why = (if ownerWhy = [] \<and> length (soIdentity obj) > maxIdentityLength
            then sprintf ''has a name longer than %d characters, which pgop cannot record'' [formatInt (int maxIdentityLength)] else ownerWhy);
          d = intersect (oePrivileges e) denied
      in if why \<noteq> [] then (why, [])
         else if d \<noteq> [] then (sprintf ''%s: not granted on a table owned by the superuser %s'' [joinStr d '', '', soOwner obj],
           subtract (oePrivileges e) d)
         else ([], oePrivileges e)))"

definition noteSkipped :: "objectEntry \<Rightarrow> SchemaObject \<Rightarrow> string \<Rightarrow> objectPlanner \<Rightarrow> objectPlanner" where
  "noteSkipped e obj why p =
     (if why = [] then p
      else p\<lparr>plStats := AList.update (entryKey e) (statsSkip (mapGet zeroStats (plStats p) (entryKey e)) (soIdentity obj) why) (plStats p),
             plRefused := (if oeAll e then plRefused p
               else plRefused p @ [sprintf ''%s (%s): %s %s'' [oeField e, oeGrantee e, soIdentity obj, why]])\<rparr>)"

definition entryTarget :: "objectEntry \<Rightarrow> SchemaObject \<Rightarrow> grantTarget" where
  "entryTarget e obj = objectTarget (okPg (oeKind e)) (oeSchema e) (soIdentity obj) (soOID obj) (oeGrantee e)"

definition addDesired :: "objectEntry \<Rightarrow> SchemaObject \<Rightarrow> string list \<Rightarrow> objectPlanner \<Rightarrow> objectPlanner" where
  "addDesired e obj privs p =
     (if privs = [] then p
      else (let t = entryTarget e obj; k = targetKey t; d = desiredGrant t privs (oeWithGrantOption e)
            in p\<lparr>plByField := (if map_of (plDesired p) k = None
                   then AList.update (oeField e) (mapGet [] (plByField p) (oeField e) @ [k]) (plByField p) else plByField p),
                 plDesired := AList.update k (case map_of (plDesired p) k of None \<Rightarrow> d | Some prev \<Rightarrow> mergeGrant prev d) (plDesired p),
                 plObjects := AList.update (objectKey t) obj (plObjects p)\<rparr>))"

definition objectPlannerAdd :: "'s roleLookup \<Rightarrow> objectEntry \<Rightarrow> SchemaObject \<Rightarrow> objectPlanner
    \<Rightarrow> ('s, error \<times> granteeChecker + objectPlanner) state" where
  "objectPlannerAdd lookup e obj p0 = do {
     (r, p) \<leftarrow> ownerProblem lookup (oeKind e) obj p0;
     ret (case r of
            Inl x \<Rightarrow> Inl (x, plChecker p)
          | Inr verdictOf \<Rightarrow>
              (let (why, privs) = objectVerdict e obj verdictOf
               in Inr (addDesired e obj privs (noteSkipped e obj why p))))
   }"

text \<open>The last loop of \<open>plan\<close>, one entry, and \<open>plan\<close>.\<close>

definition planEntry :: "'s roleLookup \<Rightarrow> objectEntry \<Rightarrow> objectPlanner \<Rightarrow> ('s, error \<times> granteeChecker + objectPlanner) state" where
  "planEntry lookup e p =
     (case map_of (plGroups p) (entryKey e) of
        None \<Rightarrow> ret (Inr p)
      | Some g \<Rightarrow>
          if ogrFailed g then ret (Inr p)
          else (let (objs, p1) = selected e g p in tryEach objs (objectPlannerAdd lookup e) p1))"

definition objectPlannerPlan :: "'s db \<Rightarrow> 's roleLookup \<Rightarrow> SchemaSpec list \<Rightarrow> string list \<Rightarrow> int \<Rightarrow> objectPlanner
    \<Rightarrow> ('s, error \<times> granteeChecker + objectPlanner) state" where
  "objectPlannerPlan db lookup schemas managedSchemas serverVersion p0 =
     (case entriesLoop serverVersion managedSchemas schemas (p0, []) of
        Inl e \<Rightarrow> ret (Inl (e, plChecker p0))
      | Inr (p, entries) \<Rightarrow> do {
          p1 \<leftarrow> (let q = fold addEntry entries p in forEach (plOrder q) (objectPlannerList db) q);
          tryEach entries (planEntry lookup) p1
        })"

end
