(* ===== verification/Object_Access.thy ===== *)
theory Object_Access
  imports Object_Grants
begin

text \<open>
  The second half of \<open>internal/controller/database_object_grants.go\<close>: the status and the errors of
  a plan, the ledgers of object grants and default privileges, the operations they hand to the grant
  engine, and the reconcilers. \<open>slices.SortFunc\<close> is a stable sort; the conditions of the status are
  changed through the two functions of apimachinery the code calls (a parameter).
\<close>

section \<open>Results of a plan\<close>

text \<open>\<open>status\<close>: the granted objects are counted into the stats first.\<close>

definition countGranted :: "objectStats gomap \<Rightarrow> privilegeGrant \<Rightarrow> objectStats gomap" where
  "countGranted stats d =
     (let k = groupKey (tSchema (Target d)) (tKind (Target d))
      in case map_of stats k of
           None \<Rightarrow> stats
         | Some st \<Rightarrow> AList.update k (st\<lparr>osGranted := List.insert (tName (Target d)) (osGranted st)\<rparr>) stats)"

definition objectPlannerStatus :: "objectPlanner \<Rightarrow> privilegeGrant list \<Rightarrow> ObjectGrantStatus list" where
  "objectPlannerStatus p desired =
     (let stats = foldl countGranted (plStats p) desired;
          statusOf = (\<lambda>k. case map_of (plGroups p) k of
             None \<Rightarrow> []
           | Some g \<Rightarrow> if ogrFailed g then []
               else (let st = mapGet zeroStats stats k
                     in [\<lparr>ogsSchema = ogrSchema g, ogsKind = okApi (ogrKind g), ogsGranted = int (length (osGranted st)),
                          ogsSkipped = int (length (osSkipped st)), ogsSkippedExamples = pickExamples st\<rparr>]))
      in sort_key (\<lambda>s. ogsSchema s @ ''|'' @ ogsKind s) (concat (map statusOf (plOrder p))))"

definition objectPlannerErrs :: "objectPlanner \<Rightarrow> error list" where
  "objectPlannerErrs p =
     plListErrs p @
     (if plRefused p \<noteq> [] then [ConditionError ReasonObjectGrantSkipped (Errorf
        ''objects not granted on (and privileges pgop granted on them revoked): %s'' [joinStr (plRefused p) ''; ''])] else []) @
     (if plTooMany p \<noteq> [] then [ConditionError ReasonTooManyObjects (Errorf
        ''%q selects at most %d objects per kind and schema; nothing was granted or revoked there: %s''
        [selectAll, formatInt maxObjectsPerKind, joinStr (plTooMany p) ''; ''])] else []) @
     (if plNotFound p \<noteq> [] then [ConditionError ReasonObjectNotFound (Errorf
        ''objects not found (retried; migrations may not have created them yet): %s'' [joinStr (plNotFound p) ''; ''])] else []) @
     (if plUnsupported p \<noteq> [] then [ConditionError ReasonUnsupportedServerVersion (Errorf
        ''the MAINTAIN privilege needs PostgreSQL 17 or later: %s'' [joinStr (plUnsupported p) ''; ''])] else [])"

section \<open>The ledger of object grants\<close>

definition validLedgerSchema :: "string \<Rightarrow> bool" where
  "validLedgerSchema schema \<longleftrightarrow> schema \<noteq> [] \<and> \<not> systemSchemaName schema"

definition objectLedger :: "ManagedObjectGrant list \<Rightarrow> privilegeGrant list" where
  "objectLedger managed = List.map_filter (\<lambda>m.
     case objectKindOf (mogKind m) of
       None \<Rightarrow> None
     | Some ki \<Rightarrow>
         if \<not> validLedgerSchema (mogSchema m) \<or> mogObject m = [] then None
         else Some \<lparr>Target = objectTarget (okPg ki) (mogSchema m) (mogObject m) (mogOID m) (mogRole m),
           Privileges = mogPrivileges m, GrantOptions = mogGrantOptions m\<rparr>) managed"

definition objectLedgerStatus :: "privilegeGrant list \<Rightarrow> ManagedObjectGrant list" where
  "objectLedgerStatus ledger = sort_key (\<lambda>m. mogKind m @ ''|'' @ mogObject m @ ''|'' @ mogRole m) (List.map_filter (\<lambda>g.
     case objectKindOf (tKind (Target g)) of
       None \<Rightarrow> None
     | Some ki \<Rightarrow> Some \<lparr>mogSchema = tSchema (Target g), mogKind = okApi ki, mogObject = tName (Target g), mogOID = tOID (Target g),
         mogRole = tGrantee (Target g), mogPrivileges = Privileges g, mogGrantOptions = GrantOptions g\<rparr>) ledger)"

section \<open>The operations of the engine\<close>

text \<open>\<open>errors.Is\<close>: a sentinel error is anywhere in the tree.\<close>

fun errorsIs :: "error \<Rightarrow> error \<Rightarrow> bool" where
  "errorsIs (Wrapf f xs e) target \<longleftrightarrow> Wrapf f xs e = target \<or> errorsIs e target"
| "errorsIs (ConditionError r e) target \<longleftrightarrow> ConditionError r e = target \<or> errorsIs e target"
| "errorsIs (Joined es) target \<longleftrightarrow> Joined es = target \<or> list_ex (\<lambda>e. errorsIs e target) es"
| "errorsIs e target \<longleftrightarrow> e = target"

definition objectHeld :: "SchemaObject gomap \<Rightarrow> int gomap \<Rightarrow> grantTarget \<Rightarrow> string list \<times> string list" where
  "objectHeld objects oids t =
     (case map_of objects (objectKey t) of
        None \<Rightarrow> ([], [])
      | Some obj \<Rightarrow>
          if \<not> IsPublic (tGrantee t) \<and> map_of oids (tGrantee t) = None then ([], [])
          else Held obj (mapGet 0 oids (tGrantee t)))"

definition objectGone :: "'s db \<Rightarrow> grantTarget \<Rightarrow> ('s, error + bool) state" where
  "objectGone db t = do {
     r \<leftarrow> roleGone db t;
     (case r of
        Inl e \<Rightarrow> ret (Inl e)
      | Inr True \<Rightarrow> ret (Inr True)
      | Inr False \<Rightarrow> do {
          found \<leftarrow> ResolveSchemaObject db (tKind t) (tSchema t) (tName t) (tOID t);
          ret (map_sum id (\<lambda>x. x = None) found)
        })
   }"

definition objectGrantOps :: "'s db \<Rightarrow> SchemaObject gomap \<Rightarrow> int gomap \<Rightarrow> 's privilegeOps" where
  "objectGrantOps db objects oids =
     \<lparr>held = (\<lambda>t. ret (Inr (objectHeld objects oids t))),
      grant = (\<lambda>t privs withGrantOption. do {
        e \<leftarrow> GrantOnSchemaObject db (tKind t) (tSchema t) (tName t)
          (case map_of objects (objectKey t) of None \<Rightarrow> 0 | Some obj \<Rightarrow> soOID obj) (tGrantee t) privs withGrantOption;
        ret (case e of None \<Rightarrow> None | Some x \<Rightarrow> if errorsIs x ErrObjectGone then None else Some x) }),
      revoke = (\<lambda>t privs mode. RevokeOnSchemaObject db (tKind t) (tSchema t) (tName t) (tOID t) (tGrantee t) privs mode),
      gone = Some (objectGone db)\<rparr>"

definition granteeNames :: "privilegeGrant list \<Rightarrow> string list" where
  "granteeNames desired = foldl (\<lambda>ns d. if IsPublic (tGrantee (Target d)) \<or> tGrantee (Target d) \<in> set ns then ns
     else ns @ [tGrantee (Target d)]) [] desired"

definition granteeOIDs :: "'s db \<Rightarrow> privilegeGrant list \<Rightarrow> ('s, error + int gomap) state" where
  "granteeOIDs db desired = (if granteeNames desired = [] then ret (Inr []) else RoleOIDs db (granteeNames desired))"

section \<open>Reconciling object grants\<close>

definition refreshIdentities :: "privilegeGrant list \<Rightarrow> privilegeGrant list \<Rightarrow> privilegeGrant list" where
  "refreshIdentities ledger desired =
     (let names = foldl (\<lambda>m d. AList.update (grantKey d) (Target d) m) [] desired
      in map (\<lambda>g. case map_of names (grantKey g) of
                 None \<Rightarrow> g
               | Some t \<Rightarrow> g\<lparr>Target := (Target g)\<lparr>tName := tName t, tSchema := tSchema t\<rparr>\<rparr>) ledger)"

definition ledgerEntryBytes :: "privilegeGrant \<Rightarrow> int" where
  "ledgerEntryBytes g =
     96 + int (length (tSchema (Target g)) + length (tName (Target g)) + length (tGrantee (Target g))) +
     sum_list (map (\<lambda>p. int (length p) + 3) (Privileges g @ GrantOptions g))"

fun totalBytes :: "privilegeGrant list \<Rightarrow> string list \<Rightarrow> int \<Rightarrow> int" where
  "totalBytes [] seen n = n"
| "totalBytes (g # gs) seen n =
     (if grantKey g \<in> set seen then totalBytes gs seen n
      else totalBytes gs (grantKey g # seen) (n + ledgerEntryBytes g))"

definition overBudget :: "privilegeGrant list \<Rightarrow> privilegeGrant list \<Rightarrow> privilegeGrant list \<Rightarrow> error option" where
  "overBudget desired managed kept =
     (let total = totalBytes (managed @ kept @ desired) [] 0
      in if total \<le> objectLedgerByteBudget then None
         else Some (ConditionError ReasonTooManyGrants (Errorf
           ''the object grants declared and those pgop still tracks would need about %d KiB of status; pgop records at most %d KiB. Nothing new was granted (removed grants are still revoked): grant to fewer roles or objects, for example to one group role''
           [formatInt (total div 1024), formatInt (objectLedgerByteBudget div 1024)])))"

text \<open>\<open>splitLedger\<close>: the entries kept as they are and the ones the engine reconciles.\<close>

type_synonym splitLocals = "granteeChecker \<times> privilegeGrant list \<times> privilegeGrant list"

definition splitEntry :: "'s roleLookup \<Rightarrow> objectGroup gomap \<Rightarrow> privilegeGrant \<Rightarrow> splitLocals
    \<Rightarrow> ('s, error \<times> granteeChecker + splitLocals) state" where
  "splitEntry lookup groups g = (\<lambda>(c, kept, managed).
     (case map_of groups (groupKey (tSchema (Target g)) (tKind (Target g))) of
        None \<Rightarrow> ret (Inr (c, kept, managed @ [g]))
      | Some gr \<Rightarrow>
          if \<not> ogrFailed gr then ret (Inr (c, kept, managed @ [g]))
          else do {
            (r, c1) \<leftarrow> check lookup c (tGrantee (Target g));
            ret (case r of
                   Inl e \<Rightarrow> Inl (e, c1)
                 | Inr res \<Rightarrow> Inr (if verdict res = granteeAllowed then (c1, kept @ [g], managed) else (c1, kept, managed @ [g])))
          }))"

definition splitLedger :: "'s roleLookup \<Rightarrow> objectPlanner \<Rightarrow> ManagedObjectGrant list \<Rightarrow> ('s, error \<times> granteeChecker + splitLocals) state" where
  "splitLedger lookup p managed = tryEach (objectLedger managed) (splitEntry lookup (plGroups p)) (plChecker p, [], [])"

definition withKept :: "privilegeGrant list \<Rightarrow> privilegeGrant list \<Rightarrow> ManagedObjectGrant list" where
  "withKept kept ledger = objectLedgerStatus (sortedGrants (wantOf (ledger @ kept)))"

definition setManagedObjectGrants :: "Database \<Rightarrow> ManagedObjectGrant list \<Rightarrow> Database" where
  "setManagedObjectGrants d ms = d\<lparr>dbStatus := (dbStatus d)\<lparr>dtManagedObjectGrants := ms\<rparr>\<rparr>"

definition setObjectGrantsStatus :: "Database \<Rightarrow> ObjectGrantStatus list \<Rightarrow> Database" where
  "setObjectGrantsStatus d ss = d\<lparr>dbStatus := (dbStatus d)\<lparr>dtObjectGrants := ss\<rparr>\<rparr>"

definition plannedFields :: "objectPlanner \<Rightarrow> (string \<times> privilegeGrant list) list" where
  "plannedFields p = map (\<lambda>field. (field, map (mapGet zeroGrant (plDesired p)) (mapGet [] (plByField p) field))) (plFields p)"

text \<open>The part of \<open>reconcileObjectGrants\<close> behind the filter, with the desired grants it allowed.\<close>

definition applyObjectGrants :: "'s db \<Rightarrow> Database \<Rightarrow> objectPlanner \<Rightarrow> privilegeGrant list \<Rightarrow> privilegeGrant list \<Rightarrow> grantFilter
    \<Rightarrow> privilegeGrant list \<Rightarrow> ('s, Database) statusSaver \<Rightarrow> ('s, Database \<times> granteeChecker \<times> error option) state" where
  "applyObjectGrants db database0 p kept managed f allowed save =
     (let database = setObjectGrantsStatus database0 (objectPlannerStatus p allowed);
          over = overBudget allowed managed kept;
          errs = objectPlannerErrs p @ (case over of None \<Rightarrow> [] | Some e \<Rightarrow> [e]);
          desired = (if over = None then allowed else filter (\<lambda>d. list_ex (\<lambda>m. grantKey m = grantKey d) managed) allowed)
      in if desired = [] \<and> managed = []
         then ret (database, gfChecker f, joinErrs (map Some errs @ [filterErr f]))
         else do {
           r \<leftarrow> granteeOIDs db desired;
           (case r of
              Inl e \<Rightarrow> ret (database, gfChecker f, Some e)
            | Inr oids \<Rightarrow> do {
                (after, err) \<leftarrow> applyPrivilegeGrants desired managed (objectGrantOps db (plObjects p) oids)
                  (max (objectGrantLedgerLimit - int (length kept)) 1)
                  (Some (\<lambda>ledger. runSaver save (setManagedObjectGrants database (withKept kept (refreshIdentities ledger desired)))));
                ret (setManagedObjectGrants database (withKept kept (refreshIdentities after desired)), gfChecker f,
                  joinErrs (err # map Some errs @ [filterErr f]))
              })
         })"

definition reconcileObjectGrants :: "'s db \<Rightarrow> 's roleLookup \<Rightarrow> Database \<Rightarrow> string list \<Rightarrow> int \<Rightarrow> granteeChecker
    \<Rightarrow> ('s, Database) statusSaver \<Rightarrow> ('s, Database \<times> granteeChecker \<times> error option) state" where
  "reconcileObjectGrants db lookup database managedSchemas serverVersion checker save = do {
     planned \<leftarrow> objectPlannerPlan db lookup (dsSchemas (dbSpec database)) managedSchemas serverVersion (newObjectPlanner checker);
     (case planned of
        Inl (e, c) \<Rightarrow> ret (database, c, Some e)
      | Inr p \<Rightarrow> do {
          split \<leftarrow> splitLedger lookup p (dtManagedObjectGrants (dbStatus database));
          (case split of
             Inl (e, c) \<Rightarrow> ret (database, c, Some e)
           | Inr (c, kept, managed) \<Rightarrow> do {
               (f, r) \<leftarrow> filterFields lookup (newGrantFilter c) (plannedFields p) [];
               (case r of
                  Inl e \<Rightarrow> ret (database, gfChecker f, Some e)
                | Inr allowed \<Rightarrow> applyObjectGrants db database p kept managed f allowed save)
             })
        })
   }"

section \<open>Default privileges\<close>

abbreviation DefaultPrivilegeTable :: string where "DefaultPrivilegeTable \<equiv> ''table''"
abbreviation DefaultPrivilegeSequence :: string where "DefaultPrivilegeSequence \<equiv> ''sequence''"
abbreviation DefaultPrivilegeFunction :: string where "DefaultPrivilegeFunction \<equiv> ''function''"
abbreviation DefaultPrivilegeType :: string where "DefaultPrivilegeType \<equiv> ''type''"

record defaultKindInfo =
  dkApi :: string
  dkPg :: DefaultObjectKind
  dkObject :: SchemaObjectKind

definition defaultKindInfos :: "defaultKindInfo list" where
  "defaultKindInfos =
     [\<lparr>dkApi = DefaultPrivilegeTable, dkPg = DefaultTables, dkObject = SchemaTable\<rparr>,
      \<lparr>dkApi = DefaultPrivilegeSequence, dkPg = DefaultSequences, dkObject = SchemaSequence\<rparr>,
      \<lparr>dkApi = DefaultPrivilegeFunction, dkPg = DefaultFunctions, dkObject = SchemaFunction\<rparr>,
      \<lparr>dkApi = DefaultPrivilegeType, dkPg = DefaultTypes, dkObject = SchemaType\<rparr>]"

definition engineKind :: "defaultKindInfo \<Rightarrow> string" where
  "engineKind ki = ''DEFAULT '' @ dkPg ki"

definition defaultKindOf :: "string \<Rightarrow> defaultKindInfo option" where
  "defaultKindOf k = find (\<lambda>ki. dkApi ki = k \<or> engineKind ki = k) defaultKindInfos"

definition defaultTarget :: "defaultKindInfo \<Rightarrow> string \<Rightarrow> string \<Rightarrow> string \<Rightarrow> grantTarget" where
  "defaultTarget ki schema forRole grantee =
     \<lparr>tKind = engineKind ki, tName = schema, tGrantee = CanonicalGrantee grantee, tSchema = [], tForRole = forRole, tOID = 0\<rparr>"

definition defaultPGTarget :: "grantTarget \<Rightarrow> error + DefaultPrivilegesTarget" where
  "defaultPGTarget t =
     (case defaultKindOf (tKind t) of
        None \<Rightarrow> Inl (Errorf ''unsupported default privilege kind %q'' [tKind t])
      | Some ki \<Rightarrow> Inr \<lparr>dtForRole = tForRole t, dtSchema = tName t, dtKind = dkPg ki\<rparr>)"

text \<open>The inner loop of \<open>desiredDefaultPrivileges\<close>: the keys seen, the grants, and the unsupported ones.\<close>

type_synonym defaultLocals = "string list \<times> privilegeGrant list \<times> string list"

fun schemaDefaultsLoop :: "int \<Rightarrow> string \<Rightarrow> string \<Rightarrow> DefaultPrivilegeSpec list \<Rightarrow> defaultLocals \<Rightarrow> error + defaultLocals" where
  "schemaDefaultsLoop serverVersion field schema [] (seen, out, unsupported) = Inr (seen, out, unsupported)"
| "schemaDefaultsLoop serverVersion field schema (d # ds) (seen, out, unsupported) =
     (case defaultKindOf (dpKind d) of
        None \<Rightarrow> Inl (Errorf ''%s: unsupported kind %q'' [field, dpKind d])
      | Some ki \<Rightarrow>
          (case normalizeObjectPrivileges (dkObject ki) (dpPrivileges d) of
             Inl e \<Rightarrow> Inl (Wrapf ''%s[%s/%s]: %w'' [field, dpForRole d, dpRole d] e)
           | Inr privs \<Rightarrow>
               (let t = defaultTarget ki schema (dpForRole d) (dpRole d)
                in if targetKey t \<in> set seen
                   then Inl (Errorf ''%s: forRole %q, role %q and kind %s are listed more than once''
                     [field, dpForRole d, tGrantee t, dpKind d])
                   else if tGrantee t = PublicGrantee \<and> dpWithGrantOption d
                   then Inl (Errorf ''%s[%s/PUBLIC]: the grant option cannot be granted to PUBLIC'' [field, dpForRole d])
                   else (let (left, dropped) = dropMaintain privs serverVersion
                         in schemaDefaultsLoop serverVersion field schema ds
                              (seen @ [targetKey t],
                               if left \<noteq> [] then out @ [desiredGrant t left (dpWithGrantOption d)] else out,
                               if dropped then unsupported @ [sprintf ''%s[%s/%s]: MAINTAIN'' [field, dpForRole d, tGrantee t]]
                               else unsupported)))))"

text \<open>The fields in the order of the spec with the grants of each; a map and its order are one list.\<close>

fun defaultFieldsLoop :: "int \<Rightarrow> string list \<Rightarrow> SchemaSpec list \<Rightarrow> string list \<Rightarrow> (string \<times> privilegeGrant list) list \<Rightarrow> string list
    \<Rightarrow> error + (string \<times> privilegeGrant list) list \<times> string list" where
  "defaultFieldsLoop serverVersion managedSchemas [] seen grants unsupported = Inr (grants, unsupported)"
| "defaultFieldsLoop serverVersion managedSchemas (s # ss) seen grants unsupported =
     (let field = sprintf ''schemas[%s].defaultPrivileges'' [ssName s]
      in if ssName s \<notin> set managedSchemas \<or> systemSchemaName (ssName s) \<or> ssDefaultPrivileges s = []
         then defaultFieldsLoop serverVersion managedSchemas ss seen grants unsupported
         else if map_of grants field \<noteq> None then Inl (Errorf ''schemas: schema %q is listed more than once'' [ssName s])
         else (case schemaDefaultsLoop serverVersion field (ssName s) (ssDefaultPrivileges s) (seen, [], unsupported) of
             Inl e \<Rightarrow> Inl e
           | Inr (seen1, list, unsupported1) \<Rightarrow>
               defaultFieldsLoop serverVersion managedSchemas ss seen1 (grants @ [(field, list)]) unsupported1))"

definition desiredDefaultPrivileges :: "SchemaSpec list \<Rightarrow> string list \<Rightarrow> int
    \<Rightarrow> error + (string \<times> privilegeGrant list) list \<times> string list" where
  "desiredDefaultPrivileges schemas managedSchemas serverVersion = defaultFieldsLoop serverVersion managedSchemas schemas [] [] []"

record forRoleFilter =
  ffChecker :: granteeChecker
  ffRefused :: "string list"
  ffMissing :: "string list"
  ffPaused :: "string list"

text \<open>One round of \<open>filter\<close>.\<close>

definition noteForRole :: "string \<Rightarrow> privilegeGrant \<Rightarrow> granteeResult \<Rightarrow> forRoleFilter \<times> privilegeGrant list
    \<Rightarrow> forRoleFilter \<times> privilegeGrant list" where
  "noteForRole field g res = (\<lambda>(f, out).
     case verdict res of
       granteeAllowed \<Rightarrow> (f, out @ [g])
     | granteeMissing \<Rightarrow> (f\<lparr>ffMissing := ffMissing f @
         [sprintf ''%s: forRole %q does not exist yet'' [field, tForRole (Target g)]]\<rparr>, out)
     | granteePaused \<Rightarrow> (f\<lparr>ffPaused := ffPaused f @
         [sprintf ''%s: default privileges for %s are paused: the Role is being deleted'' [field, tForRole (Target g)]]\<rparr>, out)
     | granteeRefused \<Rightarrow> (f\<lparr>ffRefused := ffRefused f @
         [sprintf ''%s: forRole %s %s'' [field, tForRole (Target g), problem res]]\<rparr>, out))"

fun filterForRoles :: "'s roleLookup \<Rightarrow> string \<Rightarrow> privilegeGrant list \<Rightarrow> forRoleFilter \<times> privilegeGrant list
    \<Rightarrow> ('s, forRoleFilter \<times> (error + privilegeGrant list)) state" where
  "filterForRoles lookup field [] (f, out) = ret (f, Inr out)"
| "filterForRoles lookup field (g # gs) (f, out) = do {
     (r, c) \<leftarrow> checkForRole lookup (ffChecker f) (tForRole (Target g));
     (case r of
        Inl e \<Rightarrow> ret (f\<lparr>ffChecker := c\<rparr>, Inl e)
      | Inr res \<Rightarrow> filterForRoles lookup field gs (noteForRole field g res (f\<lparr>ffChecker := c\<rparr>, out)))
   }"

definition forRoleErr :: "forRoleFilter \<Rightarrow> error option" where
  "forRoleErr f = joinErrs
     ((if ffRefused f \<noteq> [] then [Some (ConditionError ReasonDefaultPrivilegeNotAllowed (Errorf
         ''default privileges not applied (and removed if pgop set them): %s'' [joinStr (ffRefused f) ''; '']))] else []) @
      map (\<lambda>m. Some (Errorf ''%s'' [joinStr m ''; ''])) (filter (\<lambda>m. m \<noteq> []) [ffMissing f, ffPaused f]))"

definition defaultLedger :: "ManagedDefaultPrivilege list \<Rightarrow> privilegeGrant list" where
  "defaultLedger managed = List.map_filter (\<lambda>m.
     case defaultKindOf (mdpKind m) of
       None \<Rightarrow> None
     | Some ki \<Rightarrow>
         if \<not> validLedgerSchema (mdpSchema m) \<or> mdpForRole m = [] then None
         else Some \<lparr>Target = defaultTarget ki (mdpSchema m) (mdpForRole m) (mdpRole m),
           Privileges = mdpPrivileges m, GrantOptions = mdpGrantOptions m\<rparr>) managed"

definition defaultLedgerStatus :: "privilegeGrant list \<Rightarrow> ManagedDefaultPrivilege list" where
  "defaultLedgerStatus ledger = List.map_filter (\<lambda>g.
     case defaultKindOf (tKind (Target g)) of
       None \<Rightarrow> None
     | Some ki \<Rightarrow> Some \<lparr>mdpSchema = tName (Target g), mdpForRole = tForRole (Target g), mdpKind = dkApi ki,
         mdpRole = tGrantee (Target g), mdpPrivileges = Privileges g, mdpGrantOptions = GrantOptions g\<rparr>) ledger"

definition defaultGone :: "'s db \<Rightarrow> grantTarget \<Rightarrow> ('s, error + bool) state" where
  "defaultGone db t = do {
     s \<leftarrow> SchemaExists db (tName t);
     (case s of
        Inl e \<Rightarrow> ret (Inl e)
      | Inr False \<Rightarrow> ret (Inr True)
      | Inr True \<Rightarrow> do {
          r \<leftarrow> RoleExists db (tForRole t);
          (case r of
             Inl e \<Rightarrow> ret (Inl e)
           | Inr False \<Rightarrow> ret (Inr True)
           | Inr True \<Rightarrow> roleGone db t)
        })
   }"

definition defaultPrivilegeOps :: "'s db \<Rightarrow> 's privilegeOps" where
  "defaultPrivilegeOps db =
     \<lparr>held = (\<lambda>t. case defaultPGTarget t of Inl e \<Rightarrow> ret (Inl e) | Inr d \<Rightarrow> HeldDefaultPrivileges db d (tGrantee t)),
      grant = (\<lambda>t privs withGrantOption. case defaultPGTarget t of
        Inl e \<Rightarrow> ret (Some e) | Inr d \<Rightarrow> GrantDefaultPrivileges db d (tGrantee t) privs withGrantOption),
      revoke = (\<lambda>t privs mode. case defaultPGTarget t of
        Inl e \<Rightarrow> ret (Some e) | Inr d \<Rightarrow> RevokeDefaultPrivileges db d (tGrantee t) privs mode),
      gone = Some (defaultGone db)\<rparr>"

definition setManagedDefaultPrivileges :: "Database \<Rightarrow> ManagedDefaultPrivilege list \<Rightarrow> Database" where
  "setManagedDefaultPrivileges d ms = d\<lparr>dbStatus := (dbStatus d)\<lparr>dtManagedDefaultPrivileges := ms\<rparr>\<rparr>"

text \<open>The loop over the fields: the filter of the roles, then the one of the grantees.\<close>

fun filterDefaults :: "'s roleLookup \<Rightarrow> (string \<times> privilegeGrant list) list \<Rightarrow> forRoleFilter \<times> grantFilter \<Rightarrow> privilegeGrant list
    \<Rightarrow> ('s, (forRoleFilter \<times> grantFilter) \<times> (error + privilegeGrant list)) state" where
  "filterDefaults lookup [] (f, h) desired = ret ((f, h), Inr desired)"
| "filterDefaults lookup ((field, gs) # flds) (f, h) desired = do {
     (f1, r) \<leftarrow> filterForRoles lookup field gs (f, []);
     (case r of
        Inl e \<Rightarrow> ret ((f1, h\<lparr>gfChecker := ffChecker f1\<rparr>), Inl e)
      | Inr allowed \<Rightarrow> do {
          (h1, r1) \<leftarrow> filterFor lookup (h\<lparr>gfChecker := ffChecker f1\<rparr>) field allowed;
          (case r1 of
             Inl e \<Rightarrow> ret ((f1\<lparr>ffChecker := gfChecker h1\<rparr>, h1), Inl e)
           | Inr allowed1 \<Rightarrow> filterDefaults lookup flds (f1\<lparr>ffChecker := gfChecker h1\<rparr>, h1) (desired @ allowed1))
        })
   }"

definition reconcileDefaultPrivileges :: "'s db \<Rightarrow> 's roleLookup \<Rightarrow> Database \<Rightarrow> string list \<Rightarrow> int \<Rightarrow> granteeChecker
    \<Rightarrow> ('s, Database) statusSaver \<Rightarrow> ('s, Database \<times> granteeChecker \<times> error option) state" where
  "reconcileDefaultPrivileges db lookup database managedSchemas serverVersion checker save =
     (case desiredDefaultPrivileges (dsSchemas (dbSpec database)) managedSchemas serverVersion of
        Inl e \<Rightarrow> ret (database, checker, Some e)
      | Inr (flds, unsupported) \<Rightarrow>
          (let managed = defaultLedger (dtManagedDefaultPrivileges (dbStatus database))
           in if flds = [] \<and> managed = [] then ret (database, checker, None)
              else do {
                ((f, h), r) \<leftarrow> filterDefaults lookup flds
                  (\<lparr>ffChecker = checker, ffRefused = [], ffMissing = [], ffPaused = []\<rparr>, newGrantFilter checker) [];
                (case r of
                   Inl e \<Rightarrow> ret (database, gfChecker h, Some e)
                 | Inr desired \<Rightarrow> do {
                     (after, err) \<leftarrow> applyPrivilegeGrants desired managed (defaultPrivilegeOps db) defaultPrivilegeLedgerLimit
                       (Some (\<lambda>ledger. runSaver save (setManagedDefaultPrivileges database (defaultLedgerStatus ledger))));
                     ret (setManagedDefaultPrivileges database (defaultLedgerStatus after), gfChecker h,
                       joinErrs ([err, forRoleErr f, filterErr h] @
                         (if unsupported \<noteq> [] then [Some (ConditionError ReasonUnsupportedServerVersion (Errorf
                           ''the MAINTAIN privilege needs PostgreSQL 17 or later: %s'' [joinStr unsupported ''; '']))] else [])))
                   })
              }))"

section \<open>Both, on a connection to the database\<close>

text \<open>\<open>SetStatusCondition\<close> and \<open>RemoveStatusCondition\<close> of apimachinery.\<close>

record conditionApi =
  caSet :: "Condition list \<Rightarrow> Condition \<Rightarrow> Condition list"
  caRemove :: "Condition list \<Rightarrow> string \<Rightarrow> Condition list"

definition skippedText :: "ObjectGrantStatus \<Rightarrow> string" where
  "skippedText s = sprintf ''%d %s(s) in schema %s (%s)''
     [formatInt (ogsSkipped s), ogsKind s, ogsSchema s, joinStr (ogsSkippedExamples s) ''; '']"

definition objectGrantsCondition :: "ObjectGrantStatus list \<Rightarrow> Condition" where
  "objectGrantsCondition ss =
     (let skipped = filter (\<lambda>s. ogsSkipped s \<noteq> 0) ss; n = sum_list (map ogsSkipped skipped)
      in if n > 0
         then \<lparr>cType = ConditionTypeObjectGrantsComplete, cStatus = ''False'', cReason = ReasonObjectGrantSkipped,
           cMessage = sprintf (''%d selected objects are not granted on (their owner is not in the Cluster'' @ [squote] @
             ''s trust domain, they belong to an extension, or they act with superuser privileges): %s'')
             [formatInt n, joinStr (map skippedText skipped) ''; '']\<rparr>
         else \<lparr>cType = ConditionTypeObjectGrantsComplete, cStatus = ''True'', cReason = ReasonAllObjectsGranted,
           cMessage = ''every object the object grants select is granted on''\<rparr>)"

definition setObjectGrantsCondition :: "conditionApi \<Rightarrow> Database \<Rightarrow> Database" where
  "setObjectGrantsCondition api d =
     d\<lparr>dbStatus := (dbStatus d)\<lparr>dtConditions :=
       (if dtObjectGrants (dbStatus d) = []
        then caRemove api (dtConditions (dbStatus d)) ConditionTypeObjectGrantsComplete
        else caSet api (dtConditions (dbStatus d)) (objectGrantsCondition (dtObjectGrants (dbStatus d))))\<rparr>\<rparr>"

definition hasObjectAccess :: "Database \<Rightarrow> bool" where
  "hasObjectAccess database \<longleftrightarrow>
     dtManagedObjectGrants (dbStatus database) \<noteq> [] \<or> dtManagedDefaultPrivileges (dbStatus database) \<noteq> [] \<or>
     list_ex (\<lambda>s. ssObjectGrants s \<noteq> [] \<or> ssDefaultPrivileges s \<noteq> []) (dsSchemas (dbSpec database))"

definition reconcileObjectAccess :: "conditionApi \<Rightarrow> 's db \<Rightarrow> 's roleLookup \<Rightarrow> ('s, error + int) state \<Rightarrow> Database \<Rightarrow> string list
    \<Rightarrow> granteeChecker \<Rightarrow> ('s, Database) statusSaver \<Rightarrow> ('s, Database \<times> granteeChecker \<times> error option) state" where
  "reconcileObjectAccess api db lookup version database managedSchemas checker save =
     (if \<not> hasObjectAccess database
      then ret (setObjectGrantsCondition api (setObjectGrantsStatus database []), checker, None)
      else do {
        v \<leftarrow> version;
        (case v of
           Inl e \<Rightarrow> ret (setObjectGrantsCondition api database, checker, Some e)
         | Inr serverVersion \<Rightarrow> do {
             (d1, c1, e1) \<leftarrow> reconcileObjectGrants db lookup database managedSchemas serverVersion checker save;
             (d2, c2, e2) \<leftarrow> reconcileDefaultPrivileges db lookup d1 managedSchemas serverVersion c1 save;
             ret (setObjectGrantsCondition api d2, c2, joinErrs [e1, e2])
           })
      })"

definition objectAccessNames :: "Database \<Rightarrow> string \<Rightarrow> bool" where
  "objectAccessNames database pgName \<longleftrightarrow>
     list_ex (\<lambda>s. list_ex (\<lambda>g. ogRole g = pgName) (ssObjectGrants s) \<or>
       list_ex (\<lambda>d. dpRole d = pgName \<or> dpForRole d = pgName) (ssDefaultPrivileges s)) (dsSchemas (dbSpec database))"

end
