(* ===== verification/Grant_Guards.thy ===== *)
theory Grant_Guards
  imports Grant_Targets
begin

text \<open>
  Which operations a run of the grant engine can call, whatever they answer: a GRANT only on the
  target of a declared grant and of privileges it declares, a REVOKE only of privileges the ledger
  records for the key. The locale states it as the preservation of any property of the world that
  those calls preserve; reconcilers use it to show which statements they send to the server.
\<close>

definition plannedWithin :: "privilegeGrant list \<Rightarrow> plannedGrant \<Rightarrow> bool" where
  "plannedWithin ds p \<longleftrightarrow> (\<exists>d \<in> set ds. pgTarget p = Target d \<and> Target (pgAdded p) = Target d \<and>
     set (Privileges (pgAdded p)) \<subseteq> set (Privileges d) \<and> set (GrantOptions (pgAdded p)) \<subseteq> set (GrantOptions d) \<and>
     set (pgPlain p) \<subseteq> set (Privileges d) \<and> set (pgGrantOptions p) \<subseteq> set (GrantOptions d))"

lemma plannedWithin_rec:
  assumes "\<forall>p \<in> set plan. plannedWithin ds p"
  shows "wfPlan plan" "recPrivs (map pgAdded plan) k \<subseteq> recPrivs ds k" "recOpts (map pgAdded plan) k \<subseteq> recOpts ds k"
    "pgTarget ` set plan \<subseteq> Target ` set ds"
  using assms by (fastforce simp: plannedWithin_def wfPlan_def recPrivs_def recOpts_def grantKey_def)+

locale guarded_ops =
  fixes ops :: "'s privilegeOps"
    and keeps :: "'s \<Rightarrow> bool"
    and mayGrant :: "grantTarget \<Rightarrow> string list \<Rightarrow> bool \<Rightarrow> bool"
    and mayRevoke :: "grantTarget \<Rightarrow> string list \<Rightarrow> bool"
  assumes held_keeps: "keeps s \<Longrightarrow> wp (held ops t) (\<lambda>_. keeps) s"
    and grant_keeps: "mayGrant t ps w \<Longrightarrow> keeps s \<Longrightarrow> wp (grant ops t ps w) (\<lambda>_. keeps) s"
    and revoke_keeps: "mayRevoke t ps \<Longrightarrow> keeps s \<Longrightarrow> wp (revoke ops t ps mode) (\<lambda>_. keeps) s"
    and gone_keeps: "gone ops = Some isGone \<Longrightarrow> keeps s \<Longrightarrow> wp (isGone t) (\<lambda>_. keeps) s"
begin

definition mayRevokeAny :: "grantTarget \<Rightarrow> string set \<Rightarrow> bool" where
  "mayRevokeAny t A \<longleftrightarrow> (\<forall>ps. set ps \<subseteq> A \<longrightarrow> mayRevoke t ps)"

lemma mayRevokeAny_subset: "mayRevokeAny t A \<Longrightarrow> B \<subseteq> A \<Longrightarrow> mayRevokeAny t B"
  unfolding mayRevokeAny_def by blast

lemma revoke_any: "mayRevokeAny t A \<Longrightarrow> set ps \<subseteq> A \<Longrightarrow> keeps s \<Longrightarrow> wp (revoke ops t ps mode) (\<lambda>_. keeps) s"
  by (rule revoke_keeps) (simp_all add: mayRevokeAny_def)

lemma revokeGrantOptionsOnly_keeps:
  "mayRevokeAny (Target (fst st)) (set opts) \<Longrightarrow> keeps s \<Longrightarrow> wp (revokeGrantOptionsOnly ops opts st) (\<lambda>_. keeps) s"
  by (cases st) (auto simp: revokeGrantOptionsOnly_def wp_simps intro: revoke_any)

lemma revokeWithOption_keeps:
  "mayRevokeAny (Target (fst st)) (set ps) \<Longrightarrow> keeps s \<Longrightarrow> wp (revokeWithOption ops ps st) (\<lambda>_. keeps) s"
  by (cases st) (auto simp: revokeWithOption_def wp_simps intro: revoke_any)

lemma revokeEachStep_keeps:
  "mayRevokeAny t A \<Longrightarrow> p \<in> A \<Longrightarrow> keeps s \<Longrightarrow> wp (revokeEachStep ops t p b) (\<lambda>_. keeps) s"
  by (cases b) (auto simp: wp_simps intro: revoke_any)

lemma revokeEach_keeps: "mayRevokeAny t (set ps) \<Longrightarrow> keeps s \<Longrightarrow> wp (revokeEach t ps ops) (\<lambda>_. keeps) s"
  unfolding revokeEach_def wp_bind wp_case_prod wp_ret
  by (rule wp_forEach [where I = "\<lambda>_. keeps"]) (auto intro: revokeEachStep_keeps)

lemma revokePlain_keeps:
  assumes "mayRevokeAny (Target (fst st)) (set ps)" and "keeps s"
  shows "wp (revokePlain ops ps st) (\<lambda>_. keeps) s"
proof -
  obtain m errs sk where st: "st = (m, errs, sk)" by (cases st)
  have "wp (revoke ops (Target m) ps mode) (\<lambda>_. keeps) s" for mode
    using assms by (intro revoke_any [where A = "set ps"]) (simp_all add: st)
  moreover have "keeps s1 \<Longrightarrow> wp (revokeEach (Target m) ps ops) (\<lambda>_. keeps) s1" for s1
    using assms by (intro revokeEach_keeps) (simp_all add: st)
  ultimately have "wp (revoke ops (Target m) ps mode) (\<lambda>e s1. keeps s1 \<and> wp (revokeEach (Target m) ps ops) (\<lambda>_. keeps) s1) s" for mode
    by (auto intro: wp_mono)
  note both = this
  show ?thesis
    unfolding st revokePlain_def prod.case wp_if wp_bind wp_ret
    by (simp add: assms(2), intro impI, rule wp_mono [OF both]) simp
qed

lemma revokeStatements_keeps:
  assumes may: "mayRevokeAny (Target m) (set removed \<union> set opts)" and "keeps s"
  shows "wp (revokeStatements ops m removed opts sk) (\<lambda>_. keeps) s"
  unfolding revokeStatements_def wp_bind wp_case_prod Let_def wp_ret
proof (rule wp_mono [OF wp_both [OF revokeGrantOptionsOnly_target revokeGrantOptionsOnly_keeps]], goal_cases)
  case 1
  show ?case by (simp, rule mayRevokeAny_subset [OF may]) auto
next
  case 2
  show ?case by (rule assms(2))
next
  case (3 r1 s1)
  obtain m1 errs1 sk1 where r1: "r1 = (m1, errs1, sk1)" by (cases r1)
  with 3 have t: "Target m1 = Target m" and k1: "keeps s1" by simp_all
  have sub: "mayRevokeAny (Target m) (set (intersect removed (GrantOptions m1)))"
    "mayRevokeAny (Target m) (set (subtract removed (intersect removed (GrantOptions m1))))"
    by (rule mayRevokeAny_subset [OF may], auto)+
  show ?case
    unfolding r1 prod.case
  proof (rule wp_mono [OF wp_both [OF revokeWithOption_target revokeWithOption_keeps]], goal_cases)
    case 1
    show ?case using sub(1) by (simp add: t)
  next
    case 2
    show ?case by (rule k1)
  next
    case (3 st2 s2)
    with t sub(2) show ?case
      by (intro wp_mono [OF revokePlain_keeps]) (simp_all add: case_prod_beta)
  qed
qed

lemma revokeRemoved_keeps:
  assumes may: "mayRevokeAny (Target m) ((set (Privileges m) - set (Privileges d)) \<union> (set (GrantOptions m) - set (GrantOptions d)))"
    and "keeps s"
  shows "wp (revokeRemoved m d ops sk) (\<lambda>_. keeps) s"
proof -
  define removed where "removed = subtract (Privileges m) (Privileges d)"
  define opts where "opts = subtract (subtract (GrantOptions m) (GrantOptions d)) removed"
  have "mayRevokeAny (Target m) (set removed \<union> set opts)"
    by (rule mayRevokeAny_subset [OF may]) (auto simp: removed_def opts_def)
  then have st: "keeps s1 \<Longrightarrow> wp (revokeStatements ops m removed opts sk) (\<lambda>_. keeps) s1" for s1
    by (rule revokeStatements_keeps)
  have arm: "wp (case r of Inl e \<Rightarrow> ret (m, Some e, sk)
      | Inr True \<Rightarrow> ret (\<lparr>Target = Target m, Privileges = [], GrantOptions = []\<rparr>, None, sk)
      | Inr False \<Rightarrow> revokeStatements ops m removed opts sk) (\<lambda>_. keeps) s1" if "keeps s1" for r s1
    using that st by (cases r) (simp_all add: wp_ret split: bool.split)
  show ?thesis
    unfolding revokeRemoved_def removed_def [symmetric] opts_def [symmetric] Let_def wp_if
    using assms(2) st by (cases "gone ops") (auto simp: wp_ret wp_bind intro: wp_mono [OF gone_keeps] arm)
qed

lemma revokeAll_keeps:
  assumes may: "\<forall>k \<in> dom (map_of T). mayRevokeAny (Target (mapGet zeroGrant T k))
      ((mapPrivs T k - mapPrivs W k) \<union> (mapOpts T k - mapOpts W k))"
    and "keeps s"
  shows "wp (revokeAll ops W T errs0) (\<lambda>_. keeps) s"
  unfolding revokeAll_def
proof (rule wp_forEach_rest [where I = "\<lambda>rest b s1. distinct rest \<and> set rest \<subseteq> dom (map_of T) \<and> keeps s1 \<and>
    (\<forall>k \<in> set rest. mapGet zeroGrant (fst b) k = mapGet zeroGrant T k)"], goal_cases)
  case (2 k rest b s1)
  obtain M errs sk where b: "b = (M, errs, sk)" by (cases b)
  from 2 b have M: "mapGet zeroGrant M k = mapGet zeroGrant T k" and k: "k \<in> dom (map_of T)" by auto
  show ?case
    unfolding b revokeStep.simps wp_bind wp_case_prod wp_ret M
  proof (rule wp_mono [OF revokeRemoved_keeps], goal_cases)
    case 1
    show ?case using may k by blast
  next
    case 2
    show ?case using \<open>distinct (k # rest) \<and> _\<close> by blast
  next
    case (3 r s2)
    obtain m' err sk' where r: "r = (m', err, sk')" by (cases r)
    have "mapGet zeroGrant (if emptyGrant m' then AList.delete k M else AList.update k m' M) k' = mapGet zeroGrant M k'"
      if "k' \<noteq> k" for k'
      using that by (simp add: mapGet_def map_simps)
    moreover have "k' \<noteq> k" if "k' \<in> set rest" for k' using 2 that by auto
    ultimately show ?case using 2 3 by (simp add: r b)
  qed
qed (use assms in auto)

lemma planAll_keeps:
  assumes "keeps s"
  shows "wp (planAll ops ds errs0) (\<lambda>r s1. keeps s1 \<and> (\<forall>p \<in> set (snd r). plannedWithin ds p)) s"
  unfolding planAll_def
proof (rule wp_forEach [where I = "\<lambda>b s1. keeps s1 \<and> (\<forall>p \<in> set (snd b). plannedWithin ds p)"], goal_cases)
  case (2 d b s1)
  obtain errs plan where b: "b = (errs, plan)" by (cases b)
  have "wp (planMissing d ops) (\<lambda>r s2. keeps s2 \<and> (\<forall>p. r = Inr p \<longrightarrow> plannedWithin ds p)) s1"
    unfolding planMissing_def wp_bind
    by (rule wp_mono [OF held_keeps])
      (use 2 in \<open>auto simp: Let_def wp_simps plannedWithin_def intro!: bexI [of _ d] split: sum.splits\<close>)
  then show ?case
    unfolding b planStep.simps wp_bind wp_ret
  proof (rule wp_mono, goal_cases)
    case (1 r s2)
    then show ?case using 2 b by (cases r) auto
  qed
qed (use assms in auto)

lemma grantPlan_keeps:
  assumes may: "\<forall>p \<in> set plan. mayGrant (pgTarget p) (pgGrantOptions p) True \<and> mayGrant (pgTarget p) (pgPlain p) False" and "keeps s"
  shows "wp (grantPlan ops plan errs0) (\<lambda>_. keeps) s"
  unfolding grantPlan_def
proof (rule wp_forEach [where I = "\<lambda>_. keeps"], goal_cases)
  case (2 p b s1)
  have "keeps s2 \<Longrightarrow> wp (grantUnlessEmpty ops (pgTarget p) (pgGrantOptions p) True) (\<lambda>_. keeps) s2"
    "keeps s2 \<Longrightarrow> wp (grantUnlessEmpty ops (pgTarget p) (pgPlain p) False) (\<lambda>_. keeps) s2" for s2
    using may 2(1) by (auto simp: grantUnlessEmpty_def wp_simps intro: grant_keeps)
  note step = this
  show ?case
    unfolding grantStep_def wp_bind
  proof (rule wp_mono [OF step(1) [OF 2(2)]], goal_cases)
    case (1 e1 s2)
    then show ?case
      unfolding wp_if wp_bind wp_ret by (auto intro: wp_mono [OF step(2)])
  qed
qed (use assms in auto)

lemma executePlan_keeps:
  assumes "\<forall>p \<in> set plan. mayGrant (pgTarget p) (pgGrantOptions p) True \<and> mayGrant (pgTarget p) (pgPlain p) False"
    and "\<forall>k \<in> dom (map_of T). mayRevokeAny (Target (mapGet zeroGrant T k))
      ((mapPrivs T k - mapPrivs W k) \<union> (mapOpts T k - mapOpts W k))"
    and "keeps s"
  shows "wp (executePlan ops W T plan errs0) (\<lambda>_. keeps) s"
  unfolding executePlan_def wp_bind wp_case_prod Let_def wp_ret
  by (rule wp_mono [OF grantPlan_keeps [OF assms(1,3)]], rule wp_mono [OF revokeAll_keeps [OF assms(2)]])
    (auto split: prod.split)

text \<open>What the ledger of a run may have revoked: only what the first ledger records for the key.\<close>

lemma ledger_mayRevoke:
  assumes wf: "distinct (map grantKey desired)" and plan: "\<forall>p \<in> set plan. plannedWithin desired p"
    and may: "\<forall>t \<in> Target ` (set desired \<union> set L). mayRevokeAny t (recPrivs L (targetKey t) \<union> recOpts L (targetKey t))"
    and T: "T = intendedLedger (trackedOf L) plan" and k: "k \<in> dom (map_of T)"
  shows "mayRevokeAny (Target (mapGet zeroGrant T k))
    ((mapPrivs T k - mapPrivs (wantOf desired) k) \<union> (mapOpts T k - mapOpts (wantOf desired) k))"
proof -
  note rec = plannedWithin_rec [OF plan]
  from k have g: "map_of T k = Some (mapGet zeroGrant T k)" by (rule mapGet_mem)
  from intendedLedger_entry [OF rec(1), of "trackedOf L" k] g rec(4) T
  have t: "Target (mapGet zeroGrant T k) \<in> Target ` (set desired \<union> set L)" "grantKey (mapGet zeroGrant T k) = k"
    by (auto dest: trackedOf_entry)
  have "mapPrivs T k = recPrivs L k \<union> recPrivs (map pgAdded plan) k" "mapOpts T k = recOpts L k \<union> recOpts (map pgAdded plan) k"
    using intendedLedger_rec [OF rec(1), of "trackedOf L" k] by (simp_all add: T trackedOf_rec)
  with rec(2,3) [of k] wantOf_rec [OF wf, of k]
  have "(mapPrivs T k - mapPrivs (wantOf desired) k) \<union> (mapOpts T k - mapOpts (wantOf desired) k) \<subseteq> recPrivs L k \<union> recOpts L k"
    by blast
  moreover have "mayRevokeAny (Target (mapGet zeroGrant T k)) (recPrivs L k \<union> recOpts L k)"
    using may t by (metis grantKey_def)
  ultimately show ?thesis by (rule mayRevokeAny_subset [rotated])
qed

lemma apply_keeps:
  assumes wf: "distinct (map grantKey desired)"
    and g: "\<And>d ps w. d \<in> set desired \<Longrightarrow> set ps \<subseteq> set (if w then GrantOptions d else Privileges d) \<Longrightarrow> mayGrant (Target d) ps w"
    and r: "\<And>t ps. t \<in> Target ` (set desired \<union> set L) \<Longrightarrow> set ps \<subseteq> recPrivs L (targetKey t) \<union> recOpts L (targetKey t) \<Longrightarrow> mayRevoke t ps"
    and p: "\<And>record L s. persist = Some record \<Longrightarrow> keeps s \<Longrightarrow> wp (record L) (\<lambda>_. keeps) s"
    and s: "keeps s"
  shows "wp (applyPrivilegeGrants desired L ops limit persist) (\<lambda>_. keeps) s"
proof -
  have may: "\<forall>t \<in> Target ` (set desired \<union> set L). mayRevokeAny t (recPrivs L (targetKey t) \<union> recOpts L (targetKey t))"
    using r by (simp add: mayRevokeAny_def)
  have ex: "wp (executePlan ops (wantOf desired) (intendedLedger (trackedOf L) plan) plan errs) (\<lambda>_. keeps) s1"
    if "\<forall>p \<in> set plan. plannedWithin desired p" "keeps s1" for plan errs s1
  proof (rule executePlan_keeps [OF _ _ that(2)])
    show "\<forall>p \<in> set plan. mayGrant (pgTarget p) (pgGrantOptions p) True \<and> mayGrant (pgTarget p) (pgPlain p) False"
      using that(1) g unfolding plannedWithin_def by fastforce
  qed (use ledger_mayRevoke [OF wf that(1) may refl] in blast)
  have rest: "wp (case e of None \<Rightarrow> executePlan ops (wantOf desired) (intendedLedger (trackedOf L) plan) plan errs
      | Some x \<Rightarrow> ret (sortedGrants (trackedOf L), joinErrs (errs @ [Some (Wrapf
                      ''recording the grants pgop is about to make failed, nothing was granted: %w'' [] x)])))
      (\<lambda>_. keeps) s1"
    if "\<forall>p \<in> set plan. plannedWithin desired p" "keeps s1" for plan errs e s1
    using ex [OF that] that(2) by (cases e) (simp_all add: wp_ret)
  have arm: "wp (if plan = [] then executePlan ops (wantOf desired) (trackedOf L) [] errs
      else let intended = intendedLedger (trackedOf L) plan
        in State_Monad.bind (case persist of None \<Rightarrow> ret None | Some p \<Rightarrow> p (sortedGrants intended))
          (\<lambda>e. case e of None \<Rightarrow> executePlan ops (wantOf desired) intended plan errs
            | Some x \<Rightarrow> ret (sortedGrants (trackedOf L), joinErrs (errs @ [Some (Wrapf
                      ''recording the grants pgop is about to make failed, nothing was granted: %w'' [] x)]))))
      (\<lambda>_. keeps) s1"
    if plan: "\<forall>p \<in> set plan. plannedWithin desired p" and s1: "keeps s1" for plan errs s1
  proof (cases "plan = []")
    case True
    with ex [of "[]", OF _ s1] show ?thesis by simp
  next
    case False
    have "wp (case persist of None \<Rightarrow> ret None | Some p \<Rightarrow> p (sortedGrants (intendedLedger (trackedOf L) plan))) (\<lambda>_. keeps) s1"
      using p s1 by (cases persist) (simp_all add: wp_ret)
    then show ?thesis
      unfolding if_not_P [OF False] Let_def wp_bind by (rule wp_mono) (rule rest [OF plan])
  qed
  show ?thesis
    unfolding applyPrivilegeGrants_def wp_let Let_def
    unfolding wp_bind wp_case_prod
    by (rule wp_mono [OF planAll_keeps [OF s]], unfold split_paired_all prod.case, rule arm [unfolded Let_def])
      (auto simp: plannedWithin_def split: if_splits)
qed

end

end
