(* ===== verification/Object_Planner_Correct.thy ===== *)
theory Object_Planner_Correct
  imports Object_Access Grant_Guards Database_Grants_Correct
begin

text \<open>
  What the planner of object grants plans: every desired grant is declared by an entry of a managed
  schema, on an object that entry selects, and the object is one the Cluster trusts. The catalog
  is the one of a server (\<open>object_server\<close>) whose reads change nothing.
\<close>

section \<open>Objects that may be granted on\<close>

definition managedOwner :: "granteeChecker \<Rightarrow> (string \<Rightarrow> ReachableRole option) \<Rightarrow> string \<Rightarrow> bool" where
  "managedOwner c roles n \<longleftrightarrow> map_of (gcManaged c) n \<noteq> None \<and> granteeNameProblem n = [] \<and> \<not> IsPublic n \<and>
     (case roles n of None \<Rightarrow> False | Some r \<Rightarrow> \<not> rrSuperuser r \<and> manages (gcManaged c) r)"

text \<open>What may be granted on an object the operator owns, which acts with superuser privileges.\<close>

definition operatorMay :: "objectKindInfo \<Rightarrow> SchemaObject \<Rightarrow> string \<Rightarrow> bool" where
  "operatorMay ki obj p \<longleftrightarrow>
     (isRoutine ki \<longrightarrow> \<not> soSecurityDefiner obj \<and> soLanguage obj \<in> set invokerSafeLanguages) \<and>
     (okPg ki = SchemaTable \<longrightarrow> soSubKind obj \<notin> {''v'', ''m'', ''f''} \<and> p \<noteq> PrivilegeMaintain \<and> p \<noteq> PrivilegeTrigger)"

definition trustedObject :: "granteeChecker \<Rightarrow> (string \<Rightarrow> ReachableRole option) \<Rightarrow> objectKindInfo \<Rightarrow> SchemaObject \<Rightarrow> string \<Rightarrow> bool" where
  "trustedObject c roles ki obj p \<longleftrightarrow> soExtension obj = [] \<and>
     (if soOwnerIsSessionUser obj then operatorMay ki obj p
      else \<not> soOwnerSuperuser obj \<and> managedOwner c roles (soOwner obj))"

definition selectsDeclared :: "(string \<Rightarrow> string \<Rightarrow> int option) \<Rightarrow> objectKindInfo \<Rightarrow> string list \<Rightarrow> SchemaObject \<Rightarrow> bool" where
  "selectsDeclared routine ki names obj \<longleftrightarrow> names = [selectAll] \<or> soName obj \<in> set names \<or>
     isRoutine ki \<and> (\<exists>n \<in> set names. \<exists>name args. parseRoutineName n = (name, args, True) \<and> routine name args = Some (soOID obj))"

text \<open>
  The specification of a desired grant: privilege \<open>p\<close> (with the grant option when \<open>w\<close>) for
  \<open>grantee\<close> on the object of kind \<open>kind\<close> with this OID. \<open>objs\<close> are the objects of a schema,
  \<open>routine\<close> resolves a signature in a schema.
\<close>

definition declaredOn :: "SchemaSpec list \<Rightarrow> string list \<Rightarrow> granteeChecker \<Rightarrow> (string \<Rightarrow> ReachableRole option)
    \<Rightarrow> (string \<Rightarrow> SchemaObjectKind \<Rightarrow> SchemaObject set) \<Rightarrow> (string \<Rightarrow> string \<Rightarrow> string \<Rightarrow> int option)
    \<Rightarrow> SchemaObjectKind \<Rightarrow> int \<Rightarrow> string \<Rightarrow> string \<Rightarrow> bool \<Rightarrow> bool" where
  "declaredOn schemas managed c roles objs routine kind oid grantee p w \<longleftrightarrow>
     (\<exists>s \<in> set schemas. \<exists>g \<in> set (ssObjectGrants s). \<exists>ki ps. \<exists>obj \<in> objs (ssName s) kind.
        ssName s \<in> set managed \<and> \<not> systemSchemaName (ssName s) \<and>
        objectKindOf (ogKind g) = Some ki \<and> okPg ki = kind \<and> CanonicalGrantee (ogRole g) = grantee \<and>
        normalizeObjectPrivileges kind (ogPrivileges g) = Inr ps \<and> p \<in> set ps \<and> (w \<longrightarrow> ogWithGrantOption g) \<and>
        soOID obj = oid \<and> selectsDeclared (routine (ssName s)) ki (ogObjects g) obj \<and> trustedObject c roles ki obj p)"

section \<open>Facts about kinds and keys\<close>

lemma objectKindOf_known: "objectKindOf k = Some ki \<Longrightarrow> ki \<in> set objectKindInfos"
  unfolding objectKindOf_def by (metis find_Some_iff nth_mem)

lemma kind_plain: "ki \<in> set objectKindInfos \<Longrightarrow> CHR ''|'' \<notin> set (okPg ki)"
  by (auto simp: objectKindInfos_def)

lemma groupKey_inject:
  assumes "groupKey a k = groupKey b l" "CHR ''|'' \<notin> set k" "CHR ''|'' \<notin> set l"
  shows "a = b" "k = l"
proof -
  from assms(1) have "rev k @ CHR ''|'' # rev a = rev l @ CHR ''|'' # rev b"
    by (metis groupKey_def append.assoc append_Cons append_Nil rev.simps(2) rev_append)
  with assms(2,3) have "rev k = rev l \<and> rev a = rev b"
    using append_sep_cancel [of "CHR ''|''" "rev k" "rev l" "rev a" "rev b"] by simp
  then show "a = b" "k = l" by simp_all
qed

lemma objectKey_oid:
  assumes "objectKey t = objectKey u" "CHR ''|'' \<notin> set (tKind t)" "CHR ''|'' \<notin> set (tKind u)" "tOID t \<noteq> 0" "tOID u \<noteq> 0"
  shows "tOID t = tOID u"
  using assms append_sep_cancel [of "CHR ''|''" "tKind t" "tKind u"] by (simp add: objectKey_def formatInt_inject)

lemma entryTarget_sel:
  "tKind (entryTarget e obj) = okPg (oeKind e)" "tName (entryTarget e obj) = soIdentity obj" "tOID (entryTarget e obj) = soOID obj"
  "tGrantee (entryTarget e obj) = CanonicalGrantee (oeGrantee e)" "tForRole (entryTarget e obj) = []"
  by (simp_all add: entryTarget_def objectTarget_def)

section \<open>Entries\<close>

text \<open>An entry is declared: it is the normalized form of an object grant of a managed schema.\<close>

definition declaredEntry :: "SchemaSpec list \<Rightarrow> string list \<Rightarrow> objectEntry \<Rightarrow> bool" where
  "declaredEntry schemas managed e \<longleftrightarrow> oeSchema e \<in> set managed \<and> \<not> systemSchemaName (oeSchema e) \<and>
     (\<exists>s \<in> set schemas. ssName s = oeSchema e \<and> (\<exists>g \<in> set (ssObjectGrants s). objectKindOf (ogKind g) = Some (oeKind e) \<and>
       oeGrantee e = CanonicalGrantee (ogRole g) \<and> oeWithGrantOption e = ogWithGrantOption g \<and>
       (\<exists>ps. normalizeObjectPrivileges (okPg (oeKind e)) (ogPrivileges g) = Inr ps \<and> set (oePrivileges e) \<subseteq> set ps) \<and>
       (oeAll e \<longrightarrow> ogObjects g = [selectAll]) \<and> set (oeNames e) \<subseteq> set (ogObjects g)))"

lemma dropMaintain_subset: "dropMaintain ps v = (qs, d) \<Longrightarrow> set qs \<subseteq> set ps"
  by (auto simp: dropMaintain_def split: if_splits)

lemma objectPlannerEntry_declared:
  assumes "objectPlannerEntry v schema at g p = Inr (e, p')"
  shows "oeSchema e = schema \<and> objectKindOf (ogKind g) = Some (oeKind e) \<and> oeGrantee e = CanonicalGrantee (ogRole g) \<and>
    oeWithGrantOption e = ogWithGrantOption g \<and>
    (\<exists>ps. normalizeObjectPrivileges (okPg (oeKind e)) (ogPrivileges g) = Inr ps \<and> set (oePrivileges e) \<subseteq> set ps) \<and>
    (oeAll e \<longrightarrow> ogObjects g = [selectAll]) \<and> set (oeNames e) \<subseteq> set (ogObjects g)"
    and "\<exists>u. p' = p\<lparr>plUnsupported := u\<rparr>"
proof -
  from assms obtain ki ps left dropped where *: "objectKindOf (ogKind g) = Some ki" "normalizeObjectPrivileges (okPg ki) (ogPrivileges g) = Inr ps"
    "dropMaintain ps v = (left, dropped)" "ogObjects g \<noteq> []" "\<not> (selectAll \<in> set (ogObjects g) \<and> length (ogObjects g) > 1)"
    and e: "e = \<lparr>oeSchema = schema, oeField = [], oeKind = ki, oeGrantee = CanonicalGrantee (ogRole g), oePrivileges = left,
      oeWithGrantOption = ogWithGrantOption g, oeAll = selectAll \<in> set (ogObjects g), oeNames = filter (\<lambda>o1. o1 \<noteq> selectAll) (ogObjects g)\<rparr>"
    and p': "p' = (if dropped then p\<lparr>plUnsupported := plUnsupported p @ [sprintf ''%s (%s): MAINTAIN'' [at, CanonicalGrantee (ogRole g)]]\<rparr> else p)"
    by (auto simp: objectPlannerEntry_def Let_def split: option.splits sum.splits if_splits prod.splits)
  have "selectAll \<in> set (ogObjects g) \<Longrightarrow> ogObjects g = [selectAll]"
    using *(4,5) by (cases "ogObjects g"; cases "tl (ogObjects g)") auto
  then show "oeSchema e = schema \<and> objectKindOf (ogKind g) = Some (oeKind e) \<and> oeGrantee e = CanonicalGrantee (ogRole g) \<and>
    oeWithGrantOption e = ogWithGrantOption g \<and>
    (\<exists>ps. normalizeObjectPrivileges (okPg (oeKind e)) (ogPrivileges g) = Inr ps \<and> set (oePrivileges e) \<subseteq> set ps) \<and>
    (oeAll e \<longrightarrow> ogObjects g = [selectAll]) \<and> set (oeNames e) \<subseteq> set (ogObjects g)"
    using * dropMaintain_subset [OF *(3)] by (simp add: e)
  have "p = p\<lparr>plUnsupported := plUnsupported p\<rparr>" by simp
  then show "\<exists>u. p' = p\<lparr>plUnsupported := u\<rparr>" unfolding p' by (metis (full_types))
qed

lemma schemaEntries_declared:
  assumes "schemaEntries v (ssName s) field i gs (p, out) = Inr (p', out')" and "s \<in> set schemas" "set gs \<subseteq> set (ssObjectGrants s)"
    and "ssName s \<in> set managed" "\<not> systemSchemaName (ssName s)" and "\<forall>e \<in> set out. declaredEntry schemas managed e"
  shows "(\<forall>e \<in> set out'. declaredEntry schemas managed e) \<and> (\<exists>u. p' = p\<lparr>plUnsupported := u\<rparr>)"
  using assms(1,3,6)
proof (induction gs arbitrary: i p out)
  case Nil
  have "p = p\<lparr>plUnsupported := plUnsupported p\<rparr>" by simp
  with Nil show ?case by (metis (no_types) Pair_inject schemaEntries.simps(1) sum.inject(2))
next
  case (Cons g gs)
  then obtain e p1 where e: "objectPlannerEntry v (ssName s) (field @ ''['' @ formatInt (int i) @ '']'') g p = Inr (e, p1)"
    and rest: "schemaEntries v (ssName s) field (Suc i) gs
      (p1, if oePrivileges e \<noteq> [] then out @ [e\<lparr>oeField := field\<rparr>] else out) = Inr (p', out')"
    by (auto split: sum.splits)
  have "declaredEntry schemas managed (e\<lparr>oeField := field\<rparr>)"
    using objectPlannerEntry_declared(1) [OF e] assms(2,4,5) Cons.prems(2) by (auto simp: declaredEntry_def)
  then have out: "\<forall>e' \<in> set (if oePrivileges e \<noteq> [] then out @ [e\<lparr>oeField := field\<rparr>] else out). declaredEntry schemas managed e'"
    using Cons.prems(3) by simp
  have gs: "set gs \<subseteq> set (ssObjectGrants s)" using Cons.prems(2) by simp
  obtain u1 where p1: "p1 = p\<lparr>plUnsupported := u1\<rparr>" using objectPlannerEntry_declared(2) [OF e] by blast
  from Cons.IH [OF rest gs out] show ?case unfolding p1 by simp
qed

lemma entriesLoop_declared:
  assumes "entriesLoop v managed ss (p, out) = Inr (p', out')" and "set ss \<subseteq> set schemas"
    and "\<forall>e \<in> set out. declaredEntry schemas managed e" and "distinct (plFields p)"
  shows "(\<forall>e \<in> set out'. declaredEntry schemas managed e) \<and> (\<exists>flds u. p' = p\<lparr>plFields := flds, plUnsupported := u\<rparr> \<and> distinct flds)"
  using assms
proof (induction ss arbitrary: p out)
  case Nil
  have "p = p\<lparr>plFields := plFields p, plUnsupported := plUnsupported p\<rparr>" by simp
  with Nil show ?case by (metis (no_types) Pair_inject entriesLoop.simps(1) sum.inject(2))
next
  case (Cons s ss)
  let ?field = "sprintf ''schemas[%s].objectGrants'' [ssName s]"
  show ?case
  proof (cases "ssName s \<notin> set managed \<or> systemSchemaName (ssName s) \<or> ssObjectGrants s = []")
    case True
    with Cons.prems(1) have "entriesLoop v managed ss (p, out) = Inr (p', out')" by (simp add: Let_def)
    from Cons.IH [OF this] Cons.prems show ?thesis by simp
  next
    case False
    with Cons.prems(1) have fresh: "?field \<notin> set (plFields p)" by (auto simp: Let_def split: if_splits)
    with False Cons.prems(1) obtain p1 out1 where
      e: "schemaEntries v (ssName s) ?field 0 (ssObjectGrants s) (p\<lparr>plFields := plFields p @ [?field]\<rparr>, out) = Inr (p1, out1)"
      and rest: "entriesLoop v managed ss (p1, out1) = Inr (p', out')"
      by (auto simp: Let_def split: sum.splits if_splits)
    from schemaEntries_declared [OF e, of schemas managed] Cons.prems False
    obtain u where out1: "\<forall>e \<in> set out1. declaredEntry schemas managed e"
      and p1: "p1 = p\<lparr>plFields := plFields p @ [?field], plUnsupported := u\<rparr>" by auto
    have "distinct (plFields p1)" using Cons.prems(4) fresh by (simp add: p1)
    with Cons.IH [OF rest] Cons.prems(2) out1 obtain flds u1 where
      "\<forall>e \<in> set out'. declaredEntry schemas managed e" "p' = p1\<lparr>plFields := flds, plUnsupported := u1\<rparr>" "distinct flds" by auto
    then show ?thesis by (auto simp: p1)
  qed
qed

section \<open>The owner of an object\<close>

definition ownersSound :: "(string \<Rightarrow> ReachableRole option) \<Rightarrow> granteeChecker \<Rightarrow> bool" where
  "ownersSound roles c \<longleftrightarrow> (\<forall>n v. map_of (gcOwners c) n = Some v \<longrightarrow> v = managedOwner c roles n)"

text \<open>The checker during a reconcile: the same policy as at the start, and caches that agree with the catalog.\<close>

definition checkerOk :: "(string \<Rightarrow> ReachableRole option) \<Rightarrow> granteeChecker \<Rightarrow> granteeChecker \<Rightarrow> bool" where
  "checkerOk roles c0 c \<longleftrightarrow> samePolicy c0 c \<and> cacheSound roles c \<and> ownersSound roles c"

lemma managedOwner_same: "samePolicy c c' \<Longrightarrow> managedOwner c' = managedOwner c"
  by (intro ext) (simp add: samePolicy_def managedOwner_def split: option.splits)

lemma ownersSound_store:
  assumes "checkerOk roles c0 c" "v = managedOwner c0 roles n"
  shows "checkerOk roles c0 (c\<lparr>gcOwners := AList.update n v (gcOwners c)\<rparr>)"
proof -
  let ?c = "c\<lparr>gcOwners := AList.update n v (gcOwners c)\<rparr>"
  have s: "samePolicy c0 c" "samePolicy c ?c" "samePolicy c0 ?c" using assms(1) by (simp_all add: checkerOk_def samePolicy_def)
  show ?thesis
    using assms managedOwner_same [OF s(1)] managedOwner_same [OF s(2)] granteeDecision_same [OF s(2)] s
    by (simp add: checkerOk_def ownersSound_def cacheSound_def map_simps)
qed

context role_lookup
begin

lemma managesRole_post:
  assumes "checkerOk (roleOf s) c0 c"
  shows "wp (managesRole lookup c n) (\<lambda>(r, c') s'. s' = s \<and> checkerOk (roleOf s) c0 c' \<and>
    (\<forall>b. r = Inr b \<longrightarrow> b = managedOwner c0 (roleOf s) n)) s"
proof (cases "map_of (gcOwners c) n")
  case (Some v)
  with assms managedOwner_same [of c0 c] show ?thesis
    by (simp add: managesRole_def wp_simps checkerOk_def ownersSound_def)
next
  case None
  have same: "samePolicy c0 c" using assms by (simp add: checkerOk_def)
  show ?thesis
  proof (cases "map_of (gcManaged c) n \<noteq> None \<and> granteeNameProblem n = [] \<and> \<not> IsPublic n")
    case True
    have m: "managedOwner c0 (roleOf s) n = (case roleOf s n of None \<Rightarrow> False | Some role \<Rightarrow> \<not> rrSuperuser role \<and> manages (gcManaged c) role)"
      using True same by (simp add: managedOwner_def samePolicy_def split: option.split)
    have step: "(\<lambda>(r, c') s'. s' = s \<and> checkerOk (roleOf s) c0 c' \<and> (\<forall>b. r = Inr b \<longrightarrow> b = managedOwner c0 (roleOf s) n))
        (Inr (managedOwner c0 (roleOf s) n), c\<lparr>gcOwners := AList.update n (managedOwner c0 (roleOf s) n) (gcOwners c)\<rparr>) s"
      using ownersSound_store [OF assms refl, of n] by simp
    show ?thesis
      unfolding managesRole_def None option.case if_P [OF True] wp_bind wp_case_sum wp_ret Let_def
    proof (rule wp_mono [OF lookup_law], goal_cases)
      case (1 r s')
      with step assms show ?case by (cases r) (simp_all add: m [symmetric])
    qed
  next
    case False
    then have "\<not> managedOwner c0 (roleOf s) n" using same by (auto simp: managedOwner_def samePolicy_def)
    with ownersSound_store [OF assms, of False n] show ?thesis
      unfolding managesRole_def None option.case if_not_P [OF False] by (simp add: wp_simps)
  qed
qed

end

lemma operatorMay_problem:
  assumes "ki \<in> set objectKindInfos" "operatorObjectProblem ki obj = ([], denied)" "p \<notin> set denied"
  shows "operatorMay ki obj p"
proof -
  have "relkindName k = [] \<Longrightarrow> k \<notin> {''v'', ''m'', ''f''}" for k by (auto simp: relkindName_def mapGet_def)
  with assms show ?thesis
    by (auto simp: operatorObjectProblem_def operatorMay_def sprintf.simps split: if_splits)
qed

lemma objectVerdict_privs:
  assumes "objectVerdict e obj (ownerWhy, denied) = (why, privs)" and "p \<in> set privs"
  shows "ownerWhy = [] \<and> p \<in> set (oePrivileges e) \<and> p \<notin> set denied"
  using assms by (auto simp: objectVerdict_def Let_def intersect_def filter_empty_conv split: if_splits)

context role_lookup
begin

lemma ownerProblem_post:
  assumes c: "checkerOk (roleOf s) c0 (plChecker p)" and ki: "ki \<in> set objectKindInfos"
  shows "wp (ownerProblem lookup ki obj p) (\<lambda>(r, p') s'. s' = s \<and> (\<exists>c. p' = p\<lparr>plChecker := c\<rparr> \<and> checkerOk (roleOf s) c0 c) \<and>
    (\<forall>denied. r = Inr ([], denied) \<longrightarrow> (\<forall>q. q \<notin> set denied \<longrightarrow> trustedObject c0 (roleOf s) ki obj q))) s"
proof -
  have same: "\<exists>c. p = p\<lparr>plChecker := c\<rparr> \<and> checkerOk (roleOf s) c0 c" using c by (metis (lifting) objectPlanner.surjective objectPlanner.update_convs(1))
  show ?thesis
  proof (cases "soExtension obj = [] \<and> \<not> soOwnerIsSessionUser obj \<and> \<not> soOwnerSuperuser obj")
    case True
    show ?thesis
      unfolding ownerProblem_def
      using True
      apply (simp only: if_False wp_bind wp_case_prod wp_ret simp_thms)
      apply (rule wp_mono [OF managesRole_post [OF c]])
      subgoal for r s' by (cases "fst r") (auto simp: trustedObject_def sprintf.simps split: if_splits)
      done
  next
    case False
    with same ki show ?thesis
      by (auto simp: ownerProblem_def wp_simps trustedObject_def sprintf.simps intro: operatorMay_problem)
  qed
qed

end

section \<open>What the plan holds\<close>

definition plainTarget :: "grantTarget \<Rightarrow> bool" where
  "plainTarget t \<longleftrightarrow> CHR ''|'' \<notin> set (tKind t) \<and> tOID t \<noteq> 0 \<and> tForRole t = []"

definition plannedOk :: "(SchemaObjectKind \<Rightarrow> int \<Rightarrow> string \<Rightarrow> string \<Rightarrow> bool \<Rightarrow> bool) \<Rightarrow> objectPlanner \<Rightarrow> bool" where
  "plannedOk declared p \<longleftrightarrow>
     (\<forall>k d. map_of (plDesired p) k = Some d \<longrightarrow> grantKey d = k \<and> plainTarget (Target d) \<and>
        objectKey (Target d) \<in> dom (map_of (plObjects p)) \<and>
        (\<forall>q \<in> set (Privileges d). declared (tKind (Target d)) (tOID (Target d)) (tGrantee (Target d)) q False) \<and>
        (\<forall>q \<in> set (GrantOptions d). declared (tKind (Target d)) (tOID (Target d)) (tGrantee (Target d)) q True)) \<and>
     (\<forall>t obj. map_of (plObjects p) (objectKey t) = Some obj \<longrightarrow> plainTarget t \<longrightarrow> soOID obj = tOID t) \<and>
     (\<forall>f. distinct (mapGet [] (plByField p) f) \<and> set (mapGet [] (plByField p) f) \<subseteq> dom (map_of (plDesired p))) \<and>
     (\<forall>f f'. f \<noteq> f' \<longrightarrow> set (mapGet [] (plByField p) f) \<inter> set (mapGet [] (plByField p) f') = {})"

lemma plannedOkD:
  assumes "plannedOk declared p"
  shows "map_of (plDesired p) k = Some d \<Longrightarrow> grantKey d = k"
    "map_of (plDesired p) k = Some d \<Longrightarrow> plainTarget (Target d)"
    "map_of (plDesired p) k = Some d \<Longrightarrow> objectKey (Target d) \<in> dom (map_of (plObjects p))"
    "map_of (plDesired p) k = Some d \<Longrightarrow> q \<in> set (Privileges d) \<Longrightarrow>
      declared (tKind (Target d)) (tOID (Target d)) (tGrantee (Target d)) q False"
    "map_of (plDesired p) k = Some d \<Longrightarrow> q \<in> set (GrantOptions d) \<Longrightarrow>
      declared (tKind (Target d)) (tOID (Target d)) (tGrantee (Target d)) q True"
    "map_of (plObjects p) (objectKey t) = Some obj \<Longrightarrow> plainTarget t \<Longrightarrow> soOID obj = tOID t"
    "distinct (mapGet [] (plByField p) f)"
    "set (mapGet [] (plByField p) f) \<subseteq> dom (map_of (plDesired p))"
    "f \<noteq> f' \<Longrightarrow> set (mapGet [] (plByField p) f) \<inter> set (mapGet [] (plByField p) f') = {}"
  using assms unfolding plannedOk_def by blast+

lemma plannedOk_frame:
  "plDesired p' = plDesired p \<Longrightarrow> plObjects p' = plObjects p \<Longrightarrow> plByField p' = plByField p \<Longrightarrow> plannedOk declared p' = plannedOk declared p"
  by (simp add: plannedOk_def)

lemma plannedOk_addDesired:
  assumes ok: "plannedOk declared p" and t: "plainTarget (entryTarget e obj)"
    and d: "\<And>q w. q \<in> set privs \<Longrightarrow> (w \<Longrightarrow> oeWithGrantOption e) \<Longrightarrow>
      declared (tKind (entryTarget e obj)) (tOID (entryTarget e obj)) (tGrantee (entryTarget e obj)) q w"
  shows "plannedOk declared (addDesired e obj privs p)"
proof (cases "privs = []")
  case True
  with ok show ?thesis by (simp add: addDesired_def)
next
  case False
  let ?t = "entryTarget e obj"
  let ?k = "targetKey ?t"
  let ?n = "desiredGrant ?t privs (oeWithGrantOption e)"
  define new where "new = (case map_of (plDesired p) ?k of None \<Rightarrow> ?n | Some prev \<Rightarrow> mergeGrant prev ?n)"
  define p' where "p' = addDesired e obj privs p"
  have desired: "map_of (plDesired p') k = (if ?k = k then Some new else map_of (plDesired p) k)" for k
    using False by (simp add: p'_def addDesired_def Let_def new_def map_simps split: option.split)
  have objects: "map_of (plObjects p') k = (if objectKey ?t = k then Some obj else map_of (plObjects p) k)" for k
    using False by (simp add: p'_def addDesired_def Let_def map_simps)
  have byField: "mapGet [] (plByField p') f = mapGet [] (plByField p) f @ (if f = oeField e \<and> map_of (plDesired p) ?k = None then [?k] else [])" for f
    using False by (simp add: p'_def addDesired_def Let_def map_simps mapGet_def split: option.split)
  have n: "\<forall>q \<in> set (Privileges ?n). declared (tKind ?t) (tOID ?t) (tGrantee ?t) q False"
    "\<forall>q \<in> set (GrantOptions ?n). declared (tKind ?t) (tOID ?t) (tGrantee ?t) q True" "Target ?n = ?t"
    using d by (auto simp: desiredGrant_def)
  have new: "Target new = ?t" "\<forall>q \<in> set (Privileges new). declared (tKind ?t) (tOID ?t) (tGrantee ?t) q False"
    "\<forall>q \<in> set (GrantOptions new). declared (tKind ?t) (tOID ?t) (tGrantee ?t) q True"
  proof -
    have prev: "tKind (Target d) = tKind ?t \<and> tOID (Target d) = tOID ?t \<and> tGrantee (Target d) = tGrantee ?t"
      if "map_of (plDesired p) ?k = Some d" for d
      using plannedOkD(1,2) [OF ok that] t targetKey_inject [of "Target d" ?t] by (auto simp: plainTarget_def grantKey_def)
    show "Target new = ?t" using n(3) by (simp add: new_def split: option.split)
    show "\<forall>q \<in> set (Privileges new). declared (tKind ?t) (tOID ?t) (tGrantee ?t) q False"
      using n(1) plannedOkD(4) [OF ok, of ?k] prev by (fastforce simp: new_def split: option.splits)
    show "\<forall>q \<in> set (GrantOptions new). declared (tKind ?t) (tOID ?t) (tGrantee ?t) q True"
      using n(2) plannedOkD(5) [OF ok, of ?k] prev by (fastforce simp: new_def split: option.splits)
  qed
  have obj: "tOID u = tOID ?t" if "objectKey ?t = objectKey u" "plainTarget u" for u
    using objectKey_oid [OF that(1)] t that(2) by (simp add: plainTarget_def)
  show ?thesis
    unfolding p'_def [symmetric] plannedOk_def
  proof (intro conjI)
    show "\<forall>k d. map_of (plDesired p') k = Some d \<longrightarrow> grantKey d = k \<and> plainTarget (Target d) \<and>
        objectKey (Target d) \<in> dom (map_of (plObjects p')) \<and>
        (\<forall>q \<in> set (Privileges d). declared (tKind (Target d)) (tOID (Target d)) (tGrantee (Target d)) q False) \<and>
        (\<forall>q \<in> set (GrantOptions d). declared (tKind (Target d)) (tOID (Target d)) (tGrantee (Target d)) q True)"
    proof (intro allI impI)
      fix k d assume a: "map_of (plDesired p') k = Some d"
      show "grantKey d = k \<and> plainTarget (Target d) \<and> objectKey (Target d) \<in> dom (map_of (plObjects p')) \<and>
        (\<forall>q \<in> set (Privileges d). declared (tKind (Target d)) (tOID (Target d)) (tGrantee (Target d)) q False) \<and>
        (\<forall>q \<in> set (GrantOptions d). declared (tKind (Target d)) (tOID (Target d)) (tGrantee (Target d)) q True)"
      proof (cases "?k = k")
        case True
        with a desired have "d = new" by simp
        with new t True show ?thesis by (simp add: grantKey_def objects domIff)
      next
        case False
        with a desired have d: "map_of (plDesired p) k = Some d" by simp
        from plannedOkD(1-5) [OF ok d] show ?thesis by (simp add: objects domIff)
      qed
    qed
    show "\<forall>u ob. map_of (plObjects p') (objectKey u) = Some ob \<longrightarrow> plainTarget u \<longrightarrow> soOID ob = tOID u"
      using plannedOkD(6) [OF ok] obj by (auto simp: objects entryTarget_sel split: if_splits)
    have k: "?k \<notin> set (mapGet [] (plByField p) f)" if "map_of (plDesired p) ?k = None" for f
      using plannedOkD(8) [OF ok, of f] that by (auto simp: domIff)
    have sub: "dom (map_of (plDesired p')) = insert ?k (dom (map_of (plDesired p)))"
      by (auto simp: desired domIff)
    show "\<forall>f. distinct (mapGet [] (plByField p') f) \<and> set (mapGet [] (plByField p') f) \<subseteq> dom (map_of (plDesired p'))"
    proof
      fix f
      have "set (mapGet [] (plByField p) f) \<subseteq> insert ?k (dom (map_of (plDesired p)))" using plannedOkD(8) [OF ok, of f] by blast
      with plannedOkD(7) [OF ok, of f] k [of f] show "distinct (mapGet [] (plByField p') f) \<and> set (mapGet [] (plByField p') f) \<subseteq> dom (map_of (plDesired p'))"
        unfolding byField sub by (cases "f = oeField e \<and> map_of (plDesired p) ?k = None") auto
    qed
    show "\<forall>f f'. f \<noteq> f' \<longrightarrow> set (mapGet [] (plByField p') f) \<inter> set (mapGet [] (plByField p') f') = {}"
      using plannedOkD(9) [OF ok] k unfolding byField by auto
  qed
qed

lemma noteSkipped_frame:
  "plDesired (noteSkipped e obj why p) = plDesired p" "plObjects (noteSkipped e obj why p) = plObjects p"
  "plByField (noteSkipped e obj why p) = plByField p" "plChecker (noteSkipped e obj why p) = plChecker p"
  "plGroups (noteSkipped e obj why p) = plGroups p" "plFields (noteSkipped e obj why p) = plFields p"
  by (simp_all add: noteSkipped_def)

lemma addDesired_frame:
  "plChecker (addDesired e obj privs p) = plChecker p" "plGroups (addDesired e obj privs p) = plGroups p"
  "plFields (addDesired e obj privs p) = plFields p"
  by (simp_all add: addDesired_def Let_def)

lemma plNotFound_self: "\<exists>x. p = p\<lparr>plNotFound := x\<rparr>"
  by (rule exI [of _ "plNotFound p"]) simp

lemma selectedNames_ok:
  assumes "selectedNames e g ns (out, p) = (objs, p')"
  shows "(\<exists>x. p' = p\<lparr>plNotFound := x\<rparr>) \<and> (\<forall>obj \<in> set objs. obj \<in> set out \<or> obj \<in> set (ogrObjects g) \<and> (\<exists>n \<in> set ns. selectsObject e g n obj))"
  using assms
proof (induction ns arbitrary: out p)
  case Nil
  then have "out = objs" "p = p'" by simp_all
  with plNotFound_self [of p] show ?case by simp
next
  case (Cons n ns)
  show ?case
  proof (cases "isRoutine (oeKind e) \<and> n \<in> set (ogrBadSigs g)")
    case True
    with Cons.prems have "selectedNames e g ns (out, p) = (objs, p')" by simp
    from Cons.IH [OF this] show ?thesis by auto
  next
    case False
    define p1 where "p1 = (if filter (selectsObject e g n) (ogrObjects g) = [] then p\<lparr>plNotFound := plNotFound p @ [sprintf ''%s (%s): %s %q does not exist in schema %s''
                   [oeField e, oeGrantee e, okApi (oeKind e), n, oeSchema e]]\<rparr> else p)"
    from Cons.prems have "selectedNames e g ns (out @ filter (selectsObject e g n) (ogrObjects g), p1) = (objs, p')"
      unfolding selectedNames.simps if_not_P [OF False] Let_def p1_def .
    from Cons.IH [OF this] obtain x where x: "p' = p1\<lparr>plNotFound := x\<rparr>"
      and objs: "\<forall>obj \<in> set objs. obj \<in> set (out @ filter (selectsObject e g n) (ogrObjects g)) \<or>
        obj \<in> set (ogrObjects g) \<and> (\<exists>n \<in> set ns. selectsObject e g n obj)" by blast
    have "p' = p\<lparr>plNotFound := x\<rparr>" by (simp add: x p1_def)
    with objs show ?thesis by auto
  qed
qed

lemma selected_ok:
  assumes "selected e g p = (objs, p')"
  shows "\<exists>x. p' = p\<lparr>plNotFound := x\<rparr>"
    "obj \<in> set objs \<Longrightarrow> obj \<in> set (ogrObjects g) \<and> (oeAll e \<or> (\<exists>n \<in> set (oeNames e). selectsObject e g n obj))"
proof -
  show "\<exists>x. p' = p\<lparr>plNotFound := x\<rparr>"
  proof (cases "oeAll e")
    case True
    with assms have "p' = p" by (simp add: selected_def)
    with plNotFound_self show ?thesis by simp
  next
    case False
    with assms have "selectedNames e g (oeNames e) ([], p) = (objs, p')" by (simp add: selected_def)
    from selectedNames_ok [OF this] show ?thesis by blast
  qed
  show "obj \<in> set objs \<Longrightarrow> obj \<in> set (ogrObjects g) \<and> (oeAll e \<or> (\<exists>n \<in> set (oeNames e). selectsObject e g n obj))"
    using assms selectedNames_ok [of e g "oeNames e" "[]" p objs p'] by (cases "oeAll e") (auto simp: selected_def)
qed

section \<open>The groups\<close>

definition groupOk :: "(string \<Rightarrow> SchemaObjectKind \<Rightarrow> SchemaObject set) \<Rightarrow> (string \<Rightarrow> string \<Rightarrow> string \<Rightarrow> int option) \<Rightarrow> objectGroup \<Rightarrow> bool" where
  "groupOk objs routine g \<longleftrightarrow> ogrKind g \<in> set objectKindInfos \<and> set (ogrObjects g) \<subseteq> objs (ogrSchema g) (okPg (ogrKind g)) \<and>
     (\<forall>n v. map_of (ogrSigs g) n = Some v \<longrightarrow>
       (\<exists>name args. parseRoutineName n = (name, args, True) \<and> routine (ogrSchema g) name args = Some v))"

definition groupsOk :: "(string \<Rightarrow> SchemaObjectKind \<Rightarrow> SchemaObject set) \<Rightarrow> (string \<Rightarrow> string \<Rightarrow> string \<Rightarrow> int option)
    \<Rightarrow> objectGroup gomap \<Rightarrow> bool" where
  "groupsOk objs routine gs \<longleftrightarrow> (\<forall>k g. map_of gs k = Some g \<longrightarrow>
     k = groupKey (ogrSchema g) (okPg (ogrKind g)) \<and> groupOk objs routine g)"

lemma groupsOk_update:
  "groupsOk objs routine gs \<Longrightarrow> k = groupKey (ogrSchema g) (okPg (ogrKind g)) \<Longrightarrow> groupOk objs routine g \<Longrightarrow>
    groupsOk objs routine (AList.update k g gs)"
  by (auto simp: groupsOk_def map_simps)

text \<open>A planner before any grant is planned.\<close>

definition freshPlanner :: "granteeChecker \<Rightarrow> string list \<Rightarrow> objectPlanner \<Rightarrow> bool" where
  "freshPlanner c flds p \<longleftrightarrow> plChecker p = c \<and> plFields p = flds \<and> plDesired p = [] \<and> plObjects p = [] \<and> plByField p = []"

lemma freshPlanner_ok: "freshPlanner c flds p \<Longrightarrow> plannedOk declared p"
  by (simp add: freshPlanner_def plannedOk_def mapGet_def)

lemma addEntry_ok:
  assumes "groupsOk objs routine (plGroups p)" "freshPlanner c flds p" "oeKind e \<in> set objectKindInfos"
  shows "groupsOk objs routine (plGroups (addEntry e p)) \<and> freshPlanner c flds (addEntry e p)"
proof (cases "map_of (plGroups p) (entryKey e)")
  case None
  have g: "groupOk objs routine (newGroup e\<lparr>ogrAll := a, ogrNames := ns\<rparr>)" for a ns
    using assms(3) by (simp add: groupOk_def newGroup_def)
  have "groupsOk objs routine (AList.update (entryKey e) (newGroup e) (plGroups p))"
    using assms g [where a = False and ns = "[]"] by (intro groupsOk_update) (simp_all add: newGroup_def entryKey_def)
  then have "groupsOk objs routine (AList.update (entryKey e) (newGroup e\<lparr>ogrAll := a, ogrNames := ns\<rparr>)
      (AList.update (entryKey e) (newGroup e) (plGroups p)))" for a ns
    using g assms(1) by (intro groupsOk_update) (simp_all add: newGroup_def entryKey_def)
  with assms(2) None show ?thesis
    by (simp add: addEntry_def objectPlannerGroup_def freshPlanner_def Let_def)
next
  case (Some g)
  with assms(1) have "entryKey e = groupKey (ogrSchema g) (okPg (ogrKind g))" "groupOk objs routine g" by (simp_all add: groupsOk_def)
  then have "groupsOk objs routine (AList.update (entryKey e) (g\<lparr>ogrAll := a, ogrNames := ns\<rparr>) (plGroups p))" for a ns
    using assms(1) by (intro groupsOk_update) (simp_all add: groupOk_def)
  with assms(2) Some show ?thesis
    by (simp add: addEntry_def objectPlannerGroup_def freshPlanner_def Let_def)
qed

lemma addEntries_ok:
  assumes "groupsOk objs routine (plGroups p)" "freshPlanner c flds p" "\<forall>e \<in> set es. oeKind e \<in> set objectKindInfos"
  shows "groupsOk objs routine (plGroups (fold addEntry es p)) \<and> freshPlanner c flds (fold addEntry es p)"
  using assms by (induction es arbitrary: p) (auto simp: addEntry_ok)

section \<open>The contract of the server\<close>

text \<open>
  Reads change nothing; what they answer is about the catalog of the world they run in: the roles,
  the objects of a schema (\<open>objectsIn\<close>; an OID is never 0), the routine a signature stands for
  (\<open>routineOf\<close>) and the object a rendered name stands for (\<open>namesOf\<close>). \<open>issued\<close> are the statements
  sent so far, each with the names in force when it ran; what a statement changes beyond that is
  left open.
\<close>

type_synonym naming = "SchemaObjectKind \<Rightarrow> string \<Rightarrow> int \<Rightarrow> bool"

locale object_server = role_catalog db roleOf
  for db :: "'s db" and roleOf :: "'s \<Rightarrow> string \<Rightarrow> ReachableRole option" +
  fixes objectsIn :: "'s \<Rightarrow> string \<Rightarrow> SchemaObjectKind \<Rightarrow> SchemaObject set"
    and routineOf :: "'s \<Rightarrow> string \<Rightarrow> string \<Rightarrow> string \<Rightarrow> int option"
    and namesOf :: "'s \<Rightarrow> naming"
    and issued :: "'s \<Rightarrow> (naming \<times> string) list"
  assumes reads: "wp (queryDb db q params) (\<lambda>_ s'. s' = s) s"
    and exec_issued: "wp (execDb db q) (\<lambda>_ s'. issued s' = issued s @ [(namesOf s, q)]) s"
    and query_objects: "schemaObjectQueries kind = Some q \<Longrightarrow>
      wp (queryDb db q (SText schema # params)) (\<lambda>r _. \<forall>rows. r = Inr (rows, None) \<longrightarrow>
        (\<forall>row \<in> set rows. \<forall>obj. scanObject row = Inr obj \<longrightarrow> obj \<in> objectsIn s schema kind)) s"
    and query_routine: "wp (queryDb db resolveRoutineQuery [SText schema, SText name, SText args])
      (\<lambda>r _. \<forall>rows e v. r = Inr ([SInt v] # rows, e) \<longrightarrow> routineOf s schema name args = Some v) s"
    and query_name: "resolveObjectQueries kind = Some q \<Longrightarrow> wp (queryDb db q [SText identity, SText schema])
      (\<lambda>r _. \<forall>rows e oid canonical. r = Inr ([SInt oid, SText canonical] # rows, e) \<longrightarrow> namesOf s kind canonical oid) s"
    and query_oid: "resolveOIDQueries kind = Some q \<Longrightarrow> wp (queryDb db q [SInt oid])
      (\<lambda>r _. \<forall>rows e found canonical. r = Inr ([SInt found, SText canonical] # rows, e) \<longrightarrow> found = oid \<and> namesOf s kind canonical oid) s"
    and object_oid: "obj \<in> objectsIn s schema kind \<Longrightarrow> soOID obj \<noteq> 0"
begin

lemma reads_row: "wp (queryRow db q args) (\<lambda>_ s'. s' = s) s"
  by (auto simp: queryRow_def wp_simps intro: wp_mono [OF reads])

lemma ResolveRoutine_post:
  "wp (ResolveRoutine db schema name args) (\<lambda>r s'. s' = s \<and> (\<forall>v. r = Inr (Some v) \<longrightarrow> routineOf s schema name args = Some v)) s"
  unfolding ResolveRoutine_def queryRow_def wp_bind wp_ret
  by (rule wp_mono [OF wp_both [OF reads query_routine]])
    (auto simp: scanned_def firstRow_def split: sum.splits list.splits option.splits sqlValue.splits prod.splits)

lemma scanRows_all: "scanRows scan rows = Inr out \<Longrightarrow> x \<in> set out \<Longrightarrow> \<exists>row \<in> set rows. scan row = Inr x"
  by (induction rows arbitrary: out) (auto split: sum.splits)

lemma ListSchemaObjects_post:
  "wp (ListSchemaObjects db schema kind sel) (\<lambda>r s'. s' = s \<and> (\<forall>out. r = Inr out \<longrightarrow> set out \<subseteq> objectsIn s schema kind)) s"
proof (cases "schemaObjectQueries kind")
  case None
  then show ?thesis by (simp add: ListSchemaObjects_def wp_simps)
next
  case (Some q)
  note both = wp_both [OF reads query_objects [OF Some]]
  show ?thesis
    unfolding ListSchemaObjects_def Some option.case wp_bind wp_ret append_Cons
    by (rule wp_mono [OF both]) (auto split: sum.splits prod.splits option.splits dest!: scanRows_all)
qed

lemma listName_post:
  assumes "groupOk (objectsIn s) (routineOf s) (fst st)" "freshPlanner c flds (snd (snd st))"
    and "groupsOk (objectsIn s) (routineOf s) (plGroups (snd (snd st)))"
  shows "wp (listName db n st) (\<lambda>(g, sel, p) s'. s' = s \<and> groupOk (objectsIn s) (routineOf s) g \<and> freshPlanner c flds p \<and>
    groupsOk (objectsIn s) (routineOf s) (plGroups p) \<and> ogrSchema g = ogrSchema (fst st) \<and> ogrKind g = ogrKind (fst st)) s"
proof -
  obtain g sel p where st: "st = (g, sel, p)" by (cases st)
  obtain name args sig where n: "parseRoutineName n = (name, args, sig)" by (cases "parseRoutineName n")
  show ?thesis
  proof (cases "isRoutine (ogrKind g) \<and> sig")
    case True
    then have nsig: "\<not> (\<not> isRoutine (ogrKind g) \<or> \<not> sig)" and sig by simp_all
    show ?thesis
      unfolding st listName_def prod.case n Let_def if_not_P [OF nsig] wp_bind wp_ret
      by (rule wp_mono [OF ResolveRoutine_post])
        (use assms n \<open>sig\<close> in \<open>auto simp: st groupOk_def freshPlanner_def map_simps split: sum.splits option.splits\<close>)
  next
    case False
    then have "\<not> isRoutine (ogrKind g) \<or> \<not> sig" by simp
    with assms show ?thesis by (simp add: st listName_def n wp_simps)
  qed
qed

lemma objectPlannerList_post:
  assumes "groupsOk (objectsIn s) (routineOf s) (plGroups p)" "freshPlanner c flds p"
  shows "wp (objectPlannerList db k p) (\<lambda>p' s'. s' = s \<and> groupsOk (objectsIn s) (routineOf s) (plGroups p') \<and> freshPlanner c flds p') s"
proof (cases "map_of (plGroups p) k")
  case None
  with assms show ?thesis by (simp add: objectPlannerList_def wp_simps)
next
  case (Some g0)
  with assms(1) have g0: "k = groupKey (ogrSchema g0) (okPg (ogrKind g0))" "groupOk (objectsIn s) (routineOf s) g0" by (simp_all add: groupsOk_def)
  let ?I = "\<lambda>(g, sel :: SchemaObjectSelector, p) s'. s' = s \<and> groupOk (objectsIn s) (routineOf s) g \<and> freshPlanner c flds p \<and>
    groupsOk (objectsIn s) (routineOf s) (plGroups p) \<and> ogrSchema g = ogrSchema g0 \<and> ogrKind g = ogrKind g0"
  have loop: "wp (forEach (sortCompact (ogrNames g0)) (listName db) (g0, sel, p)) ?I s" for sel
  proof (rule wp_forEach [where I = ?I])
    fix n and b :: listLocals and s1 assume b: "?I b s1"
    obtain g sel' p' where "b = (g, sel', p')" by (cases b)
    with b show "wp (listName db n b) ?I s1"
      by (intro wp_mono [OF listName_post [of s1 b c flds n]]) auto
  qed (use assms g0 in auto)
  show ?thesis
    unfolding objectPlannerList_def Some option.case wp_bind wp_case_prod
  proof (rule wp_mono [OF loop], goal_cases)
    case (1 b s1)
    obtain g sel p1 where b: "b = (g, sel, p1)" by (cases b)
    with 1 have I: "s1 = s" "groupOk (objectsIn s) (routineOf s) g" "freshPlanner c flds p1" "groupsOk (objectsIn s) (routineOf s) (plGroups p1)"
      "ogrSchema g = ogrSchema g0" "ogrKind g = ogrKind g0" by auto
    show ?case
      unfolding b prod.case wp_let Let_def wp_case_prod wp_ret I(1)
    proof (rule wp_mono [OF ListSchemaObjects_post], goal_cases)
      case (1 r s2)
      obtain g1 p2 where l: "listResult r g p1 = (g1, p2)" by (cases "listResult r g p1")
      have "groupOk (objectsIn s) (routineOf s) g1 \<and> ogrSchema g1 = ogrSchema g0 \<and> ogrKind g1 = ogrKind g0 \<and>
          freshPlanner c flds p2 \<and> plGroups p2 = plGroups p1"
        using l 1 I by (auto simp: listResult_def groupOk_def freshPlanner_def split: sum.splits if_splits)
      with I(4) g0(1) 1 show ?case
        unfolding l prod.case by (simp add: groupsOk_update freshPlanner_def)
    qed
  qed
qed

end

section \<open>A whole plan\<close>

lemma declaredEntry_on:
  assumes "declaredEntry schemas managed e" "obj \<in> objs (oeSchema e) (okPg (oeKind e))"
    and "oeAll e \<or> (\<exists>n \<in> set (oeNames e). soName obj = n \<or> isRoutine (oeKind e) \<and>
      (\<exists>name args. parseRoutineName n = (name, args, True) \<and> routine (oeSchema e) name args = Some (soOID obj)))"
    and "q \<in> set (oePrivileges e)" "w \<Longrightarrow> oeWithGrantOption e" "trustedObject c roles (oeKind e) obj q"
  shows "declaredOn schemas managed c roles objs routine (okPg (oeKind e)) (soOID obj) (oeGrantee e) q w"
proof -
  from assms(1) obtain s g ps where s: "oeSchema e \<in> set managed" "\<not> systemSchemaName (oeSchema e)" "s \<in> set schemas" "ssName s = oeSchema e"
    "g \<in> set (ssObjectGrants s)" "objectKindOf (ogKind g) = Some (oeKind e)" "oeGrantee e = CanonicalGrantee (ogRole g)"
    "oeWithGrantOption e = ogWithGrantOption g" "normalizeObjectPrivileges (okPg (oeKind e)) (ogPrivileges g) = Inr ps"
    "set (oePrivileges e) \<subseteq> set ps" "oeAll e \<longrightarrow> ogObjects g = [selectAll]" "set (oeNames e) \<subseteq> set (ogObjects g)"
    unfolding declaredEntry_def by blast
  have "selectsDeclared (routine (ssName s)) (oeKind e) (ogObjects g) obj"
    using assms(3) s(4,11,12) unfolding selectsDeclared_def by (metis subsetD)
  with s assms(2,4-6) show ?thesis
    unfolding declaredOn_def
    by (intro bexI [of _ s] bexI [of _ g] exI [of _ "oeKind e"] exI [of _ ps] bexI [of _ obj]) auto
qed

context object_server
begin

abbreviation declaredIn :: "'s \<Rightarrow> SchemaSpec list \<Rightarrow> string list \<Rightarrow> granteeChecker \<Rightarrow> SchemaObjectKind \<Rightarrow> int \<Rightarrow> string \<Rightarrow> string \<Rightarrow> bool \<Rightarrow> bool" where
  "declaredIn s schemas managed c \<equiv> declaredOn schemas managed c (roleOf s) (objectsIn s) (routineOf s)"

definition planningOk :: "'s \<Rightarrow> SchemaSpec list \<Rightarrow> string list \<Rightarrow> granteeChecker \<Rightarrow> objectGroup gomap \<Rightarrow> string list \<Rightarrow> objectPlanner \<Rightarrow> bool" where
  "planningOk s schemas managed c gs flds p \<longleftrightarrow> checkerOk (roleOf s) c (plChecker p) \<and> plannedOk (declaredIn s schemas managed c) p \<and>
     plGroups p = gs \<and> plFields p = flds"

lemma objectPlannerAdd_post:
  assumes I: "planningOk s schemas managed c gs flds p" and e: "declaredEntry schemas managed e"
    and obj: "obj \<in> objectsIn s (oeSchema e) (okPg (oeKind e))"
    and sel: "oeAll e \<or> (\<exists>n \<in> set (oeNames e). soName obj = n \<or> isRoutine (oeKind e) \<and>
      (\<exists>name args. parseRoutineName n = (name, args, True) \<and> routineOf s (oeSchema e) name args = Some (soOID obj)))"
  shows "wp (objectPlannerAdd (LookupRole db) e obj p) (\<lambda>r s'. s' = s \<and> (\<forall>p'. r = Inr p' \<longrightarrow> planningOk s schemas managed c gs flds p')) s"
proof -
  have ki: "oeKind e \<in> set objectKindInfos" using e objectKindOf_known unfolding declaredEntry_def by blast
  have canon: "CanonicalGrantee (oeGrantee e) = oeGrantee e" using e by (auto simp: declaredEntry_def)
  have t: "plainTarget (entryTarget e obj)"
    using kind_plain [OF ki] object_oid [OF obj] by (simp add: plainTarget_def entryTarget_sel)
  have step: "planningOk s schemas managed c gs flds (addDesired e obj privs (noteSkipped e obj why p1))"
    if p1: "p1 = p\<lparr>plChecker := c1\<rparr>" "checkerOk (roleOf s) c c1"
      and v: "objectVerdict e obj vd = (why, privs)"
      and ok: "\<And>denied q. vd = ([], denied) \<Longrightarrow> q \<notin> set denied \<Longrightarrow> trustedObject c (roleOf s) (oeKind e) obj q" for p1 c1 vd why privs
  proof -
    have "plannedOk (declaredIn s schemas managed c) p1" using I by (simp add: p1(1) planningOk_def plannedOk_def)
    then have "plannedOk (declaredIn s schemas managed c) (noteSkipped e obj why p1)"
      by (subst plannedOk_frame [of _ p1]) (simp_all add: noteSkipped_frame)
    then have "plannedOk (declaredIn s schemas managed c) (addDesired e obj privs (noteSkipped e obj why p1))"
    proof (rule plannedOk_addDesired [OF _ t])
      fix q w assume q: "q \<in> set privs" "w \<Longrightarrow> oeWithGrantOption e"
      obtain ownerWhy denied where vd: "vd = (ownerWhy, denied)" by (cases vd)
      from objectVerdict_privs [OF v [unfolded vd] q(1)] ok [of denied q] vd
      have "q \<in> set (oePrivileges e)" "trustedObject c (roleOf s) (oeKind e) obj q" by simp_all
      with declaredEntry_on [of schemas managed e obj "objectsIn s" "routineOf s" q w c "roleOf s"] e obj sel q(2) canon
      show "declaredIn s schemas managed c (tKind (entryTarget e obj)) (tOID (entryTarget e obj)) (tGrantee (entryTarget e obj)) q w"
        by (simp add: entryTarget_sel)
    qed
    with I p1 show ?thesis by (simp add: planningOk_def addDesired_frame noteSkipped_frame)
  qed
  have c: "checkerOk (roleOf s) c (plChecker p)" using I by (simp add: planningOk_def)
  show ?thesis
    unfolding objectPlannerAdd_def wp_bind wp_case_prod wp_ret
  proof (rule wp_mono [OF grantees.ownerProblem_post [OF c ki]], goal_cases)
    case (1 a s')
    obtain r p1 where a: "a = (r, p1)" by (cases a)
    with 1 obtain c1 where *: "s' = s" "p1 = p\<lparr>plChecker := c1\<rparr>" "checkerOk (roleOf s) c c1"
      "\<And>denied q. r = Inr ([], denied) \<Longrightarrow> q \<notin> set denied \<Longrightarrow> trustedObject c (roleOf s) (oeKind e) obj q" by auto
    show ?case
    proof (cases r)
      case (Inl x)
      with * show ?thesis by (simp add: a)
    next
      case (Inr vd)
      obtain why privs where v: "objectVerdict e obj vd = (why, privs)" by (cases "objectVerdict e obj vd")
      from step [OF *(2,3) v] *(1,4) Inr show ?thesis by (simp add: a v)
    qed
  qed
qed

lemma planEntry_post:
  assumes I: "planningOk s schemas managed c gs flds p" and e: "declaredEntry schemas managed e"
    and gs: "groupsOk (objectsIn s) (routineOf s) gs"
  shows "wp (planEntry (LookupRole db) e p) (\<lambda>r s'. s' = s \<and> (\<forall>p'. r = Inr p' \<longrightarrow> planningOk s schemas managed c gs flds p')) s"
proof (cases "map_of (plGroups p) (entryKey e)")
  case None
  with I show ?thesis by (simp add: planEntry_def wp_simps)
next
  case (Some g)
  from I Some gs have g: "entryKey e = groupKey (ogrSchema g) (okPg (ogrKind g))" "groupOk (objectsIn s) (routineOf s) g"
    by (simp_all add: planningOk_def groupsOk_def)
  have ki: "oeKind e \<in> set objectKindInfos" using e objectKindOf_known unfolding declaredEntry_def by blast
  from g ki kind_plain groupKey_inject [of "oeSchema e" "okPg (oeKind e)" "ogrSchema g" "okPg (ogrKind g)"]
  have same: "ogrSchema g = oeSchema e" "okPg (ogrKind g) = okPg (oeKind e)" by (simp_all add: entryKey_def groupOk_def)
  obtain objs p1 where sel: "selected e g p = (objs, p1)" by (cases "selected e g p")
  obtain x where p1: "p1 = p\<lparr>plNotFound := x\<rparr>" using selected_ok(1) [OF sel] by blast
  have I1: "planningOk s schemas managed c gs flds p1" using I by (simp add: p1 planningOk_def plannedOk_def)
  have obj: "obj \<in> objectsIn s (oeSchema e) (okPg (oeKind e)) \<and> (oeAll e \<or> (\<exists>n \<in> set (oeNames e). soName obj = n \<or> isRoutine (oeKind e) \<and>
      (\<exists>name args. parseRoutineName n = (name, args, True) \<and> routineOf s (oeSchema e) name args = Some (soOID obj))))"
    if "obj \<in> set objs" for obj
  proof -
    from selected_ok(2) [OF sel that] have o1: "obj \<in> set (ogrObjects g)" and
      o2: "oeAll e \<or> (\<exists>n \<in> set (oeNames e). selectsObject e g n obj)" by simp_all
    have "soName obj = n \<or> isRoutine (oeKind e) \<and> (\<exists>name args. parseRoutineName n = (name, args, True) \<and>
        routineOf s (oeSchema e) name args = Some (soOID obj))" if "selectsObject e g n obj" for n
      using that g(2) same(1) by (auto simp: selectsObject_def groupOk_def split: if_splits)
    with o2 have "oeAll e \<or> (\<exists>n \<in> set (oeNames e). soName obj = n \<or> isRoutine (oeKind e) \<and>
      (\<exists>name args. parseRoutineName n = (name, args, True) \<and> routineOf s (oeSchema e) name args = Some (soOID obj)))" by blast
    moreover have "obj \<in> objectsIn s (oeSchema e) (okPg (oeKind e))"
      using o1 g(2) same by (auto simp: groupOk_def)
    ultimately show ?thesis by blast
  qed
  show ?thesis
  proof (cases "ogrFailed g")
    case True
    with Some I show ?thesis by (simp add: planEntry_def wp_simps)
  next
    case False
    have "wp (tryEach objs (objectPlannerAdd (LookupRole db) e) p1)
        (\<lambda>r s'. s' = s \<and> (\<forall>p'. r = Inr p' \<longrightarrow> planningOk s schemas managed c gs flds p')) s"
    proof (rule wp_tryEach [where I = "\<lambda>p s'. s' = s \<and> planningOk s schemas managed c gs flds p"], goal_cases)
      case (2 obj b s1)
      then have s1: "s1 = s" and b: "planningOk s schemas managed c gs flds b" by simp_all
      note ob = obj [OF 2(1)]
      show ?case unfolding s1
        by (rule wp_mono [OF objectPlannerAdd_post [OF b e conjunct1 [OF ob] conjunct2 [OF ob]]]) (auto split: sum.splits)
    qed (use I1 in auto)
    with False Some sel show ?thesis by (simp add: planEntry_def)
  qed
qed

lemma objectPlannerPlan_post:
  assumes c: "checkerOk (roleOf s) c c"
  shows "wp (objectPlannerPlan db (LookupRole db) schemas managed v (newObjectPlanner c)) (\<lambda>r s'. s' = s \<and>
    (\<forall>p. r = Inr p \<longrightarrow> checkerOk (roleOf s) c (plChecker p) \<and> plannedOk (declaredIn s schemas managed c) p \<and> distinct (plFields p))) s"
proof (cases "entriesLoop v managed schemas (newObjectPlanner c, [])")
  case (Inl e)
  then show ?thesis by (simp add: objectPlannerPlan_def wp_simps)
next
  case (Inr pe)
  obtain p es where pe: "pe = (p, es)" by (cases pe)
  from entriesLoop_declared [of v managed schemas "newObjectPlanner c" "[]" p es schemas] Inr pe
  obtain flds u where es: "\<forall>e \<in> set es. declaredEntry schemas managed e" and p: "p = newObjectPlanner c\<lparr>plFields := flds, plUnsupported := u\<rparr>"
    and flds: "distinct flds" by (auto simp: newObjectPlanner_def)
  have kinds: "\<forall>e \<in> set es. oeKind e \<in> set objectKindInfos"
    using es objectKindOf_known unfolding declaredEntry_def by blast
  define q where "q = fold addEntry es p"
  have q: "groupsOk (objectsIn s) (routineOf s) (plGroups q) \<and> freshPlanner c flds q"
    unfolding q_def by (rule addEntries_ok [OF _ _ kinds]) (simp_all add: p newObjectPlanner_def groupsOk_def freshPlanner_def)
  have lists: "wp (forEach (plOrder q) (objectPlannerList db) q) (\<lambda>p' s'. s' = s \<and> groupsOk (objectsIn s) (routineOf s) (plGroups p') \<and>
      freshPlanner c flds p') s"
    by (rule wp_forEach [where I = "\<lambda>p' s'. s' = s \<and> groupsOk (objectsIn s) (routineOf s) (plGroups p') \<and> freshPlanner c flds p'"])
      (use q in \<open>auto intro: objectPlannerList_post\<close>)
  have entries: "wp (tryEach es (planEntry (LookupRole db)) p1) (\<lambda>r s'. s' = s \<and> (\<forall>p. r = Inr p \<longrightarrow>
      checkerOk (roleOf s) c (plChecker p) \<and> plannedOk (declaredIn s schemas managed c) p \<and> distinct (plFields p))) s"
    if gs: "groupsOk (objectsIn s) (routineOf s) (plGroups p1)" and p1: "freshPlanner c flds p1" for p1
  proof (rule wp_tryEach [where I = "\<lambda>p s'. s' = s \<and> planningOk s schemas managed c (plGroups p1) flds p"], goal_cases)
    case 1
    show ?case using c p1 freshPlanner_ok [OF p1] by (simp add: planningOk_def freshPlanner_def)
  next
    case (2 e b s1)
    then have s1: "s1 = s" and b: "planningOk s schemas managed c (plGroups p1) flds b" by simp_all
    from es 2(1) have e: "declaredEntry schemas managed e" by blast
    show ?case unfolding s1 by (rule wp_mono [OF planEntry_post [OF b e gs]]) (auto split: sum.splits)
  next
    case (3 b s1)
    then show ?case using flds by (simp add: planningOk_def)
  qed
  show ?thesis
    unfolding objectPlannerPlan_def Inr pe sum.case prod.case wp_bind Let_def q_def [symmetric]
    by (rule wp_mono [OF lists]) (auto intro: entries)
qed

end

end
