(* ===== verification/Object_Access_Correct.thy ===== *)
theory Object_Access_Correct
  imports Object_Planner_Correct
begin

text \<open>
  Which statements a reconcile of object grants or default privileges sends to the server: the
  filters, the ledger split and the operations of the engine on a server that honours
  \<open>object_server\<close>, with the guarded run of the engine (\<open>guarded_ops\<close>).
\<close>

section \<open>Filters and the ledger\<close>

context role_lookup
begin

lemma filterFields_post:
  assumes "cacheSound (roleOf s) (gfChecker f)"
  shows "wp (filterFields lookup f flds desired) (\<lambda>(f', r) s'. s' = s \<and> samePolicy (gfChecker f) (gfChecker f') \<and>
    cacheSound (roleOf s) (gfChecker f') \<and> (\<forall>kept. r = Inr kept \<longrightarrow> kept = desired @ filter (\<lambda>g.
      permittedGrantee (gfChecker f) (roleOf s) (tGrantee (Target g))) (concat (map snd flds)))) s"
  using assms
proof (induction flds arbitrary: f desired)
  case Nil
  then show ?case by (simp add: wp_simps samePolicy_def)
next
  case (Cons fl flds)
  obtain field gs where fl: "fl = (field, gs)" by (cases fl)
  let ?keep = "filter (\<lambda>g. permittedGrantee (gfChecker f) (roleOf s) (tGrantee (Target g)))"
  show ?case
    unfolding fl filterFields.simps filterFor_def wp_bind wp_case_prod
  proof (rule wp_mono [OF filterGrants_post [OF Cons.prems, of field gs "[]"]], goal_cases)
    case (1 a s1)
    obtain f1 r where a: "a = (f1, r)" by (cases a)
    with 1 have 1: "s1 = s" "samePolicy (gfChecker f) (gfChecker f1)" "cacheSound (roleOf s) (gfChecker f1)"
      "\<And>kept. r = Inr kept \<Longrightarrow> kept = ?keep gs" by (auto simp: permittedGrantee_def)
    show ?case
    proof (cases r)
      case (Inl e)
      with 1 show ?thesis by (simp add: a wp_ret)
    next
      case (Inr kept)
      have same: "permittedGrantee (gfChecker f1) = permittedGrantee (gfChecker f)"
        by (intro ext) (simp add: permittedGrantee_def granteeDecision_same [OF 1(2)])
      have "wp (filterFields lookup f1 flds (desired @ ?keep gs)) (\<lambda>(f', r) s'. s' = s \<and> samePolicy (gfChecker f1) (gfChecker f') \<and>
        cacheSound (roleOf s) (gfChecker f') \<and> (\<forall>kept. r = Inr kept \<longrightarrow> kept = (desired @ ?keep gs) @ ?keep (concat (map snd flds)))) s"
        using Cons.IH [OF 1(3), of "desired @ ?keep gs"] unfolding same .
      then show ?thesis
        unfolding a prod.case Inr sum.case 1(1) 1(4) [OF Inr]
        by (rule wp_mono) (use 1(2) in \<open>auto simp: samePolicy_def\<close>)
    qed
  qed
qed

lemma splitLedger_post:
  assumes "cacheSound (roleOf s) (plChecker p)"
  shows "wp (splitLedger lookup p ms) (\<lambda>r s'. s' = s \<and> (\<forall>c kept managed. r = Inr (c, kept, managed) \<longrightarrow>
    samePolicy (plChecker p) c \<and> cacheSound (roleOf s) c \<and> set managed \<subseteq> set (objectLedger ms))) s"
  unfolding splitLedger_def
proof (rule wp_tryEach [where I = "\<lambda>b s'. s' = s \<and> samePolicy (plChecker p) (fst b) \<and> cacheSound (roleOf s) (fst b) \<and>
    set (snd (snd b)) \<subseteq> set (objectLedger ms)"], goal_cases)
  case (2 g b s1)
  obtain c kept managed where b: "b = (c, kept, managed)" by (cases b)
  with 2 have I: "s1 = s" "samePolicy (plChecker p) c" "cacheSound (roleOf s) c" "set managed \<subseteq> set (objectLedger ms)" by simp_all
  let ?Q = "\<lambda>(r :: error \<times> granteeChecker + splitLocals) s'. s' = s \<and> (\<forall>c kept managed. r = Inr (c, kept, managed) \<longrightarrow>
      samePolicy (plChecker p) c \<and> cacheSound (roleOf s) c \<and> set managed \<subseteq> set (objectLedger ms))"
  have keep: "?Q (Inr (c, kept, managed @ [g])) s" using I 2(1) by simp
  have "wp (check lookup c (tGrantee (Target g))) (\<lambda>a. ?Q (case a of (r, c1) \<Rightarrow> case r of Inl e \<Rightarrow> Inl (e, c1)
      | Inr res \<Rightarrow> Inr (if verdict res = granteeAllowed then (c1, kept @ [g], managed) else (c1, kept, managed @ [g])))) s"
  proof (rule wp_mono [OF check_post [OF I(3)]], goal_cases)
    case (1 a s2)
    with I 2(1) show ?case by (cases a; cases "fst a") (auto simp: samePolicy_def)
  qed
  note looked = this
  have "wp (splitEntry lookup (plGroups p) g (c, kept, managed)) ?Q s"
  proof (cases "\<exists>gr. map_of (plGroups p) (groupKey (tSchema (Target g)) (tKind (Target g))) = Some gr \<and> ogrFailed gr")
    case True
    then obtain gr where gr: "map_of (plGroups p) (groupKey (tSchema (Target g)) (tKind (Target g))) = Some gr" "ogrFailed gr" by blast
    then have n: "\<not> \<not> ogrFailed gr" by simp
    show ?thesis unfolding splitEntry_def prod.case gr(1) option.case if_not_P [OF n] wp_bind wp_case_prod wp_ret
      by (rule wp_mono [OF looked]) (auto split: prod.splits)
  next
    case False
    with keep show ?thesis by (auto simp: splitEntry_def wp_simps split: option.splits)
  qed
  then show ?case unfolding b I(1) by (rule wp_mono) (auto split: sum.splits)
next
  case (3 b s1)
  then show ?case by auto
qed (use assms in \<open>auto simp: samePolicy_def\<close>)

end

section \<open>Statements\<close>

text \<open>
  The statements of the reconcile: a GRANT for an object with the OID the plan is about, and a
  REVOKE of what the ledger records. A statement comes with the names in force when it runs.
\<close>

definition objectGrantStatement :: "(SchemaObjectKind \<Rightarrow> int \<Rightarrow> string \<Rightarrow> string \<Rightarrow> bool \<Rightarrow> bool) \<Rightarrow> naming \<times> string \<Rightarrow> bool" where
  "objectGrantStatement declared x \<longleftrightarrow> (\<exists>kind canonical oid grantee ps w.
     buildSchemaObjectPrivilegesQuery True kind canonical grantee ps w plainMode = Inr (snd x) \<and> fst x kind canonical oid \<and>
     (\<forall>p \<in> set ps. declared kind oid grantee p w))"

definition objectRevokeStatement :: "privilegeGrant list \<Rightarrow> naming \<times> string \<Rightarrow> bool" where
  "objectRevokeStatement ledger x \<longleftrightarrow> (\<exists>kind canonical found grantee ps mode.
     buildSchemaObjectPrivilegesQuery False kind canonical grantee ps False mode = Inr (snd x) \<and> fst x kind canonical found \<and>
     (\<forall>p \<in> set ps. \<exists>m \<in> set ledger. tKind (Target m) = kind \<and> tGrantee (Target m) = grantee \<and>
        (tOID (Target m) \<noteq> 0 \<longrightarrow> found = tOID (Target m)) \<and> p \<in> set (Privileges m) \<union> set (GrantOptions m)))"

definition sentOnly :: "('s \<Rightarrow> 'x list) \<Rightarrow> ('x \<Rightarrow> bool) \<Rightarrow> 's \<Rightarrow> 's \<Rightarrow> bool" where
  "sentOnly issued A s0 s \<longleftrightarrow> (\<exists>new. issued s = issued s0 @ new \<and> (\<forall>x \<in> set new. A x))"

lemma sentOnly_refl: "sentOnly issued A s s"
  by (simp add: sentOnly_def)

lemma sentOnly_same: "sentOnly issued A s0 s \<Longrightarrow> issued s' = issued s \<Longrightarrow> sentOnly issued A s0 s'"
  by (simp add: sentOnly_def)

lemma sentOnly_snoc: "sentOnly issued A s0 s \<Longrightarrow> issued s' = issued s @ [x] \<Longrightarrow> A x \<Longrightarrow> sentOnly issued A s0 s'"
  unfolding sentOnly_def by auto

definition mayGrantObject :: "SchemaObject gomap \<Rightarrow> (naming \<times> string \<Rightarrow> bool) \<Rightarrow> grantTarget \<Rightarrow> string list \<Rightarrow> bool \<Rightarrow> bool" where
  "mayGrantObject objects A t ps w \<longleftrightarrow> (\<forall>nm canonical found q. nm (tKind t) canonical found \<longrightarrow>
     ((case map_of objects (objectKey t) of None \<Rightarrow> 0 | Some obj \<Rightarrow> soOID obj) \<noteq> 0 \<longrightarrow>
        found = (case map_of objects (objectKey t) of None \<Rightarrow> 0 | Some obj \<Rightarrow> soOID obj)) \<longrightarrow>
     buildSchemaObjectPrivilegesQuery True (tKind t) canonical (tGrantee t) ps w plainMode = Inr q \<longrightarrow> A (nm, q))"

definition mayRevokeObject :: "(naming \<times> string \<Rightarrow> bool) \<Rightarrow> grantTarget \<Rightarrow> string list \<Rightarrow> bool" where
  "mayRevokeObject A t ps \<longleftrightarrow> (\<forall>nm canonical found q mode. nm (tKind t) canonical found \<longrightarrow> (tOID t \<noteq> 0 \<longrightarrow> found = tOID t) \<longrightarrow>
     buildSchemaObjectPrivilegesQuery False (tKind t) canonical (tGrantee t) ps False mode = Inr q \<longrightarrow> A (nm, q))"

text \<open>What a resolved name is, from what the two kinds of queries answer.\<close>

lemma resolve_wp:
  assumes K: "K s" and reads: "\<And>q params. wp (queryDb db q params) (\<lambda>_. K) s"
    and query_name: "\<And>q. resolveObjectQueries kind = Some q \<Longrightarrow> wp (queryDb db q [SText identity, SText schema])
      (\<lambda>r _. \<forall>rows e oid canonical. r = Inr ([SInt oid, SText canonical] # rows, e) \<longrightarrow> N canonical oid) s"
    and query_oid: "\<And>q. resolveOIDQueries kind = Some q \<Longrightarrow> wp (queryDb db q [SInt oid])
      (\<lambda>r _. \<forall>rows e found canonical. r = Inr ([SInt found, SText canonical] # rows, e) \<longrightarrow> found = oid \<and> N canonical oid) s"
  shows "wp (resolveSchemaObject db kind schema identity oid) (\<lambda>r s'. K s' \<and> (\<forall>canonical found. r = Inr (Some (canonical, found)) \<longrightarrow>
    N canonical found \<and> (oid \<noteq> 0 \<longrightarrow> found = oid))) s"
proof (cases "resolveObjectQueries kind")
  case None
  then show ?thesis using K by (simp add: resolveSchemaObject_def wp_simps)
next
  case (Some q)
  then obtain q' where q': "resolveOIDQueries kind = Some q'" by (auto simp: resolveObjectQueries_def resolveOIDQueries_def split: if_splits)
  define answer where "answer r = (if firstRow r = Inl ErrNoRows then Inr None
    else (case scanned scanResolved (firstRow r) of
            Inl e \<Rightarrow> Inl (Wrapf ''failed to resolve %s %s: %w'' [toLower kind, identity] e)
          | Inr (oid, canonical) \<Rightarrow> Inr (Some (canonical, oid))))" for r
  have row: "\<exists>rows e. r = Inr ([SInt found, SText canonical] # rows, e)" if "answer r = Inr (Some (canonical, found))" for r found canonical
  proof -
    from that have "scanned scanResolved (firstRow r) = Inr (found, canonical)"
      by (auto simp: answer_def split: if_splits sum.splits)
    then show ?thesis
      by (cases r) (auto simp: scanned_def firstRow_def scanResolved_def split: list.splits option.splits sqlValue.splits prod.splits)
  qed
  note byOID = wp_both [OF reads query_oid [OF q']] and byName = wp_both [OF reads query_name [OF Some]]
  show ?thesis
  proof (cases "oid = 0")
    case True
    show ?thesis
      unfolding resolveSchemaObject_def Some option.case queryRow_def wp_if wp_bind wp_ret answer_def [symmetric]
      by (auto simp: True K intro!: wp_mono [OF byName] dest!: row)
  next
    case False
    then have n: "\<not> (oid = 0 \<and> identity = [])" by simp
    show ?thesis
      unfolding resolveSchemaObject_def Some option.case q' if_not_P [OF n] if_P [OF False] queryRow_def wp_bind wp_ret answer_def [symmetric]
      by (rule wp_mono [OF byOID]) (auto dest!: row)
  qed
qed

context object_server
begin

lemma readBool_keeps: "wp (queryBool db q params fmt xs) (\<lambda>_ s'. s' = s) s"
  by (auto simp: queryBool_def wp_simps intro: wp_mono [OF reads_row])

lemma roleGone_keeps: "wp (roleGone db t) (\<lambda>_ s'. s' = s) s"
  by (auto simp: roleGone_def RoleExists_def wp_simps intro: wp_mono [OF readBool_keeps])

lemma execWrap_sent:
  assumes "sentOnly issued A s0 s" "A (namesOf s, q)"
  shows "wp (execWrap db q fmt xs) (\<lambda>_. sentOnly issued A s0) s"
  unfolding execWrap_def wp_bind wp_ret
  by (rule wp_mono [OF exec_issued]) (rule sentOnly_snoc [OF assms(1) _ assms(2)])

lemma resolve_post:
  "wp (resolveSchemaObject db kind schema identity oid) (\<lambda>r s'. s' = s \<and> (\<forall>canonical found. r = Inr (Some (canonical, found)) \<longrightarrow>
    namesOf s kind canonical found \<and> (oid \<noteq> 0 \<longrightarrow> found = oid))) s"
  by (rule resolve_wp [OF refl reads query_name query_oid])

lemma resolved_keeps: "wp (ResolveSchemaObject db kind schema identity oid) (\<lambda>_ s'. s' = s) s"
  by (auto simp: ResolveSchemaObject_def wp_simps intro: wp_mono [OF resolve_post])

lemma grantObject_sent:
  assumes sent: "sentOnly issued A s0 s"
    and A: "\<And>nm canonical found q. nm kind canonical found \<Longrightarrow> (oid \<noteq> 0 \<Longrightarrow> found = oid) \<Longrightarrow>
      buildSchemaObjectPrivilegesQuery True kind canonical grantee ps w plainMode = Inr q \<Longrightarrow> A (nm, q)"
  shows "wp (GrantOnSchemaObject db kind schema identity oid grantee ps w) (\<lambda>_. sentOnly issued A s0) s"
  unfolding GrantOnSchemaObject_def wp_bind
proof (rule wp_mono [OF resolve_post], goal_cases)
  case (1 r s')
  then have s': "s' = s" and r: "\<And>canonical found. r = Inr (Some (canonical, found)) \<Longrightarrow> namesOf s kind canonical found" by auto
  show ?case
  proof (cases "\<exists>canonical found. r = Inr (Some (canonical, found)) \<and> (oid \<noteq> 0 \<longrightarrow> found = oid)")
    case True
    then obtain canonical found where f: "r = Inr (Some (canonical, found))" "oid \<noteq> 0 \<Longrightarrow> found = oid" by blast
    have c: "\<not> (oid \<noteq> 0 \<and> found \<noteq> oid)" using f(2) by blast
    show ?thesis
      unfolding f(1) s' sum.case option.case prod.case if_not_P [OF c]
      using sent execWrap_sent [OF sent A [where nm = "namesOf s", OF r [OF f(1)] f(2)]] by (auto simp: wp_simps split: sum.splits)
  next
    case False
    then show ?thesis using sent s' by (auto simp: wp_simps split: sum.splits option.splits prod.splits)
  qed
qed

lemma revokeObject_sent:
  assumes sent: "sentOnly issued A s0 s"
    and A: "\<And>nm canonical found q. nm kind canonical found \<Longrightarrow> (oid \<noteq> 0 \<Longrightarrow> found = oid) \<Longrightarrow>
      buildSchemaObjectPrivilegesQuery False kind canonical grantee ps False mode = Inr q \<Longrightarrow> A (nm, q)"
  shows "wp (RevokeOnSchemaObject db kind schema identity oid grantee ps mode) (\<lambda>_. sentOnly issued A s0) s"
  unfolding RevokeOnSchemaObject_def ResolveSchemaObject_def wp_bind wp_ret
proof (rule wp_mono [OF resolve_post], goal_cases)
  case (1 r s')
  then have s': "s' = s" and r: "\<And>canonical found. r = Inr (Some (canonical, found)) \<Longrightarrow> namesOf s kind canonical found \<and> (oid \<noteq> 0 \<longrightarrow> found = oid)"
    by auto
  show ?case
  proof (cases "\<exists>canonical found. r = Inr (Some (canonical, found))")
    case True
    then obtain canonical found where f: "r = Inr (Some (canonical, found))" by blast
    have n: "namesOf s kind canonical found" "oid \<noteq> 0 \<Longrightarrow> found = oid" using r [OF f] by simp_all
    show ?thesis
      unfolding f s' map_sum.simps sum.case option.map option.case fst_conv
      using sent execWrap_sent [OF sent A [where nm = "namesOf s", OF n]] by (auto simp: wp_simps split: sum.splits)
  next
    case False
    then show ?thesis using sent s' by (cases r) (auto simp: wp_simps split: option.splits)
  qed
qed

lemma objectOps_guarded:
  "guarded_ops (objectGrantOps db objects oids) (sentOnly issued A s0) (mayGrantObject objects A) (mayRevokeObject A)"
proof unfold_locales
  fix s t assume "sentOnly issued A s0 s"
  then show "wp (held (objectGrantOps db objects oids) t) (\<lambda>_. sentOnly issued A s0) s" by (simp add: objectGrantOps_def wp_simps)
next
  fix s t ps w assume "mayGrantObject objects A t ps w" "sentOnly issued A s0 s"
  then show "wp (grant (objectGrantOps db objects oids) t ps w) (\<lambda>_. sentOnly issued A s0) s"
    unfolding objectGrantOps_def privilegeOps.select_convs wp_bind wp_ret mayGrantObject_def
    by (intro grantObject_sent) blast+
next
  fix s t ps mode assume "mayRevokeObject A t ps" "sentOnly issued A s0 s"
  then show "wp (revoke (objectGrantOps db objects oids) t ps mode) (\<lambda>_. sentOnly issued A s0) s"
    unfolding objectGrantOps_def privilegeOps.select_convs mayRevokeObject_def
    by (intro revokeObject_sent) blast+
next
  fix isGone s t assume "gone (objectGrantOps db objects oids) = Some isGone" and sent: "sentOnly issued A s0 s"
  then have g: "isGone = objectGone db" by (simp add: objectGrantOps_def)
  show "wp (isGone t) (\<lambda>_. sentOnly issued A s0) s"
    unfolding g objectGone_def wp_bind
    by (rule wp_mono [OF roleGone_keeps])
      (auto simp: wp_simps sent split: sum.splits bool.splits intro: wp_mono [OF resolved_keeps])
qed

lemma granteeOIDs_keeps: "wp (granteeOIDs db ds) (\<lambda>_ s'. s' = s) s"
  by (auto simp: granteeOIDs_def RoleOIDs_def wp_simps intro: wp_mono [OF reads])

end

lemma set_map_filter: "y \<in> set (List.map_filter f xs) \<longleftrightarrow> (\<exists>x \<in> set xs. f x = Some y)"
  by (induction xs) (auto simp: List.map_filter_simps split: option.splits)

lemma objectLedger_plain:
  assumes "m \<in> set (objectLedger ms)"
  shows "CHR ''|'' \<notin> set (tKind (Target m))"
proof -
  from assms obtain x :: ManagedObjectGrant where x: "(case objectKindOf (mogKind x) of None \<Rightarrow> None | Some ki \<Rightarrow>
      if \<not> validLedgerSchema (mogSchema x) \<or> mogObject x = [] then None
      else Some \<lparr>Target = objectTarget (okPg ki) (mogSchema x) (mogObject x) (mogOID x) (mogRole x),
        Privileges = mogPrivileges x, GrantOptions = mogGrantOptions x\<rparr>) = Some m"
    unfolding objectLedger_def set_map_filter by blast
  then obtain ki where "objectKindOf (mogKind x) = Some ki" "tKind (Target m) = okPg ki"
    by (cases "objectKindOf (mogKind x)") (auto simp: objectTarget_def split: if_splits)
  with kind_plain [OF objectKindOf_known] show ?thesis by simp
qed

text \<open>The grants of a plan, field by field: one per key, and each of them planned.\<close>

lemma plannedFields_ok:
  assumes ok: "plannedOk declared p" and flds: "distinct (plFields p)"
  shows "distinct (map grantKey (concat (map snd (plannedFields p))))"
    and "d \<in> set (concat (map snd (plannedFields p))) \<Longrightarrow> \<exists>k. map_of (plDesired p) k = Some d"
proof -
  have get: "map_of (plDesired p) k = Some (mapGet zeroGrant (plDesired p) k)" if "k \<in> set (mapGet [] (plByField p) f)" for k f
    using plannedOkD(8) [OF ok, of f] that by (intro mapGet_mem) blast
  then have key: "grantKey (mapGet zeroGrant (plDesired p) k) = k" if "k \<in> set (mapGet [] (plByField p) f)" for k f
    using plannedOkD(1) [OF ok] that by blast
  have "map grantKey (concat (map snd (plannedFields p))) = concat (map (mapGet [] (plByField p)) (plFields p))"
    by (simp add: plannedFields_def map_concat comp_def key cong: map_cong)
  moreover have "distinct (concat (map (mapGet [] (plByField p)) fs))" if "distinct fs" for fs
    using that
  proof (induction fs)
    case (Cons f fs)
    have "\<forall>f' \<in> set fs. set (mapGet [] (plByField p) f) \<inter> set (mapGet [] (plByField p) f') = {}"
    proof
      fix f' assume "f' \<in> set fs"
      with Cons.prems show "set (mapGet [] (plByField p) f) \<inter> set (mapGet [] (plByField p) f') = {}"
        by (intro plannedOkD(9) [OF ok]) auto
    qed
    with Cons plannedOkD(7) [OF ok, of f] show ?case by simp blast
  qed simp
  ultimately show "distinct (map grantKey (concat (map snd (plannedFields p))))" using flds by simp
  show "\<exists>k. map_of (plDesired p) k = Some d" if "d \<in> set (concat (map snd (plannedFields p)))"
    using that get by (auto simp: plannedFields_def)
qed

section \<open>A reconcile of object grants\<close>

context object_server
begin

lemma applyObjectGrants_sent:
  assumes plan: "plannedOk declared p" "\<And>d. d \<in> set allowed \<Longrightarrow> \<exists>k. map_of (plDesired p) k = Some d" "distinct (map grantKey allowed)"
    and permitted: "\<And>d. d \<in> set allowed \<Longrightarrow> permittedGrantee c roles (tGrantee (Target d))"
    and ledger: "set managed \<subseteq> set (objectLedger ms)"
    and save: "\<And>d s. wp (runSaver save d) (\<lambda>_ s'. issued s' = issued s) s"
    and A: "A = (\<lambda>x. objectGrantStatement (\<lambda>kind oid g q w. declared kind oid g q w \<and> permittedGrantee c roles g) x \<or>
      objectRevokeStatement (objectLedger ms) x)"
  shows "wp (applyObjectGrants db database p kept managed f allowed save) (\<lambda>_. sentOnly issued A s) s"
proof -
  define over where "over = overBudget allowed managed kept"
  define desired where "desired = (if over = None then allowed else filter (\<lambda>d. list_ex (\<lambda>m. grantKey m = grantKey d) managed) allowed)"
  have sub: "set desired \<subseteq> set allowed" and dist: "distinct (map grantKey desired)"
    using plan(3) by (auto simp: desired_def intro: distinct_map_filter)
  have grants: "mayGrantObject (plObjects p) A (Target d) ps w"
    if d: "d \<in> set desired" and ps: "set ps \<subseteq> set (if w then GrantOptions d else Privileges d)" for d ps w
  proof -
    from sub d plan(2) obtain k where k: "map_of (plDesired p) k = Some d" by blast
    from plannedOkD(3) [OF plan(1) k] obtain obj where obj: "map_of (plObjects p) (objectKey (Target d)) = Some obj" by blast
    have t: "plainTarget (Target d)" and oid: "soOID obj = tOID (Target d)"
      using plannedOkD(2) [OF plan(1) k] plannedOkD(6) [OF plan(1) obj] by simp_all
    have all: "\<forall>q \<in> set ps. declared (tKind (Target d)) (tOID (Target d)) (tGrantee (Target d)) q w \<and> permittedGrantee c roles (tGrantee (Target d))"
      using plannedOkD(4,5) [OF plan(1) k] ps permitted [of d] sub d by (cases w) auto
    show ?thesis
      unfolding mayGrantObject_def obj option.case oid
    proof (intro allI impI)
      fix nm canonical found q
      assume "nm (tKind (Target d)) canonical found" "tOID (Target d) \<noteq> 0 \<longrightarrow> found = tOID (Target d)"
        and q: "buildSchemaObjectPrivilegesQuery True (tKind (Target d)) canonical (tGrantee (Target d)) ps w plainMode = Inr q"
      with t have "nm (tKind (Target d)) canonical (tOID (Target d))" by (simp add: plainTarget_def)
      with q all show "A (nm, q)" unfolding A objectGrantStatement_def by fastforce
    qed
  qed
  have revokes: "mayRevokeObject A t ps"
    if t: "t \<in> Target ` (set desired \<union> set managed)" and ps: "set ps \<subseteq> recPrivs managed (targetKey t) \<union> recOpts managed (targetKey t)" for t ps
  proof -
    have plain: "CHR ''|'' \<notin> set (tKind t)"
    proof -
      from t consider d where "d \<in> set desired" "t = Target d" | m where "m \<in> set managed" "t = Target m" by blast
      then show ?thesis
      proof cases
        case 1
        with sub plan(2) obtain k where "map_of (plDesired p) k = Some d" by blast
        from plannedOkD(2) [OF plan(1) this] 1 show ?thesis by (simp add: plainTarget_def)
      qed (use ledger objectLedger_plain in blast)
    qed
    have m: "\<exists>m \<in> set (objectLedger ms). tKind (Target m) = tKind t \<and> tGrantee (Target m) = tGrantee t \<and> tOID (Target m) = tOID t \<and>
        q \<in> set (Privileges m) \<union> set (GrantOptions m)" if "q \<in> set ps" for q
    proof -
      from that ps obtain m where m: "m \<in> set managed" "targetKey (Target m) = targetKey t" "q \<in> set (Privileges m) \<union> set (GrantOptions m)"
        by (auto simp: recPrivs_def recOpts_def grantKey_def)
      with ledger have L: "m \<in> set (objectLedger ms)" by blast
      with m targetKey_inject [OF objectLedger_plain [OF L] plain] show ?thesis by blast
    qed
    show ?thesis
      unfolding mayRevokeObject_def
    proof (intro allI impI)
      fix nm canonical found q mode
      assume n: "nm (tKind t) canonical found" "tOID t \<noteq> 0 \<longrightarrow> found = tOID t"
        and q: "buildSchemaObjectPrivilegesQuery False (tKind t) canonical (tGrantee t) ps False mode = Inr q"
      have "\<forall>p \<in> set ps. \<exists>m \<in> set (objectLedger ms). tKind (Target m) = tKind t \<and> tGrantee (Target m) = tGrantee t \<and>
        (tOID (Target m) \<noteq> 0 \<longrightarrow> found = tOID (Target m)) \<and> p \<in> set (Privileges m) \<union> set (GrantOptions m)"
        using m n(2) by metis
      with n(1) q have "objectRevokeStatement (objectLedger ms) (nm, q)"
        unfolding objectRevokeStatement_def fst_conv snd_conv by blast
      then show "A (nm, q)" unfolding A by blast
    qed
  qed
  have run: "wp (applyPrivilegeGrants desired managed (objectGrantOps db (plObjects p) oids) limit
      (Some (\<lambda>ledger. runSaver save (F ledger)))) (\<lambda>_. sentOnly issued A s) s" for oids limit F
  proof (rule guarded_ops.apply_keeps [OF objectOps_guarded dist grants revokes])
    fix writeLedger :: "privilegeGrant list \<Rightarrow> ('s, error option) state" and L s1
    assume r: "Some (\<lambda>ledger. runSaver save (F ledger)) = Some writeLedger" and s1: "sentOnly issued A s s1"
    then have "writeLedger L = runSaver save (F L)" by auto
    then show "wp (writeLedger L) (\<lambda>_. sentOnly issued A s) s1"
      using wp_mono [OF save] sentOnly_same [OF s1] by metis
  qed (auto simp: sentOnly_refl)
  show ?thesis
  proof (cases "desired = [] \<and> managed = []")
    case True
    then show ?thesis
      unfolding applyObjectGrants_def over_def [symmetric] desired_def [symmetric] Let_def by (simp add: wp_simps sentOnly_refl)
  next
    case False
    show ?thesis
      unfolding applyObjectGrants_def over_def [symmetric] Let_def desired_def [symmetric] if_not_P [OF False] wp_bind
    proof (rule wp_mono [OF granteeOIDs_keeps], goal_cases)
      case (1 r s')
      show ?case
        unfolding 1 by (cases r) (auto simp: wp_simps sentOnly_refl intro: wp_mono [OF run])
    qed
  qed
qed

lemma reconcileObjectGrants_sent:
  assumes c: "cacheSound (roleOf s) c" "ownersSound (roleOf s) c"
    and save: "\<And>d s. wp (runSaver save d) (\<lambda>_ s'. issued s' = issued s) s"
    and A: "A = (\<lambda>x. objectGrantStatement (\<lambda>kind oid g q w. declaredIn s (dsSchemas (dbSpec database)) managed c kind oid g q w \<and>
        permittedGrantee c (roleOf s) g) x \<or>
      objectRevokeStatement (objectLedger (dtManagedObjectGrants (dbStatus database))) x)"
  shows "wp (reconcileObjectGrants db (LookupRole db) database managed v c save) (\<lambda>_. sentOnly issued A s) s"
proof -
  have ok: "checkerOk (roleOf s) c c" using c by (simp add: checkerOk_def samePolicy_def)
  show ?thesis
    unfolding reconcileObjectGrants_def wp_bind
  proof (rule wp_mono [OF objectPlannerPlan_post [OF ok]], goal_cases)
    case (1 planned s1)
    then have s1: "s1 = s" by simp
    show ?case
    proof (cases planned)
      case (Inl e)
      then show ?thesis by (cases e) (simp add: s1 wp_simps sentOnly_refl)
    next
      case (Inr p)
      with 1 have p: "checkerOk (roleOf s) c (plChecker p)" "distinct (plFields p)"
        "plannedOk (declaredIn s (dsSchemas (dbSpec database)) managed c) p" by simp_all
      then have cp: "cacheSound (roleOf s) (plChecker p)" "samePolicy c (plChecker p)" by (simp_all add: checkerOk_def)
      show ?thesis
        unfolding Inr sum.case wp_bind s1
      proof (rule wp_mono [OF grantees.splitLedger_post [OF cp(1)]], goal_cases)
        case (1 split s2)
        then have s2: "s2 = s" by simp
        show ?case
        proof (cases split)
          case (Inl e)
          then show ?thesis by (cases e) (simp add: s2 wp_simps sentOnly_refl)
        next
          case (Inr ckm)
          obtain c1 kept ledger where ckm: "ckm = (c1, kept, ledger)" by (cases ckm)
          with 1 Inr cp(2) have c1: "samePolicy c c1" "cacheSound (roleOf s) c1"
            "set ledger \<subseteq> set (objectLedger (dtManagedObjectGrants (dbStatus database)))" by (auto simp: samePolicy_def)
          then have c1': "cacheSound (roleOf s) (gfChecker (newGrantFilter c1))" by (simp add: newGrantFilter_def)
          show ?thesis
            unfolding Inr sum.case ckm prod.case wp_bind s2 wp_case_prod
          proof (rule wp_mono [OF grantees.filterFields_post [OF c1', of "plannedFields p" "[]"]], goal_cases)
            case (1 a s3)
            obtain f r where a: "a = (f, r)" by (cases a)
            with 1 have s3: "s3 = s" and r: "\<And>kept. r = Inr kept \<Longrightarrow> kept = filter (\<lambda>g.
                permittedGrantee (gfChecker (newGrantFilter c1)) (roleOf s) (tGrantee (Target g))) (concat (map snd (plannedFields p)))" by auto
            have same: "permittedGrantee (gfChecker (newGrantFilter c1)) = permittedGrantee c"
              by (intro ext) (simp add: permittedGrantee_def newGrantFilter_def granteeDecision_same [OF c1(1)])
            show ?case
            proof (cases r)
              case (Inl e)
              then show ?thesis by (simp add: a s3 wp_simps sentOnly_refl)
            next
              case (Inr allowed)
              have al: "allowed = filter (\<lambda>g. permittedGrantee c (roleOf s) (tGrantee (Target g))) (concat (map snd (plannedFields p)))"
                using r [OF Inr] unfolding same .
              have "distinct (map grantKey allowed)"
                unfolding al by (rule distinct_map_filter [OF plannedFields_ok(1) [OF p(3,2)]])
              moreover have "\<exists>k. map_of (plDesired p) k = Some d" "permittedGrantee c (roleOf s) (tGrantee (Target d))" if "d \<in> set allowed" for d
                using that plannedFields_ok(2) [OF p(3,2), of d] by (auto simp: al)
              ultimately show ?thesis
                unfolding a prod.case Inr sum.case s3
                by (intro applyObjectGrants_sent [OF p(3) _ _ _ c1(3) save A])
            qed
          qed
        qed
      qed
    qed
  qed
qed

end

end
