(* ===== verification/Default_Privileges_Correct.thy ===== *)
theory Default_Privileges_Correct
  imports Object_Access_Correct
begin

text \<open>
  Which statements a reconcile of default privileges sends: the declared default privileges, the
  filter of the roles whose objects they are about, and the operations of the engine on a server
  that honours \<open>object_server\<close>.
\<close>

section \<open>Roles whose default privileges may be set\<close>

definition forRoleDecision :: "granteeChecker \<Rightarrow> string \<Rightarrow> ReachableRole option \<Rightarrow> granteeResult" where
  "forRoleDecision c n r =
     (if IsPublic n then refusedFor ''is PUBLIC, not a role''
      else if granteeNameProblem n \<noteq> [] then refusedFor (granteeNameProblem n)
      else if n \<in> set (gcDeleting c) then verdictOnly granteePaused
      else case r of
        None \<Rightarrow> verdictOnly granteeMissing
      | Some role \<Rightarrow>
          if rrSuperuser role then refusedFor problemSuperuser
          else if \<not> manages (gcManaged c) role then refusedFor ''is not managed by a Role of this Cluster''
          else verdictOnly granteeAllowed)"

definition permittedForRole :: "granteeChecker \<Rightarrow> (string \<Rightarrow> ReachableRole option) \<Rightarrow> string \<Rightarrow> bool" where
  "permittedForRole c roles n \<longleftrightarrow> \<not> IsPublic n \<and> granteeNameProblem n = [] \<and> n \<notin> set (gcDeleting c) \<and>
     (case roles n of None \<Rightarrow> False | Some r \<Rightarrow> \<not> rrSuperuser r \<and> manages (gcManaged c) r)"

lemma permittedForRole_iff: "permittedForRole c roles n \<longleftrightarrow> verdict (forRoleDecision c n (roles n)) = granteeAllowed"
  by (auto simp: permittedForRole_def forRoleDecision_def split: option.splits)

definition forRolesSound :: "(string \<Rightarrow> ReachableRole option) \<Rightarrow> granteeChecker \<Rightarrow> bool" where
  "forRolesSound roles c \<longleftrightarrow> (\<forall>n res. map_of (gcForRoles c) n = Some res \<longrightarrow> res = forRoleDecision c n (roles n))"

definition rolesOk :: "(string \<Rightarrow> ReachableRole option) \<Rightarrow> granteeChecker \<Rightarrow> granteeChecker \<Rightarrow> bool" where
  "rolesOk roles c0 c \<longleftrightarrow> samePolicy c0 c \<and> cacheSound roles c \<and> forRolesSound roles c"

lemma forRoleDecision_same: "samePolicy c c' \<Longrightarrow> forRoleDecision c' = forRoleDecision c"
  by (intro ext) (simp add: samePolicy_def forRoleDecision_def split: option.splits)

lemma rolesOk_cache:
  "rolesOk roles c0 c \<Longrightarrow> samePolicy c c' \<Longrightarrow> cacheSound roles c' \<Longrightarrow> gcForRoles c' = gcForRoles c \<Longrightarrow> rolesOk roles c0 c'"
  using forRoleDecision_same [of c c'] by (auto simp: rolesOk_def forRolesSound_def samePolicy_def)

lemma rolesOk_store:
  assumes "rolesOk roles c0 c" "res = forRoleDecision c n (roles n)"
  shows "rolesOk roles c0 (c\<lparr>gcForRoles := AList.update n res (gcForRoles c)\<rparr>)"
proof -
  let ?c = "c\<lparr>gcForRoles := AList.update n res (gcForRoles c)\<rparr>"
  have s: "samePolicy c ?c" by (simp add: samePolicy_def)
  show ?thesis
    using assms forRoleDecision_same [OF s] granteeDecision_same [OF s]
    by (simp add: rolesOk_def forRolesSound_def cacheSound_def map_simps samePolicy_def)
qed

context role_lookup
begin

lemma checkForRole_post:
  assumes "rolesOk (roleOf s) c0 c"
  shows "wp (checkForRole lookup c n) (\<lambda>(r, c') s'. s' = s \<and> rolesOk (roleOf s) c0 c' \<and>
    (\<forall>res. r = Inr res \<longrightarrow> res = forRoleDecision c0 n (roleOf s n))) s"
proof -
  have same: "forRoleDecision c = forRoleDecision c0" by (rule forRoleDecision_same) (use assms in \<open>simp add: rolesOk_def\<close>)
  show ?thesis
  proof (cases "map_of (gcForRoles c) n")
    case (Some res)
    with assms same show ?thesis by (simp add: checkForRole_def wp_simps rolesOk_def forRolesSound_def)
  next
    case None
    have dec: "wp (decideForRole lookup c n) (\<lambda>r s'. s' = s \<and> (\<forall>res. r = Inr res \<longrightarrow> res = forRoleDecision c n (roleOf s n))) s"
    proof (cases "IsPublic n \<or> granteeNameProblem n \<noteq> [] \<or> n \<in> set (gcDeleting c)")
      case True
      then show ?thesis by (auto simp: decideForRole_def forRoleDecision_def wp_simps)
    next
      case False
      then show ?thesis
        unfolding decideForRole_def wp_simps
        by (auto simp: wp_simps forRoleDecision_def split: sum.splits option.splits intro!: wp_mono [OF lookup_law])
    qed
    show ?thesis
      unfolding checkForRole_def None option.case wp_bind wp_ret
    proof (rule wp_mono [OF dec], goal_cases)
      case (1 r s')
      then show ?case
        using assms rolesOk_store [OF assms refl, of n] same by (cases r) simp_all
    qed
  qed
qed

lemma forRoleErr_None: "forRoleErr f = None \<longleftrightarrow> ffRefused f = [] \<and> ffMissing f = [] \<and> ffPaused f = []"
  by (auto simp: forRoleErr_def joinErrs_None_iff)

lemma noteForRole_err:
  assumes "noteForRole field g res (f, out) = (f1, out1)"
  shows "forRoleErr f1 = None \<Longrightarrow> forRoleErr f = None \<and> out1 = out @ [g]"
  using assms by (auto simp: noteForRole_def forRoleErr_None split: granteeVerdict.splits)

lemma forRoleErr_checker [simp]: "forRoleErr (f\<lparr>ffChecker := c\<rparr>) = forRoleErr f"
  by (simp add: forRoleErr_def)

lemma filterErr_checker [simp]: "filterErr (h\<lparr>gfChecker := c\<rparr>) = filterErr h"
  by (simp add: filterErr_def)

lemma filterForRoles_post:
  assumes "rolesOk (roleOf s) c0 (ffChecker f)"
  shows "wp (filterForRoles lookup field gs (f, out)) (\<lambda>(f', r) s'. s' = s \<and> rolesOk (roleOf s) c0 (ffChecker f') \<and>
    (\<forall>kept. r = Inr kept \<longrightarrow> kept = out @ filter (\<lambda>g. permittedForRole c0 (roleOf s) (tForRole (Target g))) gs \<and>
      (forRoleErr f' = None \<longrightarrow> forRoleErr f = None \<and> kept = out @ gs))) s"
  using assms
proof (induction gs arbitrary: f out)
  case Nil
  then show ?case by (simp add: wp_simps)
next
  case (Cons g gs)
  show ?case
    unfolding filterForRoles.simps wp_bind wp_case_prod
  proof (rule wp_mono [OF checkForRole_post [OF Cons.prems, of "tForRole (Target g)"]], goal_cases)
    case (1 a s1)
    obtain r c where a: "a = (r, c)" by (cases a)
    with 1 have c: "s1 = s" "rolesOk (roleOf s) c0 c" and
      r: "\<And>res. r = Inr res \<Longrightarrow> res = forRoleDecision c0 (tForRole (Target g)) (roleOf s (tForRole (Target g)))" by auto
    show ?case
    proof (cases r)
      case (Inl e)
      with c show ?thesis by (simp add: a wp_ret)
    next
      case (Inr res)
      obtain f1 out1 where n: "noteForRole field g res (f\<lparr>ffChecker := c\<rparr>, out) = (f1, out1)"
        by (cases "noteForRole field g res (f\<lparr>ffChecker := c\<rparr>, out)")
      then have f1: "ffChecker f1 = c" "out1 = (if verdict res = granteeAllowed then out @ [g] else out)"
        by (auto simp: noteForRole_def split: granteeVerdict.splits)
      have c1: "rolesOk (roleOf s) c0 (ffChecker f1)" using c f1 by simp
      have p: "verdict res = granteeAllowed \<longleftrightarrow> permittedForRole c0 (roleOf s) (tForRole (Target g))"
        using r [OF Inr] by (simp add: permittedForRole_iff)
      show ?thesis
        unfolding a prod.case Inr sum.case n c(1)
      proof (rule wp_mono [OF Cons.IH [OF c1]], goal_cases)
        case (1 fr s2)
        have "out1 @ filter (\<lambda>g. permittedForRole c0 (roleOf s) (tForRole (Target g))) gs =
            out @ filter (\<lambda>g. permittedForRole c0 (roleOf s) (tForRole (Target g))) (g # gs)"
          by (simp add: f1(2) p)
        moreover have "forRoleErr f1 = None \<Longrightarrow> forRoleErr f = None \<and> out1 @ gs = out @ g # gs"
          using noteForRole_err [OF n] by simp
        ultimately show ?case using 1 unfolding case_prod_beta by metis
      qed
    qed
  qed
qed

lemma check_forRoles: "wp (check lookup c g) (\<lambda>(r, c') s'. gcForRoles c' = gcForRoles c) s"
proof (cases "map_of (gcCache c) g")
  case None
  show ?thesis
    unfolding check_def None option.case wp_bind wp_ret by (rule wp_const) (simp split: sum.split)
qed (simp add: check_def wp_ret)

lemma filterGrants_forRoles:
  "wp (filterGrants lookup field gs (f, out)) (\<lambda>(f', r) s'. gcForRoles (gfChecker f') = gcForRoles (gfChecker f)) s"
proof (induction gs arbitrary: f out s)
  case Nil
  then show ?case by (simp add: wp_ret)
next
  case (Cons g gs)
  show ?case
    unfolding filterGrants.simps wp_bind wp_case_prod
  proof (rule wp_mono [OF check_forRoles], goal_cases)
    case (1 a s1)
    obtain r c where a: "a = (r, c)" by (cases a)
    with 1 have c: "gcForRoles c = gcForRoles (gfChecker f)" by simp
    show ?case
    proof (cases r)
      case (Inl e)
      with c show ?thesis by (simp add: a wp_ret)
    next
      case (Inr res)
      obtain f1 out1 where n: "noteVerdict field g res (f\<lparr>gfChecker := c\<rparr>, out) = (f1, out1)"
        by (cases "noteVerdict field g res (f\<lparr>gfChecker := c\<rparr>, out)")
      then have "gfChecker f1 = c" by (auto simp: noteVerdict_def split: granteeVerdict.splits)
      with c show ?thesis
        unfolding a prod.case Inr sum.case n by (intro wp_mono [OF Cons.IH]) auto
    qed
  qed
qed

lemma filterDefaults_post:
  assumes "rolesOk (roleOf s) c0 (ffChecker f)"
  shows "wp (filterDefaults lookup flds (f, h) desired) (\<lambda>(fh, r) s'. s' = s \<and>
    (\<forall>kept. r = Inr kept \<longrightarrow> kept = desired @ filter (\<lambda>g. permittedForRole c0 (roleOf s) (tForRole (Target g)) \<and>
      permittedGrantee c0 (roleOf s) (tGrantee (Target g))) (concat (map snd flds)) \<and>
      (forRoleErr (fst fh) = None \<longrightarrow> filterErr (snd fh) = None \<longrightarrow>
        forRoleErr f = None \<and> filterErr h = None \<and> kept = desired @ concat (map snd flds)))) s"
  using assms
proof (induction flds arbitrary: f h desired)
  case Nil
  then show ?case by (simp add: wp_ret)
next
  case (Cons fl flds)
  obtain field gs where fl: "fl = (field, gs)" by (cases fl)
  show ?case
    unfolding fl filterDefaults.simps wp_bind wp_case_prod
  proof (rule wp_mono [OF filterForRoles_post [OF Cons.prems, of field gs "[]"]], goal_cases)
    case (1 a s1)
    obtain f1 r where a: "a = (f1, r)" by (cases a)
    with 1 have f1: "s1 = s" "rolesOk (roleOf s) c0 (ffChecker f1)" and
      r: "\<And>kept. r = Inr kept \<Longrightarrow> kept = filter (\<lambda>g. permittedForRole c0 (roleOf s) (tForRole (Target g))) gs \<and>
        (forRoleErr f1 = None \<longrightarrow> forRoleErr f = None \<and> kept = gs)" by auto
    show ?case
    proof (cases r)
      case (Inl e)
      with f1 show ?thesis by (simp add: a wp_ret)
    next
      case (Inr allowed)
      let ?h = "h\<lparr>gfChecker := ffChecker f1\<rparr>"
      have c: "cacheSound (roleOf s) (gfChecker ?h)" using f1(2) by (simp add: rolesOk_def)
      have "samePolicy c0 (ffChecker f1)" using f1(2) by (simp add: rolesOk_def)
      from granteeDecision_same [OF this] have dec: "granteeDecision (ffChecker f1) = granteeDecision c0" .
      show ?thesis
        unfolding a prod.case Inr sum.case f1(1) filterFor_def wp_bind wp_case_prod
      proof (rule wp_mono [OF wp_both [OF filterGrants_post [OF c, of field allowed "[]"] filterGrants_forRoles]], goal_cases)
        case (1 b s2)
        obtain h1 r1 where b: "b = (h1, r1)" by (cases b)
        with 1 have h1: "s2 = s" "samePolicy (ffChecker f1) (gfChecker h1)" "cacheSound (roleOf s) (gfChecker h1)"
          "gcForRoles (gfChecker h1) = gcForRoles (ffChecker f1)" and
          r1: "\<And>kept. r1 = Inr kept \<Longrightarrow> kept = filter (\<lambda>g. permittedGrantee c0 (roleOf s) (tGrantee (Target g))) allowed \<and>
            (filterErr h1 = None \<longrightarrow> filterErr h = None \<and> kept = allowed)"
          by (auto simp: permittedGrantee_def dec)
        show ?case
        proof (cases r1)
          case (Inl e)
          with h1 show ?thesis by (simp add: b wp_ret)
        next
          case (Inr allowed1)
          have f2: "rolesOk (roleOf s) c0 (ffChecker (f1\<lparr>ffChecker := gfChecker h1\<rparr>))"
            using rolesOk_cache [OF f1(2) h1(2-4)] by simp
          have al: "allowed1 = filter (\<lambda>g. permittedForRole c0 (roleOf s) (tForRole (Target g)) \<and>
              permittedGrantee c0 (roleOf s) (tGrantee (Target g))) gs"
            using r1 [OF Inr] r [OF \<open>r = Inr allowed\<close>] by (simp add: conj_commute)
          show ?thesis
            unfolding b prod.case Inr sum.case h1(1)
          proof (rule wp_mono [OF Cons.IH [OF f2]], goal_cases)
            case (1 fr s3)
            have "forRoleErr f1 = None \<Longrightarrow> filterErr h1 = None \<Longrightarrow> forRoleErr f = None \<and> filterErr h = None \<and> allowed1 = gs"
              using r [OF \<open>r = Inr allowed\<close>, THEN conjunct2] r1 [OF Inr, THEN conjunct2] by metis
            then have all: "forRoleErr f1 = None \<Longrightarrow> filterErr h1 = None \<Longrightarrow>
                forRoleErr f = None \<and> filterErr h = None \<and> (desired @ allowed1) @ concat (map snd flds) = desired @ concat (map snd ((field, gs) # flds))"
              by simp
            obtain fh r2 where fr: "fr = (fh, r2)" by (cases fr)
            from 1 have s3: "s3 = s" and K: "\<And>kept. r2 = Inr kept \<Longrightarrow> kept = (desired @ allowed1) @ filter (\<lambda>g.
                permittedForRole c0 (roleOf s) (tForRole (Target g)) \<and> permittedGrantee c0 (roleOf s) (tGrantee (Target g))) (concat (map snd flds))"
              and M: "\<And>kept. r2 = Inr kept \<Longrightarrow> forRoleErr (fst fh) = None \<Longrightarrow> filterErr (snd fh) = None \<Longrightarrow>
                forRoleErr f1 = None \<and> filterErr h1 = None \<and> kept = (desired @ allowed1) @ concat (map snd flds)"
              by (simp_all add: fr)
            have eq: "(desired @ allowed1) @ filter (\<lambda>g.
                permittedForRole c0 (roleOf s) (tForRole (Target g)) \<and> permittedGrantee c0 (roleOf s) (tGrantee (Target g))) (concat (map snd flds)) =
              desired @ filter (\<lambda>g. permittedForRole c0 (roleOf s) (tForRole (Target g)) \<and> permittedGrantee c0 (roleOf s) (tGrantee (Target g)))
                (concat (map snd ((field, gs) # flds)))"
              by (simp add: al)
            show ?case
              unfolding fr prod.case
            proof (intro conjI allI impI, goal_cases)
              case 1
              show ?case by (rule s3)
            next
              case (2 kept)
              show ?case by (rule trans [OF K [OF 2] eq])
            next
              case (3 kept)
              with M have m: "forRoleErr f1 = None" "filterErr h1 = None" by blast+
              from all [OF this] show ?case by simp
            next
              case (4 kept)
              with M have "forRoleErr f1 = None" "filterErr h1 = None" by blast+
              from all [OF this] show ?case by simp
            next
              case (5 kept)
              note m = M [OF 5]
              with all show ?case by (simp del: concat.simps list.map append_assoc)
            qed
          qed
        qed
      qed
    qed
  qed
qed

end

section \<open>Declared default privileges\<close>

definition declaredDefault :: "SchemaSpec list \<Rightarrow> string list \<Rightarrow> DefaultPrivilegesTarget \<Rightarrow> string \<Rightarrow> string \<Rightarrow> bool \<Rightarrow> bool" where
  "declaredDefault schemas managed t grantee p w \<longleftrightarrow>
     (\<exists>s \<in> set schemas. \<exists>d \<in> set (ssDefaultPrivileges s). \<exists>ki ps.
        ssName s \<in> set managed \<and> \<not> systemSchemaName (ssName s) \<and> dtSchema t = ssName s \<and> dtForRole t = dpForRole d \<and>
        defaultKindOf (dpKind d) = Some ki \<and> dkPg ki = dtKind t \<and> CanonicalGrantee (dpRole d) = grantee \<and>
        normalizeObjectPrivileges (dkObject ki) (dpPrivileges d) = Inr ps \<and> p \<in> set ps \<and> (w \<longrightarrow> dpWithGrantOption d))"

lemma defaultKindOf_known: "defaultKindOf k = Some ki \<Longrightarrow> ki \<in> set defaultKindInfos"
  unfolding defaultKindOf_def by (metis find_Some_iff nth_mem)

lemma defaultKindOf_engine:
  assumes "ki \<in> set defaultKindInfos"
  shows "defaultKindOf (engineKind ki) = Some ki" "CHR ''|'' \<notin> set (engineKind ki)"
proof -
  have "\<forall>ki \<in> set defaultKindInfos. defaultKindOf (engineKind ki) = Some ki \<and> CHR ''|'' \<notin> set (engineKind ki)" by code_simp
  with assms show "defaultKindOf (engineKind ki) = Some ki" "CHR ''|'' \<notin> set (engineKind ki)" by simp_all
qed

text \<open>A desired grant of default privileges and the PostgreSQL default privileges it names.\<close>

definition desiredDefaultOk :: "SchemaSpec list \<Rightarrow> string list \<Rightarrow> privilegeGrant \<Rightarrow> bool" where
  "desiredDefaultOk schemas managed g \<longleftrightarrow> CHR ''|'' \<notin> set (tKind (Target g)) \<and>
     (\<exists>t. defaultPGTarget (Target g) = Inr t \<and> dtForRole t = tForRole (Target g) \<and>
        (\<forall>p \<in> set (Privileges g). declaredDefault schemas managed t (tGrantee (Target g)) p False) \<and>
        (\<forall>p \<in> set (GrantOptions g). declaredDefault schemas managed t (tGrantee (Target g)) p True))"

lemma desiredDefault_declared:
  assumes "s \<in> set schemas" "d \<in> set (ssDefaultPrivileges s)" "ssName s \<in> set managed" "\<not> systemSchemaName (ssName s)"
    and ki: "defaultKindOf (dpKind d) = Some ki" and "normalizeObjectPrivileges (dkObject ki) (dpPrivileges d) = Inr ps"
    and "set left \<subseteq> set ps"
  shows "desiredDefaultOk schemas managed (desiredGrant (defaultTarget ki (ssName s) (dpForRole d) (dpRole d)) left (dpWithGrantOption d))"
proof -
  let ?t = "\<lparr>dtForRole = dpForRole d, dtSchema = ssName s, dtKind = dkPg ki\<rparr>"
  have e: "defaultKindOf (engineKind ki) = Some ki" "CHR ''|'' \<notin> set (engineKind ki)"
    using defaultKindOf_engine [OF defaultKindOf_known [OF ki]] by simp_all
  have "declaredDefault schemas managed ?t (CanonicalGrantee (dpRole d)) p w" if "p \<in> set left" "w \<longrightarrow> dpWithGrantOption d" for p w
    unfolding declaredDefault_def using assms that by (intro bexI [of _ s] bexI [of _ d] exI [of _ ki] exI [of _ ps]) auto
  with e show ?thesis
    by (simp add: desiredDefaultOk_def desiredGrant_def defaultTarget_def defaultPGTarget_def)
qed

lemma schemaDefaultsLoop_ok:
  assumes "schemaDefaultsLoop v field (ssName s) ds (seen, out, uns) = Inr (seen', out', uns')"
    and "s \<in> set schemas" "set ds \<subseteq> set (ssDefaultPrivileges s)" "ssName s \<in> set managed" "\<not> systemSchemaName (ssName s)"
    and "\<forall>g \<in> set out. desiredDefaultOk schemas managed g" "distinct (map grantKey out)"
    and "grantKey ` set out \<subseteq> set seen" "grantKey ` set out \<inter> old = {}" "old \<subseteq> set seen"
  shows "(\<forall>g \<in> set out'. desiredDefaultOk schemas managed g) \<and> distinct (map grantKey out') \<and>
    grantKey ` set out' \<subseteq> set seen' \<and> grantKey ` set out' \<inter> old = {} \<and> old \<subseteq> set seen'"
  using assms(1,3,6-10)
proof (induction ds arbitrary: seen out uns)
  case Nil
  then show ?case by simp
next
  case (Cons d ds)
  then obtain ki where ki: "defaultKindOf (dpKind d) = Some ki" by (cases "defaultKindOf (dpKind d)") auto
  with Cons.prems(1) obtain ps where ps: "normalizeObjectPrivileges (dkObject ki) (dpPrivileges d) = Inr ps"
    by (cases "normalizeObjectPrivileges (dkObject ki) (dpPrivileges d)") auto
  define t where "t = defaultTarget ki (ssName s) (dpForRole d) (dpRole d)"
  obtain left dropped where dm: "dropMaintain ps v = (left, dropped)" by (cases "dropMaintain ps v")
  define out1 where "out1 = (if left \<noteq> [] then out @ [desiredGrant t left (dpWithGrantOption d)] else out)"
  from Cons.prems(1) ki ps have fresh: "targetKey t \<notin> set seen"
    by (auto simp: Let_def t_def split: if_splits)
  from Cons.prems(1) ki ps dm fresh obtain uns1 where
    rest: "schemaDefaultsLoop v field (ssName s) ds (seen @ [targetKey t], out1, uns1) = Inr (seen', out', uns')"
    by (auto simp: Let_def t_def out1_def split: if_splits)
  have new: "desiredDefaultOk schemas managed (desiredGrant t left (dpWithGrantOption d))"
    unfolding t_def
    by (rule desiredDefault_declared [OF assms(2) _ assms(4,5) ki ps dropMaintain_subset [OF dm]]) (use Cons.prems(2) in simp)
  have key: "grantKey (desiredGrant t left (dpWithGrantOption d)) = targetKey t" by (simp add: grantKey_def desiredGrant_def)
  show ?case
  proof (rule Cons.IH [OF rest])
    show "set ds \<subseteq> set (ssDefaultPrivileges s)" using Cons.prems(2) by simp
    show "\<forall>g \<in> set out1. desiredDefaultOk schemas managed g" using Cons.prems(3) new by (simp add: out1_def)
    show "distinct (map grantKey out1)" using Cons.prems(4,5) fresh key by (auto simp: out1_def)
    show "grantKey ` set out1 \<subseteq> set (seen @ [targetKey t])" using Cons.prems(5) key by (auto simp: out1_def)
    show "grantKey ` set out1 \<inter> old = {}" using Cons.prems(6,7) fresh key by (auto simp: out1_def)
    show "old \<subseteq> set (seen @ [targetKey t])" using Cons.prems(7) by auto
  qed
qed

lemma defaultFieldsLoop_ok:
  assumes "defaultFieldsLoop v managed ss seen grants uns = Inr (grants', uns')" and "set ss \<subseteq> set schemas"
    and "\<forall>g \<in> set (concat (map snd grants)). desiredDefaultOk schemas managed g" "distinct (map grantKey (concat (map snd grants)))"
    and "grantKey ` set (concat (map snd grants)) \<subseteq> set seen"
  shows "(\<forall>g \<in> set (concat (map snd grants')). desiredDefaultOk schemas managed g) \<and> distinct (map grantKey (concat (map snd grants')))"
  using assms
proof (induction ss arbitrary: seen grants uns)
  case Nil
  then show ?case by simp
next
  case (Cons s ss)
  let ?field = "sprintf ''schemas[%s].defaultPrivileges'' [ssName s]"
  have ss: "set ss \<subseteq> set schemas" "s \<in> set schemas" using Cons.prems(2) by simp_all
  show ?case
  proof (cases "ssName s \<notin> set managed \<or> systemSchemaName (ssName s) \<or> ssDefaultPrivileges s = []")
    case True
    with Cons.prems(1) have "defaultFieldsLoop v managed ss seen grants uns = Inr (grants', uns')" by (simp add: Let_def)
    from Cons.IH [OF this ss(1) Cons.prems(3-5)] show ?thesis .
  next
    case False
    then have n: "ssName s \<in> set managed" "\<not> systemSchemaName (ssName s)" by simp_all
    from False Cons.prems(1) have "map_of grants ?field = None" by (auto simp: Let_def split: if_splits)
    with False Cons.prems(1) obtain seen1 list uns1 where
      l: "schemaDefaultsLoop v ?field (ssName s) (ssDefaultPrivileges s) (seen, [], uns) = Inr (seen1, list, uns1)"
      and rest: "defaultFieldsLoop v managed ss seen1 (grants @ [(?field, list)]) uns1 = Inr (grants', uns')"
      by (auto simp: Let_def split: sum.splits)
    from schemaDefaultsLoop_ok [OF l ss(2) subset_refl n, of "set seen"]
    have lst: "\<forall>g \<in> set list. desiredDefaultOk schemas managed g" "distinct (map grantKey list)"
      "grantKey ` set list \<subseteq> set seen1" "grantKey ` set list \<inter> set seen = {}" "set seen \<subseteq> set seen1" by simp_all
    show ?thesis
    proof (rule Cons.IH [OF rest ss(1)])
      show "\<forall>g \<in> set (concat (map snd (grants @ [(?field, list)]))). desiredDefaultOk schemas managed g"
        using Cons.prems(3) lst(1) by auto
      have "grantKey ` set (concat (map snd grants)) \<inter> grantKey ` set list = {}" using Cons.prems(5) lst(4) by blast
      with Cons.prems(4) lst(2) show "distinct (map grantKey (concat (map snd (grants @ [(?field, list)]))))"
        by (simp add: image_image del: set_concat)
      show "grantKey ` set (concat (map snd (grants @ [(?field, list)]))) \<subseteq> set seen1"
        using Cons.prems(5) lst(3,5) by auto
    qed
  qed
qed

section \<open>Statements\<close>

definition defaultGrantStatement :: "(DefaultPrivilegesTarget \<Rightarrow> string \<Rightarrow> string \<Rightarrow> bool \<Rightarrow> bool) \<Rightarrow> string \<Rightarrow> bool" where
  "defaultGrantStatement declared q \<longleftrightarrow> (\<exists>t grantee ps w. buildDefaultPrivilegesQuery True t grantee ps w plainMode = Inr q \<and>
     (\<forall>p \<in> set ps. declared t grantee p w))"

definition defaultRevokeStatement :: "privilegeGrant list \<Rightarrow> string \<Rightarrow> bool" where
  "defaultRevokeStatement ledger q \<longleftrightarrow> (\<exists>t grantee ps mode. buildDefaultPrivilegesQuery False t grantee ps False mode = Inr q \<and>
     (\<forall>p \<in> set ps. \<exists>m \<in> set ledger. defaultPGTarget (Target m) = Inr t \<and> tGrantee (Target m) = grantee \<and>
        p \<in> set (Privileges m) \<union> set (GrantOptions m)))"

definition mayGrantDefault :: "(naming \<times> string \<Rightarrow> bool) \<Rightarrow> grantTarget \<Rightarrow> string list \<Rightarrow> bool \<Rightarrow> bool" where
  "mayGrantDefault A t ps w \<longleftrightarrow> (\<forall>nm d q. defaultPGTarget t = Inr d \<longrightarrow>
     buildDefaultPrivilegesQuery True d (tGrantee t) ps w plainMode = Inr q \<longrightarrow> A (nm, q))"

definition mayRevokeDefault :: "(naming \<times> string \<Rightarrow> bool) \<Rightarrow> grantTarget \<Rightarrow> string list \<Rightarrow> bool" where
  "mayRevokeDefault A t ps \<longleftrightarrow> (\<forall>nm d q mode. defaultPGTarget t = Inr d \<longrightarrow>
     buildDefaultPrivilegesQuery False d (tGrantee t) ps False mode = Inr q \<longrightarrow> A (nm, q))"

lemma defaultLedger_plain:
  assumes "m \<in> set (defaultLedger ms)"
  shows "CHR ''|'' \<notin> set (tKind (Target m))"
proof -
  from assms obtain x :: ManagedDefaultPrivilege where "(case defaultKindOf (mdpKind x) of None \<Rightarrow> None | Some ki \<Rightarrow>
      if \<not> validLedgerSchema (mdpSchema x) \<or> mdpForRole x = [] then None
      else Some \<lparr>Target = defaultTarget ki (mdpSchema x) (mdpForRole x) (mdpRole x),
        Privileges = mdpPrivileges x, GrantOptions = mdpGrantOptions x\<rparr>) = Some m"
    unfolding defaultLedger_def set_map_filter by blast
  then obtain ki where "defaultKindOf (mdpKind x) = Some ki" "tKind (Target m) = engineKind ki"
    by (cases "defaultKindOf (mdpKind x)") (auto simp: defaultTarget_def split: if_splits)
  with defaultKindOf_engine(2) [OF defaultKindOf_known] show ?thesis by simp
qed

context object_server
begin

lemma defaultOps_guarded:
  "guarded_ops (defaultPrivilegeOps db) (sentOnly issued A s0) (mayGrantDefault A) (mayRevokeDefault A)"
proof unfold_locales
  fix s t assume sent: "sentOnly issued A s0 s"
  have h: "wp (HeldDefaultPrivileges db d g) (\<lambda>_ s'. s' = s) s" for d g
    by (auto simp: HeldDefaultPrivileges_def queryRows_def wp_simps split: option.splits prod.splits intro: wp_mono [OF reads])
  have "wp (HeldDefaultPrivileges db d g) (\<lambda>_. sentOnly issued A s0) s" for d g
    by (rule wp_mono [OF h]) (simp add: sent)
  then show "wp (held (defaultPrivilegeOps db) t) (\<lambda>_. sentOnly issued A s0) s"
    by (simp add: defaultPrivilegeOps_def wp_simps sent split: sum.splits)
next
  fix s t ps w assume "mayGrantDefault A t ps w" "sentOnly issued A s0 s"
  then show "wp (grant (defaultPrivilegeOps db) t ps w) (\<lambda>_. sentOnly issued A s0) s"
    by (auto simp: defaultPrivilegeOps_def mayGrantDefault_def GrantDefaultPrivileges_def wp_simps split: sum.splits intro: execWrap_sent)
next
  fix s t ps mode assume "mayRevokeDefault A t ps" "sentOnly issued A s0 s"
  then show "wp (revoke (defaultPrivilegeOps db) t ps mode) (\<lambda>_. sentOnly issued A s0) s"
    by (auto simp: defaultPrivilegeOps_def mayRevokeDefault_def RevokeDefaultPrivileges_def wp_simps split: sum.splits
        intro!: execWrap_sent)
next
  fix isGone s t assume "gone (defaultPrivilegeOps db) = Some isGone" and sent: "sentOnly issued A s0 s"
  then have g: "isGone = defaultGone db" by (simp add: defaultPrivilegeOps_def)
  have reads1: "wp (SchemaExists db n) (\<lambda>_ s'. s' = s) s" "wp (RoleExists db n) (\<lambda>_ s'. s' = s) s" for n
    by (auto simp: SchemaExists_def RoleExists_def intro: readBool_keeps)
  show "wp (isGone t) (\<lambda>_. sentOnly issued A s0) s"
    unfolding g defaultGone_def wp_bind
  proof (rule wp_mono [OF reads1(1)], goal_cases)
    case (1 r s1)
    have "wp (RoleExists db (tForRole t)) (\<lambda>r. wp (case r of Inl e \<Rightarrow> ret (Inl e) | Inr False \<Rightarrow> ret (Inr True) | Inr True \<Rightarrow> roleGone db t)
        (\<lambda>_. sentOnly issued A s0)) s"
      by (rule wp_mono [OF reads1(2)])
        (auto simp: wp_simps sent split: sum.splits bool.splits intro: wp_mono [OF roleGone_keeps])
    with 1 sent show ?case by (auto simp: wp_simps split: sum.splits bool.splits)
  qed
qed

lemma reconcileDefaultPrivileges_sent:
  assumes c: "cacheSound (roleOf s) c" "forRolesSound (roleOf s) c"
    and save: "\<And>d s. wp (runSaver save d) (\<lambda>_ s'. issued s' = issued s) s"
    and A: "A = (\<lambda>x. defaultGrantStatement (\<lambda>t g q w. declaredDefault (dsSchemas (dbSpec database)) managed t g q w \<and>
        permittedForRole c (roleOf s) (dtForRole t) \<and> permittedGrantee c (roleOf s) g) (snd x) \<or>
      defaultRevokeStatement (defaultLedger (dtManagedDefaultPrivileges (dbStatus database))) (snd x))"
  shows "wp (reconcileDefaultPrivileges db (LookupRole db) database managed v c save) (\<lambda>_. sentOnly issued A s) s"
proof (cases "desiredDefaultPrivileges (dsSchemas (dbSpec database)) managed v")
  case (Inl e)
  then show ?thesis by (simp add: reconcileDefaultPrivileges_def wp_simps sentOnly_refl)
next
  case (Inr fu)
  obtain flds uns where fu: "fu = (flds, uns)" by (cases fu)
  let ?schemas = "dsSchemas (dbSpec database)"
  define L where "L = defaultLedger (dtManagedDefaultPrivileges (dbStatus database))"
  from defaultFieldsLoop_ok [of v managed ?schemas "[]" "[]" "[]" flds uns ?schemas] Inr fu
  have all: "\<forall>g \<in> set (concat (map snd flds)). desiredDefaultOk ?schemas managed g" "distinct (map grantKey (concat (map snd flds)))"
    by (simp_all add: desiredDefaultPrivileges_def)
  have run: "wp (applyPrivilegeGrants desired L (defaultPrivilegeOps db) defaultPrivilegeLedgerLimit
      (Some (\<lambda>ledger. runSaver save (F ledger)))) (\<lambda>_. sentOnly issued A s) s"
    if desired: "desired = filter (\<lambda>g. permittedForRole c (roleOf s) (tForRole (Target g)) \<and>
      permittedGrantee c (roleOf s) (tGrantee (Target g))) (concat (map snd flds))" for desired F
  proof (rule guarded_ops.apply_keeps [OF defaultOps_guarded])
    show "distinct (map grantKey desired)" unfolding desired by (rule distinct_map_filter [OF all(2)])
  next
    fix d ps w assume d: "d \<in> set desired" and ps: "set ps \<subseteq> set (if w then GrantOptions d else Privileges d)"
    from d all(1) have ok: "desiredDefaultOk ?schemas managed d" and perm: "permittedForRole c (roleOf s) (tForRole (Target d))"
      "permittedGrantee c (roleOf s) (tGrantee (Target d))" by (auto simp: desired)
    then obtain t where t: "defaultPGTarget (Target d) = Inr t" "dtForRole t = tForRole (Target d)"
      "\<forall>p \<in> set (Privileges d). declaredDefault ?schemas managed t (tGrantee (Target d)) p False"
      "\<forall>p \<in> set (GrantOptions d). declaredDefault ?schemas managed t (tGrantee (Target d)) p True"
      unfolding desiredDefaultOk_def by blast
    with ps perm have "\<forall>p \<in> set ps. declaredDefault ?schemas managed t (tGrantee (Target d)) p w \<and>
        permittedForRole c (roleOf s) (dtForRole t) \<and> permittedGrantee c (roleOf s) (tGrantee (Target d))"
      by (cases w) auto
    with t(1) show "mayGrantDefault A (Target d) ps w"
      unfolding mayGrantDefault_def A defaultGrantStatement_def snd_conv by fastforce
  next
    fix t ps assume t: "t \<in> Target ` (set desired \<union> set L)" and ps: "set ps \<subseteq> recPrivs L (targetKey t) \<union> recOpts L (targetKey t)"
    have plain: "CHR ''|'' \<notin> set (tKind t)"
      using t all(1) defaultLedger_plain by (auto simp: desired L_def desiredDefaultOk_def)
    have m: "\<exists>m \<in> set L. defaultPGTarget (Target m) = Inr d \<and> tGrantee (Target m) = tGrantee t \<and> q \<in> set (Privileges m) \<union> set (GrantOptions m)"
      if d: "defaultPGTarget t = Inr d" and q: "q \<in> set ps" for d q
    proof -
      from q ps obtain m where m: "m \<in> set L" "targetKey (Target m) = targetKey t" "q \<in> set (Privileges m) \<union> set (GrantOptions m)"
        by (auto simp: recPrivs_def recOpts_def grantKey_def)
      then have mp: "m \<in> set (defaultLedger (dtManagedDefaultPrivileges (dbStatus database)))" by (simp add: L_def)
      from targetKey_inject [OF defaultLedger_plain [OF mp] plain] m(2)
      have k: "tKind (Target m) = tKind t" "tGrantee (Target m) = tGrantee t" "tForRole (Target m) = tForRole t"
        "tOID (Target m) = tOID t" "tOID t = 0 \<longrightarrow> tName (Target m) = tName t" by simp_all
      have "tOID (Target m) = 0"
      proof -
        from mp obtain x :: ManagedDefaultPrivilege where "(case defaultKindOf (mdpKind x) of None \<Rightarrow> None | Some ki \<Rightarrow>
            if \<not> validLedgerSchema (mdpSchema x) \<or> mdpForRole x = [] then None
            else Some \<lparr>Target = defaultTarget ki (mdpSchema x) (mdpForRole x) (mdpRole x),
              Privileges = mdpPrivileges x, GrantOptions = mdpGrantOptions x\<rparr>) = Some m"
          unfolding defaultLedger_def set_map_filter by blast
        then show ?thesis by (cases "defaultKindOf (mdpKind x)") (auto simp: defaultTarget_def split: if_splits)
      qed
      with k d have "defaultPGTarget (Target m) = Inr d"
        by (cases "defaultKindOf (tKind t)") (simp_all add: defaultPGTarget_def)
      with m k show ?thesis by blast
    qed
    show "mayRevokeDefault A t ps"
      unfolding mayRevokeDefault_def
    proof (intro allI impI)
      fix nm d q mode assume d: "defaultPGTarget t = Inr d" and "buildDefaultPrivilegesQuery False d (tGrantee t) ps False mode = Inr q"
      with m [OF d] have "defaultRevokeStatement L q" unfolding defaultRevokeStatement_def by blast
      then show "A (nm, q)" unfolding A L_def by simp
    qed
  next
    fix writeLedger :: "privilegeGrant list \<Rightarrow> ('s, error option) state" and ledger s1
    assume r: "Some (\<lambda>ledger. runSaver save (F ledger)) = Some writeLedger" and s1: "sentOnly issued A s s1"
    then have "writeLedger ledger = runSaver save (F ledger)" by auto
    then show "wp (writeLedger ledger) (\<lambda>_. sentOnly issued A s) s1"
      using wp_mono [OF save] sentOnly_same [OF s1] by metis
  qed (rule sentOnly_refl)
  show ?thesis
  proof (cases "flds = [] \<and> L = []")
    case True
    then show ?thesis
      unfolding reconcileDefaultPrivileges_def Inr fu sum.case prod.case Let_def L_def [symmetric] by (simp add: wp_simps sentOnly_refl)
  next
    case False
    have ok: "rolesOk (roleOf s) c (ffChecker \<lparr>ffChecker = c, ffRefused = [], ffMissing = [], ffPaused = []\<rparr>)"
      using c by (simp add: rolesOk_def samePolicy_def)
    show ?thesis
      unfolding reconcileDefaultPrivileges_def Inr fu sum.case prod.case Let_def L_def [symmetric] if_not_P [OF False] wp_bind wp_case_prod
    proof (rule wp_mono [OF grantees.filterDefaults_post [OF ok, of flds "newGrantFilter c" "[]"]], goal_cases)
      case (1 a s1)
      obtain f h r where a: "a = ((f, h), r)" by (cases a) auto
      with 1 have s1: "s1 = s" and r: "\<And>kept. r = Inr kept \<Longrightarrow> kept = filter (\<lambda>g. permittedForRole c (roleOf s) (tForRole (Target g)) \<and>
          permittedGrantee c (roleOf s) (tGrantee (Target g))) (concat (map snd flds))" by auto
      show ?case
      proof (cases r)
        case (Inl e)
        then show ?thesis by (simp add: a s1 wp_simps sentOnly_refl)
      next
        case (Inr desired)
        show ?thesis
          unfolding a prod.case Inr sum.case s1 wp_bind wp_case_prod wp_ret
          by (rule wp_mono [OF run [OF r [OF Inr]]]) (simp add: case_prod_beta)
      qed
    qed
  qed
qed

end

end
