(* ===== verification/Default_Statements.thy ===== *)
theory Default_Statements
  imports Object_Access
begin

text \<open>
  How PostgreSQL reads ALTER DEFAULT PRIVILEGES as \<open>buildDefaultPrivilegesQuery\<close> of
  \<open>internal/postgres/objects.go\<close> writes it: with exactly the role, the schema, the kind of objects,
  the privileges, the grantee and the options it was built from.
\<close>

section \<open>A recogniser\<close>

datatype defaultStmt =
    DefaultGrant DefaultPrivilegesTarget "string list" "string option" bool
  | DefaultRevoke DefaultPrivilegesTarget bool "string list" "string option" bool

definition defaultWords :: "DefaultObjectKind list" where
  "defaultWords = [DefaultTables, DefaultSequences, DefaultFunctions, DefaultTypes]"

definition parseDefaultTarget :: "string \<Rightarrow> token list \<Rightarrow> (string list \<times> DefaultObjectKind \<times> string option \<times> token list) option" where
  "parseDefaultTarget kw ts =
     (case parsePrivs ts of
        Some (ps, Word kind # Word w # ts1) \<Rightarrow>
          if kind \<in> set defaultWords \<and> w = kw then map_option (\<lambda>(g, rest). (ps, kind, g, rest)) (parseGrantee ts1) else None
      | _ \<Rightarrow> None)"

definition parseDefaultAction :: "string \<Rightarrow> string \<Rightarrow> token list \<Rightarrow> defaultStmt option" where
  "parseDefaultAction r sc ts =
     (case ts of
        Word w # ts1 \<Rightarrow>
          if w = ''GRANT''
          then (case parseDefaultTarget ''TO'' ts1 of
                  Some (ps, kind, g, rest) \<Rightarrow>
                    if rest = [] then Some (DefaultGrant \<lparr>dtForRole = r, dtSchema = sc, dtKind = kind\<rparr> ps g False)
                    else if rest = [Word ''WITH'', Word ''GRANT'', Word ''OPTION'']
                    then Some (DefaultGrant \<lparr>dtForRole = r, dtSchema = sc, dtKind = kind\<rparr> ps g True) else None
                | None \<Rightarrow> None)
          else if w = ''REVOKE''
          then (let optionOnly = (take 3 ts1 = [Word ''GRANT'', Word ''OPTION'', Word ''FOR''])
                in case parseDefaultTarget ''FROM'' (if optionOnly then drop 3 ts1 else ts1) of
                     Some (ps, kind, g, rest) \<Rightarrow>
                       if rest = [] then Some (DefaultRevoke \<lparr>dtForRole = r, dtSchema = sc, dtKind = kind\<rparr> optionOnly ps g False)
                       else if rest = [Word ''CASCADE'']
                       then Some (DefaultRevoke \<lparr>dtForRole = r, dtSchema = sc, dtKind = kind\<rparr> optionOnly ps g True) else None
                   | None \<Rightarrow> None)
          else None
      | _ \<Rightarrow> None)"

definition parseDefaultStmt :: "token list \<Rightarrow> defaultStmt option" where
  "parseDefaultStmt ts =
     (case ts of
        Word a # Word b # Word c # Word d # Word e # Ident r # Word f # Word g # Ident sc # rest \<Rightarrow>
          if [a, b, c, d, e, f, g] = [''ALTER'', ''DEFAULT'', ''PRIVILEGES'', ''FOR'', ''ROLE'', ''IN'', ''SCHEMA'']
          then parseDefaultAction r sc rest else None
      | _ \<Rightarrow> None)"

definition parseDefault :: "bool \<Rightarrow> string \<Rightarrow> defaultStmt option" where
  "parseDefault scs q = (case lexSql scs q of None \<Rightarrow> None | Some ts \<Rightarrow> parseDefaultStmt ts)"

section \<open>Reading back\<close>

lemma defaultKeyWords [simp]:
  "keyWord ''DEFAULT''" "keyWord ''PRIVILEGES''" "keyWord ''TABLES''" "keyWord ''SEQUENCES''" "keyWord ''FUNCTIONS''" "keyWord ''TYPES''"
  "keyWord ''SELECT''" "keyWord ''INSERT''" "keyWord ''UPDATE''" "keyWord ''DELETE''" "keyWord ''TRUNCATE''" "keyWord ''REFERENCES''"
  "keyWord ''TRIGGER''" "keyWord ''MAINTAIN''" "keyWord ''EXECUTE''"
  by code_simp+

lemma lexSql_front:
  assumes "r \<noteq> []" "length r \<le> nameDataLen" "sc \<noteq> []" "length sc \<le> nameDataLen"
  shows "lexSql scs (''ALTER DEFAULT PRIVILEGES FOR ROLE '' @ quoteIdent r @ '' IN SCHEMA '' @ quoteIdent sc @ '' '' @ rest) =
    map_option ((@) [Word ''ALTER'', Word ''DEFAULT'', Word ''PRIVILEGES'', Word ''FOR'', Word ''ROLE'', Ident r, Word ''IN'', Word ''SCHEMA'', Ident sc])
      (lexSql scs rest)"
proof -
  have "lexSql scs (''ALTER'' @ CHR '' '' # ''DEFAULT'' @ CHR '' '' # ''PRIVILEGES'' @ CHR '' '' # ''FOR'' @ CHR '' '' # ''ROLE'' @ CHR '' '' #
      quoteIdent r @ CHR '' '' # ''IN'' @ CHR '' '' # ''SCHEMA'' @ CHR '' '' # quoteIdent sc @ CHR '' '' # rest) =
    map_option (\<lambda>ts. Word ''ALTER'' # Word ''DEFAULT'' # Word ''PRIVILEGES'' # Word ''FOR'' # Word ''ROLE'' # Ident r # Word ''IN'' # Word ''SCHEMA'' #
      Ident sc # ts) (lexSql scs rest)"
    using assms
    by (simp only: lexSql_keyword keyWords moreKeyWords defaultKeyWords lexSql_quoted_name option.map_comp comp_def not_False_eq_True)
  then show ?thesis by (simp add: append_Cons [abs_def])
qed

lemma parseDefaultStmt_front:
  "parseDefaultStmt ([Word ''ALTER'', Word ''DEFAULT'', Word ''PRIVILEGES'', Word ''FOR'', Word ''ROLE'', Ident r, Word ''IN'', Word ''SCHEMA'', Ident sc] @ ts) =
    parseDefaultAction r sc ts"
  by (simp add: parseDefaultStmt_def)

text \<open>What the builder accepted.\<close>

lemma defaultObjectKinds_word: "defaultObjectKinds k = Some x \<Longrightarrow> k \<in> set defaultWords \<and> keyWord k"
  by (auto simp: defaultObjectKinds_def defaultWords_def split: if_splits)

lemma objectPrivileges_words:
  assumes "defaultObjectKinds k = Some (t, object)"
  shows "\<forall>p \<in> set (case SchemaObjectPrivileges object of None \<Rightarrow> [] | Some ps \<Rightarrow> ps). keyWord p"
  using assms by (auto simp: defaultObjectKinds_def SchemaObjectPrivileges_def split: if_splits)

lemma buildDefaultPrivilegesQuery_ok:
  assumes "buildDefaultPrivilegesQuery granting t g ps w mode = Inr q"
  obtains privs who where "set privs = canonicalKeyword ` set ps" "privs \<noteq> []" "\<forall>p \<in> set privs. keyWord p" "renderGrantee g = Inr who"
    "dtKind t \<in> set defaultWords" "keyWord (dtKind t)" "dtForRole t \<noteq> []" "dtSchema t \<noteq> []"
    "q = ''ALTER DEFAULT PRIVILEGES FOR ROLE '' @ quoteIdent (dtForRole t) @ '' IN SCHEMA '' @ quoteIdent (dtSchema t) @ '' '' @
      (if granting then buildGrantQuery privs (dtKind t) who w else buildRevokeQuery privs (dtKind t) who mode)"
proof -
  from assms obtain objtype object where k: "defaultObjectKinds (dtKind t) = Some (objtype, object)"
    by (cases "defaultObjectKinds (dtKind t)") (auto simp: buildDefaultPrivilegesQuery_def)
  let ?allowed = "case SchemaObjectPrivileges object of None \<Rightarrow> [] | Some ps \<Rightarrow> ps"
  from assms k obtain privs where c: "checkPrivileges (toLower object) ps ?allowed = Inr privs"
    by (cases "checkPrivileges (toLower object) ps ?allowed") (auto simp: buildDefaultPrivilegesQuery_def)
  from assms k c have n: "dtForRole t \<noteq> []" "dtSchema t \<noteq> []" by (auto simp: buildDefaultPrivilegesQuery_def split: if_splits)
  from assms k c obtain who where who: "renderGrantee g = Inr who"
    by (cases "renderGrantee g") (auto simp: buildDefaultPrivilegesQuery_def split: if_splits)
  have q: "q = ''ALTER DEFAULT PRIVILEGES FOR ROLE '' @ quoteIdent (dtForRole t) @ '' IN SCHEMA '' @ quoteIdent (dtSchema t) @ '' '' @
      (if granting then buildGrantQuery privs (dtKind t) who w else buildRevokeQuery privs (dtKind t) who mode)"
    using assms k c n who by (auto simp: buildDefaultPrivilegesQuery_def Let_def split: if_splits)
  note ok = checkPrivileges_ok [OF c]
  have "\<forall>p \<in> set privs. keyWord p" using ok(2) objectPrivileges_words [OF k] by blast
  then show thesis using that [OF ok(1,3) _ who] defaultObjectKinds_word [OF k] n q by blast
qed

lemma lexSql_defaultTarget:
  assumes "privs \<noteq> []" "\<forall>p \<in> set privs. keyWord p" "renderGrantee g = Inr who" "length g \<le> nameDataLen"
    and "kind \<in> set defaultWords" "keyWord kind" "keyWord kw" "r = [] \<or> hd r = CHR '' ''" "lexSql scs r = Some ts"
  shows "\<exists>tks. lexSql scs (joinStr privs '', '' @ '' ON '' @ kind @ CHR '' '' # kw @ CHR '' '' # who @ r) = Some tks \<and>
    parseDefaultTarget kw tks = Some (privs, kind, granteeOf g, ts)"
proof -
  note gr = renderGrantee_ok [OF assms(3,4,8)]
  have "lexSql scs (who @ r) = Some (granteeToken g # ts)" using gr(1) [of scs] assms(9) by simp
  then have "lexSql scs (kind @ CHR '' '' # kw @ CHR '' '' # who @ r) = Some (Word kind # Word kw # granteeToken g # ts)"
    by (simp add: lexSql_keyword assms(6,7))
  then have "lexSql scs (joinStr privs '', '' @ '' ON '' @ kind @ CHR '' '' # kw @ CHR '' '' # who @ r) =
      Some (privTokens privs @ Word kind # Word kw # granteeToken g # ts)"
    using lexSql_privs [of privs scs "kind @ CHR '' '' # kw @ CHR '' '' # who @ r"] assms(1,2) by simp
  moreover have "parseDefaultTarget kw (privTokens privs @ Word kind # Word kw # granteeToken g # ts) = Some (privs, kind, granteeOf g, ts)"
    using assms(1,5) gr(2) by (simp add: parseDefaultTarget_def parsePrivs_tokens)
  ultimately show ?thesis by blast
qed

lemma defaultGrant_reads:
  assumes q: "buildDefaultPrivilegesQuery True t g ps w mode = Inr q"
    and len: "length (dtForRole t) \<le> nameDataLen" "length (dtSchema t) \<le> nameDataLen" "length g \<le> nameDataLen"
  shows "\<exists>privs. set privs = canonicalKeyword ` set ps \<and> parseDefault scs q = Some (DefaultGrant t privs (granteeOf g) w)"
proof -
  from q obtain privs who where ok: "set privs = canonicalKeyword ` set ps" "privs \<noteq> []" "\<forall>p \<in> set privs. keyWord p" "renderGrantee g = Inr who"
    "dtKind t \<in> set defaultWords" "keyWord (dtKind t)" "dtForRole t \<noteq> []" "dtSchema t \<noteq> []"
    and e: "q = ''ALTER DEFAULT PRIVILEGES FOR ROLE '' @ quoteIdent (dtForRole t) @ '' IN SCHEMA '' @ quoteIdent (dtSchema t) @ '' '' @
      buildGrantQuery privs (dtKind t) who w"
    by (rule buildDefaultPrivilegesQuery_ok) simp
  let ?r = "if w then '' WITH GRANT OPTION'' else []"
  let ?ts = "if w then [Word ''WITH'', Word ''GRANT'', Word ''OPTION''] else []"
  have tail: "?r = [] \<or> hd ?r = CHR '' ''" "lexSql scs ?r = Some ?ts" using lexSql_words [of scs] by simp_all
  obtain tks where "lexSql scs (joinStr privs '', '' @ '' ON '' @ dtKind t @ CHR '' '' # ''TO'' @ CHR '' '' # who @ ?r) = Some tks"
    and p: "parseDefaultTarget ''TO'' tks = Some (privs, dtKind t, granteeOf g, ?ts)"
    using lexSql_defaultTarget [OF ok(2-4) len(3) ok(5,6) keyWords(4) tail] by blast
  then have "lexSql scs (buildGrantQuery privs (dtKind t) who w) = Some (Word ''GRANT'' # tks)"
    using lexSql_keyword [of "''GRANT''" scs "joinStr privs '', '' @ '' ON '' @ dtKind t @ CHR '' '' # ''TO'' @ CHR '' '' # who @ ?r"]
    by (simp add: buildGrantQuery_def)
  then have "parseDefault scs q = parseDefaultAction (dtForRole t) (dtSchema t) (Word ''GRANT'' # tks)"
    unfolding e parseDefault_def lexSql_front [OF ok(7) len(1) ok(8) len(2)] by (simp only: option.map option.case parseDefaultStmt_front)
  also have "\<dots> = Some (DefaultGrant t privs (granteeOf g) w)" using p by (simp add: parseDefaultAction_def)
  finally show ?thesis using ok(1) by blast
qed

lemma defaultRevoke_reads:
  assumes q: "buildDefaultPrivilegesQuery False t g ps w mode = Inr q"
    and len: "length (dtForRole t) \<le> nameDataLen" "length (dtSchema t) \<le> nameDataLen" "length g \<le> nameDataLen"
  shows "\<exists>privs. set privs = canonicalKeyword ` set ps \<and>
    parseDefault scs q = Some (DefaultRevoke t (GrantOptionOnly mode) privs (granteeOf g) (Cascade mode))"
proof -
  from q obtain privs who where ok: "set privs = canonicalKeyword ` set ps" "privs \<noteq> []" "\<forall>p \<in> set privs. keyWord p" "renderGrantee g = Inr who"
    "dtKind t \<in> set defaultWords" "keyWord (dtKind t)" "dtForRole t \<noteq> []" "dtSchema t \<noteq> []"
    and e: "q = ''ALTER DEFAULT PRIVILEGES FOR ROLE '' @ quoteIdent (dtForRole t) @ '' IN SCHEMA '' @ quoteIdent (dtSchema t) @ '' '' @
      buildRevokeQuery privs (dtKind t) who mode"
    by (rule buildDefaultPrivilegesQuery_ok) simp
  let ?r = "if Cascade mode then '' CASCADE'' else []"
  let ?ts = "if Cascade mode then [Word ''CASCADE''] else []"
  let ?t = "joinStr privs '', '' @ '' ON '' @ dtKind t @ CHR '' '' # ''FROM'' @ CHR '' '' # who @ ?r"
  let ?o = "if GrantOptionOnly mode then [Word ''GRANT'', Word ''OPTION'', Word ''FOR''] else []"
  have tail: "?r = [] \<or> hd ?r = CHR '' ''" "lexSql scs ?r = Some ?ts" using lexSql_words [of scs] by simp_all
  obtain tks where t: "lexSql scs ?t = Some tks" and p: "parseDefaultTarget ''FROM'' tks = Some (privs, dtKind t, granteeOf g, ?ts)"
    using lexSql_defaultTarget [OF ok(2-4) len(3) ok(5,6) keyWords(5) tail] by blast
  have "lexSql scs (''GRANT'' @ CHR '' '' # ''OPTION'' @ CHR '' '' # ''FOR'' @ CHR '' '' # ?t) =
      Some (Word ''GRANT'' # Word ''OPTION'' # Word ''FOR'' # tks)"
    by (simp only: lexSql_keyword keyWords t option.map)
  then have "lexSql scs (buildRevokeQuery privs (dtKind t) who mode) = Some (Word ''REVOKE'' # ?o @ tks)"
    using lexSql_keyword [of "''REVOKE''" scs "(if GrantOptionOnly mode then ''GRANT OPTION FOR '' else []) @ ?t"] t
    by (simp add: buildRevokeQuery_def)
  then have "parseDefault scs q = parseDefaultAction (dtForRole t) (dtSchema t) (Word ''REVOKE'' # ?o @ tks)"
    unfolding e parseDefault_def lexSql_front [OF ok(7) len(1) ok(8) len(2)] by (simp only: option.map option.case parseDefaultStmt_front)
  moreover have "take 3 tks \<noteq> [Word ''GRANT'', Word ''OPTION'', Word ''FOR'']"
  proof
    assume "take 3 tks = [Word ''GRANT'', Word ''OPTION'', Word ''FOR'']"
    then obtain u where "tks = Word ''GRANT'' # Word ''OPTION'' # u"
      by (metis append_Cons append_take_drop_id)
    with p show False by (simp add: parseDefaultTarget_def)
  qed
  ultimately have "parseDefault scs q = Some (DefaultRevoke t (GrantOptionOnly mode) privs (granteeOf g) (Cascade mode))"
    using p by (auto simp: parseDefaultAction_def)
  with ok(1) show ?thesis by blast
qed

end
