(* ===== verification/Default_Server.thy ===== *)
theory Default_Server
  imports Default_Privileges_Correct Default_Statements
begin

text \<open>
  The contract of a PostgreSQL server for ALTER DEFAULT PRIVILEGES and the catalog query the client
  runs for it (\<open>default_server\<close>), the proof that the operations of \<open>defaultPrivilegeOps\<close> satisfy
  the contract of the grant engine on it, and what a whole reconcile of default privileges does.
\<close>

section \<open>Targets and the entries they name\<close>

type_synonym defaultKey = "DefaultPrivilegesTarget \<times> string option"

definition defaultNames :: "string set" where
  "defaultNames = {PrivilegeSelect, PrivilegeInsert, PrivilegeUpdate, PrivilegeDelete, PrivilegeTruncate, PrivilegeReferences,
     PrivilegeTrigger, PrivilegeMaintain, PrivilegeUsage, PrivilegeExecute}"

definition defaultValid :: "grantTarget \<Rightarrow> bool" where
  "defaultValid t \<longleftrightarrow> list_ex (\<lambda>ki. tKind t = engineKind ki) defaultKindInfos \<and> tOID t = 0 \<and> tSchema t = [] \<and>
     tName t \<noteq> [] \<and> \<not> systemSchemaName (tName t) \<and> length (tName t) \<le> nameDataLen \<and>
     tForRole t \<noteq> [] \<and> length (tForRole t) \<le> nameDataLen \<and>
     tGrantee t \<noteq> [] \<and> length (tGrantee t) \<le> nameDataLen \<and> CanonicalGrantee (tGrantee t) = tGrantee t \<and> \<not> equalFold (tGrantee t) ''none''"

definition defaultKeyOf :: "grantTarget \<Rightarrow> defaultKey" where
  "defaultKeyOf t =
     (\<lparr>dtForRole = tForRole t, dtSchema = tName t, dtKind = (case defaultKindOf (tKind t) of None \<Rightarrow> [] | Some ki \<Rightarrow> dkPg ki)\<rparr>,
      granteeOf (tGrantee t))"

lemma defaultValid_kind:
  assumes "defaultValid t"
  obtains ki where "ki \<in> set defaultKindInfos" "tKind t = engineKind ki" "defaultKindOf (tKind t) = Some ki"
proof -
  from assms obtain ki where "ki \<in> set defaultKindInfos" "tKind t = engineKind ki" by (auto simp: defaultValid_def list_ex_iff)
  with that defaultKindOf_engine(1) show thesis by metis
qed

lemma defaultValid_plain: "defaultValid t \<Longrightarrow> CHR ''|'' \<notin> set (tKind t)"
  by (metis defaultValid_kind defaultKindOf_engine(2))

lemma defaultValid_target: "defaultValid t \<Longrightarrow> defaultPGTarget t = Inr (fst (defaultKeyOf t))"
  by (erule defaultValid_kind) (simp add: defaultPGTarget_def defaultKeyOf_def)

lemma defaultValid_objects:
  assumes "defaultValid t"
  obtains objtype object where "defaultObjectKinds (dtKind (fst (defaultKeyOf t))) = Some (objtype, object)"
proof -
  have "\<forall>ki \<in> set defaultKindInfos. defaultObjectKinds (dkPg ki) \<noteq> None"
    by (simp add: defaultKindInfos_def defaultObjectKinds_def)
  with assms that show thesis
    by (elim defaultValid_kind) (auto simp: defaultKeyOf_def)
qed

lemma engineKind_inject: "engineKind a = engineKind b \<Longrightarrow> dkPg a = dkPg b"
  by (simp add: engineKind_def)

lemma defaultKey_inject:
  assumes "defaultValid t" "defaultValid u"
  shows "defaultKeyOf t = defaultKeyOf u \<longleftrightarrow> targetKey t = targetKey u"
proof -
  obtain a b where a: "tKind t = engineKind a" "defaultKindOf (tKind t) = Some a"
    and b: "tKind u = engineKind b" "defaultKindOf (tKind u) = Some b"
    using assms by (metis defaultValid_kind)
  have "tKind t = tKind u \<longleftrightarrow> dkPg a = dkPg b" using a b by (auto simp: engineKind_def)
  moreover have "granteeOf (tGrantee t) = granteeOf (tGrantee u) \<longleftrightarrow> tGrantee t = tGrantee u"
    using assms by (auto simp: defaultValid_def granteeOf_def CanonicalGrantee_def split: if_splits)
  ultimately show ?thesis
    using assms targetKey_inject [OF defaultValid_plain defaultValid_plain, OF assms] a(2) b(2)
    by (auto simp: defaultKeyOf_def defaultValid_def)
qed

text \<open>The entries by target key: what the engine sees of the server.\<close>

definition keyedDefault :: "('s \<Rightarrow> defaultKey \<Rightarrow> string set) \<Rightarrow> 's \<Rightarrow> string \<Rightarrow> string set" where
  "keyedDefault privsOf s k = (\<Union>t \<in> {t. defaultValid t \<and> targetKey t = k}. privsOf s (defaultKeyOf t))"

lemma keyedDefault_key: "defaultValid t \<Longrightarrow> keyedDefault privsOf s (targetKey t) = privsOf s (defaultKeyOf t)"
  using defaultKey_inject [of t] by (fastforce simp: keyedDefault_def)

lemma keyedDefault_other:
  assumes "defaultValid t" "k \<noteq> targetKey t" "\<And>a. a \<noteq> defaultKeyOf t \<Longrightarrow> privsOf s' a = privsOf s a"
  shows "keyedDefault privsOf s' k = keyedDefault privsOf s k"
  unfolding keyedDefault_def
proof (intro SUP_cong refl)
  fix u assume "u \<in> {u. defaultValid u \<and> targetKey u = k}"
  with assms(1,2) defaultKey_inject [of u t] have "defaultKeyOf u \<noteq> defaultKeyOf t" by auto
  then show "privsOf s' (defaultKeyOf u) = privsOf s (defaultKeyOf u)" by (rule assms(3))
qed

lemma keyedDefault_effects:
  assumes "defaultValid t"
  shows "grantEffect privsOf optsOf (defaultKeyOf t) ps w s e s' \<Longrightarrow> grantEffect (keyedDefault privsOf) (keyedDefault optsOf) (targetKey t) ps w s e s'"
    and "revokeEffect privsOf optsOf (defaultKeyOf t) ps mode s e s' \<Longrightarrow>
      revokeEffect (keyedDefault privsOf) (keyedDefault optsOf) (targetKey t) ps mode s e s'"
proof -
  have frame: "\<forall>k. k \<noteq> targetKey t \<longrightarrow> keyedDefault privsOf s' k = keyedDefault privsOf s k \<and> keyedDefault optsOf s' k = keyedDefault optsOf s k"
    if "\<forall>a. a \<noteq> defaultKeyOf t \<longrightarrow> privsOf s' a = privsOf s a \<and> optsOf s' a = optsOf s a"
    using that keyedDefault_other [OF assms] by metis
  show "grantEffect privsOf optsOf (defaultKeyOf t) ps w s e s' \<Longrightarrow> grantEffect (keyedDefault privsOf) (keyedDefault optsOf) (targetKey t) ps w s e s'"
    using frame unfolding grantEffect_def keyedDefault_key [OF assms] by blast
  show "revokeEffect privsOf optsOf (defaultKeyOf t) ps mode s e s' \<Longrightarrow>
      revokeEffect (keyedDefault privsOf) (keyedDefault optsOf) (targetKey t) ps mode s e s'"
    using frame unfolding revokeEffect_def keyedDefault_key [OF assms] by blast
qed

lemma sameAcl_keyedDefault: "sameAcl privsOf optsOf s s' \<Longrightarrow> sameAcl (keyedDefault privsOf) (keyedDefault optsOf) s s'"
  unfolding sameAcl_def by (elim conjE, intro conjI; rule ext; simp only: keyedDefault_def)

section \<open>The contract of the server\<close>

text \<open>The rows of the query: one per entry, with its privilege and whether it can be passed on.\<close>

definition defaultRows :: "string set \<Rightarrow> string set \<Rightarrow> sqlValue list list \<Rightarrow> bool" where
  "defaultRows privs opts rows \<longleftrightarrow> (\<forall>row \<in> set rows. \<exists>p b. row = [SText p, SBool b]) \<and>
     (\<forall>p. p \<in> privs \<longleftrightarrow> (\<exists>b. [SText p, SBool b] \<in> set rows)) \<and> (\<forall>p. p \<in> opts \<longleftrightarrow> [SText p, SBool True] \<in> set rows)"

lemma scanDefault_row [simp]: "scanDefault [SText p, SBool b] = Inr (p, b)"
  by (simp add: scanDefault_def)

lemma scanRows_default:
  assumes "\<forall>row \<in> set rows. \<exists>p b. row = [SText p, SBool b]"
  shows "\<exists>hs. scanRows scanDefault rows = Inr hs \<and> (\<forall>p b. (p, b) \<in> set hs \<longleftrightarrow> [SText p, SBool b] \<in> set rows)"
  using assms
proof (induction rows)
  case (Cons row rows)
  then obtain hs where "scanRows scanDefault rows = Inr hs" "\<forall>p b. (p, b) \<in> set hs \<longleftrightarrow> [SText p, SBool b] \<in> set rows" by auto
  with Cons.prems show ?case by auto
qed simp

lemma defaultRows_read:
  assumes "defaultRows privs opts rows" "scanRows scanDefault rows = Inr hs"
  shows "set (sortCompact (map fst hs)) = privs" "set (sortCompact (map fst (filter snd hs))) = opts"
proof -
  from assms scanRows_default [of rows] have hs: "(p, b) \<in> set hs \<longleftrightarrow> [SText p, SBool b] \<in> set rows" for p b
    by (auto simp: defaultRows_def)
  have img: "p \<in> fst ` A \<longleftrightarrow> (\<exists>b. (p, b) \<in> A)" for p :: string and A :: "(string \<times> bool) set" by force
  have "p \<in> fst ` set hs \<longleftrightarrow> (\<exists>b. [SText p, SBool b] \<in> set rows)" "p \<in> fst ` set (filter snd hs) \<longleftrightarrow> [SText p, SBool True] \<in> set rows" for p
    by (auto simp: img hs)
  with assms(1) show "set (sortCompact (map fst hs)) = privs" "set (sortCompact (map fst (filter snd hs))) = opts"
    by (simp_all add: defaultRows_def set_eq_iff)
qed

text \<open>\<open>saveStatus\<close> writes the status of the Database, with the ledger of default privileges.\<close>

locale default_server = role_lookup lookup roleOf
  for lookup :: "'s roleLookup" and roleOf +
  fixes db :: "'s db"
    and scs :: bool
    and privsOf :: "'s \<Rightarrow> defaultKey \<Rightarrow> string set"
    and optsOf :: "'s \<Rightarrow> defaultKey \<Rightarrow> string set"
    and stored :: "'s \<Rightarrow> privilegeGrant list"
    and saveStatus :: "Database \<Rightarrow> ('s, error option) state"
  assumes exec_default_grant: "parseDefault scs q = Some (DefaultGrant t ps g w) \<Longrightarrow> set ps \<subseteq> defaultNames \<Longrightarrow>
      wp (execDb db q) (\<lambda>e s'. grantEffect privsOf optsOf (t, g) ps w s e s' \<and> stored s' = stored s) s"
    and exec_default_revoke: "parseDefault scs q = Some (DefaultRevoke t oo ps g c) \<Longrightarrow> set ps \<subseteq> defaultNames \<Longrightarrow>
      wp (execDb db q) (\<lambda>e s'. revokeEffect privsOf optsOf (t, g) ps \<lparr>GrantOptionOnly = oo, Cascade = c\<rparr> s e s' \<and> stored s' = stored s) s"
    and query_default: "defaultObjectKinds (dtKind t) = Some (objtype, object) \<Longrightarrow>
      wp (queryDb db heldDefaultQuery [SText (dtForRole t), SText (dtSchema t), SText objtype, SBool (IsPublic gr), SText gr])
        (\<lambda>r s'. sameAcl privsOf optsOf s s' \<and> stored s' = stored s \<and>
          (\<forall>rows. r = Inr (rows, None) \<longrightarrow> defaultRows (privsOf s (t, granteeOf gr)) (optsOf s (t, granteeOf gr)) rows)) s"
    and schema_exists: "wp (SchemaExists db n) (\<lambda>r s'. sameAcl privsOf optsOf s s' \<and> stored s' = stored s \<and>
      (r = Inr False \<longrightarrow> (\<forall>t g. dtSchema t = n \<longrightarrow> privsOf s (t, g) = {} \<and> optsOf s (t, g) = {}))) s"
    and role_exists: "wp (RoleExists db n) (\<lambda>r s'. sameAcl privsOf optsOf s s' \<and> stored s' = stored s \<and>
      (r = Inr False \<longrightarrow> (\<forall>t g. dtForRole t = n \<or> g = Some n \<longrightarrow> privsOf s (t, g) = {} \<and> optsOf s (t, g) = {}))) s"
    and save_default: "wp (saveStatus d) (\<lambda>e s'. sameAcl privsOf optsOf s s' \<and>
      (e = None \<longrightarrow> stored s' = defaultLedger (dtManagedDefaultPrivileges (dbStatus d))) \<and>
      (stored s' = stored s \<or> stored s' = defaultLedger (dtManagedDefaultPrivileges (dbStatus d)))) s"

lemma defaultNames_keyword: "set ps \<subseteq> defaultNames \<Longrightarrow> canonicalKeyword ` set ps = set ps"
proof -
  have "canonicalKeyword p = p" if "p \<in> defaultNames" for p using that by (auto simp: defaultNames_def) code_simp+
  then show "set ps \<subseteq> defaultNames \<Longrightarrow> canonicalKeyword ` set ps = set ps" by (force simp: image_iff)
qed

lemma defaultValid_lengths:
  "defaultValid t \<Longrightarrow> length (dtForRole (fst (defaultKeyOf t))) \<le> nameDataLen \<and> length (dtSchema (fst (defaultKeyOf t))) \<le> nameDataLen \<and>
    length (tGrantee t) \<le> nameDataLen"
  by (simp add: defaultValid_def defaultKeyOf_def)

context default_server
begin

lemma grant_default:
  assumes t: "defaultValid t" and ps: "set ps \<subseteq> defaultNames"
  shows "wp (grant (defaultPrivilegeOps db) t ps w) (\<lambda>e s'. grantEffect privsOf optsOf (defaultKeyOf t) ps w s e s' \<and> stored s' = stored s) s"
proof (cases "buildDefaultPrivilegesQuery True (fst (defaultKeyOf t)) (tGrantee t) ps w plainMode")
  case (Inl e)
  then show ?thesis
    by (simp add: defaultPrivilegeOps_def defaultValid_target [OF t] GrantDefaultPrivileges_def wp_simps grantEffect_def)
next
  case (Inr q)
  obtain qs where qs: "set qs = canonicalKeyword ` set ps" "parseDefault scs q = Some (DefaultGrant (fst (defaultKeyOf t)) qs (granteeOf (tGrantee t)) w)"
    using defaultGrant_reads [OF Inr] defaultValid_lengths [OF t] by blast
  have set: "set qs = set ps" using qs(1) defaultNames_keyword [OF ps] by simp
  have "wp (execDb db q) (\<lambda>e s'. grantEffect privsOf optsOf (defaultKeyOf t) qs w s e s' \<and> stored s' = stored s) s"
    using exec_default_grant [OF qs(2), of s] ps set by (simp add: defaultKeyOf_def)
  with Inr show ?thesis
    by (auto simp: defaultPrivilegeOps_def defaultValid_target [OF t] GrantDefaultPrivileges_def execWrap_def wp_simps
        grantEffect_set [OF set] elim!: wp_mono intro: grantEffect_wrap)
qed

lemma revoke_default:
  assumes t: "defaultValid t" and ps: "set ps \<subseteq> defaultNames"
  shows "wp (revoke (defaultPrivilegeOps db) t ps mode) (\<lambda>e s'. revokeEffect privsOf optsOf (defaultKeyOf t) ps mode s e s' \<and> stored s' = stored s) s"
proof (cases "buildDefaultPrivilegesQuery False (fst (defaultKeyOf t)) (tGrantee t) ps False mode")
  case (Inl e)
  then show ?thesis
    by (auto simp: defaultPrivilegeOps_def defaultValid_target [OF t] RevokeDefaultPrivileges_def wp_simps revokeEffect_def)
next
  case (Inr q)
  obtain qs where qs: "set qs = canonicalKeyword ` set ps"
    "parseDefault scs q = Some (DefaultRevoke (fst (defaultKeyOf t)) (GrantOptionOnly mode) qs (granteeOf (tGrantee t)) (Cascade mode))"
    using defaultRevoke_reads [OF Inr] defaultValid_lengths [OF t] by blast
  have mode: "\<lparr>GrantOptionOnly = GrantOptionOnly mode, Cascade = Cascade mode\<rparr> = mode" by simp
  have set: "set qs = set ps" using qs(1) defaultNames_keyword [OF ps] by simp
  have "wp (execDb db q) (\<lambda>e s'. revokeEffect privsOf optsOf (defaultKeyOf t) qs mode s e s' \<and> stored s' = stored s) s"
    using exec_default_revoke [OF qs(2), of s] ps set by (simp add: defaultKeyOf_def mode)
  with Inr show ?thesis
    by (auto simp: defaultPrivilegeOps_def defaultValid_target [OF t] RevokeDefaultPrivileges_def execWrap_def wp_simps
        revokeEffect_set [OF set] elim!: wp_mono intro: revokeEffect_wrap)
qed

lemma held_default:
  assumes t: "defaultValid t"
  shows "wp (held (defaultPrivilegeOps db) t) (\<lambda>r s'. sameAcl privsOf optsOf s s' \<and> stored s' = stored s \<and>
    (\<forall>p g. r = Inr (p, g) \<longrightarrow> set p = privsOf s (defaultKeyOf t) \<and> set g = optsOf s (defaultKeyOf t))) s"
proof -
  obtain objtype object where k: "defaultObjectKinds (dtKind (fst (defaultKeyOf t))) = Some (objtype, object)"
    by (rule defaultValid_objects [OF t])
  have key: "(fst (defaultKeyOf t), granteeOf (tGrantee t)) = defaultKeyOf t" by (simp add: defaultKeyOf_def)
  note q = query_default [OF k, of "tGrantee t" s, unfolded key]
  show ?thesis
    unfolding defaultPrivilegeOps_def privilegeOps.select_convs defaultValid_target [OF t] sum.case HeldDefaultPrivileges_def k option.case prod.case
      queryRows_def wp_bind wp_ret
  proof (rule wp_mono [OF q], goal_cases)
    case (1 r s')
    have "set p = privsOf s (defaultKeyOf t) \<and> set g = optsOf s (defaultKeyOf t)"
      if "r = Inr (rows, None)" "scanRows scanDefault rows = Inr hs" "p = sortCompact (map fst hs)" "g = sortCompact (map fst (filter snd hs))"
      for p g rows hs
    proof -
      from 1 that(1) have "defaultRows (privsOf s (defaultKeyOf t)) (optsOf s (defaultKeyOf t)) rows" by simp
      from defaultRows_read [OF this that(2)] show ?thesis unfolding that(3,4) by (rule conjI)
    qed
    with 1 show ?case
      by (auto split: sum.splits prod.splits option.splits simp del: set_sortCompact)
  qed
qed

lemma gone_default:
  assumes t: "defaultValid t"
  shows "wp (defaultGone db t) (\<lambda>r s'. sameAcl privsOf optsOf s s' \<and> stored s' = stored s \<and>
    (r = Inr True \<longrightarrow> privsOf s (defaultKeyOf t) = {} \<and> optsOf s (defaultKeyOf t) = {})) s"
    (is "wp _ ?Q s")
proof -
  have same: "?Q r s2" if "sameAcl privsOf optsOf s s2" "stored s2 = stored s" "r \<noteq> Inr True" for r s2
    using that by simp
  have key: "dtSchema (fst (defaultKeyOf t)) = tName t" "dtForRole (fst (defaultKeyOf t)) = tForRole t" "snd (defaultKeyOf t) = granteeOf (tGrantee t)"
    by (simp_all add: defaultKeyOf_def)
  have here: "sameAcl privsOf optsOf s s1 \<Longrightarrow> privsOf s1 = privsOf s \<and> optsOf s1 = optsOf s" for s1 by (simp add: sameAcl_def)
  have grantee: "wp (roleGone db t) ?Q s1" if s1: "sameAcl privsOf optsOf s s1" "stored s1 = stored s" for s1
  proof (cases "IsPublic (tGrantee t)")
    case True
    with s1 show ?thesis by (simp add: roleGone_def wp_ret)
  next
    case False
    then show ?thesis
      unfolding roleGone_def if_not_P [OF False] wp_bind wp_ret
    proof (intro wp_mono [OF role_exists], goal_cases)
      case (1 r s2)
      with s1 False here [OF s1(1)] key show ?case
        by (cases "defaultKeyOf t") (auto simp: sameAcl_def granteeOf_def split: sum.splits)
    qed
  qed
  have forRole: "wp (RoleExists db (tForRole t)) (\<lambda>r. wp (case r of Inl e \<Rightarrow> ret (Inl e) | Inr False \<Rightarrow> ret (Inr True) | Inr True \<Rightarrow> roleGone db t) ?Q) s1"
    if s1: "sameAcl privsOf optsOf s s1" "stored s1 = stored s" for s1
  proof (rule wp_mono [OF role_exists], goal_cases)
    case (1 r s2)
    then have s2: "sameAcl privsOf optsOf s s2" "stored s2 = stored s" using s1 by (simp_all add: sameAcl_def)
    have "privsOf s (defaultKeyOf t) = {} \<and> optsOf s (defaultKeyOf t) = {}" if "r = Inr False"
      using 1 that here [OF s1(1)] key(2) by (metis prod.collapse)
    then show ?case
      using s2 grantee [OF s2] by (auto simp: wp_ret split: sum.split bool.split)
  qed
  show ?thesis
    unfolding defaultGone_def wp_bind
  proof (rule wp_mono [OF schema_exists], goal_cases)
    case (1 r s1)
    then have s1: "sameAcl privsOf optsOf s s1" "stored s1 = stored s" by simp_all
    have "privsOf s (defaultKeyOf t) = {} \<and> optsOf s (defaultKeyOf t) = {}" if "r = Inr False"
      using 1 that key(1) by (metis prod.collapse)
    then show ?case
      using s1 forRole [OF s1] by (auto simp: wp_ret wp_bind split: sum.split bool.split)
  qed
qed

end

sublocale default_server \<subseteq> defaults: acl_ops "defaultPrivilegeOps db" defaultValid defaultNames "keyedDefault privsOf" "keyedDefault optsOf" stored
proof (unfold_locales, goal_cases)
  case (1 t s)
  then show ?case
    by (intro wp_mono [OF held_default]) (auto simp: keyedDefault_key sameAcl_keyedDefault)
next
  case (2 t ps w s)
  then show ?case
    by (intro wp_mono [OF grant_default]) (auto intro: keyedDefault_effects)
next
  case (3 t ps mode s)
  then show ?case
    by (intro wp_mono [OF revoke_default]) (auto intro: keyedDefault_effects)
next
  case (4 f t s)
  then have "f = defaultGone db" by (simp add: defaultPrivilegeOps_def)
  with 4 show ?case
    by (auto simp: keyedDefault_key sameAcl_keyedDefault intro: wp_mono [OF gone_default])
qed

section \<open>A whole reconcile\<close>

lemma schemaDefaultsLoop_all:
  assumes "schemaDefaultsLoop v field sc ds (seen, out, uns) = Inr (seen', out', uns')" "\<forall>g \<in> set out. P g"
    and "\<And>d ki ps left. d \<in> set ds \<Longrightarrow> defaultKindOf (dpKind d) = Some ki \<Longrightarrow> normalizeObjectPrivileges (dkObject ki) (dpPrivileges d) = Inr ps \<Longrightarrow>
      set left \<subseteq> set ps \<Longrightarrow> P (desiredGrant (defaultTarget ki sc (dpForRole d) (dpRole d)) left (dpWithGrantOption d))"
  shows "\<forall>g \<in> set out'. P g"
  using assms
proof (induction ds arbitrary: seen out uns)
  case Nil
  then show ?case by simp
next
  case (Cons d ds)
  then obtain ki where ki: "defaultKindOf (dpKind d) = Some ki" by (cases "defaultKindOf (dpKind d)") auto
  with Cons.prems(1) obtain ps where ps: "normalizeObjectPrivileges (dkObject ki) (dpPrivileges d) = Inr ps"
    by (cases "normalizeObjectPrivileges (dkObject ki) (dpPrivileges d)") auto
  obtain left dropped where dm: "dropMaintain ps v = (left, dropped)" by (cases "dropMaintain ps v")
  let ?g = "desiredGrant (defaultTarget ki sc (dpForRole d) (dpRole d)) left (dpWithGrantOption d)"
  have new: "P ?g" by (rule Cons.prems(3) [OF _ ki ps dropMaintain_subset [OF dm]]) simp
  from Cons.prems(1) ki ps dm obtain uns1 where
    rest: "schemaDefaultsLoop v field sc ds (seen @ [targetKey (defaultTarget ki sc (dpForRole d) (dpRole d))],
      if left \<noteq> [] then out @ [?g] else out, uns1) = Inr (seen', out', uns')"
    by (auto simp: Let_def split: if_splits)
  show ?case
    by (rule Cons.IH [OF rest]) (use Cons.prems(2,3) new in auto)
qed

lemma defaultFieldsLoop_all:
  assumes "defaultFieldsLoop v managed ss seen grants uns = Inr (grants', uns')" "\<forall>g \<in> set (concat (map snd grants)). P g"
    and "\<And>s d ki ps left. s \<in> set ss \<Longrightarrow> \<not> systemSchemaName (ssName s) \<Longrightarrow> d \<in> set (ssDefaultPrivileges s) \<Longrightarrow> defaultKindOf (dpKind d) = Some ki \<Longrightarrow>
      normalizeObjectPrivileges (dkObject ki) (dpPrivileges d) = Inr ps \<Longrightarrow> set left \<subseteq> set ps \<Longrightarrow>
      P (desiredGrant (defaultTarget ki (ssName s) (dpForRole d) (dpRole d)) left (dpWithGrantOption d))"
  shows "\<forall>g \<in> set (concat (map snd grants')). P g"
  using assms
proof (induction ss arbitrary: seen grants uns)
  case Nil
  then show ?case by simp
next
  case (Cons s ss)
  let ?field = "sprintf ''schemas[%s].defaultPrivileges'' [ssName s]"
  show ?case
  proof (cases "ssName s \<notin> set managed \<or> systemSchemaName (ssName s) \<or> ssDefaultPrivileges s = []")
    case True
    with Cons.prems(1) have "defaultFieldsLoop v managed ss seen grants uns = Inr (grants', uns')" by (simp add: Let_def)
    from Cons.IH [OF this Cons.prems(2)] Cons.prems(3) show ?thesis by simp
  next
    case False
    then have sys: "\<not> systemSchemaName (ssName s)" by simp
    from False Cons.prems(1) obtain seen1 list uns1 where
      l: "schemaDefaultsLoop v ?field (ssName s) (ssDefaultPrivileges s) (seen, [], uns) = Inr (seen1, list, uns1)"
      and rest: "defaultFieldsLoop v managed ss seen1 (grants @ [(?field, list)]) uns1 = Inr (grants', uns')"
      by (auto simp: Let_def split: sum.splits if_splits)
    have "\<forall>g \<in> set list. P g"
      by (rule schemaDefaultsLoop_all [OF l]) (use sys Cons.prems(3) [of s] in auto)
    with Cons.prems(2) have "\<forall>g \<in> set (concat (map snd (grants @ [(?field, list)]))). P g" by auto
    from Cons.IH [OF rest this] Cons.prems(3) show ?thesis by simp
  qed
qed

text \<open>
  The resources the API server admits: names are not empty and within PostgreSQL's limit, and no
  grantee is called \<open>none\<close>; the ledger was written by an earlier reconcile.
\<close>

definition wfDefaults :: "Database \<Rightarrow> bool" where
  "wfDefaults database \<longleftrightarrow>
     (\<forall>s \<in> set (dsSchemas (dbSpec database)). ssName s \<noteq> [] \<and> length (ssName s) \<le> nameDataLen \<and>
       (\<forall>d \<in> set (ssDefaultPrivileges s). dpForRole d \<noteq> [] \<and> length (dpForRole d) \<le> nameDataLen \<and> validGrantee (dpRole d))) \<and>
     (\<forall>m \<in> set (dtManagedDefaultPrivileges (dbStatus database)). length (mdpSchema m) \<le> nameDataLen \<and> length (mdpForRole m) \<le> nameDataLen \<and>
       validGrantee (mdpRole m) \<and> set (mdpPrivileges m) \<subseteq> defaultNames \<and> set (mdpGrantOptions m) \<subseteq> defaultNames)"

lemma defaultTarget_valid:
  assumes "ki \<in> set defaultKindInfos" "sc \<noteq> []" "\<not> systemSchemaName sc" "length sc \<le> nameDataLen" "r \<noteq> []" "length r \<le> nameDataLen" "validGrantee g"
  shows "defaultValid (defaultTarget ki sc r g)"
proof -
  have "\<not> equalFold PublicGrantee ''none''" "length PublicGrantee \<le> nameDataLen" by code_simp+
  with assms show ?thesis
    by (auto simp: defaultValid_def defaultTarget_def validGrantee_def CanonicalGrantee_def IsPublic_def equalFold_refl list_ex_iff)
qed

lemma normalizeObjectLoop_allowed:
  "normalizeObjectLoop kind ps out = Inr qs \<Longrightarrow> set out \<subseteq> set (allowedOn kind) \<Longrightarrow> set qs \<subseteq> set (allowedOn kind)"
  by (induction kind ps out rule: normalizeObjectLoop.induct) (auto simp: Let_def split: if_splits)

lemma normalizeObjectPrivileges_allowed:
  "normalizeObjectPrivileges kind ps = Inr qs \<Longrightarrow> set qs \<subseteq> set (allowedOn kind)"
  using normalizeObjectLoop_allowed [of kind ps "[]" qs] by (simp add: normalizeObjectPrivileges_def split: if_splits)

lemma defaultPrivileges_names:
  assumes "ki \<in> set defaultKindInfos" "normalizeObjectPrivileges (dkObject ki) ps = Inr qs"
  shows "set qs \<subseteq> defaultNames"
proof -
  have "\<forall>ki \<in> set defaultKindInfos. set (allowedOn (dkObject ki)) \<subseteq> defaultNames"
    by (auto simp: defaultKindInfos_def allowedOn_def SchemaObjectPrivileges_def defaultNames_def)
  with assms normalizeObjectPrivileges_allowed [of "dkObject ki" ps qs] show ?thesis by blast
qed

lemma desiredDefaults_wf:
  assumes "wfDefaults database" "desiredDefaultPrivileges (dsSchemas (dbSpec database)) managed v = Inr (flds, uns)"
  shows "wfDesired (concat (map snd flds))" "\<forall>g \<in> set (concat (map snd flds)). manageable defaultValid defaultNames g"
proof -
  note loop = assms(2) [unfolded desiredDefaultPrivileges_def]
  have "distinct (map grantKey (concat (map snd flds)))"
    using defaultFieldsLoop_ok [OF loop, of "dsSchemas (dbSpec database)"] by simp
  moreover have "\<forall>g \<in> set (concat (map snd flds)). set (GrantOptions g) \<subseteq> set (Privileges g)"
    by (rule defaultFieldsLoop_all [OF loop]) (auto simp: desiredGrant_def)
  ultimately show "wfDesired (concat (map snd flds))" by (simp add: wfDesired_def)
  show "\<forall>g \<in> set (concat (map snd flds)). manageable defaultValid defaultNames g"
  proof (rule defaultFieldsLoop_all [OF loop])
    fix s d ki ps left
    assume s: "s \<in> set (dsSchemas (dbSpec database))" "\<not> systemSchemaName (ssName s)" and d: "d \<in> set (ssDefaultPrivileges s)"
      and ki: "defaultKindOf (dpKind d) = Some ki" and ps: "normalizeObjectPrivileges (dkObject ki) (dpPrivileges d) = Inr ps" "set left \<subseteq> set ps"
    note known = defaultKindOf_known [OF ki]
    have "defaultValid (defaultTarget ki (ssName s) (dpForRole d) (dpRole d))"
      using assms(1) s d unfolding wfDefaults_def by (intro defaultTarget_valid known) blast+
    moreover have "set left \<subseteq> defaultNames" using ps defaultPrivileges_names [OF known] by blast
    ultimately show "manageable defaultValid defaultNames (desiredGrant (defaultTarget ki (ssName s) (dpForRole d) (dpRole d)) left (dpWithGrantOption d))"
      by (cases "dpWithGrantOption d") (simp_all add: manageable_def desiredGrant_def)
  qed simp
qed

lemma defaultLedger_wf:
  assumes "wfDefaults database"
  shows "\<forall>g \<in> set (defaultLedger (dtManagedDefaultPrivileges (dbStatus database))). manageable defaultValid defaultNames g"
proof
  fix g assume "g \<in> set (defaultLedger (dtManagedDefaultPrivileges (dbStatus database)))"
  then obtain m where m: "m \<in> set (dtManagedDefaultPrivileges (dbStatus database))"
    "(case defaultKindOf (mdpKind m) of None \<Rightarrow> None | Some ki \<Rightarrow>
      if \<not> validLedgerSchema (mdpSchema m) \<or> mdpForRole m = [] then None
      else Some \<lparr>Target = defaultTarget ki (mdpSchema m) (mdpForRole m) (mdpRole m),
        Privileges = mdpPrivileges m, GrantOptions = mdpGrantOptions m\<rparr>) = Some g"
    unfolding defaultLedger_def set_map_filter by blast
  then obtain ki where ki: "defaultKindOf (mdpKind m) = Some ki" "validLedgerSchema (mdpSchema m)" "mdpForRole m \<noteq> []"
    "g = \<lparr>Target = defaultTarget ki (mdpSchema m) (mdpForRole m) (mdpRole m), Privileges = mdpPrivileges m, GrantOptions = mdpGrantOptions m\<rparr>"
    by (cases "defaultKindOf (mdpKind m)") (auto split: if_splits)
  have "defaultValid (defaultTarget ki (mdpSchema m) (mdpForRole m) (mdpRole m))"
    using assms m(1) ki(2,3) unfolding wfDefaults_def validLedgerSchema_def
    by (intro defaultTarget_valid defaultKindOf_known [OF ki(1)]) blast+
  with assms m(1) ki(4) show "manageable defaultValid defaultNames g"
    unfolding wfDefaults_def by (simp add: manageable_def)
qed

text \<open>A ledger of valid targets survives the round trip through the status.\<close>

lemma defaultLedger_status:
  assumes "\<forall>g \<in> set L. defaultValid (Target g)"
  shows "defaultLedger (defaultLedgerStatus L) = L"
  using assms
proof (induction L)
  case Nil
  then show ?case by (simp add: defaultLedger_def defaultLedgerStatus_def)
next
  case (Cons g L)
  from Cons.prems have v: "defaultValid (Target g)" by simp
  obtain ki where ki: "ki \<in> set defaultKindInfos" "tKind (Target g) = engineKind ki" "defaultKindOf (tKind (Target g)) = Some ki"
    by (rule defaultValid_kind [OF v])
  have api: "\<forall>ki \<in> set defaultKindInfos. defaultKindOf (dkApi ki) = Some ki" by code_simp
  have "Target g = defaultTarget ki (tName (Target g)) (tForRole (Target g)) (tGrantee (Target g))"
    using v ki(2) by (intro grantTarget.equality) (simp_all add: defaultValid_def defaultTarget_def)
  then show ?case
    using Cons v ki api by (simp add: defaultLedger_def defaultLedgerStatus_def map_filter_simps defaultValid_def validLedgerSchema_def)
qed

text \<open>The declared default privileges the policy permits.\<close>

definition permittedDefaults :: "granteeChecker \<Rightarrow> (string \<Rightarrow> ReachableRole option) \<Rightarrow> privilegeGrant list \<Rightarrow> privilegeGrant list" where
  "permittedDefaults c roles = filter (\<lambda>g. permittedForRole c roles (tForRole (Target g)) \<and> permittedGrantee c roles (tGrantee (Target g)))"

context default_server
begin

lemma durable_default:
  "durable_ops (defaultPrivilegeOps db) defaultValid defaultNames (keyedDefault privsOf) (keyedDefault optsOf) stored
    (Some (\<lambda>ledger. runSaver (Some saveStatus) (setManagedDefaultPrivileges database (defaultLedgerStatus ledger))))"
proof (intro durable_ops.intro durable_ops_axioms.intro)
  show "acl_ops (defaultPrivilegeOps db) defaultValid defaultNames (keyedDefault privsOf) (keyedDefault optsOf) stored" by unfold_locales
next
  fix wr :: "privilegeGrant list \<Rightarrow> ('s, error option) state" and L :: "privilegeGrant list" and s :: 's
  assume "Some (\<lambda>ledger. runSaver (Some saveStatus) (setManagedDefaultPrivileges database (defaultLedgerStatus ledger))) = Some wr"
    and "\<forall>g \<in> set L. defaultValid (Target g)"
  then have wr: "wr L = saveStatus (setManagedDefaultPrivileges database (defaultLedgerStatus L))"
    and trip: "defaultLedger (defaultLedgerStatus L) = L"
    by (auto simp: runSaver_def intro: defaultLedger_status)
  show "wp (wr L) (\<lambda>e s'. sameAcl (keyedDefault privsOf) (keyedDefault optsOf) s s' \<and> (e = None \<longrightarrow> stored s' = L) \<and>
      (stored s' = stored s \<or> stored s' = L)) s"
    unfolding wr by (rule wp_mono [OF save_default]) (use sameAcl_keyedDefault in \<open>auto simp: setManagedDefaultPrivileges_def trip\<close>)
qed

text \<open>
  The outcome of a reconcile: nothing has changed and an error is reported (or there was nothing to
  do), or the engine ran on the permitted default privileges and the ledger of the status.
\<close>

definition defaultsRun :: "granteeChecker \<Rightarrow> privilegeGrant list \<Rightarrow> string list \<Rightarrow> Database \<Rightarrow> 's \<Rightarrow> Database \<Rightarrow> error option \<Rightarrow> 's \<Rightarrow> bool" where
  "defaultsRun c declared uns database s database' err s' \<longleftrightarrow>
     (let D = permittedDefaults c (roleOf s) declared; L = defaultLedger (dtManagedDefaultPrivileges (dbStatus database));
          L' = defaultLedger (dtManagedDefaultPrivileges (dbStatus database'))
      in (\<exists>e. applied (keyedDefault privsOf) (keyedDefault optsOf) stored D L defaultPrivilegeLedgerLimit True s (L', e) s' \<and>
           (err = None \<longrightarrow> e = None \<and> D = declared \<and> uns = [])))"

lemma reconcileDefaultPrivileges_post:
  assumes wf: "wfDefaults database" and c: "cacheSound (roleOf s) c" "forRolesSound (roleOf s) c"
    and desired: "desiredDefaultPrivileges (dsSchemas (dbSpec database)) managed v = Inr (flds, uns)"
  shows "wp (reconcileDefaultPrivileges db lookup database managed v c (Some saveStatus)) (\<lambda>(database', c', err) s'.
    (s' = s \<and> database' = database \<and> (err = None \<longrightarrow> flds = [] \<and> defaultLedger (dtManagedDefaultPrivileges (dbStatus database)) = [])) \<or>
    defaultsRun c (concat (map snd flds)) uns database s database' err s') s"
proof (cases "flds = [] \<and> defaultLedger (dtManagedDefaultPrivileges (dbStatus database)) = []")
  case True
  then show ?thesis
    unfolding reconcileDefaultPrivileges_def desired sum.case prod.case Let_def if_P [OF True] wp_ret by simp
next
  case False
  let ?L = "defaultLedger (dtManagedDefaultPrivileges (dbStatus database))"
  let ?D = "permittedDefaults c (roleOf s) (concat (map snd flds))"
  let ?persist = "Some (\<lambda>ledger. runSaver (Some saveStatus) (setManagedDefaultPrivileges database (defaultLedgerStatus ledger)))"
  have ok: "rolesOk (roleOf s) c (ffChecker \<lparr>ffChecker = c, ffRefused = [], ffMissing = [], ffPaused = []\<rparr>)"
    using c by (simp add: rolesOk_def samePolicy_def)
  have sub: "set ?D \<subseteq> set (concat (map snd flds))" unfolding permittedDefaults_def by (rule filter_is_subset)
  have wfD: "wfDesired ?D"
    using desiredDefaults_wf(1) [OF wf desired] sub distinct_map_filter unfolding wfDesired_def permittedDefaults_def by blast
  have manD: "\<forall>g \<in> set ?D \<union> set ?L. manageable defaultValid defaultNames g"
    using desiredDefaults_wf(2) [OF wf desired] sub defaultLedger_wf [OF wf] by blast
  have eng: "wp (applyPrivilegeGrants ?D ?L (defaultPrivilegeOps db) defaultPrivilegeLedgerLimit ?persist)
      (\<lambda>r s'. applied (keyedDefault privsOf) (keyedDefault optsOf) stored ?D ?L defaultPrivilegeLedgerLimit True s r s' \<and>
        defaultLedger (defaultLedgerStatus (fst r)) = fst r) s"
  proof -
    have "wp (applyPrivilegeGrants ?D ?L (defaultPrivilegeOps db) defaultPrivilegeLedgerLimit ?persist)
        (applied (keyedDefault privsOf) (keyedDefault optsOf) stored ?D ?L defaultPrivilegeLedgerLimit True s) s"
      using durable_ops.apply_post [OF durable_default [of database] wfD manD, where limit = defaultPrivilegeLedgerLimit] by simp
    note both = wp_conj [THEN iffD2, OF conjI, OF this apply_targets]
    have "\<forall>g \<in> set (fst r). defaultValid (Target g)" if "\<forall>g \<in> set (fst r). Target g \<in> Target ` (set ?D \<union> set ?L)" for r :: "privilegeGrant list \<times> error option"
    proof
      fix g assume "g \<in> set (fst r)"
      with that obtain h where "h \<in> set ?D \<union> set ?L" "Target g = Target h" by fastforce
      with manD show "defaultValid (Target g)" by (simp add: manageable_def)
    qed
    then show ?thesis by (intro wp_mono [OF both]) (auto intro: defaultLedger_status)
  qed
  have run: "defaultsRun c (concat (map snd flds)) uns database s (setManagedDefaultPrivileges database (defaultLedgerStatus after)) err s'"
    if "applied (keyedDefault privsOf) (keyedDefault optsOf) stored ?D ?L defaultPrivilegeLedgerLimit True s (after, e) s'"
      "defaultLedger (defaultLedgerStatus after) = after" "err = None \<Longrightarrow> e = None \<and> ?D = concat (map snd flds) \<and> uns = []" for after e err s'
    using that unfolding defaultsRun_def Let_def setManagedDefaultPrivileges_def by (intro exI [of _ e]) simp
  show ?thesis
    unfolding reconcileDefaultPrivileges_def desired sum.case prod.case Let_def if_not_P [OF False] wp_bind wp_case_prod
  proof (rule wp_mono [OF filterDefaults_post [OF ok, of flds "newGrantFilter c" "[]"]], goal_cases)
    case (1 a s1)
    obtain f h r where a: "a = ((f, h), r)" by (cases a) auto
    show ?case
    proof (cases r)
      case (Inl e)
      with 1 show ?thesis by (simp add: a wp_ret)
    next
      case (Inr desired)
      with 1 have s1: "s1 = s" and D: "desired = ?D" and complete: "forRoleErr f = None \<Longrightarrow> filterErr h = None \<Longrightarrow> desired = concat (map snd flds)"
        by (auto simp: a permittedDefaults_def)
      show ?thesis
        unfolding a prod.case Inr sum.case s1 wp_bind wp_case_prod wp_ret D
      proof (rule wp_mono [OF eng], goal_cases)
        case (1 r s')
        obtain after e where r: "r = (after, e)" by (cases r)
        show ?case
          unfolding r prod.case
          by (rule disjI2, rule run [where e = e])
            (use 1 complete D in \<open>auto simp: r joinErrs_None_iff split: if_splits\<close>)
      qed
    qed
  qed
qed

end

end
