(* ===== verification/Object_Server.thy ===== *)
theory Object_Server
  imports Default_Server
begin

text \<open>
  A reference server for object grants and default privileges: a catalog of roles and schema
  objects that answers the queries of \<open>internal/postgres/objects.go\<close>, carries out ALTER DEFAULT
  PRIVILEGES, and records the statements it is sent. It interprets \<open>object_server\<close> and
  \<open>default_server\<close>, and with them \<open>guarded_ops\<close> and \<open>acl_ops\<close> on the operations the engine gets.
\<close>

section \<open>The server\<close>

record objectServer =
  osRoles :: "ReachableRole list"
  osObjects :: "(string \<times> SchemaObjectKind \<times> SchemaObject) list"
  osDefaults :: "(defaultKey \<times> string \<times> bool) list"
  osSent :: "string list"
  osLedger :: "privilegeGrant list"

datatype objectQuery =
    RoleQuery | RoleOIDsQuery | RoleExistsQuery | SchemaExistsQuery | RoutineQuery | HeldDefaultQuery
  | ListQuery SchemaObjectKind | NameQuery SchemaObjectKind | OIDQuery SchemaObjectKind

definition objectKinds :: "SchemaObjectKind list" where
  "objectKinds = [SchemaTable, SchemaSequence, SchemaFunction, SchemaProcedure, SchemaType]"

definition objectQueries :: "(string \<times> objectQuery) list" where
  "objectQueries =
     [(lookupRoleQuery, RoleQuery), (roleOIDsQuery, RoleOIDsQuery), (roleExistsQuery, RoleExistsQuery),
      (''SELECT EXISTS(SELECT 1 FROM pg_catalog.pg_namespace WHERE nspname = $1)'', SchemaExistsQuery), (resolveRoutineQuery, RoutineQuery),
      (heldDefaultQuery, HeldDefaultQuery)] @
     concat (map (\<lambda>k.
       (case schemaObjectQueries k of None \<Rightarrow> [] | Some q \<Rightarrow> [(q, ListQuery k)]) @
       (case resolveObjectQueries k of None \<Rightarrow> [] | Some q \<Rightarrow> [(q, NameQuery k)]) @
       (case resolveOIDQueries k of None \<Rightarrow> [] | Some q \<Rightarrow> [(q, OIDQuery k)])) objectKinds)"

definition osRole :: "objectServer \<Rightarrow> string \<Rightarrow> ReachableRole option" where
  "osRole s n = map_option (\<lambda>r. r\<lparr>rrVia := []\<rparr>) (find (\<lambda>r. rrName r = n) (osRoles s))"

definition osIn :: "objectServer \<Rightarrow> string \<Rightarrow> SchemaObjectKind \<Rightarrow> SchemaObject list" where
  "osIn s schema kind = map (\<lambda>(_, _, obj). obj) (filter (\<lambda>(sc, k, obj). sc = schema \<and> k = kind \<and> soOID obj \<noteq> 0) (osObjects s))"

text \<open>A routine is named by the rendering of its signature, any object by its rendering.\<close>

definition osRoutine :: "objectServer \<Rightarrow> string \<Rightarrow> string \<Rightarrow> string \<Rightarrow> int option" where
  "osRoutine s schema name args =
     map_option soOID (find (\<lambda>obj. soIdentity obj = schema @ ''.'' @ name @ ''('' @ args @ '')'') (osIn s schema SchemaFunction @ osIn s schema SchemaProcedure))"

definition osNames :: "objectServer \<Rightarrow> naming" where
  "osNames s kind canonical oid \<longleftrightarrow> list_ex (\<lambda>(_, k, obj). k = kind \<and> soIdentity obj = canonical \<and> soOID obj = oid) (osObjects s)"

definition osIssued :: "objectServer \<Rightarrow> (naming \<times> string) list" where
  "osIssued s = map (\<lambda>q. (osNames s, q)) (osSent s)"

definition objectRow :: "SchemaObject \<Rightarrow> sqlValue list" where
  "objectRow obj =
     [SInt (soOID obj), SText (soIdentity obj), SText (soName obj), SText (soOwner obj), SInt (soOwnerOID obj), SBool (soOwnerSuperuser obj),
      SBool (soOwnerIsSessionUser obj), SText (soExtension obj), SBool (soSecurityDefiner obj), SText (soLanguage obj), SText (soSubKind obj),
      SArray (map (SInt \<circ> aiGrantee) (soACL obj)), SArray (map (SText \<circ> aiPrivilege) (soACL obj)), SArray (map (SBool \<circ> aiGrantable) (soACL obj))]"

definition resolvedRow :: "SchemaObject \<Rightarrow> sqlValue list" where
  "resolvedRow obj = [SInt (soOID obj), SText (soIdentity obj)]"

text \<open>A name that default privileges still mention is a name of the catalog.\<close>

definition osRoleExists :: "objectServer \<Rightarrow> string \<Rightarrow> bool" where
  "osRoleExists s n \<longleftrightarrow> osRole s n \<noteq> None \<or> list_ex (\<lambda>((t, g), _). dtForRole t = n \<or> g = Some n) (osDefaults s)"

definition osSchemaExists :: "objectServer \<Rightarrow> string \<Rightarrow> bool" where
  "osSchemaExists s n \<longleftrightarrow> list_ex (\<lambda>(sc, _). sc = n) (osObjects s) \<or> list_ex (\<lambda>((t, g), _). dtSchema t = n) (osDefaults s)"

definition osHeldDefault :: "objectServer \<Rightarrow> string \<Rightarrow> defaultKey \<Rightarrow> sqlValue list list" where
  "osHeldDefault s objtype k =
     map (\<lambda>(_, p, b). [SText p, SBool b])
       (filter (\<lambda>(k', _). k' = k \<and> map_option fst (defaultObjectKinds (dtKind (fst k))) = Some objtype) (osDefaults s))"

definition osPrivs :: "objectServer \<Rightarrow> defaultKey \<Rightarrow> string set" where
  "osPrivs s k = {p. \<exists>b. (k, p, b) \<in> set (osDefaults s)}"

definition osOpts :: "objectServer \<Rightarrow> defaultKey \<Rightarrow> string set" where
  "osOpts s k = {p. (k, p, True) \<in> set (osDefaults s)}"

definition osRevoke :: "bool \<Rightarrow> defaultKey \<Rightarrow> string list \<Rightarrow> (defaultKey \<times> string \<times> bool) list \<Rightarrow> (defaultKey \<times> string \<times> bool) list" where
  "osRevoke optionOnly k ps acl =
     (if optionOnly then map (\<lambda>(k', p, b). (k', p, b \<and> \<not> (k' = k \<and> p \<in> set ps))) acl
      else filter (\<lambda>(k', p, b). \<not> (k' = k \<and> p \<in> set ps)) acl)"

definition osExec :: "string \<Rightarrow> (defaultKey \<times> string \<times> bool) list \<Rightarrow> (defaultKey \<times> string \<times> bool) list" where
  "osExec q acl =
     (case parseDefault True q of
        Some (DefaultGrant t ps g w) \<Rightarrow> acl @ map (\<lambda>p. ((t, g), p, w)) ps
      | Some (DefaultRevoke t optionOnly ps g cascade) \<Rightarrow> osRevoke optionOnly (t, g) ps acl
      | None \<Rightarrow> acl)"

definition osAnswer :: "objectServer \<Rightarrow> objectQuery \<Rightarrow> sqlValue list \<Rightarrow> sqlValue list list" where
  "osAnswer s q args =
     (case (q, args) of
        (RoleQuery, [SText n]) \<Rightarrow> (case osRole s n of None \<Rightarrow> [] | Some r \<Rightarrow> [roleRow r])
      | (RoleOIDsQuery, [SArray ns]) \<Rightarrow> map (\<lambda>(r, i). [SText (rrName r), SInt i])
          (filter (\<lambda>(r, i). SText (rrName r) \<in> set ns) (zip (osRoles s) (map int [10..<10 + length (osRoles s)])))
      | (RoleExistsQuery, [SText n]) \<Rightarrow> [[SBool (osRoleExists s n)]]
      | (SchemaExistsQuery, [SText n]) \<Rightarrow> [[SBool (osSchemaExists s n)]]
      | (RoutineQuery, [SText schema, SText name, SText arguments]) \<Rightarrow>
          [[case osRoutine s schema name arguments of None \<Rightarrow> SNull | Some v \<Rightarrow> SInt v]]
      | (HeldDefaultQuery, [SText r, SText schema, SText objtype, SBool pub, SText g]) \<Rightarrow>
          concat (map (\<lambda>kind. osHeldDefault s objtype (\<lparr>dtForRole = r, dtSchema = schema, dtKind = kind\<rparr>, if pub then None else Some g)) defaultWords)
      | (ListQuery k, SText schema # SBool everything # SArray ns # _) \<Rightarrow>
          map objectRow (filter (\<lambda>obj. everything \<or> SText (soName obj) \<in> set ns) (osIn s schema k))
      | (NameQuery k, [SText identity, SText schema]) \<Rightarrow>
          map resolvedRow (filter (\<lambda>obj. soIdentity obj = identity) (osIn s schema k))
      | (OIDQuery k, [SInt oid]) \<Rightarrow>
          map (\<lambda>(_, _, obj). resolvedRow obj) (filter (\<lambda>(_, k', obj). k' = k \<and> soOID obj = oid) (osObjects s))
      | _ \<Rightarrow> [])"

definition osDb :: "objectServer db" where
  "osDb =
     \<lparr>execDb = (\<lambda>q. State (\<lambda>s. (None, s\<lparr>osSent := osSent s @ [q], osDefaults := osExec q (osDefaults s)\<rparr>))),
      queryDb = (\<lambda>q args. State (\<lambda>s. (case map_of objectQueries q of
         None \<Rightarrow> Inl (PqError ''42601'' ''syntax error'') | Some tag \<Rightarrow> Inr (osAnswer s tag args, None), s))),
      beginTx = ret None, commitTx = ret None, rollbackTx = ret ()\<rparr>"

section \<open>It is an object server\<close>

lemma scanArray_map:
  "scanArray scanInts (SArray (map (SInt \<circ> f) xs)) = Some (map f xs)"
  "scanArray scanTexts (SArray (map (SText \<circ> g) xs)) = Some (map g xs)"
  "scanArray scanBools (SArray (map (SBool \<circ> h) xs)) = Some (map h xs)"
proof -
  have "scanInts (map (SInt \<circ> f) xs) = Some (map f xs)" "scanTexts (map (SText \<circ> g) xs) = Some (map g xs)"
    "scanBools (map (SBool \<circ> h) xs) = Some (map h xs)"
    by (induction xs) simp_all
  then show "scanArray scanInts (SArray (map (SInt \<circ> f) xs)) = Some (map f xs)"
    "scanArray scanTexts (SArray (map (SText \<circ> g) xs)) = Some (map g xs)"
    "scanArray scanBools (SArray (map (SBool \<circ> h) xs)) = Some (map h xs)"
    by (simp_all add: scanArray_def)
qed

lemma aclOf_maps: "aclOf (map aiGrantee acl) (map aiPrivilege acl) (map aiGrantable acl) = acl"
  by (induction acl) (simp_all add: aclOf_def)

lemma scanObject_row: "scanObject (objectRow obj) = Inr obj"
  by (simp add: scanObject_def objectRow_def scanArray_map aclOf_maps)

lemma objectQueries_length:
  "map (length \<circ> fst) objectQueries = [191, 80, 56, 71, 131, 468, 1341, 239, 150, 1321, 216, 127, 1428, 236, 143, 1418, 223, 130, 1550, 193, 105]"
  by code_simp

lemma objectQueries_get: "x \<in> set objectQueries \<Longrightarrow> map_of objectQueries (fst x) = Some (snd x)"
proof -
  have "distinct (map (length \<circ> fst) objectQueries)" by (simp only: objectQueries_length) simp
  then have "distinct (map length (map fst objectQueries))" by simp
  then have "distinct (map fst objectQueries)" by (simp only: distinct_map)
  then show "x \<in> set objectQueries \<Longrightarrow> map_of objectQueries (fst x) = Some (snd x)" by (intro map_of_is_SomeI) simp_all
qed

lemma objectQueries_tags:
  "map_of objectQueries lookupRoleQuery = Some RoleQuery" "map_of objectQueries resolveRoutineQuery = Some RoutineQuery"
  "map_of objectQueries roleExistsQuery = Some RoleExistsQuery" "map_of objectQueries heldDefaultQuery = Some HeldDefaultQuery"
  "map_of objectQueries ''SELECT EXISTS(SELECT 1 FROM pg_catalog.pg_namespace WHERE nspname = $1)'' = Some SchemaExistsQuery"
  using objectQueries_get [of "(lookupRoleQuery, RoleQuery)"] objectQueries_get [of "(resolveRoutineQuery, RoutineQuery)"]
    objectQueries_get [of "(roleExistsQuery, RoleExistsQuery)"] objectQueries_get [of "(heldDefaultQuery, HeldDefaultQuery)"]
    objectQueries_get [of "(''SELECT EXISTS(SELECT 1 FROM pg_catalog.pg_namespace WHERE nspname = $1)'', SchemaExistsQuery)"]
  by (simp_all add: objectQueries_def)

lemma objectQueries_kind:
  "schemaObjectQueries k = Some q \<Longrightarrow> map_of objectQueries q = Some (ListQuery k)"
    "resolveObjectQueries k = Some q \<Longrightarrow> map_of objectQueries q = Some (NameQuery k)"
    "resolveOIDQueries k = Some q \<Longrightarrow> map_of objectQueries q = Some (OIDQuery k)"
proof -
  have entry: "map_of objectQueries q = Some tag" if "(q, tag) \<in> set objectQueries" for tag
    using objectQueries_get [OF that] by simp
  have k: "k \<in> set objectKinds" if "schemaObjectQueries k = Some q \<or> resolveObjectQueries k = Some q \<or> resolveOIDQueries k = Some q"
    using that by (auto simp: schemaObjectQueries_def resolveObjectQueries_def resolveOIDQueries_def objectKinds_def split: if_splits)
  have "(q, ListQuery k) \<in> set objectQueries" if "schemaObjectQueries k = Some q"
    using k that by (force simp: objectQueries_def)
  then show "schemaObjectQueries k = Some q \<Longrightarrow> map_of objectQueries q = Some (ListQuery k)" by (rule entry)
  have "(q, NameQuery k) \<in> set objectQueries" if "resolveObjectQueries k = Some q"
    using k that by (force simp: objectQueries_def)
  then show "resolveObjectQueries k = Some q \<Longrightarrow> map_of objectQueries q = Some (NameQuery k)" by (rule entry)
  have "(q, OIDQuery k) \<in> set objectQueries" if "resolveOIDQueries k = Some q"
    using k that by (force simp: objectQueries_def)
  then show "resolveOIDQueries k = Some q \<Longrightarrow> map_of objectQueries q = Some (OIDQuery k)" by (rule entry)
qed

lemma osDb_query: "queryDb osDb q args = State (\<lambda>s. (case map_of objectQueries q of
    None \<Rightarrow> Inl (PqError ''42601'' ''syntax error'') | Some tag \<Rightarrow> Inr (osAnswer s tag args, None), s))"
  by (simp add: osDb_def)

lemma osNames_in: "obj \<in> set (osIn s schema kind) \<Longrightarrow> osNames s kind (soIdentity obj) (soOID obj)"
  by (force simp: osIn_def osNames_def list_ex_iff)

interpretation refObjects: object_server osDb osRole "\<lambda>s schema kind. set (osIn s schema kind)" osRoutine osNames osIssued
proof unfold_locales
  fix s n
  show "wp (queryDb osDb lookupRoleQuery [SText n]) (\<lambda>r s'. s' = s \<and> catalogRow (map_option roleRow (osRole s n)) r) s"
    by (simp add: osDb_query objectQueries_tags wp_State osAnswer_def catalogRow_def split: option.splits)
next
  fix s n x assume "osRole s n = Some x"
  then show "rrVia x = []" by (auto simp: osRole_def)
next
  fix s q params
  show "wp (queryDb osDb q params) (\<lambda>_ s'. s' = s) s" by (simp add: osDb_query wp_State)
next
  fix s q
  show "wp (execDb osDb q) (\<lambda>_ s'. osIssued s' = osIssued s @ [(osNames s, q)]) s"
    by (simp add: osDb_def wp_State osIssued_def osNames_def fun_eq_iff)
next
  fix kind q schema s and params :: "sqlValue list"
  assume q: "schemaObjectQueries kind = Some q"
  show "wp (queryDb osDb q (SText schema # params)) (\<lambda>r _. \<forall>rows. r = Inr (rows, None) \<longrightarrow>
      (\<forall>row \<in> set rows. \<forall>obj. scanObject row = Inr obj \<longrightarrow> obj \<in> set (osIn s schema kind))) s"
    by (auto simp: osDb_query objectQueries_kind(1) [OF q] wp_State osAnswer_def scanObject_row split: list.splits sqlValue.splits)
next
  fix schema name args s
  show "wp (queryDb osDb resolveRoutineQuery [SText schema, SText name, SText args])
      (\<lambda>r _. \<forall>rows e v. r = Inr ([SInt v] # rows, e) \<longrightarrow> osRoutine s schema name args = Some v) s"
    by (simp add: osDb_query objectQueries_tags wp_State osAnswer_def split: option.splits)
next
  fix kind q identity schema s
  assume q: "resolveObjectQueries kind = Some q"
  show "wp (queryDb osDb q [SText identity, SText schema])
      (\<lambda>r _. \<forall>rows e oid canonical. r = Inr ([SInt oid, SText canonical] # rows, e) \<longrightarrow> osNames s kind canonical oid) s"
    by (auto simp: osDb_query objectQueries_kind(2) [OF q] wp_State osAnswer_def resolvedRow_def map_eq_Cons_conv filter_eq_Cons_iff
        intro!: osNames_in [of _ s schema])
next
  fix kind q oid s
  assume q: "resolveOIDQueries kind = Some q"
  show "wp (queryDb osDb q [SInt oid])
      (\<lambda>r _. \<forall>rows e found canonical. r = Inr ([SInt found, SText canonical] # rows, e) \<longrightarrow> found = oid \<and> osNames s kind canonical oid) s"
    by (auto simp: osDb_query objectQueries_kind(3) [OF q] wp_State osAnswer_def resolvedRow_def osNames_def list_ex_iff map_eq_Cons_conv filter_eq_Cons_iff)
next
  fix obj s schema kind assume "obj \<in> set (osIn s schema kind)"
  then show "soOID obj \<noteq> 0" by (auto simp: osIn_def)
qed

section \<open>It is a default server\<close>

text \<open>The status of the Database is part of the server's state.\<close>

definition osSave :: "Database \<Rightarrow> (objectServer, error option) state" where
  "osSave d = State (\<lambda>s. (None, s\<lparr>osLedger := defaultLedger (dtManagedDefaultPrivileges (dbStatus d))\<rparr>))"

lemma osAcl_frame [simp]:
  "osPrivs (s\<lparr>osLedger := L\<rparr>) = osPrivs s" "osOpts (s\<lparr>osLedger := L\<rparr>) = osOpts s"
  by (simp_all add: osPrivs_def osOpts_def fun_eq_iff)

lemma osRevoke_entry:
  "(k', p, b) \<in> set (osRevoke oo k ps acl) \<longleftrightarrow>
    (if k' = k \<and> p \<in> set ps then oo \<and> \<not> b \<and> (\<exists>b'. (k', p, b') \<in> set acl) else (k', p, b) \<in> set acl)"
  by (cases oo; induction acl) (auto simp: osRevoke_def split: if_splits)

lemma osHeldDefault_rows:
  assumes "defaultObjectKinds (dtKind t) = Some (objtype, object)"
  shows "set (concat (map (\<lambda>kind. osHeldDefault s objtype (\<lparr>dtForRole = dtForRole t, dtSchema = dtSchema t, dtKind = kind\<rparr>, g)) defaultWords)) =
    {[SText p, SBool b] | p b. ((t, g), p, b) \<in> set (osDefaults s)}"
proof -
  have inj: "kind = dtKind t" if "kind \<in> set defaultWords" "map_option fst (defaultObjectKinds kind) = Some objtype" for kind
    using assms that by (auto simp: defaultObjectKinds_def defaultWords_def split: if_splits)
  let ?rows = "\<lambda>kind. osHeldDefault s objtype (\<lparr>dtForRole = dtForRole t, dtSchema = dtSchema t, dtKind = kind\<rparr>, g)"
  have t: "\<lparr>dtForRole = dtForRole t, dtSchema = dtSchema t, dtKind = dtKind t\<rparr> = t" by simp
  have own: "set (?rows (dtKind t)) = {[SText p, SBool b] | p b. ((t, g), p, b) \<in> set (osDefaults s)}"
    unfolding t using assms by (force simp: osHeldDefault_def)
  have other: "?rows kind = []" if "kind \<in> set defaultWords" "kind \<noteq> dtKind t" for kind
    using inj [OF that(1)] that(2) by (auto simp: osHeldDefault_def filter_empty_conv)
  have kind: "dtKind t \<in> set defaultWords" using defaultObjectKinds_word [OF assms] by simp
  have "x \<in> set (concat (map ?rows defaultWords)) \<longleftrightarrow> x \<in> set (?rows (dtKind t))" for x
  proof
    assume "x \<in> set (concat (map ?rows defaultWords))"
    then obtain k where "k \<in> set defaultWords" "x \<in> set (?rows k)" by auto
    with other [of k] show "x \<in> set (?rows (dtKind t))" by (cases "k = dtKind t") auto
  next
    assume "x \<in> set (?rows (dtKind t))"
    with kind show "x \<in> set (concat (map ?rows defaultWords))" by auto
  qed
  with own show ?thesis by blast
qed

interpretation refRoleLookup: role_lookup "LookupRole osDb" osRole
  by unfold_locales (rule refObjects.LookupRole_post)

interpretation refDefaults: default_server "LookupRole osDb" osRole osDb True osPrivs osOpts osLedger osSave
proof unfold_locales
  fix q t ps g w s assume q: "parseDefault True q = Some (DefaultGrant t ps g w)"
  show "wp (execDb osDb q) (\<lambda>e s'. grantEffect osPrivs osOpts (t, g) ps w s e s' \<and> osLedger s' = osLedger s) s"
    by (auto simp: osDb_def wp_State osExec_def q grantEffect_def osPrivs_def osOpts_def)
next
  fix q t oo ps g c s assume q: "parseDefault True q = Some (DefaultRevoke t oo ps g c)"
  show "wp (execDb osDb q) (\<lambda>e s'. revokeEffect osPrivs osOpts (t, g) ps \<lparr>GrantOptionOnly = oo, Cascade = c\<rparr> s e s' \<and> osLedger s' = osLedger s) s"
    by (auto simp: osDb_def wp_State osExec_def q revokeEffect_def osPrivs_def osOpts_def osRevoke_entry)
next
  fix t :: DefaultPrivilegesTarget and objtype object gr s
  assume k: "defaultObjectKinds (dtKind t) = Some (objtype, object)"
  have "granteeOf gr = (if IsPublic gr then None else Some gr)" by (simp add: granteeOf_def)
  then show "wp (queryDb osDb heldDefaultQuery [SText (dtForRole t), SText (dtSchema t), SText objtype, SBool (IsPublic gr), SText gr])
      (\<lambda>r s'. sameAcl osPrivs osOpts s s' \<and> osLedger s' = osLedger s \<and>
        (\<forall>rows. r = Inr (rows, None) \<longrightarrow> defaultRows (osPrivs s (t, granteeOf gr)) (osOpts s (t, granteeOf gr)) rows)) s"
    using osHeldDefault_rows [OF k, of s "granteeOf gr"]
    by (simp add: osDb_query objectQueries_tags wp_State osAnswer_def sameAcl_def defaultRows_def osPrivs_def osOpts_def del: set_concat) auto
next
  fix n s
  have "osPrivs s (t, g) = {} \<and> osOpts s (t, g) = {}" if "\<not> osSchemaExists s n" "dtSchema t = n" for t g
    using that by (force simp: osSchemaExists_def osPrivs_def osOpts_def list_ex_iff)
  then show "wp (SchemaExists osDb n) (\<lambda>r s'. sameAcl osPrivs osOpts s s' \<and> osLedger s' = osLedger s \<and>
      (r = Inr False \<longrightarrow> (\<forall>t g. dtSchema t = n \<longrightarrow> osPrivs s (t, g) = {} \<and> osOpts s (t, g) = {}))) s"
    by (simp add: SchemaExists_def queryBool_def queryRow_def wp_bind wp_ret osDb_query objectQueries_tags wp_State osAnswer_def firstRow_def
        scanned_def scanBool_def sameAcl_def)
next
  fix n s
  have "osPrivs s (t, g) = {} \<and> osOpts s (t, g) = {}" if "\<not> osRoleExists s n" "dtForRole t = n \<or> g = Some n" for t g
    using that by (force simp: osRoleExists_def osPrivs_def osOpts_def list_ex_iff)
  then show "wp (RoleExists osDb n) (\<lambda>r s'. sameAcl osPrivs osOpts s s' \<and> osLedger s' = osLedger s \<and>
      (r = Inr False \<longrightarrow> (\<forall>t g. dtForRole t = n \<or> g = Some n \<longrightarrow> osPrivs s (t, g) = {} \<and> osOpts s (t, g) = {}))) s"
    by (simp add: RoleExists_def queryBool_def queryRow_def wp_bind wp_ret osDb_query objectQueries_tags wp_State osAnswer_def firstRow_def
        scanned_def scanBool_def sameAcl_def)
next
  fix d s
  show "wp (osSave d) (\<lambda>e s'. sameAcl osPrivs osOpts s s' \<and>
      (e = None \<longrightarrow> osLedger s' = defaultLedger (dtManagedDefaultPrivileges (dbStatus d))) \<and>
      (osLedger s' = osLedger s \<or> osLedger s' = defaultLedger (dtManagedDefaultPrivileges (dbStatus d)))) s"
    by (simp add: osSave_def wp_State sameAcl_def)
qed

end
