(* ===== verification/Object_Properties.thy ===== *)
theory Object_Properties
  imports Object_Server
begin

text \<open>
  Properties of the reconcilers of object grants and default privileges, and their instances on the
  reference server.
\<close>

section \<open>The scenario of the instances\<close>

text \<open>
  The schema \<open>app\<close> has a table of the managed role \<open>bob\<close> and one of the superuser \<open>root\<close>; the spec
  grants SELECT on every table to \<open>bob\<close>, and on the future tables of both roles.
\<close>

definition exObject :: "int \<Rightarrow> string \<Rightarrow> string \<Rightarrow> bool \<Rightarrow> SchemaObject" where
  "exObject oid n owner super = \<lparr>soOID = oid, soIdentity = ''app.'' @ n, soName = n, soOwner = owner, soOwnerOID = 10,
     soOwnerSuperuser = super, soOwnerIsSessionUser = False, soExtension = [], soSecurityDefiner = False, soLanguage = [], soSubKind = ''r'',
     soACL = []\<rparr>"

definition exObjectServer :: objectServer where
  "exObjectServer = \<lparr>osRoles = map (\<lambda>(n, su). \<lparr>rrName = n, rrVia = [], rrComment = ''m-'' @ n, rrSuperuser = su, rrCreateRole = False,
       rrReplication = False, rrBypassRLS = False\<rparr>) [(''bob'', False), (''root'', True)],
     osObjects = [(''app'', SchemaTable, exObject 7 ''mine'' ''bob'' False), (''app'', SchemaTable, exObject 8 ''theirs'' ''root'' True)],
     osDefaults = [], osSent = [], osLedger = []\<rparr>"

definition exObjectChecker :: granteeChecker where
  "exObjectChecker = \<lparr>gcPolicy = None, gcManaged = [(''bob'', ''m-bob'')], gcDeleting = [], gcCache = [], gcForRoles = [], gcOwners = []\<rparr>"

definition exDefaultSpec :: "string \<Rightarrow> DefaultPrivilegeSpec" where
  "exDefaultSpec r = \<lparr>dpForRole = r, dpRole = ''bob'', dpKind = ''table'', dpPrivileges = [''select''], dpWithGrantOption = False\<rparr>"

definition exObjectDatabase :: "string list \<Rightarrow> Database" where
  "exObjectDatabase rs = \<lparr>dbMetaName = ''app'', dbMetaNamespace = ''ns'',
     dbSpec = \<lparr>dsClusterRef = \<lparr>crName = ''c''\<rparr>, dsDatabaseName = [], dsOwner = ''owner'', dsExtensions = [],
       dsSchemas = [\<lparr>ssName = ''app'', ssOwner = [], ssGrants = [],
         ssObjectGrants = [\<lparr>ogRole = ''bob'', ogKind = ''table'', ogObjects = [selectAll], ogPrivileges = [''select''], ogWithGrantOption = False\<rparr>],
         ssDefaultPrivileges = map exDefaultSpec rs\<rparr>],
       dsGrants = [], dsSettings = [], dsPublicPrivileges = None\<rparr>,
     dbStatus = \<lparr>dtReady = True, dtDatabaseName = ''app'', dtClusterUID = ''u'', dtInstalledExtensions = [], dtExtensions = [],
       dtManagedExtensionGrants = [], dtCreatedSchemas = [], dtManagedGrants = [], dtManagedSchemaGrants = [], dtManagedObjectGrants = [],
       dtManagedDefaultPrivileges = [], dtObjectGrants = [], dtRevokedPublicPrivileges = [], dtManagedSettings = [], dtConditions = []\<rparr>\<rparr>"

definition exObjectRun :: "(Database \<times> granteeChecker \<times> error option) \<times> objectServer" where
  "exObjectRun = run_state (reconcileObjectGrants osDb (LookupRole osDb) (exObjectDatabase [''bob'']) [''app''] 180000 exObjectChecker None)
     exObjectServer"

definition exDefaultRun :: "string list \<Rightarrow> (objectServer, Database) statusSaver \<Rightarrow> (Database \<times> granteeChecker \<times> error option) \<times> objectServer" where
  "exDefaultRun rs save = run_state (reconcileDefaultPrivileges osDb (LookupRole osDb) (exObjectDatabase rs) [''app''] 180000 exObjectChecker save)
     exObjectServer"

lemma exChecker_fresh: "gcCache exObjectChecker = []" "gcForRoles exObjectChecker = []" "gcOwners exObjectChecker = []"
  by (simp_all add: exObjectChecker_def)

lemma exObjectRun_sent: "osSent (snd exObjectRun) = [''GRANT SELECT ON TABLE app.mine TO '' @ quoteIdent ''bob'']"
  by code_simp

lemma exDefaultRun_sent:
  "osSent (snd (exDefaultRun [''bob'', ''root''] None)) = [''ALTER DEFAULT PRIVILEGES FOR ROLE '' @ quoteIdent ''bob'' @ '' IN SCHEMA '' @
    quoteIdent ''app'' @ '' GRANT SELECT ON TABLES TO '' @ quoteIdent ''bob'']"
  by code_simp

lemma fresh_sound:
  "gcCache c = [] \<Longrightarrow> cacheSound roles c" "gcOwners c = [] \<Longrightarrow> ownersSound roles c" "gcForRoles c = [] \<Longrightarrow> forRolesSound roles c"
  by (simp_all add: cacheSound_def ownersSound_def forRolesSound_def)

section \<open>Which statements are sent\<close>

text \<open>
  C23. Object grants: whatever errors it meets, a reconcile sends GRANT only for privileges an entry
  of a managed schema declares, on an object that entry selects and that the Cluster trusts (not an
  extension member, owned by a managed role, or by the operator and harmless), to a permitted
  grantee, and names the object by what the server renders for its OID at that moment; it sends
  REVOKE only for recorded privileges of the recorded object.
\<close>

theorem object_grants_trusted:
  assumes "object_server db roleOf objectsIn routineOf namesOf issued"
    and "\<And>d s. wp (runSaver save d) (\<lambda>_ s'. issued s' = issued s) s"
    and "gcCache c = []" "gcOwners c = []"
    and "run_state (reconcileObjectGrants db (LookupRole db) database managed v c save) s = (r, s')"
  shows "\<exists>new. issued s' = issued s @ new \<and> (\<forall>x \<in> set new.
    objectGrantStatement (\<lambda>kind oid g p w. declaredOn (dsSchemas (dbSpec database)) managed c (roleOf s) (objectsIn s) (routineOf s) kind oid g p w \<and>
      permittedGrantee c (roleOf s) g) x \<or>
    objectRevokeStatement (objectLedger (dtManagedObjectGrants (dbStatus database))) x)"
  using wp_run [OF object_server.reconcileObjectGrants_sent [OF assms(1) fresh_sound(1) [OF assms(3)] fresh_sound(2) [OF assms(4)] assms(2) refl] assms(5)]
  unfolding sentOnly_def .

theorem object_grants_trusted_witness:
  "objectGrantStatement (\<lambda>kind oid g p w. declaredOn (dsSchemas (dbSpec (exObjectDatabase [''bob'']))) [''app''] exObjectChecker (osRole exObjectServer)
      (\<lambda>schema kind. set (osIn exObjectServer schema kind)) (osRoutine exObjectServer) kind oid g p w \<and> permittedGrantee exObjectChecker (osRole exObjectServer) g)
    (osNames (snd exObjectRun), ''GRANT SELECT ON TABLE app.mine TO '' @ quoteIdent ''bob'') \<or>
   objectRevokeStatement [] (osNames (snd exObjectRun), ''GRANT SELECT ON TABLE app.mine TO '' @ quoteIdent ''bob'')"
proof -
  have save: "wp (runSaver None d) (\<lambda>_ s'. osIssued s' = osIssued s) s" for d :: Database and s by (simp add: runSaver_def wp_ret)
  have start: "osIssued exObjectServer = []" "objectLedger (dtManagedObjectGrants (dbStatus (exObjectDatabase [''bob'']))) = []"
    by (simp_all add: osIssued_def exObjectServer_def exObjectDatabase_def objectLedger_def map_filter_simps)
  have run: "run_state (reconcileObjectGrants osDb (LookupRole osDb) (exObjectDatabase [''bob'']) [''app''] 180000 exObjectChecker None) exObjectServer =
      (fst exObjectRun, snd exObjectRun)" by (simp add: exObjectRun_def)
  have sent: "osIssued (snd exObjectRun) = [(osNames (snd exObjectRun), ''GRANT SELECT ON TABLE app.mine TO '' @ quoteIdent ''bob'')]"
    by (simp add: osIssued_def exObjectRun_sent)
  from object_grants_trusted [OF refObjects.object_server_axioms save exChecker_fresh(1,3) run] show ?thesis
    unfolding start sent by simp
qed

text \<open>
  C24. Default privileges: whatever errors it meets, a reconcile sends ALTER DEFAULT PRIVILEGES with
  GRANT only for privileges an entry of a managed schema declares, for a role the Cluster manages
  and that is no superuser, to a permitted grantee; with REVOKE only for recorded privileges.
\<close>

theorem default_privileges_trusted:
  assumes "object_server db roleOf objectsIn routineOf namesOf issued"
    and "\<And>d s. wp (runSaver save d) (\<lambda>_ s'. issued s' = issued s) s"
    and "gcCache c = []" "gcForRoles c = []"
    and "run_state (reconcileDefaultPrivileges db (LookupRole db) database managed v c save) s = (r, s')"
  shows "\<exists>new. issued s' = issued s @ new \<and> (\<forall>x \<in> set new.
    defaultGrantStatement (\<lambda>t g p w. declaredDefault (dsSchemas (dbSpec database)) managed t g p w \<and>
      permittedForRole c (roleOf s) (dtForRole t) \<and> permittedGrantee c (roleOf s) g) (snd x) \<or>
    defaultRevokeStatement (defaultLedger (dtManagedDefaultPrivileges (dbStatus database))) (snd x))"
  using wp_run [OF object_server.reconcileDefaultPrivileges_sent [OF assms(1) fresh_sound(1) [OF assms(3)] fresh_sound(3) [OF assms(4)] assms(2) refl] assms(5)]
  unfolding sentOnly_def .

theorem default_privileges_trusted_witness:
  "\<exists>q. osSent (snd (exDefaultRun [''bob'', ''root''] None)) = [q] \<and>
    (defaultGrantStatement (\<lambda>t g p w. declaredDefault (dsSchemas (dbSpec (exObjectDatabase [''bob'', ''root'']))) [''app''] t g p w \<and>
      permittedForRole exObjectChecker (osRole exObjectServer) (dtForRole t) \<and> permittedGrantee exObjectChecker (osRole exObjectServer) g) q \<or>
     defaultRevokeStatement [] q)"
proof -
  have save: "wp (runSaver None d) (\<lambda>_ s'. osIssued s' = osIssued s) s" for d :: Database and s by (simp add: runSaver_def wp_ret)
  have start: "osIssued exObjectServer = []" "defaultLedger (dtManagedDefaultPrivileges (dbStatus (exObjectDatabase [''bob'', ''root'']))) = []"
    by (simp_all add: osIssued_def exObjectServer_def exObjectDatabase_def defaultLedger_def map_filter_simps)
  let ?s = "snd (exDefaultRun [''bob'', ''root''] None)"
  have run: "run_state (reconcileDefaultPrivileges osDb (LookupRole osDb) (exObjectDatabase [''bob'', ''root'']) [''app''] 180000 exObjectChecker None) exObjectServer =
      (fst (exDefaultRun [''bob'', ''root''] None), ?s)" by (simp add: exDefaultRun_def)
  obtain q where q: "osSent ?s = [q]" using exDefaultRun_sent by blast
  then have sent: "osIssued ?s = [(osNames ?s, q)]" by (simp add: osIssued_def)
  from default_privileges_trusted [OF refObjects.object_server_axioms save exChecker_fresh(1,2) run] q show ?thesis
    unfolding start sent by simp
qed

section \<open>What default privileges are held\<close>

text \<open>
  C25. Convergence of default privileges: when a reconcile reports no error, the policy permits every
  declared role and grantee, the server supports every declared privilege, every declared privilege
  and grant option is held, and every recorded privilege that is no longer declared is gone.
\<close>

theorem default_privileges_converge:
  assumes "default_server lookup roleOf db scs privsOf optsOf stored saveStatus"
    and "wfDefaults database" and "gcCache c = []" "gcForRoles c = []"
    and "desiredDefaultPrivileges (dsSchemas (dbSpec database)) managed v = Inr (flds, unsupported)"
    and "run_state (reconcileDefaultPrivileges db lookup database managed v c (Some saveStatus)) s = ((database', c', None), s')"
    and "defaultValid t"
  defines "declared \<equiv> concat (map snd flds)"
  shows "permittedDefaults c (roleOf s) declared = declared \<and> (flds \<noteq> [] \<longrightarrow> unsupported = []) \<and>
    recPrivs declared (targetKey t) \<subseteq> privsOf s' (defaultKeyOf t) \<and> recOpts declared (targetKey t) \<subseteq> optsOf s' (defaultKeyOf t) \<and>
    privsOf s' (defaultKeyOf t) \<inter>
      (recPrivs (defaultLedger (dtManagedDefaultPrivileges (dbStatus database))) (targetKey t) - recPrivs declared (targetKey t)) = {}"
proof -
  from wp_run [OF default_server.reconcileDefaultPrivileges_post [OF assms(1,2) fresh_sound(1) [OF assms(3)] fresh_sound(3) [OF assms(4)] assms(5)] assms(6)]
  have "(flds = [] \<and> defaultLedger (dtManagedDefaultPrivileges (dbStatus database)) = []) \<or>
      default_server.defaultsRun roleOf privsOf optsOf stored c declared unsupported database s database' None s'"
    unfolding prod.case declared_def by blast
  then show ?thesis
  proof
    assume "default_server.defaultsRun roleOf privsOf optsOf stored c declared unsupported database s database' None s'"
    then have a: "applied (keyedDefault privsOf) (keyedDefault optsOf) stored declared
        (defaultLedger (dtManagedDefaultPrivileges (dbStatus database))) defaultPrivilegeLedgerLimit True s
        (defaultLedger (dtManagedDefaultPrivileges (dbStatus database')), None) s'"
      and d: "permittedDefaults c (roleOf s) declared = declared" "unsupported = []"
      unfolding default_server.defaultsRun_def [OF assms(1)] Let_def by auto
    show ?thesis
      using applied_key(5-7) [OF a refl, of "targetKey t"] d by (simp add: keyedDefault_key [OF assms(7)])
  qed (simp add: declared_def permittedDefaults_def recPrivs_def recOpts_def)
qed

lemma exDefaultRun_ok: "case exDefaultRun [''bob''] (Some osSave) of ((d, c, err), s') \<Rightarrow> err = None \<and>
    osDefaults s' = [((\<lparr>dtForRole = ''bob'', dtSchema = ''app'', dtKind = DefaultTables\<rparr>, Some ''bob''), PrivilegeSelect, False)]"
  by code_simp

theorem default_privileges_converge_witness:
  "\<exists>s' :: objectServer. PrivilegeSelect \<in> osPrivs s' (\<lparr>dtForRole = ''bob'', dtSchema = ''app'', dtKind = DefaultTables\<rparr>, Some ''bob'')"
proof -
  let ?t = "\<lparr>tKind = ''DEFAULT TABLES'', tName = ''app'', tGrantee = ''bob'', tSchema = [], tForRole = ''bob'', tOID = 0\<rparr>"
  obtain d c s' where run: "run_state (reconcileDefaultPrivileges osDb (LookupRole osDb) (exObjectDatabase [''bob'']) [''app''] 180000 exObjectChecker (Some osSave))
      exObjectServer = ((d, c, None), s')"
    using exDefaultRun_ok by (auto simp: exDefaultRun_def split: prod.splits)
  have wf: "wfDefaults (exObjectDatabase [''bob''])"
  proof -
    have "validGrantee ''bob''" "length ''app'' \<le> nameDataLen" "length ''bob'' \<le> nameDataLen" by code_simp+
    then show ?thesis by (simp add: wfDefaults_def exObjectDatabase_def exDefaultSpec_def)
  qed
  have "case desiredDefaultPrivileges (dsSchemas (dbSpec (exObjectDatabase [''bob'']))) [''app''] 180000 of
      Inl _ \<Rightarrow> False | Inr (flds, uns) \<Rightarrow> concat (map snd flds) = [desiredGrant ?t [PrivilegeSelect] False]"
    by code_simp
  then obtain flds uns where d: "desiredDefaultPrivileges (dsSchemas (dbSpec (exObjectDatabase [''bob'']))) [''app''] 180000 = Inr (flds, uns)"
      "concat (map snd flds) = [desiredGrant ?t [PrivilegeSelect] False]"
    by (auto split: sum.splits)
  have t: "defaultValid ?t" "defaultKeyOf ?t = (\<lparr>dtForRole = ''bob'', dtSchema = ''app'', dtKind = DefaultTables\<rparr>, Some ''bob'')" by code_simp+
  have "recPrivs [desiredGrant ?t [PrivilegeSelect] False] (targetKey ?t) = {PrivilegeSelect}"
    by (simp add: recPrivs_def grantKey_def desiredGrant_def)
  with default_privileges_converge [OF refDefaults.default_server_axioms wf exChecker_fresh(1,2) d(1) run t(1)] show ?thesis
    unfolding t(2) d(2) by auto
qed

section \<open>How the statements are read\<close>

text \<open>
  C29. Default privilege statements: PostgreSQL reads ALTER DEFAULT PRIVILEGES as the role, the
  schema, the kind of objects, the privileges, the grantee and the options it was built from.
\<close>

theorem default_statements_exact:
  assumes "length (dtForRole t) \<le> nameDataLen" "length (dtSchema t) \<le> nameDataLen" "length g \<le> nameDataLen"
  shows "(\<forall>q. buildDefaultPrivilegesQuery True t g ps w mode = Inr q \<longrightarrow> (\<exists>privs. set privs = canonicalKeyword ` set ps \<and>
      parseDefault scs q = Some (DefaultGrant t privs (granteeOf g) w))) \<and>
    (\<forall>q. buildDefaultPrivilegesQuery False t g ps w mode = Inr q \<longrightarrow> (\<exists>privs. set privs = canonicalKeyword ` set ps \<and>
      parseDefault scs q = Some (DefaultRevoke t (GrantOptionOnly mode) privs (granteeOf g) (Cascade mode))))"
  using defaultGrant_reads [OF _ assms] defaultRevoke_reads [OF _ assms] by blast

theorem default_statements_exact_witness:
  "\<exists>q privs. buildDefaultPrivilegesQuery True \<lparr>dtForRole = ''a'' @ [dquote] @ ''b'', dtSchema = ''app'', dtKind = DefaultTables\<rparr> ''bob'' [''select''] True
      plainMode = Inr q \<and>
    set privs = {PrivilegeSelect} \<and> parseDefault False q =
      Some (DefaultGrant \<lparr>dtForRole = ''a'' @ [dquote] @ ''b'', dtSchema = ''app'', dtKind = DefaultTables\<rparr> privs (Some ''bob'') True)"
proof -
  let ?t = "\<lparr>dtForRole = ''a'' @ [dquote] @ ''b'', dtSchema = ''app'', dtKind = DefaultTables\<rparr>"
  have "case buildDefaultPrivilegesQuery True ?t ''bob'' [''select''] True plainMode of Inl _ \<Rightarrow> False | Inr _ \<Rightarrow> True" by code_simp
  then obtain q where q: "buildDefaultPrivilegesQuery True ?t ''bob'' [''select''] True plainMode = Inr q" by (auto split: sum.splits)
  have f: "granteeOf ''bob'' = Some ''bob''" "canonicalKeyword ` set [''select''] = {PrivilegeSelect}" by code_simp+
  have "length (dtForRole ?t) \<le> nameDataLen" "length (dtSchema ?t) \<le> nameDataLen" "length ''bob'' \<le> nameDataLen" by code_simp+
  from default_statements_exact [OF this, THEN conjunct1, THEN spec, THEN mp, OF q, of False] obtain privs where
    "set privs = canonicalKeyword ` set [''select'']" "parseDefault False q = Some (DefaultGrant ?t privs (granteeOf ''bob'') True)" by blast
  with q f show ?thesis by metis
qed

end
