(* ===== verification/Role_Cleanup.thy ===== *)
theory Role_Cleanup
  imports Object_Access Kube_Types
begin

text \<open>
  What pgop takes away before it drops a role: the client methods of \<open>internal/postgres/role_cleanup.go\<close>,
  \<open>role_reassign.go\<close> and \<open>extensions.go\<close> that revoke everything a role holds on databases, schemas and
  extension members or hand over what it owns, and \<open>internal/controller/role_object_cleanup.go\<close>, which
  works out what the ledgers of the Databases record for a role and revokes that.

  The field \<open>Detail\<close> of a driver error is a parameter. A \<open>*sql.Tx\<close> runs its statements on the
  connection it was begun on.
\<close>

section \<open>Revoking everything a role holds\<close>

text \<open>\<open>for _, x := range xs { if err := f(x); err != nil { return err } }\<close>\<close>

fun stopAtError :: "('a \<Rightarrow> ('s, error option) state) \<Rightarrow> 'a list \<Rightarrow> ('s, error option) state" where
  "stopAtError f [] = ret None"
| "stopAtError f (x # xs) = do { e \<leftarrow> f x; (case e of None \<Rightarrow> stopAtError f xs | Some err \<Rightarrow> ret (Some err)) }"

definition listStrings :: "'s db \<Rightarrow> string \<Rightarrow> sqlValue \<Rightarrow> ('s, error + string list) state" where
  "listStrings db query arg = do {
     r \<leftarrow> queryDb db query [arg];
     ret (case r of
            Inl e \<Rightarrow> Inl e
          | Inr (rows, streamErr) \<Rightarrow>
              (case scanRows scanText rows of
                 Inl e \<Rightarrow> Inl e
               | Inr out \<Rightarrow> (case streamErr of Some e \<Rightarrow> Inl e | None \<Rightarrow> Inr out)))
   }"

definition revokeAllQuery :: "string \<Rightarrow> string \<Rightarrow> string" where
  "revokeAllQuery object role = buildRevokeQuery [PrivilegeAll] object (quoteIdent role) \<lparr>GrantOptionOnly = False, Cascade = True\<rparr>"

definition databasePrivilegesQuery :: string where
  "databasePrivilegesQuery =
     ''SELECT DISTINCT d.datname FROM pg_database d, aclexplode(d.datacl) a'' @ [CHR 0x0A] @
     ''WHERE a.grantee = (SELECT oid FROM pg_roles WHERE rolname = $1)''"

definition RevokeAllDatabasePrivileges :: "'s db \<Rightarrow> string \<Rightarrow> ('s, error option) state" where
  "RevokeAllDatabasePrivileges db role = do {
     r \<leftarrow> listStrings db databasePrivilegesQuery (SText role);
     (case r of
        Inl e \<Rightarrow> ret (Some (Wrapf ''failed to list database privileges of %q: %w'' [role] e))
      | Inr dbs \<Rightarrow> stopAtError (\<lambda>d. execWrap db (revokeAllQuery (''DATABASE '' @ quoteIdent d) role)
          ''failed to revoke privileges on database %q from %q: %w'' [d, role]) dbs)
   }"

record DatabaseRef =
  drName :: string
  drAllowConns :: bool

definition scanDatabaseRef :: "sqlValue list \<Rightarrow> error + DatabaseRef" where
  "scanDatabaseRef row = (case row of [SText n, SBool b] \<Rightarrow> Inr \<lparr>drName = n, drAllowConns = b\<rparr> | _ \<Rightarrow> Inl scanError)"

definition objectPrivilegesQuery :: string where
  "objectPrivilegesQuery =
     ''SELECT DISTINCT d.datname, d.datallowconn FROM pg_catalog.pg_shdepend s'' @ [CHR 0x0A] @
     ''JOIN pg_catalog.pg_database d ON d.oid = s.dbid'' @ [CHR 0x0A] @
     ''WHERE s.deptype = 'a' AND s.classid IN ('pg_catalog.pg_namespace'::pg_catalog.regclass,'' @ [CHR 0x0A] @
     ''    'pg_catalog.pg_class'::pg_catalog.regclass, 'pg_catalog.pg_proc'::pg_catalog.regclass)'' @ [CHR 0x0A] @
     ''  AND s.refclassid = 'pg_catalog.pg_authid'::pg_catalog.regclass'' @ [CHR 0x0A] @
     ''  AND s.refobjid = (SELECT oid FROM pg_catalog.pg_roles WHERE rolname = $1)'' @ [CHR 0x0A] @
     ''ORDER BY d.datname''"

definition DatabasesWithObjectPrivileges :: "'s db \<Rightarrow> string \<Rightarrow> ('s, error + DatabaseRef list) state" where
  "DatabasesWithObjectPrivileges db role =
     queryRows db objectPrivilegesQuery [SText role] scanDatabaseRef
       ''failed to list schema privileges of %q: %w'' [role] ''failed to scan database: %w''"

definition schemaPrivilegesQuery :: string where
  "schemaPrivilegesQuery =
     ''SELECT DISTINCT n.nspname FROM pg_namespace n, aclexplode(n.nspacl) a'' @ [CHR 0x0A] @
     ''WHERE a.grantee = (SELECT oid FROM pg_roles WHERE rolname = $1)''"

definition RevokeAllSchemaPrivileges :: "'s db \<Rightarrow> string \<Rightarrow> ('s, error option) state" where
  "RevokeAllSchemaPrivileges db role = do {
     r \<leftarrow> listStrings db schemaPrivilegesQuery (SText role);
     (case r of
        Inl e \<Rightarrow> ret (Some (Wrapf ''failed to list schema privileges of %q: %w'' [role] e))
      | Inr schemas \<Rightarrow> stopAtError (\<lambda>sch. execWrap db (revokeAllQuery (''SCHEMA '' @ quoteIdent sch) role)
          ''failed to revoke privileges on schema %q from %q: %w'' [sch, role]) schemas)
   }"

definition extensionMembersQuery :: string where
  "extensionMembersQuery =
     ''SELECT m.kind, m.ident FROM ('' @ [CHR 0x0A] @
     ''  SELECT CASE WHEN c.relkind = 'S' THEN 'SEQUENCE' ELSE 'TABLE' END AS kind, c.oid::pg_catalog.regclass::text AS ident, c.relacl AS acl'' @ [CHR 0x0A] @
     ''  FROM pg_catalog.pg_class c JOIN pg_catalog.pg_depend d ON d.objid = c.oid'' @ [CHR 0x0A] @
     ''  WHERE d.classid = 'pg_catalog.pg_class'::pg_catalog.regclass AND d.refclassid = 'pg_catalog.pg_extension'::pg_catalog.regclass'' @ [CHR 0x0A] @
     ''    AND d.deptype = 'e' AND c.relkind IN ('r', 'p', 'v', 'm', 'f', 'S')'' @ [CHR 0x0A] @
     ''  UNION ALL'' @ [CHR 0x0A] @
     ''  SELECT 'ROUTINE', p.oid::pg_catalog.regprocedure::text, p.proacl'' @ [CHR 0x0A] @
     ''  FROM pg_catalog.pg_proc p JOIN pg_catalog.pg_depend d ON d.objid = p.oid'' @ [CHR 0x0A] @
     ''  WHERE d.classid = 'pg_catalog.pg_proc'::pg_catalog.regclass AND d.refclassid = 'pg_catalog.pg_extension'::pg_catalog.regclass'' @ [CHR 0x0A] @
     ''    AND d.deptype = 'e'' @ [squote, CHR 0x0A] @
     '') m WHERE EXISTS (SELECT 1 FROM pg_catalog.aclexplode(m.acl) a'' @ [CHR 0x0A] @
     ''  WHERE a.grantee = (SELECT oid FROM pg_catalog.pg_roles WHERE rolname = $1))''"

definition scanMember :: "sqlValue list \<Rightarrow> error + string \<times> string" where
  "scanMember row = (case row of [SText kind, SText ident] \<Rightarrow> Inr (kind, ident) | _ \<Rightarrow> Inl scanError)"

definition RevokeAllExtensionMemberPrivileges :: "'s db \<Rightarrow> string \<Rightarrow> ('s, error option) state" where
  "RevokeAllExtensionMemberPrivileges db role = do {
     r \<leftarrow> queryRows db extensionMembersQuery [SText role] scanMember
       ''failed to list extension object privileges of %q: %w'' [role] ''failed to scan extension object: %w'';
     (case r of
        Inl e \<Rightarrow> ret (Some e)
      | Inr objs \<Rightarrow> stopAtError (\<lambda>(kind, ident). execWrap db (revokeAllQuery (kind @ '' '' @ ident) role)
          ''failed to revoke privileges on %s %s from %q: %w'' [toLower kind, ident, role]) objs)
   }"

section \<open>DROP ROLE\<close>

record DependentObjectsError =
  doeRole :: string
  doeDetail :: string
  doeErr :: error

definition DependentObjectsMessage :: "DependentObjectsError \<Rightarrow> string" where
  "DependentObjectsMessage e =
     sprintf ''role %q cannot be dropped because objects or privileges depend on it: %s'' [doeRole e, doeDetail e]"

abbreviation maxDetailLength :: nat where "maxDetailLength \<equiv> 1024"

definition dependentObjectsError :: "(error \<Rightarrow> string) \<Rightarrow> string \<Rightarrow> error \<Rightarrow> DependentObjectsError option" where
  "dependentObjectsError detailOf role err =
     (if asPqError err \<noteq> Some sqlStateDependentObjects then None
      else (let detail = detailOf err
            in Some \<lparr>doeRole = role,
                 doeDetail = (if length detail > maxDetailLength then take maxDetailLength detail @ ''...'' else detail),
                 doeErr = err\<rparr>))"

datatype dropError = Dependents DependentObjectsError | DropFailed error

definition DropRole :: "(error \<Rightarrow> string) \<Rightarrow> 's db \<Rightarrow> string \<Rightarrow> ('s, dropError option) state" where
  "DropRole detailOf db name = do {
     e \<leftarrow> execDb db (dropRoleQuery name);
     ret (case e of
            None \<Rightarrow> None
          | Some err \<Rightarrow> (case dependentObjectsError detailOf name err of
              Some dep \<Rightarrow> Some (Dependents dep)
            | None \<Rightarrow> Some (DropFailed (Wrapf ''failed to drop role: %w'' [] err))))
   }"

section \<open>Handing over what a role owns\<close>

record ReassignTargetInfo =
  rtiExists :: bool
  rtiSuper :: bool
  rtiOldHasUsage :: bool

definition reassignTargetQuery :: string where
  "reassignTargetQuery =
     ''SELECT r.rolsuper, pg_catalog.pg_has_role($1::name, r.oid, 'USAGE')'' @ [CHR 0x0A] @
     ''FROM pg_catalog.pg_roles r WHERE r.rolname = $2''"

definition scanReassign :: "sqlValue list \<Rightarrow> error + ReassignTargetInfo" where
  "scanReassign row =
     (case row of [SBool su, SBool us] \<Rightarrow> Inr \<lparr>rtiExists = True, rtiSuper = su, rtiOldHasUsage = us\<rparr> | _ \<Rightarrow> Inl scanError)"

definition RoleReassignTarget :: "'s db \<Rightarrow> string \<Rightarrow> string \<Rightarrow> ('s, error + ReassignTargetInfo) state" where
  "RoleReassignTarget db old target = do {
     r \<leftarrow> queryRow db reassignTargetQuery [SText old, SText target];
     ret (case scanned scanReassign r of
            Inl e \<Rightarrow>
              if e = ErrNoRows then Inr \<lparr>rtiExists = False, rtiSuper = False, rtiOldHasUsage = False\<rparr>
              else Inl (Wrapf ''failed to inspect role %q: %w'' [target] e)
          | Inr info \<Rightarrow> Inr info)
   }"

definition ownedObjectsQuery :: string where
  "ownedObjectsQuery =
     ''SELECT DISTINCT d.datname, d.datallowconn FROM pg_catalog.pg_shdepend s'' @ [CHR 0x0A] @
     ''JOIN pg_catalog.pg_database d ON d.oid = s.dbid'' @ [CHR 0x0A] @
     ''WHERE s.deptype = 'o'' @ [squote, CHR 0x0A] @
     ''  AND s.refclassid = 'pg_catalog.pg_authid'::pg_catalog.regclass'' @ [CHR 0x0A] @
     ''  AND s.refobjid = (SELECT oid FROM pg_catalog.pg_roles WHERE rolname = $1)'' @ [CHR 0x0A] @
     ''ORDER BY d.datname''"

definition DatabasesWithOwnedObjects :: "'s db \<Rightarrow> string \<Rightarrow> ('s, error + DatabaseRef list) state" where
  "DatabasesWithOwnedObjects db role = do {
     r \<leftarrow> queryDb db ownedObjectsQuery [SText role];
     ret (case r of
            Inl e \<Rightarrow> Inl (Wrapf ''failed to list databases with objects owned by %q: %w'' [role] e)
          | Inr (rows, streamErr) \<Rightarrow>
              (case scanRows scanDatabaseRef rows of
                 Inl e \<Rightarrow> Inl (Wrapf ''failed to scan database: %w'' [] e)
               | Inr out \<Rightarrow> (case streamErr of Some e \<Rightarrow> Inl e | None \<Rightarrow> Inr out)))
   }"

definition databasesOwnedQuery :: string where
  "databasesOwnedQuery =
     ''SELECT d.datname FROM pg_catalog.pg_database d'' @ [CHR 0x0A] @
     ''JOIN pg_catalog.pg_roles r ON r.oid = d.datdba WHERE r.rolname = $1 ORDER BY d.datname''"

definition DatabasesOwnedBy :: "'s db \<Rightarrow> string \<Rightarrow> ('s, error + string list) state" where
  "DatabasesOwnedBy db role = do {
     r \<leftarrow> listStrings db databasesOwnedQuery (SText role);
     ret (case r of Inl e \<Rightarrow> Inl (Wrapf ''failed to list databases owned by %q: %w'' [role] e) | Inr out \<Rightarrow> Inr out)
   }"

definition buildReassignOwnedQueries :: "string \<Rightarrow> string \<Rightarrow> string list" where
  "buildReassignOwnedQueries old target =
     [''REASSIGN OWNED BY '' @ quoteIdent old @ '' TO '' @ quoteIdent target, ''DROP OWNED BY '' @ quoteIdent old]"

text \<open>One statement of the transaction: an error rolls back and ends the function.\<close>

definition reassignStep :: "'s db \<Rightarrow> string \<Rightarrow> string \<Rightarrow> string \<Rightarrow> ('s, error option) state" where
  "reassignStep db old target q = do {
     e \<leftarrow> execDb db q;
     (case e of
        None \<Rightarrow> ret None
      | Some err \<Rightarrow> do { _ \<leftarrow> rollbackTx db; ret (Some (Wrapf ''failed to reassign objects owned by %q to %q: %w'' [old, target] err)) })
   }"

definition ReassignOwned :: "'s db \<Rightarrow> string \<Rightarrow> string \<Rightarrow> ('s, error option) state" where
  "ReassignOwned db old target = do {
     e0 \<leftarrow> beginTx db;
     (case e0 of
        Some e \<Rightarrow> ret (Some (Wrapf ''failed to begin transaction: %w'' [] e))
      | None \<Rightarrow> do {
          e1 \<leftarrow> stopAtError (reassignStep db old target) (buildReassignOwnedQueries old target);
          (case e1 of
             Some e \<Rightarrow> ret (Some e)
           | None \<Rightarrow> do {
               e2 \<leftarrow> commitTx db;
               ret (map_option (Wrapf ''failed to commit reassignment: %w'' []) e2)
             })
        })
   }"

section \<open>What the Databases record for a role\<close>

record createdObjectsGrant =
  cgSchema :: string
  cgForRole :: string
  cgKind :: defaultKindInfo
  cgPrivileges :: "string list"

record recordedObjectAccess =
  raObjects :: "ManagedObjectGrant list"
  raDefaults :: "ManagedDefaultPrivilege list"
  raCreated :: "createdObjectsGrant list"

definition noAccess :: recordedObjectAccess where
  "noAccess = \<lparr>raObjects = [], raDefaults = [], raCreated = []\<rparr>"

text \<open>The closure \<open>at\<close>: the entry of a database, created when it is missing, is changed.\<close>

definition atDatabase :: "string \<Rightarrow> (recordedObjectAccess \<Rightarrow> recordedObjectAccess) \<Rightarrow> recordedObjectAccess gomap \<Rightarrow> recordedObjectAccess gomap" where
  "atDatabase name change out = AList.update name (change (mapGet noAccess out name)) out"

definition addRecordedObject :: "string \<Rightarrow> string \<Rightarrow> recordedObjectAccess gomap \<Rightarrow> ManagedObjectGrant \<Rightarrow> recordedObjectAccess gomap" where
  "addRecordedObject name role out g =
     (if mogRole g = role \<and> validLedgerSchema (mogSchema g)
      then atDatabase name (\<lambda>r. r\<lparr>raObjects := raObjects r @ [g]\<rparr>) out else out)"

definition addCreated :: "string \<Rightarrow> string \<Rightarrow> string \<Rightarrow> defaultKindInfo \<Rightarrow> string list
    \<Rightarrow> string list \<times> recordedObjectAccess gomap \<Rightarrow> string list \<times> recordedObjectAccess gomap" where
  "addCreated name schema forRole ki privs = (\<lambda>(seen, out).
     (let k = schema @ ''|'' @ forRole @ ''|'' @ dkApi ki
      in if \<not> validLedgerSchema schema \<or> forRole = [] \<or> privs = [] \<or> k \<in> set seen then (seen, out)
         else (k # seen, atDatabase name (\<lambda>r. r\<lparr>raCreated := raCreated r @
           [\<lparr>cgSchema = schema, cgForRole = forRole, cgKind = ki, cgPrivileges = privs\<rparr>]\<rparr>) out)))"

definition addRecordedDefault :: "string \<Rightarrow> string \<Rightarrow> string list \<times> recordedObjectAccess gomap \<Rightarrow> ManagedDefaultPrivilege
    \<Rightarrow> string list \<times> recordedObjectAccess gomap" where
  "addRecordedDefault name role st d =
     (if (mdpRole d \<noteq> role \<and> mdpForRole d \<noteq> role) \<or> \<not> validLedgerSchema (mdpSchema d) then st
      else (let st1 = (fst st, atDatabase name (\<lambda>r. r\<lparr>raDefaults := raDefaults r @ [d]\<rparr>) (snd st))
            in case defaultKindOf (mdpKind d) of
                 None \<Rightarrow> st1
               | Some ki \<Rightarrow> if mdpRole d = role
                   then addCreated name (mdpSchema d) (mdpForRole d) ki (unionStrs (mdpPrivileges d) (mdpGrantOptions d)) st1 else st1))"

definition addDeclaredDefault :: "string \<Rightarrow> string \<Rightarrow> string \<Rightarrow> string list \<times> recordedObjectAccess gomap \<Rightarrow> DefaultPrivilegeSpec
    \<Rightarrow> string list \<times> recordedObjectAccess gomap" where
  "addDeclaredDefault name role schema st d =
     (case defaultKindOf (dpKind d) of
        None \<Rightarrow> st
      | Some ki \<Rightarrow>
          if CanonicalGrantee (dpRole d) \<noteq> role then st
          else (case normalizeObjectPrivileges (dkObject ki) (dpPrivileges d) of
             Inl e \<Rightarrow> st
           | Inr privs \<Rightarrow> addCreated name schema (dpForRole d) ki privs st))"

definition recordedIn :: "Cluster \<Rightarrow> string \<Rightarrow> recordedObjectAccess gomap \<Rightarrow> Database \<Rightarrow> recordedObjectAccess gomap" where
  "recordedIn cluster role out d =
     (let name = dtDatabaseName (dbStatus d)
      in if crName (dsClusterRef (dbSpec d)) \<noteq> clName cluster \<or> dtClusterUID (dbStatus d) \<noteq> clUID cluster \<or> name = [] then out
         else (let out1 = foldl (addRecordedObject name role) out (dtManagedObjectGrants (dbStatus d));
                   st2 = foldl (addRecordedDefault name role) ([], out1) (dtManagedDefaultPrivileges (dbStatus d))
               in snd (foldl (\<lambda>st sch. foldl (addDeclaredDefault name role (ssName sch)) st (ssDefaultPrivileges sch)) st2
                    (dsSchemas (dbSpec d)))))"

definition recordedObjectAccessFrom :: "Database list \<Rightarrow> Cluster \<Rightarrow> string \<Rightarrow> recordedObjectAccess gomap" where
  "recordedObjectAccessFrom databases cluster role = foldl (recordedIn cluster role) [] databases"

section \<open>Revoking what is recorded\<close>

abbreviation cascadeMode :: RevokeMode where "cascadeMode \<equiv> \<lparr>GrantOptionOnly = False, Cascade = True\<rparr>"
abbreviation cascadeOptionMode :: RevokeMode where "cascadeOptionMode \<equiv> \<lparr>GrantOptionOnly = True, Cascade = True\<rparr>"

definition revokeRecorded :: "string list \<Rightarrow> string list \<Rightarrow> (string list \<Rightarrow> RevokeMode \<Rightarrow> ('s, error option) state) \<Rightarrow> ('s, error option) state" where
  "revokeRecorded ps opts doRevoke = do {
     e1 \<leftarrow> (if ps \<noteq> [] then doRevoke ps cascadeMode else ret None);
     e2 \<leftarrow> (let only = subtract opts ps
            in if only \<noteq> [] then doRevoke only cascadeOptionMode else ret None);
     ret (joinErrs [e1, e2])
   }"

definition revokeRecordedObject :: "'s db \<Rightarrow> ManagedObjectGrant \<Rightarrow> error option list \<Rightarrow> ('s, error option list) state" where
  "revokeRecordedObject db g errs =
     (case objectKindOf (mogKind g) of
        None \<Rightarrow> ret errs
      | Some ki \<Rightarrow> do {
          e \<leftarrow> revokeRecorded (mogPrivileges g) (mogGrantOptions g)
            (\<lambda>privs mode. RevokeOnSchemaObject db (okPg ki) (mogSchema g) (mogObject g) (mogOID g) (mogRole g) privs mode);
          ret (errs @ [e])
        })"

definition revokeRecordedDefault :: "'s db \<Rightarrow> ManagedDefaultPrivilege \<Rightarrow> error option list \<Rightarrow> ('s, error option list) state" where
  "revokeRecordedDefault db d errs =
     (case defaultKindOf (mdpKind d) of
        None \<Rightarrow> ret errs
      | Some ki \<Rightarrow> do {
          e \<leftarrow> revokeRecorded (mdpPrivileges d) (mdpGrantOptions d)
            (\<lambda>privs mode. RevokeDefaultPrivileges db \<lparr>dtForRole = mdpForRole d, dtSchema = mdpSchema d, dtKind = dkPg ki\<rparr> (mdpRole d) privs mode);
          ret (errs @ [e])
        })"

definition allObjects :: SchemaObjectSelector where
  "allObjects = \<lparr>selAll = True, selNames = [], selOIDs = [], selLimit = 0\<rparr>"

definition revokeFromObject :: "'s db \<Rightarrow> string \<Rightarrow> createdObjectsGrant \<Rightarrow> SchemaObjectKind \<Rightarrow> int \<Rightarrow> int \<Rightarrow> SchemaObject \<Rightarrow> error option list
    \<Rightarrow> ('s, error option list) state" where
  "revokeFromObject db role c kind grantee owner obj errs =
     (if soOwnerOID obj \<noteq> owner \<or> soExtension obj \<noteq> [] then ret errs
      else (let found = intersect (cgPrivileges c) (fst (Held obj grantee))
            in if found = [] then ret errs
               else do {
                 e \<leftarrow> RevokeOnSchemaObject db kind (cgSchema c) (soIdentity obj) (soOID obj) role found cascadeMode;
                 ret (errs @ [e])
               }))"

definition revokeFromKind :: "'s db \<Rightarrow> string \<Rightarrow> createdObjectsGrant \<Rightarrow> int \<Rightarrow> int \<Rightarrow> SchemaObjectKind \<Rightarrow> error option list
    \<Rightarrow> ('s, error option list) state" where
  "revokeFromKind db role c grantee owner kind errs = do {
     r \<leftarrow> ListSchemaObjects db (cgSchema c) kind allObjects;
     (case r of
        Inl e \<Rightarrow> ret (errs @ [Some e])
      | Inr objects \<Rightarrow> forEach objects (revokeFromObject db role c kind grantee owner) errs)
   }"

definition createdKinds :: "defaultKindInfo \<Rightarrow> SchemaObjectKind list" where
  "createdKinds ki = dkObject ki # (if dkObject ki = SchemaFunction then [SchemaProcedure] else [])"

definition revokeFromCreatedObjects :: "'s db \<Rightarrow> string \<Rightarrow> createdObjectsGrant \<Rightarrow> ('s, error option) state" where
  "revokeFromCreatedObjects db role c = do {
     r \<leftarrow> RoleOIDs db [role, cgForRole c];
     (case r of
        Inl e \<Rightarrow> ret (Some e)
      | Inr oids \<Rightarrow>
          (case (map_of oids role, map_of oids (cgForRole c)) of
             (Some grantee, Some owner) \<Rightarrow> do {
               errs \<leftarrow> forEach (createdKinds (cgKind c)) (revokeFromKind db role c grantee owner) [];
               ret (joinErrs errs)
             }
           | _ \<Rightarrow> ret None))
   }"

definition revokeCreated :: "'s db \<Rightarrow> string \<Rightarrow> createdObjectsGrant \<Rightarrow> error option list \<Rightarrow> ('s, error option list) state" where
  "revokeCreated db role c errs = do { e \<leftarrow> revokeFromCreatedObjects db role c; ret (errs @ [e]) }"

definition revokeRecordedObjectAccess :: "'s db \<Rightarrow> string \<Rightarrow> recordedObjectAccess \<Rightarrow> ('s, error option) state" where
  "revokeRecordedObjectAccess db role rec = do {
     errs1 \<leftarrow> forEach (raObjects rec) (revokeRecordedObject db) [];
     errs2 \<leftarrow> forEach (raDefaults rec) (revokeRecordedDefault db) errs1;
     errs3 \<leftarrow> forEach (raCreated rec) (revokeCreated db role) errs2;
     ret (joinErrs errs3)
   }"

end
