(* ===== verification/Role_Drop.thy ===== *)
theory Role_Drop
  imports Role_Cleanup Role_Passwords
begin

text \<open>
  Dropping the PostgreSQL role of a Role that is being deleted: \<open>dropPostgresRole\<close> of
  \<open>internal/controller/role_controller.go\<close> with its guards, the reassignment of \<open>role_reassign.go\<close>, the
  clean-up of \<open>role_object_cleanup.go\<close> in every database, and \<open>loadMarkerSigner\<close> of \<open>marker_key.go\<close>.

  The API server, the connections and the order in which Go ranges over a map are the parameter
  \<open>kube\<close>. A result is the changed Role, the time after which the reconcile is repeated (0: not), and an
  error. Closing a connection and log lines change nothing.
\<close>

abbreviation ReasonRoleDropBlocked :: string where "ReasonRoleDropBlocked \<equiv> ''RoleDropBlocked''"
abbreviation ReasonDuplicateRoleName :: string where "ReasonDuplicateRoleName \<equiv> ''DuplicateRoleName''"
abbreviation ConditionTypeAvailable :: string where "ConditionTypeAvailable \<equiv> ''Available''"
abbreviation markerKeySize :: nat where "markerKeySize \<equiv> 32"
abbreviation secretKeyMarkerKey :: string where "secretKeyMarkerKey \<equiv> ''key''"

section \<open>The API server\<close>

record ClusterRole = RoleObject +
  roleCreated :: int

text \<open>\<open>osController\<close> is the UID of the controlling owner.\<close>

record OwnedSecret = Secret +
  osController :: "string option"

record 's dropKube =
  dkSecret :: "string \<Rightarrow> string \<Rightarrow> ('s, error + OwnedSecret) state"
  dkIsNotFound :: "error \<Rightarrow> bool"
  dkNewClient :: "ConnectionConfig \<Rightarrow> ('s, error + 's db) state"
  dkListRoles :: "string \<Rightarrow> ('s, error + ClusterRole list) state"
  dkListDatabases :: "string \<Rightarrow> ('s, error + Database list) state"
  dkSaveStatus :: "ClusterRole \<Rightarrow> ('s, error option) state"
  dkConditions :: conditionApi
  dkDetail :: "error \<Rightarrow> string"
  dkRange :: "string list \<Rightarrow> ('s, string list) state"

definition operatorClient :: "'s dropKube \<Rightarrow> Cluster \<Rightarrow> string \<Rightarrow> ('s, error + 's db) state" where
  "operatorClient kube cluster dbName = newOperatorClient (dkSecret kube (clNamespace cluster)) (dkNewClient kube) cluster dbName"

section \<open>Which Role a PostgreSQL role belongs to\<close>

definition IsControlledBy :: "OwnedSecret \<Rightarrow> ClusterRole \<Rightarrow> bool" where
  "IsControlledBy secret role \<longleftrightarrow> osController secret = Some (roleUID role)"

definition roleRecorded :: "'s dropKube \<Rightarrow> ClusterRole \<Rightarrow> Cluster \<Rightarrow> string \<Rightarrow> ('s, error + bool) state" where
  "roleRecorded kube role cluster pgName =
     (if pgName = [] \<or> rtRoleName (roleStatus role) \<noteq> pgName then ret (Inr False)
      else if rtClusterUID (roleStatus role) \<noteq> [] then ret (Inr (rtClusterUID (roleStatus role) = clUID cluster))
      else do {
        r \<leftarrow> dkSecret kube (roleMetaNamespace role) (credentialsSecretName (RoleObject.truncate role) cluster);
        ret (case r of
               Inl e \<Rightarrow> if dkIsNotFound kube e then Inr False else Inl e
             | Inr secret \<Rightarrow> Inr (IsControlledBy secret role))
      })"

definition createdBefore :: "ClusterRole \<Rightarrow> ClusterRole \<Rightarrow> bool" where
  "createdBefore a b \<longleftrightarrow> (if roleCreated a \<noteq> roleCreated b then roleCreated a < roleCreated b else roleMetaName a < roleMetaName b)"

text \<open>\<open>slices.SortFunc\<close> by \<open>createdBefore\<close>; names are unique in a namespace.\<close>

definition listClusterRoles :: "'s dropKube \<Rightarrow> string \<Rightarrow> string \<Rightarrow> ('s, error + ClusterRole list) state" where
  "listClusterRoles kube namespace clusterName = do {
     r \<leftarrow> dkListRoles kube namespace;
     ret (case r of
            Inl e \<Rightarrow> Inl (Wrapf ''failed to list Roles: %w'' [] e)
          | Inr rs \<Rightarrow> Inr (sort_key roleCreated (sort_key roleMetaName
              (filter (\<lambda>r. crName (rsClusterRef (roleSpec r)) = clusterName) rs))))
   }"

definition ClusterRolePostgresName :: "ClusterRole \<Rightarrow> string" where
  "ClusterRolePostgresName r = RolePostgresName (Role.truncate r)"

definition managedRolesOf :: "ClusterRole list \<Rightarrow> Cluster \<Rightarrow> markerSigner \<Rightarrow> managedRoles" where
  "managedRolesOf rs cluster signer = foldl (\<lambda>out other.
     (let name = ClusterRolePostgresName other
      in if rtRoleName (roleStatus other) \<noteq> name \<or> rtClusterUID (roleStatus other) \<noteq> clUID cluster then out
         else if map_of out name \<noteq> None then out
         else AList.update name (marker signer markerKindRole (roleMetaName other)) out)) [] rs"

definition checkRoleName :: "'s dropKube \<Rightarrow> ClusterRole \<Rightarrow> string \<Rightarrow> ('s, error option) state" where
  "checkRoleName kube role pgName =
     (if reservedRoleName pgName \<noteq> [] then ret (Some (ConditionError ReasonReservedName (Errorf (reservedRoleName pgName) [])))
      else do {
        r \<leftarrow> listClusterRoles kube (roleMetaNamespace role) (crName (rsClusterRef (roleSpec role)));
        ret (case r of
               Inl e \<Rightarrow> Some e
             | Inr rs \<Rightarrow>
                 (case find (\<lambda>other. roleUID other \<noteq> roleUID role \<and> ClusterRolePostgresName other = pgName \<and> createdBefore other role) rs of
                    None \<Rightarrow> None
                  | Some other \<Rightarrow> Some (ConditionError ReasonDuplicateRoleName (Errorf
                      ''the Role %q already manages the PostgreSQL role %s on Cluster %q; pick another roleName''
                      [roleMetaName other, pgName, crName (rsClusterRef (roleSpec role))]))))
      })"

definition zeroSigner :: markerSigner where
  "zeroSigner = \<lparr>msKey = [], msNamespace = [], msCluster = []\<rparr>"

definition markerKeySecretName :: "Cluster \<Rightarrow> string" where
  "markerKeySecretName cluster = clName cluster @ ''-marker-key''"

definition loadMarkerSigner :: "'s dropKube \<Rightarrow> Cluster \<Rightarrow> ('s, error + markerSigner) state" where
  "loadMarkerSigner kube cluster = do {
     r \<leftarrow> dkSecret kube (clNamespace cluster) (markerKeySecretName cluster);
     ret (case r of
            Inl e \<Rightarrow> Inl (Wrapf ''failed to get the ownership-marker key Secret %q: %w'' [markerKeySecretName cluster] e)
          | Inr secret \<Rightarrow>
              (let key = mapGet [] (secData secret) secretKeyMarkerKey
               in if length key < markerKeySize
                  then Inl (Errorf ''the ownership-marker key Secret %q has no usable %q key'' [markerKeySecretName cluster, secretKeyMarkerKey])
                  else Inr (newMarkerSigner (clNamespace cluster) (clName cluster) key)))
   }"

section \<open>Reassigning owned objects\<close>

definition checkReassignTarget :: "string \<Rightarrow> string \<Rightarrow> ReassignTargetInfo \<Rightarrow> error option" where
  "checkReassignTarget old target info =
     (if reservedRoleName target \<noteq> []
      then Some (Errorf ''cannot reassign owned objects to %q: %s'' [target, reservedRoleName target])
      else if target = old then Some (Errorf ''cannot reassign owned objects of %q to itself'' [old])
      else if \<not> rtiExists info then Some (Errorf ''cannot reassign owned objects to %q: the role does not exist'' [target])
      else if rtiSuper info then Some (Errorf ''cannot reassign owned objects to %q: it is a superuser'' [target])
      else if \<not> rtiOldHasUsage info
      then Some (Errorf ''cannot reassign owned objects to %q: %q is not a member of it (grant the membership first, for example with spec.memberships)''
        [target, old])
      else None)"

definition reassignOwnedIn :: "'s dropKube \<Rightarrow> Cluster \<Rightarrow> string \<Rightarrow> string \<Rightarrow> string \<Rightarrow> ('s, error option) state" where
  "reassignOwnedIn kube cluster dbName old target = do {
     r \<leftarrow> operatorClient kube cluster dbName;
     (case r of Inl e \<Rightarrow> ret (Some e) | Inr db \<Rightarrow> ReassignOwned db old target)
   }"

text \<open>The loop over databases, which both functions have: what was skipped, and why.\<close>

definition skipFailed :: "(string \<Rightarrow> ('s, error option) state) \<Rightarrow> DatabaseRef \<Rightarrow> string list \<Rightarrow> ('s, string list) state" where
  "skipFailed f d skipped =
     (if \<not> drAllowConns d then ret (skipped @ [drName d @ '' (does not allow connections)''])
      else do {
        e \<leftarrow> f (drName d);
        ret (case e of None \<Rightarrow> skipped | Some x \<Rightarrow> skipped @ [drName d @ '' ('' @ errText x @ '')''])
      })"

text \<open>The result is an error, or what was skipped and why the reassignment is refused.\<close>

definition reassignOwnedObjects :: "'s dropKube \<Rightarrow> Cluster \<Rightarrow> 's db \<Rightarrow> string \<Rightarrow> string
    \<Rightarrow> ('s, error + string list \<times> error option) state" where
  "reassignOwnedObjects kube cluster db old target = do {
     r \<leftarrow> RoleReassignTarget db old target;
     (case r of
        Inl e \<Rightarrow> ret (Inl e)
      | Inr info \<Rightarrow>
          (case checkReassignTarget old target info of
             Some e \<Rightarrow> ret (Inr ([], Some e))
           | None \<Rightarrow> do {
               o1 \<leftarrow> DatabasesOwnedBy db old;
               (case o1 of
                  Inl e \<Rightarrow> ret (Inl e)
                | Inr ownedNames \<Rightarrow>
                    if ownedNames \<noteq> []
                    then ret (Inr ([], Some (Errorf
                      ''the role owns the database(s) %s, which REASSIGN OWNED would hand to %q; change the spec.owner of the Database first''
                      [joinStr ownedNames '', '', target])))
                    else do {
                      d1 \<leftarrow> DatabasesWithOwnedObjects db old;
                      (case d1 of
                         Inl e \<Rightarrow> ret (Inl e)
                       | Inr dbs \<Rightarrow> do {
                           skipped \<leftarrow> forEach dbs (skipFailed (\<lambda>n. reassignOwnedIn kube cluster n old target)) [];
                           ret (Inr (skipped, None))
                         })
                    })
             }))
   }"

section \<open>Revoking in every database\<close>

definition revokeSchemaPrivilegesIn :: "'s dropKube \<Rightarrow> Cluster \<Rightarrow> string \<Rightarrow> string \<Rightarrow> ('s, error option) state" where
  "revokeSchemaPrivilegesIn kube cluster dbName role = do {
     r \<leftarrow> operatorClient kube cluster dbName;
     (case r of
        Inl e \<Rightarrow> ret (Some e)
      | Inr db \<Rightarrow> do {
          e \<leftarrow> RevokeAllSchemaPrivileges db role;
          (case e of Some x \<Rightarrow> ret (Some x) | None \<Rightarrow> RevokeAllExtensionMemberPrivileges db role)
        })
   }"

definition recordedObjectAccessOf :: "'s dropKube \<Rightarrow> Cluster \<Rightarrow> string \<Rightarrow> ('s, error + recordedObjectAccess gomap) state" where
  "recordedObjectAccessOf kube cluster role = do {
     r \<leftarrow> dkListDatabases kube (clNamespace cluster);
     ret (case r of
            Inl e \<Rightarrow> Inl (Wrapf ''failed to list Databases: %w'' [] e)
          | Inr ds \<Rightarrow> Inr (recordedObjectAccessFrom ds cluster role))
   }"

definition revokeRecordedObjectAccessIn :: "'s dropKube \<Rightarrow> Cluster \<Rightarrow> string \<Rightarrow> string \<Rightarrow> recordedObjectAccess \<Rightarrow> ('s, error option) state" where
  "revokeRecordedObjectAccessIn kube cluster dbName role rec = do {
     r \<leftarrow> operatorClient kube cluster dbName;
     (case r of Inl e \<Rightarrow> ret (Some e) | Inr db \<Rightarrow> revokeRecordedObjectAccess db role rec)
   }"

definition revokeRecordedObjectAccessFor :: "'s dropKube \<Rightarrow> Cluster \<Rightarrow> string \<Rightarrow> ('s, error + string list) state" where
  "revokeRecordedObjectAccessFor kube cluster role = do {
     r \<leftarrow> recordedObjectAccessOf kube cluster role;
     (case r of
        Inl e \<Rightarrow> ret (Inl e)
      | Inr recorded \<Rightarrow> do {
          names \<leftarrow> dkRange kube (mapKeys recorded);
          skipped \<leftarrow> forEach names (\<lambda>n skipped. do {
            e \<leftarrow> revokeRecordedObjectAccessIn kube cluster n role (mapGet noAccess recorded n);
            ret (case e of None \<Rightarrow> skipped | Some x \<Rightarrow> skipped @ [n @ '' ('' @ errText x @ '')''])
          }) [];
          ret (Inr skipped)
        })
   }"

section \<open>Dropping the role\<close>

definition dropBlocked :: "'s dropKube \<Rightarrow> ClusterRole \<Rightarrow> string \<Rightarrow> ('s, ClusterRole \<times> int \<times> error option) state" where
  "dropBlocked kube role msg =
     (let role1 = role\<lparr>roleStatus := (roleStatus role)\<lparr>rtConditions := caSet (dkConditions kube) (rtConditions (roleStatus role))
            \<lparr>cType = ConditionTypeAvailable, cStatus = ''False'', cReason = ReasonRoleDropBlocked, cMessage = msg\<rparr>\<rparr>\<rparr>
      in do {
        e \<leftarrow> dkSaveStatus kube role1;
        ret (case e of Some x \<Rightarrow> (role1, 0, Some x) | None \<Rightarrow> (role1, 30 * second, None))
      })"

text \<open>From \<open>DropRole\<close> to the end.\<close>

definition dropNow :: "'s dropKube \<Rightarrow> 's db \<Rightarrow> ClusterRole \<Rightarrow> string \<Rightarrow> string list \<Rightarrow> ('s, ClusterRole \<times> int \<times> error option) state" where
  "dropNow kube db role pgName skipped = do {
     r \<leftarrow> DropRole (dkDetail kube) db pgName;
     (case r of
        None \<Rightarrow> ret (role, 0, None)
      | Some (DropFailed e) \<Rightarrow> ret (role, 0, Some e)
      | Some (Dependents dep) \<Rightarrow> dropBlocked kube role (DependentObjectsMessage dep @
          (if skipped \<noteq> []
           then ''; schema, extension object or object privileges could not be revoked, or owned objects reassigned, in: '' @ joinStr skipped '', ''
           else [])))
   }"

text \<open>The reassignment, when the spec asks for it.\<close>

definition reassignAndDrop :: "'s dropKube \<Rightarrow> 's db \<Rightarrow> Cluster \<Rightarrow> ClusterRole \<Rightarrow> string \<Rightarrow> string list
    \<Rightarrow> ('s, ClusterRole \<times> int \<times> error option) state" where
  "reassignAndDrop kube db cluster role pgName skipped =
     (case rsDeletion (roleSpec role) of
        None \<Rightarrow> dropNow kube db role pgName skipped
      | Some deletion \<Rightarrow>
          if ReassignOwnedTo deletion = [] then dropNow kube db role pgName skipped
          else do {
            r \<leftarrow> reassignOwnedObjects kube cluster db pgName (ReassignOwnedTo deletion);
            (case r of
               Inl e \<Rightarrow> ret (role, 0, Some e)
             | Inr (_, Some blocked) \<Rightarrow> dropBlocked kube role (errText blocked)
             | Inr (others, None) \<Rightarrow> dropNow kube db role pgName (skipped @ others))
          })"

text \<open>
  Behind the guards: the recorded parameter grants, the privileges on databases, then in every
  database the privileges on schemas and extension members and what the Databases record.
\<close>

definition revokeRecordedAndDrop :: "'s dropKube \<Rightarrow> 's db \<Rightarrow> Cluster \<Rightarrow> ClusterRole \<Rightarrow> string \<Rightarrow> string list
    \<Rightarrow> ('s, ClusterRole \<times> int \<times> error option) state" where
  "revokeRecordedAndDrop kube db cluster role pgName skipped = do {
     r \<leftarrow> revokeRecordedObjectAccessFor kube cluster pgName;
     (case r of
        Inl e \<Rightarrow> ret (role, 0, Some e)
      | Inr others \<Rightarrow> reassignAndDrop kube db cluster role pgName (skipped @ others))
   }"

definition revokeInDatabases :: "'s dropKube \<Rightarrow> 's db \<Rightarrow> Cluster \<Rightarrow> ClusterRole \<Rightarrow> string
    \<Rightarrow> ('s, ClusterRole \<times> int \<times> error option) state" where
  "revokeInDatabases kube db cluster role pgName = do {
     r \<leftarrow> DatabasesWithObjectPrivileges db pgName;
     (case r of
        Inl e \<Rightarrow> ret (role, 0, Some e)
      | Inr dbs \<Rightarrow> do {
          skipped \<leftarrow> forEach dbs (skipFailed (\<lambda>n. revokeSchemaPrivilegesIn kube cluster n pgName)) [];
          revokeRecordedAndDrop kube db cluster role pgName skipped
        })
   }"

definition dropOwnedRole :: "'s dropKube \<Rightarrow> 's db \<Rightarrow> Cluster \<Rightarrow> ClusterRole \<Rightarrow> string
    \<Rightarrow> ('s, ClusterRole \<times> int \<times> error option) state" where
  "dropOwnedRole kube db cluster role0 pgName = do {
     (changed, e1) \<leftarrow> revokeManagedParameterGrants db (Role.truncate role0) pgName;
     let role = role0\<lparr>roleStatus := roleStatus changed\<rparr>;
     (case e1 of
        Some e \<Rightarrow> ret (role, 0, Some e)
      | None \<Rightarrow> do {
          e2 \<leftarrow> RevokeAllDatabasePrivileges db pgName;
          (case e2 of
             Some e \<Rightarrow> ret (role, 0, Some e)
           | None \<Rightarrow> revokeInDatabases kube db cluster role pgName)
        })
   }"

definition mayDropComment :: "markerSigner \<Rightarrow> ClusterRole \<Rightarrow> string \<Rightarrow> bool" where
  "mayDropComment signer role comment \<longleftrightarrow>
     decideOwnership signer markerKindRole (roleMetaName role) True comment True False \<in> {owned, ownedRemark}"

definition dropPostgresRole :: "'s dropKube \<Rightarrow> Cluster \<Rightarrow> ClusterRole \<Rightarrow> ('s, ClusterRole \<times> int \<times> error option) state" where
  "dropPostgresRole kube cluster role =
     (let pgName = rtRoleName (roleStatus role)
      in do {
        c \<leftarrow> operatorClient kube cluster defaultDatabaseName;
        (case c of
           Inl e \<Rightarrow> ret (role, 0, Some e)
         | Inr db \<Rightarrow> do {
             r1 \<leftarrow> roleRecorded kube role cluster pgName;
             (case r1 of
                Inl e \<Rightarrow> ret (role, 0, Some e)
              | Inr recorded \<Rightarrow>
                  if pgName = [] \<or> \<not> recorded then ret (role, 0, None)
                  else if reservedRoleName pgName \<noteq> [] then ret (role, 0, None)
                  else do {
                    e2 \<leftarrow> checkRoleName kube role pgName;
                    (case e2 of
                       Some _ \<Rightarrow> ret (role, 0, None)
                     | None \<Rightarrow> do {
                         r3 \<leftarrow> RoleComment db pgName;
                         (case r3 of
                            Inl e \<Rightarrow> ret (role, 0, Some e)
                          | Inr (exists, comment) \<Rightarrow>
                              if \<not> exists then ret (role, 0, None)
                              else do {
                                r4 \<leftarrow> loadMarkerSigner kube cluster;
                                (if \<not> mayDropComment (case r4 of Inl _ \<Rightarrow> zeroSigner | Inr signer \<Rightarrow> signer) role comment then ret (role, 0, None)
                                 else dropOwnedRole kube db cluster role pgName)
                              })
                       })
                  })
           })
      })"

end
