(* ===== verification/Role_Drop_Correct.thy ===== *)
theory Role_Drop_Correct
  imports Role_Drop Object_Access_Correct
begin

text \<open>
  Which statements \<open>dropPostgresRole\<close> sends, in which databases and in which order, and what its result
  says: the specification of the clean-up as an inductive relation, the contract \<open>drop_world\<close> of the
  API server and of PostgreSQL, and the run of the whole function under it.
\<close>

section \<open>What is the case\<close>

text \<open>
  The facts the guards of the code are about. Objects of a schema are given by OID, the OID of their
  owner and the extension they belong to; \<open>dfNames\<close> is the rendering of objects in a database.
  \<open>dfDatabaseGrants\<close> holds the databases on which a role was granted privileges; \<open>dfSchemaGrants\<close> and
  \<open>dfMembers\<close> hold the schemas of a database and the members (kind and rendering) of its extensions on
  which it was. These three only shrink while privileges are revoked.
\<close>

record dropFacts =
  dfSecret :: "string \<Rightarrow> string \<Rightarrow> OwnedSecret option"
  dfRoles :: "string \<Rightarrow> ClusterRole list"
  dfDatabases :: "string \<Rightarrow> Database list"
  dfComment :: "string \<Rightarrow> string option"
  dfTarget :: "string \<Rightarrow> string \<Rightarrow> ReassignTargetInfo"
  dfOwned :: "string \<Rightarrow> string set"
  dfRoleOID :: "string \<Rightarrow> int option"
  dfObjects :: "string \<Rightarrow> string \<Rightarrow> SchemaObjectKind \<Rightarrow> (int \<times> int \<times> string) set"
  dfNames :: "string \<Rightarrow> SchemaObjectKind \<Rightarrow> string \<Rightarrow> int \<Rightarrow> bool"
  dfDatabaseGrants :: "string \<Rightarrow> string set"
  dfSchemaGrants :: "string \<Rightarrow> string \<Rightarrow> string set"
  dfMembers :: "string \<Rightarrow> string \<Rightarrow> (string \<times> string) set"

definition fewerHeld :: "dropFacts \<Rightarrow> dropFacts \<Rightarrow> bool" where
  "fewerHeld f' f \<longleftrightarrow> (\<exists>D S M. f' = f\<lparr>dfDatabaseGrants := D, dfSchemaGrants := S, dfMembers := M\<rparr> \<and>
     D \<le> dfDatabaseGrants f \<and> S \<le> dfSchemaGrants f \<and> M \<le> dfMembers f)"

lemma fewerHeld_refl: "fewerHeld f f"
  unfolding fewerHeld_def by (intro exI [of _ "dfDatabaseGrants f"] exI [of _ "dfSchemaGrants f"] exI [of _ "dfMembers f"]) simp

lemma fewerHeld_trans: "fewerHeld f2 f1 \<Longrightarrow> fewerHeld f1 f \<Longrightarrow> fewerHeld f2 f"
  unfolding fewerHeld_def by (elim exE conjE) (auto intro: order_trans)

lemma fewerHeld_same:
  "fewerHeld f' f \<Longrightarrow> dfSecret f' = dfSecret f \<and> dfRoles f' = dfRoles f \<and> dfDatabases f' = dfDatabases f \<and> dfComment f' = dfComment f \<and>
    dfTarget f' = dfTarget f \<and> dfOwned f' = dfOwned f \<and> dfRoleOID f' = dfRoleOID f \<and> dfObjects f' = dfObjects f \<and> dfNames f' = dfNames f"
  by (auto simp: fewerHeld_def)

lemma fewerHeld_held:
  "fewerHeld f' f \<Longrightarrow> d \<in> dfDatabaseGrants f' r \<Longrightarrow> d \<in> dfDatabaseGrants f r"
  "fewerHeld f' f \<Longrightarrow> sch \<in> dfSchemaGrants f' n r \<Longrightarrow> sch \<in> dfSchemaGrants f n r"
  "fewerHeld f' f \<Longrightarrow> m \<in> dfMembers f' n r \<Longrightarrow> m \<in> dfMembers f n r"
  by (cases m; auto simp: fewerHeld_def le_fun_def subset_iff)+

definition recordedOn :: "dropFacts \<Rightarrow> Cluster \<Rightarrow> ClusterRole \<Rightarrow> bool" where
  "recordedOn f cluster role \<longleftrightarrow> rtRoleName (roleStatus role) \<noteq> [] \<and>
     (if rtClusterUID (roleStatus role) \<noteq> [] then rtClusterUID (roleStatus role) = clUID cluster
      else \<exists>secret. dfSecret f (roleMetaNamespace role) (credentialsSecretName (RoleObject.truncate role) cluster) = Some secret \<and>
        osController secret = Some (roleUID role))"

definition olderRole :: "dropFacts \<Rightarrow> ClusterRole \<Rightarrow> bool" where
  "olderRole f role \<longleftrightarrow> (\<exists>other \<in> set (dfRoles f (roleMetaNamespace role)).
     crName (rsClusterRef (roleSpec other)) = crName (rsClusterRef (roleSpec role)) \<and> roleUID other \<noteq> roleUID role \<and>
     ClusterRolePostgresName other = rtRoleName (roleStatus role) \<and> createdBefore other role)"

text \<open>The signer of the key Secret, when there is a usable key; the marker is checked with it or with none.\<close>

definition signerOf :: "dropFacts \<Rightarrow> Cluster \<Rightarrow> markerSigner option" where
  "signerOf f cluster =
     (case dfSecret f (clNamespace cluster) (markerKeySecretName cluster) of
        None \<Rightarrow> None
      | Some secret \<Rightarrow>
          (let key = mapGet [] (secData secret) secretKeyMarkerKey
           in if length key < markerKeySize then None else Some (newMarkerSigner (clNamespace cluster) (clName cluster) key)))"

definition possibleSigner :: "dropFacts \<Rightarrow> Cluster \<Rightarrow> markerSigner \<Rightarrow> bool" where
  "possibleSigner f cluster signer \<longleftrightarrow> signer = zeroSigner \<or> signerOf f cluster = Some signer"

definition nameFree :: "dropFacts \<Rightarrow> Cluster \<Rightarrow> ClusterRole \<Rightarrow> bool" where
  "nameFree f cluster role \<longleftrightarrow>
     recordedOn f cluster role \<and> reservedRoleName (rtRoleName (roleStatus role)) = [] \<and> \<not> olderRole f role"

text \<open>
  The key of this Cluster in a state: that of the Secret when the API server gives it out there and it
  is usable, and else none.
\<close>

definition keyUnread :: "'s dropKube \<Rightarrow> Cluster \<Rightarrow> 's \<Rightarrow> bool" where
  "keyUnread kube cluster s \<longleftrightarrow> (\<exists>e. fst (run_state (dkSecret kube (clNamespace cluster) (markerKeySecretName cluster)) s) = Inl e)"

definition keyAt :: "'s dropKube \<Rightarrow> ('s \<Rightarrow> dropFacts) \<Rightarrow> Cluster \<Rightarrow> 's \<Rightarrow> markerSigner" where
  "keyAt kube facts cluster s =
     (if keyUnread kube cluster s then zeroSigner else (case signerOf (facts s) cluster of None \<Rightarrow> zeroSigner | Some signer \<Rightarrow> signer))"

text \<open>
  The comments that allow a drop: none, the unsigned marker of an earlier version with the name of the
  Role, the marker this key signs for the Role, and a marker with the name of the Role that names
  another key. A marker that names this key and is not the one it signs is not among them.
\<close>

definition acceptedMarker :: "markerSigner \<Rightarrow> string \<Rightarrow> string \<Rightarrow> bool" where
  "acceptedMarker key name comment \<longleftrightarrow>
     comment = [] \<or> comment = ''pgop:v1:Role/'' @ name \<or> (msKey key \<noteq> [] \<and> comment = marker key markerKindRole name) \<or>
     (\<exists>keyName sig. comment = ''pgop:v2:Role/'' @ name @ '':'' @ keyName @ ''.'' @ sig \<and> CHR ''.'' \<notin> set keyName \<and> keyName \<noteq> keyID key)"

text \<open>The role may be dropped, with the key of a state: every guard holds; \<open>mayDrop\<close>: with the key of some state.\<close>

definition mayDropAt :: "'s dropKube \<Rightarrow> ('s \<Rightarrow> dropFacts) \<Rightarrow> Cluster \<Rightarrow> ClusterRole \<Rightarrow> 's \<Rightarrow> bool" where
  "mayDropAt kube facts cluster role s \<longleftrightarrow> nameFree (facts s) cluster role \<and>
     (\<exists>comment. dfComment (facts s) (rtRoleName (roleStatus role)) = Some comment \<and>
        acceptedMarker (keyAt kube facts cluster s) (roleMetaName role) comment)"

definition mayDrop :: "'s dropKube \<Rightarrow> ('s \<Rightarrow> dropFacts) \<Rightarrow> dropFacts \<Rightarrow> Cluster \<Rightarrow> ClusterRole \<Rightarrow> bool" where
  "mayDrop kube facts f cluster role \<longleftrightarrow> (\<exists>s. facts s = f \<and> mayDropAt kube facts cluster role s)"

text \<open>It must be dropped: every guard holds, whatever becomes of the key.\<close>

definition mustDrop :: "dropFacts \<Rightarrow> Cluster \<Rightarrow> ClusterRole \<Rightarrow> bool" where
  "mustDrop f cluster role \<longleftrightarrow> nameFree f cluster role \<and>
     (\<exists>comment. dfComment f (rtRoleName (roleStatus role)) = Some comment \<and>
        (\<forall>signer. possibleSigner f cluster signer \<longrightarrow> mayDropComment signer role comment))"

section \<open>The statements of the clean-up\<close>

definition databaseOn :: "Database list \<Rightarrow> Cluster \<Rightarrow> string \<Rightarrow> Database \<Rightarrow> bool" where
  "databaseOn ds cluster n d \<longleftrightarrow> d \<in> set ds \<and>
     crName (dsClusterRef (dbSpec d)) = clName cluster \<and> dtClusterUID (dbStatus d) = clUID cluster \<and> dtDatabaseName (dbStatus d) = n \<and> n \<noteq> []"

text \<open>Default privileges to the role that its Database records or declares.\<close>

definition defaultsTo :: "Database \<Rightarrow> string \<Rightarrow> string \<Rightarrow> string \<Rightarrow> defaultKindInfo \<Rightarrow> string set \<Rightarrow> bool" where
  "defaultsTo d role schema forRole ki P \<longleftrightarrow>
     (\<exists>m \<in> set (dtManagedDefaultPrivileges (dbStatus d)). mdpRole m = role \<and> mdpSchema m = schema \<and> mdpForRole m = forRole \<and>
        defaultKindOf (mdpKind m) = Some ki \<and> P = set (mdpPrivileges m) \<union> set (mdpGrantOptions m)) \<or>
     (\<exists>sch \<in> set (dsSchemas (dbSpec d)). \<exists>e \<in> set (ssDefaultPrivileges sch). CanonicalGrantee (dpRole e) = role \<and> ssName sch = schema \<and>
        dpForRole e = forRole \<and> defaultKindOf (dpKind e) = Some ki \<and>
        (\<exists>privs. normalizeObjectPrivileges (dkObject ki) (dpPrivileges e) = Inr privs \<and> P = set privs))"

text \<open>\<open>cleanupStatement f cluster role n q\<close>: the statement \<open>q\<close> may be sent to the database \<open>n\<close>.\<close>

inductive cleanupStatement :: "dropFacts \<Rightarrow> Cluster \<Rightarrow> ClusterRole \<Rightarrow> string \<Rightarrow> string \<Rightarrow> bool" for f cluster role where
  parameter: "L = managedParameterGrants (Role.truncate role) name \<Longrightarrow> name = rtRoleName (roleStatus role) \<Longrightarrow> t \<in> Target ` set L \<Longrightarrow>
    set ps \<subseteq> recPrivs L (targetKey t) \<union> recOpts L (targetKey t) \<Longrightarrow>
    buildRevokePrivilegesQuery (targetObject t) name ps mode = Inr q \<Longrightarrow> cleanupStatement f cluster role defaultDatabaseName q"
| database: "d \<in> dfDatabaseGrants f (rtRoleName (roleStatus role)) \<Longrightarrow>
    cleanupStatement f cluster role defaultDatabaseName (revokeAllQuery (''DATABASE '' @ quoteIdent d) (rtRoleName (roleStatus role)))"
| schema: "sch \<in> dfSchemaGrants f n (rtRoleName (roleStatus role)) \<Longrightarrow>
    cleanupStatement f cluster role n (revokeAllQuery (''SCHEMA '' @ quoteIdent sch) (rtRoleName (roleStatus role)))"
| member: "(kind, ident) \<in> dfMembers f n (rtRoleName (roleStatus role)) \<Longrightarrow>
    cleanupStatement f cluster role n (revokeAllQuery (kind @ '' '' @ ident) (rtRoleName (roleStatus role)))"
| object: "databaseOn (dfDatabases f (clNamespace cluster)) cluster n d \<Longrightarrow> g \<in> set (dtManagedObjectGrants (dbStatus d)) \<Longrightarrow> mogRole g = rtRoleName (roleStatus role) \<Longrightarrow>
    objectKindOf (mogKind g) = Some ki \<Longrightarrow> set ps \<subseteq> set (mogPrivileges g) \<union> set (mogGrantOptions g) \<Longrightarrow>
    dfNames f n (okPg ki) canonical oid \<Longrightarrow> mogOID g \<noteq> 0 \<longrightarrow> oid = mogOID g \<Longrightarrow>
    buildSchemaObjectPrivilegesQuery False (okPg ki) canonical (rtRoleName (roleStatus role)) ps False mode = Inr q \<Longrightarrow>
    cleanupStatement f cluster role n q"
| "default": "databaseOn (dfDatabases f (clNamespace cluster)) cluster n d \<Longrightarrow> m \<in> set (dtManagedDefaultPrivileges (dbStatus d)) \<Longrightarrow>
    rtRoleName (roleStatus role) \<in> {mdpRole m, mdpForRole m} \<Longrightarrow> defaultKindOf (mdpKind m) = Some ki \<Longrightarrow>
    set ps \<subseteq> set (mdpPrivileges m) \<union> set (mdpGrantOptions m) \<Longrightarrow>
    buildDefaultPrivilegesQuery False \<lparr>dtForRole = mdpForRole m, dtSchema = mdpSchema m, dtKind = dkPg ki\<rparr> (mdpRole m) ps False mode = Inr q \<Longrightarrow>
    cleanupStatement f cluster role n q"
| created: "databaseOn (dfDatabases f (clNamespace cluster)) cluster n d \<Longrightarrow> defaultsTo d (rtRoleName (roleStatus role)) schema forRole ki P \<Longrightarrow> set ps \<subseteq> P \<Longrightarrow>
    kind \<in> set (createdKinds ki) \<Longrightarrow> (oid, owner, []) \<in> dfObjects f n schema kind \<Longrightarrow> dfRoleOID f forRole = Some owner \<Longrightarrow>
    dfNames f n kind canonical oid \<Longrightarrow>
    buildSchemaObjectPrivilegesQuery False kind canonical (rtRoleName (roleStatus role)) ps False mode = Inr q \<Longrightarrow>
    cleanupStatement f cluster role n q"
| reassign: "rsDeletion (roleSpec role) = Some deletion \<Longrightarrow> target = ReassignOwnedTo deletion \<Longrightarrow> target \<noteq> [] \<Longrightarrow>
    reservedRoleName target = [] \<Longrightarrow> target \<noteq> rtRoleName (roleStatus role) \<Longrightarrow>
    dfTarget f (rtRoleName (roleStatus role)) target = \<lparr>rtiExists = True, rtiSuper = False, rtiOldHasUsage = True\<rparr> \<Longrightarrow>
    dfOwned f (rtRoleName (roleStatus role)) = {} \<Longrightarrow> q \<in> set (buildReassignOwnedQueries (rtRoleName (roleStatus role)) target) \<Longrightarrow>
    cleanupStatement f cluster role n q"

definition roleCommentQuery :: string where
  "roleCommentQuery =
     ''SELECT COALESCE(pg_catalog.shobj_description(oid, 'pg_authid'), '' @ [squote, squote] @ '') FROM pg_catalog.pg_roles WHERE rolname = $1''"

lemma RoleComment_query: "RoleComment db name = lookupComment db roleCommentQuery name ''failed to look up role %q: %w''"
  by (simp add: RoleComment_def roleCommentQuery_def)

section \<open>Statements that only revoke\<close>

definition revokesOnly :: "string \<Rightarrow> bool" where
  "revokesOnly q \<longleftrightarrow> hasPrefix q ''REVOKE '' \<or> hasPrefix q ''ALTER DEFAULT PRIVILEGES ''"

lemma revokesOnly_build: "revokesOnly (buildRevokeQuery ps object who mode)" "revokesOnly (revokeAllQuery object role)"
  by (simp_all add: revokesOnly_def revokeAllQuery_def buildRevokeQuery_def hasPrefix_def)

lemma revokesOnly_built:
  "buildRevokePrivilegesQuery obj g ps mode = Inr q \<Longrightarrow> revokesOnly q"
  "buildSchemaObjectPrivilegesQuery False kind canonical g ps w mode = Inr q \<Longrightarrow> revokesOnly q"
  "buildDefaultPrivilegesQuery False t g ps w mode = Inr q \<Longrightarrow> revokesOnly q"
  by (auto simp: buildRevokePrivilegesQuery_def buildSchemaObjectPrivilegesQuery_def buildDefaultPrivilegesQuery_def revokesOnly_build Let_def
      split: sum.splits option.splits if_splits)
    (auto simp: revokesOnly_def hasPrefix_def)

lemma dropRole_starts: "take 9 (dropRoleQuery name) = ''DROP ROLE''"
  by (simp add: dropRoleQuery_def)

lemma revokesOnly_not_drop: "revokesOnly q \<Longrightarrow> q \<noteq> dropRoleQuery name"
  by (auto simp: revokesOnly_def hasPrefix_def dropRoleQuery_def)

lemma cleanup_shape: "cleanupStatement f cluster role n q \<Longrightarrow> revokesOnly q \<or> (\<exists>old target. q \<in> set (buildReassignOwnedQueries old target))"
  by (induction rule: cleanupStatement.induct) (blast intro: revokesOnly_build revokesOnly_built)+

lemma reassign_not_drop: "q \<in> set (buildReassignOwnedQueries old target) \<Longrightarrow> q \<noteq> dropRoleQuery name"
  by (auto simp: buildReassignOwnedQueries_def dropRoleQuery_def)

lemma cleanup_not_drop: "cleanupStatement f cluster role n q \<Longrightarrow> q \<noteq> dropRoleQuery name"
  by (drule cleanup_shape) (blast dest: revokesOnly_not_drop reassign_not_drop)

section \<open>The contract of the world\<close>

text \<open>
  The statements sent so far are kept with their database and their answer. Every call can fail. What
  a call answers is a fact of the world it runs in; reads of the API server and of the catalogs change
  neither facts nor what was sent, and a REVOKE takes privileges away and changes nothing else. A client of \<open>dkNewClient\<close> is
  connected to the database of its configuration.
\<close>

definition unchanged :: "('s \<Rightarrow> dropFacts) \<Rightarrow> ('s \<Rightarrow> 'x list) \<Rightarrow> 's \<Rightarrow> 's \<Rightarrow> bool" where
  "unchanged facts sent s s' \<longleftrightarrow> facts s' = facts s \<and> sent s' = sent s"

locale drop_world =
  fixes kube :: "'s dropKube"
    and connected :: "string \<Rightarrow> 's db \<Rightarrow> bool"
    and facts :: "'s \<Rightarrow> dropFacts"
    and sent :: "'s \<Rightarrow> (string \<times> string \<times> error option) list"
  assumes secret_read: "wp (dkSecret kube ns n) (\<lambda>r s'. unchanged facts sent s s' \<and>
      (\<forall>x. r = Inr x \<longrightarrow> dfSecret (facts s) ns n = Some x) \<and> (\<forall>e. r = Inl e \<longrightarrow> dkIsNotFound kube e \<longrightarrow> dfSecret (facts s) ns n = None)) s"
    and client_made: "wp (dkNewClient kube cfg) (\<lambda>r s'. unchanged facts sent s s' \<and> (\<forall>db. r = Inr db \<longrightarrow> connected (cfgDatabase cfg) db)) s"
    and roles_read: "wp (dkListRoles kube ns) (\<lambda>r s'. unchanged facts sent s s' \<and> (\<forall>rs. r = Inr rs \<longrightarrow> rs = dfRoles (facts s) ns)) s"
    and databases_read: "wp (dkListDatabases kube ns) (\<lambda>r s'. unchanged facts sent s s' \<and> (\<forall>ds. r = Inr ds \<longrightarrow> ds = dfDatabases (facts s) ns)) s"
    and status_written: "wp (dkSaveStatus kube role) (\<lambda>_. unchanged facts sent s) s"
    and range_order: "wp (dkRange kube ks) (\<lambda>r s'. unchanged facts sent s s' \<and> set r \<subseteq> set ks) s"
    and query_read: "connected n db \<Longrightarrow> wp (queryDb db q params) (\<lambda>_. unchanged facts sent s) s"
    and query_comment: "connected n db \<Longrightarrow> wp (queryDb db roleCommentQuery [SText name])
      (\<lambda>r _. catalogRow (map_option (\<lambda>c. [SText c]) (dfComment (facts s) name)) r) s"
    and query_target: "connected n db \<Longrightarrow> wp (queryDb db reassignTargetQuery [SText old, SText target]) (\<lambda>r _. \<forall>su us rows e.
      r = Inr ([SBool su, SBool us] # rows, e) \<longrightarrow> dfTarget (facts s) old target = \<lparr>rtiExists = True, rtiSuper = su, rtiOldHasUsage = us\<rparr>) s"
    and query_owned: "connected n db \<Longrightarrow> wp (queryDb db databasesOwnedQuery [SText name]) (\<lambda>r _. r = Inr ([], None) \<longrightarrow> dfOwned (facts s) name = {}) s"
    and query_members: "connected n db \<Longrightarrow> wp (queryDb db extensionMembersQuery [SText name]) (\<lambda>r _. \<forall>rows e kind ident.
      r = Inr (rows, e) \<longrightarrow> [SText kind, SText ident] \<in> set rows \<longrightarrow> (kind, ident) \<in> dfMembers (facts s) n name) s"
    and query_databases: "connected n db \<Longrightarrow> wp (queryDb db databasePrivilegesQuery [SText name]) (\<lambda>r _. \<forall>rows e d.
      r = Inr (rows, e) \<longrightarrow> [SText d] \<in> set rows \<longrightarrow> d \<in> dfDatabaseGrants (facts s) name) s"
    and query_schemas: "connected n db \<Longrightarrow> wp (queryDb db schemaPrivilegesQuery [SText name]) (\<lambda>r _. \<forall>rows e sch.
      r = Inr (rows, e) \<longrightarrow> [SText sch] \<in> set rows \<longrightarrow> sch \<in> dfSchemaGrants (facts s) n name) s"
    and query_oids: "connected n db \<Longrightarrow> wp (queryDb db roleOIDsQuery params) (\<lambda>r _. \<forall>rows e m i.
      r = Inr (rows, e) \<longrightarrow> [SText m, SInt i] \<in> set rows \<longrightarrow> dfRoleOID (facts s) m = Some i) s"
    and query_objects: "connected n db \<Longrightarrow> schemaObjectQueries kind = Some q \<Longrightarrow> wp (queryDb db q (SText schema # params)) (\<lambda>r _. \<forall>rows e.
      r = Inr (rows, e) \<longrightarrow> (\<forall>row \<in> set rows. \<forall>obj. scanObject row = Inr obj \<longrightarrow>
        soOID obj \<noteq> 0 \<and> (soOID obj, soOwnerOID obj, soExtension obj) \<in> dfObjects (facts s) n schema kind)) s"
    and query_name: "connected n db \<Longrightarrow> resolveObjectQueries kind = Some q \<Longrightarrow> wp (queryDb db q [SText identity, SText schema]) (\<lambda>r _.
      \<forall>rows e oid canonical. r = Inr ([SInt oid, SText canonical] # rows, e) \<longrightarrow> dfNames (facts s) n kind canonical oid) s"
    and query_oid: "connected n db \<Longrightarrow> resolveOIDQueries kind = Some q \<Longrightarrow> wp (queryDb db q [SInt oid]) (\<lambda>r _.
      \<forall>rows e found canonical. r = Inr ([SInt found, SText canonical] # rows, e) \<longrightarrow> found = oid \<and> dfNames (facts s) n kind canonical oid) s"
    and exec_sent: "connected n db \<Longrightarrow> wp (execDb db q) (\<lambda>e s'. sent s' = sent s @ [(n, q, e)] \<and> (revokesOnly q \<longrightarrow> fewerHeld (facts s') (facts s))) s"
    and tx_silent: "connected n db \<Longrightarrow> wp (beginTx db) (\<lambda>_ s'. sent s' = sent s) s"
      "connected n db \<Longrightarrow> wp (commitTx db) (\<lambda>_ s'. sent s' = sent s) s"
      "connected n db \<Longrightarrow> wp (rollbackTx db) (\<lambda>_ s'. sent s' = sent s) s"

text \<open>A loop that stops at the first error keeps what its steps keep.\<close>

lemma stopAtError_keeps:
  assumes "\<And>x s. x \<in> set xs \<Longrightarrow> K s \<Longrightarrow> wp (f x) (\<lambda>_. K) s" and "K s"
  shows "wp (stopAtError f xs) (\<lambda>_. K) s"
  using assms
proof (induction xs arbitrary: s)
  case (Cons x xs)
  show ?case
    unfolding stopAtError.simps wp_bind
    by (rule wp_mono [OF Cons.prems(1)]) (use Cons in \<open>auto simp: wp_ret split: option.split\<close>)
qed (simp add: wp_ret)

lemma forEach_keeps:
  assumes "\<And>x b s. x \<in> set xs \<Longrightarrow> K s \<Longrightarrow> wp (f x b) (\<lambda>_. K) s" and "K s"
  shows "wp (forEach xs f b) (\<lambda>_. K) s"
  by (rule wp_forEach [where I = "\<lambda>_. K"]) (use assms in auto)

lemma wp_then: "wp m (\<lambda>_. K) s \<Longrightarrow> (\<And>a s'. K s' \<Longrightarrow> wp (f a) Q s') \<Longrightarrow> wp (State_Monad.bind m f) Q s"
  unfolding wp_bind by (rule wp_mono)

lemma scanRows_mem: "scanRows scan rows = Inr out \<Longrightarrow> x \<in> set out \<Longrightarrow> \<exists>row \<in> set rows. scan row = Inr x"
  by (induction rows arbitrary: out) (auto split: sum.splits)

lemma scanMember_row: "scanMember row = Inr (kind, ident) \<Longrightarrow> row = [SText kind, SText ident]"
  by (auto simp: scanMember_def split: list.splits sqlValue.splits)

lemma scanText_row: "scanText row = Inr x \<Longrightarrow> row = [SText x]"
  by (auto simp: scanText_def split: list.splits sqlValue.splits)

section \<open>What the Databases record\<close>

lemma foldl_keeps: "I b \<Longrightarrow> (\<And>x b. x \<in> set xs \<Longrightarrow> I b \<Longrightarrow> I (f b x)) \<Longrightarrow> I (foldl f b xs)"
  by (induction xs arbitrary: b) auto

definition accessOk :: "Database list \<Rightarrow> Cluster \<Rightarrow> string \<Rightarrow> string \<Rightarrow> recordedObjectAccess \<Rightarrow> bool" where
  "accessOk ds cluster role n r \<longleftrightarrow>
     (\<forall>g \<in> set (raObjects r). mogRole g = role \<and> (\<exists>d. databaseOn ds cluster n d \<and> g \<in> set (dtManagedObjectGrants (dbStatus d)))) \<and>
     (\<forall>m \<in> set (raDefaults r). role \<in> {mdpRole m, mdpForRole m} \<and>
        (\<exists>d. databaseOn ds cluster n d \<and> m \<in> set (dtManagedDefaultPrivileges (dbStatus d)))) \<and>
     (\<forall>c \<in> set (raCreated r). \<exists>d P. databaseOn ds cluster n d \<and> defaultsTo d role (cgSchema c) (cgForRole c) (cgKind c) P \<and> set (cgPrivileges c) \<subseteq> P)"

definition allAccessOk :: "Database list \<Rightarrow> Cluster \<Rightarrow> string \<Rightarrow> recordedObjectAccess gomap \<Rightarrow> bool" where
  "allAccessOk ds cluster role out \<longleftrightarrow> (\<forall>n. accessOk ds cluster role n (mapGet noAccess out n))"

lemma allAccessOk_at:
  "allAccessOk ds cluster role out \<Longrightarrow> (\<And>r. accessOk ds cluster role n r \<Longrightarrow> accessOk ds cluster role n (change r)) \<Longrightarrow>
    allAccessOk ds cluster role (atDatabase n change out)"
  by (simp add: allAccessOk_def atDatabase_def map_simps)

lemma addCreated_ok:
  assumes "allAccessOk ds cluster role (snd st)" "databaseOn ds cluster n d" "defaultsTo d role schema forRole ki P" "set privs \<subseteq> P"
  shows "allAccessOk ds cluster role (snd (addCreated n schema forRole ki privs st))"
proof -
  obtain seen out where st: "st = (seen, out)" by (cases st)
  have "accessOk ds cluster role n r \<Longrightarrow> accessOk ds cluster role n (r\<lparr>raCreated := raCreated r @
      [\<lparr>cgSchema = schema, cgForRole = forRole, cgKind = ki, cgPrivileges = privs\<rparr>]\<rparr>)" for r
    using assms(2,3,4) by (auto simp: accessOk_def)
  then show ?thesis using assms(1) by (simp add: st addCreated_def Let_def allAccessOk_at)
qed

lemma recordedIn_ok:
  assumes out: "allAccessOk ds cluster role out" and d: "d \<in> set ds"
  shows "allAccessOk ds cluster role (recordedIn cluster role out d)"
proof (cases "crName (dsClusterRef (dbSpec d)) \<noteq> clName cluster \<or> dtClusterUID (dbStatus d) \<noteq> clUID cluster \<or> dtDatabaseName (dbStatus d) = []")
  case False
  define n where "n = dtDatabaseName (dbStatus d)"
  with False d have on: "databaseOn ds cluster n d" by (simp add: databaseOn_def)
  have "allAccessOk ds cluster role (addRecordedObject n role b g)" if "g \<in> set (dtManagedObjectGrants (dbStatus d))" "allAccessOk ds cluster role b" for g b
    using that on by (auto simp: addRecordedObject_def accessOk_def intro!: allAccessOk_at)
  note objects = this
  have "allAccessOk ds cluster role (snd (addRecordedDefault n role st m))"
    if m: "m \<in> set (dtManagedDefaultPrivileges (dbStatus d))" and st: "allAccessOk ds cluster role (snd st)" for m st
  proof (cases "(mdpRole m \<noteq> role \<and> mdpForRole m \<noteq> role) \<or> \<not> validLedgerSchema (mdpSchema m)")
    case False
    let ?st = "(fst st, atDatabase n (\<lambda>r. r\<lparr>raDefaults := raDefaults r @ [m]\<rparr>) (snd st))"
    have st1: "allAccessOk ds cluster role (snd ?st)"
      using st on m False by (auto simp: accessOk_def intro!: allAccessOk_at)
    have "allAccessOk ds cluster role (snd (addCreated n (mdpSchema m) (mdpForRole m) ki (unionStrs (mdpPrivileges m) (mdpGrantOptions m)) ?st))"
      if "mdpRole m = role" "defaultKindOf (mdpKind m) = Some ki" for ki
      by (rule addCreated_ok [OF st1 on, where P = "set (mdpPrivileges m) \<union> set (mdpGrantOptions m)"])
        (use m that in \<open>auto simp: defaultsTo_def unionStrs_def\<close>)
    then show ?thesis unfolding addRecordedDefault_def if_not_P [OF False] Let_def using st1 by (simp split: option.split)
  qed (simp add: addRecordedDefault_def st)
  note defaults = this
  have "allAccessOk ds cluster role (snd (addDeclaredDefault n role (ssName sch) st e))"
    if sch: "sch \<in> set (dsSchemas (dbSpec d))" and e: "e \<in> set (ssDefaultPrivileges sch)" and st: "allAccessOk ds cluster role (snd st)" for sch e st
  proof -
    have "allAccessOk ds cluster role (snd (addCreated n (ssName sch) (dpForRole e) ki privs st))"
      if "defaultKindOf (dpKind e) = Some ki" "CanonicalGrantee (dpRole e) = role" "normalizeObjectPrivileges (dkObject ki) (dpPrivileges e) = Inr privs" for ki privs
      by (rule addCreated_ok [OF st on, where P = "set privs"]) (use sch e that in \<open>auto simp: defaultsTo_def\<close>)
    with st show ?thesis by (simp add: addDeclaredDefault_def split: option.split sum.split)
  qed
  note declared = this
  have 1: "allAccessOk ds cluster role (foldl (addRecordedObject n role) out (dtManagedObjectGrants (dbStatus d)))"
    by (rule foldl_keeps [where I = "allAccessOk ds cluster role"]) (use out objects in auto)
  have 2: "allAccessOk ds cluster role (snd (foldl (addRecordedDefault n role)
      ([], foldl (addRecordedObject n role) out (dtManagedObjectGrants (dbStatus d))) (dtManagedDefaultPrivileges (dbStatus d))))"
    by (rule foldl_keeps [where I = "\<lambda>st. allAccessOk ds cluster role (snd st)"]) (use 1 defaults in auto)
  have "allAccessOk ds cluster role (snd (foldl (\<lambda>st sch. foldl (addDeclaredDefault n role (ssName sch)) st (ssDefaultPrivileges sch))
      (foldl (addRecordedDefault n role) ([], foldl (addRecordedObject n role) out (dtManagedObjectGrants (dbStatus d)))
        (dtManagedDefaultPrivileges (dbStatus d))) (dsSchemas (dbSpec d))))"
  proof (rule foldl_keeps [where I = "\<lambda>st. allAccessOk ds cluster role (snd st)"], rule 2)
    fix sch :: SchemaSpec and st :: "string list \<times> recordedObjectAccess gomap"
    assume sch: "sch \<in> set (dsSchemas (dbSpec d))" and st: "allAccessOk ds cluster role (snd st)"
    show "allAccessOk ds cluster role (snd (foldl (addDeclaredDefault n role (ssName sch)) st (ssDefaultPrivileges sch)))"
      by (rule foldl_keeps [where I = "\<lambda>st. allAccessOk ds cluster role (snd st)"]) (use st declared [OF sch] in auto)
  qed
  then show ?thesis unfolding recordedIn_def Let_def n_def [symmetric] using False by (simp add: n_def)
qed (simp add: recordedIn_def out)

lemma recordedObjectAccessFrom_ok: "allAccessOk ds cluster role (recordedObjectAccessFrom ds cluster role)"
proof -
  have "allAccessOk ds cluster role []" by (simp add: allAccessOk_def accessOk_def noAccess_def)
  then show ?thesis unfolding recordedObjectAccessFrom_def by (rule foldl_keeps) (rule recordedIn_ok)
qed

section \<open>Reads and statements of one connection\<close>

context drop_world
begin

definition keeps :: "(string \<Rightarrow> string \<Rightarrow> bool) \<Rightarrow> 's \<Rightarrow> 's \<Rightarrow> bool" where
  "keeps B s0 s \<longleftrightarrow> sentOnly sent (\<lambda>(n, q, e). B n q) s0 s \<and> fewerHeld (facts s) (facts s0)"

lemma keeps_refl: "keeps B s s"
  by (simp add: keeps_def sentOnly_refl fewerHeld_refl)

lemma keeps_unchanged: "keeps B s0 s \<Longrightarrow> unchanged facts sent s s' \<Longrightarrow> keeps B s0 s'"
  by (auto simp: keeps_def unchanged_def intro: sentOnly_same)

lemma exec_keeps: "connected n db \<Longrightarrow> keeps B s0 s \<Longrightarrow> revokesOnly q \<Longrightarrow> B n q \<Longrightarrow> wp (execDb db q) (\<lambda>_. keeps B s0) s"
  by (rule wp_mono [OF exec_sent]) (auto simp: keeps_def elim: sentOnly_snoc intro: fewerHeld_trans)

lemma execWrap_keeps: "connected n db \<Longrightarrow> keeps B s0 s \<Longrightarrow> revokesOnly q \<Longrightarrow> B n q \<Longrightarrow> wp (execWrap db q fmt xs) (\<lambda>_. keeps B s0) s"
  unfolding execWrap_def wp_bind wp_ret by (rule exec_keeps)

lemma query_keeps: "connected n db \<Longrightarrow> keeps B s0 s \<Longrightarrow> wp (queryDb db q params) (\<lambda>_. keeps B s0) s"
  by (rule wp_mono [OF query_read]) (auto intro: keeps_unchanged)

lemma reads_keep:
  assumes "connected n db" "keeps B s0 s"
  shows "wp (queryRow db q params) (\<lambda>_. keeps B s0) s" "wp (queryBool db q params fmt xs) (\<lambda>_. keeps B s0) s"
    "wp (queryRows db q params scan fmt xs scanFmt) (\<lambda>_. keeps B s0) s" "wp (listStrings db q arg) (\<lambda>_. keeps B s0) s"
    "wp (RoleExists db name) (\<lambda>_. keeps B s0) s"
  unfolding queryRow_def queryBool_def queryRows_def listStrings_def RoleExists_def wp_bind wp_ret
  by (rule query_keeps [OF assms])+

lemma listStrings_keeps:
  assumes db: "connected n db" and s: "keeps B s0 s"
    and rows: "wp (queryDb db q [arg]) (\<lambda>r _. \<forall>rows e x. r = Inr (rows, e) \<longrightarrow> [SText x] \<in> set rows \<longrightarrow> P x) s"
  shows "wp (listStrings db q arg) (\<lambda>r s'. keeps B s0 s' \<and> (\<forall>xs. r = Inr xs \<longrightarrow> (\<forall>x \<in> set xs. P x))) s"
  unfolding listStrings_def wp_bind wp_ret
proof (rule wp_mono [OF wp_both [OF query_keeps [OF db s] rows]], goal_cases)
  case (1 r s')
  have "P x" if "r = Inr (rows, e)" "scanRows scanText rows = Inr xs" "x \<in> set xs" for rows e xs x
    using scanRows_mem [OF that(2,3)] 1 that(1) by (auto dest!: scanText_row)
  with 1 show ?case by (auto split: sum.splits option.splits prod.splits)
qed

lemma revokeEach_keeps:
  assumes db: "connected n db" and r: "\<forall>xs. r = Inr xs \<longrightarrow> (\<forall>x \<in> set xs. B n (revokeAllQuery (object x) role))" and s: "keeps B s0 s"
  shows "wp (case r of Inl e \<Rightarrow> ret (Some (err e)) | Inr xs \<Rightarrow> stopAtError (\<lambda>x. execWrap db (revokeAllQuery (object x) role) fmt (args x)) xs)
    (\<lambda>_. keeps B s0) s"
proof (cases r)
  case (Inr xs)
  have "wp (execWrap db (revokeAllQuery (object x) role) fmt (args x)) (\<lambda>_. keeps B s0) s1" if "x \<in> set xs" "keeps B s0 s1" for x s1
    by (rule execWrap_keeps [OF db that(2) revokesOnly_build(2)]) (use r Inr that(1) in blast)
  then show ?thesis unfolding Inr sum.case using s by (rule stopAtError_keeps)
qed (simp add: wp_ret s)

lemma RevokeAllDatabasePrivileges_keeps:
  assumes db: "connected n db" and s: "keeps B s0 s"
    and B: "\<And>d. d \<in> dfDatabaseGrants (facts s0) role \<Longrightarrow> B n (revokeAllQuery (''DATABASE '' @ quoteIdent d) role)"
  shows "wp (RevokeAllDatabasePrivileges db role) (\<lambda>_. keeps B s0) s"
  unfolding RevokeAllDatabasePrivileges_def wp_bind
proof (rule wp_mono [OF listStrings_keeps [OF db s query_databases [OF db]]], goal_cases)
  case (1 r s1)
  have f: "fewerHeld (facts s) (facts s0)" using s by (simp add: keeps_def)
  show ?case
    by (rule revokeEach_keeps [OF db]) (use 1 B fewerHeld_held(1) [OF f] in blast)+
qed

lemma RevokeAllSchemaPrivileges_keeps:
  assumes db: "connected n db" and s: "keeps B s0 s"
    and B: "\<And>sch. sch \<in> dfSchemaGrants (facts s0) n role \<Longrightarrow> B n (revokeAllQuery (''SCHEMA '' @ quoteIdent sch) role)"
  shows "wp (RevokeAllSchemaPrivileges db role) (\<lambda>_. keeps B s0) s"
  unfolding RevokeAllSchemaPrivileges_def wp_bind
proof (rule wp_mono [OF listStrings_keeps [OF db s query_schemas [OF db]]], goal_cases)
  case (1 r s1)
  have f: "fewerHeld (facts s) (facts s0)" using s by (simp add: keeps_def)
  show ?case
    by (rule revokeEach_keeps [OF db]) (use 1 B fewerHeld_held(2) [OF f] in blast)+
qed

lemma RevokeAllExtensionMemberPrivileges_keeps:
  assumes db: "connected n db" and s: "keeps B s0 s"
    and B: "\<And>kind ident. (kind, ident) \<in> dfMembers (facts s0) n role \<Longrightarrow> B n (revokeAllQuery (kind @ '' '' @ ident) role)"
  shows "wp (RevokeAllExtensionMemberPrivileges db role) (\<lambda>_. keeps B s0) s"
proof -
  have "wp (queryRows db extensionMembersQuery [SText role] scanMember fmt xs scanFmt)
      (\<lambda>r s'. keeps B s0 s' \<and> (\<forall>objs. r = Inr objs \<longrightarrow> set objs \<subseteq> dfMembers (facts s0) n role)) s" for fmt xs scanFmt
    unfolding queryRows_def wp_bind wp_ret
  proof (rule wp_mono [OF wp_both [OF query_keeps [OF db s] query_members [OF db]]], goal_cases)
    case (1 r s')
    have f: "fewerHeld (facts s) (facts s0)" using s by (simp add: keeps_def)
    have "(kind, ident) \<in> dfMembers (facts s0) n role" if "r = Inr (rows, e)" "scanRows scanMember rows = Inr objs" "(kind, ident) \<in> set objs"
      for rows e objs kind ident
      using scanRows_mem [OF that(2,3)] 1 that(1) fewerHeld_held(3) [OF f] by (auto dest!: scanMember_row)
    with 1 show ?case by (auto split: sum.splits option.splits prod.splits)
  qed
  note listed = this
  show ?thesis
    unfolding RevokeAllExtensionMemberPrivileges_def wp_bind
  proof (rule wp_mono [OF listed], goal_cases)
    case (1 r s1)
    show ?case
    proof (cases r)
      case (Inr objs)
      have "wp (case x of (kind, ident) \<Rightarrow> execWrap db (revokeAllQuery (kind @ '' '' @ ident) role) fmt (xs kind ident)) (\<lambda>_. keeps B s0) s2"
        if "x \<in> set objs" "keeps B s0 s2" for x s2 fmt xs
      proof -
        obtain kind ident where x: "x = (kind, ident)" by (cases x)
        with 1 Inr that(1) have "B n (revokeAllQuery (kind @ '' '' @ ident) role)" by (intro B) auto
        with that(2) show ?thesis unfolding x prod.case by (rule execWrap_keeps [OF db _ revokesOnly_build(2)])
      qed
      then show ?thesis
        unfolding Inr sum.case using 1 by (intro stopAtError_keeps) auto
    qed (use 1 in \<open>simp add: wp_ret\<close>)
  qed
qed

lemma resolve_keeps:
  assumes db: "connected n db" and s: "keeps B s0 s"
  shows "wp (resolveSchemaObject db kind schema identity oid) (\<lambda>r s'. keeps B s0 s' \<and> (\<forall>canonical found.
    r = Inr (Some (canonical, found)) \<longrightarrow> dfNames (facts s0) n kind canonical found \<and> (oid \<noteq> 0 \<longrightarrow> found = oid))) s"
proof -
  have f: "dfNames (facts s) = dfNames (facts s0)" using s by (auto simp: keeps_def dest: fewerHeld_same)
  show ?thesis
  proof (rule resolve_wp [where K = "keeps B s0" and N = "dfNames (facts s0) n kind"], goal_cases)
    case 1
    show ?case by (rule s)
  next
    case (2 q params)
    show ?case by (rule query_keeps [OF db s])
  next
    case (3 q)
    show ?case unfolding f [symmetric] by (rule query_name [OF db 3])
  next
    case (4 q)
    show ?case unfolding f [symmetric] by (rule query_oid [OF db 4])
  qed
qed

lemma RevokeOnSchemaObject_keeps:
  assumes db: "connected n db" and s: "keeps B s0 s"
    and B: "\<And>canonical found q. dfNames (facts s0) n kind canonical found \<Longrightarrow> (oid \<noteq> 0 \<Longrightarrow> found = oid) \<Longrightarrow>
      buildSchemaObjectPrivilegesQuery False kind canonical grantee ps False mode = Inr q \<Longrightarrow> B n q"
  shows "wp (RevokeOnSchemaObject db kind schema identity oid grantee ps mode) (\<lambda>_. keeps B s0) s"
  unfolding RevokeOnSchemaObject_def ResolveSchemaObject_def wp_bind wp_ret
proof (rule wp_mono [OF resolve_keeps [OF db s]], goal_cases)
  case (1 r s')
  then have s': "keeps B s0 s'" and r: "\<And>canonical found. r = Inr (Some (canonical, found)) \<Longrightarrow>
      dfNames (facts s0) n kind canonical found \<and> (oid \<noteq> 0 \<longrightarrow> found = oid)" by auto
  show ?case
  proof (cases "\<exists>canonical found. r = Inr (Some (canonical, found))")
    case True
    then obtain canonical found where f: "r = Inr (Some (canonical, found))" by blast
    have n: "dfNames (facts s0) n kind canonical found" "oid \<noteq> 0 \<Longrightarrow> found = oid" using r [OF f] by simp_all
    show ?thesis
      unfolding f map_sum.simps sum.case option.map option.case fst_conv
      using s' by (auto simp: wp_ret split: sum.split intro!: execWrap_keeps [OF db s' revokesOnly_built(2) B [OF n]])
  next
    case False
    then show ?thesis using s' by (cases r) (auto simp: wp_simps split: option.splits)
  qed
qed

lemma RevokeDefaultPrivileges_keeps:
  assumes db: "connected n db" and s: "keeps B s0 s"
    and B: "\<And>q. buildDefaultPrivilegesQuery False t grantee ps False mode = Inr q \<Longrightarrow> B n q"
  shows "wp (RevokeDefaultPrivileges db t grantee ps mode) (\<lambda>_. keeps B s0) s"
  unfolding RevokeDefaultPrivileges_def
  using s by (auto simp: wp_ret split: sum.split intro!: execWrap_keeps [OF db s revokesOnly_built(3) B])

end

end
