(* ===== verification/Role_Drop_Safe.thy ===== *)
theory Role_Drop_Safe
  imports Role_Drop_Correct Grant_Guards
begin

text \<open>
  The run of \<open>dropPostgresRole\<close> under \<open>drop_world\<close>: what is revoked, what is reassigned, the guards, and
  the drop. Every step keeps \<open>cleans\<close>: the statements since the start are those of the clean-up, and
  the facts are the ones the guards were checked on.
\<close>

lemma revokeRecorded_keeps:
  assumes "\<And>ps mode s. set ps \<subseteq> set privs \<union> set opts \<Longrightarrow> K s \<Longrightarrow> wp (doRevoke ps mode) (\<lambda>_. K) s" and "K s"
  shows "wp (revokeRecorded privs opts doRevoke) (\<lambda>_. K) s"
proof -
  have "wp (if privs \<noteq> [] then doRevoke privs cascadeMode else ret None) (\<lambda>_. K) s"
    using assms by (simp add: wp_ret)
  moreover have "K s1 \<Longrightarrow> wp (let only = subtract opts privs in if only \<noteq> [] then doRevoke only cascadeOptionMode else ret None) (\<lambda>_. K) s1" for s1
    using assms(1) [of "subtract opts privs"] by (auto simp: Let_def wp_ret)
  ultimately show ?thesis
    unfolding revokeRecorded_def wp_bind wp_ret by (blast intro: wp_mono)
qed

lemma skipFailed_keeps:
  assumes "\<And>n s. K s \<Longrightarrow> wp (f n) (\<lambda>_. K) s" and "K s"
  shows "wp (skipFailed f d skipped) (\<lambda>_. K) s"
  using assms by (simp add: skipFailed_def wp_ret wp_bind)

lemma recordParameters_conditions [simp]: "rtConditions (roleStatus (recordParameterGrants r L)) = rtConditions (roleStatus r)"
  by (simp add: recordParameterGrants_def)

lemma revokeParameters_conditions:
  fixes db :: "'s db"
  shows "wp (revokeManagedParameterGrants db r m) (\<lambda>a _. rtConditions (roleStatus (fst a)) = rtConditions (roleStatus r)) s"
proof -
  have ap: "wp (applyPrivilegeGrants ds L ops lim p) (\<lambda>a. wp (case a of (after, err) \<Rightarrow> ret (recordParameterGrants r after, err))
      (\<lambda>a _. rtConditions (roleStatus (fst a)) = rtConditions (roleStatus r))) s1" for ds L ops lim p s1
    by (rule wp_mono [OF wp_True]) (simp add: wp_ret split: prod.split)
  have arm: "wp (case x of Inl e \<Rightarrow> ret (r, Some e) | Inr exists \<Rightarrow> if \<not> exists then ret (r, None)
      else do { (after, err) \<leftarrow> applyPrivilegeGrants ds L ops lim p; ret (recordParameterGrants r after, err) })
      (\<lambda>a _. rtConditions (roleStatus (fst a)) = rtConditions (roleStatus r)) s1" for x ds L lim p s1 and ops :: "'s privilegeOps"
  proof (cases "\<exists>b. x = Inr b \<and> b")
    case True
    then obtain b where x: "x = Inr b" and b: "\<not> \<not> b" by blast
    show ?thesis unfolding x sum.case if_not_P [OF b] wp_bind by (rule ap)
  qed (cases x; auto simp: wp_ret)
  show ?thesis
  proof (cases "managedParameterGrants r m = []")
    case False
    show ?thesis unfolding revokeManagedParameterGrants_def Let_def if_not_P [OF False]
      by (rule wp_then [OF wp_True]) (rule arm)
  qed (simp add: revokeManagedParameterGrants_def wp_ret)
qed

text \<open>
  What a run that passed the guards did: statements of the clean-up, then possibly DROP ROLE, whose
  answer decides the result; and a role that cannot be dropped yet says so in its conditions.
\<close>

definition blockedStatus :: "conditionApi \<Rightarrow> ClusterRole \<Rightarrow> ClusterRole \<Rightarrow> bool" where
  "blockedStatus api role role' \<longleftrightarrow> (\<exists>msg. rtConditions (roleStatus role') = caSet api (rtConditions (roleStatus role))
     \<lparr>cType = ConditionTypeAvailable, cStatus = ''False'', cReason = ReasonRoleDropBlocked, cMessage = msg\<rparr>)"

definition dropFinished :: "conditionApi \<Rightarrow> dropFacts \<Rightarrow> Cluster \<Rightarrow> ClusterRole \<Rightarrow> (string \<times> string \<times> error option) list
    \<Rightarrow> ClusterRole \<times> int \<times> error option \<Rightarrow> bool" where
  "dropFinished api f cluster role new = (\<lambda>(role', requeue, err).
     (\<exists>before final. new = before @ final \<and> (\<forall>(n, q, a) \<in> set before. cleanupStatement f cluster role n q) \<and>
        (if final = [] then err \<noteq> None \<or> requeue \<noteq> 0
         else \<exists>a. final = [(defaultDatabaseName, dropRoleQuery (rtRoleName (roleStatus role)), a)] \<and> (a = None \<longleftrightarrow> err = None \<and> requeue = 0))) \<and>
     (requeue \<noteq> 0 \<longrightarrow> err = None \<and> requeue = 30 * second \<and> blockedStatus api role role'))"

text \<open>
  The run passed the guards: with the key as the API server gave it out in this run, in a state in which
  nothing had been sent yet and from which the run went on to the clean-up.
\<close>

definition passedGuards :: "'s dropKube \<Rightarrow> ('s \<Rightarrow> dropFacts) \<Rightarrow> ('s \<Rightarrow> (string \<times> string \<times> error option) list) \<Rightarrow> Cluster \<Rightarrow> ClusterRole
    \<Rightarrow> 's \<Rightarrow> ClusterRole \<times> int \<times> error option \<Rightarrow> 's \<Rightarrow> bool" where
  "passedGuards kube facts sent cluster role s r s' \<longleftrightarrow>
     (\<exists>s1 answer s2 db. unchanged facts sent s s1 \<and> mayDropAt kube facts cluster role s1 \<and>
        run_state (loadMarkerSigner kube cluster) s1 = (answer, s2) \<and>
        run_state (dropOwnedRole kube db cluster role (rtRoleName (roleStatus role))) s2 = (r, s'))"

lemma passedGuards_may: "passedGuards kube facts sent cluster role s r s' \<Longrightarrow> mayDrop kube facts (facts s) cluster role"
  by (auto simp: passedGuards_def mayDrop_def unchanged_def)

lemma cutPrefix_iff: "cutPrefix s p = Some r \<longleftrightarrow> s = p @ r"
  by (auto simp: cutPrefix_def hasPrefix_def) (metis append_take_drop_id)

lemma mayDropComment_accepted: "mayDropComment key role comment \<longleftrightarrow> acceptedMarker key (roleMetaName role) comment"
proof -
  have "otherKeyMarker key comment markerKindRole name \<longleftrightarrow>
    (\<exists>keyName sig. comment = ''pgop:v2:Role/'' @ name @ '':'' @ keyName @ ''.'' @ sig \<and> CHR ''.'' \<notin> set keyName \<and> keyName \<noteq> keyID key)" for name
  proof (cases "cutPrefix comment (markerV2Prefix @ markerKindRole @ ''/'' @ name @ '':'')")
    case None
    then have "comment \<noteq> ''pgop:v2:Role/'' @ name @ '':'' @ rest" for rest
      using cutPrefix_iff [of comment "markerV2Prefix @ markerKindRole @ ''/'' @ name @ '':''" rest] by auto
    with None show ?thesis by (auto simp: otherKeyMarker_def)
  next
    case (Some rest)
    then have c: "comment = ''pgop:v2:Role/'' @ name @ '':'' @ rest" by (simp add: cutPrefix_iff)
    show ?thesis
    proof (cases "CHR ''.'' \<in> set rest")
      case True
      then obtain i sig where r: "rest = i @ CHR ''.'' # sig" "CHR ''.'' \<notin> set i" using split_list_first by metis
      have "i' = i" if "rest = i' @ ''.'' @ sig'" "CHR ''.'' \<notin> set i'" for i' sig'
        using cutAt_append [OF that(2), of sig'] cutAt_append [OF r(2), of sig] that(1) r(1) by simp
      then show ?thesis
        unfolding otherKeyMarker_def Some option.case r(1) cutAt_append [OF r(2)] prod.case using r by (auto simp: c)
    next
      case False
      then show ?thesis unfolding otherKeyMarker_def Some option.case by (auto simp: c cutAt_def)
    qed
  qed
  then show ?thesis
    by (auto simp: mayDropComment_def decideOwnership_def acceptedMarker_def verify_def refreshableComment_def legacyMarker_def)
qed

lemma wp_exact: "wp m (\<lambda>r s'. run_state m s = (r, s')) s"
  by (simp add: wp_def)

text \<open>The list of Roles, which the code reads from a cache, is always answered.\<close>

definition listsRoles :: "'s dropKube \<Rightarrow> bool" where
  "listsRoles kube \<longleftrightarrow> (\<forall>ns s. wp (dkListRoles kube ns) (\<lambda>r _. \<exists>rs. r = Inr rs) s)"

context drop_world
begin

definition cleans :: "Cluster \<Rightarrow> ClusterRole \<Rightarrow> 's \<Rightarrow> 's \<Rightarrow> bool" where
  "cleans cluster role s0 = keeps (cleanupStatement (facts s0) cluster role) s0"

lemma cleans_facts:
  assumes "cleans cluster role s0 s"
  shows "dfDatabases (facts s) = dfDatabases (facts s0)" "dfTarget (facts s) = dfTarget (facts s0)" "dfOwned (facts s) = dfOwned (facts s0)"
    "dfRoleOID (facts s) = dfRoleOID (facts s0)" "dfObjects (facts s) = dfObjects (facts s0)"
  using assms by (auto simp: cleans_def keeps_def dest: fewerHeld_same)

lemma cleans_unchanged: "cleans cluster role s0 s \<Longrightarrow> unchanged facts sent s s' \<Longrightarrow> cleans cluster role s0 s'"
  unfolding cleans_def by (rule keeps_unchanged)

section \<open>Connections\<close>

lemma secret_unchanged: "wp (dkSecret kube ns name) (\<lambda>_. unchanged facts sent s) s"
  by (rule wp_mono [OF secret_read]) simp

lemma operatorClient_post: "wp (operatorClient kube cluster n) (\<lambda>r s'. unchanged facts sent s s' \<and> (\<forall>db. r = Inr db \<longrightarrow> connected n db)) s"
proof -
  have trans: "unchanged facts sent s s1 \<Longrightarrow> unchanged facts sent s1 s2 \<Longrightarrow> unchanged facts sent s s2" for s1 s2 by (simp add: unchanged_def)
  have tls: "wp (clusterClientTLS (dkSecret kube ns) cluster) (\<lambda>_. unchanged facts sent s1) s1" for ns s1
  proof (cases "tlsActive cluster")
    case True
    then have n: "\<not> \<not> tlsActive cluster" by simp
    show ?thesis unfolding clusterClientTLS_def if_not_P [OF n] wp_bind wp_ret by (rule secret_unchanged)
  qed (simp add: clusterClientTLS_def wp_ret unchanged_def)
  have cfg: "wp (operatorConnectionConfig (dkSecret kube ns) cluster n)
      (\<lambda>r s'. unchanged facts sent s s' \<and> (\<forall>cfg. r = Inr cfg \<longrightarrow> cfgDatabase cfg = n)) s" for ns
    unfolding operatorConnectionConfig_def wp_bind
  proof (rule wp_mono [OF secret_unchanged], goal_cases)
    case (1 r s1)
    show ?case
    proof (cases r)
      case (Inr secret)
      show ?thesis
        unfolding Inr sum.case wp_bind wp_ret
        by (rule wp_mono [OF tls]) (auto split: sum.splits intro: trans [OF 1])
    qed (use 1 in \<open>simp add: wp_ret\<close>)
  qed
  show ?thesis
    unfolding operatorClient_def newOperatorClient_def wp_bind
  proof (rule wp_mono [OF cfg], goal_cases)
    case (1 r s1)
    then show ?case
      by (cases r) (auto simp: wp_ret intro!: wp_mono [OF client_made] intro: trans)
  qed
qed

text \<open>A function of a connection that keeps \<open>cleans\<close> also does so behind its opening.\<close>

lemma connected_cleans:
  assumes s: "cleans cluster role s0 s" and f: "\<And>db s1. connected n db \<Longrightarrow> cleans cluster role s0 s1 \<Longrightarrow> wp (f db) (\<lambda>_. cleans cluster role s0) s1"
  shows "wp (do { r \<leftarrow> operatorClient kube cl n; (case r of Inl e \<Rightarrow> ret (Some e) | Inr db \<Rightarrow> f db) }) (\<lambda>_. cleans cluster role s0) s"
  unfolding wp_bind
proof (rule wp_mono [OF operatorClient_post], goal_cases)
  case (1 r s1)
  with cleans_unchanged [OF s] f [of _ s1] show ?case by (cases r) (auto simp: wp_ret)
qed

section \<open>What is revoked\<close>

lemma parameters_cleans:
  assumes db: "connected defaultDatabaseName db" and s: "cleans cluster role s0 s"
  shows "wp (revokeManagedParameterGrants db (Role.truncate role) (rtRoleName (roleStatus role))) (\<lambda>_. cleans cluster role s0) s"
proof -
  define L where "L = managedParameterGrants (Role.truncate role) (rtRoleName (roleStatus role))"
  define may where "may = (\<lambda>t ps. \<forall>mode q. buildRevokePrivilegesQuery (targetObject t) (tGrantee t) ps mode = Inr q \<longrightarrow>
    cleanupStatement (facts s0) cluster role defaultDatabaseName q)"
  have held: "keeps B s0 s1 \<Longrightarrow> wp (HeldPrivileges db obj g) (\<lambda>_. keeps B s0) s1" for B obj g s1
    by (auto simp: HeldPrivileges_def wp_ret wp_bind split: option.split sum.split intro: reads_keep [OF db])
  have g: "guarded_ops (executorOps db None) (cleans cluster role s0) (\<lambda>_ _ _. False) may"
  proof unfold_locales
    fix s1 t assume "cleans cluster role s0 s1"
    then show "wp (held (executorOps db None) t) (\<lambda>_. cleans cluster role s0) s1"
      by (auto simp: executorOps_def cleans_def wp_bind wp_ret intro: held)
  next
    fix t ps mode s1 assume "may t ps" "cleans cluster role s0 s1"
    then show "wp (revoke (executorOps db None) t ps mode) (\<lambda>_. cleans cluster role s0) s1"
      by (auto simp: executorOps_def cleans_def may_def RevokePrivileges_def wp_ret split: sum.split
          intro!: execWrap_keeps [OF db] dest: revokesOnly_built)
  qed (simp_all add: executorOps_def)
  have grantee: "tGrantee t = rtRoleName (roleStatus role)" if "t \<in> Target ` set L" for t
    using that by (auto simp: L_def managedParameterGrants_def parameterLedger_def parameterTarget_def)
  have may: "may t ps" if "t \<in> Target ` set L" "set ps \<subseteq> recPrivs L (targetKey t) \<union> recOpts L (targetKey t)" for t ps
    using that grantee [OF that(1)] unfolding may_def by (auto intro!: cleanupStatement.parameter [OF L_def refl])
  have run: "wp (applyPrivilegeGrants [] L (executorOps db None) parameterGrantLedgerLimit None) (\<lambda>_. cleans cluster role s0) s1"
    if "cleans cluster role s0 s1" for s1
    by (rule guarded_ops.apply_keeps [OF g]) (use may that in auto)
  have ex: "wp (RoleExists db (rtRoleName (roleStatus role))) (\<lambda>_. cleans cluster role s0) s"
    using s unfolding cleans_def by (rule reads_keep(5) [OF db])
  show ?thesis
  proof (cases "L = []")
    case False
    show ?thesis
      unfolding revokeManagedParameterGrants_def Let_def L_def [symmetric] if_not_P [OF False] wp_bind
    proof (rule wp_mono [OF ex], goal_cases)
      case (1 r s1)
      have go: "wp (applyPrivilegeGrants [] L (executorOps db None) parameterGrantLedgerLimit None)
          (\<lambda>a. wp (case a of (after, err) \<Rightarrow> ret (recordParameterGrants (Role.truncate role) after, err)) (\<lambda>_. cleans cluster role s0)) s1"
        by (rule wp_mono [OF run [OF 1]]) (simp add: wp_ret split: prod.split)
      show ?case
        using go 1 by (cases r) (simp_all add: wp_ret wp_bind)
    qed
  qed (simp add: revokeManagedParameterGrants_def L_def [symmetric] wp_ret s)
qed

lemma recordedObject_cleans:
  assumes db: "connected n db" and s: "cleans cluster role s0 s"
    and d: "databaseOn (dfDatabases (facts s0) (clNamespace cluster)) cluster n d"
    and g: "g \<in> set (dtManagedObjectGrants (dbStatus d))" "mogRole g = rtRoleName (roleStatus role)"
  shows "wp (revokeRecordedObject db g errs) (\<lambda>_. cleans cluster role s0) s"
proof (cases "objectKindOf (mogKind g)")
  case (Some ki)
  have "wp (RevokeOnSchemaObject db (okPg ki) (mogSchema g) (mogObject g) (mogOID g) (mogRole g) ps mode) (\<lambda>_. cleans cluster role s0) s1"
    if ps: "set ps \<subseteq> set (mogPrivileges g) \<union> set (mogGrantOptions g)" and "cleans cluster role s0 s1" for ps mode s1
    using that(2) unfolding cleans_def g(2)
    by (rule RevokeOnSchemaObject_keeps [OF db]) (rule cleanupStatement.object [OF d g Some ps], blast+)
  note step = this
  show ?thesis
    unfolding revokeRecordedObject_def Some option.case wp_bind wp_ret
    by (rule revokeRecorded_keeps [OF step s])
qed (simp add: revokeRecordedObject_def wp_ret s)

lemma recordedDefault_cleans:
  assumes db: "connected n db" and s: "cleans cluster role s0 s"
    and d: "databaseOn (dfDatabases (facts s0) (clNamespace cluster)) cluster n d"
    and m: "m \<in> set (dtManagedDefaultPrivileges (dbStatus d))" "rtRoleName (roleStatus role) \<in> {mdpRole m, mdpForRole m}"
  shows "wp (revokeRecordedDefault db m errs) (\<lambda>_. cleans cluster role s0) s"
proof (cases "defaultKindOf (mdpKind m)")
  case (Some ki)
  let ?t = "\<lparr>dtForRole = mdpForRole m, dtSchema = mdpSchema m, dtKind = dkPg ki\<rparr>"
  have "wp (RevokeDefaultPrivileges db ?t (mdpRole m) ps mode) (\<lambda>_. cleans cluster role s0) s1"
    if ps: "set ps \<subseteq> set (mdpPrivileges m) \<union> set (mdpGrantOptions m)" and "cleans cluster role s0 s1" for ps mode s1
    using that(2) unfolding cleans_def
    by (rule RevokeDefaultPrivileges_keeps [OF db]) (rule cleanupStatement.default [OF d m Some ps])
  note step = this
  show ?thesis
    unfolding revokeRecordedDefault_def Some option.case wp_bind wp_ret
    by (rule revokeRecorded_keeps [OF step s])
qed (simp add: revokeRecordedDefault_def wp_ret s)

lemma RoleOIDs_post:
  assumes db: "connected n db"
  shows "wp (RoleOIDs db names) (\<lambda>r s'. unchanged facts sent s s' \<and>
    (\<forall>oids m i. r = Inr oids \<longrightarrow> map_of oids m = Some i \<longrightarrow> dfRoleOID (facts s) m = Some i)) s"
  unfolding RoleOIDs_def wp_bind wp_ret
proof (rule wp_mono [OF wp_both [OF query_read [OF db] query_oids [OF db]]], goal_cases)
  case (1 r s1)
  have "dfRoleOID (facts s) m = Some i"
    if r: "r = Inr (rows, e)" "scanRows scanRoleOID rows = Inr found" "map_of (foldl (\<lambda>m (n, v). AList.update n v m) [] found) m = Some i"
    for rows e found m i
  proof -
    have row: "dfRoleOID (facts s) m = Some i" if "(m, i) \<in> set found" for m i
    proof -
      from scanRows_mem [OF r(2) that] obtain row where "row \<in> set rows" "scanRoleOID row = Inr (m, i)" by blast
      then have "[SText m, SInt i] \<in> set rows" by (auto simp: scanRoleOID_def split: list.splits sqlValue.splits)
      with 1 r(1) show ?thesis by blast
    qed
    have "\<forall>m i. map_of (foldl (\<lambda>m (n, v). AList.update n v m) [] found) m = Some i \<longrightarrow> dfRoleOID (facts s) m = Some i"
      by (rule foldl_keeps [where I = "\<lambda>out. \<forall>m i. map_of out m = Some i \<longrightarrow> dfRoleOID (facts s) m = Some i"])
        (auto simp: map_simps row split: if_splits)
    with r(3) show ?thesis by blast
  qed
  with 1 show ?case by (auto split: sum.splits option.splits)
qed

lemma ListSchemaObjects_post:
  assumes db: "connected n db"
  shows "wp (ListSchemaObjects db schema kind sel) (\<lambda>r s'. unchanged facts sent s s' \<and> (\<forall>out. r = Inr out \<longrightarrow>
    (\<forall>obj \<in> set out. soOID obj \<noteq> 0 \<and> (soOID obj, soOwnerOID obj, soExtension obj) \<in> dfObjects (facts s) n schema kind))) s"
proof (cases "schemaObjectQueries kind")
  case None
  then show ?thesis by (simp add: ListSchemaObjects_def wp_ret unchanged_def)
next
  case (Some q)
  show ?thesis
    unfolding ListSchemaObjects_def Some option.case wp_bind wp_ret append_Cons
  proof (rule wp_mono [OF wp_both [OF query_read [OF db] query_objects [OF db Some]]], goal_cases)
    case (1 r s1)
    have "soOID obj \<noteq> 0 \<and> (soOID obj, soOwnerOID obj, soExtension obj) \<in> dfObjects (facts s) n schema kind"
      if "r = Inr (rows, e)" "scanRows scanObject rows = Inr out" "obj \<in> set out" for rows e out obj
      using scanRows_mem [OF that(2,3)] 1 that(1) by blast
    with 1 show ?case by (auto split: sum.splits option.splits)
  qed
qed

lemma created_cleans:
  assumes db: "connected n db" and s: "cleans cluster role s0 s"
    and d: "databaseOn (dfDatabases (facts s0) (clNamespace cluster)) cluster n d"
    and c: "defaultsTo d (rtRoleName (roleStatus role)) (cgSchema c) (cgForRole c) (cgKind c) P" "set (cgPrivileges c) \<subseteq> P"
  shows "wp (revokeFromCreatedObjects db (rtRoleName (roleStatus role)) c) (\<lambda>_. cleans cluster role s0) s"
proof -
  have obj: "wp (revokeFromObject db (rtRoleName (roleStatus role)) c kind grantee own obj errs) (\<lambda>_. cleans cluster role s0) s1"
    if kind: "kind \<in> set (createdKinds (cgKind c))" and own: "dfRoleOID (facts s0) (cgForRole c) = Some own"
      and obj: "soOID obj \<noteq> 0" "(soOID obj, soOwnerOID obj, soExtension obj) \<in> dfObjects (facts s0) n (cgSchema c) kind"
      and s1: "cleans cluster role s0 s1" for kind grantee own obj errs s1
  proof (cases "soOwnerOID obj \<noteq> own \<or> soExtension obj \<noteq> [] \<or> intersect (cgPrivileges c) (fst (Held obj grantee)) = []")
    case False
    then have n: "\<not> (soOwnerOID obj \<noteq> own \<or> soExtension obj \<noteq> [])" "intersect (cgPrivileges c) (fst (Held obj grantee)) \<noteq> []" by simp_all
    have o: "(soOID obj, own, []) \<in> dfObjects (facts s0) n (cgSchema c) kind" using obj(2) n(1) by simp
    have ps: "set (intersect (cgPrivileges c) (fst (Held obj grantee))) \<subseteq> P" using c(2) by (auto simp: intersect_def)
    show ?thesis
      unfolding revokeFromObject_def if_not_P [OF n(1)] Let_def if_not_P [OF n(2)] wp_bind wp_ret
      using s1 unfolding cleans_def
    proof (rule RevokeOnSchemaObject_keeps [OF db])
      fix canonical found q
      assume nm: "dfNames (facts s0) n kind canonical found" and "soOID obj \<noteq> 0 \<Longrightarrow> found = soOID obj"
        and q: "buildSchemaObjectPrivilegesQuery False kind canonical (rtRoleName (roleStatus role))
          (intersect (cgPrivileges c) (fst (Held obj grantee))) False cascadeMode = Inr q"
      then have "dfNames (facts s0) n kind canonical (soOID obj)" using obj(1) by simp
      then show "cleanupStatement (facts s0) cluster role n q"
        by (rule cleanupStatement.created [OF d c(1) ps kind o own _ q])
    qed
  qed (auto simp: revokeFromObject_def wp_ret s1)
  have kinds: "wp (revokeFromKind db (rtRoleName (roleStatus role)) c grantee own kind errs) (\<lambda>_. cleans cluster role s0) s1"
    if "kind \<in> set (createdKinds (cgKind c))" "dfRoleOID (facts s0) (cgForRole c) = Some own" "cleans cluster role s0 s1"
    for grantee own kind errs s1
    unfolding revokeFromKind_def wp_bind
  proof (rule wp_mono [OF ListSchemaObjects_post [OF db]], goal_cases)
    case (1 r s2)
    note f = cleans_facts [OF that(3)]
    have s2: "cleans cluster role s0 s2" using cleans_unchanged [OF that(3)] 1 by blast
    show ?case
    proof (cases r)
      case (Inr objs)
      show ?thesis unfolding Inr sum.case
        by (rule forEach_keeps [where K = "cleans cluster role s0", OF _ s2], rule obj [OF that(1,2)]) (use 1 Inr f in auto)
    qed (simp add: wp_ret s2)
  qed
  show ?thesis
    unfolding revokeFromCreatedObjects_def wp_bind
  proof (rule wp_mono [OF RoleOIDs_post [OF db]], goal_cases)
    case (1 r s1)
    note f = cleans_facts [OF s]
    have s1: "cleans cluster role s0 s1" using cleans_unchanged [OF s] 1 by blast
    have "wp (do { errs \<leftarrow> forEach (createdKinds (cgKind c)) (revokeFromKind db (rtRoleName (roleStatus role)) c grantee own) []; ret (joinErrs errs) })
        (\<lambda>_. cleans cluster role s0) s1" if "r = Inr oids" "map_of oids (cgForRole c) = Some own" for oids grantee own
      unfolding wp_bind wp_ret by (rule forEach_keeps [where K = "cleans cluster role s0", OF _ s1], rule kinds) (use 1 that f in auto)
    then show ?case using s1 by (cases r) (auto simp: wp_ret split: option.split)
  qed
qed

lemma recorded_cleans:
  assumes db: "connected n db" and s: "cleans cluster role s0 s"
    and ok: "accessOk (dfDatabases (facts s0) (clNamespace cluster)) cluster (rtRoleName (roleStatus role)) n rec"
  shows "wp (revokeRecordedObjectAccess db (rtRoleName (roleStatus role)) rec) (\<lambda>_. cleans cluster role s0) s"
proof -
  have 1: "wp (forEach (raObjects rec) (revokeRecordedObject db) errs) (\<lambda>_. cleans cluster role s0) s1" if "cleans cluster role s0 s1" for errs s1
    by (rule forEach_keeps [where K = "cleans cluster role s0", OF _ that]) (use ok in \<open>auto simp: accessOk_def intro: recordedObject_cleans [OF db]\<close>)
  have 2: "wp (forEach (raDefaults rec) (revokeRecordedDefault db) errs) (\<lambda>_. cleans cluster role s0) s1" if "cleans cluster role s0 s1" for errs s1
    by (rule forEach_keeps [where K = "cleans cluster role s0", OF _ that]) (use ok in \<open>fastforce simp: accessOk_def intro: recordedDefault_cleans [OF db]\<close>)
  have 3: "wp (forEach (raCreated rec) (revokeCreated db (rtRoleName (roleStatus role))) errs) (\<lambda>_. cleans cluster role s0) s1"
    if "cleans cluster role s0 s1" for errs s1
  proof (rule forEach_keeps [where K = "cleans cluster role s0", OF _ that])
    fix c errs s2 assume "c \<in> set (raCreated rec)" and s2: "cleans cluster role s0 s2"
    with ok obtain d P where "databaseOn (dfDatabases (facts s0) (clNamespace cluster)) cluster n d"
      "defaultsTo d (rtRoleName (roleStatus role)) (cgSchema c) (cgForRole c) (cgKind c) P" "set (cgPrivileges c) \<subseteq> P"
      unfolding accessOk_def by blast
    then show "wp (revokeCreated db (rtRoleName (roleStatus role)) c errs) (\<lambda>_. cleans cluster role s0) s2"
      unfolding revokeCreated_def wp_bind wp_ret by (rule created_cleans [OF db s2])
  qed
  show ?thesis
    unfolding revokeRecordedObjectAccess_def wp_bind wp_ret
    by (rule wp_mono [OF 1 [OF s]], rule wp_mono [OF 2], assumption, rule 3)
qed

lemma revokeSchemaPrivilegesIn_cleans:
  assumes s: "cleans cluster role s0 s"
  shows "wp (revokeSchemaPrivilegesIn kube cluster n (rtRoleName (roleStatus role))) (\<lambda>_. cleans cluster role s0) s"
  unfolding revokeSchemaPrivilegesIn_def
proof (rule connected_cleans [OF s])
  fix db s1 assume db: "connected n db" and s1: "cleans cluster role s0 s1"
  have 1: "wp (RevokeAllSchemaPrivileges db (rtRoleName (roleStatus role))) (\<lambda>_. cleans cluster role s0) s1"
    using s1 unfolding cleans_def by (rule RevokeAllSchemaPrivileges_keeps [OF db]) (rule cleanupStatement.schema)
  have 2: "wp (RevokeAllExtensionMemberPrivileges db (rtRoleName (roleStatus role))) (\<lambda>_. cleans cluster role s0) s2"
    if "cleans cluster role s0 s2" for s2
    using that unfolding cleans_def by (rule RevokeAllExtensionMemberPrivileges_keeps [OF db]) (rule cleanupStatement.member)
  show "wp (do { e \<leftarrow> RevokeAllSchemaPrivileges db (rtRoleName (roleStatus role));
      (case e of Some x \<Rightarrow> ret (Some x) | None \<Rightarrow> RevokeAllExtensionMemberPrivileges db (rtRoleName (roleStatus role))) })
      (\<lambda>_. cleans cluster role s0) s1"
    by (rule wp_then [OF 1]) (auto simp: wp_ret split: option.split intro: 2)
qed

lemma revokeRecordedFor_cleans:
  assumes s: "cleans cluster role s0 s"
  shows "wp (revokeRecordedObjectAccessFor kube cluster (rtRoleName (roleStatus role))) (\<lambda>_. cleans cluster role s0) s"
proof -
  let ?name = "rtRoleName (roleStatus role)"
  define recorded where "recorded = recordedObjectAccessFrom (dfDatabases (facts s0) (clNamespace cluster)) cluster ?name"
  have ok: "accessOk (dfDatabases (facts s0) (clNamespace cluster)) cluster ?name n (mapGet noAccess recorded n)" for n
    using recordedObjectAccessFrom_ok unfolding recorded_def allAccessOk_def by blast
  have one: "wp (revokeRecordedObjectAccessIn kube cluster n ?name (mapGet noAccess recorded n)) (\<lambda>_. cleans cluster role s0) s1"
    if "cleans cluster role s0 s1" for n s1
    unfolding revokeRecordedObjectAccessIn_def by (rule connected_cleans [OF that]) (rule recorded_cleans [OF _ _ ok])
  have loop: "wp (do { names \<leftarrow> dkRange kube (mapKeys recorded);
      skipped \<leftarrow> forEach names (\<lambda>n skipped. do { e \<leftarrow> revokeRecordedObjectAccessIn kube cluster n ?name (mapGet noAccess recorded n);
        ret (case e of None \<Rightarrow> skipped | Some x \<Rightarrow> skipped @ [n @ '' ('' @ errText x @ '')'']) }) [];
      ret (Inr skipped) }) (\<lambda>_ :: error + string list. cleans cluster role s0) s1" if s1: "cleans cluster role s0 s1" for s1
    unfolding wp_bind wp_ret
  proof (rule wp_mono [OF range_order], goal_cases)
    case (1 names s2)
    then have "cleans cluster role s0 s2" using cleans_unchanged [OF s1] by blast
    then show ?case
      by (rule forEach_keeps [where K = "cleans cluster role s0", rotated]) (simp add: wp_bind wp_ret one)
  qed
  have of: "wp (recordedObjectAccessOf kube cluster ?name) (\<lambda>r s'. unchanged facts sent s s' \<and> (\<forall>x. r = Inr x \<longrightarrow> x = recorded)) s"
    unfolding recordedObjectAccessOf_def wp_bind wp_ret
    by (rule wp_mono [OF databases_read]) (auto simp: recorded_def cleans_facts [OF s] split: sum.splits)
  show ?thesis
    unfolding revokeRecordedObjectAccessFor_def wp_bind
  proof (rule wp_mono [OF of], goal_cases)
    case (1 r s1)
    then have s1: "cleans cluster role s0 s1" using cleans_unchanged [OF s] by blast
    show ?case
    proof (cases r)
      case (Inr x)
      with 1 have x: "x = recorded" by blast
      show ?thesis unfolding Inr x sum.case using loop [OF s1] by simp
    qed (simp add: wp_ret s1)
  qed
qed

section \<open>Reassigning and dropping\<close>

definition sentOk :: "Cluster \<Rightarrow> ClusterRole \<Rightarrow> 's \<Rightarrow> 's \<Rightarrow> bool" where
  "sentOk cluster role s0 = sentOnly sent (\<lambda>(n, q, a). cleanupStatement (facts s0) cluster role n q) s0"

lemma cleans_sentOk: "cleans cluster role s0 s \<Longrightarrow> sentOk cluster role s0 s"
  by (simp add: cleans_def keeps_def sentOk_def)

lemma sentOk_same: "sentOk cluster role s0 s \<Longrightarrow> sent s' = sent s \<Longrightarrow> sentOk cluster role s0 s'"
  unfolding sentOk_def by (rule sentOnly_same)

lemma ReassignOwned_sentOk:
  assumes db: "connected n db" and s: "sentOk cluster role s0 s"
    and q: "\<And>q. q \<in> set (buildReassignOwnedQueries old target) \<Longrightarrow> cleanupStatement (facts s0) cluster role n q"
  shows "wp (ReassignOwned db old target) (\<lambda>_. sentOk cluster role s0) s"
proof -
  have tx: "wp (beginTx db) (\<lambda>_. sentOk cluster role s0) s1" "wp (commitTx db) (\<lambda>_. sentOk cluster role s0) s1"
    "wp (rollbackTx db) (\<lambda>_. sentOk cluster role s0) s1" if "sentOk cluster role s0 s1" for s1
    using that by (auto intro: wp_mono [OF tx_silent(1) [OF db]] wp_mono [OF tx_silent(2) [OF db]] wp_mono [OF tx_silent(3) [OF db]] sentOk_same)
  have ex: "wp (execDb db q) (\<lambda>_. sentOk cluster role s0) s1"
    if "q \<in> set (buildReassignOwnedQueries old target)" "sentOk cluster role s0 s1" for q s1
    by (rule wp_mono [OF exec_sent [OF db]]) (use that assms(3) in \<open>auto simp: sentOk_def elim: sentOnly_snoc\<close>)
  have step: "wp (reassignStep db old target q) (\<lambda>_. sentOk cluster role s0) s1"
    if "q \<in> set (buildReassignOwnedQueries old target)" "sentOk cluster role s0 s1" for q s1
    unfolding reassignStep_def
    by (rule wp_then [OF ex [OF that]]) (auto simp: wp_ret wp_bind tx(3) split: option.split)
  have both: "wp (stopAtError (reassignStep db old target) (buildReassignOwnedQueries old target)) (\<lambda>_. sentOk cluster role s0) s1"
    if "sentOk cluster role s0 s1" for s1
    by (rule stopAtError_keeps [where K = "sentOk cluster role s0", OF step that])
  have rest: "wp (do { e1 \<leftarrow> stopAtError (reassignStep db old target) (buildReassignOwnedQueries old target);
      (case e1 of Some e \<Rightarrow> ret (Some e) | None \<Rightarrow> do { e2 \<leftarrow> commitTx db; ret (map_option (Wrapf ''failed to commit reassignment: %w'' []) e2) }) })
      (\<lambda>_. sentOk cluster role s0) s1" if "sentOk cluster role s0 s1" for s1
    by (rule wp_then [OF both [OF that]]) (auto simp: wp_ret wp_bind tx(2) split: option.split)
  show ?thesis
    unfolding ReassignOwned_def
  proof (rule wp_then [OF tx(1) [OF s]], goal_cases)
    case (1 e s1)
    with rest show ?case by (cases e) (simp_all add: wp_ret)
  qed
qed

lemma RoleReassignTarget_post:
  assumes db: "connected n db"
  shows "wp (RoleReassignTarget db old target) (\<lambda>r s'. unchanged facts sent s s' \<and>
    (\<forall>info. r = Inr info \<longrightarrow> rtiExists info \<longrightarrow> dfTarget (facts s) old target = info)) s"
  unfolding RoleReassignTarget_def queryRow_def wp_bind wp_ret
  by (rule wp_mono [OF wp_both [OF query_read [OF db] query_target [OF db]]])
    (auto simp: scanned_def firstRow_def scanReassign_def split: sum.splits list.splits option.splits sqlValue.splits prod.splits if_splits)

lemma DatabasesOwnedBy_post:
  assumes db: "connected n db"
  shows "wp (DatabasesOwnedBy db name) (\<lambda>r s'. unchanged facts sent s s' \<and> (r = Inr [] \<longrightarrow> dfOwned (facts s) name = {})) s"
proof -
  have nil: "scanRows scanText rows = Inr [] \<longleftrightarrow> rows = []" for rows
    by (cases rows) (auto split: sum.splits)
  show ?thesis
    unfolding DatabasesOwnedBy_def listStrings_def wp_bind wp_ret
    by (rule wp_mono [OF wp_both [OF query_read [OF db] query_owned [OF db]]])
      (auto simp: nil split: sum.splits option.splits prod.splits)
qed

lemma reassignOwnedObjects_sentOk:
  assumes db: "connected defaultDatabaseName db" and s: "cleans cluster role s0 s"
    and del: "rsDeletion (roleSpec role) = Some deletion" "ReassignOwnedTo deletion \<noteq> []"
  shows "wp (reassignOwnedObjects kube cluster db (rtRoleName (roleStatus role)) (ReassignOwnedTo deletion)) (\<lambda>_. sentOk cluster role s0) s"
proof -
  let ?name = "rtRoleName (roleStatus role)" and ?to = "ReassignOwnedTo deletion"
  have loop: "wp (forEach dbs (skipFailed (\<lambda>n. reassignOwnedIn kube cluster n ?name ?to)) []) (\<lambda>_. sentOk cluster role s0) s1"
    if q: "\<And>n q. q \<in> set (buildReassignOwnedQueries ?name ?to) \<Longrightarrow> cleanupStatement (facts s0) cluster role n q" and s1: "sentOk cluster role s0 s1" for dbs s1
  proof (rule forEach_keeps [where K = "sentOk cluster role s0", OF skipFailed_keeps [where K = "sentOk cluster role s0"] s1])
    fix n s2 assume s2: "sentOk cluster role s0 s2"
    show "wp (reassignOwnedIn kube cluster n ?name ?to) (\<lambda>_. sentOk cluster role s0) s2"
      unfolding reassignOwnedIn_def wp_bind
    proof (rule wp_mono [OF operatorClient_post], goal_cases)
      case (1 r s3)
      then have s3: "sentOk cluster role s0 s3" using sentOk_same [OF s2] by (simp add: unchanged_def)
      show ?case
      proof (cases r)
        case (Inr db3)
        with 1 have db3: "connected n db3" by blast
        show ?thesis unfolding Inr sum.case by (rule ReassignOwned_sentOk [OF db3 s3 q])
      qed (simp add: wp_ret s3)
    qed
  qed assumption
  have databases: "wp (do { d1 \<leftarrow> DatabasesWithOwnedObjects db ?name;
      (case d1 of Inl e \<Rightarrow> ret (Inl e)
       | Inr dbs \<Rightarrow> do { skipped \<leftarrow> forEach dbs (skipFailed (\<lambda>n. reassignOwnedIn kube cluster n ?name ?to)) []; ret (Inr (skipped, None)) }) })
      (\<lambda>_ :: error + string list \<times> error option. sentOk cluster role s0) s1"
    if q: "\<And>n q. q \<in> set (buildReassignOwnedQueries ?name ?to) \<Longrightarrow> cleanupStatement (facts s0) cluster role n q" and s1: "cleans cluster role s0 s1" for s1
  proof -
    have rd: "wp (DatabasesWithOwnedObjects db ?name) (\<lambda>_. cleans cluster role s0) s1"
      using s1 unfolding DatabasesWithOwnedObjects_def cleans_def wp_bind wp_ret by (rule query_keeps [OF db])
    have arm: "wp (case d1 of Inl e \<Rightarrow> ret (Inl e)
       | Inr dbs \<Rightarrow> do { skipped \<leftarrow> forEach dbs (skipFailed (\<lambda>n. reassignOwnedIn kube cluster n ?name ?to)) []; ret (Inr (skipped, None)) })
      (\<lambda>_ :: error + string list \<times> error option. sentOk cluster role s0) s2" if "cleans cluster role s0 s2" for s2 d1
      using loop [OF q] cleans_sentOk [OF that] by (cases d1) (simp_all add: wp_ret wp_bind)
    show ?thesis by (rule wp_then [OF rd arm])
  qed
  show ?thesis
    unfolding reassignOwnedObjects_def wp_bind
  proof (rule wp_mono [OF RoleReassignTarget_post [OF db]], goal_cases)
    case (1 r s1)
    have s1: "cleans cluster role s0 s1" using cleans_unchanged [OF s] 1 by blast
    show ?case
    proof (cases "\<exists>info. r = Inr info \<and> checkReassignTarget ?name ?to info = None")
      case True
      then obtain info where r: "r = Inr info" and c: "checkReassignTarget ?name ?to info = None" by blast
      then have i: "reservedRoleName ?to = []" "?to \<noteq> ?name" "rtiExists info" "\<not> rtiSuper info" "rtiOldHasUsage info"
        by (auto simp: checkReassignTarget_def split: if_splits)
      then have info: "dfTarget (facts s0) ?name ?to = \<lparr>rtiExists = True, rtiSuper = False, rtiOldHasUsage = True\<rparr>"
        using 1 r cleans_facts [OF s] by (cases info) auto
      show ?thesis
        unfolding r sum.case c option.case wp_bind
      proof (rule wp_mono [OF DatabasesOwnedBy_post [OF db]], goal_cases)
        case (1 o1 s2)
        have s2: "cleans cluster role s0 s2" using cleans_unchanged [OF s1] 1 by blast
        show ?case
        proof (cases "o1 = Inr []")
          case True
          with 1 cleans_facts [OF s1] have own: "dfOwned (facts s0) ?name = {}" by simp
          have q: "cleanupStatement (facts s0) cluster role n q" if "q \<in> set (buildReassignOwnedQueries ?name ?to)" for n q
            by (rule cleanupStatement.reassign [OF del(1) refl del(2) i(1,2) info own that])
          show ?thesis using databases [OF q s2] by (simp add: True)
        next
          case False
          then show ?thesis using cleans_sentOk [OF s2] by (auto simp: wp_ret split: sum.split)
        qed
      qed
    next
      case False
      then show ?thesis using cleans_sentOk [OF s1] by (auto simp: wp_ret split: sum.split option.split)
    qed
  qed
qed

lemma dropBlocked_post:
  "wp (dropBlocked kube role msg) (\<lambda>(role', requeue, err) s'. sent s' = sent s \<and> (err \<noteq> None \<or> requeue \<noteq> 0) \<and>
    (requeue \<noteq> 0 \<longrightarrow> err = None \<and> requeue = 30 * second \<and> blockedStatus (dkConditions kube) role role')) s"
  unfolding dropBlocked_def Let_def wp_bind wp_ret
  by (rule wp_mono [OF status_written]) (auto simp: unchanged_def blockedStatus_def split: option.split)

lemma blockedStatus_same:
  "blockedStatus api role1 role' \<Longrightarrow> rtConditions (roleStatus role1) = rtConditions (roleStatus role) \<Longrightarrow> blockedStatus api role role'"
  by (simp add: blockedStatus_def)

definition finished :: "Cluster \<Rightarrow> ClusterRole \<Rightarrow> 's \<Rightarrow> ClusterRole \<times> int \<times> error option \<Rightarrow> 's \<Rightarrow> bool" where
  "finished cluster role s0 r s' \<longleftrightarrow> (\<exists>new. sent s' = sent s0 @ new \<and> dropFinished (dkConditions kube) (facts s0) cluster role new r)"

lemma finished_early:
  assumes "sentOk cluster role s0 s'" and "err \<noteq> None \<or> requeue \<noteq> 0"
    and "requeue \<noteq> 0 \<longrightarrow> err = None \<and> requeue = 30 * second \<and> blockedStatus (dkConditions kube) role role'"
  shows "finished cluster role s0 (role', requeue, err) s'"
proof -
  from assms(1) obtain new where "sent s' = sent s0 @ new" "\<forall>(n, q, a) \<in> set new. cleanupStatement (facts s0) cluster role n q"
    by (auto simp: sentOk_def sentOnly_def)
  then show ?thesis unfolding finished_def dropFinished_def using assms(2,3) by (intro exI [of _ new]) auto
qed

lemma finished_drop:
  assumes "sentOk cluster role s0 s" and "sent s' = sent s @ [(defaultDatabaseName, dropRoleQuery (rtRoleName (roleStatus role)), a)]"
    and "a = None \<longleftrightarrow> err = None \<and> requeue = 0"
    and "requeue \<noteq> 0 \<longrightarrow> err = None \<and> requeue = 30 * second \<and> blockedStatus (dkConditions kube) role role'"
  shows "finished cluster role s0 (role', requeue, err) s'"
proof -
  from assms(1) obtain new where "sent s = sent s0 @ new" "\<forall>(n, q, a) \<in> set new. cleanupStatement (facts s0) cluster role n q"
    by (auto simp: sentOk_def sentOnly_def)
  note new = this
  let ?final = "[(defaultDatabaseName, dropRoleQuery (rtRoleName (roleStatus role)), a)]"
  have "dropFinished (dkConditions kube) (facts s0) cluster role (new @ ?final) (role', requeue, err)"
    unfolding dropFinished_def prod.case
    by (intro conjI exI [of _ new] exI [of _ ?final] refl new(2) assms(4)) (simp add: assms(3))
  then show ?thesis
    unfolding finished_def using assms(2) new(1) by (intro exI [of _ "new @ ?final"]) simp
qed

lemma dropNow_post:
  assumes db: "connected defaultDatabaseName db" and s: "sentOk cluster role s0 s"
    and c: "rtConditions (roleStatus role1) = rtConditions (roleStatus role)"
  shows "wp (dropNow kube db role1 (rtRoleName (roleStatus role)) skipped) (finished cluster role s0) s"
  unfolding dropNow_def DropRole_def wp_bind wp_ret
proof (rule wp_mono [OF exec_sent [OF db]], goal_cases)
  case (1 e s1)
  note fin = finished_drop [OF s conjunct1 [OF 1]]
  have blocked: "wp (dropBlocked kube role1 msg) (finished cluster role s0) s1" if "e \<noteq> None" for msg
  proof (rule wp_mono [OF dropBlocked_post], goal_cases)
    case (1 r s2)
    obtain role' requeue err where r: "r = (role', requeue, err)" by (cases r)
    show ?case unfolding r
      by (rule finished_drop [OF s, where a = e]) (use 1 that \<open>sent s1 = _ \<and> _\<close> c in \<open>auto simp: r blockedStatus_def\<close>)
  qed
  show ?case
    using blocked fin by (auto simp: wp_ret split: option.split dropError.split)
qed

lemma dropBlocked_finished:
  assumes s: "sentOk cluster role s0 s" and c: "rtConditions (roleStatus role1) = rtConditions (roleStatus role)"
  shows "wp (dropBlocked kube role1 msg) (finished cluster role s0) s"
proof (rule wp_mono [OF dropBlocked_post], goal_cases)
  case (1 r s1)
  obtain role' requeue err where r: "r = (role', requeue, err)" by (cases r)
  with 1 c show ?case
    unfolding r by (intro finished_early sentOk_same [OF s]) (auto simp: blockedStatus_def)
qed

lemma finished_error: "sentOk cluster role s0 s \<Longrightarrow> finished cluster role s0 (role', 0, Some e) s"
  by (rule finished_early) simp_all

lemma reassignAndDrop_post:
  assumes db: "connected defaultDatabaseName db" and s: "cleans cluster role s0 s"
    and c: "rtConditions (roleStatus role1) = rtConditions (roleStatus role)" and sp: "roleSpec role1 = roleSpec role"
  shows "wp (reassignAndDrop kube db cluster role1 (rtRoleName (roleStatus role)) skipped) (finished cluster role s0) s"
proof -
  note drop = dropNow_post [OF db _ c]
  show ?thesis
  proof (cases "\<exists>deletion. rsDeletion (roleSpec role) = Some deletion \<and> ReassignOwnedTo deletion \<noteq> []")
    case True
    then obtain deletion where del: "rsDeletion (roleSpec role) = Some deletion" "ReassignOwnedTo deletion \<noteq> []" by blast
    show ?thesis
      unfolding reassignAndDrop_def sp del(1) option.case if_not_P [OF del(2)] wp_bind
    proof (rule wp_mono [OF reassignOwnedObjects_sentOk [OF db s del]], goal_cases)
      case (1 r s1)
      then show ?case
        by (auto simp: wp_ret finished_error drop dropBlocked_finished [OF _ c] split: sum.split prod.split option.split)
    qed
  next
    case False
    then show ?thesis
      using drop [OF cleans_sentOk [OF s]] by (auto simp: reassignAndDrop_def sp split: option.split)
  qed
qed

lemma databases_cleans:
  assumes db: "connected n db" and s: "cleans cluster role s0 s"
  shows "wp (DatabasesWithObjectPrivileges db name) (\<lambda>_. cleans cluster role s0) s"
  using s unfolding DatabasesWithObjectPrivileges_def cleans_def by (rule reads_keep(3) [OF db])

lemma revokeRecordedAndDrop_post:
  assumes db: "connected defaultDatabaseName db" and s: "cleans cluster role s0 s"
    and same: "rtConditions (roleStatus role1) = rtConditions (roleStatus role)" "roleSpec role1 = roleSpec role"
  shows "wp (revokeRecordedAndDrop kube db cluster role1 (rtRoleName (roleStatus role)) skipped) (finished cluster role s0) s"
  unfolding revokeRecordedAndDrop_def
  by (rule wp_then [OF revokeRecordedFor_cleans [OF s]])
    (auto simp: wp_ret finished_error [OF cleans_sentOk] reassignAndDrop_post [OF db _ same] split: sum.split)

lemma revokeInDatabases_post:
  assumes db: "connected defaultDatabaseName db" and s: "cleans cluster role s0 s"
    and same: "rtConditions (roleStatus role1) = rtConditions (roleStatus role)" "roleSpec role1 = roleSpec role"
  shows "wp (revokeInDatabases kube db cluster role1 (rtRoleName (roleStatus role))) (finished cluster role s0) s"
proof -
  let ?name = "rtRoleName (roleStatus role)"
  have list: "wp (DatabasesWithObjectPrivileges db ?name) (\<lambda>_. cleans cluster role s0) s"
    using s unfolding DatabasesWithObjectPrivileges_def cleans_def by (rule reads_keep(3) [OF db])
  have loop: "wp (forEach dbs (skipFailed (\<lambda>n. revokeSchemaPrivilegesIn kube cluster n ?name)) []) (\<lambda>_. cleans cluster role s0) s1"
    if "cleans cluster role s0 s1" for dbs s1
    by (rule forEach_keeps [where K = "cleans cluster role s0", OF skipFailed_keeps [where K = "cleans cluster role s0"] that])
      (rule revokeSchemaPrivilegesIn_cleans)
  show ?thesis
    unfolding revokeInDatabases_def
  proof (rule wp_then [OF list], goal_cases)
    case (1 r s1)
    show ?case
    proof (cases r)
      case (Inr dbs)
      show ?thesis unfolding Inr sum.case by (rule wp_then [OF loop [OF 1] revokeRecordedAndDrop_post [OF db _ same]])
    qed (simp add: wp_ret finished_error cleans_sentOk 1)
  qed
qed

lemma dropOwnedRole_post:
  assumes db: "connected defaultDatabaseName db"
  shows "wp (dropOwnedRole kube db cluster role (rtRoleName (roleStatus role))) (finished cluster role s) s"
proof -
  let ?name = "rtRoleName (roleStatus role)"
  have s: "cleans cluster role s s" by (simp add: cleans_def keeps_refl)
  have databases: "wp (RevokeAllDatabasePrivileges db ?name) (\<lambda>_. cleans cluster role s) s1" if "cleans cluster role s s1" for s1
    using that unfolding cleans_def by (rule RevokeAllDatabasePrivileges_keeps [OF db]) (rule cleanupStatement.database)
  show ?thesis
    unfolding dropOwnedRole_def wp_bind [of "revokeManagedParameterGrants db (Role.truncate role) ?name"] wp_case_prod Let_def
  proof (rule wp_mono [OF wp_both [OF parameters_cleans [OF db s] revokeParameters_conditions]], goal_cases)
    case (1 a s1)
    obtain changed e1 where a: "a = (changed, e1)" by (cases a)
    from 1 have s1: "cleans cluster role s s1" by blast
    show ?case
    proof (cases e1)
      case None
      show ?thesis
        unfolding a prod.case None option.case
      proof (rule wp_then [OF databases [OF s1]], goal_cases)
        case (1 e2 s2)
        have "wp (revokeInDatabases kube db cluster (role\<lparr>roleStatus := roleStatus changed\<rparr>) ?name) (finished cluster role s) s2"
          by (rule revokeInDatabases_post [OF db 1]) (use \<open>_ \<and> rtConditions _ = _\<close> in \<open>auto simp: a Role.truncate_def\<close>)
        with 1 show ?case by (cases e2) (simp_all add: wp_ret finished_error cleans_sentOk)
      qed
    qed (use s1 in \<open>simp add: a wp_ret finished_error cleans_sentOk\<close>)
  qed
qed

section \<open>The guards\<close>

lemma roleRecorded_post:
  "wp (roleRecorded kube role cluster (rtRoleName (roleStatus role))) (\<lambda>r s'. unchanged facts sent s s' \<and>
    (\<forall>b. r = Inr b \<longrightarrow> b = recordedOn (facts s) cluster role)) s"
proof (cases "rtRoleName (roleStatus role) = [] \<or> rtClusterUID (roleStatus role) \<noteq> []")
  case True
  then show ?thesis by (auto simp: roleRecorded_def recordedOn_def wp_ret unchanged_def)
next
  case False
  then have n: "\<not> (rtRoleName (roleStatus role) = [] \<or> rtRoleName (roleStatus role) \<noteq> rtRoleName (roleStatus role))"
    "\<not> rtClusterUID (roleStatus role) \<noteq> []" "rtRoleName (roleStatus role) \<noteq> []" by simp_all
  show ?thesis
    unfolding roleRecorded_def if_not_P [OF n(1)] if_not_P [OF n(2)] wp_bind wp_ret
    by (rule wp_mono [OF secret_read]) (use n in \<open>auto simp: recordedOn_def IsControlledBy_def split: sum.splits\<close>)
qed

lemma checkRoleName_post:
  "wp (checkRoleName kube role (rtRoleName (roleStatus role))) (\<lambda>r s'. unchanged facts sent s s' \<and>
    (r = None \<longrightarrow> \<not> olderRole (facts s) role) \<and>
    (listsRoles kube \<longrightarrow> r \<noteq> None \<longrightarrow> reservedRoleName (rtRoleName (roleStatus role)) \<noteq> [] \<or> olderRole (facts s) role)) s"
proof (cases "reservedRoleName (rtRoleName (roleStatus role)) = []")
  case True
  have find: "find (\<lambda>other. roleUID other \<noteq> roleUID role \<and> ClusterRolePostgresName other = rtRoleName (roleStatus role) \<and> createdBefore other role)
      (sort_key roleCreated (sort_key roleMetaName (filter (\<lambda>r. crName (rsClusterRef (roleSpec r)) = crName (rsClusterRef (roleSpec role)))
        (dfRoles (facts s) (roleMetaNamespace role))))) = None \<longleftrightarrow> \<not> olderRole (facts s) role"
    (is "?first = None \<longleftrightarrow> _")
    unfolding find_None_iff olderRole_def set_sort set_filter by blast
  have answered: "wp (dkListRoles kube ns) (\<lambda>r _. listsRoles kube \<longrightarrow> (\<exists>rs. r = Inr rs)) s" for ns
  proof (cases "listsRoles kube")
    case True
    then have "wp (dkListRoles kube ns) (\<lambda>r _. \<exists>rs. r = Inr rs) s" unfolding listsRoles_def by blast
    then show ?thesis by (rule wp_mono) simp
  qed simp
  note both = wp_both [OF roles_read answered]
  have n: "\<not> reservedRoleName (rtRoleName (roleStatus role)) \<noteq> []" by (simp add: True)
  show ?thesis
    unfolding checkRoleName_def if_not_P [OF n] listClusterRoles_def wp_bind wp_ret
  proof (rule wp_mono [OF both], goal_cases)
    case (1 r s1)
    show ?case
    proof (cases r)
      case (Inl e)
      with 1 show ?thesis unfolding Inl sum.case by blast
    next
      case (Inr rs)
      with 1 have rs: "rs = dfRoles (facts s) (roleMetaNamespace role)" by blast
      show ?thesis
      proof (cases "olderRole (facts s) role")
        case True
        then obtain other where f: "?first = Some other" using find by blast
        show ?thesis unfolding Inr sum.case rs f option.case using 1 True by blast
      next
        case False
        then have f: "?first = None" using find by blast
        show ?thesis unfolding Inr sum.case rs f option.case using 1 False by blast
      qed
    qed
  qed
qed (simp add: checkRoleName_def wp_ret unchanged_def)

lemma RoleComment_post:
  assumes db: "connected n db"
  shows "wp (RoleComment db name) (\<lambda>r s'. unchanged facts sent s s' \<and>
    (\<forall>ex c. r = Inr (ex, c) \<longrightarrow> dfComment (facts s) name = (if ex then Some c else None))) s"
  unfolding RoleComment_query lookupComment_def queryRow_def wp_bind wp_ret
proof (rule wp_mono [OF wp_both [OF query_read [OF db] query_comment [OF db]]], goal_cases)
  case (1 r s1)
  then have c: "catalogRow (map_option (\<lambda>c. [SText c]) (dfComment (facts s) name)) r" by blast
  from c 1 show ?case
    by (cases rule: firstRow_catalog) (auto simp: scanned_def scanText_def)
qed

lemma loadMarkerSigner_post:
  "wp (loadMarkerSigner kube cluster) (\<lambda>r s'. unchanged facts sent s s' \<and>
    (case r of Inl _ \<Rightarrow> zeroSigner | Inr signer \<Rightarrow> signer) = keyAt kube facts cluster s) s"
  unfolding loadMarkerSigner_def wp_bind wp_ret
  by (rule wp_mono [OF wp_both [OF secret_read wp_exact]])
    (auto simp: keyAt_def keyUnread_def signerOf_def Let_def split: sum.splits)

lemma keyAt_possible: "possibleSigner (facts s) cluster (keyAt kube facts cluster s)"
  by (simp add: possibleSigner_def keyAt_def split: option.split)

section \<open>The whole function\<close>

definition dropRun :: "Cluster \<Rightarrow> ClusterRole \<Rightarrow> 's \<Rightarrow> ClusterRole \<times> int \<times> error option \<Rightarrow> 's \<Rightarrow> bool" where
  "dropRun cluster role s r s' \<longleftrightarrow>
     (sent s' = sent s \<and> fst (snd r) = 0 \<and> (listsRoles kube \<longrightarrow> snd (snd r) = None \<longrightarrow> \<not> mustDrop (facts s) cluster role)) \<or>
     (passedGuards kube facts sent cluster role s r s' \<and> finished cluster role s r s')"

lemma dropRun_error: "unchanged facts sent s s' \<Longrightarrow> dropRun cluster role s (role', 0, Some e) s'"
  by (simp add: dropRun_def unchanged_def)

lemma dropRun_refused:
  "unchanged facts sent s s' \<Longrightarrow> listsRoles kube \<longrightarrow> \<not> mustDrop (facts s) cluster role \<Longrightarrow> dropRun cluster role s (role', 0, None) s'"
  by (auto simp: dropRun_def unchanged_def)

lemma unchanged_trans: "unchanged facts sent s s1 \<Longrightarrow> unchanged facts sent s1 s2 \<Longrightarrow> unchanged facts sent s s2"
  by (simp add: unchanged_def)

lemma finished_unchanged: "unchanged facts sent s s1 \<Longrightarrow> finished cluster role s1 r s' \<Longrightarrow> finished cluster role s r s'"
  by (simp add: finished_def unchanged_def)

lemma mustDrop_free: "mustDrop f cluster role \<Longrightarrow> nameFree f cluster role"
  by (simp add: mustDrop_def)

lemma nameFreeD:
  "nameFree f cluster role \<Longrightarrow> recordedOn f cluster role \<and> rtRoleName (roleStatus role) \<noteq> [] \<and>
    reservedRoleName (rtRoleName (roleStatus role)) = [] \<and> \<not> olderRole f role"
  by (simp add: nameFree_def recordedOn_def)

text \<open>From the check of the marker on.\<close>

lemma dropMarked_post:
  assumes db: "connected defaultDatabaseName db" and u: "unchanged facts sent s s1" and free: "nameFree (facts s) cluster role"
    and c: "dfComment (facts s) (rtRoleName (roleStatus role)) = Some comment"
  shows "wp (do { r4 \<leftarrow> loadMarkerSigner kube cluster;
      (if \<not> mayDropComment (case r4 of Inl _ \<Rightarrow> zeroSigner | Inr signer \<Rightarrow> signer) role comment then ret (role, 0, None)
       else dropOwnedRole kube db cluster role (rtRoleName (roleStatus role))) }) (dropRun cluster role s) s1"
  unfolding wp_bind
proof (rule wp_mono [OF wp_both [OF loadMarkerSigner_post wp_exact]], goal_cases)
  case (1 r s2)
  let ?signer = "case r of Inl _ \<Rightarrow> zeroSigner | Inr signer \<Rightarrow> signer"
  from 1 have run: "run_state (loadMarkerSigner kube cluster) s1 = (r, s2)" by blast
  from 1 u have u2: "unchanged facts sent s s2" and key: "?signer = keyAt kube facts cluster s1"
    by (auto intro: unchanged_trans)
  have f: "facts s1 = facts s" using u by (simp add: unchanged_def)
  show ?case
  proof (cases "mayDropComment ?signer role comment")
    case True
    then have n: "\<not> \<not> mayDropComment ?signer role comment" by simp
    have may: "mayDropAt kube facts cluster role s1"
      unfolding mayDropAt_def f using free c True by (simp add: key mayDropComment_accepted)
    show ?thesis
      unfolding if_not_P [OF n]
    proof (rule wp_mono [OF wp_both [OF dropOwnedRole_post [OF db] wp_exact]], goal_cases)
      case (1 x s')
      then have "passedGuards kube facts sent cluster role s x s'" unfolding passedGuards_def using u may run by blast
      with 1 show ?case unfolding dropRun_def by (blast intro: finished_unchanged [OF u2])
    qed
  next
    case False
    then have "\<not> mustDrop (facts s) cluster role"
      unfolding mustDrop_def using c keyAt_possible [of s1 cluster, unfolded f] by (auto simp: key)
    with False show ?thesis by (simp add: wp_ret dropRun_refused [OF u2])
  qed
qed

lemma dropChecked_post:
  assumes db: "connected defaultDatabaseName db" and u: "unchanged facts sent s s1"
    and rec: "recordedOn (facts s) cluster role" and unreserved: "reservedRoleName (rtRoleName (roleStatus role)) = []"
  shows "wp (do { e2 \<leftarrow> checkRoleName kube role (rtRoleName (roleStatus role));
      (case e2 of
         Some _ \<Rightarrow> ret (role, 0, None)
       | None \<Rightarrow> do {
           r3 \<leftarrow> RoleComment db (rtRoleName (roleStatus role));
           (case r3 of
              Inl e \<Rightarrow> ret (role, 0, Some e)
            | Inr (exists, comment) \<Rightarrow>
                if \<not> exists then ret (role, 0, None)
                else do {
                  r4 \<leftarrow> loadMarkerSigner kube cluster;
                  (if \<not> mayDropComment (case r4 of Inl _ \<Rightarrow> zeroSigner | Inr signer \<Rightarrow> signer) role comment then ret (role, 0, None)
                   else dropOwnedRole kube db cluster role (rtRoleName (roleStatus role)))
                })
         }) }) (dropRun cluster role s) s1"
  unfolding wp_bind [of "checkRoleName kube role (rtRoleName (roleStatus role))"]
proof (rule wp_mono [OF checkRoleName_post], goal_cases)
  case (1 e2 s2)
  have f: "facts s1 = facts s" using u by (simp add: unchanged_def)
  have u2: "unchanged facts sent s s2" using unchanged_trans [OF u] 1 by blast
  show ?case
  proof (cases e2)
    case (Some e)
    have "listsRoles kube \<longrightarrow> \<not> mustDrop (facts s) cluster role"
      using 1 Some f mustDrop_free nameFreeD by fastforce
    then show ?thesis by (simp add: Some wp_ret dropRun_refused [OF u2])
  next
    case None
    with 1 f rec unreserved have free: "nameFree (facts s) cluster role" by (simp add: nameFree_def)
    show ?thesis
      unfolding None option.case wp_bind [of "RoleComment db (rtRoleName (roleStatus role))"]
    proof (rule wp_mono [OF RoleComment_post [OF db]], goal_cases)
      case (1 r3 s3)
      have f2: "facts s2 = facts s" using u2 by (simp add: unchanged_def)
      have u3: "unchanged facts sent s s3" using unchanged_trans [OF u2] 1 by blast
      show ?case
      proof (cases r3)
        case (Inr x)
        obtain ex comment where x: "x = (ex, comment)" by (cases x)
        with 1 Inr f2 have c: "dfComment (facts s) (rtRoleName (roleStatus role)) = (if ex then Some comment else None)" by simp
        show ?thesis
        proof (cases ex)
          case True
          then have n: "\<not> \<not> ex" by simp
          show ?thesis unfolding Inr sum.case x prod.case if_not_P [OF n] by (rule dropMarked_post [OF db u3 free]) (simp add: c True)
        next
          case False
          then have "\<not> mustDrop (facts s) cluster role" using c by (simp add: mustDrop_def)
          with False show ?thesis by (simp add: Inr x wp_ret dropRun_refused [OF u3])
        qed
      qed (simp add: wp_ret dropRun_error [OF u3])
    qed
  qed
qed

lemma dropPostgresRole_post: "wp (dropPostgresRole kube cluster role) (dropRun cluster role s) s"
  unfolding dropPostgresRole_def Let_def wp_bind [of "operatorClient kube cluster defaultDatabaseName"]
proof (rule wp_mono [OF operatorClient_post], goal_cases)
  case (1 c s1)
  then have u: "unchanged facts sent s s1" by blast
  then have f: "facts s1 = facts s" by (simp add: unchanged_def)
  show ?case
  proof (cases c)
    case (Inr db)
    with 1 have db: "connected defaultDatabaseName db" by blast
    show ?thesis
      unfolding Inr sum.case wp_bind [of "roleRecorded kube role cluster (rtRoleName (roleStatus role))"]
    proof (rule wp_mono [OF roleRecorded_post], goal_cases)
      case (1 r1 s2)
      have u2: "unchanged facts sent s s2" using unchanged_trans [OF u] 1 by blast
      show ?case
      proof (cases r1)
        case (Inr recorded)
        with 1 f have rec: "recorded = recordedOn (facts s) cluster role" by simp
        consider (refused) "rtRoleName (roleStatus role) = [] \<or> \<not> recorded \<or> reservedRoleName (rtRoleName (roleStatus role)) \<noteq> []"
          | (go) "\<not> (rtRoleName (roleStatus role) = [] \<or> \<not> recorded)" "\<not> reservedRoleName (rtRoleName (roleStatus role)) \<noteq> []" by blast
        then show ?thesis
        proof cases
          case refused
          then have "\<not> mustDrop (facts s) cluster role" using rec mustDrop_free nameFreeD by blast
          then have "dropRun cluster role s (role, 0, None) s2" by (intro dropRun_refused [OF u2]) simp
          with refused show ?thesis by (auto simp: Inr wp_ret)
        next
          case go
          show ?thesis
            unfolding Inr sum.case if_not_P [OF go(1)] if_not_P [OF go(2)]
            by (rule dropChecked_post [OF db u2]) (use go rec in auto)
        qed
      qed (simp add: wp_ret dropRun_error [OF u2])
    qed
  qed (simp add: wp_ret dropRun_error [OF u])
qed

end

end
