(* ===== verification/Role_Drop_Server.thy ===== *)
theory Role_Drop_Server
  imports Role_Drop_Safe Object_Server
begin

text \<open>
  A reference world for the deletion of a Role: an API server with Secrets, Roles and Databases, and a
  PostgreSQL server with several databases, each with the catalog of \<open>Object_Server\<close>, that answers the
  queries of the clean-up, refuses the statements it is told to, and forgets a role that is dropped.
  A database may be unreachable. It interprets \<open>drop_world\<close>.
\<close>

section \<open>The server\<close>

record dropServer =
  dvSecrets :: "((string \<times> string) \<times> OwnedSecret) list"
  dvRoles :: "ClusterRole list"
  dvDatabases :: "Database list"
  dvDown :: "string list"
  dvComments :: "(string \<times> string) list"
  dvOIDs :: "(string \<times> int) list"
  dvSupers :: "(string \<times> bool) list"
  dvMemberOf :: "(string \<times> string) list"
  dvOwnDatabases :: "(string \<times> string) list"
  dvDatabaseGrants :: "(string \<times> string) list"
  dvDependents :: "(string \<times> DatabaseRef) list"
  dvOwns :: "(string \<times> DatabaseRef) list"
  dvSchemaGrants :: "(string \<times> string \<times> string) list"
  dvMembers :: "(string \<times> string \<times> string \<times> string) list"
  dvCatalogs :: "(string \<times> objectServer) list"
  dvRefuses :: "(string \<times> error) list"
  dvSent :: "(string \<times> string \<times> error option) list"

datatype dropQuery =
    CommentQuery | TargetQuery | DatabasesOwnedQuery | MembersQuery | DatabasePrivilegesQuery | ObjectPrivilegesQuery
  | SchemaPrivilegesQuery | OwnedObjectsQuery | ObjectQuery objectQuery

definition ownQueries :: "(string \<times> dropQuery) list" where
  "ownQueries =
     [(roleCommentQuery, CommentQuery), (reassignTargetQuery, TargetQuery), (databasesOwnedQuery, DatabasesOwnedQuery),
      (extensionMembersQuery, MembersQuery), (databasePrivilegesQuery, DatabasePrivilegesQuery),
      (objectPrivilegesQuery, ObjectPrivilegesQuery), (schemaPrivilegesQuery, SchemaPrivilegesQuery), (ownedObjectsQuery, OwnedObjectsQuery)]"

definition dropQueries :: "(string \<times> dropQuery) list" where
  "dropQueries = ownQueries @ map (\<lambda>(q, t). (q, ObjectQuery t)) objectQueries"

text \<open>The tag of a query; its code equation compares with one query after the other.\<close>

definition dropTag :: "string \<Rightarrow> dropQuery option" where
  "dropTag q = map_of dropQueries q"

definition dvCatalog :: "dropServer \<Rightarrow> string \<Rightarrow> objectServer" where
  "dvCatalog s n = (case map_of (dvCatalogs s) n of
     None \<Rightarrow> \<lparr>osRoles = [], osObjects = [], osDefaults = [], osSent = [], osLedger = []\<rparr> | Some c \<Rightarrow> c)"

definition refRow :: "DatabaseRef \<Rightarrow> sqlValue list" where
  "refRow d = [SText (drName d), SBool (drAllowConns d)]"

definition dvOIDRows :: "dropServer \<Rightarrow> sqlValue list \<Rightarrow> sqlValue list list" where
  "dvOIDRows s names = concat (map (\<lambda>v. case v of
     SText m \<Rightarrow> (case map_of (dvOIDs s) m of None \<Rightarrow> [] | Some i \<Rightarrow> [[SText m, SInt i]]) | _ \<Rightarrow> []) names)"

definition dvAnswer :: "dropServer \<Rightarrow> string \<Rightarrow> dropQuery \<Rightarrow> sqlValue list \<Rightarrow> sqlValue list list" where
  "dvAnswer s n q args =
     (case (q, args) of
        (CommentQuery, [SText r]) \<Rightarrow> (case map_of (dvComments s) r of None \<Rightarrow> [] | Some c \<Rightarrow> [[SText c]])
      | (TargetQuery, [SText old, SText target]) \<Rightarrow>
          (case map_of (dvSupers s) target of None \<Rightarrow> [] | Some su \<Rightarrow> [[SBool su, SBool ((old, target) \<in> set (dvMemberOf s))]])
      | (DatabasesOwnedQuery, [SText r]) \<Rightarrow> map (\<lambda>(_, d). [SText d]) (filter (\<lambda>(r', _). r' = r) (dvOwnDatabases s))
      | (MembersQuery, [SText r]) \<Rightarrow> map (\<lambda>(_, _, kind, ident). [SText kind, SText ident]) (filter (\<lambda>(d, r', _). d = n \<and> r' = r) (dvMembers s))
      | (DatabasePrivilegesQuery, [SText r]) \<Rightarrow> map (\<lambda>(_, d). [SText d]) (filter (\<lambda>(r', _). r' = r) (dvDatabaseGrants s))
      | (ObjectPrivilegesQuery, [SText r]) \<Rightarrow> map (\<lambda>(_, d). refRow d) (filter (\<lambda>(r', _). r' = r) (dvDependents s))
      | (SchemaPrivilegesQuery, [SText r]) \<Rightarrow> map (\<lambda>(_, _, sch). [SText sch]) (filter (\<lambda>(d, r', _). d = n \<and> r' = r) (dvSchemaGrants s))
      | (OwnedObjectsQuery, [SText r]) \<Rightarrow> map (\<lambda>(_, d). refRow d) (filter (\<lambda>(r', _). r' = r) (dvOwns s))
      | (ObjectQuery RoleOIDsQuery, [SArray names]) \<Rightarrow> dvOIDRows s names
      | (ObjectQuery RoleOIDsQuery, _) \<Rightarrow> []
      | (ObjectQuery t, _) \<Rightarrow> osAnswer (dvCatalog s n) t args
      | _ \<Rightarrow> [])"

text \<open>A statement is answered and remembered; DROP ROLE, when it is not refused, removes the role.\<close>

definition dvExec :: "string \<Rightarrow> string \<Rightarrow> dropServer \<Rightarrow> error option \<times> dropServer" where
  "dvExec n q s =
     (let e = map_of (dvRefuses s) q;
          s1 = s\<lparr>dvSent := dvSent s @ [(n, q, e)]\<rparr>
      in (e, if e = None then s1\<lparr>dvComments := filter (\<lambda>(r, _). dropRoleQuery r \<noteq> q) (dvComments s)\<rparr> else s1))"

definition dvDb :: "string \<Rightarrow> dropServer db" where
  "dvDb n =
     \<lparr>execDb = (\<lambda>q. State (dvExec n q)),
      queryDb = (\<lambda>q args. State (\<lambda>s. (case dropTag q of
         None \<Rightarrow> Inl (PqError ''42601'' ''syntax error'') | Some tag \<Rightarrow> Inr (dvAnswer s n tag args, None), s))),
      beginTx = ret None, commitTx = ret None, rollbackTx = ret ()\<rparr>"

abbreviation errGone :: error where "errGone \<equiv> Errorf ''not found'' []"
abbreviation errDown :: error where "errDown \<equiv> Errorf ''unavailable'' []"

text \<open>\<open>answers\<close>: whether the list of Roles is answered. Conditions are kept by type.\<close>

definition dvConditions :: conditionApi where
  "dvConditions = \<lparr>caSet = (\<lambda>cs c. filter (\<lambda>c'. cType c' \<noteq> cType c) cs @ [c]), caRemove = (\<lambda>cs t. filter (\<lambda>c. cType c \<noteq> t) cs)\<rparr>"

definition dvKube :: "bool \<Rightarrow> dropServer dropKube" where
  "dvKube answers =
     \<lparr>dkSecret = (\<lambda>ns n. State (\<lambda>s. (case map_of (dvSecrets s) (ns, n) of None \<Rightarrow> Inl errGone | Some x \<Rightarrow> Inr x, s))),
      dkIsNotFound = (\<lambda>e. e = errGone),
      dkNewClient = (\<lambda>cfg. State (\<lambda>s. (if cfgDatabase cfg \<in> set (dvDown s) then Inl errDown else Inr (dvDb (cfgDatabase cfg)), s))),
      dkListRoles = (\<lambda>ns. State (\<lambda>s. (if answers then Inr (filter (\<lambda>r. roleMetaNamespace r = ns) (dvRoles s)) else Inl errDown, s))),
      dkListDatabases = (\<lambda>ns. State (\<lambda>s. (Inr (filter (\<lambda>d. dbMetaNamespace d = ns) (dvDatabases s)), s))),
      dkSaveStatus = (\<lambda>_. ret None),
      dkConditions = dvConditions,
      dkDetail = (\<lambda>e. case e of PqError _ m \<Rightarrow> m | _ \<Rightarrow> []),
      dkRange = ret\<rparr>"

section \<open>The facts\<close>

definition dvFacts :: "dropServer \<Rightarrow> dropFacts" where
  "dvFacts s =
     \<lparr>dfSecret = (\<lambda>ns n. map_of (dvSecrets s) (ns, n)),
      dfRoles = (\<lambda>ns. filter (\<lambda>r. roleMetaNamespace r = ns) (dvRoles s)),
      dfDatabases = (\<lambda>ns. filter (\<lambda>d. dbMetaNamespace d = ns) (dvDatabases s)),
      dfComment = map_of (dvComments s),
      dfTarget = (\<lambda>old target. case map_of (dvSupers s) target of
         None \<Rightarrow> \<lparr>rtiExists = False, rtiSuper = False, rtiOldHasUsage = False\<rparr>
       | Some su \<Rightarrow> \<lparr>rtiExists = True, rtiSuper = su, rtiOldHasUsage = (old, target) \<in> set (dvMemberOf s)\<rparr>),
      dfOwned = (\<lambda>r. {d. (r, d) \<in> set (dvOwnDatabases s)}),
      dfRoleOID = map_of (dvOIDs s),
      dfObjects = (\<lambda>n schema kind. (\<lambda>obj. (soOID obj, soOwnerOID obj, soExtension obj)) ` set (osIn (dvCatalog s n) schema kind)),
      dfNames = (\<lambda>n. osNames (dvCatalog s n)),
      dfDatabaseGrants = (\<lambda>r. {d. (r, d) \<in> set (dvDatabaseGrants s)}),
      dfSchemaGrants = (\<lambda>n r. {sch. (n, r, sch) \<in> set (dvSchemaGrants s)}),
      dfMembers = (\<lambda>n r. {(kind, ident). (n, r, kind, ident) \<in> set (dvMembers s)})\<rparr>"

section \<open>It is such a world\<close>

lemma ownQueries_keys:
  "map (\<lambda>x. (length (fst x), fst x ! 7)) ownQueries =
    [(111, CHR ''C''), (115, CHR ''r''), (133, CHR ''d''), (889, CHR ''m''), (132, CHR ''D''), (458, CHR ''D''), (133, CHR ''D''), (301, CHR ''D'')]"
  by code_simp

lemma ownQueries_distinct: "distinct (map fst ownQueries)"
proof -
  have "distinct (map (\<lambda>x. (length (fst x), fst x ! 7)) ownQueries)" by (simp only: ownQueries_keys) simp
  then have "distinct (map (\<lambda>q. (length q, q ! 7)) (map fst ownQueries))" by (simp add: comp_def)
  then show ?thesis by (simp only: distinct_map)
qed

lemma ownQueries_length: "map (length \<circ> fst) ownQueries = [111, 115, 133, 889, 132, 458, 133, 301]"
  using arg_cong [OF ownQueries_keys, of "map fst"] by (simp add: comp_def)

lemma dropQueries_own: "(q, t) \<in> set ownQueries \<Longrightarrow> map_of dropQueries q = Some t"
  using map_of_is_SomeI [OF ownQueries_distinct] by (simp add: dropQueries_def map_add_find_right map_add_Some_iff)

lemma dropQueries_object:
  assumes "map_of objectQueries q = Some t"
  shows "map_of dropQueries q = Some (ObjectQuery t)"
proof -
  have obj: "length q \<in> set (map (length \<circ> fst) objectQueries)" using map_of_SomeD [OF assms] by force
  have "q \<notin> fst ` set ownQueries"
  proof
    assume "q \<in> fst ` set ownQueries"
    then have "length q \<in> set (map (length \<circ> fst) ownQueries)" by force
    with obj show False unfolding objectQueries_length ownQueries_length by auto
  qed
  then have "map_of ownQueries q = None" by (simp add: map_of_eq_None_iff)
  then show ?thesis using assms by (simp add: dropQueries_def map_add_def map_of_map)
qed

lemma dropTag_own: "(q, t) \<in> set ownQueries \<Longrightarrow> dropTag q = Some t"
  by (simp add: dropTag_def dropQueries_own)

lemma dropTag_object: "map_of objectQueries q = Some t \<Longrightarrow> dropTag q = Some (ObjectQuery t)"
  by (simp add: dropTag_def dropQueries_object)

lemma dropTags:
  "dropTag roleCommentQuery = Some CommentQuery" "dropTag reassignTargetQuery = Some TargetQuery"
  "dropTag databasesOwnedQuery = Some DatabasesOwnedQuery" "dropTag extensionMembersQuery = Some MembersQuery"
  "dropTag databasePrivilegesQuery = Some DatabasePrivilegesQuery" "dropTag objectPrivilegesQuery = Some ObjectPrivilegesQuery"
  "dropTag schemaPrivilegesQuery = Some SchemaPrivilegesQuery" "dropTag ownedObjectsQuery = Some OwnedObjectsQuery"
  by (rule dropTag_own; simp add: ownQueries_def)+

lemma roleOIDs_tag: "dropTag roleOIDsQuery = Some (ObjectQuery RoleOIDsQuery)"
  by (rule dropTag_object) (use objectQueries_get [of "(roleOIDsQuery, RoleOIDsQuery)"] in \<open>simp add: objectQueries_def\<close>)

lemmas objectQueries_tagged = objectQueries_kind [THEN dropTag_object]

lemma dropTag_step: "(p \<Longrightarrow> dropTag q = Some t) \<Longrightarrow> dropTag q = r \<Longrightarrow> dropTag q = (if p then Some t else r)"
  by simp

lemma dropTag_code [code]:
  "dropTag q =
     (if q = roleCommentQuery then Some CommentQuery
      else if q = reassignTargetQuery then Some TargetQuery
      else if q = databasesOwnedQuery then Some DatabasesOwnedQuery
      else if q = databasePrivilegesQuery then Some DatabasePrivilegesQuery
      else if q = schemaPrivilegesQuery then Some SchemaPrivilegesQuery
      else if q = ownedObjectsQuery then Some OwnedObjectsQuery
      else if q = objectPrivilegesQuery then Some ObjectPrivilegesQuery
      else if q = roleOIDsQuery then Some (ObjectQuery RoleOIDsQuery)
      else if resolveOIDQueries SchemaTable = Some q then Some (ObjectQuery (OIDQuery SchemaTable))
      else if q = extensionMembersQuery then Some MembersQuery
      else if schemaObjectQueries SchemaTable = Some q then Some (ObjectQuery (ListQuery SchemaTable))
      else map_of dropQueries q)"
  by (rule dropTag_step, simp add: dropTags roleOIDs_tag objectQueries_tagged)+ (rule dropTag_def)

lemma dvDb_query: "queryDb (dvDb n) q args = State (\<lambda>s. (case dropTag q of
    None \<Rightarrow> Inl (PqError ''42601'' ''syntax error'') | Some tag \<Rightarrow> Inr (dvAnswer s n tag args, None), s))"
  by (simp add: dvDb_def)

lemma dvOIDRows_in: "[SText m, SInt i] \<in> set (dvOIDRows s names) \<Longrightarrow> map_of (dvOIDs s) m = Some i"
  by (auto simp: dvOIDRows_def split: sqlValue.splits option.splits)

text \<open>What is sent leaves the facts alone, but for the comment of a dropped role.\<close>

lemma dvFacts_sent [simp]: "dvFacts (s\<lparr>dvSent := x\<rparr>) = dvFacts s"
  by (simp add: dvFacts_def dvCatalog_def cong: option.case_cong)

lemma dvExec_post: "dvExec n q s = (e, s') \<Longrightarrow> dvSent s' = dvSent s @ [(n, q, e)] \<and> (revokesOnly q \<longrightarrow> fewerHeld (dvFacts s') (dvFacts s))"
proof -
  assume run: "dvExec n q s = (e, s')"
  have keep: "filter (\<lambda>(r, _). dropRoleQuery r \<noteq> q) cs = cs" if "revokesOnly q" for cs :: "(string \<times> string) list"
    using revokesOnly_not_drop [OF that] by (auto intro!: filter_True simp: eq_commute)
  have "s\<lparr>dvSent := x, dvComments := dvComments s\<rparr> = s\<lparr>dvSent := x\<rparr>" for x by simp
  with run keep show ?thesis by (auto simp: dvExec_def Let_def fewerHeld_refl split: if_splits)
qed

definition dvConnected :: "string \<Rightarrow> dropServer db \<Rightarrow> bool" where
  "dvConnected n db \<longleftrightarrow> db = dvDb n"

interpretation refDrop: drop_world "dvKube answers" dvConnected dvFacts dvSent
proof (unfold_locales, goal_cases)
  case (1 ns n s)
  then show ?case by (auto simp: dvKube_def wp_State unchanged_def dvFacts_def split: option.splits)
next
  case (2 cfg s)
  then show ?case by (simp add: dvKube_def wp_State unchanged_def dvConnected_def)
next
  case (3 ns s)
  then show ?case by (simp add: dvKube_def wp_State unchanged_def dvFacts_def)
next
  case (4 ns s)
  then show ?case by (simp add: dvKube_def wp_State unchanged_def dvFacts_def)
next
  case (5 role s)
  then show ?case by (simp add: dvKube_def wp_ret unchanged_def)
next
  case (6 ks s)
  then show ?case by (simp add: dvKube_def wp_ret unchanged_def)
next
  case (7 n db q params s)
  then show ?case by (simp add: dvConnected_def dvDb_query wp_State unchanged_def)
next
  case (8 n db name s)
  then show ?case
    by (simp add: dvConnected_def dvDb_query dropTags wp_State dvAnswer_def catalogRow_def dvFacts_def split: option.splits)
next
  case (9 n db old target s)
  then show ?case by (simp add: dvConnected_def dvDb_query dropTags wp_State dvAnswer_def dvFacts_def split: option.splits)
next
  case (10 n db name s)
  then show ?case by (auto simp: dvConnected_def dvDb_query dropTags wp_State dvAnswer_def dvFacts_def filter_empty_conv)
next
  case (11 n db name s)
  then show ?case by (auto simp: dvConnected_def dvDb_query dropTags wp_State dvAnswer_def dvFacts_def)
next
  case (12 n db name s)
  then show ?case by (auto simp: dvConnected_def dvDb_query dropTags wp_State dvAnswer_def dvFacts_def)
next
  case (13 n db name s)
  then show ?case by (auto simp: dvConnected_def dvDb_query dropTags wp_State dvAnswer_def dvFacts_def)
next
  case (14 n db params s)
  then show ?case
    by (auto simp: dvConnected_def dvDb_query roleOIDs_tag wp_State dvAnswer_def dvFacts_def dvOIDRows_in split: list.splits sqlValue.splits)
next
  case (15 n db kind q schema params s)
  have "soOID obj \<noteq> 0" if "obj \<in> set (osIn (dvCatalog s n) schema kind)" for obj using that by (auto simp: osIn_def)
  with 15 show ?case
    by (auto simp: dvConnected_def dvDb_query objectQueries_tagged(1) wp_State dvAnswer_def osAnswer_def dvFacts_def scanObject_row
        split: list.splits sqlValue.splits)
next
  case (16 n db kind q identity schema s)
  then show ?case
    by (auto simp: dvConnected_def dvDb_query objectQueries_tagged(2) wp_State dvAnswer_def osAnswer_def dvFacts_def resolvedRow_def
        map_eq_Cons_conv filter_eq_Cons_iff intro!: osNames_in [of _ "dvCatalog s n" schema])
next
  case (17 n db kind q oid s)
  then show ?case
    by (auto simp: dvConnected_def dvDb_query objectQueries_tagged(3) wp_State dvAnswer_def osAnswer_def dvFacts_def resolvedRow_def
        osNames_def list_ex_iff map_eq_Cons_conv filter_eq_Cons_iff)
next
  case (18 n db q s)
  then show ?case using dvExec_post [of n q s] by (cases "dvExec n q s") (simp add: dvConnected_def dvDb_def wp_State)
qed (simp_all add: dvConnected_def dvDb_def wp_ret)

end
