(* ===== verification/Role_Drop_Properties.thy ===== *)
theory Role_Drop_Properties
  imports Role_Drop_Server
begin

text \<open>
  What the deletion of a Role does to PostgreSQL: which statements it sends, and what its result says.
  Both properties are applied to the world of \<open>Role_Drop_Server\<close>.
\<close>

section \<open>Which comments allow the drop\<close>

lemma mayDropComment_iff:
  "mayDropComment signer role comment \<longleftrightarrow>
    verify signer comment markerKindRole (roleMetaName role) \<or> refreshableComment signer comment markerKindRole (roleMetaName role)"
  by (simp add: mayDropComment_def decideOwnership_def)

text \<open>
  Without the key every signed marker with the name of the Role counts as signed under another key: the
  code then also drops a role whose marker this cluster cannot check.
\<close>

lemma unverified_marker_dropped:
  "keyID s \<noteq> keyID zeroSigner \<Longrightarrow> mayDropComment zeroSigner role (marker s markerKindRole (roleMetaName role))"
  by (simp add: mayDropComment_iff marker_not_refreshable)

section \<open>The properties\<close>

text \<open>
  C38. Deleting a Role, whatever calls fail: nothing is sent to PostgreSQL unless the status records the
  role on this very Cluster, its name is not reserved, no older Role of the Cluster has the same name,
  and the role exists with the signed marker of this Role, without a comment, or with a marker an
  earlier version or another key wrote. Then pgop revokes what it granted, what the role holds on
  databases, schemas and members of extensions, what the Databases record or declare for it, and hands
  over what it owns only to a role that the spec names, that is neither reserved nor a superuser and that
  the role is a member of, and only when it owns no database. DROP ROLE of the recorded name comes last,
  and no other role is dropped.
\<close>

theorem role_drop_safe:
  assumes world: "drop_world kube connected facts sent"
    and run: "run_state (dropPostgresRole kube cluster role) s = (r, s')"
  shows "\<exists>before final. sent s' = sent s @ before @ final \<and>
    (before @ final \<noteq> [] \<longrightarrow> passedGuards kube facts sent cluster role s r s') \<and>
    (\<forall>(n, q, a) \<in> set before. cleanupStatement (facts s) cluster role n q \<and> (\<forall>name. q \<noteq> dropRoleQuery name)) \<and>
    (final = [] \<or> (\<exists>a. final = [(defaultDatabaseName, dropRoleQuery (rtRoleName (roleStatus role)), a)]))"
proof -
  from wp_run [OF drop_world.dropPostgresRole_post [OF world] run] consider
    (refused) "sent s' = sent s"
    | (went) "passedGuards kube facts sent cluster role s r s'" "drop_world.finished kube facts sent cluster role s r s'"
    by (auto simp: drop_world.dropRun_def [OF world])
  then show ?thesis
  proof cases
    case refused
    then show ?thesis by (intro exI [of _ "[]"]) simp
  next
    case went
    obtain role' requeue err where r: "r = (role', requeue, err)" by (cases r)
    from went(2) obtain before final where "sent s' = sent s @ before @ final"
        "\<forall>(n, q, a) \<in> set before. cleanupStatement (facts s) cluster role n q"
        "final = [] \<or> (\<exists>a. final = [(defaultDatabaseName, dropRoleQuery (rtRoleName (roleStatus role)), a)])"
      by (auto simp: drop_world.finished_def [OF world] dropFinished_def r split: if_splits)
    with went(1) cleanup_not_drop show ?thesis by (intro exI [of _ before] exI [of _ final]) blast
  qed
qed

text \<open>
  C39. What the result of the deletion says. When the Roles can be listed and the role is one that must
  be dropped under every key, the function ends without an error and without a retry exactly when
  PostgreSQL has answered DROP ROLE of it without an error; the deletion of the Role is finished then
  and not before. A retry is announced only together with the condition RoleDropBlocked, after 30
  seconds. A role that must not be dropped gets no statement and no retry.
\<close>

theorem role_drop_honest:
  assumes world: "drop_world kube connected facts sent" and lists: "listsRoles kube"
    and run: "run_state (dropPostgresRole kube cluster role) s = ((role', requeue, err), s')"
  shows "\<exists>new. sent s' = sent s @ new \<and>
    (mustDrop (facts s) cluster role \<longrightarrow>
      (err = None \<and> requeue = 0 \<longleftrightarrow> (defaultDatabaseName, dropRoleQuery (rtRoleName (roleStatus role)), None) \<in> set new)) \<and>
    (requeue \<noteq> 0 \<longrightarrow> err = None \<and> requeue = 30 * second \<and> blockedStatus (dkConditions kube) role role') \<and>
    (\<not> mayDrop kube facts (facts s) cluster role \<longrightarrow> new = [] \<and> requeue = 0)"
proof -
  let ?drop = "dropRoleQuery (rtRoleName (roleStatus role))"
  from wp_run [OF drop_world.dropPostgresRole_post [OF world] run] consider
    (refused) "sent s' = sent s" "requeue = 0" "err = None \<longrightarrow> \<not> mustDrop (facts s) cluster role"
    | (went) "mayDrop kube facts (facts s) cluster role" "drop_world.finished kube facts sent cluster role s (role', requeue, err) s'"
    using lists by (auto simp: drop_world.dropRun_def [OF world] intro: passedGuards_may)
  then show ?thesis
  proof cases
    case refused
    then show ?thesis by (intro exI [of _ "[]"]) auto
  next
    case went
    from went(2) obtain before final where new: "sent s' = sent s @ before @ final"
        and clean: "\<forall>(n, q, a) \<in> set before. cleanupStatement (facts s) cluster role n q"
        and final: "if final = [] then err \<noteq> None \<or> requeue \<noteq> 0
          else \<exists>a. final = [(defaultDatabaseName, ?drop, a)] \<and> (a = None \<longleftrightarrow> err = None \<and> requeue = 0)"
        and blocked: "requeue \<noteq> 0 \<longrightarrow> err = None \<and> requeue = 30 * second \<and> blockedStatus (dkConditions kube) role role'"
      by (auto simp: drop_world.finished_def [OF world] dropFinished_def)
    have "(n, ?drop, a) \<notin> set before" for n a using clean cleanup_not_drop by blast
    then have "err = None \<and> requeue = 0 \<longleftrightarrow> (defaultDatabaseName, ?drop, None) \<in> set (before @ final)"
      using final by (cases "final = []") auto
    with new blocked went(1) show ?thesis by blast
  qed
qed

section \<open>A deletion\<close>

text \<open>
  The Role \<open>app\<close> is deleted, with its objects going to \<open>owner\<close>. It holds privileges on the database
  \<open>appdb\<close>, on a schema of it and on a member of an extension, and its Database records a default privilege for
  it, which a table of \<open>owner\<close> still has. A second database does not accept connections.
\<close>

definition exDropCluster :: Cluster where
  "exDropCluster = \<lparr>clName = ''pg'', clNamespace = ''ns'', clUID = ''u1'', clAnnotations = [], clImage = [], clMajor = None, clReplicas = 1,
     clPort = 0, clStorageSize = [], clParameters = [], clTLS = None, clReplicationHealthy = None, clReady = True, clSecretName = ''pg-superuser'',
     clTLSReady = False, clTLSSecretHash = []\<rparr>"

definition exDropRole :: ClusterRole where
  "exDropRole = \<lparr>roleMetaName = ''app'', roleMetaNamespace = ''ns'',
     roleSpec = \<lparr>rsClusterRef = \<lparr>crName = ''pg''\<rparr>, rsRoleName = [], rsLogin = None, rsCreateDB = False, rsCreateRole = False, rsInherit = None,
       rsReplication = False, rsBypassRLS = False, rsConnectionLimit = None, rsMemberOf = [], rsMemberships = [],
       rsRevokeRemovedMemberships = None, rsPasswordSecretRef = None, rsPasswordRotation = None, rsParameterGrants = [],
       rsDeletion = Some \<lparr>ReassignOwnedTo = ''owner''\<rparr>, rsSettings = [], rsDatabaseSettings = []\<rparr>,
     roleStatus = \<lparr>rtReady = True, rtRoleName = ''app'', rtClusterUID = ''u1'', rtSecretName = ''pg-app-credentials'', rtPasswordHash = [],
       rtPasswordRotatedAt = None, rtPasswordRotationRequest = [], rtManagedMemberships = [], rtManagedParameterGrants = [],
       rtManagedSettings = [], rtManagedDatabaseSettings = [], rtConditions = []\<rparr>,
     roleUID = ''r1'', roleVersion = ''7'', roleAnnotations = [], roleCreated = 5\<rparr>"

definition exDropDatabase :: Database where
  "exDropDatabase = \<lparr>dbMetaName = ''appdb'', dbMetaNamespace = ''ns'',
     dbSpec = \<lparr>dsClusterRef = \<lparr>crName = ''pg''\<rparr>, dsDatabaseName = [], dsOwner = ''owner'', dsExtensions = [], dsSchemas = [],
       dsGrants = [], dsSettings = [], dsPublicPrivileges = None\<rparr>,
     dbStatus = \<lparr>dtReady = True, dtDatabaseName = ''appdb'', dtClusterUID = ''u1'', dtInstalledExtensions = [], dtExtensions = [],
       dtManagedExtensionGrants = [], dtCreatedSchemas = [], dtManagedGrants = [], dtManagedSchemaGrants = [], dtManagedObjectGrants = [],
       dtManagedDefaultPrivileges = [\<lparr>mdpSchema = ''api'', mdpForRole = ''owner'', mdpKind = ''table'', mdpRole = ''app'',
         mdpPrivileges = [PrivilegeSelect], mdpGrantOptions = []\<rparr>],
       dtObjectGrants = [], dtRevokedPublicPrivileges = [], dtManagedSettings = [], dtConditions = []\<rparr>\<rparr>"

definition exDropTable :: SchemaObject where
  "exDropTable = \<lparr>soOID = 7, soIdentity = ''api.orders'', soName = ''orders'', soOwner = ''owner'', soOwnerOID = 21,
     soOwnerSuperuser = False, soOwnerIsSessionUser = False, soExtension = [], soSecurityDefiner = False, soLanguage = [], soSubKind = ''r'',
     soACL = [\<lparr>aiGrantee = 20, aiPrivilege = PrivilegeSelect, aiGrantable = False\<rparr>]\<rparr>"

definition exDropServer :: "(string \<times> error) list \<Rightarrow> dropServer" where
  "exDropServer refuses =
     \<lparr>dvSecrets = [((''ns'', ''pg-superuser''), \<lparr>secName = ''pg-superuser'', secAnnotations = [], secData = [(SecretKeyUsername, ''postgres'')],
        osController = None\<rparr>)],
      dvRoles = [exDropRole], dvDatabases = [exDropDatabase], dvDown = [], dvComments = [(''app'', []), (''owner'', [])],
      dvOIDs = [(''app'', 20), (''owner'', 21)], dvSupers = [(''app'', False), (''owner'', False)], dvMemberOf = [(''app'', ''owner'')],
      dvOwnDatabases = [], dvDatabaseGrants = [(''app'', ''appdb'')],
      dvDependents = [(''app'', \<lparr>drName = ''appdb'', drAllowConns = True\<rparr>), (''app'', \<lparr>drName = ''old'', drAllowConns = False\<rparr>)],
      dvOwns = [(''app'', \<lparr>drName = ''appdb'', drAllowConns = True\<rparr>)], dvSchemaGrants = [(''appdb'', ''app'', ''api'')],
      dvMembers = [(''appdb'', ''app'', ''TABLE'', ''api.spatial''), (''appdb'', ''other'', ''TABLE'', ''api.tiles'')],
      dvCatalogs = [(''appdb'', \<lparr>osRoles = [], osObjects = [(''api'', SchemaTable, exDropTable)], osDefaults = [], osSent = [], osLedger = []\<rparr>)],
      dvRefuses = refuses, dvSent = []\<rparr>"

definition exDropRun :: "bool \<Rightarrow> (string \<times> error) list \<Rightarrow> (ClusterRole \<times> int \<times> error option) \<times> dropServer" where
  "exDropRun answers refuses = run_state (dropPostgresRole (dvKube answers) exDropCluster exDropRole) (exDropServer refuses)"

text \<open>Every statement of it, in order.\<close>

definition quoted :: "string \<Rightarrow> string" where
  "quoted n = [dquote] @ n @ [dquote]"

lemma exDrop_done:
  "case exDropRun True [] of ((role', requeue, err), s') \<Rightarrow> requeue = 0 \<and> err = None \<and> dvSent s' =
    [(''postgres'', ''REVOKE ALL ON DATABASE '' @ quoted ''appdb'' @ '' FROM '' @ quoted ''app'' @ '' CASCADE'', None),
     (''appdb'', ''REVOKE ALL ON SCHEMA '' @ quoted ''api'' @ '' FROM '' @ quoted ''app'' @ '' CASCADE'', None),
     (''appdb'', ''REVOKE ALL ON TABLE api.spatial FROM '' @ quoted ''app'' @ '' CASCADE'', None),
     (''appdb'', ''ALTER DEFAULT PRIVILEGES FOR ROLE '' @ quoted ''owner'' @ '' IN SCHEMA '' @ quoted ''api'' @
        '' REVOKE SELECT ON TABLES FROM '' @ quoted ''app'' @ '' CASCADE'', None),
     (''appdb'', ''REVOKE SELECT ON TABLE api.orders FROM '' @ quoted ''app'' @ '' CASCADE'', None),
     (''appdb'', ''REASSIGN OWNED BY '' @ quoted ''app'' @ '' TO '' @ quoted ''owner'', None),
     (''appdb'', ''DROP OWNED BY '' @ quoted ''app'', None),
     (''postgres'', dropRoleQuery ''app'', None)]"
  by code_simp

text \<open>When something still depends on the role, the drop is retried, and the condition says where pgop could not look.\<close>

lemma exDrop_blocked:
  "case exDropRun True [(dropRoleQuery ''app'', PqError ''2BP01'' ''owner of view v'')] of ((role', requeue, err), s') \<Rightarrow>
    requeue = 30 * second \<and> err = None \<and> rtConditions (roleStatus role') = [\<lparr>cType = ConditionTypeAvailable, cStatus = ''False'', cReason = ReasonRoleDropBlocked,
      cMessage = ''role '' @ quoted ''app'' @ '' cannot be dropped because objects or privileges depend on it: owner of view v; '' @
        ''schema, extension object or object privileges could not be revoked, or owned objects reassigned, in: old (does not allow connections)''\<rparr>]"
  by code_simp

text \<open>
  When the Roles cannot be listed, the deletion ends as if another Role managed the name: without an
  error, without a retry, and with the PostgreSQL role left behind.
\<close>

lemma unlisted_roles_leave_role: "exDropRun False [] = ((exDropRole, 0, None), exDropServer [])"
  by code_simp

section \<open>The properties at work\<close>

lemma exDrop_run:
  "run_state (dropPostgresRole (dvKube answers) exDropCluster exDropRole) (exDropServer refuses) = exDropRun answers refuses"
  by (simp add: exDropRun_def)

lemma exDrop_start: "dvSent (exDropServer refuses) = []" "rtRoleName (roleStatus exDropRole) = ''app''"
  by (simp_all add: exDropServer_def exDropRole_def)

theorem role_drop_safe_witness:
  "\<exists>before. dvSent (snd (exDropRun True [])) = before @ [(defaultDatabaseName, dropRoleQuery ''app'', None)] \<and>
    passedGuards (dvKube True) dvFacts dvSent exDropCluster exDropRole (exDropServer []) (fst (exDropRun True [])) (snd (exDropRun True [])) \<and>
    (\<forall>(n, q, a) \<in> set before. cleanupStatement (dvFacts (exDropServer [])) exDropCluster exDropRole n q)"
proof -
  have run: "run_state (dropPostgresRole (dvKube True) exDropCluster exDropRole) (exDropServer []) = (fst (exDropRun True []), snd (exDropRun True []))"
    by (simp add: exDrop_run)
  obtain before where sent: "dvSent (snd (exDropRun True [])) = before @ [(defaultDatabaseName, dropRoleQuery ''app'', None)]"
    using exDrop_done by (simp add: split_beta)
  from role_drop_safe [OF refDrop.drop_world_axioms run, unfolded exDrop_start sent] obtain before' final where
    split: "before @ [(defaultDatabaseName, dropRoleQuery ''app'', None)] = before' @ final"
    and may: "passedGuards (dvKube True) dvFacts dvSent exDropCluster exDropRole (exDropServer []) (fst (exDropRun True [])) (snd (exDropRun True []))"
    and clean: "\<forall>(n, q, a) \<in> set before'. cleanupStatement (dvFacts (exDropServer [])) exDropCluster exDropRole n q \<and> (\<forall>name. q \<noteq> dropRoleQuery name)"
    and final: "final = [] \<or> (\<exists>a. final = [(defaultDatabaseName, dropRoleQuery ''app'', a)])"
    by auto
  have "final \<noteq> []"
  proof
    assume "final = []"
    with split have "(defaultDatabaseName, dropRoleQuery ''app'', None) \<in> set before'" by (metis append.right_neutral in_set_conv_decomp)
    with clean show False by blast
  qed
  with final split have "before = before'" by auto
  with sent may clean show ?thesis by blast
qed

lemma exDrop_must: "mustDrop (dvFacts (exDropServer refuses)) exDropCluster exDropRole"
proof -
  let ?f = "dvFacts (exDropServer refuses)"
  have "reservedRoleName ''app'' = []" by code_simp
  moreover have "recordedOn ?f exDropCluster exDropRole" by (simp add: recordedOn_def exDropRole_def exDropCluster_def)
  moreover have "\<not> olderRole ?f exDropRole" by (simp add: olderRole_def dvFacts_def exDropServer_def)
  ultimately have free: "nameFree ?f exDropCluster exDropRole" by (simp add: nameFree_def exDrop_start)
  have "signerOf ?f exDropCluster = None" by (simp add: signerOf_def dvFacts_def exDropServer_def markerKeySecretName_def exDropCluster_def)
  then have "signer = zeroSigner" if "possibleSigner ?f exDropCluster signer" for signer using that by (simp add: possibleSigner_def)
  moreover have "mayDropComment zeroSigner exDropRole []" by (simp add: mayDropComment_iff refreshableComment_def)
  moreover have "dfComment ?f ''app'' = Some []" by (simp add: dvFacts_def exDropServer_def)
  ultimately show ?thesis using free by (auto simp: mustDrop_def exDrop_start)
qed

text \<open>Whatever statements the server refuses, the result says whether the role was dropped.\<close>

theorem role_drop_honest_witness:
  "\<forall>refuses. snd (fst (exDropRun True refuses)) = (0, None) \<longleftrightarrow>
    (defaultDatabaseName, dropRoleQuery ''app'', None) \<in> set (dvSent (snd (exDropRun True refuses)))"
proof
  fix refuses
  obtain role' requeue err s' where r: "exDropRun True refuses = ((role', requeue, err), s')" by (metis prod.exhaust)
  have lists: "listsRoles (dvKube True)" by (simp add: listsRoles_def dvKube_def wp_State)
  have run: "run_state (dropPostgresRole (dvKube True) exDropCluster exDropRole) (exDropServer refuses) = ((role', requeue, err), s')"
    by (simp add: exDrop_run r)
  from role_drop_honest [OF refDrop.drop_world_axioms lists run, unfolded exDrop_start] exDrop_must [of refuses]
  show "snd (fst (exDropRun True refuses)) = (0, None) \<longleftrightarrow>
      (defaultDatabaseName, dropRoleQuery ''app'', None) \<in> set (dvSent (snd (exDropRun True refuses)))"
    by (auto simp: r)
qed

end
