(* ===== verification/Spec2Isabelle.thy ===== *)
theory Spec2Isabelle
  imports Grant_Properties Settings_Correct Membership_Properties Policy_Properties Sql_Properties Database_Properties
    Access_Properties Replication_Properties Password_Restart Password_Rollout Public_Privileges Role_Passwords_Properties Object_Properties Role_Drop_Properties
begin

text \<open>
  Verification of the PostgreSQL operator pgop.

  pgop is a Kubernetes operator in Go. Custom resources (\<open>src/api/v1alpha1\<close>) declare a Cluster, its
  Roles and its Databases; controllers (\<open>src/internal/controller\<close>) compare them with the API server
  and with PostgreSQL and converge both; a client (\<open>src/internal/postgres\<close>) builds the SQL. What
  pgop did is recorded in ledgers in the status of each resource, so that it takes away only what it
  gave. The development models these decisions and the texts they are carried out with, and proves
  that they do what the repository promises under arbitrary failures of the calls they make.

  \<^bold>\<open>The parts and how they interact.\<close>
  A Role reconcile decides ownership and policy (\<open>Role_Policy\<close>), resolves the password and writes
  the credentials Secret (\<open>Role_Passwords\<close>), creates or alters the role through the client
  (\<open>Pg_Client\<close>), and reconciles memberships (\<open>Memberships\<close>), parameter grants (\<open>Database_Grants\<close>) and
  settings (\<open>Settings\<close>). The deletion of a Role takes away what pgop gave, hands over what the role owns
  and drops it (\<open>Role_Cleanup\<close>, \<open>Role_Drop\<close>). A Database reconcile filters the declared grantees (\<open>Grantee_Policy\<close>) and
  hands the rest to the grant engine (\<open>Grant_Engine\<close>), whose operations are statements of the client;
  on the objects of its schemas a planner decides first which of them the Cluster trusts
  (\<open>Object_Grants\<close>, \<open>Object_Access\<close>).
  A Cluster reconcile converges the standbys (\<open>Replication\<close>, \<open>Replication_Reconcile\<close>) and the files that
  let clients in (\<open>Server_Access\<close>, \<open>Connections\<close>).

  \<^bold>\<open>Theories and the code they model.\<close>
  \<^item> \<open>Go_Prelude\<close>: byte strings, maps as association lists, \<open>fmt\<close>, \<open>strings\<close>, \<open>errors.Join\<close>, slices and the
    loops of Go; the state monad with its weakest preconditions and the rules every other theory uses.
    \<open>Go_Crypto\<close>: SHA-256, HMAC and base64.
  \<^item> \<open>Sql_Text\<close>: the builders and quoting of \<open>postgres/privileges.go\<close> and \<open>client.go\<close>. \<open>Pg_Lexer\<close> and \<open>Pg_Statements\<close>:
    PostgreSQL's lexical rules and the reading of each statement, from its manual. \<open>Sql_Properties\<close>: every
    statement is read as exactly what it was built from.
  \<^item> \<open>Pg_Client\<close>: every method of the client that runs SQL, over a connection that is a parameter. \<open>Pg_Server\<close>:
    the contract of a connection and a reference server that satisfies it.
  \<^item> \<open>Grant_Engine\<close>: \<open>controller/privilege_grants.go\<close>. \<open>Grant_Laws\<close>, \<open>Grant_Correct\<close>, \<open>Grant_Targets\<close>: its loops under the
    contract \<open>acl_ops\<close>. \<open>Grant_Properties\<close>: convergence, frame, tracking, crash safety, limits, idempotence.
  \<^item> \<open>Api_Types\<close>: the fields and methods of \<open>api/v1alpha1\<close> the models use. \<open>Kube_Types\<close>: the Kubernetes objects.
  \<^item> \<open>Role_Policy\<close> and \<open>Grantee_Policy\<close>: \<open>role_policy.go\<close>, \<open>grantee_policy.go\<close>; \<open>Policy_Properties\<close>.
  \<^item> \<open>Settings\<close>, \<open>Memberships\<close>: \<open>settings.go\<close>, \<open>role_settings.go\<close>, \<open>role_memberships.go\<close>, with \<open>Settings_Correct\<close>,
    \<open>Memberships_Correct\<close> and \<open>Membership_Properties\<close>.
  \<^item> \<open>Database_Grants\<close>: \<open>database_grants.go\<close>, \<open>grant_ledgers.go\<close>, \<open>role_parameter_grants.go\<close>, with
    \<open>Database_Grants_Correct\<close>, \<open>Database_Properties\<close> and \<open>Public_Privileges\<close>.
  \<^item> \<open>Schema_Objects\<close>, \<open>Object_Grants\<close>, \<open>Object_Access\<close>: \<open>objects.go\<close> and \<open>database_object_grants.go\<close>, the catalog
    queries and statements, the planner that selects objects, and the two reconciles of grants on
    objects and of default privileges. \<open>Grant_Guards\<close>: what the engine may ask of its operations.
    \<open>Object_Planner_Correct\<close>, \<open>Object_Access_Correct\<close>, \<open>Default_Privileges_Correct\<close>: which statements are sent.
    \<open>Default_Statements\<close>, \<open>Default_Server\<close>: how ALTER DEFAULT PRIVILEGES is read and what a reconcile of it
    achieves. \<open>Object_Server\<close>: a reference server; \<open>Object_Properties\<close>.
  \<^item> \<open>Server_Access\<close>: \<open>dsn.go\<close>, the managed pg_hba.conf, and how libpq and PostgreSQL read the two;
    \<open>Access_Properties\<close>. \<open>Connections\<close>: \<open>pgconn.go\<close>.
  \<^item> \<open>Replication\<close>, \<open>Replication_Reconcile\<close>: \<open>controller/replication.go\<close>, \<open>postgres/replication.go\<close>, with
    \<open>Replication_Correct\<close>, \<open>Replication_Properties\<close>, \<open>Password_Restart\<close> and \<open>Password_Rollout\<close>.
  \<^item> \<open>Role_Passwords\<close>: \<open>role_password.go\<close> and the password part of \<open>role_controller.go\<close>, with
    \<open>Role_Passwords_Correct\<close> and \<open>Role_Passwords_Properties\<close>.
  \<^item> \<open>Role_Cleanup\<close>: \<open>postgres/role_cleanup.go\<close>, \<open>role_reassign.go\<close>, \<open>controller/role_object_cleanup.go\<close>; \<open>Role_Drop\<close>:
    \<open>dropPostgresRole\<close> of \<open>role_controller.go\<close> with its guards, \<open>controller/role_reassign.go\<close> and the reading of the
    marker key. \<open>Role_Drop_Correct\<close>: the statements a clean-up may send, as an inductive relation, and what
    each operation sends. \<open>Role_Drop_Safe\<close>: the run of the whole function. \<open>Role_Drop_Server\<close>: a reference
    world; \<open>Role_Drop_Properties\<close>.

  \<^bold>\<open>How the code is represented.\<close>
  A struct is a record with the fields of the source, a Go map an association list whose iteration is in
  the order of its keys or over any order of them, an error a value of the datatype \<open>error\<close>. A function
  that calls the outside is a program of the state monad over the world \<open>'s\<close> of its caller; the outside
  itself (the connection, the API server, random bytes, the clock) is a record of such programs. A
  locale states what the outside promises (\<open>acl_ops\<close>, \<open>pg_server\<close>, \<open>settings_server\<close>, \<open>membership_server\<close>,
  \<open>public_server\<close>, \<open>object_server\<close>, \<open>default_server\<close>, \<open>replication_world\<close>, \<open>password_world\<close>,
  \<open>drop_world\<close>); none of them promises that a call succeeds. Each
  is interpreted on a concrete reference world in which calls can fail, and the properties have
  instances there.

  \<^bold>\<open>What the lemmas show.\<close>
  Safety: only recorded and undeclared things are taken away, only declared and permitted ones are
  given, whatever fails; a role is dropped only when every guard holds, and last. Convergence: a run without an error leaves exactly what is declared. Tracking:
  the new ledger covers what was added, so that nothing is forgotten. Texts: what is built is read back as
  what it was built from. Bounds and termination: ledgers keep their limit, restarts for a rejected
  password are at most the five attempts, a password rollout ends.

  \<^bold>\<open>Fuel.\<close>
  The loops of the code are structural recursions over slices. Fuel occurs in the models of PostgreSQL
  and libpq only: the reachability of roles in the reference server runs as often as there are roles, its
  orphan removal as often as there are entries, and the reading of a connection string as often as it has
  characters, each of which consumes at least one. The retried update of a Secret runs at most as often
  as the back-off of client-go has steps; the property holds for any positive number.

  \<^bold>\<open>Not modelled.\<close>
  The construction of Kubernetes objects (StatefulSets, Jobs, volumes, certificates), the work queues of
  controller-runtime, events and log lines, deep copies and other generated code, and the shell scripts run
  in containers have no decisions of their own or run outside of the repository. Not modelled either:
  extensions (\<open>database_extensions.go\<close>, \<open>database_extension_grants.go\<close>, and \<open>extensions.go\<close> but for its privilege
  names and the revocation on members), the parts of the controllers around the reconciles above, the
  state machines of backups and restores, the configuration of the server from spec.parameters
  (\<open>pgconfig.go\<close>, \<open>pgpaths.go\<close>), and the SCRAM verifier.
\<close>

end
